(* ===== verification/Wise_Prelude.thy ===== *)
theory Wise_Prelude
  imports Main "HOL-Library.Code_Target_Numeral"
begin

text \<open>
  Shared vocabulary of the development: the exceptions of the service as one datatype, the three
  computation shapes the components use, and the generic lemmas on lists that several components
  need.

  \<^item> A pure check that may raise is a value of type \<open>exn + 'a\<close>; \<open>bindE\<close> sequences two of them.
  \<^item> A database operation is a function from the rows to \<open>exn + ('a \<times> 's)\<close>: an exception
    carries no state, because the transaction that runs it rolls back. \<open>bindT\<close> sequences them.
  \<^item> A service operation is a function from the world to \<open>(exn + 'a) \<times> 'w\<close>: whatever it did
    before it raised stays done. \<open>bindA\<close> sequences them, \<open>onErrorA\<close> is
    \<^verbatim>\<open>except Exception: ...; raise\<close>.
\<close>

section \<open>Exceptions\<close>

text \<open>
  A Python string is the list of its code points. The exceptions raised by the modelled code are the
  constructors of \<open>exn\<close>; \<open>DomainError\<close> carries the HTTP status, the public code and
  the message.
\<close>

type_synonym pystr = "nat list"

datatype PasswordAuthReason =
  ACCOUNT_LOCKED | EMAIL_VERIFICATION_REQUIRED | INVALID_CREDENTIALS | USER_INACTIVE

datatype exn =
    DomainError nat pystr pystr
  | PasswordAuthFailure "pystr option" PasswordAuthReason
  | OidcServiceError pystr pystr nat "pystr option" "pystr option" bool
  | ValueError pystr
  | RuntimeError pystr
  | AssertionError pystr
  | TypeError pystr
  | DBAPIError "pystr option"
  | TokenValidationError
  | RefreshRotationConflict
  | RedisUnavailableError
  | OverflowError
  | PyJWTError
  | MailDeliveryError
  | OAuthProviderConfigurationError pystr
  | OAuthProviderInvalidResponseError
  | OAuthProviderInfrastructureError

section \<open>Sequencing\<close>

definition bindE :: "'e + 'a \<Rightarrow> ('a \<Rightarrow> 'e + 'b) \<Rightarrow> 'e + 'b" where
  "bindE m f = (case m of Inl e \<Rightarrow> Inl e | Inr x \<Rightarrow> f x)"

definition requireE :: "bool \<Rightarrow> 'e \<Rightarrow> 'e + unit" where
  "requireE b e = (if b then Inr () else Inl e)"

type_synonym ('s, 'a) tx = "'s \<Rightarrow> exn + ('a \<times> 's)"

definition retT :: "'a \<Rightarrow> ('s, 'a) tx" where
  "retT a = (\<lambda>s. Inr (a, s))"

definition raiseT :: "exn \<Rightarrow> ('s, 'a) tx" where
  "raiseT e = (\<lambda>s. Inl e)"

definition bindT :: "('s, 'a) tx \<Rightarrow> ('a \<Rightarrow> ('s, 'b) tx) \<Rightarrow> ('s, 'b) tx" where
  "bindT m f = (\<lambda>s. case m s of Inl e \<Rightarrow> Inl e | Inr (a, s') \<Rightarrow> f a s')"

definition readT :: "('s \<Rightarrow> 'a) \<Rightarrow> ('s, 'a) tx" where
  "readT g = (\<lambda>s. Inr (g s, s))"

definition liftT :: "exn + 'a \<Rightarrow> ('s, 'a) tx" where
  "liftT r = (\<lambda>s. case r of Inl e \<Rightarrow> Inl e | Inr a \<Rightarrow> Inr (a, s))"

type_synonym ('w, 'a) act = "'w \<Rightarrow> (exn + 'a) \<times> 'w"

definition retA :: "'a \<Rightarrow> ('w, 'a) act" where
  "retA a = (\<lambda>w. (Inr a, w))"

definition raiseA :: "exn \<Rightarrow> ('w, 'a) act" where
  "raiseA e = (\<lambda>w. (Inl e, w))"

definition bindA :: "('w, 'a) act \<Rightarrow> ('a \<Rightarrow> ('w, 'b) act) \<Rightarrow> ('w, 'b) act" where
  "bindA m f = (\<lambda>w. case m w of (Inl e, w') \<Rightarrow> (Inl e, w') | (Inr a, w') \<Rightarrow> f a w')"

definition liftA :: "exn + 'a \<Rightarrow> ('w, 'a) act" where
  "liftA r = (\<lambda>w. (r, w))"

definition readA :: "('w \<Rightarrow> 'a) \<Rightarrow> ('w, 'a) act" where
  "readA g = (\<lambda>w. (Inr (g w), w))"

definition catchA :: "('w, 'a) act \<Rightarrow> (exn \<Rightarrow> ('w, 'a) act) \<Rightarrow> ('w, 'a) act" where
  "catchA m h = (\<lambda>w. case m w of (Inl e, w') \<Rightarrow> h e w' | (Inr a, w') \<Rightarrow> (Inr a, w'))"

definition onErrorA :: "('w, 'a) act \<Rightarrow> (exn \<Rightarrow> ('w, unit) act) \<Rightarrow> ('w, 'a) act" where
  "onErrorA m h = catchA m (\<lambda>e. bindA (h e) (\<lambda>_. raiseA e))"

named_theorems seq_defs "definitions of the sequencing combinators"
named_theorems seq_simps "evaluation of the sequencing combinators"

lemmas seq_unfold [seq_defs] =
  bindE_def requireE_def retT_def raiseT_def bindT_def readT_def liftT_def
  retA_def raiseA_def bindA_def liftA_def readA_def catchA_def onErrorA_def

lemma bindE_simps [simp]:
  "bindE (Inl e) f = Inl e"
  "bindE (Inr x) f = f x"
  by (simp_all add: bindE_def)

lemma bindE_Inr_iff: "bindE m f = Inr y \<longleftrightarrow> (\<exists>x. m = Inr x \<and> f x = Inr y)"
  by (cases m) auto

lemma bindE_Inl_iff: "bindE m f = Inl e \<longleftrightarrow> m = Inl e \<or> (\<exists>x. m = Inr x \<and> f x = Inl e)"
  by (cases m) auto

lemma requireE_simps [simp]:
  "requireE True e = Inr ()"
  "requireE False e = Inl e"
  by (simp_all add: requireE_def)

lemma requireE_Inr_iff [simp]: "requireE b e = Inr u \<longleftrightarrow> b"
  by (simp add: requireE_def)

lemma requireE_Inl_iff [simp]: "requireE b e = Inl e' \<longleftrightarrow> \<not> b \<and> e' = e"
  by (auto simp: requireE_def)

lemma bindT_Inr_iff:
  "bindT m f s = Inr (b, s'') \<longleftrightarrow> (\<exists>a s'. m s = Inr (a, s') \<and> f a s' = Inr (b, s''))"
  by (auto simp: bindT_def split: sum.splits)

lemma bindT_Inr_E:
  assumes "bindT m f s = Inr (b, s'')"
  obtains a s' where "m s = Inr (a, s')" "f a s' = Inr (b, s'')"
  using assms by (auto simp: bindT_Inr_iff)

lemma retT_Inr_iff [simp]: "retT a s = Inr (b, s') \<longleftrightarrow> b = a \<and> s' = s"
  by (auto simp: retT_def)

lemma raiseT_Inr_iff [simp]: "raiseT e s = Inr r \<longleftrightarrow> False"
  by (simp add: raiseT_def)

lemma readT_Inr_iff [simp]: "readT g s = Inr (b, s') \<longleftrightarrow> b = g s \<and> s' = s"
  by (auto simp: readT_def)

lemma liftT_Inr_iff [simp]: "liftT r s = Inr (b, s') \<longleftrightarrow> r = Inr b \<and> s' = s"
  by (auto simp: liftT_def split: sum.splits)

lemma tx_run_simps [seq_simps]:
  "retT a s = Inr (a, s)"
  "raiseT e s = Inl e"
  "readT g s = Inr (g s, s)"
  "liftT (Inr a) s = Inr (a, s)"
  "liftT (Inl e) s = Inl e"
  "bindT m f s = (case m s of Inl e \<Rightarrow> Inl e | Inr (a, s') \<Rightarrow> f a s')"
  by (simp_all add: seq_defs)

lemma act_run_simps [seq_simps]:
  "retA a w = (Inr a, w)"
  "raiseA e w = (Inl e, w)"
  "readA g w = (Inr (g w), w)"
  "liftA r w = (r, w)"
  "bindA m f w = (case m w of (Inl e, w') \<Rightarrow> (Inl e, w') | (Inr a, w') \<Rightarrow> f a w')"
  "catchA m h w = (case m w of (Inl e, w') \<Rightarrow> h e w' | (Inr a, w') \<Rightarrow> (Inr a, w'))"
  "onErrorA m k w =
     (case m w of (Inr a, w') \<Rightarrow> (Inr a, w')
      | (Inl e, w') \<Rightarrow> (case k e w' of (Inl e', w'') \<Rightarrow> (Inl e', w'') | (Inr _, w'') \<Rightarrow> (Inl e, w'')))"
  by (simp_all add: seq_defs)

section \<open>Computations that keep a predicate on the state\<close>

text \<open>
  \<open>keepsT I m\<close>: whenever the database operation \<open>m\<close> returns, the predicate \<open>I\<close> on the
  rows is kept. The composition rules are collected in \<open>keeps_intros\<close>, so that the preservation
  proof of an operation follows its code.
\<close>

definition keepsT :: "('s \<Rightarrow> bool) \<Rightarrow> ('s, 'a) tx \<Rightarrow> bool" where
  "keepsT I m \<longleftrightarrow> (\<forall>s a s'. I s \<and> m s = Inr (a, s') \<longrightarrow> I s')"

named_theorems keeps_intros "composition rules of keepsT"

lemma keepsTI: "(\<And>s a s'. I s \<Longrightarrow> m s = Inr (a, s') \<Longrightarrow> I s') \<Longrightarrow> keepsT I m"
  by (auto simp: keepsT_def)

lemma keepsTD: "keepsT I m \<Longrightarrow> I s \<Longrightarrow> m s = Inr (a, s') \<Longrightarrow> I s'"
  by (auto simp: keepsT_def)

lemma keepsT_bind [keeps_intros]:
  "keepsT I m \<Longrightarrow> (\<And>a. keepsT I (f a)) \<Longrightarrow> keepsT I (bindT m f)"
  unfolding keepsT_def bindT_Inr_iff by blast

lemma keepsT_ret [keeps_intros]: "keepsT I (retT a)"
  by (auto simp: keepsT_def)

lemma keepsT_raise [keeps_intros]: "keepsT I (raiseT e)"
  by (auto simp: keepsT_def)

lemma keepsT_read [keeps_intros]: "keepsT I (readT g)"
  by (auto simp: keepsT_def)

lemma keepsT_lift [keeps_intros]: "keepsT I (liftT r)"
  by (auto simp: keepsT_def)

lemma keepsT_if [keeps_intros]:
  "(b \<Longrightarrow> keepsT I m) \<Longrightarrow> (\<not> b \<Longrightarrow> keepsT I n) \<Longrightarrow> keepsT I (if b then m else n)"
  by simp

lemma keepsT_case_option [keeps_intros]:
  "keepsT I m \<Longrightarrow> (\<And>x. keepsT I (f x)) \<Longrightarrow> keepsT I (case_option m f r)"
  by (cases r) auto

section \<open>Lists used as tables\<close>

text \<open>
  A table is the list of its rows. An SQL \<^verbatim>\<open>UPDATE ... WHERE\<close> maps the matching rows and reports
  how many there were.
\<close>

definition update_rows :: "('r \<Rightarrow> bool) \<Rightarrow> ('r \<Rightarrow> 'r) \<Rightarrow> 'r list \<Rightarrow> 'r list" where
  "update_rows p f rs = map (\<lambda>r. if p r then f r else r) rs"

definition count_rows :: "('r \<Rightarrow> bool) \<Rightarrow> 'r list \<Rightarrow> nat" where
  "count_rows p rs = length (filter p rs)"

lemma update_rows_simps [simp]:
  "update_rows p f [] = []"
  "update_rows p f (r # rs) = (if p r then f r else r) # update_rows p f rs"
  by (simp_all add: update_rows_def)

lemma length_update_rows [simp]: "length (update_rows p f rs) = length rs"
  by (simp add: update_rows_def)

lemma set_update_rows:
  "set (update_rows p f rs) = (\<lambda>r. if p r then f r else r) ` set rs"
  by (simp add: update_rows_def)

lemma in_update_rows:
  "x \<in> set (update_rows p f rs) \<longleftrightarrow>
     (\<exists>r \<in> set rs. p r \<and> x = f r) \<or> (x \<in> set rs \<and> \<not> p x)"
  by (auto simp: set_update_rows)

lemma map_update_rows_same:
  "(\<And>r. p r \<Longrightarrow> g (f r) = g r) \<Longrightarrow> map g (update_rows p f rs) = map g rs"
  by (auto simp: update_rows_def)

lemma image_update_rows_same:
  "(\<And>r. p r \<Longrightarrow> g (f r) = g r) \<Longrightarrow> g ` set (update_rows p f rs) = g ` set rs"
  by (metis list.set_map map_update_rows_same)

lemma ball_update_rows:
  "(\<forall>x \<in> set (update_rows p f rs). P x) \<longleftrightarrow> (\<forall>r \<in> set rs. if p r then P (f r) else P r)"
  by (induction rs) auto

lemma filter_update_rows_other:
  "(\<And>x. p x \<Longrightarrow> \<not> keep x \<and> \<not> keep (f x)) \<Longrightarrow> filter keep (update_rows p f rs) = filter keep rs"
  by (induction rs) auto

lemma update_rows_none:
  "(\<And>r. r \<in> set rs \<Longrightarrow> \<not> p r) \<Longrightarrow> update_rows p f rs = rs"
  by (induction rs) auto

lemma count_rows_simps [simp]:
  "count_rows p [] = 0"
  "count_rows p (r # rs) = (if p r then Suc (count_rows p rs) else count_rows p rs)"
  by (simp_all add: count_rows_def)

lemma count_rows_0_iff: "count_rows p rs = 0 \<longleftrightarrow> (\<forall>r \<in> set rs. \<not> p r)"
  by (induction rs) auto

lemma count_rows_pos_iff: "0 < count_rows p rs \<longleftrightarrow> (\<exists>r \<in> set rs. p r)"
  by (induction rs) auto

lemma count_rows_unique:
  "distinct (map k rs) \<Longrightarrow> r \<in> set rs \<Longrightarrow> p r \<Longrightarrow>
   (\<And>s. s \<in> set rs \<Longrightarrow> p s \<Longrightarrow> k s = k r) \<Longrightarrow> count_rows p rs = 1"
proof (induction rs)
  case Nil
  then show ?case by simp
next
  case (Cons x xs)
  note key = Cons.prems(4)
  show ?case
  proof (cases "x = r")
    case True
    have "\<not> p s" if "s \<in> set xs" for s
    proof
      assume "p s"
      then have "k s = k r" using key that by simp
      then have "k x \<in> k ` set xs" using that True by (metis imageI)
      with Cons.prems(1) show False by simp
    qed
    then have "count_rows p xs = 0" by (simp add: count_rows_0_iff)
    with True Cons.prems(3) show ?thesis by simp
  next
    case False
    with Cons.prems(2) have r: "r \<in> set xs" by simp
    have "\<not> p x"
    proof
      assume "p x"
      then have "k x = k r" using key by simp
      then have "k x \<in> k ` set xs" using r by simp
      with Cons.prems(1) show False by simp
    qed
    moreover have "count_rows p xs = 1"
    proof (rule Cons.IH)
      show "distinct (map k xs)" using Cons.prems(1) by simp
      show "k s = k r" if "s \<in> set xs" "p s" for s
        by (rule key) (use that in simp_all)
    qed (use r Cons.prems(3) in simp_all)
    ultimately show ?thesis by simp
  qed
qed

lemma distinct_map_key_eq:
  "distinct (map k rs) \<Longrightarrow> r \<in> set rs \<Longrightarrow> s \<in> set rs \<Longrightarrow> k r = k s \<Longrightarrow> r = s"
  by (auto simp: distinct_map inj_on_def)

lemma find_Some_set: "find p rs = Some r \<Longrightarrow> r \<in> set rs \<and> p r"
  by (induction rs) (auto split: if_splits)

lemma find_None_set: "find p rs = None \<longleftrightarrow> (\<forall>r \<in> set rs. \<not> p r)"
  by (induction rs) auto

lemma find_unique:
  "distinct (map k rs) \<Longrightarrow> r \<in> set rs \<Longrightarrow> p r \<Longrightarrow>
   (\<And>s. s \<in> set rs \<Longrightarrow> p s \<Longrightarrow> k s = k r) \<Longrightarrow> find p rs = Some r"
proof (induction rs)
  case Nil
  then show ?case by simp
next
  case (Cons x xs)
  have "x = r" if "p x"
    using that Cons.prems(4) [of x] Cons.prems(1,2) by (auto simp: image_iff)
  moreover have "find p xs = Some r" if "\<not> p x"
  proof -
    from that Cons.prems(2,3) have r: "r \<in> set xs" by auto
    have "distinct (map k xs)" using Cons.prems(1) by simp
    from this r Cons.prems(3) Cons.prems(4) [OF list.set_intros(2)] show ?thesis
      by (rule Cons.IH)
  qed
  ultimately show ?case using Cons.prems(3) by auto
qed

end
