(* ===== verification/Py_Text.thy ===== *)
theory Py_Text
  imports Wise_Prelude
begin

text \<open>
  The Python \<^verbatim>\<open>str\<close> and \<^verbatim>\<open>bytes\<close> operations the service uses. A string is the list of its
  code points (surrogates included, as in CPython), bytes are lists of naturals below 256.
  Whitespace is the exact set of \<^verbatim>\<open>str.isspace\<close>; lower-casing is CPython's ASCII fast path, with the
  Unicode database's table for other text as an argument. Also here: the string primitives of
  \<^verbatim>\<open>infrastructure/redis.py\<close> and \<^verbatim>\<open>infrastructure/security.py\<close> (UTF-16 length, Node's
  surrogate replacement, UTF-8) and the URL-safe base64 of the opaque tokens.
\<close>

section \<open>Literals\<close>

definition lit :: "string \<Rightarrow> pystr" where
  "lit s = map of_char s"

lemma lit_eq_iff [simp]: "lit a = lit b \<longleftrightarrow> a = b"
proof -
  have "inj (of_char :: char \<Rightarrow> nat)" by (auto intro: injI)
  then show ?thesis by (simp add: lit_def inj_map_eq_map)
qed

lemma lit_Nil_iff [simp]: "lit a = [] \<longleftrightarrow> a = []" "[] = lit a \<longleftrightarrow> a = []"
  by (simp_all add: lit_def)

lemma length_lit [simp]: "length (lit a) = length a"
  by (simp add: lit_def)

section \<open>Characters, strip and lower\<close>

definition py_isspace :: "nat \<Rightarrow> bool" where
  "py_isspace c \<longleftrightarrow> (9 \<le> c \<and> c \<le> 13) \<or> (28 \<le> c \<and> c \<le> 32) \<or> c = 133 \<or> c = 160 \<or> c = 5760
     \<or> (8192 \<le> c \<and> c \<le> 8202) \<or> c = 8232 \<or> c = 8233 \<or> c = 8239 \<or> c = 8287 \<or> c = 12288"

definition ascii_lower_char :: "nat \<Rightarrow> nat" where
  "ascii_lower_char c = (if 65 \<le> c \<and> c \<le> 90 then c + 32 else c)"

definition ascii_upper :: "nat \<Rightarrow> bool" where
  "ascii_upper c \<longleftrightarrow> 65 \<le> c \<and> c \<le> 90"

definition ascii_alpha :: "nat \<Rightarrow> bool" where
  "ascii_alpha c \<longleftrightarrow> (65 \<le> c \<and> c \<le> 90) \<or> (97 \<le> c \<and> c \<le> 122)"

definition ascii_digit :: "nat \<Rightarrow> bool" where
  "ascii_digit c \<longleftrightarrow> 48 \<le> c \<and> c \<le> 57"

definition is_surrogate :: "nat \<Rightarrow> bool" where
  "is_surrogate c \<longleftrightarrow> 0xD800 \<le> c \<and> c \<le> 0xDFFF"

definition py_strip :: "pystr \<Rightarrow> pystr" where
  "py_strip s = rev (dropWhile py_isspace (rev (dropWhile py_isspace s)))"

definition py_lower :: "(pystr \<Rightarrow> pystr) \<Rightarrow> pystr \<Rightarrow> pystr" where
  "py_lower uni s = (if \<forall>c \<in> set s. c < 128 then map ascii_lower_char s else uni s)"

lemma dropWhile_dropWhile [simp]: "dropWhile p (dropWhile p s) = dropWhile p s"
  by (induction s) auto

lemma dropWhile_hd: "dropWhile p s = [] \<or> \<not> p (hd (dropWhile p s))"
  by (induction s) auto

lemma dropWhile_last_keep:
  "s = [] \<or> \<not> p (last s) \<Longrightarrow> dropWhile p s = [] \<or> \<not> p (last (dropWhile p s))"
  by (induction s) (auto split: if_splits)

lemma all_dropWhile: "(\<forall>c \<in> set (dropWhile p s). p c) \<longleftrightarrow> (\<forall>c \<in> set s. p c)"
  by (induction s) auto

lemma py_strip_Nil_iff: "py_strip s = [] \<longleftrightarrow> (\<forall>c \<in> set s. py_isspace c)"
  by (simp add: py_strip_def all_dropWhile)

lemma py_strip_ends:
  assumes "py_strip s \<noteq> []"
  shows "\<not> py_isspace (hd (py_strip s))" "\<not> py_isspace (last (py_strip s))"
proof -
  let ?d = "dropWhile py_isspace s"
  let ?e = "dropWhile py_isspace (rev ?d)"
  have ne: "?e \<noteq> []" using assms by (simp add: py_strip_def)
  have "\<not> py_isspace (hd ?e)" using dropWhile_hd [of py_isspace "rev ?d"] ne by blast
  then show "\<not> py_isspace (last (py_strip s))" by (simp add: py_strip_def last_rev)
  have "rev ?d = [] \<or> \<not> py_isspace (last (rev ?d))"
    using dropWhile_hd [of py_isspace s] by (auto simp: last_rev)
  then have "\<not> py_isspace (last ?e)"
    using dropWhile_last_keep [of "rev ?d" py_isspace] ne by blast
  then show "\<not> py_isspace (hd (py_strip s))" by (simp add: py_strip_def hd_rev)
qed

lemma dropWhile_id: "s = [] \<or> \<not> p (hd s) \<Longrightarrow> dropWhile p s = s"
  by (cases s) auto

lemma py_strip_id:
  assumes "s \<noteq> [] \<Longrightarrow> \<not> py_isspace (hd s)" "s \<noteq> [] \<Longrightarrow> \<not> py_isspace (last s)"
  shows "py_strip s = s"
proof -
  have "dropWhile py_isspace s = s" using assms(1) by (intro dropWhile_id) blast
  moreover have "dropWhile py_isspace (rev s) = rev s"
    using assms(2) by (intro dropWhile_id) (auto simp: hd_rev)
  ultimately show ?thesis by (simp add: py_strip_def)
qed

lemma py_strip_idem [simp]: "py_strip (py_strip s) = py_strip s"
  by (rule py_strip_id) (auto dest: py_strip_ends)

lemma ascii_lower_char_lower [simp]: "ascii_lower_char (ascii_lower_char c) = ascii_lower_char c"
  by (auto simp: ascii_lower_char_def)

lemma ascii_lower_char_less: "c < 128 \<Longrightarrow> ascii_lower_char c < 128"
  by (auto simp: ascii_lower_char_def)

lemma py_isspace_lower [simp]: "py_isspace (ascii_lower_char c) = py_isspace c"
  by (auto simp: ascii_lower_char_def py_isspace_def)

lemma py_strip_subset: "set (py_strip s) \<subseteq> set s"
  by (auto simp: py_strip_def dest!: set_dropWhileD)

lemma py_strip_map_lower: "py_strip (map ascii_lower_char s) = map ascii_lower_char (py_strip s)"
  by (simp add: py_strip_def dropWhile_map o_def rev_map)

section \<open>Searching and splitting\<close>

fun is_prefix :: "'a list \<Rightarrow> 'a list \<Rightarrow> bool" where
  "is_prefix [] ys = True"
| "is_prefix (x # xs) [] = False"
| "is_prefix (x # xs) (y # ys) = (x = y \<and> is_prefix xs ys)"

definition py_endswith :: "pystr \<Rightarrow> pystr \<Rightarrow> bool" where
  "py_endswith s suffix = is_prefix (rev suffix) (rev s)"

fun py_contains :: "pystr \<Rightarrow> pystr \<Rightarrow> bool" where
  "py_contains sub [] = (sub = [])"
| "py_contains sub (c # cs) = (is_prefix sub (c # cs) \<or> py_contains sub cs)"

text \<open>\<^verbatim>\<open>str.partition(sep)\<close> for a one-character separator: head, whether it was found, tail.\<close>

fun py_partition :: "nat \<Rightarrow> pystr \<Rightarrow> pystr \<times> bool \<times> pystr" where
  "py_partition sep [] = ([], False, [])"
| "py_partition sep (c # cs) =
     (if c = sep then ([], True, cs)
      else (case py_partition sep cs of (h, found, t) \<Rightarrow> (c # h, found, t)))"

fun py_split_on :: "nat \<Rightarrow> pystr \<Rightarrow> pystr list" where
  "py_split_on sep [] = [[]]"
| "py_split_on sep (c # cs) =
     (case py_split_on sep cs of
        [] \<Rightarrow> [[c]]
      | w # ws \<Rightarrow> if c = sep then [] # w # ws else (c # w) # ws)"

text \<open>\<^verbatim>\<open>str.split()\<close>: maximal runs of non-whitespace.\<close>

function py_split_ws :: "pystr \<Rightarrow> pystr list" where
  "py_split_ws s =
     (let s' = dropWhile py_isspace s
      in if s' = [] then []
         else takeWhile (\<lambda>c. \<not> py_isspace c) s' # py_split_ws (dropWhile (\<lambda>c. \<not> py_isspace c) s'))"
  by pat_completeness auto
termination
proof (relation "measure length")
  fix s s' :: pystr
  assume s': "s' = dropWhile py_isspace s" and ne: "s' \<noteq> []"
  obtain c cs where c: "s' = c # cs" using ne by (cases s') auto
  have "\<not> py_isspace c" using dropWhile_hd [of py_isspace s] c s' by (metis list.sel(1) list.distinct(1))
  then have "length (dropWhile (\<lambda>c. \<not> py_isspace c) s') \<le> length cs"
    using c by (simp add: length_dropWhile_le)
  also have "length cs < length s'" using c by simp
  also have "length s' \<le> length s" by (simp add: s' length_dropWhile_le)
  finally show "(dropWhile (\<lambda>c. \<not> py_isspace c) s', s) \<in> measure length" by simp
qed simp

declare py_split_ws.simps [simp del]

lemma py_split_on_ne: "py_split_on sep s \<noteq> []"
proof (cases s)
  case (Cons c cs)
  then show ?thesis by (cases "py_split_on sep cs") simp_all
qed simp

lemma py_split_on_no_sep: "sep \<notin> set s \<Longrightarrow> py_split_on sep s = [s]"
  by (induction s) auto

lemma py_split_on_sep_free: "w \<in> set (py_split_on sep s) \<Longrightarrow> sep \<notin> set w"
proof (induction s arbitrary: w)
  case (Cons c cs)
  then show ?case by (cases "py_split_on sep cs") (auto simp: py_split_on_ne split: if_splits)
qed simp

lemma py_split_on_two:
  "sep \<notin> set a \<Longrightarrow> sep \<notin> set b \<Longrightarrow> py_split_on sep (a @ sep # b) = [a, b]"
  by (induction a) (auto simp: py_split_on_no_sep)

lemma py_partition_append:
  "sep \<notin> set a \<Longrightarrow> py_partition sep (a @ sep # b) = (a, True, b)"
  by (induction a) auto

lemma py_split_ws_word:
  "w \<in> set (py_split_ws s) \<Longrightarrow> w \<noteq> [] \<and> (\<forall>c \<in> set w. \<not> py_isspace c) \<and> set w \<subseteq> set s"
proof (induction s rule: py_split_ws.induct)
  case (1 s)
  let ?s' = "dropWhile py_isspace s"
  have sub: "set ?s' \<subseteq> set s" by (auto dest: set_dropWhileD)
  from "1.prems" have ne: "?s' \<noteq> []" by (subst (asm) py_split_ws.simps) (auto simp: Let_def split: if_splits)
  from "1.prems" ne consider "w = takeWhile (\<lambda>c. \<not> py_isspace c) ?s'"
    | "w \<in> set (py_split_ws (dropWhile (\<lambda>c. \<not> py_isspace c) ?s'))"
    by (subst (asm) py_split_ws.simps) (simp only: Let_def if_False list.set insert_iff, blast)
  then show ?case
  proof cases
    case 1
    have "\<not> py_isspace (hd ?s')" using dropWhile_hd ne by blast
    with 1 ne have "w \<noteq> []" by (cases ?s') auto
    with 1 sub show ?thesis by (auto dest: set_takeWhileD)
  next
    case 2
    from "1.IH" [OF refl ne 2] have
      "w \<noteq> [] \<and> (\<forall>c \<in> set w. \<not> py_isspace c) \<and> set w \<subseteq> set (dropWhile (\<lambda>c. \<not> py_isspace c) ?s')" .
    then show ?thesis using sub by (auto dest: set_dropWhileD)
  qed
qed

section \<open>Decimal rendering\<close>

fun nat_digits :: "nat \<Rightarrow> pystr" where
  "nat_digits n = (if n < 10 then [48 + n] else nat_digits (n div 10) @ [48 + n mod 10])"

declare nat_digits.simps [simp del]

definition py_str_int :: "int \<Rightarrow> pystr" where
  "py_str_int i = (if i < 0 then 45 # nat_digits (nat (- i)) else nat_digits (nat i))"

end
