(* ===== verification/Py_Encode.thy ===== *)
theory Py_Encode
  imports Py_Text
begin

text \<open>
  Encodings: UTF-16 length (\<^verbatim>\<open>javascript_string_length\<close>, \<^verbatim>\<open>_utf16_units\<close>), Node's
  replacement of lone surrogates (\<^verbatim>\<open>_normalize_node_string\<close>, \<^verbatim>\<open>node_utf8_bytes\<close>), UTF-8,
  hexadecimal digests and unpadded URL-safe base64 (\<^verbatim>\<open>_random_base64url\<close>, \<^verbatim>\<open>_random_token\<close>).
  The lemmas show that normalisation removes every surrogate and keeps the UTF-16 length, that
  base64url decodes back and that 32 bytes give 43 characters of the opaque-token alphabet.
\<close>

section \<open>UTF-16\<close>

text \<open>
  \<^verbatim>\<open>len(value.encode("utf-16-le", errors="surrogatepass")) // 2\<close>: an astral code point takes two
  units, every other one, surrogates included, takes one.
\<close>

definition utf16_unit_count :: "nat \<Rightarrow> nat" where
  "utf16_unit_count c = (if 0x10000 \<le> c then 2 else 1)"

definition javascript_string_length :: "pystr \<Rightarrow> nat" where
  "javascript_string_length s = sum_list (map utf16_unit_count s)"

definition valid_str :: "pystr \<Rightarrow> bool" where
  "valid_str s \<longleftrightarrow> (\<forall>c \<in> set s. c < 0x110000)"

lemma javascript_string_length_simps [simp]:
  "javascript_string_length [] = 0"
  "javascript_string_length (c # s) = utf16_unit_count c + javascript_string_length s"
  by (simp_all add: javascript_string_length_def)

lemma javascript_string_length_append [simp]:
  "javascript_string_length (a @ b) = javascript_string_length a + javascript_string_length b"
  by (simp add: javascript_string_length_def)

lemma length_le_javascript: "length s \<le> javascript_string_length s"
  by (induction s) (auto simp: utf16_unit_count_def)

lemma javascript_le_double: "javascript_string_length s \<le> 2 * length s"
  by (induction s) (auto simp: utf16_unit_count_def)

lemma javascript_ascii: "\<forall>c \<in> set s. c < 0x10000 \<Longrightarrow> javascript_string_length s = length s"
  by (induction s) (auto simp: utf16_unit_count_def)

section \<open>Node's string normalisation\<close>

definition is_high :: "nat \<Rightarrow> bool" where
  "is_high c \<longleftrightarrow> 0xD800 \<le> c \<and> c \<le> 0xDBFF"

definition is_low :: "nat \<Rightarrow> bool" where
  "is_low c \<longleftrightarrow> 0xDC00 \<le> c \<and> c \<le> 0xDFFF"

definition astral :: "nat \<Rightarrow> nat \<Rightarrow> nat" where
  "astral h l = 0x10000 + (h - 0xD800) * 1024 + (l - 0xDC00)"

fun normalize_node_string :: "pystr \<Rightarrow> pystr" where
  "normalize_node_string [] = []"
| "normalize_node_string [c] = (if is_high c \<or> is_low c then [0xFFFD] else [c])"
| "normalize_node_string (c # d # s) =
     (if is_high c then
        (if is_low d then astral c d # normalize_node_string s
         else 0xFFFD # normalize_node_string (d # s))
      else if is_low c then 0xFFFD # normalize_node_string (d # s)
      else c # normalize_node_string (d # s))"

lemma surrogate_iff: "is_surrogate c \<longleftrightarrow> is_high c \<or> is_low c"
  by (auto simp: is_surrogate_def is_high_def is_low_def)

lemma astral_range: "is_high h \<Longrightarrow> is_low l \<Longrightarrow> 0x10000 \<le> astral h l \<and> astral h l < 0x110000"
  by (auto simp: astral_def is_high_def is_low_def)

lemma normalize_no_surrogate:
  "c \<in> set (normalize_node_string s) \<Longrightarrow> \<not> is_surrogate c"
  by (induction s rule: normalize_node_string.induct)
    (auto simp: surrogate_iff is_high_def is_low_def astral_def split: if_splits)

lemma normalize_id: "\<forall>c \<in> set s. \<not> is_surrogate c \<Longrightarrow> normalize_node_string s = s"
  by (induction s rule: normalize_node_string.induct) (auto simp: surrogate_iff)

lemma normalize_idem [simp]:
  "normalize_node_string (normalize_node_string s) = normalize_node_string s"
  by (rule normalize_id) (use normalize_no_surrogate in blast)

lemma normalize_utf16_length:
  "javascript_string_length (normalize_node_string s) = javascript_string_length s"
  by (induction s rule: normalize_node_string.induct)
    (auto simp: utf16_unit_count_def is_high_def is_low_def astral_def)

lemma normalize_Nil_iff [simp]: "normalize_node_string s = [] \<longleftrightarrow> s = []"
  by (induction s rule: normalize_node_string.induct) auto

section \<open>UTF-8\<close>

definition utf8_char :: "nat \<Rightarrow> nat list" where
  "utf8_char c =
     (if c < 0x80 then [c]
      else if c < 0x800 then [0xC0 + c div 64, 0x80 + c mod 64]
      else if c < 0x10000 then [0xE0 + c div 4096, 0x80 + (c div 64) mod 64, 0x80 + c mod 64]
      else [0xF0 + c div 262144, 0x80 + (c div 4096) mod 64, 0x80 + (c div 64) mod 64, 0x80 + c mod 64])"

definition utf8_bytes :: "pystr \<Rightarrow> nat list" where
  "utf8_bytes s = concat (map utf8_char s)"

definition node_utf8_bytes :: "pystr \<Rightarrow> nat list" where
  "node_utf8_bytes s = utf8_bytes (normalize_node_string s)"

definition all_ascii :: "pystr \<Rightarrow> bool" where
  "all_ascii s \<longleftrightarrow> (\<forall>c \<in> set s. c < 128)"

lemma utf8_ascii: "all_ascii s \<Longrightarrow> utf8_bytes s = s"
  by (induction s) (auto simp: all_ascii_def utf8_bytes_def utf8_char_def)

lemma node_utf8_ascii: "all_ascii s \<Longrightarrow> node_utf8_bytes s = s"
proof -
  assume a: "all_ascii s"
  then have "normalize_node_string s = s"
    by (intro normalize_id) (auto simp: all_ascii_def is_surrogate_def)
  with a show ?thesis by (simp add: node_utf8_bytes_def utf8_ascii)
qed

section \<open>Hexadecimal\<close>

definition hex_char :: "nat \<Rightarrow> nat" where
  "hex_char v = (if v < 10 then 48 + v else 87 + v)"

definition hexdigest :: "nat list \<Rightarrow> pystr" where
  "hexdigest bs = concat (map (\<lambda>b. [hex_char (b div 16), hex_char (b mod 16)]) bs)"

lemma length_hexdigest [simp]: "length (hexdigest bs) = 2 * length bs"
  by (induction bs) (auto simp: hexdigest_def)

lemma hex_char_inj: "v < 16 \<Longrightarrow> w < 16 \<Longrightarrow> hex_char v = hex_char w \<longleftrightarrow> v = w"
  by (auto simp: hex_char_def)

lemma hexdigest_simps [simp]:
  "hexdigest [] = []"
  "hexdigest (b # bs) = hex_char (b div 16) # hex_char (b mod 16) # hexdigest bs"
  by (simp_all add: hexdigest_def)

lemma hexdigest_inj:
  assumes "\<forall>b \<in> set xs. b < 256" "\<forall>b \<in> set ys. b < 256" "hexdigest xs = hexdigest ys"
  shows "xs = ys"
  using assms
proof (induction xs arbitrary: ys)
  case Nil
  then show ?case by (cases ys) simp_all
next
  case (Cons x xs)
  then obtain y ys' where ys: "ys = y # ys'" by (cases ys) simp_all
  have "x < 16 * 16" "y < 16 * 16" using Cons.prems ys by simp_all
  then have lt: "x div 16 < 16" "y div 16 < 16" by (simp_all only: less_mult_imp_div_less)
  from Cons.prems(3) ys have r: "hexdigest xs = hexdigest ys'"
    and "hex_char (x div 16) = hex_char (y div 16)" and "hex_char (x mod 16) = hex_char (y mod 16)"
    by simp_all
  then have "x div 16 = y div 16" and "x mod 16 = y mod 16"
    using lt hex_char_inj by simp_all
  then have "x = y" by (metis div_mult_mod_eq)
  moreover have "xs = ys'" using Cons.IH [OF _ _ r] Cons.prems ys by simp
  ultimately show ?case using ys by simp
qed

section \<open>URL-safe base64 without padding\<close>

definition b64_char :: "nat \<Rightarrow> nat" where
  "b64_char v = (if v < 26 then 65 + v else if v < 52 then 71 + v
                 else if v < 62 then v - 4 else if v = 62 then 45 else 95)"

definition b64_value :: "nat \<Rightarrow> nat" where
  "b64_value c = (if 65 \<le> c \<and> c \<le> 90 then c - 65 else if 97 \<le> c \<and> c \<le> 122 then c - 71
                  else if 48 \<le> c \<and> c \<le> 57 then c + 4 else if c = 45 then 62 else 63)"

fun b64_sextets :: "nat list \<Rightarrow> nat list" where
  "b64_sextets [] = []"
| "b64_sextets [a] = [a div 4, (a mod 4) * 16]"
| "b64_sextets [a, b] = [a div 4, (a mod 4) * 16 + b div 16, (b mod 16) * 4]"
| "b64_sextets (a # b # c # r) =
     a div 4 # ((a mod 4) * 16 + b div 16) # ((b mod 16) * 4 + c div 64) # c mod 64 # b64_sextets r"

fun b64_octets :: "nat list \<Rightarrow> nat list" where
  "b64_octets [v, w] = [v * 4 + w div 16]"
| "b64_octets [v, w, x] = [v * 4 + w div 16, (w mod 16) * 16 + x div 4]"
| "b64_octets (v # w # x # y # r) =
     (v * 4 + w div 16) # ((w mod 16) * 16 + x div 4) # ((x mod 4) * 64 + y) # b64_octets r"
| "b64_octets _ = []"

definition base64url :: "nat list \<Rightarrow> pystr" where
  "base64url bs = map b64_char (b64_sextets bs)"

definition is_bytes :: "nat list \<Rightarrow> bool" where
  "is_bytes bs \<longleftrightarrow> (\<forall>b \<in> set bs. b < 256)"

definition opaque_char :: "nat \<Rightarrow> bool" where
  "opaque_char c \<longleftrightarrow> ascii_alpha c \<or> ascii_digit c \<or> c = 95 \<or> c = 45"

lemma b64_value_char: "v < 64 \<Longrightarrow> b64_value (b64_char v) = v"
  by (auto simp: b64_value_def b64_char_def)

lemma opaque_b64_char: "v < 64 \<Longrightarrow> opaque_char (b64_char v)"
  by (auto simp: opaque_char_def b64_char_def ascii_alpha_def ascii_digit_def)

lemma b64_sextets_less: "is_bytes bs \<Longrightarrow> v \<in> set (b64_sextets bs) \<Longrightarrow> v < 64"
  by (induction bs rule: b64_sextets.induct) (auto simp: is_bytes_def)

lemma b64_octets_sextets: "is_bytes bs \<Longrightarrow> b64_octets (b64_sextets bs) = bs"
proof (induction bs rule: b64_sextets.induct)
  case (4 a b c r)
  then have "b64_octets (b64_sextets r) = r" and "a < 256" "b < 256" "c < 256"
    by (auto simp: is_bytes_def)
  then show ?case by simp
qed (auto simp: is_bytes_def)

lemma base64url_decode:
  assumes "is_bytes bs"
  shows "b64_octets (map b64_value (base64url bs)) = bs"
proof -
  have "map b64_value (base64url bs) = map (\<lambda>v. v) (b64_sextets bs)"
    unfolding base64url_def map_map
    by (rule map_cong) (auto simp: b64_value_char b64_sextets_less [OF assms])
  then show ?thesis using b64_octets_sextets [OF assms] by simp
qed

lemma base64url_inj:
  "is_bytes xs \<Longrightarrow> is_bytes ys \<Longrightarrow> base64url xs = base64url ys \<longleftrightarrow> xs = ys"
  by (metis base64url_decode)

lemma base64url_opaque: "is_bytes bs \<Longrightarrow> c \<in> set (base64url bs) \<Longrightarrow> opaque_char c"
  by (auto simp: base64url_def intro: opaque_b64_char b64_sextets_less)

lemma length_b64_sextets:
  "length (b64_sextets bs) = (length bs * 8 + 5) div 6"
  by (induction bs rule: b64_sextets.induct) auto

lemma length_base64url_32: "length bs = 32 \<Longrightarrow> length (base64url bs) = 43"
  by (simp add: base64url_def length_b64_sextets)

end
