(* ===== verification/Domain_Auth.thy ===== *)
theory Domain_Auth
  imports Py_Encode
begin

text \<open>
  The pure domain of accounts and passwords: \<^verbatim>\<open>domain/users.py\<close>, \<^verbatim>\<open>domain/auth.py\<close>,
  \<^verbatim>\<open>domain/tokens.py\<close>, \<^verbatim>\<open>domain/verification.py\<close>, \<^verbatim>\<open>domain/password_reset.py\<close>, and the password
  and hash primitives of \<^verbatim>\<open>infrastructure/security.py\<close> they call. Instants are integers counting
  milliseconds; a \<^verbatim>\<open>Protocol\<close> of the source is a record of its operations. What is not under
  \<^verbatim>\<open>src/\<close> (SHA-256, Argon2, the Unicode lower-casing table) is an argument.
\<close>

section \<open>Users\<close>

datatype UserStatus = PENDING_EMAIL_VERIFICATION | ACTIVE | SUSPENDED | DELETED

definition UserStatus_value :: "UserStatus \<Rightarrow> pystr" where
  "UserStatus_value s = (case s of
     PENDING_EMAIL_VERIFICATION \<Rightarrow> lit ''PENDING_EMAIL_VERIFICATION''
   | ACTIVE \<Rightarrow> lit ''ACTIVE'' | SUSPENDED \<Rightarrow> lit ''SUSPENDED'' | DELETED \<Rightarrow> lit ''DELETED'')"

definition UserStatus_of :: "pystr \<Rightarrow> UserStatus option" where
  "UserStatus_of v =
     (if v = lit ''PENDING_EMAIL_VERIFICATION'' then Some PENDING_EMAIL_VERIFICATION
      else if v = lit ''ACTIVE'' then Some ACTIVE
      else if v = lit ''SUSPENDED'' then Some SUSPENDED
      else if v = lit ''DELETED'' then Some DELETED else None)"

lemma UserStatus_roundtrip: "UserStatus_of (UserStatus_value s) = Some s"
  by (cases s) (auto simp: UserStatus_of_def UserStatus_value_def)

record Role =
  role_service_key :: pystr
  role_name :: pystr

record CurrentUser =
  cu_id :: pystr
  cu_email :: "pystr option"
  cu_email_verified :: bool
  cu_name :: "pystr option"
  cu_roles :: "Role list"

record CurrentUserWithStatus = CurrentUser +
  cu_status :: UserStatus

text \<open>\<^verbatim>\<open>require_active_user_for_token_issue\<close> over what the store returned.\<close>

definition require_active_user_for_token_issue ::
  "CurrentUserWithStatus option \<Rightarrow> exn + CurrentUserWithStatus" where
  "require_active_user_for_token_issue user = (case user of
     None \<Rightarrow> Inl (DomainError 401 (lit ''UNAUTHORIZED'') (lit ''Authentication is required''))
   | Some u \<Rightarrow>
       if cu_status u \<noteq> ACTIVE
       then Inl (DomainError 401 (lit ''UNAUTHORIZED'') (lit ''Authentication is required''))
       else Inr u)"

section \<open>Token values\<close>

record RoleClaim =
  rc_service_key :: pystr
  rc_name :: pystr

record AccessTokenIdentity =
  ati_user_id :: pystr
  ati_email :: "pystr option"
  ati_name :: "pystr option"
  ati_email_verified :: bool
  ati_roles :: "RoleClaim list"

record AccessTokenClaims =
  atc_identity :: AccessTokenIdentity
  atc_audience :: pystr
  atc_issued_at :: int
  atc_expires_at :: int

record RefreshTokenClaims =
  rtc_user_id :: pystr
  rtc_token_id :: pystr
  rtc_audience :: pystr
  rtc_issued_at :: int
  rtc_expires_at :: int

record IssuedRefreshToken =
  irt_token :: pystr
  irt_token_id :: pystr
  irt_token_hash :: pystr
  irt_expires_at :: int

section \<open>Hash primitives of infrastructure/security.py\<close>

definition DUMMY_PASSWORD_HASH :: pystr where
  "DUMMY_PASSWORD_HASH = lit ''$argon2id$v=19$m=19456,t=2,p=1$SdlW23hIuyR5YOcdnZi8wg$U6czHfbJGnRhZehGLUmnc9E06qyzWWjlouMxjSv3gTM''"

definition sha256_token :: "(nat list \<Rightarrow> nat list) \<Rightarrow> pystr \<Rightarrow> pystr" where
  "sha256_token sha256 token = hexdigest (sha256 (utf8_bytes (normalize_node_string token)))"

text \<open>
  \<^verbatim>\<open>AsyncPasswordHasher\<close>: the library hasher is the argument, its verification errors are
  \<open>False\<close>. An empty password is refused before it is hashed.
\<close>

definition hash_password :: "(pystr \<Rightarrow> pystr) \<Rightarrow> pystr \<Rightarrow> exn + pystr" where
  "hash_password argon_hash password =
     (if password = [] then Inl (ValueError (lit ''password must not be empty''))
      else Inr (argon_hash (normalize_node_string password)))"

definition verify_password :: "(pystr \<Rightarrow> pystr \<Rightarrow> bool) \<Rightarrow> pystr \<Rightarrow> pystr \<Rightarrow> bool" where
  "verify_password argon_verify password_hash password =
     (if password_hash = [] then False
      else argon_verify password_hash (normalize_node_string password))"

section \<open>Password policy\<close>

definition DEFAULT_PASSWORD_MIN_LENGTH :: int where
  "DEFAULT_PASSWORD_MIN_LENGTH = 8"

definition PENDING_PASSWORD_CREDENTIAL_TTL :: int where
  "PENDING_PASSWORD_CREDENTIAL_TTL = 24 * 60 * 60 * 1000"

record PasswordPolicy =
  min_length :: int
  allowed_email_domain :: "pystr option"

definition make_PasswordPolicy :: "int \<Rightarrow> pystr option \<Rightarrow> exn + PasswordPolicy" where
  "make_PasswordPolicy n d =
     (if n < 1 then Inl (ValueError (lit ''min_length must be positive''))
      else Inr \<lparr>min_length = n, allowed_email_domain = d\<rparr>)"

definition DEFAULT_PASSWORD_POLICY :: PasswordPolicy where
  "DEFAULT_PASSWORD_POLICY =
     \<lparr>min_length = DEFAULT_PASSWORD_MIN_LENGTH, allowed_email_domain = None\<rparr>"

definition normalize_email :: "(pystr \<Rightarrow> pystr) \<Rightarrow> pystr \<Rightarrow> pystr" where
  "normalize_email uni email = py_lower uni (py_strip email)"

definition assert_password_policy :: "pystr \<Rightarrow> pystr \<Rightarrow> PasswordPolicy \<Rightarrow> exn + unit" where
  "assert_password_policy email password policy =
     (if int (javascript_string_length password) < min_length policy
      then Inl (DomainError 400 (lit ''WEAK_PASSWORD'')
             (lit ''Password must be at least '' @ py_str_int (min_length policy) @ lit '' characters''))
      else (case allowed_email_domain policy of
              None \<Rightarrow> Inr ()
            | Some d \<Rightarrow>
                if d \<noteq> [] \<and> \<not> py_endswith email (lit ''@'' @ d)
                then Inl (DomainError 403 (lit ''EMAIL_DOMAIN_NOT_ALLOWED'') (lit ''Email domain is not allowed''))
                else Inr ()))"

lemma normalize_email_idem:
  assumes "all_ascii email"
  shows "normalize_email uni (normalize_email uni email) = normalize_email uni email"
proof -
  have a: "\<forall>c \<in> set (py_strip email). c < 128"
    using assms py_strip_subset by (auto simp: all_ascii_def)
  have l: "normalize_email uni email = map ascii_lower_char (py_strip email)"
    using a by (simp add: normalize_email_def py_lower_def)
  have "\<forall>c \<in> set (map ascii_lower_char (py_strip email)). c < 128"
    using a ascii_lower_char_less by auto
  with a show ?thesis
    by (simp add: l normalize_email_def py_lower_def py_strip_map_lower o_def)
qed

section \<open>Public failures\<close>

text \<open>\<^verbatim>\<open>PasswordAuthFailure\<close> is the \<^verbatim>\<open>DomainError\<close> of this status, code and message; the
  user id and the reason are for the audit log only.\<close>

definition PasswordAuthFailure_public :: "PasswordAuthReason \<Rightarrow> nat \<times> pystr \<times> pystr" where
  "PasswordAuthFailure_public reason =
     (let verification_required = (reason = EMAIL_VERIFICATION_REQUIRED) in
      (if verification_required then 403 else 401,
       if verification_required then lit ''EMAIL_VERIFICATION_REQUIRED'' else lit ''INVALID_CREDENTIALS'',
       if verification_required then lit ''Email verification is required before login''
       else lit ''Invalid email or password''))"

definition reason_code :: "PasswordAuthReason \<Rightarrow> pystr" where
  "reason_code r = (case r of
     ACCOUNT_LOCKED \<Rightarrow> lit ''ACCOUNT_LOCKED''
   | EMAIL_VERIFICATION_REQUIRED \<Rightarrow> lit ''EMAIL_VERIFICATION_REQUIRED''
   | INVALID_CREDENTIALS \<Rightarrow> lit ''INVALID_CREDENTIALS''
   | USER_INACTIVE \<Rightarrow> lit ''USER_INACTIVE'')"

text \<open>
  What the HTTP boundary shows of an exception (\<^verbatim>\<open>_raise_public\<close> over \<^verbatim>\<open>DomainError\<close> and its
  subclasses); every other exception becomes the generic 500.
\<close>

definition public_error :: "exn \<Rightarrow> nat \<times> pystr \<times> pystr" where
  "public_error e = (case e of
     DomainError status code message \<Rightarrow> (status, code, message)
   | PasswordAuthFailure _ r \<Rightarrow> PasswordAuthFailure_public r
   | _ \<Rightarrow> (500, lit ''INTERNAL_SERVER_ERROR'', lit ''Internal server error''))"

section \<open>Email verification and password reset tokens\<close>

definition EMAIL_VERIFICATION_TOKEN_TTL :: int where
  "EMAIL_VERIFICATION_TOKEN_TTL = 24 * 60 * 60 * 1000"

definition PASSWORD_RESET_TOKEN_TTL :: int where
  "PASSWORD_RESET_TOKEN_TTL = 60 * 60 * 1000"

definition InvalidVerificationTokenError :: exn where
  "InvalidVerificationTokenError =
     DomainError 400 (lit ''INVALID_VERIFICATION_TOKEN'') (lit ''Invalid or expired verification token'')"

definition InvalidResetTokenError :: exn where
  "InvalidResetTokenError =
     DomainError 400 (lit ''INVALID_RESET_TOKEN'') (lit ''Invalid or expired reset token'')"

record IssuedToken =
  it_value :: pystr
  it_token_hash :: pystr
  it_expires_at :: int

definition issue_verification_token ::
  "(nat list \<Rightarrow> nat list) \<Rightarrow> int \<Rightarrow> nat list \<Rightarrow> exn + IssuedToken" where
  "issue_verification_token sha256 now raw =
     (if length raw \<noteq> 32
      then Inl (ValueError (lit ''verification token source must return exactly 32 bytes''))
      else let value = base64url raw in
        Inr \<lparr>it_value = value, it_token_hash = sha256_token sha256 value,
             it_expires_at = now + EMAIL_VERIFICATION_TOKEN_TTL\<rparr>)"

definition issue_password_reset_token ::
  "(nat list \<Rightarrow> nat list) \<Rightarrow> int \<Rightarrow> nat list \<Rightarrow> exn + IssuedToken" where
  "issue_password_reset_token sha256 now raw =
     (if length raw \<noteq> 32
      then Inl (ValueError (lit ''password-reset token source must return exactly 32 bytes''))
      else let value = base64url raw in
        Inr \<lparr>it_value = value, it_token_hash = sha256_token sha256 value,
             it_expires_at = now + PASSWORD_RESET_TOKEN_TTL\<rparr>)"

definition confirm_password_reset :: "pystr option \<Rightarrow> exn + pystr" where
  "confirm_password_reset user_id =
     (case user_id of None \<Rightarrow> Inl InvalidResetTokenError | Some u \<Rightarrow> Inr u)"

definition assert_reset_password_policy ::
  "(pystr \<Rightarrow> pystr) \<Rightarrow> pystr \<Rightarrow> pystr \<Rightarrow> PasswordPolicy \<Rightarrow> exn + unit" where
  "assert_reset_password_policy uni email password policy =
     assert_password_policy (normalize_email uni email) password policy"

section \<open>Registration and login over the store protocol\<close>

record PasswordCredentialRecord =
  pc_user_id :: pystr
  pc_email :: pystr
  pc_password_hash :: pystr
  pc_failed_login_count :: int
  pc_locked_until :: "int option"
  pc_user_status :: UserStatus

record 's PasswordAuthStoreOps =
  op_find_user_by_email :: "pystr \<Rightarrow> ('s, CurrentUser option) act"
  op_create_user_with_password ::
    "pystr \<Rightarrow> pystr option \<Rightarrow> pystr \<Rightarrow> UserStatus \<Rightarrow> ('s, CurrentUser) act"
  op_create_pending_password_credential :: "pystr \<Rightarrow> pystr \<Rightarrow> pystr \<Rightarrow> int \<Rightarrow> ('s, unit) act"
  op_find_credential_by_email :: "pystr \<Rightarrow> ('s, PasswordCredentialRecord option) act"
  op_mark_login_success :: "pystr \<Rightarrow> ('s, unit) act"
  op_mark_login_failure :: "pystr \<Rightarrow> ('s, unit) act"
  op_get_current_user :: "pystr \<Rightarrow> ('s, CurrentUser option) act"

text \<open>
  The decision \<^verbatim>\<open>login_with_password\<close> takes from the credential it read, the verification result
  and the clock: whether the lock is in force, and the reason of a refusal.
\<close>

definition is_locked :: "PasswordCredentialRecord option \<Rightarrow> int \<Rightarrow> bool" where
  "is_locked credential now = (case credential of
     None \<Rightarrow> False
   | Some c \<Rightarrow> (case pc_locked_until c of None \<Rightarrow> False | Some t \<Rightarrow> now < t))"

definition has_status :: "PasswordCredentialRecord option \<Rightarrow> UserStatus \<Rightarrow> bool" where
  "has_status credential s =
     (case credential of None \<Rightarrow> False | Some c \<Rightarrow> pc_user_status c = s)"

definition credential_hash :: "PasswordCredentialRecord option \<Rightarrow> pystr" where
  "credential_hash credential =
     (case credential of None \<Rightarrow> DUMMY_PASSWORD_HASH | Some c \<Rightarrow> pc_password_hash c)"

definition failure_reason :: "PasswordCredentialRecord option \<Rightarrow> bool \<Rightarrow> PasswordAuthReason" where
  "failure_reason credential locked =
     (if locked then ACCOUNT_LOCKED
      else if has_status credential ACTIVE then INVALID_CREDENTIALS else USER_INACTIVE)"

definition register_with_password ::
  "'s PasswordAuthStoreOps \<Rightarrow> (pystr \<Rightarrow> exn + pystr) \<Rightarrow> (pystr \<Rightarrow> pystr) \<Rightarrow> PasswordPolicy \<Rightarrow> int \<Rightarrow>
   pystr \<Rightarrow> pystr \<Rightarrow> pystr option \<Rightarrow> ('s, CurrentUser) act" where
  "register_with_password S hasher uni policy now email0 password name0 =
     (let email = normalize_email uni email0 in
      bindA (liftA (assert_password_policy email password policy)) (\<lambda>_.
      bindA (liftA (hasher password)) (\<lambda>password_hash.
      bindA (op_find_user_by_email S email) (\<lambda>existing.
        case existing of
          Some existing_user \<Rightarrow>
            bindA (op_find_credential_by_email S email) (\<lambda>existing_credential.
              if existing_credential = None \<and> cu_email_verified existing_user
              then bindA (op_create_pending_password_credential S (cu_id existing_user) email
                            password_hash (now + PENDING_PASSWORD_CREDENTIAL_TTL))
                     (\<lambda>_. retA existing_user)
              else retA existing_user)
        | None \<Rightarrow>
            op_create_user_with_password S email name0 password_hash PENDING_EMAIL_VERIFICATION))))"

definition login_with_password ::
  "'s PasswordAuthStoreOps \<Rightarrow> (pystr \<Rightarrow> pystr \<Rightarrow> bool) \<Rightarrow> (pystr \<Rightarrow> pystr) \<Rightarrow> int \<Rightarrow>
   pystr \<Rightarrow> pystr \<Rightarrow> ('s, CurrentUser) act" where
  "login_with_password S verifier uni now email password =
     bindA (op_find_credential_by_email S (normalize_email uni email)) (\<lambda>credential.
       let verified = verifier (credential_hash credential) password;
           locked = is_locked credential now;
           user_id = map_option pc_user_id credential
       in
       if has_status credential PENDING_EMAIL_VERIFICATION \<and> verified \<and> \<not> locked
       then raiseA (PasswordAuthFailure user_id EMAIL_VERIFICATION_REQUIRED)
       else if \<not> (has_status credential ACTIVE \<and> \<not> locked \<and> verified)
       then bindA
              (case credential of
                 Some c \<Rightarrow> if pc_user_status c = ACTIVE \<and> \<not> locked
                           then op_mark_login_failure S (pc_user_id c) else retA ()
               | None \<Rightarrow> retA ())
              (\<lambda>_. raiseA (PasswordAuthFailure user_id (failure_reason credential locked)))
       else (case credential of
               None \<Rightarrow> raiseA (RuntimeError (lit ''successful authentication did not retain its credential''))
             | Some c \<Rightarrow>
                 bindA (op_mark_login_success S (pc_user_id c)) (\<lambda>_.
                 bindA (op_get_current_user S (pc_user_id c)) (\<lambda>user.
                   case user of
                     None \<Rightarrow> raiseA (DomainError 401 (lit ''INVALID_CREDENTIALS'') (lit ''Invalid email or password''))
                   | Some u \<Rightarrow> retA u))))"

lemma failure_public_code:
  "r \<noteq> EMAIL_VERIFICATION_REQUIRED \<Longrightarrow>
   public_error (PasswordAuthFailure u r) =
     (401, lit ''INVALID_CREDENTIALS'', lit ''Invalid email or password'')"
  by (simp add: public_error_def PasswordAuthFailure_public_def Let_def)

lemma failure_reason_not_required: "failure_reason c l \<noteq> EMAIL_VERIFICATION_REQUIRED"
  by (simp add: failure_reason_def)

end
