(* ===== verification/Py_Value.thy ===== *)
theory Py_Value
  imports Py_Encode
begin

text \<open>
  Python values as they come out of and go into JSON, with \<^verbatim>\<open>json.dumps(..., separators=(",", ":"))\<close>
  in both of its escaping modes. A dictionary is the list of its items in insertion order. A finite
  float is identified with its \<^verbatim>\<open>repr\<close>.
\<close>

datatype pyfloat = FiniteFloat pystr | PosInfinity | NegInfinity | NotANumber

datatype pyval =
    PNone | PBool bool | PInt int | PFloat pyfloat | PStr pystr
  | PList "pyval list" | PDict "(pystr \<times> pyval) list"

type_synonym pydict = "(pystr \<times> pyval) list"

definition dget :: "pydict \<Rightarrow> pystr \<Rightarrow> pyval" where
  "dget d k = (case map_of d k of None \<Rightarrow> PNone | Some v \<Rightarrow> v)"

definition keys_are :: "pydict \<Rightarrow> pystr list \<Rightarrow> bool" where
  "keys_are d ks \<longleftrightarrow> set (map fst d) = set ks"

definition opt_str :: "pystr option \<Rightarrow> pyval" where
  "opt_str s = (case s of None \<Rightarrow> PNone | Some t \<Rightarrow> PStr t)"

lemma dget_Cons [simp]: "dget ((k, v) # d) k' = (if k' = k then v else dget d k')"
  by (simp add: dget_def)

lemma opt_str_simps [simp]: "opt_str None = PNone" "opt_str (Some t) = PStr t"
  by (simp_all add: opt_str_def)

lemma opt_str_eq [simp]:
  "opt_str a = opt_str b \<longleftrightarrow> a = b"
  "PStr s = opt_str b \<longleftrightarrow> b = Some s"
  "opt_str b = PStr s \<longleftrightarrow> b = Some s"
  "opt_str b = PNone \<longleftrightarrow> b = None"
  "PNone = opt_str b \<longleftrightarrow> b = None"
  by (auto simp: opt_str_def split: option.splits)

lemma dget_Nil [simp]: "dget [] k = PNone"
  by (simp add: dget_def)

section \<open>json.dumps\<close>

definition hex4 :: "nat \<Rightarrow> pystr" where
  "hex4 u = [hex_char (u div 4096 mod 16), hex_char (u div 256 mod 16),
             hex_char (u div 16 mod 16), hex_char (u mod 16)]"

definition short_escape :: "nat \<Rightarrow> pystr option" where
  "short_escape c =
     (if c = 34 then Some [92, 34] else if c = 92 then Some [92, 92]
      else if c = 10 then Some [92, 110] else if c = 13 then Some [92, 114]
      else if c = 9 then Some [92, 116] else if c = 12 then Some [92, 102]
      else if c = 8 then Some [92, 98] else None)"

definition escape_char :: "bool \<Rightarrow> nat \<Rightarrow> pystr" where
  "escape_char ensure_ascii c =
     (case short_escape c of
        Some e \<Rightarrow> e
      | None \<Rightarrow>
          if ensure_ascii then
            (if 32 \<le> c \<and> c \<le> 126 then [c]
             else if c < 0x10000 then [92, 117] @ hex4 c
             else [92, 117] @ hex4 (0xD800 + ((c - 0x10000) div 1024) mod 1024)
                  @ [92, 117] @ hex4 (0xDC00 + (c - 0x10000) mod 1024))
          else (if c < 32 then [92, 117] @ hex4 c else [c]))"

definition json_string :: "bool \<Rightarrow> pystr \<Rightarrow> pystr" where
  "json_string ensure_ascii s = [34] @ concat (map (escape_char ensure_ascii) s) @ [34]"

definition float_repr :: "pyfloat \<Rightarrow> pystr" where
  "float_repr f = (case f of FiniteFloat r \<Rightarrow> r | PosInfinity \<Rightarrow> lit ''Infinity''
     | NegInfinity \<Rightarrow> lit ''-Infinity'' | NotANumber \<Rightarrow> lit ''NaN'')"

fun join_comma :: "pystr list \<Rightarrow> pystr" where
  "join_comma [] = []"
| "join_comma [w] = w"
| "join_comma (w # ws) = w @ [44] @ join_comma ws"

fun json_dumps :: "bool \<Rightarrow> pyval \<Rightarrow> pystr" where
  "json_dumps ea PNone = lit ''null''"
| "json_dumps ea (PBool b) = (if b then lit ''true'' else lit ''false'')"
| "json_dumps ea (PInt i) = py_str_int i"
| "json_dumps ea (PFloat f) = float_repr f"
| "json_dumps ea (PStr s) = json_string ea s"
| "json_dumps ea (PList vs) = [91] @ join_comma (map (json_dumps ea) vs) @ [93]"
| "json_dumps ea (PDict d) =
     [123] @ join_comma (map (\<lambda>(k, v). json_string ea k @ [58] @ json_dumps ea v) d) @ [125]"

end
