(* ===== verification/Schema.thy ===== *)
theory Schema
  imports Domain_Auth Py_Value
begin

text \<open>
  The tables of \<^verbatim>\<open>persistence/models.py\<close> and what PostgreSQL enforces on them. A table is the
  list of its rows in physical order; a key is a function to an optional list of texts, \<open>None\<close>
  standing for SQL NULL, which is never equal to anything. An insert that repeats a key raises
  SQLSTATE 23505, one whose foreign key has no target raises 23503. Deleting a user cascades to the
  tables that own rows by user and clears the audit references; renaming a user id cascades
  everywhere. \<open>db_ok\<close> is the conjunction of all keys and references, and the lemmas show that
  every statement used by the service keeps it.
\<close>

section \<open>Rows\<close>

record UserRow =
  u_id :: pystr
  u_email :: "pystr option"
  u_name :: "pystr option"
  u_profileUrl :: "pystr option"
  u_status :: UserStatus
  u_createdAt :: int
  u_updatedAt :: int
  u_emailVerified :: bool

record CredRow =
  c_id :: pystr
  c_userId :: pystr
  c_email :: pystr
  c_passwordHash :: pystr
  c_failedLoginCount :: int
  c_lockedUntil :: "int option"
  c_passwordUpdatedAt :: int
  c_createdAt :: int
  c_updatedAt :: int

record PendingRow =
  p_id :: pystr
  p_userId :: pystr
  p_email :: pystr
  p_passwordHash :: pystr
  p_expiresAt :: int
  p_createdAt :: int
  p_updatedAt :: int

record ReservationRow =
  v_id :: pystr
  v_email :: pystr
  v_subjectId :: pystr
  v_reason :: "pystr option"
  v_createdAt :: int
  v_updatedAt :: int

record SocialRow =
  s_id :: pystr
  s_provider :: pystr
  s_providerUserId :: pystr
  s_providerEmail :: "pystr option"
  s_userId :: pystr
  s_createdAt :: int

record RefreshRow =
  r_id :: pystr
  r_tokenHash :: pystr
  r_userId :: pystr
  r_expiresAt :: int
  r_revokedAt :: "int option"
  r_createdAt :: int
  r_audience :: pystr

record VerifRow =
  e_id :: pystr
  e_tokenHash :: pystr
  e_userId :: pystr
  e_expiresAt :: int
  e_usedAt :: "int option"
  e_createdAt :: int
  e_handoffClientId :: "pystr option"
  e_handoffAudience :: "pystr option"
  e_handoffRedirectUri :: "pystr option"
  e_handoffState :: "pystr option"
  e_handoffCodeChallenge :: "pystr option"
  e_handoffCodeChallengeMethod :: "pystr option"

record ResetRow =
  w_id :: pystr
  w_tokenHash :: pystr
  w_userId :: pystr
  w_expiresAt :: int
  w_usedAt :: "int option"
  w_createdAt :: int

text \<open>\<^verbatim>\<open>detailsJson\<close> is \<open>PNone\<close> for the JSON null that a Python \<^verbatim>\<open>None\<close> is stored as.\<close>

record AuditRow =
  a_id :: pystr
  a_userId :: "pystr option"
  a_eventType :: pystr
  a_outcome :: pystr
  a_provider :: "pystr option"
  a_serviceKey :: "pystr option"
  a_ipAddress :: "pystr option"
  a_userAgent :: "pystr option"
  a_reasonCode :: "pystr option"
  a_createdAt :: int
  a_actorUserId :: "pystr option"
  a_targetUserId :: "pystr option"
  a_detailsJson :: pyval

record RoleRow =
  o_id :: pystr
  o_serviceKey :: pystr
  o_name :: pystr

record UserRoleRow =
  l_id :: pystr
  l_userId :: pystr
  l_roleId :: pystr

record db =
  t_users :: "UserRow list"
  t_creds :: "CredRow list"
  t_pendings :: "PendingRow list"
  t_reservations :: "ReservationRow list"
  t_socials :: "SocialRow list"
  t_refreshes :: "RefreshRow list"
  t_verifs :: "VerifRow list"
  t_resets :: "ResetRow list"
  t_audits :: "AuditRow list"
  t_roles :: "RoleRow list"
  t_user_roles :: "UserRoleRow list"

definition empty_db :: db where
  "empty_db = \<lparr>t_users = [], t_creds = [], t_pendings = [], t_reservations = [], t_socials = [],
     t_refreshes = [], t_verifs = [], t_resets = [], t_audits = [], t_roles = [], t_user_roles = []\<rparr>"

section \<open>Unique keys\<close>

type_synonym 'r key = "'r \<Rightarrow> pystr list option"

definition uniq :: "'r key \<Rightarrow> 'r list \<Rightarrow> bool" where
  "uniq k rs \<longleftrightarrow> sorted_wrt (\<lambda>r s. k r = None \<or> k r \<noteq> k s) rs"

definition uniq_all :: "'r key list \<Rightarrow> 'r list \<Rightarrow> bool" where
  "uniq_all ks rs \<longleftrightarrow> (\<forall>k \<in> set ks. uniq k rs)"

definition taken :: "'r key list \<Rightarrow> 'r \<Rightarrow> 'r list \<Rightarrow> bool" where
  "taken ks r rs \<longleftrightarrow> (\<exists>k \<in> set ks. k r \<noteq> None \<and> (\<exists>s \<in> set rs. k s = k r))"

lemma uniq_append1: "uniq k (rs @ [r]) \<longleftrightarrow> uniq k rs \<and> (k r = None \<or> (\<forall>s \<in> set rs. k s \<noteq> k r))"
  by (auto simp: uniq_def sorted_wrt_append)

lemma uniq_all_append1 [simp]:
  "uniq_all ks (rs @ [r]) \<longleftrightarrow> uniq_all ks rs \<and> \<not> taken ks r rs"
  by (auto simp: uniq_all_def taken_def uniq_append1)

lemma uniq_filter: "uniq k rs \<Longrightarrow> uniq k (filter p rs)"
  by (auto simp: uniq_def intro: sorted_wrt_filter)

lemma uniq_all_filter [intro]: "uniq_all ks rs \<Longrightarrow> uniq_all ks (filter p rs)"
  by (auto simp: uniq_all_def intro: uniq_filter)

lemma uniq_all_Nil [simp]: "uniq_all ks []"
  by (simp add: uniq_all_def uniq_def)

lemma uniq_map_same: "(\<And>r. r \<in> set rs \<Longrightarrow> k (f r) = k r) \<Longrightarrow> uniq k (map f rs) = uniq k rs"
  by (induction rs) (auto simp: uniq_def)

lemma uniq_all_update_same:
  "(\<And>k r. k \<in> set ks \<Longrightarrow> p r \<Longrightarrow> k (f r) = k r) \<Longrightarrow> uniq_all ks (update_rows p f rs) = uniq_all ks rs"
  by (auto simp: uniq_all_def update_rows_def uniq_map_same)

lemma uniq_all_map_same:
  "(\<And>k r. k \<in> set ks \<Longrightarrow> r \<in> set rs \<Longrightarrow> k (f r) = k r) \<Longrightarrow> uniq_all ks (map f rs) = uniq_all ks rs"
  by (auto simp: uniq_all_def uniq_map_same)

lemma uniq_distinct: "uniq (\<lambda>r. Some [g r]) rs \<longleftrightarrow> distinct (map g rs)"
  by (induction rs) (auto simp: uniq_def image_iff)

lemma uniq_eq: "uniq k rs \<Longrightarrow> r \<in> set rs \<Longrightarrow> s \<in> set rs \<Longrightarrow> k r = k s \<Longrightarrow> k r \<noteq> None \<Longrightarrow> r = s"
  by (induction rs) (auto simp: uniq_def)

lemma uniq_map_inj:
  assumes "\<And>r s. r \<in> set rs \<Longrightarrow> s \<in> set rs \<Longrightarrow> k (f r) = k (f s) \<Longrightarrow> k (f r) \<noteq> None \<Longrightarrow> k r = k s \<and> k r \<noteq> None"
    and "uniq k rs"
  shows "uniq k (map f rs)"
proof -
  from assms(2) have "sorted_wrt (\<lambda>r s. k r = None \<or> k r \<noteq> k s) rs" by (simp add: uniq_def)
  then have "sorted_wrt (\<lambda>r s. k (f r) = None \<or> k (f r) \<noteq> k (f s)) rs"
    by (rule sorted_wrt_mono_rel [rotated]) (use assms(1) in metis)
  then show ?thesis by (simp add: uniq_def sorted_wrt_map)
qed

section \<open>The constraints of the schema\<close>

definition user_keys :: "UserRow key list" where
  "user_keys = [\<lambda>r. Some [u_id r], \<lambda>r. map_option (\<lambda>e. [e]) (u_email r)]"

definition cred_keys :: "CredRow key list" where
  "cred_keys = [\<lambda>r. Some [c_id r], \<lambda>r. Some [c_userId r], \<lambda>r. Some [c_email r]]"

definition pending_keys :: "PendingRow key list" where
  "pending_keys = [\<lambda>r. Some [p_id r], \<lambda>r. Some [p_userId r], \<lambda>r. Some [p_email r]]"

definition reservation_keys :: "ReservationRow key list" where
  "reservation_keys = [\<lambda>r. Some [v_id r], \<lambda>r. Some [v_email r], \<lambda>r. Some [v_subjectId r]]"

definition social_keys :: "SocialRow key list" where
  "social_keys = [\<lambda>r. Some [s_id r], \<lambda>r. Some [s_provider r, s_providerUserId r]]"

definition refresh_keys :: "RefreshRow key list" where
  "refresh_keys = [\<lambda>r. Some [r_id r]]"

definition verif_keys :: "VerifRow key list" where
  "verif_keys = [\<lambda>r. Some [e_id r], \<lambda>r. Some [e_tokenHash r]]"

definition reset_keys :: "ResetRow key list" where
  "reset_keys = [\<lambda>r. Some [w_id r], \<lambda>r. Some [w_tokenHash r]]"

definition audit_keys :: "AuditRow key list" where
  "audit_keys = [\<lambda>r. Some [a_id r]]"

definition role_keys :: "RoleRow key list" where
  "role_keys = [\<lambda>r. Some [o_id r], \<lambda>r. Some [o_serviceKey r, o_name r]]"

definition user_role_keys :: "UserRoleRow key list" where
  "user_role_keys = [\<lambda>r. Some [l_id r], \<lambda>r. Some [l_userId r, l_roleId r]]"

lemmas key_defs = user_keys_def cred_keys_def pending_keys_def reservation_keys_def social_keys_def
  refresh_keys_def verif_keys_def reset_keys_def audit_keys_def role_keys_def user_role_keys_def

definition user_exists :: "db \<Rightarrow> pystr \<Rightarrow> bool" where
  "user_exists d i \<longleftrightarrow> i \<in> u_id ` set (t_users d)"

definition user_ref :: "db \<Rightarrow> pystr option \<Rightarrow> bool" where
  "user_ref d i = (case i of None \<Rightarrow> True | Some j \<Rightarrow> user_exists d j)"

definition role_exists :: "db \<Rightarrow> pystr \<Rightarrow> bool" where
  "role_exists d i \<longleftrightarrow> i \<in> o_id ` set (t_roles d)"

definition audit_refs :: "db \<Rightarrow> AuditRow \<Rightarrow> bool" where
  "audit_refs d r \<longleftrightarrow> user_ref d (a_userId r) \<and> user_ref d (a_actorUserId r) \<and> user_ref d (a_targetUserId r)"

definition keys_ok :: "db \<Rightarrow> bool" where
  "keys_ok d \<longleftrightarrow> uniq_all user_keys (t_users d) \<and> uniq_all cred_keys (t_creds d)
     \<and> uniq_all pending_keys (t_pendings d) \<and> uniq_all reservation_keys (t_reservations d)
     \<and> uniq_all social_keys (t_socials d) \<and> uniq_all refresh_keys (t_refreshes d)
     \<and> uniq_all verif_keys (t_verifs d) \<and> uniq_all reset_keys (t_resets d)
     \<and> uniq_all audit_keys (t_audits d) \<and> uniq_all role_keys (t_roles d)
     \<and> uniq_all user_role_keys (t_user_roles d)"

definition refs_ok :: "db \<Rightarrow> bool" where
  "refs_ok d \<longleftrightarrow> (\<forall>r \<in> set (t_creds d). user_exists d (c_userId r))
     \<and> (\<forall>r \<in> set (t_pendings d). user_exists d (p_userId r))
     \<and> (\<forall>r \<in> set (t_socials d). user_exists d (s_userId r))
     \<and> (\<forall>r \<in> set (t_refreshes d). user_exists d (r_userId r))
     \<and> (\<forall>r \<in> set (t_verifs d). user_exists d (e_userId r))
     \<and> (\<forall>r \<in> set (t_resets d). user_exists d (w_userId r))
     \<and> (\<forall>r \<in> set (t_audits d). audit_refs d r)
     \<and> (\<forall>r \<in> set (t_user_roles d). user_exists d (l_userId r) \<and> role_exists d (l_roleId r))"

definition db_ok :: "db \<Rightarrow> bool" where
  "db_ok d \<longleftrightarrow> keys_ok d \<and> refs_ok d"

lemma empty_db_ok: "db_ok empty_db"
  by (simp add: db_ok_def keys_ok_def refs_ok_def empty_db_def)

lemma user_ref_simps [simp]:
  "user_ref d None"
  "user_ref d (Some i) = user_exists d i"
  by (simp_all add: user_ref_def)

lemma user_exists_upd [simp]:
  "user_exists (t_users_update f d) i \<longleftrightarrow> i \<in> u_id ` set (f (t_users d))"
  "user_exists (t_creds_update f1 d) = user_exists d"
  "user_exists (t_pendings_update f2 d) = user_exists d"
  "user_exists (t_reservations_update f3 d) = user_exists d"
  "user_exists (t_socials_update f4 d) = user_exists d"
  "user_exists (t_refreshes_update f5 d) = user_exists d"
  "user_exists (t_verifs_update f6 d) = user_exists d"
  "user_exists (t_resets_update f7 d) = user_exists d"
  "user_exists (t_audits_update f8 d) = user_exists d"
  "user_exists (t_roles_update f9 d) = user_exists d"
  "user_exists (t_user_roles_update f10 d) = user_exists d"
  by (auto simp: user_exists_def fun_eq_iff)

lemma role_exists_upd [simp]:
  "role_exists (t_users_update f d) = role_exists d"
  "role_exists (t_creds_update f1 d) = role_exists d"
  "role_exists (t_pendings_update f2 d) = role_exists d"
  "role_exists (t_reservations_update f3 d) = role_exists d"
  "role_exists (t_socials_update f4 d) = role_exists d"
  "role_exists (t_refreshes_update f5 d) = role_exists d"
  "role_exists (t_verifs_update f6 d) = role_exists d"
  "role_exists (t_resets_update f7 d) = role_exists d"
  "role_exists (t_audits_update f8 d) = role_exists d"
  "role_exists (t_roles_update f9 d) i \<longleftrightarrow> i \<in> o_id ` set (f9 (t_roles d))"
  "role_exists (t_user_roles_update f10 d) = role_exists d"
  by (auto simp: role_exists_def fun_eq_iff)

lemma audit_refs_upd [simp]:
  "audit_refs (t_creds_update f1 d) = audit_refs d"
  "audit_refs (t_pendings_update f2 d) = audit_refs d"
  "audit_refs (t_reservations_update f3 d) = audit_refs d"
  "audit_refs (t_socials_update f4 d) = audit_refs d"
  "audit_refs (t_refreshes_update f5 d) = audit_refs d"
  "audit_refs (t_verifs_update f6 d) = audit_refs d"
  "audit_refs (t_resets_update f7 d) = audit_refs d"
  "audit_refs (t_audits_update f8 d) = audit_refs d"
  "audit_refs (t_roles_update f9 d) = audit_refs d"
  "audit_refs (t_user_roles_update f10 d) = audit_refs d"
  by (auto simp: audit_refs_def user_ref_def fun_eq_iff split: option.splits)

text \<open>What has to be shown when one table changes and the others stay.\<close>

lemma db_ok_upd:
  assumes "db_ok d"
  shows "db_ok (d\<lparr>t_creds := cs\<rparr>) \<longleftrightarrow> uniq_all cred_keys cs \<and> (\<forall>r \<in> set cs. user_exists d (c_userId r))"
    "db_ok (d\<lparr>t_pendings := ps\<rparr>) \<longleftrightarrow> uniq_all pending_keys ps \<and> (\<forall>r \<in> set ps. user_exists d (p_userId r))"
    "db_ok (d\<lparr>t_reservations := vs\<rparr>) \<longleftrightarrow> uniq_all reservation_keys vs"
    "db_ok (d\<lparr>t_socials := ss\<rparr>) \<longleftrightarrow> uniq_all social_keys ss \<and> (\<forall>r \<in> set ss. user_exists d (s_userId r))"
    "db_ok (d\<lparr>t_refreshes := rs\<rparr>) \<longleftrightarrow> uniq_all refresh_keys rs \<and> (\<forall>r \<in> set rs. user_exists d (r_userId r))"
    "db_ok (d\<lparr>t_verifs := es\<rparr>) \<longleftrightarrow> uniq_all verif_keys es \<and> (\<forall>r \<in> set es. user_exists d (e_userId r))"
    "db_ok (d\<lparr>t_resets := ws\<rparr>) \<longleftrightarrow> uniq_all reset_keys ws \<and> (\<forall>r \<in> set ws. user_exists d (w_userId r))"
    "db_ok (d\<lparr>t_audits := as\<rparr>) \<longleftrightarrow> uniq_all audit_keys as \<and> (\<forall>r \<in> set as. audit_refs d r)"
    "db_ok (d\<lparr>t_user_roles := ls\<rparr>) \<longleftrightarrow> uniq_all user_role_keys ls
       \<and> (\<forall>r \<in> set ls. user_exists d (l_userId r) \<and> role_exists d (l_roleId r))"
  using assms by (simp_all add: db_ok_def keys_ok_def refs_ok_def cong: conj_cong)

end
