(* ===== verification/Statements.thy ===== *)
theory Statements
  imports Schema
begin

text \<open>
  The SQL statements the stores issue, over the tables of \<open>Schema\<close>: checked inserts,
  \<^verbatim>\<open>INSERT ... ON CONFLICT\<close>, row updates that report their row count, deletes, the cascading delete
  of users and the cascading change of a user's id. Every statement keeps \<open>db_ok\<close>.
\<close>

section \<open>Inserts\<close>

definition UNIQUE_VIOLATION :: exn where
  "UNIQUE_VIOLATION = DBAPIError (Some (lit ''23505''))"

definition FOREIGN_KEY_VIOLATION :: exn where
  "FOREIGN_KEY_VIOLATION = DBAPIError (Some (lit ''23503''))"

definition NUMERIC_OUT_OF_RANGE :: exn where
  "NUMERIC_OUT_OF_RANGE = DBAPIError (Some (lit ''22003''))"

definition checked :: "bool \<Rightarrow> bool \<Rightarrow> db \<Rightarrow> exn + (unit \<times> db)" where
  "checked clash refs d' =
     (if clash then Inl UNIQUE_VIOLATION
      else if \<not> refs then Inl FOREIGN_KEY_VIOLATION
      else Inr ((), d'))"

definition insert_user :: "UserRow \<Rightarrow> (db, unit) tx" where
  "insert_user r = (\<lambda>d. checked (taken user_keys r (t_users d)) True
     (d\<lparr>t_users := t_users d @ [r]\<rparr>))"

definition insert_cred :: "CredRow \<Rightarrow> (db, unit) tx" where
  "insert_cred r = (\<lambda>d. checked (taken cred_keys r (t_creds d)) (user_exists d (c_userId r))
     (d\<lparr>t_creds := t_creds d @ [r]\<rparr>))"

definition insert_pending :: "PendingRow \<Rightarrow> (db, unit) tx" where
  "insert_pending r = (\<lambda>d. checked (taken pending_keys r (t_pendings d)) (user_exists d (p_userId r))
     (d\<lparr>t_pendings := t_pendings d @ [r]\<rparr>))"

definition insert_social :: "SocialRow \<Rightarrow> (db, unit) tx" where
  "insert_social r = (\<lambda>d. checked (taken social_keys r (t_socials d)) (user_exists d (s_userId r))
     (d\<lparr>t_socials := t_socials d @ [r]\<rparr>))"

definition insert_refresh :: "RefreshRow \<Rightarrow> (db, unit) tx" where
  "insert_refresh r = (\<lambda>d. checked (taken refresh_keys r (t_refreshes d)) (user_exists d (r_userId r))
     (d\<lparr>t_refreshes := t_refreshes d @ [r]\<rparr>))"

definition insert_verif :: "VerifRow \<Rightarrow> (db, unit) tx" where
  "insert_verif r = (\<lambda>d. checked (taken verif_keys r (t_verifs d)) (user_exists d (e_userId r))
     (d\<lparr>t_verifs := t_verifs d @ [r]\<rparr>))"

definition insert_reset :: "ResetRow \<Rightarrow> (db, unit) tx" where
  "insert_reset r = (\<lambda>d. checked (taken reset_keys r (t_resets d)) (user_exists d (w_userId r))
     (d\<lparr>t_resets := t_resets d @ [r]\<rparr>))"

definition insert_audit :: "AuditRow \<Rightarrow> (db, unit) tx" where
  "insert_audit r = (\<lambda>d. checked (taken audit_keys r (t_audits d)) (audit_refs d r)
     (d\<lparr>t_audits := t_audits d @ [r]\<rparr>))"

definition insert_role :: "RoleRow \<Rightarrow> (db, unit) tx" where
  "insert_role r = (\<lambda>d. checked (taken role_keys r (t_roles d)) True
     (d\<lparr>t_roles := t_roles d @ [r]\<rparr>))"

definition insert_user_role :: "UserRoleRow \<Rightarrow> (db, unit) tx" where
  "insert_user_role r = (\<lambda>d. checked (taken user_role_keys r (t_user_roles d))
     (user_exists d (l_userId r) \<and> role_exists d (l_roleId r))
     (d\<lparr>t_user_roles := t_user_roles d @ [r]\<rparr>))"

text \<open>\<^verbatim>\<open>ON CONFLICT (cols) DO NOTHING\<close>: a row with the same conflict columns makes the insert
  report zero rows; every other constraint still applies.\<close>

definition insert_role_if_absent :: "RoleRow \<Rightarrow> (db, nat) tx" where
  "insert_role_if_absent r =
     bindT (readT (\<lambda>d. \<exists>s \<in> set (t_roles d). o_serviceKey s = o_serviceKey r \<and> o_name s = o_name r))
       (\<lambda>present. if present then retT 0 else bindT (insert_role r) (\<lambda>_. retT 1))"

definition insert_user_role_if_absent :: "UserRoleRow \<Rightarrow> (db, nat) tx" where
  "insert_user_role_if_absent r =
     bindT (readT (\<lambda>d. \<exists>s \<in> set (t_user_roles d). l_userId s = l_userId r \<and> l_roleId s = l_roleId r))
       (\<lambda>present. if present then retT 0 else bindT (insert_user_role r) (\<lambda>_. retT 1))"

section \<open>Updates and deletes\<close>

definition update_creds :: "(CredRow \<Rightarrow> bool) \<Rightarrow> (CredRow \<Rightarrow> CredRow) \<Rightarrow> (db, nat) tx" where
  "update_creds p f = (\<lambda>d. Inr (count_rows p (t_creds d), d\<lparr>t_creds := update_rows p f (t_creds d)\<rparr>))"

definition update_refreshes :: "(RefreshRow \<Rightarrow> bool) \<Rightarrow> (RefreshRow \<Rightarrow> RefreshRow) \<Rightarrow> (db, nat) tx" where
  "update_refreshes p f =
     (\<lambda>d. Inr (count_rows p (t_refreshes d), d\<lparr>t_refreshes := update_rows p f (t_refreshes d)\<rparr>))"

definition update_verifs :: "(VerifRow \<Rightarrow> bool) \<Rightarrow> (VerifRow \<Rightarrow> VerifRow) \<Rightarrow> (db, nat) tx" where
  "update_verifs p f = (\<lambda>d. Inr (count_rows p (t_verifs d), d\<lparr>t_verifs := update_rows p f (t_verifs d)\<rparr>))"

definition update_resets :: "(ResetRow \<Rightarrow> bool) \<Rightarrow> (ResetRow \<Rightarrow> ResetRow) \<Rightarrow> (db, nat) tx" where
  "update_resets p f = (\<lambda>d. Inr (count_rows p (t_resets d), d\<lparr>t_resets := update_rows p f (t_resets d)\<rparr>))"

definition update_users :: "(UserRow \<Rightarrow> bool) \<Rightarrow> (UserRow \<Rightarrow> UserRow) \<Rightarrow> (db, nat) tx" where
  "update_users p f = (\<lambda>d. Inr (count_rows p (t_users d), d\<lparr>t_users := update_rows p f (t_users d)\<rparr>))"

definition delete_pendings :: "(PendingRow \<Rightarrow> bool) \<Rightarrow> (db, nat) tx" where
  "delete_pendings p =
     (\<lambda>d. Inr (count_rows p (t_pendings d), d\<lparr>t_pendings := filter (\<lambda>r. \<not> p r) (t_pendings d)\<rparr>))"

definition delete_refreshes :: "(RefreshRow \<Rightarrow> bool) \<Rightarrow> (db, nat) tx" where
  "delete_refreshes p =
     (\<lambda>d. Inr (count_rows p (t_refreshes d), d\<lparr>t_refreshes := filter (\<lambda>r. \<not> p r) (t_refreshes d)\<rparr>))"

definition delete_audits :: "(AuditRow \<Rightarrow> bool) \<Rightarrow> (db, nat) tx" where
  "delete_audits p =
     (\<lambda>d. Inr (count_rows p (t_audits d), d\<lparr>t_audits := filter (\<lambda>r. \<not> p r) (t_audits d)\<rparr>))"

definition delete_user_roles :: "(UserRoleRow \<Rightarrow> bool) \<Rightarrow> (db, nat) tx" where
  "delete_user_roles p =
     (\<lambda>d. Inr (count_rows p (t_user_roles d), d\<lparr>t_user_roles := filter (\<lambda>r. \<not> p r) (t_user_roles d)\<rparr>))"

text \<open>\<^verbatim>\<open>ON DELETE CASCADE\<close> for rows owned by a user, \<^verbatim>\<open>SET NULL\<close> for audit references.\<close>

definition cleared :: "pystr set \<Rightarrow> pystr option \<Rightarrow> pystr option" where
  "cleared gone i = (case i of None \<Rightarrow> None | Some j \<Rightarrow> if j \<in> gone then None else Some j)"

definition delete_users :: "(UserRow \<Rightarrow> bool) \<Rightarrow> (db, nat) tx" where
  "delete_users p = (\<lambda>d.
     let gone = u_id ` set (filter p (t_users d)) in
     Inr (count_rows p (t_users d),
       \<lparr>t_users = filter (\<lambda>r. \<not> p r) (t_users d),
        t_creds = filter (\<lambda>r. c_userId r \<notin> gone) (t_creds d),
        t_pendings = filter (\<lambda>r. p_userId r \<notin> gone) (t_pendings d),
        t_reservations = t_reservations d,
        t_socials = filter (\<lambda>r. s_userId r \<notin> gone) (t_socials d),
        t_refreshes = filter (\<lambda>r. r_userId r \<notin> gone) (t_refreshes d),
        t_verifs = filter (\<lambda>r. e_userId r \<notin> gone) (t_verifs d),
        t_resets = filter (\<lambda>r. w_userId r \<notin> gone) (t_resets d),
        t_audits = map (\<lambda>r. r\<lparr>a_userId := cleared gone (a_userId r),
                               a_actorUserId := cleared gone (a_actorUserId r),
                               a_targetUserId := cleared gone (a_targetUserId r)\<rparr>) (t_audits d),
        t_roles = t_roles d,
        t_user_roles = filter (\<lambda>r. l_userId r \<notin> gone) (t_user_roles d)\<rparr>))"

text \<open>\<^verbatim>\<open>ON UPDATE CASCADE\<close>: the id of the one user with id \<open>old\<close> becomes \<open>new\<close> in every
  table, unless another user has it.\<close>

definition renamed :: "pystr \<Rightarrow> pystr \<Rightarrow> pystr \<Rightarrow> pystr" where
  "renamed old new i = (if i = old then new else i)"

definition rename_all :: "pystr \<Rightarrow> pystr \<Rightarrow> db \<Rightarrow> db" where
  "rename_all old new d =
     \<lparr>t_users = map (\<lambda>r. r\<lparr>u_id := renamed old new (u_id r)\<rparr>) (t_users d),
      t_creds = map (\<lambda>r. r\<lparr>c_userId := renamed old new (c_userId r)\<rparr>) (t_creds d),
      t_pendings = map (\<lambda>r. r\<lparr>p_userId := renamed old new (p_userId r)\<rparr>) (t_pendings d),
      t_reservations = t_reservations d,
      t_socials = map (\<lambda>r. r\<lparr>s_userId := renamed old new (s_userId r)\<rparr>) (t_socials d),
      t_refreshes = map (\<lambda>r. r\<lparr>r_userId := renamed old new (r_userId r)\<rparr>) (t_refreshes d),
      t_verifs = map (\<lambda>r. r\<lparr>e_userId := renamed old new (e_userId r)\<rparr>) (t_verifs d),
      t_resets = map (\<lambda>r. r\<lparr>w_userId := renamed old new (w_userId r)\<rparr>) (t_resets d),
      t_audits = map (\<lambda>r. r\<lparr>a_userId := map_option (renamed old new) (a_userId r),
                             a_actorUserId := map_option (renamed old new) (a_actorUserId r),
                             a_targetUserId := map_option (renamed old new) (a_targetUserId r)\<rparr>) (t_audits d),
      t_roles = t_roles d,
      t_user_roles = map (\<lambda>r. r\<lparr>l_userId := renamed old new (l_userId r)\<rparr>) (t_user_roles d)\<rparr>"

definition rename_user_id :: "pystr \<Rightarrow> pystr \<Rightarrow> (db, unit) tx" where
  "rename_user_id old new = (\<lambda>d.
     if \<not> user_exists d old then Inr ((), d)
     else if new \<noteq> old \<and> user_exists d new then Inl UNIQUE_VIOLATION
     else Inr ((), rename_all old new d))"

section \<open>Every statement keeps the constraints\<close>

lemma checked_Inr: "checked clash refs d1 = Inr (u, d') \<longleftrightarrow> \<not> clash \<and> refs \<and> d' = d1"
  by (auto simp: checked_def)

lemma db_ok_users_superset:
  assumes "db_ok d" "uniq_all user_keys us" "u_id ` set (t_users d) \<subseteq> u_id ` set us"
  shows "db_ok (d\<lparr>t_users := us\<rparr>)"
proof -
  have u: "user_exists (d\<lparr>t_users := us\<rparr>) i" if "user_exists d i" for i
    using that assms(3) by (auto simp: user_exists_def)
  have "user_ref (d\<lparr>t_users := us\<rparr>) i" if "user_ref d i" for i
    using that u by (cases i) (auto simp del: user_exists_upd)
  then have "audit_refs (d\<lparr>t_users := us\<rparr>) r" if "audit_refs d r" for r
    using that by (simp add: audit_refs_def)
  then show ?thesis
    using assms(1,2) u
    by (simp add: db_ok_def keys_ok_def refs_ok_def del: user_exists_upd) 
qed

lemma db_ok_roles_superset:
  assumes "db_ok d" "uniq_all role_keys os" "o_id ` set (t_roles d) \<subseteq> o_id ` set os"
  shows "db_ok (d\<lparr>t_roles := os\<rparr>)"
proof -
  have "role_exists (d\<lparr>t_roles := os\<rparr>) i" if "role_exists d i" for i
    using that assms(3) by (auto simp: role_exists_def)
  then show ?thesis
    using assms(1,2) by (simp add: db_ok_def keys_ok_def refs_ok_def del: role_exists_upd)
qed

lemma db_okD:
  assumes "db_ok d"
  shows "uniq_all user_keys (t_users d)" "uniq_all cred_keys (t_creds d)"
    "uniq_all pending_keys (t_pendings d)" "uniq_all social_keys (t_socials d)"
    "uniq_all refresh_keys (t_refreshes d)" "uniq_all verif_keys (t_verifs d)"
    "uniq_all reset_keys (t_resets d)" "uniq_all audit_keys (t_audits d)"
    "uniq_all role_keys (t_roles d)" "uniq_all user_role_keys (t_user_roles d)"
    "uniq_all reservation_keys (t_reservations d)"
    "\<And>r. r \<in> set (t_creds d) \<Longrightarrow> user_exists d (c_userId r)"
    "\<And>r. r \<in> set (t_pendings d) \<Longrightarrow> user_exists d (p_userId r)"
    "\<And>r. r \<in> set (t_socials d) \<Longrightarrow> user_exists d (s_userId r)"
    "\<And>r. r \<in> set (t_refreshes d) \<Longrightarrow> user_exists d (r_userId r)"
    "\<And>r. r \<in> set (t_verifs d) \<Longrightarrow> user_exists d (e_userId r)"
    "\<And>r. r \<in> set (t_resets d) \<Longrightarrow> user_exists d (w_userId r)"
    "\<And>r. r \<in> set (t_audits d) \<Longrightarrow> audit_refs d r"
    "\<And>r. r \<in> set (t_user_roles d) \<Longrightarrow> user_exists d (l_userId r)"
    "\<And>r. r \<in> set (t_user_roles d) \<Longrightarrow> role_exists d (l_roleId r)"
  using assms by (auto simp: db_ok_def keys_ok_def refs_ok_def)

lemmas insert_defs = insert_cred_def insert_pending_def insert_social_def insert_refresh_def
  insert_verif_def insert_reset_def insert_audit_def insert_user_role_def insert_user_def insert_role_def

lemma keeps_inserts [keeps_intros]:
  "keepsT db_ok (insert_cred c)"
  "keepsT db_ok (insert_pending p)"
  "keepsT db_ok (insert_social s)"
  "keepsT db_ok (insert_refresh r)"
  "keepsT db_ok (insert_verif e)"
  "keepsT db_ok (insert_reset w)"
  "keepsT db_ok (insert_audit a)"
  "keepsT db_ok (insert_user_role l)"
  by (intro keepsTI; simp add: insert_defs checked_Inr db_ok_upd db_okD)+

lemma keeps_insert_user [keeps_intros]: "keepsT db_ok (insert_user r)"
  by (intro keepsTI) (auto simp: insert_defs checked_Inr db_okD intro!: db_ok_users_superset)

lemma keeps_insert_role [keeps_intros]: "keepsT db_ok (insert_role r)"
  by (intro keepsTI) (auto simp: insert_defs checked_Inr db_okD intro!: db_ok_roles_superset)

lemma keeps_inserts_if_absent [keeps_intros]:
  "keepsT db_ok (insert_role_if_absent o1)"
  "keepsT db_ok (insert_user_role_if_absent l)"
  by (simp_all add: insert_role_if_absent_def insert_user_role_if_absent_def keeps_intros)

lemma cred_keys_all: "(\<forall>k \<in> set cred_keys. P k) \<longleftrightarrow>
    P (\<lambda>r. Some [c_id r]) \<and> P (\<lambda>r. Some [c_userId r]) \<and> P (\<lambda>r. Some [c_email r])"
  by (simp add: cred_keys_def)

lemma refresh_keys_all: "(\<forall>k \<in> set refresh_keys. P k) \<longleftrightarrow> P (\<lambda>r. Some [r_id r])"
  by (simp add: refresh_keys_def)

lemma verif_keys_all: "(\<forall>k \<in> set verif_keys. P k) \<longleftrightarrow>
    P (\<lambda>r. Some [e_id r]) \<and> P (\<lambda>r. Some [e_tokenHash r])"
  by (simp add: verif_keys_def)

lemma reset_keys_all: "(\<forall>k \<in> set reset_keys. P k) \<longleftrightarrow>
    P (\<lambda>r. Some [w_id r]) \<and> P (\<lambda>r. Some [w_tokenHash r])"
  by (simp add: reset_keys_def)

lemma user_keys_all: "(\<forall>k \<in> set user_keys. P k) \<longleftrightarrow>
    P (\<lambda>r. Some [u_id r]) \<and> P (\<lambda>r. map_option (\<lambda>e. [e]) (u_email r))"
  by (simp add: user_keys_def)

lemma pending_keys_all: "(\<forall>k \<in> set pending_keys. P k) \<longleftrightarrow>
    P (\<lambda>r. Some [p_id r]) \<and> P (\<lambda>r. Some [p_userId r]) \<and> P (\<lambda>r. Some [p_email r])"
  by (simp add: pending_keys_def)

lemma social_keys_all: "(\<forall>k \<in> set social_keys. P k) \<longleftrightarrow>
    P (\<lambda>r. Some [s_id r]) \<and> P (\<lambda>r. Some [s_provider r, s_providerUserId r])"
  by (simp add: social_keys_def)

lemma audit_keys_all: "(\<forall>k \<in> set audit_keys. P k) \<longleftrightarrow> P (\<lambda>r. Some [a_id r])"
  by (simp add: audit_keys_def)

lemma user_role_keys_all: "(\<forall>k \<in> set user_role_keys. P k) \<longleftrightarrow>
    P (\<lambda>r. Some [l_id r]) \<and> P (\<lambda>r. Some [l_userId r, l_roleId r])"
  by (simp add: user_role_keys_def)

lemma table_update:
  assumes "uniq_all ks rs" "\<And>r. r \<in> set rs \<Longrightarrow> Q (g r)"
    and "\<And>r. p r \<Longrightarrow> \<forall>k \<in> set ks. k (f r) = k r" "\<And>r. p r \<Longrightarrow> g (f r) = g r"
  shows "uniq_all ks (update_rows p f rs) \<and> (\<forall>r \<in> set (update_rows p f rs). Q (g r))"
  using assms by (auto simp: uniq_all_update_same in_update_rows)

lemma keeps_update_creds [keeps_intros]:
  assumes "\<And>r. p r \<Longrightarrow> c_id (f r) = c_id r \<and> c_userId (f r) = c_userId r \<and> c_email (f r) = c_email r"
  shows "keepsT db_ok (update_creds p f)"
proof (rule keepsTI)
  fix d n d' assume ok: "db_ok d" and r: "update_creds p f d = Inr (n, d')"
  have "uniq_all cred_keys (update_rows p f (t_creds d))
      \<and> (\<forall>r \<in> set (update_rows p f (t_creds d)). user_exists d (c_userId r))"
    by (rule table_update) (auto simp: db_okD(2,12) [OF ok] cred_keys_all assms)
  with r show "db_ok d'" by (auto simp: update_creds_def db_ok_upd ok)
qed

lemma keeps_update_refreshes [keeps_intros]:
  assumes "\<And>r. p r \<Longrightarrow> r_id (f r) = r_id r \<and> r_userId (f r) = r_userId r"
  shows "keepsT db_ok (update_refreshes p f)"
proof (rule keepsTI)
  fix d n d' assume ok: "db_ok d" and r: "update_refreshes p f d = Inr (n, d')"
  have "uniq_all refresh_keys (update_rows p f (t_refreshes d))
      \<and> (\<forall>r \<in> set (update_rows p f (t_refreshes d)). user_exists d (r_userId r))"
    by (rule table_update) (auto simp: db_okD(5,15) [OF ok] refresh_keys_all assms)
  with r show "db_ok d'" by (auto simp: update_refreshes_def db_ok_upd ok)
qed

lemma keeps_update_verifs [keeps_intros]:
  assumes "\<And>r. p r \<Longrightarrow> e_id (f r) = e_id r \<and> e_userId (f r) = e_userId r \<and> e_tokenHash (f r) = e_tokenHash r"
  shows "keepsT db_ok (update_verifs p f)"
proof (rule keepsTI)
  fix d n d' assume ok: "db_ok d" and r: "update_verifs p f d = Inr (n, d')"
  have "uniq_all verif_keys (update_rows p f (t_verifs d))
      \<and> (\<forall>r \<in> set (update_rows p f (t_verifs d)). user_exists d (e_userId r))"
    by (rule table_update) (auto simp: db_okD(6,16) [OF ok] verif_keys_all assms)
  with r show "db_ok d'" by (auto simp: update_verifs_def db_ok_upd ok)
qed

lemma keeps_update_resets [keeps_intros]:
  assumes "\<And>r. p r \<Longrightarrow> w_id (f r) = w_id r \<and> w_userId (f r) = w_userId r \<and> w_tokenHash (f r) = w_tokenHash r"
  shows "keepsT db_ok (update_resets p f)"
proof (rule keepsTI)
  fix d n d' assume ok: "db_ok d" and r: "update_resets p f d = Inr (n, d')"
  have "uniq_all reset_keys (update_rows p f (t_resets d))
      \<and> (\<forall>r \<in> set (update_rows p f (t_resets d)). user_exists d (w_userId r))"
    by (rule table_update) (auto simp: db_okD(7,17) [OF ok] reset_keys_all assms)
  with r show "db_ok d'" by (auto simp: update_resets_def db_ok_upd ok)
qed

lemma keeps_update_users [keeps_intros]:
  assumes "\<And>r. p r \<Longrightarrow> u_id (f r) = u_id r \<and> u_email (f r) = u_email r"
  shows "keepsT db_ok (update_users p f)"
proof (rule keepsTI)
  fix d n d' assume ok: "db_ok d" and r: "update_users p f d = Inr (n, d')"
  have "u_id ` set (update_rows p f (t_users d)) = u_id ` set (t_users d)"
    by (rule image_update_rows_same) (simp add: assms)
  moreover have "uniq_all user_keys (update_rows p f (t_users d))"
    using db_okD(1) [OF ok] by (subst uniq_all_update_same) (auto simp: user_keys_def assms)
  ultimately have "db_ok (d\<lparr>t_users := update_rows p f (t_users d)\<rparr>)"
    by (intro db_ok_users_superset ok) simp_all
  with r show "db_ok d'" by (simp add: update_users_def)
qed

lemma keeps_deletes [keeps_intros]:
  "keepsT db_ok (delete_pendings p1)"
  "keepsT db_ok (delete_refreshes p2)"
  "keepsT db_ok (delete_audits p3)"
  "keepsT db_ok (delete_user_roles p4)"
  by (intro keepsTI; clarsimp simp: delete_pendings_def delete_refreshes_def delete_audits_def
      delete_user_roles_def db_ok_upd; simp add: db_okD uniq_all_filter)+

lemma keeps_delete_users [keeps_intros]: "keepsT db_ok (delete_users p)"
proof (rule keepsTI)
  fix d n d' assume ok: "db_ok d" and r: "delete_users p d = Inr (n, d')"
  define gone where "gone = u_id ` set (filter p (t_users d))"
  note r = r [unfolded delete_users_def Let_def gone_def [symmetric], simplified, THEN conjunct2, symmetric]
  have ex: "user_exists d' i" if i: "user_exists d i" "i \<notin> gone" for i
  proof -
    from i(1) obtain x where x: "x \<in> set (t_users d)" "u_id x = i" by (auto simp: user_exists_def)
    with i(2) have "\<not> p x" by (auto simp: gone_def)
    with x show ?thesis by (auto simp: r user_exists_def)
  qed
  have ro: "role_exists d' i = role_exists d i" for i
    by (simp add: r role_exists_def)
  have cl: "user_ref d' (cleared gone i)" if "user_ref d i" for i
    using that ex by (cases i) (auto simp: cleared_def)
  have "uniq_all audit_keys (map f (t_audits d))" if "\<And>x. a_id (f x) = a_id x" for f
    using db_okD(8) [OF ok] that by (subst uniq_all_map_same) (auto simp: audit_keys_def)
  then have "keys_ok d'"
    unfolding keys_ok_def by (simp add: r db_okD [OF ok] uniq_all_filter)
  moreover have "refs_ok d'"
    unfolding refs_ok_def ro
    by (auto simp: r db_okD(12-17,19-20) [OF ok] audit_refs_def
        intro!: ex [unfolded r] cl [unfolded r]
        dest: db_okD(18) [OF ok, unfolded audit_refs_def])
  ultimately show "db_ok d'" by (simp add: db_ok_def)
qed

lemma renamed_inj:
  "renamed old new i = renamed old new j \<Longrightarrow> i \<noteq> new \<Longrightarrow> j \<noteq> new \<Longrightarrow> i = j"
  by (auto simp: renamed_def split: if_splits)

lemma uniq_all_map_inj:
  assumes "uniq_all ks rs"
    and "\<And>r s. r \<in> set rs \<Longrightarrow> s \<in> set rs \<Longrightarrow>
       \<forall>k \<in> set ks. k (f r) = k (f s) \<longrightarrow> k (f r) \<noteq> None \<longrightarrow> k r = k s \<and> k r \<noteq> None"
  shows "uniq_all ks (map f rs)"
  unfolding uniq_all_def by (intro ballI uniq_map_inj) (use assms in \<open>auto simp: uniq_all_def\<close>)

lemma keeps_rename_user_id [keeps_intros]: "keepsT db_ok (rename_user_id old new)"
proof (rule keepsTI)
  fix d n d' assume ok: "db_ok d" and r: "rename_user_id old new d = Inr (n, d')"
  show "db_ok d'"
  proof (cases "user_exists d old")
    case False
    with r ok show ?thesis by (simp add: rename_user_id_def)
  next
    case True
    with r have d': "d' = rename_all old new d" and new: "new \<noteq> old \<Longrightarrow> \<not> user_exists d new"
      by (auto simp: rename_user_id_def split: if_splits)
    have inj: "i = j" if "renamed old new i = renamed old new j" "user_exists d i" "user_exists d j" for i j
      using that new by (auto simp: renamed_def split: if_splits)
    have ex: "user_exists d' (renamed old new i)" if "user_exists d i" for i
      using that by (auto simp: d' rename_all_def user_exists_def image_image)
    have ref: "user_ref d' (map_option (renamed old new) i)" if "user_ref d i" for i
      using that ex by (cases i) auto
    have ro: "role_exists d' i = role_exists d i" for i
      by (simp add: d' rename_all_def role_exists_def)
    have uid: "user_exists d (u_id r)" if "r \<in> set (t_users d)" for r
      using that by (auto simp: user_exists_def)
    have "uniq_all user_keys (t_users d')"
      unfolding d' rename_all_def db.simps
      by (rule uniq_all_map_inj) (auto simp: user_keys_all db_okD(1) [OF ok] dest: inj uid)
    moreover have "uniq_all cred_keys (t_creds d')"
      unfolding d' rename_all_def db.simps
      by (rule uniq_all_map_inj) (auto simp: cred_keys_all db_okD(2,12) [OF ok] dest!: inj)
    moreover have "uniq_all pending_keys (t_pendings d')"
      unfolding d' rename_all_def db.simps
      by (rule uniq_all_map_inj) (auto simp: pending_keys_all db_okD(3,13) [OF ok] dest!: inj)
    moreover have "uniq_all social_keys (t_socials d')"
      unfolding d' rename_all_def db.simps
      by (rule uniq_all_map_inj) (auto simp: social_keys_all db_okD(4) [OF ok])
    moreover have "uniq_all refresh_keys (t_refreshes d')"
      unfolding d' rename_all_def db.simps
      by (rule uniq_all_map_inj) (auto simp: refresh_keys_all db_okD(5) [OF ok])
    moreover have "uniq_all verif_keys (t_verifs d')"
      unfolding d' rename_all_def db.simps
      by (rule uniq_all_map_inj) (auto simp: verif_keys_all db_okD(6) [OF ok])
    moreover have "uniq_all reset_keys (t_resets d')"
      unfolding d' rename_all_def db.simps
      by (rule uniq_all_map_inj) (auto simp: reset_keys_all db_okD(7) [OF ok])
    moreover have "uniq_all audit_keys (t_audits d')"
      unfolding d' rename_all_def db.simps
      by (rule uniq_all_map_inj) (auto simp: audit_keys_all db_okD(8) [OF ok])
    moreover have "uniq_all user_role_keys (t_user_roles d')"
      unfolding d' rename_all_def db.simps
      by (rule uniq_all_map_inj) (auto simp: user_role_keys_all db_okD(10,19) [OF ok] dest!: inj)
    ultimately have "keys_ok d'"
      by (simp add: keys_ok_def) (simp add: d' rename_all_def db_okD(9,11) [OF ok])
    moreover have "refs_ok d'"
      unfolding refs_ok_def ro
      by (auto simp: d' rename_all_def db_okD(12-17,19-20) [OF ok] audit_refs_def
          intro!: ex [unfolded d' rename_all_def] ref [unfolded d' rename_all_def]
          dest: db_okD(18) [OF ok, unfolded audit_refs_def])
    ultimately show ?thesis by (simp add: db_ok_def)
  qed
qed

end
