(* ===== verification/Store_Password.thy ===== *)
theory Store_Password
  imports Statements
begin

text \<open>
  The password, login and session stores of \<^verbatim>\<open>persistence/stores.py\<close>: \<^verbatim>\<open>UserReadStore\<close>,
  \<^verbatim>\<open>PasswordAuthStore\<close>, \<^verbatim>\<open>FailedLoginStore\<close>, \<^verbatim>\<open>TokenIssueStore\<close>, \<^verbatim>\<open>RefreshRotationStore\<close> and
  \<^verbatim>\<open>LogoutStore\<close>. \<^verbatim>\<open>SELECT ... LIMIT 1\<close> takes the first matching row; \<^verbatim>\<open>FOR UPDATE\<close> has no effect on a
  transaction that runs alone. The instants and identifiers a caller prepares are arguments.
\<close>

section \<open>Reading users\<close>

definition require_one :: "nat \<Rightarrow> string \<Rightarrow> (db, unit) tx" where
  "require_one rowcount operation =
     (if rowcount \<noteq> 1 then raiseT (RuntimeError (lit operation @ lit '' count was not one'')) else retT ())"

text \<open>An \<^verbatim>\<open>INSERT\<close> that does not raise affects one row.\<close>

definition inserted :: "(db, unit) tx \<Rightarrow> string \<Rightarrow> (db, unit) tx" where
  "inserted statement operation = bindT statement (\<lambda>_. require_one 1 operation)"

definition roles_of :: "db \<Rightarrow> pystr \<Rightarrow> Role list" where
  "roles_of d user_id =
     concat (map (\<lambda>l. map (\<lambda>r. \<lparr>role_service_key = o_serviceKey r, role_name = o_name r\<rparr>)
                        (filter (\<lambda>r. o_id r = l_roleId l) (t_roles d)))
                 (filter (\<lambda>l. l_userId l = user_id) (t_user_roles d)))"

definition with_roles :: "UserRow \<Rightarrow> db \<Rightarrow> CurrentUserWithStatus" where
  "with_roles u d =
     \<lparr>cu_id = u_id u, cu_email = u_email u, cu_email_verified = u_emailVerified u, cu_name = u_name u,
      cu_roles = roles_of d (u_id u), cu_status = u_status u\<rparr>"

definition find_by_email :: "pystr \<Rightarrow> (db, CurrentUserWithStatus option) tx" where
  "find_by_email email = readT (\<lambda>d.
     map_option (\<lambda>u. with_roles u d) (find (\<lambda>u. u_email u = Some email) (t_users d)))"

definition find_current_active :: "pystr \<Rightarrow> (db, CurrentUserWithStatus option) tx" where
  "find_current_active user_id = readT (\<lambda>d.
     map_option (\<lambda>u. with_roles u d) (find (\<lambda>u. u_id u = user_id \<and> u_status u = ACTIVE) (t_users d)))"

definition find_current :: "pystr \<Rightarrow> (db, CurrentUserWithStatus option) tx" where
  "find_current user_id = readT (\<lambda>d.
     map_option (\<lambda>u. with_roles u d) (find (\<lambda>u. u_id u = user_id) (t_users d)))"

section \<open>Password credentials\<close>

record PasswordRegistration =
  reg_user_id :: pystr
  reg_credential_id :: pystr
  reg_email :: pystr
  reg_name :: "pystr option"
  reg_password_hash :: pystr
  reg_status :: UserStatus
  reg_created_at :: int
  reg_updated_at :: int

record PendingPasswordUpsert =
  pend_id :: pystr
  pend_user_id :: pystr
  pend_email :: pystr
  pend_password_hash :: pystr
  pend_expires_at :: int
  pend_created_at :: int
  pend_updated_at :: int

definition find_credential_by_email :: "pystr \<Rightarrow> (db, PasswordCredentialRecord option) tx" where
  "find_credential_by_email email = readT (\<lambda>d.
     (case find (\<lambda>c. c_email c = email \<and> user_exists d (c_userId c)) (t_creds d) of
        None \<Rightarrow> None
      | Some c \<Rightarrow>
          (case find (\<lambda>u. u_id u = c_userId c) (t_users d) of
             None \<Rightarrow> None
           | Some u \<Rightarrow> Some \<lparr>pc_user_id = c_userId c, pc_email = c_email c,
               pc_password_hash = c_passwordHash c, pc_failed_login_count = c_failedLoginCount c,
               pc_locked_until = c_lockedUntil c, pc_user_status = u_status u\<rparr>)))"

definition create_user_with_password ::
  "(pystr \<Rightarrow> pystr) \<Rightarrow> PasswordRegistration \<Rightarrow> (db, unit) tx" where
  "create_user_with_password uni reg =
     bindT (inserted (insert_user
        \<lparr>u_id = reg_user_id reg, u_email = Some (reg_email reg), u_name = reg_name reg,
         u_profileUrl = None, u_status = reg_status reg, u_createdAt = reg_created_at reg,
         u_updatedAt = reg_updated_at reg, u_emailVerified = False\<rparr>) ''user registration insert'')
     (\<lambda>_. inserted (insert_cred
        \<lparr>c_id = reg_credential_id reg, c_userId = reg_user_id reg,
         c_email = py_lower uni (reg_email reg), c_passwordHash = reg_password_hash reg,
         c_failedLoginCount = 0, c_lockedUntil = None, c_passwordUpdatedAt = reg_created_at reg,
         c_createdAt = reg_created_at reg, c_updatedAt = reg_updated_at reg\<rparr>) ''password credential insert'')"

text \<open>
  \<^verbatim>\<open>INSERT ... ON CONFLICT ("userId") DO UPDATE\<close>: a row of the same user keeps its id and creation
  time; the new email must not belong to another user's pending row.
\<close>

definition upsert_pending_password ::
  "(pystr \<Rightarrow> pystr) \<Rightarrow> PendingPasswordUpsert \<Rightarrow> (db, unit) tx" where
  "upsert_pending_password uni pending = (\<lambda>d.
     let email = py_lower uni (pend_email pending);
         row = \<lparr>p_id = pend_id pending, p_userId = pend_user_id pending, p_email = email,
                p_passwordHash = pend_password_hash pending, p_expiresAt = pend_expires_at pending,
                p_createdAt = pend_created_at pending, p_updatedAt = pend_updated_at pending\<rparr>
     in
     if \<exists>r \<in> set (t_pendings d). p_userId r = pend_user_id pending
     then (if \<exists>r \<in> set (t_pendings d). p_userId r \<noteq> pend_user_id pending \<and> p_email r = email
           then Inl UNIQUE_VIOLATION
           else Inr ((), d\<lparr>t_pendings := update_rows (\<lambda>r. p_userId r = pend_user_id pending)
                  (\<lambda>r. r\<lparr>p_email := email, p_passwordHash := pend_password_hash pending,
                         p_expiresAt := pend_expires_at pending,
                         p_updatedAt := pend_updated_at pending\<rparr>) (t_pendings d)\<rparr>))
     else inserted (insert_pending row) ''pending password credential upsert'' d)"

definition store_mark_login_success :: "pystr \<Rightarrow> int \<Rightarrow> (db, unit) tx" where
  "store_mark_login_success user_id updated_at =
     bindT (update_creds (\<lambda>c. c_userId c = user_id)
              (\<lambda>c. c\<lparr>c_failedLoginCount := 0, c_lockedUntil := None, c_updatedAt := updated_at\<rparr>))
       (\<lambda>n. require_one n ''password login-success reset'')"

section \<open>Failed logins\<close>

record FailedLoginResult =
  fl_found :: bool
  fl_failed_login_count :: "int option"
  fl_locked_until :: "int option"

definition INT4_MAX :: int where
  "INT4_MAX = 2147483647"

text \<open>The counter is a 32-bit integer column: counting past its maximum is an error of the database.\<close>

definition increment_failures :: "pystr \<Rightarrow> int \<Rightarrow> (db, nat) tx" where
  "increment_failures user_id updated_at = (\<lambda>d.
     if \<exists>c \<in> set (t_creds d). c_userId c = user_id \<and> INT4_MAX < c_failedLoginCount c + 1
     then Inl NUMERIC_OUT_OF_RANGE
     else update_creds (\<lambda>c. c_userId c = user_id)
            (\<lambda>c. c\<lparr>c_failedLoginCount := c_failedLoginCount c + 1, c_updatedAt := updated_at\<rparr>) d)"

definition record_failure :: "pystr \<Rightarrow> int \<Rightarrow> int \<Rightarrow> int \<Rightarrow> (db, FailedLoginResult) tx" where
  "record_failure user_id locked_until updated_at threshold =
     (if threshold < 1 then raiseT (ValueError (lit ''threshold must be positive''))
      else bindT (increment_failures user_id updated_at) (\<lambda>incremented.
        if incremented = 0
        then retT \<lparr>fl_found = False, fl_failed_login_count = None, fl_locked_until = None\<rparr>
        else if incremented \<noteq> 1
        then raiseT (RuntimeError (lit ''password credential increment count was not one''))
        else bindT (readT (\<lambda>d. find (\<lambda>c. c_userId c = user_id) (t_creds d))) (\<lambda>row.
          case row of
            None \<Rightarrow> raiseT (RuntimeError (lit ''password credential increment did not return its count''))
          | Some incremented_row \<Rightarrow>
              bindT (update_creds (\<lambda>c. c_userId c = user_id \<and> threshold \<le> c_failedLoginCount c)
                       (\<lambda>c. c\<lparr>c_lockedUntil := Some locked_until, c_updatedAt := updated_at\<rparr>)) (\<lambda>locked.
                if locked \<noteq> 0 \<and> locked \<noteq> 1
                then raiseT (RuntimeError (lit ''password credential lock update count exceeded one''))
                else retT \<lparr>fl_found = True,
                           fl_failed_login_count = Some (c_failedLoginCount incremented_row),
                           fl_locked_until = (if locked = 1 then Some locked_until else None)\<rparr>))))"

section \<open>Refresh tokens\<close>

record RefreshTokenRecord =
  rtr_user_id :: pystr
  rtr_audience :: pystr

record RefreshReplacement =
  rr_id :: pystr
  rr_token_hash :: pystr
  rr_expires_at :: int
  rr_created_at :: int

record RefreshTokenInsert =
  rti_id :: pystr
  rti_token_hash :: pystr
  rti_audience :: pystr
  rti_expires_at :: int
  rti_created_at :: int

definition is_active_user :: "db \<Rightarrow> pystr \<Rightarrow> bool" where
  "is_active_user d user_id \<longleftrightarrow> (\<exists>u \<in> set (t_users d). u_id u = user_id \<and> u_status u = ACTIVE)"

definition issue_for_active_user ::
  "pystr \<Rightarrow> RefreshTokenInsert \<Rightarrow> (db, CurrentUserWithStatus option) tx" where
  "issue_for_active_user user_id refresh =
     bindT (readT (\<lambda>d. is_active_user d user_id)) (\<lambda>locked.
     if \<not> locked then retT None
     else bindT (find_current_active user_id) (\<lambda>found.
       case found of
         None \<Rightarrow> retT None
       | Some user \<Rightarrow>
           bindT (inserted (insert_refresh
                \<lparr>r_id = rti_id refresh, r_tokenHash = rti_token_hash refresh, r_userId = user_id,
                 r_expiresAt = rti_expires_at refresh, r_revokedAt = None,
                 r_createdAt = rti_created_at refresh, r_audience = rti_audience refresh\<rparr>)
                ''refresh token insert'')
             (\<lambda>_. retT (Some user))))"

definition live_token :: "pystr \<Rightarrow> int \<Rightarrow> RefreshRow \<Rightarrow> bool" where
  "live_token token_hash now r \<longleftrightarrow> r_tokenHash r = token_hash \<and> r_revokedAt r = None \<and> now < r_expiresAt r"

definition rotate_token ::
  "pystr \<Rightarrow> pystr \<Rightarrow> int \<Rightarrow> RefreshReplacement option \<Rightarrow>
   (RefreshTokenRecord \<Rightarrow> exn + RefreshReplacement) option \<Rightarrow> (db, RefreshTokenRecord option) tx" where
  "rotate_token old_token_hash expected_audience now replacement replacement_factory =
     (if (replacement = None) = (replacement_factory = None)
      then raiseT (ValueError (lit ''exactly one refresh replacement source is required''))
      else bindT (readT (\<lambda>d. find (\<lambda>r. r_tokenHash r = old_token_hash) (t_refreshes d))) (\<lambda>stored.
        case stored of
          None \<Rightarrow> retT None
        | Some st \<Rightarrow>
            if r_audience st \<noteq> expected_audience then retT None
            else bindT (readT (\<lambda>d. is_active_user d (r_userId st))) (\<lambda>locked_user.
              if \<not> locked_user then retT None
              else bindT (update_refreshes (live_token old_token_hash now) (\<lambda>r. r\<lparr>r_revokedAt := Some now\<rparr>)) (\<lambda>revoked.
                if revoked \<noteq> 1 then raiseT RefreshRotationConflict
                else
                  let token_record = \<lparr>rtr_user_id = r_userId st, rtr_audience = r_audience st\<rparr> in
                  bindT (liftT (case replacement_factory of
                                  Some factory \<Rightarrow> factory token_record
                                | None \<Rightarrow>
                                    (case replacement of
                                       Some r \<Rightarrow> Inr r
                                     | None \<Rightarrow> Inl (RuntimeError (lit ''refresh replacement source returned no replacement''))))) (\<lambda>new.
                  bindT (inserted (insert_refresh
                     \<lparr>r_id = rr_id new, r_tokenHash = rr_token_hash new, r_userId = r_userId st,
                      r_expiresAt = rr_expires_at new, r_revokedAt = None,
                      r_createdAt = rr_created_at new, r_audience = r_audience st\<rparr>)
                     ''refresh rotation insert'') (\<lambda>_.
                  retT (Some token_record)))))))"

definition logout_revoke :: "pystr \<Rightarrow> int \<Rightarrow> (db, pystr option) tx" where
  "logout_revoke token_hash revoked_at =
     bindT (readT (\<lambda>d. find (\<lambda>r. r_tokenHash r = token_hash \<and> r_revokedAt r = None) (t_refreshes d))) (\<lambda>stored.
     bindT (update_refreshes (\<lambda>r. r_tokenHash r = token_hash \<and> r_revokedAt r = None)
              (\<lambda>r. r\<lparr>r_revokedAt := Some revoked_at\<rparr>)) (\<lambda>_.
     retT (map_option r_userId stored)))"

section \<open>The stores keep the constraints\<close>

lemma keeps_require_one [keeps_intros]: "keepsT I (require_one n op)"
  by (simp add: require_one_def keeps_intros)

lemma keeps_inserted [keeps_intros]: "keepsT I m \<Longrightarrow> keepsT I (inserted m op)"
  by (simp add: inserted_def keeps_intros)

lemma keeps_reads [keeps_intros]:
  "keepsT I (find_by_email e)"
  "keepsT I (find_current_active i)"
  "keepsT I (find_current i)"
  "keepsT I (find_credential_by_email e)"
  by (simp_all add: find_by_email_def find_current_active_def find_current_def
      find_credential_by_email_def keeps_intros)

lemma keeps_create_user [keeps_intros]: "keepsT db_ok (create_user_with_password uni reg)"
  unfolding create_user_with_password_def by (intro keeps_intros)

lemma keeps_upsert_pending [keeps_intros]: "keepsT db_ok (upsert_pending_password uni pending)"
proof (rule keepsTI)
  fix d a d' assume ok: "db_ok d" and r: "upsert_pending_password uni pending d = Inr (a, d')"
  let ?e = "py_lower uni (pend_email pending)"
  show "db_ok d'"
  proof (cases "\<exists>r \<in> set (t_pendings d). p_userId r = pend_user_id pending")
    case False
    with r obtain row where run: "inserted (insert_pending row) ''pending password credential upsert'' d = Inr (a, d')"
      by (auto simp: upsert_pending_password_def Let_def)
    have "keepsT db_ok (inserted (insert_pending row) ''pending password credential upsert'')"
      by (intro keeps_intros)
    from keepsTD [where I = db_ok, OF this ok run] show ?thesis .
  next
    case True
    let ?f = "\<lambda>r. r\<lparr>p_email := ?e, p_passwordHash := pend_password_hash pending,
        p_expiresAt := pend_expires_at pending, p_updatedAt := pend_updated_at pending\<rparr>"
    let ?p = "\<lambda>r. p_userId r = pend_user_id pending"
    from r True have free: "\<And>r. r \<in> set (t_pendings d) \<Longrightarrow> p_email r = ?e \<Longrightarrow> ?p r"
      and d': "d' = d\<lparr>t_pendings := update_rows ?p ?f (t_pendings d)\<rparr>"
      by (auto simp: upsert_pending_password_def Let_def split: if_splits)
    have one: "r = s" if "r \<in> set (t_pendings d)" "s \<in> set (t_pendings d)" "?p r" "?p s" for r s
      using db_okD(3) [OF ok] that
      by (auto simp: uniq_all_def pending_keys_def uniq_distinct intro: distinct_map_key_eq)
    have "uniq_all pending_keys (update_rows ?p ?f (t_pendings d))"
      unfolding update_rows_def
      by (rule uniq_all_map_inj)
        (use free one in \<open>auto simp: pending_keys_all db_okD(3) [OF ok]\<close>)
    moreover have "user_exists d (pend_user_id pending)" using True db_okD(13) [OF ok] by metis
    ultimately show ?thesis
      using d' ok by (auto simp: db_ok_upd in_update_rows db_okD(13))
  qed
qed

lemma keeps_mark_success [keeps_intros]: "keepsT db_ok (store_mark_login_success i t)"
  unfolding store_mark_login_success_def by (intro keeps_intros) simp

lemma keeps_increment [keeps_intros]: "keepsT db_ok (increment_failures i t)"
proof (rule keepsTI)
  fix d n d' assume ok: "db_ok d" and r: "increment_failures i t d = Inr (n, d')"
  have k: "keepsT db_ok (update_creds (\<lambda>c. c_userId c = i)
      (\<lambda>c. c\<lparr>c_failedLoginCount := c_failedLoginCount c + 1, c_updatedAt := t\<rparr>))"
    by (intro keeps_intros) simp
  from r have "update_creds (\<lambda>c. c_userId c = i)
      (\<lambda>c. c\<lparr>c_failedLoginCount := c_failedLoginCount c + 1, c_updatedAt := t\<rparr>) d = Inr (n, d')"
    by (simp add: increment_failures_def split: if_splits)
  with ok show "db_ok d'" by (rule keepsTD [OF k])
qed

lemma keeps_record_failure [keeps_intros]: "keepsT db_ok (record_failure i l t n)"
  unfolding record_failure_def by (intro keeps_intros) simp

lemma keeps_issue [keeps_intros]: "keepsT db_ok (issue_for_active_user i r)"
  unfolding issue_for_active_user_def by (intro keeps_intros)

lemma keeps_rotate [keeps_intros]: "keepsT db_ok (rotate_token h au now r f)"
  unfolding rotate_token_def Let_def by (intro keeps_intros) simp

lemma keeps_logout [keeps_intros]: "keepsT db_ok (logout_revoke h t)"
  unfolding logout_revoke_def by (intro keeps_intros) simp

end
