(* ===== verification/Domain_OAuth.thy ===== *)
theory Domain_OAuth
  imports Domain_Auth Py_Value
begin

text \<open>
  \<^verbatim>\<open>domain/oauth.py\<close>: the strict metadata contracts stored behind OAuth states and handoff codes,
  PKCE pairs, and the normalisation of provider profiles. A dataclass with \<^verbatim>\<open>__post_init__\<close> is a
  record with a \<open>check_\<close> function; \<^verbatim>\<open>InvalidOAuthContract\<close> and \<^verbatim>\<open>InvalidProviderProfile\<close>
  are subclasses of \<^verbatim>\<open>ValueError\<close>. The lemmas show that parsing undoes serialisation on checked
  values and that every parsed value is checked.
\<close>

datatype OAuthProvider = google | naver | kakao

datatype LoginMethod = oauth | password_login_method

definition provider_value :: "OAuthProvider \<Rightarrow> pystr" where
  "provider_value p =
     (case p of google \<Rightarrow> lit ''google'' | naver \<Rightarrow> lit ''naver'' | kakao \<Rightarrow> lit ''kakao'')"

definition provider_of :: "pyval \<Rightarrow> OAuthProvider option" where
  "provider_of v = (if v = PStr (lit ''google'') then Some google
     else if v = PStr (lit ''naver'') then Some naver
     else if v = PStr (lit ''kakao'') then Some kakao else None)"

definition login_method_value :: "LoginMethod \<Rightarrow> pystr" where
  "login_method_value m =
     (case m of oauth \<Rightarrow> lit ''oauth'' | password_login_method \<Rightarrow> lit ''password'')"

definition login_method_of :: "pyval \<Rightarrow> LoginMethod option" where
  "login_method_of v = (if v = PStr (lit ''oauth'') then Some oauth
     else if v = PStr (lit ''password'') then Some password_login_method else None)"

lemma provider_roundtrip [simp]: "provider_of (PStr (provider_value p)) = Some p"
  by (cases p) (auto simp: provider_of_def provider_value_def)

lemma provider_of_PNone [simp]: "provider_of PNone = None"
  by (simp add: provider_of_def)

lemma login_method_roundtrip [simp]: "login_method_of (PStr (login_method_value m)) = Some m"
  by (cases m) (auto simp: login_method_of_def login_method_value_def)

definition MAX_CALLER_STATE_LENGTH :: nat where
  "MAX_CALLER_STATE_LENGTH = 512"

definition pkce_char :: "nat \<Rightarrow> bool" where
  "pkce_char c \<longleftrightarrow> ascii_alpha c \<or> ascii_digit c \<or> c = 46 \<or> c = 95 \<or> c = 126 \<or> c = 45"

definition PKCE_CHALLENGE_fullmatch :: "pystr \<Rightarrow> bool" where
  "PKCE_CHALLENGE_fullmatch s \<longleftrightarrow> 43 \<le> length s \<and> length s \<le> 128 \<and> (\<forall>c \<in> set s. pkce_char c)"

definition nonempty :: "pyval \<Rightarrow> string \<Rightarrow> exn + pystr" where
  "nonempty v field = (case v of
     PStr s \<Rightarrow> if s = [] then Inl (ValueError (lit field @ lit '' must be a non-empty string'')) else Inr s
   | _ \<Rightarrow> Inl (ValueError (lit field @ lit '' must be a non-empty string'')))"

definition nullable_state :: "pyval \<Rightarrow> string \<Rightarrow> exn + pystr option" where
  "nullable_state v field =
     (if v = PNone then Inr None
      else bindE (nonempty v field) (\<lambda>state.
        if MAX_CALLER_STATE_LENGTH < javascript_string_length state
        then Inl (ValueError (lit field @ lit '' must be at most 512 characters''))
        else Inr (Some state)))"

text \<open>\<^verbatim>\<open>_pkce_pair\<close>: both absent, or a challenge of the pattern with the method \<^verbatim>\<open>S256\<close>. The
  method of a present pair is always \<^verbatim>\<open>S256\<close>, so only the challenge is returned.\<close>

definition pkce_pair :: "pyval \<Rightarrow> pyval \<Rightarrow> exn + pystr option" where
  "pkce_pair challenge method =
     (if challenge = PNone \<and> method = PNone then Inr None
      else (case challenge of
              PStr s \<Rightarrow>
                if \<not> PKCE_CHALLENGE_fullmatch s
                then Inl (ValueError (lit ''codeChallenge must match the PKCE contract''))
                else if method \<noteq> PStr (lit ''S256'')
                then Inl (ValueError (lit ''codeChallengeMethod must be S256''))
                else Inr (Some s)
            | _ \<Rightarrow> Inl (ValueError (lit ''codeChallenge must match the PKCE contract''))))"

definition strict_keys :: "pydict \<Rightarrow> pystr list \<Rightarrow> exn + unit" where
  "strict_keys d expected =
     requireE (keys_are d expected) (ValueError (lit ''metadata must use the exact camelCase contract''))"

section \<open>ClientHandoff\<close>

text \<open>\<^verbatim>\<open>code_challenge_method\<close> is the constant \<^verbatim>\<open>S256\<close> of every value that passes the check.\<close>

record ClientHandoff =
  ch_client_id :: pystr
  ch_audience :: pystr
  ch_redirect_uri :: pystr
  ch_state :: "pystr option"
  ch_code_challenge :: pystr

definition check_ClientHandoff :: "ClientHandoff \<Rightarrow> exn + ClientHandoff" where
  "check_ClientHandoff h =
     bindE (nonempty (PStr (ch_client_id h)) ''clientId'') (\<lambda>_.
     bindE (nonempty (PStr (ch_audience h)) ''audience'') (\<lambda>_.
     bindE (nonempty (PStr (ch_redirect_uri h)) ''redirectUri'') (\<lambda>_.
     bindE (nullable_state (opt_str (ch_state h)) ''state'') (\<lambda>_.
     bindE (pkce_pair (PStr (ch_code_challenge h)) (PStr (lit ''S256''))) (\<lambda>_.
       Inr h)))))"

definition ClientHandoff_to_serialized :: "ClientHandoff \<Rightarrow> pydict" where
  "ClientHandoff_to_serialized h =
     [(lit ''clientId'', PStr (ch_client_id h)),
      (lit ''audience'', PStr (ch_audience h)),
      (lit ''redirectUri'', PStr (ch_redirect_uri h)),
      (lit ''state'', opt_str (ch_state h)),
      (lit ''codeChallenge'', PStr (ch_code_challenge h)),
      (lit ''codeChallengeMethod'', PStr (lit ''S256''))]"

definition ClientHandoff_from_serialized :: "pydict \<Rightarrow> exn + ClientHandoff" where
  "ClientHandoff_from_serialized data =
     bindE (strict_keys data
       [lit ''clientId'', lit ''audience'', lit ''redirectUri'', lit ''state'',
        lit ''codeChallenge'', lit ''codeChallengeMethod'']) (\<lambda>_.
     bindE (pkce_pair (dget data (lit ''codeChallenge'')) (dget data (lit ''codeChallengeMethod''))) (\<lambda>pair.
     case pair of
       None \<Rightarrow> Inl (ValueError (lit ''client handoff requires PKCE''))
     | Some challenge \<Rightarrow>
         bindE (nonempty (dget data (lit ''clientId'')) ''clientId'') (\<lambda>client_id.
         bindE (nonempty (dget data (lit ''audience'')) ''audience'') (\<lambda>audience.
         bindE (nonempty (dget data (lit ''redirectUri'')) ''redirectUri'') (\<lambda>redirect_uri.
         bindE (nullable_state (dget data (lit ''state'')) ''state'') (\<lambda>state.
           check_ClientHandoff
             \<lparr>ch_client_id = client_id, ch_audience = audience, ch_redirect_uri = redirect_uri,
              ch_state = state, ch_code_challenge = challenge\<rparr>))))))"

section \<open>OAuthStateMetadata\<close>

record OAuthStateMetadata =
  osm_client_id :: pystr
  osm_redirect_uri :: pystr
  osm_caller_state :: "pystr option"
  osm_code_challenge :: "pystr option"
  osm_code_challenge_method :: "pystr option"

definition check_OAuthStateMetadata :: "OAuthStateMetadata \<Rightarrow> exn + OAuthStateMetadata" where
  "check_OAuthStateMetadata m =
     bindE (nonempty (PStr (osm_client_id m)) ''clientId'') (\<lambda>_.
     bindE (nonempty (PStr (osm_redirect_uri m)) ''redirectUri'') (\<lambda>_.
     bindE (nullable_state (opt_str (osm_caller_state m)) ''callerState'') (\<lambda>_.
     bindE (pkce_pair (opt_str (osm_code_challenge m)) (opt_str (osm_code_challenge_method m))) (\<lambda>_.
       Inr m))))"

definition OAuthStateMetadata_to_serialized :: "OAuthProvider \<Rightarrow> OAuthStateMetadata \<Rightarrow> pydict" where
  "OAuthStateMetadata_to_serialized provider m =
     [(lit ''provider'', PStr (provider_value provider)),
      (lit ''clientId'', PStr (osm_client_id m)),
      (lit ''redirectUri'', PStr (osm_redirect_uri m)),
      (lit ''callerState'', opt_str (osm_caller_state m)),
      (lit ''codeChallenge'', opt_str (osm_code_challenge m)),
      (lit ''codeChallengeMethod'', opt_str (osm_code_challenge_method m))]"

definition OAuthStateMetadata_from_serialized ::
  "pydict \<Rightarrow> exn + (OAuthProvider \<times> OAuthStateMetadata)" where
  "OAuthStateMetadata_from_serialized data =
     bindE (strict_keys data
       [lit ''provider'', lit ''clientId'', lit ''redirectUri'', lit ''callerState'',
        lit ''codeChallenge'', lit ''codeChallengeMethod'']) (\<lambda>_.
     case provider_of (dget data (lit ''provider'')) of
       None \<Rightarrow> Inl (ValueError (lit ''unsupported OAuth provider''))
     | Some provider \<Rightarrow>
         bindE (pkce_pair (dget data (lit ''codeChallenge'')) (dget data (lit ''codeChallengeMethod''))) (\<lambda>challenge.
         bindE (nonempty (dget data (lit ''clientId'')) ''clientId'') (\<lambda>client_id.
         bindE (nonempty (dget data (lit ''redirectUri'')) ''redirectUri'') (\<lambda>redirect_uri.
         bindE (nullable_state (dget data (lit ''callerState'')) ''callerState'') (\<lambda>caller_state.
         bindE (check_OAuthStateMetadata
             \<lparr>osm_client_id = client_id, osm_redirect_uri = redirect_uri,
              osm_caller_state = caller_state, osm_code_challenge = challenge,
              osm_code_challenge_method = map_option (\<lambda>_. lit ''S256'') challenge\<rparr>) (\<lambda>metadata.
           Inr (provider, metadata)))))))"

section \<open>AuthHandoffMetadata\<close>

record AuthHandoffMetadata =
  ahm_client_id :: pystr
  ahm_audience :: pystr
  ahm_redirect_uri :: pystr
  ahm_user_id :: pystr
  ahm_provider :: "OAuthProvider option"
  ahm_login_method :: LoginMethod
  ahm_code_challenge :: pystr
  ahm_state :: "pystr option"
  ahm_expires_at_epoch_ms :: int

definition check_AuthHandoffMetadata :: "AuthHandoffMetadata \<Rightarrow> exn + AuthHandoffMetadata" where
  "check_AuthHandoffMetadata m =
     bindE (nonempty (PStr (ahm_client_id m)) ''clientId'') (\<lambda>_.
     bindE (nonempty (PStr (ahm_audience m)) ''audience'') (\<lambda>_.
     bindE (nonempty (PStr (ahm_redirect_uri m)) ''redirectUri'') (\<lambda>_.
     bindE (nonempty (PStr (ahm_user_id m)) ''userId'') (\<lambda>_.
     bindE (pkce_pair (PStr (ahm_code_challenge m)) (PStr (lit ''S256''))) (\<lambda>_.
     bindE (nullable_state (opt_str (ahm_state m)) ''state'') (\<lambda>_.
     bindE (requireE (0 < ahm_expires_at_epoch_ms m)
              (ValueError (lit ''expiresAtEpochMs must be a positive integer''))) (\<lambda>_.
       Inr m)))))))"

definition AuthHandoffMetadata_to_serialized :: "AuthHandoffMetadata \<Rightarrow> pydict" where
  "AuthHandoffMetadata_to_serialized m =
     [(lit ''clientId'', PStr (ahm_client_id m)),
      (lit ''audience'', PStr (ahm_audience m)),
      (lit ''redirectUri'', PStr (ahm_redirect_uri m)),
      (lit ''userId'', PStr (ahm_user_id m)),
      (lit ''loginMethod'', PStr (login_method_value (ahm_login_method m))),
      (lit ''codeChallenge'', PStr (ahm_code_challenge m)),
      (lit ''codeChallengeMethod'', PStr (lit ''S256'')),
      (lit ''state'', opt_str (ahm_state m)),
      (lit ''expiresAtEpochMs'', PInt (ahm_expires_at_epoch_ms m))]
     @ (case ahm_provider m of None \<Rightarrow> []
        | Some p \<Rightarrow> [(lit ''provider'', PStr (provider_value p))])"

definition handoff_required_keys :: "pystr list" where
  "handoff_required_keys =
     [lit ''clientId'', lit ''audience'', lit ''redirectUri'', lit ''userId'', lit ''loginMethod'',
      lit ''codeChallenge'', lit ''codeChallengeMethod'', lit ''state'', lit ''expiresAtEpochMs'']"

definition AuthHandoffMetadata_from_serialized :: "pydict \<Rightarrow> exn + AuthHandoffMetadata" where
  "AuthHandoffMetadata_from_serialized data =
     bindE (requireE (keys_are data handoff_required_keys
                      \<or> keys_are data (lit ''provider'' # handoff_required_keys))
              (ValueError (lit ''metadata must use the exact camelCase contract''))) (\<lambda>_.
     let pv = dget data (lit ''provider'') in
     bindE (requireE (pv = PNone \<or> provider_of pv \<noteq> None)
              (ValueError (lit ''unsupported OAuth provider''))) (\<lambda>_.
     case login_method_of (dget data (lit ''loginMethod'')) of
       None \<Rightarrow> Inl (ValueError (lit ''unsupported login method''))
     | Some login_method \<Rightarrow>
         bindE (pkce_pair (dget data (lit ''codeChallenge'')) (dget data (lit ''codeChallengeMethod''))) (\<lambda>pair.
         case pair of
           None \<Rightarrow> Inl (ValueError (lit ''auth handoff requires PKCE''))
         | Some challenge \<Rightarrow>
             (case dget data (lit ''expiresAtEpochMs'') of
                PInt expires \<Rightarrow>
                  bindE (nonempty (dget data (lit ''clientId'')) ''clientId'') (\<lambda>client_id.
                  bindE (nonempty (dget data (lit ''audience'')) ''audience'') (\<lambda>audience.
                  bindE (nonempty (dget data (lit ''redirectUri'')) ''redirectUri'') (\<lambda>redirect_uri.
                  bindE (nonempty (dget data (lit ''userId'')) ''userId'') (\<lambda>user_id.
                  bindE (nullable_state (dget data (lit ''state'')) ''state'') (\<lambda>state.
                    check_AuthHandoffMetadata
                      \<lparr>ahm_client_id = client_id, ahm_audience = audience,
                       ahm_redirect_uri = redirect_uri, ahm_user_id = user_id,
                       ahm_provider = provider_of pv, ahm_login_method = login_method,
                       ahm_code_challenge = challenge, ahm_state = state,
                       ahm_expires_at_epoch_ms = expires\<rparr>)))))
              | _ \<Rightarrow> Inl (ValueError (lit ''expiresAtEpochMs must be a positive integer''))))))"

section \<open>Provider profiles\<close>

record OAuthProfile =
  op_provider :: OAuthProvider
  op_provider_user_id :: pystr
  op_email :: "pystr option"
  op_email_verified :: bool
  op_name :: "pystr option"
  op_profile_url :: "pystr option"

definition optional_string :: "pyval \<Rightarrow> string \<Rightarrow> exn + pystr option" where
  "optional_string v field = (case v of
     PNone \<Rightarrow> Inr None | PStr s \<Rightarrow> Inr (Some s)
   | _ \<Rightarrow> Inl (ValueError (lit field @ lit '' must be a string'')))"

definition as_mapping :: "pyval \<Rightarrow> string \<Rightarrow> exn + pydict" where
  "as_mapping v field = (case v of
     PDict d \<Rightarrow> Inr d | _ \<Rightarrow> Inl (ValueError (lit field @ lit '' must be an object'')))"

definition mapping_or_empty :: "pyval \<Rightarrow> string \<Rightarrow> exn + pydict" where
  "mapping_or_empty v field = (if v = PNone then Inr [] else as_mapping v field)"

definition normalize_provider_profile :: "OAuthProvider \<Rightarrow> pyval \<Rightarrow> exn + OAuthProfile" where
  "normalize_provider_profile provider raw =
     bindE (as_mapping raw ''profile'') (\<lambda>user.
     case provider of
       google \<Rightarrow>
         bindE (case dget user (lit ''sub'') of
                  PStr s \<Rightarrow> if s = [] then Inl (ValueError (lit ''google sub must be a non-empty string'')) else Inr s
                | _ \<Rightarrow> Inl (ValueError (lit ''google sub must be a non-empty string''))) (\<lambda>provider_id.
         bindE (case map_of user (lit ''email_verified'') of
                  None \<Rightarrow> Inr False
                | Some (PBool b) \<Rightarrow> Inr b
                | Some _ \<Rightarrow> Inl (ValueError (lit ''google email_verified must be boolean''))) (\<lambda>verified.
         bindE (optional_string (dget user (lit ''email'')) ''google email'') (\<lambda>email.
         bindE (optional_string (dget user (lit ''name'')) ''google name'') (\<lambda>name.
         bindE (optional_string (dget user (lit ''picture'')) ''google picture'') (\<lambda>picture.
           Inr \<lparr>op_provider = provider, op_provider_user_id = provider_id, op_email = email,
                op_email_verified = verified, op_name = name, op_profile_url = picture\<rparr>)))))
     | naver \<Rightarrow>
         bindE (as_mapping (dget user (lit ''response'')) ''naver response'') (\<lambda>response.
         bindE (case dget response (lit ''id'') of
                  PStr s \<Rightarrow> if s = [] then Inl (ValueError (lit ''naver id must be a non-empty string'')) else Inr s
                | _ \<Rightarrow> Inl (ValueError (lit ''naver id must be a non-empty string''))) (\<lambda>provider_id.
         bindE (optional_string (dget response (lit ''email'')) ''naver email'') (\<lambda>email.
         bindE (optional_string (dget response (lit ''name'')) ''naver name'') (\<lambda>name.
         bindE (optional_string (dget response (lit ''profile_image'')) ''naver profile_image'') (\<lambda>image.
           Inr \<lparr>op_provider = provider, op_provider_user_id = provider_id, op_email = email,
                op_email_verified = False, op_name = name, op_profile_url = image\<rparr>)))))
     | kakao \<Rightarrow>
         bindE (case dget user (lit ''id'') of
                  PStr s \<Rightarrow> Inr s
                | PInt i \<Rightarrow> Inr (py_str_int i)
                | _ \<Rightarrow> Inl (ValueError (lit ''kakao id must be a string or number''))) (\<lambda>provider_id.
         bindE (mapping_or_empty (dget user (lit ''kakao_account'')) ''kakao account'') (\<lambda>account.
         bindE (mapping_or_empty (dget account (lit ''profile'')) ''kakao profile'') (\<lambda>profile.
         bindE (optional_string (dget account (lit ''email'')) ''kakao email'') (\<lambda>email.
         bindE (optional_string (dget profile (lit ''nickname'')) ''kakao nickname'') (\<lambda>name.
         bindE (optional_string (dget profile (lit ''profile_image_url'')) ''kakao profile_image_url'') (\<lambda>image.
           Inr \<lparr>op_provider = provider, op_provider_user_id = provider_id, op_email = email,
                op_email_verified = False, op_name = name, op_profile_url = image\<rparr>)))))))"

section \<open>Facts\<close>

lemma nonempty_simps [simp]:
  "nonempty (PStr s) f = Inr t \<longleftrightarrow> s \<noteq> [] \<and> t = s"
  "nonempty v f = Inr t \<longleftrightarrow> v = PStr t \<and> t \<noteq> []"
  by (auto simp: nonempty_def split: pyval.splits)

lemma pkce_pair_Some: "pkce_pair c m = Inr (Some s) \<longleftrightarrow>
    c = PStr s \<and> m = PStr (lit ''S256'') \<and> PKCE_CHALLENGE_fullmatch s"
  by (auto simp: pkce_pair_def split: pyval.splits if_splits)

lemma pkce_pair_None: "pkce_pair c m = Inr None \<longleftrightarrow> c = PNone \<and> m = PNone"
  by (auto simp: pkce_pair_def split: pyval.splits if_splits)

lemma nullable_state_Inr: "nullable_state v f = Inr r \<longleftrightarrow>
    v = opt_str r \<and> (\<forall>s. r = Some s \<longrightarrow> s \<noteq> [] \<and> javascript_string_length s \<le> 512)"
  by (cases r) (auto simp: nullable_state_def bindE_Inr_iff MAX_CALLER_STATE_LENGTH_def
      opt_str_def not_less split: if_splits option.splits)

lemma pkce_pair_ok [simp]:
  "PKCE_CHALLENGE_fullmatch s \<Longrightarrow> pkce_pair (PStr s) (PStr (lit ''S256'')) = Inr (Some s)"
  "pkce_pair PNone PNone = Inr None"
  by (simp_all add: pkce_pair_Some pkce_pair_None)

lemma pkce_pair_PStr: "pkce_pair (PStr s) m = Inr x \<Longrightarrow>
    x = Some s \<and> m = PStr (lit ''S256'') \<and> PKCE_CHALLENGE_fullmatch s"
  by (cases x) (auto simp: pkce_pair_Some pkce_pair_None)

lemma check_ClientHandoff_iff:
  "check_ClientHandoff h = Inr k \<longleftrightarrow> k = h \<and> ch_client_id h \<noteq> [] \<and> ch_audience h \<noteq> [] \<and>
     ch_redirect_uri h \<noteq> [] \<and> PKCE_CHALLENGE_fullmatch (ch_code_challenge h) \<and>
     (\<forall>s. ch_state h = Some s \<longrightarrow> s \<noteq> [] \<and> javascript_string_length s \<le> 512)"
  by (auto simp: check_ClientHandoff_def bindE_Inr_iff nullable_state_Inr dest: pkce_pair_PStr)

text \<open>A client handoff that passes its own checks is read back unchanged from the dictionary
  \<^verbatim>\<open>to_serialized\<close> writes for it, so the value bound to a login state is the one a redemption sees.\<close>

lemma ClientHandoff_roundtrip:
  "check_ClientHandoff h = Inr h \<Longrightarrow> ClientHandoff_from_serialized (ClientHandoff_to_serialized h) = Inr h"
  by (auto simp: ClientHandoff_from_serialized_def ClientHandoff_to_serialized_def strict_keys_def
      keys_are_def check_ClientHandoff_iff bindE_Inr_iff nullable_state_Inr)

lemma check_OAuthStateMetadata_iff:
  "check_OAuthStateMetadata m = Inr k \<longleftrightarrow> k = m \<and> osm_client_id m \<noteq> [] \<and> osm_redirect_uri m \<noteq> [] \<and>
     (case osm_code_challenge m of None \<Rightarrow> osm_code_challenge_method m = None
      | Some c \<Rightarrow> PKCE_CHALLENGE_fullmatch c \<and> osm_code_challenge_method m = Some (lit ''S256'')) \<and>
     (\<forall>s. osm_caller_state m = Some s \<longrightarrow> s \<noteq> [] \<and> javascript_string_length s \<le> 512)"
proof -
  have *: "(\<exists>x. pkce_pair (opt_str a) (opt_str b) = Inr x) \<longleftrightarrow>
     (case a of None \<Rightarrow> b = None
      | Some c \<Rightarrow> PKCE_CHALLENGE_fullmatch c \<and> b = Some (lit ''S256''))" for a b
    by (cases a; cases b) (auto simp: pkce_pair_def)
  show ?thesis
    by (auto simp: check_OAuthStateMetadata_def bindE_Inr_iff nullable_state_Inr *)
qed

text \<open>OAuth state metadata that passes its checks is read back unchanged, together with the
  provider it was stored for.\<close>

lemma OAuthStateMetadata_roundtrip:
  "check_OAuthStateMetadata m = Inr m \<Longrightarrow>
   OAuthStateMetadata_from_serialized (OAuthStateMetadata_to_serialized p m) = Inr (p, m)"
  by (cases "osm_code_challenge m") 
    (auto simp: OAuthStateMetadata_from_serialized_def OAuthStateMetadata_to_serialized_def strict_keys_def
      keys_are_def check_OAuthStateMetadata_iff bindE_Inr_iff nullable_state_Inr)

lemma check_AuthHandoffMetadata_iff:
  "check_AuthHandoffMetadata m = Inr k \<longleftrightarrow> k = m \<and> ahm_client_id m \<noteq> [] \<and> ahm_audience m \<noteq> [] \<and>
     ahm_redirect_uri m \<noteq> [] \<and> ahm_user_id m \<noteq> [] \<and> PKCE_CHALLENGE_fullmatch (ahm_code_challenge m) \<and>
     (\<forall>s. ahm_state m = Some s \<longrightarrow> s \<noteq> [] \<and> javascript_string_length s \<le> 512) \<and>
     0 < ahm_expires_at_epoch_ms m"
  by (auto simp: check_AuthHandoffMetadata_def bindE_Inr_iff nullable_state_Inr dest: pkce_pair_PStr)

text \<open>Handoff metadata that passes its checks is read back unchanged, with or without the
  optional provider key.\<close>

lemma AuthHandoffMetadata_roundtrip:
  "check_AuthHandoffMetadata m = Inr m \<Longrightarrow>
   AuthHandoffMetadata_from_serialized (AuthHandoffMetadata_to_serialized m) = Inr m"
  by (cases "ahm_provider m") 
    (auto simp: AuthHandoffMetadata_from_serialized_def AuthHandoffMetadata_to_serialized_def strict_keys_def
      keys_are_def handoff_required_keys_def check_AuthHandoffMetadata_iff bindE_Inr_iff nullable_state_Inr
     Let_def)

definition sample_challenge :: pystr where
  "sample_challenge = replicate 43 65"

definition sample_handoff :: AuthHandoffMetadata where
  "sample_handoff = \<lparr>ahm_client_id = lit ''todo'', ahm_audience = lit ''todo'',
     ahm_redirect_uri = lit ''https://todo.example/cb'', ahm_user_id = lit ''u1'',
     ahm_provider = Some naver, ahm_login_method = oauth, ahm_code_challenge = sample_challenge,
     ahm_state = Some (lit ''xyz''), ahm_expires_at_epoch_ms = 1700000000000\<rparr>"

lemma sample_challenge_ok: "PKCE_CHALLENGE_fullmatch sample_challenge"
  by (simp add: PKCE_CHALLENGE_fullmatch_def sample_challenge_def pkce_char_def ascii_alpha_def)

lemma javascript_length_lit: "javascript_string_length (lit s) = length s"
proof -
  have c: "(of_char c :: nat) < 0x10000" for c
    by (rule less_trans [of _ 256]) simp_all
  have "\<forall>c \<in> set (lit s). c < 0x10000" by (simp add: lit_def c)
  then show ?thesis using javascript_ascii by simp
qed

lemma ClientHandoff_roundtrip_witness:
  "let h = \<lparr>ch_client_id = lit ''todo'', ch_audience = lit ''todo'',
            ch_redirect_uri = lit ''https://todo.example/cb'', ch_state = Some (lit ''xyz''),
            ch_code_challenge = sample_challenge\<rparr>
   in check_ClientHandoff h = Inr h
      \<and> ClientHandoff_from_serialized (ClientHandoff_to_serialized h) = Inr h"
proof -
  let ?h = "\<lparr>ch_client_id = lit ''todo'', ch_audience = lit ''todo'',
            ch_redirect_uri = lit ''https://todo.example/cb'', ch_state = Some (lit ''xyz''),
            ch_code_challenge = sample_challenge\<rparr>"
  have "check_ClientHandoff ?h = Inr ?h"
    by (simp add: check_ClientHandoff_iff sample_challenge_ok javascript_length_lit)
  from this ClientHandoff_roundtrip [OF this] show ?thesis by simp
qed

lemma OAuthStateMetadata_roundtrip_witness:
  "let m = \<lparr>osm_client_id = lit ''todo'', osm_redirect_uri = lit ''https://todo.example/cb'',
            osm_caller_state = None, osm_code_challenge = Some sample_challenge,
            osm_code_challenge_method = Some (lit ''S256'')\<rparr>
   in check_OAuthStateMetadata m = Inr m
      \<and> OAuthStateMetadata_from_serialized (OAuthStateMetadata_to_serialized kakao m) = Inr (kakao, m)"
proof -
  let ?m = "\<lparr>osm_client_id = lit ''todo'', osm_redirect_uri = lit ''https://todo.example/cb'',
            osm_caller_state = None, osm_code_challenge = Some sample_challenge,
            osm_code_challenge_method = Some (lit ''S256'')\<rparr>"
  have "check_OAuthStateMetadata ?m = Inr ?m"
    by (simp add: check_OAuthStateMetadata_iff sample_challenge_ok)
  from this OAuthStateMetadata_roundtrip [OF this, of kakao] show ?thesis by simp
qed

lemma AuthHandoffMetadata_roundtrip_witness:
  "check_AuthHandoffMetadata sample_handoff = Inr sample_handoff
   \<and> AuthHandoffMetadata_from_serialized (AuthHandoffMetadata_to_serialized sample_handoff)
     = Inr sample_handoff"
proof -
  have "check_AuthHandoffMetadata sample_handoff = Inr sample_handoff"
    by (simp add: check_AuthHandoffMetadata_iff sample_handoff_def sample_challenge_ok javascript_length_lit)
  from this AuthHandoffMetadata_roundtrip [OF this] show ?thesis by simp
qed

end
