(* ===== verification/Store_Identity.thy ===== *)
theory Store_Identity
  imports Store_Password Domain_OAuth
begin

text \<open>
  The identity stores of \<^verbatim>\<open>persistence/stores.py\<close>: \<^verbatim>\<open>EmailVerificationStore\<close> with the default
  role assignment, \<^verbatim>\<open>PasswordResetStore\<close>, \<^verbatim>\<open>OAuthIdentityStore\<close>, \<^verbatim>\<open>AuditStore\<close>, and
  \<^verbatim>\<open>persistence/oidc.py\<close>. The identifiers \<^verbatim>\<open>application_uuid()\<close> draws inside a statement sequence
  are taken from a stream \<open>u\<close>, one position per call site.
\<close>

section \<open>Default roles\<close>

record DefaultRole =
  dr_service_key :: pystr
  dr_name :: pystr

definition DEFAULT_ROLE :: DefaultRole where
  "DEFAULT_ROLE = \<lparr>dr_service_key = lit ''temis'', dr_name = lit ''user''\<rparr>"

definition seed_role :: "pystr \<Rightarrow> pystr \<Rightarrow> pystr \<Rightarrow> (db, nat) tx" where
  "seed_role i service_key name =
     insert_role_if_absent \<lparr>o_id = i, o_serviceKey = service_key, o_name = name\<rparr>"

definition seed_temis_and_assign_default_role ::
  "(nat \<Rightarrow> pystr) \<Rightarrow> pystr \<Rightarrow> DefaultRole \<Rightarrow> (db, unit) tx" where
  "seed_temis_and_assign_default_role u user_id default_role =
     bindT (seed_role (u 0) (lit ''temis'') (lit ''pending'')) (\<lambda>_.
     bindT (seed_role (u 1) (lit ''temis'') (lit ''user'')) (\<lambda>_.
     bindT (seed_role (u 2) (lit ''temis'') (lit ''admin'')) (\<lambda>_.
     bindT (seed_role (u 3) (dr_service_key default_role) (dr_name default_role)) (\<lambda>_.
     bindT (readT (\<lambda>d. find (\<lambda>r. o_serviceKey r = dr_service_key default_role
                              \<and> o_name r = dr_name default_role) (t_roles d))) (\<lambda>assigned_role.
     case assigned_role of
       None \<Rightarrow> raiseT (RuntimeError (lit ''default role upsert did not resolve a role''))
     | Some r \<Rightarrow>
         bindT (insert_user_role_if_absent \<lparr>l_id = u 4, l_userId = user_id, l_roleId = o_id r\<rparr>)
           (\<lambda>_. retT ()))))))"

section \<open>Email verification\<close>

record VerificationEligibleUser =
  veu_id :: pystr
  veu_email :: "pystr option"
  veu_status :: UserStatus
  veu_has_pending_password_credential :: bool

record VerificationHandoff =
  vh_client_id :: pystr
  vh_audience :: pystr
  vh_redirect_uri :: pystr
  vh_state :: "pystr option"
  vh_code_challenge :: pystr

record EmailVerificationTokenInsert =
  evi_id :: pystr
  evi_user_id :: pystr
  evi_token_hash :: pystr
  evi_expires_at :: int
  evi_created_at :: int
  evi_handoff :: "VerificationHandoff option"

record EmailVerificationTokenRecord =
  evr_id :: pystr
  evr_user_id :: pystr
  evr_expires_at :: int
  evr_used_at :: "int option"
  evr_handoff :: "VerificationHandoff option"

definition find_eligible_user :: "pystr \<Rightarrow> int \<Rightarrow> (db, VerificationEligibleUser option) tx" where
  "find_eligible_user email now = readT (\<lambda>d.
     map_option (\<lambda>u.
       \<lparr>veu_id = u_id u, veu_email = u_email u, veu_status = u_status u,
        veu_has_pending_password_credential =
          (case find (\<lambda>p. p_userId p = u_id u) (t_pendings d) of
             None \<Rightarrow> False | Some p \<Rightarrow> now < p_expiresAt p)\<rparr>)
       (find (\<lambda>u. u_email u = Some email) (t_users d)))"

definition create_verification_token :: "EmailVerificationTokenInsert \<Rightarrow> (db, unit) tx" where
  "create_verification_token token =
     (let handoff = evi_handoff token in
      inserted (insert_verif
        \<lparr>e_id = evi_id token, e_tokenHash = evi_token_hash token, e_userId = evi_user_id token,
         e_expiresAt = evi_expires_at token, e_usedAt = None, e_createdAt = evi_created_at token,
         e_handoffClientId = map_option vh_client_id handoff,
         e_handoffAudience = map_option vh_audience handoff,
         e_handoffRedirectUri = map_option vh_redirect_uri handoff,
         e_handoffState = Option.bind handoff vh_state,
         e_handoffCodeChallenge = map_option vh_code_challenge handoff,
         e_handoffCodeChallengeMethod = map_option (\<lambda>_. lit ''S256'') handoff\<rparr>)
        ''email verification token insert'')"

definition truthy :: "pystr option \<Rightarrow> bool" where
  "truthy s \<longleftrightarrow> s \<noteq> None \<and> s \<noteq> Some []"

definition handoff_of_row :: "VerifRow \<Rightarrow> VerificationHandoff option" where
  "handoff_of_row row =
     (if truthy (e_handoffClientId row) \<and> truthy (e_handoffAudience row)
         \<and> truthy (e_handoffRedirectUri row) \<and> truthy (e_handoffCodeChallenge row)
         \<and> e_handoffCodeChallengeMethod row = Some (lit ''S256'')
      then Some \<lparr>vh_client_id = the (e_handoffClientId row), vh_audience = the (e_handoffAudience row),
                 vh_redirect_uri = the (e_handoffRedirectUri row), vh_state = e_handoffState row,
                 vh_code_challenge = the (e_handoffCodeChallenge row)\<rparr>
      else None)"

definition find_verification_token :: "pystr \<Rightarrow> (db, EmailVerificationTokenRecord option) tx" where
  "find_verification_token token_hash = readT (\<lambda>d.
     map_option (\<lambda>row.
       \<lparr>evr_id = e_id row, evr_user_id = e_userId row, evr_expires_at = e_expiresAt row,
        evr_used_at = e_usedAt row, evr_handoff = handoff_of_row row\<rparr>)
       (find (\<lambda>row. e_tokenHash row = token_hash) (t_verifs d)))"

definition consumable_verif :: "pystr \<Rightarrow> pystr \<Rightarrow> int \<Rightarrow> VerifRow \<Rightarrow> bool" where
  "consumable_verif token_id user_id used_at e \<longleftrightarrow>
     e_id e = token_id \<and> e_userId e = user_id \<and> e_usedAt e = None \<and> used_at < e_expiresAt e"

definition reserved_subject :: "(pystr \<Rightarrow> pystr) \<Rightarrow> pystr option \<Rightarrow> db \<Rightarrow> pystr option" where
  "reserved_subject uni email d =
     (if truthy email
      then map_option v_subjectId (find (\<lambda>v. v_email v = py_lower uni (the email)) (t_reservations d))
      else None)"

text \<open>
  The activating branch of \<^verbatim>\<open>confirm\<close>: a reserved subject id becomes the user's id unless it is
  taken, then the user becomes active and gets the default role.
\<close>

definition activate_user ::
  "(pystr \<Rightarrow> pystr) \<Rightarrow> (nat \<Rightarrow> pystr) \<Rightarrow> UserRow \<Rightarrow> int \<Rightarrow> DefaultRole \<Rightarrow> (db, pystr option) tx" where
  "activate_user uni u user used_at default_role =
     bindT (readT (reserved_subject uni (u_email user))) (\<lambda>reserved_id.
     bindT (readT (\<lambda>d. truthy reserved_id \<and> reserved_id \<noteq> Some (u_id user)
                       \<and> user_exists d (the reserved_id))) (\<lambda>subject_taken.
     if subject_taken then retT None
     else
       let activated_id = (if truthy reserved_id then the reserved_id else u_id user) in
       bindT (update_users (\<lambda>r. u_id r = u_id user \<and> u_status r = PENDING_EMAIL_VERIFICATION)
                (\<lambda>r. r\<lparr>u_status := ACTIVE, u_emailVerified := True, u_updatedAt := used_at\<rparr>)) (\<lambda>activated.
       bindT (if activated \<noteq> 0 \<and> truthy reserved_id then rename_user_id (u_id user) activated_id
              else retT ()) (\<lambda>_.
       if activated \<noteq> 1 then retT None
       else bindT (seed_temis_and_assign_default_role u activated_id default_role)
              (\<lambda>_. retT (Some activated_id))))))"

definition attach_pending :: "(nat \<Rightarrow> pystr) \<Rightarrow> PendingRow \<Rightarrow> pystr \<Rightarrow> int \<Rightarrow> (db, pystr option) tx" where
  "attach_pending u pending user_id used_at =
     bindT (inserted (insert_cred
        \<lparr>c_id = u 0, c_userId = p_userId pending, c_email = p_email pending,
         c_passwordHash = p_passwordHash pending, c_failedLoginCount = 0, c_lockedUntil = None,
         c_passwordUpdatedAt = used_at, c_createdAt = used_at, c_updatedAt = used_at\<rparr>)
        ''pending password credential attach'') (\<lambda>_.
     bindT (delete_pendings (\<lambda>p. p_userId p = user_id)) (\<lambda>removed.
     bindT (require_one removed ''pending password credential delete'') (\<lambda>_.
     retT (Some user_id))))"

definition verification_confirm ::
  "(pystr \<Rightarrow> pystr) \<Rightarrow> (nat \<Rightarrow> pystr) \<Rightarrow> pystr \<Rightarrow> pystr \<Rightarrow> int \<Rightarrow> DefaultRole \<Rightarrow> (db, pystr option) tx" where
  "verification_confirm uni u token_id user_id used_at default_role =
     bindT (readT (\<lambda>d. find (\<lambda>r. u_id r = user_id) (t_users d))) (\<lambda>user.
     bindT (readT (\<lambda>d. find (\<lambda>p. p_userId p = user_id) (t_pendings d))) (\<lambda>pending.
     let can_activate = (case user of None \<Rightarrow> False | Some r \<Rightarrow> u_status r = PENDING_EMAIL_VERIFICATION);
         can_attach = (case pending of None \<Rightarrow> False | Some p \<Rightarrow> used_at < p_expiresAt p)
     in
     if \<not> can_activate \<and> \<not> can_attach then retT None
     else bindT (update_verifs (consumable_verif token_id user_id used_at)
                   (\<lambda>e. e\<lparr>e_usedAt := Some used_at\<rparr>)) (\<lambda>consumed.
       if consumed \<noteq> 1 then retT None
       else if can_activate
       then (case user of
               None \<Rightarrow> raiseT (AssertionError (lit ''activation eligibility unexpectedly lost its user''))
             | Some r \<Rightarrow> activate_user uni u r used_at default_role)
       else (case pending of
               None \<Rightarrow> retT None
             | Some p \<Rightarrow> attach_pending u p user_id used_at))))"

section \<open>Password reset\<close>

record PasswordResetUser =
  pru_id :: pystr
  pru_email :: pystr

record PasswordResetTokenInsert =
  pri_id :: pystr
  pri_user_id :: pystr
  pri_token_hash :: pystr
  pri_expires_at :: int
  pri_created_at :: int

definition find_active_reset_user :: "pystr \<Rightarrow> (db, PasswordResetUser option) tx" where
  "find_active_reset_user email = readT (\<lambda>d.
     map_option (\<lambda>c. \<lparr>pru_id = c_userId c, pru_email = c_email c\<rparr>)
       (find (\<lambda>c. c_email c = email \<and> is_active_user d (c_userId c)) (t_creds d)))"

definition create_reset_token :: "PasswordResetTokenInsert \<Rightarrow> (db, unit) tx" where
  "create_reset_token token =
     inserted (insert_reset
       \<lparr>w_id = pri_id token, w_tokenHash = pri_token_hash token, w_userId = pri_user_id token,
        w_expiresAt = pri_expires_at token, w_usedAt = None, w_createdAt = pri_created_at token\<rparr>)
       ''password reset token insert''"

definition reset_confirm :: "pystr \<Rightarrow> pystr \<Rightarrow> int \<Rightarrow> (db, pystr option) tx" where
  "reset_confirm token_hash password_hash now =
     bindT (readT (\<lambda>d. find (\<lambda>w. w_tokenHash w = token_hash \<and> w_usedAt w = None \<and> now < w_expiresAt w)
                     (t_resets d))) (\<lambda>found.
     case found of
       None \<Rightarrow> retT None
     | Some token \<Rightarrow>
         bindT (update_resets (\<lambda>w. w_id w = w_id token \<and> w_usedAt w = None \<and> now < w_expiresAt w)
                  (\<lambda>w. w\<lparr>w_usedAt := Some now\<rparr>)) (\<lambda>consumed.
         if consumed \<noteq> 1 then retT None
         else bindT (readT (\<lambda>d. user_exists d (w_userId token))) (\<lambda>locked.
           if \<not> locked then retT None
           else
             bindT (update_creds (\<lambda>c. c_userId c = w_userId token)
                (\<lambda>c. c\<lparr>c_passwordHash := password_hash, c_failedLoginCount := 0, c_lockedUntil := None,
                       c_passwordUpdatedAt := now, c_updatedAt := now\<rparr>)) (\<lambda>updated.
             bindT (require_one updated ''password reset credential update'') (\<lambda>_.
             bindT (update_refreshes (\<lambda>r. r_userId r = w_userId token \<and> r_revokedAt r = None)
                (\<lambda>r. r\<lparr>r_revokedAt := Some now\<rparr>)) (\<lambda>_.
             retT (Some (w_userId token))))))))"

section \<open>OAuth identities\<close>

record OAuthUserRecord =
  our_id :: pystr
  our_email :: "pystr option"
  our_email_verified :: bool
  our_name :: "pystr option"
  our_profile_url :: "pystr option"
  our_status :: UserStatus

definition oauth_record :: "UserRow \<Rightarrow> OAuthUserRecord" where
  "oauth_record u =
     \<lparr>our_id = u_id u, our_email = u_email u, our_email_verified = u_emailVerified u,
      our_name = u_name u, our_profile_url = u_profileUrl u, our_status = u_status u\<rparr>"

definition find_by_provider_id :: "pystr \<Rightarrow> pystr \<Rightarrow> (db, OAuthUserRecord option) tx" where
  "find_by_provider_id provider provider_user_id = readT (\<lambda>d.
     (case find (\<lambda>s. s_provider s = provider \<and> s_providerUserId s = provider_user_id
                     \<and> user_exists d (s_userId s)) (t_socials d) of
        None \<Rightarrow> None
      | Some s \<Rightarrow> map_option oauth_record (find (\<lambda>u. u_id u = s_userId s) (t_users d))))"

definition link_social ::
  "pystr \<Rightarrow> OAuthProfile \<Rightarrow> pystr option \<Rightarrow> pystr \<Rightarrow> int \<Rightarrow> string \<Rightarrow> (db, unit) tx" where
  "link_social i profile provider_email user_id now operation =
     inserted (insert_social
       \<lparr>s_id = i, s_provider = provider_value (op_provider profile),
        s_providerUserId = op_provider_user_id profile, s_providerEmail = provider_email,
        s_userId = user_id, s_createdAt = now\<rparr>) operation"

text \<open>The second half of \<^verbatim>\<open>resolve_or_create\<close>: a new active user for the profile.\<close>

definition create_oauth_user ::
  "(nat \<Rightarrow> pystr) \<Rightarrow> OAuthProfile \<Rightarrow> pystr option \<Rightarrow> DefaultRole \<Rightarrow> int \<Rightarrow> (db, OAuthUserRecord) tx" where
  "create_oauth_user u profile normalized_email default_role now =
     bindT (readT (\<lambda>d. if truthy normalized_email \<and> (\<exists>r \<in> set (t_users d). u_email r = normalized_email)
                       then None else normalized_email)) (\<lambda>user_email.
     bindT (readT (\<lambda>d. if truthy user_email
                       then find (\<lambda>v. Some (v_email v) = user_email) (t_reservations d)
                       else None)) (\<lambda>reserved.
     let user_id = (case reserved of Some v \<Rightarrow> v_subjectId v | None \<Rightarrow> u 0);
         row = \<lparr>u_id = user_id, u_email = user_email, u_name = op_name profile,
                u_profileUrl = op_profile_url profile, u_status = ACTIVE, u_createdAt = now,
                u_updatedAt = now, u_emailVerified = op_email_verified profile\<rparr>
     in
     bindT (insert_user row) (\<lambda>_.
     bindT (link_social (u 1) profile (op_email profile) user_id now ''OAuth social account insert'') (\<lambda>_.
     bindT (seed_temis_and_assign_default_role (\<lambda>i. u (i + 2)) user_id default_role) (\<lambda>_.
     retT (oauth_record row))))))"

definition resolve_or_create ::
  "(pystr \<Rightarrow> pystr) \<Rightarrow> (nat \<Rightarrow> pystr) \<Rightarrow> OAuthProfile \<Rightarrow> DefaultRole \<Rightarrow> int \<Rightarrow> (db, OAuthUserRecord) tx" where
  "resolve_or_create uni u profile default_role now =
     (let normalized_email = map_option (normalize_email uni) (op_email profile) in
      bindT (readT (\<lambda>d. if truthy normalized_email \<and> op_email_verified profile
                        then find (\<lambda>r. u_email r = normalized_email) (t_users d) else None)) (\<lambda>existing.
      case existing of
        None \<Rightarrow> create_oauth_user u profile normalized_email default_role now
      | Some r \<Rightarrow>
          if u_status r = PENDING_EMAIL_VERIFICATION \<and> \<not> u_emailVerified r
          then bindT (delete_users (\<lambda>x. u_id x = u_id r)) (\<lambda>removed.
               bindT (require_one removed ''pending OAuth identity replacement delete'') (\<lambda>_.
               create_oauth_user u profile normalized_email default_role now))
          else if u_status r = ACTIVE \<and> u_emailVerified r
          then bindT (link_social (u 0) profile normalized_email (u_id r) now ''OAuth identity attach'')
                 (\<lambda>_. retT (oauth_record r))
          else create_oauth_user u profile normalized_email default_role now))"

section \<open>Audit events\<close>

record AuditEventInsert =
  aei_id :: pystr
  aei_event_type :: pystr
  aei_outcome :: pystr
  aei_created_at :: int
  aei_user_id :: "pystr option"
  aei_actor_user_id :: "pystr option"
  aei_target_user_id :: "pystr option"
  aei_provider :: "pystr option"
  aei_service_key :: "pystr option"
  aei_ip_address :: "pystr option"
  aei_user_agent :: "pystr option"
  aei_reason_code :: "pystr option"
  aei_details_json :: "pydict option"

definition details_value :: "pydict option \<Rightarrow> pyval" where
  "details_value d = (case d of None \<Rightarrow> PNone | Some m \<Rightarrow> PDict m)"

definition audit_create :: "AuditEventInsert \<Rightarrow> (db, unit) tx" where
  "audit_create event =
     inserted (insert_audit
       \<lparr>a_id = aei_id event, a_userId = aei_user_id event, a_eventType = aei_event_type event,
        a_outcome = aei_outcome event, a_provider = aei_provider event,
        a_serviceKey = aei_service_key event, a_ipAddress = aei_ip_address event,
        a_userAgent = aei_user_agent event, a_reasonCode = aei_reason_code event,
        a_createdAt = aei_created_at event, a_actorUserId = aei_actor_user_id event,
        a_targetUserId = aei_target_user_id event, a_detailsJson = details_value (aei_details_json event)\<rparr>)
       ''audit event insert''"

definition find_user_id_by_email :: "(pystr \<Rightarrow> pystr) \<Rightarrow> pystr \<Rightarrow> (db, pystr option) tx" where
  "find_user_id_by_email uni email = readT (\<lambda>d.
     map_option u_id (find (\<lambda>u. u_email u = Some (normalize_email uni email)) (t_users d)))"

definition find_user_id_by_password_email :: "(pystr \<Rightarrow> pystr) \<Rightarrow> pystr \<Rightarrow> (db, pystr option) tx" where
  "find_user_id_by_password_email uni email = readT (\<lambda>d.
     map_option c_userId (find (\<lambda>c. c_email c = normalize_email uni email) (t_creds d)))"

section \<open>OIDC identities\<close>

definition lock_user :: "pystr \<Rightarrow> (db, CurrentUserWithStatus option) tx" where
  "lock_user user_id = readT (\<lambda>d.
     map_option (\<lambda>u. with_roles u d) (find (\<lambda>u. u_id u = user_id) (t_users d)))"

definition find_existing_social_user_id :: "pystr \<Rightarrow> pystr \<Rightarrow> (db, pystr option) tx" where
  "find_existing_social_user_id provider provider_user_id = readT (\<lambda>d.
     map_option s_userId (find (\<lambda>s. s_provider s = provider \<and> s_providerUserId s = provider_user_id)
       (t_socials d)))"

section \<open>The stores keep the constraints\<close>

lemma keeps_seed [keeps_intros]: "keepsT db_ok (seed_temis_and_assign_default_role u i r)"
  unfolding seed_temis_and_assign_default_role_def seed_role_def by (intro keeps_intros)

lemma keeps_identity_reads [keeps_intros]:
  "keepsT I (find_eligible_user e t)"
  "keepsT I (find_verification_token h)"
  "keepsT I (find_active_reset_user e)"
  "keepsT I (find_by_provider_id p i)"
  "keepsT I (find_user_id_by_email uni e)"
  "keepsT I (find_user_id_by_password_email uni e)"
  "keepsT I (lock_user i)"
  "keepsT I (find_existing_social_user_id p i)"
  by (simp_all add: find_eligible_user_def find_verification_token_def find_active_reset_user_def
      find_by_provider_id_def find_user_id_by_email_def find_user_id_by_password_email_def
      lock_user_def find_existing_social_user_id_def keeps_intros)

lemma keeps_create_tokens [keeps_intros]:
  "keepsT db_ok (create_verification_token t)"
  "keepsT db_ok (create_reset_token w)"
  "keepsT db_ok (audit_create a)"
  "keepsT db_ok (link_social i p e n t2 op)"
  by (simp_all add: create_verification_token_def create_reset_token_def audit_create_def
      link_social_def Let_def keeps_intros)

lemma keeps_activate [keeps_intros]: "keepsT db_ok (activate_user uni u r t dr)"
  unfolding activate_user_def Let_def by (intro keeps_intros) simp

lemma keeps_attach [keeps_intros]: "keepsT db_ok (attach_pending u p i t)"
  unfolding attach_pending_def by (intro keeps_intros)

lemma keeps_verification_confirm [keeps_intros]:
  "keepsT db_ok (verification_confirm uni u i n t r)"
  unfolding verification_confirm_def Let_def by (intro keeps_intros) simp

lemma keeps_reset_confirm [keeps_intros]: "keepsT db_ok (reset_confirm h p t)"
  unfolding reset_confirm_def by (intro keeps_intros) simp_all

lemma keeps_create_oauth [keeps_intros]: "keepsT db_ok (create_oauth_user u p e r t)"
  unfolding create_oauth_user_def Let_def by (intro keeps_intros)

lemma keeps_resolve [keeps_intros]: "keepsT db_ok (resolve_or_create uni u p r t)"
  unfolding resolve_or_create_def Let_def by (intro keeps_intros)

end
