(* ===== verification/Domain_Admin.thy ===== *)
theory Domain_Admin
  imports Domain_Auth Py_Value
begin

text \<open>
  \<^verbatim>\<open>domain/admin.py\<close>: the administrator contracts. Guards raise \<^verbatim>\<open>DomainError\<close>; the audit details
  are sanitised by three regular expressions under \<^verbatim>\<open>re.IGNORECASE\<close>, whose case folding on Unicode
  text also identifies U+017F with s, U+212A with k and U+0130, U+0131 with i. Whether a non-ASCII
  code point is alphanumeric (for the word boundaries) is an argument.
\<close>

section \<open>Records\<close>

record AdminRoleProfile =
  arp_id :: pystr
  arp_service_key :: pystr
  arp_name :: pystr

record AdminUserProfile =
  aup_id :: pystr
  aup_email :: "pystr option"
  aup_name :: "pystr option"
  aup_status :: UserStatus
  aup_created_at :: int
  aup_roles :: "AdminRoleProfile list"

record AdminUserListInput =
  aul_page :: int
  aul_page_size :: int
  aul_status :: "UserStatus option"
  aul_email :: "pystr option"
  aul_role :: "pystr option"

record AdminUserPage =
  aupg_items :: "AdminUserProfile list"
  aupg_total :: nat
  aupg_page :: int
  aupg_page_size :: int

record AuditLogListInput =
  all_page :: int
  all_page_size :: int
  all_created_at_from :: "int option"
  all_created_at_to :: "int option"
  all_event_type :: "pystr option"
  all_outcome :: "pystr option"
  all_user_id :: "pystr option"
  all_actor_user_id :: "pystr option"
  all_target_user_id :: "pystr option"
  all_reason_code :: "pystr option"

record StoredAuditLogRecord =
  sal_id :: pystr
  sal_event_type :: pystr
  sal_outcome :: pystr
  sal_user_id :: "pystr option"
  sal_actor_user_id :: "pystr option"
  sal_target_user_id :: "pystr option"
  sal_reason_code :: "pystr option"
  sal_details_json :: pyval
  sal_created_at :: int

record AdminAuditLogListItem =
  ali_id :: pystr
  ali_event_type :: pystr
  ali_outcome :: pystr
  ali_user_id :: "pystr option"
  ali_actor_user_id :: "pystr option"
  ali_target_user_id :: "pystr option"
  ali_reason_code :: "pystr option"
  ali_created_at :: int
  ali_details_json :: "pydict option"

record AdminAuditLogPage =
  alp_items :: "AdminAuditLogListItem list"
  alp_total :: nat
  alp_page :: int
  alp_page_size :: int

record AdminAuditRecord =
  aar_event_type :: pystr
  aar_actor_user_id :: "pystr option"
  aar_target_user_id :: "pystr option"
  aar_reason_code :: pystr
  aar_details_json :: "pydict option"
  aar_outcome :: pystr

record AuditRetentionCleanupResult =
  arc_cutoff :: int
  arc_deleted_count :: nat
  arc_dry_run :: bool
  arc_retention_days :: int

section \<open>Guards\<close>

definition MAX_PAGE_SIZE :: int where
  "MAX_PAGE_SIZE = 100"

definition DEFAULT_AUDIT_RETENTION_DAYS :: int where
  "DEFAULT_AUDIT_RETENTION_DAYS = 180"

definition invalid_request :: exn where
  "invalid_request = DomainError 400 (lit ''INVALID_REQUEST'') (lit ''Invalid request'')"

definition forbidden :: "string \<Rightarrow> exn" where
  "forbidden message = DomainError 403 (lit ''FORBIDDEN'') (lit message)"

definition assert_page :: "int \<Rightarrow> int \<Rightarrow> exn + unit" where
  "assert_page page page_size =
     (if page < 1 then Inl invalid_request
      else if \<not> (1 \<le> page_size \<and> page_size \<le> MAX_PAGE_SIZE) then Inl invalid_request
      else Inr ())"

definition parse_role_filter :: "pystr \<Rightarrow> exn + (pystr option \<times> pystr)" where
  "parse_role_filter v =
     (let parts = py_split_on 58 v in
      if 2 < length parts \<or> py_strip (hd parts) = [] then Inl invalid_request
      else (case parts of
              [name] \<Rightarrow> Inr (None, name)
            | _ \<Rightarrow> if py_strip (parts ! 1) = [] then Inl invalid_request
                   else Inr (Some (hd parts), parts ! 1)))"

definition check_AdminUserListInput :: "AdminUserListInput \<Rightarrow> exn + unit" where
  "check_AdminUserListInput i =
     bindE (assert_page (aul_page i) (aul_page_size i)) (\<lambda>_.
     bindE (case aul_email i of
              None \<Rightarrow> Inr ()
            | Some e \<Rightarrow> requireE (py_strip e \<noteq> []) invalid_request) (\<lambda>_.
     case aul_role i of
       None \<Rightarrow> Inr ()
     | Some r \<Rightarrow> bindE (parse_role_filter r) (\<lambda>_. Inr ())))"

definition check_AuditLogListInput :: "AuditLogListInput \<Rightarrow> exn + unit" where
  "check_AuditLogListInput i =
     bindE (assert_page (all_page i) (all_page_size i)) (\<lambda>_.
     bindE (requireE (\<forall>v \<in> set [all_event_type i, all_user_id i, all_actor_user_id i,
                               all_target_user_id i, all_reason_code i].
                        case v of None \<Rightarrow> True | Some s \<Rightarrow> py_strip s \<noteq> []) invalid_request) (\<lambda>_.
     requireE (all_outcome i \<in> {None, Some (lit ''request''), Some (lit ''success''), Some (lit ''failure'')})
       invalid_request))"

definition parse_user_status :: "pystr \<Rightarrow> exn + UserStatus" where
  "parse_user_status v = (case UserStatus_of v of
     None \<Rightarrow> Inl (DomainError 400 (lit ''INVALID_USER_STATUS'') (lit ''Unsupported user status''))
   | Some s \<Rightarrow> Inr s)"

definition assert_user_id :: "pystr \<Rightarrow> exn + unit" where
  "assert_user_id user_id =
     requireE (py_strip user_id \<noteq> []) (DomainError 400 (lit ''INVALID_USER_ID'') (lit ''User id is required''))"

definition assert_role_input :: "pystr \<Rightarrow> pystr \<Rightarrow> exn + unit" where
  "assert_role_input service_key name =
     requireE (py_strip service_key \<noteq> [] \<and> py_strip name \<noteq> [])
       (DomainError 400 (lit ''INVALID_ROLE'') (lit ''Role service key and name are required''))"

definition assert_self_status_change_allowed :: "pystr \<Rightarrow> pystr \<Rightarrow> UserStatus \<Rightarrow> exn + unit" where
  "assert_self_status_change_allowed actor target status =
     requireE (\<not> (actor = target \<and> status \<in> {SUSPENDED, DELETED}))
       (forbidden ''Admins cannot suspend or delete their own account'')"

definition assert_self_admin_role_removal_allowed :: "pystr \<Rightarrow> pystr \<Rightarrow> AdminRoleProfile \<Rightarrow> exn + unit" where
  "assert_self_admin_role_removal_allowed actor target role =
     requireE (\<not> (actor = target \<and> arp_service_key role = lit ''temis'' \<and> arp_name role = lit ''admin''))
       (forbidden ''Admins cannot remove their own admin role'')"

definition assert_self_session_revoke_allowed :: "pystr \<Rightarrow> pystr \<Rightarrow> exn + unit" where
  "assert_self_session_revoke_allowed actor target =
     requireE (actor \<noteq> target) (forbidden ''Admins cannot revoke their own sessions'')"

definition should_revoke_for_status :: "UserStatus \<Rightarrow> bool" where
  "should_revoke_for_status status \<longleftrightarrow> status \<in> {SUSPENDED, DELETED}"

section \<open>Sanitising audit details\<close>

definition ci_lower :: "nat \<Rightarrow> nat" where
  "ci_lower c = (if ascii_upper c then c + 32 else if c = 0x17F then 115
     else if c = 0x212A then 107 else if c = 0x130 \<or> c = 0x131 then 105 else c)"

definition ci_contains :: "string \<Rightarrow> pystr \<Rightarrow> bool" where
  "ci_contains w s = py_contains (lit w) (map ci_lower s)"

definition SENSITIVE_DETAIL_KEY :: "pystr \<Rightarrow> bool" where
  "SENSITIVE_DETAIL_KEY k \<longleftrightarrow> ci_contains ''token'' k \<or> ci_contains ''password'' k
     \<or> ci_contains ''secret'' k \<or> ci_contains ''code'' k \<or> ci_contains ''email'' k"

fun bearer_space :: "pystr \<Rightarrow> bool" where
  "bearer_space [] = False"
| "bearer_space (c # s) =
     ((is_prefix (lit ''bearer'') (map ci_lower (c # s))
       \<and> (case drop 6 (c # s) of [] \<Rightarrow> False | d # _ \<Rightarrow> py_isspace d))
      \<or> bearer_space s)"

definition SENSITIVE_DETAIL_VALUE :: "pystr \<Rightarrow> bool" where
  "SENSITIVE_DETAIL_VALUE v \<longleftrightarrow> ci_contains ''token'' v \<or> ci_contains ''password'' v
     \<or> ci_contains ''secret'' v \<or> bearer_space v \<or> ci_contains ''oauth-code'' v
     \<or> ci_contains ''handoff-code'' v"

definition ci_letter :: "nat \<Rightarrow> bool" where
  "ci_letter c \<longleftrightarrow> 97 \<le> ci_lower c \<and> ci_lower c \<le> 122"

definition local_char :: "nat \<Rightarrow> bool" where
  "local_char c \<longleftrightarrow> ci_letter c \<or> ascii_digit c \<or> c \<in> {46, 95, 37, 43, 45}"

definition domain_char :: "nat \<Rightarrow> bool" where
  "domain_char c \<longleftrightarrow> ci_letter c \<or> ascii_digit c \<or> c \<in> {46, 45}"

definition word_char :: "(nat \<Rightarrow> bool) \<Rightarrow> nat \<Rightarrow> bool" where
  "word_char uni_alnum c \<longleftrightarrow> (if c < 128 then ascii_alpha c \<or> ascii_digit c \<or> c = 95 else uni_alnum c)"

definition word_boundary :: "(nat \<Rightarrow> bool) \<Rightarrow> pystr \<Rightarrow> nat \<Rightarrow> bool" where
  "word_boundary uni_alnum s i \<longleftrightarrow>
     (0 < i \<and> word_char uni_alnum (s ! (i - 1))) \<noteq> (i < length s \<and> word_char uni_alnum (s ! i))"

definition between :: "nat \<Rightarrow> nat \<Rightarrow> (nat \<Rightarrow> bool) \<Rightarrow> pystr \<Rightarrow> bool" where
  "between i j p s \<longleftrightarrow> (\<forall>x \<in> set (take (j - i) (drop i s)). p x)"

text \<open>
  \<^verbatim>\<open>_EMAIL_LIKE_DETAIL_VALUE\<close>: a match is a start \<open>i\<close>, an at sign at \<open>j\<close>, the last dot at
  \<open>k\<close> and an end \<open>e\<close>.
\<close>

definition EMAIL_LIKE_DETAIL_VALUE :: "(nat \<Rightarrow> bool) \<Rightarrow> pystr \<Rightarrow> bool" where
  "EMAIL_LIKE_DETAIL_VALUE uni_alnum s \<longleftrightarrow>
     (\<exists>j \<in> set [1..<length s]. s ! j = 64 \<and>
       (\<exists>i \<in> set [0..<j]. word_boundary uni_alnum s i \<and> between i j local_char s) \<and>
       (\<exists>k \<in> set [j + 2..<length s]. s ! k = 46 \<and> between (j + 1) k domain_char s \<and>
         (\<exists>e \<in> set [k + 3..<length s + 1]. between (k + 1) e ci_letter s \<and> word_boundary uni_alnum s e)))"

definition REDACTED_AUDIT_VALUE :: pyval where
  "REDACTED_AUDIT_VALUE = PStr (lit ''[REDACTED]'')"

definition MAX_AUDIT_DETAILS_JSON_UNITS :: nat where
  "MAX_AUDIT_DETAILS_JSON_UNITS = 2048"

definition sanitize_value :: "(nat \<Rightarrow> bool) \<Rightarrow> pystr \<Rightarrow> pyval \<Rightarrow> pyval" where
  "sanitize_value uni_alnum key v =
     (if SENSITIVE_DETAIL_KEY key then REDACTED_AUDIT_VALUE
      else (case v of
              PStr s \<Rightarrow> if SENSITIVE_DETAIL_VALUE s \<or> EMAIL_LIKE_DETAIL_VALUE uni_alnum s
                        then REDACTED_AUDIT_VALUE else v
            | PFloat f \<Rightarrow> (case f of FiniteFloat r \<Rightarrow> v | _ \<Rightarrow> PNone)
            | PNone \<Rightarrow> v | PInt i \<Rightarrow> v | PBool b \<Rightarrow> v
            | _ \<Rightarrow> REDACTED_AUDIT_VALUE))"

definition details_too_large :: exn where
  "details_too_large = DomainError 400 (lit ''AUDIT_DETAILS_TOO_LARGE'') (lit ''Audit details exceed allowed size'')"

definition sanitize_audit_details :: "(nat \<Rightarrow> bool) \<Rightarrow> pydict \<Rightarrow> exn + pydict" where
  "sanitize_audit_details uni_alnum details =
     (let sanitized = map (\<lambda>(k, v). (k, sanitize_value uni_alnum k v)) details in
      if MAX_AUDIT_DETAILS_JSON_UNITS < javascript_string_length (json_dumps False (PDict sanitized))
      then Inl details_too_large
      else Inr sanitized)"

definition sanitize_audit_details_for_read :: "(nat \<Rightarrow> bool) \<Rightarrow> pyval \<Rightarrow> pydict option" where
  "sanitize_audit_details_for_read uni_alnum details =
     (case details of
        PDict d \<Rightarrow>
          (case sanitize_audit_details uni_alnum d of
             Inr s \<Rightarrow> Some s
           | Inl e \<Rightarrow> Some [(lit ''truncated'', PBool True)])
      | _ \<Rightarrow> None)"

definition audit_log_page ::
  "(nat \<Rightarrow> bool) \<Rightarrow> StoredAuditLogRecord list \<Rightarrow> nat \<Rightarrow> AuditLogListInput \<Rightarrow> AdminAuditLogPage" where
  "audit_log_page uni_alnum records total_count i =
     \<lparr>alp_items = map (\<lambda>r.
        \<lparr>ali_id = sal_id r, ali_event_type = sal_event_type r, ali_outcome = sal_outcome r,
         ali_user_id = sal_user_id r, ali_actor_user_id = sal_actor_user_id r,
         ali_target_user_id = sal_target_user_id r, ali_reason_code = sal_reason_code r,
         ali_created_at = sal_created_at r,
         ali_details_json = sanitize_audit_details_for_read uni_alnum (sal_details_json r)\<rparr>) records,
      alp_total = total_count, alp_page = all_page i, alp_page_size = all_page_size i\<rparr>"

section \<open>Retention\<close>

text \<open>\<^verbatim>\<open>timedelta\<close> holds at most 999999999 days and \<^verbatim>\<open>datetime\<close> starts at year one.\<close>

definition DATETIME_MIN :: int where
  "DATETIME_MIN = - 62135596800000"

definition audit_retention_cutoff :: "int \<Rightarrow> int \<Rightarrow> exn + int" where
  "audit_retention_cutoff now retention_days =
     (if retention_days < 1 then Inl (ValueError (lit ''retentionDays must be a positive integer''))
      else if 999999999 < retention_days \<or> now - retention_days * 86400000 < DATETIME_MIN
      then Inl OverflowError
      else Inr (now - retention_days * 86400000))"

section \<open>What the sanitiser guarantees\<close>

definition scalar_value :: "pyval \<Rightarrow> bool" where
  "scalar_value v = (case v of PList l \<Rightarrow> False | PDict d \<Rightarrow> False
     | PFloat f \<Rightarrow> (case f of FiniteFloat r \<Rightarrow> True | _ \<Rightarrow> False) | _ \<Rightarrow> True)"

lemma email_like_at: "EMAIL_LIKE_DETAIL_VALUE al s \<Longrightarrow> 64 \<in> set s"
proof -
  assume "EMAIL_LIKE_DETAIL_VALUE al s"
  then obtain j where j: "j \<in> set [1..<length s]" "s ! j = 64"
    unfolding EMAIL_LIKE_DETAIL_VALUE_def by blast
  then show ?thesis using nth_mem [of j s] by simp
qed

lemma redacted_not_sensitive: "\<not> SENSITIVE_DETAIL_VALUE (lit ''[REDACTED]'')"
  by code_simp

lemma redacted_not_email: "\<not> EMAIL_LIKE_DETAIL_VALUE al (lit ''[REDACTED]'')"
proof
  assume "EMAIL_LIKE_DETAIL_VALUE al (lit ''[REDACTED]'')"
  then have "64 \<in> set (lit ''[REDACTED]'')" by (rule email_like_at)
  then show False by (simp add: lit_def)
qed

lemma sanitize_value_key: "SENSITIVE_DETAIL_KEY k \<Longrightarrow> sanitize_value al k v = REDACTED_AUDIT_VALUE"
  by (simp add: sanitize_value_def)

lemma sanitize_value_str:
  "sanitize_value al k v = PStr t \<Longrightarrow> \<not> SENSITIVE_DETAIL_VALUE t \<and> \<not> EMAIL_LIKE_DETAIL_VALUE al t"
  by (auto simp: sanitize_value_def REDACTED_AUDIT_VALUE_def redacted_not_sensitive redacted_not_email
      split: if_splits pyval.splits pyfloat.splits)

lemma sanitize_value_scalar: "scalar_value (sanitize_value al k v)"
  by (auto simp: sanitize_value_def REDACTED_AUDIT_VALUE_def scalar_value_def
      split: if_splits pyval.splits pyfloat.splits)

lemma sanitize_value_fix:
  "scalar_value v \<Longrightarrow> (SENSITIVE_DETAIL_KEY k \<Longrightarrow> v = REDACTED_AUDIT_VALUE) \<Longrightarrow>
   (\<And>t. v = PStr t \<Longrightarrow> \<not> SENSITIVE_DETAIL_VALUE t \<and> \<not> EMAIL_LIKE_DETAIL_VALUE al t) \<Longrightarrow>
   sanitize_value al k v = v"
  by (cases v) (auto simp: sanitize_value_def scalar_value_def split: pyfloat.splits)

lemma sanitize_value_idem [simp]: "sanitize_value al k (sanitize_value al k v) = sanitize_value al k v"
  by (rule sanitize_value_fix) (auto simp: sanitize_value_scalar sanitize_value_key dest: sanitize_value_str)

text \<open>C10. Audit details that pass the sanitiser keep their keys in order, hold only scalar values,
  carry the redaction mark under every sensitive key, contain no sensitive or email-like text, fit
  the size limit in UTF-16 units, and are left unchanged when they are sanitised again.\<close>

theorem sanitize_audit_details_safe:
  assumes "sanitize_audit_details al d = Inr s"
  shows "map fst s = map fst d
    \<and> (\<forall>(k, v) \<in> set s. scalar_value v
         \<and> (SENSITIVE_DETAIL_KEY k \<longrightarrow> v = REDACTED_AUDIT_VALUE)
         \<and> (\<forall>t. v = PStr t \<longrightarrow> \<not> SENSITIVE_DETAIL_VALUE t \<and> \<not> EMAIL_LIKE_DETAIL_VALUE al t))
    \<and> javascript_string_length (json_dumps False (PDict s)) \<le> 2048
    \<and> sanitize_audit_details al s = Inr s"
proof -
  from assms have s: "s = map (\<lambda>(k, v). (k, sanitize_value al k v)) d"
    and size: "javascript_string_length (json_dumps False (PDict s)) \<le> 2048"
    by (auto simp: sanitize_audit_details_def Let_def MAX_AUDIT_DETAILS_JSON_UNITS_def not_less
        simp del: json_dumps.simps split: if_splits)
  have again: "map (\<lambda>(k, v). (k, sanitize_value al k v)) s = s"
    by (simp add: s split_def)
  show ?thesis
  proof (intro conjI)
    show "map fst s = map fst d" by (simp add: s split_def)
    show "\<forall>(k, v) \<in> set s. scalar_value v
         \<and> (SENSITIVE_DETAIL_KEY k \<longrightarrow> v = REDACTED_AUDIT_VALUE)
         \<and> (\<forall>t. v = PStr t \<longrightarrow> \<not> SENSITIVE_DETAIL_VALUE t \<and> \<not> EMAIL_LIKE_DETAIL_VALUE al t)"
      by (auto simp: s sanitize_value_scalar sanitize_value_key dest: sanitize_value_str)
    show "sanitize_audit_details al s = Inr s"
      using again size by (simp add: sanitize_audit_details_def MAX_AUDIT_DETAILS_JSON_UNITS_def del: json_dumps.simps)
  qed (rule size)
qed

lemma sanitize_audit_details_safe_witness:
  "let d = [(lit ''apiToken'', PStr (lit ''abc'')), (lit ''n'', PInt 3)];
       s = [(lit ''apiToken'', REDACTED_AUDIT_VALUE), (lit ''n'', PInt 3)]
   in sanitize_audit_details (\<lambda>_. False) d = Inr s \<and> sanitize_audit_details (\<lambda>_. False) s = Inr s"
proof -
  have "sanitize_audit_details (\<lambda>_. False) [(lit ''apiToken'', PStr (lit ''abc'')), (lit ''n'', PInt 3)]
    = Inr [(lit ''apiToken'', REDACTED_AUDIT_VALUE), (lit ''n'', PInt 3)]"
    by code_simp
  with sanitize_audit_details_safe [OF this] show ?thesis unfolding Let_def by blast
qed

end
