(* ===== verification/Store_Admin.thy ===== *)
theory Store_Admin
  imports Store_Identity Domain_Admin
begin

text \<open>
  The administrator stores of \<^verbatim>\<open>persistence/stores.py\<close>: \<^verbatim>\<open>AdminDirectoryStore\<close>,
  \<^verbatim>\<open>AdminMutationStore\<close>, \<^verbatim>\<open>AdminAuditQueryStore\<close> and \<^verbatim>\<open>AuditRetentionStore\<close>. \<^verbatim>\<open>ILIKE\<close> is the SQL
  pattern language over the database's case mapping, which is an argument; rows with equal
  timestamps keep their physical order.
\<close>

section \<open>Directory\<close>

fun like :: "pystr \<Rightarrow> pystr \<Rightarrow> bool" where
  "like [] s = (s = [])"
| "like (p # ps) s =
     (if p = 37 then like ps s \<or> (case s of [] \<Rightarrow> False | c # cs \<Rightarrow> like (p # ps) cs)
      else if p = 95 then (case s of [] \<Rightarrow> False | c # cs \<Rightarrow> like ps cs)
      else if p = 92 then (case ps of [] \<Rightarrow> False
             | q # qs \<Rightarrow> (case s of [] \<Rightarrow> False | c # cs \<Rightarrow> c = q \<and> like qs cs))
      else (case s of [] \<Rightarrow> False | c # cs \<Rightarrow> c = p \<and> like ps cs))"

definition ilike :: "(pystr \<Rightarrow> pystr) \<Rightarrow> pystr \<Rightarrow> pystr option \<Rightarrow> bool" where
  "ilike db_lower pattern v = (case v of None \<Rightarrow> False | Some s \<Rightarrow> like (db_lower pattern) (db_lower s))"

definition user_has_role :: "db \<Rightarrow> pystr \<Rightarrow> pystr option \<times> pystr \<Rightarrow> bool" where
  "user_has_role d user_id role =
     (\<exists>l \<in> set (t_user_roles d). l_userId l = user_id \<and>
       (\<exists>r \<in> set (t_roles d). o_id r = l_roleId l \<and> o_name r = snd role
          \<and> (case fst role of None \<Rightarrow> True | Some k \<Rightarrow> o_serviceKey r = k)))"

definition matches_user_filter ::
  "(pystr \<Rightarrow> pystr) \<Rightarrow> db \<Rightarrow> AdminUserListInput \<Rightarrow> (pystr option \<times> pystr) option \<Rightarrow> UserRow \<Rightarrow> bool" where
  "matches_user_filter db_lower d i role u \<longleftrightarrow>
     (case aul_status i of None \<Rightarrow> True | Some s \<Rightarrow> u_status u = s)
     \<and> (case aul_email i of None \<Rightarrow> True | Some e \<Rightarrow> ilike db_lower ([37] @ py_strip e @ [37]) (u_email u))
     \<and> (case role of None \<Rightarrow> True | Some r \<Rightarrow> user_has_role d (u_id u) r)"

definition page_rows :: "int \<Rightarrow> int \<Rightarrow> 'r list \<Rightarrow> 'r list" where
  "page_rows page page_size rs = take (nat page_size) (drop (nat ((page - 1) * page_size)) rs)"

definition role_profile :: "RoleRow \<Rightarrow> AdminRoleProfile" where
  "role_profile r = \<lparr>arp_id = o_id r, arp_service_key = o_serviceKey r, arp_name = o_name r\<rparr>"

definition admin_roles_of :: "db \<Rightarrow> pystr \<Rightarrow> AdminRoleProfile list" where
  "admin_roles_of d user_id =
     concat (map (\<lambda>l. map role_profile (filter (\<lambda>r. o_id r = l_roleId l) (t_roles d)))
                 (filter (\<lambda>l. l_userId l = user_id) (t_user_roles d)))"

definition admin_profile :: "db \<Rightarrow> UserRow \<Rightarrow> AdminUserProfile" where
  "admin_profile d u =
     \<lparr>aup_id = u_id u, aup_email = u_email u, aup_name = u_name u, aup_status = u_status u,
      aup_created_at = u_createdAt u, aup_roles = admin_roles_of d (u_id u)\<rparr>"

definition list_users :: "(pystr \<Rightarrow> pystr) \<Rightarrow> AdminUserListInput \<Rightarrow> (db, AdminUserPage) tx" where
  "list_users db_lower i =
     bindT (liftT (case aul_role i of None \<Rightarrow> Inr None
                   | Some r \<Rightarrow> bindE (parse_role_filter r) (\<lambda>x. Inr (Some x)))) (\<lambda>role.
     readT (\<lambda>d.
       let rows = filter (matches_user_filter db_lower d i role) (t_users d) in
       \<lparr>aupg_items = map (admin_profile d)
          (page_rows (aul_page i) (aul_page_size i) (sort_key (\<lambda>u. - u_createdAt u) rows)),
        aupg_total = length rows, aupg_page = aul_page i, aupg_page_size = aul_page_size i\<rparr>))"

definition find_role_by_id :: "pystr \<Rightarrow> (db, AdminRoleProfile option) tx" where
  "find_role_by_id role_id = readT (\<lambda>d.
     map_option role_profile (find (\<lambda>r. o_id r = role_id) (t_roles d)))"

definition is_active_temis_admin :: "pystr \<Rightarrow> (db, bool) tx" where
  "is_active_temis_admin user_id = readT (\<lambda>d.
     is_active_user d user_id \<and> user_has_role d user_id (Some (lit ''temis''), lit ''admin''))"

section \<open>Mutations\<close>

definition update_user_status :: "pystr \<Rightarrow> UserStatus \<Rightarrow> int \<Rightarrow> (db, bool) tx" where
  "update_user_status user_id status updated_at =
     bindT (update_users (\<lambda>u. u_id u = user_id) (\<lambda>u. u\<lparr>u_status := status, u_updatedAt := updated_at\<rparr>)) (\<lambda>n.
     if n \<noteq> 0 \<and> n \<noteq> 1 then raiseT (RuntimeError (lit ''admin user status update count exceeded one''))
     else retT (n = 1))"

definition lock_user_for_refresh_token_revocation :: "pystr \<Rightarrow> (db, bool) tx" where
  "lock_user_for_refresh_token_revocation user_id = readT (\<lambda>d. user_exists d user_id)"

definition revoke_all_refresh_tokens_for_user :: "pystr \<Rightarrow> int \<Rightarrow> (db, nat) tx" where
  "revoke_all_refresh_tokens_for_user user_id revoked_at =
     bindT (lock_user_for_refresh_token_revocation user_id) (\<lambda>locked.
     if \<not> locked then retT 0
     else update_refreshes (\<lambda>r. r_userId r = user_id \<and> r_revokedAt r = None)
            (\<lambda>r. r\<lparr>r_revokedAt := Some revoked_at\<rparr>))"

definition find_role :: "pystr \<Rightarrow> pystr \<Rightarrow> (db, AdminRoleProfile option) tx" where
  "find_role service_key name = readT (\<lambda>d.
     map_option role_profile (find (\<lambda>r. o_serviceKey r = service_key \<and> o_name r = name) (t_roles d)))"

text \<open>\<^verbatim>\<open>ON CONFLICT DO UPDATE\<close> writes the same service key back and returns the row either way.\<close>

definition upsert_role :: "pystr \<Rightarrow> pystr \<Rightarrow> pystr \<Rightarrow> (db, AdminRoleProfile) tx" where
  "upsert_role i service_key name =
     bindT (insert_role_if_absent \<lparr>o_id = i, o_serviceKey = service_key, o_name = name\<rparr>) (\<lambda>_.
     bindT (find_role service_key name) (\<lambda>row.
     case row of None \<Rightarrow> raiseT (RuntimeError (lit ''admin role upsert did not return a role''))
     | Some r \<Rightarrow> retT r))"

definition assign_role_to_user :: "pystr \<Rightarrow> pystr \<Rightarrow> pystr \<Rightarrow> (db, bool) tx" where
  "assign_role_to_user i user_id role_id =
     bindT (insert_user_role_if_absent \<lparr>l_id = i, l_userId = user_id, l_roleId = role_id\<rparr>) (\<lambda>n.
     if n \<noteq> 0 \<and> n \<noteq> 1 then raiseT (RuntimeError (lit ''admin user role insert count exceeded one''))
     else retT (n = 1))"

definition remove_role_from_user :: "pystr \<Rightarrow> pystr \<Rightarrow> (db, bool) tx" where
  "remove_role_from_user user_id role_id =
     bindT (delete_user_roles (\<lambda>l. l_userId l = user_id \<and> l_roleId l = role_id)) (\<lambda>n. retT (0 < n))"

definition create_admin_audit_log :: "pystr \<Rightarrow> AdminAuditRecord \<Rightarrow> int \<Rightarrow> (db, unit) tx" where
  "create_admin_audit_log i event created_at =
     inserted (insert_audit
       \<lparr>a_id = i, a_userId = aar_target_user_id event, a_eventType = aar_event_type event,
        a_outcome = aar_outcome event, a_provider = None, a_serviceKey = None, a_ipAddress = None,
        a_userAgent = None, a_reasonCode = Some (aar_reason_code event), a_createdAt = created_at,
        a_actorUserId = aar_actor_user_id event, a_targetUserId = aar_target_user_id event,
        a_detailsJson = details_value (aar_details_json event)\<rparr>)
       ''admin audit event insert''"

section \<open>Audit queries and retention\<close>

definition eq_filter :: "pystr option \<Rightarrow> pystr option \<Rightarrow> bool" where
  "eq_filter wanted v = (case wanted of None \<Rightarrow> True | Some w \<Rightarrow> v = Some w)"

definition matches_audit_filter :: "AuditLogListInput \<Rightarrow> AuditRow \<Rightarrow> bool" where
  "matches_audit_filter i a \<longleftrightarrow>
     (case all_created_at_from i of None \<Rightarrow> True | Some t \<Rightarrow> t \<le> a_createdAt a)
     \<and> (case all_created_at_to i of None \<Rightarrow> True | Some t \<Rightarrow> a_createdAt a \<le> t)
     \<and> eq_filter (all_event_type i) (Some (a_eventType a))
     \<and> eq_filter (all_outcome i) (Some (a_outcome a))
     \<and> eq_filter (all_user_id i) (a_userId a)
     \<and> eq_filter (all_actor_user_id i) (a_actorUserId a)
     \<and> eq_filter (all_target_user_id i) (a_targetUserId a)
     \<and> eq_filter (all_reason_code i) (a_reasonCode a)"

definition stored_record :: "AuditRow \<Rightarrow> StoredAuditLogRecord" where
  "stored_record a =
     \<lparr>sal_id = a_id a, sal_event_type = a_eventType a, sal_outcome = a_outcome a,
      sal_user_id = a_userId a, sal_actor_user_id = a_actorUserId a,
      sal_target_user_id = a_targetUserId a, sal_reason_code = a_reasonCode a,
      sal_details_json = a_detailsJson a, sal_created_at = a_createdAt a\<rparr>"

definition audit_query :: "(nat \<Rightarrow> bool) \<Rightarrow> AuditLogListInput \<Rightarrow> (db, AdminAuditLogPage) tx" where
  "audit_query uni_alnum i = readT (\<lambda>d.
     let rows = filter (matches_audit_filter i) (t_audits d) in
     audit_log_page uni_alnum
       (map stored_record (page_rows (all_page i) (all_page_size i) (sort_key (\<lambda>a. - a_createdAt a) rows)))
       (length rows) i)"

definition count_older_than :: "int \<Rightarrow> (db, nat) tx" where
  "count_older_than cutoff = readT (\<lambda>d. count_rows (\<lambda>a. a_createdAt a < cutoff) (t_audits d))"

definition delete_older_than :: "int \<Rightarrow> (db, nat) tx" where
  "delete_older_than cutoff = delete_audits (\<lambda>a. a_createdAt a < cutoff)"

definition retention_cleanup :: "int \<Rightarrow> int \<Rightarrow> bool \<Rightarrow> (db, AuditRetentionCleanupResult) tx" where
  "retention_cleanup now retention_days execute =
     bindT (liftT (audit_retention_cutoff now retention_days)) (\<lambda>cutoff.
     bindT (if execute then delete_older_than cutoff else count_older_than cutoff) (\<lambda>deleted_count.
     retT \<lparr>arc_cutoff = cutoff, arc_deleted_count = deleted_count, arc_dry_run = \<not> execute,
           arc_retention_days = retention_days\<rparr>))"

section \<open>The stores keep the constraints\<close>

lemma keeps_admin_reads [keeps_intros]:
  "keepsT I (list_users lo i)"
  "keepsT I (find_role_by_id r)"
  "keepsT I (is_active_temis_admin u)"
  "keepsT I (lock_user_for_refresh_token_revocation u)"
  "keepsT I (find_role k n)"
  "keepsT I (audit_query al q)"
  "keepsT I (count_older_than c)"
  by (simp_all add: list_users_def find_role_by_id_def is_active_temis_admin_def find_role_def
      lock_user_for_refresh_token_revocation_def audit_query_def count_older_than_def keeps_intros)

lemma keeps_admin_mutations [keeps_intros]:
  "keepsT db_ok (update_user_status u s t)"
  "keepsT db_ok (revoke_all_refresh_tokens_for_user u t)"
  "keepsT db_ok (upsert_role i k n)"
  "keepsT db_ok (assign_role_to_user i u r)"
  "keepsT db_ok (remove_role_from_user u r)"
  "keepsT db_ok (create_admin_audit_log i e t)"
  "keepsT db_ok (delete_older_than c)"
  "keepsT db_ok (retention_cleanup t days ex)"
  by (simp_all add: update_user_status_def revoke_all_refresh_tokens_for_user_def upsert_role_def
      assign_role_to_user_def remove_role_from_user_def create_admin_audit_log_def
      delete_older_than_def retention_cleanup_def keeps_intros)

end
