(* ===== verification/Transactions.thy ===== *)
theory Transactions
  imports Wise_Prelude
begin

text \<open>
  \<^verbatim>\<open>persistence/database.py\<close>: \<^verbatim>\<open>Database.transaction\<close> runs a database-only callback, retries the
  whole transaction on the SQLSTATEs 40001 and 40P01 at most twice, and rolls back on every
  exception. What the engine does is an argument: \<open>fault i\<close> is the error PostgreSQL raises on
  attempt \<open>i\<close>, if any, and \<open>env i\<close> is what other transactions committed before that attempt.
  The lemmas show atomicity, the retry bound and the backoff schedule, and that an invariant of the
  work and of the environment is an invariant of the transaction.
\<close>

definition RETRYABLE_SQLSTATES :: "pystr set" where
  "RETRYABLE_SQLSTATES = {map of_char ''40001'', map of_char ''40P01''}"

definition retryable :: "exn \<Rightarrow> bool" where
  "retryable e = (case e of DBAPIError s \<Rightarrow> (case s of None \<Rightarrow> False | Some c \<Rightarrow> c \<in> RETRYABLE_SQLSTATES)
     | _ \<Rightarrow> False)"

text \<open>\<^verbatim>\<open>_default_backoff\<close> in milliseconds.\<close>

definition default_backoff :: "nat \<Rightarrow> nat" where
  "default_backoff retry_number = 25 * 2 ^ (retry_number - 1)"

record ('s, 'a) tx_run =
  tr_result :: "exn + 'a"
  tr_state :: 's
  tr_attempts :: nat
  tr_backoffs :: "nat list"

definition attempt_once :: "exn option \<Rightarrow> ('s, 'a) tx \<Rightarrow> 's \<Rightarrow> exn + ('a \<times> 's)" where
  "attempt_once fault work s = (case fault of Some e \<Rightarrow> Inl e | None \<Rightarrow> work s)"

text \<open>The loop \<^verbatim>\<open>for attempt in range(1, max_attempts + 1)\<close>; \<open>left\<close> counts the attempts that
  remain after this one, so it is zero exactly when \<^verbatim>\<open>attempt == max_attempts\<close>.\<close>

fun retry_loop ::
  "nat \<Rightarrow> nat \<Rightarrow> (nat \<Rightarrow> exn option) \<Rightarrow> (nat \<Rightarrow> 's \<Rightarrow> 's) \<Rightarrow> ('s, 'a) tx \<Rightarrow> 's \<Rightarrow> nat list \<Rightarrow> ('s, 'a) tx_run" where
  "retry_loop left attempt fault env work s slept =
     (let s0 = env attempt s in
      case attempt_once (fault attempt) work s0 of
        Inr (a, s') \<Rightarrow> \<lparr>tr_result = Inr a, tr_state = s', tr_attempts = attempt, tr_backoffs = slept\<rparr>
      | Inl e \<Rightarrow>
          (case left of
             0 \<Rightarrow> \<lparr>tr_result = Inl e, tr_state = s0, tr_attempts = attempt, tr_backoffs = slept\<rparr>
           | Suc n \<Rightarrow>
               if retryable e
               then retry_loop n (Suc attempt) fault env work s0 (slept @ [default_backoff attempt])
               else \<lparr>tr_result = Inl e, tr_state = s0, tr_attempts = attempt, tr_backoffs = slept\<rparr>))"

declare retry_loop.simps [simp del]

definition transaction ::
  "bool \<Rightarrow> nat \<Rightarrow> (nat \<Rightarrow> exn option) \<Rightarrow> (nat \<Rightarrow> 's \<Rightarrow> 's) \<Rightarrow> ('s, 'a) tx \<Rightarrow> 's \<Rightarrow> ('s, 'a) tx_run" where
  "transaction closed max_attempts fault env work s =
     (if closed
      then \<lparr>tr_result = Inl (RuntimeError (map of_char ''database is closed'')), tr_state = s,
            tr_attempts = 0, tr_backoffs = []\<rparr>
      else if \<not> (1 \<le> max_attempts \<and> max_attempts \<le> 3)
      then \<lparr>tr_result = Inl (ValueError (map of_char ''max_attempts must be between 1 and 3'')),
            tr_state = s, tr_attempts = 0, tr_backoffs = []\<rparr>
      else retry_loop (max_attempts - 1) 1 fault env work s [])"

text \<open>What an undisturbed transaction does to the service's view of the database.\<close>

definition run_tx :: "('s, 'a) tx \<Rightarrow> ('s, 'a) act" where
  "run_tx work s = (case work s of Inl e \<Rightarrow> (Inl e, s) | Inr (a, s') \<Rightarrow> (Inr a, s'))"

lemma run_tx_Inr: "run_tx work s = (Inr a, s') \<longleftrightarrow> work s = Inr (a, s')"
  by (auto simp: run_tx_def split: sum.splits)

lemma run_tx_Inl: "run_tx work s = (Inl e, s') \<longleftrightarrow> work s = Inl e \<and> s' = s"
  by (auto simp: run_tx_def split: sum.splits)

section \<open>Atomicity and bounded retries\<close>

fun env_run :: "(nat \<Rightarrow> 's \<Rightarrow> 's) \<Rightarrow> nat \<Rightarrow> nat \<Rightarrow> 's \<Rightarrow> 's" where
  "env_run env i 0 s = s"
| "env_run env i (Suc n) s = env_run env (Suc i) n (env i s)"

lemma retry_loop_outcome:
  assumes "r = retry_loop left attempt fault env work s slept" "0 < attempt"
  shows "\<exists>n \<le> left. tr_attempts r = attempt + n
    \<and> tr_backoffs r = slept @ map default_backoff [attempt..<attempt + n]
    \<and> (\<forall>i \<in> {attempt..<attempt + n}. \<exists>e. retryable e \<and>
         attempt_once (fault i) work (env_run env attempt (Suc (i - attempt)) s) = Inl e)
    \<and> (case attempt_once (fault (attempt + n)) work (env_run env attempt (Suc n) s) of
         Inr (a, s') \<Rightarrow> tr_result r = Inr a \<and> tr_state r = s'
       | Inl e \<Rightarrow> tr_result r = Inl e \<and> tr_state r = env_run env attempt (Suc n) s
           \<and> (retryable e \<longrightarrow> n = left))"
  using assms
proof (induction left arbitrary: attempt s slept r)
  case 0
  show ?case
    by (rule exI [of _ 0]) (simp add: "0.prems"(1) retry_loop.simps Let_def split: sum.splits)
next
  case (Suc left)
  let ?s0 = "env attempt s"
  show ?case
  proof (cases "\<exists>e. attempt_once (fault attempt) work ?s0 = Inl e \<and> retryable e")
    case False
    then show ?thesis
      by (intro exI [of _ 0]) (auto simp: Suc.prems(1) retry_loop.simps Let_def split: sum.splits)
  next
    case True
    then obtain e where e: "attempt_once (fault attempt) work ?s0 = Inl e" "retryable e" by blast
    then have r: "r = retry_loop left (Suc attempt) fault env work ?s0 (slept @ [default_backoff attempt])"
      using Suc.prems(1) by (simp add: retry_loop.simps [of "Suc left"] Let_def)
    from Suc.IH [OF r] obtain n where n: "n \<le> left" "tr_attempts r = Suc attempt + n"
      "tr_backoffs r = (slept @ [default_backoff attempt]) @ map default_backoff [Suc attempt..<Suc attempt + n]"
      "\<And>i. i \<in> {Suc attempt..<Suc attempt + n} \<Longrightarrow> \<exists>e. retryable e \<and>
         attempt_once (fault i) work (env_run env (Suc attempt) (Suc (i - Suc attempt)) ?s0) = Inl e"
      "case attempt_once (fault (Suc attempt + n)) work (env_run env (Suc attempt) (Suc n) ?s0) of
         Inr (a, s') \<Rightarrow> tr_result r = Inr a \<and> tr_state r = s'
       | Inl e \<Rightarrow> tr_result r = Inl e \<and> tr_state r = env_run env (Suc attempt) (Suc n) ?s0
           \<and> (retryable e \<longrightarrow> n = left)"
      by auto
    have "\<exists>e. retryable e \<and> attempt_once (fault i) work (env_run env attempt (Suc (i - attempt)) s) = Inl e"
      if "i \<in> {attempt..<attempt + Suc n}" for i
    proof (cases "i = attempt")
      case True
      with e show ?thesis by auto
    next
      case False
      with that have i: "i \<in> {Suc attempt..<Suc attempt + n}" "i - attempt = Suc (i - Suc attempt)" by auto
      from n(4) [OF i(1)] show ?thesis by (simp add: i(2))
    qed
    moreover have "[attempt..<attempt + Suc n] = attempt # [Suc attempt..<Suc attempt + n]"
      by (simp add: upt_conv_Cons del: upt_Suc)
    ultimately show ?thesis
      using n(1,2,3,5) by (intro exI [of _ "Suc n"]) (simp del: upt_Suc split: sum.splits prod.splits)
  qed
qed

section \<open>Transactional work as an interface\<close>

text \<open>
  What the services rely on when they hand a callback to \<^verbatim>\<open>Database.transaction\<close>: the callback keeps
  an invariant of the rows. The client's lemma is that the retried transaction keeps it too, whatever
  faults occur, if the other committed transactions keep it.
\<close>

locale transactional_work =
  fixes inv :: "'s \<Rightarrow> bool" and work :: "('s, 'a) tx"
  assumes work_keeps: "keepsT inv work"
begin

lemma attempt_keeps: "inv s \<Longrightarrow> attempt_once fault work s = Inr (a, s') \<Longrightarrow> inv s'"
  by (auto simp: attempt_once_def split: option.splits intro: keepsTD [OF work_keeps])

lemma env_run_keeps:
  assumes "\<And>i s. inv s \<Longrightarrow> inv (env i s)" "inv s"
  shows "inv (env_run env i n s)"
  using assms(2) by (induction n arbitrary: i s) (simp_all add: assms(1))

lemma transaction_keeps:
  assumes "\<And>i s. inv s \<Longrightarrow> inv (env i s)" "inv s"
  shows "inv (tr_state (transaction closed n fault env work s))"
proof (cases "closed \<or> \<not> (1 \<le> n \<and> n \<le> 3)")
  case True
  with assms(2) show ?thesis by (auto simp: transaction_def)
next
  case False
  define r where "r = retry_loop (n - 1) 1 fault env work s []"
  from retry_loop_outcome [OF r_def] obtain k where
    k: "case attempt_once (fault (1 + k)) work (env_run env 1 (Suc k) s) of
         Inr (a, s') \<Rightarrow> tr_result r = Inr a \<and> tr_state r = s'
       | Inl e \<Rightarrow> tr_result r = Inl e \<and> tr_state r = env_run env 1 (Suc k) s
           \<and> (retryable e \<longrightarrow> k = n - 1)" by auto
  have "inv (env_run env 1 (Suc k) s)" by (rule env_run_keeps) (fact assms)+
  with k have "inv (tr_state r)" by (auto split: sum.splits dest: attempt_keeps)
  with False show ?thesis by (simp add: transaction_def r_def)
qed

lemma run_keeps: "inv s \<Longrightarrow> inv (snd (run_tx work s))"
  by (auto simp: run_tx_def split: sum.splits intro: keepsTD [OF work_keeps])

end

text \<open>C6. A transaction is all or nothing: it makes at most \<open>max_attempts\<close> attempts, sleeping 25 and
  then 50 milliseconds between them; either its result and state are those of one complete run of the
  callback on what the other transactions had committed, or it raises and leaves the database as the
  others left it. A serialization failure or deadlock surfaces only after the last attempt.\<close>

theorem transaction_atomic:
  assumes "1 \<le> max_attempts" "max_attempts \<le> 3"
    and "r = transaction False max_attempts fault env work s"
  shows "1 \<le> tr_attempts r \<and> tr_attempts r \<le> max_attempts
    \<and> tr_backoffs r = take (tr_attempts r - 1) [25, 50]
    \<and> (case tr_result r of
         Inr a \<Rightarrow> fault (tr_attempts r) = None
           \<and> work (env_run env 1 (tr_attempts r) s) = Inr (a, tr_state r)
       | Inl e \<Rightarrow> tr_state r = env_run env 1 (tr_attempts r) s
           \<and> (retryable e \<longrightarrow> tr_attempts r = max_attempts))"
proof -
  have "r = retry_loop (max_attempts - 1) 1 fault env work s []"
    using assms by (simp add: transaction_def)
  from retry_loop_outcome [OF this] obtain n where n: "n \<le> max_attempts - 1" "tr_attempts r = 1 + n"
    "tr_backoffs r = map default_backoff [1..<1 + n]"
    "case attempt_once (fault (1 + n)) work (env_run env 1 (Suc n) s) of
         Inr (a, s') \<Rightarrow> tr_result r = Inr a \<and> tr_state r = s'
       | Inl e \<Rightarrow> tr_result r = Inl e \<and> tr_state r = env_run env 1 (Suc n) s
           \<and> (retryable e \<longrightarrow> n = max_attempts - 1)"
    by auto
  have "n = 0 \<or> n = 1 \<or> n = 2" using n(1) assms(2) by auto
  then have "tr_backoffs r = take (tr_attempts r - 1) [25, 50]"
    unfolding n(2,3) by (auto simp: default_backoff_def numeral_2_eq_2)
  moreover have "1 \<le> tr_attempts r \<and> tr_attempts r \<le> max_attempts"
    using n(1,2) assms(1) by linarith
  ultimately show ?thesis
    using n(2,4) assms(1)
    by (auto simp: attempt_once_def split: sum.splits option.splits)
qed

lemma transaction_atomic_witness:
  "let r = transaction False 3 (\<lambda>i. if i = 1 then Some (DBAPIError (Some (map of_char ''40P01''))) else None)
             (\<lambda>_ s. s) (\<lambda>s. Inr ((), s + 1)) (5 :: int)
   in tr_attempts r = 2 \<and> tr_backoffs r = [25] \<and> tr_state r = 6"
proof -
  let ?r = "transaction False 3 (\<lambda>i. if i = 1 then Some (DBAPIError (Some (map of_char ''40P01''))) else None)
             (\<lambda>_ s. s) (\<lambda>s. Inr ((), s + 1)) (5 :: int)"
  have two: "tr_attempts ?r = 2" by code_simp
  have res: "tr_result ?r = Inr ()" by code_simp
  have "tr_backoffs ?r = take (2 - 1) [25, 50]"
    using transaction_atomic [OF _ _ refl, of 3 "\<lambda>i. if i = 1 then Some (DBAPIError (Some (map of_char ''40P01''))) else None"
        "\<lambda>_ s. s" "\<lambda>s. Inr ((), s + 1)" "5 :: int"] two by simp
  moreover have "tr_state ?r = 6" by code_simp
  ultimately show ?thesis using two by simp
qed

end
