(* ===== verification/Refresh_Sessions.thy ===== *)
theory Refresh_Sessions
  imports Store_Admin Transactions
begin

text \<open>
  What the stores of \<^verbatim>\<open>persistence/stores.py\<close> guarantee: the exact effect of a refresh rotation and
  its single use, the failure counter and the lock, the effect of a password reset and of an email
  confirmation, and the conditions under which an OAuth profile reaches an existing account.
\<close>

section \<open>Lookups by unique columns\<close>

lemma db_ok_distinct:
  assumes "db_ok d"
  shows "distinct (map u_id (t_users d))" "distinct (map c_userId (t_creds d))"
    "distinct (map c_email (t_creds d))" "distinct (map e_id (t_verifs d))"
    "distinct (map e_tokenHash (t_verifs d))" "distinct (map w_id (t_resets d))"
    "distinct (map w_tokenHash (t_resets d))" "distinct (map p_userId (t_pendings d))"
    "distinct (map o_id (t_roles d))" "distinct (map r_id (t_refreshes d))"
  using db_okD(1-10) [OF assms] by (simp_all add: uniq_all_def key_defs uniq_distinct)

lemma db_ok_email_unique:
  assumes "db_ok d" "r \<in> set (t_users d)" "s \<in> set (t_users d)" "u_email r = Some e" "u_email s = Some e"
  shows "r = s"
proof -
  have "uniq (\<lambda>r. map_option (\<lambda>e. [e]) (u_email r)) (t_users d)"
    using db_okD(1) [OF assms(1)] by (simp add: uniq_all_def user_keys_def)
  then show ?thesis using assms(2-5) by (auto intro: uniq_eq)
qed

lemma find_by_key:
  assumes "distinct (map k rs)" "r \<in> set rs"
  shows "find (\<lambda>x. k x = k r) rs = Some r"
  by (rule find_unique [OF assms(1,2)]) simp_all

lemma count_by_key:
  assumes "distinct (map k rs)" "r \<in> set rs"
  shows "count_rows (\<lambda>x. k x = k r) rs = 1"
  by (rule count_rows_unique [OF assms(1,2)]) simp_all

lemma count_by_key_le:
  assumes "distinct (map k rs)" "\<And>x. p x \<Longrightarrow> k x = v"
  shows "count_rows p rs \<le> 1"
proof (cases "\<exists>r \<in> set rs. p r")
  case True
  obtain r where r: "r \<in> set rs" "p r" using True by blast
  have "count_rows p rs = 1"
    by (rule count_rows_unique [where k = k and r = r]) (use assms r in simp_all)
  then show ?thesis by simp
next
  case False
  then have "count_rows p rs = 0" by (simp add: count_rows_0_iff)
  then show ?thesis by simp
qed

section \<open>Rotation\<close>

lemma inserted_run: "inserted m op d = (case m d of Inl e \<Rightarrow> Inl e | Inr (u, d') \<Rightarrow> Inr ((), d'))"
  by (auto simp: inserted_def bindT_def require_one_def retT_def split: sum.splits)

lemma inserted_Inr: "inserted m op d = Inr (u, d') \<longleftrightarrow> m d = Inr (u, d')"
  by (auto simp: inserted_run split: sum.splits)

lemma update_refreshes_Inr: "update_refreshes p f d = Inr (n, d') \<longleftrightarrow>
    n = count_rows p (t_refreshes d) \<and> d' = d\<lparr>t_refreshes := update_rows p f (t_refreshes d)\<rparr>"
  by (auto simp: update_refreshes_def)

lemma update_creds_Inr: "update_creds p f d = Inr (n, d') \<longleftrightarrow>
    n = count_rows p (t_creds d) \<and> d' = d\<lparr>t_creds := update_rows p f (t_creds d)\<rparr>"
  by (auto simp: update_creds_def)

definition successor_row :: "RefreshReplacement \<Rightarrow> RefreshTokenRecord \<Rightarrow> RefreshRow" where
  "successor_row new rec =
     \<lparr>r_id = rr_id new, r_tokenHash = rr_token_hash new, r_userId = rtr_user_id rec,
      r_expiresAt = rr_expires_at new, r_revokedAt = None, r_createdAt = rr_created_at new,
      r_audience = rtr_audience rec\<rparr>"

lemma rotate_success_iff:
  "rotate_token h au now None (Some factory) d = Inr (Some rec, d') \<longleftrightarrow>
   (\<exists>st new. find (\<lambda>r. r_tokenHash r = h) (t_refreshes d) = Some st
      \<and> rec = \<lparr>rtr_user_id = r_userId st, rtr_audience = r_audience st\<rparr>
      \<and> r_audience st = au \<and> is_active_user d (r_userId st)
      \<and> count_rows (live_token h now) (t_refreshes d) = 1
      \<and> factory rec = Inr new
      \<and> \<not> taken refresh_keys (successor_row new rec)
            (update_rows (live_token h now) (\<lambda>r. r\<lparr>r_revokedAt := Some now\<rparr>) (t_refreshes d))
      \<and> d' = d\<lparr>t_refreshes :=
           update_rows (live_token h now) (\<lambda>r. r\<lparr>r_revokedAt := Some now\<rparr>) (t_refreshes d)
             @ [successor_row new rec]\<rparr>)"
proof (cases "find (\<lambda>r. r_tokenHash r = h) (t_refreshes d)")
  case None
  then show ?thesis by (simp add: rotate_token_def bindT_Inr_iff)
next
  case (Some st)
  have "user_exists d (r_userId st)" if "is_active_user d (r_userId st)"
    using that by (force simp: is_active_user_def user_exists_def)
  then show ?thesis
    using Some by (auto simp: rotate_token_def bindT_Inr_iff Let_def inserted_Inr insert_refresh_def checked_Inr
        update_refreshes_Inr successor_row_def)
qed

text \<open>\<open>spent h now d\<close>: no token of hash \<open>h\<close> can be rotated at \<open>now\<close> or later.\<close>

definition spent :: "pystr \<Rightarrow> int \<Rightarrow> db \<Rightarrow> bool" where
  "spent h now d \<longleftrightarrow> (\<forall>r \<in> set (t_refreshes d). r_tokenHash r = h \<longrightarrow> r_revokedAt r \<noteq> None \<or> r_expiresAt r \<le> now)"

lemma spent_no_live: "spent h now d \<Longrightarrow> now \<le> now' \<Longrightarrow> count_rows (live_token h now') (t_refreshes d) = 0"
  by (force simp: spent_def count_rows_0_iff live_token_def)

lemma rotate_spent:
  assumes "spent h now d" "now \<le> now'"
  shows "rotate_token h au now' None (Some factory) d = Inr (None, d)
    \<or> rotate_token h au now' None (Some factory) d = Inl RefreshRotationConflict"
proof (cases "find (\<lambda>r. r_tokenHash r = h) (t_refreshes d)")
  case None
  then show ?thesis by (simp add: rotate_token_def seq_simps)
next
  case (Some st)
  then show ?thesis
    using spent_no_live [OF assms] by (simp add: rotate_token_def seq_simps update_refreshes_def)
qed

lemma spent_after_revoke:
  "spent h now (d\<lparr>t_refreshes := update_rows (live_token h now) (\<lambda>r. r\<lparr>r_revokedAt := Some t\<rparr>) (t_refreshes d)\<rparr>)"
  unfolding spent_def
proof (intro ballI impI)
  fix r assume r: "r \<in> set (t_refreshes (d\<lparr>t_refreshes := update_rows (live_token h now)
      (\<lambda>r. r\<lparr>r_revokedAt := Some t\<rparr>) (t_refreshes d)\<rparr>))" and h: "r_tokenHash r = h"
  from r have "(\<exists>s \<in> set (t_refreshes d). r = s\<lparr>r_revokedAt := Some t\<rparr>) \<or> \<not> live_token h now r"
    by (simp add: in_update_rows) blast
  then show "r_revokedAt r \<noteq> None \<or> r_expiresAt r \<le> now"
  proof
    assume "\<not> live_token h now r"
    with h show ?thesis by (simp add: live_token_def not_less)
  qed auto
qed

text \<open>Once spent, a hash stays spent under every statement that inserts no token of that hash.\<close>

lemma keeps_spent_same:
  "(\<And>d a d'. m d = Inr (a, d') \<Longrightarrow> t_refreshes d' = t_refreshes d) \<Longrightarrow> keepsT (spent h now) m"
  unfolding keepsT_def spent_def by metis

lemma keeps_spent_insert:
  "r_tokenHash r \<noteq> h \<Longrightarrow> keepsT (spent h now) (insert_refresh r)"
  by (rule keepsTI) (auto simp: insert_refresh_def checked_Inr spent_def)

lemma keeps_spent_update:
  assumes "\<And>r. p r \<Longrightarrow> r_tokenHash (f r) = r_tokenHash r \<and> r_expiresAt (f r) = r_expiresAt r
      \<and> (r_revokedAt r \<noteq> None \<longrightarrow> r_revokedAt (f r) \<noteq> None)"
  shows "keepsT (spent h now) (update_refreshes p f)"
  by (rule keepsTI) (use assms in \<open>force simp: update_refreshes_Inr spent_def in_update_rows\<close>)

lemma keeps_spent_delete: "keepsT (spent h now) (delete_refreshes p)"
  by (rule keepsTI) (auto simp: delete_refreshes_def spent_def)

text \<open>C1. A refresh token is used at most once. When a rotation succeeds, the stored token of that hash
  had the expected audience and an active user, exactly one live row was revoked, one live successor
  for the same user and audience was appended, and nothing else changed; and if the successor has a
  different hash, every later rotation of the old hash returns nothing or raises the conflict that
  rolls its transaction back.\<close>

theorem refresh_rotation_single_use:
  assumes "rotate_token h au now None (Some factory) d = Inr (Some rec, d')"
    and "\<And>new. factory rec = Inr new \<Longrightarrow> rr_token_hash new \<noteq> h"
  shows "(\<exists>new. factory rec = Inr new
        \<and> rtr_audience rec = au \<and> is_active_user d (rtr_user_id rec)
        \<and> count_rows (live_token h now) (t_refreshes d) = 1
        \<and> d' = d\<lparr>t_refreshes :=
             update_rows (live_token h now) (\<lambda>r. r\<lparr>r_revokedAt := Some now\<rparr>) (t_refreshes d)
               @ [successor_row new rec]\<rparr>)
    \<and> (\<forall>now' au' factory'. now \<le> now' \<longrightarrow>
         rotate_token h au' now' None (Some factory') d' \<in> {Inr (None, d'), Inl RefreshRotationConflict})"
proof -
  from assms(1) obtain st :: RefreshRow and new where new: "factory rec = Inr new"
    and rec: "rec = \<lparr>rtr_user_id = r_userId st, rtr_audience = r_audience st\<rparr>"
    and d': "d' = d\<lparr>t_refreshes :=
        update_rows (live_token h now) (\<lambda>r. r\<lparr>r_revokedAt := Some now\<rparr>) (t_refreshes d)
          @ [successor_row new rec]\<rparr>"
    and rest: "r_audience st = au" "is_active_user d (r_userId st)"
      "count_rows (live_token h now) (t_refreshes d) = 1"
    unfolding rotate_success_iff by (elim exE conjE) (rule that; assumption)
  have "spent h now d'"
    using spent_after_revoke [of h now now d] assms(2) [OF new]
    by (auto simp: d' spent_def successor_row_def)
  then have "\<forall>now' au' factory'. now \<le> now' \<longrightarrow>
      rotate_token h au' now' None (Some factory') d' \<in> {Inr (None, d'), Inl RefreshRotationConflict}"
    using rotate_spent by blast
  moreover have "rtr_audience rec = au" "is_active_user d (rtr_user_id rec)"
    using rec rest by simp_all
  ultimately show ?thesis using new d' rest(3) by blast
qed

definition sample_user :: UserRow where
  "sample_user = \<lparr>u_id = lit ''u1'', u_email = Some (lit ''a@b.co''), u_name = None, u_profileUrl = None,
     u_status = ACTIVE, u_createdAt = 1, u_updatedAt = 1, u_emailVerified = True\<rparr>"

definition sample_cred :: CredRow where
  "sample_cred = \<lparr>c_id = lit ''c1'', c_userId = lit ''u1'', c_email = lit ''a@b.co'',
     c_passwordHash = lit ''h'', c_failedLoginCount = 0, c_lockedUntil = None, c_passwordUpdatedAt = 1,
     c_createdAt = 1, c_updatedAt = 1\<rparr>"

definition sample_token :: RefreshRow where
  "sample_token = \<lparr>r_id = lit ''t1'', r_tokenHash = lit ''h1'', r_userId = lit ''u1'', r_expiresAt = 100,
     r_revokedAt = None, r_createdAt = 1, r_audience = lit ''temis''\<rparr>"

definition sample_reset :: ResetRow where
  "sample_reset = \<lparr>w_id = lit ''w1'', w_tokenHash = lit ''wh'', w_userId = lit ''u1'', w_expiresAt = 100,
     w_usedAt = None, w_createdAt = 1\<rparr>"

definition sample_db :: db where
  "sample_db = empty_db\<lparr>t_users := [sample_user], t_creds := [sample_cred],
     t_refreshes := [sample_token], t_resets := [sample_reset]\<rparr>"

lemmas sample_defs = sample_user_def sample_cred_def sample_token_def sample_reset_def sample_db_def

lemma sample_db_ok: "db_ok sample_db"
  by (simp add: db_ok_def keys_ok_def refs_ok_def sample_defs empty_db_def uniq_all_def uniq_def
      user_exists_def)

definition sample_replacement :: "RefreshTokenRecord \<Rightarrow> exn + RefreshReplacement" where
  "sample_replacement rec = Inr \<lparr>rr_id = lit ''t2'', rr_token_hash = lit ''h2'', rr_expires_at = 200, rr_created_at = 50\<rparr>"

lemma refresh_rotation_single_use_witness:
  "\<exists>rec d'. rotate_token (lit ''h1'') (lit ''temis'') 50 None (Some sample_replacement) sample_db = Inr (Some rec, d')
     \<and> rotate_token (lit ''h1'') (lit ''temis'') 60 None (Some sample_replacement) d'
         \<in> {Inr (None, d'), Inl RefreshRotationConflict}"
proof -
  let ?rec = "\<lparr>rtr_user_id = lit ''u1'', rtr_audience = lit ''temis''\<rparr>"
  let ?d = "sample_db\<lparr>t_refreshes := [sample_token\<lparr>r_revokedAt := Some 50\<rparr>,
      successor_row \<lparr>rr_id = lit ''t2'', rr_token_hash = lit ''h2'', rr_expires_at = 200, rr_created_at = 50\<rparr> ?rec]\<rparr>"
  have run: "rotate_token (lit ''h1'') (lit ''temis'') 50 None (Some sample_replacement) sample_db = Inr (Some ?rec, ?d)"
    by code_simp
  have "rr_token_hash new \<noteq> lit ''h1''" if "sample_replacement ?rec = Inr new" for new
    using that by (auto simp: sample_replacement_def)
  from refresh_rotation_single_use [OF run this] run show ?thesis by force
qed

section \<open>Failed logins\<close>

lemma increment_failures_Inr:
  "increment_failures i t d = Inr (n, d') \<longleftrightarrow>
     (\<forall>c \<in> set (t_creds d). c_userId c = i \<longrightarrow> c_failedLoginCount c < INT4_MAX)
     \<and> n = count_rows (\<lambda>c. c_userId c = i) (t_creds d)
     \<and> d' = d\<lparr>t_creds := update_rows (\<lambda>c. c_userId c = i)
          (\<lambda>c. c\<lparr>c_failedLoginCount := c_failedLoginCount c + 1, c_updatedAt := t\<rparr>) (t_creds d)\<rparr>"
  by (auto simp: increment_failures_def update_creds_Inr INT4_MAX_def)

text \<open>What one recorded failure does to the credential of its user.\<close>

definition failed_once :: "int \<Rightarrow> int \<Rightarrow> int \<Rightarrow> CredRow \<Rightarrow> CredRow" where
  "failed_once locked_until updated_at threshold c =
     c\<lparr>c_failedLoginCount := c_failedLoginCount c + 1,
       c_lockedUntil := (if threshold \<le> c_failedLoginCount c + 1 then Some locked_until else c_lockedUntil c),
       c_updatedAt := updated_at\<rparr>"

lemma update_rows_twice:
  assumes "\<And>r. p (f r) = p r" 
  shows "update_rows (\<lambda>r. p r \<and> q r) g (update_rows p f rs) =
     update_rows p (\<lambda>r. if q (f r) then g (f r) else f r) rs"
  using assms by (auto simp: update_rows_def)

lemma updated_key_row:
  assumes "distinct (map k rs)" "r \<in> set rs" "\<And>x. k (f x) = k x"
  shows "distinct (map k (update_rows (\<lambda>x. k x = k r) f rs))"
    and "f r \<in> set (update_rows (\<lambda>x. k x = k r) f rs)"
    and "x \<in> set (update_rows (\<lambda>x. k x = k r) f rs) \<Longrightarrow> k x = k r \<Longrightarrow> x = f r"
proof -
  have "map k (update_rows (\<lambda>x. k x = k r) f rs) = map k rs"
    by (rule map_update_rows_same) (simp add: assms(3))
  then show d: "distinct (map k (update_rows (\<lambda>x. k x = k r) f rs))" using assms(1) by simp
  show m: "f r \<in> set (update_rows (\<lambda>x. k x = k r) f rs)"
    using assms(2) by (auto simp: in_update_rows)
  assume "x \<in> set (update_rows (\<lambda>x. k x = k r) f rs)" "k x = k r"
  with distinct_map_key_eq [OF d _ m] show "x = f r" by (simp add: assms(3))
qed

lemma find_update_rows:
  assumes "distinct (map k rs)" "r \<in> set rs" "\<And>x. k (f x) = k x"
  shows "find (\<lambda>x. k x = k r) (update_rows (\<lambda>x. k x = k r) f rs) = Some (f r)"
  by (rule find_unique [where k = k]) (simp_all add: updated_key_row [OF assms] assms(3))

lemma count_update_rows_cond:
  assumes "distinct (map k rs)" "r \<in> set rs" "\<And>x. k (f x) = k x"
  shows "count_rows (\<lambda>x. k x = k r \<and> q x) (update_rows (\<lambda>x. k x = k r) f rs) = (if q (f r) then 1 else 0)"
proof (cases "q (f r)")
  case True
  have "count_rows (\<lambda>x. k x = k r \<and> q x) (update_rows (\<lambda>x. k x = k r) f rs) = 1"
    by (rule count_rows_unique [where k = k and r = "f r"])
      (simp_all add: updated_key_row [OF assms] assms(3) True)
  with True show ?thesis by simp
next
  case False
  then have "count_rows (\<lambda>x. k x = k r \<and> q x) (update_rows (\<lambda>x. k x = k r) f rs) = 0"
    unfolding count_rows_0_iff using updated_key_row(3) [OF assms] by blast
  with False show ?thesis by simp
qed

lemma record_failure_effect:
  assumes ok: "db_ok d" and c: "c \<in> set (t_creds d)" "c_userId c = i"
    and small: "c_failedLoginCount c < INT4_MAX" and threshold: "1 \<le> threshold"
  shows "record_failure i locked_until updated_at threshold d =
    Inr (\<lparr>fl_found = True, fl_failed_login_count = Some (c_failedLoginCount c + 1),
          fl_locked_until = (if threshold \<le> c_failedLoginCount c + 1 then Some locked_until else None)\<rparr>,
      d\<lparr>t_creds := update_rows (\<lambda>x. c_userId x = i) (failed_once locked_until updated_at threshold) (t_creds d)\<rparr>)"
proof -
  let ?f = "\<lambda>c. c\<lparr>c_failedLoginCount := c_failedLoginCount c + 1, c_updatedAt := updated_at\<rparr>"
  let ?u = "update_rows (\<lambda>x. c_userId x = i) ?f (t_creds d)"
  note dist = db_ok_distinct(2) [OF ok]
  have only: "x = c" if "x \<in> set (t_creds d)" "c_userId x = i" for x
    using distinct_map_key_eq [OF dist that(1) c(1)] that(2) c(2) by simp
  have one: "count_rows (\<lambda>x. c_userId x = i) (t_creds d) = 1"
    using count_by_key [OF dist c(1)] c(2) by simp
  have inc: "increment_failures i updated_at d = Inr (1, d\<lparr>t_creds := ?u\<rparr>)"
    using one small only by (auto simp: increment_failures_Inr)
  have row: "find (\<lambda>x. c_userId x = i) ?u = Some (?f c)"
    using find_update_rows [OF dist c(1), of ?f] c(2) by simp
  have lock: "count_rows (\<lambda>x. c_userId x = i \<and> threshold \<le> c_failedLoginCount x) ?u
      = (if threshold \<le> c_failedLoginCount c + 1 then 1 else 0)"
    using count_update_rows_cond [OF dist c(1), of ?f "\<lambda>x. threshold \<le> c_failedLoginCount x"] c(2) by simp
  have final: "update_rows (\<lambda>x. c_userId x = i \<and> threshold \<le> c_failedLoginCount x)
       (\<lambda>c. c\<lparr>c_lockedUntil := Some locked_until, c_updatedAt := updated_at\<rparr>) ?u
      = update_rows (\<lambda>x. c_userId x = i) (failed_once locked_until updated_at threshold) (t_creds d)"
    by (subst update_rows_twice) (auto simp: failed_once_def update_rows_def)
  show ?thesis
    using threshold inc row lock final
    by (simp add: record_failure_def seq_simps update_creds_def)
qed

section \<open>Password reset\<close>

lemma update_resets_Inr: "update_resets p f d = Inr (n, d') \<longleftrightarrow>
    n = count_rows p (t_resets d) \<and> d' = d\<lparr>t_resets := update_rows p f (t_resets d)\<rparr>"
  by (auto simp: update_resets_def)

lemma require_one_Inr: "require_one n op d = Inr (u, d') \<longleftrightarrow> n = 1 \<and> d' = d"
  by (auto simp: require_one_def)

definition usable_reset :: "int \<Rightarrow> ResetRow \<Rightarrow> bool" where
  "usable_reset now w \<longleftrightarrow> w_usedAt w = None \<and> now < w_expiresAt w"

text \<open>The database after the reset of user \<open>i\<close> by the token with id \<open>k\<close>.\<close>

definition after_reset :: "pystr \<Rightarrow> pystr \<Rightarrow> pystr \<Rightarrow> int \<Rightarrow> db \<Rightarrow> db" where
  "after_reset k i password_hash now d =
     d\<lparr>t_resets := update_rows (\<lambda>w. w_id w = k \<and> w_usedAt w = None \<and> now < w_expiresAt w)
                     (\<lambda>w. w\<lparr>w_usedAt := Some now\<rparr>) (t_resets d),
       t_creds := update_rows (\<lambda>c. c_userId c = i)
         (\<lambda>c. c\<lparr>c_passwordHash := password_hash, c_failedLoginCount := 0, c_lockedUntil := None,
                c_passwordUpdatedAt := now, c_updatedAt := now\<rparr>) (t_creds d),
       t_refreshes := update_rows (\<lambda>r. r_userId r = i \<and> r_revokedAt r = None)
         (\<lambda>r. r\<lparr>r_revokedAt := Some now\<rparr>) (t_refreshes d)\<rparr>"

lemma reset_confirm_Some:
  assumes "reset_confirm h p now d = Inr (Some i, d')"
  shows "\<exists>w \<in> set (t_resets d). w_tokenHash w = h \<and> w_userId w = i \<and> usable_reset now w
    \<and> d' = after_reset (w_id w) i p now d"
proof -
  from assms obtain w where w:
    "find (\<lambda>w. w_tokenHash w = h \<and> w_usedAt w = None \<and> now < w_expiresAt w) (t_resets d) = Some w"
    by (auto simp: reset_confirm_def bindT_Inr_iff split: option.splits)
  from find_Some_set [OF this] have m: "w \<in> set (t_resets d)" "w_tokenHash w = h" "usable_reset now w"
    by (auto simp: usable_reset_def)
  from assms w have "w_userId w = i \<and> d' = after_reset (w_id w) i p now d"
    by (auto simp: reset_confirm_def bindT_Inr_iff update_resets_Inr update_creds_Inr
        update_refreshes_Inr require_one_Inr after_reset_def split: if_splits)
  with m show ?thesis by blast
qed

lemma after_reset_unusable:
  assumes "db_ok d" "w \<in> set (t_resets d)" "usable_reset now w"
    and "x \<in> set (t_resets (after_reset (w_id w) i p now d))" "w_tokenHash x = w_tokenHash w"
  shows "w_usedAt x \<noteq> None"
proof -
  from assms(4) consider y where "y \<in> set (t_resets d)" "x = y\<lparr>w_usedAt := Some now\<rparr>"
    | "x \<in> set (t_resets d)" "\<not> (w_id x = w_id w \<and> w_usedAt x = None \<and> now < w_expiresAt x)"
    by (auto simp: after_reset_def in_update_rows)
  then show ?thesis
  proof cases
    case 2
    then have "x = w"
      using distinct_map_key_eq [OF db_ok_distinct(7) [OF assms(1)]] assms(2,5) by blast
    with 2 assms(3) show ?thesis by (auto simp: usable_reset_def)
  qed simp
qed

text \<open>C3. A password reset that succeeds used a stored, unused and unexpired token of exactly that
  hash; it replaces the password of the token's user, clears the failure counter and the lock, leaves
  the user without any live refresh token, touches no other user's credential or session, and no
  later confirmation with the same token does anything.\<close>

theorem password_reset_confirm_effect:
  assumes ok: "db_ok d" and run: "reset_confirm h p now d = Inr (Some i, d')"
  shows "(\<exists>w \<in> set (t_resets d). w_tokenHash w = h \<and> w_userId w = i \<and> usable_reset now w)
    \<and> (\<forall>c \<in> set (t_creds d'). c_userId c = i \<longrightarrow>
         c_passwordHash c = p \<and> c_failedLoginCount c = 0 \<and> c_lockedUntil c = None)
    \<and> (\<forall>r \<in> set (t_refreshes d'). r_userId r = i \<longrightarrow> r_revokedAt r \<noteq> None)
    \<and> filter (\<lambda>c. c_userId c \<noteq> i) (t_creds d') = filter (\<lambda>c. c_userId c \<noteq> i) (t_creds d)
    \<and> filter (\<lambda>r. r_userId r \<noteq> i) (t_refreshes d') = filter (\<lambda>r. r_userId r \<noteq> i) (t_refreshes d)
    \<and> (t_users d' = t_users d \<and> t_user_roles d' = t_user_roles d \<and> t_socials d' = t_socials d)
    \<and> (\<forall>p' now'. reset_confirm h p' now' d' = Inr (None, d'))"
proof -
  from reset_confirm_Some [OF run] obtain w where w: "w \<in> set (t_resets d)" "w_tokenHash w = h"
    "w_userId w = i" "usable_reset now w" and d': "d' = after_reset (w_id w) i p now d" by blast
  have "find (\<lambda>w. w_tokenHash w = h \<and> w_usedAt w = None \<and> t < w_expiresAt w) (t_resets d') = None" for t
    unfolding find_None_set d' using after_reset_unusable [OF ok w(1,4)] w(2) by metis
  then have "\<forall>p' t. reset_confirm h p' t d' = Inr (None, d')"
    by (simp add: reset_confirm_def seq_simps)
  moreover have "filter (\<lambda>c. c_userId c \<noteq> i) (t_creds d') = filter (\<lambda>c. c_userId c \<noteq> i) (t_creds d)"
    by (auto simp: d' after_reset_def intro!: filter_update_rows_other)
  moreover have "filter (\<lambda>r. r_userId r \<noteq> i) (t_refreshes d') = filter (\<lambda>r. r_userId r \<noteq> i) (t_refreshes d)"
    by (auto simp: d' after_reset_def intro!: filter_update_rows_other)
  moreover have "\<forall>c \<in> set (t_creds d'). c_userId c = i \<longrightarrow>
         c_passwordHash c = p \<and> c_failedLoginCount c = 0 \<and> c_lockedUntil c = None"
    by (simp add: d' after_reset_def ball_update_rows)
  moreover have "\<forall>r \<in> set (t_refreshes d'). r_userId r = i \<longrightarrow> r_revokedAt r \<noteq> None"
    by (simp add: d' after_reset_def ball_update_rows)
  moreover have "t_users d' = t_users d \<and> t_user_roles d' = t_user_roles d \<and> t_socials d' = t_socials d"
    by (simp add: d' after_reset_def)
  moreover have "\<exists>w \<in> set (t_resets d). w_tokenHash w = h \<and> w_userId w = i \<and> usable_reset now w"
    using w by blast
  ultimately show ?thesis by (intro conjI) blast+
qed

lemma password_reset_confirm_effect_witness:
  "\<exists>d'. reset_confirm (lit ''wh'') (lit ''new'') 50 sample_db = Inr (Some (lit ''u1''), d')
     \<and> (\<forall>r \<in> set (t_refreshes d'). r_userId r = lit ''u1'' \<longrightarrow> r_revokedAt r \<noteq> None)
     \<and> reset_confirm (lit ''wh'') (lit ''other'') 51 d' = Inr (None, d')"
proof -
  have run: "reset_confirm (lit ''wh'') (lit ''new'') 50 sample_db
     = Inr (Some (lit ''u1''), after_reset (lit ''w1'') (lit ''u1'') (lit ''new'') 50 sample_db)"
    by code_simp
  from password_reset_confirm_effect [OF sample_db_ok run] run show ?thesis by blast
qed

end
