(* ===== verification/Account_Identity.thy ===== *)
theory Account_Identity
  imports Refresh_Sessions
begin

text \<open>
  The identity operations of \<^verbatim>\<open>persistence/stores.py\<close> against their contracts: what the default
  role seeding leaves behind, when \<^verbatim>\<open>resolve_or_create\<close> gives an OAuth profile access to an existing
  account, and what \<^verbatim>\<open>EmailVerificationStore.confirm\<close> does on each of its branches.
\<close>

section \<open>Seeding the default role\<close>

text \<open>\<open>same_but_roles\<close>: only the role tables changed, and they only grew.\<close>

definition same_but_roles :: "db \<Rightarrow> db \<Rightarrow> bool" where
  "same_but_roles d d' \<longleftrightarrow> d' = d\<lparr>t_roles := t_roles d', t_user_roles := t_user_roles d'\<rparr>
     \<and> set (t_roles d) \<subseteq> set (t_roles d') \<and> set (t_user_roles d) \<subseteq> set (t_user_roles d')"

lemma same_but_roles_refl [simp]: "same_but_roles d d"
  by (simp add: same_but_roles_def)

lemma same_but_rolesD:
  assumes "same_but_roles d d'"
  shows "t_users d' = t_users d" "t_creds d' = t_creds d" "t_pendings d' = t_pendings d"
    "t_reservations d' = t_reservations d" "t_socials d' = t_socials d" "t_refreshes d' = t_refreshes d"
    "t_verifs d' = t_verifs d" "t_resets d' = t_resets d" "t_audits d' = t_audits d"
  using assms by (metis same_but_roles_def db.select_convs(1-9) db.surjective db.update_convs(10,11))+

lemma same_but_roles_trans:
  assumes "same_but_roles a b" "same_but_roles b c"
  shows "same_but_roles a c"
proof -
  have "c = a\<lparr>t_roles := t_roles c, t_user_roles := t_user_roles c\<rparr>"
    using same_but_rolesD [OF assms(1)] same_but_rolesD [OF assms(2)] by simp
  with assms show ?thesis by (auto simp: same_but_roles_def)
qed

lemma insert_role_if_absent_effect:
  assumes "insert_role_if_absent r d = Inr (n, d')"
  shows "same_but_roles d d'"
    "\<exists>s \<in> set (t_roles d'). o_serviceKey s = o_serviceKey r \<and> o_name s = o_name r"
  using assms
  by (auto simp: insert_role_if_absent_def bindT_Inr_iff insert_role_def checked_Inr same_but_roles_def
      split: if_splits)

lemma insert_user_role_if_absent_effect:
  assumes "insert_user_role_if_absent l d = Inr (n, d')"
  shows "same_but_roles d d'" "t_roles d' = t_roles d"
    "\<exists>s \<in> set (t_user_roles d'). l_userId s = l_userId l \<and> l_roleId s = l_roleId l"
  using assms
  by (auto simp: insert_user_role_if_absent_def bindT_Inr_iff insert_user_role_def checked_Inr same_but_roles_def
      split: if_splits)

lemma seed_effect:
  assumes "seed_temis_and_assign_default_role u i r d = Inr (x, d')"
  shows "same_but_roles d d'" "user_has_role d' i (Some (dr_service_key r), dr_name r)"
proof -
  from assms obtain d1 d2 d3 d4 n1 n2 n3 n4 n5 w where
    s: "seed_role (u 0) (lit ''temis'') (lit ''pending'') d = Inr (n1, d1)"
      "seed_role (u 1) (lit ''temis'') (lit ''user'') d1 = Inr (n2, d2)"
      "seed_role (u 2) (lit ''temis'') (lit ''admin'') d2 = Inr (n3, d3)"
      "seed_role (u 3) (dr_service_key r) (dr_name r) d3 = Inr (n4, d4)"
    and w: "find (\<lambda>x. o_serviceKey x = dr_service_key r \<and> o_name x = dr_name r) (t_roles d4) = Some w"
    and l: "insert_user_role_if_absent \<lparr>l_id = u 4, l_userId = i, l_roleId = o_id w\<rparr> d4 = Inr (n5, d')"
    by (auto simp: seed_temis_and_assign_default_role_def bindT_Inr_iff split: option.splits)
  note e = insert_role_if_absent_effect(1) [OF s(1) [unfolded seed_role_def]]
    insert_role_if_absent_effect(1) [OF s(2) [unfolded seed_role_def]]
    insert_role_if_absent_effect(1) [OF s(3) [unfolded seed_role_def]]
    insert_role_if_absent_effect(1) [OF s(4) [unfolded seed_role_def]]
  from e have "same_but_roles d d4" by (blast intro: same_but_roles_trans)
  then show "same_but_roles d d'"
    using insert_user_role_if_absent_effect(1) [OF l] by (rule same_but_roles_trans)
  from find_Some_set [OF w] have "w \<in> set (t_roles d')" "o_serviceKey w = dr_service_key r" "o_name w = dr_name r"
    using insert_user_role_if_absent_effect(2) [OF l] by auto
  moreover from insert_user_role_if_absent_effect(3) [OF l] obtain k where
    "k \<in> set (t_user_roles d')" "l_userId k = i" "l_roleId k = o_id w" by auto
  ultimately show "user_has_role d' i (Some (dr_service_key r), dr_name r)"
    by (auto simp: user_has_role_def intro!: bexI [of _ k] bexI [of _ w])
qed

section \<open>OAuth identities\<close>

lemma insert_user_Inr: "insert_user r d = Inr (x, d') \<longleftrightarrow>
    \<not> taken user_keys r (t_users d) \<and> d' = d\<lparr>t_users := t_users d @ [r]\<rparr>"
  by (simp add: insert_user_def checked_Inr)

lemma link_social_Inr: "link_social i p e n t op d = Inr (x, d') \<longleftrightarrow>
    (let r = \<lparr>s_id = i, s_provider = provider_value (op_provider p), s_providerUserId = op_provider_user_id p,
              s_providerEmail = e, s_userId = n, s_createdAt = t\<rparr>
     in \<not> taken social_keys r (t_socials d) \<and> user_exists d n \<and> d' = d\<lparr>t_socials := t_socials d @ [r]\<rparr>)"
  by (simp add: link_social_def inserted_Inr insert_social_def checked_Inr Let_def)

definition linked_to :: "db \<Rightarrow> OAuthProfile \<Rightarrow> pystr \<Rightarrow> bool" where
  "linked_to d p i \<longleftrightarrow> (\<exists>s \<in> set (t_socials d). s_provider s = provider_value (op_provider p)
     \<and> s_providerUserId s = op_provider_user_id p \<and> s_userId s = i)"

lemma create_oauth_user_effect:
  assumes "create_oauth_user u p ne dr now d = Inr (r, d')"
  shows "\<exists>row. r = oauth_record row \<and> u_status row = ACTIVE \<and> u_emailVerified row = op_email_verified p
    \<and> \<not> user_exists d (u_id row) \<and> t_users d' = t_users d @ [row]
    \<and> linked_to d' p (u_id row)
    \<and> user_has_role d' (u_id row) (Some (dr_service_key dr), dr_name dr)"
proof -
  from assms obtain row i d1 d2 where ins: "insert_user row d = Inr ((), d1)"
    and soc: "link_social (u 1) p (op_email p) i now ''OAuth social account insert'' d1 = Inr ((), d2)"
    and seed: "seed_temis_and_assign_default_role (\<lambda>i. u (i + 2)) i dr d2 = Inr ((), d')"
    and r: "r = oauth_record row" and row: "u_id row = i" "u_status row = ACTIVE"
      "u_emailVerified row = op_email_verified p"
    by (auto simp: create_oauth_user_def bindT_Inr_iff Let_def)
  from ins have fresh: "\<not> user_exists d (u_id row)"
    by (auto simp: insert_user_Inr taken_def user_keys_def user_exists_def)
  have users: "t_users d' = t_users d @ [row]"
    using ins soc same_but_rolesD(1) [OF seed_effect(1) [OF seed]]
    by (simp add: insert_user_Inr link_social_Inr Let_def)
  have "linked_to d' p i"
    using soc same_but_rolesD(5) [OF seed_effect(1) [OF seed]]
    by (simp add: link_social_Inr linked_to_def Let_def)
  with r row fresh users seed_effect(2) [OF seed] show ?thesis by blast
qed

text \<open>C4. Account linking cannot be used to take over an account. Whatever account
  \<^verbatim>\<open>resolve_or_create\<close> returns is active and linked to the provider identity; if it existed before, the
  provider vouched for the e-mail address and the account already had that address verified and was
  active; otherwise it is a new account with the default role, whose id belonged to nobody except
  possibly a never-verified registration for the same verified address, which is deleted. Every other
  account keeps its row.\<close>

theorem oauth_resolve_no_takeover:
  assumes ok: "db_ok d" and run: "resolve_or_create uni u p dr now d = Inr (r, d')"
  shows "our_status r = ACTIVE \<and> linked_to d' p (our_id r)
    \<and> ((op_email_verified p \<and> (\<exists>e x. op_email p = Some e \<and> x \<in> set (t_users d) \<and> r = oauth_record x
           \<and> u_email x = Some (normalize_email uni e) \<and> u_emailVerified x) \<and> t_users d' = t_users d)
       \<or> (user_has_role d' (our_id r) (Some (dr_service_key dr), dr_name dr)
           \<and> (\<exists>gone. (gone = {} \<or> op_email_verified p \<and> gone \<subseteq> {x. u_status x = PENDING_EMAIL_VERIFICATION
                   \<and> \<not> u_emailVerified x \<and> u_email x = map_option (normalize_email uni) (op_email p)})
             \<and> our_id r \<notin> u_id ` (set (t_users d) - gone)
             \<and> set (t_users d) - gone \<subseteq> set (t_users d'))))"
proof -
  let ?ne = "map_option (normalize_email uni) (op_email p)"
  define found where "found = (if truthy ?ne \<and> op_email_verified p
      then find (\<lambda>r. u_email r = ?ne) (t_users d) else None)"
  have create: "our_status r = ACTIVE \<and> linked_to d' p (our_id r)
      \<and> user_has_role d' (our_id r) (Some (dr_service_key dr), dr_name dr)
      \<and> our_id r \<notin> u_id ` set (t_users c) \<and> set (t_users c) \<subseteq> set (t_users d')"
    if "create_oauth_user u p ?ne dr now c = Inr (r, d')" for c
    using create_oauth_user_effect [OF that] by (auto simp: oauth_record_def user_exists_def)
  show ?thesis
  proof (cases found)
    case None
    with run have "create_oauth_user u p ?ne dr now d = Inr (r, d')"
      by (simp add: resolve_or_create_def Let_def seq_simps found_def)
    from create [OF this] show ?thesis by auto
  next
    case (Some x)
    then have v: "truthy ?ne" "op_email_verified p" and f: "find (\<lambda>r. u_email r = ?ne) (t_users d) = Some x"
      by (auto simp: found_def split: if_splits)
    from find_Some_set [OF f] have x: "x \<in> set (t_users d)" "u_email x = ?ne" by auto
    from v(1) obtain e where e: "op_email p = Some e" by (auto simp: truthy_def)
    consider (pending) "u_status x = PENDING_EMAIL_VERIFICATION" "\<not> u_emailVerified x"
      | (link) "u_status x = ACTIVE" "u_emailVerified x"
      | (other) "\<not> (u_status x = PENDING_EMAIL_VERIFICATION \<and> \<not> u_emailVerified x)"
          "\<not> (u_status x = ACTIVE \<and> u_emailVerified x)" by blast
    then show ?thesis
    proof cases
      case pending
      with run v f obtain n d1 where del: "delete_users (\<lambda>y. u_id y = u_id x) d = Inr (n, d1)"
        and cr: "create_oauth_user u p ?ne dr now d1 = Inr (r, d')"
        by (auto simp: resolve_or_create_def Let_def bindT_Inr_iff require_one_Inr)
      have "set (t_users d1) = set (t_users d) - {x}"
        using del distinct_map_key_eq [OF db_ok_distinct(1) [OF ok] _ x(1)]
        by (auto simp: delete_users_def Let_def)
      with create [OF cr] pending v(2) x(2) show ?thesis
        by (intro conjI disjI2 exI [of _ "{x}"]) auto
    next
      case link
      with run v f have s: "link_social (u 0) p ?ne (u_id x) now ''OAuth identity attach'' d = Inr ((), d')"
        and r: "r = oauth_record x"
        by (auto simp: resolve_or_create_def Let_def bindT_Inr_iff)
      from s have "linked_to d' p (u_id x)" "t_users d' = t_users d"
        by (auto simp: link_social_Inr linked_to_def Let_def)
      moreover have "our_status r = ACTIVE" "our_id r = u_id x" by (simp_all add: r oauth_record_def link)
      ultimately show ?thesis
        using v(2) x e r link by (intro conjI disjI1 exI [of _ e] exI [of _ x]) simp_all
    next
      case other
      with run v f have "create_oauth_user u p ?ne dr now d = Inr (r, d')"
        by (auto simp: resolve_or_create_def Let_def bindT_Inr_iff)
      from create [OF this] show ?thesis by auto
    qed
  qed
qed

definition sample_profile :: OAuthProfile where
  "sample_profile = \<lparr>op_provider = google, op_provider_user_id = lit ''g1'', op_email = Some (lit '' A@b.co''),
     op_email_verified = True, op_name = None, op_profile_url = None\<rparr>"

lemma oauth_resolve_no_takeover_witness:
  "\<exists>d'. resolve_or_create (\<lambda>s. s) (\<lambda>i. nat_digits i) sample_profile DEFAULT_ROLE 7 sample_db
      = Inr (oauth_record sample_user, d')
     \<and> linked_to d' sample_profile (lit ''u1'')"
proof -
  have run: "resolve_or_create (\<lambda>s. s) (\<lambda>i. nat_digits i) sample_profile DEFAULT_ROLE 7 sample_db
     = Inr (oauth_record sample_user, sample_db\<lparr>t_socials :=
         [\<lparr>s_id = nat_digits 0, s_provider = lit ''google'', s_providerUserId = lit ''g1'',
           s_providerEmail = Some (lit ''a@b.co''), s_userId = lit ''u1'', s_createdAt = 7\<rparr>]\<rparr>)"
    by code_simp
  from oauth_resolve_no_takeover [OF sample_db_ok run] run show ?thesis
    by (simp add: oauth_record_def sample_user_def)
qed

section \<open>Email confirmation\<close>

lemma update_verifs_Inr: "update_verifs p f d = Inr (n, d') \<longleftrightarrow>
    n = count_rows p (t_verifs d) \<and> d' = d\<lparr>t_verifs := update_rows p f (t_verifs d)\<rparr>"
  by (auto simp: update_verifs_def)

lemma update_users_Inr: "update_users p f d = Inr (n, d') \<longleftrightarrow>
    n = count_rows p (t_users d) \<and> d' = d\<lparr>t_users := update_rows p f (t_users d)\<rparr>"
  by (auto simp: update_users_def)

lemma delete_pendings_Inr: "delete_pendings p d = Inr (n, d') \<longleftrightarrow>
    n = count_rows p (t_pendings d) \<and> d' = d\<lparr>t_pendings := filter (\<lambda>r. \<not> p r) (t_pendings d)\<rparr>"
  by (auto simp: delete_pendings_def)

definition token_used :: "pystr \<Rightarrow> db \<Rightarrow> bool" where
  "token_used token_id d \<longleftrightarrow> (\<forall>e \<in> set (t_verifs d). e_id e = token_id \<longrightarrow> e_usedAt e \<noteq> None)"

lemma token_used_confirm:
  assumes "token_used tid d"
  shows "verification_confirm uni u tid uid t dr d = Inr (None, d)"
proof -
  have no: "\<not> consumable_verif tid uid t e" if "e \<in> set (t_verifs d)" for e
    using assms that by (auto simp: token_used_def consumable_verif_def)
  then have "count_rows (consumable_verif tid uid t) (t_verifs d) = 0"
    by (simp add: count_rows_0_iff)
  moreover have "update_rows (consumable_verif tid uid t) f (t_verifs d) = t_verifs d" for f
    by (rule update_rows_none) (rule no)
  ultimately show ?thesis by (simp add: verification_confirm_def Let_def seq_simps update_verifs_def)
qed

lemma token_used_same: "t_verifs d' = t_verifs d \<Longrightarrow> token_used k d' = token_used k d"
  by (simp add: token_used_def)

lemma reserved_subject_same:
  "t_reservations d' = t_reservations d \<Longrightarrow> reserved_subject uni e d' = reserved_subject uni e d"
  by (simp add: reserved_subject_def)

lemma token_used_rename: "rename_user_id a b d = Inr (x, d') \<Longrightarrow> token_used k d \<Longrightarrow> token_used k d'"
  by (auto simp: rename_user_id_def rename_all_def token_used_def split: if_splits)

lemma activate_user_effect:
  assumes ok: "db_ok d" and x: "x \<in> set (t_users d)"
    and run: "activate_user uni u x t dr d = Inr (Some i, d')" and used: "token_used k d"
  shows "(i = u_id x \<or> reserved_subject uni (u_email x) d = Some i \<and> \<not> user_exists d i)
    \<and> (\<exists>y \<in> set (t_users d'). u_id y = i \<and> u_status y = ACTIVE \<and> u_emailVerified y \<and> u_email y = u_email x)
    \<and> user_has_role d' i (Some (dr_service_key dr), dr_name dr) \<and> token_used k d'"
proof -
  let ?res = "reserved_subject uni (u_email x) d"
  let ?d1 = "d\<lparr>t_users := update_rows (\<lambda>r. u_id r = u_id x \<and> u_status r = PENDING_EMAIL_VERIFICATION)
      (\<lambda>r. r\<lparr>u_status := ACTIVE, u_emailVerified := True, u_updatedAt := t\<rparr>) (t_users d)\<rparr>"
  from run obtain d2 where free: "\<not> (truthy ?res \<and> ?res \<noteq> Some (u_id x) \<and> user_exists d (the ?res))"
    and i: "i = (if truthy ?res then the ?res else u_id x)"
    and one: "count_rows (\<lambda>r. u_id r = u_id x \<and> u_status r = PENDING_EMAIL_VERIFICATION) (t_users d) = 1"
    and ren: "(if truthy ?res then rename_user_id (u_id x) i else retT ()) ?d1 = Inr ((), d2)"
    and seed: "seed_temis_and_assign_default_role u i dr d2 = Inr ((), d')"
    by (auto simp: activate_user_def bindT_Inr_iff Let_def update_users_Inr split: if_splits)
  have "u_status x = PENDING_EMAIL_VERIFICATION"
  proof -
    have "0 < count_rows (\<lambda>r. u_id r = u_id x \<and> u_status r = PENDING_EMAIL_VERIFICATION) (t_users d)"
      using one by simp
    then obtain r where r: "r \<in> set (t_users d)" "u_id r = u_id x" "u_status r = PENDING_EMAIL_VERIFICATION"
      unfolding count_rows_pos_iff by blast
    with distinct_map_key_eq [OF db_ok_distinct(1) [OF ok] r(1) x] show ?thesis by simp
  qed
  then have "x\<lparr>u_status := ACTIVE, u_emailVerified := True, u_updatedAt := t\<rparr> \<in> set (t_users ?d1)"
    using x by (auto simp: in_update_rows)
  then obtain y where y: "y \<in> set (t_users ?d1)" "u_id y = u_id x" "u_status y = ACTIVE" "u_emailVerified y"
    "u_email y = u_email x" by fastforce
  have "\<exists>z \<in> set (t_users d2). u_id z = i \<and> u_status z = ACTIVE \<and> u_emailVerified z \<and> u_email z = u_email x"
  proof (cases "truthy ?res")
    case False
    with ren i y show ?thesis by auto
  next
    case True
    have "user_exists ?d1 (u_id x)" using y(1,2) by (auto simp: user_exists_def intro: rev_image_eqI)
    with ren True have d2: "d2 = rename_all (u_id x) i ?d1"
      by (auto simp: rename_user_id_def split: if_splits)
    have "y\<lparr>u_id := i\<rparr> \<in> set (t_users d2)"
      unfolding d2 rename_all_def using y(1,2) by (auto simp: renamed_def intro!: rev_image_eqI [OF y(1)])
    with y show ?thesis by (intro bexI [of _ "y\<lparr>u_id := i\<rparr>"]) simp_all
  qed
  moreover have "token_used k d2"
  proof (cases "truthy ?res")
    case True
    with ren have "rename_user_id (u_id x) i ?d1 = Inr ((), d2)" by simp
    from token_used_rename [OF this] show ?thesis using used by (simp add: token_used_def)
  next
    case False
    with ren have "d2 = ?d1" by simp
    with used show ?thesis by (simp add: token_used_def)
  qed
  moreover have "i = u_id x \<or> ?res = Some i \<and> \<not> user_exists d i"
    using i free by (auto simp: truthy_def)
  ultimately show ?thesis
    using same_but_rolesD(1,7) [OF seed_effect(1) [OF seed]] seed_effect(2) [OF seed]
    by (simp add: token_used_same [of d' d2])
qed

lemma attach_pending_effect:
  assumes "attach_pending u p uid t d = Inr (Some i, d')"
  shows "i = uid \<and> t_users d' = t_users d \<and> t_verifs d' = t_verifs d
    \<and> (\<exists>c \<in> set (t_creds d'). c_userId c = p_userId p \<and> c_email c = p_email p
         \<and> c_passwordHash c = p_passwordHash p \<and> c_failedLoginCount c = 0 \<and> c_lockedUntil c = None)
    \<and> (\<forall>q \<in> set (t_pendings d'). p_userId q \<noteq> uid)"
  using assms
  by (auto simp: attach_pending_def bindT_Inr_iff inserted_Inr insert_cred_def checked_Inr
      delete_pendings_Inr require_one_Inr)

text \<open>C5. A successful e-mail confirmation consumed a stored, unused, unexpired token of that user, and
  the token can never confirm anything again. Either the pending user is now active with a verified
  address and the default role, under its own id or under the id reserved for its address when that
  id was free; or the user's unexpired pending password became its credential with the same hash and
  address, the pending row is gone, and the users are unchanged.\<close>

theorem email_confirm_effect:
  assumes ok: "db_ok d" and run: "verification_confirm uni u tid uid t dr d = Inr (Some i, d')"
  shows "(\<exists>e \<in> set (t_verifs d). consumable_verif tid uid t e)
    \<and> (\<forall>u' uid' t' dr'. verification_confirm uni u' tid uid' t' dr' d' = Inr (None, d'))
    \<and> ((\<exists>x \<in> set (t_users d). u_id x = uid \<and> u_status x = PENDING_EMAIL_VERIFICATION
          \<and> (i = uid \<or> reserved_subject uni (u_email x) d = Some i \<and> \<not> user_exists d i)
          \<and> (\<exists>y \<in> set (t_users d'). u_id y = i \<and> u_status y = ACTIVE \<and> u_emailVerified y
               \<and> u_email y = u_email x)
          \<and> user_has_role d' i (Some (dr_service_key dr), dr_name dr))
       \<or> (i = uid \<and> t_users d' = t_users d
          \<and> (\<exists>p \<in> set (t_pendings d). p_userId p = uid \<and> t < p_expiresAt p
               \<and> (\<exists>c \<in> set (t_creds d'). c_userId c = uid \<and> c_email c = p_email p
                    \<and> c_passwordHash c = p_passwordHash p))
          \<and> (\<forall>q \<in> set (t_pendings d'). p_userId q \<noteq> uid)))"
proof -
  let ?m = "d\<lparr>t_verifs := update_rows (consumable_verif tid uid t) (\<lambda>e. e\<lparr>e_usedAt := Some t\<rparr>) (t_verifs d)\<rparr>"
  have "keepsT db_ok (update_verifs (consumable_verif tid uid t) (\<lambda>e. e\<lparr>e_usedAt := Some t\<rparr>))"
    by (intro keeps_intros) simp
  from keepsTD [OF this ok, of "count_rows (consumable_verif tid uid t) (t_verifs d)" ?m]
  have okm: "db_ok ?m" by (simp add: update_verifs_def)
  from run have one: "count_rows (consumable_verif tid uid t) (t_verifs d) = 1"
    by (auto simp: verification_confirm_def bindT_Inr_iff Let_def update_verifs_Inr split: if_splits)
  then have "0 < count_rows (consumable_verif tid uid t) (t_verifs d)" by simp
  then obtain e where e: "e \<in> set (t_verifs d)" "consumable_verif tid uid t e"
    unfolding count_rows_pos_iff by blast
  have usedm: "token_used tid ?m"
    unfolding token_used_def
  proof (intro ballI impI)
    fix f assume f: "f \<in> set (t_verifs ?m)" "e_id f = tid"
    from f(1) consider g where "g \<in> set (t_verifs d)" "f = g\<lparr>e_usedAt := Some t\<rparr>"
      | "f \<in> set (t_verifs d)" "\<not> consumable_verif tid uid t f"
      by (auto simp: in_update_rows)
    then show "e_usedAt f \<noteq> None"
    proof cases
      case 2
      have "e_id e = tid" using e(2) by (simp add: consumable_verif_def)
      then have "f = e" using distinct_map_key_eq [OF db_ok_distinct(4) [OF ok] 2(1) e(1)] f(2) by simp
      with 2 e(2) show ?thesis by simp
    qed simp
  qed
  consider (act) x where "find (\<lambda>r. u_id r = uid) (t_users d) = Some x" "u_status x = PENDING_EMAIL_VERIFICATION"
      "activate_user uni u x t dr ?m = Inr (Some i, d')"
    | (att) p where "find (\<lambda>p. p_userId p = uid) (t_pendings d) = Some p" "t < p_expiresAt p"
      "attach_pending u p uid t ?m = Inr (Some i, d')"
    using run one
    by (auto simp: verification_confirm_def bindT_Inr_iff Let_def update_verifs_Inr
        split: if_splits option.splits)
  then show ?thesis
  proof cases
    case act
    from find_Some_set [OF act(1)] have x: "x \<in> set (t_users d)" "u_id x = uid" by auto
    have "x \<in> set (t_users ?m)" using x by simp
    from activate_user_effect [OF okm this act(3) usedm]
    have eff: "(i = uid \<or> reserved_subject uni (u_email x) ?m = Some i \<and> \<not> user_exists ?m i)
      \<and> (\<exists>y \<in> set (t_users d'). u_id y = i \<and> u_status y = ACTIVE \<and> u_emailVerified y \<and> u_email y = u_email x)
      \<and> user_has_role d' i (Some (dr_service_key dr), dr_name dr)" and k: "token_used tid d'"
      using x(2) by auto
    from eff have "(i = uid \<or> reserved_subject uni (u_email x) d = Some i \<and> \<not> user_exists d i)"
      by (simp add: reserved_subject_same [of ?m d])
    with eff x act(2) e token_used_confirm [OF k] show ?thesis by blast
  next
    case att
    from find_Some_set [OF att(1)] have p: "p \<in> set (t_pendings d)" "p_userId p = uid" by auto
    note eff = attach_pending_effect [OF att(3)]
    then have "token_used tid d'" using usedm token_used_same [of d' ?m] by simp
    from eff p att(2) e token_used_confirm [OF this] show ?thesis by auto
  qed
qed

definition sample_pending_db :: db where
  "sample_pending_db = empty_db\<lparr>t_users := [sample_user\<lparr>u_status := PENDING_EMAIL_VERIFICATION, u_emailVerified := False\<rparr>],
     t_reservations := [\<lparr>v_id = lit ''v'', v_email = lit ''a@b.co'', v_subjectId = lit ''s9'', v_reason = None,
                         v_createdAt = 1, v_updatedAt = 1\<rparr>],
     t_verifs := [\<lparr>e_id = lit ''e1'', e_tokenHash = lit ''eh'', e_userId = lit ''u1'', e_expiresAt = 100,
        e_usedAt = None, e_createdAt = 1, e_handoffClientId = None, e_handoffAudience = None,
        e_handoffRedirectUri = None, e_handoffState = None, e_handoffCodeChallenge = None,
        e_handoffCodeChallengeMethod = None\<rparr>]\<rparr>"

lemma sample_pending_db_ok: "db_ok sample_pending_db"
  by (simp add: db_ok_def keys_ok_def refs_ok_def sample_defs sample_pending_db_def empty_db_def
      uniq_all_def uniq_def user_exists_def)

lemma email_confirm_effect_witness:
  "\<exists>d'. verification_confirm (\<lambda>s. s) nat_digits (lit ''e1'') (lit ''u1'') 50 DEFAULT_ROLE sample_pending_db
       = Inr (Some (lit ''s9''), d')
     \<and> verification_confirm (\<lambda>s. s) nat_digits (lit ''e1'') (lit ''s9'') 51 DEFAULT_ROLE d' = Inr (None, d')"
proof -
  have "(case verification_confirm (\<lambda>s. s) nat_digits (lit ''e1'') (lit ''u1'') 50 DEFAULT_ROLE sample_pending_db
         of Inl e \<Rightarrow> False | Inr (r, d') \<Rightarrow> r = Some (lit ''s9''))"
    by code_simp
  then obtain d' where run: "verification_confirm (\<lambda>s. s) nat_digits (lit ''e1'') (lit ''u1'') 50 DEFAULT_ROLE
      sample_pending_db = Inr (Some (lit ''s9''), d')"
    by (auto split: sum.splits)
  from email_confirm_effect [OF sample_pending_db_ok run] run show ?thesis by blast
qed

end
