(* ===== verification/Db_Steps.thy ===== *)
theory Db_Steps
  imports Account_Identity
begin

text \<open>
  The database as a state machine. \<open>db_step\<close> has one rule per transaction of the service; row locks
  and serializable retries make committed transactions atomic, so an execution of any number of
  processes is a sequence of steps. A step is labelled with the refresh tokens it issues and the
  refresh tokens it rotates. The lemmas show that every reachable database satisfies the constraints
  and that no issued token is rotated twice.
\<close>

datatype session_event = Issued pystr | Rotated pystr

inductive db_step :: "db \<Rightarrow> session_event list \<Rightarrow> db \<Rightarrow> bool" where
  step_register: "create_user_with_password uni reg d = Inr (u, d') \<Longrightarrow> db_step d [] d'"
| step_pending: "upsert_pending_password uni pnd d = Inr (u, d') \<Longrightarrow> db_step d [] d'"
| step_login_success: "store_mark_login_success i t d = Inr (u, d') \<Longrightarrow> db_step d [] d'"
| step_login_failure: "record_failure i l t n d = Inr (f, d') \<Longrightarrow> db_step d [] d'"
| step_issue: "issue_for_active_user i ref d = Inr (Some cu, d') \<Longrightarrow>
    db_step d [Issued (rti_token_hash ref)] d'"
| step_rotate: "rotate_token h au now None (Some factory) d = Inr (Some rec, d') \<Longrightarrow>
    factory rec = Inr new \<Longrightarrow> db_step d [Rotated h, Issued (rr_token_hash new)] d'"
| step_logout: "logout_revoke h t d = Inr (o1, d') \<Longrightarrow> db_step d [] d'"
| step_verification_token: "create_verification_token v d = Inr (u, d') \<Longrightarrow> db_step d [] d'"
| step_verification_confirm: "verification_confirm uni us ti i t dr d = Inr (o1, d') \<Longrightarrow> db_step d [] d'"
| step_reset_token: "create_reset_token w d = Inr (u, d') \<Longrightarrow> db_step d [] d'"
| step_reset_confirm: "reset_confirm h p t d = Inr (o1, d') \<Longrightarrow> db_step d [] d'"
| step_oauth: "resolve_or_create uni us prof dr t d = Inr (our, d') \<Longrightarrow> db_step d [] d'"
| step_audit: "audit_create ev d = Inr (u, d') \<Longrightarrow> db_step d [] d'"
| step_user_status: "update_user_status i s t d = Inr (b, d') \<Longrightarrow> db_step d [] d'"
| step_revoke_all: "revoke_all_refresh_tokens_for_user i t d = Inr (n, d') \<Longrightarrow> db_step d [] d'"
| step_upsert_role: "upsert_role i k nm d = Inr (rp, d') \<Longrightarrow> db_step d [] d'"
| step_assign_role: "assign_role_to_user i ui ri d = Inr (b, d') \<Longrightarrow> db_step d [] d'"
| step_remove_role: "remove_role_from_user ui ri d = Inr (b, d') \<Longrightarrow> db_step d [] d'"
| step_admin_audit: "create_admin_audit_log i aev t d = Inr (u, d') \<Longrightarrow> db_step d [] d'"
| step_retention: "retention_cleanup t days ex d = Inr (rc, d') \<Longrightarrow> db_step d [] d'"
| step_refresh_cleanup: "delete_refreshes p d = Inr (n, d') \<Longrightarrow> db_step d [] d'"

inductive db_run :: "db \<Rightarrow> session_event list \<Rightarrow> db \<Rightarrow> bool" where
  run_none: "db_run d [] d"
| run_step: "db_run d es d1 \<Longrightarrow> db_step d1 fs d2 \<Longrightarrow> db_run d (es @ fs) d2"

section \<open>Reachable databases satisfy the constraints\<close>

lemmas keeps_all_ops = keeps_create_user keeps_upsert_pending keeps_mark_success keeps_record_failure
  keeps_issue keeps_rotate keeps_logout keeps_create_tokens keeps_verification_confirm
  keeps_reset_confirm keeps_resolve keeps_admin_mutations keeps_deletes

lemma db_step_ok: "db_step d es d' \<Longrightarrow> db_ok d \<Longrightarrow> db_ok d'"
  by (induction rule: db_step.induct) (rule keepsTD [where I = db_ok], rule keeps_all_ops, assumption+)+

text \<open>A sample execution: a profile signs in, a session is issued and rotated once.\<close>

definition sample_issue :: RefreshTokenInsert where
  "sample_issue = \<lparr>rti_id = lit ''t1'', rti_token_hash = lit ''h1'', rti_audience = lit ''temis'',
     rti_expires_at = 100, rti_created_at = 1\<rparr>"

definition sample_replacement :: RefreshReplacement where
  "sample_replacement = \<lparr>rr_id = lit ''t2'', rr_token_hash = lit ''h2'', rr_expires_at = 200, rr_created_at = 50\<rparr>"

definition sample_signed_in :: db where
  "sample_signed_in = (case resolve_or_create (\<lambda>s. s) (\<lambda>i. [i]) sample_profile DEFAULT_ROLE 1 empty_db of
     Inr (_, d) \<Rightarrow> d | Inl _ \<Rightarrow> empty_db)"

definition sample_issued :: db where
  "sample_issued = (case issue_for_active_user [0] sample_issue sample_signed_in of
     Inr (_, d) \<Rightarrow> d | Inl _ \<Rightarrow> empty_db)"

definition sample_rotated :: db where
  "sample_rotated = (case rotate_token (lit ''h1'') (lit ''temis'') 50 None (Some (\<lambda>_. Inr sample_replacement))
     sample_issued of Inr (_, d) \<Rightarrow> d | Inl _ \<Rightarrow> empty_db)"

lemma sample_rotated_run:
  "db_run empty_db [Issued (lit ''h1''), Rotated (lit ''h1''), Issued (lit ''h2'')] sample_rotated"
proof -
  have "resolve_or_create (\<lambda>s. s) (\<lambda>i. [i]) sample_profile DEFAULT_ROLE 1 empty_db
      = Inr (fst (projr (resolve_or_create (\<lambda>s. s) (\<lambda>i. [i]) sample_profile DEFAULT_ROLE 1 empty_db)),
          sample_signed_in)"
    by code_simp
  from run_step [OF run_none step_oauth [OF this]] have 1: "db_run empty_db [] sample_signed_in" by simp
  have "issue_for_active_user [0] sample_issue sample_signed_in
      = Inr (Some (the (fst (projr (issue_for_active_user [0] sample_issue sample_signed_in)))), sample_issued)"
    by code_simp
  from run_step [OF 1 step_issue [OF this]]
  have 2: "db_run empty_db [Issued (lit ''h1'')] sample_issued" by (simp add: sample_issue_def)
  have "rotate_token (lit ''h1'') (lit ''temis'') 50 None (Some (\<lambda>_. Inr sample_replacement)) sample_issued
      = Inr (Some \<lparr>rtr_user_id = [0], rtr_audience = lit ''temis''\<rparr>, sample_rotated)"
    by code_simp
  from run_step [OF 2 step_rotate [OF this refl]] show ?thesis by (simp add: sample_replacement_def)
qed

lemma db_run_ok: "db_run d es d' \<Longrightarrow> db_ok d \<Longrightarrow> db_ok d'"
  by (induction rule: db_run.induct) (auto dest: db_step_ok)



section \<open>Counting the tokens that can still be rotated\<close>

definition unrevoked :: "pystr \<Rightarrow> db \<Rightarrow> nat" where
  "unrevoked h d = count_rows (\<lambda>r. r_tokenHash r = h \<and> r_revokedAt r = None) (t_refreshes d)"

definition at_most :: "pystr \<Rightarrow> nat \<Rightarrow> db \<Rightarrow> bool" where
  "at_most h n d \<longleftrightarrow> unrevoked h d \<le> n"

lemma keeps_at_most_same:
  "(\<And>d a d'. m d = Inr (a, d') \<Longrightarrow> t_refreshes d' = t_refreshes d) \<Longrightarrow> keepsT (at_most h n) m"
  unfolding keepsT_def at_most_def unrevoked_def by metis

lemma at_most_inserts [keeps_intros]:
  "keepsT (at_most h n) (insert_user r1)"
  "keepsT (at_most h n) (insert_cred r2)"
  "keepsT (at_most h n) (insert_pending r3)"
  "keepsT (at_most h n) (insert_social r4)"
  "keepsT (at_most h n) (insert_verif r5)"
  "keepsT (at_most h n) (insert_reset r6)"
  "keepsT (at_most h n) (insert_audit r7)"
  "keepsT (at_most h n) (insert_role r8)"
  "keepsT (at_most h n) (insert_user_role r9)"
  by (rule keeps_at_most_same; auto simp: insert_defs checked_Inr)+

lemma at_most_inserts_if_absent [keeps_intros]:
  "keepsT (at_most h n) (insert_role_if_absent o1)"
  "keepsT (at_most h n) (insert_user_role_if_absent l)"
  by (simp_all add: insert_role_if_absent_def insert_user_role_if_absent_def keeps_intros)

lemma at_most_updates [keeps_intros]:
  "keepsT (at_most h n) (update_creds p1 f1)"
  "keepsT (at_most h n) (update_verifs p2 f2)"
  "keepsT (at_most h n) (update_resets p3 f3)"
  "keepsT (at_most h n) (update_users p4 f4)"
  "keepsT (at_most h n) (delete_pendings p5)"
  "keepsT (at_most h n) (delete_audits p6)"
  "keepsT (at_most h n) (delete_user_roles p7)"
  by (rule keeps_at_most_same; auto simp: update_creds_def update_verifs_def update_resets_def
      update_users_def delete_pendings_def delete_audits_def delete_user_roles_def)+

lemma count_rows_filter_le: "count_rows p (filter q rs) \<le> count_rows p rs"
  by (induction rs) auto

lemma count_rows_map: "count_rows p (map f rs) = count_rows (p \<circ> f) rs"
  by (induction rs) auto

lemma count_rows_append [simp]: "count_rows p (rs @ ss) = count_rows p rs + count_rows p ss"
  by (simp add: count_rows_def)

lemma at_most_deletes [keeps_intros]:
  "keepsT (at_most h n) (delete_refreshes p)"
  "keepsT (at_most h n) (delete_users q)"
  by (auto simp: keepsT_def at_most_def unrevoked_def delete_refreshes_def delete_users_def Let_def
      intro: order_trans [OF count_rows_filter_le])

lemma at_most_rename [keeps_intros]: "keepsT (at_most h n) (rename_user_id i j)"
  by (auto simp: keepsT_def at_most_def unrevoked_def rename_user_id_def rename_all_def count_rows_map
      comp_def split: if_splits)

lemma revoke_count:
  assumes "\<And>r. p r \<Longrightarrow> r_revokedAt r = None"
  shows "count_rows (\<lambda>r. r_tokenHash r = h \<and> r_revokedAt r = None)
       (update_rows p (\<lambda>r. r\<lparr>r_revokedAt := Some t\<rparr>) rs)
     + count_rows (\<lambda>r. r_tokenHash r = h \<and> p r) rs
     = count_rows (\<lambda>r. r_tokenHash r = h \<and> r_revokedAt r = None) rs"
  using assms by (induction rs) auto

lemma at_most_revoke [keeps_intros]:
  "(\<And>r. p r \<Longrightarrow> r_revokedAt r = None) \<Longrightarrow>
   keepsT (at_most h n) (update_refreshes p (\<lambda>r. r\<lparr>r_revokedAt := Some t\<rparr>))"
proof (rule keepsTI)
  fix d a d' assume one: "\<And>r. p r \<Longrightarrow> r_revokedAt r = None" and le: "at_most h n d"
    and run: "update_refreshes p (\<lambda>r. r\<lparr>r_revokedAt := Some t\<rparr>) d = Inr (a, d')"
  from run have "unrevoked h d' = count_rows (\<lambda>r. r_tokenHash r = h \<and> r_revokedAt r = None)
      (update_rows p (\<lambda>r. r\<lparr>r_revokedAt := Some t\<rparr>) (t_refreshes d))"
    by (auto simp: update_refreshes_def unrevoked_def)
  with revoke_count [of p h t "t_refreshes d", OF one] have "unrevoked h d' \<le> unrevoked h d"
    by (simp add: unrevoked_def)
  with le show "at_most h n d'" by (simp add: at_most_def)
qed

lemma at_most_upsert_pending [keeps_intros]: "keepsT (at_most h n) (upsert_pending_password uni pnd)"
  by (rule keeps_at_most_same)
    (auto simp: upsert_pending_password_def Let_def inserted_Inr insert_defs checked_Inr split: if_splits)

lemma at_most_increment [keeps_intros]: "keepsT (at_most h n) (increment_failures i t)"
  by (rule keeps_at_most_same) (auto simp: increment_failures_def update_creds_def split: if_splits)

lemma at_most_password_ops [keeps_intros]:
  "keepsT (at_most h n) (create_user_with_password uni reg)"
  "keepsT (at_most h n) (store_mark_login_success i t)"
  "keepsT (at_most h n) (record_failure i l t k)"
  by (simp_all add: create_user_with_password_def store_mark_login_success_def record_failure_def
      keeps_intros)

lemma at_most_logout [keeps_intros]: "keepsT (at_most h n) (logout_revoke h2 t)"
  unfolding logout_revoke_def by (intro keeps_intros) simp

lemma at_most_revoke_all [keeps_intros]:
  "keepsT (at_most h n) (revoke_all_refresh_tokens_for_user u t)"
  unfolding revoke_all_refresh_tokens_for_user_def by (intro keeps_intros) simp

lemma at_most_seed [keeps_intros]: "keepsT (at_most h n) (seed_temis_and_assign_default_role u i r)"
  unfolding seed_temis_and_assign_default_role_def seed_role_def by (intro keeps_intros)

lemma at_most_activate [keeps_intros]: "keepsT (at_most h n) (activate_user uni u r t dr)"
  unfolding activate_user_def Let_def by (intro keeps_intros)

lemma at_most_attach [keeps_intros]: "keepsT (at_most h n) (attach_pending u p i t)"
  unfolding attach_pending_def by (intro keeps_intros)

lemma at_most_verification [keeps_intros]:
  "keepsT (at_most h n) (verification_confirm uni u i j t r)"
  "keepsT (at_most h n) (create_verification_token v)"
  "keepsT (at_most h n) (create_reset_token w)"
  "keepsT (at_most h n) (audit_create a)"
  unfolding verification_confirm_def create_verification_token_def create_reset_token_def
    audit_create_def Let_def by (intro keeps_intros)+

lemma at_most_reset [keeps_intros]: "keepsT (at_most h n) (reset_confirm h2 p t)"
  unfolding reset_confirm_def by (intro keeps_intros) simp

lemma at_most_create_oauth [keeps_intros]: "keepsT (at_most h n) (create_oauth_user u p e r t)"
  unfolding create_oauth_user_def link_social_def Let_def by (intro keeps_intros)

lemma at_most_resolve [keeps_intros]: "keepsT (at_most h n) (resolve_or_create uni u p r t)"
  unfolding resolve_or_create_def link_social_def Let_def by (intro keeps_intros)

lemma at_most_admin [keeps_intros]:
  "keepsT (at_most h n) (update_user_status u s t)"
  "keepsT (at_most h n) (upsert_role i k nm)"
  "keepsT (at_most h n) (assign_role_to_user i u r)"
  "keepsT (at_most h n) (remove_role_from_user u r)"
  "keepsT (at_most h n) (create_admin_audit_log i e t)"
  "keepsT (at_most h n) (retention_cleanup t days ex)"
  by (simp_all add: update_user_status_def upsert_role_def assign_role_to_user_def
      remove_role_from_user_def create_admin_audit_log_def
      delete_older_than_def retention_cleanup_def keeps_intros)

lemma at_most_ops:
  assumes "keepsT (at_most h (unrevoked h d)) m" "m d = Inr (a, d')"
  shows "unrevoked h d' \<le> unrevoked h d"
  using keepsTD [OF assms(1) _ assms(2)] by (simp add: at_most_def)

lemma issue_counts:
  "issue_for_active_user i ref d = Inr (Some cu, d') \<Longrightarrow>
   unrevoked h d' = unrevoked h d + (if rti_token_hash ref = h then 1 else 0)"
  by (auto simp: issue_for_active_user_def bindT_Inr_iff inserted_Inr insert_refresh_def checked_Inr
      unrevoked_def find_current_active_def split: if_splits option.splits)

lemma rotate_counts:
  assumes "rotate_token g au now None (Some factory) d = Inr (Some rec, d')" "factory rec = Inr new"
  shows "unrevoked h d' + (if g = h then 1 else 0)
    = unrevoked h d + (if rr_token_hash new = h then 1 else 0)"
proof -
  from assms have d': "d' = d\<lparr>t_refreshes :=
        update_rows (live_token g now) (\<lambda>r. r\<lparr>r_revokedAt := Some now\<rparr>) (t_refreshes d)
          @ [successor_row new rec]\<rparr>" and one: "count_rows (live_token g now) (t_refreshes d) = 1"
    unfolding rotate_success_iff by auto
  have "count_rows (\<lambda>r. r_tokenHash r = h \<and> live_token g now r) (t_refreshes d) = (if g = h then 1 else 0)"
  proof (cases "g = h")
    case True
    then have "(\<lambda>r. r_tokenHash r = h \<and> live_token g now r) = live_token g now"
      by (auto simp: live_token_def)
    with one True show ?thesis by simp
  next
    case False
    then show ?thesis by (auto simp: count_rows_0_iff live_token_def)
  qed
  with revoke_count [of "live_token g now" h now "t_refreshes d"]
  have "count_rows (\<lambda>r. r_tokenHash r = h \<and> r_revokedAt r = None)
       (update_rows (live_token g now) (\<lambda>r. r\<lparr>r_revokedAt := Some now\<rparr>) (t_refreshes d))
     + (if g = h then 1 else 0) = unrevoked h d"
    by (simp add: live_token_def unrevoked_def)
  then show ?thesis by (simp add: d' unrevoked_def successor_row_def)
qed

lemma db_step_counts:
  "db_step d es d' \<Longrightarrow>
   unrevoked h d' + count_list es (Rotated h) \<le> unrevoked h d + count_list es (Issued h)"
proof (induction rule: db_step.induct)
  case (step_issue i ref d cu d')
  from issue_counts [OF this, of h] show ?case by simp
next
  case (step_rotate g au now factory d rec d' new)
  from rotate_counts [OF this, of h] show ?case by (auto split: if_splits)
qed (simp only: count_list.simps add_0_right, rule at_most_ops, rule keeps_intros, assumption)+

text \<open>C2. No refresh token is rotated twice: in every execution of the service, with any interleaving of
  transactions, the number of successful rotations of a token hash is at most the number of tokens
  issued with that hash plus those that were unrevoked at the start. A token that was issued once is
  rotated at most once.\<close>

theorem rotations_bounded_by_issues:
  assumes "db_run d es d'"
  shows "count_list es (Rotated h) + unrevoked h d' \<le> count_list es (Issued h) + unrevoked h d"
  using assms by (induction rule: db_run.induct) (auto dest: db_step_counts [where h = h])

lemma rotations_bounded_by_issues_witness:
  "1 + unrevoked (lit ''h1'') sample_rotated \<le> 1 + unrevoked (lit ''h1'') empty_db"
proof -
  have "count_list [Issued (lit ''h1''), Rotated (lit ''h1''), Issued (lit ''h2'')] (Rotated (lit ''h1'')) = 1"
    "count_list [Issued (lit ''h1''), Rotated (lit ''h1''), Issued (lit ''h2'')] (Issued (lit ''h1'')) = 1"
    by code_simp+
  with rotations_bounded_by_issues [OF sample_rotated_run, of "lit ''h1''"] show ?thesis by metis
qed

section \<open>The transactions meet the interface of \<^verbatim>\<open>Database.transaction\<close>\<close>

interpretation rotation_work: transactional_work db_ok "rotate_token h au now rep fac"
  for h au now rep fac
  by unfold_locales (rule keeps_rotate)

interpretation reset_work: transactional_work db_ok "reset_confirm h p now" for h p now
  by unfold_locales (rule keeps_reset_confirm)

interpretation confirm_work: transactional_work db_ok "verification_confirm uni u ti i t dr"
  for uni u ti i t dr
  by unfold_locales (rule keeps_verification_confirm)

interpretation oauth_work: transactional_work db_ok "resolve_or_create uni u prof dr now"
  for uni u prof dr now
  by unfold_locales (rule keeps_resolve)

text \<open>A rotation run by \<^verbatim>\<open>Database.transaction\<close>, with serialization failures at any attempts and
  other transactions of the service committing in between, leaves a database that satisfies the
  constraints, whether it returns or raises.\<close>

theorem retried_rotation_keeps_constraints:
  assumes "db_ok d" "\<And>i s. \<exists>es. db_run s es (others i s)"
  shows "db_ok (tr_state (transaction closed n faults others (rotate_token h au now rep fac) d))"
proof (rule rotation_work.transaction_keeps)
  show "db_ok (others i s)" if "db_ok s" for i s
    using assms(2) [of s i] that by (auto intro: db_run_ok)
qed (fact assms(1))

lemma retried_rotation_keeps_constraints_witness:
  "db_ok (tr_state (transaction False 3
     (\<lambda>i. if i = 1 then Some (DBAPIError (Some (lit ''40001''))) else None) (\<lambda>_ s. s)
     (rotate_token (lit ''h1'') (lit ''temis'') 50 None (Some (\<lambda>_. Inr sample_replacement))) sample_db))"
  by (rule retried_rotation_keeps_constraints [OF sample_db_ok]) (auto intro: run_none)

end
