(* ===== verification/Py_Json.thy ===== *)
theory Py_Json
  imports Py_Value
begin

text \<open>
  \<^verbatim>\<open>json.loads\<close> and strict UTF-8 decoding, as \<^verbatim>\<open>_parse_json_object\<close> uses them. The scanner
  follows CPython: strict strings (no control characters), surrogate escapes joined in pairs, NaN and
  the infinities accepted, later duplicates of a key replacing earlier ones, integers of more than
  4300 digits refused by \<^verbatim>\<open>int()\<close> with a \<^verbatim>\<open>ValueError\<close> that is not a \<^verbatim>\<open>JSONDecodeError\<close>. Turning the
  text of a decimal fraction into a float is an argument. The fuel of the recursive scanner is the
  length of the text, which every nested call shortens.
\<close>

section \<open>UTF-8\<close>

definition cont_byte :: "nat \<Rightarrow> bool" where
  "cont_byte b \<longleftrightarrow> 0x80 \<le> b \<and> b < 0xC0"

fun utf8_decode :: "nat list \<Rightarrow> pystr option" where
  "utf8_decode [] = Some []"
| "utf8_decode (a # r) =
     (if a < 0x80 then map_option (Cons a) (utf8_decode r)
      else (case r of
        [] \<Rightarrow> None
      | b # r1 \<Rightarrow>
          if 0xC2 \<le> a \<and> a < 0xE0
          then (if cont_byte b then map_option (Cons ((a - 0xC0) * 64 + (b - 0x80))) (utf8_decode r1) else None)
          else (case r1 of
            [] \<Rightarrow> None
          | c # r2 \<Rightarrow>
              if 0xE0 \<le> a \<and> a < 0xF0
              then (let u = (a - 0xE0) * 4096 + (b - 0x80) * 64 + (c - 0x80) in
                    if cont_byte b \<and> cont_byte c \<and> 0x800 \<le> u \<and> \<not> is_surrogate u
                    then map_option (Cons u) (utf8_decode r2) else None)
              else (case r2 of
                [] \<Rightarrow> None
              | d # r3 \<Rightarrow>
                  (let u = (a - 0xF0) * 262144 + (b - 0x80) * 4096 + (c - 0x80) * 64 + (d - 0x80) in
                   if 0xF0 \<le> a \<and> a < 0xF5 \<and> cont_byte b \<and> cont_byte c \<and> cont_byte d
                      \<and> 0x10000 \<le> u \<and> u < 0x110000
                   then map_option (Cons u) (utf8_decode r3) else None)))))"

lemma utf8_decode_ascii: "all_ascii s \<Longrightarrow> utf8_decode s = Some s"
  by (induction s) (auto simp: all_ascii_def)

section \<open>The scanner\<close>

datatype json_error = JSONDecodeError | IntTooLarge

definition json_ws :: "nat \<Rightarrow> bool" where
  "json_ws c \<longleftrightarrow> c = 32 \<or> c = 9 \<or> c = 10 \<or> c = 13"

definition skip_ws :: "pystr \<Rightarrow> pystr" where
  "skip_ws s = dropWhile json_ws s"

definition hex_value :: "nat \<Rightarrow> nat option" where
  "hex_value c = (if 48 \<le> c \<and> c \<le> 57 then Some (c - 48)
     else if 97 \<le> c \<and> c \<le> 102 then Some (c - 87)
     else if 65 \<le> c \<and> c \<le> 70 then Some (c - 55) else None)"

definition hex4_value :: "nat \<Rightarrow> nat \<Rightarrow> nat \<Rightarrow> nat \<Rightarrow> nat option" where
  "hex4_value a b c d =
     (case (hex_value a, hex_value b, hex_value c, hex_value d) of
        (Some w, Some x, Some y, Some z) \<Rightarrow> Some (w * 4096 + x * 256 + y * 16 + z)
      | _ \<Rightarrow> None)"

definition unescape :: "nat \<Rightarrow> nat option" where
  "unescape c = (if c = 34 then Some 34 else if c = 92 then Some 92 else if c = 47 then Some 47
     else if c = 98 then Some 8 else if c = 102 then Some 12 else if c = 110 then Some 10
     else if c = 114 then Some 13 else if c = 116 then Some 9 else None)"

text \<open>After the opening quote: the characters up to the closing one, and what follows it. A low
  surrogate escape right after a high one makes one code point.\<close>

definition push :: "nat \<Rightarrow> (pystr \<times> pystr) option \<Rightarrow> (pystr \<times> pystr) option" where
  "push c r = map_option (\<lambda>(s, rest). (c # s, rest)) r"

definition low_escape :: "pystr \<Rightarrow> (nat \<times> pystr) option" where
  "low_escape s =
     (if is_prefix [92, 117] s then
        (case drop 2 s of
           a # b # c # d # r \<Rightarrow>
             (case hex4_value a b c d of
                Some w \<Rightarrow> if is_low w then Some (w, r) else None
              | None \<Rightarrow> None)
         | _ \<Rightarrow> None)
      else None)"

definition unicode_escape :: "pystr \<Rightarrow> (nat \<times> pystr) option" where
  "unicode_escape s =
     (case s of
        a # b # c # d # r \<Rightarrow>
          (case hex4_value a b c d of
             None \<Rightarrow> None
           | Some u \<Rightarrow>
               (case if is_high u then low_escape r else None of
                  Some (w, r') \<Rightarrow> Some (astral u w, r')
                | None \<Rightarrow> Some (u, r)))
      | _ \<Rightarrow> None)"

lemma low_escape_length: "low_escape s = Some (w, r) \<Longrightarrow> length r < length s"
proof -
  assume "low_escape s = Some (w, r)"
  then obtain a b c d where "drop 2 s = a # b # c # d # r"
    by (auto simp: low_escape_def split: if_splits list.splits option.splits)
  from arg_cong [OF this, of length] show ?thesis by simp
qed

lemma unicode_escape_length: "unicode_escape s = Some (w, r) \<Longrightarrow> length r < length s"
  by (auto simp: unicode_escape_def split: list.splits option.splits if_splits dest!: low_escape_length)

function scan_string :: "pystr \<Rightarrow> (pystr \<times> pystr) option" where
  "scan_string [] = None"
| "scan_string (c # s) =
     (if c = 34 then Some ([], s)
      else if c < 32 then None
      else if c \<noteq> 92 then push c (scan_string s)
      else (case s of
        [] \<Rightarrow> None
      | e # s1 \<Rightarrow>
          if e \<noteq> 117 then
            (case unescape e of None \<Rightarrow> None | Some v \<Rightarrow> push v (scan_string s1))
          else (case unicode_escape s1 of
                  None \<Rightarrow> None
                | Some (u, s2) \<Rightarrow> push u (scan_string s2))))"
  by pat_completeness auto
termination
  by (relation "measure length") (auto dest: unicode_escape_length)

declare scan_string.simps(2) [simp del]

definition digits_value :: "pystr \<Rightarrow> nat" where
  "digits_value ds = foldl (\<lambda>n c. n * 10 + (c - 48)) 0 ds"

definition MAX_STR_DIGITS :: nat where
  "MAX_STR_DIGITS = 4300"

text \<open>A number: sign, integer part, and an optional fraction and exponent that make it a float.\<close>

definition scan_digits :: "pystr \<Rightarrow> pystr \<times> pystr" where
  "scan_digits s = (takeWhile ascii_digit s, dropWhile ascii_digit s)"

definition scan_fraction :: "pystr \<Rightarrow> pystr \<times> pystr" where
  "scan_fraction s = (case s of
     [] \<Rightarrow> ([], [])
   | c # r \<Rightarrow> if c = 46 \<and> fst (scan_digits r) \<noteq> []
              then (c # fst (scan_digits r), snd (scan_digits r)) else ([], s))"

definition scan_exponent :: "pystr \<Rightarrow> pystr \<times> pystr" where
  "scan_exponent s = (case s of
     [] \<Rightarrow> ([], [])
   | c # r \<Rightarrow>
       if c = 101 \<or> c = 69 then
         (let sign = (case r of x # _ \<Rightarrow> if x = 43 \<or> x = 45 then [x] else [] | [] \<Rightarrow> []);
              r' = drop (length sign) r
          in if fst (scan_digits r') \<noteq> []
             then (c # sign @ fst (scan_digits r'), snd (scan_digits r')) else ([], s))
       else ([], s))"

definition int_part :: "pystr \<Rightarrow> pystr" where
  "int_part s = (case s of x # r \<Rightarrow> if x = 48 then [48] else fst (scan_digits s) | [] \<Rightarrow> [])"

definition is_negative :: "pystr \<Rightarrow> bool" where
  "is_negative s = (case s of x # r \<Rightarrow> x = 45 | [] \<Rightarrow> False)"

definition scan_number :: "(pystr \<Rightarrow> pyfloat) \<Rightarrow> pystr \<Rightarrow> json_error + (pyval \<times> pystr)" where
  "scan_number to_float s =
     (let neg = is_negative s;
          s1 = (if neg then tl s else s);
          ds = int_part s1;
          s2 = drop (length ds) s1
      in if ds = [] then Inl JSONDecodeError
         else let (f, s3) = scan_fraction s2; (e, s4) = scan_exponent s3 in
           if f = [] \<and> e = []
           then (if MAX_STR_DIGITS < length ds then Inl IntTooLarge
                 else Inr (PInt (if neg then - int (digits_value ds) else int (digits_value ds)), s4))
           else Inr (PFloat (to_float ((if neg then [45] else []) @ ds @ f @ e)), s4))"

definition starts :: "string \<Rightarrow> pystr \<Rightarrow> bool" where
  "starts w s = is_prefix (lit w) s"

text \<open>A dictionary assignment: the first insertion fixes the position, the last one the value.\<close>

fun dict_set :: "pydict \<Rightarrow> pystr \<Rightarrow> pyval \<Rightarrow> pydict" where
  "dict_set [] k v = [(k, v)]"
| "dict_set ((k', v') # d) k v = (if k' = k then (k, v) # d else (k', v') # dict_set d k v)"

fun scan_value :: "(pystr \<Rightarrow> pyfloat) \<Rightarrow> nat \<Rightarrow> pystr \<Rightarrow> json_error + (pyval \<times> pystr)"
  and scan_array :: "(pystr \<Rightarrow> pyfloat) \<Rightarrow> nat \<Rightarrow> pyval list \<Rightarrow> pystr \<Rightarrow> json_error + (pyval \<times> pystr)"
  and scan_object :: "(pystr \<Rightarrow> pyfloat) \<Rightarrow> nat \<Rightarrow> pydict \<Rightarrow> pystr \<Rightarrow> json_error + (pyval \<times> pystr)"
where
  "scan_value fl 0 s = Inl JSONDecodeError"
| "scan_value fl (Suc n) s =
     (case s of
        [] \<Rightarrow> Inl JSONDecodeError
      | c # r \<Rightarrow>
          if c = 34 then
            (case scan_string r of None \<Rightarrow> Inl JSONDecodeError | Some (t, rest) \<Rightarrow> Inr (PStr t, rest))
          else if c = 123 then
            (case skip_ws r of
               [] \<Rightarrow> Inl JSONDecodeError
             | x # xs \<Rightarrow> if x = 125 then Inr (PDict [], xs) else scan_object fl n [] (x # xs))
          else if c = 91 then
            (case skip_ws r of
               [] \<Rightarrow> Inl JSONDecodeError
             | x # xs \<Rightarrow> if x = 93 then Inr (PList [], xs) else scan_array fl n [] (x # xs))
          else if starts ''null'' s then Inr (PNone, drop 4 s)
          else if starts ''true'' s then Inr (PBool True, drop 4 s)
          else if starts ''false'' s then Inr (PBool False, drop 5 s)
          else if starts ''NaN'' s then Inr (PFloat NotANumber, drop 3 s)
          else if starts ''Infinity'' s then Inr (PFloat PosInfinity, drop 8 s)
          else if starts ''-Infinity'' s then Inr (PFloat NegInfinity, drop 9 s)
          else scan_number fl s)"
| "scan_array fl 0 acc s = Inl JSONDecodeError"
| "scan_array fl (Suc n) acc s =
     bindE (scan_value fl n s) (\<lambda>(v, rest).
       case skip_ws rest of
         [] \<Rightarrow> Inl JSONDecodeError
       | x # xs \<Rightarrow> if x = 93 then Inr (PList (acc @ [v]), xs)
                  else if x = 44 then scan_array fl n (acc @ [v]) (skip_ws xs)
                  else Inl JSONDecodeError)"
| "scan_object fl 0 acc s = Inl JSONDecodeError"
| "scan_object fl (Suc n) acc s =
     (case s of
        [] \<Rightarrow> Inl JSONDecodeError
      | q # r \<Rightarrow>
          if q \<noteq> 34 then Inl JSONDecodeError
          else (case scan_string r of
            None \<Rightarrow> Inl JSONDecodeError
          | Some (k, rest) \<Rightarrow>
              (case skip_ws rest of
                 [] \<Rightarrow> Inl JSONDecodeError
               | x # xs \<Rightarrow>
                   if x \<noteq> 58 then Inl JSONDecodeError
                   else bindE (scan_value fl n (skip_ws xs)) (\<lambda>(v, rest2).
                     case skip_ws rest2 of
                       [] \<Rightarrow> Inl JSONDecodeError
                     | y # ys \<Rightarrow> if y = 125 then Inr (PDict (dict_set acc k v), ys)
                                else if y = 44 then scan_object fl n (dict_set acc k v) (skip_ws ys)
                                else Inl JSONDecodeError))))"

definition json_loads :: "(pystr \<Rightarrow> pyfloat) \<Rightarrow> pystr \<Rightarrow> json_error + pyval" where
  "json_loads fl s =
     (if s \<noteq> [] \<and> hd s = 0xFEFF then Inl JSONDecodeError
      else bindE (scan_value fl (Suc (2 * length s)) (skip_ws s)) (\<lambda>(v, rest).
        if skip_ws rest = [] then Inr v else Inl JSONDecodeError))"

section \<open>Strings round-trip\<close>

definition str_ok :: "pystr \<Rightarrow> bool" where
  "str_ok s \<longleftrightarrow> (\<forall>c \<in> set s. c < 0x110000 \<and> \<not> is_surrogate c)"

lemma hex_value_char: "v < 16 \<Longrightarrow> hex_value (hex_char v) = Some v"
  by (auto simp: hex_value_def hex_char_def)

lemma hex4_split:
  fixes u :: nat
  assumes "u < 65536"
  shows "u div 4096 mod 16 * 4096 + u div 256 mod 16 * 256 + u div 16 mod 16 * 16 + u mod 16 = u"
proof -
  have a: "u div 256 = 16 * (u div 4096) + u div 256 mod 16"
    using div_mult2_eq [of u 256 16] by simp
  have b: "u div 16 = 16 * (u div 256) + u div 16 mod 16"
    using div_mult2_eq [of u 16 16] by simp
  have "u div 4096 < 16" using assms by (intro less_mult_imp_div_less) simp
  then have "u div 4096 mod 16 = u div 4096" by simp
  moreover have "u = 16 * (u div 16) + u mod 16" by simp
  ultimately show ?thesis using a b by linarith
qed

lemma hex4_value_hex4: "u < 65536 \<Longrightarrow> hex4 u = [a, b, c, d] \<Longrightarrow> hex4_value a b c d = Some u"
  using hex4_split [of u] by (auto simp: hex4_def hex4_value_def hex_value_char)

lemma scan_string_plain:
  "c \<noteq> 34 \<Longrightarrow> 32 \<le> c \<Longrightarrow> c \<noteq> 92 \<Longrightarrow> scan_string (c # s) = push c (scan_string s)"
  by (simp add: scan_string.simps(2))

lemma scan_string_short:
  "unescape e = Some v \<Longrightarrow> e \<noteq> 117 \<Longrightarrow> scan_string (92 # e # s) = push v (scan_string s)"
  by (simp add: scan_string.simps(2))

lemma scan_string_unicode:
  assumes "hex4_value a b c d = Some u" "\<not> is_high u"
  shows "scan_string (92 # 117 # a # b # c # d # s) = push u (scan_string s)"
  using assms by (simp add: scan_string.simps(2) unicode_escape_def)

lemma scan_string_pair:
  assumes "hex4_value a b c d = Some u" "is_high u" "hex4_value e f g h = Some w" "is_low w"
  shows "scan_string (92 # 117 # a # b # c # d # 92 # 117 # e # f # g # h # s)
    = push (astral u w) (scan_string s)"
  using assms by (simp add: scan_string.simps(2) unicode_escape_def low_escape_def numeral_2_eq_2)

lemma astral_split:
  assumes "0x10000 \<le> c" "c < 0x110000"
  shows "is_high (0xD800 + (c - 0x10000) div 1024 mod 1024)"
    and "is_low (0xDC00 + (c - 0x10000) mod 1024)"
    and "astral (0xD800 + (c - 0x10000) div 1024 mod 1024) (0xDC00 + (c - 0x10000) mod 1024) = c"
proof -
  define k where "k = c - 0x10000"
  define h where "h = k div 1024"
  define l where "l = k mod 1024"
  have "k < 1024 * 1024" using assms by (simp add: k_def)
  then have h: "h < 1024" unfolding h_def by (rule less_mult_imp_div_less)
  have l: "l < 1024" unfolding l_def by simp
  have k: "h * 1024 + l = k" unfolding h_def l_def by (rule div_mult_mod_eq)
  have m: "h mod 1024 = h" using h by simp
  have high: "is_high (0xD800 + h)" and low: "is_low (0xDC00 + l)"
    using h l by (simp_all add: is_high_def is_low_def)
  have "astral (0xD800 + h) (0xDC00 + l) = c"
    unfolding astral_def using k assms k_def by linarith
  then show "is_high (0xD800 + (c - 0x10000) div 1024 mod 1024)"
    "is_low (0xDC00 + (c - 0x10000) mod 1024)"
    "astral (0xD800 + (c - 0x10000) div 1024 mod 1024) (0xDC00 + (c - 0x10000) mod 1024) = c"
    using high low unfolding k_def [symmetric] h_def [symmetric] l_def [symmetric] m by simp_all
qed

lemma scan_string_escape:
  assumes "c < 0x110000" "\<not> is_surrogate c"
  shows "scan_string (escape_char ea c @ s) = push c (scan_string s)"
proof (cases "short_escape c")
  case (Some e)
  then show ?thesis
    by (auto simp: escape_char_def short_escape_def unescape_def scan_string_short split: if_splits)
next
  case None
  then have ne: "c \<noteq> 34" "c \<noteq> 92" by (auto simp: short_escape_def split: if_splits)
  have small: "scan_string ([92, 117] @ hex4 c @ s) = push c (scan_string s)" if c: "c < 65536"
  proof -
    obtain a b d e where h: "hex4 c = [a, b, d, e]" by (simp add: hex4_def)
    have "\<not> is_high c" using assms(2) by (simp add: surrogate_iff)
    with scan_string_unicode [OF hex4_value_hex4 [OF c h]] h show ?thesis by simp
  qed
  show ?thesis
  proof (cases "c < 0x10000")
    case True
    with None ne small scan_string_plain [of c s] show ?thesis by (simp add: escape_char_def)
  next
    case False
    then have big: "0x10000 \<le> c" by simp
    let ?hi = "0xD800 + (c - 0x10000) div 1024 mod 1024" and ?lo = "0xDC00 + (c - 0x10000) mod 1024"
    note a = astral_split [OF big assms(1)]
    have lt: "?hi < 65536" "?lo < 65536" using a(1,2) by (simp_all add: is_high_def is_low_def)
    obtain p q r x where hi: "hex4 ?hi = [p, q, r, x]" by (simp add: hex4_def)
    obtain p' q' r' x' where lo: "hex4 ?lo = [p', q', r', x']" by (simp add: hex4_def)
    have "scan_string ([92, 117] @ hex4 ?hi @ [92, 117] @ hex4 ?lo @ s) = push c (scan_string s)"
      using scan_string_pair [OF hex4_value_hex4 [OF lt(1) hi] a(1) hex4_value_hex4 [OF lt(2) lo] a(2)] hi lo a(3)
      by simp
    with None False ne scan_string_plain [of c s] show ?thesis by (simp add: escape_char_def)
  qed
qed

lemma scan_json_string:
  "str_ok s \<Longrightarrow> scan_string (concat (map (escape_char ea) s) @ 34 # rest) = Some (s, rest)"
proof (induction s)
  case Nil
  show ?case by (simp add: scan_string.simps(2))
next
  case (Cons c s)
  then have "scan_string (escape_char ea c @ (concat (map (escape_char ea) s) @ 34 # rest))
      = push c (scan_string (concat (map (escape_char ea) s) @ 34 # rest))"
    by (intro scan_string_escape) (auto simp: str_ok_def)
  with Cons show ?case by (simp add: str_ok_def push_def)
qed

section \<open>Integers round-trip\<close>

lemma nat_digits_digits: "c \<in> set (nat_digits n) \<Longrightarrow> ascii_digit c"
proof (induction n rule: nat_digits.induct)
  case (1 n)
  then show ?case by (subst (asm) nat_digits.simps) (auto simp: ascii_digit_def split: if_splits)
qed

lemma nat_digits_ne [simp]: "nat_digits n \<noteq> []"
  by (subst nat_digits.simps) simp

lemma digits_value_nat_digits: "digits_value (nat_digits n) = n"
proof (induction n rule: nat_digits.induct)
  case (1 n)
  then show ?case by (subst nat_digits.simps) (auto simp: digits_value_def)
qed

lemma nat_digits_hd: "0 < n \<Longrightarrow> hd (nat_digits n) \<noteq> 48"
proof (induction n rule: nat_digits.induct)
  case (1 n)
  show ?case
  proof (cases "n < 10")
    case True
    then show ?thesis using 1 by (subst nat_digits.simps) simp
  next
    case False
    then have "0 < n div 10" by auto
    with 1 False have "hd (nat_digits (n div 10)) \<noteq> 48" by simp
    with False show ?thesis by (subst nat_digits.simps) (simp add: hd_append)
  qed
qed

text \<open>What may follow a number without changing it.\<close>

definition ends_number :: "pystr \<Rightarrow> bool" where
  "ends_number rest \<longleftrightarrow> (case rest of [] \<Rightarrow> True
     | c # _ \<Rightarrow> \<not> ascii_digit c \<and> c \<noteq> 46 \<and> c \<noteq> 101 \<and> c \<noteq> 69)"

lemma scan_digits_end:
  assumes "\<forall>c \<in> set ds. ascii_digit c" "ends_number rest"
  shows "scan_digits (ds @ rest) = (ds, rest)"
  using assms by (cases rest) (auto simp: scan_digits_def ends_number_def)

lemma ends_number_scans:
  assumes "ends_number rest"
  shows "scan_fraction rest = ([], rest)" "scan_exponent rest = ([], rest)"
  using assms by (auto simp: scan_fraction_def scan_exponent_def ends_number_def split: list.splits)

lemma scan_number_digits:
  assumes rest: "ends_number rest" and len: "length (nat_digits n) \<le> MAX_STR_DIGITS"
  shows "scan_number fl (nat_digits n @ rest) = Inr (PInt (int n), rest)"
    and "scan_number fl (45 # nat_digits n @ rest) = Inr (PInt (- int n), rest)"
proof -
  have dig: "\<forall>c \<in> set (nat_digits n). ascii_digit c" using nat_digits_digits by blast
  have hd: "ascii_digit (hd (nat_digits n))" using dig by (simp add: list.set_sel(1))
  have pick: "int_part (nat_digits n @ rest) = nat_digits n"
  proof (cases "n = 0")
    case True
    then show ?thesis by (simp add: nat_digits.simps int_part_def)
  next
    case False
    then have "hd (nat_digits n) \<noteq> 48" using nat_digits_hd [of n] by simp
    then show ?thesis using scan_digits_end [OF dig rest]
      by (cases "nat_digits n") (auto simp: int_part_def)
  qed
  have pos: "\<not> is_negative (nat_digits n @ rest)"
    using hd by (cases "nat_digits n") (auto simp: is_negative_def ascii_digit_def)
  have neg: "is_negative (45 # nat_digits n @ rest)" by (simp add: is_negative_def)
  note sc = ends_number_scans [OF rest]
  show "scan_number fl (nat_digits n @ rest) = Inr (PInt (int n), rest)"
    using len unfolding scan_number_def Let_def
    by (simp add: pos pick sc digits_value_nat_digits)
  show "scan_number fl (45 # nat_digits n @ rest) = Inr (PInt (- int n), rest)"
    using len unfolding scan_number_def Let_def
    by (simp add: neg pick sc digits_value_nat_digits)
qed

section \<open>Values round-trip\<close>

text \<open>The values \<^verbatim>\<open>json.dumps\<close> writes losslessly: no surrogates in strings, integers within the
  conversion limit, no finite floats (their text is the library's), distinct keys.\<close>

fun json_ok :: "pyval \<Rightarrow> bool" where
  "json_ok PNone = True"
| "json_ok (PBool b) = True"
| "json_ok (PInt i) = (length (nat_digits (nat \<bar>i\<bar>)) \<le> MAX_STR_DIGITS)"
| "json_ok (PFloat f) = (case f of FiniteFloat r \<Rightarrow> False | _ \<Rightarrow> True)"
| "json_ok (PStr s) = str_ok s"
| "json_ok (PList vs) = list_all json_ok vs"
| "json_ok (PDict d) = (distinct (map fst d) \<and> list_all (\<lambda>(k, v). str_ok k \<and> json_ok v) d)"

definition opens_value :: "pystr \<Rightarrow> bool" where
  "opens_value s \<longleftrightarrow> s \<noteq> [] \<and> \<not> json_ws (hd s) \<and> hd s \<noteq> 93 \<and> hd s \<noteq> 125 \<and> hd s \<noteq> 0xFEFF"

lemma opens_digits: "opens_value (nat_digits n)"
  using nat_digits_digits [of "hd (nat_digits n)" n]
  by (auto simp: opens_value_def json_ws_def ascii_digit_def)

lemma opens_dumps: "json_ok v \<Longrightarrow> opens_value (json_dumps ea v)"
proof (cases v)
  case (PInt i)
  then show ?thesis using opens_digits by (auto simp: py_str_int_def opens_value_def json_ws_def)
next
  case (PFloat f)
  assume "json_ok v"
  with PFloat show ?thesis
    by (auto simp: float_repr_def opens_value_def json_ws_def lit_def split: pyfloat.splits)
qed (auto simp: opens_value_def json_ws_def lit_def json_string_def)

lemma skip_ws_opens: "opens_value s \<Longrightarrow> skip_ws (s @ r) = s @ r"
  by (cases s) (auto simp: opens_value_def skip_ws_def)

lemma skip_ws_char: "\<not> json_ws c \<Longrightarrow> skip_ws (c # s) = c # s"
  by (simp add: skip_ws_def)

lemma scan_value_digits:
  assumes "ends_number rest" "length (nat_digits n) \<le> MAX_STR_DIGITS"
  shows "scan_value fl (Suc m) (nat_digits n @ rest) = Inr (PInt (int n), rest)"
    and "scan_value fl (Suc m) (45 # nat_digits n @ rest) = Inr (PInt (- int n), rest)"
proof -
  obtain c ds where c: "nat_digits n @ rest = c # ds" "ascii_digit c"
    using nat_digits_digits [of _ n] by (cases "nat_digits n") auto
  have "scan_value fl (Suc m) (c # ds) = scan_number fl (c # ds)"
    using c(2) by (simp add: starts_def lit_def ascii_digit_def)
  then show "scan_value fl (Suc m) (nat_digits n @ rest) = Inr (PInt (int n), rest)"
    using scan_number_digits(1) [OF assms] c(1) by simp
  have "scan_value fl (Suc m) (45 # c # ds) = scan_number fl (45 # c # ds)"
    using c(2) by (simp add: starts_def lit_def ascii_digit_def)
  then show "scan_value fl (Suc m) (45 # nat_digits n @ rest) = Inr (PInt (- int n), rest)"
    using scan_number_digits(2) [OF assms] c(1) by simp
qed

definition scans :: "(pystr \<Rightarrow> pyfloat) \<Rightarrow> bool \<Rightarrow> pyval \<Rightarrow> bool" where
  "scans fl ea v \<longleftrightarrow> (\<forall>n rest. 2 * length (json_dumps ea v) \<le> n \<longrightarrow> ends_number rest \<longrightarrow>
     scan_value fl n (json_dumps ea v @ rest) = Inr (v, rest))"

lemma ends_number_punct [simp]: "ends_number (44 # r)" "ends_number (93 # r)" "ends_number (125 # r)"
    "ends_number []"
  by (simp_all add: ends_number_def ascii_digit_def)

lemma scan_array_dumps:
  assumes "vs \<noteq> []" "\<And>v. v \<in> set vs \<Longrightarrow> scans fl ea v \<and> json_ok v"
    and "2 * length (join_comma (map (json_dumps ea) vs)) < n"
  shows "scan_array fl n acc (join_comma (map (json_dumps ea) vs) @ 93 # rest) = Inr (PList (acc @ vs), rest)"
  using assms
proof (induction vs arbitrary: n acc)
  case Nil
  then show ?case by simp
next
  case (Cons v vs)
  obtain m where n: "n = Suc m" using Cons.prems(3) by (cases n) auto
  have v: "scans fl ea v" "json_ok v" using Cons.prems(2) by auto
  show ?case
  proof (cases vs)
    case Nil
    have "scan_value fl m (json_dumps ea v @ 93 # rest) = Inr (v, 93 # rest)"
      using v(1) Cons.prems(3) n Nil by (simp add: scans_def)
    then show ?thesis by (simp add: n Nil skip_ws_char json_ws_def)
  next
    case (Cons w ws)
    let ?tl = "join_comma (map (json_dumps ea) vs) @ 93 # rest"
    have "scan_value fl m (json_dumps ea v @ 44 # ?tl) = Inr (v, 44 # ?tl)"
      using v(1) Cons.prems(3) n Cons by (simp add: scans_def)
    moreover have "opens_value (json_dumps ea w)" using Cons.prems(2) Cons by (intro opens_dumps) auto
    then have "skip_ws ?tl = ?tl" using Cons by (cases ws) (simp_all add: skip_ws_opens)
    moreover have "scan_array fl m (acc @ [v]) ?tl = Inr (PList ((acc @ [v]) @ vs), rest)"
      by (rule Cons.IH) (use Cons.prems Cons n in auto)
    ultimately show ?thesis using Cons by (simp add: n skip_ws_char json_ws_def)
  qed
qed

lemma dict_set_new: "k \<notin> fst ` set d \<Longrightarrow> dict_set d k v = d @ [(k, v)]"
  by (induction d) auto

definition item_text :: "bool \<Rightarrow> pystr \<times> pyval \<Rightarrow> pystr" where
  "item_text ea kv = json_string ea (fst kv) @ [58] @ json_dumps ea (snd kv)"

lemma scan_object_dumps:
  assumes "d \<noteq> []" "\<And>k v. (k, v) \<in> set d \<Longrightarrow> scans fl ea v \<and> json_ok v \<and> str_ok k"
    and "distinct (map fst (acc @ d))"
    and "2 * length (join_comma (map (item_text ea) d)) < n"
  shows "scan_object fl n acc (join_comma (map (item_text ea) d) @ 125 # rest) = Inr (PDict (acc @ d), rest)"
  using assms
proof (induction d arbitrary: n acc)
  case Nil
  then show ?case by simp
next
  case (Cons kv d)
  obtain k v where kv: "kv = (k, v)" by force
  obtain m where n: "n = Suc m" using Cons.prems(4) by (cases n) auto
  have v: "scans fl ea v" "json_ok v" "str_ok k" using Cons.prems(2) [of k v] kv by auto
  have new: "dict_set acc k v = acc @ [(k, v)]"
    using Cons.prems(3) kv by (intro dict_set_new) auto
  have key: "scan_string (concat (map (escape_char ea) k) @ 34 # r) = Some (k, r)" for r
    by (rule scan_json_string) (rule v)
  have skip: "skip_ws (json_dumps ea v @ r) = json_dumps ea v @ r" for r
    by (rule skip_ws_opens) (rule opens_dumps [OF v(2)])
  show ?case
  proof (cases d)
    case Nil
    have "scan_value fl m (json_dumps ea v @ 125 # rest) = Inr (v, 125 # rest)"
      using v(1) Cons.prems(4) n Nil kv by (simp add: scans_def item_text_def)
    then show ?thesis
      by (simp add: n Nil kv item_text_def json_string_def key skip skip_ws_char json_ws_def new)
  next
    case (Cons kw ds)
    let ?tl = "join_comma (map (item_text ea) d) @ 125 # rest"
    have "scan_value fl m (json_dumps ea v @ 44 # ?tl) = Inr (v, 44 # ?tl)"
      using v(1) Cons.prems(4) n Cons kv by (simp add: scans_def item_text_def)
    moreover have "opens_value (item_text ea kw)"
      by (simp add: item_text_def json_string_def opens_value_def json_ws_def)
    then have "skip_ws ?tl = ?tl" using Cons by (cases ds) (simp_all add: skip_ws_opens)
    moreover have "scan_object fl m (acc @ [(k, v)]) ?tl = Inr (PDict ((acc @ [(k, v)]) @ d), rest)"
      by (rule Cons.IH) (use Cons.prems Cons n kv in auto)
    ultimately show ?thesis
      using Cons by (simp add: n kv item_text_def [of ea "(k, v)"] json_string_def key skip skip_ws_char
          json_ws_def new)
  qed
qed

lemma dumps_dict: "json_dumps ea (PDict d) = [123] @ join_comma (map (item_text ea) d) @ [125]"
proof -
  have "item_text ea = (\<lambda>(k, v). json_string ea k @ [58] @ json_dumps ea v)"
    by (auto simp: fun_eq_iff item_text_def)
  then show ?thesis by simp
qed

lemma scansI:
  assumes "json_dumps ea v \<noteq> []"
    and "\<And>m rest. 2 * length (json_dumps ea v) \<le> Suc m \<Longrightarrow> ends_number rest \<Longrightarrow>
      scan_value fl (Suc m) (json_dumps ea v @ rest) = Inr (v, rest)"
  shows "scans fl ea v"
  unfolding scans_def
proof (intro allI impI)
  fix n rest assume n: "2 * length (json_dumps ea v) \<le> n" and e: "ends_number rest"
  then obtain m where m: "n = Suc m" using assms(1) by (cases n) auto
  show "scan_value fl n (json_dumps ea v @ rest) = Inr (v, rest)"
    unfolding m by (rule assms(2)) (use n m e in simp_all)
qed

lemma scansD: "scans fl ea v \<Longrightarrow> 2 * length (json_dumps ea v) \<le> n \<Longrightarrow> ends_number rest \<Longrightarrow>
    scan_value fl n (json_dumps ea v @ rest) = Inr (v, rest)"
  by (simp add: scans_def)

lemma opens_join:
  "vs \<noteq> [] \<Longrightarrow> opens_value (hd vs) \<Longrightarrow> opens_value (join_comma vs)"
  by (cases "(vs)" rule: join_comma.cases) (auto simp: opens_value_def)

lemma dumps_scans: "json_ok v \<Longrightarrow> scans fl ea v"
proof (induction v)
  case PNone
  show ?case by (rule scansI) (simp_all add: starts_def lit_def)
next
  case (PBool b)
  show ?case by (rule scansI) (simp_all add: starts_def lit_def)
next
  case (PInt i)
  show ?case
  proof (rule scansI)
    show "json_dumps ea (PInt i) \<noteq> []" by (simp add: py_str_int_def)
    fix m rest assume "ends_number rest"
    then show "scan_value fl (Suc m) (json_dumps ea (PInt i) @ rest) = Inr (PInt i, rest)"
      using scan_value_digits(1) [of rest "nat i" fl m] scan_value_digits(2) [of rest "nat (- i)" fl m] PInt
      by (cases "i < 0") (simp_all add: py_str_int_def del: scan_value.simps)
  qed
next
  case (PFloat f)
  then show ?case
    by (intro scansI) (auto simp: float_repr_def starts_def lit_def split: pyfloat.splits)
next
  case (PStr s)
  then have "scan_string (concat (map (escape_char ea) s) @ 34 # r) = Some (s, r)" for r
    by (intro scan_json_string) simp
  then show ?case by (intro scansI) (simp_all add: json_string_def)
next
  case (PList vs)
  have el: "scans fl ea v \<and> json_ok v" if "v \<in> set vs" for v
    using PList that by (simp add: list_all_iff)
  show ?case
  proof (cases vs)
    case Nil
    then show ?thesis by (intro scansI) (simp_all add: skip_ws_char json_ws_def)
  next
    case (Cons w ws)
    let ?j = "join_comma (map (json_dumps ea) vs)"
    have "opens_value (json_dumps ea w)" using el Cons by (intro opens_dumps) simp
    then have o: "opens_value ?j" using Cons by (intro opens_join) simp_all
    show ?thesis
    proof (rule scansI)
      fix m rest assume "2 * length (json_dumps ea (PList vs)) \<le> Suc m"
      then have "scan_array fl m [] (?j @ 93 # rest) = Inr (PList ([] @ vs), rest)"
        using Cons el by (intro scan_array_dumps) simp_all
      with o show "scan_value fl (Suc m) (json_dumps ea (PList vs) @ rest) = Inr (PList vs, rest)"
        using skip_ws_opens [OF o, of "93 # rest"]
        by (cases ?j) (simp_all add: opens_value_def)
    qed simp
  qed
next
  case (PDict d)
  have el: "scans fl ea v \<and> json_ok v \<and> str_ok k" if "(k, v) \<in> set d" for k v
    using PDict.IH [OF that, of v] PDict.prems that by (auto simp: list_all_iff)
  show ?case
  proof (cases d)
    case Nil
    then show ?thesis by (intro scansI) (simp_all add: skip_ws_char json_ws_def)
  next
    case (Cons w ws)
    let ?j = "join_comma (map (item_text ea) d)"
    have "opens_value (item_text ea w)"
      by (simp add: item_text_def json_string_def opens_value_def json_ws_def)
    then have o: "opens_value ?j" using Cons by (intro opens_join) simp_all
    show ?thesis
    proof (rule scansI)
      fix m rest assume "2 * length (json_dumps ea (PDict d)) \<le> Suc m"
      then have "scan_object fl m [] (?j @ 125 # rest) = Inr (PDict ([] @ d), rest)"
        using Cons el PDict.prems unfolding dumps_dict by (intro scan_object_dumps) simp_all
      with o show "scan_value fl (Suc m) (json_dumps ea (PDict d) @ rest) = Inr (PDict d, rest)"
        unfolding dumps_dict using skip_ws_opens [OF o, of "125 # rest"]
        by (cases ?j) (simp_all add: opens_value_def)
    qed simp
  qed
qed

text \<open>What \<^verbatim>\<open>json.dumps\<close> writes, in either escaping mode, \<^verbatim>\<open>json.loads\<close> reads back unchanged, for
  every nesting of strings without lone surrogates, integers, booleans, nulls and dictionaries with
  distinct keys.\<close>

lemma json_loads_dumps:
  assumes "json_ok v"
  shows "json_loads fl (json_dumps ea v) = Inr v"
proof -
  have o: "opens_value (json_dumps ea v)" by (rule opens_dumps [OF assms])
  have s: "skip_ws (json_dumps ea v) = json_dumps ea v" using skip_ws_opens [OF o, of "[]"] by simp
  have "scan_value fl (Suc (2 * length (json_dumps ea v))) (json_dumps ea v @ []) = Inr (v, [])"
    by (rule scansD [OF dumps_scans [OF assms]]) simp_all
  with o s show ?thesis
    by (simp add: json_loads_def opens_value_def skip_ws_def del: scan_value.simps json_dumps.simps)
qed

lemma json_loads_dumps_example:
  "json_loads (\<lambda>_. NotANumber) (json_dumps True (PDict [(lit ''k'', PList [PInt (- 12), PStr [0x1F600, 34]])]))
     = Inr (PDict [(lit ''k'', PList [PInt (- 12), PStr [0x1F600, 34]])])"
proof -
  have "json_ok (PDict [(lit ''k'', PList [PInt (- 12), PStr [0x1F600, 34]])])"
    by code_simp
  from json_loads_dumps [OF this] show ?thesis .
qed

section \<open>The fuel is enough\<close>

lemma skip_ws_length: "length (skip_ws s) \<le> length s"
  by (simp add: skip_ws_def length_dropWhile_le)

lemma scan_string_length: "scan_string s = Some (t, rest) \<Longrightarrow> length rest < length s"
proof (induction s arbitrary: t rest rule: scan_string.induct)
  case 1
  then show ?case by simp
next
  case (2 c s)
  have len: "length rest < length r" if "push u (scan_string r) = Some (t, rest)"
    "\<And>t rest. scan_string r = Some (t, rest) \<Longrightarrow> length rest < length r" for u r
    using that by (auto simp: push_def)
  from "2.prems" show ?case
    unfolding scan_string.simps(2)
    using "2.IH" len
    by (fastforce split: if_splits list.splits option.splits dest: unicode_escape_length)
qed

lemma scan_fraction_length: "scan_fraction s = (f, r) \<Longrightarrow> length r \<le> length s"
  by (auto simp: scan_fraction_def scan_digits_def split: list.splits if_splits
      intro: le_SucI length_dropWhile_le)

lemma scan_exponent_length: "scan_exponent s = (f, r) \<Longrightarrow> length r \<le> length s"
proof -
  assume e: "scan_exponent s = (f, r)"
  have le: "length (dropWhile p (drop k x)) \<le> Suc (length x)" for p k and x :: pystr
    by (rule order.trans [OF length_dropWhile_le]) simp
  from e show ?thesis
    by (cases s) (auto simp: scan_exponent_def scan_digits_def Let_def le split: if_splits)
qed

lemma scan_number_length: "scan_number fl s = Inr (v, r) \<Longrightarrow> length r < length s"
proof -
  assume n: "scan_number fl s = Inr (v, r)"
  define s1 where "s1 = (if is_negative s then tl s else s)"
  define ds where "ds = int_part s1"
  from n have ds: "ds \<noteq> []"
    by (auto simp: scan_number_def Let_def s1_def [symmetric] ds_def [symmetric] split: if_splits)
  obtain f s3 where f: "scan_fraction (drop (length ds) s1) = (f, s3)" by force
  obtain e s4 where e: "scan_exponent s3 = (e, s4)" by force
  from n ds have r: "r = s4"
    by (auto simp: scan_number_def Let_def s1_def [symmetric] ds_def [symmetric] f e split: if_splits)
  have "s1 \<noteq> []" using ds by (auto simp: ds_def int_part_def)
  then have "length (drop (length ds) s1) < length s1" using ds by simp
  then have "length s3 < length s1" by (rule le_less_trans [OF scan_fraction_length [OF f]])
  then have "length s4 < length s1" by (rule le_less_trans [OF scan_exponent_length [OF e]])
  moreover have "length s1 \<le> length s" by (simp add: s1_def)
  ultimately show ?thesis unfolding r by (rule less_le_trans)
qed

lemma skip_ws_Cons: "skip_ws s = x # xs \<Longrightarrow> length xs < length s"
  using skip_ws_length [of s] by simp

lemma starts_length: "starts w s \<Longrightarrow> w \<noteq> [] \<Longrightarrow> 0 < k \<Longrightarrow> length (drop k s) < length s"
  by (cases s) (auto simp: starts_def lit_def neq_Nil_conv)

lemma scan_array_Suc_Inr:
  assumes "scan_array fl (Suc n) acc s = Inr (v, r)"
  obtains v1 r1 x xs where "scan_value fl n s = Inr (v1, r1)" "skip_ws r1 = x # xs"
    "x = 93 \<and> r = xs \<or> x = 44 \<and> scan_array fl n (acc @ [v1]) (skip_ws xs) = Inr (v, r)"
proof (cases "scan_value fl n s")
  case (Inr p)
  obtain v1 r1 where p: "p = (v1, r1)" by force
  from assms Inr p that show ?thesis by (cases "skip_ws r1") (auto split: if_splits)
qed (use assms in simp)

lemma scan_object_Suc_Inr:
  assumes "scan_object fl (Suc n) acc s = Inr (v, r)"
  obtains q k r0 xs v1 r1 y ys where "s = 34 # q" "scan_string q = Some (k, r0)" "skip_ws r0 = 58 # xs"
    "scan_value fl n (skip_ws xs) = Inr (v1, r1)" "skip_ws r1 = y # ys"
    "y = 125 \<and> r = ys \<or> y = 44 \<and> scan_object fl n (dict_set acc k v1) (skip_ws ys) = Inr (v, r)"
proof -
  from assms obtain q where q: "s = 34 # q" by (cases s) (auto split: if_splits)
  with assms obtain k r0 where k: "scan_string q = Some (k, r0)" by (cases "scan_string q") auto
  with assms q obtain xs where x: "skip_ws r0 = 58 # xs"
    by (cases "skip_ws r0") (auto split: if_splits)
  show ?thesis
  proof (cases "scan_value fl n (skip_ws xs)")
    case (Inr p)
    obtain v1 r1 where p: "p = (v1, r1)" by force
    from assms q k x Inr p that show ?thesis by (cases "skip_ws r1") (auto split: if_splits)
  qed (use assms q k x in simp)
qed

lemma scan_length:
  "scan_value fl n s = Inr (v, r) \<Longrightarrow> length r < length s"
  "scan_array fl n acc s = Inr (v, r) \<Longrightarrow> length r < length s"
  "scan_object fl n d s = Inr (v, r) \<Longrightarrow> length r < length s"
proof (induction fl n s and fl n acc s and fl n d s arbitrary: v r and v r and v r
    rule: scan_value_scan_array_scan_object.induct)
  case (2 fl n s)
  show ?case
  proof (cases s)
    case Nil
    with "2.prems" show ?thesis by simp
  next
    case (Cons c q)
    note sw = skip_ws_length [of q]
    consider "c = 34" | "c = 123" | "c = 91" | "c \<noteq> 34" "c \<noteq> 123" "c \<noteq> 91" by blast
    then show ?thesis
    proof cases
      case 1
      with Cons "2.prems" show ?thesis by (auto split: option.splits dest!: scan_string_length)
    next
      case 2
      with Cons "2.prems" "2.IH"(1) [OF Cons] sw show ?thesis
        by (cases "skip_ws q") (auto split: if_splits, force)
    next
      case 3
      with Cons "2.prems" "2.IH"(2) [OF Cons] sw show ?thesis
        by (cases "skip_ws q") (auto split: if_splits, force)
    next
      case 4
      have d: "length (drop k s) < length s" if "0 < k" for k using that Cons by simp
      from 4 Cons "2.prems" show ?thesis
        by (auto split: if_splits dest: scan_number_length)
    qed
  qed
next
  case (4 fl n acc s)
  from "4.prems" obtain v1 r1 x xs where 1: "scan_value fl n s = Inr (v1, r1)" "skip_ws r1 = x # xs"
    and 2: "x = 93 \<and> r = xs \<or> x = 44 \<and> scan_array fl n (acc @ [v1]) (skip_ws xs) = Inr (v, r)"
    by (rule scan_array_Suc_Inr)
  have len: "length xs < length s" using "4.IH"(1) [OF 1(1)] skip_ws_Cons [OF 1(2)] by simp
  from 2 show ?case
  proof
    assume "x = 44 \<and> scan_array fl n (acc @ [v1]) (skip_ws xs) = Inr (v, r)"
    then have "length r < length (skip_ws xs)" using 1 by (intro "4.IH"(2)) auto
    with len skip_ws_length [of xs] show ?thesis by simp
  qed (use len in simp)
next
  case (6 fl n acc s)
  from "6.prems" obtain q k r0 xs v1 r1 y ys where 1: "s = 34 # q" "scan_string q = Some (k, r0)"
    "skip_ws r0 = 58 # xs" "scan_value fl n (skip_ws xs) = Inr (v1, r1)" "skip_ws r1 = y # ys"
    and 2: "y = 125 \<and> r = ys \<or> y = 44 \<and> scan_object fl n (dict_set acc k v1) (skip_ws ys) = Inr (v, r)"
    by (rule scan_object_Suc_Inr)
  have "length r1 < length (skip_ws xs)" using 1 by (intro "6.IH"(1)) auto
  then have len: "length ys < length s"
    using 1(1) scan_string_length [OF 1(2)] skip_ws_Cons [OF 1(3)] skip_ws_length [of xs] skip_ws_Cons [OF 1(5)]
    by simp
  from 2 show ?case
  proof
    assume "y = 44 \<and> scan_object fl n (dict_set acc k v1) (skip_ws ys) = Inr (v, r)"
    then have "length r < length (skip_ws ys)" using 1 by (intro "6.IH"(2)) auto
    with len skip_ws_length [of ys] show ?thesis by simp
  qed (use len in simp)
qed simp_all

text \<open>More fuel than twice the length of the text never changes the result.\<close>

lemma scan_fuel:
  "(2 * length s < n \<longrightarrow> 2 * length s < m \<longrightarrow> scan_value fl n s = scan_value fl m s)
   \<and> (2 * length s + 1 < n \<longrightarrow> 2 * length s + 1 < m \<longrightarrow> scan_array fl n acc s = scan_array fl m acc s)
   \<and> (2 * length s < n \<longrightarrow> 2 * length s < m \<longrightarrow> scan_object fl n d s = scan_object fl m d s)"
proof (induction n arbitrary: m s acc d)
  case 0
  show ?case by simp
next
  case (Suc n)
  note value_eq = Suc.IH [THEN conjunct1, rule_format]
    and array_eq = Suc.IH [THEN conjunct2, THEN conjunct1, rule_format]
    and object_eq = Suc.IH [THEN conjunct2, THEN conjunct2, rule_format]
  have val_step: "scan_value fl (Suc n) s = scan_value fl m s" if bound: "2 * length s < Suc n" "2 * length s < m"
  proof -
    obtain k where m: "m = Suc k" using bound by (cases m) auto
    show ?thesis
    proof (cases s)
      case (Cons c q)
      have "scan_object fl n [] r = scan_object fl k [] r" "scan_array fl n [] r = scan_array fl k [] r"
        if "length r \<le> length q" for r
        using that bound Cons m
        by (auto intro!: object_eq array_eq)
      then have "scan_object fl n [] (x # xs) = scan_object fl k [] (x # xs)"
        "scan_array fl n [] (x # xs) = scan_array fl k [] (x # xs)" if "skip_ws q = x # xs" for x xs
        using that skip_ws_length [of q] by auto
      then show ?thesis unfolding m Cons by (auto split: list.split)
    qed (simp add: m)
  qed
  moreover have "scan_array fl (Suc n) acc s = scan_array fl m acc s"
    if bound: "2 * length s + 1 < Suc n" "2 * length s + 1 < m"
  proof -
    obtain k where m: "m = Suc k" using bound by (cases m) auto
    have v: "scan_value fl n s = scan_value fl k s" using bound m by (intro value_eq) auto
    show ?thesis
    proof (cases "scan_value fl n s")
      case (Inl e)
      moreover from this v have "scan_value fl k s = Inl e" by simp
      ultimately show ?thesis by (simp add: m)
    next
      case (Inr p)
      obtain v1 r1 where p: "p = (v1, r1)" by force
      have "length r1 < length s" using scan_length(1) Inr p by blast
      then have "scan_array fl n a (skip_ws xs) = scan_array fl k a (skip_ws xs)"
        if "skip_ws r1 = x # xs" for a x xs
        using skip_ws_Cons [OF that] skip_ws_length [of xs] m
          bound by (intro array_eq) auto
      moreover from Inr v have "scan_value fl k s = Inr p" by simp
      ultimately show ?thesis using Inr p by (auto simp: m split: list.split)
    qed
  qed
  moreover have "scan_object fl (Suc n) d s = scan_object fl m d s"
    if bound: "2 * length s < Suc n" "2 * length s < m"
  proof -
    obtain k where m: "m = Suc k" using bound by (cases m) auto
    show ?thesis
    proof (cases s)
      case (Cons c q)
      have "bindE (scan_value fl n (skip_ws xs)) (\<lambda>(v, r2). case skip_ws r2 of [] \<Rightarrow> Inl JSONDecodeError
              | y # ys \<Rightarrow> if y = 125 then Inr (PDict (dict_set d kk v), ys)
                 else if y = 44 then scan_object fl n (dict_set d kk v) (skip_ws ys) else Inl JSONDecodeError)
          = bindE (scan_value fl k (skip_ws xs)) (\<lambda>(v, r2). case skip_ws r2 of [] \<Rightarrow> Inl JSONDecodeError
              | y # ys \<Rightarrow> if y = 125 then Inr (PDict (dict_set d kk v), ys)
                 else if y = 44 then scan_object fl k (dict_set d kk v) (skip_ws ys) else Inl JSONDecodeError)"
        if len: "length (skip_ws xs) < length q" for xs kk
      proof -
        have v: "scan_value fl n (skip_ws xs) = scan_value fl k (skip_ws xs)"
          using len bound m Cons by (intro value_eq) auto
        have "scan_object fl n e (skip_ws ys) = scan_object fl k e (skip_ws ys)"
          if "scan_value fl k (skip_ws xs) = Inr (v1, r1)" "skip_ws r1 = y # ys" for e v1 r1 y ys
          using scan_length(1) [OF that(1)] skip_ws_Cons [OF that(2)] skip_ws_length [of ys] len bound m Cons
          by (intro object_eq) auto
        then show ?thesis unfolding v
          by (cases "scan_value fl k (skip_ws xs)") (auto split: list.split)
      qed
      moreover have "length (skip_ws xs) < length q"
        if "scan_string q = Some (kk, r0)" "skip_ws r0 = x # xs" for kk r0 x xs
        using scan_string_length [OF that(1)] skip_ws_Cons [OF that(2)] skip_ws_length [of xs] by simp
      ultimately show ?thesis unfolding m Cons
        by (auto split: list.split option.split)
    qed (simp add: m)
  qed
  ultimately show ?case by blast
qed

lemma json_loads_any_fuel:
  assumes "Suc (2 * length s) \<le> n"
  shows "scan_value fl n (skip_ws s) = scan_value fl (Suc (2 * length s)) (skip_ws s)"
  using scan_fuel [THEN conjunct1, rule_format, of "skip_ws s" n "Suc (2 * length s)" fl]
    skip_ws_length [of s] assms by simp

section \<open>The escaped output is ASCII\<close>

lemma all_ascii_simps [simp]:
  "all_ascii []"
  "all_ascii (c # s) \<longleftrightarrow> c < 128 \<and> all_ascii s"
  "all_ascii (s @ t) \<longleftrightarrow> all_ascii s \<and> all_ascii t"
  by (auto simp: all_ascii_def)

lemma all_ascii_concat: "all_ascii (concat ws) \<longleftrightarrow> (\<forall>w \<in> set ws. all_ascii w)"
  by (auto simp: all_ascii_def)

lemma all_ascii_join: "(\<And>w. w \<in> set ws \<Longrightarrow> all_ascii w) \<Longrightarrow> all_ascii (join_comma ws)"
  by (induction ws rule: join_comma.induct) auto

lemma all_ascii_digits: "all_ascii (nat_digits n)"
  using nat_digits_digits by (force simp: all_ascii_def ascii_digit_def)

lemma hex_char_ascii: "v < 16 \<Longrightarrow> hex_char v < 128"
  by (simp add: hex_char_def)

lemma all_ascii_hex4: "all_ascii (hex4 u)"
  by (simp add: hex4_def hex_char_ascii)

lemma all_ascii_escape: "all_ascii (escape_char True c)"
  by (auto simp: escape_char_def short_escape_def all_ascii_hex4 split: option.split)

lemma all_ascii_json_string: "all_ascii (json_string True s)"
  by (auto simp: json_string_def all_ascii_concat all_ascii_escape)

lemma dumps_ascii: "json_ok v \<Longrightarrow> all_ascii (json_dumps True v)"
proof (induction v)
  case (PFloat f)
  then show ?case by (cases f) (simp_all add: float_repr_def lit_def)
next
  case (PInt i)
  then show ?case by (simp add: py_str_int_def all_ascii_digits)
next
  case (PList vs)
  then show ?case by (auto simp: list_all_iff intro!: all_ascii_join)
next
  case (PDict d)
  have "all_ascii (json_string True k @ [58] @ json_dumps True v)" if "(k, v) \<in> set d" for k v
    using PDict.IH [of "(k, v)" v] PDict.prems that by (auto simp: all_ascii_json_string list_all_iff)
  then show ?case by (auto intro!: all_ascii_join)
qed (auto simp: lit_def all_ascii_json_string)

lemma str_ok_lit: "str_ok (lit s)"
proof -
  have "c < 256" if "c \<in> set (lit s)" for c :: nat
    using that by (auto simp: lit_def)
  then show ?thesis by (force simp: str_ok_def is_surrogate_def)
qed

lemma length_nat_digits: "n < 10 ^ Suc k \<Longrightarrow> length (nat_digits n) \<le> Suc k"
proof (induction k arbitrary: n)
  case 0
  then show ?case by (simp add: nat_digits.simps [of n])
next
  case (Suc k)
  then have "n div 10 < 10 ^ Suc k" by simp
  from Suc.IH [OF this] show ?case by (simp add: nat_digits.simps [of n])
qed

lemma json_ok_int:
  assumes "\<bar>i\<bar> < 10 ^ 15"
  shows "json_ok (PInt i)"
proof -
  have "nat \<bar>i\<bar> < 10 ^ Suc 14" using assms by simp
  from length_nat_digits [OF this] show ?thesis by (simp add: MAX_STR_DIGITS_def)
qed

end
