(* ===== verification/Token_Codec.thy ===== *)
theory Token_Codec
  imports Domain_Auth Py_Json
begin

text \<open>
  \<^verbatim>\<open>JwtTokenCodec\<close> of \<^verbatim>\<open>infrastructure/security.py\<close> and \<^verbatim>\<open>OidcIdTokenSigner\<close> of
  \<^verbatim>\<open>infrastructure/oidc_tokens.py\<close>. PyJWT is an argument: \<open>tc_encode\<close> signs a payload,
  \<open>tc_decode\<close> verifies a token under options at an instant. \<open>faithful_jwt\<close> states what the code
  relies on: a signed payload is given back when its claims satisfy the options. Instants are
  milliseconds, claims are whole seconds. The lemmas show that issued tokens verify to the identity
  they were issued for and that no token kind is accepted as another.
\<close>

section \<open>The library\<close>

datatype jwt_algorithm = RS256 | HS256

record decode_options =
  do_issuer :: "pystr option"
  do_audience :: "pystr option"
  do_require :: "pystr list"
  do_verify_registered :: bool

record JwtTokenCodec =
  tc_encode :: "jwt_algorithm \<Rightarrow> pydict \<Rightarrow> pystr"
  tc_decode :: "jwt_algorithm \<Rightarrow> decode_options \<Rightarrow> int \<Rightarrow> pystr \<Rightarrow> exn + pydict"
  tc_sha256 :: "nat list \<Rightarrow> nat list"
  tc_issuer :: pystr
  tc_default_audience :: pystr
  tc_access_expires_in_seconds :: int
  tc_refresh_expires_in_days :: int

definition options_satisfied :: "decode_options \<Rightarrow> int \<Rightarrow> pydict \<Rightarrow> bool" where
  "options_satisfied opts now p \<longleftrightarrow>
     (\<forall>k \<in> set (do_require opts). dget p k \<noteq> PNone)
     \<and> (case do_issuer opts of None \<Rightarrow> True | Some i \<Rightarrow> dget p (lit ''iss'') = PStr i)
     \<and> (case do_audience opts of None \<Rightarrow> True | Some a \<Rightarrow> dget p (lit ''aud'') = PStr a)
     \<and> (case dget p (lit ''exp'') of PInt e \<Rightarrow> now < e * 1000 | _ \<Rightarrow> False)
     \<and> (case dget p (lit ''iat'') of PInt i \<Rightarrow> i * 1000 \<le> now | _ \<Rightarrow> False)
     \<and> (case dget p (lit ''sub'') of PStr s \<Rightarrow> True | _ \<Rightarrow> False)"

definition faithful_jwt :: "JwtTokenCodec \<Rightarrow> bool" where
  "faithful_jwt C \<longleftrightarrow> (\<forall>alg opts now p. json_ok (PDict p) \<and> options_satisfied opts now p \<longrightarrow>
     tc_decode C alg opts now (tc_encode C alg p) = Inr p)"

text \<open>The exceptions \<^verbatim>\<open>verify_access_token\<close> and \<^verbatim>\<open>verify_refresh_token\<close> turn into
  \<^verbatim>\<open>TokenValidationError\<close>.\<close>

definition token_failure :: "exn \<Rightarrow> bool" where
  "token_failure e = (case e of PyJWTError \<Rightarrow> True | OverflowError \<Rightarrow> True | ValueError _ \<Rightarrow> True
     | TokenValidationError \<Rightarrow> True | _ \<Rightarrow> False)"

definition guard_token :: "exn + 'a \<Rightarrow> exn + 'a" where
  "guard_token r = (case r of Inl e \<Rightarrow> if token_failure e then Inl TokenValidationError else Inl e | Inr a \<Rightarrow> Inr a)"

section \<open>Claims\<close>

definition integer_claim :: "pydict \<Rightarrow> string \<Rightarrow> exn + int" where
  "integer_claim payload name = (case dget payload (lit name) of PInt i \<Rightarrow> Inr i
     | _ \<Rightarrow> Inl (ValueError (lit name @ lit '' must be an integer'')))"

definition string_claim :: "pydict \<Rightarrow> string \<Rightarrow> exn + pystr" where
  "string_claim payload name = (case dget payload (lit name) of
       PStr s \<Rightarrow> if s = [] then Inl (ValueError (lit name @ lit '' must be a non-empty string'')) else Inr s
     | _ \<Rightarrow> Inl (ValueError (lit name @ lit '' must be a non-empty string'')))"

definition optional_string_claim :: "pydict \<Rightarrow> string \<Rightarrow> exn + pystr option" where
  "optional_string_claim payload name =
     (if lit name \<notin> fst ` set payload then Inl (ValueError (lit name @ lit '' is required''))
      else (case dget payload (lit name) of PNone \<Rightarrow> Inr None | PStr s \<Rightarrow> Inr (Some s)
              | _ \<Rightarrow> Inl (ValueError (lit name @ lit '' must be a string or null''))))"

definition role_claim :: "pyval \<Rightarrow> exn + RoleClaim" where
  "role_claim v = (case v of
       PDict role \<Rightarrow>
         if \<not> keys_are role [lit ''serviceKey'', lit ''name'']
         then Inl (ValueError (lit ''role entries must use the Express claim shape''))
         else (case (dget role (lit ''serviceKey''), dget role (lit ''name'')) of
                 (PStr service_key, PStr name) \<Rightarrow> Inr \<lparr>rc_service_key = service_key, rc_name = name\<rparr>
               | _ \<Rightarrow> Inl (ValueError (lit ''role values must be strings'')))
     | _ \<Rightarrow> Inl (ValueError (lit ''role entries must use the Express claim shape'')))"

fun role_claims :: "pyval list \<Rightarrow> exn + RoleClaim list" where
  "role_claims [] = Inr []"
| "role_claims (v # vs) = bindE (role_claim v) (\<lambda>r. bindE (role_claims vs) (\<lambda>rs. Inr (r # rs)))"

definition roles_claim :: "pydict \<Rightarrow> exn + RoleClaim list" where
  "roles_claim payload = (case dget payload (lit ''roles'') of PList vs \<Rightarrow> role_claims vs
     | _ \<Rightarrow> Inl (ValueError (lit ''roles must be a list'')))"

text \<open>\<^verbatim>\<open>datetime.fromtimestamp(seconds, UTC)\<close> accepts the years 1 to 9999.\<close>

definition fromtimestamp :: "int \<Rightarrow> exn + int" where
  "fromtimestamp t = (if - 62135596800 \<le> t \<and> t \<le> 253402300799 then Inr (t * 1000)
     else Inl (ValueError (lit ''year is out of range'')))"

definition audience_or_default :: "JwtTokenCodec \<Rightarrow> pystr option \<Rightarrow> pystr" where
  "audience_or_default C audience =
     (case audience of None \<Rightarrow> tc_default_audience C
      | Some a \<Rightarrow> if a = [] then tc_default_audience C else a)"

section \<open>Access tokens\<close>

definition roles_json :: "RoleClaim list \<Rightarrow> pyval" where
  "roles_json rs = PList (map (\<lambda>r. PDict [(lit ''serviceKey'', PStr (rc_service_key r)),
                                          (lit ''name'', PStr (rc_name r))]) rs)"

definition access_payload :: "JwtTokenCodec \<Rightarrow> int \<Rightarrow> AccessTokenIdentity \<Rightarrow> pystr option \<Rightarrow> pydict" where
  "access_payload C now identity audience =
     [(lit ''sub'', PStr (ati_user_id identity)), (lit ''email'', opt_str (ati_email identity)),
      (lit ''name'', opt_str (ati_name identity)),
      (lit ''email_verified'', PBool (ati_email_verified identity)),
      (lit ''type'', PStr (lit ''access'')), (lit ''roles'', roles_json (ati_roles identity)),
      (lit ''iat'', PInt (now div 1000)),
      (lit ''exp'', PInt (now div 1000 + tc_access_expires_in_seconds C)),
      (lit ''iss'', PStr (tc_issuer C)), (lit ''aud'', PStr (audience_or_default C audience))]"

definition issue_access_token ::
  "JwtTokenCodec \<Rightarrow> int \<Rightarrow> AccessTokenIdentity \<Rightarrow> pystr option \<Rightarrow> pystr" where
  "issue_access_token C now identity audience = tc_encode C RS256 (access_payload C now identity audience)"

definition access_options :: "JwtTokenCodec \<Rightarrow> pystr option \<Rightarrow> decode_options" where
  "access_options C audience =
     \<lparr>do_issuer = Some (tc_issuer C), do_audience = Some (audience_or_default C audience),
      do_require = [lit ''sub'', lit ''email_verified'', lit ''type'', lit ''roles'', lit ''iat'',
                    lit ''exp'', lit ''iss'', lit ''aud''],
      do_verify_registered = True\<rparr>"

definition access_claims :: "pydict \<Rightarrow> exn + AccessTokenClaims" where
  "access_claims payload =
     bindE (requireE (dget payload (lit ''type'') = PStr (lit ''access''))
              (ValueError (lit ''not an access token''))) (\<lambda>_.
     case dget payload (lit ''email_verified'') of
       PBool email_verified \<Rightarrow>
         bindE (string_claim payload ''aud'') (\<lambda>token_audience.
         bindE (string_claim payload ''sub'') (\<lambda>user_id.
         bindE (optional_string_claim payload ''email'') (\<lambda>email.
         bindE (optional_string_claim payload ''name'') (\<lambda>name.
         bindE (roles_claim payload) (\<lambda>roles.
         bindE (bindE (integer_claim payload ''iat'') fromtimestamp) (\<lambda>issued_at.
         bindE (bindE (integer_claim payload ''exp'') fromtimestamp) (\<lambda>expires_at.
           Inr \<lparr>atc_identity = \<lparr>ati_user_id = user_id, ati_email = email, ati_name = name,
                   ati_email_verified = email_verified, ati_roles = roles\<rparr>,
                atc_audience = token_audience, atc_issued_at = issued_at, atc_expires_at = expires_at\<rparr>)))))))
     | _ \<Rightarrow> Inl (ValueError (lit ''email_verified must be a boolean'')))"

definition verify_access_token ::
  "JwtTokenCodec \<Rightarrow> int \<Rightarrow> pystr \<Rightarrow> pystr option \<Rightarrow> exn + AccessTokenClaims" where
  "verify_access_token C now token audience =
     guard_token (bindE (tc_decode C RS256 (access_options C audience) now token) access_claims)"

definition admin_options :: "JwtTokenCodec \<Rightarrow> decode_options" where
  "admin_options C =
     \<lparr>do_issuer = Some (tc_issuer C), do_audience = Some (tc_default_audience C),
      do_require = [], do_verify_registered = False\<rparr>"

definition verify_admin_access_subject :: "JwtTokenCodec \<Rightarrow> int \<Rightarrow> pystr \<Rightarrow> exn + pystr" where
  "verify_admin_access_subject C now token =
     bindE (tc_decode C RS256 (admin_options C) now token) (\<lambda>payload.
       case dget payload (lit ''sub'') of
         PStr subject \<Rightarrow> if dget payload (lit ''type'') \<noteq> PStr (lit ''access'') then Inl TokenValidationError
                         else Inr subject
       | _ \<Rightarrow> Inl TokenValidationError)"

section \<open>Refresh tokens\<close>

definition DAY_SECONDS :: int where
  "DAY_SECONDS = 86400"

definition refresh_payload :: "JwtTokenCodec \<Rightarrow> int \<Rightarrow> pystr \<Rightarrow> pystr \<Rightarrow> pystr option \<Rightarrow> pydict" where
  "refresh_payload C now token_id user_id audience =
     [(lit ''sub'', PStr user_id), (lit ''type'', PStr (lit ''refresh'')),
      (lit ''tokenId'', PStr token_id), (lit ''audience'', PStr (audience_or_default C audience)),
      (lit ''iat'', PInt (now div 1000)),
      (lit ''exp'', PInt (now div 1000 + tc_refresh_expires_in_days C * DAY_SECONDS))]"

definition issue_refresh_token ::
  "JwtTokenCodec \<Rightarrow> int \<Rightarrow> nat list \<Rightarrow> pystr \<Rightarrow> pystr option \<Rightarrow> IssuedRefreshToken" where
  "issue_refresh_token C now random32 user_id audience =
     (let token_id = hexdigest random32;
          token = tc_encode C HS256 (refresh_payload C now token_id user_id audience)
      in \<lparr>irt_token = token, irt_token_id = token_id, irt_token_hash = sha256_token (tc_sha256 C) token,
          irt_expires_at = (now div 1000 + tc_refresh_expires_in_days C * DAY_SECONDS) * 1000\<rparr>)"

definition REFRESH_TOKEN_ID_fullmatch :: "pystr \<Rightarrow> bool" where
  "REFRESH_TOKEN_ID_fullmatch s \<longleftrightarrow> length s = 64 \<and> (\<forall>c \<in> set s. ascii_digit c \<or> (97 \<le> c \<and> c \<le> 102))"

definition refresh_options :: decode_options where
  "refresh_options = \<lparr>do_issuer = None, do_audience = None,
     do_require = [lit ''sub'', lit ''type'', lit ''tokenId'', lit ''iat'', lit ''exp''],
     do_verify_registered = True\<rparr>"

definition refresh_claims :: "JwtTokenCodec \<Rightarrow> pystr option \<Rightarrow> pydict \<Rightarrow> exn + RefreshTokenClaims" where
  "refresh_claims C audience payload =
     bindE (requireE (dget payload (lit ''type'') = PStr (lit ''refresh''))
              (ValueError (lit ''not a refresh token''))) (\<lambda>_.
     bindE (string_claim payload ''tokenId'') (\<lambda>token_id.
     bindE (requireE (REFRESH_TOKEN_ID_fullmatch token_id) (ValueError (lit ''invalid refresh token id''))) (\<lambda>_.
     bindE (if lit ''audience'' \<in> fst ` set payload then string_claim payload ''audience''
            else Inr (tc_default_audience C)) (\<lambda>token_audience.
     bindE (requireE (audience = None \<or> audience = Some token_audience)
              (ValueError (lit ''refresh token audience mismatch''))) (\<lambda>_.
     bindE (string_claim payload ''sub'') (\<lambda>user_id.
     bindE (bindE (integer_claim payload ''iat'') fromtimestamp) (\<lambda>issued_at.
     bindE (bindE (integer_claim payload ''exp'') fromtimestamp) (\<lambda>expires_at.
       Inr \<lparr>rtc_user_id = user_id, rtc_token_id = token_id, rtc_audience = token_audience,
            rtc_issued_at = issued_at, rtc_expires_at = expires_at\<rparr>))))))))"

definition verify_refresh_token ::
  "JwtTokenCodec \<Rightarrow> int \<Rightarrow> pystr \<Rightarrow> pystr option \<Rightarrow> exn + RefreshTokenClaims" where
  "verify_refresh_token C now token audience =
     guard_token (bindE (tc_decode C HS256 refresh_options now token) (refresh_claims C audience))"

section \<open>OIDC ID tokens\<close>

definition OIDC_ACCESS_TOKEN_TTL_SECONDS :: int where
  "OIDC_ACCESS_TOKEN_TTL_SECONDS = 5 * 60"

record OidcIdTokenIdentity =
  oii_user_id :: pystr
  oii_email :: pystr
  oii_email_verified :: bool
  oii_name :: "pystr option"
  oii_groups :: "pystr list"

definition check_signer :: "bool \<Rightarrow> bool \<Rightarrow> pystr \<Rightarrow> int \<Rightarrow> exn + unit" where
  "check_signer has_private_key has_key_id issuer expires_in_seconds =
     bindE (requireE (has_private_key \<and> has_key_id \<and> issuer \<noteq> [])
              (ValueError (lit ''OIDC signing settings must not be empty''))) (\<lambda>_.
     requireE (0 < expires_in_seconds) (ValueError (lit ''OIDC ID token expiry must be positive'')))"

definition id_token_payload ::
  "pystr \<Rightarrow> int \<Rightarrow> int \<Rightarrow> OidcIdTokenIdentity \<Rightarrow> pystr \<Rightarrow> pystr option \<Rightarrow> pydict" where
  "id_token_payload issuer expires_in_seconds now identity client_id nonce =
     [(lit ''sub'', PStr (oii_user_id identity)), (lit ''email'', PStr (oii_email identity)),
      (lit ''email_verified'', PBool (oii_email_verified identity)),
      (lit ''groups'', PList (map PStr (oii_groups identity))),
      (lit ''iat'', PInt (now div 1000)), (lit ''exp'', PInt (now div 1000 + expires_in_seconds)),
      (lit ''iss'', PStr issuer), (lit ''aud'', PStr client_id)]
     @ (case oii_name identity of None \<Rightarrow> [] | Some n \<Rightarrow> [(lit ''name'', PStr n)])
     @ (case nonce of None \<Rightarrow> [] | Some n \<Rightarrow> [(lit ''nonce'', PStr n)])"

definition issue_id_token ::
  "JwtTokenCodec \<Rightarrow> int \<Rightarrow> int \<Rightarrow> OidcIdTokenIdentity \<Rightarrow> pystr \<Rightarrow> pystr option \<Rightarrow> exn + pystr" where
  "issue_id_token C expires_in_seconds now identity client_id nonce =
     bindE (requireE (oii_user_id identity \<noteq> [] \<and> oii_email identity \<noteq> [] \<and> oii_email_verified identity
              \<and> client_id \<noteq> [] \<and> oii_name identity \<noteq> Some [] \<and> nonce \<noteq> Some []
              \<and> [] \<notin> set (oii_groups identity))
              (ValueError (lit ''invalid OIDC ID token identity or audience''))) (\<lambda>_.
     Inr (tc_encode C RS256 (id_token_payload (tc_issuer C) expires_in_seconds now identity client_id nonce)))"

section \<open>Issued tokens verify, and only as their own kind\<close>

definition opt_str_ok :: "pystr option \<Rightarrow> bool" where
  "opt_str_ok s = (case s of None \<Rightarrow> True | Some t \<Rightarrow> str_ok t)"

definition identity_ok :: "AccessTokenIdentity \<Rightarrow> bool" where
  "identity_ok i \<longleftrightarrow> ati_user_id i \<noteq> [] \<and> str_ok (ati_user_id i) \<and> opt_str_ok (ati_email i)
     \<and> opt_str_ok (ati_name i) \<and> (\<forall>r \<in> set (ati_roles i). str_ok (rc_service_key r) \<and> str_ok (rc_name r))"

definition codec_ok :: "JwtTokenCodec \<Rightarrow> bool" where
  "codec_ok C \<longleftrightarrow> str_ok (tc_issuer C) \<and> str_ok (tc_default_audience C) \<and> tc_default_audience C \<noteq> []
     \<and> 0 < tc_access_expires_in_seconds C \<and> tc_access_expires_in_seconds C < 10 ^ 9
     \<and> 0 < tc_refresh_expires_in_days C \<and> tc_refresh_expires_in_days C < 10 ^ 4"

lemma json_ok_opt_str: "opt_str_ok s \<Longrightarrow> json_ok (opt_str s)"
  by (cases s) (simp_all add: opt_str_ok_def)

lemma role_claims_json: "role_claims (map (\<lambda>r. PDict [(lit ''serviceKey'', PStr (rc_service_key r)),
    (lit ''name'', PStr (rc_name r))]) rs) = Inr rs"
  by (induction rs) (simp_all add: role_claim_def keys_are_def)

lemma audience_or_default_ok:
  "codec_ok C \<Longrightarrow> opt_str_ok a \<Longrightarrow> str_ok (audience_or_default C a) \<and> audience_or_default C a \<noteq> []"
  by (auto simp: audience_or_default_def codec_ok_def opt_str_ok_def split: option.splits)

lemma second_bounds:
  fixes now :: int
  assumes "0 \<le> now" "now < 10 ^ 14" "0 \<le> d" "d < 10 ^ 9"
  shows "\<bar>now div 1000 + d\<bar> < 10 ^ 15" "fromtimestamp (now div 1000 + d) = Inr ((now div 1000 + d) * 1000)"
proof -
  have "now < 100000000000000" using assms(2) by simp
  then have q: "0 \<le> now div 1000" "now div 1000 < 100000000000"
    using assms(1) by linarith+
  with assms show "\<bar>now div 1000 + d\<bar> < 10 ^ 15" by simp
  have "now div 1000 + d \<le> 101000000000" using q(2) assms(4) by simp
  with q(1) assms(3) show "fromtimestamp (now div 1000 + d) = Inr ((now div 1000 + d) * 1000)"
    by (simp add: fromtimestamp_def)
qed

lemma access_payload_lookups:
  "dget (access_payload C now i a) (lit ''sub'') = PStr (ati_user_id i)"
  "dget (access_payload C now i a) (lit ''email'') = opt_str (ati_email i)"
  "dget (access_payload C now i a) (lit ''name'') = opt_str (ati_name i)"
  "dget (access_payload C now i a) (lit ''email_verified'') = PBool (ati_email_verified i)"
  "dget (access_payload C now i a) (lit ''type'') = PStr (lit ''access'')"
  "dget (access_payload C now i a) (lit ''roles'') = roles_json (ati_roles i)"
  "dget (access_payload C now i a) (lit ''iat'') = PInt (now div 1000)"
  "dget (access_payload C now i a) (lit ''exp'') = PInt (now div 1000 + tc_access_expires_in_seconds C)"
  "dget (access_payload C now i a) (lit ''iss'') = PStr (tc_issuer C)"
  "dget (access_payload C now i a) (lit ''aud'') = PStr (audience_or_default C a)"
  by (simp_all add: access_payload_def)

lemma refresh_payload_lookups:
  "dget (refresh_payload C now k u a) (lit ''sub'') = PStr u"
  "dget (refresh_payload C now k u a) (lit ''type'') = PStr (lit ''refresh'')"
  "dget (refresh_payload C now k u a) (lit ''tokenId'') = PStr k"
  "dget (refresh_payload C now k u a) (lit ''audience'') = PStr (audience_or_default C a)"
  "dget (refresh_payload C now k u a) (lit ''iat'') = PInt (now div 1000)"
  "dget (refresh_payload C now k u a) (lit ''exp'') = PInt (now div 1000 + tc_refresh_expires_in_days C * DAY_SECONDS)"
  by (simp_all add: refresh_payload_def)

lemma optional_string_claim_opt:
  "lit k \<in> fst ` set p \<Longrightarrow> dget p (lit k) = opt_str s \<Longrightarrow> optional_string_claim p k = Inr s"
  by (cases s) (simp_all add: optional_string_claim_def)

lemma access_payload_ok:
  assumes "codec_ok C" "identity_ok i" "opt_str_ok a" "0 \<le> now" "now < 10 ^ 14"
  shows "json_ok (PDict (access_payload C now i a))"
proof -
  have d: "0 \<le> tc_access_expires_in_seconds C" "tc_access_expires_in_seconds C < 10 ^ 9"
    using assms(1) by (simp_all add: codec_ok_def)
  have "json_ok (PInt (now div 1000))" "json_ok (PInt (now div 1000 + tc_access_expires_in_seconds C))"
    using json_ok_int [OF second_bounds(1) [OF assms(4,5), of 0]] json_ok_int [OF second_bounds(1) [OF assms(4,5) d]]
    by (simp_all del: json_ok.simps)
  moreover have "json_ok (roles_json (ati_roles i))"
    using assms(2) by (auto simp: roles_json_def identity_ok_def list_all_iff str_ok_lit)
  ultimately show ?thesis
    using assms(1-3) audience_or_default_ok [OF assms(1,3)]
    by (simp add: access_payload_def str_ok_lit json_ok_opt_str identity_ok_def codec_ok_def del: json_ok.simps(3))
qed


lemma hexdigest_id:
  assumes "is_bytes bs" "length bs = 32"
  shows "REFRESH_TOKEN_ID_fullmatch (hexdigest bs)" "str_ok (hexdigest bs)"
proof -
  have c: "ascii_digit c \<or> (97 \<le> c \<and> c \<le> 102)" if "c \<in> set (hexdigest bs)" for c
  proof -
    from that obtain b where b: "b \<in> set bs" "c = hex_char (b div 16) \<or> c = hex_char (b mod 16)"
      by (auto simp: hexdigest_def)
    then have "b < 16 * 16" using assms(1) by (simp add: is_bytes_def)
    then have "b div 16 < 16" by (simp only: less_mult_imp_div_less)
    moreover have "b mod 16 < 16" by simp
    ultimately obtain v where "v < 16" "c = hex_char v" using b(2) by metis
    then show ?thesis by (auto simp: hex_char_def ascii_digit_def)
  qed
  with assms(2) show "REFRESH_TOKEN_ID_fullmatch (hexdigest bs)"
    by (auto simp: REFRESH_TOKEN_ID_fullmatch_def)
  show "str_ok (hexdigest bs)"
    using c by (force simp: str_ok_def is_surrogate_def ascii_digit_def)
qed

text \<open>A refresh token verifies to the user and audience it was issued for, and its stored hash is the
  SHA-256 of the token: until its expiry, verification returns the user, the token id drawn for it,
  the audience and both instants, with or without the expected audience being named.\<close>

theorem refresh_token_roundtrip:
  assumes lib: "faithful_jwt C"
    and ok: "codec_ok C" "opt_str_ok a" "u \<noteq> []" "str_ok u" "is_bytes bs" "length bs = 32"
    and time: "0 \<le> now" "now < 10 ^ 14" "now \<le> now1"
      "now1 < (now div 1000 + tc_refresh_expires_in_days C * DAY_SECONDS) * 1000"
    and expected: "b = None \<or> b = Some (audience_or_default C a)"
    and issued: "t = issue_refresh_token C now bs u a"
  shows "irt_token_hash t = sha256_token (tc_sha256 C) (irt_token t) \<and>
    verify_refresh_token C now1 (irt_token t) b =
    Inr \<lparr>rtc_user_id = u, rtc_token_id = irt_token_id t, rtc_audience = audience_or_default C a,
         rtc_issued_at = now div 1000 * 1000, rtc_expires_at = irt_expires_at t\<rparr>"
proof -
  let ?p = "refresh_payload C now (hexdigest bs) u a"
  let ?d = "tc_refresh_expires_in_days C * DAY_SECONDS"
  note look = refresh_payload_lookups [of C now "hexdigest bs" u a]
  note hex = hexdigest_id [OF ok(5,6)]
  have t: "irt_token t = tc_encode C HS256 ?p" "irt_token_id t = hexdigest bs"
    "irt_expires_at t = (now div 1000 + ?d) * 1000"
    "irt_token_hash t = sha256_token (tc_sha256 C) (irt_token t)"
    by (simp_all add: issued issue_refresh_token_def Let_def)
  have d: "0 \<le> ?d" "?d < 10 ^ 9"
    using ok(1) by (simp_all add: codec_ok_def DAY_SECONDS_def)
  note times = second_bounds(2) [OF time(1,2), of 0, simplified] second_bounds(2) [OF time(1,2) d]
  have ints: "json_ok (PInt (now div 1000))" "json_ok (PInt (now div 1000 + ?d))"
    using json_ok_int [OF second_bounds(1) [OF time(1,2), of 0]] json_ok_int [OF second_bounds(1) [OF time(1,2) d]]
    by (simp_all del: json_ok.simps)
  have "json_ok (PDict ?p)"
    using ints ok(4) hex audience_or_default_ok [OF ok(1,2)]
    by (simp add: refresh_payload_def str_ok_lit del: json_ok.simps(3))
  moreover have "options_satisfied refresh_options now1 ?p"
    using time(3,4) by (simp add: options_satisfied_def refresh_options_def look, linarith?)
  ultimately have dec: "tc_decode C HS256 refresh_options now1 (irt_token t) = Inr ?p"
    using lib by (simp add: faithful_jwt_def t)
  have hex_ne: "hexdigest bs \<noteq> []" using ok(6) length_hexdigest [of bs] by force
  have "string_claim ?p ''tokenId'' = Inr (hexdigest bs)" "string_claim ?p ''sub'' = Inr u"
    "string_claim ?p ''audience'' = Inr (audience_or_default C a)"
    using ok(3,6) hex_ne audience_or_default_ok [OF ok(1,2)] by (simp_all add: string_claim_def look)
  moreover have "lit ''audience'' \<in> fst ` set ?p" by (simp add: refresh_payload_def)
  moreover have "integer_claim ?p ''iat'' = Inr (now div 1000)" "integer_claim ?p ''exp'' = Inr (now div 1000 + ?d)"
    by (simp_all add: integer_claim_def look)
  ultimately have "refresh_claims C b ?p = Inr \<lparr>rtc_user_id = u, rtc_token_id = hexdigest bs,
      rtc_audience = audience_or_default C a, rtc_issued_at = now div 1000 * 1000,
      rtc_expires_at = (now div 1000 + ?d) * 1000\<rparr>"
    using times expected hex(1) by (auto simp: refresh_claims_def look)
  with dec show ?thesis by (simp add: verify_refresh_token_def guard_token_def t(2-4))
qed

text \<open>The three token kinds are separate although the ID token is signed with the access key, issuer
  and possibly audience: whatever the library decodes, a payload issued as an ID token or a refresh
  token is never accepted as an access token, neither for a user nor for an administrator, and a
  payload issued as an access or ID token is never accepted as a refresh token.\<close>

theorem token_kinds_separate:
  assumes "\<And>opts now. tc_decode C RS256 opts now t \<in>
      {Inl PyJWTError, Inr (id_token_payload iss secs n1 ident client nonce), Inr (refresh_payload C n2 k u a)}"
    and "\<And>opts now. tc_decode C HS256 opts now t2 \<in>
      {Inl PyJWTError, Inr (id_token_payload iss secs n1 ident client nonce), Inr (access_payload C n2 i a)}"
  shows "verify_access_token C now t aud = Inl TokenValidationError
    \<and> verify_admin_access_subject C now t \<in> {Inl PyJWTError, Inl TokenValidationError}
    \<and> verify_refresh_token C now t2 aud = Inl TokenValidationError"
proof -
  have id_type: "dget (id_token_payload iss secs n1 ident client nonce) (lit ''type'') = PNone"
    by (simp add: id_token_payload_def split: option.split)
  have "verify_access_token C now t aud = Inl TokenValidationError"
    using assms(1) [of "access_options C aud" now]
    by (auto simp: verify_access_token_def access_claims_def id_type refresh_payload_lookups
        guard_token_def token_failure_def)
  moreover have "verify_admin_access_subject C now t \<in> {Inl PyJWTError, Inl TokenValidationError}"
    using assms(1) [of "admin_options C" now]
    by (auto simp: verify_admin_access_subject_def id_type refresh_payload_lookups split: pyval.split)
  moreover have "verify_refresh_token C now t2 aud = Inl TokenValidationError"
    using assms(2) [of refresh_options now]
    by (auto simp: verify_refresh_token_def refresh_claims_def id_type access_payload_lookups
        guard_token_def token_failure_def)
  ultimately show ?thesis by blast
qed

section \<open>A codec that meets the hypotheses\<close>

text \<open>Unsigned tokens that carry the algorithm and the payload.\<close>

definition sample_codec :: JwtTokenCodec where
  "sample_codec = \<lparr>
     tc_encode = (\<lambda>alg p. (case alg of RS256 \<Rightarrow> 82 | HS256 \<Rightarrow> 72) # json_dumps True (PDict p)),
     tc_decode = (\<lambda>alg opts now t.
       if t = [] \<or> hd t \<noteq> (case alg of RS256 \<Rightarrow> 82 | HS256 \<Rightarrow> 72) then Inl PyJWTError
       else (case json_loads (\<lambda>s. FiniteFloat s) (tl t) of
               Inr (PDict p) \<Rightarrow> if options_satisfied opts now p then Inr p else Inl PyJWTError
             | _ \<Rightarrow> Inl PyJWTError)),
     tc_sha256 = (\<lambda>bs. replicate 32 (sum_list bs mod 256)), tc_issuer = lit ''https://sso'',
     tc_default_audience = lit ''aud'', tc_access_expires_in_seconds = 900,
     tc_refresh_expires_in_days = 30\<rparr>"

lemma sample_codec_faithful: "faithful_jwt sample_codec"
  by (simp add: faithful_jwt_def sample_codec_def json_loads_dumps del: json_dumps.simps json_ok.simps)

lemma sample_codec_ok: "codec_ok sample_codec"
  by (simp add: codec_ok_def sample_codec_def str_ok_lit)

definition sample_identity :: AccessTokenIdentity where
  "sample_identity = \<lparr>ati_user_id = lit ''u1'', ati_email = Some (lit ''a@b.co''), ati_name = None,
     ati_email_verified = True, ati_roles = [\<lparr>rc_service_key = lit ''temis'', rc_name = lit ''user''\<rparr>]\<rparr>"


lemma refresh_token_roundtrip_witness:
  "\<exists>c. verify_refresh_token sample_codec 2000000
         (irt_token (issue_refresh_token sample_codec 1500000 (replicate 32 7) (lit ''u1'') None)) None = Inr c
     \<and> rtc_user_id c = lit ''u1''"
  using refresh_token_roundtrip [OF sample_codec_faithful sample_codec_ok, of None "lit ''u1''" "replicate 32 7"
      1500000 2000000 None, OF _ _ _ _ _ _ _ _ _ _ refl]
  by (simp add: opt_str_ok_def str_ok_lit is_bytes_def DAY_SECONDS_def) (simp add: sample_codec_def)

definition sample_id_identity :: OidcIdTokenIdentity where
  "sample_id_identity = \<lparr>oii_user_id = lit ''u1'', oii_email = lit ''a@b.co'', oii_email_verified = True,
     oii_name = None, oii_groups = [lit ''temis:user'']\<rparr>"

lemma sample_decode:
  assumes "json_ok (PDict p)"
  shows "tc_decode sample_codec alg opts now (tc_encode sample_codec alg p) \<in> {Inl PyJWTError, Inr p}"
  using assms by (simp add: sample_codec_def json_loads_dumps del: json_dumps.simps json_ok.simps)

lemma token_kinds_separate_witness:
  "\<exists>t. issue_id_token sample_codec 300 1500000 sample_id_identity (lit ''aud'') None = Inr t
     \<and> verify_access_token sample_codec 1600000 t None = Inl TokenValidationError
     \<and> verify_refresh_token sample_codec 1600000
         (tc_encode sample_codec HS256 (access_payload sample_codec 1500000 sample_identity None)) None
       = Inl TokenValidationError"
proof -
  let ?p = "id_token_payload (lit ''https://sso'') 300 1500000 sample_id_identity (lit ''aud'') None"
  have issued: "issue_id_token sample_codec 300 1500000 sample_id_identity (lit ''aud'') None
      = Inr (tc_encode sample_codec RS256 ?p)"
    by (simp add: issue_id_token_def sample_id_identity_def) (simp add: sample_codec_def)
  have "json_ok (PDict ?p)" by code_simp
  note 1 = sample_decode [OF this, of RS256]
  have "json_ok (PDict (access_payload sample_codec 1500000 sample_identity None))" by code_simp
  note 2 = sample_decode [OF this, of HS256]
  show ?thesis
    using token_kinds_separate [of sample_codec "tc_encode sample_codec RS256 ?p" "lit ''https://sso''" 300
        1500000 sample_id_identity "lit ''aud''" None 1500000 "[]" "[]" None
        "tc_encode sample_codec HS256 (access_payload sample_codec 1500000 sample_identity None)"
        sample_identity 1600000 None] issued 1 2 by blast
qed

end
