(* ===== verification/Redis_State.thy ===== *)
theory Redis_State
  imports Py_Encode Py_Value
begin

text \<open>
  \<^verbatim>\<open>infrastructure/redis.py\<close>. The server holds byte strings with an optional absolute expiry in
  milliseconds; its three Lua scripts run atomically. The client part is \<^verbatim>\<open>RedisStateStore\<close>: it
  refuses every command until \<^verbatim>\<open>start\<close> has succeeded, turns every failure into
  \<^verbatim>\<open>RedisUnavailableError\<close> and stops being ready; it never retries. Whether the \<open>n\<close>-th command is
  answered, is lost before the server ran it, or is lost after it, is the function
  \<open>rd_fate\<close>. The interface \<open>state_store\<close> states what the authentication state relies on.
\<close>

section \<open>Keys\<close>

definition OAUTH_STATE_KEY_PREFIX :: "nat list" where
  "OAUTH_STATE_KEY_PREFIX = lit ''wiseacct:oauth-state:''"

definition AUTH_HANDOFF_KEY_PREFIX :: "nat list" where
  "AUTH_HANDOFF_KEY_PREFIX = lit ''wiseacct:auth-handoff:''"

definition RATE_LIMIT_KEY_PREFIX :: "nat list" where
  "RATE_LIMIT_KEY_PREFIX = lit ''wiseacct:rate-limit:''"

definition OAUTH_STATE_TTL_SECONDS :: int where
  "OAUTH_STATE_TTL_SECONDS = 10 * 60"

definition AUTH_HANDOFF_TTL_SECONDS :: int where
  "AUTH_HANDOFF_TTL_SECONDS = 2 * 60"

definition sha256_hex :: "(nat list \<Rightarrow> nat list) \<Rightarrow> pystr \<Rightarrow> pystr" where
  "sha256_hex sha256 v = hexdigest (sha256 (node_utf8_bytes v))"

definition oauth_state_key :: "pystr \<Rightarrow> nat list" where
  "oauth_state_key state = OAUTH_STATE_KEY_PREFIX @ node_utf8_bytes state"

definition auth_handoff_key :: "(nat list \<Rightarrow> nat list) \<Rightarrow> pystr \<Rightarrow> nat list" where
  "auth_handoff_key sha256 code = AUTH_HANDOFF_KEY_PREFIX @ sha256_hex sha256 code"

definition rate_limit_key :: "pystr \<Rightarrow> pystr \<Rightarrow> nat list" where
  "rate_limit_key client_key route = RATE_LIMIT_KEY_PREFIX @ utf8_bytes (client_key @ [58] @ route)"

section \<open>The server\<close>

type_synonym kv = "nat list \<Rightarrow> (nat list \<times> int option) option"

definition kv_get :: "int \<Rightarrow> kv \<Rightarrow> nat list \<Rightarrow> nat list option" where
  "kv_get now m k = (case m k of
     None \<Rightarrow> None
   | Some (v, e) \<Rightarrow> (case e of None \<Rightarrow> Some v | Some t \<Rightarrow> if t \<le> now then None else Some v))"

definition kv_expiry :: "int \<Rightarrow> kv \<Rightarrow> nat list \<Rightarrow> int option" where
  "kv_expiry now m k = (case kv_get now m k of None \<Rightarrow> None | Some _ \<Rightarrow> snd (the (m k)))"

definition cmd_set_nx :: "nat list \<Rightarrow> nat list \<Rightarrow> int \<Rightarrow> int \<Rightarrow> kv \<Rightarrow> bool \<times> kv" where
  "cmd_set_nx k v ttl now m =
     (if kv_get now m k = None then (True, m(k := Some (v, Some (now + ttl * 1000)))) else (False, m))"

definition cmd_get :: "nat list \<Rightarrow> int \<Rightarrow> kv \<Rightarrow> nat list option \<times> kv" where
  "cmd_get k now m = (kv_get now m k, m)"

text \<open>\<^verbatim>\<open>_CONSUME_SCRIPT\<close> and \<^verbatim>\<open>_CONSUME_IF_EXACT_SCRIPT\<close>.\<close>

definition cmd_consume :: "nat list \<Rightarrow> int \<Rightarrow> kv \<Rightarrow> nat list option \<times> kv" where
  "cmd_consume k now m = (case kv_get now m k of None \<Rightarrow> (None, m) | Some v \<Rightarrow> (Some v, m(k := None)))"

definition cmd_consume_if_exact :: "nat list \<Rightarrow> nat list \<Rightarrow> int \<Rightarrow> kv \<Rightarrow> nat list option \<times> kv" where
  "cmd_consume_if_exact k expected now m =
     (case kv_get now m k of
        None \<Rightarrow> (None, m)
      | Some v \<Rightarrow> if v = expected then (Some v, m(k := None)) else (None, m))"

text \<open>\<^verbatim>\<open>_INCREMENT_WITH_TTL_SCRIPT\<close>: \<^verbatim>\<open>INCR\<close> keeps the expiry of an existing counter and starts a missing
  one at zero; the expiry is set on the first increment and repaired when it is missing. A value that
  is no decimal integer, or the largest 64-bit integer, is a server error.\<close>

definition counter_of :: "nat list \<Rightarrow> nat option" where
  "counter_of v =
     (if v \<noteq> [] \<and> (\<forall>c \<in> set v. ascii_digit c)
      then Some (foldl (\<lambda>n c. n * 10 + (c - 48)) 0 v) else None)"

definition INT64_MAX :: nat where
  "INT64_MAX = 9223372036854775807"

definition cmd_increment_with_ttl :: "nat list \<Rightarrow> int \<Rightarrow> int \<Rightarrow> kv \<Rightarrow> nat option \<times> kv" where
  "cmd_increment_with_ttl k ttl now m =
     (case kv_get now m k of
        None \<Rightarrow> (Some 1, m(k := Some (nat_digits 1, Some (now + ttl * 1000))))
      | Some v \<Rightarrow>
          (case counter_of v of
             None \<Rightarrow> (None, m)
           | Some n \<Rightarrow>
               if INT64_MAX \<le> n then (None, m)
               else (Some (n + 1),
                     m(k := Some (nat_digits (n + 1),
                        (case kv_expiry now m k of
                           None \<Rightarrow> Some (now + ttl * 1000)
                         | Some t \<Rightarrow> if n + 1 = 1 then Some (now + ttl * 1000) else Some t))))))"

section \<open>The client\<close>

datatype fate = Answered | LostBefore | LostAfter

record redis =
  rd_kv :: kv
  rd_now :: int
  rd_ready :: bool
  rd_fate :: "nat \<Rightarrow> fate"
  rd_issued :: nat

text \<open>\<^verbatim>\<open>_execute\<close>: a command of a client that is not ready is never sent. A script that fails at the
  server (\<open>None\<close>) is an exception of the command.\<close>

definition redis_execute :: "(int \<Rightarrow> kv \<Rightarrow> 'a option \<times> kv) \<Rightarrow> (redis, 'a) act" where
  "redis_execute command w =
     (if \<not> rd_ready w then (Inl RedisUnavailableError, w)
      else
        let w1 = w\<lparr>rd_issued := rd_issued w + 1\<rparr>; (r, m) = command (rd_now w) (rd_kv w) in
        case rd_fate w (rd_issued w) of
          LostBefore \<Rightarrow> (Inl RedisUnavailableError, w1\<lparr>rd_ready := False\<rparr>)
        | LostAfter \<Rightarrow> (Inl RedisUnavailableError, w1\<lparr>rd_ready := False, rd_kv := m\<rparr>)
        | Answered \<Rightarrow>
            (case r of
               None \<Rightarrow> (Inl RedisUnavailableError, w1\<lparr>rd_ready := False, rd_kv := m\<rparr>)
             | Some a \<Rightarrow> (Inr a, w1\<lparr>rd_kv := m\<rparr>)))"

definition answer :: "'a \<times> kv \<Rightarrow> 'a option \<times> kv" where
  "answer r = (Some (fst r), snd r)"

text \<open>\<^verbatim>\<open>start\<close> and \<^verbatim>\<open>ping\<close> send PING whether or not the client is ready.\<close>

definition redis_start :: "(redis, unit) act" where
  "redis_start w =
     (case rd_fate w (rd_issued w) of
        Answered \<Rightarrow> (Inr (), w\<lparr>rd_issued := rd_issued w + 1, rd_ready := True\<rparr>)
      | _ \<Rightarrow> (Inl RedisUnavailableError, w\<lparr>rd_issued := rd_issued w + 1, rd_ready := False\<rparr>))"

definition redis_ping :: "(redis, unit) act" where
  "redis_ping w =
     (case rd_fate w (rd_issued w) of
        Answered \<Rightarrow> (Inr (), w\<lparr>rd_issued := rd_issued w + 1, rd_ready := True\<rparr>)
      | _ \<Rightarrow> (Inl RedisUnavailableError, w\<lparr>rd_issued := rd_issued w + 1, rd_ready := False\<rparr>))"

definition redis_close :: "(redis, unit) act" where
  "redis_close w = (Inr (), w\<lparr>rd_ready := False\<rparr>)"

definition validate_ttl :: "int \<Rightarrow> exn + unit" where
  "validate_ttl ttl = requireE (0 < ttl) (ValueError (lit ''Redis TTL must be a positive integer''))"

definition redis_set_if_absent :: "nat list \<Rightarrow> nat list \<Rightarrow> int \<Rightarrow> (redis, bool) act" where
  "redis_set_if_absent k v ttl =
     bindA (liftA (validate_ttl ttl)) (\<lambda>_. redis_execute (\<lambda>now m. answer (cmd_set_nx k v ttl now m)))"

definition redis_get_raw :: "nat list \<Rightarrow> (redis, nat list option) act" where
  "redis_get_raw k = redis_execute (\<lambda>now m. answer (cmd_get k now m))"

definition redis_consume :: "nat list \<Rightarrow> (redis, nat list option) act" where
  "redis_consume k = redis_execute (\<lambda>now m. answer (cmd_consume k now m))"

definition redis_consume_if_exact :: "nat list \<Rightarrow> nat list \<Rightarrow> (redis, nat list option) act" where
  "redis_consume_if_exact k expected =
     redis_execute (\<lambda>now m. answer (cmd_consume_if_exact k expected now m))"

definition redis_increment_with_ttl :: "nat list \<Rightarrow> int \<Rightarrow> (redis, nat) act" where
  "redis_increment_with_ttl k ttl =
     bindA (liftA (validate_ttl ttl)) (\<lambda>_. redis_execute (cmd_increment_with_ttl k ttl))"

section \<open>The state store as an interface\<close>

text \<open>
  \<^verbatim>\<open>_RedisState\<close>, the protocol of \<^verbatim>\<open>auth_state.py\<close>, with the laws its clients rely on. \<open>view w k\<close> is
  the value of \<open>k\<close> that is visible in \<open>w\<close>. A call that answers did exactly what it says; a call
  that raises may have taken effect, but never stores or changes a value it was not given.
\<close>

record 'w RedisStateOps =
  op_set_if_absent :: "nat list \<Rightarrow> nat list \<Rightarrow> int \<Rightarrow> ('w, bool) act"
  op_get_raw :: "nat list \<Rightarrow> ('w, nat list option) act"
  op_consume :: "nat list \<Rightarrow> ('w, nat list option) act"
  op_consume_if_exact :: "nat list \<Rightarrow> nat list \<Rightarrow> ('w, nat list option) act"

locale state_store =
  fixes S :: "'w RedisStateOps" and view :: "'w \<Rightarrow> nat list \<Rightarrow> nat list option"
  assumes set_ok: "0 < ttl \<Longrightarrow> op_set_if_absent S k v ttl w = (Inr b, w') \<Longrightarrow>
      b = (view w k = None) \<and> view w' = (if b then (view w)(k := Some v) else view w)"
    and get_ok: "op_get_raw S k w = (Inr r, w') \<Longrightarrow> r = view w k \<and> view w' = view w"
    and consume_ok: "op_consume S k w = (Inr r, w') \<Longrightarrow> r = view w k \<and> view w' = (view w)(k := None)"
    and exact_ok: "op_consume_if_exact S k v w = (Inr r, w') \<Longrightarrow>
      (if view w k = Some v then r = Some v \<and> view w' = (view w)(k := None) else r = None \<and> view w' = view w)"
    and set_fails: "op_set_if_absent S k v ttl w = (Inl e, w') \<Longrightarrow>
      view w' = view w \<or> view w k = None \<and> view w' = (view w)(k := Some v)"
    and get_fails: "op_get_raw S k w = (Inl e, w') \<Longrightarrow> view w' = view w"
    and consume_fails: "op_consume S k w = (Inl e, w') \<Longrightarrow> view w' = view w \<or> view w' = (view w)(k := None)"
    and exact_fails: "op_consume_if_exact S k v w = (Inl e, w') \<Longrightarrow>
      view w' = view w \<or> view w' = (view w)(k := None)"
begin

text \<open>A consumed value is gone: a second consumption answers nothing.\<close>

lemma consume_once:
  assumes "op_consume S k w = (Inr (Some v), w1)" "op_consume S k w1 = (Inr r, w2)"
  shows "r = None"
  using consume_ok [OF assms(1)] consume_ok [OF assms(2)] by simp

lemma exact_once:
  assumes "op_consume_if_exact S k v w = (Inr (Some v), w1)" "op_consume_if_exact S k v' w1 = (Inr r, w2)"
  shows "r = None"
  using exact_ok [OF assms(1)] exact_ok [OF assms(2)] by (auto split: if_splits)

lemma consume_view:
  "op_consume S k w = (r, w') \<Longrightarrow> view w' = view w \<or> view w' = (view w)(k := None)"
  using consume_ok [of k w] consume_fails [of k w] by (cases r) simp_all

lemma exact_view:
  "op_consume_if_exact S k v w = (r, w') \<Longrightarrow> view w' = view w \<or> view w' = (view w)(k := None)"
proof (cases r)
  case (Inr a)
  assume "op_consume_if_exact S k v w = (r, w')"
  with Inr exact_ok [of k v w a w'] show ?thesis by (simp split: if_splits)
qed (use exact_fails [of k v w] in simp)

lemma get_view: "op_get_raw S k w = (r, w') \<Longrightarrow> view w' = view w"
  using get_ok [of k w] get_fails [of k w] by (cases r) simp_all

lemma set_view:
  "0 < ttl \<Longrightarrow> op_set_if_absent S k v ttl w = (r, w') \<Longrightarrow>
   view w' = view w \<or> view w k = None \<and> view w' = (view w)(k := Some v)"
proof (cases r)
  case (Inr b)
  assume "0 < ttl" "op_set_if_absent S k v ttl w = (r, w')"
  with Inr set_ok [of ttl k v w b w'] show ?thesis by (simp split: if_splits)
qed (use set_fails [of k v ttl w] in simp)

text \<open>No call of the protocol brings a consumed value back, except a store of that key.\<close>

lemma gone_stays:
  assumes "view w k = None"
  shows "op_get_raw S j w = (r1, w1) \<Longrightarrow> view w1 k = None"
    and "op_consume S j w = (r2, w2) \<Longrightarrow> view w2 k = None"
    and "op_consume_if_exact S j v w = (r2, w2) \<Longrightarrow> view w2 k = None"
    and "j \<noteq> k \<Longrightarrow> 0 < ttl \<Longrightarrow> op_set_if_absent S j v ttl w = (r3, w3) \<Longrightarrow> view w3 k = None"
proof -
  show "op_get_raw S j w = (r1, w1) \<Longrightarrow> view w1 k = None"
    using assms get_view [of j w r1 w1] by simp
  show "op_consume S j w = (r2, w2) \<Longrightarrow> view w2 k = None"
    using assms consume_view [of j w r2 w2] by auto
  show "op_consume_if_exact S j v w = (r2, w2) \<Longrightarrow> view w2 k = None"
    using assms exact_view [of j v w r2 w2] by auto
  show "j \<noteq> k \<Longrightarrow> 0 < ttl \<Longrightarrow> op_set_if_absent S j v ttl w = (r3, w3) \<Longrightarrow> view w3 k = None"
    using assms set_view [of ttl j v w r3 w3] by auto
qed

end

section \<open>Redis implements the interface\<close>

definition redis_ops :: "redis RedisStateOps" where
  "redis_ops = \<lparr>op_set_if_absent = redis_set_if_absent, op_get_raw = redis_get_raw,
     op_consume = redis_consume, op_consume_if_exact = redis_consume_if_exact\<rparr>"

definition redis_view :: "redis \<Rightarrow> nat list \<Rightarrow> nat list option" where
  "redis_view w = kv_get (rd_now w) (rd_kv w)"

lemma kv_get_upd [simp]:
  "kv_get now (m(k := None)) = (kv_get now m)(k := None)"
  "now < t \<Longrightarrow> kv_get now (m(k := Some (v, Some t))) = (kv_get now m)(k := Some v)"
  by (auto simp: kv_get_def fun_eq_iff)

lemma redis_execute_Inr:
  "redis_execute c w = (Inr a, w') \<Longrightarrow> rd_ready w \<and> rd_now w' = rd_now w \<and> rd_ready w'
     \<and> fst (c (rd_now w) (rd_kv w)) = Some a \<and> rd_kv w' = snd (c (rd_now w) (rd_kv w))"
  by (auto simp: redis_execute_def Let_def split: if_splits prod.splits fate.splits option.splits)

lemma redis_execute_Inl:
  "redis_execute c w = (Inl e, w') \<Longrightarrow> e = RedisUnavailableError \<and> \<not> rd_ready w' \<and> rd_now w' = rd_now w
     \<and> (rd_kv w' = rd_kv w \<or> rd_kv w' = snd (c (rd_now w) (rd_kv w)))"
  by (auto simp: redis_execute_def Let_def split: if_splits prod.splits fate.splits option.splits)

interpretation redis_store: state_store redis_ops redis_view
proof unfold_locales
  fix ttl :: int and k v w b w' r e
  show "b = (redis_view w k = None) \<and> redis_view w' = (if b then (redis_view w)(k := Some v) else redis_view w)"
    if "0 < ttl" "op_set_if_absent redis_ops k v ttl w = (Inr b, w')"
    using that by (auto simp: redis_ops_def redis_set_if_absent_def seq_simps validate_ttl_def redis_view_def
        answer_def cmd_set_nx_def split: if_splits dest!: redis_execute_Inr)
  show "r = redis_view w k \<and> redis_view w' = redis_view w"
    if "op_get_raw redis_ops k w = (Inr r, w')"
    using that by (auto simp: redis_ops_def redis_get_raw_def redis_view_def answer_def cmd_get_def
        dest!: redis_execute_Inr)
  show "r = redis_view w k \<and> redis_view w' = (redis_view w)(k := None)"
    if "op_consume redis_ops k w = (Inr r, w')"
    using that by (auto simp: redis_ops_def redis_consume_def redis_view_def answer_def cmd_consume_def fun_upd_idem
        split: option.splits dest!: redis_execute_Inr)
  show "if redis_view w k = Some v then r = Some v \<and> redis_view w' = (redis_view w)(k := None)
      else r = None \<and> redis_view w' = redis_view w"
    if "op_consume_if_exact redis_ops k v w = (Inr r, w')"
    using that by (auto simp: redis_ops_def redis_consume_if_exact_def redis_view_def answer_def
        cmd_consume_if_exact_def split: option.splits if_splits dest!: redis_execute_Inr)
  show "redis_view w' = redis_view w \<or> redis_view w k = None \<and> redis_view w' = (redis_view w)(k := Some v)"
    if "op_set_if_absent redis_ops k v ttl w = (Inl e, w')"
    using that by (auto simp: redis_ops_def redis_set_if_absent_def seq_simps validate_ttl_def redis_view_def
        answer_def cmd_set_nx_def requireE_def split: if_splits dest!: redis_execute_Inl)
  show "redis_view w' = redis_view w" if "op_get_raw redis_ops k w = (Inl e, w')"
    using that by (auto simp: redis_ops_def redis_get_raw_def redis_view_def answer_def cmd_get_def
        dest!: redis_execute_Inl)
  show "redis_view w' = redis_view w \<or> redis_view w' = (redis_view w)(k := None)"
    if "op_consume redis_ops k w = (Inl e, w')"
    using that by (auto simp: redis_ops_def redis_consume_def redis_view_def answer_def cmd_consume_def fun_upd_idem
        split: option.splits dest!: redis_execute_Inl)
  show "redis_view w' = redis_view w \<or> redis_view w' = (redis_view w)(k := None)"
    if "op_consume_if_exact redis_ops k v w = (Inl e, w')"
    using that by (auto simp: redis_ops_def redis_consume_if_exact_def redis_view_def answer_def
        cmd_consume_if_exact_def split: option.splits if_splits dest!: redis_execute_Inl)
qed

end
