(* ===== verification/Py_Url.thy ===== *)
theory Py_Url
  imports Py_Value
begin

text \<open>
  \<^verbatim>\<open>urllib.parse\<close> as the service uses it: \<^verbatim>\<open>urlsplit\<close> with its stripping, scheme, authority,
  bracket and NFKC checks, the \<^verbatim>\<open>hostname\<close> and \<^verbatim>\<open>port\<close> properties, \<^verbatim>\<open>urlunsplit\<close> and
  \<^verbatim>\<open>quote_plus\<close>. Three tables of the standard library are arguments,
  gathered in \<open>url_env\<close>: NFKC normalisation, lower-casing beyond ASCII, and whether a text is an
  IPv6 address. \<open>None\<close> is a \<^verbatim>\<open>ValueError\<close>.
\<close>

section \<open>Splitting\<close>

record url_env =
  ue_nfkc :: "pystr \<Rightarrow> pystr"
  ue_lower :: "pystr \<Rightarrow> pystr"
  ue_ipv6 :: "pystr \<Rightarrow> bool"

record SplitResult =
  url_scheme :: pystr
  url_netloc :: pystr
  url_path :: pystr
  url_query :: pystr
  url_fragment :: pystr

text \<open>\<^verbatim>\<open>str.rpartition(sep)[2]\<close>: what follows the last separator, or everything.\<close>

definition after_last :: "nat \<Rightarrow> pystr \<Rightarrow> pystr" where
  "after_last sep s = last (py_split_on sep s)"

definition scheme_char :: "nat \<Rightarrow> bool" where
  "scheme_char c \<longleftrightarrow> ascii_alpha c \<or> ascii_digit c \<or> c = 43 \<or> c = 45 \<or> c = 46"

definition strip_unsafe :: "pystr \<Rightarrow> pystr" where
  "strip_unsafe s = filter (\<lambda>c. c \<noteq> 9 \<and> c \<noteq> 10 \<and> c \<noteq> 13) (dropWhile (\<lambda>c. c \<le> 32) s)"

definition split_scheme :: "pystr \<Rightarrow> pystr \<times> pystr" where
  "split_scheme s =
     (case py_partition 58 s of
        (h, found, t) \<Rightarrow>
          if found \<and> h \<noteq> [] \<and> ascii_alpha (hd h) \<and> (\<forall>c \<in> set h. scheme_char c)
          then (map ascii_lower_char h, t) else ([], s))"

definition netloc_end :: "nat \<Rightarrow> bool" where
  "netloc_end c \<longleftrightarrow> c = 47 \<or> c = 63 \<or> c = 35"

definition split_netloc :: "pystr \<Rightarrow> pystr \<times> pystr" where
  "split_netloc s =
     (if is_prefix [47, 47] s
      then (takeWhile (\<lambda>c. \<not> netloc_end c) (drop 2 s), dropWhile (\<lambda>c. \<not> netloc_end c) (drop 2 s))
      else ([], s))"

text \<open>\<^verbatim>\<open>_hostinfo\<close>: the host and the port text of an authority; an empty port is no port.\<close>

definition host_and_port :: "pystr \<Rightarrow> pystr \<times> pystr" where
  "host_and_port netloc =
     (let hostinfo = after_last 64 netloc in
      case py_partition 91 hostinfo of
        (_, have_open, bracketed) \<Rightarrow>
          if have_open
          then (case py_partition 93 bracketed of
                  (h, _, rest) \<Rightarrow> (h, snd (snd (py_partition 58 rest))))
          else (case py_partition 58 hostinfo of (h, _, p) \<Rightarrow> (h, p)))"

definition hex_digit :: "nat \<Rightarrow> bool" where
  "hex_digit c \<longleftrightarrow> ascii_digit c \<or> (97 \<le> c \<and> c \<le> 102) \<or> (65 \<le> c \<and> c \<le> 70)"

text \<open>\<^verbatim>\<open>_check_bracketed_netloc\<close>: an IPvFuture literal or an IPv6 address, nothing around it but a port.\<close>

definition ipvfuture :: "pystr \<Rightarrow> bool" where
  "ipvfuture h =
     (case py_partition 46 (tl h) of
        (hex, found, rest) \<Rightarrow> found \<and> hex \<noteq> [] \<and> (\<forall>c \<in> set hex. hex_digit c)
          \<and> rest \<noteq> [] \<and> 10 \<notin> set rest)"

definition bracketed_ok :: "url_env \<Rightarrow> pystr \<Rightarrow> bool" where
  "bracketed_ok E netloc =
     (let hostinfo = after_last 64 netloc in
      case py_partition 91 hostinfo of
        (before, have_open, bracketed) \<Rightarrow>
          if have_open
          then (case py_partition 93 bracketed of
                  (h, _, port) \<Rightarrow> before = [] \<and> (port = [] \<or> hd port = 58)
                    \<and> (if h \<noteq> [] \<and> hd h = 118 then ipvfuture h else ue_ipv6 E h))
          else (case py_partition 58 hostinfo of
                  (h, _, _) \<Rightarrow> (if h \<noteq> [] \<and> hd h = 118 then ipvfuture h else ue_ipv6 E h)))"

definition netloc_ok :: "url_env \<Rightarrow> pystr \<Rightarrow> bool" where
  "netloc_ok E netloc \<longleftrightarrow>
     (let n = filter (\<lambda>c. c \<noteq> 64 \<and> c \<noteq> 58 \<and> c \<noteq> 35 \<and> c \<noteq> 63) netloc; n2 = ue_nfkc E n in
      netloc = [] \<or> all_ascii netloc \<or> n = n2
        \<or> (\<forall>c \<in> set n2. c \<noteq> 47 \<and> c \<noteq> 63 \<and> c \<noteq> 35 \<and> c \<noteq> 64 \<and> c \<noteq> 58))"

definition urlsplit :: "url_env \<Rightarrow> pystr \<Rightarrow> SplitResult option" where
  "urlsplit E url =
     (case split_scheme (strip_unsafe url) of
        (scheme, rest) \<Rightarrow>
          (case split_netloc rest of
             (netloc, rest2) \<Rightarrow>
               if (91 \<in> set netloc) \<noteq> (93 \<in> set netloc) then None
               else if 91 \<in> set netloc \<and> 93 \<in> set netloc \<and> \<not> bracketed_ok E netloc then None
               else
                 (case py_partition 35 rest2 of
                    (rest3, _, fragment) \<Rightarrow>
                      (case py_partition 63 rest3 of
                         (path, _, query) \<Rightarrow>
                           if netloc_ok E netloc
                           then Some \<lparr>url_scheme = scheme, url_netloc = netloc, url_path = path,
                                      url_query = query, url_fragment = fragment\<rparr>
                           else None))))"

definition url_hostname :: "url_env \<Rightarrow> SplitResult \<Rightarrow> pystr option" where
  "url_hostname E r =
     (let h = fst (host_and_port (url_netloc r)) in
      if h = [] then None
      else (case py_partition 37 h of
              (name, percent, zone) \<Rightarrow>
                Some (py_lower (ue_lower E) name @ (if percent then [37] else []) @ zone)))"

text \<open>\<^verbatim>\<open>port\<close>: \<open>None\<close> is the \<^verbatim>\<open>ValueError\<close>, \<open>Some None\<close> no port.\<close>

definition url_port :: "SplitResult \<Rightarrow> nat option option" where
  "url_port r =
     (let p = snd (host_and_port (url_netloc r)) in
      if p = [] then Some None
      else if \<forall>c \<in> set p. ascii_digit c
      then (let n = foldl (\<lambda>n c. n * 10 + (c - 48)) 0 p in if n \<le> 65535 then Some (Some n) else None)
      else None)"

section \<open>Putting together\<close>

text \<open>\<^verbatim>\<open>urlunsplit\<close> of CPython: an authority or a leading double slash is written after \<^verbatim>\<open>//\<close>; the
  schemes in \<^verbatim>\<open>uses_netloc\<close> that the service meets are those of relying-client redirect addresses.\<close>

definition uses_netloc :: "pystr \<Rightarrow> bool" where
  "uses_netloc s \<longleftrightarrow> s \<in> set (map lit ['''', ''ftp'', ''http'', ''gopher'', ''nntp'', ''telnet'', ''imap'',
     ''wais'', ''file'', ''mms'', ''https'', ''shttp'', ''snews'', ''prospero'', ''rtsp'', ''rtsps'',
     ''rtspu'', ''rsync'', ''svn'', ''svn+ssh'', ''sftp'', ''nfs'', ''git'', ''git+ssh'', ''ws'', ''wss'',
     ''itms-services''])"

definition with_netloc :: "SplitResult \<Rightarrow> pystr" where
  "with_netloc r =
     (let url = url_path r in
      if url_netloc r \<noteq> []
      then [47, 47] @ url_netloc r @ (if url \<noteq> [] \<and> hd url \<noteq> 47 then 47 # url else url)
      else if is_prefix [47, 47] url then [47, 47] @ url
      else if url_scheme r \<noteq> [] \<and> uses_netloc (url_scheme r) \<and> (url = [] \<or> hd url = 47)
      then [47, 47] @ url
      else url)"

definition urlunsplit :: "SplitResult \<Rightarrow> pystr" where
  "urlunsplit r =
     (if url_scheme r \<noteq> [] then url_scheme r @ [58] else []) @ with_netloc r
     @ (if url_query r \<noteq> [] then 63 # url_query r else [])
     @ (if url_fragment r \<noteq> [] then 35 # url_fragment r else [])"

section \<open>Query strings\<close>

definition unreserved_form :: "nat \<Rightarrow> bool" where
  "unreserved_form b \<longleftrightarrow> ascii_alpha b \<or> ascii_digit b \<or> b = 42 \<or> b = 46 \<or> b = 45 \<or> b = 95"

definition upper_hex :: "nat \<Rightarrow> nat" where
  "upper_hex v = (if v < 10 then 48 + v else 55 + v)"

text \<open>\<^verbatim>\<open>quote_plus(bytes, safe="*.-_").replace("~", "%7E")\<close>.\<close>

definition quote_byte :: "nat \<Rightarrow> pystr" where
  "quote_byte b = (if unreserved_form b then [b] else if b = 32 then [43]
     else [37, upper_hex (b div 16), upper_hex (b mod 16)])"

definition quote_component :: "pystr \<Rightarrow> pystr" where
  "quote_component v = concat (map quote_byte (node_utf8_bytes v))"

end
