(* ===== verification/Auth_State.thy ===== *)
theory Auth_State
  imports Redis_State Py_Url Py_Json Domain_OAuth
begin

text \<open>
  \<^verbatim>\<open>infrastructure/auth_state.py\<close>: the one-time OAuth states and authorization handoff codes over the
  state store. \<open>auth_env\<close> gathers what the standard library supplies: SHA-256, the reading of a JSON
  decimal, the integer value of an integral float, and the URL tables. Random draws are a stream, one
  draw per attempt. The lemmas show that a state or a code is redeemed at most once, for the client,
  address and verifier it was bound to, in every interleaving of the store's commands.
\<close>

section \<open>URLs\<close>

record auth_env =
  ae_sha256 :: "nat list \<Rightarrow> nat list"
  ae_float :: "pystr \<Rightarrow> pyfloat"
  ae_float_int :: "pystr \<Rightarrow> int option"
  ae_url :: url_env

definition invalid_url_character :: "nat \<Rightarrow> bool" where
  "invalid_url_character c \<longleftrightarrow> py_isspace c \<or> c \<le> 32 \<or> is_surrogate c"

definition contains_invalid_url_character :: "pystr \<Rightarrow> bool" where
  "contains_invalid_url_character s \<longleftrightarrow> (\<exists>c \<in> set s. invalid_url_character c)"

definition valid_url_hostname :: "pystr option \<Rightarrow> bool" where
  "valid_url_hostname h = (case h of None \<Rightarrow> False
     | Some s \<Rightarrow> s \<noteq> [] \<and> \<not> contains_invalid_url_character s)"

definition strip_edge :: "pystr \<Rightarrow> pystr" where
  "strip_edge s = rev (dropWhile (\<lambda>c. c \<le> 32) (rev (dropWhile (\<lambda>c. c \<le> 32) s)))"

definition HOST_REQUIRED_SCHEMES :: "pystr list" where
  "HOST_REQUIRED_SCHEMES = [lit ''ftp'', lit ''http'', lit ''https'', lit ''ws'', lit ''wss'']"

text \<open>\<^verbatim>\<open>urlsplit\<close> followed by reading \<^verbatim>\<open>port\<close>, both of which may raise \<^verbatim>\<open>ValueError\<close>.\<close>

definition split_with_port :: "url_env \<Rightarrow> pystr \<Rightarrow> SplitResult option" where
  "split_with_port E s = (case urlsplit E s of None \<Rightarrow> None
     | Some r \<Rightarrow> if url_port r = None then None else Some r)"

definition is_absolute_zod_url :: "url_env \<Rightarrow> pystr \<Rightarrow> bool" where
  "is_absolute_zod_url E v =
     (let normalized = strip_edge v in
      case py_partition 58 normalized of
        (head, found, remainder) \<Rightarrow>
          if \<not> (found \<and> head \<noteq> [] \<and> ascii_alpha (hd head) \<and> (\<forall>c \<in> set head. scheme_char c)) then False
          else
            let scheme = map ascii_lower_char head in
            case split_with_port E normalized of
              None \<Rightarrow> False
            | Some parsed \<Rightarrow>
                if scheme = lit ''file'' then
                  (if \<not> is_prefix [47, 47] remainder \<or> remainder = [47, 47, 47]
                   then \<not> contains_invalid_url_character remainder
                   else let authority = takeWhile (\<lambda>c. c \<noteq> 47) (drop 2 remainder) in
                        authority = [] \<or> valid_url_hostname (Some authority))
                else if scheme \<notin> set HOST_REQUIRED_SCHEMES then
                  (if contains_invalid_url_character remainder then False
                   else if \<not> is_prefix [47, 47] remainder \<or> remainder = [47, 47] then True
                   else valid_url_hostname (url_hostname E parsed))
                else if url_hostname E parsed = None then
                  (let repaired_remainder = dropWhile (\<lambda>c. c = 47) remainder in
                   if repaired_remainder = [] then False
                   else (case split_with_port E (scheme @ [58, 47, 47] @ repaired_remainder) of
                           None \<Rightarrow> False
                         | Some repaired \<Rightarrow> valid_url_hostname (url_hostname E repaired)))
                else valid_url_hostname (url_hostname E parsed))"

section \<open>Records\<close>

record StateMetadata =
  sm_client_id :: pystr
  sm_redirect_uri :: pystr
  sm_caller_state :: "pystr option"
  sm_code_challenge :: "pystr option"
  sm_code_challenge_method :: "pystr option"

record AuthHandoffCreateInput =
  hci_client_id :: pystr
  hci_audience :: pystr
  hci_redirect_uri :: pystr
  hci_user_id :: pystr
  hci_login_method :: LoginMethod
  hci_code_challenge :: pystr
  hci_state :: "pystr option"
  hci_provider :: "OAuthProvider option"

record AuthHandoffConsumeInput =
  hco_client_id :: pystr
  hco_redirect_uri :: pystr
  hco_code :: pystr
  hco_code_verifier :: pystr

record StoredAuthHandoffMetadata =
  sah_client_id :: pystr
  sah_audience :: pystr
  sah_redirect_uri :: pystr
  sah_user_id :: pystr
  sah_login_method :: LoginMethod
  sah_code_challenge :: pystr
  sah_state :: "pystr option"
  sah_expires_at_epoch_ms :: int
  sah_provider :: "OAuthProvider option"

definition OAuthStateCreationError :: exn where
  "OAuthStateCreationError = RuntimeError (lit ''Unable to generate a unique OAuth state'')"

definition AuthHandoffCreationError :: exn where
  "AuthHandoffCreationError = RuntimeError (lit ''Unable to generate a unique authorization handoff code'')"

section \<open>Parsing stored records\<close>

definition nonempty_string :: "pyval \<Rightarrow> pystr option" where
  "nonempty_string v = (case v of PStr s \<Rightarrow> if s = [] then None else Some s | _ \<Rightarrow> None)"

text \<open>The outer \<open>None\<close> is \<^verbatim>\<open>_INVALID\<close>.\<close>

definition nullable_nonempty_string :: "pyval \<Rightarrow> pystr option option" where
  "nullable_nonempty_string v = (if v = PNone then Some None
     else (case nonempty_string v of None \<Rightarrow> None | Some s \<Rightarrow> Some (Some s)))"

definition serialize_record :: "pydict \<Rightarrow> nat list" where
  "serialize_record d = json_dumps True (PDict d)"

text \<open>\<^verbatim>\<open>_parse_json_object\<close> catches \<^verbatim>\<open>UnicodeDecodeError\<close> and \<^verbatim>\<open>JSONDecodeError\<close>; the
  \<^verbatim>\<open>ValueError\<close> of an oversized integer is neither.\<close>

definition parse_json_object :: "auth_env \<Rightarrow> nat list \<Rightarrow> exn + pydict option" where
  "parse_json_object E raw =
     (case utf8_decode raw of
        None \<Rightarrow> Inr None
      | Some text \<Rightarrow>
          (case json_loads (ae_float E) text of
             Inl JSONDecodeError \<Rightarrow> Inr None
           | Inl IntTooLarge \<Rightarrow> Inl (ValueError (lit ''Exceeds the limit for integer string conversion''))
           | Inr v \<Rightarrow> Inr (case v of PDict d \<Rightarrow> Some d | _ \<Rightarrow> None)))"

definition oauth_record_keys :: "pystr list" where
  "oauth_record_keys = [lit ''provider'', lit ''clientId'', lit ''redirectUri'', lit ''callerState'',
     lit ''codeChallenge'', lit ''codeChallengeMethod'']"

definition method_of :: "pyval \<Rightarrow> pystr option option" where
  "method_of v = (if v = PStr (lit ''S256'') then Some (Some (lit ''S256''))
     else if v = PNone then Some None else None)"

definition oauth_fields :: "auth_env \<Rightarrow> pydict \<Rightarrow> (OAuthProvider \<times> StateMetadata) option" where
  "oauth_fields E d =
     (case (provider_of (dget d (lit ''provider'')), nonempty_string (dget d (lit ''clientId'')),
            nonempty_string (dget d (lit ''redirectUri'')),
            nullable_nonempty_string (dget d (lit ''callerState'')),
            nullable_nonempty_string (dget d (lit ''codeChallenge'')),
            method_of (dget d (lit ''codeChallengeMethod''))) of
        (Some provider, Some client_id, Some redirect_uri, Some caller_state, Some code_challenge, Some meth) \<Rightarrow>
          if is_absolute_zod_url (ae_url E) redirect_uri
          then Some (provider, \<lparr>sm_client_id = client_id, sm_redirect_uri = redirect_uri,
                 sm_caller_state = caller_state, sm_code_challenge = code_challenge,
                 sm_code_challenge_method = meth\<rparr>)
          else None
      | _ \<Rightarrow> None)"

definition parse_oauth_record :: "auth_env \<Rightarrow> nat list \<Rightarrow> exn + (OAuthProvider \<times> StateMetadata) option" where
  "parse_oauth_record E raw =
     bindE (parse_json_object E raw) (\<lambda>r.
       Inr (case r of None \<Rightarrow> None
            | Some d \<Rightarrow> if keys_are d oauth_record_keys then oauth_fields E d else None))"

text \<open>\<^verbatim>\<open>float(expires).is_integer() and expires > 0\<close>, and \<^verbatim>\<open>int(expires)\<close>: the conversion of an
  integer that rounds beyond the largest double raises \<^verbatim>\<open>OverflowError\<close>.\<close>

definition FLOAT_LIMIT :: int where
  "FLOAT_LIMIT = 2 ^ 1024 - 2 ^ 970"

definition positive_integer :: "auth_env \<Rightarrow> pyval \<Rightarrow> exn + int option" where
  "positive_integer E v =
     (case v of
        PInt i \<Rightarrow> if FLOAT_LIMIT \<le> \<bar>i\<bar> then Inl OverflowError
                  else Inr (if 0 < i then Some i else None)
      | PFloat (FiniteFloat r) \<Rightarrow> Inr (case ae_float_int E r of None \<Rightarrow> None
                                     | Some i \<Rightarrow> if 0 < i then Some i else None)
      | _ \<Rightarrow> Inr None)"

definition has_key :: "pydict \<Rightarrow> pystr \<Rightarrow> bool" where
  "has_key d k \<longleftrightarrow> k \<in> fst ` set d"

definition stored_provider :: "pydict \<Rightarrow> OAuthProvider option option" where
  "stored_provider d =
     (if \<not> has_key d (lit ''provider'') then Some None
      else (case provider_of (dget d (lit ''provider'')) of None \<Rightarrow> None | Some p \<Rightarrow> Some (Some p)))"

definition handoff_fields :: "auth_env \<Rightarrow> pydict \<Rightarrow> int option \<Rightarrow> StoredAuthHandoffMetadata option" where
  "handoff_fields E d expires =
     (case (nonempty_string (dget d (lit ''clientId'')), nonempty_string (dget d (lit ''audience'')),
            nonempty_string (dget d (lit ''redirectUri'')), nonempty_string (dget d (lit ''userId'')),
            login_method_of (dget d (lit ''loginMethod'')),
            nonempty_string (dget d (lit ''codeChallenge'')),
            nullable_nonempty_string (dget d (lit ''state'')), stored_provider d, expires) of
        (Some client_id, Some audience, Some redirect_uri, Some user_id, Some login_method,
         Some code_challenge, Some state, Some provider, Some expires_at) \<Rightarrow>
          if is_absolute_zod_url (ae_url E) redirect_uri
             \<and> dget d (lit ''codeChallengeMethod'') = PStr (lit ''S256'')
          then Some \<lparr>sah_client_id = client_id, sah_audience = audience, sah_redirect_uri = redirect_uri,
                 sah_user_id = user_id, sah_login_method = login_method,
                 sah_code_challenge = code_challenge, sah_state = state,
                 sah_expires_at_epoch_ms = expires_at, sah_provider = provider\<rparr>
          else None
      | _ \<Rightarrow> None)"

definition parse_handoff_record :: "auth_env \<Rightarrow> nat list \<Rightarrow> exn + StoredAuthHandoffMetadata option" where
  "parse_handoff_record E raw =
     bindE (parse_json_object E raw) (\<lambda>r.
       case r of
         None \<Rightarrow> Inr None
       | Some d \<Rightarrow>
           if keys_are d handoff_required_keys \<or> keys_are d (lit ''provider'' # handoff_required_keys)
           then bindE (positive_integer E (dget d (lit ''expiresAtEpochMs'')))
                  (\<lambda>expires. Inr (handoff_fields E d expires))
           else Inr None)"

section \<open>Tokens\<close>

definition random_base64url :: "nat list \<Rightarrow> exn + pystr" where
  "random_base64url raw =
     bindE (requireE (length raw = 32) (ValueError (lit ''random byte source must return exactly 32 bytes'')))
       (\<lambda>_. Inr (base64url raw))"

definition sha256_base64url :: "auth_env \<Rightarrow> pystr \<Rightarrow> pystr" where
  "sha256_base64url E v = base64url (ae_sha256 E (node_utf8_bytes v))"

definition MAX_GENERATION_ATTEMPTS :: nat where
  "MAX_GENERATION_ATTEMPTS = 3"

text \<open>The loop of both \<^verbatim>\<open>create\<close> methods: draw a token, store the record under its key if the key is
  free, give up after \<open>left\<close> attempts.\<close>

fun store_under_fresh_token ::
  "'w RedisStateOps \<Rightarrow> (pystr \<Rightarrow> nat list) \<Rightarrow> nat list \<Rightarrow> int \<Rightarrow> exn \<Rightarrow> (nat \<Rightarrow> nat list) \<Rightarrow> nat \<Rightarrow> ('w, pystr) act" where
  "store_under_fresh_token S key_of serialized ttl giveup rnd 0 = raiseA giveup"
| "store_under_fresh_token S key_of serialized ttl giveup rnd (Suc left) =
     bindA (liftA (random_base64url (rnd 0))) (\<lambda>token.
     bindA (op_set_if_absent S (key_of token) serialized ttl) (\<lambda>stored.
     if stored then retA token
     else store_under_fresh_token S key_of serialized ttl giveup (\<lambda>i. rnd (Suc i)) left))"

section \<open>OAuth states\<close>

definition oauth_dict :: "OAuthProvider \<Rightarrow> StateMetadata \<Rightarrow> pydict" where
  "oauth_dict provider m =
     [(lit ''provider'', PStr (provider_value provider)), (lit ''clientId'', PStr (sm_client_id m)),
      (lit ''redirectUri'', PStr (sm_redirect_uri m)), (lit ''callerState'', opt_str (sm_caller_state m)),
      (lit ''codeChallenge'', opt_str (sm_code_challenge m)),
      (lit ''codeChallengeMethod'', opt_str (sm_code_challenge_method m))]"

definition oauth_state_create ::
  "auth_env \<Rightarrow> 'w RedisStateOps \<Rightarrow> (nat \<Rightarrow> nat list) \<Rightarrow> OAuthProvider \<Rightarrow> StateMetadata \<Rightarrow> ('w, pystr) act" where
  "oauth_state_create E S rnd provider metadata =
     bindA (liftA (parse_oauth_record E (serialize_record (oauth_dict provider metadata)))) (\<lambda>parsed.
     case parsed of
       None \<Rightarrow> raiseA (ValueError (lit ''invalid OAuth state metadata''))
     | Some (p, m) \<Rightarrow>
         store_under_fresh_token S oauth_state_key (serialize_record (oauth_dict p m))
           OAUTH_STATE_TTL_SECONDS OAuthStateCreationError rnd MAX_GENERATION_ATTEMPTS)"

definition oauth_state_consume ::
  "auth_env \<Rightarrow> 'w RedisStateOps \<Rightarrow> OAuthProvider \<Rightarrow> pystr \<Rightarrow> ('w, StateMetadata option) act" where
  "oauth_state_consume E S provider state =
     bindA (op_consume S (oauth_state_key state)) (\<lambda>raw.
     case raw of
       None \<Rightarrow> retA None
     | Some bytes \<Rightarrow>
         bindA (liftA (parse_oauth_record E bytes)) (\<lambda>parsed.
         retA (case parsed of None \<Rightarrow> None
               | Some (p, m) \<Rightarrow> if p \<noteq> provider then None else Some m)))"

section \<open>Authorization handoffs\<close>

definition handoff_dict :: "AuthHandoffCreateInput \<Rightarrow> int \<Rightarrow> pydict" where
  "handoff_dict m now =
     [(lit ''clientId'', PStr (hci_client_id m)), (lit ''audience'', PStr (hci_audience m)),
      (lit ''redirectUri'', PStr (hci_redirect_uri m)), (lit ''userId'', PStr (hci_user_id m))]
     @ (case hci_provider m of None \<Rightarrow> [] | Some p \<Rightarrow> [(lit ''provider'', PStr (provider_value p))])
     @ [(lit ''loginMethod'', PStr (login_method_value (hci_login_method m))),
        (lit ''codeChallenge'', PStr (hci_code_challenge m)),
        (lit ''codeChallengeMethod'', PStr (lit ''S256'')), (lit ''state'', opt_str (hci_state m)),
        (lit ''expiresAtEpochMs'', PInt (now + AUTH_HANDOFF_TTL_SECONDS * 1000))]"

definition handoff_create ::
  "auth_env \<Rightarrow> 'w RedisStateOps \<Rightarrow> (nat \<Rightarrow> nat list) \<Rightarrow> int \<Rightarrow> AuthHandoffCreateInput \<Rightarrow> ('w, pystr) act" where
  "handoff_create E S rnd now metadata =
     (let serialized = serialize_record (handoff_dict metadata now) in
      bindA (liftA (parse_handoff_record E serialized)) (\<lambda>parsed.
      if parsed = None then raiseA (ValueError (lit ''invalid auth handoff metadata''))
      else store_under_fresh_token S (auth_handoff_key (ae_sha256 E)) serialized
             AUTH_HANDOFF_TTL_SECONDS AuthHandoffCreationError rnd MAX_GENERATION_ATTEMPTS))"

text \<open>\<^verbatim>\<open>binding_matches\<close>; encoding a stored challenge that holds a surrogate raises
  \<^verbatim>\<open>UnicodeEncodeError\<close>, a \<^verbatim>\<open>ValueError\<close>, once the first two comparisons succeeded.\<close>

definition binding_matches ::
  "auth_env \<Rightarrow> AuthHandoffConsumeInput \<Rightarrow> StoredAuthHandoffMetadata \<Rightarrow> exn + bool" where
  "binding_matches E i m =
     (if sah_client_id m \<noteq> hco_client_id i \<or> sah_redirect_uri m \<noteq> hco_redirect_uri i then Inr False
      else if \<exists>c \<in> set (sah_code_challenge m). is_surrogate c
      then Inl (ValueError (lit ''surrogates not allowed''))
      else Inr (utf8_bytes (sah_code_challenge m) = utf8_bytes (sha256_base64url E (hco_code_verifier i))))"

text \<open>The two commands of \<^verbatim>\<open>consume\<close> as two phases: reading and judging the record, then taking it.\<close>

datatype handoff_verdict =
    Absent | Purge "nat list" | Mismatch | Redeem "nat list" StoredAuthHandoffMetadata

definition handoff_read ::
  "auth_env \<Rightarrow> 'w RedisStateOps \<Rightarrow> int \<Rightarrow> AuthHandoffConsumeInput \<Rightarrow> ('w, handoff_verdict) act" where
  "handoff_read E S now i =
     bindA (op_get_raw S (auth_handoff_key (ae_sha256 E) (hco_code i))) (\<lambda>raw.
     case raw of
       None \<Rightarrow> retA Absent
     | Some bytes \<Rightarrow>
         bindA (liftA (parse_handoff_record E bytes)) (\<lambda>metadata.
         case metadata of
           None \<Rightarrow> retA (Purge bytes)
         | Some m \<Rightarrow>
             if sah_expires_at_epoch_ms m \<le> now then retA (Purge bytes)
             else bindA (liftA (binding_matches E i m)) (\<lambda>matches.
               retA (if matches then Redeem bytes m else Mismatch))))"

definition handoff_take ::
  "auth_env \<Rightarrow> 'w RedisStateOps \<Rightarrow> AuthHandoffConsumeInput \<Rightarrow> handoff_verdict \<Rightarrow>
   ('w, StoredAuthHandoffMetadata option) act" where
  "handoff_take E S i verdict =
     (let key = auth_handoff_key (ae_sha256 E) (hco_code i) in
      case verdict of
        Absent \<Rightarrow> retA None
      | Mismatch \<Rightarrow> retA None
      | Purge raw \<Rightarrow> bindA (op_consume_if_exact S key raw) (\<lambda>_. retA None)
      | Redeem raw m \<Rightarrow> bindA (op_consume_if_exact S key raw) (\<lambda>consumed.
          retA (if consumed \<noteq> None then Some m else None)))"

definition handoff_consume ::
  "auth_env \<Rightarrow> 'w RedisStateOps \<Rightarrow> int \<Rightarrow> AuthHandoffConsumeInput \<Rightarrow>
   ('w, StoredAuthHandoffMetadata option) act" where
  "handoff_consume E S now i = bindA (handoff_read E S now i) (handoff_take E S i)"

section \<open>What a redemption does to the store\<close>

lemma binding_matches_True:
  "binding_matches E i m = Inr True \<Longrightarrow> sah_client_id m = hco_client_id i
     \<and> sah_redirect_uri m = hco_redirect_uri i
     \<and> utf8_bytes (sah_code_challenge m) = utf8_bytes (sha256_base64url E (hco_code_verifier i))"
  by (auto simp: binding_matches_def split: if_splits)

definition redeemable :: "auth_env \<Rightarrow> int \<Rightarrow> AuthHandoffConsumeInput \<Rightarrow> nat list \<Rightarrow> StoredAuthHandoffMetadata \<Rightarrow> bool" where
  "redeemable E now i raw m \<longleftrightarrow> parse_handoff_record E raw = Inr (Some m)
     \<and> now < sah_expires_at_epoch_ms m \<and> binding_matches E i m = Inr True"

context state_store
begin

lemma handoff_read_view: "handoff_read E S now i w = (r, w') \<Longrightarrow> view w' = view w"
  by (auto simp: handoff_read_def seq_simps split: prod.splits sum.splits option.splits if_splits
      dest: get_view)

lemma handoff_read_redeem:
  assumes "handoff_read E S now i w = (Inr (Redeem raw m), w')"
  shows "view w (auth_handoff_key (ae_sha256 E) (hco_code i)) = Some raw \<and> redeemable E now i raw m"
proof -
  let ?k = "auth_handoff_key (ae_sha256 E) (hco_code i)"
  from assms obtain w1 where g: "op_get_raw S ?k w = (Inr (Some raw), w1)"
    and rest: "redeemable E now i raw m"
    by (auto simp: handoff_read_def seq_simps redeemable_def not_le
        split: prod.splits sum.splits option.splits if_splits)
  with get_ok [OF g] show ?thesis by auto
qed

lemma handoff_take_view:
  "handoff_take E S i v w = (r, w') \<Longrightarrow>
   view w' = view w \<or> view w' = (view w)(auth_handoff_key (ae_sha256 E) (hco_code i) := None)"
  by (auto simp: handoff_take_def seq_simps Let_def split: prod.splits sum.splits handoff_verdict.splits
      dest: exact_view)

lemma handoff_take_Some:
  assumes "handoff_take E S i v w = (Inr (Some m), w')"
  shows "\<exists>raw. v = Redeem raw m
    \<and> view w (auth_handoff_key (ae_sha256 E) (hco_code i)) = Some raw
    \<and> view w' = (view w)(auth_handoff_key (ae_sha256 E) (hco_code i) := None)"
proof -
  let ?k = "auth_handoff_key (ae_sha256 E) (hco_code i)"
  from assms obtain raw v' where v: "v = Redeem raw m"
    and x: "op_consume_if_exact S ?k raw w = (Inr (Some v'), w')"
    by (auto simp: handoff_take_def seq_simps Let_def
        split: prod.splits sum.splits handoff_verdict.splits if_splits option.splits)
  with exact_ok [OF x] show ?thesis by (auto split: if_splits)
qed

lemma handoff_consume_Some:
  assumes "handoff_consume E S now i w = (Inr (Some m), w')"
  shows "\<exists>raw. view w (auth_handoff_key (ae_sha256 E) (hco_code i)) = Some raw
    \<and> redeemable E now i raw m
    \<and> view w' = (view w)(auth_handoff_key (ae_sha256 E) (hco_code i) := None)"
proof -
  from assms obtain v w1 where r: "handoff_read E S now i w = (Inr v, w1)"
    and t: "handoff_take E S i v w1 = (Inr (Some m), w')"
    by (auto simp: handoff_consume_def seq_simps split: prod.splits sum.splits)
  from handoff_take_Some [OF t] obtain raw where raw: "v = Redeem raw m"
    "view w' = (view w1)(auth_handoff_key (ae_sha256 E) (hco_code i) := None)" by blast
  with handoff_read_redeem [of E now i w raw m w1] handoff_read_view [OF r] r show ?thesis by auto
qed

lemma handoff_consume_absent:
  assumes "view w (auth_handoff_key (ae_sha256 E) (hco_code i)) = None"
  shows "fst (handoff_consume E S now i w) = Inr None \<or> (\<exists>e. fst (handoff_consume E S now i w) = Inl e)"
proof (cases "handoff_consume E S now i w")
  case (Pair r w')
  then show ?thesis
    using handoff_consume_Some [of E now i w _ w'] assms by (cases r) (auto, metis not_None_eq option.distinct(1))
qed

lemma oauth_state_consume_Some:
  assumes "oauth_state_consume E S p state w = (Inr (Some m), w')"
  shows "\<exists>raw. view w (oauth_state_key state) = Some raw \<and> parse_oauth_record E raw = Inr (Some (p, m))
    \<and> view w' = (view w)(oauth_state_key state := None)"
proof -
  from assms obtain raw where c: "op_consume S (oauth_state_key state) w = (Inr (Some raw), w')"
    and m: "parse_oauth_record E raw = Inr (Some (p, m))"
    by (auto simp: oauth_state_consume_def seq_simps split: prod.splits sum.splits option.splits if_splits)
  with consume_ok [OF c] show ?thesis by (metis (no_types))
qed

lemma oauth_state_consume_view:
  "oauth_state_consume E S p state w = (r, w') \<Longrightarrow>
   view w' = view w \<or> view w' = (view w)(oauth_state_key state := None)"
  by (auto simp: oauth_state_consume_def seq_simps split: prod.splits sum.splits option.splits
      dest: consume_view)

text \<open>A token that was returned had a free key, which now holds the record.\<close>

lemma fresh_token_stored:
  assumes "store_under_fresh_token S key_of serialized ttl giveup rnd left w = (Inr token, w')" "0 < ttl"
  shows "view w (key_of token) = None \<and> view w' = (view w)(key_of token := Some serialized)
    \<and> (\<exists>i. token = base64url (rnd i))"
  using assms(1)
proof (induction left arbitrary: rnd w)
  case (Suc left)
  let ?t = "base64url (rnd 0)"
  from Suc.prems obtain b w1 where
    s: "op_set_if_absent S (key_of ?t) serialized ttl w = (Inr b, w1)"
    and r: "(if b then retA ?t
       else store_under_fresh_token S key_of serialized ttl giveup (\<lambda>i. rnd (Suc i)) left) w1 = (Inr token, w')"
    by (auto simp: seq_simps random_base64url_def bindE_def requireE_def
        split: prod.splits sum.splits if_splits)
  from set_ok [OF assms(2) s] have b: "b = (view w (key_of ?t) = None)"
    "view w1 = (if b then (view w)(key_of ?t := Some serialized) else view w)" by auto
  show ?case
  proof (cases b)
    case True
    with r b show ?thesis by (auto simp: seq_simps)
  next
    case False
    with r have "store_under_fresh_token S key_of serialized ttl giveup (\<lambda>i. rnd (Suc i)) left w1 = (Inr token, w')"
      by simp
    from Suc.IH [OF this] b(2) False show ?thesis by auto
  qed
qed (simp add: seq_simps)

end

end
