(* ===== verification/Handoff_Redemption.thy ===== *)
theory Handoff_Redemption
  imports Auth_State
begin

text \<open>
  What the one-time states and codes of \<^verbatim>\<open>infrastructure/auth_state.py\<close> guarantee. The redemption of a
  handoff code is two commands, so concurrent redemptions interleave; \<open>redeem_step\<close> lets any number of
  processes and other clients of the store take their commands in any order, with commands that are
  lost before or after the server ran them.
\<close>

section \<open>Concurrent redemptions of one code\<close>

datatype redemption =
    Waiting | Judged handoff_verdict | Finished "exn + StoredAuthHandoffMetadata option"

definition redeemed :: "redemption \<Rightarrow> bool" where
  "redeemed p = (case p of Finished (Inr (Some m)) \<Rightarrow> True | _ \<Rightarrow> False)"

text \<open>\<open>env\<close> is what other clients and the clock may do to the store.\<close>

inductive redeem_step ::
  "auth_env \<Rightarrow> 'w RedisStateOps \<Rightarrow> ('w \<Rightarrow> 'w \<Rightarrow> bool) \<Rightarrow> (nat \<Rightarrow> AuthHandoffConsumeInput) \<Rightarrow>
   redemption list \<times> 'w \<Rightarrow> redemption list \<times> 'w \<Rightarrow> bool"
  for E S env inputs where
  read_done: "n < length ps \<Longrightarrow> ps ! n = Waiting \<Longrightarrow> handoff_read E S now (inputs n) w = (Inr v, w') \<Longrightarrow>
    redeem_step E S env inputs (ps, w) (ps[n := Judged v], w')"
| read_failed: "n < length ps \<Longrightarrow> ps ! n = Waiting \<Longrightarrow> handoff_read E S now (inputs n) w = (Inl e, w') \<Longrightarrow>
    redeem_step E S env inputs (ps, w) (ps[n := Finished (Inl e)], w')"
| take: "n < length ps \<Longrightarrow> ps ! n = Judged v \<Longrightarrow> handoff_take E S (inputs n) v w = (r, w') \<Longrightarrow>
    redeem_step E S env inputs (ps, w) (ps[n := Finished r], w')"
| others: "env w w' \<Longrightarrow> redeem_step E S env inputs (ps, w) (ps, w')"

inductive_cases redeem_stepE: "redeem_step E S env inputs c c'"

definition redeem_run ::
  "auth_env \<Rightarrow> 'w RedisStateOps \<Rightarrow> ('w \<Rightarrow> 'w \<Rightarrow> bool) \<Rightarrow> (nat \<Rightarrow> AuthHandoffConsumeInput) \<Rightarrow>
   redemption list \<times> 'w \<Rightarrow> redemption list \<times> 'w \<Rightarrow> bool" where
  "redeem_run E S env inputs = (redeem_step E S env inputs)\<^sup>*\<^sup>*"

lemma filter_update_same:
  "n < length ps \<Longrightarrow> q (ps ! n) = q x \<Longrightarrow> length (filter q (ps[n := x])) = length (filter q ps)"
proof (induction ps arbitrary: n)
  case (Cons p ps)
  then show ?case by (cases n) auto
qed simp

lemma filter_update_new:
  "n < length ps \<Longrightarrow> \<not> q (ps ! n) \<Longrightarrow> q x \<Longrightarrow> length (filter q (ps[n := x])) = Suc (length (filter q ps))"
proof (induction ps arbitrary: n)
  case (Cons p ps)
  then show ?case by (cases n) auto
qed simp

lemma redeemed_simps [simp]:
  "\<not> redeemed Waiting" "\<not> redeemed (Judged v)" "\<not> redeemed (Finished (Inl e))"
  "\<not> redeemed (Finished (Inr None))" "redeemed (Finished (Inr (Some m)))"
  by (simp_all add: redeemed_def)

definition well_judged :: "auth_env \<Rightarrow> (nat \<Rightarrow> AuthHandoffConsumeInput) \<Rightarrow> redemption list \<Rightarrow> bool" where
  "well_judged E inputs ps \<longleftrightarrow> (\<forall>n < length ps. \<forall>m.
     (\<exists>raw. ps ! n = Judged (Redeem raw m)) \<or> ps ! n = Finished (Inr (Some m)) \<longrightarrow>
     binding_matches E (inputs n) m = Inr True)"

lemma well_judged_update:
  "well_judged E inputs ps \<Longrightarrow>
   (\<And>m raw. x = Judged (Redeem raw m) \<or> x = Finished (Inr (Some m)) \<Longrightarrow> binding_matches E (inputs n) m = Inr True) \<Longrightarrow>
   well_judged E inputs (ps[n := x])"
  unfolding well_judged_def length_list_update
proof (intro allI impI)
  fix j m
  assume w: "\<forall>n < length ps. \<forall>m. (\<exists>raw. ps ! n = Judged (Redeem raw m)) \<or> ps ! n = Finished (Inr (Some m)) \<longrightarrow>
       binding_matches E (inputs n) m = Inr True"
    and x: "\<And>m raw. x = Judged (Redeem raw m) \<or> x = Finished (Inr (Some m)) \<Longrightarrow> binding_matches E (inputs n) m = Inr True"
    and j: "j < length ps"
    and r: "(\<exists>raw. ps[n := x] ! j = Judged (Redeem raw m)) \<or> ps[n := x] ! j = Finished (Inr (Some m))"
  show "binding_matches E (inputs j) m = Inr True"
  proof (cases "n = j")
    case True
    with r j x show ?thesis by auto
  next
    case False
    with r j w show ?thesis by auto
  qed
qed

text \<open>The number of successful redemptions, plus one if the code is still stored, never grows.\<close>

definition budget :: "('w \<Rightarrow> nat list \<Rightarrow> nat list option) \<Rightarrow> nat list \<Rightarrow> redemption list \<times> 'w \<Rightarrow> nat" where
  "budget view k c = length (filter redeemed (fst c)) + (if view (snd c) k = None then 0 else 1)"

context state_store
begin

lemma redeem_step_budget:
  assumes "redeem_step E S env inputs c c'"
    and "\<And>n. auth_handoff_key (ae_sha256 E) (hco_code (inputs n)) = k"
    and "\<And>w w'. env w w' \<Longrightarrow> view w k = None \<Longrightarrow> view w' k = None"
  shows "budget view k c' \<le> budget view k c"
  using assms(1)
proof cases
  case (read_done n ps now w v w')
  then show ?thesis
    using handoff_read_view [OF read_done(5)] by (simp add: budget_def filter_update_same)
next
  case (read_failed n ps now w e w')
  then show ?thesis
    using handoff_read_view [OF read_failed(5)] by (simp add: budget_def filter_update_same)
next
  case (take n ps v w r w')
  show ?thesis
  proof (cases "redeemed (Finished r)")
    case True
    then obtain m where "r = Inr (Some m)" by (auto simp: redeemed_def split: sum.splits option.splits)
    with take handoff_take_Some [of E "inputs n" v w m w'] assms(2)
    show ?thesis by (auto simp: budget_def filter_update_new)
  next
    case False
    with take have "length (filter redeemed (ps[n := Finished r])) = length (filter redeemed ps)"
      by (intro filter_update_same) simp_all
    moreover have "view w' k = None" if "view w k = None"
      using handoff_take_view [OF take(5)] that assms(2) by auto
    ultimately show ?thesis using take by (auto simp: budget_def)
  qed
next
  case (others w w' ps)
  then show ?thesis using assms(3) [of w w'] by (auto simp: budget_def)
qed

lemma redeem_step_judged:
  assumes "redeem_step E S env inputs c c'" "well_judged E inputs (fst c)"
  shows "well_judged E inputs (fst c')"
  using assms(1)
proof cases
  case (read_done n ps now w v w')
  with assms(2) handoff_read_redeem [of E now "inputs n" w _ _ w'] show ?thesis
    by (auto simp: redeemable_def intro!: well_judged_update)
next
  case (take n ps v w r w')
  have "binding_matches E (inputs n) m = Inr True" if "r = Inr (Some m)" for m
    using handoff_take_Some [of E "inputs n" v w m w'] take assms(2) that
    by (auto simp: well_judged_def)
  with take assms(2) show ?thesis by (auto intro!: well_judged_update)
qed (use assms(2) in \<open>auto intro!: well_judged_update\<close>)

lemma redeem_run_inv:
  assumes "redeem_run E S env inputs c c'"
    and "\<And>n. auth_handoff_key (ae_sha256 E) (hco_code (inputs n)) = k"
    and "\<And>w w'. env w w' \<Longrightarrow> view w k = None \<Longrightarrow> view w' k = None"
    and "well_judged E inputs (fst c)"
  shows "budget view k c' \<le> budget view k c \<and> well_judged E inputs (fst c')"
  using assms(1) [unfolded redeem_run_def] assms(4)
proof (induction rule: rtranclp_induct)
  case (step c1 c2)
  then show ?case
    using redeem_step_budget [OF step.hyps(2) assms(2,3)] redeem_step_judged [OF step.hyps(2)] by fastforce
qed simp

end

text \<open>C8. A handoff code is redeemed at most once. Any number of processes may redeem the same code
  against Redis, their commands interleaved in any order with those of other clients, any command
  lost before or after the server ran it: as long as no other client stores that code again, at most
  one process returns metadata, and whoever does presented the client and the redirect address of
  the record and a verifier whose SHA-256 is its code challenge.\<close>

theorem handoff_redeemed_once:
  assumes "redeem_run E redis_ops env inputs (replicate n Waiting, w) (ps, w')"
    and "\<And>i. auth_handoff_key (ae_sha256 E) (hco_code (inputs i)) = k"
    and "\<And>w w'. env w w' \<Longrightarrow> redis_view w k = None \<Longrightarrow> redis_view w' k = None"
  shows "length (filter redeemed ps) \<le> 1
    \<and> (\<forall>i < length ps. \<forall>m. ps ! i = Finished (Inr (Some m)) \<longrightarrow>
         sah_client_id m = hco_client_id (inputs i) \<and> sah_redirect_uri m = hco_redirect_uri (inputs i)
         \<and> utf8_bytes (sah_code_challenge m) = utf8_bytes (sha256_base64url E (hco_code_verifier (inputs i))))"
proof -
  have "well_judged E inputs (replicate n Waiting)" by (simp add: well_judged_def)
  with redis_store.redeem_run_inv [OF assms] have
    b: "budget redis_view k (ps, w') \<le> budget redis_view k (replicate n Waiting, w)"
    and j: "well_judged E inputs ps" by simp_all
  have "length (filter redeemed (replicate n Waiting)) = 0" by simp
  with b have "length (filter redeemed ps) \<le> 1"
    by (simp add: budget_def split: if_splits)
  with j show ?thesis by (auto simp: well_judged_def dest!: binding_matches_True)
qed

section \<open>Records that were written are read back\<close>

lemma parse_serialized:
  assumes "json_ok (PDict d)"
  shows "parse_json_object E (serialize_record d) = Inr (Some d)"
  using utf8_decode_ascii [OF dumps_ascii [OF assms]] json_loads_dumps [OF assms, of "ae_float E" True]
  by (simp add: parse_json_object_def serialize_record_def)

definition optional_ok :: "pystr option \<Rightarrow> bool" where
  "optional_ok s = (case s of None \<Rightarrow> True | Some t \<Rightarrow> t \<noteq> [] \<and> str_ok t)"

definition state_metadata_ok :: "auth_env \<Rightarrow> StateMetadata \<Rightarrow> bool" where
  "state_metadata_ok E m \<longleftrightarrow> sm_client_id m \<noteq> [] \<and> str_ok (sm_client_id m)
     \<and> sm_redirect_uri m \<noteq> [] \<and> str_ok (sm_redirect_uri m)
     \<and> is_absolute_zod_url (ae_url E) (sm_redirect_uri m)
     \<and> optional_ok (sm_caller_state m) \<and> optional_ok (sm_code_challenge m)
     \<and> sm_code_challenge_method m \<in> {None, Some (lit ''S256'')}"

lemma str_ok_provider: "str_ok (provider_value p)"
  by (cases p) (simp_all add: provider_value_def str_ok_lit)

lemma str_ok_login_method: "str_ok (login_method_value m)"
  by (cases m) (simp_all add: login_method_value_def str_ok_lit)

lemma json_ok_opt: "optional_ok s \<Longrightarrow> json_ok (opt_str s)"
  by (cases s) (simp_all add: optional_ok_def)

lemma nullable_opt: "optional_ok s \<Longrightarrow> nullable_nonempty_string (opt_str s) = Some s"
  by (cases s) (auto simp: nullable_nonempty_string_def nonempty_string_def optional_ok_def)

lemma nonempty_PStr: "s \<noteq> [] \<Longrightarrow> nonempty_string (PStr s) = Some s"
  by (simp add: nonempty_string_def)

lemma oauth_record_roundtrip:
  assumes "state_metadata_ok E m"
  shows "parse_oauth_record E (serialize_record (oauth_dict p m)) = Inr (Some (p, m))"
proof -
  note ok = assms [unfolded state_metadata_ok_def]
  have method_ok: "json_ok (opt_str (sm_code_challenge_method m))"
    "method_of (opt_str (sm_code_challenge_method m)) = Some (sm_code_challenge_method m)"
    using ok by (auto simp: str_ok_lit method_of_def)
  have "json_ok (PDict (oauth_dict p m))"
    using ok method_ok(1) by (simp add: oauth_dict_def str_ok_lit str_ok_provider json_ok_opt)
  moreover have "keys_are (oauth_dict p m) oauth_record_keys"
    by (simp add: keys_are_def oauth_dict_def oauth_record_keys_def)
  moreover have "oauth_fields E (oauth_dict p m) = Some (p, m)"
    using ok method_ok(2) by (simp add: oauth_fields_def oauth_dict_def nonempty_PStr nullable_opt)
  ultimately show ?thesis by (simp add: parse_oauth_record_def parse_serialized)
qed

definition handoff_input_ok :: "auth_env \<Rightarrow> AuthHandoffCreateInput \<Rightarrow> bool" where
  "handoff_input_ok E m \<longleftrightarrow> hci_client_id m \<noteq> [] \<and> str_ok (hci_client_id m)
     \<and> hci_audience m \<noteq> [] \<and> str_ok (hci_audience m)
     \<and> hci_redirect_uri m \<noteq> [] \<and> str_ok (hci_redirect_uri m)
     \<and> is_absolute_zod_url (ae_url E) (hci_redirect_uri m)
     \<and> hci_user_id m \<noteq> [] \<and> str_ok (hci_user_id m)
     \<and> hci_code_challenge m \<noteq> [] \<and> str_ok (hci_code_challenge m) \<and> optional_ok (hci_state m)"

definition stored_handoff :: "AuthHandoffCreateInput \<Rightarrow> int \<Rightarrow> StoredAuthHandoffMetadata" where
  "stored_handoff m now =
     \<lparr>sah_client_id = hci_client_id m, sah_audience = hci_audience m,
      sah_redirect_uri = hci_redirect_uri m, sah_user_id = hci_user_id m,
      sah_login_method = hci_login_method m, sah_code_challenge = hci_code_challenge m,
      sah_state = hci_state m, sah_expires_at_epoch_ms = now + 120000, sah_provider = hci_provider m\<rparr>"

lemma handoff_expiry:
  assumes "0 \<le> now" "now < 10 ^ 15"
  shows "json_ok (PInt (now + 120000))" "positive_integer E (PInt (now + 120000)) = Inr (Some (now + 120000))"
proof -
  have "nat \<bar>now + 120000\<bar> < 10 ^ Suc 15" using assms by simp
  from length_nat_digits [OF this] show "json_ok (PInt (now + 120000))" by (simp add: MAX_STR_DIGITS_def)
  have "now + 120000 < (2::int) ^ 60" using assms(2) by simp
  also have "(2::int) ^ 60 \<le> 2 ^ 970" by (rule power_increasing) simp_all
  also have "(2::int) ^ 970 \<le> FLOAT_LIMIT"
  proof -
    have "(2::int) ^ 970 + 2 ^ 970 = 2 ^ 971" by (simp add: power_Suc [symmetric] del: power_Suc)
    also have "(2::int) ^ 971 \<le> 2 ^ 1024" by (rule power_increasing) simp_all
    finally show ?thesis by (simp add: FLOAT_LIMIT_def)
  qed
  finally show "positive_integer E (PInt (now + 120000)) = Inr (Some (now + 120000))"
    using assms(1) by (simp add: positive_integer_def)
qed

lemma handoff_record_roundtrip:
  assumes "handoff_input_ok E m" "0 \<le> now" "now < 10 ^ 15"
  shows "parse_handoff_record E (serialize_record (handoff_dict m now)) = Inr (Some (stored_handoff m now))"
proof -
  note ok = assms(1) [unfolded handoff_input_ok_def]
  let ?d = "handoff_dict m now"
  have d: "json_ok (PDict ?d)"
    using ok handoff_expiry(1) [OF assms(2,3)]
    by (cases "hci_provider m") (simp_all add: handoff_dict_def str_ok_lit str_ok_provider
        str_ok_login_method json_ok_opt AUTH_HANDOFF_TTL_SECONDS_def)
  have keys: "keys_are ?d handoff_required_keys \<or> keys_are ?d (lit ''provider'' # handoff_required_keys)"
    by (cases "hci_provider m") (auto simp: keys_are_def handoff_dict_def handoff_required_keys_def)
  have expires: "positive_integer E (dget ?d (lit ''expiresAtEpochMs'')) = Inr (Some (now + 120000))"
    using handoff_expiry(2) [OF assms(2,3), of E]
    by (cases "hci_provider m") (simp_all add: handoff_dict_def AUTH_HANDOFF_TTL_SECONDS_def)
  have "handoff_fields E ?d (Some (now + 120000)) = Some (stored_handoff m now)"
    using ok by (cases "hci_provider m") (simp_all add: handoff_fields_def handoff_dict_def nonempty_PStr
        nullable_opt stored_provider_def has_key_def stored_handoff_def)
  with d keys expires show ?thesis by (simp add: parse_handoff_record_def parse_serialized)
qed

text \<open>A handoff code works once, for the login it was issued for: metadata that meets the contract is
  stored under the returned code with an expiry two minutes later, and the holder of the verifier who
  names the same client and redirect address before that gets back exactly the user, audience, login
  method, provider and state it was created with; a second redemption gets nothing.\<close>

theorem handoff_create_then_redeem:
  assumes "handoff_input_ok E m" "0 \<le> now" "now < 10 ^ 15"
    and challenge: "hci_code_challenge m = sha256_base64url E verifier"
    and create: "handoff_create E redis_ops rnd now m w = (Inr code, w1)"
    and input: "i = \<lparr>hco_client_id = hci_client_id m, hco_redirect_uri = hci_redirect_uri m,
           hco_code = code, hco_code_verifier = verifier\<rparr>"
    and time: "now1 < now + 120000"
    and redeem: "handoff_consume E redis_ops now1 i w1 = (Inr r, w2)"
    and again: "handoff_consume E redis_ops now2 i w2 = (Inr r2, w3)"
  shows "r = Some (stored_handoff m now) \<and> r2 = None"
proof -
  let ?raw = "serialize_record (handoff_dict m now)"
  let ?k = "auth_handoff_key (ae_sha256 E) code"
  note parsed = handoff_record_roundtrip [OF assms(1-3)]
  from create parsed have "store_under_fresh_token redis_ops (auth_handoff_key (ae_sha256 E)) ?raw
      AUTH_HANDOFF_TTL_SECONDS AuthHandoffCreationError rnd MAX_GENERATION_ATTEMPTS w = (Inr code, w1)"
    by (simp add: handoff_create_def Let_def seq_simps)
  from redis_store.fresh_token_stored [OF this] have v1: "redis_view w1 ?k = Some ?raw"
    by (simp add: AUTH_HANDOFF_TTL_SECONDS_def)
  have binding: "binding_matches E i (stored_handoff m now) = Inr True"
    using assms(1) challenge
    by (auto simp: binding_matches_def stored_handoff_def input handoff_input_ok_def str_ok_def)
  from redeem obtain v w1' where rd: "handoff_read E redis_ops now1 i w1 = (Inr v, w1')"
    and tk: "handoff_take E redis_ops i v w1' = (Inr r, w2)"
    by (auto simp: handoff_consume_def seq_simps split: prod.splits sum.splits)
  have view: "redis_view w1' = redis_view w1" by (rule redis_store.handoff_read_view [OF rd])
  obtain bytes wg where g: "op_get_raw redis_ops ?k w1 = (Inr bytes, wg)"
    using rd by (auto simp: handoff_read_def seq_simps input split: prod.splits sum.splits)
  then have "bytes = Some ?raw" using redis_store.get_ok [OF g] v1 by simp
  with rd g parsed binding time have v: "v = Redeem ?raw (stored_handoff m now)"
    by (auto simp: handoff_read_def seq_simps input stored_handoff_def split: if_splits)
  from tk v obtain c where x: "op_consume_if_exact redis_ops ?k ?raw w1' = (Inr c, w2)"
    and r: "r = (if c \<noteq> None then Some (stored_handoff m now) else None)"
    by (auto simp: handoff_take_def seq_simps Let_def input split: prod.splits sum.splits)
  from redis_store.exact_ok [OF x] view v1 have c: "c = Some ?raw" "redis_view w2 ?k = None" by simp_all
  with redis_store.handoff_consume_Some [of E now2 i w2 _ w3] again have "r2 = None"
    by (cases r2) (auto simp: input)
  with r c(1) show ?thesis by simp
qed

text \<open>An OAuth state is accepted once and only from the provider it was created for: the first
  callback that presents it consumes it whatever provider it names, the metadata comes back
  unchanged for the right provider and not at all for another, and a second presentation of the
  state, for any provider, gets nothing.\<close>

theorem oauth_state_one_time:
  assumes "state_metadata_ok E m"
    and create: "oauth_state_create E redis_ops rnd p m w = (Inr state, w1)"
    and consume: "oauth_state_consume E redis_ops p1 state w1 = (Inr r, w2)"
    and again: "oauth_state_consume E redis_ops p2 state w2 = (Inr r2, w3)"
  shows "r = (if p1 = p then Some m else None) \<and> r2 = None"
proof -
  let ?raw = "serialize_record (oauth_dict p m)"
  let ?k = "oauth_state_key state"
  note parsed = oauth_record_roundtrip [OF assms(1), of p]
  from create parsed have "store_under_fresh_token redis_ops oauth_state_key ?raw
      OAUTH_STATE_TTL_SECONDS OAuthStateCreationError rnd MAX_GENERATION_ATTEMPTS w = (Inr state, w1)"
    by (simp add: oauth_state_create_def seq_simps)
  from redis_store.fresh_token_stored [OF this] have v1: "redis_view w1 ?k = Some ?raw"
    by (simp add: OAUTH_STATE_TTL_SECONDS_def)
  from consume obtain c wc where c: "op_consume redis_ops ?k w1 = (Inr c, wc)"
    by (auto simp: oauth_state_consume_def seq_simps split: prod.splits sum.splits)
  from redis_store.consume_ok [OF c] v1 have cs: "c = Some ?raw" "redis_view wc ?k = None" by simp_all
  with consume c parsed have "r = (if p1 = p then Some m else None) \<and> wc = w2"
    by (auto simp: oauth_state_consume_def seq_simps)
  moreover have "r2 = None"
    using redis_store.oauth_state_consume_Some [of E p2 state w2 _ w3] again cs(2) calculation
    by (cases r2) auto
  ultimately show ?thesis by simp
qed

section \<open>A sample redemption\<close>

definition sample_env :: auth_env where
  "sample_env = \<lparr>ae_sha256 = (\<lambda>bs. replicate 32 (sum_list bs mod 256)), ae_float = (\<lambda>s. FiniteFloat s),
     ae_float_int = (\<lambda>_. None), ae_url = \<lparr>ue_nfkc = (\<lambda>s. s), ue_lower = (\<lambda>s. s), ue_ipv6 = (\<lambda>_. False)\<rparr>\<rparr>"

definition sample_redis :: redis where
  "sample_redis = \<lparr>rd_kv = (\<lambda>_. None), rd_now = 0, rd_ready = True, rd_fate = (\<lambda>_. Answered), rd_issued = 0\<rparr>"

definition sample_create_input :: AuthHandoffCreateInput where
  "sample_create_input = \<lparr>hci_client_id = lit ''temis'', hci_audience = lit ''aud'',
     hci_redirect_uri = lit ''https://a.co/cb'', hci_user_id = lit ''u1'', hci_login_method = oauth,
     hci_code_challenge = sha256_base64url sample_env (lit ''verifier''), hci_state = Some (lit ''s''),
     hci_provider = Some kakao\<rparr>"

definition sample_code :: pystr where
  "sample_code = base64url (replicate 32 5)"

definition sample_use :: AuthHandoffConsumeInput where
  "sample_use = \<lparr>hco_client_id = lit ''temis'', hco_redirect_uri = lit ''https://a.co/cb'',
     hco_code = sample_code, hco_code_verifier = lit ''verifier''\<rparr>"

definition sample_raw :: "nat list" where
  "sample_raw = serialize_record (handoff_dict sample_create_input 1000)"

definition sample_key :: "nat list" where
  "sample_key = auth_handoff_key (ae_sha256 sample_env) sample_code"

definition sample_world :: "nat \<Rightarrow> bool \<Rightarrow> redis" where
  "sample_world n stored = sample_redis\<lparr>rd_issued := n,
     rd_kv := (if stored then (\<lambda>_. None)(sample_key := Some (sample_raw, Some 120000)) else (\<lambda>_. None))\<rparr>"

text \<open>A server that answers every command.\<close>

lemma answered_commands:
  assumes "rd_ready w" "rd_fate w = (\<lambda>_. Answered)"
  shows "op_get_raw redis_ops k w = (Inr (redis_view w k), w\<lparr>rd_issued := rd_issued w + 1\<rparr>)"
    "op_consume_if_exact redis_ops k v w =
       (if redis_view w k = Some v
        then (Inr (Some v), w\<lparr>rd_issued := rd_issued w + 1, rd_kv := (rd_kv w)(k := None)\<rparr>)
        else (Inr None, w\<lparr>rd_issued := rd_issued w + 1\<rparr>))"
    "op_consume redis_ops k w =
       (Inr (redis_view w k), w\<lparr>rd_issued := rd_issued w + 1,
          rd_kv := (if redis_view w k = None then rd_kv w else (rd_kv w)(k := None))\<rparr>)"
    "0 < ttl \<Longrightarrow> redis_view w k = None \<Longrightarrow> op_set_if_absent redis_ops k v ttl w =
       (Inr True, w\<lparr>rd_issued := rd_issued w + 1, rd_kv := (rd_kv w)(k := Some (v, Some (rd_now w + ttl * 1000)))\<rparr>)"
  using assms
  by (auto simp: redis_ops_def redis_get_raw_def redis_consume_if_exact_def redis_consume_def
      redis_set_if_absent_def redis_execute_def answer_def cmd_get_def cmd_consume_def
      cmd_consume_if_exact_def cmd_set_nx_def redis_view_def validate_ttl_def seq_simps
      split: option.splits)

lemma sample_world_simps [simp]:
  "rd_ready (sample_world n b)" "rd_fate (sample_world n b) = (\<lambda>_. Answered)"
  "rd_issued (sample_world n b) = n" "rd_now (sample_world n b) = 0"
  "redis_view (sample_world n False) k = None"
  "redis_view (sample_world n True) sample_key = Some sample_raw"
  "(sample_world n b)\<lparr>rd_issued := m\<rparr> = sample_world m b"
  "(sample_world n True)\<lparr>rd_kv := (rd_kv (sample_world m True))(sample_key := None)\<rparr> = sample_world n False"
  by (auto simp: sample_world_def sample_redis_def redis_view_def kv_get_def)

lemma sample_input_ok: "handoff_input_ok sample_env sample_create_input"
  by code_simp

lemma sample_parsed:
  "parse_handoff_record sample_env sample_raw = Inr (Some (stored_handoff sample_create_input 1000))"
  using handoff_record_roundtrip [OF sample_input_ok, of 1000] by (simp add: sample_raw_def)

lemma sample_code_drawn: "random_base64url (replicate 32 5) = Inr sample_code"
  by (simp add: random_base64url_def sample_code_def)

lemma sample_created:
  "handoff_create sample_env redis_ops (\<lambda>_. replicate 32 5) 1000 sample_create_input (sample_world 0 False)
     = (Inr sample_code, sample_world 1 True)"
proof -
  have "op_set_if_absent redis_ops sample_key sample_raw 120 (sample_world 0 False)
      = (Inr True, sample_world 1 True)"
    by (subst answered_commands(4)) (simp_all add: sample_world_def sample_redis_def redis_view_def kv_get_def)
  then show ?thesis
    using sample_parsed
    by (simp add: handoff_create_def Let_def seq_simps sample_raw_def [symmetric] MAX_GENERATION_ATTEMPTS_def
        numeral_3_eq_3 AUTH_HANDOFF_TTL_SECONDS_def sample_code_drawn sample_key_def [symmetric])
qed

lemma sample_binding:
  "binding_matches sample_env sample_use (stored_handoff sample_create_input 1000) = Inr True"
  by code_simp

lemma sample_read:
  "handoff_read sample_env redis_ops 2000 sample_use (sample_world n True)
     = (Inr (Redeem sample_raw (stored_handoff sample_create_input 1000)), sample_world (n + 1) True)"
  using sample_parsed sample_binding
  by (simp add: handoff_read_def seq_simps answered_commands sample_key_def [symmetric]
      sample_use_def stored_handoff_def)

lemma sample_take:
  "handoff_take sample_env redis_ops sample_use (Redeem sample_raw m) (sample_world n True)
     = (Inr (Some m), sample_world (n + 1) False)"
  "handoff_take sample_env redis_ops sample_use (Redeem sample_raw m) (sample_world n False)
     = (Inr None, sample_world (n + 1) False)"
  by (simp_all add: handoff_take_def seq_simps answered_commands sample_key_def [symmetric] sample_use_def)

lemma sample_read_gone:
  "handoff_read sample_env redis_ops 2000 sample_use (sample_world n False) = (Inr Absent, sample_world (n + 1) False)"
  by (simp add: handoff_read_def seq_simps answered_commands)

lemma handoff_create_then_redeem_witness:
  "fst (handoff_consume sample_env redis_ops 2000 sample_use (sample_world 1 True))
     = Inr (Some (stored_handoff sample_create_input 1000))"
proof -
  have i: "sample_use = \<lparr>hco_client_id = hci_client_id sample_create_input,
      hco_redirect_uri = hci_redirect_uri sample_create_input, hco_code = sample_code,
      hco_code_verifier = lit ''verifier''\<rparr>"
    by (simp add: sample_use_def sample_create_input_def)
  have c: "hci_code_challenge sample_create_input = sha256_base64url sample_env (lit ''verifier'')"
    by (simp add: sample_create_input_def)
  have r: "handoff_consume sample_env redis_ops 2000 sample_use (sample_world 1 True)
      = (Inr (Some (stored_handoff sample_create_input 1000)), sample_world 3 False)"
    using sample_take(1) [of "stored_handoff sample_create_input 1000" 2]
    by (simp add: handoff_consume_def seq_simps sample_read eval_nat_numeral)
  have r2: "handoff_consume sample_env redis_ops 2000 sample_use (sample_world 3 False)
      = (Inr None, sample_world 4 False)"
    by (simp add: handoff_consume_def seq_simps sample_read_gone handoff_take_def eval_nat_numeral)
  from handoff_create_then_redeem [OF sample_input_ok _ _ c sample_created i _ r r2] r
  show ?thesis by simp
qed

definition sample_metadata :: StateMetadata where
  "sample_metadata = \<lparr>sm_client_id = lit ''temis'', sm_redirect_uri = lit ''https://a.co/cb'',
     sm_caller_state = None, sm_code_challenge = Some (lit ''c''), sm_code_challenge_method = Some (lit ''S256'')\<rparr>"

lemma oauth_state_one_time_witness:
  "\<exists>w1 w2. oauth_state_create sample_env redis_ops (\<lambda>_. replicate 32 5) kakao sample_metadata (sample_world 0 False)
       = (Inr sample_code, w1)
     \<and> oauth_state_consume sample_env redis_ops google sample_code w1 = (Inr None, w2)"
proof -
  let ?k = "oauth_state_key sample_code"
  let ?raw = "serialize_record (oauth_dict kakao sample_metadata)"
  let ?w1 = "(sample_world 0 False)\<lparr>rd_issued := 1, rd_kv := (\<lambda>_. None)(?k := Some (?raw, Some 600000))\<rparr>"
  let ?w2 = "sample_world 2 False"
  have ok: "state_metadata_ok sample_env sample_metadata" by code_simp
  note parsed = oauth_record_roundtrip [OF ok, of kakao]
  have "op_set_if_absent redis_ops ?k ?raw 600 (sample_world 0 False) = (Inr True, ?w1)"
    by (subst answered_commands(4)) (simp_all add: sample_world_def sample_redis_def redis_view_def kv_get_def)
  then have c: "oauth_state_create sample_env redis_ops (\<lambda>_. replicate 32 5) kakao sample_metadata
      (sample_world 0 False) = (Inr sample_code, ?w1)"
    by (simp add: oauth_state_create_def seq_simps parsed MAX_GENERATION_ATTEMPTS_def numeral_3_eq_3
        OAUTH_STATE_TTL_SECONDS_def sample_code_drawn)
  have "op_consume redis_ops ?k ?w1 = (Inr (Some ?raw), ?w2)"
    by (subst answered_commands(3))
      (simp_all add: sample_world_def sample_redis_def redis_view_def kv_get_def fun_upd_idem)
  then have r: "oauth_state_consume sample_env redis_ops google sample_code ?w1 = (Inr None, ?w2)"
    by (simp add: oauth_state_consume_def seq_simps parsed)
  have r2: "oauth_state_consume sample_env redis_ops kakao sample_code ?w2 = (Inr None, sample_world 3 False)"
    using answered_commands(3) [of ?w2 ?k] by (simp add: oauth_state_consume_def seq_simps)
      (simp add: sample_world_def sample_redis_def)
  from oauth_state_one_time [OF ok c r r2] r c show ?thesis by blast
qed

text \<open>Two processes read the code before either takes it: one of them loses.\<close>

definition sample_race_end :: "redemption list" where
  "sample_race_end = [Finished (Inr (Some (stored_handoff sample_create_input 1000))), Finished (Inr None)]"

lemma sample_race:
  "redeem_run sample_env redis_ops (\<lambda>_ _. False) (\<lambda>_. sample_use) (replicate 2 Waiting, sample_world 1 True)
     (sample_race_end, sample_world 5 False)"
proof -
  let ?step = "redeem_step sample_env redis_ops (\<lambda>_ _. False) (\<lambda>_. sample_use)"
  let ?m = "stored_handoff sample_create_input 1000"
  let ?j = "Judged (Redeem sample_raw ?m)"
  have rd: "handoff_read sample_env redis_ops 2000 sample_use (sample_world 1 True) = (Inr (Redeem sample_raw ?m), sample_world 2 True)"
    "handoff_read sample_env redis_ops 2000 sample_use (sample_world 2 True) = (Inr (Redeem sample_raw ?m), sample_world 3 True)"
    using sample_read [of 1] sample_read [of 2] by (simp_all add: eval_nat_numeral)
  have tk: "handoff_take sample_env redis_ops sample_use (Redeem sample_raw ?m) (sample_world 3 True) = (Inr (Some ?m), sample_world 4 False)"
    "handoff_take sample_env redis_ops sample_use (Redeem sample_raw ?m) (sample_world 4 False) = (Inr None, sample_world 5 False)"
    using sample_take(1) [of ?m 3] sample_take(2) [of ?m 4] by (simp_all add: eval_nat_numeral)
  have s1: "?step ([Waiting, Waiting], sample_world 1 True) ([?j, Waiting], sample_world 2 True)"
    using read_done [where n = 0 and ps = "[Waiting, Waiting]" and inputs = "\<lambda>_. sample_use" and env = "\<lambda>_ _. False", OF _ _ rd(1)] by simp
  have s2: "?step ([?j, Waiting], sample_world 2 True) ([?j, ?j], sample_world 3 True)"
    using read_done [where n = 1 and ps = "[?j, Waiting]" and inputs = "\<lambda>_. sample_use" and env = "\<lambda>_ _. False", OF _ _ rd(2)] by simp
  have s3: "?step ([?j, ?j], sample_world 3 True) ([Finished (Inr (Some ?m)), ?j], sample_world 4 False)"
    using take [where n = 0 and ps = "[?j, ?j]" and inputs = "\<lambda>_. sample_use" and env = "\<lambda>_ _. False", OF _ _ tk(1)] by simp
  have s4: "?step ([Finished (Inr (Some ?m)), ?j], sample_world 4 False) (sample_race_end, sample_world 5 False)"
    using take [where n = 1 and ps = "[Finished (Inr (Some ?m)), ?j]" and inputs = "\<lambda>_. sample_use" and env = "\<lambda>_ _. False", OF _ _ tk(2)]
    by (simp add: sample_race_end_def)
  from s1 s2 s3 s4
  have "(?step)\<^sup>*\<^sup>* ([Waiting, Waiting], sample_world 1 True) (sample_race_end, sample_world 5 False)"
    by (meson converse_rtranclp_into_rtranclp rtranclp.rtrancl_refl)
  then show ?thesis by (simp add: redeem_run_def numeral_2_eq_2)
qed

lemma handoff_redeemed_once_witness: "length (filter redeemed sample_race_end) \<le> 1"
  using handoff_redeemed_once [OF sample_race refl] by simp

end
