(* ===== verification/Service_World.thy ===== *)
theory Service_World
  imports Db_Steps Token_Codec Handoff_Redemption
begin

text \<open>
  The world of the application services: the database, the Redis client, the mail that was sent, and
  three counters into the streams the runtime supplies (the clock, application identifiers, random
  bytes). \<open>runtime\<close> holds those streams and the functions that are not under \<^verbatim>\<open>src/\<close>. A service
  operation that uses the database runs a transaction or a plain read; a callback that draws
  identifiers is given the next block of the identifier stream. A request's operations are sequenced
  in the \<open>act\<close> monad: what was committed before an exception stays committed.
\<close>

record MailLinkMessage =
  ml_verification :: bool
  ml_to :: pystr
  ml_link :: pystr

record world =
  w_db :: db
  w_redis :: redis
  w_mail :: "MailLinkMessage list"
  w_ticks :: nat
  w_ids :: nat
  w_draws :: nat

record runtime =
  rt_env :: auth_env
  rt_lower :: "pystr \<Rightarrow> pystr"
  rt_alnum :: "nat \<Rightarrow> bool"
  rt_db_lower :: "pystr \<Rightarrow> pystr"
  rt_clock :: "nat \<Rightarrow> int"
  rt_uuid :: "nat \<Rightarrow> pystr"
  rt_random :: "nat \<Rightarrow> nat list"
  rt_argon_hash :: "nat \<Rightarrow> pystr \<Rightarrow> pystr"
  rt_argon_verify :: "pystr \<Rightarrow> pystr \<Rightarrow> bool"
  rt_mail_fails :: "nat \<Rightarrow> bool"

definition utc_now_ms :: "runtime \<Rightarrow> (world, int) act" where
  "utc_now_ms R = (\<lambda>w. (Inr (rt_clock R (w_ticks w)), w\<lparr>w_ticks := w_ticks w + 1\<rparr>))"

text \<open>A block of sixteen identifiers, more than any callback draws.\<close>

definition ID_BLOCK :: nat where
  "ID_BLOCK = 16"

definition application_uuids :: "runtime \<Rightarrow> (world, nat \<Rightarrow> pystr) act" where
  "application_uuids R = (\<lambda>w. (Inr (\<lambda>i. rt_uuid R (w_ids w + i)), w\<lparr>w_ids := w_ids w + ID_BLOCK\<rparr>))"

definition random_block :: "runtime \<Rightarrow> (world, nat \<Rightarrow> nat list) act" where
  "random_block R = (\<lambda>w. (Inr (\<lambda>i. rt_random R (w_draws w + i)), w\<lparr>w_draws := w_draws w + ID_BLOCK\<rparr>))"

definition in_transaction :: "(db, 'a) tx \<Rightarrow> (world, 'a) act" where
  "in_transaction work = (\<lambda>w. case run_tx work (w_db w) of (r, d) \<Rightarrow> (r, w\<lparr>w_db := d\<rparr>))"

definition in_redis :: "(redis, 'a) act \<Rightarrow> (world, 'a) act" where
  "in_redis m = (\<lambda>w. case m (w_redis w) of (r, s) \<Rightarrow> (r, w\<lparr>w_redis := s\<rparr>))"

text \<open>The mail service takes the message or raises.\<close>

definition send_mail :: "runtime \<Rightarrow> MailLinkMessage \<Rightarrow> (world, unit) act" where
  "send_mail R m = (\<lambda>w. if rt_mail_fails R (length (w_mail w)) then (Inl MailDeliveryError, w)
     else (Inr (), w\<lparr>w_mail := w_mail w @ [m]\<rparr>))"

section \<open>What operations do to the database\<close>

text \<open>\<open>keepsA I m\<close>: whatever the operation answers, it keeps the predicate on the database.\<close>

definition keepsA :: "(db \<Rightarrow> bool) \<Rightarrow> (world, 'a) act \<Rightarrow> bool" where
  "keepsA I m \<longleftrightarrow> (\<forall>w r w'. I (w_db w) \<and> m w = (r, w') \<longrightarrow> I (w_db w'))"

named_theorems keepsA_intros "composition rules of keepsA"

lemma keepsAI: "(\<And>w r w'. I (w_db w) \<Longrightarrow> m w = (r, w') \<Longrightarrow> I (w_db w')) \<Longrightarrow> keepsA I m"
  by (auto simp: keepsA_def)

lemma keepsAD: "keepsA I m \<Longrightarrow> I (w_db w) \<Longrightarrow> m w = (r, w') \<Longrightarrow> I (w_db w')"
  by (auto simp: keepsA_def)

lemma keepsA_bind [keepsA_intros]:
  assumes "keepsA I m" "\<And>a. keepsA I (f a)"
  shows "keepsA I (bindA m f)"
proof (rule keepsAI)
  fix w r w' assume I: "I (w_db w)" and run: "bindA m f w = (r, w')"
  obtain r1 w1 where m: "m w = (r1, w1)" by (cases "m w")
  from keepsAD [OF assms(1) I m] have I1: "I (w_db w1)" .
  show "I (w_db w')"
  proof (cases r1)
    case (Inl e)
    with run m I1 show ?thesis by (simp add: bindA_def)
  next
    case (Inr a)
    with run m have "f a w1 = (r, w')" by (simp add: bindA_def)
    from keepsAD [OF assms(2) I1 this] show ?thesis .
  qed
qed

lemma keepsA_catch [keepsA_intros]:
  assumes "keepsA I m" "\<And>e. keepsA I (h e)"
  shows "keepsA I (catchA m h)"
proof (rule keepsAI)
  fix w r w' assume I: "I (w_db w)" and run: "catchA m h w = (r, w')"
  obtain r1 w1 where m: "m w = (r1, w1)" by (cases "m w")
  from keepsAD [OF assms(1) I m] have I1: "I (w_db w1)" .
  show "I (w_db w')"
  proof (cases r1)
    case (Inl e)
    with run m have "h e w1 = (r, w')" by (simp add: catchA_def)
    from keepsAD [OF assms(2) I1 this] show ?thesis .
  next
    case (Inr a)
    with run m I1 show ?thesis by (simp add: catchA_def)
  qed
qed

lemma keepsA_simple [keepsA_intros]:
  "keepsA I (retA a)" "keepsA I (raiseA e)" "keepsA I (liftA r)" "keepsA I (readA g)"
  "keepsA I (utc_now_ms R)" "keepsA I (application_uuids R)" "keepsA I (random_block R)"
  "keepsA I (in_redis m)" "keepsA I (send_mail R msg)"
  by (auto simp: keepsA_def seq_simps utc_now_ms_def application_uuids_def random_block_def
      in_redis_def send_mail_def split: prod.splits)

lemma keepsA_onError [keepsA_intros]:
  "keepsA I m \<Longrightarrow> (\<And>e. keepsA I (h e)) \<Longrightarrow> keepsA I (onErrorA m h)"
  unfolding onErrorA_def by (intro keepsA_intros)

lemma keepsA_if [keepsA_intros]:
  "(b \<Longrightarrow> keepsA I m) \<Longrightarrow> (\<not> b \<Longrightarrow> keepsA I n) \<Longrightarrow> keepsA I (if b then m else n)"
  by simp

lemma keepsA_case_option [keepsA_intros]:
  "keepsA I m \<Longrightarrow> (\<And>x. keepsA I (f x)) \<Longrightarrow> keepsA I (case_option m f r)"
  by (cases r) auto

lemma keepsA_case_prod [keepsA_intros]: "(\<And>x y. keepsA I (f x y)) \<Longrightarrow> keepsA I (case_prod f p)"
  by (cases p) auto

text \<open>A transaction is work in the sense of \<open>transactional_work\<close>.\<close>

lemma keepsA_transaction [keepsA_intros]:
  assumes "keepsT I work"
  shows "keepsA I (in_transaction work)"
proof (rule keepsAI)
  fix w r w' assume "I (w_db w)" "in_transaction work w = (r, w')"
  then show "I (w_db w')"
    using keepsTD [OF assms] by (auto simp: in_transaction_def run_tx_def split: prod.splits sum.splits)
qed

section \<open>Evaluation\<close>

lemma in_transaction_simps [seq_simps]:
  "in_transaction work w = (case work (w_db w) of Inl e \<Rightarrow> (Inl e, w) | Inr (a, d) \<Rightarrow> (Inr a, w\<lparr>w_db := d\<rparr>))"
  by (auto simp: in_transaction_def run_tx_def split: sum.splits)

lemma bindA_Inr_iff: "bindA m f w = (Inr b, w2) \<longleftrightarrow> (\<exists>a w1. m w = (Inr a, w1) \<and> f a w1 = (Inr b, w2))"
  by (auto simp: bindA_def split: prod.splits sum.splits)

lemma bindA_Inl_iff: "bindA m f w = (Inl e, w2) \<longleftrightarrow>
    m w = (Inl e, w2) \<or> (\<exists>a w1. m w = (Inr a, w1) \<and> f a w1 = (Inl e, w2))"
  by (auto simp: bindA_def split: prod.splits sum.splits)

lemma in_transaction_Inr: "in_transaction work w = (Inr a, w') \<longleftrightarrow>
    (\<exists>d. work (w_db w) = Inr (a, d) \<and> w' = w\<lparr>w_db := d\<rparr>)"
  by (auto simp: in_transaction_simps split: sum.splits)

lemma in_transaction_Inl: "in_transaction work w = (Inl e, w') \<longleftrightarrow> work (w_db w) = Inl e \<and> w' = w"
  by (auto simp: in_transaction_simps split: sum.splits)

lemma utc_now_ms_Inr: "utc_now_ms R w = (r, w') \<longleftrightarrow>
    r = Inr (rt_clock R (w_ticks w)) \<and> w' = w\<lparr>w_ticks := w_ticks w + 1\<rparr>"
  by (auto simp: utc_now_ms_def)

lemma liftA_Inr: "liftA r w = (Inr a, w') \<longleftrightarrow> r = Inr a \<and> w' = w"
  by (auto simp: liftA_def)

lemma retA_Inr: "retA a w = (r, w') \<longleftrightarrow> r = Inr a \<and> w' = w"
  by (auto simp: retA_def)

lemma raiseA_iff: "raiseA e w = (r, w') \<longleftrightarrow> r = Inl e \<and> w' = w"
  by (auto simp: raiseA_def)

lemma application_uuids_iff: "application_uuids R w = (r, w') \<longleftrightarrow>
    r = Inr (\<lambda>i. rt_uuid R (w_ids w + i)) \<and> w' = w\<lparr>w_ids := w_ids w + ID_BLOCK\<rparr>"
  by (auto simp: application_uuids_def)

lemma random_block_iff: "random_block R w = (r, w') \<longleftrightarrow>
    r = Inr (\<lambda>i. rt_random R (w_draws w + i)) \<and> w' = w\<lparr>w_draws := w_draws w + ID_BLOCK\<rparr>"
  by (auto simp: random_block_def)

lemmas act_iffs = bindA_Inr_iff in_transaction_Inr utc_now_ms_Inr liftA_Inr retA_Inr raiseA_iff
  application_uuids_iff random_block_iff

lemma audit_create_Inr: "audit_create ev d = Inr (u, d') \<longleftrightarrow>
    (\<exists>row. d' = d\<lparr>t_audits := t_audits d @ [row]\<rparr> \<and> \<not> taken audit_keys row (t_audits d) \<and> audit_refs d row
      \<and> row = \<lparr>a_id = aei_id ev, a_userId = aei_user_id ev, a_eventType = aei_event_type ev,
        a_outcome = aei_outcome ev, a_provider = aei_provider ev,
        a_serviceKey = aei_service_key ev, a_ipAddress = aei_ip_address ev,
        a_userAgent = aei_user_agent ev, a_reasonCode = aei_reason_code ev,
        a_createdAt = aei_created_at ev, a_actorUserId = aei_actor_user_id ev,
        a_targetUserId = aei_target_user_id ev, a_detailsJson = details_value (aei_details_json ev)\<rparr>)"
  by (auto simp: audit_create_def inserted_def require_one_def bindT_Inr_iff insert_audit_def checked_Inr)

lemma audit_create_Inl: "audit_create ev d = Inl e \<Longrightarrow> \<exists>s. e = DBAPIError s"
  unfolding audit_create_def inserted_def require_one_def insert_audit_def checked_def bindT_def
  by (auto simp: UNIQUE_VIOLATION_def FOREIGN_KEY_VIOLATION_def retT_def split: if_splits)

section \<open>A sample service world\<close>

text \<open>A clock that stands still, numbered identifiers, a transparent password hash and a mail service that
  never fails. The database holds an administrator \<^verbatim>\<open>a1\<close> beside the user \<^verbatim>\<open>u1\<close> and the session of
  \<^verbatim>\<open>u1\<close>.\<close>

definition sample_runtime :: runtime where
  "sample_runtime = \<lparr>rt_env = sample_env, rt_lower = (\<lambda>s. s), rt_alnum = (\<lambda>_. False), rt_db_lower = (\<lambda>s. s),
     rt_clock = (\<lambda>_. 50), rt_uuid = (\<lambda>i. lit ''id'' @ nat_digits i), rt_random = (\<lambda>_. replicate 32 5),
     rt_argon_hash = (\<lambda>_ p. 104 # p), rt_argon_verify = (\<lambda>h p. h = 104 # p),
     rt_mail_fails = (\<lambda>_. False)\<rparr>"

definition sample_admin_db :: db where
  "sample_admin_db = sample_db\<lparr>
     t_users := [sample_user, sample_user\<lparr>u_id := lit ''a1'', u_email := None\<rparr>],
     t_roles := [\<lparr>o_id = lit ''r1'', o_serviceKey = lit ''temis'', o_name = lit ''admin''\<rparr>],
     t_user_roles := [\<lparr>l_id = lit ''l1'', l_userId = lit ''a1'', l_roleId = lit ''r1''\<rparr>]\<rparr>"

definition sample_services :: "db \<Rightarrow> world" where
  "sample_services d = \<lparr>w_db = d, w_redis = sample_redis, w_mail = [], w_ticks = 0, w_ids = 0, w_draws = 0\<rparr>"

lemmas sample_service_defs = sample_runtime_def sample_admin_db_def sample_services_def

lemma sample_admin_db_ok: "db_ok sample_admin_db"
  by (simp add: db_ok_def keys_ok_def refs_ok_def sample_defs sample_admin_db_def empty_db_def uniq_all_def
      uniq_def key_defs user_exists_def role_exists_def lit_def)

text \<open>A codec whose tokens are the user ids themselves.\<close>

definition transparent_codec :: JwtTokenCodec where
  "transparent_codec = sample_codec\<lparr>tc_decode := (\<lambda>alg opts now t.
     Inr [(lit ''sub'', PStr t), (lit ''type'', PStr (lit ''access''))])\<rparr>"

end
