(* ===== verification/Admin_Service.thy ===== *)
theory Admin_Service
  imports Service_World
begin

text \<open>
  \<^verbatim>\<open>application/admin.py\<close>: \<^verbatim>\<open>Phase6AdminService\<close>. Each mutation and its success audit are one
  transaction; the callback of each transaction is a definition of its own (\<open>..._mutate\<close>). The
  lemmas show who may act, that administrators cannot lock themselves out, that suspension ends every
  session, and that every change leaves its audit row.
\<close>

record SetUserStatusResult =
  sus_status_changed :: bool
  sus_revoked_refresh_token_count :: nat

record AssignRoleResult =
  asr_role_assigned :: bool
  asr_role_id :: pystr

record RemoveRoleResult =
  rmr_role_removed :: bool
  rmr_role_id :: "pystr option"
  rmr_revoked_refresh_token_count :: nat

record RevokeSessionsResult =
  rsr_revoked_count :: nat

section \<open>Authorization\<close>

definition verify_admin_subject_or_401 :: "JwtTokenCodec \<Rightarrow> int \<Rightarrow> pystr \<Rightarrow> exn + pystr" where
  "verify_admin_subject_or_401 C now access_token =
     (case verify_admin_access_subject C now access_token of
        Inr user_id \<Rightarrow> Inr user_id
      | Inl e \<Rightarrow> if e = TokenValidationError
                 then Inl (DomainError 401 (lit ''INVALID_TOKEN'') (lit ''Invalid token'')) else Inl e)"

definition denial_event :: "pystr \<Rightarrow> pystr \<Rightarrow> int \<Rightarrow> pydict \<Rightarrow> AuditEventInsert" where
  "denial_event i user_id created_at details =
     \<lparr>aei_id = i, aei_event_type = lit ''admin_authorization_failure'', aei_outcome = lit ''failure'',
      aei_created_at = created_at, aei_user_id = Some user_id, aei_actor_user_id = Some user_id,
      aei_target_user_id = None, aei_provider = None, aei_service_key = None, aei_ip_address = None,
      aei_user_agent = None, aei_reason_code = Some (lit ''FORBIDDEN''), aei_details_json = Some details\<rparr>"

definition authorize_admin :: "runtime \<Rightarrow> pystr \<Rightarrow> pystr \<Rightarrow> pystr \<Rightarrow> (world, unit) act" where
  "authorize_admin R user_id route meth =
     bindA (liftA (assert_user_id user_id)) (\<lambda>_.
     bindA (in_transaction (is_active_temis_admin user_id)) (\<lambda>authorized.
     if authorized then retA ()
     else
       bindA (application_uuids R) (\<lambda>u.
       bindA (utc_now_ms R) (\<lambda>created_at.
       bindA (liftA (sanitize_audit_details (rt_alnum R)
                [(lit ''route'', PStr route), (lit ''method'', PStr meth)])) (\<lambda>details.
       bindA (in_transaction (audit_create (denial_event (u 0) user_id created_at details))) (\<lambda>_.
       raiseA (forbidden ''Admin role is required'')))))))"

definition authenticate_admin ::
  "runtime \<Rightarrow> JwtTokenCodec \<Rightarrow> pystr \<Rightarrow> pystr \<Rightarrow> pystr \<Rightarrow> (world, pystr) act" where
  "authenticate_admin R C access_token route meth =
     bindA (utc_now_ms R) (\<lambda>now.
     bindA (liftA (verify_admin_subject_or_401 C now access_token)) (\<lambda>user_id.
     if user_id = [] then raiseA (DomainError 401 (lit ''UNAUTHORIZED'') (lit ''Authentication is required''))
     else bindA (authorize_admin R user_id route meth) (\<lambda>_. retA user_id)))"

section \<open>Reading\<close>

definition admin_list_users :: "runtime \<Rightarrow> AdminUserListInput \<Rightarrow> (world, AdminUserPage) act" where
  "admin_list_users R i = in_transaction (list_users (rt_db_lower R) i)"

definition list_audit_logs :: "runtime \<Rightarrow> AuditLogListInput \<Rightarrow> (world, AdminAuditLogPage) act" where
  "list_audit_logs R i = in_transaction (audit_query (rt_alnum R) i)"

definition admin_find_role_by_id :: "pystr \<Rightarrow> (world, AdminRoleProfile option) act" where
  "admin_find_role_by_id role_id =
     (if py_strip role_id = [] then raiseA invalid_request else in_transaction (find_role_by_id role_id))"

section \<open>Mutations\<close>

definition audit_details :: "runtime \<Rightarrow> pydict option \<Rightarrow> exn + pydict option" where
  "audit_details R details = (case details of None \<Rightarrow> Inr None
     | Some d \<Rightarrow> bindE (sanitize_audit_details (rt_alnum R) d) (\<lambda>s. Inr (Some s)))"

definition record_mutation_audit ::
  "pystr \<Rightarrow> string \<Rightarrow> pystr \<Rightarrow> pystr \<Rightarrow> pystr \<Rightarrow> pydict option \<Rightarrow> int \<Rightarrow> (db, unit) tx" where
  "record_mutation_audit i event_type actor target reason details created_at =
     create_admin_audit_log i
       \<lparr>aar_event_type = lit event_type, aar_actor_user_id = Some actor, aar_target_user_id = Some target,
        aar_reason_code = reason, aar_details_json = details, aar_outcome = lit ''success''\<rparr> created_at"

definition now_or_clock :: "runtime \<Rightarrow> int option \<Rightarrow> (world, int) act" where
  "now_or_clock R now = (case now of None \<Rightarrow> utc_now_ms R | Some t \<Rightarrow> retA t)"

definition set_user_status_mutate ::
  "(nat \<Rightarrow> pystr) \<Rightarrow> pystr \<Rightarrow> pystr \<Rightarrow> UserStatus \<Rightarrow> pystr \<Rightarrow> pydict option \<Rightarrow> int \<Rightarrow> (db, SetUserStatusResult) tx" where
  "set_user_status_mutate u actor target status reason details changed_at =
     bindT (update_user_status target status changed_at) (\<lambda>changed.
     bindT (if should_revoke_for_status status
            then revoke_all_refresh_tokens_for_user target changed_at else retT 0) (\<lambda>revoked.
     bindT (if changed
            then record_mutation_audit (u 0) ''admin_user_status_changed'' actor target reason details changed_at
            else retT ()) (\<lambda>_.
     retT \<lparr>sus_status_changed = changed, sus_revoked_refresh_token_count = revoked\<rparr>)))"

definition set_user_status ::
  "runtime \<Rightarrow> pystr \<Rightarrow> pystr \<Rightarrow> pystr \<Rightarrow> pystr \<Rightarrow> pydict option \<Rightarrow> int option \<Rightarrow> (world, SetUserStatusResult) act" where
  "set_user_status R actor target status reason details now =
     bindA (liftA (assert_user_id target)) (\<lambda>_.
     bindA (liftA (parse_user_status status)) (\<lambda>parsed_status.
     bindA (liftA (assert_self_status_change_allowed actor target parsed_status)) (\<lambda>_.
     bindA (now_or_clock R now) (\<lambda>changed_at.
     bindA (liftA (audit_details R details)) (\<lambda>sanitized.
     bindA (application_uuids R) (\<lambda>u.
     in_transaction (set_user_status_mutate u actor target parsed_status reason sanitized changed_at)))))))"

text \<open>Without explicit details the role that was assigned or removed is recorded.\<close>

definition role_details :: "runtime \<Rightarrow> pydict option \<Rightarrow> AdminRoleProfile \<Rightarrow> exn + pydict option" where
  "role_details R details role = audit_details R (Some (case details of Some d \<Rightarrow> d
     | None \<Rightarrow> [(lit ''serviceKey'', PStr (arp_service_key role)), (lit ''roleName'', PStr (arp_name role))]))"

definition assign_role_mutate ::
  "runtime \<Rightarrow> (nat \<Rightarrow> pystr) \<Rightarrow> pystr \<Rightarrow> pystr \<Rightarrow> pystr \<Rightarrow> pystr \<Rightarrow> pystr \<Rightarrow> pydict option \<Rightarrow> int \<Rightarrow>
   (db, AssignRoleResult) tx" where
  "assign_role_mutate R u actor target service_key name reason details created_at =
     bindT (upsert_role (u 0) service_key name) (\<lambda>role.
     bindT (assign_role_to_user (u 1) target (arp_id role)) (\<lambda>assigned.
     bindT (if assigned
            then bindT (liftT (role_details R details role)) (\<lambda>sanitized.
                 record_mutation_audit (u 2) ''admin_user_role_assigned'' actor target reason sanitized created_at)
            else retT ()) (\<lambda>_.
     retT \<lparr>asr_role_assigned = assigned, asr_role_id = arp_id role\<rparr>)))"

definition assign_role ::
  "runtime \<Rightarrow> pystr \<Rightarrow> pystr \<Rightarrow> pystr \<Rightarrow> pystr \<Rightarrow> pystr \<Rightarrow> pydict option \<Rightarrow> (world, AssignRoleResult) act" where
  "assign_role R actor target service_key name reason details =
     bindA (liftA (assert_user_id target)) (\<lambda>_.
     bindA (liftA (assert_role_input service_key name)) (\<lambda>_.
     bindA (utc_now_ms R) (\<lambda>created_at.
     bindA (application_uuids R) (\<lambda>u.
     in_transaction (assign_role_mutate R u actor target service_key name reason details created_at)))))"

definition remove_role_mutate ::
  "runtime \<Rightarrow> (nat \<Rightarrow> pystr) \<Rightarrow> pystr \<Rightarrow> pystr \<Rightarrow> pystr \<Rightarrow> pystr \<Rightarrow> pystr \<Rightarrow> pydict option \<Rightarrow> int \<Rightarrow>
   (db, RemoveRoleResult) tx" where
  "remove_role_mutate R u actor target service_key name reason details removed_at =
     bindT (find_role service_key name) (\<lambda>found.
     case found of
       None \<Rightarrow> retT \<lparr>rmr_role_removed = False, rmr_role_id = None, rmr_revoked_refresh_token_count = 0\<rparr>
     | Some role \<Rightarrow>
         bindT (remove_role_from_user target (arp_id role)) (\<lambda>removed.
         bindT (if removed then revoke_all_refresh_tokens_for_user target removed_at else retT 0) (\<lambda>revoked.
         bindT (if removed
                then bindT (liftT (role_details R details role)) (\<lambda>sanitized.
                     record_mutation_audit (u 0) ''admin_user_role_removed'' actor target reason sanitized removed_at)
                else retT ()) (\<lambda>_.
         retT \<lparr>rmr_role_removed = removed, rmr_role_id = Some (arp_id role),
               rmr_revoked_refresh_token_count = revoked\<rparr>))))"

definition remove_role ::
  "runtime \<Rightarrow> pystr \<Rightarrow> pystr \<Rightarrow> pystr \<Rightarrow> pystr \<Rightarrow> pystr \<Rightarrow> pydict option \<Rightarrow> int option \<Rightarrow>
   (world, RemoveRoleResult) act" where
  "remove_role R actor target service_key name reason details now =
     bindA (liftA (assert_user_id target)) (\<lambda>_.
     bindA (liftA (assert_role_input service_key name)) (\<lambda>_.
     bindA (liftA (assert_self_admin_role_removal_allowed actor target
              \<lparr>arp_id = [], arp_service_key = service_key, arp_name = name\<rparr>)) (\<lambda>_.
     bindA (now_or_clock R now) (\<lambda>removed_at.
     bindA (application_uuids R) (\<lambda>u.
     in_transaction (remove_role_mutate R u actor target service_key name reason details removed_at))))))"

definition revoke_sessions_mutate ::
  "(nat \<Rightarrow> pystr) \<Rightarrow> pystr \<Rightarrow> pystr \<Rightarrow> pystr \<Rightarrow> pydict option \<Rightarrow> int \<Rightarrow>
   (db, RevokeSessionsResult) tx" where
  "revoke_sessions_mutate u actor target reason details revoked_at =
     bindT (revoke_all_refresh_tokens_for_user target revoked_at) (\<lambda>revoked.
     bindT (record_mutation_audit (u 0) ''admin_user_sessions_revoked'' actor target reason details revoked_at)
       (\<lambda>_. retT \<lparr>rsr_revoked_count = revoked\<rparr>))"

definition revoke_sessions ::
  "runtime \<Rightarrow> pystr \<Rightarrow> pystr \<Rightarrow> pystr \<Rightarrow> pydict option \<Rightarrow> int option \<Rightarrow>
   (world, RevokeSessionsResult) act" where
  "revoke_sessions R actor target reason details now =
     bindA (liftA (assert_user_id target)) (\<lambda>_.
     bindA (liftA (assert_self_session_revoke_allowed actor target)) (\<lambda>_.
     bindA (now_or_clock R now) (\<lambda>revoked_at.
     bindA (liftA (audit_details R details)) (\<lambda>sanitized.
     bindA (application_uuids R) (\<lambda>u.
     in_transaction (revoke_sessions_mutate u actor target reason sanitized revoked_at))))))"

definition cleanup_audit_logs ::
  "runtime \<Rightarrow> bool \<Rightarrow> int option \<Rightarrow> int \<Rightarrow> (world, AuditRetentionCleanupResult) act" where
  "cleanup_audit_logs R execute now retention_days =
     bindA (now_or_clock R now) (\<lambda>cleanup_at.
     in_transaction (retention_cleanup cleanup_at retention_days execute))"

section \<open>Every operation keeps the constraints\<close>

lemma keeps_record_audit [keeps_intros]: "keepsT db_ok (record_mutation_audit i e a t r d c)"
  by (simp add: record_mutation_audit_def keeps_intros)

lemma keeps_admin_mutate [keeps_intros]:
  "keepsT db_ok (set_user_status_mutate u a t s r d c)"
  "keepsT db_ok (assign_role_mutate R u a t k n r d2 c)"
  "keepsT db_ok (remove_role_mutate R u a t k n r d2 c)"
  "keepsT db_ok (revoke_sessions_mutate u a t r d c)"
  by (simp_all add: set_user_status_mutate_def assign_role_mutate_def remove_role_mutate_def
      revoke_sessions_mutate_def keeps_intros)

lemma keepsA_now_or_clock [keepsA_intros]: "keepsA I (now_or_clock R n)"
  by (simp add: now_or_clock_def keepsA_intros)

lemma keepsA_admin [keepsA_intros]:
  "keepsA db_ok (authorize_admin R i rt m)"
  "keepsA db_ok (set_user_status R a t s r d n)"
  "keepsA db_ok (assign_role R a t k nm r d)"
  "keepsA db_ok (remove_role R a t k nm r d n)"
  "keepsA db_ok (revoke_sessions R a t r d n)"
  "keepsA db_ok (cleanup_audit_logs R ex n days)"
  unfolding authorize_admin_def set_user_status_def assign_role_def remove_role_def
    revoke_sessions_def cleanup_audit_logs_def
  by (intro keepsA_intros keeps_intros)+

section \<open>Who may act\<close>

lemma is_active_temis_admin_run: "is_active_temis_admin i d
    = Inr (is_active_user d i \<and> user_has_role d i (Some (lit ''temis''), lit ''admin''), d)"
  by (simp add: is_active_temis_admin_def seq_simps)

lemma authorize_admin_Inr:
  "authorize_admin R i rt m w = (Inr (), w') \<longleftrightarrow>
     py_strip i \<noteq> [] \<and> is_active_user (w_db w) i
     \<and> user_has_role (w_db w) i (Some (lit ''temis''), lit ''admin'') \<and> w' = w"
  by (auto simp: authorize_admin_def act_iffs assert_user_id_def is_active_temis_admin_run split: if_splits)

lemma authorize_admin_denied:
  assumes "authorize_admin R i rt m w = (r, w')" "r \<noteq> Inr ()"
  shows "\<exists>e. r = Inl e \<and> (w_db w' = w_db w \<or> e = forbidden ''Admin role is required'' \<and>
    (\<exists>row. w_db w' = (w_db w)\<lparr>t_audits := t_audits (w_db w) @ [row]\<rparr> \<and> a_userId row = Some i
       \<and> a_eventType row = lit ''admin_authorization_failure'' \<and> a_outcome row = lit ''failure''
       \<and> a_reasonCode row = Some (lit ''FORBIDDEN'')))"
proof (cases r)
  case (Inr u)
  then show ?thesis using assms(2) by simp
next
  case (Inl e)
  with assms(1) have run: "authorize_admin R i rt m w = (Inl e, w')" by simp
  have "w_db w' = w_db w \<or> e = forbidden ''Admin role is required'' \<and>
    (\<exists>row. w_db w' = (w_db w)\<lparr>t_audits := t_audits (w_db w) @ [row]\<rparr> \<and> a_userId row = Some i
       \<and> a_eventType row = lit ''admin_authorization_failure'' \<and> a_outcome row = lit ''failure''
       \<and> a_reasonCode row = Some (lit ''FORBIDDEN''))"
    using run
    by (auto simp: authorize_admin_def bindA_Inl_iff act_iffs liftA_def in_transaction_Inl audit_create_Inr
        denial_event_def is_active_temis_admin_run split: if_splits)
  with Inl show ?thesis by blast
qed

lemma authenticate_admin_cases:
  assumes "authenticate_admin R C t rt m w = (r, w')"
  shows "case verify_admin_access_subject C (rt_clock R (w_ticks w)) t of
      Inl e \<Rightarrow> w_db w' = w_db w \<and> r = Inl (if e = TokenValidationError
        then DomainError 401 (lit ''INVALID_TOKEN'') (lit ''Invalid token'') else e)
    | Inr i \<Rightarrow>
        if py_strip i \<noteq> [] \<and> is_active_user (w_db w) i
           \<and> user_has_role (w_db w) i (Some (lit ''temis''), lit ''admin'')
        then r = Inr i \<and> w_db w' = w_db w
        else \<exists>e. r = Inl e \<and> (w_db w' = w_db w \<or> e = forbidden ''Admin role is required'' \<and>
          (\<exists>row. w_db w' = (w_db w)\<lparr>t_audits := t_audits (w_db w) @ [row]\<rparr> \<and> a_userId row = Some i
             \<and> a_eventType row = lit ''admin_authorization_failure'' \<and> a_outcome row = lit ''failure''
             \<and> a_reasonCode row = Some (lit ''FORBIDDEN'')))"
proof -
  let ?v = "verify_admin_access_subject C (rt_clock R (w_ticks w)) t"
  let ?w1 = "w\<lparr>w_ticks := w_ticks w + 1\<rparr>"
  have start: "authenticate_admin R C t rt m w =
      (case verify_admin_subject_or_401 C (rt_clock R (w_ticks w)) t of
         Inl e \<Rightarrow> (Inl e, ?w1)
       | Inr i \<Rightarrow> if i = [] then (Inl (DomainError 401 (lit ''UNAUTHORIZED'') (lit ''Authentication is required'')), ?w1)
                 else bindA (authorize_admin R i rt m) (\<lambda>_. retA i) ?w1)"
    by (simp add: authenticate_admin_def seq_simps utc_now_ms_def split: sum.split)
  show ?thesis
  proof (cases ?v)
    case (Inl e)
    then show ?thesis using assms start by (auto simp: verify_admin_subject_or_401_def)
  next
    case (Inr i)
    then have v: "verify_admin_subject_or_401 C (rt_clock R (w_ticks w)) t = Inr i"
      by (simp add: verify_admin_subject_or_401_def)
    show ?thesis
    proof (cases "i = []")
      case True
      then show ?thesis using assms start v Inr by (auto simp: py_strip_def)
    next
      case False
      obtain r1 w1 where a: "authorize_admin R i rt m ?w1 = (r1, w1)" by (cases "authorize_admin R i rt m ?w1")
      with assms start v False have r: "r = (case r1 of Inl e \<Rightarrow> Inl e | Inr _ \<Rightarrow> Inr i)" and w': "w' = w1"
        by (auto simp: bindA_def retA_def split: sum.splits)
      show ?thesis
      proof (cases r1)
        case (Inr u)
        with a authorize_admin_Inr [of R i rt m ?w1 w1] r w' \<open>?v = Inr i\<close> show ?thesis by simp
      next
        case (Inl e)
        with a have "authorize_admin R i rt m ?w1 \<noteq> (Inr (), ?w1)" by simp
        then have no: "\<not> (py_strip i \<noteq> [] \<and> is_active_user (w_db w) i
            \<and> user_has_role (w_db w) i (Some (lit ''temis''), lit ''admin''))"
          using authorize_admin_Inr [of R i rt m ?w1 ?w1] by simp
        from Inl authorize_admin_denied [OF a] r w' \<open>?v = Inr i\<close> show ?thesis
          by (simp add: no)
      qed
    qed
  qed
qed

text \<open>Who passes administrator authentication. When the library rejects the token the request fails
  and nothing is written: with 401 when verification says so. Otherwise the subject decides, and the
  database at that moment, not the roles in the token: an active user holding \<^verbatim>\<open>temis:admin\<close> passes
  with nothing written; anyone else is refused, and the only thing that can have been written is one
  failure row that names the subject, in which case the refusal is the 403.\<close>

theorem admin_authentication:
  assumes "authenticate_admin R C t rt m w = (r, w')"
  shows "case verify_admin_access_subject C (rt_clock R (w_ticks w)) t of
      Inl e \<Rightarrow> w_db w' = w_db w \<and> r = Inl (if e = TokenValidationError
        then DomainError 401 (lit ''INVALID_TOKEN'') (lit ''Invalid token'') else e)
    | Inr i \<Rightarrow>
        if py_strip i \<noteq> [] \<and> is_active_user (w_db w) i
           \<and> user_has_role (w_db w) i (Some (lit ''temis''), lit ''admin'')
        then r = Inr i \<and> w_db w' = w_db w
        else \<exists>e. r = Inl e \<and> (w_db w' = w_db w \<or> e = forbidden ''Admin role is required'' \<and>
          (\<exists>row. w_db w' = (w_db w)\<lparr>t_audits := t_audits (w_db w) @ [row]\<rparr> \<and> a_userId row = Some i
             \<and> a_eventType row = lit ''admin_authorization_failure'' \<and> a_outcome row = lit ''failure''
             \<and> a_reasonCode row = Some (lit ''FORBIDDEN'')))"
  by (rule authenticate_admin_cases [OF assms])

lemma admin_authentication_witness:
  "let w = sample_services sample_admin_db;
       r1 = authenticate_admin sample_runtime transparent_codec (lit ''a1'') (lit ''/admin'') (lit ''GET'') w;
       r2 = authenticate_admin sample_runtime transparent_codec (lit ''u1'') (lit ''/admin'') (lit ''GET'') w
   in fst r1 = Inr (lit ''a1'') \<and> w_db (snd r1) = w_db w
     \<and> fst r2 = Inl (forbidden ''Admin role is required'') \<and> length (t_audits (w_db (snd r2))) = 1"
proof -
  let ?w = "sample_services sample_admin_db"
  let ?r = "\<lambda>t. authenticate_admin sample_runtime transparent_codec t (lit ''/admin'') (lit ''GET'') ?w"
  have v: "verify_admin_access_subject transparent_codec n t = Inr t" for n t
    by (simp add: verify_admin_access_subject_def transparent_codec_def)
  have a: "py_strip (lit ''a1'') \<noteq> [] \<and> is_active_user (w_db ?w) (lit ''a1'')
      \<and> user_has_role (w_db ?w) (lit ''a1'') (Some (lit ''temis''), lit ''admin'')"
    by code_simp
  have "fst (?r (lit ''a1'')) = Inr (lit ''a1'') \<and> w_db (snd (?r (lit ''a1''))) = w_db ?w"
    using admin_authentication [OF surjective_pairing, of sample_runtime transparent_codec "lit ''a1''"
        "lit ''/admin''" "lit ''GET''" ?w] unfolding v sum.case if_P [OF a] by blast
  moreover have "fst (?r (lit ''u1'')) = Inl (forbidden ''Admin role is required'')
      \<and> length (t_audits (w_db (snd (?r (lit ''u1''))))) = 1"
    by code_simp
  ultimately show ?thesis unfolding Let_def by blast
qed

section \<open>What the mutations do\<close>

lemma update_user_status_run: "update_user_status i s t d = Inr (b, d') \<Longrightarrow> db_ok d \<Longrightarrow>
    b = user_exists d i \<and> d' = d\<lparr>t_users := update_rows (\<lambda>u. u_id u = i)
      (\<lambda>u. u\<lparr>u_status := s, u_updatedAt := t\<rparr>) (t_users d)\<rparr>"
proof -
  assume run: "update_user_status i s t d = Inr (b, d')" and ok: "db_ok d"
  let ?n = "count_rows (\<lambda>u. u_id u = i) (t_users d)"
  from run have b: "b = (?n = 1)" and d': "d' = d\<lparr>t_users := update_rows (\<lambda>u. u_id u = i)
      (\<lambda>u. u\<lparr>u_status := s, u_updatedAt := t\<rparr>) (t_users d)\<rparr>" and n: "?n = 0 \<or> ?n = 1"
    by (auto simp: update_user_status_def bindT_Inr_iff update_users_def split: if_splits)
  have "?n \<noteq> 0 \<longleftrightarrow> user_exists d i"
    using count_rows_pos_iff [of "\<lambda>u. u_id u = i" "t_users d"] by (auto simp: user_exists_def)
  with b n d' show ?thesis by auto
qed

lemma revoke_all_run: "revoke_all_refresh_tokens_for_user i t d = Inr (n, d') \<Longrightarrow>
    n = (if user_exists d i then count_rows (\<lambda>r. r_userId r = i \<and> r_revokedAt r = None) (t_refreshes d) else 0)
    \<and> d' = (if user_exists d i then d\<lparr>t_refreshes := update_rows (\<lambda>r. r_userId r = i \<and> r_revokedAt r = None)
        (\<lambda>r. r\<lparr>r_revokedAt := Some t\<rparr>) (t_refreshes d)\<rparr> else d)"
  by (auto simp: revoke_all_refresh_tokens_for_user_def lock_user_for_refresh_token_revocation_def
      bindT_Inr_iff update_refreshes_def split: if_splits)

text \<open>The row a successful mutation leaves.\<close>

definition mutation_row :: "pystr \<Rightarrow> string \<Rightarrow> pystr \<Rightarrow> pystr \<Rightarrow> pystr \<Rightarrow> pydict option \<Rightarrow> int \<Rightarrow> AuditRow" where
  "mutation_row i event_type actor target reason details created_at =
     \<lparr>a_id = i, a_userId = Some target, a_eventType = lit event_type, a_outcome = lit ''success'',
      a_provider = None, a_serviceKey = None, a_ipAddress = None, a_userAgent = None,
      a_reasonCode = Some reason, a_createdAt = created_at, a_actorUserId = Some actor,
      a_targetUserId = Some target, a_detailsJson = details_value details\<rparr>"

lemma record_audit_run: "record_mutation_audit i e a t r d c x = Inr (u, x') \<Longrightarrow>
    x' = x\<lparr>t_audits := t_audits x @ [mutation_row i e a t r d c]\<rparr>"
  by (auto simp: record_mutation_audit_def create_admin_audit_log_def inserted_def require_one_def
      bindT_Inr_iff insert_audit_def checked_Inr mutation_row_def)

text \<open>The abstract effect of a status change: one pure function of the tables.\<close>

definition status_change :: "pystr \<Rightarrow> pystr \<Rightarrow> UserStatus \<Rightarrow> int \<Rightarrow> AuditRow \<Rightarrow> db \<Rightarrow> db" where
  "status_change actor target s t row d =
     (if user_exists d target
      then d\<lparr>t_users := update_rows (\<lambda>u. u_id u = target) (\<lambda>u. u\<lparr>u_status := s, u_updatedAt := t\<rparr>) (t_users d),
             t_refreshes := (if s \<in> {SUSPENDED, DELETED}
               then update_rows (\<lambda>r. r_userId r = target \<and> r_revokedAt r = None)
                      (\<lambda>r. r\<lparr>r_revokedAt := Some t\<rparr>) (t_refreshes d)
               else t_refreshes d),
             t_audits := t_audits d @ [row]\<rparr>
      else d)"

lemma user_exists_status: "user_exists (d\<lparr>t_users := update_rows (\<lambda>u. u_id u = i)
    (\<lambda>u. u\<lparr>u_status := s, u_updatedAt := t\<rparr>) (t_users d)\<rparr>) j = user_exists d j"
proof -
  have "u_id ` set (update_rows (\<lambda>u. u_id u = i) (\<lambda>u. u\<lparr>u_status := s, u_updatedAt := t\<rparr>) (t_users d))
      = u_id ` set (t_users d)"
    by (rule image_update_rows_same) simp
  then show ?thesis by (simp add: user_exists_def)
qed

lemma no_update: "\<not> user_exists d i \<Longrightarrow> d\<lparr>t_users := update_rows (\<lambda>u. u_id u = i) f (t_users d)\<rparr> = d"
proof -
  assume "\<not> user_exists d i"
  then have "update_rows (\<lambda>u. u_id u = i) f (t_users d) = t_users d"
    by (intro update_rows_none) (auto simp: user_exists_def)
  then show ?thesis by simp
qed

lemma set_user_status_mutate_run:
  assumes "set_user_status_mutate u actor target s reason details t d = Inr (res, d')" "db_ok d"
  shows "d' = status_change actor target s t
      (mutation_row (u 0) ''admin_user_status_changed'' actor target reason details t) d
    \<and> sus_status_changed res = user_exists d target
    \<and> sus_revoked_refresh_token_count res = (if s \<in> {SUSPENDED, DELETED} \<and> user_exists d target
        then count_rows (\<lambda>r. r_userId r = target \<and> r_revokedAt r = None) (t_refreshes d) else 0)"
proof -
  let ?d1 = "d\<lparr>t_users := update_rows (\<lambda>u. u_id u = target) (\<lambda>u. u\<lparr>u_status := s, u_updatedAt := t\<rparr>) (t_users d)\<rparr>"
  from assms(1) obtain b d1 n d2 where
    1: "update_user_status target s t d = Inr (b, d1)"
    and 2: "(if should_revoke_for_status s then revoke_all_refresh_tokens_for_user target t else retT 0) d1 = Inr (n, d2)"
    and 3: "(if b then record_mutation_audit (u 0) ''admin_user_status_changed'' actor target reason details t
          else retT ()) d2 = Inr ((), d')"
    and res: "res = \<lparr>sus_status_changed = b, sus_revoked_refresh_token_count = n\<rparr>"
    by (auto simp: set_user_status_mutate_def bindT_Inr_iff)
  from update_user_status_run [OF 1 assms(2)] have b: "b = user_exists d target" and d1: "d1 = ?d1" by simp_all
  have ex: "user_exists d1 target = user_exists d target" unfolding d1 by (rule user_exists_status)
  show ?thesis
  proof (cases "user_exists d target")
    case True
    with 3 b record_audit_run have d': "d' = d2\<lparr>t_audits := t_audits d2 @
        [mutation_row (u 0) ''admin_user_status_changed'' actor target reason details t]\<rparr>" by fastforce
    from 2 revoke_all_run [of target t d1 n d2] ex True d1 show ?thesis
      by (auto simp: should_revoke_for_status_def d' status_change_def res b split: if_splits)
  next
    case False
    with 3 b have "d' = d2" by simp
    moreover from False d1 no_update have "d1 = d" by simp
    ultimately show ?thesis
      using 2 revoke_all_run [of target t d1 n d2] False
      by (auto simp: status_change_def res b split: if_splits)
  qed
qed

text \<open>C14. A status change that returns did exactly its abstract effect on the database, at one instant:
  the target's status and update time, and, when the new status is suspended or deleted, the
  revocation of every live session of the target, with one success row naming actor and target; for
  an unknown target nothing. It reports whether it changed the status and how many sessions it
  revoked, and no administrator has suspended or deleted himself.\<close>

theorem set_user_status_refines:
  assumes "db_ok (w_db w)"
    and "set_user_status R actor target status reason details now w = (Inr res, w')"
  shows "\<exists>s i sanitized. let t = (case now of None \<Rightarrow> rt_clock R (w_ticks w) | Some t \<Rightarrow> t); d = w_db w in
      UserStatus_of status = Some s \<and> audit_details R details = Inr sanitized
      \<and> w_db w' = status_change actor target s t
          (mutation_row i ''admin_user_status_changed'' actor target reason sanitized t) d
      \<and> sus_status_changed res = user_exists d target
      \<and> sus_revoked_refresh_token_count res = (if s \<in> {SUSPENDED, DELETED} \<and> user_exists d target
          then count_rows (\<lambda>r. r_userId r = target \<and> r_revokedAt r = None) (t_refreshes d) else 0)
      \<and> (s \<in> {SUSPENDED, DELETED} \<longrightarrow> actor \<noteq> target
          \<and> \<not> (\<exists>r \<in> set (t_refreshes (w_db w')). r_userId r = target \<and> r_revokedAt r = None))"
proof -
  let ?t = "case now of None \<Rightarrow> rt_clock R (w_ticks w) | Some t \<Rightarrow> t"
  from assms(2) obtain s w1 sanitized d' where
    s: "parse_user_status status = Inr s"
    and self: "assert_self_status_change_allowed actor target s = Inr ()"
    and w1: "now_or_clock R now w = (Inr ?t, w1)" "w_db w1 = w_db w"
    and san: "audit_details R details = Inr sanitized"
    and run: "set_user_status_mutate (\<lambda>i. rt_uuid R (w_ids w1 + i)) actor target s reason sanitized ?t (w_db w) = Inr (res, d')"
    and w': "w_db w' = d'"
    by (auto simp: set_user_status_def act_iffs now_or_clock_def split: option.splits)
  note eff = set_user_status_mutate_run [OF run assms(1)]
  have st: "UserStatus_of status = Some s"
    using s by (auto simp: parse_user_status_def split: option.splits)
  have refs: "r_userId r \<noteq> target" if "\<not> user_exists (w_db w) target" "r \<in> set (t_refreshes (w_db w))" for r
    using that db_okD(15) [OF assms(1)] by blast
  note d' = conjunct1 [OF eff]
  have gone: "r_revokedAt r \<noteq> None" if "s \<in> {SUSPENDED, DELETED}" "r \<in> set (t_refreshes d')" "r_userId r = target" for r
  proof (cases "user_exists (w_db w) target")
    case True
    with that(1) d' have "t_refreshes d' = update_rows (\<lambda>r. r_userId r = target \<and> r_revokedAt r = None)
        (\<lambda>r. r\<lparr>r_revokedAt := Some ?t\<rparr>) (t_refreshes (w_db w))"
      by (simp add: status_change_def)
    with that(2) have "r \<in> set (update_rows (\<lambda>r. r_userId r = target \<and> r_revokedAt r = None)
        (\<lambda>r. r\<lparr>r_revokedAt := Some ?t\<rparr>) (t_refreshes (w_db w)))" by (simp only:)
    then show ?thesis
      unfolding in_update_rows using that(3) by (elim disjE bexE conjE) simp_all
  next
    case False
    with d' that(2) have "r \<in> set (t_refreshes (w_db w))" by (simp add: status_change_def)
    with refs [OF False] that(3) show ?thesis by blast
  qed
  have ne: "s \<in> {SUSPENDED, DELETED} \<Longrightarrow> actor \<noteq> target"
    using self by (auto simp: assert_self_status_change_allowed_def)
  have "s \<in> {SUSPENDED, DELETED} \<longrightarrow> actor \<noteq> target
      \<and> \<not> (\<exists>r \<in> set (t_refreshes (w_db w')). r_userId r = target \<and> r_revokedAt r = None)"
    using gone ne unfolding w' by blast
  with st san eff w' show ?thesis unfolding Let_def by blast
qed

lemma set_user_status_refines_witness:
  "let w = sample_services sample_admin_db; w' = snd (set_user_status sample_runtime (lit ''a1'') (lit ''u1'')
         (lit ''SUSPENDED'') (lit ''ABUSE'') None None w)
   in \<exists>i. w_db w' = status_change (lit ''a1'') (lit ''u1'') SUSPENDED 50
          (mutation_row i ''admin_user_status_changed'' (lit ''a1'') (lit ''u1'') (lit ''ABUSE'') None 50) sample_admin_db
       \<and> \<not> is_active_user (w_db w') (lit ''u1'')"
proof -
  let ?w = "sample_services sample_admin_db"
  let ?run = "set_user_status sample_runtime (lit ''a1'') (lit ''u1'') (lit ''SUSPENDED'') (lit ''ABUSE'') None None ?w"
  have "fst ?run = Inr \<lparr>sus_status_changed = True, sus_revoked_refresh_token_count = 1\<rparr>" by code_simp
  then have run: "?run = (Inr \<lparr>sus_status_changed = True, sus_revoked_refresh_token_count = 1\<rparr>, snd ?run)"
    by (metis prod.collapse)
  have ok: "db_ok (w_db ?w)" by (simp add: sample_services_def sample_admin_db_ok)
  have "UserStatus_of (lit ''SUSPENDED'') = Some SUSPENDED" by code_simp
  moreover have "\<not> is_active_user (w_db (snd ?run)) (lit ''u1'')" by code_simp
  moreover have w: "w_db ?w = sample_admin_db" "rt_clock sample_runtime (w_ticks ?w) = 50"
    by (simp_all add: sample_services_def sample_runtime_def)
  moreover obtain st i san where "UserStatus_of (lit ''SUSPENDED'') = Some st" "Inr None = (Inr san :: exn + pydict option)"
    "w_db (snd ?run) = status_change (lit ''a1'') (lit ''u1'') st 50
       (mutation_row i ''admin_user_status_changed'' (lit ''a1'') (lit ''u1'') (lit ''ABUSE'') san 50) sample_admin_db"
    using set_user_status_refines [OF ok run] unfolding Let_def audit_details_def option.case w by blast
  ultimately show ?thesis unfolding Let_def by (metis option.inject sum.inject(2))
qed

section \<open>Administrators keep their own access\<close>

definition own_access :: "pystr \<Rightarrow> db \<Rightarrow> bool" where
  "own_access i d \<longleftrightarrow> db_ok d \<and> is_active_user d i \<and> user_has_role d i (Some (lit ''temis''), lit ''admin'')"

lemma own_accessI:
  assumes "own_access i d" "keepsT db_ok m" "m d = Inr (a, d')"
    and "is_active_user d i \<Longrightarrow> is_active_user d' i"
    and "set (t_roles d) \<subseteq> set (t_roles d')" "set (t_user_roles d) \<subseteq> set (t_user_roles d')"
  shows "own_access i d'"
  using assms keepsTD [OF assms(2), of d a d'] by (fastforce simp: own_access_def user_has_role_def)

lemma keeps_own_audit [keeps_intros]: "keepsT (own_access i) (record_mutation_audit j e a t r d c)"
proof (rule keepsTI)
  fix x u x' assume I: "own_access i x" and run: "record_mutation_audit j e a t r d c x = Inr (u, x')"
  show "own_access i x'"
    by (rule own_accessI [OF I keeps_record_audit run]) (auto simp: record_audit_run [OF run] is_active_user_def)
qed

lemma keeps_own_revoke [keeps_intros]: "keepsT (own_access i) (revoke_all_refresh_tokens_for_user t c)"
proof (rule keepsTI)
  fix x u x' assume I: "own_access i x" and run: "revoke_all_refresh_tokens_for_user t c x = Inr (u, x')"
  show "own_access i x'"
    by (rule own_accessI [OF I keeps_admin_mutations(2) run])
      (use revoke_all_run [OF run] in \<open>auto simp: is_active_user_def split: if_splits\<close>)
qed

lemma insert_if_absent_supersets:
  "insert_role_if_absent r d = Inr (n, d') \<Longrightarrow> t_users d' = t_users d \<and> set (t_roles d) \<subseteq> set (t_roles d')
     \<and> t_user_roles d' = t_user_roles d"
  "insert_user_role_if_absent l d = Inr (n, d') \<Longrightarrow> t_users d' = t_users d \<and> t_roles d' = t_roles d
     \<and> set (t_user_roles d) \<subseteq> set (t_user_roles d')"
  by (auto simp: insert_role_if_absent_def insert_user_role_if_absent_def bindT_Inr_iff insert_role_def
      insert_user_role_def checked_Inr split: if_splits)

lemma keeps_own_roles [keeps_intros]:
  "keepsT (own_access i) (upsert_role j k n)"
  "keepsT (own_access i) (assign_role_to_user j u r)"
proof -
  show "keepsT (own_access i) (upsert_role j k n)"
  proof (rule keepsTI)
    fix x a x' assume I: "own_access i x" and run: "upsert_role j k n x = Inr (a, x')"
    from run obtain m where "insert_role_if_absent \<lparr>o_id = j, o_serviceKey = k, o_name = n\<rparr> x = Inr (m, x')"
      by (auto simp: upsert_role_def bindT_Inr_iff find_role_def split: option.splits)
    from insert_if_absent_supersets(1) [OF this] show "own_access i x'"
      by (intro own_accessI [OF I keeps_admin_mutations(3) run]) (auto simp: is_active_user_def)
  qed
  show "keepsT (own_access i) (assign_role_to_user j u r)"
  proof (rule keepsTI)
    fix x a x' assume I: "own_access i x" and run: "assign_role_to_user j u r x = Inr (a, x')"
    from run obtain m where "insert_user_role_if_absent \<lparr>l_id = j, l_userId = u, l_roleId = r\<rparr> x = Inr (m, x')"
      by (auto simp: assign_role_to_user_def bindT_Inr_iff split: if_splits)
    from insert_if_absent_supersets(2) [OF this] show "own_access i x'"
      by (intro own_accessI [OF I keeps_admin_mutations(4) run]) (auto simp: is_active_user_def)
  qed
qed

lemma own_access_remove:
  assumes "own_access actor d" "find (\<lambda>r. o_serviceKey r = k \<and> o_name r = n) (t_roles d) = Some role"
    and "actor = target \<Longrightarrow> (k, n) \<noteq> (lit ''temis'', lit ''admin'')"
    and "remove_role_from_user target (o_id role) d = Inr (b, d')"
  shows "own_access actor d'"
proof -
  from assms(4) have d': "d' = d\<lparr>t_user_roles :=
      filter (\<lambda>l. \<not> (l_userId l = target \<and> l_roleId l = o_id role)) (t_user_roles d)\<rparr>"
    by (auto simp: remove_role_from_user_def bindT_Inr_iff delete_user_roles_def)
  from assms(1) obtain l r where l: "l \<in> set (t_user_roles d)" "l_userId l = actor"
    and r: "r \<in> set (t_roles d)" "o_id r = l_roleId l" "o_name r = lit ''admin''" "o_serviceKey r = lit ''temis''"
    and ok: "db_ok d"
    by (auto simp: own_access_def user_has_role_def)
  from find_Some_set [OF assms(2)] have role: "role \<in> set (t_roles d)" "o_serviceKey role = k" "o_name role = n"
    by auto
  have "distinct (map o_id (t_roles d))"
    using db_okD(9) [OF ok] by (simp add: uniq_all_def role_keys_def uniq_distinct)
  then have "o_id r = o_id role \<Longrightarrow> r = role" using distinct_map_key_eq r(1) role(1) by metis
  with l(2) r role assms(3) have "l \<in> set (t_user_roles d')" by (auto simp: d' l(1))
  moreover have "db_ok d'" by (rule keepsTD [OF keeps_admin_mutations(5) ok assms(4)])
  ultimately show ?thesis
    using assms(1) l(2) r by (auto simp: own_access_def user_has_role_def d' is_active_user_def)
qed

lemma in_transaction_keepsA: "(\<And>w r d. I (w_db w) \<Longrightarrow> work (w_db w) = Inr (r, d) \<Longrightarrow> I d) \<Longrightarrow> keepsA I (in_transaction work)"
  by (rule keepsA_transaction) (simp add: keepsT_def, metis surj_pair world.select_convs(1))

lemma arp_id_profile: "arp_id (role_profile r) = o_id r"
  by (simp add: role_profile_def)

lemma bindT_readT: "bindT (readT g) f d = f (g d) d"
  by (simp add: seq_simps)

text \<open>A guard that fails leaves the rest of the operation unreached.\<close>

lemma keepsA_guard:
  "(r = Inr () \<Longrightarrow> keepsA I m) \<Longrightarrow> keepsA I (bindA (liftA r) (\<lambda>_. m))"
  by (cases r) (auto simp: keepsA_def seq_simps)

lemma keepsA_checked: "(\<And>a. r = Inr a \<Longrightarrow> keepsA I (f a)) \<Longrightarrow> keepsA I (bindA (liftA r) f)"
  by (cases r) (auto simp: keepsA_def seq_simps)

lemma own_set_user_status:
  assumes "target \<noteq> actor \<or> UserStatus_of status \<noteq> Some PENDING_EMAIL_VERIFICATION"
  shows "keepsA (own_access actor) (set_user_status R actor target status reason details now)"
  unfolding set_user_status_def
proof (intro keepsA_guard keepsA_checked keepsA_bind keepsA_now_or_clock keepsA_simple in_transaction_keepsA)
  fix s t sanitized u w res d
  assume st: "parse_user_status status = Inr s" and self: "assert_self_status_change_allowed actor target s = Inr ()"
    and I: "own_access actor (w_db w)"
    and run: "set_user_status_mutate u actor target s reason sanitized t (w_db w) = Inr (res, d)"
  from I have ok: "db_ok (w_db w)" by (simp add: own_access_def)
  note d = conjunct1 [OF set_user_status_mutate_run [OF run ok]]
  have ac: "target = actor \<Longrightarrow> s = ACTIVE"
    using assms st self
    by (cases s) (auto simp: parse_user_status_def assert_self_status_change_allowed_def split: option.splits)
  from I obtain x where x: "x \<in> set (t_users (w_db w))" "u_id x = actor" "u_status x = ACTIVE"
    by (auto simp: own_access_def is_active_user_def)
  let ?y = "if u_id x = target then x\<lparr>u_status := s, u_updatedAt := t\<rparr> else x"
  have "?y \<in> set (t_users d)"
  proof (cases "user_exists (w_db w) target")
    case True
    with x(1) show ?thesis by (simp add: d status_change_def set_update_rows)
  next
    case False
    with x(1) have "u_id x \<noteq> target" by (auto simp: user_exists_def)
    with x(1) False show ?thesis by (simp add: d status_change_def)
  qed
  moreover have "u_id ?y = actor" "u_status ?y = ACTIVE" using x ac by simp_all
  ultimately have "is_active_user d actor" unfolding is_active_user_def by blast
  moreover have "db_ok d" by (rule keepsTD [OF keeps_admin_mutate(1) ok run])
  ultimately show "own_access actor d"
    using I by (simp add: d status_change_def own_access_def user_has_role_def)
qed

lemma own_remove_role:
  "keepsA (own_access actor) (remove_role R actor target k n reason details now)"
  unfolding remove_role_def
proof (intro keepsA_guard keepsA_bind keepsA_now_or_clock keepsA_simple keepsA_transaction)
  fix t and u :: "nat \<Rightarrow> pystr"
  assume self: "assert_self_admin_role_removal_allowed actor target
      \<lparr>arp_id = [], arp_service_key = k, arp_name = n\<rparr> = Inr ()"
  then have other: "actor = target \<Longrightarrow> (k, n) \<noteq> (lit ''temis'', lit ''admin'')"
    by (auto simp: assert_self_admin_role_removal_allowed_def)
  have rest: "keepsT (own_access actor)
      (bindT (if b then revoke_all_refresh_tokens_for_user target t else retT 0) (\<lambda>revoked.
       bindT (if b then bindT (liftT (role_details R details role)) (\<lambda>sanitized.
                record_mutation_audit (u 0) ''admin_user_role_removed'' actor target reason sanitized t)
              else retT ()) (\<lambda>_. retT (g revoked))))" for b role g
    by (intro keeps_intros)
  show "keepsT (own_access actor) (remove_role_mutate R u actor target k n reason details t)"
  proof (rule keepsTI)
    fix d res d' assume I: "own_access actor d"
      and run: "remove_role_mutate R u actor target k n reason details t d = Inr (res, d')"
    show "own_access actor d'"
    proof (cases "find (\<lambda>r. o_serviceKey r = k \<and> o_name r = n) (t_roles d)")
      case None
      with run I show ?thesis by (auto simp: remove_role_mutate_def bindT_Inr_iff find_role_def)
    next
      case (Some row)
      let ?rest = "\<lambda>b. bindT (if b then revoke_all_refresh_tokens_for_user target t else retT 0) (\<lambda>revoked.
            bindT (if b then bindT (liftT (role_details R details (role_profile row))) (\<lambda>sanitized.
                     record_mutation_audit (u 0) ''admin_user_role_removed'' actor target reason sanitized t)
                   else retT ()) (\<lambda>_. retT \<lparr>rmr_role_removed = b, rmr_role_id = Some (o_id row),
                      rmr_revoked_refresh_token_count = revoked\<rparr>))"
      from run Some have "bindT (remove_role_from_user target (o_id row)) ?rest d = Inr (res, d')"
        by (simp add: remove_role_mutate_def find_role_def bindT_readT arp_id_profile)
      then obtain b d1 where 1: "remove_role_from_user target (o_id row) d = Inr (b, d1)"
        and 2: "?rest b d1 = Inr (res, d')"
        by (rule bindT_Inr_E)
      from own_access_remove [OF I Some other 1] have "own_access actor d1" .
      from keepsTD [OF rest this 2] show ?thesis .
    qed
  qed
qed

lemma own_assign_role: "keepsA (own_access actor) (assign_role R actor target k n reason details)"
  unfolding assign_role_def assign_role_mutate_def by (intro keepsA_intros keeps_intros)

lemma own_revoke_sessions: "keepsA (own_access actor) (revoke_sessions R actor target reason details now)"
  unfolding revoke_sessions_def revoke_sessions_mutate_def
  by (intro keepsA_intros keepsA_now_or_clock keeps_intros)

text \<open>Administrators keep their own access: whatever an administrator does through the service, and
  whether or not it succeeds, he is still an active user holding \<^verbatim>\<open>temis:admin\<close> afterwards, in a
  database that satisfies its constraints. The one exception is stated by the hypothesis: he must not
  set his own status back to \<^verbatim>\<open>PENDING_EMAIL_VERIFICATION\<close>.\<close>

theorem admin_keeps_own_access:
  assumes "target \<noteq> actor \<or> UserStatus_of status \<noteq> Some PENDING_EMAIL_VERIFICATION"
  shows "keepsA (own_access actor) (set_user_status R actor target status reason details now)
    \<and> keepsA (own_access actor) (assign_role R actor target k n reason details)
    \<and> keepsA (own_access actor) (remove_role R actor target k n reason details now)
    \<and> keepsA (own_access actor) (revoke_sessions R actor target reason details now)"
  by (intro conjI own_set_user_status [OF assms] own_assign_role own_remove_role own_revoke_sessions)

lemma admin_keeps_own_access_witness:
  "own_access (lit ''a1'') (w_db (snd (set_user_status sample_runtime (lit ''a1'') (lit ''a1'')
     (lit ''SUSPENDED'') (lit ''X'') None None (sample_services sample_admin_db))))"
proof -
  have "lit ''a1'' \<noteq> lit ''a1'' \<or> UserStatus_of (lit ''SUSPENDED'') \<noteq> Some PENDING_EMAIL_VERIFICATION"
    by code_simp
  note keep = admin_keeps_own_access [OF this, THEN conjunct1, of sample_runtime "lit ''X''" None None]
  have "is_active_user sample_admin_db (lit ''a1'')
      \<and> user_has_role sample_admin_db (lit ''a1'') (Some (lit ''temis''), lit ''admin'')" by code_simp
  then have "own_access (lit ''a1'') (w_db (sample_services sample_admin_db))"
    by (simp add: own_access_def sample_services_def sample_admin_db_ok)
  from keepsAD [OF keep this surjective_pairing] show ?thesis .
qed

text \<open>The exception is real: the guard only knows suspension and deletion.\<close>

lemma admin_self_pending_lockout:
  "let w = snd (set_user_status sample_runtime (lit ''a1'') (lit ''a1'') (lit ''PENDING_EMAIL_VERIFICATION'')
       (lit ''X'') None None (sample_services sample_admin_db))
   in fst (authorize_admin sample_runtime (lit ''a1'') (lit ''/admin'') (lit ''GET'') w)
      = Inl (forbidden ''Admin role is required'')"
  by code_simp

end
