(* ===== verification/Redirect_Urls.thy ===== *)
theory Redirect_Urls
  imports Py_Url Py_Json Domain_OAuth
begin

text \<open>
  Query strings of redirect and mail addresses: \<^verbatim>\<open>urllib.parse.parse_qsl\<close> with \<^verbatim>\<open>unquote\<close> over UTF-8
  with replacement characters, and \<^verbatim>\<open>_url_with_query\<close>, \<^verbatim>\<open>_form_encode_query\<close>, \<^verbatim>\<open>_redirect_with_code\<close>
  and \<^verbatim>\<open>_url_with_token\<close> of \<^verbatim>\<open>application/auth.py\<close>, which \<^verbatim>\<open>oauth_providers.py\<close> repeats as
  \<^verbatim>\<open>_url_search_params_set\<close>. The lemmas show that what is written is read back: the code and the state
  appear exactly once and every other parameter stays.
\<close>

section \<open>Reading a query\<close>

definition REPLACEMENT :: nat where
  "REPLACEMENT = 0xFFFD"

definition second_ok :: "nat \<Rightarrow> nat \<Rightarrow> bool" where
  "second_ok a b \<longleftrightarrow> cont_byte b \<and> (a = 0xE0 \<longrightarrow> 0xA0 \<le> b) \<and> (a = 0xED \<longrightarrow> b < 0xA0)
     \<and> (a = 0xF0 \<longrightarrow> 0x90 \<le> b) \<and> (a = 0xF4 \<longrightarrow> b < 0x90)"

definition code_point :: "nat \<Rightarrow> nat list \<Rightarrow> nat" where
  "code_point lead continuation = foldl (\<lambda>u b. u * 64 + (b - 0x80)) lead continuation"

text \<open>\<^verbatim>\<open>bytes.decode("utf-8", "replace")\<close>: each maximal broken prefix becomes one replacement character.\<close>

fun utf8_replace :: "nat list \<Rightarrow> pystr" where
  "utf8_replace [] = []"
| "utf8_replace (a # r) =
     (if a < 0x80 then a # utf8_replace r
      else if a < 0xC2 \<or> 0xF5 \<le> a then REPLACEMENT # utf8_replace r
      else (case r of
        [] \<Rightarrow> [REPLACEMENT]
      | b # r1 \<Rightarrow>
          if \<not> second_ok a b then REPLACEMENT # utf8_replace r
          else if a < 0xE0 then code_point (a - 0xC0) [b] # utf8_replace r1
          else (case r1 of
            [] \<Rightarrow> [REPLACEMENT]
          | c # r2 \<Rightarrow>
              if \<not> cont_byte c then REPLACEMENT # utf8_replace r1
              else if a < 0xF0 then code_point (a - 0xE0) [b, c] # utf8_replace r2
              else (case r2 of
                [] \<Rightarrow> [REPLACEMENT]
              | d # r3 \<Rightarrow>
                  if \<not> cont_byte d then REPLACEMENT # utf8_replace r2
                  else code_point (a - 0xF0) [b, c, d] # utf8_replace r3))))"

fun unquote_to_bytes :: "pystr \<Rightarrow> nat list" where
  "unquote_to_bytes [] = []"
| "unquote_to_bytes (c # s) =
     (if c \<noteq> 37 then c # unquote_to_bytes s
      else (case s of
              h # l # r \<Rightarrow>
                (case (hex_value h, hex_value l) of
                   (Some x, Some y) \<Rightarrow> (16 * x + y) # unquote_to_bytes r
                 | _ \<Rightarrow> 37 # unquote_to_bytes s)
            | _ \<Rightarrow> 37 # unquote_to_bytes s))"

text \<open>\<^verbatim>\<open>unquote\<close> decodes each maximal run of ASCII characters on its own.\<close>

function unquote :: "pystr \<Rightarrow> pystr" where
  "unquote [] = []"
| "unquote (c # s) =
     (if c < 128
      then utf8_replace (unquote_to_bytes (c # takeWhile (\<lambda>x. x < 128) s)) @ unquote (dropWhile (\<lambda>x. x < 128) s)
      else c # unquote s)"
  by pat_completeness auto

termination
  by (relation "measure length") (auto simp: le_imp_less_Suc length_dropWhile_le)

definition plus_to_space :: "pystr \<Rightarrow> pystr" where
  "plus_to_space s = map (\<lambda>c. if c = 43 then 32 else c) s"

text \<open>\<^verbatim>\<open>parse_qsl(query, keep_blank_values=True)\<close>.\<close>

definition parse_pair :: "pystr \<Rightarrow> pystr \<times> pystr" where
  "parse_pair item = (case py_partition 61 item of
     (name, _, v) \<Rightarrow> (unquote (plus_to_space name), unquote (plus_to_space v)))"

definition parse_qsl :: "pystr \<Rightarrow> (pystr \<times> pystr) list" where
  "parse_qsl query = map parse_pair (filter (\<lambda>item. item \<noteq> []) (py_split_on 38 query))"

section \<open>Writing a query\<close>

fun join_amp :: "pystr list \<Rightarrow> pystr" where
  "join_amp [] = []"
| "join_amp [w] = w"
| "join_amp (w # v # ws) = w @ [38] @ join_amp (v # ws)"

definition form_encode_query :: "(pystr \<times> pystr) list \<Rightarrow> pystr" where
  "form_encode_query query =
     join_amp (map (\<lambda>(name, v). quote_component name @ [61] @ quote_component v) query)"

text \<open>One round of the loop over the values: the first parameter of the name gets the value, further ones
  go, a missing one is appended.\<close>

fun set_param :: "pystr \<Rightarrow> pystr \<Rightarrow> bool \<Rightarrow> (pystr \<times> pystr) list \<Rightarrow> (pystr \<times> pystr) list" where
  "set_param name v replaced [] = (if replaced then [] else [(name, v)])"
| "set_param name v replaced ((existing_name, existing_value) # query) =
     (if existing_name \<noteq> name then (existing_name, existing_value) # set_param name v replaced query
      else if \<not> replaced then (name, v) # set_param name v True query
      else set_param name v replaced query)"

definition url_with_query :: "url_env \<Rightarrow> pystr \<Rightarrow> (pystr \<times> pystr) list \<Rightarrow> exn + pystr" where
  "url_with_query E url values =
     (case urlsplit E url of
        None \<Rightarrow> Inl (ValueError (lit ''Invalid URL''))
      | Some parsed \<Rightarrow>
          let query = foldl (\<lambda>q (name, v). set_param name v False q) (parse_qsl (url_query parsed)) values;
              result = urlunsplit (parsed\<lparr>url_query := form_encode_query query\<rparr>)
          in Inr (if py_endswith url [35] then result @ [35] else result))"

definition redirect_with_code :: "url_env \<Rightarrow> pystr \<Rightarrow> pystr \<Rightarrow> pystr option \<Rightarrow> exn + pystr" where
  "redirect_with_code E redirect_uri code state =
     url_with_query E redirect_uri
       ((lit ''code'', code) # (case state of None \<Rightarrow> []
          | Some s \<Rightarrow> if s = [] then [] else [(lit ''state'', s)]))"

definition url_with_token :: "url_env \<Rightarrow> pystr \<Rightarrow> pystr \<Rightarrow> exn + pystr" where
  "url_with_token E base_url token =
     (if base_url = [] then Inl (RuntimeError (lit ''mail URL base is not configured''))
      else url_with_query E base_url [(lit ''token'', token)])"

section \<open>What is written is read back\<close>

lemma utf8_replace_char:
  assumes "c < 0x110000" "\<not> is_surrogate c"
  shows "utf8_replace (utf8_char c @ rest) = c # utf8_replace rest"
proof -
  consider "c < 0x80" | "0x80 \<le> c" "c < 0x800" | "0x800 \<le> c" "c < 0x10000" | "0x10000 \<le> c" by linarith
  then show ?thesis
  proof cases
    case 2
    then have "2 \<le> c div 64" "c div 64 < 32" by simp_all
    with 2 show ?thesis by (simp add: utf8_char_def second_ok_def cont_byte_def code_point_def)
  next
    case 3
    define q where "q = c div 4096"
    define m where "m = c div 64 mod 64"
    define r where "r = c mod 64"
    have c: "c = q * 4096 + m * 64 + r"
      using div_mult_mod_eq [of c 64] div_mult_mod_eq [of "c div 64" 64]
      by (simp add: q_def m_def r_def div_mult2_eq [symmetric], linarith)
    have q: "q < 16" using 3 by (simp add: q_def)
    have m: "m < 64" "r < 64" by (simp_all add: m_def r_def)
    have 1: "q = 0 \<Longrightarrow> 32 \<le> m" using 3(1) c m by linarith
    have 2: "q = 13 \<Longrightarrow> m < 32"
      using assms(2) c m unfolding is_surrogate_def by linarith
    have "utf8_char c = [0xE0 + q, 0x80 + m, 0x80 + r]"
      using 3 by (simp add: utf8_char_def q_def m_def r_def)
    moreover have "utf8_replace ([0xE0 + q, 0x80 + m, 0x80 + r] @ rest) = (q * 4096 + m * 64 + r) # utf8_replace rest"
      using q m 1 2 by (simp add: second_ok_def cont_byte_def code_point_def)
    ultimately show ?thesis by (simp only: c [symmetric])
  next
    case 4
    define q where "q = c div 262144"
    define m where "m = c div 4096 mod 64"
    define n where "n = c div 64 mod 64"
    define r where "r = c mod 64"
    have c: "c = q * 262144 + m * 4096 + n * 64 + r"
      using div_mult_mod_eq [of c 64] div_mult_mod_eq [of "c div 64" 64] div_mult_mod_eq [of "c div 4096" 64]
      by (simp add: q_def m_def n_def r_def div_mult2_eq [symmetric], linarith)
    have q: "q < 5" using assms(1) by (simp add: q_def)
    have m: "m < 64" "n < 64" "r < 64" by (simp_all add: m_def n_def r_def)
    have 1: "q = 0 \<Longrightarrow> 16 \<le> m" using 4 c m by linarith
    have 2: "q = 4 \<Longrightarrow> m < 16" using assms(1) c m by linarith
    have "utf8_char c = [0xF0 + q, 0x80 + m, 0x80 + n, 0x80 + r]"
      using 4 by (simp add: utf8_char_def q_def m_def n_def r_def)
    moreover have "utf8_replace ([0xF0 + q, 0x80 + m, 0x80 + n, 0x80 + r] @ rest)
        = (q * 262144 + m * 4096 + n * 64 + r) # utf8_replace rest"
      using q m 1 2 by (simp add: second_ok_def cont_byte_def code_point_def)
    ultimately show ?thesis by (simp only: c [symmetric])
  qed (simp add: utf8_char_def)
qed

lemma utf8_replace_bytes: "str_ok s \<Longrightarrow> utf8_replace (utf8_bytes s) = s"
  by (induction s) (simp_all add: utf8_bytes_def utf8_replace_char str_ok_def)

text \<open>Everything \<^verbatim>\<open>quote_plus\<close> writes is ASCII and none of the separators.\<close>

definition quoted_char :: "nat \<Rightarrow> bool" where
  "quoted_char c \<longleftrightarrow> c < 128 \<and> c \<noteq> 38 \<and> c \<noteq> 61"

lemma utf8_char_byte: "c < 0x110000 \<Longrightarrow> b \<in> set (utf8_char c) \<Longrightarrow> b < 256"
  by (auto simp: utf8_char_def split: if_splits)

lemma node_utf8_bytes_byte:
  assumes "valid_str s" "b \<in> set (node_utf8_bytes s)"
  shows "b < 256"
proof -
  have "c < 0x110000" if "c \<in> set (normalize_node_string s)" for c
    using assms(1) that
    by (induction s rule: normalize_node_string.induct)
      (auto simp: valid_str_def astral_range split: if_splits)
  with assms(2) utf8_char_byte show ?thesis by (fastforce simp: node_utf8_bytes_def utf8_bytes_def)
qed

lemma upper_hex_value: "v < 16 \<Longrightarrow> hex_value (upper_hex v) = Some v"
  by (auto simp: hex_value_def upper_hex_def)

lemma quote_byte_quoted: "b < 256 \<Longrightarrow> c \<in> set (quote_byte b) \<Longrightarrow> quoted_char c"
proof -
  assume b: "b < 256" and c: "c \<in> set (quote_byte b)"
  have hex: "quoted_char (upper_hex v)" if "v < 16" for v
    using that by (auto simp: upper_hex_def quoted_char_def)
  have "quoted_char b" if "unreserved_form b"
    using that by (auto simp: unreserved_form_def quoted_char_def ascii_alpha_def ascii_digit_def ascii_upper_def)
  moreover have "quoted_char 43" "quoted_char 37" by (simp_all add: quoted_char_def)
  moreover have "b div 16 < 16" "b mod 16 < 16" using b by simp_all
  ultimately show ?thesis using c hex by (auto simp: quote_byte_def split: if_splits)
qed

lemma unquote_quote_byte:
  assumes "b < 256"
  shows "unquote_to_bytes (plus_to_space (quote_byte b) @ rest) = b # unquote_to_bytes rest"
proof -
  have "b div 16 < 16" "b mod 16 < 16" using assms by simp_all
  moreover have "16 * (b div 16) + b mod 16 = b" by simp
  moreover have "upper_hex v \<noteq> 43" "upper_hex v \<noteq> 37" if "v < 16" for v
    using that by (auto simp: upper_hex_def)
  moreover have "unreserved_form b \<Longrightarrow> b \<noteq> 43 \<and> b \<noteq> 37"
    by (auto simp: unreserved_form_def ascii_alpha_def ascii_digit_def ascii_upper_def)
  ultimately show ?thesis
    by (auto simp: quote_byte_def plus_to_space_def upper_hex_value)
qed

lemma unquote_quote_bytes:
  "\<forall>b \<in> set bs. b < 256 \<Longrightarrow> unquote_to_bytes (plus_to_space (concat (map quote_byte bs))) = bs"
proof (induction bs)
  case (Cons b bs)
  have "plus_to_space (quote_byte b @ concat (map quote_byte bs))
      = plus_to_space (quote_byte b) @ plus_to_space (concat (map quote_byte bs))"
    by (simp add: plus_to_space_def)
  with Cons show ?case by (simp add: unquote_quote_byte)
qed (simp add: plus_to_space_def)

lemma unquote_ascii: "all_ascii s \<Longrightarrow> unquote s = utf8_replace (unquote_to_bytes s)"
proof (cases s)
  case (Cons c t)
  assume "all_ascii s"
  with Cons have "takeWhile (\<lambda>x. x < 128) t = t" "dropWhile (\<lambda>x. x < 128) t = []" "c < 128"
    by (auto simp: all_ascii_def takeWhile_eq_all_conv dropWhile_eq_Nil_conv)
  with Cons show ?thesis by (simp only: unquote.simps if_True append_Nil2)
qed simp

lemma quote_component_quoted:
  "valid_str s \<Longrightarrow> c \<in> set (quote_component s) \<Longrightarrow> quoted_char c"
  by (auto simp: quote_component_def dest!: node_utf8_bytes_byte quote_byte_quoted)

lemma unquote_quote_component:
  assumes "valid_str s"
  shows "unquote (plus_to_space (quote_component s)) = normalize_node_string s"
proof -
  have "all_ascii (plus_to_space (quote_component s))"
    using quote_component_quoted [OF assms] by (auto simp: all_ascii_def plus_to_space_def quoted_char_def)
  moreover have "unquote_to_bytes (plus_to_space (quote_component s)) = node_utf8_bytes s"
    unfolding quote_component_def using node_utf8_bytes_byte [OF assms] by (intro unquote_quote_bytes) blast
  moreover have "str_ok (normalize_node_string s)"
  proof -
    have "c < 0x110000" if "c \<in> set (normalize_node_string s)" for c
      using assms that
      by (induction s rule: normalize_node_string.induct)
        (auto simp: valid_str_def astral_range split: if_splits)
    then show ?thesis using normalize_no_surrogate by (auto simp: str_ok_def)
  qed
  ultimately show ?thesis by (simp add: unquote_ascii node_utf8_bytes_def utf8_replace_bytes)
qed

lemma parse_pair_encoded:
  assumes "valid_str n" "valid_str v"
  shows "parse_pair (quote_component n @ [61] @ quote_component v) = (normalize_node_string n, normalize_node_string v)"
proof -
  have "61 \<notin> set (quote_component n)"
    using quote_component_quoted [OF assms(1)] by (auto simp: quoted_char_def)
  then show ?thesis
    using assms by (simp add: parse_pair_def py_partition_append unquote_quote_component)
qed

lemma split_join_amp:
  "ws \<noteq> [] \<Longrightarrow> \<forall>w \<in> set ws. 38 \<notin> set w \<Longrightarrow> py_split_on 38 (join_amp ws) = ws"
proof (induction ws rule: join_amp.induct)
  case (3 w v ws)
  have "py_split_on 38 (a @ 38 # b) = a # py_split_on 38 b" if "38 \<notin> set a" for a b :: pystr
    using that by (induction a) (auto simp: py_split_on_ne split: list.split)
  with 3 show ?case by simp
qed (simp_all add: py_split_on_no_sep)

definition normalize_pair :: "pystr \<times> pystr \<Rightarrow> pystr \<times> pystr" where
  "normalize_pair p = (normalize_node_string (fst p), normalize_node_string (snd p))"

lemma form_query_roundtrip:
  assumes "\<forall>(n, v) \<in> set q. valid_str n \<and> valid_str v"
  shows "parse_qsl (form_encode_query q) = map normalize_pair q"
proof (cases "q = []")
  case False
  let ?ws = "map (\<lambda>(n, v). quote_component n @ [61] @ quote_component v) q"
  have "38 \<notin> set (quote_component s)" if "valid_str s" for s
    using quote_component_quoted [OF that] by (auto simp: quoted_char_def)
  with assms have "\<forall>w \<in> set ?ws. 38 \<notin> set w" by fastforce
  with False have "py_split_on 38 (form_encode_query q) = ?ws"
    by (simp add: form_encode_query_def split_join_amp)
  moreover have "filter (\<lambda>item. item \<noteq> []) ?ws = ?ws" by (induction q) auto
  moreover have "map parse_pair ?ws = map normalize_pair q"
    using assms parse_pair_encoded by (auto simp: normalize_pair_def)
  ultimately show ?thesis by (simp only: parse_qsl_def)
qed (simp add: form_encode_query_def parse_qsl_def)

section \<open>One code, one state, the rest untouched\<close>

definition values_of :: "pystr \<Rightarrow> (pystr \<times> pystr) list \<Rightarrow> pystr list" where
  "values_of name q = map snd (filter (\<lambda>p. fst p = name) q)"

lemma set_param_own: "values_of n (set_param n v b q) = (if b then [] else [v])"
  by (induction n v b q rule: set_param.induct) (auto simp: values_of_def)

lemma set_param_others:
  "filter (\<lambda>p. P (fst p)) (set_param n v b q) = filter (\<lambda>p. P (fst p)) q" if "\<not> P n"
  using that by (induction n v b q rule: set_param.induct) auto

lemma set_param_in: "p \<in> set (set_param n v b q) \<Longrightarrow> p = (n, v) \<or> p \<in> set q"
  by (induction n v b q rule: set_param.induct) (auto split: if_splits)

lemma code_point_less:
  fixes lead :: nat
  assumes "lead < n" "b - 0x80 < 64"
  shows "lead * 64 + (b - 0x80) < n * 64"
proof -
  from assms
  have "lead * 64 + (b - 0x80) < Suc lead * 64" by simp
  also have "\<dots> \<le> n * 64" using assms(1) by (intro mult_le_mono1) simp
  finally show ?thesis .
qed

lemma cont_byte_less: "cont_byte b \<Longrightarrow> b - 0x80 < 64"
  by (auto simp: cont_byte_def)

lemma decoded_bounds:
  "a < 0xE0 \<Longrightarrow> cont_byte b \<Longrightarrow> code_point (a - 0xC0) [b] < 0x110000"
  "a < 0xF0 \<Longrightarrow> cont_byte b \<Longrightarrow> cont_byte c \<Longrightarrow> code_point (a - 0xE0) [b, c] < 0x110000"
  "a < 0xF5 \<Longrightarrow> second_ok a b \<Longrightarrow> cont_byte c \<Longrightarrow> cont_byte d \<Longrightarrow> code_point (a - 0xF0) [b, c, d] < 0x110000"
proof -
  show "code_point (a - 0xC0) [b] < 0x110000" if "a < 0xE0" "cont_byte b"
  proof -
    have "a - 0xC0 < 32" using that(1) by simp
    from code_point_less [OF this cont_byte_less [OF that(2)]] show ?thesis by (simp add: code_point_def)
  qed
  show "code_point (a - 0xE0) [b, c] < 0x110000" if "a < 0xF0" "cont_byte b" "cont_byte c"
  proof -
    have "a - 0xE0 < 16" using that(1) by simp
    from code_point_less [OF this cont_byte_less [OF that(2)]]
    have "(a - 0xE0) * 64 + (b - 0x80) < 16 * 64" .
    from code_point_less [OF this cont_byte_less [OF that(3)]] show ?thesis by (simp add: code_point_def)
  qed
  show "code_point (a - 0xF0) [b, c, d] < 0x110000"
    if "a < 0xF5" "second_ok a b" "cont_byte c" "cont_byte d"
  proof -
    have "(a - 0xF0) * 64 + (b - 0x80) < 272"
    proof (cases "a = 0xF4")
      case True
      with that(2) show ?thesis by (auto simp: second_ok_def cont_byte_def)
    next
      case False
      with that(1) have "a - 0xF0 < 4" by simp
      with code_point_less [of "a - 0xF0" 4 b] cont_byte_less [of b] that(2) show ?thesis
        by (simp add: second_ok_def)
    qed
    from code_point_less [OF this cont_byte_less [OF that(3)]]
    have "((a - 0xF0) * 64 + (b - 0x80)) * 64 + (c - 0x80) < 272 * 64" .
    from code_point_less [OF this cont_byte_less [OF that(4)]] show ?thesis
      by (simp add: code_point_def)
  qed
qed

lemma second_ok_cont: "second_ok a b \<Longrightarrow> cont_byte b"
  by (simp add: second_ok_def)

lemma valid_str_Cons: "valid_str (c # s) \<longleftrightarrow> c < 0x110000 \<and> valid_str s"
  by (simp add: valid_str_def)

lemma utf8_replace_valid: "valid_str (utf8_replace bs)"
proof (induction "length bs" arbitrary: bs rule: less_induct)
  case less
  have rep: "REPLACEMENT < 0x110000" "valid_str []" by (simp_all add: REPLACEMENT_def valid_str_def)
  show ?case
  proof (cases bs)
    case (Cons a r)
    have IH: "valid_str (utf8_replace s)" if "length s \<le> length r" for s
      using less that Cons by simp
    show ?thesis
    proof (cases r)
      case Nil
      with Cons rep show ?thesis by (simp add: valid_str_Cons)
    next
      case r: (Cons b r1)
      note IH1 = IH [of r1] IH [of "b # r1"]
      show ?thesis
      proof (cases "second_ok a b \<and> 0xE0 \<le> a \<and> a < 0xF5")
        case False
        with Cons r rep IH1 decoded_bounds(1) [of a b] second_ok_cont [of a b] show ?thesis
          by (auto simp add: valid_str_Cons)
      next
        case True
        then have b: "cont_byte b" using second_ok_cont [of a b] by simp
        show ?thesis
        proof (cases r1)
          case Nil
          with True Cons r rep show ?thesis by (simp add: valid_str_Cons)
        next
          case r1: (Cons c r2)
          have IH2: "valid_str (utf8_replace r2)" using IH r r1 by simp
          show ?thesis
          proof (cases r2)
            case Nil
            with True Cons r r1 rep IH1 b decoded_bounds(2) [of a b c] show ?thesis
              by (auto simp: valid_str_Cons)
          next
            case r2: (Cons d r3)
            have "valid_str (utf8_replace r3)" using IH r r1 r2 by simp
            with True Cons r r1 r2 rep IH1 IH2 b decoded_bounds(2) [of a b c] decoded_bounds(3) [of a b c d]
            show ?thesis by (auto simp: valid_str_Cons)
          qed
        qed
      qed
    qed
  qed (simp add: rep)
qed

lemma unquote_valid: "valid_str s \<Longrightarrow> valid_str (unquote s)"
proof (induction s rule: unquote.induct)
  case (2 c s)
  have app: "valid_str (a @ b) \<longleftrightarrow> valid_str a \<and> valid_str b" for a b by (auto simp: valid_str_def)
  have "valid_str (dropWhile (\<lambda>x. x < 128) s)" "valid_str s" "c < 0x110000"
    using 2(3) by (auto simp: valid_str_def dest: set_dropWhileD)
  with 2(1,2) show ?case by (cases "c < 128") (simp_all add: app utf8_replace_valid valid_str_Cons del: utf8_replace.simps unquote_to_bytes.simps)
qed (simp add: valid_str_def)

lemma valid_subset: "valid_str s \<Longrightarrow> set w \<subseteq> set s \<Longrightarrow> valid_str w"
  unfolding valid_str_def by blast

lemma py_split_on_subset: "w \<in> set (py_split_on sep s) \<Longrightarrow> set w \<subseteq> set s"
proof (induction s arbitrary: w)
  case (Cons c s)
  obtain a ws where s: "py_split_on sep s = a # ws" using py_split_on_ne [of sep s] by (cases "py_split_on sep s") auto
  have "set a \<subseteq> set s" by (rule Cons.IH) (simp add: s)
  with Cons.prems Cons.IH [of w] s show ?case by (auto split: if_splits)
qed simp

lemma py_partition_subset: "py_partition sep s = (a, b, c) \<Longrightarrow> set a \<subseteq> set s \<and> set c \<subseteq> set s"
proof (induction s arbitrary: a b c)
  case (Cons x s)
  obtain a1 b1 c1 where p: "py_partition sep s = (a1, b1, c1)" by (cases "py_partition sep s") auto
  from Cons.IH [OF this] Cons.prems p show ?case by (auto split: if_splits)
qed simp

lemmas split_valid = valid_subset [OF _ py_split_on_subset]

lemma partition_valid: "valid_str s \<Longrightarrow> py_partition sep s = (a, b, c) \<Longrightarrow> valid_str a \<and> valid_str c"
  using py_partition_subset valid_subset by metis

definition valid_query :: "(pystr \<times> pystr) list \<Rightarrow> bool" where
  "valid_query q \<longleftrightarrow> (\<forall>(n, v) \<in> set q. valid_str n \<and> valid_str v)"

lemma plus_valid: "valid_str s \<Longrightarrow> valid_str (plus_to_space s)"
  by (auto simp: valid_str_def plus_to_space_def)

lemma parse_qsl_valid:
  assumes "valid_str s"
  shows "valid_query (parse_qsl s)"
proof -
  have "valid_str (fst (parse_pair w)) \<and> valid_str (snd (parse_pair w))" if "w \<in> set (py_split_on 38 s)" for w
    using partition_valid [OF split_valid [OF assms that]]
    by (auto simp: parse_pair_def unquote_valid plus_valid split: prod.splits)
  then show ?thesis by (fastforce simp: valid_query_def parse_qsl_def)
qed

lemma normalize_ascii: "all_ascii (normalize_node_string s) \<Longrightarrow> normalize_node_string s = s"
proof (induction s rule: normalize_node_string.induct)
  case (3 c d s)
  have "astral c d \<ge> 128" by (simp add: astral_def)
  with 3 show ?case by (auto simp: all_ascii_def split: if_splits)
qed (auto simp: all_ascii_def)

lemma ascii_no_surrogate: "all_ascii t \<Longrightarrow> \<forall>c \<in> set t. \<not> is_surrogate c"
  by (force simp: all_ascii_def is_surrogate_def)

lemma normalize_eq_ascii: "all_ascii t \<Longrightarrow> normalize_node_string s = t \<longleftrightarrow> s = t"
  using normalize_ascii [of s] normalize_id [OF ascii_no_surrogate, of t] by auto

lemma values_of_normalized:
  "all_ascii t \<Longrightarrow> values_of t (map normalize_pair q) = map normalize_node_string (values_of t q)"
  by (induction q) (auto simp: values_of_def normalize_pair_def normalize_eq_ascii)

lemma filter_normalized:
  assumes "\<And>s. P (normalize_node_string s) = P s"
  shows "filter (\<lambda>x. P (fst x)) (map normalize_pair q) = map normalize_pair (filter (\<lambda>x. P (fst x)) q)"
  by (induction q) (auto simp: normalize_pair_def assms)

lemma urlsplit_query_subset:
  assumes "urlsplit E url = Some p"
  shows "set (url_query p) \<subseteq> set url"
proof -
  obtain scheme rest where s: "split_scheme (strip_unsafe url) = (scheme, rest)" by (cases "split_scheme (strip_unsafe url)")
  obtain netloc rest2 where n: "split_netloc rest = (netloc, rest2)" by (cases "split_netloc rest")
  obtain rest3 m1 fragment where f: "py_partition 35 rest2 = (rest3, m1, fragment)" by (cases "py_partition 35 rest2") auto
  obtain path m2 query where q: "py_partition 63 rest3 = (path, m2, query)" by (cases "py_partition 63 rest3") auto
  from assms s n f q have "url_query p = query"
    by (auto simp: urlsplit_def split: if_splits)
  moreover have "set query \<subseteq> set rest2" using py_partition_subset [OF f] py_partition_subset [OF q] by blast
  moreover have "set rest2 \<subseteq> set rest"
    using n by (auto simp: split_netloc_def dest!: set_dropWhileD in_set_dropD split: if_splits)
  moreover have "set rest \<subseteq> set (strip_unsafe url)"
    using s py_partition_subset [of 58 "strip_unsafe url"] by (auto simp: split_scheme_def split: prod.splits if_splits)
  moreover have "set (strip_unsafe url) \<subseteq> set url"
    by (auto simp: strip_unsafe_def dest: set_dropWhileD)
  ultimately show ?thesis by blast
qed

lemmas urlsplit_query_valid = valid_subset [OF _ urlsplit_query_subset]

lemma set_param_valid: "valid_query q \<Longrightarrow> valid_str n \<Longrightarrow> valid_str v \<Longrightarrow> valid_query (set_param n v b q)"
  unfolding valid_query_def by (auto dest!: set_param_in)

lemma param_names: "all_ascii (lit ''code'')" "all_ascii (lit ''state'')" "lit ''code'' \<noteq> lit ''state''"
  by (simp_all add: all_ascii_def lit_def)

lemma lit_valid: "valid_str (lit s)"
  using str_ok_lit [of s] by (simp add: str_ok_def valid_str_def)

lemma values_other: "n \<noteq> m \<Longrightarrow> values_of n (set_param m v b q) = values_of n q"
  using set_param_others [of "\<lambda>x. x = n" m v b q] by (simp add: values_of_def)

text \<open>A redirect address carries the code exactly once. The address that is built is the registered one
  with a new query; reading that query back gives the code once under \<^verbatim>\<open>code\<close>, the caller state once
  under \<^verbatim>\<open>state\<close> when there is one, both as Node would write them, and every other parameter of the
  registered address unchanged and in order.\<close>

theorem redirect_carries_code:
  assumes "redirect_with_code E url code state = Inr r"
    and "valid_str url" "valid_str code" "\<forall>s. state = Some s \<longrightarrow> valid_str s"
  shows "\<exists>p q. urlsplit E url = Some p
    \<and> r = urlunsplit (p\<lparr>url_query := q\<rparr>) @ (if py_endswith url [35] then [35] else [])
    \<and> values_of (lit ''code'') (parse_qsl q) = [normalize_node_string code]
    \<and> (\<forall>s. state = Some s \<and> s \<noteq> [] \<longrightarrow> values_of (lit ''state'') (parse_qsl q) = [normalize_node_string s])
    \<and> filter (\<lambda>x. fst x \<noteq> lit ''code'' \<and> fst x \<noteq> lit ''state'') (parse_qsl q)
      = filter (\<lambda>x. fst x \<noteq> lit ''code'' \<and> fst x \<noteq> lit ''state'') (map normalize_pair (parse_qsl (url_query p)))"
proof -
  let ?st = "case state of None \<Rightarrow> [] | Some s \<Rightarrow> if s = [] then [] else [(lit ''state'', s)]"
  let ?set = "foldl (\<lambda>q (name, v). set_param name v False q)"
  let ?P = "\<lambda>x. x \<noteq> lit ''code'' \<and> x \<noteq> lit ''state''"
  from assms(1) obtain p where p: "urlsplit E url = Some p"
    and r: "r = urlunsplit (p\<lparr>url_query := form_encode_query (?set (parse_qsl (url_query p)) ((lit ''code'', code) # ?st))\<rparr>)
      @ (if py_endswith url [35] then [35] else [])"
    by (auto simp: redirect_with_code_def url_with_query_def Let_def simp del: foldl_Cons split: option.splits if_splits)
  define q0 where "q0 = parse_qsl (url_query p)"
  define q1 where "q1 = set_param (lit ''code'') code False q0"
  define q2 where "q2 = ?set q1 ?st"
  have v0: "valid_query q0" unfolding q0_def by (rule parse_qsl_valid [OF urlsplit_query_valid [OF assms(2) p]])
  have v2: "valid_query q2"
    using assms(3,4) v0 by (auto simp: q1_def q2_def set_param_valid lit_valid split: option.split)
  note ne = param_names(3)
  have read: "parse_qsl (form_encode_query q2) = map normalize_pair q2"
    using v2 by (intro form_query_roundtrip) (simp add: valid_query_def)
  have "values_of (lit ''code'') q2 = [code]"
    using ne by (auto simp: q2_def q1_def set_param_own values_other split: option.split)
  moreover have "values_of (lit ''state'') q2 = [s]" if "state = Some s" "s \<noteq> []" for s
    using that by (simp add: q2_def set_param_own)
  moreover have "filter (\<lambda>x. ?P (fst x)) q2 = filter (\<lambda>x. ?P (fst x)) q0"
    using set_param_others [of ?P "lit ''code''"] set_param_others [of ?P "lit ''state''"]
    by (simp add: q2_def q1_def split: option.split)
  moreover have "filter (\<lambda>x. ?P (fst x)) (map normalize_pair q) = map normalize_pair (filter (\<lambda>x. ?P (fst x)) q)" for q
    by (rule filter_normalized) (simp add: normalize_eq_ascii param_names(1,2))
  ultimately have "values_of (lit ''code'') (map normalize_pair q2) = [normalize_node_string code]"
    "\<forall>s. state = Some s \<and> s \<noteq> [] \<longrightarrow> values_of (lit ''state'') (map normalize_pair q2) = [normalize_node_string s]"
    "filter (\<lambda>x. ?P (fst x)) (map normalize_pair q2) = filter (\<lambda>x. ?P (fst x)) (map normalize_pair q0)"
    by (simp_all add: values_of_normalized param_names(1,2))
  moreover have "?set (parse_qsl (url_query p)) ((lit ''code'', code) # ?st) = q2"
    by (simp only: q2_def q1_def q0_def foldl_Cons prod.case)
  ultimately show ?thesis
    using p r by (intro exI [of _ p] exI [of _ "form_encode_query q2"] conjI) (simp_all only: read q0_def)
qed

lemma redirect_carries_code_witness:
  "let E = \<lparr>ue_nfkc = (\<lambda>s. s), ue_lower = (\<lambda>s. s), ue_ipv6 = (\<lambda>_. False)\<rparr>;
       r = redirect_with_code E (lit ''https://a.co/cb?x=1&code=old&code=older'') (lit ''C0de'') (Some (lit ''a b''))
   in r = Inr (lit ''https://a.co/cb?x=1&code=C0de&state=a+b'')
     \<and> (\<exists>q. values_of (lit ''code'') (parse_qsl q) = [normalize_node_string (lit ''C0de'')]
          \<and> values_of (lit ''state'') (parse_qsl q) = [normalize_node_string (lit ''a b'')])"
proof -
  let ?E = "\<lparr>ue_nfkc = (\<lambda>s. s), ue_lower = (\<lambda>s. s), ue_ipv6 = (\<lambda>_. False)\<rparr>"
  have run: "redirect_with_code ?E (lit ''https://a.co/cb?x=1&code=old&code=older'') (lit ''C0de'') (Some (lit ''a b''))
      = Inr (lit ''https://a.co/cb?x=1&code=C0de&state=a+b'')"
    by code_simp
  have "\<forall>s. Some (lit ''a b'') = Some s \<longrightarrow> valid_str s" "lit ''a b'' \<noteq> []"
    by (simp_all add: lit_valid)
  from redirect_carries_code [OF run lit_valid lit_valid this(1)] this(2) run show ?thesis
    unfolding Let_def by blast
qed

end
