(* ===== verification/Oauth_Providers.thy ===== *)
theory Oauth_Providers
  imports Redirect_Urls
begin

text \<open>
  The configuration half of \<^verbatim>\<open>infrastructure/oauth_providers.py\<close>: \<^verbatim>\<open>provider_config_for\<close> over the
  settings it reads, and \<^verbatim>\<open>authorization_url\<close>. The HTTP exchange of \<^verbatim>\<open>fetch_profile\<close> is a parameter of the
  services.
\<close>

record OAuthProviderConfig =
  opc_authorize_endpoint :: pystr
  opc_token_endpoint :: pystr
  opc_user_info_endpoint :: pystr
  opc_client_id :: pystr
  opc_client_secret :: pystr
  opc_redirect_uri :: pystr
  opc_scope :: pystr

text \<open>The settings of one provider, and the list of enabled ones.\<close>

record ProviderSettings =
  ps_client_id :: "pystr option"
  ps_client_secret :: "pystr option"
  ps_redirect_uri :: pystr

record OAuthSettings =
  os_enabled_providers :: "OAuthProvider list"
  os_google :: ProviderSettings
  os_naver :: ProviderSettings
  os_kakao :: ProviderSettings

definition OAuthProviderDisabledError :: exn where
  "OAuthProviderDisabledError = OAuthProviderConfigurationError (lit ''OAUTH_PROVIDER_DISABLED'')"

definition OAuthProviderMisconfiguredError :: exn where
  "OAuthProviderMisconfiguredError = OAuthProviderConfigurationError (lit ''OAUTH_PROVIDER_MISCONFIGURED'')"

definition required_setting :: "pystr option \<Rightarrow> exn + pystr" where
  "required_setting v = (case v of None \<Rightarrow> Inl OAuthProviderMisconfiguredError
     | Some s \<Rightarrow> if s = [] then Inl OAuthProviderMisconfiguredError else Inr s)"

definition configured :: "ProviderSettings \<Rightarrow> string \<Rightarrow> string \<Rightarrow> string \<Rightarrow> string \<Rightarrow> exn + OAuthProviderConfig" where
  "configured s authorize_endpoint token_endpoint user_info_endpoint scope =
     bindE (required_setting (ps_client_id s)) (\<lambda>client_id.
     bindE (required_setting (ps_client_secret s)) (\<lambda>client_secret.
     Inr \<lparr>opc_authorize_endpoint = lit authorize_endpoint, opc_token_endpoint = lit token_endpoint,
          opc_user_info_endpoint = lit user_info_endpoint, opc_client_id = client_id,
          opc_client_secret = client_secret, opc_redirect_uri = ps_redirect_uri s, opc_scope = lit scope\<rparr>))"

definition provider_config_for :: "OAuthSettings \<Rightarrow> OAuthProvider \<Rightarrow> exn + OAuthProviderConfig" where
  "provider_config_for settings provider =
     (if provider \<notin> set (os_enabled_providers settings) then Inl OAuthProviderDisabledError
      else (case provider of
        google \<Rightarrow> configured (os_google settings) ''https://accounts.google.com/o/oauth2/v2/auth''
          ''https://oauth2.googleapis.com/token'' ''https://openidconnect.googleapis.com/v1/userinfo''
          ''openid email profile''
      | naver \<Rightarrow> configured (os_naver settings) ''https://nid.naver.com/oauth2.0/authorize''
          ''https://nid.naver.com/oauth2.0/token'' ''https://openapi.naver.com/v1/nid/me''
          ''email profile''
      | kakao \<Rightarrow> configured (os_kakao settings) ''https://kauth.kakao.com/oauth/authorize''
          ''https://kauth.kakao.com/oauth/token'' ''https://kapi.kakao.com/v2/user/me''
          ''profile_nickname profile_image account_email''))"

definition authorization_url :: "url_env \<Rightarrow> OAuthProviderConfig \<Rightarrow> pystr \<Rightarrow> exn + pystr" where
  "authorization_url E config state =
     url_with_query E (opc_authorize_endpoint config)
       [(lit ''response_type'', lit ''code''), (lit ''client_id'', opc_client_id config),
        (lit ''redirect_uri'', opc_redirect_uri config), (lit ''scope'', opc_scope config),
        (lit ''state'', state)]"

end
