(* ===== verification/Auth_Service.thy ===== *)
theory Auth_Service
  imports Service_World Oauth_Providers
begin

text \<open>
  \<^verbatim>\<open>application/auth.py\<close>: \<^verbatim>\<open>Phase5AuthService\<close>, one definition per method, over the world of
  \<open>Service_World\<close>. A callback of \<^verbatim>\<open>Database.transaction\<close> is a definition of its own; the instants and
  random bytes it reads are drawn before it. The relying clients are the registered list, in which a
  later entry of a client id replaces an earlier one; the OAuth HTTP client is an identity (a number)
  and a fetch function.
\<close>

section \<open>Values\<close>

record RequestAuditContext =
  rac_ip_address :: "pystr option"
  rac_user_agent :: "pystr option"

record TokenPair =
  tp_access_token :: pystr
  tp_refresh_token :: pystr

record LoginInput =
  li_email :: pystr
  li_password :: pystr

record RegisterInput = LoginInput +
  ri_name :: "pystr option"

record OAuthStartInput =
  osi_client_id :: pystr
  osi_redirect_uri :: "pystr option"
  osi_caller_state :: "pystr option"
  osi_code_challenge :: "pystr option"
  osi_code_challenge_method :: "pystr option"

record AuthHandoffExchangeInput =
  hei_client_id :: pystr
  hei_redirect_uri :: pystr
  hei_code :: pystr
  hei_code_verifier :: pystr

record EmailVerificationResult =
  ever_user_id :: pystr
  ever_redirect_url :: "pystr option"

record RelyingClientPolicy =
  rcp_client_id :: pystr
  rcp_audience :: pystr
  rcp_allowed_redirect_uris :: "pystr list"
  rcp_default_role :: DefaultRole

record AuthService =
  as_tokens :: JwtTokenCodec
  as_password_policy :: PasswordPolicy
  as_default_audience :: pystr
  as_rate_limit_window_seconds :: int
  as_rate_limit_max_requests :: nat
  as_mail :: bool
  as_verification_url_base :: pystr
  as_password_reset_url_base :: pystr
  as_auth_clients :: "RelyingClientPolicy list"
  as_provider_config :: "(OAuthProvider \<Rightarrow> exn + OAuthProviderConfig) option"
  as_oauth_client :: "nat option"
  as_fetch_profile :: "nat \<Rightarrow> OAuthProvider \<Rightarrow> OAuthProviderConfig \<Rightarrow> pystr \<Rightarrow> exn + OAuthProfile"

definition sha :: "runtime \<Rightarrow> pystr \<Rightarrow> pystr" where
  "sha R = sha256_token (ae_sha256 (rt_env R))"

definition auth_client :: "AuthService \<Rightarrow> pystr \<Rightarrow> RelyingClientPolicy option" where
  "auth_client S client_id = find (\<lambda>c. rcp_client_id c = client_id) (rev (as_auth_clients S))"

text \<open>\<^verbatim>\<open>_current_user\<close> and \<^verbatim>\<open>_identity\<close>.\<close>

definition current_user_of :: "CurrentUserWithStatus \<Rightarrow> CurrentUser" where
  "current_user_of r = \<lparr>cu_id = cu_id r, cu_email = cu_email r, cu_email_verified = cu_email_verified r,
     cu_name = cu_name r, cu_roles = cu_roles r\<rparr>"

definition identity_of :: "CurrentUserWithStatus \<Rightarrow> AccessTokenIdentity" where
  "identity_of r = \<lparr>ati_user_id = cu_id r, ati_email = cu_email r, ati_name = cu_name r,
     ati_email_verified = cu_email_verified r,
     ati_roles = map (\<lambda>x. \<lparr>rc_service_key = role_service_key x, rc_name = role_name x\<rparr>) (cu_roles r)\<rparr>"

section \<open>The bound OAuth client\<close>

definition bind_oauth_client :: "nat \<Rightarrow> AuthService \<Rightarrow> exn + AuthService" where
  "bind_oauth_client client S =
     (if as_oauth_client S \<noteq> None \<and> as_oauth_client S \<noteq> Some client
      then Inl (RuntimeError (lit ''OAuth provider client is already bound''))
      else Inr (S\<lparr>as_oauth_client := Some client\<rparr>))"

definition unbind_oauth_client :: "nat option \<Rightarrow> AuthService \<Rightarrow> AuthService" where
  "unbind_oauth_client client S =
     (if client = None \<or> as_oauth_client S = client then S\<lparr>as_oauth_client := None\<rparr> else S)"

section \<open>Audit\<close>

definition audit_event ::
  "pystr \<Rightarrow> int \<Rightarrow> string \<Rightarrow> string \<Rightarrow> pystr option \<Rightarrow> RequestAuditContext \<Rightarrow> pystr option \<Rightarrow> pydict option \<Rightarrow>
   pystr option \<Rightarrow> AuditEventInsert" where
  "audit_event i created_at event_type outcome user_id context reason details provider =
     \<lparr>aei_id = i, aei_event_type = lit event_type, aei_outcome = lit outcome, aei_created_at = created_at,
      aei_user_id = user_id, aei_actor_user_id = None, aei_target_user_id = None, aei_provider = provider,
      aei_service_key = None, aei_ip_address = rac_ip_address context,
      aei_user_agent = rac_user_agent context, aei_reason_code = reason, aei_details_json = details\<rparr>"

definition write_audit ::
  "runtime \<Rightarrow> string \<Rightarrow> string \<Rightarrow> pystr option \<Rightarrow> RequestAuditContext \<Rightarrow> pystr option \<Rightarrow> pydict option \<Rightarrow>
   pystr option \<Rightarrow> (world, unit) act" where
  "write_audit R event_type outcome user_id context reason details provider =
     bindA (application_uuids R) (\<lambda>u.
     bindA (utc_now_ms R) (\<lambda>created_at.
     in_transaction (audit_create
       (audit_event (u 0) created_at event_type outcome user_id context reason details provider))))"

definition audit_login_failure ::
  "runtime \<Rightarrow> pystr option \<Rightarrow> PasswordAuthReason \<Rightarrow> RequestAuditContext \<Rightarrow> (world, unit) act" where
  "audit_login_failure R user_id reason context =
     write_audit R (if reason = ACCOUNT_LOCKED then ''lockout'' else ''login_failure'') ''failure'' user_id
       context (Some (reason_code reason)) None None"

definition audit_refresh_failure :: "runtime \<Rightarrow> RequestAuditContext \<Rightarrow> (world, unit) act" where
  "audit_refresh_failure R context =
     write_audit R ''refresh'' ''failure'' None context (Some (lit ''REFRESH_FAILED'')) None None"

section \<open>Rate limit\<close>

definition rate_limited_details :: "AuthService \<Rightarrow> pystr \<Rightarrow> pystr \<Rightarrow> pydict" where
  "rate_limited_details S route meth =
     [(lit ''route'', PStr route), (lit ''method'', PStr meth),
      (lit ''maxRequests'', PInt (int (as_rate_limit_max_requests S))),
      (lit ''windowSeconds'', PInt (as_rate_limit_window_seconds S)),
      (lit ''retryAfterSeconds'', PInt (as_rate_limit_window_seconds S))]"

definition enforce_rate_limit ::
  "AuthService \<Rightarrow> runtime \<Rightarrow> pystr \<Rightarrow> pystr \<Rightarrow> pystr \<Rightarrow> RequestAuditContext \<Rightarrow> (world, int option) act" where
  "enforce_rate_limit S R client_key route meth context =
     bindA (liftA (requireE (\<forall>c \<in> set (client_key @ route). \<not> is_surrogate c)
              (ValueError (lit ''surrogates not allowed'')))) (\<lambda>_.
     bindA (in_redis (redis_increment_with_ttl (rate_limit_key client_key route)
              (as_rate_limit_window_seconds S))) (\<lambda>count.
     if count \<le> as_rate_limit_max_requests S then retA None
     else bindA (write_audit R ''rate_limit_exceeded'' ''failure'' None context
                   (Some (lit ''RATE_LIMITED'')) (Some (rate_limited_details S route meth)) None)
            (\<lambda>_. retA (Some (as_rate_limit_window_seconds S)))))"

section \<open>Sessions\<close>

definition issue_pair_persist ::
  "AuthService \<Rightarrow> pystr \<Rightarrow> pystr \<Rightarrow> IssuedRefreshToken \<Rightarrow> pystr \<Rightarrow> int \<Rightarrow> int \<Rightarrow> (db, TokenPair option) tx" where
  "issue_pair_persist S user_id audience issued i created_at issued_at =
     bindT (issue_for_active_user user_id
              \<lparr>rti_id = i, rti_token_hash = irt_token_hash issued, rti_audience = audience,
               rti_expires_at = irt_expires_at issued, rti_created_at = created_at\<rparr>) (\<lambda>found.
     retT (map_option (\<lambda>user.
       \<lparr>tp_access_token = issue_access_token (as_tokens S) issued_at (identity_of user) (Some audience),
        tp_refresh_token = irt_token issued\<rparr>) found))"

definition unauthorized :: exn where
  "unauthorized = DomainError 401 (lit ''UNAUTHORIZED'') (lit ''Authentication is required'')"

definition issue_pair :: "AuthService \<Rightarrow> runtime \<Rightarrow> pystr \<Rightarrow> pystr \<Rightarrow> (world, TokenPair) act" where
  "issue_pair S R user_id audience =
     bindA (random_block R) (\<lambda>rnd.
     bindA (utc_now_ms R) (\<lambda>signed_at.
     let issued = issue_refresh_token (as_tokens S) signed_at (rnd 0) user_id (Some audience) in
     bindA (utc_now_ms R) (\<lambda>created_at.
     bindA (application_uuids R) (\<lambda>u.
     bindA (utc_now_ms R) (\<lambda>issued_at.
     bindA (in_transaction (issue_pair_persist S user_id audience issued (u 0) created_at issued_at)) (\<lambda>pair.
     case pair of None \<Rightarrow> raiseA unauthorized | Some p \<Rightarrow> retA p))))))"

definition current_user :: "AuthService \<Rightarrow> runtime \<Rightarrow> pystr \<Rightarrow> (world, CurrentUser) act" where
  "current_user S R access_token =
     bindA (utc_now_ms R) (\<lambda>now.
     case verify_access_token (as_tokens S) now access_token None of
       Inl e \<Rightarrow> raiseA (if e = TokenValidationError
                      then DomainError 401 (lit ''INVALID_TOKEN'') (lit ''Invalid token'') else e)
     | Inr claims \<Rightarrow>
         bindA (in_transaction (find_current_active (ati_user_id (atc_identity claims)))) (\<lambda>found.
         case found of None \<Rightarrow> raiseA unauthorized | Some user \<Rightarrow> retA (current_user_of user)))"

text \<open>The callback of \<^verbatim>\<open>refresh\<close>: the replacement is issued by the factory for the stored token's user and
  audience.\<close>

definition refresh_issue :: "AuthService \<Rightarrow> int \<Rightarrow> nat list \<Rightarrow> RefreshTokenRecord \<Rightarrow> IssuedRefreshToken" where
  "refresh_issue S signed_at random32 token_record =
     issue_refresh_token (as_tokens S) signed_at random32 (rtr_user_id token_record)
       (Some (rtr_audience token_record))"

definition refresh_rotate ::
  "AuthService \<Rightarrow> pystr \<Rightarrow> pystr \<Rightarrow> int \<Rightarrow> pystr \<Rightarrow> int \<Rightarrow> nat list \<Rightarrow> int \<Rightarrow>
   (db, CurrentUserWithStatus \<times> IssuedRefreshToken \<times> pystr) tx" where
  "refresh_rotate S old_hash audience now i signed_at random32 issued_at =
     bindT (rotate_token old_hash audience now None (Some (\<lambda>token_record.
        let issued = refresh_issue S signed_at random32 token_record in
        Inr \<lparr>rr_id = i, rr_token_hash = irt_token_hash issued, rr_expires_at = irt_expires_at issued,
             rr_created_at = now\<rparr>))) (\<lambda>rotated.
     case rotated of
       None \<Rightarrow> raiseT RefreshRotationConflict
     | Some token_record \<Rightarrow>
         bindT (find_current_active (rtr_user_id token_record)) (\<lambda>found.
         case found of
           None \<Rightarrow> raiseT RefreshRotationConflict
         | Some user \<Rightarrow>
             retT (user, refresh_issue S signed_at random32 token_record,
                   issue_access_token (as_tokens S) issued_at (identity_of user) (Some audience))))"

definition refresh_body ::
  "AuthService \<Rightarrow> runtime \<Rightarrow> pystr \<Rightarrow> RequestAuditContext \<Rightarrow> (world, TokenPair) act" where
  "refresh_body S R refresh_token context =
     bindA (utc_now_ms R) (\<lambda>verified_at.
     bindA (liftA (verify_refresh_token (as_tokens S) verified_at refresh_token None)) (\<lambda>claims.
     bindA (utc_now_ms R) (\<lambda>now.
     bindA (application_uuids R) (\<lambda>u.
     bindA (utc_now_ms R) (\<lambda>signed_at.
     bindA (random_block R) (\<lambda>rnd.
     bindA (utc_now_ms R) (\<lambda>issued_at.
     bindA (in_transaction (refresh_rotate S (sha R refresh_token) (rtc_audience claims) now (u 0) signed_at
              (rnd 0) issued_at)) (\<lambda>(user, issued_refresh, access_token).
     bindA (write_audit R ''refresh'' ''success'' (Some (cu_id user)) context None None None) (\<lambda>_.
     retA \<lparr>tp_access_token = access_token, tp_refresh_token = irt_token issued_refresh\<rparr>)))))))))"

definition invalid_refresh_token :: exn where
  "invalid_refresh_token = DomainError 401 (lit ''INVALID_REFRESH_TOKEN'') (lit ''Invalid refresh token'')"

definition refresh ::
  "AuthService \<Rightarrow> runtime \<Rightarrow> pystr \<Rightarrow> RequestAuditContext \<Rightarrow> (world, TokenPair) act" where
  "refresh S R refresh_token context =
     catchA (refresh_body S R refresh_token context) (\<lambda>e.
       bindA (audit_refresh_failure R context) (\<lambda>_.
       raiseA (if e = TokenValidationError \<or> e = RefreshRotationConflict then invalid_refresh_token else e)))"

definition logout :: "AuthService \<Rightarrow> runtime \<Rightarrow> pystr \<Rightarrow> RequestAuditContext \<Rightarrow> (world, unit) act" where
  "logout S R refresh_token context =
     bindA (utc_now_ms R) (\<lambda>now.
     bindA (in_transaction (logout_revoke (sha R refresh_token) now)) (\<lambda>user_id.
     write_audit R ''logout'' ''success'' user_id context None None None))"

section \<open>Registration and login\<close>

text \<open>\<^verbatim>\<open>AsyncPasswordHasher.hash_password\<close> draws a salt.\<close>

definition hash_new_password :: "runtime \<Rightarrow> pystr \<Rightarrow> (world, pystr) act" where
  "hash_new_password R password =
     (\<lambda>w. (hash_password (rt_argon_hash R (w_draws w)) password, w\<lparr>w_draws := w_draws w + 1\<rparr>))"

definition check_password :: "runtime \<Rightarrow> pystr \<Rightarrow> pystr \<Rightarrow> bool" where
  "check_password R password_hash password = verify_password (rt_argon_verify R) password_hash password"

definition register_mutate ::
  "runtime \<Rightarrow> (nat \<Rightarrow> pystr) \<Rightarrow> pystr \<Rightarrow> pystr option \<Rightarrow> pystr \<Rightarrow> int \<Rightarrow> (db, pystr \<times> pystr option) tx" where
  "register_mutate R u email name password_hash now =
     bindT (find_by_email email) (\<lambda>found.
     case found of
       Some existing \<Rightarrow>
         bindT (find_credential_by_email email) (\<lambda>credential.
         bindT (if credential = None \<and> cu_email_verified existing
                then upsert_pending_password (rt_lower R)
                  \<lparr>pend_id = u 0, pend_user_id = cu_id existing, pend_email = email,
                   pend_password_hash = password_hash,
                   pend_expires_at = now + PENDING_PASSWORD_CREDENTIAL_TTL, pend_created_at = now,
                   pend_updated_at = now\<rparr>
                else retT ()) (\<lambda>_.
         retT (cu_id existing, map_option pc_user_id credential)))
     | None \<Rightarrow>
         bindT (create_user_with_password (rt_lower R)
           \<lparr>reg_user_id = u 0, reg_credential_id = u 1, reg_email = email, reg_name = name,
            reg_password_hash = password_hash, reg_status = PENDING_EMAIL_VERIFICATION,
            reg_created_at = now, reg_updated_at = now\<rparr>) (\<lambda>_. retT (u 0, Some (u 0))))"

definition register ::
  "AuthService \<Rightarrow> runtime \<Rightarrow> RegisterInput \<Rightarrow> RequestAuditContext \<Rightarrow> (world, unit) act" where
  "register S R input context =
     (let email = normalize_email (rt_lower R) (li_email input) in
      bindA (liftA (assert_password_policy email (li_password input) (as_password_policy S))) (\<lambda>_.
      bindA (hash_new_password R (li_password input)) (\<lambda>password_hash.
      bindA (utc_now_ms R) (\<lambda>now.
      bindA (application_uuids R) (\<lambda>u.
      bindA (in_transaction (register_mutate R u email (ri_name input) password_hash now)) (\<lambda>(_, audit_user_id).
      write_audit R ''register_request'' ''request'' audit_user_id context None None None))))))"

definition client_for_handoff :: "AuthService \<Rightarrow> ClientHandoff \<Rightarrow> exn + RelyingClientPolicy" where
  "client_for_handoff S handoff =
     (case auth_client S (ch_client_id handoff) of
        None \<Rightarrow> Inl (DomainError 400 (lit ''INVALID_CLIENT_REDIRECT_URI'') (lit ''Invalid request''))
      | Some client \<Rightarrow>
          if ch_redirect_uri handoff \<notin> set (rcp_allowed_redirect_uris client)
             \<or> ch_audience handoff \<noteq> rcp_audience client
          then Inl (DomainError 400 (lit ''INVALID_CLIENT_REDIRECT_URI'') (lit ''Invalid request''))
          else Inr client)"

definition create_handoff :: "runtime \<Rightarrow> AuthHandoffCreateInput \<Rightarrow> (world, pystr) act" where
  "create_handoff R input =
     bindA (utc_now_ms R) (\<lambda>now.
     bindA (random_block R) (\<lambda>rnd. in_redis (handoff_create (rt_env R) redis_ops rnd now input)))"

text \<open>\<^verbatim>\<open>_create_persisted_password_handoff\<close>; \<^verbatim>\<open>login\<close> does the same with the client it validated.\<close>

definition create_persisted_password_handoff ::
  "runtime \<Rightarrow> pystr \<Rightarrow> ClientHandoff \<Rightarrow> (world, pystr) act" where
  "create_persisted_password_handoff R user_id handoff =
     bindA (create_handoff R
       \<lparr>hci_client_id = ch_client_id handoff, hci_audience = ch_audience handoff,
        hci_redirect_uri = ch_redirect_uri handoff, hci_user_id = user_id,
        hci_login_method = password_login_method, hci_code_challenge = ch_code_challenge handoff,
        hci_state = ch_state handoff, hci_provider = None\<rparr>) (\<lambda>code.
     liftA (redirect_with_code (ae_url (rt_env R)) (ch_redirect_uri handoff) code (ch_state handoff)))"

definition LOCKOUT_MS :: int where
  "LOCKOUT_MS = 15 * 60 * 1000"

definition FAILED_LOGIN_THRESHOLD :: int where
  "FAILED_LOGIN_THRESHOLD = 5"

definition login_mark_success :: "pystr \<Rightarrow> int \<Rightarrow> (db, CurrentUserWithStatus option) tx" where
  "login_mark_success user_id now =
     bindT (store_mark_login_success user_id now) (\<lambda>_. find_current user_id)"

datatype LoginResult = Pair TokenPair | Redirect pystr

text \<open>\<^verbatim>\<open>login\<close> up to the success audit: the checks, the failure counter and the failure audit.\<close>

definition login_user ::
  "runtime \<Rightarrow> LoginInput \<Rightarrow> RequestAuditContext \<Rightarrow> (world, CurrentUserWithStatus) act" where
  "login_user R input context =
     bindA (in_transaction (find_credential_by_email (normalize_email (rt_lower R) (li_email input)))) (\<lambda>credential.
     let password_hash = (case credential of Some c \<Rightarrow> pc_password_hash c | None \<Rightarrow> DUMMY_PASSWORD_HASH);
         verified = check_password R password_hash (li_password input) in
     bindA (utc_now_ms R) (\<lambda>now.
     let locked = is_locked credential now;
         user_id = map_option pc_user_id credential in
     if has_status credential PENDING_EMAIL_VERIFICATION \<and> verified \<and> \<not> locked
     then bindA (audit_login_failure R user_id EMAIL_VERIFICATION_REQUIRED context)
            (\<lambda>_. raiseA (PasswordAuthFailure user_id EMAIL_VERIFICATION_REQUIRED))
     else if \<not> (has_status credential ACTIVE \<and> \<not> locked \<and> verified)
     then bindA
            (case credential of
               Some c \<Rightarrow> if pc_user_status c = ACTIVE \<and> \<not> locked
                         then bindA (in_transaction (record_failure (pc_user_id c) (now + LOCKOUT_MS) now
                                      FAILED_LOGIN_THRESHOLD)) (\<lambda>_. retA ())
                         else retA ()
             | None \<Rightarrow> retA ()) (\<lambda>_.
          let reason = (if locked then ACCOUNT_LOCKED
                        else if has_status credential ACTIVE then INVALID_CREDENTIALS else USER_INACTIVE) in
          bindA (audit_login_failure R user_id reason context)
            (\<lambda>_. raiseA (PasswordAuthFailure user_id reason)))
     else (case credential of
             None \<Rightarrow> raiseA (RuntimeError (lit ''successful authentication lost its credential''))
           | Some c \<Rightarrow>
               bindA (in_transaction (login_mark_success (pc_user_id c) now)) (\<lambda>found.
               case found of
                 None \<Rightarrow> raiseA (DomainError 401 (lit ''INVALID_CREDENTIALS'') (lit ''Invalid email or password''))
               | Some user \<Rightarrow> retA user))))"

definition login ::
  "AuthService \<Rightarrow> runtime \<Rightarrow> LoginInput \<Rightarrow> RequestAuditContext \<Rightarrow> ClientHandoff option \<Rightarrow> (world, LoginResult) act" where
  "login S R input context handoff =
     bindA (liftA (case handoff of None \<Rightarrow> Inr None
              | Some h \<Rightarrow> bindE (client_for_handoff S h) (\<lambda>c. Inr (Some c)))) (\<lambda>validated_client.
     bindA (login_user R input context) (\<lambda>user.
     bindA (write_audit R ''login_success'' ''success'' (Some (cu_id user)) context None None None) (\<lambda>_.
     case handoff of
       Some h \<Rightarrow>
         (case validated_client of
            None \<Rightarrow> raiseA (AssertionError (lit ''validated handoff client was unexpectedly absent''))
          | Some client \<Rightarrow>
              bindA (create_handoff R
                \<lparr>hci_client_id = rcp_client_id client, hci_audience = rcp_audience client,
                 hci_redirect_uri = ch_redirect_uri h, hci_user_id = cu_id user,
                 hci_login_method = password_login_method, hci_code_challenge = ch_code_challenge h,
                 hci_state = ch_state h, hci_provider = None\<rparr>) (\<lambda>code.
              bindA (liftA (redirect_with_code (ae_url (rt_env R)) (ch_redirect_uri h) code (ch_state h)))
                (\<lambda>url. retA (Redirect url))))
     | None \<Rightarrow> bindA (issue_pair S R (cu_id user) (as_default_audience S)) (\<lambda>pair. retA (Pair pair)))))"

section \<open>Email verification\<close>

definition mailer :: "AuthService \<Rightarrow> exn + unit" where
  "mailer S = requireE (as_mail S) (RuntimeError (lit ''mail service is not configured''))"

text \<open>The token's link is built before the mail is sent; the arguments of the call are evaluated after the
  mailer is looked up.\<close>

definition send_link :: "AuthService \<Rightarrow> runtime \<Rightarrow> bool \<Rightarrow> pystr \<Rightarrow> pystr \<Rightarrow> pystr \<Rightarrow> (world, unit) act" where
  "send_link S R verification to_address base_url token =
     bindA (liftA (mailer S)) (\<lambda>_.
     bindA (liftA (url_with_token (ae_url (rt_env R)) base_url token)) (\<lambda>link.
     send_mail R \<lparr>ml_verification = verification, ml_to = to_address, ml_link = link\<rparr>))"

definition verification_handoff :: "AuthService \<Rightarrow> ClientHandoff option \<Rightarrow> exn + VerificationHandoff option" where
  "verification_handoff S handoff = (case handoff of None \<Rightarrow> Inr None
     | Some h \<Rightarrow> bindE (client_for_handoff S h) (\<lambda>client.
         Inr (Some \<lparr>vh_client_id = rcp_client_id client, vh_audience = rcp_audience client,
                    vh_redirect_uri = ch_redirect_uri h, vh_state = ch_state h,
                    vh_code_challenge = ch_code_challenge h\<rparr>)))"

definition request_email_verification ::
  "AuthService \<Rightarrow> runtime \<Rightarrow> pystr \<Rightarrow> RequestAuditContext \<Rightarrow> ClientHandoff option \<Rightarrow> (world, unit) act" where
  "request_email_verification S R email context handoff =
     bindA (liftA (verification_handoff S handoff)) (\<lambda>validated_handoff.
     bindA (utc_now_ms R) (\<lambda>now.
     bindA (in_transaction (find_eligible_user (normalize_email (rt_lower R) email) now)) (\<lambda>found.
     bindA (case found of
              Some user \<Rightarrow>
                if truthy (veu_email user)
                   \<and> (veu_status user = PENDING_EMAIL_VERIFICATION \<or> veu_has_pending_password_credential user)
                then bindA (random_block R) (\<lambda>rnd.
                     bindA (liftA (issue_verification_token (ae_sha256 (rt_env R)) now (rnd 0))) (\<lambda>issued.
                     bindA (application_uuids R) (\<lambda>u.
                     bindA (in_transaction (create_verification_token
                        \<lparr>evi_id = u 0, evi_user_id = veu_id user, evi_token_hash = it_token_hash issued,
                         evi_expires_at = it_expires_at issued, evi_created_at = now,
                         evi_handoff = validated_handoff\<rparr>)) (\<lambda>_.
                     send_link S R True (the (veu_email user)) (as_verification_url_base S) (it_value issued)))))
                else retA ()
            | None \<Rightarrow> retA ()) (\<lambda>_.
     write_audit R ''email_verification_request'' ''request'' (map_option veu_id found) context None None None))))"

record VerificationTokenRecord =
  vtr_token_id :: pystr
  vtr_user_id :: pystr
  vtr_expires_at :: int
  vtr_used_at :: "int option"
  vtr_handoff :: "ClientHandoff option"

record VerificationConfirmed =
  vc_user_id :: pystr
  vc_handoff :: "ClientHandoff option"

text \<open>The stored row as the domain record; its handoff is checked again when it is built.\<close>

definition domain_verification_record :: "EmailVerificationTokenRecord \<Rightarrow> exn + VerificationTokenRecord" where
  "domain_verification_record r =
     bindE (case evr_handoff r of None \<Rightarrow> Inr None
       | Some h \<Rightarrow> bindE (check_ClientHandoff
           \<lparr>ch_client_id = vh_client_id h, ch_audience = vh_audience h, ch_redirect_uri = vh_redirect_uri h,
            ch_state = vh_state h, ch_code_challenge = vh_code_challenge h\<rparr>) (\<lambda>c. Inr (Some c))) (\<lambda>handoff.
     Inr \<lparr>vtr_token_id = evr_id r, vtr_user_id = evr_user_id r, vtr_expires_at = evr_expires_at r,
          vtr_used_at = evr_used_at r, vtr_handoff = handoff\<rparr>)"

definition confirm_verification_record ::
  "VerificationTokenRecord option \<Rightarrow> int \<Rightarrow> pystr option \<Rightarrow> exn + VerificationConfirmed" where
  "confirm_verification_record r now activated_user_id =
     (case r of
        None \<Rightarrow> Inl InvalidVerificationTokenError
      | Some v \<Rightarrow>
          if vtr_used_at v \<noteq> None \<or> vtr_expires_at v \<le> now then Inl InvalidVerificationTokenError
          else (case activated_user_id of
                  None \<Rightarrow> Inl InvalidVerificationTokenError
                | Some i \<Rightarrow> Inr \<lparr>vc_user_id = i, vc_handoff = vtr_handoff v\<rparr>))"

definition verification_confirm_tx ::
  "runtime \<Rightarrow> (nat \<Rightarrow> pystr) \<Rightarrow> pystr \<Rightarrow> int \<Rightarrow> (db, VerificationTokenRecord \<times> pystr option) tx" where
  "verification_confirm_tx R u token now =
     bindT (find_verification_token (sha R token)) (\<lambda>found.
     case found of
       None \<Rightarrow> raiseT InvalidVerificationTokenError
     | Some row \<Rightarrow>
         bindT (liftT (domain_verification_record row)) (\<lambda>r.
         if vtr_used_at r \<noteq> None \<or> vtr_expires_at r \<le> now then raiseT InvalidVerificationTokenError
         else bindT (verification_confirm (rt_lower R) u (vtr_token_id r) (vtr_user_id r) now DEFAULT_ROLE)
                (\<lambda>activated. retT (r, activated))))"

definition confirm_email_verification ::
  "runtime \<Rightarrow> pystr \<Rightarrow> RequestAuditContext \<Rightarrow> (world, EmailVerificationResult) act" where
  "confirm_email_verification R token context =
     bindA (utc_now_ms R) (\<lambda>now.
     bindA (onErrorA
       (bindA (application_uuids R) (\<lambda>u.
        bindA (in_transaction (verification_confirm_tx R u token now)) (\<lambda>(r, activated).
        liftA (confirm_verification_record (Some r) now activated))))
       (\<lambda>_. write_audit R ''email_verification_confirm'' ''failure'' None context
               (Some (lit ''INVALID_VERIFICATION_TOKEN'')) None None)) (\<lambda>result.
     bindA (write_audit R ''email_verification_confirm'' ''success'' (Some (vc_user_id result)) context
              None None None) (\<lambda>_.
     case vc_handoff result of
       None \<Rightarrow> retA \<lparr>ever_user_id = vc_user_id result, ever_redirect_url = None\<rparr>
     | Some handoff \<Rightarrow>
         bindA (onErrorA (create_persisted_password_handoff R (vc_user_id result) handoff)
           (\<lambda>_. write_audit R ''email_verification_confirm'' ''failure'' (Some (vc_user_id result)) context
                   (Some (lit ''AUTH_HANDOFF_CREATE_FAILED'')) None None)) (\<lambda>url.
         retA \<lparr>ever_user_id = vc_user_id result, ever_redirect_url = Some url\<rparr>))))"

section \<open>Password reset\<close>

definition request_password_reset ::
  "AuthService \<Rightarrow> runtime \<Rightarrow> pystr \<Rightarrow> RequestAuditContext \<Rightarrow> (world, unit) act" where
  "request_password_reset S R email context =
     (let normalized = normalize_email (rt_lower R) email in
      bindA (in_transaction (find_active_reset_user normalized)) (\<lambda>found.
      bindA (case found of
               None \<Rightarrow> retA ()
             | Some user \<Rightarrow>
                 bindA (utc_now_ms R) (\<lambda>now.
                 bindA (random_block R) (\<lambda>rnd.
                 bindA (liftA (issue_password_reset_token (ae_sha256 (rt_env R)) now (rnd 0))) (\<lambda>issued.
                 bindA (application_uuids R) (\<lambda>u.
                 bindA (in_transaction (create_reset_token
                    \<lparr>pri_id = u 0, pri_user_id = pru_id user, pri_token_hash = it_token_hash issued,
                     pri_expires_at = it_expires_at issued, pri_created_at = now\<rparr>)) (\<lambda>_.
                 send_link S R False (pru_email user) (as_password_reset_url_base S) (it_value issued))))))) (\<lambda>_.
      bindA (in_transaction (find_credential_by_email normalized)) (\<lambda>audit_credential.
      write_audit R ''password_reset_request'' ''request'' (map_option pc_user_id audit_credential) context
        None None None))))"

definition service_confirm_password_reset ::
  "AuthService \<Rightarrow> runtime \<Rightarrow> pystr \<Rightarrow> pystr \<Rightarrow> RequestAuditContext \<Rightarrow> (world, pystr) act" where
  "service_confirm_password_reset S R token password context =
     bindA (onErrorA
       (bindA (liftA (assert_reset_password_policy (rt_lower R) [] password
                 \<lparr>min_length = min_length (as_password_policy S), allowed_email_domain = None\<rparr>)) (\<lambda>_.
        bindA (hash_new_password R password) (\<lambda>password_hash.
        bindA (utc_now_ms R) (\<lambda>now.
        bindA (in_transaction (reset_confirm (sha R token) password_hash now)) (\<lambda>user_id.
        liftA (confirm_password_reset user_id))))))
       (\<lambda>_. write_audit R ''password_reset_confirm'' ''failure'' None context
               (Some (lit ''INVALID_RESET_TOKEN'')) None None)) (\<lambda>user_id.
     bindA (write_audit R ''password_reset_confirm'' ''success'' (Some user_id) context None None None) (\<lambda>_.
     retA user_id))"

section \<open>Authorization handoffs\<close>

definition invalid_handoff_code :: exn where
  "invalid_handoff_code = DomainError 400 (lit ''INVALID_AUTH_HANDOFF_CODE'') (lit ''Invalid authorization code'')"

definition exchange_details :: "pystr \<Rightarrow> pydict" where
  "exchange_details client_id = [(lit ''route'', PStr (lit ''/auth/exchange'')), (lit ''clientId'', PStr client_id)]"

definition exchange_failure_code :: "exn \<Rightarrow> pystr" where
  "exchange_failure_code e = (case e of
     DomainError status code message \<Rightarrow> code
   | PasswordAuthFailure user_id r \<Rightarrow> fst (snd (PasswordAuthFailure_public r))
   | _ \<Rightarrow> lit ''AUTH_HANDOFF_EXCHANGE_FAILED'')"

definition consume_handoff ::
  "runtime \<Rightarrow> AuthHandoffExchangeInput \<Rightarrow> (world, StoredAuthHandoffMetadata option) act" where
  "consume_handoff R input =
     bindA (utc_now_ms R) (\<lambda>now. in_redis (handoff_consume (rt_env R) redis_ops now
       \<lparr>hco_client_id = hei_client_id input, hco_redirect_uri = hei_redirect_uri input,
        hco_code = hei_code input, hco_code_verifier = hei_code_verifier input\<rparr>))"

definition exchange_auth_handoff ::
  "AuthService \<Rightarrow> runtime \<Rightarrow> AuthHandoffExchangeInput \<Rightarrow> RequestAuditContext \<Rightarrow> (world, TokenPair) act" where
  "exchange_auth_handoff S R input context =
     bindA (consume_handoff R input) (\<lambda>consumed.
     case consumed of
       None \<Rightarrow>
         bindA (write_audit R ''auth_handoff_exchange_failure'' ''failure'' None context
                  (Some (lit ''INVALID_AUTH_HANDOFF_CODE'')) (Some (exchange_details (hei_client_id input))) None)
           (\<lambda>_. raiseA invalid_handoff_code)
     | Some handoff \<Rightarrow>
         onErrorA
           (bindA (issue_pair S R (sah_user_id handoff) (sah_audience handoff)) (\<lambda>pair.
            bindA (write_audit R ''auth_handoff_exchange_success'' ''success'' (Some (sah_user_id handoff)) context
                     None (Some (exchange_details (sah_client_id handoff)))
                     (map_option provider_value (sah_provider handoff))) (\<lambda>_.
            retA pair)))
           (\<lambda>e. write_audit R ''auth_handoff_exchange_failure'' ''failure'' (Some (sah_user_id handoff)) context
                   (Some (exchange_failure_code e)) (Some (exchange_details (sah_client_id handoff)))
                   (map_option provider_value (sah_provider handoff))))"

definition invalid_auth_handoff_exchange :: "runtime \<Rightarrow> RequestAuditContext \<Rightarrow> (world, unit) act" where
  "invalid_auth_handoff_exchange R context =
     bindA (write_audit R ''auth_handoff_exchange_failure'' ''failure'' None context
              (Some (lit ''INVALID_AUTH_HANDOFF_CODE'')) (Some [(lit ''route'', PStr (lit ''/auth/exchange''))]) None)
       (\<lambda>_. raiseA invalid_handoff_code)"

section \<open>OAuth\<close>

definition resolve_provider_config :: "AuthService \<Rightarrow> OAuthProvider \<Rightarrow> exn + OAuthProviderConfig" where
  "resolve_provider_config S provider =
     (case as_provider_config S of
        None \<Rightarrow> Inl (RuntimeError (lit ''OAuth provider configuration is not configured''))
      | Some resolver \<Rightarrow>
          (case resolver provider of
             Inr config \<Rightarrow> Inr config
           | Inl (OAuthProviderConfigurationError code) \<Rightarrow>
               Inl (if code = lit ''OAUTH_PROVIDER_DISABLED''
                    then DomainError 404 code (lit ''OAuth provider is disabled'')
                    else DomainError 500 code (lit ''OAuth provider is misconfigured''))
           | Inl e \<Rightarrow> Inl e))"

definition invalid_caller_state :: "pystr option \<Rightarrow> bool" where
  "invalid_caller_state s \<longleftrightarrow>
     (case s of None \<Rightarrow> False | Some c \<Rightarrow> c = [] \<or> MAX_CALLER_STATE_LENGTH < javascript_string_length c)"

definition invalid_start_pkce :: "pystr option \<Rightarrow> pystr option \<Rightarrow> bool" where
  "invalid_start_pkce challenge meth \<longleftrightarrow>
     (case challenge of None \<Rightarrow> True | Some c \<Rightarrow> \<not> PKCE_CHALLENGE_fullmatch c)
     \<or> meth \<notin> {None, Some (lit ''S256'')}"

definition chosen_redirect :: "RelyingClientPolicy \<Rightarrow> pystr option \<Rightarrow> pystr" where
  "chosen_redirect client requested =
     (if truthy requested then the requested else hd (rcp_allowed_redirect_uris client))"

definition oauth_start ::
  "AuthService \<Rightarrow> runtime \<Rightarrow> OAuthProvider \<Rightarrow> OAuthStartInput \<Rightarrow> (world, pystr) act" where
  "oauth_start S R provider input =
     bindA (liftA (resolve_provider_config S provider)) (\<lambda>config.
     case auth_client S (osi_client_id input) of
       None \<Rightarrow> raiseA (DomainError 400 (lit ''INVALID_OAUTH_CLIENT'') (lit ''Invalid OAuth client''))
     | Some client \<Rightarrow>
         let redirect_uri = chosen_redirect client (osi_redirect_uri input) in
         if redirect_uri \<notin> set (rcp_allowed_redirect_uris client)
         then raiseA (DomainError 400 (lit ''INVALID_REDIRECT_URI'') (lit ''Invalid redirect URI''))
         else if invalid_caller_state (osi_caller_state input)
                 \<or> invalid_start_pkce (osi_code_challenge input) (osi_code_challenge_method input)
         then raiseA (DomainError 400 (lit ''INVALID_OAUTH_REQUEST'') (lit ''Invalid OAuth request''))
         else
           bindA (random_block R) (\<lambda>rnd.
           bindA (in_redis (oauth_state_create (rt_env R) redis_ops rnd provider
              \<lparr>sm_client_id = rcp_client_id client, sm_redirect_uri = redirect_uri,
               sm_caller_state = osi_caller_state input, sm_code_challenge = osi_code_challenge input,
               sm_code_challenge_method = Some (lit ''S256'')\<rparr>)) (\<lambda>state.
           liftA (authorization_url (ae_url (rt_env R)) config state))))"

definition invalid_oauth_state :: exn where
  "invalid_oauth_state = DomainError 400 (lit ''INVALID_OAUTH_STATE'') (lit ''Invalid OAuth state'')"

definition oauth_resolve ::
  "runtime \<Rightarrow> (nat \<Rightarrow> pystr) \<Rightarrow> OAuthProfile \<Rightarrow> DefaultRole \<Rightarrow> int \<Rightarrow> (db, pystr) tx" where
  "oauth_resolve R u profile default_role now =
     bindT (find_by_provider_id (provider_value (op_provider profile)) (op_provider_user_id profile)) (\<lambda>existing.
     bindT (case existing of
              Some user \<Rightarrow> retT user
            | None \<Rightarrow> resolve_or_create (rt_lower R) u profile default_role now) (\<lambda>user.
     if our_status user \<noteq> ACTIVE then raiseT unauthorized else retT (our_id user)))"

text \<open>A unique violation of the resolving transaction means that another request linked the profile first:
  the canonical row is read outside it.\<close>

definition oauth_resolve_or_canonical ::
  "runtime \<Rightarrow> (nat \<Rightarrow> pystr) \<Rightarrow> OAuthProfile \<Rightarrow> DefaultRole \<Rightarrow> int \<Rightarrow> (world, pystr) act" where
  "oauth_resolve_or_canonical R u profile default_role now =
     catchA (in_transaction (oauth_resolve R u profile default_role now)) (\<lambda>e.
       if e \<noteq> UNIQUE_VIOLATION then raiseA e
       else bindA (in_transaction (find_by_provider_id (provider_value (op_provider profile))
                     (op_provider_user_id profile))) (\<lambda>canonical.
         case canonical of
           None \<Rightarrow> raiseA (DomainError 400 (lit ''OAUTH_PROVIDER_ERROR'') (lit ''OAuth provider returned an error''))
         | Some user \<Rightarrow>
             if our_status user \<noteq> ACTIVE
             then raiseA (DomainError 400 (lit ''OAUTH_PROVIDER_ERROR'') (lit ''OAuth provider returned an error''))
             else retA (our_id user)))"

definition fetched_profile :: "exn + OAuthProfile \<Rightarrow> exn + OAuthProfile" where
  "fetched_profile r = (case r of
     Inr profile \<Rightarrow> Inr profile
   | Inl OAuthProviderInvalidResponseError \<Rightarrow> Inl (DomainError 400 (lit ''INVALID_REQUEST'') (lit ''Invalid request''))
   | Inl OAuthProviderInfrastructureError \<Rightarrow>
       Inl (DomainError 500 (lit ''INTERNAL_SERVER_ERROR'') (lit ''Internal server error''))
   | Inl e \<Rightarrow> Inl e)"

definition oauth_sign_in ::
  "AuthService \<Rightarrow> runtime \<Rightarrow> OAuthProvider \<Rightarrow> RelyingClientPolicy \<Rightarrow> StateMetadata \<Rightarrow> OAuthProfile \<Rightarrow>
   RequestAuditContext \<Rightarrow> (world, pystr) act" where
  "oauth_sign_in S R provider client metadata profile context =
     bindA (utc_now_ms R) (\<lambda>now.
     bindA (application_uuids R) (\<lambda>u.
     bindA (oauth_resolve_or_canonical R u profile (rcp_default_role client) now) (\<lambda>user_id.
     bindA (write_audit R ''login_success'' ''success'' (Some user_id) context None None
              (Some (provider_value provider))) (\<lambda>_.
     bindA (create_handoff R
       \<lparr>hci_client_id = rcp_client_id client, hci_audience = rcp_audience client,
        hci_redirect_uri = sm_redirect_uri metadata, hci_user_id = user_id, hci_login_method = oauth,
        hci_code_challenge = the (sm_code_challenge metadata), hci_state = sm_caller_state metadata,
        hci_provider = Some provider\<rparr>) (\<lambda>code.
     liftA (redirect_with_code (ae_url (rt_env R)) (sm_redirect_uri metadata) code (sm_caller_state metadata)))))))"

definition oauth_callback ::
  "AuthService \<Rightarrow> runtime \<Rightarrow> OAuthProvider \<Rightarrow> pystr \<Rightarrow> pystr \<Rightarrow> RequestAuditContext \<Rightarrow> (world, pystr) act" where
  "oauth_callback S R provider code state context =
     (if code = [] then raiseA (DomainError 400 (lit ''MISSING_AUTHORIZATION_CODE'') (lit ''Authorization code is required''))
      else
        bindA (liftA (resolve_provider_config S provider)) (\<lambda>config.
        case as_oauth_client S of
          None \<Rightarrow> raiseA (DomainError 503 (lit ''OAUTH_PROVIDER_UNAVAILABLE'') (lit ''OAuth provider is unavailable''))
        | Some client_object \<Rightarrow>
            bindA (in_redis (oauth_state_consume (rt_env R) redis_ops provider state)) (\<lambda>consumed.
            case consumed of
              None \<Rightarrow> raiseA invalid_oauth_state
            | Some metadata \<Rightarrow>
                if sm_code_challenge metadata = None \<or> sm_code_challenge_method metadata \<noteq> Some (lit ''S256'')
                then raiseA invalid_oauth_state
                else (case auth_client S (sm_client_id metadata) of
                        None \<Rightarrow> raiseA invalid_oauth_state
                      | Some client \<Rightarrow>
                          bindA (liftA (fetched_profile (as_fetch_profile S client_object provider config code)))
                            (\<lambda>profile. oauth_sign_in S R provider client metadata profile context)))))"

definition oauth_provider_error :: "runtime \<Rightarrow> OAuthProvider \<Rightarrow> RequestAuditContext \<Rightarrow> (world, unit) act" where
  "oauth_provider_error R provider context =
     bindA (write_audit R ''login_failure'' ''failure'' None context (Some (lit ''OAUTH_PROVIDER_ERROR'')) None
              (Some (provider_value provider)))
       (\<lambda>_. raiseA (DomainError 400 (lit ''OAUTH_PROVIDER_ERROR'') (lit ''OAuth provider returned an error'')))"

section \<open>Every operation keeps the constraints\<close>

lemma keeps_auth_callbacks [keeps_intros]:
  "keepsT db_ok (issue_pair_persist S i au iss k c t)"
  "keepsT db_ok (refresh_rotate S h au n k s r t)"
  "keepsT db_ok (register_mutate R u e nm ph n)"
  "keepsT db_ok (login_mark_success i n)"
  "keepsT db_ok (verification_confirm_tx R u tk n)"
  "keepsT db_ok (oauth_resolve R u p dr n)"
  unfolding issue_pair_persist_def refresh_rotate_def register_mutate_def login_mark_success_def
    verification_confirm_tx_def oauth_resolve_def Let_def
  by (intro keeps_intros)+

lemma keepsA_write_audit [keepsA_intros]: "keepsA db_ok (write_audit R e o1 i c r d p)"
  unfolding write_audit_def by (intro keepsA_intros keeps_intros)

lemma keepsA_audit_failures [keepsA_intros]:
  "keepsA db_ok (audit_login_failure R i r c)"
  "keepsA db_ok (audit_refresh_failure R c)"
  unfolding audit_login_failure_def audit_refresh_failure_def by (intro keepsA_intros)+

lemma keepsA_hash [keepsA_intros]: "keepsA I (hash_new_password R p)"
  by (auto simp: keepsA_def hash_new_password_def)

lemma keepsA_let [keepsA_intros]: "keepsA I (f x) \<Longrightarrow> keepsA I (Let x f)"
  by simp

lemma keepsA_handoffs [keepsA_intros]:
  "keepsA I (create_handoff R i)"
  "keepsA I (create_persisted_password_handoff R k h)"
  "keepsA I (consume_handoff R x)"
  "keepsA I (send_link S R b t base tok)"
  unfolding create_handoff_def create_persisted_password_handoff_def consume_handoff_def send_link_def
  by (intro keepsA_intros)+

lemma keepsA_auth [keepsA_intros]:
  "keepsA db_ok (issue_pair S R i au)"
  "keepsA db_ok (refresh S R t c)"
  "keepsA db_ok (logout S R t c)"
  "keepsA db_ok (enforce_rate_limit S R k rt m c)"
  "keepsA db_ok (register S R ri c)"
  "keepsA db_ok (login_user R li c)"
  "keepsA db_ok (request_email_verification S R e c h)"
  "keepsA db_ok (confirm_email_verification R t c)"
  "keepsA db_ok (request_password_reset S R e c)"
  "keepsA db_ok (service_confirm_password_reset S R t pw c)"
  "keepsA db_ok (oauth_sign_in S R pr cl md pf c)"
  unfolding issue_pair_def refresh_def refresh_body_def logout_def enforce_rate_limit_def register_def
    login_user_def request_email_verification_def confirm_email_verification_def
    request_password_reset_def service_confirm_password_reset_def oauth_sign_in_def
    oauth_resolve_or_canonical_def
  by (intro keepsA_intros keeps_intros)+

lemma keepsA_sign_in [keepsA_intros]:
  "keepsA db_ok (login S R li c h)"
  "keepsA db_ok (exchange_auth_handoff S R x c)"
  "keepsA db_ok (oauth_callback S R pr code st c)"
  unfolding login_def exchange_auth_handoff_def oauth_callback_def
  by (intro keepsA_intros)+

end
