(* ===== verification/Login_Properties.thy ===== *)
theory Login_Properties
  imports Auth_Service
begin

text \<open>
  What a login through \<open>Auth_Service\<close> promises: it is the domain's \<^verbatim>\<open>login_with_password\<close> over the
  database plus its audit rows, its failures look alike from outside, and five failures lock the
  account for a quarter of an hour.
\<close>

section \<open>The service is the domain function over the database\<close>

text \<open>The store protocol of \<^verbatim>\<open>domain/auth.py\<close>, provided by transactions at the instant \<open>now\<close>.\<close>

definition service_password_ops :: "runtime \<Rightarrow> int \<Rightarrow> world PasswordAuthStoreOps" where
  "service_password_ops R now = \<lparr>
     op_find_user_by_email = (\<lambda>email.
       bindA (in_transaction (find_by_email email)) (\<lambda>r. retA (map_option current_user_of r))),
     op_create_user_with_password = (\<lambda>email name password_hash status.
       bindA (application_uuids R) (\<lambda>u.
       bindA (in_transaction (create_user_with_password (rt_lower R)
         \<lparr>reg_user_id = u 0, reg_credential_id = u 1, reg_email = email, reg_name = name,
          reg_password_hash = password_hash, reg_status = status, reg_created_at = now,
          reg_updated_at = now\<rparr>)) (\<lambda>_.
       retA \<lparr>cu_id = u 0, cu_email = Some email, cu_email_verified = False, cu_name = name, cu_roles = []\<rparr>))),
     op_create_pending_password_credential = (\<lambda>user_id email password_hash expires_at.
       bindA (application_uuids R) (\<lambda>u.
       in_transaction (upsert_pending_password (rt_lower R)
         \<lparr>pend_id = u 0, pend_user_id = user_id, pend_email = email, pend_password_hash = password_hash,
          pend_expires_at = expires_at, pend_created_at = now, pend_updated_at = now\<rparr>))),
     op_find_credential_by_email = (\<lambda>email. in_transaction (find_credential_by_email email)),
     op_mark_login_success = (\<lambda>i. in_transaction (store_mark_login_success i now)),
     op_mark_login_failure = (\<lambda>i.
       bindA (in_transaction (record_failure i (now + LOCKOUT_MS) now FAILED_LOGIN_THRESHOLD)) (\<lambda>_. retA ())),
     op_get_current_user = (\<lambda>i.
       bindA (in_transaction (find_current i)) (\<lambda>r. retA (map_option current_user_of r)))\<rparr>"

definition audited :: "runtime \<Rightarrow> RequestAuditContext \<Rightarrow> (world, 'a) act \<Rightarrow> (world, 'a) act" where
  "audited R context m = catchA m (\<lambda>e. case e of
     PasswordAuthFailure user_id r \<Rightarrow> bindA (audit_login_failure R user_id r context) (\<lambda>_. raiseA e)
   | _ \<Rightarrow> raiseA e)"

lemma in_transaction_read: "in_transaction (readT g) w = (Inr (g (w_db w)), w)"
  by (simp add: in_transaction_simps seq_simps)

lemma find_credential_read: "find_credential_by_email e d = Inr (r, d') \<Longrightarrow> d' = d"
  by (simp add: find_credential_by_email_def)

definition credential_at :: "pystr \<Rightarrow> db \<Rightarrow> PasswordCredentialRecord option" where
  "credential_at email d = fst (projr (find_credential_by_email email d))"

lemma in_transaction_credential:
  "in_transaction (find_credential_by_email e) w = (Inr (credential_at e (w_db w)), w)"
  by (simp add: credential_at_def find_credential_by_email_def in_transaction_read) (simp add: readT_def)

lemma in_transaction_mark:
  "in_transaction (login_mark_success i t) w
   = bindA (in_transaction (store_mark_login_success i t)) (\<lambda>_. in_transaction (find_current i)) w"
  by (auto simp: login_mark_success_def in_transaction_simps seq_simps find_current_def split: sum.split)

lemma failures_not_password: "record_failure i l t n d = Inl e \<Longrightarrow> \<not> (\<exists>u r. e = PasswordAuthFailure u r)"
  by (auto simp: record_failure_def increment_failures_def update_creds_def NUMERIC_OUT_OF_RANGE_def seq_simps
      split: if_splits option.splits sum.splits)

lemma mark_not_password: "store_mark_login_success i t d = Inl e \<Longrightarrow> \<not> (\<exists>u r. e = PasswordAuthFailure u r)"
  by (auto simp: store_mark_login_success_def update_creds_def require_one_def seq_simps split: if_splits)

lemma login_mark_not_password: "login_mark_success i t d = Inl e \<Longrightarrow> \<not> (\<exists>u r. e = PasswordAuthFailure u r)"
  by (auto simp: login_mark_success_def bindT_def readT_def find_current_def dest: mark_not_password split: sum.splits prod.splits)

lemma bindA_run: "bindA m f w = (case m w of (Inl e, w') \<Rightarrow> (Inl e, w') | (Inr a, w') \<Rightarrow> f a w')"
  by (simp add: bindA_def)

lemma audited_run: "audited R context m w = (case m w of (Inr a, w') \<Rightarrow> (Inr a, w')
    | (Inl e, w') \<Rightarrow> (case e of
        PasswordAuthFailure user_id r \<Rightarrow> bindA (audit_login_failure R user_id r context) (\<lambda>_. raiseA e) w'
      | _ \<Rightarrow> (Inl e, w')))"
  by (auto simp: audited_def catchA_def raiseA_def split: prod.split sum.split exn.split)

text \<open>The service logs in exactly as the domain says. \<^verbatim>\<open>Phase5AuthService.login\<close> repeats the decisions of
  \<^verbatim>\<open>login_with_password\<close> in its own words; for every input and every world the two give the same user
  or the same exception and leave the same world, once each \<^verbatim>\<open>PasswordAuthFailure\<close> of the domain function is
  given its audit row.\<close>

theorem login_matches_domain:
  "bindA (login_user R input context) (\<lambda>user. retA (current_user_of user)) =
   bindA (utc_now_ms R) (\<lambda>now. audited R context
     (login_with_password (service_password_ops R now) (check_password R) (rt_lower R) now
        (li_email input) (li_password input)))"
proof (rule ext)
  fix w :: world
  let ?c = "credential_at (normalize_email (rt_lower R) (li_email input)) (w_db w)"
  let ?w = "w\<lparr>w_ticks := w_ticks w + 1\<rparr>"
  note lhs = login_user_def bindA_run in_transaction_credential utc_now_ms_def
  show "bindA (login_user R input context) (\<lambda>user. retA (current_user_of user)) w =
    bindA (utc_now_ms R) (\<lambda>now. audited R context
     (login_with_password (service_password_ops R now) (check_password R) (rt_lower R) now
        (li_email input) (li_password input))) w"
  proof (cases ?c)
    case None
    then show ?thesis
      by (simp add: lhs login_with_password_def service_password_ops_def audited_run Let_def
          has_status_def is_locked_def failure_reason_def retA_def raiseA_def split: prod.split sum.split)
  next
    case (Some c)
    note simps = lhs login_with_password_def service_password_ops_def audited_run Let_def
      has_status_def credential_hash_def retA_def raiseA_def failure_reason_def Some
    let ?t = "rt_clock R (w_ticks w)"
    show ?thesis
    proof (cases "pc_user_status c = ACTIVE \<and> \<not> is_locked (Some c) ?t")
      case True
      show ?thesis
      proof (cases "check_password R (pc_password_hash c) (li_password input)")
        case ok: True
        obtain r w1 where m: "in_transaction (store_mark_login_success (pc_user_id c) ?t) ?w = (r, w1)"
          by (cases "in_transaction (store_mark_login_success (pc_user_id c) ?t) ?w")
        have "\<not> (\<exists>u q. e = PasswordAuthFailure u q)" if "r = Inl e" for e
          using m that by (auto simp: in_transaction_Inl dest!: mark_not_password)
        then show ?thesis using True ok m
          by (cases r) (auto simp: simps in_transaction_mark find_current_def in_transaction_read
              split: option.split exn.split)
      next
        case False
        obtain r w1 where m: "in_transaction (record_failure (pc_user_id c) (?t + LOCKOUT_MS) ?t FAILED_LOGIN_THRESHOLD) ?w = (r, w1)"
          by (cases "in_transaction (record_failure (pc_user_id c) (?t + LOCKOUT_MS) ?t FAILED_LOGIN_THRESHOLD) ?w")
        have "\<not> (\<exists>u q. e = PasswordAuthFailure u q)" if "r = Inl e" for e
          using m that by (auto simp: in_transaction_Inl dest!: failures_not_password)
        then show ?thesis using True False m
          by (cases r) (auto simp: simps split: prod.split sum.split exn.split)
      qed
    next
      case False
      then show ?thesis
        by (auto simp: simps split: prod.split sum.split)
    qed
  qed
qed

section \<open>Failures look alike\<close>

lemma write_audit_run: "write_audit R e o1 i c r d p w = (Inr u, w') \<Longrightarrow>
    \<exists>row. w_db w' = (w_db w)\<lparr>t_audits := t_audits (w_db w) @ [row]\<rparr> \<and> w_redis w' = w_redis w
      \<and> w_mail w' = w_mail w \<and> a_userId row = i \<and> a_eventType row = lit e \<and> a_outcome row = lit o1
      \<and> a_reasonCode row = r"
  by (auto simp: write_audit_def act_iffs audit_create_Inr audit_event_def)

lemma write_audit_fails: "write_audit R e o1 i c r d p w = (Inl x, w') \<Longrightarrow>
    w_db w' = w_db w \<and> w_redis w' = w_redis w \<and> w_mail w' = w_mail w \<and> (\<exists>s. x = DBAPIError s)"
  by (auto simp: write_audit_def bindA_Inl_iff act_iffs in_transaction_Inl dest: audit_create_Inl)

text \<open>The failing branches of the login, in one place.\<close>

definition refusal :: "PasswordCredentialRecord option \<Rightarrow> bool \<Rightarrow> int \<Rightarrow> PasswordAuthReason" where
  "refusal credential verified now =
     (if is_locked credential now then ACCOUNT_LOCKED
      else if has_status credential PENDING_EMAIL_VERIFICATION \<and> verified then EMAIL_VERIFICATION_REQUIRED
      else if has_status credential ACTIVE then INVALID_CREDENTIALS else USER_INACTIVE)"

definition credential_verified :: "runtime \<Rightarrow> PasswordCredentialRecord option \<Rightarrow> pystr \<Rightarrow> bool" where
  "credential_verified R credential password = check_password R (credential_hash credential) password"

lemma login_user_failure:
  assumes "login_user R input context w = (Inl (PasswordAuthFailure u r), w')"
  defines "c \<equiv> credential_at (normalize_email (rt_lower R) (li_email input)) (w_db w)"
  shows "u = map_option pc_user_id c
    \<and> r = refusal c (credential_verified R c (li_password input)) (rt_clock R (w_ticks w))"
proof -
  have audit: "x = PasswordAuthFailure u r \<Longrightarrow> write_audit R e o1 i k q d p v \<noteq> (Inl x, v')" for x e o1 i k q d p v v'
    using write_audit_fails [of R e o1 i k q d p v x v'] by auto
  have c: "credential_at (normalize_email (rt_lower R) (li_email input)) (w_db w) = c"
    by (simp add: c_def)
  show ?thesis
    using assms(1)
    by (cases c) (auto simp: login_user_def bindA_run in_transaction_credential c utc_now_ms_def Let_def
        audit_login_failure_def audit raiseA_def retA_def refusal_def credential_verified_def credential_hash_def
        has_status_def is_locked_def
        split: prod.splits sum.splits if_splits option.splits
        dest!: in_transaction_Inl [THEN iffD1] failures_not_password login_mark_not_password)
qed


section \<open>Lockout\<close>

text \<open>The abstract lock of an account: the failures since the last success and the end of the lock.\<close>

datatype attempt_answer = Accepted | Counted | Refused

definition lockout_step :: "int \<Rightarrow> bool \<Rightarrow> int \<times> int option \<Rightarrow> attempt_answer \<times> int \<times> int option" where
  "lockout_step now correct s = (case s of (failures, lock) \<Rightarrow>
     if (case lock of Some t \<Rightarrow> now < t | None \<Rightarrow> False) then (Refused, failures, lock)
     else if correct then (Accepted, 0, None)
     else (Counted, failures + 1,
       if FAILED_LOGIN_THRESHOLD \<le> failures + 1 then Some (now + LOCKOUT_MS) else lock))"

definition lock_state :: "PasswordCredentialRecord \<Rightarrow> int \<times> int option" where
  "lock_state c = (pc_failed_login_count c, pc_locked_until c)"

text \<open>The credential of a database that satisfies the constraints is one row and its user.\<close>

lemma credential_at_Some:
  assumes "credential_at e d = Some c"
  obtains row u where "row \<in> set (t_creds d)" "c_email row = e" "u \<in> set (t_users d)" "u_id u = c_userId row"
    "c = \<lparr>pc_user_id = c_userId row, pc_email = e, pc_password_hash = c_passwordHash row,
      pc_failed_login_count = c_failedLoginCount row, pc_locked_until = c_lockedUntil row,
      pc_user_status = u_status u\<rparr>"
  using assms by (auto simp: credential_at_def find_credential_by_email_def readT_def
      split: option.splits dest!: find_Some_set)

lemma credential_at_row:
  assumes ok: "db_ok d" and row: "row \<in> set (t_creds d)" "c_email row = e"
    and u: "u \<in> set (t_users d)" "u_id u = c_userId row"
  shows "credential_at e d = Some \<lparr>pc_user_id = c_userId row, pc_email = e, pc_password_hash = c_passwordHash row,
      pc_failed_login_count = c_failedLoginCount row, pc_locked_until = c_lockedUntil row,
      pc_user_status = u_status u\<rparr>"
proof -
  have "find (\<lambda>c. c_email c = e \<and> user_exists d (c_userId c)) (t_creds d) = Some row"
    by (rule find_unique [OF db_ok_distinct(3) [OF ok] row(1)])
      (use row u in \<open>auto simp: user_exists_def image_iff intro: bexI [of _ u]\<close>)
  moreover have "find (\<lambda>x. u_id x = c_userId row) (t_users d) = Some u"
    using find_by_key [OF db_ok_distinct(1) [OF ok] u(1)] u(2) by simp
  ultimately show ?thesis using row by (simp add: credential_at_def find_credential_by_email_def readT_def)
qed

text \<open>An update of the lock columns of one user shows in the credential and nowhere else.\<close>

lemma credential_at_update:
  assumes ok: "db_ok d" and c: "credential_at e d = Some c"
    and f: "\<And>x. c_userId (f x) = c_userId x" "\<And>x. c_email (f x) = c_email x"
      "\<And>x. c_passwordHash (f x) = c_passwordHash x" "\<And>x. c_id (f x) = c_id x"
      "\<And>x. (c_failedLoginCount (f x), c_lockedUntil (f x)) = g (c_failedLoginCount x, c_lockedUntil x)"
  shows "credential_at e (d\<lparr>t_creds := update_rows (\<lambda>x. c_userId x = pc_user_id c) f (t_creds d)\<rparr>)
    = Some (c\<lparr>pc_failed_login_count := fst (g (lock_state c)), pc_locked_until := snd (g (lock_state c))\<rparr>)"
proof -
  let ?d = "d\<lparr>t_creds := update_rows (\<lambda>x. c_userId x = pc_user_id c) f (t_creds d)\<rparr>"
  from c obtain row u where row: "row \<in> set (t_creds d)" "c_email row = e"
    and u: "u \<in> set (t_users d)" "u_id u = c_userId row"
    and eq: "c = \<lparr>pc_user_id = c_userId row, pc_email = e, pc_password_hash = c_passwordHash row,
      pc_failed_login_count = c_failedLoginCount row, pc_locked_until = c_lockedUntil row,
      pc_user_status = u_status u\<rparr>"
    by (rule credential_at_Some)
  have "keepsT db_ok (update_creds (\<lambda>x. c_userId x = pc_user_id c) f)"
    by (rule keeps_update_creds) (simp_all add: f)
  from keepsTD [OF this ok] have ok': "db_ok ?d" by (simp add: update_creds_def)
  have "f row \<in> set (t_creds ?d)" using row(1) eq by (auto simp: in_update_rows)
  from credential_at_row [OF ok' this, of e u] row u eq f(1-3) f(5) [of row, symmetric] show ?thesis
    by (simp add: lock_state_def)
qed

lemma credential_at_audits [simp]: "credential_at e (d\<lparr>t_audits := as\<rparr>) = credential_at e d"
  by (simp add: credential_at_def find_credential_by_email_def readT_def cong: option.case_cong)

lemma audit_ticks: "write_audit R e o1 i c r d p w = (x, w') \<Longrightarrow> w_ticks w' = w_ticks w + 1"
  by (auto simp: write_audit_def seq_simps application_uuids_def utc_now_ms_def split: sum.splits prod.splits)

lemma audit_credential: "write_audit R e o1 i c r d p w = (x, w') \<Longrightarrow> credential_at q (w_db w') = credential_at q (w_db w)"
  by (cases x) (auto dest: write_audit_fails write_audit_run)

lemma store_mark_success_effect:
  assumes ok: "db_ok d" and row: "row \<in> set (t_creds d)" "c_userId row = i"
  shows "store_mark_login_success i t d = Inr ((), d\<lparr>t_creds := update_rows (\<lambda>c. c_userId c = i)
    (\<lambda>c. c\<lparr>c_failedLoginCount := 0, c_lockedUntil := None, c_updatedAt := t\<rparr>) (t_creds d)\<rparr>)"
  using count_by_key [OF db_ok_distinct(2) [OF ok] row(1)] row(2)
  by (simp add: store_mark_login_success_def update_creds_def bindT_def require_one_def retT_def)

text \<open>The three outcomes of a login on the active account \<open>c\<close>.\<close>

lemma login_refused:
  assumes c: "credential_at e (w_db w) = Some c" and active: "pc_user_status c = ACTIVE"
    and e: "normalize_email (rt_lower R) (li_email input) = e"
    and locked: "is_locked (Some c) (rt_clock R (w_ticks w))"
    and run: "login_user R input context w = (r, w')"
  shows "credential_at e (w_db w') = Some c \<and> w_ticks w' = w_ticks w + 2 \<and> (\<exists>x. r = Inl x)"
proof -
  let ?w = "w\<lparr>w_ticks := w_ticks w + 1\<rparr>"
  obtain x v where a: "audit_login_failure R (Some (pc_user_id c)) ACCOUNT_LOCKED context ?w = (x, v)"
    by (cases "audit_login_failure R (Some (pc_user_id c)) ACCOUNT_LOCKED context ?w")
  have "w_ticks v = w_ticks w + 2" "credential_at e (w_db v) = Some c"
    using a audit_ticks [of R _ _ _ _ _ _ _ ?w x v] audit_credential [of R _ _ _ _ _ _ _ ?w x v e] c
    by (auto simp: audit_login_failure_def)
  moreover have "w' = v \<and> (\<exists>x. r = Inl x)"
    using run locked a active
    by (cases x) (auto simp: login_user_def bindA_run in_transaction_credential e c utc_now_ms_def has_status_def
        Let_def raiseA_def retA_def split: if_splits)
  ultimately show ?thesis by simp
qed

lemma login_counted:
  assumes ok: "db_ok (w_db w)" and c: "credential_at e (w_db w) = Some c" and active: "pc_user_status c = ACTIVE"
    and e: "normalize_email (rt_lower R) (li_email input) = e"
    and wrong: "\<not> check_password R (pc_password_hash c) (li_password input)"
    and small: "pc_failed_login_count c < INT4_MAX"
    and free: "\<not> is_locked (Some c) (rt_clock R (w_ticks w))"
    and run: "login_user R input context w = (r, w')"
  shows "credential_at e (w_db w') = Some (c\<lparr>pc_failed_login_count := pc_failed_login_count c + 1,
      pc_locked_until := if FAILED_LOGIN_THRESHOLD \<le> pc_failed_login_count c + 1
        then Some (rt_clock R (w_ticks w) + LOCKOUT_MS) else pc_locked_until c\<rparr>)
    \<and> w_ticks w' = w_ticks w + 2 \<and> (\<exists>x. r = Inl x)"
proof -
  let ?t = "rt_clock R (w_ticks w)"
  let ?w = "w\<lparr>w_ticks := w_ticks w + 1\<rparr>"
  let ?d = "(w_db w)\<lparr>t_creds := update_rows (\<lambda>x. c_userId x = pc_user_id c)
     (failed_once (?t + LOCKOUT_MS) ?t FAILED_LOGIN_THRESHOLD) (t_creds (w_db w))\<rparr>"
  let ?g = "\<lambda>(n, l). (n + 1, if FAILED_LOGIN_THRESHOLD \<le> n + 1 then Some (?t + LOCKOUT_MS) else l)"
  let ?v = "?w\<lparr>w_db := ?d\<rparr>"
  from c obtain row where row: "row \<in> set (t_creds (w_db w))" "c_userId row = pc_user_id c"
    "c_failedLoginCount row = pc_failed_login_count c"
    by (rule credential_at_Some) simp
  obtain res where "record_failure (pc_user_id c) (?t + LOCKOUT_MS) ?t FAILED_LOGIN_THRESHOLD (w_db w) = Inr (res, ?d)"
    using record_failure_effect [OF ok row(1,2)] small row(3) by (auto simp: FAILED_LOGIN_THRESHOLD_def)
  then have step: "in_transaction (record_failure (pc_user_id c) (?t + LOCKOUT_MS) ?t FAILED_LOGIN_THRESHOLD) ?w = (Inr res, ?v)"
    by (simp add: in_transaction_simps)
  obtain x v where a: "audit_login_failure R (Some (pc_user_id c)) INVALID_CREDENTIALS context ?v = (x, v)"
    by (cases "audit_login_failure R (Some (pc_user_id c)) INVALID_CREDENTIALS context ?v")
  have cred: "credential_at e ?d
      = Some (c\<lparr>pc_failed_login_count := fst (?g (lock_state c)), pc_locked_until := snd (?g (lock_state c))\<rparr>)"
    by (rule credential_at_update [OF ok c]) (simp_all add: failed_once_def)
  have "w_ticks v = w_ticks w + 2" "credential_at e (w_db v) = credential_at e ?d"
    using a audit_ticks [of R _ _ _ _ _ _ _ ?v x v] audit_credential [of R _ _ _ _ _ _ _ ?v x v e]
    by (auto simp: audit_login_failure_def)
  moreover have "w' = v \<and> (\<exists>x. r = Inl x)"
    using run free a wrong active step
    by (cases x) (auto simp: login_user_def bindA_run in_transaction_credential e c utc_now_ms_def has_status_def
        Let_def raiseA_def retA_def)
  ultimately show ?thesis using cred by (simp add: lock_state_def)
qed

lemma login_accepted:
  assumes ok: "db_ok (w_db w)" and c: "credential_at e (w_db w) = Some c" and active: "pc_user_status c = ACTIVE"
    and e: "normalize_email (rt_lower R) (li_email input) = e"
    and right: "check_password R (pc_password_hash c) (li_password input)"
    and free: "\<not> is_locked (Some c) (rt_clock R (w_ticks w))"
    and run: "login_user R input context w = (r, w')"
  shows "credential_at e (w_db w') = Some (c\<lparr>pc_failed_login_count := 0, pc_locked_until := None\<rparr>)
    \<and> (\<exists>user. r = Inr user \<and> cu_id user = pc_user_id c)"
proof -
  let ?t = "rt_clock R (w_ticks w)"
  let ?w = "w\<lparr>w_ticks := w_ticks w + 1\<rparr>"
  let ?f = "\<lambda>c. c\<lparr>c_failedLoginCount := 0, c_lockedUntil := None, c_updatedAt := ?t\<rparr>"
  let ?d = "(w_db w)\<lparr>t_creds := update_rows (\<lambda>x. c_userId x = pc_user_id c) ?f (t_creds (w_db w))\<rparr>"
  from c obtain row u where row: "row \<in> set (t_creds (w_db w))" "c_userId row = pc_user_id c"
    and u: "u \<in> set (t_users (w_db w))" "u_id u = pc_user_id c"
    by (rule credential_at_Some) simp
  have find: "find (\<lambda>x. u_id x = pc_user_id c) (t_users (w_db w)) = Some u"
    using find_by_key [OF db_ok_distinct(1) [OF ok] u(1)] u(2) by simp
  have step: "in_transaction (login_mark_success (pc_user_id c) ?t) ?w = (Inr (Some (with_roles u ?d)), ?w\<lparr>w_db := ?d\<rparr>)"
    using store_mark_success_effect [OF ok row] find
    by (simp add: in_transaction_simps login_mark_success_def find_current_def seq_simps)
  have "credential_at e ?d = Some (c\<lparr>pc_failed_login_count := 0, pc_locked_until := None\<rparr>)"
    using credential_at_update [OF ok c, of ?f "\<lambda>_. (0, None)"] by simp
  moreover have "w' = ?w\<lparr>w_db := ?d\<rparr> \<and> r = Inr (with_roles u ?d)"
    using run free right active step
    by (auto simp: login_user_def bindA_run in_transaction_credential e c utc_now_ms_def has_status_def
        Let_def raiseA_def retA_def)
  ultimately show ?thesis by (simp add: with_roles_def u(2))
qed

text \<open>C11. The lock of an account is the abstract one. On an active account, a login steps the stored failure
  counter and lock time exactly as \<open>lockout_step\<close> says, succeeds exactly when that accepts (and then for this
  account's user), and leaves the rest of the credential as it was.\<close>

theorem login_refines_lockout:
  assumes "db_ok (w_db w)" "credential_at e (w_db w) = Some c" "pc_user_status c = ACTIVE"
    and "normalize_email (rt_lower R) (li_email input) = e" "pc_failed_login_count c < INT4_MAX"
    and "login_user R input context w = (r, w')"
    and "lockout_step (rt_clock R (w_ticks w)) (check_password R (pc_password_hash c) (li_password input))
           (lock_state c) = (outcome, failures, lock)"
  shows "credential_at e (w_db w') = Some (c\<lparr>pc_failed_login_count := failures, pc_locked_until := lock\<rparr>)
    \<and> (outcome = Accepted \<longleftrightarrow> (\<exists>user. r = Inr user))
    \<and> (\<forall>user. r = Inr user \<longrightarrow> cu_id user = pc_user_id c)"
proof (cases "is_locked (Some c) (rt_clock R (w_ticks w))")
  case True
  with login_refused [OF assms(2-4) True assms(6)] assms(7) show ?thesis
    by (auto simp: lockout_step_def lock_state_def is_locked_def split: option.splits)
next
  case free: False
  show ?thesis
  proof (cases "check_password R (pc_password_hash c) (li_password input)")
    case True
    with login_accepted [OF assms(1-4) True free assms(6)] assms(7) free show ?thesis
      by (auto simp: lockout_step_def lock_state_def is_locked_def split: option.splits)
  next
    case False
    from login_counted [OF assms(1-4) False assms(5) free assms(6)] assms(7) free False show ?thesis
      by (auto simp: lockout_step_def lock_state_def is_locked_def split: option.splits if_splits)
  qed
qed

section \<open>Guessing\<close>

text \<open>A guess is checked when the account is active and not locked. \<open>checked_guesses\<close> runs logins one after
  the other and counts them.\<close>

definition guess_checked :: "runtime \<Rightarrow> LoginInput \<Rightarrow> world \<Rightarrow> bool" where
  "guess_checked R input w =
     (let credential = credential_at (normalize_email (rt_lower R) (li_email input)) (w_db w) in
      has_status credential ACTIVE \<and> \<not> is_locked credential (rt_clock R (w_ticks w)))"

fun checked_guesses :: "runtime \<Rightarrow> RequestAuditContext \<Rightarrow> LoginInput list \<Rightarrow> world \<Rightarrow> nat" where
  "checked_guesses R context [] w = 0"
| "checked_guesses R context (i # is) w =
     (if guess_checked R i w then 1 else 0) + checked_guesses R context is (snd (login_user R i context w))"

lemma keepsA_login_user_ok: "db_ok (w_db w) \<Longrightarrow> login_user R input context w = (r, w') \<Longrightarrow> db_ok (w_db w')"
  by (rule keepsAD [where I = db_ok]) (rule keepsA_auth)

text \<open>How many guesses a lock state still allows before \<open>horizon\<close>.\<close>

definition guesses_left :: "int \<Rightarrow> int \<times> int option \<Rightarrow> nat" where
  "guesses_left horizon s = (case s of (failures, lock) \<Rightarrow>
     if (case lock of Some t \<Rightarrow> horizon \<le> t | None \<Rightarrow> False) then 0
     else max 1 (nat (FAILED_LOGIN_THRESHOLD - failures)))"

lemma checked_guesses_left:
  assumes "db_ok (w_db w)" "credential_at e (w_db w) = Some c" "pc_user_status c = ACTIVE" "pc_password_hash c = h"
    and "pc_failed_login_count c + int (length is) \<le> INT4_MAX" "0 \<le> pc_failed_login_count c"
    and "\<And>i. i \<in> set is \<Longrightarrow> normalize_email (rt_lower R) (li_email i) = e \<and> \<not> check_password R h (li_password i)"
    and "\<And>k. w_ticks w \<le> k \<Longrightarrow> k < w_ticks w + 2 * length is \<Longrightarrow> start \<le> rt_clock R k \<and> rt_clock R k < start + LOCKOUT_MS"
  shows "checked_guesses R context is w \<le> guesses_left (start + LOCKOUT_MS) (lock_state c)"
  using assms
proof (induction "is" arbitrary: w c)
  case Nil
  then show ?case by simp
next
  case (Cons i "is")
  obtain r w' where run: "login_user R i context w = (r, w')" by (cases "login_user R i context w")
  have i: "normalize_email (rt_lower R) (li_email i) = e" "\<not> check_password R h (li_password i)"
    using Cons.prems(7) by auto
  note ok' = keepsA_login_user_ok [OF Cons.prems(1) run]
  have now: "start \<le> rt_clock R (w_ticks w)" "rt_clock R (w_ticks w) < start + LOCKOUT_MS"
    using Cons.prems(8) [of "w_ticks w"] by auto
  show ?case
  proof (cases "is_locked (Some c) (rt_clock R (w_ticks w))")
    case True
    have step: "credential_at e (w_db w') = Some c" "w_ticks w' = w_ticks w + 2"
      using login_refused [OF Cons.prems(2,3) i(1) True run] by auto
    have "checked_guesses R context is w' \<le> guesses_left (start + LOCKOUT_MS) (lock_state c)"
      by (rule Cons.IH [OF ok' step(1)]) (use Cons.prems step(2) in auto)
    then show ?thesis using True i(1) Cons.prems(2) run by (simp add: guess_checked_def Let_def)
  next
    case False
    let ?c = "c\<lparr>pc_failed_login_count := pc_failed_login_count c + 1,
      pc_locked_until := if FAILED_LOGIN_THRESHOLD \<le> pc_failed_login_count c + 1
        then Some (rt_clock R (w_ticks w) + LOCKOUT_MS) else pc_locked_until c\<rparr>"
    have step: "credential_at e (w_db w') = Some ?c" "w_ticks w' = w_ticks w + 2"
      using login_counted [OF Cons.prems(1-3) i(1) _ _ False run] Cons.prems(4,5) i(2) by auto
    have "checked_guesses R context is w' \<le> guesses_left (start + LOCKOUT_MS) (lock_state ?c)"
      by (rule Cons.IH [OF ok' step(1)]) (use Cons.prems step(2) in auto)
    moreover have "Suc (guesses_left (start + LOCKOUT_MS) (lock_state ?c)) \<le> guesses_left (start + LOCKOUT_MS) (lock_state c)"
      using False now
      by (auto simp: guesses_left_def lock_state_def is_locked_def FAILED_LOGIN_THRESHOLD_def split: option.splits)
    ultimately show ?thesis using i(1) Cons.prems(2,3) run by (simp add: guess_checked_def has_status_def)
  qed
qed


section \<open>The sample account\<close>

definition sample_login :: "pystr \<Rightarrow> LoginInput" where
  "sample_login password = \<lparr>li_email = lit ''a@b.co'', li_password = password\<rparr>"

definition sample_context :: RequestAuditContext where
  "sample_context = \<lparr>rac_ip_address = None, rac_user_agent = None\<rparr>"

definition sample_credential :: PasswordCredentialRecord where
  "sample_credential = \<lparr>pc_user_id = lit ''u1'', pc_email = lit ''a@b.co'', pc_password_hash = lit ''h'',
     pc_failed_login_count = 0, pc_locked_until = None, pc_user_status = ACTIVE\<rparr>"

definition sample_service :: AuthService where
  "sample_service = \<lparr>as_tokens = transparent_codec,
     as_password_policy = \<lparr>min_length = 12, allowed_email_domain = None\<rparr>,
     as_default_audience = lit ''temis'', as_rate_limit_window_seconds = 60, as_rate_limit_max_requests = 2,
     as_mail = True, as_verification_url_base = lit ''http://sso/v'', as_password_reset_url_base = lit ''http://sso/r'',
     as_auth_clients = [], as_provider_config = None, as_oauth_client = None,
     as_fetch_profile = (\<lambda>_ _ _ _. Inl OAuthProviderInfrastructureError)\<rparr>"

lemma sample_credential_at: "credential_at (lit ''a@b.co'') sample_admin_db = Some sample_credential"
  by code_simp

lemma sample_email: "normalize_email (rt_lower sample_runtime) (lit ''a@b.co'') = lit ''a@b.co''"
  by code_simp


lemma login_refines_lockout_witness:
  "credential_at (lit ''a@b.co'') (w_db (snd (login_user sample_runtime (sample_login (lit ''x'')) sample_context
      (sample_services sample_admin_db)))) = Some (sample_credential\<lparr>pc_failed_login_count := 1, pc_locked_until := None\<rparr>)"
proof -
  obtain r w' where run: "login_user sample_runtime (sample_login (lit ''x'')) sample_context
      (sample_services sample_admin_db) = (r, w')"
    by (cases "login_user sample_runtime (sample_login (lit ''x'')) sample_context (sample_services sample_admin_db)")
  have "lockout_step (rt_clock sample_runtime 0) (check_password sample_runtime (lit ''h'') (lit ''x''))
     (lock_state sample_credential) = (Counted, 1, None)"
    by code_simp
  with login_refines_lockout [OF _ _ _ _ _ run, of "lit ''a@b.co''" sample_credential Counted 1 None]
  have "credential_at (lit ''a@b.co'') (w_db w') = Some (sample_credential\<lparr>pc_failed_login_count := 1, pc_locked_until := None\<rparr>)"
    by (simp add: sample_login_def sample_email sample_services_def sample_credential_at sample_credential_def
        sample_admin_db_ok INT4_MAX_def)
  then show ?thesis by (simp add: run)
qed


end
