(* ===== verification/Suspension.thy ===== *)
theory Suspension
  imports Admin_Service Login_Properties
begin

text \<open>
  What suspending or deleting a user achieves, across the services: from the moment an administrator's
  status change commits until a status change lets the user back in, no operation of
  \<open>Auth_Service\<close> or \<open>Admin_Service\<close> opens a way back. \<open>shut_out\<close> is the state of the
  database in which the user has neither an active account nor a live session; every statement,
  transaction and operation keeps it, and in it every operation that hands out a token refuses.
\<close>

section \<open>The shut-out state\<close>

definition shut_out :: "pystr \<Rightarrow> db \<Rightarrow> bool" where
  "shut_out v d \<longleftrightarrow> db_ok d
     \<and> (\<exists>x \<in> set (t_users d). u_id x = v \<and> u_status x \<in> {SUSPENDED, DELETED})
     \<and> (\<forall>r \<in> set (t_refreshes d). r_userId r = v \<longrightarrow> r_revokedAt r \<noteq> None)"

lemma shut_out_ok: "shut_out v d \<Longrightarrow> db_ok d"
  by (simp add: shut_out_def)

lemma shut_out_row: "shut_out v d \<Longrightarrow> x \<in> set (t_users d) \<Longrightarrow> u_id x = v \<Longrightarrow> u_status x \<in> {SUSPENDED, DELETED}"
  using db_ok_distinct(1) distinct_map_key_eq by (fastforce simp: shut_out_def)

lemma shut_out_inactive: "shut_out v d \<Longrightarrow> \<not> is_active_user d v"
  using shut_out_row by (force simp: is_active_user_def)

abbreviation shut_user :: "pystr \<Rightarrow> db \<Rightarrow> bool" where
  "shut_user v d \<equiv> \<exists>x \<in> set (t_users d). u_id x = v \<and> u_status x \<in> {SUSPENDED, DELETED}"

abbreviation no_session :: "pystr \<Rightarrow> db \<Rightarrow> bool" where
  "no_session v d \<equiv> \<forall>r \<in> set (t_refreshes d). r_userId r = v \<longrightarrow> r_revokedAt r \<noteq> None"

lemma keeps_shutI:
  assumes "keepsT db_ok m"
    and "\<And>d a d'. shut_out v d \<Longrightarrow> m d = Inr (a, d') \<Longrightarrow> shut_user v d'"
    and "\<And>d a d'. shut_out v d \<Longrightarrow> m d = Inr (a, d') \<Longrightarrow> no_session v d'"
  shows "keepsT (shut_out v) m"
proof (rule keepsTI)
  fix d a d' assume s: "shut_out v d" and run: "m d = Inr (a, d')"
  from keepsTD [OF assms(1) shut_out_ok [OF s] run] assms(2,3) [OF s run] show "shut_out v d'"
    unfolding shut_out_def by (intro conjI)
qed

lemma keeps_shut_same:
  assumes "keepsT db_ok m"
    and "\<And>d a d'. m d = Inr (a, d') \<Longrightarrow> set (t_users d) \<subseteq> set (t_users d') \<and> t_refreshes d' = t_refreshes d"
  shows "keepsT (shut_out v) m"
proof (rule keeps_shutI [OF assms(1)])
  fix d a d' assume s: "shut_out v d" and run: "m d = Inr (a, d')"
  note eq = assms(2) [OF run]
  show "shut_user v d'" "no_session v d'" using s eq unfolding shut_out_def by (blast, simp)
qed

section \<open>Statements\<close>

lemma shut_inserts [keeps_intros]:
  "keepsT (shut_out v) (insert_user r1)"
  "keepsT (shut_out v) (insert_cred r2)"
  "keepsT (shut_out v) (insert_pending r3)"
  "keepsT (shut_out v) (insert_social r4)"
  "keepsT (shut_out v) (insert_verif r5)"
  "keepsT (shut_out v) (insert_reset r6)"
  "keepsT (shut_out v) (insert_audit r7)"
  "keepsT (shut_out v) (insert_role r8)"
  "keepsT (shut_out v) (insert_user_role r9)"
  by (rule keeps_shut_same, intro keeps_intros, force simp: insert_defs insert_user_def insert_role_def checked_Inr)+

lemma shut_inserts_if_absent [keeps_intros]:
  "keepsT (shut_out v) (insert_role_if_absent o1)"
  "keepsT (shut_out v) (insert_user_role_if_absent l)"
  by (simp_all add: insert_role_if_absent_def insert_user_role_if_absent_def keeps_intros)

lemma shut_insert_refresh: "r_userId r \<noteq> v \<Longrightarrow> keepsT (shut_out v) (insert_refresh r)"
  by (rule keeps_shutI, intro keeps_intros) (auto simp: insert_refresh_def checked_Inr shut_out_def)

lemma shut_updates:
  "keepsT db_ok (update_creds p1 f1) \<Longrightarrow> keepsT (shut_out v) (update_creds p1 f1)"
  "keepsT db_ok (update_verifs p2 f2) \<Longrightarrow> keepsT (shut_out v) (update_verifs p2 f2)"
  "keepsT db_ok (update_resets p3 f3) \<Longrightarrow> keepsT (shut_out v) (update_resets p3 f3)"
  by (erule keeps_shut_same, force simp: update_creds_def update_verifs_def update_resets_def)+

lemma shut_deletes [keeps_intros]:
  "keepsT (shut_out v) (delete_pendings p1)"
  "keepsT (shut_out v) (delete_audits p2)"
  "keepsT (shut_out v) (delete_user_roles p3)"
  by (rule keeps_shut_same, intro keeps_intros,
      force simp: delete_pendings_def delete_audits_def delete_user_roles_def)+

lemma shut_revoke [keeps_intros]:
  "keepsT (shut_out v) (update_refreshes p (\<lambda>r. r\<lparr>r_revokedAt := Some t\<rparr>))"
proof (rule keeps_shutI)
  show "keepsT db_ok (update_refreshes p (\<lambda>r. r\<lparr>r_revokedAt := Some t\<rparr>))"
    by (rule keeps_update_refreshes) simp_all
next
  fix d a d' assume s: "shut_out v d" and "update_refreshes p (\<lambda>r. r\<lparr>r_revokedAt := Some t\<rparr>) d = Inr (a, d')"
  then have d': "d' = d\<lparr>t_refreshes := update_rows p (\<lambda>r. r\<lparr>r_revokedAt := Some t\<rparr>) (t_refreshes d)\<rparr>"
    by (simp add: update_refreshes_Inr)
  show "shut_user v d'" using s by (simp add: d' shut_out_def)
  show "no_session v d'" using s by (simp add: d' shut_out_def ball_update_rows)
qed

lemma shut_delete_user: "i \<noteq> v \<Longrightarrow> keepsT (shut_out v) (delete_users (\<lambda>x. u_id x = i))"
  by (rule keeps_shutI, intro keeps_intros) (auto simp: delete_users_def Let_def shut_out_def)

lemma rename_all_same: "rename_all i i d = d"
proof -
  have same: "renamed i i = (\<lambda>j. j)" by (auto simp: renamed_def)
  show ?thesis by (simp add: rename_all_def same option.map_ident)
qed

lemma rename_id_same:
  assumes "rename_user_id i i d = Inr (a, d')"
  shows "d' = d"
  using assms by (cases "user_exists d i") (simp_all add: rename_user_id_def rename_all_same)

lemma rename_id_of_other:
  assumes "rename_user_id old new d = Inr (a, d')" "old \<noteq> v" "user_exists d v"
  shows "(\<forall>x \<in> set (t_users d). u_id x = v \<longrightarrow> x \<in> set (t_users d'))
    \<and> (\<forall>r \<in> set (t_refreshes d'). r_userId r = v \<longrightarrow> r \<in> set (t_refreshes d))"
proof (cases "new = old \<or> \<not> user_exists d old")
  case True
  have "d' = d"
  proof (cases "user_exists d old")
    case ex: True
    with \<open>new = old \<or> _\<close> assms(1) show ?thesis by (intro rename_id_same [of old d a]) simp
  next
    case False
    with assms(1) show ?thesis by (simp add: rename_user_id_def)
  qed
  then show ?thesis by simp
next
  case False
  with assms(1) have "new \<noteq> old" "\<not> user_exists d new" and d': "d' = rename_all old new d"
    by (simp_all add: rename_user_id_def split: if_splits)
  with assms(3) have "new \<noteq> v" by blast
  have same: "x\<lparr>u_id := renamed old new (u_id x)\<rparr> = x" if "u_id x = v" for x
    using that assms(2) by (cases x) (auto simp: renamed_def)
  have "x \<in> set (t_users d')" if "x \<in> set (t_users d)" "u_id x = v" for x
    unfolding d' rename_all_def
    by simp (rule rev_image_eqI [OF that(1)], simp add: same [OF that(2)])
  moreover have "r \<in> set (t_refreshes d)" if "r \<in> set (t_refreshes d')" "r_userId r = v" for r
  proof -
    from that obtain q where q: "q \<in> set (t_refreshes d)" "r = q\<lparr>r_userId := renamed old new (r_userId q)\<rparr>"
      by (auto simp: d' rename_all_def)
    with that \<open>new \<noteq> v\<close> have "r_userId q = v" by (auto simp: renamed_def split: if_splits)
    with assms(2) have "renamed old new (r_userId q) = r_userId q" by (simp add: renamed_def)
    with q(2) have "r = q" by simp
    with q(1) show ?thesis by simp
  qed
  ultimately show ?thesis by blast
qed

lemma shut_rename:
  assumes "old \<noteq> v"
  shows "keepsT (shut_out v) (rename_user_id old new)"
proof (rule keeps_shutI, intro keeps_intros)
  fix d a d' assume s: "shut_out v d" and run: "rename_user_id old new d = Inr (a, d')"
  have "user_exists d v" using s by (auto simp: shut_out_def user_exists_def)
  note other = rename_id_of_other [OF run assms this]
  show "shut_user v d'" using s other unfolding shut_out_def by blast
  show "no_session v d'" using s other unfolding shut_out_def by blast
qed

lemma shut_status:
  assumes "i \<noteq> v \<or> s \<in> {SUSPENDED, DELETED}"
  shows "keepsT (shut_out v) (update_user_status i s t)"
proof (rule keeps_shutI)
  show "keepsT db_ok (update_user_status i s t)" by (rule keeps_admin_mutations)
next
  fix d a d' assume ok: "shut_out v d" and run: "update_user_status i s t d = Inr (a, d')"
  have d': "d' = d\<lparr>t_users := update_rows (\<lambda>u. u_id u = i) (\<lambda>u. u\<lparr>u_status := s, u_updatedAt := t\<rparr>) (t_users d)\<rparr>"
    using update_user_status_run [OF run shut_out_ok [OF ok]] by blast
  from ok obtain x where x: "x \<in> set (t_users d)" "u_id x = v" "u_status x \<in> {SUSPENDED, DELETED}"
    by (auto simp: shut_out_def)
  show "shut_user v d'"
  proof (cases "i = v")
    case True
    have "x\<lparr>u_status := s, u_updatedAt := t\<rparr> \<in> set (t_users d')"
      using x True by (auto simp: d' set_update_rows)
    with True assms x(2) show ?thesis by (intro bexI [of _ "x\<lparr>u_status := s, u_updatedAt := t\<rparr>"]) auto
  next
    case False
    have "x \<in> set (t_users d')" using x False by (auto simp: d' set_update_rows)
    with x show ?thesis by blast
  qed
  show "no_session v d'" using ok by (simp add: d' shut_out_def)
qed

section \<open>Store operations\<close>

lemma shut_upsert_pending [keeps_intros]: "keepsT (shut_out v) (upsert_pending_password uni p)"
  by (rule keeps_shut_same, intro keeps_intros)
    (auto simp: upsert_pending_password_def Let_def inserted_Inr insert_defs checked_Inr split: if_splits)

lemma shut_increment [keeps_intros]: "keepsT (shut_out v) (increment_failures i t)"
  by (rule keeps_shut_same, intro keeps_intros)
    (auto simp: increment_failures_def update_creds_def split: if_splits)

lemma shut_cred_updates:
  "keepsT (shut_out v) (update_creds p (\<lambda>c. c\<lparr>c_failedLoginCount := n, c_lockedUntil := l, c_updatedAt := t\<rparr>))"
  "keepsT (shut_out v) (update_creds p (\<lambda>c. c\<lparr>c_lockedUntil := l, c_updatedAt := t\<rparr>))"
  "keepsT (shut_out v) (update_creds p (\<lambda>c. c\<lparr>c_passwordHash := h, c_failedLoginCount := n, c_lockedUntil := l,
     c_passwordUpdatedAt := t, c_updatedAt := t\<rparr>))"
  "keepsT (shut_out v) (update_verifs q (\<lambda>e. e\<lparr>e_usedAt := l\<rparr>))"
  "keepsT (shut_out v) (update_resets o1 (\<lambda>w. w\<lparr>w_usedAt := l\<rparr>))"
  by (rule shut_updates, rule keeps_update_creds keeps_update_verifs keeps_update_resets; simp)+

lemma shut_password_ops [keeps_intros]:
  "keepsT (shut_out v) (create_user_with_password uni reg)"
  "keepsT (shut_out v) (store_mark_login_success i t)"
  "keepsT (shut_out v) (record_failure i l t k)"
  "keepsT (shut_out v) (logout_revoke h t)"
  "keepsT (shut_out v) (revoke_all_refresh_tokens_for_user i t)"
  unfolding create_user_with_password_def store_mark_login_success_def record_failure_def logout_revoke_def
    revoke_all_refresh_tokens_for_user_def lock_user_for_refresh_token_revocation_def
  by (intro keeps_intros shut_cred_updates)+

lemma shut_token_ops [keeps_intros]:
  "keepsT (shut_out v) (create_verification_token vt)"
  "keepsT (shut_out v) (create_reset_token w)"
  "keepsT (shut_out v) (audit_create a)"
  "keepsT (shut_out v) (link_social i p e n t2 op)"
  "keepsT (shut_out v) (seed_temis_and_assign_default_role u i2 r)"
  "keepsT (shut_out v) (attach_pending u pd i t)"
  "keepsT (shut_out v) (reset_confirm h pw t)"
  unfolding create_verification_token_def create_reset_token_def audit_create_def link_social_def Let_def
    seed_temis_and_assign_default_role_def seed_role_def attach_pending_def reset_confirm_def
  by (intro keeps_intros shut_cred_updates)+

lemma shut_create_oauth [keeps_intros]: "keepsT (shut_out v) (create_oauth_user u p e r t)"
  unfolding create_oauth_user_def Let_def by (intro keeps_intros)

text \<open>The operations that read a user first: a row they act on is not the one shut out.\<close>

lemma keepsT_read_bind:
  assumes "\<And>d a d'. I d \<Longrightarrow> f (g d) d = Inr (a, d') \<Longrightarrow> I d'"
  shows "keepsT I (bindT (readT g) f)"
  by (rule keepsTI) (use assms in \<open>simp add: bindT_readT\<close>)

lemma shut_if_active:
  assumes "i \<noteq> v \<Longrightarrow> keepsT (shut_out v) m"
  shows "keepsT (shut_out v) (bindT (readT (\<lambda>d. is_active_user d i)) (\<lambda>locked. if \<not> locked then retT x else m))"
proof (rule keepsT_read_bind)
  fix d a d' assume s: "shut_out v d" and run: "(if \<not> is_active_user d i then retT x else m) d = Inr (a, d')"
  show "shut_out v d'"
  proof (cases "is_active_user d i")
    case True
    then have "i \<noteq> v" using shut_out_inactive [OF s] by blast
    from keepsTD [OF assms [OF this] s] run True show ?thesis by simp
  next
    case False
    with run s show ?thesis by simp
  qed
qed

lemma shut_issue [keeps_intros]: "keepsT (shut_out v) (issue_for_active_user i r)"
  unfolding issue_for_active_user_def by (intro shut_if_active keeps_intros shut_insert_refresh) simp

lemma shut_rotate [keeps_intros]: "keepsT (shut_out v) (rotate_token h au now repl factory)"
  unfolding rotate_token_def Let_def
  by (intro shut_if_active keeps_intros shut_insert_refresh) simp

lemma shut_activate: "u_id x \<noteq> v \<Longrightarrow> keepsT (shut_out v) (activate_user uni u x t dr)"
proof -
  assume x: "u_id x \<noteq> v"
  have "keepsT (shut_out v) (update_users (\<lambda>r. u_id r = u_id x \<and> u_status r = PENDING_EMAIL_VERIFICATION)
      (\<lambda>r. r\<lparr>u_status := ACTIVE, u_emailVerified := True, u_updatedAt := t\<rparr>))"
  proof (rule keeps_shutI, rule keeps_update_users)
    fix d a d' assume s: "shut_out v d" and "update_users (\<lambda>r. u_id r = u_id x \<and> u_status r = PENDING_EMAIL_VERIFICATION)
      (\<lambda>r. r\<lparr>u_status := ACTIVE, u_emailVerified := True, u_updatedAt := t\<rparr>) d = Inr (a, d')"
    then have d': "d' = d\<lparr>t_users := update_rows (\<lambda>r. u_id r = u_id x \<and> u_status r = PENDING_EMAIL_VERIFICATION)
      (\<lambda>r. r\<lparr>u_status := ACTIVE, u_emailVerified := True, u_updatedAt := t\<rparr>) (t_users d)\<rparr>"
      by (simp add: update_users_Inr)
    from s obtain y where y: "y \<in> set (t_users d)" "u_id y = v" "u_status y \<in> {SUSPENDED, DELETED}"
      by (auto simp: shut_out_def)
    with x have "y \<in> set (t_users d')" by (auto simp: d' in_update_rows)
    with y show "shut_user v d'" by blast
    show "no_session v d'" using s by (simp add: d' shut_out_def)
  qed simp_all
  then show ?thesis
    unfolding activate_user_def Let_def by (intro keeps_intros shut_rename x)
qed

lemma shut_verification [keeps_intros]: "keepsT (shut_out v) (verification_confirm uni u i n t r)"
  unfolding verification_confirm_def
proof (rule keepsT_read_bind)
  let ?user = "\<lambda>d. find (\<lambda>r. u_id r = n) (t_users d)"
  fix d a d' assume s: "shut_out v d"
  have ne: "u_id x \<noteq> v" if "?user d = Some x" "u_status x = PENDING_EMAIL_VERIFICATION" for x
    using find_Some_set [OF that(1)] that(2) shut_out_row [OF s, of x] by auto
  let ?rest = "\<lambda>pending. let can_activate = (case ?user d of None \<Rightarrow> False | Some r \<Rightarrow> u_status r = PENDING_EMAIL_VERIFICATION);
         can_attach = (case pending of None \<Rightarrow> False | Some p \<Rightarrow> t < p_expiresAt p)
     in
     if \<not> can_activate \<and> \<not> can_attach then retT None
     else bindT (update_verifs (consumable_verif i n t)
                   (\<lambda>e. e\<lparr>e_usedAt := Some t\<rparr>)) (\<lambda>consumed.
       if consumed \<noteq> 1 then retT None
       else if can_activate
       then (case ?user d of
               None \<Rightarrow> raiseT (AssertionError (lit ''activation eligibility unexpectedly lost its user''))
             | Some x \<Rightarrow> activate_user uni u x t r)
       else (case pending of
               None \<Rightarrow> retT None
             | Some p \<Rightarrow> attach_pending u p n t))"
  assume run: "bindT (readT (\<lambda>d. find (\<lambda>p. p_userId p = n) (t_pendings d))) ?rest d = Inr (a, d')"
  have "keepsT (shut_out v) (?rest pending)" for pending
    using ne by (cases "?user d"; simp add: Let_def cong: if_cong)
      (auto intro!: keeps_intros shut_cred_updates shut_activate)
  then have "keepsT (shut_out v) (bindT (readT (\<lambda>d. find (\<lambda>p. p_userId p = n) (t_pendings d))) ?rest)"
    by (intro keeps_intros)
  then show "shut_out v d'" by (rule keepsTD [where I = "shut_out v"]) (rule s, rule run)
qed

lemma shut_resolve [keeps_intros]: "keepsT (shut_out v) (resolve_or_create uni u p dr t)"
proof -
  have branch: "keepsT (shut_out v) (case e of
        None \<Rightarrow> create_oauth_user u p ne dr t
      | Some r \<Rightarrow>
          if u_status r = PENDING_EMAIL_VERIFICATION \<and> \<not> u_emailVerified r
          then bindT (delete_users (\<lambda>x. u_id x = u_id r)) (\<lambda>removed.
               bindT (require_one removed ''pending OAuth identity replacement delete'') (\<lambda>_.
               create_oauth_user u p ne dr t))
          else if u_status r = ACTIVE \<and> u_emailVerified r
          then bindT (link_social (u 0) p ne (u_id r) t ''OAuth identity attach'') (\<lambda>_. retT (oauth_record r))
          else create_oauth_user u p ne dr t)"
    if "\<And>r. e = Some r \<Longrightarrow> u_status r = PENDING_EMAIL_VERIFICATION \<Longrightarrow> u_id r \<noteq> v" for e ne
    using that by (cases e; simp cong: if_cong) (auto intro!: keeps_intros shut_delete_user)
  show ?thesis
    unfolding resolve_or_create_def Let_def
  proof (intro keepsT_read_bind)
    fix d a d' assume s: "shut_out v d"
      and run: "(case if truthy (map_option (normalize_email uni) (op_email p)) \<and> op_email_verified p
               then find (\<lambda>r. u_email r = map_option (normalize_email uni) (op_email p)) (t_users d) else None of
        None \<Rightarrow> create_oauth_user u p (map_option (normalize_email uni) (op_email p)) dr t
      | Some r \<Rightarrow>
          if u_status r = PENDING_EMAIL_VERIFICATION \<and> \<not> u_emailVerified r
          then bindT (delete_users (\<lambda>x. u_id x = u_id r)) (\<lambda>removed.
               bindT (require_one removed ''pending OAuth identity replacement delete'') (\<lambda>_.
               create_oauth_user u p (map_option (normalize_email uni) (op_email p)) dr t))
          else if u_status r = ACTIVE \<and> u_emailVerified r
          then bindT (link_social (u 0) p (map_option (normalize_email uni) (op_email p)) (u_id r) t
                 ''OAuth identity attach'') (\<lambda>_. retT (oauth_record r))
          else create_oauth_user u p (map_option (normalize_email uni) (op_email p)) dr t) d = Inr (a, d')"
    have "u_id r \<noteq> v" if "r \<in> set (t_users d)" "u_status r = PENDING_EMAIL_VERIFICATION" for r
      using shut_out_row [OF s that(1)] that(2) by auto
    then show "shut_out v d'"
      by (intro keepsTD [where I = "shut_out v", OF branch s run]) (auto split: if_splits dest!: find_Some_set)
  qed
qed

lemma shut_admin_ops [keeps_intros]:
  "keepsT (shut_out v) (upsert_role i k nm)"
  "keepsT (shut_out v) (assign_role_to_user i j r)"
  "keepsT (shut_out v) (remove_role_from_user j r)"
  "keepsT (shut_out v) (create_admin_audit_log i e t)"
  "keepsT (shut_out v) (retention_cleanup t days ex)"
  by (simp_all add: upsert_role_def assign_role_to_user_def remove_role_from_user_def find_role_def
      create_admin_audit_log_def retention_cleanup_def delete_older_than_def count_older_than_def keeps_intros)

section \<open>Service operations\<close>

lemma keepsA_case_sum [keepsA_intros]:
  "(\<And>e. keepsA I (f e)) \<Longrightarrow> (\<And>a. keepsA I (g a)) \<Longrightarrow> keepsA I (case_sum f g r)"
  by (cases r) auto

lemma shut_write_audit [keepsA_intros]: "keepsA (shut_out v) (write_audit R e o1 i c r d p)"
  unfolding write_audit_def by (intro keepsA_intros keeps_intros)

lemma shut_audit_failures [keepsA_intros]:
  "keepsA (shut_out v) (audit_login_failure R i r c)"
  "keepsA (shut_out v) (audit_refresh_failure R c)"
  unfolding audit_login_failure_def audit_refresh_failure_def by (intro keepsA_intros)+

lemma shut_callbacks [keeps_intros]:
  "keepsT (shut_out v) (issue_pair_persist S i au iss k c t)"
  "keepsT (shut_out v) (refresh_rotate S h au n k s r t)"
  "keepsT (shut_out v) (register_mutate R u e nm ph n)"
  "keepsT (shut_out v) (login_mark_success i n)"
  "keepsT (shut_out v) (verification_confirm_tx R u tk n)"
  "keepsT (shut_out v) (oauth_resolve R u p dr n)"
  unfolding issue_pair_persist_def refresh_rotate_def register_mutate_def login_mark_success_def
    verification_confirm_tx_def oauth_resolve_def Let_def
  by (intro keeps_intros)+

lemma shut_auth [keepsA_intros]:
  "keepsA (shut_out v) (issue_pair S R i au)"
  "keepsA (shut_out v) (current_user S R at)"
  "keepsA (shut_out v) (refresh S R t c)"
  "keepsA (shut_out v) (logout S R t c)"
  "keepsA (shut_out v) (enforce_rate_limit S R k rt m c)"
  "keepsA (shut_out v) (register S R ri c)"
  "keepsA (shut_out v) (login_user R li c)"
  "keepsA (shut_out v) (request_email_verification S R e c h)"
  "keepsA (shut_out v) (confirm_email_verification R t c)"
  "keepsA (shut_out v) (request_password_reset S R e c)"
  "keepsA (shut_out v) (service_confirm_password_reset S R t pw c)"
  "keepsA (shut_out v) (oauth_sign_in S R pr cl md pf c)"
  unfolding issue_pair_def current_user_def refresh_def refresh_body_def logout_def enforce_rate_limit_def register_def
    login_user_def request_email_verification_def confirm_email_verification_def
    request_password_reset_def service_confirm_password_reset_def oauth_sign_in_def
    oauth_resolve_or_canonical_def
  by (intro keepsA_intros keeps_intros)+

lemma shut_sign_in [keepsA_intros]:
  "keepsA (shut_out v) (login S R li c h)"
  "keepsA (shut_out v) (exchange_auth_handoff S R x c)"
  "keepsA (shut_out v) (invalid_auth_handoff_exchange R c)"
  "keepsA (shut_out v) (oauth_start S R pr oi)"
  "keepsA (shut_out v) (oauth_callback S R pr code st c)"
  "keepsA (shut_out v) (oauth_provider_error R pr c)"
  unfolding login_def exchange_auth_handoff_def invalid_auth_handoff_exchange_def oauth_start_def
    oauth_callback_def oauth_provider_error_def Let_def
  by (intro keepsA_intros)+

lemma shut_admin [keepsA_intros]:
  "keepsA (shut_out v) (authorize_admin R i rt m)"
  "keepsA (shut_out v) (authenticate_admin R C t rt m)"
  "keepsA (shut_out v) (assign_role R a i k n rs de)"
  "keepsA (shut_out v) (remove_role R a i k n rs de nw)"
  "keepsA (shut_out v) (revoke_sessions R a i rs de nw)"
  "keepsA (shut_out v) (cleanup_audit_logs R ex nw days)"
  unfolding authorize_admin_def authenticate_admin_def assign_role_def assign_role_mutate_def remove_role_def
    remove_role_mutate_def revoke_sessions_def revoke_sessions_mutate_def cleanup_audit_logs_def
    record_mutation_audit_def is_active_temis_admin_def find_role_def
  by (intro keepsA_intros keepsA_now_or_clock keeps_intros)+

lemma shut_set_user_status:
  assumes "i \<noteq> v \<or> (\<forall>s. UserStatus_of st = Some s \<longrightarrow> s \<in> {SUSPENDED, DELETED})"
  shows "keepsA (shut_out v) (set_user_status R a i st rs de nw)"
proof -
  have "keepsT (shut_out v) (set_user_status_mutate u a i s rs sn t)" if "UserStatus_of st = Some s" for u s sn t
    unfolding set_user_status_mutate_def record_mutation_audit_def
    by (intro keeps_intros shut_status) (use assms that in blast)
  then have *: "keepsA (shut_out v) (in_transaction (set_user_status_mutate u a i s rs sn t))"
    if "parse_user_status st = Inr s" for u s sn t
    using that by (intro keepsA_intros) (auto simp: parse_user_status_def split: option.splits)
  show ?thesis
    unfolding set_user_status_def
    by (rule keepsA_bind, rule keepsA_simple, rule keepsA_checked) (intro keepsA_intros keepsA_now_or_clock *)
qed

section \<open>Executions\<close>

datatype service_event = Request | StatusChange pystr UserStatus

text \<open>One request, answered or refused. The first rule is everything that happens outside the database:
  time, mail and Redis.\<close>

inductive service_step :: "AuthService \<Rightarrow> runtime \<Rightarrow> world \<Rightarrow> service_event \<Rightarrow> world \<Rightarrow> bool" where
  "w_db w' = w_db w \<Longrightarrow> service_step S R w Request w'"
| "enforce_rate_limit S R k rt m c w = (r1, w') \<Longrightarrow> service_step S R w Request w'"
| "register S R ri c w = (r2, w') \<Longrightarrow> service_step S R w Request w'"
| "login S R li c h w = (r3, w') \<Longrightarrow> service_step S R w Request w'"
| "refresh S R t c w = (r4, w') \<Longrightarrow> service_step S R w Request w'"
| "logout S R t c w = (r5, w') \<Longrightarrow> service_step S R w Request w'"
| "current_user S R t w = (r6, w') \<Longrightarrow> service_step S R w Request w'"
| "request_email_verification S R e c h w = (r7, w') \<Longrightarrow> service_step S R w Request w'"
| "confirm_email_verification R t c w = (r8, w') \<Longrightarrow> service_step S R w Request w'"
| "request_password_reset S R e c w = (r9, w') \<Longrightarrow> service_step S R w Request w'"
| "service_confirm_password_reset S R t pw c w = (r10, w') \<Longrightarrow> service_step S R w Request w'"
| "exchange_auth_handoff S R x c w = (r11, w') \<Longrightarrow> service_step S R w Request w'"
| "invalid_auth_handoff_exchange R c w = (r12, w') \<Longrightarrow> service_step S R w Request w'"
| "oauth_start S R pr oi w = (r13, w') \<Longrightarrow> service_step S R w Request w'"
| "oauth_callback S R pr code st c w = (r14, w') \<Longrightarrow> service_step S R w Request w'"
| "oauth_provider_error R pr c w = (r15, w') \<Longrightarrow> service_step S R w Request w'"
| "authenticate_admin R (as_tokens S) t rt m w = (r16, w') \<Longrightarrow> service_step S R w Request w'"
| "assign_role R a i k n rs de w = (r17, w') \<Longrightarrow> service_step S R w Request w'"
| "remove_role R a i k n rs de nw w = (r18, w') \<Longrightarrow> service_step S R w Request w'"
| "revoke_sessions R a i rs de nw w = (r19, w') \<Longrightarrow> service_step S R w Request w'"
| "cleanup_audit_logs R ex nw days w = (r20, w') \<Longrightarrow> service_step S R w Request w'"
| "set_user_status R a i us rs de nw w = (r21, w') \<Longrightarrow> UserStatus_of us = None \<Longrightarrow> service_step S R w Request w'"
| "set_user_status R a i us rs de nw w = (r21, w') \<Longrightarrow> UserStatus_of us = Some s \<Longrightarrow>
     service_step S R w (StatusChange i s) w'"

inductive service_run :: "AuthService \<Rightarrow> runtime \<Rightarrow> world \<Rightarrow> service_event list \<Rightarrow> world \<Rightarrow> bool" where
  run_done: "service_run S R w [] w"
| run_step: "service_step S R w ev w1 \<Longrightarrow> service_run S R w1 evs w2 \<Longrightarrow> service_run S R w (ev # evs) w2"

text \<open>\<open>lets_in v ev\<close>: the step may give \<open>v\<close> his account back.\<close>

definition lets_in :: "pystr \<Rightarrow> service_event \<Rightarrow> bool" where
  "lets_in v ev \<longleftrightarrow> (\<exists>s. ev = StatusChange v s \<and> s \<notin> {SUSPENDED, DELETED})"

lemma shut_step:
  assumes "service_step S R w ev w'" "\<not> lets_in v ev" "shut_out v (w_db w)"
  shows "shut_out v (w_db w')"
  using assms
proof (induction rule: service_step.induct)
  case (1 w' w S R)
  then show ?case by simp
next
  case (22 R a i us rs de nw w r21 w' S)
  show ?case
    by (rule keepsAD [where I = "shut_out v", OF shut_set_user_status _ 22(1)]) (use 22 in auto)
next
  case (23 R a i us rs de nw w r21 w' s S)
  show ?case
    by (rule keepsAD [where I = "shut_out v", OF shut_set_user_status _ 23(1)]) (use 23 in \<open>auto simp: lets_in_def\<close>)
qed (erule (1) keepsAD [where I = "shut_out v", rotated], intro keepsA_intros)+

lemma shut_run: "service_run S R w evs w' \<Longrightarrow> \<forall>ev \<in> set evs. \<not> lets_in v ev \<Longrightarrow> shut_out v (w_db w) \<Longrightarrow> shut_out v (w_db w')"
  by (induction rule: service_run.induct) (auto dest: shut_step)

lemma suspended_shut_out:
  assumes ok: "db_ok (w_db w)" and v: "user_exists (w_db w) v"
    and run: "set_user_status R actor v status reason details now w = (Inr res, w')"
    and status: "UserStatus_of status = Some s" "s \<in> {SUSPENDED, DELETED}"
  shows "shut_out v (w_db w')"
proof -
  from run obtain u t sanitized d' where
    m: "set_user_status_mutate u actor v s reason sanitized t (w_db w) = Inr (res, d')" and w': "w_db w' = d'"
    using status(1)
    by (auto simp: set_user_status_def act_iffs now_or_clock_def parse_user_status_def split: option.splits)
  note d' = conjunct1 [OF set_user_status_mutate_run [OF m ok]]
  have "keepsT db_ok (set_user_status_mutate u actor v s reason sanitized t)" by (rule keeps_admin_mutate)
  then have "db_ok d'" by (rule keepsTD [where I = db_ok]) (rule ok, rule m)
  moreover from v obtain x where "x \<in> set (t_users (w_db w))" "u_id x = v" by (auto simp: user_exists_def)
  then have "x\<lparr>u_status := s, u_updatedAt := t\<rparr> \<in> set (t_users d')"
    using v by (auto simp: d' status_change_def set_update_rows)
  with \<open>u_id x = v\<close> status(2) have "shut_user v d'"
    by (intro bexI [of _ "x\<lparr>u_status := s, u_updatedAt := t\<rparr>"]) simp_all
  moreover have "no_session v d'"
    using v status(2) by (simp add: d' status_change_def ball_update_rows)
  ultimately show ?thesis by (simp add: w' shut_out_def)
qed

text \<open>C15. A suspension holds until it is lifted. When an administrator suspends or deletes a user, then in
  every execution of the service from there, whatever requests arrive in whatever order, as long as no
  later status change gives that user another status, the user stays suspended or deleted and has no
  live refresh token, and the database keeps its constraints.\<close>

theorem suspension_holds:
  assumes "db_ok (w_db w)" "user_exists (w_db w) v"
    and "set_user_status R actor v status reason details now w = (Inr res, w1)"
    and "UserStatus_of status = Some s" "s \<in> {SUSPENDED, DELETED}"
    and "service_run S R w1 evs w2" "\<And>s'. StatusChange v s' \<in> set evs \<Longrightarrow> s' \<in> {SUSPENDED, DELETED}"
  shows "db_ok (w_db w2)
    \<and> (\<exists>x \<in> set (t_users (w_db w2)). u_id x = v \<and> u_status x \<in> {SUSPENDED, DELETED})
    \<and> (\<forall>r \<in> set (t_refreshes (w_db w2)). r_userId r = v \<longrightarrow> r_revokedAt r \<noteq> None)"
proof -
  have "\<forall>ev \<in> set evs. \<not> lets_in v ev" using assms(7) by (auto simp: lets_in_def)
  from shut_run [OF assms(6) this suspended_shut_out [OF assms(1-5)]] show ?thesis by (simp add: shut_out_def)
qed

section \<open>What a shut-out user gets\<close>

lemma issue_pair_Inr:
  "issue_pair S R i au w = (Inr p, w') \<Longrightarrow> is_active_user (w_db w) i"
  by (auto simp: issue_pair_def Let_def act_iffs issue_pair_persist_def issue_for_active_user_def bindT_Inr_iff
      split: option.splits if_splits)

lemma refresh_Inr:
  assumes "refresh S R t c w = (Inr p, w')"
  shows "\<exists>st. find (\<lambda>r. r_tokenHash r = sha R t) (t_refreshes (w_db w)) = Some st \<and> is_active_user (w_db w) (r_userId st)"
proof -
  from assms have "refresh_body S R t c w = (Inr p, w')"
    by (auto simp: refresh_def catchA_def bindA_Inr_iff raiseA_iff split: prod.splits sum.splits)
  then obtain au now i s rnd it x d' where
    "refresh_rotate S (sha R t) au now i s rnd it (w_db w) = Inr (x, d')"
    by (fastforce simp: refresh_body_def act_iffs split: prod.splits)
  then obtain factory tr d1 where "rotate_token (sha R t) au now None (Some factory) (w_db w) = Inr (Some tr, d1)"
    unfolding refresh_rotate_def by (auto simp: bindT_Inr_iff split: option.splits)
  then show ?thesis unfolding rotate_success_iff by blast
qed

lemma current_user_Inr:
  assumes "current_user S R t w = (Inr u, w')"
    and "verify_access_token (as_tokens S) (rt_clock R (w_ticks w)) t None = Inr claims"
  shows "is_active_user (w_db w) (ati_user_id (atc_identity claims))"
proof -
  from assms have "find (\<lambda>u. u_id u = ati_user_id (atc_identity claims) \<and> u_status u = ACTIVE) (t_users (w_db w)) \<noteq> None"
    by (auto simp: current_user_def act_iffs find_current_active_def split: option.splits)
  then show ?thesis by (auto simp: is_active_user_def find_None_set)
qed

lemma login_user_Inr:
  assumes "login_user R i c w = (Inr user, w')"
  shows "\<exists>cr. credential_at (normalize_email (rt_lower R) (li_email i)) (w_db w) = Some cr \<and> pc_user_status cr = ACTIVE"
  using assms
  by (auto simp: login_user_def bindA_run in_transaction_credential has_status_def Let_def raiseA_def retA_def
      utc_now_ms_def split: prod.splits sum.splits if_splits option.splits)

lemma login_Inr:
  assumes "login S R i c h w = (Inr x, w')"
  shows "\<exists>cr. credential_at (normalize_email (rt_lower R) (li_email i)) (w_db w) = Some cr \<and> pc_user_status cr = ACTIVE"
proof -
  from assms obtain user w1 where "login_user R i c w = (Inr user, w1)"
    by (auto simp: login_def act_iffs split: option.splits)
  then show ?thesis by (rule login_user_Inr)
qed

lemma onErrorA_Inr: "onErrorA m k w = (Inr a, w') \<longleftrightarrow> m w = (Inr a, w')"
  by (auto simp: act_run_simps split: prod.splits sum.splits)

lemma exchange_Inr:
  assumes "exchange_auth_handoff S R x c w = (Inr p, w')" "consume_handoff R x w = (r, w1)"
  shows "\<exists>h. r = Inr (Some h) \<and> is_active_user (w_db w) (sah_user_id h)"
proof -
  from assms obtain h where h: "r = Inr (Some h)" and "\<exists>p w2. issue_pair S R (sah_user_id h) (sah_audience h) w1 = (Inr p, w2)"
    by (auto simp: exchange_auth_handoff_def bindA_Inr_iff raiseA_iff onErrorA_Inr split: option.splits)
  moreover have "w_db w1 = w_db w"
    using assms(2) by (auto simp: consume_handoff_def bindA_def utc_now_ms_def in_redis_def split: prod.splits)
  ultimately show ?thesis using issue_pair_Inr by metis
qed

lemma oauth_resolve_other:
  assumes s: "shut_out v d" and run: "oauth_resolve R u p dr now d = Inr (i, d')"
  shows "i \<noteq> v"
proof (cases "find_by_provider_id (provider_value (op_provider p)) (op_provider_user_id p) d")
  case (Inl e)
  with run show ?thesis by (simp add: oauth_resolve_def bindT_def)
next
  case (Inr x)
  then obtain r where x: "x = (r, d)" by (cases x) (auto simp: find_by_provider_id_def readT_def)
  have ex: "user_exists d v" using s by (auto simp: shut_out_def user_exists_def)
  have stored: "u_id y \<noteq> v" if "y \<in> set (t_users d)" "u_status y = ACTIVE" for y
    using shut_out_row [OF s that(1)] that(2) by auto
  show ?thesis
  proof (cases r)
    case (Some user)
    with Inr x obtain y where "y \<in> set (t_users d)" "user = oauth_record y"
      by (auto simp: find_by_provider_id_def readT_def split: option.splits dest!: find_Some_set)
    moreover from run Inr x Some have "our_status user = ACTIVE" "our_id user = i"
      by (auto simp: oauth_resolve_def bindT_Inr_iff split: if_splits)
    ultimately show ?thesis using stored by (auto simp: oauth_record_def)
  next
    case None
    with run Inr x obtain user d1 where res: "resolve_or_create (rt_lower R) u p dr now d = Inr (user, d1)"
      and i: "our_id user = i"
      by (auto simp: oauth_resolve_def bindT_Inr_iff split: if_splits)
    have fresh: "our_id user \<noteq> v" if "create_oauth_user u p ne dr now d2 = Inr (user, d3)" "user_exists d2 v" for ne d2 d3
      using create_oauth_user_effect [OF that(1)] that(2) by (auto simp: oauth_record_def)
    have gone: "user_exists d2 v" if "delete_users (\<lambda>x. u_id x = u_id y) d = Inr (k, d2)" "y \<in> set (t_users d)"
      "u_status y = PENDING_EMAIL_VERIFICATION" for y k d2
    proof -
      have "u_id y \<noteq> v" using shut_out_row [OF s that(2)] that(3) by auto
      then have "keepsT (shut_out v) (delete_users (\<lambda>x. u_id x = u_id y))" by (rule shut_delete_user)
      then have "shut_out v d2" by (rule keepsTD [where I = "shut_out v"]) (rule s, rule that(1))
      then show ?thesis by (auto simp: shut_out_def user_exists_def)
    qed
    from res consider (new) ne where "create_oauth_user u p ne dr now d = Inr (user, d1)"
      | (replaced) y k d2 ne where "delete_users (\<lambda>x. u_id x = u_id y) d = Inr (k, d2)" "y \<in> set (t_users d)"
          "u_status y = PENDING_EMAIL_VERIFICATION" "create_oauth_user u p ne dr now d2 = Inr (user, d1)"
      | (attached) y where "y \<in> set (t_users d)" "u_status y = ACTIVE" "user = oauth_record y"
      by (auto simp: resolve_or_create_def Let_def bindT_Inr_iff link_social_Inr require_one_Inr
          split: option.splits if_splits dest!: find_Some_set)
    then have "our_id user \<noteq> v"
    proof cases
      case new
      from fresh [OF new ex] show ?thesis .
    next
      case replaced
      from fresh [OF replaced(4) gone [OF replaced(1-3)]] show ?thesis .
    next
      case attached
      with stored show ?thesis by (simp add: oauth_record_def)
    qed
    with i show ?thesis by simp
  qed
qed

text \<open>C16. Nothing is handed to a user who is shut out. While a user is suspended or deleted without a live
  session: no token pair is issued for him; none of his refresh tokens is rotated; a login with his
  address fails whatever the password; an access token of his no longer yields a profile; a handoff
  code of his buys nothing; an OAuth profile does not resolve to him; and he is no administrator.\<close>

theorem shut_out_gets_nothing:
  assumes "db_ok (w_db w)"
    and "\<exists>x \<in> set (t_users (w_db w)). u_id x = v \<and> u_status x \<in> {SUSPENDED, DELETED}"
    and "\<forall>r \<in> set (t_refreshes (w_db w)). r_userId r = v \<longrightarrow> r_revokedAt r \<noteq> None"
  shows "(\<nexists>p w'. issue_pair S R v au w = (Inr p, w'))
    \<and> (\<forall>t c p w' st. refresh S R t c w = (Inr p, w') \<and>
         find (\<lambda>r. r_tokenHash r = sha R t) (t_refreshes (w_db w)) = Some st \<longrightarrow> r_userId st \<noteq> v)
    \<and> (\<forall>i c h x w' cr. login S R i c h w = (Inr x, w') \<and>
         credential_at (normalize_email (rt_lower R) (li_email i)) (w_db w) = Some cr \<longrightarrow> pc_user_id cr \<noteq> v)
    \<and> (\<forall>t u w' claims. current_user S R t w = (Inr u, w') \<and>
         verify_access_token (as_tokens S) (rt_clock R (w_ticks w)) t None = Inr claims \<longrightarrow>
         ati_user_id (atc_identity claims) \<noteq> v)
    \<and> (\<forall>x c p w' h w1. exchange_auth_handoff S R x c w = (Inr p, w') \<and> consume_handoff R x w = (Inr (Some h), w1) \<longrightarrow>
         sah_user_id h \<noteq> v)
    \<and> (\<forall>u p dr now i d'. oauth_resolve R u p dr now (w_db w) = Inr (i, d') \<longrightarrow> i \<noteq> v)
    \<and> (\<nexists>w'. authorize_admin R v rt m w = (Inr (), w'))"
proof -
  have s: "shut_out v (w_db w)" using assms by (simp add: shut_out_def)
  note no = shut_out_inactive [OF s]
  have login: "pc_user_id cr \<noteq> v"
    if "login S R i c h w = (Inr x, w')" "credential_at (normalize_email (rt_lower R) (li_email i)) (w_db w) = Some cr"
    for i c h x w' cr
  proof -
    from login_Inr [OF that(1)] that(2) have "pc_user_status cr = ACTIVE" by auto
    moreover from that(2) obtain row u where "u \<in> set (t_users (w_db w))" "u_id u = pc_user_id cr" "pc_user_status cr = u_status u"
      by (rule credential_at_Some) simp
    ultimately show ?thesis using shut_out_row [OF s, of u] by auto
  qed
  show ?thesis
    using no login issue_pair_Inr refresh_Inr current_user_Inr exchange_Inr oauth_resolve_other [OF s]
    by (intro conjI) (fastforce simp: authorize_admin_Inr)+
qed

section \<open>An execution of the sample service\<close>

definition sample_suspended :: world where
  "sample_suspended = snd (set_user_status sample_runtime (lit ''a1'') (lit ''u1'') (lit ''SUSPENDED'') (lit ''X'')
     None None (sample_services sample_admin_db))"

definition sample_login_after :: world where
  "sample_login_after = snd (login sample_service sample_runtime (sample_login (lit ''x'')) sample_context None sample_suspended)"

lemma sample_suspension: "set_user_status sample_runtime (lit ''a1'') (lit ''u1'') (lit ''SUSPENDED'') (lit ''X'')
     None None (sample_services sample_admin_db)
   = (Inr \<lparr>sus_status_changed = True, sus_revoked_refresh_token_count = 1\<rparr>, sample_suspended)"
proof -
  have "fst (set_user_status sample_runtime (lit ''a1'') (lit ''u1'') (lit ''SUSPENDED'') (lit ''X'')
     None None (sample_services sample_admin_db)) = Inr \<lparr>sus_status_changed = True, sus_revoked_refresh_token_count = 1\<rparr>"
    by code_simp
  then show ?thesis unfolding sample_suspended_def by (metis prod.collapse)
qed

lemma sample_known: "user_exists sample_admin_db (lit ''u1'')"
  by code_simp

lemma suspension_holds_witness:
  "filter (\<lambda>r. r_userId r = lit ''u1'' \<and> r_revokedAt r = None) (t_refreshes (w_db sample_login_after)) = []"
proof -
  have step: "service_step sample_service sample_runtime sample_suspended Request sample_login_after"
    by (rule service_step.intros(4)) (simp add: sample_login_after_def prod_eq_iff)
  have run: "service_run sample_service sample_runtime sample_suspended [Request] sample_login_after"
    by (rule run_step [OF step run_done])
  have st: "UserStatus_of (lit ''SUSPENDED'') = Some SUSPENDED" by code_simp
  show ?thesis
    using suspension_holds [OF _ _ sample_suspension st _ run]
    by (auto simp: sample_services_def sample_admin_db_ok sample_known filter_empty_conv)
qed

lemma shut_out_gets_nothing_witness:
  "\<nexists>p w'. issue_pair sample_service sample_runtime (lit ''u1'') (lit ''temis'') sample_suspended = (Inr p, w')"
proof -
  have "shut_out (lit ''u1'') (w_db sample_suspended)"
    by (rule suspended_shut_out [OF _ _ sample_suspension, of SUSPENDED])
      (simp_all add: sample_services_def sample_admin_db_ok sample_known, code_simp)
  then have *: "db_ok (w_db sample_suspended)"
    "\<exists>x \<in> set (t_users (w_db sample_suspended)). u_id x = lit ''u1'' \<and> u_status x \<in> {SUSPENDED, DELETED}"
    "\<forall>r \<in> set (t_refreshes (w_db sample_suspended)). r_userId r = lit ''u1'' \<longrightarrow> r_revokedAt r \<noteq> None"
    by (simp_all add: shut_out_def)
  show ?thesis by (rule shut_out_gets_nothing [OF *, THEN conjunct1])
qed

end
