(* ===== verification/Rate_Limit.thy ===== *)
theory Rate_Limit
  imports Login_Properties
begin

text \<open>
  \<^verbatim>\<open>enforce_rate_limit\<close> over the Redis counter. A run interleaves the calls for one client and route
  with anything else that leaves their key alone while time passes; whether a command is lost on the
  way is up to the connection. From a key that is absent, a window admits at most the configured
  number of requests.
\<close>

section \<open>The counter\<close>

lemma nat_digits_ascii: "(\<forall>c \<in> set (nat_digits n). ascii_digit c) \<and> nat_digits n \<noteq> []"
proof (induction n rule: nat_digits.induct)
  case (1 n)
  then show ?case by (subst (1 2) nat_digits.simps) (auto simp: ascii_digit_def)
qed

lemma nat_digits_value: "foldl (\<lambda>n c. n * 10 + (c - 48)) 0 (nat_digits n) = n"
proof (induction n rule: nat_digits.induct)
  case (1 n)
  then show ?case by (subst nat_digits.simps) simp
qed

lemma counter_of_digits: "counter_of (nat_digits n) = Some n"
  using nat_digits_ascii [of n] by (simp add: counter_of_def nat_digits_value)

section \<open>Runs of one counter\<close>

text \<open>\<open>limit_run S R k route meth c w n w'\<close>: from \<open>w\<close> to \<open>w'\<close>, with \<open>n\<close> requests let through.\<close>

inductive limit_run ::
  "AuthService \<Rightarrow> runtime \<Rightarrow> pystr \<Rightarrow> pystr \<Rightarrow> pystr \<Rightarrow> RequestAuditContext \<Rightarrow> world \<Rightarrow> nat \<Rightarrow> world \<Rightarrow> bool"
  for S R k route meth c where
  limit_done: "limit_run S R k route meth c w 0 w"
| limit_elsewhere: "rd_kv (w_redis w1) (rate_limit_key k route) = rd_kv (w_redis w) (rate_limit_key k route) \<Longrightarrow>
    rd_now (w_redis w) \<le> rd_now (w_redis w1) \<Longrightarrow> limit_run S R k route meth c w1 n w2 \<Longrightarrow>
    limit_run S R k route meth c w n w2"
| limit_passed: "enforce_rate_limit S R k route meth c w = (Inr None, w1) \<Longrightarrow>
    limit_run S R k route meth c w1 n w2 \<Longrightarrow> limit_run S R k route meth c w (Suc n) w2"
| limit_refused: "enforce_rate_limit S R k route meth c w = (r, w1) \<Longrightarrow> r \<noteq> Inr None \<Longrightarrow>
    limit_run S R k route meth c w1 n w2 \<Longrightarrow> limit_run S R k route meth c w n w2"

lemma audit_redis: "write_audit R e o1 i c r d p w = (x, w') \<Longrightarrow> w_redis w' = w_redis w"
  by (cases x) (auto dest: write_audit_fails write_audit_run)

text \<open>What one call does to the counter: it counts, or nothing happens to the key; and it passes only when
  the count it made is within the limit.\<close>

lemma enforce_effect:
  assumes "enforce_rate_limit S R k route meth c w = (r, w1)"
  defines "key \<equiv> rate_limit_key k route" and "ttl \<equiv> as_rate_limit_window_seconds S"
  shows "rd_now (w_redis w1) = rd_now (w_redis w)
    \<and> (rd_kv (w_redis w1) key = rd_kv (w_redis w) key \<and> r \<noteq> Inr None
       \<or> (\<exists>n m. cmd_increment_with_ttl key ttl (rd_now (w_redis w)) (rd_kv (w_redis w)) = (Some n, m)
            \<and> rd_kv (w_redis w1) key = m key \<and> 0 < ttl \<and> (r = Inr None \<longrightarrow> n \<le> as_rate_limit_max_requests S)))"
proof -
  obtain n m where inc: "cmd_increment_with_ttl key ttl (rd_now (w_redis w)) (rd_kv (w_redis w)) = (n, m)"
    by (cases "cmd_increment_with_ttl key ttl (rd_now (w_redis w)) (rd_kv (w_redis w))")
  have same: "n = None \<Longrightarrow> m = rd_kv (w_redis w)"
    using inc by (auto simp: cmd_increment_with_ttl_def split: option.splits if_splits)
  note run = assms(1) [unfolded enforce_rate_limit_def act_run_simps in_redis_def redis_increment_with_ttl_def
      validate_ttl_def requireE_def redis_execute_def, folded key_def ttl_def, unfolded inc Let_def]
  show ?thesis
    using run same inc
    by (auto split: if_splits prod.splits sum.splits fate.splits option.splits dest!: audit_redis simp: act_run_simps)
qed

lemma limit_run_time: "limit_run S R k route meth c w n w' \<Longrightarrow> rd_now (w_redis w) \<le> rd_now (w_redis w')"
  by (induction rule: limit_run.induct) (auto dest: enforce_effect)

text \<open>With \<open>n\<close> counted and the counter alive to the end of the run, \<open>max - n\<close> more can pass.\<close>

lemma counted_run:
  assumes "limit_run S R k route meth c w passed w'"
    and "rd_kv (w_redis w) (rate_limit_key k route) = Some (nat_digits n, Some e)"
    and "rd_now (w_redis w') < e" "0 < n"
  shows "passed \<le> as_rate_limit_max_requests S - n"
  using assms
proof (induction arbitrary: n rule: limit_run.induct)
  case (limit_done w)
  then show ?case by simp
next
  case (limit_elsewhere w1 w passed w2)
  then show ?case by simp
next
  case (limit_passed w w1 passed w2)
  let ?m = "rd_kv (w_redis w)"
  note t = limit_run_time [OF limit_passed.hyps(2)] and eff = enforce_effect [OF limit_passed.hyps(1)]
  then have "rd_now (w_redis w) < e" using limit_passed.prems(2) by auto
  then have "kv_get (rd_now (w_redis w)) ?m (rate_limit_key k route) = Some (nat_digits n)"
    "kv_expiry (rd_now (w_redis w)) ?m (rate_limit_key k route) = Some e"
    using limit_passed.prems(1) by (simp_all add: kv_get_def kv_expiry_def)
  with eff limit_passed.prems(3) have
    kv: "rd_kv (w_redis w1) (rate_limit_key k route) = Some (nat_digits (Suc n), Some e)"
    and le: "Suc n \<le> as_rate_limit_max_requests S"
    by (auto simp: cmd_increment_with_ttl_def counter_of_digits split: if_splits)
  from limit_passed.IH [OF kv limit_passed.prems(2)] le show ?case by simp
next
  case (limit_refused w r w1 passed w2)
  let ?m = "rd_kv (w_redis w)"
  note t = limit_run_time [OF limit_refused.hyps(3)] and eff = enforce_effect [OF limit_refused.hyps(1)]
  then have "rd_now (w_redis w) < e" using limit_refused.prems(2) by auto
  then have "kv_get (rd_now (w_redis w)) ?m (rate_limit_key k route) = Some (nat_digits n)"
    "kv_expiry (rd_now (w_redis w)) ?m (rate_limit_key k route) = Some e"
    using limit_refused.prems(1) by (simp_all add: kv_get_def kv_expiry_def)
  with eff limit_refused.prems(1,3) have
    "\<exists>n' \<ge> n. rd_kv (w_redis w1) (rate_limit_key k route) = Some (nat_digits n', Some e)"
    by (auto simp: cmd_increment_with_ttl_def counter_of_digits split: if_splits
        intro: exI [of _ n] exI [of _ "Suc n"])
  then obtain n' where n': "n \<le> n'" and kv: "rd_kv (w_redis w1) (rate_limit_key k route) = Some (nat_digits n', Some e)"
    by blast
  have "0 < n'" using n' limit_refused.prems(3) by simp
  from limit_refused.IH [OF kv limit_refused.prems(2) this] n' show ?case by simp
qed

text \<open>C17. A window admits at most the configured number of requests. From the moment the counter of a client
  and a route is absent, and as long as less than the window has passed on the Redis clock, at most
  \<^verbatim>\<open>rate_limit_max_requests\<close> calls of \<^verbatim>\<open>enforce_rate_limit\<close> let the request through, whatever else
  happens in between and whichever commands the connection loses.\<close>

theorem rate_limit_bound:
  assumes "limit_run S R k route meth c w passed w'"
    and "rd_kv (w_redis w) (rate_limit_key k route) = None"
    and "rd_now (w_redis w') < rd_now (w_redis w) + as_rate_limit_window_seconds S * 1000"
  shows "passed \<le> as_rate_limit_max_requests S"
  using assms
proof (induction rule: limit_run.induct)
  case (limit_done w)
  then show ?case by simp
next
  case (limit_elsewhere w1 w passed w2)
  then show ?case by simp
next
  case (limit_passed w w1 passed w2)
  let ?e = "rd_now (w_redis w) + as_rate_limit_window_seconds S * 1000"
  from enforce_effect [OF limit_passed.hyps(1)] limit_passed.prems(1)
  have kv: "rd_kv (w_redis w1) (rate_limit_key k route) = Some (nat_digits 1, Some ?e)"
    and le: "1 \<le> as_rate_limit_max_requests S"
    by (auto simp: cmd_increment_with_ttl_def kv_get_def)
  from counted_run [OF limit_passed.hyps(2) kv limit_passed.prems(2)] le show ?case by simp
next
  case (limit_refused w r w1 passed w2)
  let ?e = "rd_now (w_redis w) + as_rate_limit_window_seconds S * 1000"
  note eff = enforce_effect [OF limit_refused.hyps(1)]
  show ?case
  proof (cases "rd_kv (w_redis w1) (rate_limit_key k route) = None")
    case True
    then show ?thesis using limit_refused eff by simp
  next
    case False
    with eff limit_refused.prems(1)
    have kv: "rd_kv (w_redis w1) (rate_limit_key k route) = Some (nat_digits 1, Some ?e)"
      by (auto simp: cmd_increment_with_ttl_def kv_get_def)
    from counted_run [OF limit_refused.hyps(3) kv limit_refused.prems(2)] show ?thesis by simp
  qed
qed

section \<open>Three requests to a service that allows two\<close>

definition limited_call :: "world \<Rightarrow> (exn + int option) \<times> world" where
  "limited_call = enforce_rate_limit sample_service sample_runtime (lit ''ip'') (lit ''/r'') (lit ''POST'') sample_context"

lemma limited_first: "limit_run sample_service sample_runtime (lit ''ip'') (lit ''/r'') (lit ''POST'') sample_context
    (sample_services sample_admin_db) 1 (snd (limited_call (sample_services sample_admin_db)))"
proof -
  have "fst (limited_call (sample_services sample_admin_db)) = Inr None" by code_simp
  then have "limited_call (sample_services sample_admin_db) = (Inr None, snd (limited_call (sample_services sample_admin_db)))"
    by (metis prod.collapse)
  from limit_passed [OF this [unfolded limited_call_def] limit_done] show ?thesis by (simp add: limited_call_def)
qed

lemma rate_limit_bound_witness: "(1::nat) \<le> as_rate_limit_max_requests sample_service"
proof -
  have "rd_kv (w_redis (sample_services sample_admin_db)) (rate_limit_key (lit ''ip'') (lit ''/r'')) = None"
    "rd_now (w_redis (snd (limited_call (sample_services sample_admin_db))))
       < rd_now (w_redis (sample_services sample_admin_db)) + as_rate_limit_window_seconds sample_service * 1000"
    by code_simp+
  from rate_limit_bound [OF limited_first this] show ?thesis .
qed

end
