(* ===== verification/Domain_Oidc.thy ===== *)
theory Domain_Oidc
  imports Domain_Auth Py_Value "HOL-Library.List_Lexorder"
begin

text \<open>
  \<^verbatim>\<open>domain/oidc.py\<close> and the client policy it is applied to: which roles let a user into an OIDC client,
  the \<^verbatim>\<open>groups\<close> claim they project to, the requested scopes and PKCE. The lemmas show that the groups
  claim names exactly the user's roles in the services the client may see, within the release limits,
  and that the accepted scopes are allowed, distinct and include \<^verbatim>\<open>openid\<close>.
\<close>

section \<open>Client policy and identity\<close>

record OidcRoleRequirement =
  orr_service_key :: pystr
  orr_name :: pystr

record OidcClientPolicy =
  ocp_client_id :: pystr
  ocp_redirect_uris :: "pystr list"
  ocp_client_secret_hash :: pystr
  ocp_required_roles :: "OidcRoleRequirement list"
  ocp_groups_service_keys :: "pystr list"
  ocp_require_pkce :: bool
  ocp_allowed_scopes :: "pystr list"

record OidcIdentity =
  oi_user_id :: pystr
  oi_email :: pystr
  oi_name :: "pystr option"
  oi_email_verified :: bool
  oi_roles :: "Role list"

section \<open>Roles\<close>

definition MAX_GROUPS :: nat where
  "MAX_GROUPS = 64"

definition MAX_GROUP_VALUE_LENGTH :: nat where
  "MAX_GROUP_VALUE_LENGTH = 129"

definition MAX_GROUPS_PAYLOAD_LENGTH :: nat where
  "MAX_GROUPS_PAYLOAD_LENGTH = 4096"

definition has_required_role :: "OidcIdentity \<Rightarrow> OidcClientPolicy \<Rightarrow> bool" where
  "has_required_role identity client \<longleftrightarrow>
     (let actual = set (map (\<lambda>role. (role_service_key role, role_name role)) (oi_roles identity)) in
      \<exists>required \<in> set (ocp_required_roles client). (orr_service_key required, orr_name required) \<in> actual)"

definition role_group :: "Role \<Rightarrow> pystr" where
  "role_group role = role_service_key role @ [58] @ role_name role"

text \<open>The loop of \<^verbatim>\<open>project_groups\<close>: the groups in the order of the roles, before they become a set.\<close>

fun projected_roles :: "pystr list \<Rightarrow> Role list \<Rightarrow> exn + pystr list" where
  "projected_roles allowed [] = Inr []"
| "projected_roles allowed (role # roles) =
     (if role_service_key role \<notin> set allowed then projected_roles allowed roles
      else bindE (requireE (58 \<notin> set (role_service_key role) \<and> 58 \<notin> set (role_name role))
                    (ValueError (lit ''OIDC group role identifiers must not contain '' @ [39, 58, 39]))) (\<lambda>_.
           bindE (requireE (length (role_group role) \<le> MAX_GROUP_VALUE_LENGTH)
                    (ValueError (lit ''OIDC group value exceeds the release limit''))) (\<lambda>_.
           bindE (projected_roles allowed roles) (\<lambda>groups. Inr (role_group role # groups)))))"

definition groups_encoded_size :: "pystr list \<Rightarrow> nat" where
  "groups_encoded_size groups = length (json_dumps True (PList (map PStr groups)))"

definition project_groups :: "OidcIdentity \<Rightarrow> OidcClientPolicy \<Rightarrow> exn + pystr list" where
  "project_groups identity client =
     bindE (projected_roles (ocp_groups_service_keys client) (oi_roles identity)) (\<lambda>projected.
     let groups = sort (remdups projected) in
     bindE (requireE (length groups \<le> MAX_GROUPS \<and> groups_encoded_size groups \<le> MAX_GROUPS_PAYLOAD_LENGTH)
              (ValueError (lit ''OIDC groups claim exceeds the release limit''))) (\<lambda>_.
     Inr groups))"

section \<open>Scopes\<close>

text \<open>\<^verbatim>\<open>dict.fromkeys\<close> keeps the first occurrence of each key.\<close>

definition py_fromkeys :: "'a list \<Rightarrow> 'a list" where
  "py_fromkeys xs = rev (remdups (rev xs))"

definition invalid_scope :: exn where
  "invalid_scope = ValueError (lit ''invalid OIDC scope'')"

definition parse_requested_scopes :: "pystr \<Rightarrow> pystr list \<Rightarrow> exn + pystr list" where
  "parse_requested_scopes raw_scope allowed_scopes =
     bindE (requireE (raw_scope \<noteq> [] \<and> length raw_scope \<le> 1024) invalid_scope) (\<lambda>_.
     let scopes = py_fromkeys (py_split_ws raw_scope) in
     bindE (requireE (scopes \<noteq> [] \<and> lit ''openid'' \<in> set scopes \<and> set scopes \<subseteq> set allowed_scopes) invalid_scope)
       (\<lambda>_. Inr scopes))"

section \<open>PKCE\<close>

definition PKCE_VALUE_fullmatch :: "pystr \<Rightarrow> bool" where
  "PKCE_VALUE_fullmatch s \<longleftrightarrow> 43 \<le> length s \<and> length s \<le> 128
     \<and> (\<forall>c \<in> set s. ascii_alpha c \<or> ascii_digit c \<or> c = 46 \<or> c = 95 \<or> c = 126 \<or> c = 45)"

definition S256_CHALLENGE_fullmatch :: "pystr \<Rightarrow> bool" where
  "S256_CHALLENGE_fullmatch s \<longleftrightarrow> length s = 43
     \<and> (\<forall>c \<in> set s. ascii_alpha c \<or> ascii_digit c \<or> c = 95 \<or> c = 45)"

definition pkce_required :: exn where
  "pkce_required = ValueError (lit ''PKCE S256 is required'')"

definition validate_pkce_request :: "pystr option \<Rightarrow> pystr option \<Rightarrow> bool \<Rightarrow> exn + unit" where
  "validate_pkce_request code_challenge code_challenge_method required =
     (case code_challenge of
        None \<Rightarrow> requireE (\<not> (required \<or> code_challenge_method \<noteq> None)) pkce_required
      | Some challenge \<Rightarrow>
          requireE (code_challenge_method = Some (lit ''S256'') \<and> S256_CHALLENGE_fullmatch challenge) pkce_required)"

text \<open>\<^verbatim>\<open>hmac.compare_digest\<close> on two strings raises \<^verbatim>\<open>TypeError\<close> when one is not ASCII.\<close>

definition compare_digest :: "pystr \<Rightarrow> pystr \<Rightarrow> exn + bool" where
  "compare_digest a b =
     (if all_ascii a \<and> all_ascii b then Inr (a = b)
      else Inl (TypeError (lit ''comparing strings with non-ASCII characters is not supported'')))"

definition verify_pkce :: "(nat list \<Rightarrow> nat list) \<Rightarrow> pystr option \<Rightarrow> pystr option \<Rightarrow> exn + bool" where
  "verify_pkce sha256 code_verifier stored_challenge =
     (case stored_challenge of
        None \<Rightarrow> Inr (code_verifier = None)
      | Some challenge \<Rightarrow>
          (case code_verifier of
             None \<Rightarrow> Inr False
           | Some verifier \<Rightarrow>
               if \<not> PKCE_VALUE_fullmatch verifier then Inr False
               else compare_digest (base64url (sha256 verifier)) challenge))"

section \<open>The groups claim\<close>

lemma projected_roles_Inr:
  "projected_roles allowed roles = Inr gs \<longleftrightarrow>
     gs = map role_group (filter (\<lambda>r. role_service_key r \<in> set allowed) roles)
     \<and> (\<forall>r \<in> set roles. role_service_key r \<in> set allowed \<longrightarrow>
          58 \<notin> set (role_service_key r) \<and> 58 \<notin> set (role_name r)
          \<and> length (role_group r) \<le> MAX_GROUP_VALUE_LENGTH)"
  by (induction allowed roles arbitrary: gs rule: projected_roles.induct) (auto simp: bindE_Inr_iff)

lemma role_group_partition:
  "58 \<notin> set (role_service_key r) \<Longrightarrow>
   py_partition 58 (role_group r) = (role_service_key r, True, role_name r)"
  by (simp add: role_group_def py_partition_append)

lemma project_groups_Inr:
  "project_groups identity client = Inr gs \<longleftrightarrow>
     (\<exists>ps. projected_roles (ocp_groups_service_keys client) (oi_roles identity) = Inr ps
        \<and> gs = sort (remdups ps) \<and> length gs \<le> MAX_GROUPS
        \<and> groups_encoded_size gs \<le> MAX_GROUPS_PAYLOAD_LENGTH)"
  by (auto simp: project_groups_def bindE_Inr_iff Let_def)

text \<open>C18. The groups claim. When it is produced it is sorted and without repetition, holds at most 64
  groups of at most 129 characters whose JSON text is at most 4096 bytes, and it names exactly the
  user's roles in the services the client may see: a group splits back, at its only colon, into the
  service and the name of such a role, and every such role has its group.\<close>

theorem groups_claim_faithful:
  assumes "project_groups identity client = Inr gs"
  shows "sorted gs \<and> distinct gs \<and> length gs \<le> 64 \<and> (\<forall>g \<in> set gs. length g \<le> 129)
    \<and> length (json_dumps True (PList (map PStr gs))) \<le> 4096
    \<and> (\<lambda>g. case py_partition 58 g of (service, _, name) \<Rightarrow> (service, name)) ` set gs
        = {(role_service_key r, role_name r) | r.
             r \<in> set (oi_roles identity) \<and> role_service_key r \<in> set (ocp_groups_service_keys client)}"
proof -
  let ?seen = "filter (\<lambda>r. role_service_key r \<in> set (ocp_groups_service_keys client)) (oi_roles identity)"
  from assms obtain ps where ps: "projected_roles (ocp_groups_service_keys client) (oi_roles identity) = Inr ps"
    and gs: "gs = sort (remdups ps)" "length gs \<le> MAX_GROUPS"
      "groups_encoded_size gs \<le> MAX_GROUPS_PAYLOAD_LENGTH"
    by (auto simp: project_groups_Inr)
  have ok: "58 \<notin> set (role_service_key r)" "length (role_group r) \<le> MAX_GROUP_VALUE_LENGTH" if "r \<in> set ?seen" for r
    using ps that by (auto simp: projected_roles_Inr)
  have p: "ps = map role_group ?seen" using ps by (simp add: projected_roles_Inr)
  have set: "set gs = role_group ` set ?seen" using gs(1) p by simp
  have "(\<lambda>g. case py_partition 58 g of (service, _, name) \<Rightarrow> (service, name)) ` set gs
      = (\<lambda>r. (role_service_key r, role_name r)) ` set ?seen"
    unfolding set image_image by (rule image_cong) (simp_all add: ok role_group_partition)
  then show ?thesis
    using gs ok set by (auto simp: MAX_GROUPS_def MAX_GROUP_VALUE_LENGTH_def MAX_GROUPS_PAYLOAD_LENGTH_def
        groups_encoded_size_def)
qed

definition sample_oidc_client :: OidcClientPolicy where
  "sample_oidc_client = \<lparr>ocp_client_id = lit ''wiki'', ocp_redirect_uris = [lit ''https://w.co/cb?x=1''],
     ocp_client_secret_hash = 104 # lit ''secret'',
     ocp_required_roles = [\<lparr>orr_service_key = lit ''temis'', orr_name = lit ''admin''\<rparr>],
     ocp_groups_service_keys = [lit ''temis'', lit ''wiki''], ocp_require_pkce = True,
     ocp_allowed_scopes = [lit ''openid'', lit ''email'']\<rparr>"

definition sample_oidc_identity :: OidcIdentity where
  "sample_oidc_identity = \<lparr>oi_user_id = lit ''a1'', oi_email = lit ''a@b'', oi_name = None, oi_email_verified = True,
     oi_roles = [\<lparr>role_service_key = lit ''wiki'', role_name = lit ''editor''\<rparr>,
                 \<lparr>role_service_key = lit ''temis'', role_name = lit ''admin''\<rparr>,
                 \<lparr>role_service_key = lit ''hidden'', role_name = lit ''a:b''\<rparr>]\<rparr>"

lemma groups_claim_faithful_witness:
  "project_groups sample_oidc_identity sample_oidc_client = Inr [lit ''temis:admin'', lit ''wiki:editor'']
   \<and> sorted [lit ''temis:admin'', lit ''wiki:editor'']"
proof -
  have "project_groups sample_oidc_identity sample_oidc_client = Inr [lit ''temis:admin'', lit ''wiki:editor'']"
    by code_simp
  with groups_claim_faithful [OF this] show ?thesis by blast
qed

section \<open>Scopes and PKCE\<close>

lemma set_py_fromkeys [simp]: "set (py_fromkeys xs) = set xs"
  by (simp add: py_fromkeys_def)

lemma distinct_py_fromkeys [simp]: "distinct (py_fromkeys xs)"
  by (simp add: py_fromkeys_def)

lemma parse_requested_scopes_Inr:
  "parse_requested_scopes raw allowed = Inr scopes \<Longrightarrow>
     scopes = py_fromkeys (py_split_ws raw) \<and> distinct scopes \<and> lit ''openid'' \<in> set scopes
     \<and> set scopes \<subseteq> set allowed \<and> (\<forall>s \<in> set scopes. s \<noteq> [])"
  by (auto simp: parse_requested_scopes_def bindE_Inr_iff Let_def dest: py_split_ws_word)

lemma compare_digest_True: "compare_digest a b = Inr True \<Longrightarrow> a = b"
  by (auto simp: compare_digest_def split: if_splits)

lemma verify_pkce_True:
  "verify_pkce sha256 v (Some c) = Inr True \<Longrightarrow>
     \<exists>verifier. v = Some verifier \<and> PKCE_VALUE_fullmatch verifier \<and> base64url (sha256 verifier) = c"
  by (auto simp: verify_pkce_def split: option.splits if_splits dest: compare_digest_True)

lemma S256_ascii: "S256_CHALLENGE_fullmatch s \<Longrightarrow> all_ascii s"
  by (auto simp: S256_CHALLENGE_fullmatch_def all_ascii_def ascii_alpha_def ascii_digit_def)

end
