(* ===== verification/Oidc_Config.thy ===== *)
theory Oidc_Config
  imports Domain_Oidc Redirect_Urls
begin

text \<open>
  \<^verbatim>\<open>oidc_config.py\<close>: the validators of one OIDC client policy, the client registry and
  \<^verbatim>\<open>parse_oidc_clients_json\<close>. Pydantic's reading of a JSON object into the typed fields (aliases,
  defaults, extra keys) is the argument \<open>decode\<close>; Argon2's \<^verbatim>\<open>extract_parameters\<close> is the argument
  \<open>extract\<close>. The lemmas show what an accepted registry guarantees to the authorization flow: exact
  HTTPS redirect addresses without fragment, user information or response parameters, unique client
  ids, and required roles that always show in the groups claim.
\<close>

section \<open>Field validators\<close>

definition client_id_char :: "nat \<Rightarrow> bool" where
  "client_id_char c \<longleftrightarrow> ascii_alpha c \<or> ascii_digit c \<or> c = 46 \<or> c = 95 \<or> c = 126 \<or> c = 45"

definition CLIENT_ID_fullmatch :: "pystr \<Rightarrow> bool" where
  "CLIENT_ID_fullmatch s \<longleftrightarrow> s \<noteq> [] \<and> length s \<le> 128 \<and> (ascii_alpha (hd s) \<or> ascii_digit (hd s))
     \<and> (\<forall>c \<in> set (tl s). client_id_char c)"

definition SCOPE_fullmatch :: "pystr \<Rightarrow> bool" where
  "SCOPE_fullmatch s \<longleftrightarrow> s \<noteq> [] \<and> (\<forall>c \<in> set s. c = 33 \<or> (35 \<le> c \<and> c \<le> 91) \<or> (93 \<le> c \<and> c \<le> 126))"

definition LOOPBACK_HOSTS :: "pystr list" where
  "LOOPBACK_HOSTS = [lit ''127.0.0.1'', lit ''::1'', lit ''localhost'']"

definition DEFAULT_SCOPES :: "pystr list" where
  "DEFAULT_SCOPES = [lit ''openid'', lit ''email'', lit ''profile'']"

definition role_requirement_ok :: "OidcRoleRequirement \<Rightarrow> bool" where
  "role_requirement_ok r \<longleftrightarrow> orr_service_key r \<noteq> [] \<and> length (orr_service_key r) \<le> 64
     \<and> orr_name r \<noteq> [] \<and> length (orr_name r) \<le> 64 \<and> 58 \<notin> set (orr_service_key r) \<and> 58 \<notin> set (orr_name r)"

text \<open>\<^verbatim>\<open>username is not None or password is not None\<close>: the authority has user information.\<close>

definition url_has_userinfo :: "SplitResult \<Rightarrow> bool" where
  "url_has_userinfo r \<longleftrightarrow> 64 \<in> set (url_netloc r)"

definition RESPONSE_PARAMETERS :: "pystr list" where
  "RESPONSE_PARAMETERS = [lit ''code'', lit ''state'', lit ''error'', lit ''error_description'']"

definition validate_redirect_uri :: "url_env \<Rightarrow> pystr \<Rightarrow> exn + unit" where
  "validate_redirect_uri E v =
     bindE (requireE (v = py_strip v \<and> (\<forall>c \<in> set v. \<not> py_isspace c \<and> 32 < c)
              \<and> 35 \<notin> set v \<and> 42 \<notin> set v \<and> 92 \<notin> set v)
              (ValueError (lit ''OIDC redirectUris must be exact absolute URLs without fragments''))) (\<lambda>_.
     case urlsplit E v of
       None \<Rightarrow> Inl (ValueError (lit ''OIDC redirectUris must be valid absolute URLs''))
     | Some parsed \<Rightarrow>
         (case url_port parsed of
            None \<Rightarrow> Inl (ValueError (lit ''OIDC redirectUris must be valid absolute URLs''))
          | Some port \<Rightarrow>
              bindE (requireE (url_scheme parsed \<in> {lit ''http'', lit ''https''}
                       \<and> (case url_hostname E parsed of None \<Rightarrow> False
                          | Some h \<Rightarrow> h \<noteq> [] \<and> all_ascii h \<and> 37 \<notin> set h)
                       \<and> \<not> url_has_userinfo parsed
                       \<and> \<not> (port = None \<and> 58 \<in> set (after_last 93 (url_netloc parsed))))
                       (ValueError (lit ''OIDC redirectUris must be valid absolute URLs''))) (\<lambda>_.
              bindE (requireE (url_scheme parsed = lit ''http'' \<longrightarrow>
                       url_hostname E parsed \<in> set (map Some LOOPBACK_HOSTS))
                       (ValueError (lit ''OIDC redirectUris must use HTTPS''))) (\<lambda>_.
              requireE (\<forall>(name, _) \<in> set (parse_qsl (url_query parsed)). name \<notin> set RESPONSE_PARAMETERS)
                (ValueError (lit ''OIDC redirectUris must not predefine authorization response parameters''))))))"

record ArgonParameters =
  ap_type_id :: bool
  ap_version :: int
  ap_memory_cost :: int
  ap_time_cost :: int
  ap_parallelism :: int
  ap_hash_len :: int
  ap_salt_len :: int

definition validate_secret_hash :: "(pystr \<Rightarrow> ArgonParameters option) \<Rightarrow> pystr \<Rightarrow> exn + unit" where
  "validate_secret_hash extract v =
     (case extract v of
        None \<Rightarrow> Inl (ValueError (lit ''OIDC clientSecretHash must be an Argon2id PHC hash''))
      | Some p \<Rightarrow>
          requireE (ap_type_id p \<and> ap_version p = 19 \<and> 8192 \<le> ap_memory_cost p \<and> ap_memory_cost p \<le> 65536
              \<and> 1 \<le> ap_time_cost p \<and> ap_time_cost p \<le> 4 \<and> 1 \<le> ap_parallelism p \<and> ap_parallelism p \<le> 4
              \<and> 32 \<le> ap_hash_len p \<and> 16 \<le> ap_salt_len p)
            (ValueError (lit ''OIDC clientSecretHash must be an Argon2id PHC hash'')))"

definition validate_redirect_uris :: "url_env \<Rightarrow> pystr list \<Rightarrow> bool" where
  "validate_redirect_uris E vs \<longleftrightarrow> vs \<noteq> [] \<and> length vs \<le> 16 \<and> (\<forall>v \<in> set vs. v \<noteq> [])
     \<and> distinct vs \<and> (\<forall>v \<in> set vs. validate_redirect_uri E v = Inr ())"

definition validate_group_service_keys :: "pystr list \<Rightarrow> bool" where
  "validate_group_service_keys vs \<longleftrightarrow> vs \<noteq> [] \<and> length vs \<le> 32 \<and> distinct vs
     \<and> (\<forall>v \<in> set vs. v \<noteq> [] \<and> 58 \<notin> set v \<and> length v \<le> 64)"

definition validate_allowed_scopes :: "pystr list \<Rightarrow> bool" where
  "validate_allowed_scopes vs \<longleftrightarrow> vs \<noteq> [] \<and> length vs \<le> 16 \<and> distinct vs \<and> lit ''openid'' \<in> set vs
     \<and> set vs \<subseteq> set DEFAULT_SCOPES \<and> (\<forall>v \<in> set vs. SCOPE_fullmatch v)"

definition validate_role_projection :: "OidcClientPolicy \<Rightarrow> bool" where
  "validate_role_projection p \<longleftrightarrow> ocp_required_roles p \<noteq> [] \<and> length (ocp_required_roles p) \<le> 32
     \<and> (\<forall>r \<in> set (ocp_required_roles p). role_requirement_ok r
          \<and> orr_service_key r \<in> set (ocp_groups_service_keys p))
     \<and> distinct (ocp_required_roles p)"

text \<open>All validators of \<^verbatim>\<open>OidcClientPolicy\<close> on the typed fields; Pydantic collects their errors into one
  \<^verbatim>\<open>ValidationError\<close>.\<close>

definition client_policy_ok :: "url_env \<Rightarrow> (pystr \<Rightarrow> ArgonParameters option) \<Rightarrow> OidcClientPolicy \<Rightarrow> bool" where
  "client_policy_ok E extract p \<longleftrightarrow> CLIENT_ID_fullmatch (ocp_client_id p)
     \<and> validate_redirect_uris E (ocp_redirect_uris p)
     \<and> ocp_client_secret_hash p \<noteq> [] \<and> validate_secret_hash extract (ocp_client_secret_hash p) = Inr ()
     \<and> validate_group_service_keys (ocp_groups_service_keys p)
     \<and> validate_allowed_scopes (ocp_allowed_scopes p)
     \<and> validate_role_projection p"

definition accepts_redirect_uri :: "OidcClientPolicy \<Rightarrow> pystr \<Rightarrow> bool" where
  "accepts_redirect_uri p v \<longleftrightarrow> v \<in> set (ocp_redirect_uris p)"

section \<open>The registry\<close>

type_synonym OidcClientRegistry = "OidcClientPolicy list"

definition make_registry :: "OidcClientPolicy list \<Rightarrow> exn + OidcClientRegistry" where
  "make_registry clients =
     (if distinct (map ocp_client_id clients) then Inr clients
      else Inl (ValueError (lit ''OIDC clientId values must be unique'')))"

definition registry_get :: "OidcClientRegistry \<Rightarrow> pystr \<Rightarrow> OidcClientPolicy option" where
  "registry_get clients client_id = find (\<lambda>c. ocp_client_id c = client_id) clients"

definition registry_require :: "OidcClientRegistry \<Rightarrow> pystr \<Rightarrow> exn + OidcClientPolicy" where
  "registry_require clients client_id =
     (case registry_get clients client_id of
        None \<Rightarrow> Inl (ValueError (lit ''unknown OIDC client''))
      | Some c \<Rightarrow> Inr c)"

definition https_only :: "url_env \<Rightarrow> OidcClientRegistry \<Rightarrow> bool" where
  "https_only E clients \<longleftrightarrow> (\<forall>c \<in> set clients. \<forall>uri \<in> set (ocp_redirect_uris c).
     case urlsplit E uri of None \<Rightarrow> False | Some r \<Rightarrow> url_scheme r = lit ''https'')"

definition INVALID_CLIENTS :: exn where
  "INVALID_CLIENTS = ValueError (lit ''OIDC_CLIENTS_JSON contains an invalid client policy'')"

fun validate_clients ::
  "url_env \<Rightarrow> (pystr \<Rightarrow> ArgonParameters option) \<Rightarrow> (pyval \<Rightarrow> OidcClientPolicy option) \<Rightarrow> pyval list \<Rightarrow>
   exn + OidcClientPolicy list" where
  "validate_clients E extract decode [] = Inr []"
| "validate_clients E extract decode (item # items) =
     (case decode item of
        None \<Rightarrow> Inl INVALID_CLIENTS
      | Some p \<Rightarrow>
          if client_policy_ok E extract p
          then bindE (validate_clients E extract decode items) (\<lambda>ps. Inr (p # ps))
          else Inl INVALID_CLIENTS)"

text \<open>\<^verbatim>\<open>parse_oidc_clients_json\<close> after the JSON was read.\<close>

definition registry_of_items ::
  "url_env \<Rightarrow> (pystr \<Rightarrow> ArgonParameters option) \<Rightarrow> (pyval \<Rightarrow> OidcClientPolicy option) \<Rightarrow> pyval list \<Rightarrow> bool \<Rightarrow>
   exn + OidcClientRegistry" where
  "registry_of_items E extract decode items allow_loopback =
     bindE (validate_clients E extract decode items) (\<lambda>clients.
     case make_registry clients of
       Inl _ \<Rightarrow> Inl INVALID_CLIENTS
     | Inr registry \<Rightarrow>
         if \<not> allow_loopback \<and> \<not> https_only E registry
         then Inl (ValueError (lit ''OIDC loopback redirectUris are allowed only in test mode''))
         else Inr registry)"

definition parse_oidc_clients_json ::
  "url_env \<Rightarrow> (pystr \<Rightarrow> pyfloat) \<Rightarrow> (pystr \<Rightarrow> ArgonParameters option) \<Rightarrow> (pyval \<Rightarrow> OidcClientPolicy option) \<Rightarrow>
   pyval \<Rightarrow> bool \<Rightarrow> exn + OidcClientRegistry" where
  "parse_oidc_clients_json E fl extract decode raw allow_loopback =
     bindE (case raw of
              PStr s \<Rightarrow> (case json_loads fl s of
                 Inl JSONDecodeError \<Rightarrow> Inl (ValueError (lit ''OIDC_CLIENTS_JSON must be valid JSON''))
               | Inl IntTooLarge \<Rightarrow> Inl (ValueError (lit ''Exceeds the limit for integer string conversion''))
               | Inr v \<Rightarrow> Inr v)
            | _ \<Rightarrow> Inr raw) (\<lambda>decoded.
     case decoded of
       PList items \<Rightarrow> registry_of_items E extract decode items allow_loopback
     | _ \<Rightarrow> Inl (ValueError (lit ''OIDC_CLIENTS_JSON must be an array'')))"

section \<open>What an accepted registry guarantees\<close>

lemma validate_redirect_uri_Inr:
  "validate_redirect_uri E v = Inr () \<Longrightarrow>
     \<exists>r h. urlsplit E v = Some r \<and> url_hostname E r = Some h \<and> h \<noteq> [] \<and> all_ascii h
       \<and> (url_scheme r = lit ''https'' \<or> url_scheme r = lit ''http'' \<and> h \<in> set LOOPBACK_HOSTS)
       \<and> \<not> url_has_userinfo r \<and> 35 \<notin> set v \<and> (\<forall>c \<in> set v. 32 < c)
       \<and> (\<forall>(name, _) \<in> set (parse_qsl (url_query r)). name \<notin> set RESPONSE_PARAMETERS)"
  by (auto simp: validate_redirect_uri_def bindE_Inr_iff split: option.splits)

lemma validate_clients_Inr:
  "validate_clients E extract decode items = Inr ps \<Longrightarrow> \<forall>p \<in> set ps. client_policy_ok E extract p"
  by (induction items arbitrary: ps) (auto simp: bindE_Inr_iff split: option.splits if_splits)

lemma registry_of_items_Inr:
  "registry_of_items E extract decode items allow_loopback = Inr reg \<Longrightarrow>
     distinct (map ocp_client_id reg) \<and> (\<forall>p \<in> set reg. client_policy_ok E extract p)
     \<and> (allow_loopback \<or> https_only E reg)"
  using validate_clients_Inr
  by (fastforce simp: registry_of_items_def bindE_Inr_iff make_registry_def split: if_splits)

lemma parse_oidc_clients_json_Inr:
  assumes "parse_oidc_clients_json E fl extract decode raw allow_loopback = Inr reg"
  shows "distinct (map ocp_client_id reg) \<and> (\<forall>p \<in> set reg. client_policy_ok E extract p)
    \<and> (allow_loopback \<or> https_only E reg)"
proof -
  from assms obtain decoded where
    "(case decoded of PList items \<Rightarrow> registry_of_items E extract decode items allow_loopback
        | _ \<Rightarrow> Inl (ValueError (lit ''OIDC_CLIENTS_JSON must be an array''))) = Inr reg"
    unfolding parse_oidc_clients_json_def bindE_Inr_iff by blast
  then show ?thesis by (cases decoded) (simp_all add: registry_of_items_Inr)
qed

lemma registry_get_Some:
  "registry_get reg cid = Some c \<Longrightarrow> c \<in> set reg \<and> ocp_client_id c = cid"
  by (auto simp: registry_get_def dest!: find_Some_set)

lemma required_role_projected:
  assumes "validate_role_projection client" "has_required_role identity client"
    and "project_groups identity client = Inr gs"
  shows "\<exists>required \<in> set (ocp_required_roles client). orr_service_key required @ [58] @ orr_name required \<in> set gs"
proof -
  from assms(2) obtain req role where req: "req \<in> set (ocp_required_roles client)"
    and role: "role \<in> set (oi_roles identity)" "role_service_key role = orr_service_key req" "role_name role = orr_name req"
    by (auto simp: has_required_role_def)
  from assms(1) req have "orr_service_key req \<in> set (ocp_groups_service_keys client)"
    by (simp add: validate_role_projection_def)
  with role assms(3) have "role_group role \<in> set gs"
    by (auto simp: project_groups_Inr projected_roles_Inr)
  with req role show ?thesis by (auto simp: role_group_def)
qed

text \<open>C19. An accepted client registry. A client id names one client; every redirect address the client
  accepts parses as an absolute URL with an ASCII host, over HTTPS (or, only where loopback clients
  are allowed, HTTP to this machine), with no fragment, user information or white space, and without
  any parameter of an authorization response; and a user who holds a required role of the client
  always has one of the required roles in the groups claim.\<close>

theorem accepted_registry:
  assumes "parse_oidc_clients_json E fl extract decode raw allow_loopback = Inr reg"
    and "registry_get reg client_id = Some client" and "accepts_redirect_uri client uri"
  shows "(\<forall>c \<in> set reg. ocp_client_id c = client_id \<longrightarrow> c = client)
    \<and> (\<exists>r h. urlsplit E uri = Some r \<and> url_hostname E r = Some h \<and> h \<noteq> [] \<and> all_ascii h
         \<and> (url_scheme r = lit ''https'' \<or> allow_loopback \<and> url_scheme r = lit ''http'' \<and> h \<in> set LOOPBACK_HOSTS)
         \<and> \<not> url_has_userinfo r \<and> 35 \<notin> set uri \<and> (\<forall>c \<in> set uri. 32 < c)
         \<and> (\<forall>(name, _) \<in> set (parse_qsl (url_query r)). name \<notin> set RESPONSE_PARAMETERS))
    \<and> (\<forall>identity gs. has_required_role identity client \<and> project_groups identity client = Inr gs \<longrightarrow>
         (\<exists>required \<in> set (ocp_required_roles client).
            orr_service_key required @ [58] @ orr_name required \<in> set gs))"
proof -
  note reg = parse_oidc_clients_json_Inr [OF assms(1)]
  note found = registry_get_Some [OF assms(2)]
  from reg found have ok: "client_policy_ok E extract client" by blast
  with assms(3) have "validate_redirect_uri E uri = Inr ()"
    by (auto simp: client_policy_ok_def validate_redirect_uris_def accepts_redirect_uri_def)
  note uri = validate_redirect_uri_Inr [OF this]
  have https: "url_scheme r = lit ''https''" if "\<not> allow_loopback" "urlsplit E uri = Some r" for r
    using reg found assms(3) that by (fastforce simp: https_only_def accepts_redirect_uri_def)
  have unique: "\<forall>c \<in> set reg. ocp_client_id c = client_id \<longrightarrow> c = client"
    using reg found distinct_map_key_eq by metis
  have "validate_role_projection client" using ok by (simp add: client_policy_ok_def)
  then have groups: "\<forall>identity gs. has_required_role identity client \<and> project_groups identity client = Inr gs \<longrightarrow>
         (\<exists>required \<in> set (ocp_required_roles client).
            orr_service_key required @ [58] @ orr_name required \<in> set gs)"
    using required_role_projected by blast
  from uri https have "\<exists>r h. urlsplit E uri = Some r \<and> url_hostname E r = Some h \<and> h \<noteq> [] \<and> all_ascii h
         \<and> (url_scheme r = lit ''https'' \<or> allow_loopback \<and> url_scheme r = lit ''http'' \<and> h \<in> set LOOPBACK_HOSTS)
         \<and> \<not> url_has_userinfo r \<and> 35 \<notin> set uri \<and> (\<forall>c \<in> set uri. 32 < c)
         \<and> (\<forall>(name, _) \<in> set (parse_qsl (url_query r)). name \<notin> set RESPONSE_PARAMETERS)"
    by blast
  with unique groups show ?thesis by blast
qed

definition sample_extract :: "pystr \<Rightarrow> ArgonParameters option" where
  "sample_extract v = Some \<lparr>ap_type_id = True, ap_version = 19, ap_memory_cost = 65536, ap_time_cost = 3,
     ap_parallelism = 4, ap_hash_len = 32, ap_salt_len = 16\<rparr>"

definition sample_url_env :: url_env where
  "sample_url_env = \<lparr>ue_nfkc = (\<lambda>s. s), ue_lower = (\<lambda>s. s), ue_ipv6 = (\<lambda>_. False)\<rparr>"

lemma sample_registry:
  "parse_oidc_clients_json sample_url_env FiniteFloat sample_extract (\<lambda>_. Some sample_oidc_client)
     (PList [PDict []]) False = Inr [sample_oidc_client]"
  by code_simp

lemma accepted_registry_witness:
  "\<exists>r. urlsplit sample_url_env (lit ''https://w.co/cb?x=1'') = Some r \<and> url_scheme r = lit ''https''
     \<and> \<not> url_has_userinfo r"
proof -
  have "registry_get [sample_oidc_client] (lit ''wiki'') = Some sample_oidc_client"
    "accepts_redirect_uri sample_oidc_client (lit ''https://w.co/cb?x=1'')"
    by (simp_all add: registry_get_def accepts_redirect_uri_def sample_oidc_client_def)
  from accepted_registry [OF sample_registry this] show ?thesis by blast
qed

end
