(* ===== verification/Oidc_Redirects.thy ===== *)
theory Oidc_Redirects
  imports Oidc_Config
begin

text \<open>
  \<^verbatim>\<open>_url_with_query\<close> of \<^verbatim>\<open>application/oidc.py\<close>, which appends the authorization response to the
  registered redirect address, and \<^verbatim>\<open>urllib.parse.urlencode\<close>, which it uses. The lemmas show that an
  address the registry accepted parses, after the response was appended, to the same scheme, authority
  and path, with its own parameters followed by those of the response; and they show the one shape of
  accepted address for which that fails.
\<close>

section \<open>Writing the response\<close>

definition quote_plus_byte :: "nat \<Rightarrow> pystr" where
  "quote_plus_byte b =
     (if ascii_alpha b \<or> ascii_digit b \<or> b = 95 \<or> b = 46 \<or> b = 45 \<or> b = 126 then [b]
      else if b = 32 then [43] else [37, upper_hex (b div 16), upper_hex (b mod 16)])"

definition quote_plus :: "pystr \<Rightarrow> pystr" where
  "quote_plus s = concat (map quote_plus_byte (utf8_bytes s))"

definition no_surrogate :: "pystr \<Rightarrow> bool" where
  "no_surrogate s \<longleftrightarrow> (\<forall>c \<in> set s. \<not> is_surrogate c)"

definition py_urlencode :: "(pystr \<times> pystr) list \<Rightarrow> exn + pystr" where
  "py_urlencode values =
     bindE (requireE (\<forall>(k, v) \<in> set values. no_surrogate k \<and> no_surrogate v)
              (ValueError (lit ''surrogates not allowed''))) (\<lambda>_.
     Inr (join_amp (map (\<lambda>(k, v). quote_plus k @ [61] @ quote_plus v) values)))"

definition query_separator :: "pystr \<Rightarrow> pystr" where
  "query_separator base =
     (if 63 \<notin> set base then [63] else if py_endswith base [63] \<or> py_endswith base [38] then [] else [38])"

definition oidc_url_with_query :: "pystr \<Rightarrow> (pystr \<times> pystr) list \<Rightarrow> exn + pystr" where
  "oidc_url_with_query url values =
     bindE (py_urlencode values) (\<lambda>encoded.
     case py_partition 35 url of
       (base, fragment_marker, fragment) \<Rightarrow>
         let rendered = base @ query_separator base @ encoded
         in Inr (if \<not> fragment_marker then rendered else rendered @ [35] @ fragment))"

definition authorization_response :: "pystr \<Rightarrow> pystr option \<Rightarrow> (pystr \<times> pystr) list" where
  "authorization_response code state =
     (lit ''code'', code) # (case state of None \<Rightarrow> [] | Some s \<Rightarrow> [(lit ''state'', s)])"

section \<open>What urlencode writes is read back\<close>

lemma quote_plus_byte_alt:
  "b < 256 \<Longrightarrow> quote_plus_byte b = (if b = 126 then [126] else if b = 42 then [37, 50, 65] else quote_byte b)"
  by (auto simp: quote_plus_byte_def quote_byte_def unreserved_form_def upper_hex_def
      ascii_alpha_def ascii_digit_def)

lemma quote_plus_byte_quoted: "b < 256 \<Longrightarrow> c \<in> set (quote_plus_byte b) \<Longrightarrow> quoted_char c"
  by (auto simp: quote_plus_byte_alt quoted_char_def dest: quote_byte_quoted split: if_splits)

lemma unquote_quote_plus_byte:
  "b < 256 \<Longrightarrow> unquote_to_bytes (plus_to_space (quote_plus_byte b) @ rest) = b # unquote_to_bytes rest"
  by (simp add: quote_plus_byte_alt unquote_quote_byte) (auto simp: plus_to_space_def hex_value_def)

lemma unquote_quote_plus_bytes:
  "\<forall>b \<in> set bs. b < 256 \<Longrightarrow> unquote_to_bytes (plus_to_space (concat (map quote_plus_byte bs))) = bs"
proof (induction bs)
  case (Cons b bs)
  have "plus_to_space (quote_plus_byte b @ r) = plus_to_space (quote_plus_byte b) @ plus_to_space r" for r
    by (simp add: plus_to_space_def)
  with Cons show ?case by (simp add: unquote_quote_plus_byte)
qed (simp add: plus_to_space_def)

lemma utf8_bytes_byte: "str_ok s \<Longrightarrow> b \<in> set (utf8_bytes s) \<Longrightarrow> b < 256"
  by (auto simp: utf8_bytes_def str_ok_def dest: utf8_char_byte)

lemma quote_plus_quoted: "str_ok s \<Longrightarrow> c \<in> set (quote_plus s) \<Longrightarrow> quoted_char c"
  by (auto simp: quote_plus_def dest!: utf8_bytes_byte quote_plus_byte_quoted)

lemma unquote_quote_plus:
  assumes "str_ok s"
  shows "unquote (plus_to_space (quote_plus s)) = s"
proof -
  have "all_ascii (plus_to_space (quote_plus s))"
    using quote_plus_quoted [OF assms] by (auto simp: all_ascii_def plus_to_space_def quoted_char_def)
  moreover have "unquote_to_bytes (plus_to_space (quote_plus s)) = utf8_bytes s"
    unfolding quote_plus_def using utf8_bytes_byte [OF assms] by (intro unquote_quote_plus_bytes) blast
  ultimately show ?thesis by (simp add: unquote_ascii utf8_replace_bytes assms)
qed

definition pairs_ok :: "(pystr \<times> pystr) list \<Rightarrow> bool" where
  "pairs_ok values \<longleftrightarrow> (\<forall>(k, v) \<in> set values. str_ok k \<and> str_ok v)"

lemma urlencode_roundtrip:
  assumes "pairs_ok values" "py_urlencode values = Inr q"
  shows "parse_qsl q = values"
proof (cases "values = []")
  case False
  let ?ws = "map (\<lambda>(k, v). quote_plus k @ [61] @ quote_plus v) values"
  have quoted: "38 \<notin> set (quote_plus s)" "61 \<notin> set (quote_plus s)" if "str_ok s" for s
    using quote_plus_quoted [OF that] by (auto simp: quoted_char_def)
  from assms(2) have q: "q = join_amp ?ws" by (auto simp: py_urlencode_def bindE_Inr_iff)
  have "\<forall>w \<in> set ?ws. 38 \<notin> set w" using assms(1) quoted(1) by (fastforce simp: pairs_ok_def)
  with False q have "py_split_on 38 q = ?ws" by (simp add: split_join_amp)
  moreover have "filter (\<lambda>item. item \<noteq> []) ?ws = ?ws" by (induction "values") auto
  moreover have "map parse_pair ?ws = values"
    using assms(1) quoted(2)
    by (induction "values") (auto simp: pairs_ok_def parse_pair_def py_partition_append unquote_quote_plus)
  ultimately show ?thesis by (simp only: parse_qsl_def)
qed (use assms(2) in \<open>simp add: py_urlencode_def parse_qsl_def\<close>)

lemma urlencode_chars:
  assumes "pairs_ok values" "py_urlencode values = Inr q" "c \<in> set q"
  shows "32 < c" "c \<noteq> 35"
proof -
  have byte: "32 < c \<and> c \<noteq> 35" if "c \<in> set (quote_plus_byte b)" for b c
  proof -
    have hex: "32 < upper_hex v \<and> upper_hex v \<noteq> 35" for v by (auto simp: upper_hex_def)
    from that consider "c = b" "ascii_alpha b \<or> ascii_digit b \<or> b = 95 \<or> b = 46 \<or> b = 45 \<or> b = 126"
      | "c = 43" | "c = 37" | v where "c = upper_hex v"
      unfolding quote_plus_byte_def by (auto split: if_splits)
    then show ?thesis by cases (use hex in \<open>auto simp: ascii_alpha_def ascii_digit_def\<close>)
  qed
  then have quoted: "32 < c \<and> c \<noteq> 35" if "c \<in> set (quote_plus s)" for s c
    using that byte by (auto simp: quote_plus_def)
  have join: "c \<in> set (join_amp ws) \<Longrightarrow> c = 38 \<or> (\<exists>w \<in> set ws. c \<in> set w)" for ws :: "pystr list" and c
    by (induction ws rule: join_amp.induct) auto
  from assms(2) have "q = join_amp (map (\<lambda>(k, v). quote_plus k @ [61] @ quote_plus v) values)"
    by (auto simp: py_urlencode_def bindE_Inr_iff)
  with assms(3) join [of c] consider "c = 38" | k v where "(k, v) \<in> set values"
      "c \<in> set (quote_plus k @ [61] @ quote_plus v)"
    by fastforce
  then have "32 < c \<and> c \<noteq> 35"
    using assms(1) quoted by cases (fastforce simp: pairs_ok_def)+
  then show "32 < c" "c \<noteq> 35" by simp_all
qed

section \<open>Appending to an address\<close>

lemma partition_found: "py_partition sep s = (h, True, t) \<Longrightarrow> py_partition sep (s @ x) = (h, True, t @ x)"
  by (induction s arbitrary: h) (auto split: if_splits prod.splits)

lemma partition_found_eq: "py_partition sep s = (h, True, t) \<Longrightarrow> s = h @ sep # t \<and> sep \<notin> set h"
  by (induction s arbitrary: h) (auto split: if_splits prod.splits)

lemma partition_absent: "sep \<notin> set s \<Longrightarrow> py_partition sep s = (s, False, [])"
  by (induction s) auto

lemma partition_mem: "sep \<in> set s \<Longrightarrow> \<exists>h t. py_partition sep s = (h, True, t)"
  by (induction s) (auto split: prod.splits)

lemma py_split_on_append: "py_split_on sep (a @ sep # b) = py_split_on sep a @ py_split_on sep b"
  by (induction a) (auto simp: py_split_on_ne split: list.split)

lemma parse_qsl_Nil [simp]: "parse_qsl [] = []"
  by (simp add: parse_qsl_def)

lemma parse_qsl_append: "parse_qsl (a @ 38 # b) = parse_qsl a @ parse_qsl b"
  by (simp add: parse_qsl_def py_split_on_append)

lemma parse_qsl_trailing: "parse_qsl (a @ [38]) = parse_qsl a"
  using parse_qsl_append [of a "[]"] by (simp add: parse_qsl_def)

lemma strip_unsafe_id: "\<forall>c \<in> set s. 32 < c \<Longrightarrow> strip_unsafe s = s"
  by (cases s) (auto simp: strip_unsafe_def intro!: filter_True)

lemma split_scheme_append:
  "split_scheme s = (scheme, t) \<Longrightarrow> scheme \<noteq> [] \<Longrightarrow> split_scheme (s @ x) = (scheme, t @ x)
     \<and> (\<exists>h. s = h @ 58 # t \<and> (\<forall>c \<in> set h. scheme_char c))"
  by (auto simp: split_scheme_def partition_found dest!: partition_found_eq split: prod.splits if_splits)

lemma split_netloc_append:
  assumes "split_netloc t = (netloc, rest)" "netloc \<noteq> []" "rest \<noteq> [] \<or> x = [] \<or> netloc_end (hd x)"
  shows "split_netloc (t @ x) = (netloc, rest @ x) \<and> t = [47, 47] @ netloc @ rest
    \<and> (\<forall>c \<in> set netloc. \<not> netloc_end c)"
proof -
  let ?p = "\<lambda>c. \<not> netloc_end c"
  from assms(1,2) have pre: "is_prefix [47, 47] t" and
    n: "netloc = takeWhile ?p (drop 2 t)" "rest = dropWhile ?p (drop 2 t)"
    by (auto simp: split_netloc_def split: if_splits)
  from pre obtain u where t: "t = 47 # 47 # u" by (auto elim: is_prefix.elims)
  have "takeWhile ?p (u @ x) = takeWhile ?p u \<and> dropWhile ?p (u @ x) = dropWhile ?p u @ x"
  proof (cases "dropWhile ?p u = []")
    case True
    then have "\<forall>c \<in> set u. ?p c" by (simp add: dropWhile_eq_Nil_conv)
    moreover have "takeWhile ?p x = [] \<and> dropWhile ?p x = x"
      using assms(3) n True t by (cases x) auto
    ultimately show ?thesis using True by (simp add: takeWhile_append2 dropWhile_append2 takeWhile_eq_all_conv [THEN iffD2])
  next
    case False
    then obtain c where "c \<in> set u" "\<not> ?p c" by (auto simp: dropWhile_eq_Nil_conv)
    then show ?thesis by (auto simp: takeWhile_append1 dropWhile_append1)
  qed
  with n t show ?thesis by (auto simp: split_netloc_def dest: set_takeWhileD)
qed

text \<open>An address without fragment and control characters keeps its parts when a query is appended to it.\<close>

lemma urlsplit_append:
  assumes r: "urlsplit E s = Some r" "url_scheme r \<noteq> []" "url_netloc r \<noteq> []"
    and s: "\<forall>c \<in> set s. 32 < c" "35 \<notin> set s" and x: "\<forall>c \<in> set x. 32 < c" "35 \<notin> set x"
  shows "63 \<in> set s \<Longrightarrow> urlsplit E (s @ x) = Some (r\<lparr>url_query := url_query r @ x\<rparr>)"
    and "63 \<notin> set s \<Longrightarrow> urlsplit E (s @ 63 # x) = Some (r\<lparr>url_query := x\<rparr>) \<and> url_query r = []"
    and "63 \<in> set s \<Longrightarrow> \<exists>u. s = u @ 63 # url_query r"
proof -
  obtain scheme rest where sc: "split_scheme s = (scheme, rest)" by (cases "split_scheme s")
  obtain netloc rest2 where nl: "split_netloc rest = (netloc, rest2)" by (cases "split_netloc rest")
  obtain path m query where q: "py_partition 63 rest2 = (path, m, query)" by (cases "py_partition 63 rest2") auto
  have sub: "set rest2 \<subseteq> set s"
    using split_scheme_append [OF sc, of "[]"] nl r sc strip_unsafe_id [OF s(1)]
    by (auto simp: urlsplit_def split_netloc_def split_scheme_def split: prod.splits if_splits
        dest!: set_dropWhileD in_set_dropD partition_found_eq)
  then have no35: "35 \<notin> set rest2" using s(2) by blast
  from r(1) sc nl q no35 strip_unsafe_id [OF s(1)] have
    req: "r = \<lparr>url_scheme = scheme, url_netloc = netloc, url_path = path, url_query = query, url_fragment = []\<rparr>"
    and ok: "(91 \<in> set netloc) = (93 \<in> set netloc)" "91 \<in> set netloc \<longrightarrow> bracketed_ok E netloc" "netloc_ok E netloc"
    by (auto simp: urlsplit_def partition_absent split: if_splits)
  from r req have ne: "scheme \<noteq> []" "netloc \<noteq> []" by simp_all
  from split_scheme_append [OF sc ne(1), of x] obtain h where h: "s = h @ 58 # rest" "\<forall>c \<in> set h. scheme_char c" by blast
  from split_netloc_append [OF nl ne(2), of "[]"] have rest: "rest = [47, 47] @ netloc @ rest2"
    "\<forall>c \<in> set netloc. \<not> netloc_end c" by simp_all
  have mem: "63 \<in> set s \<longleftrightarrow> 63 \<in> set rest2"
    using h rest by (auto simp: scheme_char_def ascii_alpha_def ascii_digit_def netloc_end_def)
  have split: "urlsplit E (s @ y) = (case py_partition 63 (rest2 @ y) of (path', _, query') \<Rightarrow>
      Some \<lparr>url_scheme = scheme, url_netloc = netloc, url_path = path', url_query = query', url_fragment = []\<rparr>)"
    if y: "\<forall>c \<in> set y. 32 < c" "35 \<notin> set y" "rest2 \<noteq> [] \<or> y = [] \<or> netloc_end (hd y)" for y
  proof -
    have "strip_unsafe (s @ y) = s @ y" using s(1) y(1) by (intro strip_unsafe_id) auto
    moreover have "py_partition 35 (rest2 @ y) = (rest2 @ y, False, [])"
      using no35 y(2) by (intro partition_absent) simp
    ultimately show ?thesis
      using split_scheme_append [OF sc ne(1), of y] split_netloc_append [OF nl ne(2) y(3)] ok
      by (auto simp: urlsplit_def split: prod.split)
  qed
  show "urlsplit E (s @ x) = Some (r\<lparr>url_query := url_query r @ x\<rparr>)" if "63 \<in> set s"
  proof -
    from that mem partition_mem [of 63 rest2] q have "py_partition 63 rest2 = (path, True, query)" by auto
    moreover have "rest2 \<noteq> []" using that mem by auto
    ultimately show ?thesis using split [of x] x req by (auto simp: partition_found)
  qed
  show "urlsplit E (s @ 63 # x) = Some (r\<lparr>url_query := x\<rparr>) \<and> url_query r = []" if "63 \<notin> set s"
  proof -
    from that mem have no: "63 \<notin> set rest2" by simp
    then have "path = rest2" "query = []" using q by (simp_all add: partition_absent)
    with split [of "63 # x"] x no req show ?thesis by (simp add: py_partition_append netloc_end_def)
  qed
  show "\<exists>u. s = u @ 63 # url_query r" if "63 \<in> set s"
  proof -
    from that mem partition_mem [of 63 rest2] q have "py_partition 63 rest2 = (path, True, query)" by auto
    from partition_found_eq [OF this] h rest req show ?thesis by auto
  qed
qed

section \<open>The authorization response in the redirect\<close>

lemma authorization_response_ok:
  "str_ok code \<Longrightarrow> (\<forall>s. state = Some s \<longrightarrow> str_ok s) \<Longrightarrow> pairs_ok (authorization_response code state)"
  by (auto simp: authorization_response_def pairs_ok_def str_ok_lit split: option.split)

lemma py_endswith_single: "py_endswith s [c] \<longleftrightarrow> s \<noteq> [] \<and> last s = c"
  by (cases s rule: rev_cases) (auto simp: py_endswith_def)

text \<open>The redirect carries the authorization response. Appending the code and the state to a redirect
  address the registry accepted gives an address with the same scheme, authority and path, whose query
  reads back as the registered parameters followed by exactly the code and the state as they were
  issued; the code and the state are the only parameters of those names. The only exception is an
  address whose query ends with a question mark (\<open>redirect_loses_code\<close>).\<close>

theorem oidc_redirect_carries_code:
  assumes "validate_redirect_uri E uri = Inr ()" "str_ok code" "\<forall>s. state = Some s \<longrightarrow> str_ok s"
    and "oidc_url_with_query uri (authorization_response code state) = Inr location"
    and "\<not> (\<exists>u. uri = u @ [63] \<and> 63 \<in> set u)"
  shows "\<exists>r q. urlsplit E uri = Some r \<and> urlsplit E location = Some (r\<lparr>url_query := q\<rparr>)
    \<and> parse_qsl q = parse_qsl (url_query r) @ authorization_response code state
    \<and> values_of (lit ''code'') (parse_qsl q) = [code]
    \<and> values_of (lit ''state'') (parse_qsl q) = (case state of None \<Rightarrow> [] | Some s \<Rightarrow> [s])"
proof -
  let ?v = "authorization_response code state"
  from validate_redirect_uri_Inr [OF assms(1)] obtain r h where r: "urlsplit E uri = Some r"
    "url_hostname E r = Some h" "url_scheme r = lit ''https'' \<or> url_scheme r = lit ''http''"
    and chars: "35 \<notin> set uri" "\<forall>c \<in> set uri. 32 < c"
    and names: "\<forall>(name, _) \<in> set (parse_qsl (url_query r)). name \<notin> set RESPONSE_PARAMETERS" by blast
  have ne: "url_scheme r \<noteq> []" "url_netloc r \<noteq> []"
    using r(2,3) by (auto simp: url_hostname_def host_and_port_def after_last_def Let_def)
  note ok = authorization_response_ok [OF assms(2,3)]
  from assms(4) chars(1) obtain q0 where q0: "py_urlencode ?v = Inr q0"
    and loc: "location = uri @ query_separator uri @ q0"
    by (auto simp: oidc_url_with_query_def bindE_Inr_iff partition_absent)
  note read = urlencode_roundtrip [OF ok q0]
  have q0chars: "\<forall>c \<in> set (38 # q0). 32 < c" "35 \<notin> set (38 # q0)"
    using urlencode_chars [OF ok q0] by auto
  note app = urlsplit_append [OF r(1) ne chars(2,1)]
  have "\<exists>q. urlsplit E location = Some (r\<lparr>url_query := q\<rparr>) \<and> parse_qsl q = parse_qsl (url_query r) @ ?v"
  proof (cases "63 \<in> set uri")
    case False
    with app(2) [of q0] q0chars loc read show ?thesis
      by (auto simp: query_separator_def parse_qsl_def)
  next
    case True
    from app(3) [OF _ _ True, of "[]"] obtain u where u: "uri = u @ 63 # url_query r" by auto
    consider "py_endswith uri [63]" | "py_endswith uri [38]" | "query_separator uri = [38]"
      using True
      by (cases "py_endswith uri [63]"; cases "py_endswith uri [38]") (simp_all add: query_separator_def)
    then show ?thesis
    proof cases
      case 1
      with u assms(5) have "url_query r = []"
        by (cases "url_query r" rule: rev_cases) (auto simp: py_endswith_single)
      with 1 True app(1) [OF _ _ True, of q0] q0chars loc read show ?thesis
        by (auto simp: query_separator_def parse_qsl_def)
    next
      case 2
      with u obtain k where k: "url_query r = k @ [38]"
        by (cases "url_query r" rule: rev_cases) (auto simp: py_endswith_single)
      with 2 True app(1) [OF _ _ True, of q0] q0chars loc read show ?thesis
        by (intro exI [of _ "k @ 38 # q0"]) (simp add: query_separator_def parse_qsl_append)
    next
      case 3
      with app(1) [OF _ _ True, of "38 # q0"] q0chars loc read show ?thesis by (auto simp: parse_qsl_append)
    qed
  qed
  then obtain q where q: "urlsplit E location = Some (r\<lparr>url_query := q\<rparr>)"
    "parse_qsl q = parse_qsl (url_query r) @ ?v" by blast
  have "values_of n (parse_qsl (url_query r)) = []" if "n \<in> {lit ''code'', lit ''state''}" for n
    using names that by (auto simp: values_of_def filter_empty_conv RESPONSE_PARAMETERS_def)
  then have "values_of (lit ''code'') (parse_qsl q) = [code]"
    "values_of (lit ''state'') (parse_qsl q) = (case state of None \<Rightarrow> [] | Some s \<Rightarrow> [s])"
    using q(2) by (simp_all add: values_of_def authorization_response_def split: option.split)
  with r(1) q show ?thesis by blast
qed

lemma oidc_redirect_carries_code_witness:
  "\<exists>q. urlsplit sample_url_env (lit ''https://w.co/cb?x=1&code=C0de&state=a+%26'')
       = Some \<lparr>url_scheme = lit ''https'', url_netloc = lit ''w.co'', url_path = lit ''/cb'', url_query = q,
               url_fragment = []\<rparr>
     \<and> values_of (lit ''code'') (parse_qsl q) = [lit ''C0de'']
     \<and> values_of (lit ''state'') (parse_qsl q) = [lit ''a &'']"
proof -
  have "validate_redirect_uri sample_url_env (lit ''https://w.co/cb?x=1'') = Inr ()"
    and run: "oidc_url_with_query (lit ''https://w.co/cb?x=1'') (authorization_response (lit ''C0de'') (Some (lit ''a &'')))
      = Inr (lit ''https://w.co/cb?x=1&code=C0de&state=a+%26'')"
    and split: "urlsplit sample_url_env (lit ''https://w.co/cb?x=1'')
      = Some \<lparr>url_scheme = lit ''https'', url_netloc = lit ''w.co'', url_path = lit ''/cb'', url_query = lit ''x=1'',
              url_fragment = []\<rparr>"
    by code_simp+
  note ok = this(1)
  have last: "\<not> (\<exists>u. lit ''https://w.co/cb?x=1'' = u @ [63] \<and> 63 \<in> set u)" by (auto simp: lit_def)
  have "\<forall>s. Some (lit ''a &'') = Some s \<longrightarrow> str_ok s" by (simp add: str_ok_lit)
  from oidc_redirect_carries_code [OF ok str_ok_lit this run last] split show ?thesis by auto
qed

text \<open>The exception: \<^verbatim>\<open>base.endswith("?")\<close> also holds for a registered query that ends with a question mark,
  which the registry accepts. The response is then appended without a separator and the code is lost
  in the last registered parameter.\<close>

lemma redirect_loses_code:
  "validate_redirect_uri sample_url_env (lit ''https://w.co/cb?next=/faq?'') = Inr ()
   \<and> oidc_url_with_query (lit ''https://w.co/cb?next=/faq?'') (authorization_response (lit ''C0de'') None)
       = Inr (lit ''https://w.co/cb?next=/faq?code=C0de'')
   \<and> map_option (\<lambda>r. parse_qsl (url_query r)) (urlsplit sample_url_env (lit ''https://w.co/cb?next=/faq?code=C0de''))
       = Some [(lit ''next'', lit ''/faq?code=C0de'')]"
  by code_simp

end
