(* ===== verification/One_Time_Records.thy ===== *)
theory One_Time_Records
  imports Handoff_Redemption
begin

text \<open>
  What the three stores of \<^verbatim>\<open>infrastructure/oidc_state.py\<close> and the token store of
  \<^verbatim>\<open>infrastructure/oidc_tokens.py\<close> share: a record under a key is read, parsed and judged; a broken or
  expired record is removed, a record bound to somebody else is left alone, an accepted one is returned
  or taken with \<^verbatim>\<open>consume_if_exact\<close>. The lemmas hold over every \<open>state_store\<close>; \<open>take_step\<close> interleaves
  any number of takers of one key with other clients of the store.
\<close>

section \<open>Reading, judging and taking a record\<close>

datatype record_verdict = Keep | Drop | Accept

definition judged_record ::
  "'w RedisStateOps \<Rightarrow> nat list \<Rightarrow> (nat list \<Rightarrow> exn + 'r option) \<Rightarrow> ('r \<Rightarrow> exn + record_verdict) \<Rightarrow>
   ('w, (nat list \<times> 'r) option) act" where
  "judged_record S key parse judge =
     bindA (op_get_raw S key) (\<lambda>raw.
     case raw of
       None \<Rightarrow> retA None
     | Some bytes \<Rightarrow>
         bindA (liftA (parse bytes)) (\<lambda>parsed.
         case parsed of
           None \<Rightarrow> bindA (op_consume_if_exact S key bytes) (\<lambda>_. retA None)
         | Some record \<Rightarrow>
             bindA (liftA (judge record)) (\<lambda>verdict.
             case verdict of
               Drop \<Rightarrow> bindA (op_consume_if_exact S key bytes) (\<lambda>_. retA None)
             | Keep \<Rightarrow> retA None
             | Accept \<Rightarrow> retA (Some (bytes, record)))))"

definition take_record :: "'w RedisStateOps \<Rightarrow> nat list \<Rightarrow> nat list \<times> 'r \<Rightarrow> ('w, 'r option) act" where
  "take_record S key held =
     bindA (op_consume_if_exact S key (fst held)) (\<lambda>consumed.
     retA (if consumed \<noteq> None then Some (snd held) else None))"

definition consume_record ::
  "'w RedisStateOps \<Rightarrow> nat list \<Rightarrow> (nat list \<Rightarrow> exn + 'r option) \<Rightarrow> ('r \<Rightarrow> exn + record_verdict) \<Rightarrow>
   ('w, 'r option) act" where
  "consume_record S key parse judge =
     bindA (judged_record S key parse judge) (\<lambda>found.
     case found of None \<Rightarrow> retA None | Some held \<Rightarrow> take_record S key held)"

definition get_record ::
  "'w RedisStateOps \<Rightarrow> nat list \<Rightarrow> (nat list \<Rightarrow> exn + 'r option) \<Rightarrow> ('r \<Rightarrow> exn + record_verdict) \<Rightarrow>
   ('w, 'r option) act" where
  "get_record S key parse judge =
     bindA (judged_record S key parse judge) (\<lambda>found. retA (map_option snd found))"

section \<open>Interleaved takers\<close>

datatype 'r taking = Starting | Holding "nat list \<times> 'r" | Ended "exn + 'r option"

definition taken_by :: "'r taking \<Rightarrow> bool" where
  "taken_by p = (case p of Ended (Inr (Some m)) \<Rightarrow> True | _ \<Rightarrow> False)"

text \<open>Process \<open>n\<close> judges with \<open>judges n now\<close>; \<open>env\<close> is what other clients and the clock do.\<close>

inductive take_step ::
  "'w RedisStateOps \<Rightarrow> ('w \<Rightarrow> 'w \<Rightarrow> bool) \<Rightarrow> nat list \<Rightarrow> (nat list \<Rightarrow> exn + 'r option) \<Rightarrow>
   (nat \<Rightarrow> int \<Rightarrow> 'r \<Rightarrow> exn + record_verdict) \<Rightarrow> 'r taking list \<times> 'w \<Rightarrow> 'r taking list \<times> 'w \<Rightarrow> bool"
  for S env key parse judges where
  looked: "n < length ps \<Longrightarrow> ps ! n = Starting \<Longrightarrow>
    judged_record S key parse (judges n now) w = (Inr (Some held), w') \<Longrightarrow>
    take_step S env key parse judges (ps, w) (ps[n := Holding held], w')"
| refused: "n < length ps \<Longrightarrow> ps ! n = Starting \<Longrightarrow>
    judged_record S key parse (judges n now) w = (Inr None, w') \<Longrightarrow>
    take_step S env key parse judges (ps, w) (ps[n := Ended (Inr None)], w')"
| failed: "n < length ps \<Longrightarrow> ps ! n = Starting \<Longrightarrow>
    judged_record S key parse (judges n now) w = (Inl e, w') \<Longrightarrow>
    take_step S env key parse judges (ps, w) (ps[n := Ended (Inl e)], w')"
| took: "n < length ps \<Longrightarrow> ps ! n = Holding held \<Longrightarrow> take_record S key held w = (r, w') \<Longrightarrow>
    take_step S env key parse judges (ps, w) (ps[n := Ended r], w')"
| others: "env w w' \<Longrightarrow> take_step S env key parse judges (ps, w) (ps, w')"

inductive_cases take_stepE: "take_step S env key parse judges c c'"

lemma taken_by_simps [simp]:
  "\<not> taken_by Starting" "\<not> taken_by (Holding h)" "\<not> taken_by (Ended (Inl e))"
  "\<not> taken_by (Ended (Inr None))" "taken_by (Ended (Inr (Some m)))"
  by (simp_all add: taken_by_def)

definition record_of :: "'r taking \<Rightarrow> 'r option" where
  "record_of p = (case p of Holding h \<Rightarrow> Some (snd h) | Ended (Inr r) \<Rightarrow> r | _ \<Rightarrow> None)"

lemma record_of_simps [simp]:
  "record_of Starting = None" "record_of (Holding (bytes, m)) = Some m" "record_of (Ended (Inr r)) = r"
  "record_of (Ended (Inl e)) = None"
  by (simp_all add: record_of_def)

definition accepted_only :: "(nat \<Rightarrow> int \<Rightarrow> 'r \<Rightarrow> exn + record_verdict) \<Rightarrow> 'r taking list \<Rightarrow> bool" where
  "accepted_only judges ps \<longleftrightarrow> (\<forall>n < length ps. \<forall>m. record_of (ps ! n) = Some m \<longrightarrow>
     (\<exists>now. judges n now m = Inr Accept))"

lemma accepted_only_update:
  assumes "accepted_only judges ps" "\<And>m. record_of x = Some m \<Longrightarrow> \<exists>now. judges n now m = Inr Accept"
  shows "accepted_only judges (ps[n := x])"
  unfolding accepted_only_def length_list_update
proof (intro allI impI)
  fix j m assume "j < length ps" "record_of (ps[n := x] ! j) = Some m"
  with assms show "\<exists>now. judges j now m = Inr Accept"
    by (cases "j = n") (auto simp: accepted_only_def)
qed

definition takes_left :: "('w \<Rightarrow> nat list \<Rightarrow> nat list option) \<Rightarrow> nat list \<Rightarrow> 'r taking list \<times> 'w \<Rightarrow> nat" where
  "takes_left view k c = length (filter taken_by (fst c)) + (if view (snd c) k = None then 0 else 1)"

context state_store
begin

lemma judged_record_view:
  "judged_record S key parse judge w = (r, w') \<Longrightarrow> view w' = view w \<or> view w' = (view w)(key := None)"
  by (auto simp: judged_record_def seq_simps
      split: prod.splits sum.splits option.splits record_verdict.splits dest!: get_view exact_view)

lemma judged_record_Some:
  assumes "judged_record S key parse judge w = (Inr (Some (bytes, m)), w')"
  shows "view w key = Some bytes \<and> parse bytes = Inr (Some m) \<and> judge m = Inr Accept \<and> view w' = view w"
proof -
  from assms have g: "op_get_raw S key w = (Inr (Some bytes), w')"
    and "parse bytes = Inr (Some m)" "judge m = Inr Accept"
    by (auto simp: judged_record_def seq_simps
        split: prod.splits sum.splits option.splits record_verdict.splits)
  with get_ok [OF g] show ?thesis by auto
qed

lemma judged_record_present:
  assumes "view w key = Some bytes" "parse bytes = Inr (Some m)" "judge m = Inr v"
    and "judged_record S key parse judge w = (Inr r, w')"
  shows "r = (if v = Accept then Some (bytes, m) else None)
    \<and> view w' = (if v = Drop then (view w)(key := None) else view w)"
proof -
  from assms(4) obtain raw w1 where g: "op_get_raw S key w = (Inr raw, w1)"
    by (auto simp: judged_record_def seq_simps split: prod.splits sum.splits)
  from get_ok [OF g] assms(1) have raw: "raw = Some bytes" "view w1 = view w" by auto
  show ?thesis
  proof (cases v)
    case Drop
    with assms g raw obtain c where x: "op_consume_if_exact S key bytes w1 = (Inr c, w')" and "r = None"
      by (auto simp: judged_record_def seq_simps split: prod.splits sum.splits)
    with exact_ok [OF x] raw assms(1) Drop show ?thesis by simp
  qed (use assms g raw in \<open>auto simp: judged_record_def seq_simps\<close>)
qed

lemma take_record_view:
  "take_record S key h w = (r, w') \<Longrightarrow> view w' = view w \<or> view w' = (view w)(key := None)"
  by (auto simp: take_record_def seq_simps split: prod.splits sum.splits dest!: exact_view)

lemma take_record_Some:
  assumes "take_record S key (bytes, m) w = (Inr (Some m'), w')"
  shows "m' = m \<and> view w key = Some bytes \<and> view w' = (view w)(key := None)"
proof -
  from assms obtain c where x: "op_consume_if_exact S key bytes w = (Inr (Some c), w')" and "m' = m"
    by (auto simp: take_record_def seq_simps split: prod.splits sum.splits if_splits)
  with exact_ok [OF x] show ?thesis by (auto split: if_splits)
qed

lemma take_record_present:
  assumes "view w key = Some bytes" "take_record S key (bytes, m) w = (Inr r, w')"
  shows "r = Some m \<and> view w' = (view w)(key := None)"
proof -
  from assms(2) obtain c where x: "op_consume_if_exact S key bytes w = (Inr c, w')"
    and r: "r = (if c \<noteq> None then Some m else None)"
    by (auto simp: take_record_def seq_simps split: prod.splits sum.splits)
  from exact_ok [OF x] assms(1) r show ?thesis by simp
qed

lemma consume_record_Some:
  assumes "consume_record S key parse judge w = (Inr (Some m), w')"
  shows "\<exists>bytes. view w key = Some bytes \<and> parse bytes = Inr (Some m) \<and> judge m = Inr Accept
    \<and> view w' = (view w)(key := None)"
proof -
  from assms obtain bytes m0 w1 where j: "judged_record S key parse judge w = (Inr (Some (bytes, m0)), w1)"
    and t: "take_record S key (bytes, m0) w1 = (Inr (Some m), w')"
    by (auto simp: consume_record_def seq_simps split: prod.splits sum.splits option.splits)
  from judged_record_Some [OF j] take_record_Some [OF t] show ?thesis by auto
qed

lemma consume_record_present:
  assumes "view w key = Some bytes" "parse bytes = Inr (Some m)" "judge m = Inr v"
    and "consume_record S key parse judge w = (Inr r, w')"
  shows "r = (if v = Accept then Some m else None)
    \<and> view w' = (if v = Keep then view w else (view w)(key := None))"
proof -
  from assms(4) obtain f w1 where j: "judged_record S key parse judge w = (Inr f, w1)"
    and t: "(case f of None \<Rightarrow> retA None | Some h \<Rightarrow> take_record S key h) w1 = (Inr r, w')"
    by (auto simp: consume_record_def seq_simps split: prod.splits sum.splits)
  note p = judged_record_present [OF assms(1-3) j]
  show ?thesis
  proof (cases "v = Accept")
    case True
    with p t have "take_record S key (bytes, m) w1 = (Inr r, w')" by simp
    from take_record_present [OF _ this] p assms(1) True show ?thesis by simp
  next
    case False
    with p t show ?thesis by (cases v) (auto simp: retA_def)
  qed
qed

lemma consume_record_absent:
  "view w key = None \<Longrightarrow> consume_record S key parse judge w = (Inr r, w') \<Longrightarrow> r = None"
  using consume_record_Some [of key parse judge w _ w'] by (cases r) auto

lemma consume_record_view:
  assumes "consume_record S key parse judge w = (r, w')"
  shows "view w' = view w \<or> view w' = (view w)(key := None)"
proof -
  obtain f w1 where j: "judged_record S key parse judge w = (f, w1)" by (cases "judged_record S key parse judge w")
  note v = judged_record_view [OF j]
  show ?thesis
  proof (cases f)
    case (Inl e)
    with j assms v show ?thesis by (auto simp: consume_record_def seq_simps)
  next
    case (Inr x)
    with j assms have t: "(case x of None \<Rightarrow> retA None | Some h \<Rightarrow> take_record S key h) w1 = (r, w')"
      by (simp add: consume_record_def seq_simps)
    show ?thesis
    proof (cases x)
      case None
      with t v show ?thesis by (auto simp: retA_def)
    next
      case (Some h)
      with t have "take_record S key h w1 = (r, w')" by simp
      from take_record_view [OF this] v show ?thesis by auto
    qed
  qed
qed

lemma take_step_left:
  assumes "take_step S env key parse judges c c'"
    and "\<And>w w'. env w w' \<Longrightarrow> view w key = None \<Longrightarrow> view w' key = None"
  shows "takes_left view key c' \<le> takes_left view key c"
  using assms(1)
proof cases
  case (looked n ps now w held w')
  then show ?thesis
    using judged_record_view [OF looked(5)] by (auto simp: takes_left_def filter_update_same)
next
  case (refused n ps now w w')
  then show ?thesis
    using judged_record_view [OF refused(5)] by (auto simp: takes_left_def filter_update_same)
next
  case (failed n ps now w e w')
  then show ?thesis
    using judged_record_view [OF failed(5)] by (auto simp: takes_left_def filter_update_same)
next
  case (took n ps held w r w')
  show ?thesis
  proof (cases "taken_by (Ended r)")
    case True
    then obtain m where "r = Inr (Some m)" by (auto simp: taken_by_def split: sum.splits option.splits)
    with took take_record_Some [of key "fst held" "snd held" w m w']
    show ?thesis by (auto simp: takes_left_def filter_update_new)
  next
    case False
    with took have "length (filter taken_by (ps[n := Ended r])) = length (filter taken_by ps)"
      by (intro filter_update_same) simp_all
    moreover have "view w' key = None" if "view w key = None"
      using take_record_view [OF took(5)] that by auto
    ultimately show ?thesis using took by (auto simp: takes_left_def)
  qed
next
  case (others w w' ps)
  then show ?thesis using assms(2) [of w w'] by (auto simp: takes_left_def)
qed

lemma take_step_accepted:
  assumes "take_step S env key parse judges c c'" "accepted_only judges (fst c)"
  shows "accepted_only judges (fst c')"
  using assms(1)
proof cases
  case (looked n ps now w held w')
  obtain bytes m where "held = (bytes, m)" by (cases held)
  with looked judged_record_Some [of key parse "judges n now" w bytes m w'] assms(2)
  show ?thesis by (auto intro!: accepted_only_update)
next
  case (took n ps held w r w')
  obtain bytes m where h: "held = (bytes, m)" by (cases held)
  have "\<exists>now. judges n now m = Inr Accept"
    using assms(2) took h by (auto simp: accepted_only_def)
  moreover have "m' = m" if "r = Inr (Some m')" for m'
    using take_record_Some [of key bytes m w m' w'] took h that by simp
  ultimately show ?thesis using took assms(2)
    by (cases r) (auto intro!: accepted_only_update)
qed (use assms(2) in \<open>auto intro!: accepted_only_update\<close>)

lemma take_run_inv:
  assumes "(take_step S env key parse judges)\<^sup>*\<^sup>* c c'"
    and "\<And>w w'. env w w' \<Longrightarrow> view w key = None \<Longrightarrow> view w' key = None"
    and "accepted_only judges (fst c)"
  shows "takes_left view key c' \<le> takes_left view key c \<and> accepted_only judges (fst c')"
  using assms(1,3)
proof (induction rule: rtranclp_induct)
  case (step c1 c2)
  then show ?case
    using take_step_left [OF step.hyps(2) assms(2)] take_step_accepted [OF step.hyps(2)] by fastforce
qed simp

text \<open>From takers that all have yet to start: one at most gets the record.\<close>

lemma taken_once:
  fixes judges :: "nat \<Rightarrow> int \<Rightarrow> 'r \<Rightarrow> exn + record_verdict"
  assumes "(take_step S env key parse judges)\<^sup>*\<^sup>* (replicate n Starting, w) (ps, w')"
    and "\<And>w w'. env w w' \<Longrightarrow> view w key = None \<Longrightarrow> view w' key = None"
  shows "length (filter taken_by ps) \<le> 1
    \<and> (\<forall>i < length ps. \<forall>m. ps ! i = Ended (Inr (Some m)) \<longrightarrow> (\<exists>now. judges i now m = Inr Accept))"
proof -
  let ?start = "replicate n (Starting :: 'r taking)"
  have start: "accepted_only judges (fst (?start, w))" by (simp add: accepted_only_def)
  have "takes_left view key (ps, w') \<le> takes_left view key (?start, w) \<and> accepted_only judges (fst (ps, w'))"
    by (rule take_run_inv [OF assms(1) _ start]) (rule assms(2))
  then have left: "takes_left view key (ps, w') \<le> takes_left view key (?start, w)"
    and acc: "accepted_only judges ps" by simp_all
  have "length (filter taken_by ?start) = 0" by simp
  with left have "length (filter taken_by ps) \<le> 1" by (simp add: takes_left_def split: if_splits)
  with acc show ?thesis by (auto simp: accepted_only_def)
qed

end

section \<open>A server that answers every command\<close>

definition answering :: "redis \<Rightarrow> bool" where
  "answering w \<longleftrightarrow> rd_ready w \<and> rd_fate w = (\<lambda>_. Answered)"

lemma answered_judged_record:
  assumes "answering w"
  shows "redis_view w key = None \<Longrightarrow>
      judged_record redis_ops key parse judge w = (Inr None, w\<lparr>rd_issued := rd_issued w + 1\<rparr>)"
    and "redis_view w key = Some raw \<Longrightarrow> parse raw = Inr (Some m) \<Longrightarrow> judge m = Inr Accept \<Longrightarrow>
      judged_record redis_ops key parse judge w = (Inr (Some (raw, m)), w\<lparr>rd_issued := rd_issued w + 1\<rparr>)"
    and "redis_view w key = Some raw \<Longrightarrow> parse raw = Inr (Some m) \<Longrightarrow> judge m = Inr Keep \<Longrightarrow>
      judged_record redis_ops key parse judge w = (Inr None, w\<lparr>rd_issued := rd_issued w + 1\<rparr>)"
  using assms answered_commands(1) [of w key] by (simp_all add: answering_def judged_record_def seq_simps)

lemma answered_take_record:
  assumes "answering w" "redis_view w key = Some raw"
  shows "take_record redis_ops key (raw, m) w
      = (Inr (Some m), w\<lparr>rd_issued := rd_issued w + 1, rd_kv := (rd_kv w)(key := None)\<rparr>)"
  using assms answered_commands(2) [of w key raw] by (simp add: answering_def take_record_def seq_simps)

lemma redis_view_issued [simp]: "redis_view (w\<lparr>rd_issued := n\<rparr>) = redis_view w"
  by (simp add: redis_view_def)

lemma answering_updates [simp]:
  "answering (w\<lparr>rd_issued := n\<rparr>) = answering w" "answering (w\<lparr>rd_kv := kv\<rparr>) = answering w"
  by (simp_all add: answering_def)

lemma answered_consume_record:
  assumes "answering w"
  shows "redis_view w key = None \<Longrightarrow>
      consume_record redis_ops key parse judge w = (Inr None, w\<lparr>rd_issued := rd_issued w + 1\<rparr>)"
    and "redis_view w key = Some raw \<Longrightarrow> parse raw = Inr (Some m) \<Longrightarrow> judge m = Inr Accept \<Longrightarrow>
      consume_record redis_ops key parse judge w
        = (Inr (Some m), w\<lparr>rd_issued := rd_issued w + 2, rd_kv := (rd_kv w)(key := None)\<rparr>)"
    and "redis_view w key = Some raw \<Longrightarrow> parse raw = Inr (Some m) \<Longrightarrow> judge m = Inr Keep \<Longrightarrow>
      consume_record redis_ops key parse judge w = (Inr None, w\<lparr>rd_issued := rd_issued w + 1\<rparr>)"
  using assms answered_take_record [of "w\<lparr>rd_issued := rd_issued w + 1\<rparr>" key raw m]
  by (simp_all add: consume_record_def seq_simps answered_judged_record retA_def)

lemma redis_view_set [simp]:
  "rd_now w < t \<Longrightarrow> redis_view (w\<lparr>rd_kv := (rd_kv w)(key := Some (v, Some t))\<rparr>) = (redis_view w)(key := Some v)"
  "redis_view (w\<lparr>rd_kv := (rd_kv w)(key := None)\<rparr>) = (redis_view w)(key := None)"
  by (simp_all add: redis_view_def)

lemma answered_take_gone:
  assumes "answering w" "redis_view w key = None"
  shows "take_record redis_ops key (raw, m) w = (Inr None, w\<lparr>rd_issued := rd_issued w + 1\<rparr>)"
  using assms answered_commands(2) [of w key raw] by (simp add: answering_def take_record_def seq_simps)

text \<open>Two takers that both read the record before either takes it.\<close>

lemma answered_race:
  assumes "answering w" "redis_view w key = Some raw" "parse raw = Inr (Some m)"
    and "\<And>n. judges n now m = Inr Accept"
  shows "\<exists>w'. (take_step redis_ops env key parse judges)\<^sup>*\<^sup>*
      (replicate 2 Starting, w) ([Ended (Inr (Some m)), Ended (Inr None)], w')"
proof -
  let ?step = "take_step redis_ops env key parse judges"
  let ?h = "Holding (raw, m)"
  let ?w1 = "w\<lparr>rd_issued := rd_issued w + 1\<rparr>"
  let ?w2 = "?w1\<lparr>rd_issued := rd_issued ?w1 + 1\<rparr>"
  let ?w3 = "?w2\<lparr>rd_issued := rd_issued ?w2 + 1, rd_kv := (rd_kv ?w2)(key := None)\<rparr>"
  let ?w4 = "?w3\<lparr>rd_issued := rd_issued ?w3 + 1\<rparr>"
  have look: "judged_record redis_ops key parse (judges n now) v = (Inr (Some (raw, m)), v\<lparr>rd_issued := rd_issued v + 1\<rparr>)"
    if "answering v" "redis_view v key = Some raw" for n v
    by (rule answered_judged_record(2)) (use that assms(3,4) in simp_all)
  have "?step ([Starting, Starting], w) ([?h, Starting], ?w1)"
    using looked [where n = 0 and ps = "[Starting, Starting]" and S = redis_ops and judges = judges, OF _ _ look [OF assms(1,2)]]
    by simp
  moreover have "?step ([?h, Starting], ?w1) ([?h, ?h], ?w2)"
    using looked [where n = 1 and ps = "[?h, Starting]" and S = redis_ops and judges = judges and w = ?w1, OF _ _ look]
      assms(1,2) by simp
  moreover have "?step ([?h, ?h], ?w2) ([Ended (Inr (Some m)), ?h], ?w3)"
    using took [where n = 0 and ps = "[?h, ?h]" and S = redis_ops and judges = judges and w = ?w2, OF _ _ answered_take_record]
      assms(1,2) by simp
  moreover have "?step ([Ended (Inr (Some m)), ?h], ?w3) ([Ended (Inr (Some m)), Ended (Inr None)], ?w4)"
    using took [where n = 1 and ps = "[Ended (Inr (Some m)), ?h]" and S = redis_ops and judges = judges and w = ?w3,
        OF _ _ answered_take_gone] assms(1) by (simp add: redis_view_def kv_get_def)
  ultimately have "(?step)\<^sup>*\<^sup>* ([Starting, Starting], w) ([Ended (Inr (Some m)), Ended (Inr None)], ?w4)"
    by (meson converse_rtranclp_into_rtranclp rtranclp.rtrancl_refl)
  then show ?thesis by (auto simp: numeral_2_eq_2)
qed

end
