(* ===== verification/Oidc_State.thy ===== *)
theory Oidc_State
  imports One_Time_Records Domain_Oidc Token_Codec
begin

text \<open>
  \<^verbatim>\<open>infrastructure/oidc_state.py\<close> and the access-token store of \<^verbatim>\<open>infrastructure/oidc_tokens.py\<close>: the
  Redis records of OIDC browser transactions, provider states, authorization codes and UserInfo bearer
  tokens. Each is stored as JSON with a \<^verbatim>\<open>purpose\<close> under the SHA-256 of its random identifier and read
  back strictly. \<open>now\<close> is the clock read by the operation.
\<close>

section \<open>Constants and keys\<close>

definition OIDC_TRANSACTION_TTL_SECONDS :: int where
  "OIDC_TRANSACTION_TTL_SECONDS = 10 * 60"

definition OIDC_PROVIDER_STATE_TTL_SECONDS :: int where
  "OIDC_PROVIDER_STATE_TTL_SECONDS = 10 * 60"

definition OIDC_AUTHORIZATION_CODE_TTL_SECONDS :: int where
  "OIDC_AUTHORIZATION_CODE_TTL_SECONDS = 60"

definition OIDC_TRANSACTION_KEY_PREFIX :: "nat list" where
  "OIDC_TRANSACTION_KEY_PREFIX = lit ''wiseacct:oidc:transaction:''"

definition OIDC_PROVIDER_STATE_KEY_PREFIX :: "nat list" where
  "OIDC_PROVIDER_STATE_KEY_PREFIX = lit ''wiseacct:oidc:provider-state:''"

definition OIDC_AUTHORIZATION_CODE_KEY_PREFIX :: "nat list" where
  "OIDC_AUTHORIZATION_CODE_KEY_PREFIX = lit ''wiseacct:oidc:code:''"

definition OIDC_ACCESS_TOKEN_KEY_PREFIX :: "nat list" where
  "OIDC_ACCESS_TOKEN_KEY_PREFIX = lit ''wiseacct:oidc:access-token:''"

definition oidc_secret_digest :: "auth_env \<Rightarrow> pystr \<Rightarrow> pystr" where
  "oidc_secret_digest E v = hexdigest (ae_sha256 E (node_utf8_bytes v))"

definition oidc_transaction_key :: "auth_env \<Rightarrow> pystr \<Rightarrow> nat list" where
  "oidc_transaction_key E transaction_id = OIDC_TRANSACTION_KEY_PREFIX @ oidc_secret_digest E transaction_id"

definition oidc_provider_state_key :: "auth_env \<Rightarrow> pystr \<Rightarrow> nat list" where
  "oidc_provider_state_key E state = OIDC_PROVIDER_STATE_KEY_PREFIX @ oidc_secret_digest E state"

definition oidc_authorization_code_key :: "auth_env \<Rightarrow> pystr \<Rightarrow> nat list" where
  "oidc_authorization_code_key E code = OIDC_AUTHORIZATION_CODE_KEY_PREFIX @ oidc_secret_digest E code"

definition oidc_access_token_key :: "auth_env \<Rightarrow> pystr \<Rightarrow> nat list" where
  "oidc_access_token_key E token =
     OIDC_ACCESS_TOKEN_KEY_PREFIX @ hexdigest (ae_sha256 E (node_utf8_bytes token))"

definition OidcStateCreationError :: exn where
  "OidcStateCreationError = RuntimeError (lit ''Unable to generate unique OIDC state'')"

definition OidcTokenCreationError :: exn where
  "OidcTokenCreationError = RuntimeError (lit ''Unable to generate unique OIDC token'')"

definition TRANSACTION_ID_fullmatch :: "pystr \<Rightarrow> bool" where
  "TRANSACTION_ID_fullmatch s \<longleftrightarrow> length s = 43 \<and> (\<forall>c \<in> set s. opaque_char c)"

definition provider_state_transaction_id :: "pystr \<Rightarrow> pystr option" where
  "provider_state_transaction_id state =
     (if length state = 87 \<and> TRANSACTION_ID_fullmatch (take 43 state) \<and> state ! 43 = 46
         \<and> TRANSACTION_ID_fullmatch (drop 44 state)
      then Some (take 43 state) else None)"

section \<open>Records\<close>

record OidcAuthorizationTransactionCreateInput =
  tci_client_id :: pystr
  tci_redirect_uri :: pystr
  tci_scopes :: "pystr list"
  tci_state :: "pystr option"
  tci_nonce :: "pystr option"
  tci_code_challenge :: "pystr option"
  tci_code_challenge_method :: "pystr option"
  tci_browser_binding :: pystr
  tci_csrf_token :: pystr

record OidcAuthorizationTransaction =
  oat_client_id :: pystr
  oat_redirect_uri :: pystr
  oat_scopes :: "pystr list"
  oat_state :: "pystr option"
  oat_nonce :: "pystr option"
  oat_code_challenge :: "pystr option"
  oat_code_challenge_method :: "pystr option"
  oat_browser_binding_hash :: pystr
  oat_csrf_hash :: pystr
  oat_expires_at_epoch_ms :: int

record OidcProviderStateCreateInput =
  psi_provider :: OAuthProvider
  psi_transaction_id :: pystr
  psi_browser_binding :: pystr

record OidcProviderState =
  ops_provider :: OAuthProvider
  ops_transaction_id :: pystr
  ops_browser_binding_hash :: pystr
  ops_expires_at_epoch_ms :: int

record OidcAuthorizationCodeCreateInput =
  aci_client_id :: pystr
  aci_redirect_uri :: pystr
  aci_user_id :: pystr
  aci_scopes :: "pystr list"
  aci_nonce :: "pystr option"
  aci_code_challenge :: "pystr option"
  aci_code_challenge_method :: "pystr option"

record StoredOidcAuthorizationCode =
  sac_client_id :: pystr
  sac_redirect_uri :: pystr
  sac_user_id :: pystr
  sac_scopes :: "pystr list"
  sac_nonce :: "pystr option"
  sac_code_challenge :: "pystr option"
  sac_code_challenge_method :: "pystr option"
  sac_expires_at_epoch_ms :: int

record OidcAccessTokenCreateInput =
  oatci_client_id :: pystr
  oatci_user_id :: pystr
  oatci_scopes :: "pystr list"

record StoredOidcAccessToken =
  sat_client_id :: pystr
  sat_user_id :: pystr
  sat_scopes :: "pystr list"
  sat_expires_at_epoch_ms :: int

definition csrf_matches :: "auth_env \<Rightarrow> OidcAuthorizationTransaction \<Rightarrow> pystr \<Rightarrow> exn + bool" where
  "csrf_matches E transaction csrf_token =
     compare_digest (oat_csrf_hash transaction) (oidc_secret_digest E csrf_token)"

section \<open>Reading stored values\<close>

fun nonempty_strings :: "pyval list \<Rightarrow> pystr list option" where
  "nonempty_strings [] = Some []"
| "nonempty_strings (v # vs) =
     (case (nonempty_string v, nonempty_strings vs) of
        (Some s, Some ss) \<Rightarrow> Some (s # ss)
      | _ \<Rightarrow> None)"

definition stored_scopes :: "pyval \<Rightarrow> pystr list option" where
  "stored_scopes v = (case v of
     PList vs \<Rightarrow>
       if vs = [] \<or> 16 < length vs then None
       else (case nonempty_strings vs of None \<Rightarrow> None | Some ss \<Rightarrow> if distinct ss then Some ss else None)
   | _ \<Rightarrow> None)"

definition stored_expiry :: "pyval \<Rightarrow> int option" where
  "stored_expiry v = (case v of PInt i \<Rightarrow> if 0 < i then Some i else None | _ \<Rightarrow> None)"

definition stored_pkce :: "pyval \<Rightarrow> pyval \<Rightarrow> (pystr option \<times> pystr option) option" where
  "stored_pkce challenge meth =
     (case nullable_nonempty_string challenge of
        None \<Rightarrow> None
      | Some None \<Rightarrow> if meth = PNone then Some (None, None) else None
      | Some (Some c) \<Rightarrow> if meth = PStr (lit ''S256'') then Some (Some c, Some (lit ''S256'')) else None)"

text \<open>\<^verbatim>\<open>_object\<close>, the comparison of the key set and of the purpose, and the fields of a record.\<close>

definition purposed_record ::
  "auth_env \<Rightarrow> pystr list \<Rightarrow> string \<Rightarrow> (pydict \<Rightarrow> 'r option) \<Rightarrow> nat list \<Rightarrow> exn + 'r option" where
  "purposed_record E required purpose read_fields raw =
     bindE (parse_json_object E raw) (\<lambda>r.
       Inr (case r of
              None \<Rightarrow> None
            | Some d \<Rightarrow> if keys_are d required \<and> dget d (lit ''purpose'') = PStr (lit purpose)
                        then read_fields d else None))"

definition transaction_keys :: "pystr list" where
  "transaction_keys = [lit ''purpose'', lit ''clientId'', lit ''redirectUri'', lit ''scopes'', lit ''state'',
     lit ''nonce'', lit ''codeChallenge'', lit ''codeChallengeMethod'', lit ''browserBindingHash'',
     lit ''csrfHash'', lit ''expiresAtEpochMs'']"

definition transaction_fields :: "pydict \<Rightarrow> OidcAuthorizationTransaction option" where
  "transaction_fields d =
     (case (nonempty_string (dget d (lit ''clientId'')), nonempty_string (dget d (lit ''redirectUri'')),
            stored_scopes (dget d (lit ''scopes'')), nullable_nonempty_string (dget d (lit ''state'')),
            nullable_nonempty_string (dget d (lit ''nonce'')),
            stored_pkce (dget d (lit ''codeChallenge'')) (dget d (lit ''codeChallengeMethod'')),
            nonempty_string (dget d (lit ''browserBindingHash'')), nonempty_string (dget d (lit ''csrfHash'')),
            stored_expiry (dget d (lit ''expiresAtEpochMs''))) of
        (Some client_id, Some redirect_uri, Some scopes, Some state, Some nonce, Some (challenge, meth),
         Some binding_hash, Some csrf_hash, Some expires) \<Rightarrow>
          Some \<lparr>oat_client_id = client_id, oat_redirect_uri = redirect_uri, oat_scopes = scopes,
            oat_state = state, oat_nonce = nonce, oat_code_challenge = challenge,
            oat_code_challenge_method = meth, oat_browser_binding_hash = binding_hash,
            oat_csrf_hash = csrf_hash, oat_expires_at_epoch_ms = expires\<rparr>
      | _ \<Rightarrow> None)"

definition transaction_record :: "auth_env \<Rightarrow> nat list \<Rightarrow> exn + OidcAuthorizationTransaction option" where
  "transaction_record E = purposed_record E transaction_keys ''oidc-transaction'' transaction_fields"

definition provider_state_keys :: "pystr list" where
  "provider_state_keys = [lit ''purpose'', lit ''provider'', lit ''transactionId'',
     lit ''browserBindingHash'', lit ''expiresAtEpochMs'']"

definition provider_state_fields :: "pydict \<Rightarrow> OidcProviderState option" where
  "provider_state_fields d =
     (case (provider_of (dget d (lit ''provider'')), nonempty_string (dget d (lit ''transactionId'')),
            nonempty_string (dget d (lit ''browserBindingHash'')),
            stored_expiry (dget d (lit ''expiresAtEpochMs''))) of
        (Some provider, Some transaction_id, Some binding_hash, Some expires) \<Rightarrow>
          if TRANSACTION_ID_fullmatch transaction_id
          then Some \<lparr>ops_provider = provider, ops_transaction_id = transaction_id,
                 ops_browser_binding_hash = binding_hash, ops_expires_at_epoch_ms = expires\<rparr>
          else None
      | _ \<Rightarrow> None)"

definition provider_state_record :: "auth_env \<Rightarrow> nat list \<Rightarrow> exn + OidcProviderState option" where
  "provider_state_record E = purposed_record E provider_state_keys ''oidc-provider-state'' provider_state_fields"

definition code_keys :: "pystr list" where
  "code_keys = [lit ''purpose'', lit ''clientId'', lit ''redirectUri'', lit ''userId'', lit ''scopes'',
     lit ''nonce'', lit ''codeChallenge'', lit ''codeChallengeMethod'', lit ''expiresAtEpochMs'']"

definition code_fields :: "pydict \<Rightarrow> StoredOidcAuthorizationCode option" where
  "code_fields d =
     (case (nonempty_string (dget d (lit ''clientId'')), nonempty_string (dget d (lit ''redirectUri'')),
            nonempty_string (dget d (lit ''userId'')), stored_scopes (dget d (lit ''scopes'')),
            nullable_nonempty_string (dget d (lit ''nonce'')),
            stored_pkce (dget d (lit ''codeChallenge'')) (dget d (lit ''codeChallengeMethod'')),
            stored_expiry (dget d (lit ''expiresAtEpochMs''))) of
        (Some client_id, Some redirect_uri, Some user_id, Some scopes, Some nonce, Some (challenge, meth),
         Some expires) \<Rightarrow>
          Some \<lparr>sac_client_id = client_id, sac_redirect_uri = redirect_uri, sac_user_id = user_id,
            sac_scopes = scopes, sac_nonce = nonce, sac_code_challenge = challenge,
            sac_code_challenge_method = meth, sac_expires_at_epoch_ms = expires\<rparr>
      | _ \<Rightarrow> None)"

definition code_record :: "auth_env \<Rightarrow> nat list \<Rightarrow> exn + StoredOidcAuthorizationCode option" where
  "code_record E = purposed_record E code_keys ''oidc-code'' code_fields"

definition access_token_keys :: "pystr list" where
  "access_token_keys = [lit ''purpose'', lit ''clientId'', lit ''userId'', lit ''scopes'', lit ''expiresAtEpochMs'']"

definition access_token_fields :: "pydict \<Rightarrow> StoredOidcAccessToken option" where
  "access_token_fields d =
     (case (nonempty_string (dget d (lit ''clientId'')), nonempty_string (dget d (lit ''userId'')),
            stored_scopes (dget d (lit ''scopes'')), stored_expiry (dget d (lit ''expiresAtEpochMs''))) of
        (Some client_id, Some user_id, Some scopes, Some expires) \<Rightarrow>
          Some \<lparr>sat_client_id = client_id, sat_user_id = user_id, sat_scopes = scopes,
            sat_expires_at_epoch_ms = expires\<rparr>
      | _ \<Rightarrow> None)"

definition access_token_record :: "auth_env \<Rightarrow> nat list \<Rightarrow> exn + StoredOidcAccessToken option" where
  "access_token_record E = purposed_record E access_token_keys ''oidc-userinfo'' access_token_fields"

section \<open>Browser transactions\<close>

definition transaction_dict :: "auth_env \<Rightarrow> OidcAuthorizationTransactionCreateInput \<Rightarrow> int \<Rightarrow> pydict" where
  "transaction_dict E i now =
     [(lit ''purpose'', PStr (lit ''oidc-transaction'')), (lit ''clientId'', PStr (tci_client_id i)),
      (lit ''redirectUri'', PStr (tci_redirect_uri i)), (lit ''scopes'', PList (map PStr (tci_scopes i))),
      (lit ''state'', opt_str (tci_state i)), (lit ''nonce'', opt_str (tci_nonce i)),
      (lit ''codeChallenge'', opt_str (tci_code_challenge i)),
      (lit ''codeChallengeMethod'', opt_str (tci_code_challenge_method i)),
      (lit ''browserBindingHash'', PStr (oidc_secret_digest E (tci_browser_binding i))),
      (lit ''csrfHash'', PStr (oidc_secret_digest E (tci_csrf_token i))),
      (lit ''expiresAtEpochMs'', PInt (now + OIDC_TRANSACTION_TTL_SECONDS * 1000))]"

text \<open>A record is stored only if it reads back.\<close>

definition store_checked ::
  "'w RedisStateOps \<Rightarrow> (nat list \<Rightarrow> exn + 'r option) \<Rightarrow> string \<Rightarrow> (pystr \<Rightarrow> nat list) \<Rightarrow> int \<Rightarrow> exn \<Rightarrow>
   (nat \<Rightarrow> nat list) \<Rightarrow> pydict \<Rightarrow> ('w, pystr) act" where
  "store_checked S parse invalid key_of ttl giveup rnd d =
     (let raw = serialize_record d in
      bindA (liftA (parse raw)) (\<lambda>parsed.
      if parsed = None then raiseA (ValueError (lit invalid))
      else store_under_fresh_token S key_of raw ttl giveup rnd MAX_GENERATION_ATTEMPTS))"

definition oidc_transaction_create ::
  "auth_env \<Rightarrow> 'w RedisStateOps \<Rightarrow> (nat \<Rightarrow> nat list) \<Rightarrow> int \<Rightarrow> OidcAuthorizationTransactionCreateInput \<Rightarrow>
   ('w, pystr) act" where
  "oidc_transaction_create E S rnd now i =
     store_checked S (transaction_record E) ''invalid OIDC authorization transaction'' (oidc_transaction_key E)
       OIDC_TRANSACTION_TTL_SECONDS OidcStateCreationError rnd (transaction_dict E i now)"

definition judge_transaction ::
  "auth_env \<Rightarrow> int \<Rightarrow> pystr \<Rightarrow> OidcAuthorizationTransaction \<Rightarrow> exn + record_verdict" where
  "judge_transaction E now browser_binding record =
     (if oat_expires_at_epoch_ms record \<le> now then Inr Drop
      else bindE (compare_digest (oat_browser_binding_hash record) (oidc_secret_digest E browser_binding))
             (\<lambda>same. Inr (if same then Accept else Keep)))"

definition oidc_transaction_get ::
  "auth_env \<Rightarrow> 'w RedisStateOps \<Rightarrow> int \<Rightarrow> pystr \<Rightarrow> pystr \<Rightarrow> ('w, OidcAuthorizationTransaction option) act" where
  "oidc_transaction_get E S now transaction_id browser_binding =
     get_record S (oidc_transaction_key E transaction_id) (transaction_record E)
       (judge_transaction E now browser_binding)"

definition oidc_transaction_consume ::
  "auth_env \<Rightarrow> 'w RedisStateOps \<Rightarrow> int \<Rightarrow> pystr \<Rightarrow> pystr \<Rightarrow> ('w, OidcAuthorizationTransaction option) act" where
  "oidc_transaction_consume E S now transaction_id browser_binding =
     consume_record S (oidc_transaction_key E transaction_id) (transaction_record E)
       (judge_transaction E now browser_binding)"

definition oidc_transaction_discard :: "auth_env \<Rightarrow> 'w RedisStateOps \<Rightarrow> pystr \<Rightarrow> ('w, unit) act" where
  "oidc_transaction_discard E S transaction_id =
     bindA (op_consume S (oidc_transaction_key E transaction_id)) (\<lambda>_. retA ())"

section \<open>Provider states\<close>

definition provider_state_dict :: "auth_env \<Rightarrow> OidcProviderStateCreateInput \<Rightarrow> int \<Rightarrow> pydict" where
  "provider_state_dict E i now =
     [(lit ''purpose'', PStr (lit ''oidc-provider-state'')),
      (lit ''provider'', PStr (provider_value (psi_provider i))),
      (lit ''transactionId'', PStr (psi_transaction_id i)),
      (lit ''browserBindingHash'', PStr (oidc_secret_digest E (psi_browser_binding i))),
      (lit ''expiresAtEpochMs'', PInt (now + OIDC_PROVIDER_STATE_TTL_SECONDS * 1000))]"

definition oidc_provider_state_create ::
  "auth_env \<Rightarrow> 'w RedisStateOps \<Rightarrow> (nat \<Rightarrow> nat list) \<Rightarrow> int \<Rightarrow> OidcProviderStateCreateInput \<Rightarrow> ('w, pystr) act" where
  "oidc_provider_state_create E S rnd now i =
     (if \<not> TRANSACTION_ID_fullmatch (psi_transaction_id i) \<or> psi_browser_binding i = []
      then raiseA (ValueError (lit ''invalid OIDC provider state metadata''))
      else bindA (store_checked S (provider_state_record E) ''invalid OIDC provider state metadata''
                    (\<lambda>token. oidc_provider_state_key E (psi_transaction_id i @ [46] @ token))
                    OIDC_PROVIDER_STATE_TTL_SECONDS OidcStateCreationError rnd (provider_state_dict E i now))
             (\<lambda>token. retA (psi_transaction_id i @ [46] @ token)))"

definition judge_provider_state ::
  "auth_env \<Rightarrow> int \<Rightarrow> pystr \<Rightarrow> OAuthProvider \<Rightarrow> pystr \<Rightarrow> OidcProviderState \<Rightarrow> exn + record_verdict" where
  "judge_provider_state E now transaction_id provider browser_binding record =
     (if ops_expires_at_epoch_ms record \<le> now then Inr Drop
      else if ops_transaction_id record \<noteq> transaction_id then Inr Drop
      else if ops_provider record \<noteq> provider then Inr Keep
      else bindE (compare_digest (ops_browser_binding_hash record) (oidc_secret_digest E browser_binding))
             (\<lambda>same. Inr (if same then Accept else Keep)))"

definition oidc_provider_state_consume ::
  "auth_env \<Rightarrow> 'w RedisStateOps \<Rightarrow> int \<Rightarrow> pystr \<Rightarrow> OAuthProvider \<Rightarrow> pystr \<Rightarrow> ('w, OidcProviderState option) act" where
  "oidc_provider_state_consume E S now state provider browser_binding =
     (case provider_state_transaction_id state of
        None \<Rightarrow> retA None
      | Some transaction_id \<Rightarrow>
          consume_record S (oidc_provider_state_key E state) (provider_state_record E)
            (judge_provider_state E now transaction_id provider browser_binding))"

definition oidc_provider_state_discard :: "auth_env \<Rightarrow> 'w RedisStateOps \<Rightarrow> pystr \<Rightarrow> ('w, unit) act" where
  "oidc_provider_state_discard E S state =
     bindA (op_consume S (oidc_provider_state_key E state)) (\<lambda>_. retA ())"

section \<open>Authorization codes\<close>

definition code_dict :: "OidcAuthorizationCodeCreateInput \<Rightarrow> int \<Rightarrow> pydict" where
  "code_dict i now =
     [(lit ''purpose'', PStr (lit ''oidc-code'')), (lit ''clientId'', PStr (aci_client_id i)),
      (lit ''redirectUri'', PStr (aci_redirect_uri i)), (lit ''userId'', PStr (aci_user_id i)),
      (lit ''scopes'', PList (map PStr (aci_scopes i))), (lit ''nonce'', opt_str (aci_nonce i)),
      (lit ''codeChallenge'', opt_str (aci_code_challenge i)),
      (lit ''codeChallengeMethod'', opt_str (aci_code_challenge_method i)),
      (lit ''expiresAtEpochMs'', PInt (now + OIDC_AUTHORIZATION_CODE_TTL_SECONDS * 1000))]"

definition oidc_code_create ::
  "auth_env \<Rightarrow> 'w RedisStateOps \<Rightarrow> (nat \<Rightarrow> nat list) \<Rightarrow> int \<Rightarrow> OidcAuthorizationCodeCreateInput \<Rightarrow> ('w, pystr) act" where
  "oidc_code_create E S rnd now i =
     store_checked S (code_record E) ''invalid OIDC authorization code metadata'' (oidc_authorization_code_key E)
       OIDC_AUTHORIZATION_CODE_TTL_SECONDS OidcStateCreationError rnd (code_dict i now)"

definition judge_code :: "int \<Rightarrow> pystr \<Rightarrow> StoredOidcAuthorizationCode \<Rightarrow> exn + record_verdict" where
  "judge_code now client_id record =
     (if sac_expires_at_epoch_ms record \<le> now then Inr Drop
      else bindE (compare_digest (sac_client_id record) client_id) (\<lambda>same. Inr (if same then Accept else Keep)))"

definition oidc_code_consume ::
  "auth_env \<Rightarrow> 'w RedisStateOps \<Rightarrow> int \<Rightarrow> pystr \<Rightarrow> pystr \<Rightarrow> ('w, StoredOidcAuthorizationCode option) act" where
  "oidc_code_consume E S now code client_id =
     consume_record S (oidc_authorization_code_key E code) (code_record E) (judge_code now client_id)"

definition oidc_code_discard :: "auth_env \<Rightarrow> 'w RedisStateOps \<Rightarrow> pystr \<Rightarrow> ('w, unit) act" where
  "oidc_code_discard E S code = bindA (op_consume S (oidc_authorization_code_key E code)) (\<lambda>_. retA ())"

section \<open>UserInfo bearer tokens\<close>

definition access_token_dict :: "OidcAccessTokenCreateInput \<Rightarrow> int \<Rightarrow> pydict" where
  "access_token_dict i expires =
     [(lit ''purpose'', PStr (lit ''oidc-userinfo'')), (lit ''clientId'', PStr (oatci_client_id i)),
      (lit ''userId'', PStr (oatci_user_id i)), (lit ''scopes'', PList (map PStr (oatci_scopes i))),
      (lit ''expiresAtEpochMs'', PInt expires)]"

definition oidc_access_token_create ::
  "auth_env \<Rightarrow> 'w RedisStateOps \<Rightarrow> (nat \<Rightarrow> nat list) \<Rightarrow> int \<Rightarrow> OidcAccessTokenCreateInput \<Rightarrow> ('w, pystr) act" where
  "oidc_access_token_create E S rnd now i =
     store_checked S (access_token_record E) ''invalid OIDC access token metadata'' (oidc_access_token_key E)
       OIDC_ACCESS_TOKEN_TTL_SECONDS OidcTokenCreationError rnd
       (access_token_dict i (now + OIDC_ACCESS_TOKEN_TTL_SECONDS * 1000))"

definition judge_access_token :: "int \<Rightarrow> StoredOidcAccessToken \<Rightarrow> exn + record_verdict" where
  "judge_access_token now record = Inr (if sat_expires_at_epoch_ms record \<le> now then Drop else Accept)"

definition oidc_access_token_get ::
  "auth_env \<Rightarrow> 'w RedisStateOps \<Rightarrow> int \<Rightarrow> pystr \<Rightarrow> ('w, StoredOidcAccessToken option) act" where
  "oidc_access_token_get E S now token =
     get_record S (oidc_access_token_key E token) (access_token_record E) (judge_access_token now)"

definition oidc_access_token_revoke :: "auth_env \<Rightarrow> 'w RedisStateOps \<Rightarrow> pystr \<Rightarrow> ('w, bool) act" where
  "oidc_access_token_revoke E S token =
     bindA (op_consume S (oidc_access_token_key E token)) (\<lambda>consumed. retA (consumed \<noteq> None))"

lemma answered_store_checked:
  assumes "answering w" "redis_view w (key_of token) = None" "random_base64url (rnd 0) = Inr token"
    and "parse (serialize_record d) = Inr (Some m)" "0 < ttl"
  shows "store_checked redis_ops parse invalid key_of ttl giveup rnd d w
    = (Inr token, w\<lparr>rd_issued := rd_issued w + 1,
         rd_kv := (rd_kv w)(key_of token := Some (serialize_record d, Some (rd_now w + ttl * 1000)))\<rparr>)"
  using assms answered_commands(4) [of w ttl "key_of token" "serialize_record d"]
  by (simp add: store_checked_def Let_def seq_simps answering_def MAX_GENERATION_ATTEMPTS_def numeral_3_eq_3)

end
