(* ===== verification/Oidc_Redemption.thy ===== *)
theory Oidc_Redemption
  imports Oidc_State
begin

text \<open>
  What the OIDC records of \<open>Oidc_State\<close> guarantee over Redis: a record that was stored is read back as it
  was meant, an authorization code is redeemed once and only by its client, a browser transaction and a
  provider state only from the browser they were bound to, in every interleaving of the store's commands.
\<close>

section \<open>What is stored is read back\<close>

definition sha256_ok :: "auth_env \<Rightarrow> bool" where
  "sha256_ok E \<longleftrightarrow> (\<forall>v. length (ae_sha256 E v) = 32 \<and> is_bytes (ae_sha256 E v))"

definition clock_ok :: "int \<Rightarrow> bool" where
  "clock_ok now \<longleftrightarrow> 0 \<le> now \<and> now < 10 ^ 14"

lemma hexdigest_ascii: "is_bytes bs \<Longrightarrow> all_ascii (hexdigest bs)"
proof (induction bs)
  case (Cons b bs)
  then have "b < 256" by (simp add: is_bytes_def)
  then have "b div 16 < 16" "b mod 16 < 16" by simp_all
  with Cons show ?case by (auto simp: all_ascii_def is_bytes_def hex_char_ascii)
qed (simp add: all_ascii_def)

lemma digest_ascii: "sha256_ok E \<Longrightarrow> all_ascii (oidc_secret_digest E v)"
  by (simp add: sha256_ok_def oidc_secret_digest_def hexdigest_ascii)

lemma digest_ne: "sha256_ok E \<Longrightarrow> oidc_secret_digest E v \<noteq> []"
proof -
  assume "sha256_ok E"
  then have "length (oidc_secret_digest E v) = 64" by (simp add: sha256_ok_def oidc_secret_digest_def)
  then show ?thesis by auto
qed

lemma ascii_str_ok: "all_ascii s \<Longrightarrow> str_ok s"
  by (force simp: all_ascii_def str_ok_def is_surrogate_def)

lemma opaque_ascii: "opaque_char c \<Longrightarrow> c < 128"
  by (auto simp: opaque_char_def ascii_alpha_def ascii_digit_def)

lemma digest_eq:
  "sha256_ok E \<Longrightarrow> oidc_secret_digest E a = oidc_secret_digest E b \<longleftrightarrow>
     ae_sha256 E (node_utf8_bytes a) = ae_sha256 E (node_utf8_bytes b)"
  by (auto simp: sha256_ok_def oidc_secret_digest_def is_bytes_def dest!: hexdigest_inj [rotated 2])

definition scopes_ok :: "pystr list \<Rightarrow> bool" where
  "scopes_ok ss \<longleftrightarrow> ss \<noteq> [] \<and> length ss \<le> 16 \<and> distinct ss \<and> (\<forall>s \<in> set ss. s \<noteq> [] \<and> str_ok s)"

definition pkce_ok :: "pystr option \<Rightarrow> pystr option \<Rightarrow> bool" where
  "pkce_ok challenge meth \<longleftrightarrow> optional_ok challenge
     \<and> meth = (if challenge = None then None else Some (lit ''S256''))"

definition text_ok :: "pystr \<Rightarrow> bool" where
  "text_ok s \<longleftrightarrow> s \<noteq> [] \<and> str_ok s"

lemma nonempty_strings_map: "\<forall>s \<in> set ss. s \<noteq> [] \<Longrightarrow> nonempty_strings (map PStr ss) = Some ss"
  by (induction ss) (simp_all add: nonempty_string_def)

lemma stored_scopes_ok: "scopes_ok ss \<Longrightarrow> stored_scopes (PList (map PStr ss)) = Some ss"
  by (simp add: scopes_ok_def stored_scopes_def nonempty_strings_map)

lemma stored_pkce_ok: "pkce_ok c m \<Longrightarrow> stored_pkce (opt_str c) (opt_str m) = Some (c, m)"
  using nullable_opt [of c] by (cases c) (auto simp: pkce_ok_def stored_pkce_def)

lemma stored_expiry_ok: "clock_ok now \<Longrightarrow> 0 < k \<Longrightarrow> stored_expiry (PInt (now + k)) = Some (now + k)"
  by (simp add: clock_ok_def stored_expiry_def)

lemma expiry_json: "clock_ok now \<Longrightarrow> 0 \<le> k \<Longrightarrow> k \<le> 10 ^ 6 \<Longrightarrow> json_ok (PInt (now + k))"
  by (rule json_ok_int) (simp add: clock_ok_def)

lemma json_scopes: "scopes_ok ss \<Longrightarrow> json_ok (PList (map PStr ss))"
  by (auto simp: scopes_ok_def list_all_iff)

lemma json_pkce: "pkce_ok c m \<Longrightarrow> json_ok (opt_str c)" "pkce_ok c m \<Longrightarrow> json_ok (opt_str m)"
  using json_ok_opt [of c] by (auto simp: pkce_ok_def str_ok_lit)

lemma purposed_record_roundtrip:
  assumes "json_ok (PDict d)" "keys_are d required" "dget d (lit ''purpose'') = PStr (lit purpose)"
    and "read_fields d = Some m"
  shows "purposed_record E required purpose read_fields (serialize_record d) = Inr (Some m)"
  using assms by (simp add: purposed_record_def parse_serialized)

definition transaction_input_ok :: "OidcAuthorizationTransactionCreateInput \<Rightarrow> bool" where
  "transaction_input_ok i \<longleftrightarrow> text_ok (tci_client_id i) \<and> text_ok (tci_redirect_uri i) \<and> scopes_ok (tci_scopes i)
     \<and> optional_ok (tci_state i) \<and> optional_ok (tci_nonce i)
     \<and> pkce_ok (tci_code_challenge i) (tci_code_challenge_method i)"

definition stored_transaction ::
  "auth_env \<Rightarrow> OidcAuthorizationTransactionCreateInput \<Rightarrow> int \<Rightarrow> OidcAuthorizationTransaction" where
  "stored_transaction E i now =
     \<lparr>oat_client_id = tci_client_id i, oat_redirect_uri = tci_redirect_uri i, oat_scopes = tci_scopes i,
      oat_state = tci_state i, oat_nonce = tci_nonce i, oat_code_challenge = tci_code_challenge i,
      oat_code_challenge_method = tci_code_challenge_method i,
      oat_browser_binding_hash = oidc_secret_digest E (tci_browser_binding i),
      oat_csrf_hash = oidc_secret_digest E (tci_csrf_token i), oat_expires_at_epoch_ms = now + 600000\<rparr>"

lemma transaction_roundtrip:
  assumes "transaction_input_ok i" "sha256_ok E" "clock_ok now"
  shows "transaction_record E (serialize_record (transaction_dict E i now)) = Inr (Some (stored_transaction E i now))"
  unfolding transaction_record_def
proof (rule purposed_record_roundtrip)
  note ok = assms(1) [unfolded transaction_input_ok_def text_ok_def]
  note dg = digest_ne [OF assms(2)] ascii_str_ok [OF digest_ascii [OF assms(2)]]
  show "json_ok (PDict (transaction_dict E i now))"
    using ok dg json_scopes json_pkce [of "tci_code_challenge i" "tci_code_challenge_method i"] expiry_json [OF assms(3), of 600000]
    by (simp add: transaction_dict_def str_ok_lit json_ok_opt OIDC_TRANSACTION_TTL_SECONDS_def
        del: json_ok.simps(3,6))
  show "transaction_fields (transaction_dict E i now) = Some (stored_transaction E i now)"
    using ok dg stored_scopes_ok stored_pkce_ok stored_expiry_ok [OF assms(3), of 600000]
    by (simp add: transaction_fields_def transaction_dict_def nonempty_PStr nullable_opt stored_transaction_def
        OIDC_TRANSACTION_TTL_SECONDS_def)
qed (simp_all add: keys_are_def transaction_dict_def transaction_keys_def)

definition code_input_ok :: "OidcAuthorizationCodeCreateInput \<Rightarrow> bool" where
  "code_input_ok i \<longleftrightarrow> text_ok (aci_client_id i) \<and> text_ok (aci_redirect_uri i) \<and> text_ok (aci_user_id i)
     \<and> scopes_ok (aci_scopes i) \<and> optional_ok (aci_nonce i)
     \<and> pkce_ok (aci_code_challenge i) (aci_code_challenge_method i)"

definition stored_code :: "OidcAuthorizationCodeCreateInput \<Rightarrow> int \<Rightarrow> StoredOidcAuthorizationCode" where
  "stored_code i now =
     \<lparr>sac_client_id = aci_client_id i, sac_redirect_uri = aci_redirect_uri i, sac_user_id = aci_user_id i,
      sac_scopes = aci_scopes i, sac_nonce = aci_nonce i, sac_code_challenge = aci_code_challenge i,
      sac_code_challenge_method = aci_code_challenge_method i, sac_expires_at_epoch_ms = now + 60000\<rparr>"

lemma code_roundtrip:
  assumes "code_input_ok i" "clock_ok now"
  shows "code_record E (serialize_record (code_dict i now)) = Inr (Some (stored_code i now))"
  unfolding code_record_def
proof (rule purposed_record_roundtrip)
  note ok = assms(1) [unfolded code_input_ok_def text_ok_def]
  show "json_ok (PDict (code_dict i now))"
    using ok json_scopes json_pkce [of "aci_code_challenge i" "aci_code_challenge_method i"] expiry_json [OF assms(2), of 60000]
    by (simp add: code_dict_def str_ok_lit json_ok_opt OIDC_AUTHORIZATION_CODE_TTL_SECONDS_def
        del: json_ok.simps(3,6))
  show "code_fields (code_dict i now) = Some (stored_code i now)"
    using ok stored_scopes_ok stored_pkce_ok stored_expiry_ok [OF assms(2), of 60000]
    by (simp add: code_fields_def code_dict_def nonempty_PStr nullable_opt stored_code_def
        OIDC_AUTHORIZATION_CODE_TTL_SECONDS_def)
qed (simp_all add: keys_are_def code_dict_def code_keys_def)

lemma access_token_roundtrip_record:
  assumes "text_ok (oatci_client_id i)" "text_ok (oatci_user_id i)" "scopes_ok (oatci_scopes i)" "clock_ok now"
  shows "access_token_record E (serialize_record (access_token_dict i (now + 300000))) =
    Inr (Some \<lparr>sat_client_id = oatci_client_id i, sat_user_id = oatci_user_id i, sat_scopes = oatci_scopes i,
      sat_expires_at_epoch_ms = now + 300000\<rparr>)"
  unfolding access_token_record_def
proof (rule purposed_record_roundtrip)
  note ok = assms(1,2) [unfolded text_ok_def]
  show "json_ok (PDict (access_token_dict i (now + 300000)))"
    using ok json_scopes [OF assms(3)] expiry_json [OF assms(4), of 300000]
    by (simp add: access_token_dict_def str_ok_lit del: json_ok.simps(3,6))
  show "access_token_fields (access_token_dict i (now + 300000)) =
    Some \<lparr>sat_client_id = oatci_client_id i, sat_user_id = oatci_user_id i, sat_scopes = oatci_scopes i,
      sat_expires_at_epoch_ms = now + 300000\<rparr>"
    using ok stored_scopes_ok [OF assms(3)] stored_expiry_ok [OF assms(4), of 300000]
    by (simp add: access_token_fields_def access_token_dict_def nonempty_PStr)
qed (simp_all add: keys_are_def access_token_dict_def access_token_keys_def)

lemma provider_state_roundtrip:
  assumes "TRANSACTION_ID_fullmatch (psi_transaction_id i)" "sha256_ok E" "clock_ok now"
  shows "provider_state_record E (serialize_record (provider_state_dict E i now)) =
    Inr (Some \<lparr>ops_provider = psi_provider i, ops_transaction_id = psi_transaction_id i,
      ops_browser_binding_hash = oidc_secret_digest E (psi_browser_binding i),
      ops_expires_at_epoch_ms = now + 600000\<rparr>)"
  unfolding provider_state_record_def
proof (rule purposed_record_roundtrip)
  have tid: "psi_transaction_id i \<noteq> []" "str_ok (psi_transaction_id i)"
    using assms(1) opaque_ascii by (auto simp: TRANSACTION_ID_fullmatch_def all_ascii_def intro!: ascii_str_ok)
  note dg = digest_ne [OF assms(2)] ascii_str_ok [OF digest_ascii [OF assms(2)]]
  show "json_ok (PDict (provider_state_dict E i now))"
    using tid dg expiry_json [OF assms(3), of 600000]
    by (simp add: provider_state_dict_def str_ok_lit str_ok_provider OIDC_PROVIDER_STATE_TTL_SECONDS_def
        del: json_ok.simps(3,6))
  show "provider_state_fields (provider_state_dict E i now) =
    Some \<lparr>ops_provider = psi_provider i, ops_transaction_id = psi_transaction_id i,
      ops_browser_binding_hash = oidc_secret_digest E (psi_browser_binding i), ops_expires_at_epoch_ms = now + 600000\<rparr>"
    using tid dg assms(1) stored_expiry_ok [OF assms(3), of 600000]
    by (simp add: provider_state_fields_def provider_state_dict_def nonempty_PStr OIDC_PROVIDER_STATE_TTL_SECONDS_def)
qed (simp_all add: keys_are_def provider_state_dict_def provider_state_keys_def)

section \<open>Codes and transactions over a state store\<close>

context state_store
begin

lemma store_checked_stored:
  assumes "store_checked S parse invalid key_of ttl giveup rnd d w = (Inr token, w')" "0 < ttl"
  shows "view w (key_of token) = None \<and> view w' = (view w)(key_of token := Some (serialize_record d))
    \<and> parse (serialize_record d) \<noteq> Inr None \<and> (\<exists>i. token = base64url (rnd i))"
proof -
  from assms(1) obtain m where "parse (serialize_record d) = Inr (Some m)"
    and "store_under_fresh_token S key_of (serialize_record d) ttl giveup rnd MAX_GENERATION_ATTEMPTS w
      = (Inr token, w')"
    by (auto simp: store_checked_def Let_def seq_simps split: sum.splits if_splits option.splits)
  with fresh_token_stored [OF this(2) assms(2)] show ?thesis by auto
qed

text \<open>The first use of a stored code and the next one.\<close>

lemma code_uses:
  assumes key: "view w1 (oidc_authorization_code_key E code) = Some raw"
    and parse: "code_record E raw = Inr (Some m)" and ascii: "all_ascii (sac_client_id m)" "all_ascii client"
    and first: "oidc_code_consume E S now1 code client w1 = (Inr r, w2)"
  shows "r = (if now1 < sac_expires_at_epoch_ms m \<and> client = sac_client_id m then Some m else None)
    \<and> view w2 = (if now1 < sac_expires_at_epoch_ms m \<and> client \<noteq> sac_client_id m then view w1
                 else (view w1)(oidc_authorization_code_key E code := None))"
proof -
  have "judge_code now1 client m = Inr (if sac_expires_at_epoch_ms m \<le> now1 then Drop
      else if client = sac_client_id m then Accept else Keep)"
    using ascii by (auto simp: judge_code_def compare_digest_def)
  from consume_record_present [OF key parse this first [unfolded oidc_code_consume_def]]
  show ?thesis by auto
qed

lemma transaction_uses:
  assumes key: "view w1 (oidc_transaction_key E tid) = Some raw"
    and parse: "transaction_record E raw = Inr (Some m)" and ok: "sha256_ok E"
    and binding: "oat_browser_binding_hash m = oidc_secret_digest E binding"
    and first: "oidc_transaction_consume E S now1 tid presented w1 = (Inr r, w2)"
  shows "r = (if now1 < oat_expires_at_epoch_ms m
              \<and> oidc_secret_digest E presented = oidc_secret_digest E binding then Some m else None)
    \<and> view w2 = (if now1 < oat_expires_at_epoch_ms m
                   \<and> oidc_secret_digest E presented \<noteq> oidc_secret_digest E binding then view w1
                 else (view w1)(oidc_transaction_key E tid := None))"
proof -
  have "judge_transaction E now1 presented m = Inr (if oat_expires_at_epoch_ms m \<le> now1 then Drop
      else if oidc_secret_digest E presented = oidc_secret_digest E binding then Accept else Keep)"
    using binding digest_ascii [OF ok] by (auto simp: judge_transaction_def compare_digest_def)
  from consume_record_present [OF key parse this first [unfolded oidc_transaction_consume_def]]
  show ?thesis by auto
qed

lemma code_gone:
  "view w (oidc_authorization_code_key E code) = None \<Longrightarrow>
   oidc_code_consume E S now code client w = (Inr r, w') \<Longrightarrow> r = None"
  unfolding oidc_code_consume_def by (rule consume_record_absent)

lemma transaction_gone:
  "view w (oidc_transaction_key E tid) = None \<Longrightarrow>
   oidc_transaction_consume E S now tid presented w = (Inr r, w') \<Longrightarrow> r = None"
  unfolding oidc_transaction_consume_def by (rule consume_record_absent)

end

text \<open>C20. The life of an authorization code. Within its minute a code is redeemed by the client it was issued
  to, with exactly the redirect address, user, scopes, nonce and challenge it was issued for, and it is
  then gone for every client; another client that presents it gets nothing and does not spoil it for its
  owner; from its expiry on it is gone.\<close>

theorem oidc_code_redemption:
  assumes "code_input_ok i" "all_ascii (aci_client_id i)" "clock_ok now" "all_ascii client" "all_ascii client2"
    and create: "oidc_code_create E redis_ops rnd now i w = (Inr code, w1)"
    and first: "oidc_code_consume E redis_ops now1 code client w1 = (Inr r, w2)"
    and again: "oidc_code_consume E redis_ops now2 code client2 w2 = (Inr r2, w3)"
  shows "r = (if now1 < now + 60000 \<and> client = aci_client_id i then Some (stored_code i now) else None)
    \<and> (r \<noteq> None \<or> now + 60000 \<le> now1 \<longrightarrow> r2 = None)
    \<and> (now1 < now + 60000 \<and> client \<noteq> aci_client_id i \<longrightarrow>
         r2 = (if now2 < now + 60000 \<and> client2 = aci_client_id i then Some (stored_code i now) else None))"
proof -
  let ?raw = "serialize_record (code_dict i now)"
  let ?k = "oidc_authorization_code_key E code"
  note parsed = code_roundtrip [OF assms(1,3), of E]
  have ascii: "all_ascii (sac_client_id (stored_code i now))" using assms(2) by (simp add: stored_code_def)
  from create have "store_checked redis_ops (code_record E) ''invalid OIDC authorization code metadata''
      (oidc_authorization_code_key E) OIDC_AUTHORIZATION_CODE_TTL_SECONDS OidcStateCreationError rnd (code_dict i now) w
    = (Inr code, w1)" by (simp add: oidc_code_create_def)
  from redis_store.store_checked_stored [OF this] have v1: "redis_view w1 ?k = Some ?raw"
    by (simp add: OIDC_AUTHORIZATION_CODE_TTL_SECONDS_def)
  note use1 = redis_store.code_uses [OF v1 parsed ascii assms(4) first]
  have m: "sac_expires_at_epoch_ms (stored_code i now) = now + 60000" "sac_client_id (stored_code i now) = aci_client_id i"
    by (simp_all add: stored_code_def)
  have "r2 = None" if "redis_view w2 ?k = None"
    using redis_store.code_gone [OF that again] .
  moreover have "r2 = (if now2 < now + 60000 \<and> client2 = aci_client_id i then Some (stored_code i now) else None)"
    if "redis_view w2 = redis_view w1"
    using redis_store.code_uses [OF _ parsed ascii assms(5) again] v1 that m by simp
  ultimately show ?thesis using use1 m by (auto split: if_splits)
qed

text \<open>An authorization code is redeemed at most once in every interleaving. Any number of token requests
  may present the same code to Redis, their commands interleaved in any order with those of other
  clients and with lost commands: as long as nobody stores that code again, at most one of them gets the
  record, and the record names the client that presented it.\<close>

theorem oidc_code_taken_once:
  assumes "(take_step redis_ops env (oidc_authorization_code_key E code) (code_record E)
      (\<lambda>n now. judge_code now (clients n)))\<^sup>*\<^sup>* (replicate n Starting, w) (ps, w')"
    and "\<And>w w'. env w w' \<Longrightarrow> redis_view w (oidc_authorization_code_key E code) = None \<Longrightarrow>
      redis_view w' (oidc_authorization_code_key E code) = None"
  shows "length (filter taken_by ps) \<le> 1
    \<and> (\<forall>i < length ps. \<forall>m. ps ! i = Ended (Inr (Some m)) \<longrightarrow> sac_client_id m = clients i)"
proof -
  have accepted: "sac_client_id m = client" if "judge_code now client m = Inr Accept" for now client m
    using that by (auto simp: judge_code_def bindE_Inr_iff dest: compare_digest_True split: if_splits)
  have "length (filter taken_by ps) \<le> 1
    \<and> (\<forall>i < length ps. \<forall>m. ps ! i = Ended (Inr (Some m)) \<longrightarrow> (\<exists>now. judge_code now (clients i) m = Inr Accept))"
    by (rule redis_store.taken_once [OF assms(1)]) (rule assms(2))
  with accepted show ?thesis by blast
qed

text \<open>A browser transaction belongs to one browser. Within its ten minutes it is consumed, once, by a
  request whose browser cookie has the digest the transaction was bound to, and comes back with every
  field of the authorization request; a request from another browser gets nothing and leaves it, so the
  login of its owner can still complete.\<close>

theorem oidc_transaction_bound:
  assumes "transaction_input_ok i" "sha256_ok E" "clock_ok now"
    and create: "oidc_transaction_create E redis_ops rnd now i w = (Inr tid, w1)"
    and first: "oidc_transaction_consume E redis_ops now1 tid presented w1 = (Inr r, w2)"
    and again: "oidc_transaction_consume E redis_ops now2 tid (tci_browser_binding i) w2 = (Inr r2, w3)"
  shows "let same = (ae_sha256 E (node_utf8_bytes presented) = ae_sha256 E (node_utf8_bytes (tci_browser_binding i)))
    in r = (if now1 < now + 600000 \<and> same then Some (stored_transaction E i now) else None)
      \<and> r2 = (if now1 < now + 600000 \<and> \<not> same \<and> now2 < now + 600000 then Some (stored_transaction E i now) else None)"
proof -
  let ?raw = "serialize_record (transaction_dict E i now)"
  let ?k = "oidc_transaction_key E tid"
  let ?m = "stored_transaction E i now"
  note parsed = transaction_roundtrip [OF assms(1-3)]
  from create have "store_checked redis_ops (transaction_record E) ''invalid OIDC authorization transaction''
      (oidc_transaction_key E) OIDC_TRANSACTION_TTL_SECONDS OidcStateCreationError rnd (transaction_dict E i now) w
    = (Inr tid, w1)" by (simp add: oidc_transaction_create_def)
  from redis_store.store_checked_stored [OF this] have v1: "redis_view w1 ?k = Some ?raw"
    by (simp add: OIDC_TRANSACTION_TTL_SECONDS_def)
  have m: "oat_browser_binding_hash ?m = oidc_secret_digest E (tci_browser_binding i)"
    "oat_expires_at_epoch_ms ?m = now + 600000" by (simp_all add: stored_transaction_def)
  note use1 = redis_store.transaction_uses [OF v1 parsed assms(2) m(1) first]
  have "r2 = None" if "redis_view w2 ?k = None"
    using redis_store.transaction_gone [OF that again] .
  moreover have "r2 = (if now2 < now + 600000 then Some ?m else None)" if "redis_view w2 = redis_view w1"
    using redis_store.transaction_uses [OF _ parsed assms(2) m(1) again] v1 that m by simp
  ultimately show ?thesis
    using use1 m by (auto simp: Let_def digest_eq [OF assms(2)] split: if_splits)
qed

section \<open>A sample authorization\<close>

definition sample_code_input :: OidcAuthorizationCodeCreateInput where
  "sample_code_input = \<lparr>aci_client_id = lit ''wiki'', aci_redirect_uri = lit ''https://w.co/cb?x=1'',
     aci_user_id = lit ''a1'', aci_scopes = [lit ''openid''], aci_nonce = Some (lit ''n''),
     aci_code_challenge = None, aci_code_challenge_method = None\<rparr>"

definition with_code :: "redis \<Rightarrow> redis" where
  "with_code w = w\<lparr>rd_issued := rd_issued w + 1, rd_kv := (rd_kv w)(oidc_authorization_code_key sample_env sample_code
     := Some (serialize_record (code_dict sample_code_input 1000), Some (rd_now w + 60000)))\<rparr>"

lemma sample_code_input_ok: "code_input_ok sample_code_input" "all_ascii (aci_client_id sample_code_input)" "clock_ok 1000"
  by (simp_all add: sample_code_input_def code_input_ok_def text_ok_def scopes_ok_def pkce_ok_def optional_ok_def
      str_ok_lit clock_ok_def) (simp add: all_ascii_def lit_def)

lemma answering_sample [simp]: "answering sample_redis" "redis_view sample_redis k = None"
  by (simp_all add: answering_def sample_redis_def redis_view_def kv_get_def)

lemma sample_code_created:
  "answering w \<Longrightarrow> redis_view w (oidc_authorization_code_key sample_env sample_code) = None \<Longrightarrow>
   oidc_code_create sample_env redis_ops (\<lambda>_. replicate 32 5) 1000 sample_code_input w = (Inr sample_code, with_code w)"
  unfolding oidc_code_create_def
  by (subst answered_store_checked [where token = sample_code])
    (simp_all add: code_roundtrip [OF sample_code_input_ok(1,3)] sample_code_drawn with_code_def
      OIDC_AUTHORIZATION_CODE_TTL_SECONDS_def)

lemma with_code_view:
  "redis_view (with_code w) (oidc_authorization_code_key sample_env sample_code)
     = Some (serialize_record (code_dict sample_code_input 1000))"
  by (simp add: with_code_def redis_view_def kv_get_def)

lemma with_code_answering [simp]: "answering (with_code w) = answering w"
  by (simp add: with_code_def answering_def)

lemma oidc_code_redemption_witness:
  "fst (oidc_code_consume sample_env redis_ops 2000 sample_code (lit ''wiki'') (with_code sample_redis))
     = Inr (Some (stored_code sample_code_input 1000))"
proof -
  let ?k = "oidc_authorization_code_key sample_env sample_code"
  let ?w = "with_code sample_redis"
  let ?w2 = "?w\<lparr>rd_issued := rd_issued ?w + 2, rd_kv := (rd_kv ?w)(?k := None)\<rparr>"
  note made = sample_code_created [OF answering_sample]
  have "judge_code 2000 (lit ''wiki'') (stored_code sample_code_input 1000) = Inr Accept"
    by (simp add: judge_code_def stored_code_def sample_code_input_def compare_digest_def)
      (simp add: all_ascii_def lit_def)
  then have r: "oidc_code_consume sample_env redis_ops 2000 sample_code (lit ''wiki'') ?w
      = (Inr (Some (stored_code sample_code_input 1000)), ?w2)"
    unfolding oidc_code_consume_def
    by (intro answered_consume_record(2) [OF _ with_code_view])
      (simp, rule code_roundtrip [OF sample_code_input_ok(1,3)])
  have r2: "oidc_code_consume sample_env redis_ops 2000 sample_code (lit ''wiki'') ?w2
      = (Inr None, ?w2\<lparr>rd_issued := rd_issued ?w2 + 1\<rparr>)"
    unfolding oidc_code_consume_def by (rule answered_consume_record(1)) (simp_all add: redis_view_def kv_get_def)
  have "all_ascii (lit ''wiki'')" by (simp add: all_ascii_def lit_def)
  from oidc_code_redemption [OF sample_code_input_ok this this made r r2] r show ?thesis
    by (simp add: stored_code_def)
qed

lemma oidc_code_taken_once_witness:
  "length (filter taken_by [Ended (Inr (Some (stored_code sample_code_input 1000))), Ended (Inr None)]) \<le> 1
   \<and> sac_client_id (stored_code sample_code_input 1000) = lit ''wiki''"
proof -
  have "judge_code 2000 (lit ''wiki'') (stored_code sample_code_input 1000) = Inr Accept"
    by (simp add: judge_code_def stored_code_def sample_code_input_def compare_digest_def)
      (simp add: all_ascii_def lit_def)
  from answered_race [where env = "\<lambda>_ _. False" and judges = "\<lambda>_ now. judge_code now (lit ''wiki'')" and now = 2000
      and parse = "code_record sample_env", OF with_code_answering [THEN iffD2, OF answering_sample(1)] with_code_view code_roundtrip [OF sample_code_input_ok(1,3)] this]
  obtain w' where "(take_step redis_ops (\<lambda>_ _. False) (oidc_authorization_code_key sample_env sample_code)
      (code_record sample_env) (\<lambda>_ now. judge_code now (lit ''wiki'')))\<^sup>*\<^sup>* (replicate 2 Starting, with_code sample_redis)
      ([Ended (Inr (Some (stored_code sample_code_input 1000))), Ended (Inr None)], w')" by auto
  from oidc_code_taken_once [where clients = "\<lambda>_. lit ''wiki''", OF this] show ?thesis by auto
qed

definition sample_transaction_input :: OidcAuthorizationTransactionCreateInput where
  "sample_transaction_input = \<lparr>tci_client_id = lit ''wiki'', tci_redirect_uri = lit ''https://w.co/cb?x=1'',
     tci_scopes = [lit ''openid''], tci_state = Some (lit ''s''), tci_nonce = Some (lit ''n''),
     tci_code_challenge = None, tci_code_challenge_method = None, tci_browser_binding = lit ''cookie'',
     tci_csrf_token = lit ''csrf''\<rparr>"

lemma sample_transaction_ok: "transaction_input_ok sample_transaction_input" "sha256_ok sample_env"
  by (simp_all add: sample_transaction_input_def transaction_input_ok_def text_ok_def scopes_ok_def pkce_ok_def
      optional_ok_def str_ok_lit sha256_ok_def sample_env_def is_bytes_def)

lemma oidc_transaction_bound_witness:
  "\<exists>w1 r2 w2. oidc_transaction_create sample_env redis_ops (\<lambda>_. replicate 32 5) 1000 sample_transaction_input sample_redis
       = (Inr sample_code, w1)
     \<and> oidc_transaction_consume sample_env redis_ops 3000 sample_code (lit ''cookie'') w1 = (Inr r2, w2)
     \<and> r2 = Some (stored_transaction sample_env sample_transaction_input 1000)"
proof -
  let ?E = sample_env and ?i = sample_transaction_input
  let ?k = "oidc_transaction_key ?E sample_code"
  let ?w1 = "sample_redis\<lparr>rd_issued := rd_issued sample_redis + 1, rd_kv := (rd_kv sample_redis)(?k
     := Some (serialize_record (transaction_dict ?E ?i 1000), Some (rd_now sample_redis + 600 * 1000)))\<rparr>"
  note parsed = transaction_roundtrip [OF sample_transaction_ok sample_code_input_ok(3)]
  have made: "oidc_transaction_create ?E redis_ops (\<lambda>_. replicate 32 5) 1000 ?i sample_redis = (Inr sample_code, ?w1)"
    unfolding oidc_transaction_create_def
    by (subst answered_store_checked [where token = sample_code and m = "stored_transaction ?E ?i 1000"])
      (simp_all add: parsed sample_code_drawn OIDC_TRANSACTION_TTL_SECONDS_def)
  have view: "redis_view ?w1 ?k = Some (serialize_record (transaction_dict ?E ?i 1000))" and ans: "answering ?w1"
    by (simp_all add: redis_view_def kv_get_def answering_def) (simp add: sample_redis_def)+
  have judge: "judge_transaction ?E 3000 (lit ''cookie'') (stored_transaction ?E ?i 1000) = Inr Accept"
    using digest_ascii [OF sample_transaction_ok(2)]
    by (simp add: judge_transaction_def stored_transaction_def sample_transaction_input_def compare_digest_def)
  let ?w2 = "?w1\<lparr>rd_issued := rd_issued ?w1 + 2, rd_kv := (rd_kv ?w1)(?k := None)\<rparr>"
  have r: "oidc_transaction_consume ?E redis_ops 3000 sample_code (lit ''cookie'') ?w1
      = (Inr (Some (stored_transaction ?E ?i 1000)), ?w2)"
    unfolding oidc_transaction_consume_def
    by (rule answered_consume_record(2) [where parse = "transaction_record ?E", OF ans view parsed]) (rule judge)
  have r2: "oidc_transaction_consume ?E redis_ops 4000 sample_code (tci_browser_binding ?i) ?w2
      = (Inr None, ?w2\<lparr>rd_issued := rd_issued ?w2 + 1\<rparr>)"
    unfolding oidc_transaction_consume_def
    by (rule answered_consume_record(1)) (use ans in \<open>simp_all add: redis_view_def kv_get_def\<close>)
  from oidc_transaction_bound [OF sample_transaction_ok sample_code_input_ok(3) made r r2] made r
  show ?thesis by (auto simp: Let_def)
qed

end
