(* ===== verification/Oidc_Service.thy ===== *)
theory Oidc_Service
  imports Auth_Service Oidc_Redirects Oidc_Redemption
begin

text \<open>
  \<^verbatim>\<open>application/oidc.py\<close> and the parts of \<^verbatim>\<open>oidc_runtime.py\<close> it runs over: the OIDC provider, one
  definition per method, over the world of \<open>Service_World\<close>. \<^verbatim>\<open>engine.begin()\<close> is \<open>begin_prepared\<close> and
  \<open>in_begin\<close>: an exception restores the database of its start and nothing else, so the code or the
  access token that was stored in Redis meanwhile is removed by the exception handler. A provider fetch
  is an argument of the service.
\<close>

section \<open>Values\<close>

record OidcRequestContext =
  orc_ip_address :: "pystr option"
  orc_user_agent :: "pystr option"

record AuthorizationRequest =
  arq_client_id :: pystr
  arq_redirect_uri :: pystr
  arq_response_type :: pystr
  arq_scopes :: "pystr list"
  arq_state :: "pystr option"
  arq_nonce :: "pystr option"
  arq_code_challenge :: "pystr option"
  arq_code_challenge_method :: "pystr option"
  arq_prompt :: "pystr option"

record AuthorizationStart =
  ast_transaction_id :: pystr
  ast_csrf_token :: pystr
  ast_browser_binding :: pystr

record TokenExchangeInput =
  tei_client_id :: pystr
  tei_client_secret :: pystr
  tei_grant_type :: pystr
  tei_code :: pystr
  tei_redirect_uri :: pystr
  tei_code_verifier :: "pystr option"

record TokenResponse =
  trs_access_token :: pystr
  trs_expires_in :: int
  trs_id_token :: pystr

record UserInfo =
  ui_sub :: pystr
  ui_email :: pystr
  ui_name :: "pystr option"
  ui_groups :: "pystr list"

record OidcService =
  oids_clients :: OidcClientRegistry
  oids_id_tokens :: JwtTokenCodec
  oids_provider_config :: "(OAuthProvider \<Rightarrow> exn + OAuthProviderConfig) option"
  oids_oauth_client :: "(OAuthProvider \<Rightarrow> OAuthProviderConfig \<Rightarrow> pystr \<Rightarrow> exn + OAuthProfile) option"
  oids_redis :: bool
  oids_rate_limit_window_seconds :: int
  oids_rate_limit_max_requests :: nat
  oids_access_token_ttl_seconds :: int

definition check_oidc_service :: "OidcService \<Rightarrow> exn + unit" where
  "check_oidc_service S =
     bindE (requireE (0 < oids_rate_limit_window_seconds S \<and> 0 < oids_rate_limit_max_requests S)
              (ValueError (lit ''OIDC client rate-limit settings must be positive''))) (\<lambda>_.
     requireE (0 < oids_access_token_ttl_seconds S) (ValueError (lit ''OIDC access-token expiry must be positive'')))"

definition oidc_error :: "string \<Rightarrow> string \<Rightarrow> exn" where
  "oidc_error error description = OidcServiceError (lit error) (lit description) 400 None None False"

definition oidc_client :: "OidcService \<Rightarrow> pystr \<Rightarrow> exn + OidcClientPolicy" where
  "oidc_client S client_id =
     (case registry_get (oids_clients S) client_id of
        None \<Rightarrow> Inl (oidc_error ''invalid_request'' ''Unknown client'')
      | Some client \<Rightarrow> Inr client)"

definition validated_redirect :: "OidcClientPolicy \<Rightarrow> pystr \<Rightarrow> exn + pystr" where
  "validated_redirect client redirect_uri =
     (if redirect_uri \<notin> set (ocp_redirect_uris client) then Inl (oidc_error ''invalid_request'' ''Invalid redirect URI'')
      else Inr redirect_uri)"

definition authorization_error :: "pystr \<Rightarrow> pystr \<Rightarrow> pystr \<Rightarrow> pystr option \<Rightarrow> exn" where
  "authorization_error error description redirect_uri state =
     OidcServiceError error description 400 (Some redirect_uri) state False"

definition provider_unavailable :: exn where
  "provider_unavailable =
     OidcServiceError (lit ''temporarily_unavailable'') (lit ''OAuth provider is unavailable'') 503 None None False"

definition oidc_provider_config :: "OidcService \<Rightarrow> OAuthProvider \<Rightarrow> exn + OAuthProviderConfig" where
  "oidc_provider_config S provider =
     (case oids_provider_config S of
        None \<Rightarrow> Inl provider_unavailable
      | Some resolver \<Rightarrow>
          (case resolver provider of
             Inl (OAuthProviderConfigurationError code) \<Rightarrow> Inl provider_unavailable
           | r \<Rightarrow> r))"

section \<open>Transactions and clean-up\<close>

definition in_begin :: "(world, 'a) act \<Rightarrow> (world, 'a) act" where
  "in_begin m = (\<lambda>w. case m w of
     (Inr a, w') \<Rightarrow> (Inr a, w')
   | (Inl e, w') \<Rightarrow> (Inl e, w'\<lparr>w_db := w_db w\<rparr>))"

text \<open>\<open>prepare\<close> answers nothing, or something that must be withdrawn when \<open>finish\<close> raises; all of it runs in
  one \<^verbatim>\<open>engine.begin()\<close>, the withdrawal after its rollback.\<close>

definition begin_prepared ::
  "(world, 'p option) act \<Rightarrow> ('p \<Rightarrow> (world, 'r) act) \<Rightarrow> ('p \<Rightarrow> (world, unit) act) \<Rightarrow> (world, 'r option) act" where
  "begin_prepared prepare finish withdraw = (\<lambda>w.
     case in_begin prepare w of
       (Inl e, w1) \<Rightarrow> (Inl e, w1)
     | (Inr None, w1) \<Rightarrow> (Inr None, w1)
     | (Inr (Some p), w1) \<Rightarrow>
         (case finish p w1 of
            (Inr r, w2) \<Rightarrow> (Inr (Some r), w2)
          | (Inl e, w2) \<Rightarrow> bindA (withdraw p) (\<lambda>_. raiseA e) (w2\<lparr>w_db := w_db w\<rparr>)))"

text \<open>The clean-up swallows and logs its own failure.\<close>

definition best_effort :: "(world, 'a) act \<Rightarrow> (world, unit) act" where
  "best_effort m = catchA (bindA m (\<lambda>_. retA ())) (\<lambda>_. retA ())"

definition best_effort_consume_code :: "runtime \<Rightarrow> pystr \<Rightarrow> (world, unit) act" where
  "best_effort_consume_code R code = best_effort (in_redis (oidc_code_discard (rt_env R) redis_ops code))"

definition best_effort_revoke_access :: "runtime \<Rightarrow> pystr \<Rightarrow> (world, unit) act" where
  "best_effort_revoke_access R token = best_effort (in_redis (oidc_access_token_revoke (rt_env R) redis_ops token))"

section \<open>Audit\<close>

definition oidc_audit_event ::
  "pystr \<Rightarrow> int \<Rightarrow> string \<Rightarrow> string \<Rightarrow> pystr option \<Rightarrow> pystr \<Rightarrow> pystr option \<Rightarrow> OidcRequestContext \<Rightarrow>
   OAuthProvider option \<Rightarrow> pydict \<Rightarrow> AuditEventInsert" where
  "oidc_audit_event i created_at event_type outcome user_id client_id reason context provider details =
     \<lparr>aei_id = i, aei_event_type = lit event_type, aei_outcome = lit outcome, aei_created_at = created_at,
      aei_user_id = user_id, aei_actor_user_id = None, aei_target_user_id = None,
      aei_provider = map_option provider_value provider, aei_service_key = None,
      aei_ip_address = orc_ip_address context, aei_user_agent = orc_user_agent context,
      aei_reason_code = reason, aei_details_json = Some ((lit ''clientId'', PStr client_id) # details)\<rparr>"

definition oidc_create_audit ::
  "runtime \<Rightarrow> string \<Rightarrow> string \<Rightarrow> pystr option \<Rightarrow> pystr \<Rightarrow> pystr option \<Rightarrow> OidcRequestContext \<Rightarrow>
   OAuthProvider option \<Rightarrow> pydict \<Rightarrow> (world, unit) act" where
  "oidc_create_audit R event_type outcome user_id client_id reason context provider details =
     bindA (application_uuids R) (\<lambda>u.
     bindA (utc_now_ms R) (\<lambda>created_at.
     in_transaction (audit_create
       (oidc_audit_event (u 0) created_at event_type outcome user_id client_id reason context provider details))))"

definition write_failure_audit ::
  "runtime \<Rightarrow> string \<Rightarrow> pystr option \<Rightarrow> pystr \<Rightarrow> pystr \<Rightarrow> OidcRequestContext \<Rightarrow> OAuthProvider option \<Rightarrow>
   (world, unit) act" where
  "write_failure_audit R event_type user_id client_id reason context provider =
     oidc_create_audit R event_type ''failure'' user_id client_id (Some reason) context provider []"

definition audit_token_failure ::
  "runtime \<Rightarrow> pystr \<Rightarrow> pystr \<Rightarrow> OidcRequestContext \<Rightarrow> (world, unit) act" where
  "audit_token_failure R user_id client_id context =
     write_failure_audit R ''oidc_token'' (Some user_id) client_id (lit ''OIDC_INVALID_GRANT'') context None"

section \<open>Eligibility\<close>

text \<open>\<^verbatim>\<open>_eligible_identity\<close>: an identity, or the reason of the denial.\<close>

definition eligible_identity ::
  "CurrentUserWithStatus option \<Rightarrow> OidcClientPolicy \<Rightarrow> pystr + OidcIdentity" where
  "eligible_identity user client =
     (case user of
        None \<Rightarrow> Inl (lit ''OIDC_USER_INACTIVE'')
      | Some u \<Rightarrow>
          if cu_status u \<noteq> ACTIVE then Inl (lit ''OIDC_USER_INACTIVE'')
          else if \<not> truthy (cu_email u) \<or> \<not> cu_email_verified u then Inl (lit ''OIDC_EMAIL_UNVERIFIED'')
          else
            let identity = \<lparr>oi_user_id = cu_id u, oi_email = the (cu_email u), oi_name = cu_name u,
                  oi_email_verified = True, oi_roles = cu_roles u\<rparr>
            in if \<not> has_required_role identity client then Inl (lit ''OIDC_REQUIRED_ROLE_MISSING'')
               else (case project_groups identity client of
                       Inl _ \<Rightarrow> Inl (lit ''OIDC_GROUPS_INVALID'')
                     | Inr _ \<Rightarrow> Inr identity))"

section \<open>Authorization\<close>

definition known_prompts :: "pystr option list" where
  "known_prompts = [None, Some (lit ''login''), Some (lit ''consent''), Some (lit ''select_account'')]"

definition join_space :: "pystr list \<Rightarrow> pystr" where
  "join_space ws = (case ws of [] \<Rightarrow> [] | w # rest \<Rightarrow> w @ concat (map (\<lambda>v. 32 # v) rest))"

text \<open>The checks of \<^verbatim>\<open>begin_authorization\<close>: the validated scopes, or the protocol error.\<close>

definition authorization_error_code :: "runtime \<Rightarrow> pystr \<Rightarrow> pystr" where
  "authorization_error_code R message =
     (if py_contains (lit ''scope'') (py_lower (rt_lower R) message) then lit ''invalid_scope'' else lit ''invalid_request'')"

definition requested_scopes :: "OidcClientPolicy \<Rightarrow> AuthorizationRequest \<Rightarrow> exn + pystr list" where
  "requested_scopes client request =
     bindE (parse_requested_scopes (join_space (arq_scopes request)) (ocp_allowed_scopes client)) (\<lambda>scopes.
     bindE (validate_pkce_request (arq_code_challenge request) (arq_code_challenge_method request)
              (ocp_require_pkce client)) (\<lambda>_.
     Inr scopes))"

definition checked_request ::
  "OidcService \<Rightarrow> runtime \<Rightarrow> AuthorizationRequest \<Rightarrow> exn + (OidcClientPolicy \<times> pystr \<times> pystr list)" where
  "checked_request S R request =
     bindE (oidc_client S (arq_client_id request)) (\<lambda>client.
     bindE (validated_redirect client (arq_redirect_uri request)) (\<lambda>redirect_uri.
     bindE (requireE (arq_response_type request = lit ''code'')
              (authorization_error (lit ''unsupported_response_type'')
                (lit ''Only the authorization code flow is supported'') redirect_uri (arq_state request))) (\<lambda>_.
     bindE (requireE (arq_prompt request \<noteq> Some (lit ''none''))
              (authorization_error (lit ''login_required'') (lit ''Interactive login is required'')
                redirect_uri (arq_state request))) (\<lambda>_.
     bindE (requireE (arq_prompt request \<in> set known_prompts)
              (authorization_error (lit ''invalid_request'') (lit ''Unsupported prompt'')
                redirect_uri (arq_state request))) (\<lambda>_.
     case requested_scopes client request of
       Inl (ValueError message) \<Rightarrow>
         Inl (authorization_error (authorization_error_code R message) message redirect_uri (arq_state request))
     | Inl e \<Rightarrow> Inl e
     | Inr scopes \<Rightarrow> Inr (client, redirect_uri, scopes))))))"

definition begin_authorization ::
  "OidcService \<Rightarrow> runtime \<Rightarrow> AuthorizationRequest \<Rightarrow> (world, AuthorizationStart) act" where
  "begin_authorization S R request =
     bindA (liftA (checked_request S R request)) (\<lambda>(client, redirect_uri, scopes).
     bindA (random_block R) (\<lambda>rnd.
     let csrf_token = base64url (rnd 0); browser_binding = base64url (rnd 1) in
     bindA (utc_now_ms R) (\<lambda>now.
     bindA (in_redis (oidc_transaction_create (rt_env R) redis_ops (\<lambda>i. rnd (i + 2)) now
       \<lparr>tci_client_id = ocp_client_id client, tci_redirect_uri = redirect_uri, tci_scopes = scopes,
        tci_state = arq_state request, tci_nonce = arq_nonce request,
        tci_code_challenge = arq_code_challenge request,
        tci_code_challenge_method = (if arq_code_challenge request \<noteq> None then Some (lit ''S256'') else None),
        tci_browser_binding = browser_binding, tci_csrf_token = csrf_token\<rparr>)) (\<lambda>transaction_id.
     retA \<lparr>ast_transaction_id = transaction_id, ast_csrf_token = csrf_token,
           ast_browser_binding = browser_binding\<rparr>))))"

definition invalid_login_transaction :: exn where
  "invalid_login_transaction = oidc_error ''invalid_request'' ''Invalid login transaction''"

definition bound_transaction :: "runtime \<Rightarrow> pystr \<Rightarrow> pystr \<Rightarrow> (world, OidcAuthorizationTransaction) act" where
  "bound_transaction R transaction_id browser_binding =
     bindA (utc_now_ms R) (\<lambda>now.
     bindA (in_redis (oidc_transaction_get (rt_env R) redis_ops now transaction_id browser_binding)) (\<lambda>found.
     case found of
       None \<Rightarrow> raiseA invalid_login_transaction
     | Some tx \<Rightarrow>
         bindA (utc_now_ms R) (\<lambda>clock_ms.
         if oat_expires_at_epoch_ms tx \<le> clock_ms
         then bindA (in_redis (oidc_transaction_discard (rt_env R) redis_ops transaction_id))
                (\<lambda>_. raiseA invalid_login_transaction)
         else retA tx)))"

text \<open>\<^verbatim>\<open>_complete_authorization\<close>: the code is prepared inside the transaction that locks the user.\<close>

definition prepare_code ::
  "OidcClientPolicy \<Rightarrow> runtime \<Rightarrow> pystr \<Rightarrow> OidcAuthorizationTransaction \<Rightarrow> OidcRequestContext \<Rightarrow> bool \<Rightarrow>
   OAuthProvider option \<Rightarrow> (world, pystr option) act" where
  "prepare_code client R user_id tx context reset_password_login provider =
     bindA (in_transaction (lock_user user_id)) (\<lambda>user.
     case eligible_identity user client of
       Inl denial \<Rightarrow>
         bindA (oidc_create_audit R ''oidc_authorize'' ''failure'' (Some user_id) (ocp_client_id client)
                  (Some denial) context provider []) (\<lambda>_. retA None)
     | Inr identity \<Rightarrow>
         bindA (if reset_password_login
                then bindA (utc_now_ms R) (\<lambda>now. in_transaction (store_mark_login_success user_id now))
                else retA ()) (\<lambda>_.
         bindA (random_block R) (\<lambda>rnd.
         bindA (utc_now_ms R) (\<lambda>now.
         bindA (in_redis (oidc_code_create (rt_env R) redis_ops rnd now
           \<lparr>aci_client_id = ocp_client_id client, aci_redirect_uri = oat_redirect_uri tx,
            aci_user_id = user_id, aci_scopes = oat_scopes tx, aci_nonce = oat_nonce tx,
            aci_code_challenge = oat_code_challenge tx,
            aci_code_challenge_method = oat_code_challenge_method tx\<rparr>)) (\<lambda>code. retA (Some code))))))"

definition complete_authorization ::
  "OidcService \<Rightarrow> runtime \<Rightarrow> pystr \<Rightarrow> OidcAuthorizationTransaction \<Rightarrow> OidcRequestContext \<Rightarrow> string \<Rightarrow> bool \<Rightarrow>
   OAuthProvider option \<Rightarrow> (world, pystr) act" where
  "complete_authorization S R user_id tx context login_method reset_password_login provider =
     bindA (liftA (oidc_client S (oat_client_id tx))) (\<lambda>client.
     bindA (begin_prepared
              (prepare_code client R user_id tx context reset_password_login provider)
              (\<lambda>code. bindA (oidc_create_audit R ''oidc_authorize'' ''success'' (Some user_id) (ocp_client_id client)
                        None context provider [(lit ''loginMethod'', PStr (lit login_method))]) (\<lambda>_. retA code))
              (best_effort_consume_code R)) (\<lambda>prepared_code.
     case prepared_code of
       None \<Rightarrow> raiseA (OidcServiceError (lit ''access_denied'') (lit ''Account is not eligible'') 403 None None False)
     | Some code \<Rightarrow>
         liftA (oidc_url_with_query (oat_redirect_uri tx)
                  (authorization_response code (oat_state tx)))))"

section \<open>Password login\<close>

definition oidc_failure_reason :: "PasswordCredentialRecord option \<Rightarrow> bool \<Rightarrow> bool \<Rightarrow> PasswordAuthReason" where
  "oidc_failure_reason credential locked verified =
     (if locked then ACCOUNT_LOCKED
      else if has_status credential PENDING_EMAIL_VERIFICATION \<and> verified then EMAIL_VERIFICATION_REQUIRED
      else if has_status credential ACTIVE then INVALID_CREDENTIALS else USER_INACTIVE)"

definition refuse_login ::
  "runtime \<Rightarrow> PasswordCredentialRecord option \<Rightarrow> bool \<Rightarrow> bool \<Rightarrow> int \<Rightarrow> pystr \<Rightarrow> OidcRequestContext \<Rightarrow>
   (world, 'a) act" where
  "refuse_login R credential locked verified now client_id context =
     bindA (case credential of
              Some c \<Rightarrow> if pc_user_status c = ACTIVE \<and> \<not> locked
                        then bindA (in_transaction (record_failure (pc_user_id c) (now + LOCKOUT_MS) now
                                     FAILED_LOGIN_THRESHOLD)) (\<lambda>_. retA ())
                        else retA ()
            | None \<Rightarrow> retA ()) (\<lambda>_.
     let reason = oidc_failure_reason credential locked verified;
         user_id = map_option pc_user_id credential in
     bindA (write_failure_audit R ''oidc_authorize'' user_id client_id (reason_code reason) context None) (\<lambda>_.
     raiseA (PasswordAuthFailure user_id reason)))"

text \<open>The transaction as it was read must be the one that is consumed.\<close>

definition consume_same ::
  "runtime \<Rightarrow> pystr \<Rightarrow> pystr \<Rightarrow> OidcAuthorizationTransaction \<Rightarrow> (world, OidcAuthorizationTransaction) act" where
  "consume_same R transaction_id browser_binding tx =
     bindA (utc_now_ms R) (\<lambda>now.
     bindA (in_redis (oidc_transaction_consume (rt_env R) redis_ops now transaction_id browser_binding)) (\<lambda>consumed.
     if consumed = Some tx then retA tx else raiseA invalid_login_transaction))"

definition oidc_password_login ::
  "OidcService \<Rightarrow> runtime \<Rightarrow> pystr \<Rightarrow> pystr \<Rightarrow> pystr \<Rightarrow> pystr \<Rightarrow> pystr \<Rightarrow> OidcRequestContext \<Rightarrow>
   (world, pystr) act" where
  "oidc_password_login S R transaction_id browser_binding csrf_token email password context =
     bindA (bound_transaction R transaction_id browser_binding) (\<lambda>tx.
     bindA (liftA (csrf_matches (rt_env R) tx csrf_token)) (\<lambda>matches.
     if \<not> matches then raiseA invalid_login_transaction
     else
       bindA (in_transaction (find_credential_by_email (normalize_email (rt_lower R) email))) (\<lambda>credential.
       let password_hash = (case credential of Some c \<Rightarrow> pc_password_hash c | None \<Rightarrow> DUMMY_PASSWORD_HASH);
           verified = check_password R password_hash password in
       bindA (utc_now_ms R) (\<lambda>now.
       let locked = is_locked credential now in
       if \<not> (has_status credential ACTIVE \<and> \<not> locked \<and> verified)
       then refuse_login R credential locked verified now (oat_client_id tx) context
       else (case credential of
               None \<Rightarrow> raiseA (RuntimeError (lit ''successful OIDC authentication lost its credential''))
             | Some c \<Rightarrow>
                 bindA (consume_same R transaction_id browser_binding tx) (\<lambda>consumed.
                 complete_authorization S R (pc_user_id c) consumed context ''password'' True None))))))"

section \<open>Provider login\<close>

definition provider_start ::
  "OidcService \<Rightarrow> runtime \<Rightarrow> pystr \<Rightarrow> pystr \<Rightarrow> OAuthProvider \<Rightarrow> (world, pystr) act" where
  "provider_start S R transaction_id browser_binding provider =
     bindA (bound_transaction R transaction_id browser_binding) (\<lambda>_.
     bindA (liftA (oidc_provider_config S provider)) (\<lambda>config.
     bindA (random_block R) (\<lambda>rnd.
     bindA (utc_now_ms R) (\<lambda>now.
     bindA (in_redis (oidc_provider_state_create (rt_env R) redis_ops rnd now
       \<lparr>psi_provider = provider, psi_transaction_id = transaction_id, psi_browser_binding = browser_binding\<rparr>))
       (\<lambda>provider_state.
     liftA (authorization_url (ae_url (rt_env R)) config provider_state))))))"

definition oidc_profile :: "exn + OAuthProfile \<Rightarrow> exn + OAuthProfile" where
  "oidc_profile r = (case r of
     Inl OAuthProviderInvalidResponseError \<Rightarrow> Inl (oidc_error ''access_denied'' ''Provider profile is invalid'')
   | Inl OAuthProviderInfrastructureError \<Rightarrow> Inl provider_unavailable
   | _ \<Rightarrow> r)"

definition consumed_provider_state ::
  "runtime \<Rightarrow> pystr \<Rightarrow> OAuthProvider \<Rightarrow> pystr \<Rightarrow> (world, OidcProviderState) act" where
  "consumed_provider_state R state provider browser_binding =
     bindA (utc_now_ms R) (\<lambda>now.
     bindA (in_redis (oidc_provider_state_consume (rt_env R) redis_ops now state provider browser_binding)) (\<lambda>found.
     case found of
       None \<Rightarrow> raiseA (oidc_error ''invalid_request'' ''Invalid provider state'')
     | Some provider_state \<Rightarrow> retA provider_state))"

definition provider_callback ::
  "OidcService \<Rightarrow> runtime \<Rightarrow> OAuthProvider \<Rightarrow> pystr \<Rightarrow> pystr \<Rightarrow> pystr \<Rightarrow> OidcRequestContext \<Rightarrow> (world, pystr) act" where
  "provider_callback S R provider code state browser_binding context =
     bindA (consumed_provider_state R state provider browser_binding) (\<lambda>provider_state.
     bindA (bound_transaction R (ops_transaction_id provider_state) browser_binding) (\<lambda>tx.
     if code = [] then raiseA (oidc_error ''invalid_request'' ''Authorization code is required'')
     else (case oids_oauth_client S of
         None \<Rightarrow> raiseA provider_unavailable
       | Some fetch \<Rightarrow>
           bindA (liftA (oidc_provider_config S provider)) (\<lambda>config.
           bindA (liftA (oidc_profile (fetch provider config code))) (\<lambda>profile.
           bindA (consume_same R (ops_transaction_id provider_state) browser_binding tx) (\<lambda>consumed.
           bindA (in_transaction (find_existing_social_user_id (provider_value (op_provider profile))
                    (op_provider_user_id profile))) (\<lambda>user_id.
           case user_id of
             None \<Rightarrow>
               bindA (write_failure_audit R ''oidc_authorize'' None (oat_client_id consumed)
                        (lit ''OIDC_IDENTITY_NOT_LINKED'') context (Some provider)) (\<lambda>_.
               raiseA (OidcServiceError (lit ''access_denied'') (lit ''Account is not eligible'') 403 None None False))
           | Some uid \<Rightarrow> complete_authorization S R uid consumed context ''oauth'' False (Some provider))))))))"

definition provider_error ::
  "runtime \<Rightarrow> OAuthProvider \<Rightarrow> pystr \<Rightarrow> pystr \<Rightarrow> OidcRequestContext \<Rightarrow> (world, unit) act" where
  "provider_error R provider state browser_binding context =
     bindA (consumed_provider_state R state provider browser_binding) (\<lambda>provider_state.
     bindA (utc_now_ms R) (\<lambda>now.
     bindA (in_redis (oidc_transaction_consume (rt_env R) redis_ops now (ops_transaction_id provider_state)
              browser_binding)) (\<lambda>found.
     case found of
       None \<Rightarrow> raiseA invalid_login_transaction
     | Some tx \<Rightarrow>
         bindA (write_failure_audit R ''oidc_authorize'' None (oat_client_id tx) (lit ''OIDC_PROVIDER_DENIED'')
                  context (Some provider)) (\<lambda>_.
         raiseA (oidc_error ''access_denied'' ''Provider authorization was denied'')))))"

section \<open>Token endpoint\<close>

definition client_rate_limit_key :: "runtime \<Rightarrow> pystr \<Rightarrow> nat list" where
  "client_rate_limit_key R client_id = lit ''wiseacct:oidc:rate-limit:client:'' @ sha R client_id"

definition enforce_client_rate_limit :: "OidcService \<Rightarrow> runtime \<Rightarrow> pystr \<Rightarrow> (world, unit) act" where
  "enforce_client_rate_limit S R client_id =
     (if \<not> oids_redis S then retA ()
      else bindA (in_redis (redis_increment_with_ttl (client_rate_limit_key R client_id)
                    (oids_rate_limit_window_seconds S))) (\<lambda>count.
           if oids_rate_limit_max_requests S < count
           then raiseA (OidcServiceError (lit ''temporarily_unavailable'') (lit ''Too many token requests'') 429
                          None None False)
           else retA ()))"

definition invalid_grant :: exn where
  "invalid_grant = oidc_error ''invalid_grant'' ''Invalid authorization code''"

definition invalid_client :: exn where
  "invalid_client =
     OidcServiceError (lit ''invalid_client'') (lit ''Client authentication failed'') 401 None None True"

text \<open>The checks of a consumed code against the request: \<open>False\<close> is the audited failure.\<close>

definition grant_matches ::
  "auth_env \<Rightarrow> OidcClientPolicy \<Rightarrow> TokenExchangeInput \<Rightarrow> StoredOidcAuthorizationCode \<Rightarrow> exn + bool" where
  "grant_matches E client input stored =
     (if sac_redirect_uri stored \<noteq> tei_redirect_uri input then Inr False
      else if sac_code_challenge stored \<noteq> None
      then (if tei_code_verifier input = None then Inr False
            else verify_pkce (ae_sha256 E) (tei_code_verifier input) (sac_code_challenge stored))
      else if ocp_require_pkce client then Inr False
      else verify_pkce (ae_sha256 E) (tei_code_verifier input) None)"

definition prepare_access_token ::
  "OidcClientPolicy \<Rightarrow> runtime \<Rightarrow> StoredOidcAuthorizationCode \<Rightarrow> OidcRequestContext \<Rightarrow>
   (world, (pystr \<times> OidcIdentity) option) act" where
  "prepare_access_token client R stored context =
     bindA (in_transaction (lock_user (sac_user_id stored))) (\<lambda>user.
     case eligible_identity user client of
       Inl denial \<Rightarrow>
         bindA (oidc_create_audit R ''oidc_token'' ''failure'' (Some (sac_user_id stored)) (ocp_client_id client)
                  (Some denial) context None []) (\<lambda>_. retA None)
     | Inr identity \<Rightarrow>
         bindA (random_block R) (\<lambda>rnd.
         bindA (utc_now_ms R) (\<lambda>now.
         bindA (in_redis (oidc_access_token_create (rt_env R) redis_ops rnd now
           \<lparr>oatci_client_id = ocp_client_id client, oatci_user_id = oi_user_id identity,
            oatci_scopes = sac_scopes stored\<rparr>)) (\<lambda>token. retA (Some (token, identity))))))"

definition finish_exchange ::
  "OidcService \<Rightarrow> OidcClientPolicy \<Rightarrow> runtime \<Rightarrow> StoredOidcAuthorizationCode \<Rightarrow> OidcRequestContext \<Rightarrow>
   pystr \<times> OidcIdentity \<Rightarrow> (world, TokenResponse) act" where
  "finish_exchange S client R stored context prepared =
     (case prepared of (token, identity) \<Rightarrow>
        bindA (liftA (project_groups identity client)) (\<lambda>groups.
        bindA (utc_now_ms R) (\<lambda>now.
        bindA (liftA (issue_id_token (oids_id_tokens S) OIDC_ACCESS_TOKEN_TTL_SECONDS now
          \<lparr>oii_user_id = oi_user_id identity, oii_email = oi_email identity,
           oii_email_verified = oi_email_verified identity, oii_name = oi_name identity, oii_groups = groups\<rparr>
          (ocp_client_id client) (sac_nonce stored))) (\<lambda>id_token.
        bindA (oidc_create_audit R ''oidc_token'' ''success'' (Some (oi_user_id identity)) (ocp_client_id client)
                 None context None []) (\<lambda>_.
        retA \<lparr>trs_access_token = token, trs_expires_in = oids_access_token_ttl_seconds S,
              trs_id_token = id_token\<rparr>)))))"

definition exchange_code ::
  "OidcService \<Rightarrow> runtime \<Rightarrow> TokenExchangeInput \<Rightarrow> OidcRequestContext \<Rightarrow> (world, TokenResponse) act" where
  "exchange_code S R input context =
     (if tei_grant_type input \<noteq> lit ''authorization_code''
      then raiseA (oidc_error ''unsupported_grant_type'' ''Unsupported grant type'')
      else
        bindA (enforce_client_rate_limit S R (tei_client_id input)) (\<lambda>_.
        let found = registry_get (oids_clients S) (tei_client_id input);
            expected_hash = (case found of None \<Rightarrow> DUMMY_PASSWORD_HASH | Some c \<Rightarrow> ocp_client_secret_hash c);
            authenticated = check_password R expected_hash (tei_client_secret input) in
        case found of
          None \<Rightarrow> raiseA invalid_client
        | Some client \<Rightarrow>
            if \<not> authenticated then raiseA invalid_client
            else
              bindA (utc_now_ms R) (\<lambda>now.
              bindA (in_redis (oidc_code_consume (rt_env R) redis_ops now (tei_code input) (ocp_client_id client)))
                (\<lambda>consumed.
              case consumed of
                None \<Rightarrow> raiseA invalid_grant
              | Some stored \<Rightarrow>
                  bindA (liftA (grant_matches (rt_env R) client input stored)) (\<lambda>matches.
                  if \<not> matches
                  then bindA (audit_token_failure R (sac_user_id stored) (ocp_client_id client) context)
                         (\<lambda>_. raiseA invalid_grant)
                  else
                    bindA (begin_prepared (prepare_access_token client R stored context)
                             (finish_exchange S client R stored context)
                             (\<lambda>prepared. best_effort_revoke_access R (fst prepared))) (\<lambda>response.
                    case response of None \<Rightarrow> raiseA invalid_grant | Some r \<Rightarrow> retA r))))))"

section \<open>UserInfo\<close>

definition invalid_token :: exn where
  "invalid_token = OidcServiceError (lit ''invalid_token'') (lit ''Invalid access token'') 401 None None True"

definition userinfo :: "OidcService \<Rightarrow> runtime \<Rightarrow> pystr \<Rightarrow> (world, UserInfo) act" where
  "userinfo S R access_token =
     bindA (utc_now_ms R) (\<lambda>now.
     bindA (in_redis (oidc_access_token_get (rt_env R) redis_ops now access_token)) (\<lambda>found.
     case found of
       None \<Rightarrow> raiseA invalid_token
     | Some stored \<Rightarrow>
         (case registry_get (oids_clients S) (sat_client_id stored) of
            None \<Rightarrow> bindA (best_effort_revoke_access R access_token) (\<lambda>_. raiseA invalid_token)
          | Some client \<Rightarrow>
              in_begin
                (bindA (in_transaction (lock_user (sat_user_id stored))) (\<lambda>user.
                 case eligible_identity user client of
                   Inl denial \<Rightarrow> bindA (best_effort_revoke_access R access_token) (\<lambda>_. raiseA invalid_token)
                 | Inr identity \<Rightarrow>
                     bindA (liftA (project_groups identity client)) (\<lambda>groups.
                     retA \<lparr>ui_sub = oi_user_id identity, ui_email = oi_email identity, ui_name = oi_name identity,
                           ui_groups = groups\<rparr>))))))"

section \<open>The runtime of the OIDC application\<close>

definition OIDC_PATHS :: "pystr list" where
  "OIDC_PATHS = [lit ''/oauth2/authorize'', lit ''/oauth2/token'', lit ''/oauth2/userinfo'', lit ''/oauth2/login'']"

definition rate_category :: "pystr \<Rightarrow> pystr" where
  "rate_category path = (if path \<in> set OIDC_PATHS then path else lit ''/oauth2/other'')"

definition ip_rate_key :: "runtime \<Rightarrow> pystr \<Rightarrow> pystr \<Rightarrow> nat list" where
  "ip_rate_key R path address =
     lit ''wiseacct:oidc:rate:ip:'' @ hexdigest (ae_sha256 (rt_env R) (utf8_bytes (rate_category path @ [0] @ address)))"

definition rate_check :: "runtime \<Rightarrow> pystr \<Rightarrow> pystr \<Rightarrow> (world, bool) act" where
  "rate_check R path address =
     bindA (liftA (requireE (no_surrogate address) (ValueError (lit ''surrogates not allowed'')))) (\<lambda>_.
     bindA (in_redis (redis_increment_with_ttl (ip_rate_key R path address) 60)) (\<lambda>count.
     retA (count \<le> 60)))"

definition oidc_provider_config_for ::
  "OAuthSettings \<Rightarrow> (OAuthProvider \<Rightarrow> pystr option) \<Rightarrow> OAuthProvider \<Rightarrow> exn + OAuthProviderConfig" where
  "oidc_provider_config_for settings oidc_redirect_uri provider =
     (case oidc_redirect_uri provider of
        None \<Rightarrow> Inl OAuthProviderDisabledError
      | Some callback \<Rightarrow>
          bindE (provider_config_for settings provider) (\<lambda>config. Inr (config\<lparr>opc_redirect_uri := callback\<rparr>)))"

end
