(* ===== verification/Oidc_Flows.thy ===== *)
theory Oidc_Flows
  imports Oidc_Properties
begin

text \<open>
  The authorization code flow end to end, over the database and Redis together: who gets a code, what a
  token exchange has checked when it answers, and that an eligible user's exchange does answer.
\<close>

section \<open>Who is eligible\<close>

definition row_identity :: "db \<Rightarrow> UserRow \<Rightarrow> OidcIdentity" where
  "row_identity d x = \<lparr>oi_user_id = u_id x, oi_email = the (u_email x), oi_name = u_name x,
     oi_email_verified = True, oi_roles = roles_of d (u_id x)\<rparr>"

text \<open>The rows of the database say that the user may use the client: an active account with a verified
  address and a role assignment the client requires.\<close>

definition may_use :: "db \<Rightarrow> OidcClientPolicy \<Rightarrow> UserRow \<Rightarrow> bool" where
  "may_use d client x \<longleftrightarrow> x \<in> set (t_users d) \<and> u_status x = ACTIVE \<and> u_emailVerified x
     \<and> (\<exists>e. u_email x = Some e \<and> e \<noteq> [])
     \<and> (\<exists>l \<in> set (t_user_roles d). \<exists>r \<in> set (t_roles d). l_userId l = u_id x \<and> o_id r = l_roleId l
          \<and> \<lparr>orr_service_key = o_serviceKey r, orr_name = o_name r\<rparr> \<in> set (ocp_required_roles client))"

lemma in_roles_of: "q \<in> set (roles_of d i) \<longleftrightarrow>
    (\<exists>l \<in> set (t_user_roles d). \<exists>r \<in> set (t_roles d). l_userId l = i \<and> o_id r = l_roleId l
       \<and> q = \<lparr>role_service_key = o_serviceKey r, role_name = o_name r\<rparr>)"
  by (auto simp: roles_of_def)

lemma has_required_row: "has_required_role (row_identity d x) client \<longleftrightarrow>
    (\<exists>l \<in> set (t_user_roles d). \<exists>r \<in> set (t_roles d). l_userId l = u_id x \<and> o_id r = l_roleId l
       \<and> \<lparr>orr_service_key = o_serviceKey r, orr_name = o_name r\<rparr> \<in> set (ocp_required_roles client))"
  (is "?has = ?rows")
proof
  assume ?has
  then obtain q req where q: "q \<in> set (roles_of d (u_id x))" "req \<in> set (ocp_required_roles client)"
    "orr_service_key req = role_service_key q" "orr_name req = role_name q"
    by (auto simp: has_required_role_def row_identity_def Let_def)
  then obtain l r where lr: "l \<in> set (t_user_roles d)" "r \<in> set (t_roles d)" "l_userId l = u_id x" "o_id r = l_roleId l"
    "q = \<lparr>role_service_key = o_serviceKey r, role_name = o_name r\<rparr>" unfolding in_roles_of by blast
  with q have "req = \<lparr>orr_service_key = o_serviceKey r, orr_name = o_name r\<rparr>" by (cases req) simp
  with q(2) lr show ?rows by blast
next
  assume ?rows
  then obtain l r where lr: "l \<in> set (t_user_roles d)" "r \<in> set (t_roles d)" "l_userId l = u_id x" "o_id r = l_roleId l"
    and req: "\<lparr>orr_service_key = o_serviceKey r, orr_name = o_name r\<rparr> \<in> set (ocp_required_roles client)" by blast
  then have "\<lparr>role_service_key = o_serviceKey r, role_name = o_name r\<rparr> \<in> set (roles_of d (u_id x))"
    unfolding in_roles_of by blast
  with req show ?has by (force simp: has_required_role_def row_identity_def Let_def)
qed

lemma lock_user_run: "lock_user i d = Inr (map_option (\<lambda>u. with_roles u d) (find (\<lambda>u. u_id u = i) (t_users d)), d)"
  by (simp add: lock_user_def readT_def)

lemma eligible_identity_Inr:
  "eligible_identity (map_option (\<lambda>u. with_roles u d) (find (\<lambda>u. u_id u = i) (t_users d))) client = Inr identity \<longleftrightarrow>
     (\<exists>x. find (\<lambda>u. u_id u = i) (t_users d) = Some x \<and> may_use d client x \<and> identity = row_identity d x
        \<and> (\<exists>gs. project_groups identity client = Inr gs))"
proof (cases "find (\<lambda>u. u_id u = i) (t_users d)")
  case None
  then show ?thesis by (simp add: eligible_identity_def)
next
  case (Some x)
  let ?ok = "u_status x = ACTIVE \<and> u_emailVerified x \<and> (\<exists>e. u_email x = Some e \<and> e \<noteq> [])
    \<and> has_required_role (row_identity d x) client"
  have t: "truthy (u_email x) \<longleftrightarrow> (\<exists>e. u_email x = Some e \<and> e \<noteq> [])" by (cases "u_email x") (simp_all add: truthy_def)
  have "eligible_identity (Some (with_roles x d)) client = Inr identity \<longleftrightarrow>
      ?ok \<and> identity = row_identity d x \<and> (\<exists>gs. project_groups (row_identity d x) client = Inr gs)"
    by (cases "project_groups (row_identity d x) client")
      (auto simp: eligible_identity_def with_roles_def row_identity_def Let_def t)
  moreover have "?ok \<longleftrightarrow> may_use d client x"
    using find_Some_set [OF Some] by (simp add: may_use_def has_required_row)
  ultimately show ?thesis unfolding Some by auto
qed

lemma find_user_row:
  assumes "db_ok d" "x \<in> set (t_users d)"
  shows "find (\<lambda>u. u_id u = u_id x) (t_users d) = Some x"
proof -
  from assms(2) obtain y where y: "find (\<lambda>u. u_id u = u_id x) (t_users d) = Some y"
    by (cases "find (\<lambda>u. u_id u = u_id x) (t_users d)") (auto simp: find_None_set)
  from find_Some_set [OF y] db_ok_distinct(1) [OF assms(1)] assms(2) have "y = x"
    by (metis distinct_map_key_eq)
  with y show ?thesis by simp
qed

section \<open>Who gets an authorization code\<close>

lemma oidc_create_audit_Inr:
  "oidc_create_audit R et oc u c r cx pv dt w = (Inr x, w') \<Longrightarrow>
   w_redis w' = w_redis w \<and> (\<exists>row. w_db w' = (w_db w)\<lparr>t_audits := t_audits (w_db w) @ [row]\<rparr>
     \<and> a_eventType row = lit et \<and> a_outcome row = lit oc \<and> a_userId row = u \<and> a_reasonCode row = r)"
  by (auto simp: oidc_create_audit_def act_iffs audit_create_Inr oidc_audit_event_def)

definition same_access :: "db \<Rightarrow> db \<Rightarrow> bool" where
  "same_access d d' \<longleftrightarrow> t_users d' = t_users d \<and> t_roles d' = t_roles d \<and> t_user_roles d' = t_user_roles d"

lemma same_access_use: "same_access d d' \<Longrightarrow> may_use d' client x = may_use d client x"
  "same_access d d' \<Longrightarrow> row_identity d' x = row_identity d x"
  by (simp_all add: same_access_def may_use_def row_identity_def roles_of_def)

lemma mark_success_access: "store_mark_login_success i t d = Inr (u, d') \<Longrightarrow> same_access d d'"
  by (auto simp: store_mark_login_success_def bindT_Inr_iff update_creds_Inr require_one_def same_access_def retT_Inr_iff
      raiseT_Inr_iff split: if_splits)

lemma prepare_code_Inr:
  assumes "prepare_code client R uid tx cx rp pv w = (Inr (Some code), w')"
  shows "\<exists>x rnd n. may_use (w_db w) client x \<and> u_id x = uid
    \<and> oidc_code_create (rt_env R) redis_ops rnd (rt_clock R n)
        \<lparr>aci_client_id = ocp_client_id client, aci_redirect_uri = oat_redirect_uri tx, aci_user_id = uid,
         aci_scopes = oat_scopes tx, aci_nonce = oat_nonce tx, aci_code_challenge = oat_code_challenge tx,
         aci_code_challenge_method = oat_code_challenge_method tx\<rparr> (w_redis w) = (Inr code, w_redis w')
    \<and> same_access (w_db w) (w_db w')"
proof -
  obtain x u1 w1 rnd n w2 where
    x: "find (\<lambda>u. u_id u = uid) (t_users (w_db w)) = Some x" "may_use (w_db w) client x"
    and mark: "(if rp then bindA (utc_now_ms R) (\<lambda>now. in_transaction (store_mark_login_success uid now))
        else retA ()) (w\<lparr>w_db := w_db w\<rparr>) = (Inr u1, w1)"
    and made: "in_redis (oidc_code_create (rt_env R) redis_ops rnd (rt_clock R n)
        \<lparr>aci_client_id = ocp_client_id client, aci_redirect_uri = oat_redirect_uri tx, aci_user_id = uid,
         aci_scopes = oat_scopes tx, aci_nonce = oat_nonce tx, aci_code_challenge = oat_code_challenge tx,
         aci_code_challenge_method = oat_code_challenge_method tx\<rparr>) w2 = (Inr code, w')"
    and w2: "w_redis w2 = w_redis w1" "w_db w2 = w_db w1"
    using assms
    by (auto simp: prepare_code_def bindA_Inr_iff in_transaction_Inr lock_user_run eligible_identity_Inr
        random_block_iff utc_now_ms_Inr retA_Inr split: sum.splits)
  from mark have "w_redis w1 = w_redis w" and "same_access (w_db w) (w_db w1)"
    by (auto simp: act_iffs mark_success_access same_access_def split: if_splits dest!: mark_success_access)
  moreover from made w2 have "oidc_code_create (rt_env R) redis_ops rnd (rt_clock R n)
        \<lparr>aci_client_id = ocp_client_id client, aci_redirect_uri = oat_redirect_uri tx, aci_user_id = uid,
         aci_scopes = oat_scopes tx, aci_nonce = oat_nonce tx, aci_code_challenge = oat_code_challenge tx,
         aci_code_challenge_method = oat_code_challenge_method tx\<rparr> (w_redis w1) = (Inr code, w_redis w')"
    and "w_db w' = w_db w1"
    by (auto simp: in_redis_def split: prod.splits)
  ultimately show ?thesis using find_Some_set [OF x(1)] x(2) by auto
qed

text \<open>The parts of a completed login.\<close>

definition granted_input :: "pystr \<Rightarrow> OidcAuthorizationTransaction \<Rightarrow> OidcAuthorizationCodeCreateInput" where
  "granted_input uid tx =
     \<lparr>aci_client_id = oat_client_id tx, aci_redirect_uri = oat_redirect_uri tx, aci_user_id = uid,
      aci_scopes = oat_scopes tx, aci_nonce = oat_nonce tx, aci_code_challenge = oat_code_challenge tx,
      aci_code_challenge_method = oat_code_challenge_method tx\<rparr>"

lemma complete_authorization_Inr:
  assumes "complete_authorization S R uid tx cx meth rp pv w = (Inr url, w')"
  shows "\<exists>client x code n. registry_get (oids_clients S) (oat_client_id tx) = Some client
    \<and> may_use (w_db w) client x \<and> u_id x = uid
    \<and> oidc_url_with_query (oat_redirect_uri tx) (authorization_response code (oat_state tx)) = Inr url
    \<and> redis_view (w_redis w) (oidc_authorization_code_key (rt_env R) code) = None
    \<and> redis_view (w_redis w') = (redis_view (w_redis w))(oidc_authorization_code_key (rt_env R) code
        := Some (serialize_record (code_dict (granted_input uid tx) (rt_clock R n))))
    \<and> same_access (w_db w) (w_db w')"
proof -
  from assms obtain client code w1 w2 ex where
    client: "registry_get (oids_clients S) (oat_client_id tx) = Some client"
    and url: "oidc_url_with_query (oat_redirect_uri tx) (authorization_response code (oat_state tx)) = Inr url"
    and prep: "prepare_code client R uid tx cx rp pv w = (Inr (Some code), w1)"
    and audit: "oidc_create_audit R ''oidc_authorize'' ''success'' (Some uid) (ocp_client_id client)
      None cx pv [(lit ''loginMethod'', PStr (lit meth))] w1 = (Inr ex, w')"
    by (auto simp: complete_authorization_def oidc_client_def bindA_Inr_iff liftA_Inr retA_Inr raiseA_iff
        begin_prepared_Inr split: option.splits)
  from registry_get_Some [OF client] have cid: "ocp_client_id client = oat_client_id tx" by simp
  from prepare_code_Inr [OF prep] obtain x rnd n where x: "may_use (w_db w) client x" "u_id x = uid"
    and made: "oidc_code_create (rt_env R) redis_ops rnd (rt_clock R n) (granted_input uid tx) (w_redis w)
        = (Inr code, w_redis w1)"
    and kept: "same_access (w_db w) (w_db w1)"
    unfolding cid granted_input_def by blast
  have "w_redis w' = w_redis w1" "same_access (w_db w) (w_db w')"
    using oidc_create_audit_Inr [OF audit] kept by (auto simp: same_access_def)
  with redis_store.store_checked_stored [OF made [unfolded oidc_code_create_def]] client x url
  show ?thesis by (auto simp: OIDC_AUTHORIZATION_CODE_TTL_SECONDS_def)
qed

text \<open>C21. Who gets an authorization code. A login that completes, by password or through a provider, was for a
  registered client and for a user whose rows say so at that moment: an active account, a verified
  address, and a role assignment the client requires. The address the browser is sent to is the one the
  transaction was opened with, extended by a fresh code, and the record stored under that code, the only
  change to Redis, binds it to the client, the address, the user, and the scopes, nonce and challenge of
  the request.\<close>

theorem oidc_authorization_sound:
  assumes "complete_authorization S R uid tx cx meth rp pv w = (Inr url, w')"
  shows "\<exists>client x code now. registry_get (oids_clients S) (oat_client_id tx) = Some client
    \<and> u_id x = uid \<and> x \<in> set (t_users (w_db w)) \<and> u_status x = ACTIVE \<and> u_emailVerified x
    \<and> (\<exists>l \<in> set (t_user_roles (w_db w)). \<exists>r \<in> set (t_roles (w_db w)). l_userId l = uid \<and> o_id r = l_roleId l
         \<and> \<lparr>orr_service_key = o_serviceKey r, orr_name = o_name r\<rparr> \<in> set (ocp_required_roles client))
    \<and> oidc_url_with_query (oat_redirect_uri tx) (authorization_response code (oat_state tx)) = Inr url
    \<and> redis_view (w_redis w) (oidc_authorization_code_key (rt_env R) code) = None
    \<and> redis_view (w_redis w') = (redis_view (w_redis w))(oidc_authorization_code_key (rt_env R) code
        := Some (serialize_record (code_dict
             \<lparr>aci_client_id = oat_client_id tx, aci_redirect_uri = oat_redirect_uri tx, aci_user_id = uid,
              aci_scopes = oat_scopes tx, aci_nonce = oat_nonce tx, aci_code_challenge = oat_code_challenge tx,
              aci_code_challenge_method = oat_code_challenge_method tx\<rparr> now)))"
  using complete_authorization_Inr [OF assms] unfolding may_use_def granted_input_def by blast

section \<open>What a token exchange has checked\<close>

lemma rate_key_other:
  "oidc_authorization_code_key E code \<noteq> client_rate_limit_key R cid"
  "oidc_access_token_key E token \<noteq> client_rate_limit_key R cid"
  "oidc_authorization_code_key E code \<noteq> oidc_access_token_key E token"
  by (simp_all add: oidc_authorization_code_key_def oidc_access_token_key_def client_rate_limit_key_def
      OIDC_AUTHORIZATION_CODE_KEY_PREFIX_def OIDC_ACCESS_TOKEN_KEY_PREFIX_def lit_def)

lemma increment_keeps:
  "cmd_increment_with_ttl k ttl now m = (r, m') \<Longrightarrow> j \<noteq> k \<Longrightarrow> m' j = m j"
  by (auto simp: cmd_increment_with_ttl_def split: option.splits if_splits)

lemma increment_others:
  assumes "redis_increment_with_ttl k ttl s = (Inr n, s')"
  shows "(\<forall>j. j \<noteq> k \<longrightarrow> redis_view s' j = redis_view s j) \<and> (answering s \<longrightarrow> answering s') \<and> rd_now s' = rd_now s"
proof -
  from assms have "redis_execute (cmd_increment_with_ttl k ttl) s = (Inr n, s')"
    by (auto simp: redis_increment_with_ttl_def bindA_Inr_iff liftA_Inr)
  then obtain m where m: "cmd_increment_with_ttl k ttl (rd_now s) (rd_kv s) = (Some n, m)" and s': "rd_kv s' = m"
    "rd_now s' = rd_now s" "answering s \<longrightarrow> answering s'"
    by (auto simp: redis_execute_def answering_def Let_def split: if_splits fate.splits prod.splits option.splits)
  from s' increment_keeps [OF m] show ?thesis by (simp add: redis_view_def kv_get_def)
qed

lemma client_limit_Inr:
  assumes "enforce_client_rate_limit S R cid w = (Inr u, w1)"
  shows "\<exists>s. w1 = w\<lparr>w_redis := s\<rparr> \<and> (\<forall>k. k \<noteq> client_rate_limit_key R cid \<longrightarrow> redis_view s k = redis_view (w_redis w) k)
    \<and> (answering (w_redis w) \<longrightarrow> answering s) \<and> rd_now s = rd_now (w_redis w)"
proof (cases "oids_redis S")
  case False
  with assms show ?thesis by (intro exI [of _ "w_redis w"]) (auto simp: enforce_client_rate_limit_def retA_Inr)
next
  case True
  with assms obtain n s where "redis_increment_with_ttl (client_rate_limit_key R cid)
      (oids_rate_limit_window_seconds S) (w_redis w) = (Inr n, s)" "w1 = w\<lparr>w_redis := s\<rparr>"
    by (auto simp: enforce_client_rate_limit_def bindA_Inr_iff retA_Inr raiseA_iff in_redis_def
        split: prod.splits if_splits)
  with increment_others [OF this(1)] show ?thesis by blast
qed

text \<open>The proof key of the code: a verifier that hashes to the challenge, or neither of the two.\<close>

definition pkce_proved :: "auth_env \<Rightarrow> OidcClientPolicy \<Rightarrow> pystr option \<Rightarrow> pystr option \<Rightarrow> bool" where
  "pkce_proved E client challenge verifier \<longleftrightarrow> (case challenge of
     None \<Rightarrow> verifier = None \<and> \<not> ocp_require_pkce client
   | Some c \<Rightarrow> (\<exists>v. verifier = Some v \<and> PKCE_VALUE_fullmatch v \<and> base64url (ae_sha256 E v) = c))"

lemma grant_matches_True:
  "grant_matches E client i m = Inr True \<Longrightarrow> sac_redirect_uri m = tei_redirect_uri i
    \<and> pkce_proved E client (sac_code_challenge m) (tei_code_verifier i)"
  by (auto simp: grant_matches_def pkce_proved_def verify_pkce_def dest!: compare_digest_True
      split: if_splits option.splits)

lemma prepare_access_token_Inr:
  assumes "prepare_access_token client R stored cx w = (Inr (Some (token, identity)), w')"
  shows "\<exists>x rnd now. may_use (w_db w) client x \<and> u_id x = sac_user_id stored \<and> identity = row_identity (w_db w) x
    \<and> oidc_access_token_create (rt_env R) redis_ops rnd now
        \<lparr>oatci_client_id = ocp_client_id client, oatci_user_id = u_id x, oatci_scopes = sac_scopes stored\<rparr>
        (w_redis w) = (Inr token, w_redis w')
    \<and> w_db w' = w_db w"
proof -
  obtain x rnd now w1 where
    x: "find (\<lambda>u. u_id u = sac_user_id stored) (t_users (w_db w)) = Some x" "may_use (w_db w) client x"
    and i: "identity = row_identity (w_db w) x"
    and made: "in_redis (oidc_access_token_create (rt_env R) redis_ops rnd now
        \<lparr>oatci_client_id = ocp_client_id client, oatci_user_id = oi_user_id (row_identity (w_db w) x),
         oatci_scopes = sac_scopes stored\<rparr>) w1 = (Inr token, w')"
    and w1: "w_redis w1 = w_redis w" "w_db w1 = w_db w"
    using assms
    by (auto simp: prepare_access_token_def bindA_Inr_iff in_transaction_Inr lock_user_run eligible_identity_Inr
        random_block_iff utc_now_ms_Inr retA_Inr split: sum.splits)
  have "oi_user_id (row_identity (w_db w) x) = u_id x" by (simp add: row_identity_def)
  with find_Some_set [OF x(1)] x(2) i made w1 show ?thesis
    by (fastforce simp: in_redis_def split: prod.splits)
qed

lemma judged_code_Accept: "judge_code now client m = Inr Accept \<longleftrightarrow>
    now < sac_expires_at_epoch_ms m \<and> sac_client_id m = client \<and> all_ascii client"
  by (auto simp: judge_code_def compare_digest_def)

lemma finish_exchange_Inr:
  assumes "finish_exchange S client R m cx (token, identity) w = (Inr response, w')"
  shows "trs_access_token response = token \<and> w_redis w' = w_redis w \<and> (\<exists>gs issued. project_groups identity client = Inr gs
    \<and> trs_id_token response = tc_encode (oids_id_tokens S) RS256
        (id_token_payload (tc_issuer (oids_id_tokens S)) OIDC_ACCESS_TOKEN_TTL_SECONDS issued
          \<lparr>oii_user_id = oi_user_id identity, oii_email = oi_email identity,
           oii_email_verified = oi_email_verified identity, oii_name = oi_name identity, oii_groups = gs\<rparr>
          (ocp_client_id client) (sac_nonce m)))"
  using assms
  by (fastforce simp: finish_exchange_def bindA_Inr_iff liftA_Inr utc_now_ms_Inr retA_Inr issue_id_token_def
      bindE_Inr_iff dest: oidc_create_audit_Inr)

lemma exchange_code_Inr:
  assumes "exchange_code S R input cx w = (Inr response, w')"
  defines "E \<equiv> rt_env R"
  shows "\<exists>client raw m x created rnd s2 w3.
      registry_get (oids_clients S) (tei_client_id input) = Some client
    \<and> check_password R (ocp_client_secret_hash client) (tei_client_secret input)
    \<and> redis_view (w_redis w) (oidc_authorization_code_key E (tei_code input)) = Some raw
    \<and> code_record E raw = Inr (Some m)
    \<and> redis_view (s2) (oidc_authorization_code_key E (tei_code input)) = None
    \<and> rt_clock R (w_ticks w) < sac_expires_at_epoch_ms m \<and> sac_client_id m = tei_client_id input
    \<and> grant_matches E client input m = Inr True
    \<and> may_use (w_db w) client x \<and> u_id x = sac_user_id m
    \<and> oidc_access_token_create E redis_ops rnd created
        \<lparr>oatci_client_id = tei_client_id input, oatci_user_id = u_id x, oatci_scopes = sac_scopes m\<rparr>
        (s2) = (Inr (trs_access_token response), w_redis w3)
    \<and> finish_exchange S client R m cx (trs_access_token response, row_identity (w_db w) x) w3 = (Inr response, w')"
proof -
  from assms(1) obtain client w1 u0 m w2 where
    limit: "enforce_client_rate_limit S R (tei_client_id input) w = (Inr u0, w1)"
    and client: "registry_get (oids_clients S) (tei_client_id input) = Some client"
    and secret: "check_password R (ocp_client_secret_hash client) (tei_client_secret input)"
    and code: "in_redis (oidc_code_consume E redis_ops (rt_clock R (w_ticks w1)) (tei_code input) (ocp_client_id client))
        (w1\<lparr>w_ticks := w_ticks w1 + 1\<rparr>) = (Inr (Some m), w2)"
    and match: "grant_matches E client input m = Inr True"
    and prep: "begin_prepared (prepare_access_token client R m cx) (finish_exchange S client R m cx)
        (\<lambda>prepared. best_effort_revoke_access R (fst prepared)) w2 = (Inr (Some response), w')"
    by (auto simp: exchange_code_def E_def Let_def bindA_Inr_iff utc_now_ms_Inr liftA_Inr raiseA_iff retA_Inr
        split: option.splits if_splits)
  from registry_get_Some [OF client] have cid: "ocp_client_id client = tei_client_id input" by simp
  from client_limit_Inr [OF limit] obtain s where w1: "w1 = w\<lparr>w_redis := s\<rparr>"
    and view1: "redis_view s (oidc_authorization_code_key E (tei_code input))
      = redis_view (w_redis w) (oidc_authorization_code_key E (tei_code input))"
    using rate_key_other by blast
  from code have w2: "w_db w2 = w_db w" and consumed: "consume_record redis_ops (oidc_authorization_code_key E (tei_code input))
      (code_record E) (judge_code (rt_clock R (w_ticks w)) (tei_client_id input)) s = (Inr (Some m), w_redis w2)"
    by (auto simp: in_redis_def w1 cid oidc_code_consume_def split: prod.splits)
  from redis_store.consume_record_Some [OF consumed] obtain raw where
    raw: "redis_view (w_redis w) (oidc_authorization_code_key E (tei_code input)) = Some raw" "code_record E raw = Inr (Some m)"
    and judged: "rt_clock R (w_ticks w) < sac_expires_at_epoch_ms m" "sac_client_id m = tei_client_id input"
    and gone: "redis_view (w_redis w2) (oidc_authorization_code_key E (tei_code input)) = None"
    unfolding judged_code_Accept view1 by auto
  from prep obtain token identity w3 where
    p: "prepare_access_token client R m cx w2 = (Inr (Some (token, identity)), w3)"
    and f: "finish_exchange S client R m cx (token, identity) w3 = (Inr response, w')"
    unfolding begin_prepared_Inr by auto
  from prepare_access_token_Inr [OF p] obtain x rnd created where
    x: "may_use (w_db w) client x" "u_id x = sac_user_id m" "identity = row_identity (w_db w) x"
    and made: "oidc_access_token_create E redis_ops rnd created
        \<lparr>oatci_client_id = tei_client_id input, oatci_user_id = u_id x, oatci_scopes = sac_scopes m\<rparr>
        (w_redis w2) = (Inr token, w_redis w3)"
    unfolding w2 cid E_def by blast
  from f have tok: "trs_access_token response = token" using finish_exchange_Inr by blast
  from client secret raw gone judged match x made f show ?thesis unfolding tok x(3)
    by - (rule exI [of _ client], rule exI [of _ raw], rule exI [of _ m], rule exI [of _ x], rule exI [of _ created],
      rule exI [of _ rnd], rule exI [of _ "w_redis w2"], rule exI [of _ w3], intro conjI)
qed

text \<open>What a token response stands for. When the token endpoint answers with tokens, the client is
  registered and proved its secret; the code was stored in Redis, unexpired, issued to this client for
  this address, and is gone; its proof key, if it had one, was shown, and a client that must use one did;
  the user it was issued for may use the client at this moment; the ID token is the signature over that
  user's claims, with the client as its audience, the nonce of the request and the groups the client may
  see; and the access token is stored for exactly this client, user and scopes.\<close>

theorem oidc_exchange_sound:
  assumes "exchange_code S R input cx w = (Inr response, w')"
  defines "E \<equiv> rt_env R"
  shows "\<exists>client raw m x gs issued created.
      registry_get (oids_clients S) (tei_client_id input) = Some client
    \<and> check_password R (ocp_client_secret_hash client) (tei_client_secret input)
    \<and> redis_view (w_redis w) (oidc_authorization_code_key E (tei_code input)) = Some raw
    \<and> code_record E raw = Inr (Some m)
    \<and> redis_view (w_redis w') (oidc_authorization_code_key E (tei_code input)) = None
    \<and> rt_clock R (w_ticks w) < sac_expires_at_epoch_ms m
    \<and> sac_client_id m = tei_client_id input \<and> sac_redirect_uri m = tei_redirect_uri input
    \<and> pkce_proved E client (sac_code_challenge m) (tei_code_verifier input)
    \<and> may_use (w_db w) client x \<and> u_id x = sac_user_id m
    \<and> project_groups (row_identity (w_db w) x) client = Inr gs
    \<and> trs_id_token response = tc_encode (oids_id_tokens S) RS256
        (id_token_payload (tc_issuer (oids_id_tokens S)) OIDC_ACCESS_TOKEN_TTL_SECONDS issued
          \<lparr>oii_user_id = u_id x, oii_email = the (u_email x), oii_email_verified = True, oii_name = u_name x,
           oii_groups = gs\<rparr> (tei_client_id input) (sac_nonce m))
    \<and> redis_view (w_redis w') (oidc_access_token_key E (trs_access_token response))
        = Some (serialize_record (access_token_dict
            \<lparr>oatci_client_id = tei_client_id input, oatci_user_id = u_id x, oatci_scopes = sac_scopes m\<rparr>
            (created + OIDC_ACCESS_TOKEN_TTL_SECONDS * 1000)))"
proof -
  from exchange_code_Inr [OF assms(1), folded E_def] obtain client raw m x created rnd s2 w3 where
    client: "registry_get (oids_clients S) (tei_client_id input) = Some client"
    and parts: "check_password R (ocp_client_secret_hash client) (tei_client_secret input)"
      "redis_view (w_redis w) (oidc_authorization_code_key E (tei_code input)) = Some raw" "code_record E raw = Inr (Some m)"
      "rt_clock R (w_ticks w) < sac_expires_at_epoch_ms m" "sac_client_id m = tei_client_id input"
      "may_use (w_db w) client x" "u_id x = sac_user_id m"
    and gone: "redis_view s2 (oidc_authorization_code_key E (tei_code input)) = None"
    and match: "grant_matches E client input m = Inr True"
    and made: "oidc_access_token_create E redis_ops rnd created
        \<lparr>oatci_client_id = tei_client_id input, oatci_user_id = u_id x, oatci_scopes = sac_scopes m\<rparr>
        s2 = (Inr (trs_access_token response), w_redis w3)"
    and f: "finish_exchange S client R m cx (trs_access_token response, row_identity (w_db w) x) w3 = (Inr response, w')"
    by (elim exE conjE) (rule that)
  from registry_get_Some [OF client] have cid: "ocp_client_id client = tei_client_id input" by simp
  let ?i = "row_identity (w_db w) x"
  from finish_exchange_Inr [OF f] obtain gs issued where gs: "project_groups ?i client = Inr gs"
    and redis: "w_redis w' = w_redis w3"
    and response: "trs_id_token response = tc_encode (oids_id_tokens S) RS256
        (id_token_payload (tc_issuer (oids_id_tokens S)) OIDC_ACCESS_TOKEN_TTL_SECONDS issued
          \<lparr>oii_user_id = oi_user_id ?i, oii_email = oi_email ?i,
           oii_email_verified = oi_email_verified ?i, oii_name = oi_name ?i, oii_groups = gs\<rparr>
          (ocp_client_id client) (sac_nonce m))" by blast
  have "redis_view (w_redis w') = (redis_view s2)(oidc_access_token_key E (trs_access_token response)
      := Some (serialize_record (access_token_dict
            \<lparr>oatci_client_id = tei_client_id input, oatci_user_id = u_id x, oatci_scopes = sac_scopes m\<rparr>
            (created + OIDC_ACCESS_TOKEN_TTL_SECONDS * 1000))))"
    using redis_store.store_checked_stored [OF made [unfolded oidc_access_token_create_def]]
    unfolding redis by (simp add: OIDC_ACCESS_TOKEN_TTL_SECONDS_def)
  with gone have views: "redis_view (w_redis w') (oidc_authorization_code_key E (tei_code input)) = None"
    "redis_view (w_redis w') (oidc_access_token_key E (trs_access_token response))
        = Some (serialize_record (access_token_dict
            \<lparr>oatci_client_id = tei_client_id input, oatci_user_id = u_id x, oatci_scopes = sac_scopes m\<rparr>
            (created + OIDC_ACCESS_TOKEN_TTL_SECONDS * 1000)))"
    using rate_key_other(3) by simp_all
  have i: "oi_user_id ?i = u_id x" "oi_email ?i = the (u_email x)" "oi_email_verified ?i = True"
    "oi_name ?i = u_name x" by (simp_all add: row_identity_def)
  note response = response [unfolded i cid]
  show ?thesis
    by (rule exI [of _ client], rule exI [of _ raw], rule exI [of _ m], rule exI [of _ x], rule exI [of _ gs],
      rule exI [of _ issued], rule exI [of _ created])
      (simp only: client parts views grant_matches_True [OF match] gs response simp_thms)
qed

section \<open>An eligible user's exchange succeeds\<close>

lemma oidc_create_audit_ok:
  assumes "rt_uuid R (w_ids w) \<notin> a_id ` set (t_audits (w_db w))" "user_exists (w_db w) u"
  shows "\<exists>w'. oidc_create_audit R et oc (Some u) c r cx pv dt w = (Inr (), w')"
proof -
  let ?ev = "oidc_audit_event (rt_uuid R (w_ids w)) (rt_clock R (w_ticks w)) et oc (Some u) c r cx pv dt"
  have "\<exists>d. audit_create ?ev (w_db w) = Inr ((), d)"
    using assms by (force simp: audit_create_Inr oidc_audit_event_def taken_def audit_keys_def audit_refs_def user_ref_def)
  then obtain d where "audit_create ?ev (w_db w) = Inr ((), d)" by blast
  then show ?thesis
    by (simp add: oidc_create_audit_def seq_simps application_uuids_def utc_now_ms_def)
qed

lemma grant_matches_ok:
  assumes "sha256_ok E" "sac_redirect_uri m = tei_redirect_uri i"
    "pkce_proved E client (sac_code_challenge m) (tei_code_verifier i)"
  shows "grant_matches E client i m = Inr True"
proof -
  have "all_ascii (base64url (ae_sha256 E v))" for v
    using assms(1) base64url_opaque [of "ae_sha256 E v"] opaque_ascii by (auto simp: sha256_ok_def all_ascii_def)
  with assms(2,3) show ?thesis
    by (auto simp: grant_matches_def pkce_proved_def verify_pkce_def compare_digest_def split: option.splits)
qed

lemma prepare_access_token_ok:
  assumes "answering (w_redis w)" "db_ok (w_db w)" "may_use (w_db w) client x" "u_id x = sac_user_id m"
    and "project_groups (row_identity (w_db w) x) client = Inr gs"
    and "length (rt_random R (w_draws w)) = 32" "clock_ok (rt_clock R (w_ticks w))"
    and "redis_view (w_redis w) (oidc_access_token_key (rt_env R) (base64url (rt_random R (w_draws w)))) = None"
    and "text_ok (ocp_client_id client)" "text_ok (u_id x)" "scopes_ok (sac_scopes m)"
  shows "\<exists>w'. prepare_access_token client R m cx w
      = (Inr (Some (base64url (rt_random R (w_draws w)), row_identity (w_db w) x)), w')
    \<and> w_db w' = w_db w \<and> w_ids w' = w_ids w \<and> w_ticks w' = w_ticks w + 1"
proof -
  let ?token = "base64url (rt_random R (w_draws w))" and ?now = "rt_clock R (w_ticks w)"
  let ?i = "\<lparr>oatci_client_id = ocp_client_id client, oatci_user_id = u_id x, oatci_scopes = sac_scopes m\<rparr>"
  have row: "find (\<lambda>u. u_id u = u_id x) (t_users (w_db w)) = Some x"
    using assms(2,3) by (intro find_user_row) (simp_all add: may_use_def)
  have eligible: "eligible_identity (Some (with_roles x (w_db w))) client = Inr (row_identity (w_db w) x)"
    using eligible_identity_Inr [where i = "u_id x" and d = "w_db w" and client = client and identity = "row_identity (w_db w) x"] row assms(3,5) by simp
  have drawn: "random_base64url (rt_random R (w_draws w)) = Inr ?token" using assms(6) by (simp add: random_base64url_def)
  have "oidc_access_token_create (rt_env R) redis_ops (\<lambda>j. rt_random R (w_draws w + j)) ?now ?i (w_redis w)
    = (Inr ?token, (w_redis w)\<lparr>rd_issued := rd_issued (w_redis w) + 1, rd_kv := (rd_kv (w_redis w))
        (oidc_access_token_key (rt_env R) ?token := Some (serialize_record (access_token_dict ?i
          (?now + OIDC_ACCESS_TOKEN_TTL_SECONDS * 1000)),
          Some (rd_now (w_redis w) + OIDC_ACCESS_TOKEN_TTL_SECONDS * 1000)))\<rparr>)"
    unfolding oidc_access_token_create_def
    using access_token_roundtrip_record [of ?i ?now "rt_env R"] assms(1,7-11) drawn
    by (intro answered_store_checked) (simp_all add: OIDC_ACCESS_TOKEN_TTL_SECONDS_def)
  moreover have "oi_user_id (row_identity (w_db w) x) = u_id x" by (simp add: row_identity_def)
  ultimately show ?thesis
    using row eligible assms(4)
    by (simp add: prepare_access_token_def seq_simps in_transaction_simps lock_user_run random_block_def
        utc_now_ms_def in_redis_def)
qed

lemma no_empty_group: "project_groups identity client = Inr gs \<Longrightarrow> [] \<notin> set gs"
  by (auto simp: project_groups_Inr projected_roles_Inr role_group_def)

lemma finish_exchange_ok:
  assumes "project_groups identity client = Inr gs" "oi_email_verified identity" "oi_user_id identity \<noteq> []"
    and "oi_email identity \<noteq> []" "ocp_client_id client \<noteq> []" "oi_name identity \<noteq> Some []" "sac_nonce m \<noteq> Some []"
    and "rt_uuid R (w_ids w) \<notin> a_id ` set (t_audits (w_db w))" "user_exists (w_db w) (oi_user_id identity)"
  shows "\<exists>w'. finish_exchange S client R m cx (token, identity) w =
    (Inr \<lparr>trs_access_token = token, trs_expires_in = oids_access_token_ttl_seconds S,
      trs_id_token = tc_encode (oids_id_tokens S) RS256
        (id_token_payload (tc_issuer (oids_id_tokens S)) OIDC_ACCESS_TOKEN_TTL_SECONDS (rt_clock R (w_ticks w))
          \<lparr>oii_user_id = oi_user_id identity, oii_email = oi_email identity, oii_email_verified = True,
           oii_name = oi_name identity, oii_groups = gs\<rparr> (ocp_client_id client) (sac_nonce m))\<rparr>, w')"
proof -
  obtain w' where "oidc_create_audit R ''oidc_token'' ''success'' (Some (oi_user_id identity)) (ocp_client_id client)
      None cx None [] (w\<lparr>w_ticks := w_ticks w + 1\<rparr>) = (Inr (), w')"
    using oidc_create_audit_ok [where w = "w\<lparr>w_ticks := w_ticks w + 1\<rparr>" and R = R and u = "oi_user_id identity"] assms(8,9)
    by (fastforce simp del: Suc_eq_plus1)
  then show ?thesis
    using assms no_empty_group [OF assms(1)]
    by (simp add: finish_exchange_def seq_simps utc_now_ms_def issue_id_token_def)
qed

lemma exchange_code_answers:
  assumes redis: "answering (w_redis w)"
    and limit: "fst (enforce_client_rate_limit S R (tei_client_id input) w) = Inr ()"
    and grant: "tei_grant_type input = lit ''authorization_code''"
    and client: "registry_get (oids_clients S) (tei_client_id input) = Some client"
    and secret: "check_password R (ocp_client_secret_hash client) (tei_client_secret input)"
    and stored: "redis_view (w_redis w) (oidc_authorization_code_key (rt_env R) (tei_code input))
        = Some (serialize_record (code_dict i issued))"
    and ok: "code_input_ok i" "clock_ok issued" "sha256_ok (rt_env R)" "all_ascii (tei_client_id input)"
    and bound: "aci_client_id i = tei_client_id input" "aci_redirect_uri i = tei_redirect_uri input"
      "pkce_proved (rt_env R) client (aci_code_challenge i) (tei_code_verifier input)"
    and time: "rt_clock R (w_ticks w) < issued + 60000" "clock_ok (rt_clock R (w_ticks w + 1))"
    and user: "db_ok (w_db w)" "may_use (w_db w) client x" "u_id x = aci_user_id i" "u_name x \<noteq> Some []"
    and groups: "project_groups (row_identity (w_db w) x) client = Inr gs"
    and fresh: "length (rt_random R (w_draws w)) = 32"
      "redis_view (w_redis w) (oidc_access_token_key (rt_env R) (base64url (rt_random R (w_draws w)))) = None"
      "rt_uuid R (w_ids w) \<notin> a_id ` set (t_audits (w_db w))"
  shows "fst (exchange_code S R input cx w) = Inr
    \<lparr>trs_access_token = base64url (rt_random R (w_draws w)), trs_expires_in = oids_access_token_ttl_seconds S,
     trs_id_token = tc_encode (oids_id_tokens S) RS256
       (id_token_payload (tc_issuer (oids_id_tokens S)) OIDC_ACCESS_TOKEN_TTL_SECONDS (rt_clock R (w_ticks w + 2))
         \<lparr>oii_user_id = u_id x, oii_email = the (u_email x), oii_email_verified = True, oii_name = u_name x,
          oii_groups = gs\<rparr> (tei_client_id input) (aci_nonce i))\<rparr>"
proof -
  let ?E = "rt_env R" and ?k = "oidc_authorization_code_key (rt_env R) (tei_code input)" and ?m = "stored_code i issued"
  let ?token = "base64url (rt_random R (w_draws w))"
  from registry_get_Some [OF client] have cid: "ocp_client_id client = tei_client_id input" by simp
  have m: "sac_redirect_uri ?m = aci_redirect_uri i" "sac_code_challenge ?m = aci_code_challenge i"
    "sac_user_id ?m = aci_user_id i" "sac_scopes ?m = aci_scopes i" "sac_nonce ?m = aci_nonce i"
    "sac_client_id ?m = aci_client_id i" "sac_expires_at_epoch_ms ?m = issued + 60000" by (simp_all add: stored_code_def)
  from limit obtain w1 where passed: "enforce_client_rate_limit S R (tei_client_id input) w = (Inr (), w1)"
    by (cases "enforce_client_rate_limit S R (tei_client_id input) w") simp
  from client_limit_Inr [OF passed] redis obtain s where w1: "w1 = w\<lparr>w_redis := s\<rparr>" and s: "answering s"
    and others: "\<And>k. k \<noteq> client_rate_limit_key R (tei_client_id input) \<Longrightarrow> redis_view s k = redis_view (w_redis w) k"
    by auto
  have view: "redis_view s ?k = redis_view (w_redis w) ?k"
      "redis_view s (oidc_access_token_key ?E ?token) = redis_view (w_redis w) (oidc_access_token_key ?E ?token)"
    by (simp_all add: others rate_key_other)
  let ?s = "s\<lparr>rd_issued := rd_issued s + 2, rd_kv := (rd_kv s)(?k := None)\<rparr>"
  let ?w = "w\<lparr>w_ticks := w_ticks w + 1, w_redis := ?s\<rparr>"
  have "consume_record redis_ops ?k (code_record ?E) (judge_code (rt_clock R (w_ticks w)) (tei_client_id input)) s
      = (Inr (Some ?m), ?s)"
    by (rule answered_consume_record(2) [where parse = "code_record ?E", OF s view(1) [unfolded stored] code_roundtrip [OF ok(1,2)]])
      (use m bound time ok(4) in \<open>simp add: judged_code_Accept\<close>)
  then have consumed: "oidc_code_consume ?E redis_ops (rt_clock R (w_ticks w)) (tei_code input) (tei_client_id input) s
      = (Inr (Some ?m), ?s)" by (simp add: oidc_code_consume_def)
  have matches: "grant_matches ?E client input ?m = Inr True"
    using grant_matches_ok [OF ok(3)] m bound by simp
  have texts: "text_ok (aci_client_id i)" "text_ok (aci_user_id i)" "scopes_ok (aci_scopes i)" "aci_nonce i \<noteq> Some []"
    using ok(1) by (auto simp: code_input_ok_def optional_ok_def)
  have "redis_view ?s (oidc_access_token_key ?E ?token) = None"
    using view(2) fresh(2) rate_key_other(3) [of ?E "tei_code input" ?token] by (simp add: redis_view_def kv_get_def)
  then have "\<exists>w2. prepare_access_token client R ?m cx ?w = (Inr (Some (?token, row_identity (w_db w) x)), w2)
      \<and> w_db w2 = w_db w \<and> w_ids w2 = w_ids w \<and> w_ticks w2 = w_ticks w + 2"
    using prepare_access_token_ok [of ?w client x ?m gs R cx] user groups fresh(1) time texts m s bound cid
    by simp
  then obtain w2 where prep: "prepare_access_token client R ?m cx ?w = (Inr (Some (?token, row_identity (w_db w) x)), w2)"
    and w2: "w_db w2 = w_db w" "w_ids w2 = w_ids w" "w_ticks w2 = w_ticks w + 2" by blast
  have i: "oi_user_id (row_identity (w_db w) x) = u_id x" "oi_email (row_identity (w_db w) x) = the (u_email x)"
    "oi_email_verified (row_identity (w_db w) x)" "oi_name (row_identity (w_db w) x) = u_name x"
    by (simp_all add: row_identity_def)
  have "u_id x \<noteq> []" "tei_client_id input \<noteq> []" using texts user(3) bound by (auto simp: text_ok_def)
  moreover have "the (u_email x) \<noteq> []" "user_exists (w_db w) (u_id x)"
    using user(2) by (auto simp: may_use_def user_exists_def)
  ultimately obtain w3 where finish: "finish_exchange S client R ?m cx (?token, row_identity (w_db w) x) w2 =
      (Inr \<lparr>trs_access_token = ?token, trs_expires_in = oids_access_token_ttl_seconds S,
        trs_id_token = tc_encode (oids_id_tokens S) RS256
          (id_token_payload (tc_issuer (oids_id_tokens S)) OIDC_ACCESS_TOKEN_TTL_SECONDS (rt_clock R (w_ticks w2))
            \<lparr>oii_user_id = u_id x, oii_email = the (u_email x), oii_email_verified = True, oii_name = u_name x,
             oii_groups = gs\<rparr> (tei_client_id input) (aci_nonce i))\<rparr>, w3)"
    using finish_exchange_ok [of "row_identity (w_db w) x" client gs ?m R w2 S cx ?token] groups w2(1,2) i cid m fresh
      user(4) texts(4) by auto
  show ?thesis
    using grant client secret passed consumed matches prep finish w2(3) cid
    by (simp add: exchange_code_def seq_simps utc_now_ms_def in_redis_def w1 begin_prepared_def in_begin_def)
qed

lemma keepsA_complete: "oidc_kept I \<Longrightarrow> keepsA I (complete_authorization S R u tx cx lm rp pv)"
  unfolding complete_authorization_def prepare_code_def
  by (intro keepsA_intros keepsT_reads) (auto simp: oidc_kept_def)


section \<open>A sample flow\<close>

definition sample_oidc_db :: db where
  "sample_oidc_db = sample_admin_db\<lparr>
     t_users := [sample_user, sample_user\<lparr>u_id := lit ''a1'', u_email := Some (lit ''o@b.co'')\<rparr>]\<rparr>"

definition sample_oidc_user :: UserRow where
  "sample_oidc_user = sample_user\<lparr>u_id := lit ''a1'', u_email := Some (lit ''o@b.co'')\<rparr>"

definition open_client :: OidcClientPolicy where
  "open_client = sample_oidc_client\<lparr>ocp_require_pkce := False\<rparr>"

definition sample_oidc_service :: OidcService where
  "sample_oidc_service = \<lparr>oids_clients = [open_client], oids_id_tokens = sample_codec,
     oids_provider_config = None, oids_oauth_client = None, oids_redis = False,
     oids_rate_limit_window_seconds = 60, oids_rate_limit_max_requests = 20, oids_access_token_ttl_seconds = 300\<rparr>"

definition sample_oidc_context :: OidcRequestContext where
  "sample_oidc_context = \<lparr>orc_ip_address = None, orc_user_agent = None\<rparr>"

definition sample_oidc_world :: "redis \<Rightarrow> world" where
  "sample_oidc_world s = (sample_services sample_oidc_db)\<lparr>w_redis := s\<rparr>"

definition sample_exchange_input :: TokenExchangeInput where
  "sample_exchange_input = \<lparr>tei_client_id = lit ''wiki'', tei_client_secret = lit ''secret'',
     tei_grant_type = lit ''authorization_code'', tei_code = sample_code,
     tei_redirect_uri = lit ''https://w.co/cb?x=1'', tei_code_verifier = None\<rparr>"

lemma sample_oidc_db_ok: "db_ok sample_oidc_db"
  by (simp add: db_ok_def keys_ok_def refs_ok_def sample_defs sample_admin_db_def sample_oidc_db_def empty_db_def
      uniq_all_def uniq_def key_defs user_exists_def role_exists_def lit_def)

lemma sample_may_use: "may_use sample_oidc_db open_client sample_oidc_user"
  by (simp add: may_use_def sample_oidc_db_def sample_oidc_user_def sample_admin_db_def sample_user_def open_client_def
      sample_oidc_client_def lit_def)

lemma sample_world_fields [simp]:
  "w_db (sample_oidc_world s) = sample_oidc_db" "w_redis (sample_oidc_world s) = s"
  "w_ticks (sample_oidc_world s) = 0" "w_ids (sample_oidc_world s) = 0" "w_draws (sample_oidc_world s) = 0"
  by (simp_all add: sample_oidc_world_def sample_services_def)

lemma sample_runtime_fields [simp]:
  "rt_env sample_runtime = sample_env" "rt_clock sample_runtime = (\<lambda>_. 50)"
  "rt_random sample_runtime = (\<lambda>_. replicate 32 5)" "rt_uuid sample_runtime = (\<lambda>i. lit ''id'' @ nat_digits i)"
  by (simp_all add: sample_runtime_def)

lemma sample_groups: "project_groups (row_identity sample_oidc_db sample_oidc_user) open_client = Inr [lit ''temis:admin'']"
  by code_simp

lemma sample_client_found: "registry_get (oids_clients sample_oidc_service) (lit ''wiki'') = Some open_client"
  by (simp add: registry_get_def sample_oidc_service_def open_client_def sample_oidc_client_def)

lemma sample_secret: "check_password sample_runtime (ocp_client_secret_hash open_client) (lit ''secret'')"
  by code_simp

definition sample_bound :: OidcAuthorizationTransaction where
  "sample_bound = stored_transaction sample_env sample_transaction_input 50"

definition sample_granted :: redis where
  "sample_granted = sample_redis\<lparr>rd_issued := 1, rd_kv := (rd_kv sample_redis)
     (oidc_authorization_code_key sample_env sample_code
       := Some (serialize_record (code_dict (granted_input (lit ''a1'') sample_bound) 50), Some 60000))\<rparr>"

lemma sample_bound_fields:
  "oat_client_id sample_bound = lit ''wiki''" "oat_redirect_uri sample_bound = lit ''https://w.co/cb?x=1''"
  "oat_scopes sample_bound = [lit ''openid'']" "oat_state sample_bound = Some (lit ''s'')"
  "oat_nonce sample_bound = Some (lit ''n'')" "oat_code_challenge sample_bound = None"
  "oat_code_challenge_method sample_bound = None"
  by (simp_all add: sample_bound_def stored_transaction_def sample_transaction_input_def)

lemma sample_granted_ok: "code_input_ok (granted_input (lit ''a1'') sample_bound)" "clock_ok 50"
  by (simp_all add: granted_input_def sample_bound_fields code_input_ok_def text_ok_def scopes_ok_def pkce_ok_def
      optional_ok_def str_ok_lit clock_ok_def)

lemma sample_redis_fields [simp]: "rd_now sample_redis = 0" "rd_issued sample_redis = 0"
  by (simp_all add: sample_redis_def)

lemma sample_code_granted:
  "oidc_code_create sample_env redis_ops (\<lambda>j. replicate 32 5) 50 (granted_input (lit ''a1'') sample_bound) sample_redis
   = (Inr sample_code, sample_granted)"
  unfolding oidc_code_create_def
  by (subst answered_store_checked [where token = sample_code and m = "stored_code (granted_input (lit ''a1'') sample_bound) 50"])
    (simp_all add: code_roundtrip [OF sample_granted_ok] sample_code_drawn OIDC_AUTHORIZATION_CODE_TTL_SECONDS_def
      sample_granted_def)

lemma sample_prepared:
  "prepare_code open_client sample_runtime (lit ''a1'') sample_bound sample_oidc_context False None (sample_oidc_world sample_redis)
   = (Inr (Some sample_code), sample_oidc_world sample_redis\<lparr>w_draws := ID_BLOCK, w_ticks := 1, w_redis := sample_granted\<rparr>)"
proof -
  have row: "find (\<lambda>u. u_id u = lit ''a1'') (t_users sample_oidc_db) = Some sample_oidc_user"
    by (simp add: sample_oidc_db_def sample_oidc_user_def sample_user_def)
  have "eligible_identity (Some (with_roles sample_oidc_user sample_oidc_db)) open_client
      = Inr (row_identity sample_oidc_db sample_oidc_user)"
    using eligible_identity_Inr [where i = "lit ''a1''" and d = sample_oidc_db and client = open_client
        and identity = "row_identity sample_oidc_db sample_oidc_user"] row sample_may_use sample_groups by simp
  moreover have "ocp_client_id open_client = lit ''wiki''" by (simp add: open_client_def sample_oidc_client_def)
  ultimately show ?thesis
    using row sample_code_granted
    by (simp add: prepare_code_def seq_simps in_transaction_simps lock_user_run random_block_def utc_now_ms_def
        in_redis_def granted_input_def sample_bound_fields ID_BLOCK_def)
qed

lemma sample_url:
  "\<exists>url. oidc_url_with_query (lit ''https://w.co/cb?x=1'') (authorization_response sample_code (Some (lit ''s''))) = Inr url"
proof -
  have "(case oidc_url_with_query (lit ''https://w.co/cb?x=1'') (authorization_response sample_code (Some (lit ''s'')))
      of Inr url \<Rightarrow> True | Inl e \<Rightarrow> False)" by code_simp
  then show ?thesis by (auto split: sum.splits)
qed

lemma sample_audit_free: "rt_uuid sample_runtime k \<notin> a_id ` set (t_audits sample_oidc_db)"
  by (simp add: sample_oidc_db_def sample_admin_db_def sample_defs empty_db_def)

lemma oidc_create_audit_frame:
  "oidc_create_audit R et oc u c r cx pv dt w = (Inr x, w') \<Longrightarrow>
   w_redis w' = w_redis w \<and> w_draws w' = w_draws w \<and> w_ids w' = w_ids w + ID_BLOCK
     \<and> (\<exists>row. w_db w' = (w_db w)\<lparr>t_audits := t_audits (w_db w) @ [row]\<rparr> \<and> a_id row = rt_uuid R (w_ids w))"
  by (auto simp: oidc_create_audit_def act_iffs audit_create_Inr oidc_audit_event_def)

lemma sample_login:
  "\<exists>url w1. complete_authorization sample_oidc_service sample_runtime (lit ''a1'') sample_bound
       sample_oidc_context ''oauth'' False None (sample_oidc_world sample_redis) = (Inr url, w1)
     \<and> w_redis w1 = sample_granted \<and> w_ids w1 = 16 \<and> a_id ` set (t_audits (w_db w1)) = {lit ''id0''}"
proof -
  let ?w = "sample_oidc_world sample_redis\<lparr>w_draws := ID_BLOCK, w_ticks := 1, w_redis := sample_granted\<rparr>"
  have found: "oidc_client sample_oidc_service (lit ''wiki'') = Inr open_client"
    using sample_client_found by (simp add: oidc_client_def)
  have cid: "ocp_client_id open_client = lit ''wiki''" by (simp add: open_client_def sample_oidc_client_def)
  have "user_exists sample_oidc_db (lit ''a1'')"
    by (simp add: user_exists_def sample_oidc_db_def sample_user_def)
  then obtain w1 where audit: "oidc_create_audit sample_runtime ''oidc_authorize'' ''success'' (Some (lit ''a1'')) (lit ''wiki'')
      None sample_oidc_context None [(lit ''loginMethod'', PStr (lit ''oauth''))] ?w = (Inr (), w1)"
    using oidc_create_audit_ok [where w = ?w and R = sample_runtime and u = "lit ''a1''"] sample_audit_free
    by fastforce
  have none: "t_audits sample_oidc_db = []" by (simp add: sample_oidc_db_def sample_admin_db_def sample_defs empty_db_def)
  have "nat_digits 0 = [48]" by code_simp
  then have w1: "w_redis w1 = sample_granted" "w_ids w1 = 16" "a_id ` set (t_audits (w_db w1)) = {lit ''id0''}"
    using oidc_create_audit_frame [OF audit] none by (auto simp: ID_BLOCK_def lit_def)
  from sample_url obtain url where "oidc_url_with_query (lit ''https://w.co/cb?x=1'')
      (authorization_response sample_code (Some (lit ''s''))) = Inr url" by blast
  with found cid sample_prepared audit w1 show ?thesis
    by (simp add: complete_authorization_def sample_bound_fields seq_simps begin_prepared_def in_begin_def)
qed

lemma oidc_authorization_sound_witness:
  "\<exists>x code. u_id x = lit ''a1'' \<and> x \<in> set (t_users sample_oidc_db) \<and> u_status x = ACTIVE
    \<and> redis_view sample_granted (oidc_authorization_code_key sample_env code) \<noteq> None"
proof -
  obtain url w1 where run: "complete_authorization sample_oidc_service sample_runtime (lit ''a1'') sample_bound
       sample_oidc_context ''oauth'' False None (sample_oidc_world sample_redis) = (Inr url, w1)"
    and w1: "w_redis w1 = sample_granted" using sample_login by blast
  from oidc_authorization_sound [OF run] obtain x code now where
    "u_id x = lit ''a1''" "x \<in> set (t_users sample_oidc_db)" "u_status x = ACTIVE"
    and view: "redis_view (w_redis w1) = (redis_view sample_redis)(oidc_authorization_code_key sample_env code
        := Some (serialize_record (code_dict (granted_input (lit ''a1'') sample_bound) now)))"
    unfolding granted_input_def by auto
  moreover have "redis_view sample_granted (oidc_authorization_code_key sample_env code) \<noteq> None"
    using view unfolding w1 by simp
  ultimately show ?thesis by blast
qed

lemma sample_exchanged:
  "\<exists>response w'. exchange_code sample_oidc_service sample_runtime sample_exchange_input sample_oidc_context
       (sample_oidc_world (with_code sample_redis)) = (Inr response, w')"
proof -
  let ?w = "sample_oidc_world (with_code sample_redis)"
  have "fst (enforce_client_rate_limit sample_oidc_service sample_runtime c ?w) = Inr ()" for c
    by (simp add: enforce_client_rate_limit_def sample_oidc_service_def retA_def)
  moreover have "redis_view (with_code sample_redis) (oidc_access_token_key sample_env t) = None" for t
    using rate_key_other(3) [of sample_env sample_code t] by (simp add: with_code_def redis_view_def kv_get_def sample_redis_def)
  moreover have "aci_client_id sample_code_input = lit ''wiki''" "aci_redirect_uri sample_code_input = lit ''https://w.co/cb?x=1''"
    "pkce_proved sample_env open_client (aci_code_challenge sample_code_input) None" "aci_user_id sample_code_input = lit ''a1''"
    by (simp_all add: sample_code_input_def pkce_proved_def open_client_def)
  moreover have "u_id sample_oidc_user = lit ''a1''" "u_name sample_oidc_user \<noteq> Some []"
    by (simp_all add: sample_oidc_user_def sample_user_def)
  ultimately show ?thesis
    using exchange_code_answers [where S = sample_oidc_service and R = sample_runtime and input = sample_exchange_input
        and cx = sample_oidc_context and w = ?w and client = open_client and i = sample_code_input and issued = 1000
        and x = sample_oidc_user and gs = "[lit ''temis:admin'']"]
      sample_code_input_ok sample_oidc_db_ok sample_may_use sample_groups sample_client_found sample_secret
      sample_transaction_ok(2) with_code_view sample_granted_ok(2) sample_audit_free
    by (cases "exchange_code sample_oidc_service sample_runtime sample_exchange_input sample_oidc_context ?w")
      (simp add: sample_exchange_input_def)
qed

lemma oidc_exchange_sound_witness:
  "\<exists>client x. registry_get (oids_clients sample_oidc_service) (lit ''wiki'') = Some client
    \<and> may_use sample_oidc_db client x"
proof -
  obtain response w' where run: "exchange_code sample_oidc_service sample_runtime sample_exchange_input sample_oidc_context
       (sample_oidc_world (with_code sample_redis)) = (Inr response, w')" using sample_exchanged by blast
  from oidc_exchange_sound [OF run] show ?thesis by (auto simp: sample_exchange_input_def)
qed


section \<open>Suspended users\<close>

lemma userinfo_Inr:
  assumes "userinfo S R token w = (Inr info, w')"
  shows "\<exists>client raw stored x gs. redis_view (w_redis w) (oidc_access_token_key (rt_env R) token) = Some raw
    \<and> access_token_record (rt_env R) raw = Inr (Some stored)
    \<and> rt_clock R (w_ticks w) < sat_expires_at_epoch_ms stored
    \<and> registry_get (oids_clients S) (sat_client_id stored) = Some client
    \<and> may_use (w_db w) client x \<and> u_id x = sat_user_id stored
    \<and> project_groups (row_identity (w_db w) x) client = Inr gs
    \<and> info = \<lparr>ui_sub = u_id x, ui_email = the (u_email x), ui_name = u_name x, ui_groups = gs\<rparr>"
proof -
  let ?now = "rt_clock R (w_ticks w)" and ?k = "oidc_access_token_key (rt_env R) token"
  from assms obtain found w1 where
    looked: "in_redis (oidc_access_token_get (rt_env R) redis_ops ?now token) (w\<lparr>w_ticks := w_ticks w + 1\<rparr>) = (Inr found, w1)"
    and then_: "(case found of
       None \<Rightarrow> raiseA invalid_token
     | Some stored \<Rightarrow>
         (case registry_get (oids_clients S) (sat_client_id stored) of
            None \<Rightarrow> bindA (best_effort_revoke_access R token) (\<lambda>_. raiseA invalid_token)
          | Some client \<Rightarrow>
              in_begin
                (bindA (in_transaction (lock_user (sat_user_id stored))) (\<lambda>user.
                 case eligible_identity user client of
                   Inl denial \<Rightarrow> bindA (best_effort_revoke_access R token) (\<lambda>_. raiseA invalid_token)
                 | Inr identity \<Rightarrow>
                     bindA (liftA (project_groups identity client)) (\<lambda>groups.
                     retA \<lparr>ui_sub = oi_user_id identity, ui_email = oi_email identity, ui_name = oi_name identity,
                           ui_groups = groups\<rparr>))))) w1 = (Inr info, w')"
    unfolding userinfo_def bindA_Inr_iff [where m = "utc_now_ms R"] utc_now_ms_Inr
      bindA_Inr_iff [where m = "in_redis m" for m] by auto
  from then_ obtain stored where stored: "found = Some stored" by (cases found) (auto simp: raiseA_iff)
  with then_ obtain client where client: "registry_get (oids_clients S) (sat_client_id stored) = Some client"
    by (cases "registry_get (oids_clients S) (sat_client_id stored)") (auto simp: bindA_Inr_iff raiseA_iff)
  note got = looked [unfolded stored]
  have rest: "(case eligible_identity (map_option (\<lambda>u. with_roles u (w_db w1))
          (find (\<lambda>u. u_id u = sat_user_id stored) (t_users (w_db w1)))) client of
        Inl denial \<Rightarrow> bindA (best_effort_revoke_access R token) (\<lambda>_. raiseA invalid_token)
      | Inr identity \<Rightarrow> bindA (liftA (project_groups identity client)) (\<lambda>groups.
          retA \<lparr>ui_sub = oi_user_id identity, ui_email = oi_email identity, ui_name = oi_name identity,
            ui_groups = groups\<rparr>)) w1 = (Inr info, w')"
    using then_ by (simp add: stored client in_begin_Inr bindA_Inr_iff [where m = "in_transaction m" for m]
        in_transaction_Inr lock_user_run)
  from rest obtain x gs where
    x: "find (\<lambda>u. u_id u = sat_user_id stored) (t_users (w_db w1)) = Some x" "may_use (w_db w1) client x"
      "project_groups (row_identity (w_db w1) x) client = Inr gs"
    and info: "info = \<lparr>ui_sub = oi_user_id (row_identity (w_db w1) x), ui_email = oi_email (row_identity (w_db w1) x),
      ui_name = oi_name (row_identity (w_db w1) x), ui_groups = gs\<rparr>"
    by (auto simp: bindA_Inr_iff raiseA_iff liftA_Inr retA_Inr eligible_identity_Inr split: sum.splits)
  from got have db: "w_db w1 = w_db w"
    and "get_record redis_ops ?k (access_token_record (rt_env R)) (judge_access_token ?now) (w_redis w) = (Inr (Some stored), w_redis w1)"
    by (auto simp: in_redis_def oidc_access_token_get_def split: prod.splits)
  then obtain raw w2 where "judged_record redis_ops ?k (access_token_record (rt_env R)) (judge_access_token ?now) (w_redis w)
      = (Inr (Some (raw, stored)), w2)"
    by (auto simp: get_record_def bindA_Inr_iff retA_Inr eq_commute [of "Some stored"])
  from redis_store.judged_record_Some [OF this] find_Some_set [OF x(1)] client x(2,3) info show ?thesis
    unfolding db by (auto simp: row_identity_def judge_access_token_def split: if_splits)
qed

lemma shut_out_may_not_use: "shut_out v d \<Longrightarrow> may_use d client x \<Longrightarrow> u_id x \<noteq> v"
  using shut_out_row [of v d x] by (auto simp: may_use_def)

text \<open>A suspension reaches every OIDC client. While a user is suspended or deleted, a login in his name is
  refused whichever way it was made, a code that was issued to him before is refused by the token
  endpoint, an access token that was issued to him before gives no UserInfo, and no operation of the
  provider lets him back in.\<close>

theorem oidc_respects_suspension:
  assumes v: "shut_out v (w_db w)"
    and code: "redis_view (w_redis w) (oidc_authorization_code_key (rt_env R) (tei_code input)) = Some raw"
      "code_record (rt_env R) raw = Inr (Some m)" "sac_user_id m = v"
    and token: "redis_view (w_redis w) (oidc_access_token_key (rt_env R) token) = Some raw2"
      "access_token_record (rt_env R) raw2 = Inr (Some t)" "sat_user_id t = v"
  shows "(\<exists>e. fst (complete_authorization S R v tx cx meth rp pv w) = Inl e)
    \<and> (\<exists>e. fst (exchange_code S R input cx w) = Inl e)
    \<and> (\<exists>e. fst (userinfo S R token w) = Inl e)
    \<and> shut_out v (w_db (snd (oidc_password_login S R tid b csrf email pw cx w)))
    \<and> shut_out v (w_db (snd (provider_callback S R p pcode st b cx w)))
    \<and> shut_out v (w_db (snd (exchange_code S R input cx w)))"
proof (intro conjI)
  have no: "u_id x \<noteq> v" if "may_use (w_db w) client x" for client x by (rule shut_out_may_not_use [OF v that])
  show "\<exists>e. fst (complete_authorization S R v tx cx meth rp pv w) = Inl e"
    using complete_authorization_Inr [of S R v tx cx meth rp pv w] no
    by (cases "complete_authorization S R v tx cx meth rp pv w"; cases "fst (complete_authorization S R v tx cx meth rp pv w)") fastforce+
  show "\<exists>e. fst (exchange_code S R input cx w) = Inl e"
    using exchange_code_Inr [of S R input cx w] no code
    by (cases "exchange_code S R input cx w"; cases "fst (exchange_code S R input cx w)") fastforce+
  show "\<exists>e. fst (userinfo S R token w) = Inl e"
    using userinfo_Inr [of S R token w] no token
    by (cases "userinfo S R token w"; cases "fst (userinfo S R token w)") fastforce+
  note keeps = keepsAD [where I = "shut_out v", OF _ v prod.collapse [symmetric]]
  show "shut_out v (w_db (snd (oidc_password_login S R tid b csrf email pw cx w)))"
    "shut_out v (w_db (snd (provider_callback S R p pcode st b cx w)))"
    "shut_out v (w_db (snd (exchange_code S R input cx w)))"
    by (intro keeps keepsA_oidc oidc_kept_shut)+
qed

definition suspended_oidc_db :: db where
  "suspended_oidc_db = sample_oidc_db\<lparr>t_users := [sample_user, sample_oidc_user\<lparr>u_status := SUSPENDED\<rparr>]\<rparr>"

definition sample_token_input :: OidcAccessTokenCreateInput where
  "sample_token_input = \<lparr>oatci_client_id = lit ''wiki'', oatci_user_id = lit ''a1'', oatci_scopes = [lit ''openid'']\<rparr>"

lemma suspended_shut: "shut_out (lit ''a1'') suspended_oidc_db"
  by (simp add: shut_out_def db_ok_def keys_ok_def refs_ok_def sample_defs sample_admin_db_def sample_oidc_db_def
      suspended_oidc_db_def sample_oidc_user_def empty_db_def uniq_all_def uniq_def key_defs user_exists_def
      role_exists_def lit_def)

lemma oidc_respects_suspension_witness:
  "\<exists>w e. shut_out (lit ''a1'') (w_db w)
    \<and> redis_view (w_redis w) (oidc_authorization_code_key sample_env sample_code) \<noteq> None
    \<and> fst (exchange_code sample_oidc_service sample_runtime sample_exchange_input sample_oidc_context w) = Inl e"
proof -
  let ?k = "oidc_authorization_code_key sample_env sample_code" and ?t = "oidc_access_token_key sample_env sample_code"
  let ?code = "serialize_record (code_dict sample_code_input 1000)"
  let ?token = "serialize_record (access_token_dict sample_token_input (1000 + 300000))"
  let ?s = "sample_redis\<lparr>rd_kv := (\<lambda>_. None)(?k := Some (?code, None), ?t := Some (?token, None))\<rparr>"
  let ?w = "(sample_services suspended_oidc_db)\<lparr>w_redis := ?s\<rparr>"
  have views: "redis_view ?s ?k = Some ?code" "redis_view ?s ?t = Some ?token"
    using rate_key_other(3) [of sample_env sample_code sample_code] by (simp_all add: redis_view_def kv_get_def)
  have token: "access_token_record sample_env ?token = Inr (Some \<lparr>sat_client_id = lit ''wiki'', sat_user_id = lit ''a1'',
      sat_scopes = [lit ''openid''], sat_expires_at_epoch_ms = 1000 + 300000\<rparr>)"
    using access_token_roundtrip_record [of sample_token_input 1000 sample_env] sample_code_input_ok(3)
    by (simp add: sample_token_input_def text_ok_def scopes_ok_def str_ok_lit)
  have "shut_out (lit ''a1'') (w_db ?w)" using suspended_shut by (simp add: sample_services_def)
  from oidc_respects_suspension [OF this, where R = sample_runtime and input = sample_exchange_input and token = sample_code
      and S = sample_oidc_service and cx = sample_oidc_context and raw = ?code and ?raw2.0 = ?token
      and m = "stored_code sample_code_input 1000"]
    views token code_roundtrip [OF sample_code_input_ok(1,3), of sample_env] suspended_shut
  have "\<exists>e. fst (exchange_code sample_oidc_service sample_runtime sample_exchange_input sample_oidc_context ?w) = Inl e"
    by (simp add: sample_exchange_input_def stored_code_def sample_code_input_def)
  with \<open>shut_out (lit ''a1'') (w_db ?w)\<close> views(1) show ?thesis by (intro exI [of _ ?w]) auto
qed

section \<open>The empty display name\<close>

text \<open>A provider profile may carry the empty name, which is stored as it is. The ID token refuses it, so the
  eligible user logs in, gets a code, and every exchange of it fails after the code is spent.\<close>

lemma empty_name_never_exchanges:
  assumes "db_ok (w_db w)" "x \<in> set (t_users (w_db w))" "u_name x = Some []"
    and "redis_view (w_redis w) (oidc_authorization_code_key (rt_env R) (tei_code input)) = Some raw"
    and "code_record (rt_env R) raw = Inr (Some m)" "sac_user_id m = u_id x"
  shows "\<exists>e. fst (exchange_code S R input cx w) = Inl e"
proof (rule ccontr)
  assume "\<not> ?thesis"
  then obtain response w' where "exchange_code S R input cx w = (Inr response, w')"
    by (cases "exchange_code S R input cx w"; cases "fst (exchange_code S R input cx w)") auto
  from exchange_code_Inr [OF this] assms(4,5) obtain client y token w3 where y: "may_use (w_db w) client y" "u_id y = sac_user_id m"
    and f: "finish_exchange S client R m cx (token, row_identity (w_db w) y) w3 = (Inr response, w')" by auto
  from y assms(2,6) have "y = x"
    using db_ok_distinct(1) [OF assms(1)] distinct_map_key_eq [of u_id "t_users (w_db w)" y x] by (simp add: may_use_def)
  with assms(3) have "oi_name (row_identity (w_db w) y) = Some []" by (simp add: row_identity_def)
  with f show False
    by (auto simp: finish_exchange_def bindA_Inr_iff liftA_Inr issue_id_token_def bindE_Inr_iff)
qed

end
