(* ===== verification/Oidc_Parsing.thy ===== *)
theory Oidc_Parsing
  imports Redirect_Urls
begin

text \<open>
  The strict parser of the OIDC HTTP boundary, \<^verbatim>\<open>api/oidc/parsing.py\<close>: \<^verbatim>\<open>parse_urlencoded\<close> for
  query strings and form bodies, and \<^verbatim>\<open>extract_client_credentials\<close> for the two client authentication
  methods. Byte strings are lists of numbers, a header is its name and its value decoded from Latin-1, and
  \<^verbatim>\<open>base64.b64decode(..., validate=True)\<close> is the strict loop of CPython's \<^verbatim>\<open>binascii.a2b_base64\<close>.
  The lemmas show that the parser accepts exactly what it should read: it inverts the form encoding, it
  agrees with the lenient library parser wherever it accepts, and its results are bounded.
\<close>

definition MAX_QUERY_BYTES :: nat where "MAX_QUERY_BYTES = 8192"
definition MAX_FORM_BYTES :: nat where "MAX_FORM_BYTES = 8192"
definition MAX_FIELDS :: nat where "MAX_FIELDS = 16"

text \<open>The errors: \<^verbatim>\<open>ClientAuthenticationError\<close> is a \<^verbatim>\<open>ParseError\<close>; a \<^verbatim>\<open>ValueError\<close> that is neither
  leaves the module as it is.\<close>

datatype parse_error = ParseError pystr | ClientAuthenticationError pystr | PlainValueError pystr

text \<open>\<^verbatim>\<open>%(?![0-9A-Fa-f]{2})\<close> anywhere.\<close>

definition two_hex :: "pystr \<Rightarrow> bool" where
  "two_hex s \<longleftrightarrow> (case s of h # l # r \<Rightarrow> hex_digit h \<and> hex_digit l | _ \<Rightarrow> False)"

fun bad_percent :: "pystr \<Rightarrow> bool" where
  "bad_percent [] = False"
| "bad_percent (c # s) = ((c = 37 \<and> \<not> two_hex s) \<or> bad_percent s)"

definition decode_form_text :: "nat list \<Rightarrow> pystr option" where
  "decode_form_text raw = utf8_decode (unquote_to_bytes (plus_to_space raw))"

definition parse_field :: "nat list \<Rightarrow> parse_error + (pystr \<times> pystr)" where
  "parse_field field =
     (if field = [] \<or> 61 \<notin> set field then Inl (ParseError (lit ''invalid form encoding''))
      else (case py_partition 61 field of
        (raw_name, _, raw_value) \<Rightarrow>
          if raw_name = [] \<or> bad_percent raw_name \<or> bad_percent raw_value
          then Inl (ParseError (lit ''invalid form encoding''))
          else (case (decode_form_text raw_name, decode_form_text raw_value) of
                  (Some name, Some v) \<Rightarrow> Inr (name, v)
                | _ \<Rightarrow> Inl (ParseError (lit ''invalid UTF-8'')))))"

fun parse_fields :: "(pystr \<times> pystr) list \<Rightarrow> nat list list \<Rightarrow> parse_error + (pystr \<times> pystr) list" where
  "parse_fields parsed [] = Inr parsed"
| "parse_fields parsed (field # rest) =
     bindE (parse_field field) (\<lambda>(name, v).
       if name \<in> fst ` set parsed then Inl (ParseError (lit ''duplicate field''))
       else parse_fields (parsed @ [(name, v)]) rest)"

definition parse_urlencoded :: "nat \<Rightarrow> nat \<Rightarrow> nat list \<Rightarrow> parse_error + (pystr \<times> pystr) list" where
  "parse_urlencoded max_bytes max_fields raw =
     (if max_bytes < length raw then Inl (ParseError (lit ''encoded input is too large''))
      else if raw = [] then Inr []
      else (let raw_fields = py_split_on 38 raw in
            if max_fields < length raw_fields then Inl (ParseError (lit ''too many fields''))
            else parse_fields [] raw_fields))"

section \<open>Strict base64\<close>

definition b64_std_value :: "nat \<Rightarrow> nat option" where
  "b64_std_value c =
     (if 65 \<le> c \<and> c \<le> 90 then Some (c - 65) else if 97 \<le> c \<and> c \<le> 122 then Some (c - 71)
      else if 48 \<le> c \<and> c \<le> 57 then Some (c + 4)
      else if c = 43 then Some 62 else if c = 47 then Some 63 else None)"

text \<open>The loop of \<^verbatim>\<open>a2b_base64\<close> in strict mode: position in the quad, bits left over, padding seen.\<close>

fun a2b_loop :: "nat \<Rightarrow> nat \<Rightarrow> nat \<Rightarrow> bool \<Rightarrow> pystr \<Rightarrow> nat list option" where
  "a2b_loop quad_pos leftchar pads padding_started [] = (if quad_pos = 0 then Some [] else None)"
| "a2b_loop quad_pos leftchar pads padding_started (c # s) =
     (if c = 61
      then (if 2 \<le> quad_pos \<and> 4 \<le> quad_pos + Suc pads
            then (if s \<noteq> [] then None else Some [])
            else a2b_loop quad_pos leftchar (if 2 \<le> quad_pos then Suc pads else pads) True s)
      else (case b64_std_value c of
              None \<Rightarrow> None
            | Some v \<Rightarrow>
                if padding_started then None
                else if quad_pos = 0 then a2b_loop 1 v 0 False s
                else if quad_pos = 1
                then map_option (Cons (leftchar * 4 + v div 16)) (a2b_loop 2 (v mod 16) 0 False s)
                else if quad_pos = 2
                then map_option (Cons (leftchar * 16 + v div 4)) (a2b_loop 3 (v mod 4) 0 False s)
                else map_option (Cons (leftchar * 64 + v)) (a2b_loop 0 0 0 False s)))"

definition a2b_base64 :: "pystr \<Rightarrow> nat list option" where
  "a2b_base64 s = (if s \<noteq> [] \<and> hd s = 61 then None else a2b_loop 0 0 0 False s)"

text \<open>\<^verbatim>\<open>base64.b64decode(str, validate=True)\<close>: text outside ASCII is a plain \<^verbatim>\<open>ValueError\<close>, anything else
  the loop refuses a \<^verbatim>\<open>binascii.Error\<close>.\<close>

datatype b64_error = BinasciiError | NotAsciiError

definition b64decode_validate :: "pystr \<Rightarrow> b64_error + nat list" where
  "b64decode_validate s =
     (if \<not> all_ascii s then Inl NotAsciiError
      else (case a2b_base64 s of None \<Rightarrow> Inl BinasciiError | Some bs \<Rightarrow> Inr bs))"

section \<open>Client credentials\<close>

type_synonym headers = "(pystr \<times> pystr) list"

definition getlist :: "headers \<Rightarrow> string \<Rightarrow> pystr list" where
  "getlist hs name = map snd (filter (\<lambda>h. fst h = lit name) hs)"

record ClientCredentials =
  cc_client_id :: pystr
  cc_client_secret :: pystr
  cc_method :: pystr

definition token_text :: "pystr \<Rightarrow> bool" where
  "token_text s \<longleftrightarrow> s \<noteq> [] \<and> (\<forall>c \<in> set s. 0x21 \<le> c \<and> c \<le> 0x7e)"

definition decode_component :: "pystr \<Rightarrow> parse_error + pystr" where
  "decode_component v =
     (if bad_percent (utf8_bytes v) then Inl (ParseError (lit ''invalid client authorization''))
      else (case decode_form_text (utf8_bytes v) of
              None \<Rightarrow> Inl (ParseError (lit ''invalid client authorization''))
            | Some s \<Rightarrow> Inr s))"

definition credential_limits :: "pystr \<Rightarrow> pystr \<Rightarrow> bool" where
  "credential_limits client_id client_secret \<longleftrightarrow>
     client_id \<noteq> [] \<and> length client_id \<le> 128 \<and> client_secret \<noteq> [] \<and> length client_secret \<le> 1024
     \<and> token_text client_id"

definition basic_credentials :: "(pystr \<Rightarrow> pystr) \<Rightarrow> pystr \<Rightarrow> parse_error + ClientCredentials" where
  "basic_credentials uni authorization =
     (let refused = ClientAuthenticationError (lit ''invalid client authorization'') in
      case py_partition 32 authorization of
        (scheme, separator, encoded) \<Rightarrow>
          if \<not> separator \<or> py_lower uni scheme \<noteq> lit ''basic'' \<or> encoded = [] \<or> 4096 < length encoded
             \<or> (\<exists>c \<in> set encoded. py_isspace c)
          then Inl refused
          else (case b64decode_validate encoded of
                  Inl NotAsciiError \<Rightarrow> Inl (PlainValueError (lit ''string argument should contain only ASCII characters''))
                | Inl BinasciiError \<Rightarrow> Inl refused
                | Inr bs \<Rightarrow>
                    (case utf8_decode bs of
                       None \<Rightarrow> Inl refused
                     | Some decoded \<Rightarrow>
                         (case py_partition 58 decoded of
                            (encoded_client_id, colon, encoded_client_secret) \<Rightarrow>
                              if \<not> colon then Inl refused
                              else (case (decode_component encoded_client_id, decode_component encoded_client_secret) of
                                      (Inr client_id, Inr client_secret) \<Rightarrow>
                                        if credential_limits client_id client_secret
                                        then Inr \<lparr>cc_client_id = client_id, cc_client_secret = client_secret,
                                                  cc_method = lit ''client_secret_basic''\<rparr>
                                        else Inl refused
                                    | _ \<Rightarrow> Inl refused)))))"

definition body_credentials :: "pystr option \<Rightarrow> pystr option \<Rightarrow> parse_error + ClientCredentials" where
  "body_credentials body_client_id body_secret =
     (case (body_client_id, body_secret) of
        (Some client_id, Some client_secret) \<Rightarrow>
          if client_id = [] \<or> client_secret = []
          then Inl (ClientAuthenticationError (lit ''missing client authentication''))
          else if \<not> credential_limits client_id client_secret
          then Inl (ClientAuthenticationError (lit ''invalid client authentication''))
          else Inr \<lparr>cc_client_id = client_id, cc_client_secret = client_secret,
                    cc_method = lit ''client_secret_post''\<rparr>
      | _ \<Rightarrow> Inl (ClientAuthenticationError (lit ''missing client authentication'')))"

definition extract_client_credentials ::
  "(pystr \<Rightarrow> pystr) \<Rightarrow> headers \<Rightarrow> (pystr \<times> pystr) list \<Rightarrow> parse_error + ClientCredentials" where
  "extract_client_credentials uni hs form =
     (let authorization_values = getlist hs ''authorization'';
          body_client_id = map_of form (lit ''client_id'');
          body_secret = map_of form (lit ''client_secret'')
      in if authorization_values \<noteq> []
         then (if length authorization_values \<noteq> 1 \<or> body_client_id \<noteq> None \<or> body_secret \<noteq> None
               then Inl (ParseError (lit ''multiple client authentication methods''))
               else basic_credentials uni (hd authorization_values))
         else body_credentials body_client_id body_secret)"

section \<open>UTF-8 is read back\<close>

lemma base64_digits:
  assumes "r < (64::nat)"
  shows "(x * 64 + r) div 64 = x" "(x * 64 + r) mod 64 = r"
  using assms by simp_all

lemma div_4096: "c div 4096 = c div 64 div (64::nat)"
  by (simp add: div_mult2_eq [symmetric])

lemma div_262144: "c div 262144 = c div 64 div 64 div (64::nat)"
  by (simp add: div_mult2_eq [symmetric])

lemma utf8_char_two:
  "2 \<le> q \<Longrightarrow> q < 32 \<Longrightarrow> r < 64 \<Longrightarrow> utf8_char (q * 64 + r) = [0xC0 + q, 0x80 + r]"
  by (simp add: utf8_char_def base64_digits)

lemma utf8_char_three:
  assumes "q < 16" "m < 64" "r < 64" "0x800 \<le> c" "c = q * 4096 + m * 64 + r"
  shows "utf8_char c = [0xE0 + q, 0x80 + m, 0x80 + r]"
proof -
  have "c = (q * 64 + m) * 64 + r" using assms(5) by simp
  with assms(2,3) have d: "c div 64 = q * 64 + m" "c mod 64 = r" by (simp_all only: base64_digits)
  with assms(2) have "c div 4096 = q" "c div 64 mod 64 = m"
    unfolding div_4096 by (simp_all only: base64_digits)
  with d(2) assms show ?thesis by (simp add: utf8_char_def)
qed

lemma utf8_char_four:
  assumes "q < 5" "m < 64" "n < 64" "r < 64" "0x10000 \<le> c" "c = q * 262144 + m * 4096 + n * 64 + r"
  shows "utf8_char c = [0xF0 + q, 0x80 + m, 0x80 + n, 0x80 + r]"
proof -
  have "c = ((q * 64 + m) * 64 + n) * 64 + r" using assms(6) by simp
  with assms(3,4) have d: "c div 64 = (q * 64 + m) * 64 + n" "c mod 64 = r" by (simp_all only: base64_digits)
  with assms(2,3) have e: "c div 4096 = q * 64 + m" "c div 64 mod 64 = n"
    unfolding div_4096 by (simp_all only: base64_digits)
  with assms(2) have "c div 262144 = q" "c div 4096 mod 64 = m"
    unfolding div_262144 div_4096 by (simp_all only: base64_digits)
  with d(2) e(2) assms show ?thesis by (simp add: utf8_char_def)
qed

lemma utf8_char_cases:
  assumes "c < 0x110000" "\<not> is_surrogate c"
  obtains "c < 0x80" "utf8_char c = [c]"
  | q r where "2 \<le> q" "q < 32" "r < 64" "c = q * 64 + r" "utf8_char c = [0xC0 + q, 0x80 + r]"
  | q m r where "q < 16" "m < 64" "r < 64" "q = 0 \<Longrightarrow> 32 \<le> m" "q = 13 \<Longrightarrow> m < 32"
      "c = q * 4096 + m * 64 + r" "utf8_char c = [0xE0 + q, 0x80 + m, 0x80 + r]"
  | q m n r where "q < 5" "m < 64" "n < 64" "r < 64" "q = 0 \<Longrightarrow> 16 \<le> m" "q = 4 \<Longrightarrow> m < 16"
      "c = q * 262144 + m * 4096 + n * 64 + r" "utf8_char c = [0xF0 + q, 0x80 + m, 0x80 + n, 0x80 + r]"
proof -
  have d: "c = (c div 64) * 64 + c mod 64" "c div 64 = (c div 4096) * 64 + c div 64 mod 64"
    "c div 4096 = (c div 262144) * 64 + c div 4096 mod 64"
    by (simp_all add: div_4096 div_262144)
  have m: "c mod 64 < 64" "c div 64 mod 64 < 64" "c div 4096 mod 64 < 64" by simp_all
  consider "c < 0x80" | "0x80 \<le> c" "c < 0x800" | "0x800 \<le> c" "c < 0x10000" | "0x10000 \<le> c" by linarith
  then show thesis
  proof cases
    case 1
    then show ?thesis using that(1) by (simp add: utf8_char_def)
  next
    case 2
    then have "2 \<le> c div 64" "c div 64 < 32" by simp_all
    then show ?thesis using that(2) [of "c div 64" "c mod 64"] d(1) m(1) 2 by (simp add: utf8_char_def)
  next
    case 3
    have c: "c = c div 4096 * 4096 + c div 64 mod 64 * 64 + c mod 64" using d by linarith
    have q: "c div 4096 < 16" using 3 by simp
    show ?thesis
    proof (rule that(3) [OF q m(2) m(1) _ _ c])
      show "c div 4096 = 0 \<Longrightarrow> 32 \<le> c div 64 mod 64" using c m 3 by linarith
      show "c div 4096 = 13 \<Longrightarrow> c div 64 mod 64 < 32"
        using c m assms(2) unfolding is_surrogate_def by linarith
    qed (use utf8_char_three [OF q m(2) m(1) 3(1) c] in simp)
  next
    case 4
    have c: "c = c div 262144 * 262144 + c div 4096 mod 64 * 4096 + c div 64 mod 64 * 64 + c mod 64"
      using d by linarith
    have q: "c div 262144 < 5" using assms(1) by simp
    show ?thesis
    proof (rule that(4) [OF q m(3) m(2) m(1) _ _ c])
      show "c div 262144 = 0 \<Longrightarrow> 16 \<le> c div 4096 mod 64" using c m 4 by linarith
      show "c div 262144 = 4 \<Longrightarrow> c div 4096 mod 64 < 16" using c m assms(1) by linarith
    qed (use utf8_char_four [OF q m(3) m(2) m(1) 4 c] in simp)
  qed
qed

lemma utf8_decode_char:
  assumes "c < 0x110000" "\<not> is_surrogate c"
  shows "utf8_decode (utf8_char c @ rest) = map_option (Cons c) (utf8_decode rest)"
  using assms
proof (cases rule: utf8_char_cases)
  case (3 q m r)
  then have "0x800 \<le> c" by (cases "q = 0") linarith+
  then show ?thesis using 3 assms by (simp add: cont_byte_def)
next
  case (4 q m n r)
  then have "0x10000 \<le> c" by (cases "q = 0") linarith+
  then show ?thesis using 4 assms by (simp add: cont_byte_def)
qed (simp_all add: cont_byte_def)

lemma utf8_decode_bytes: "str_ok s \<Longrightarrow> utf8_decode (utf8_bytes s) = Some s"
  by (induction s) (simp_all add: utf8_bytes_def utf8_decode_char str_ok_def)

lemma cont_byte_digit: "cont_byte b \<Longrightarrow> b - 0x80 < 64 \<and> 0x80 + (b - 0x80) = b"
  by (auto simp: cont_byte_def)

lemma utf8_bytes_Cons: "utf8_bytes (c # s) = utf8_char c @ utf8_bytes s"
  by (simp add: utf8_bytes_def)

lemma utf8_decode_sound: "utf8_decode bs = Some s \<Longrightarrow> str_ok s \<and> utf8_bytes s = bs"
proof (induction bs arbitrary: s rule: utf8_decode.induct)
  case (2 a r)
  have ok: "str_ok (u # t) \<longleftrightarrow> u < 0x110000 \<and> \<not> is_surrogate u \<and> str_ok t" for u t
    by (auto simp: str_ok_def)
  show ?case
  proof (cases "a < 0x80")
    case True
    then obtain t where t: "utf8_decode r = Some t" "s = a # t" using "2.prems" by auto
    with "2.IH"(1) [OF True t(1)] True show ?thesis
      by (simp add: ok utf8_bytes_Cons utf8_char_def is_surrogate_def)
  next
    case high: False
    then obtain b r1 where r: "r = b # r1" using "2.prems" by (cases r) simp_all
    show ?thesis
    proof (cases "0xC2 \<le> a \<and> a < 0xE0")
      case True
      then obtain t where t: "utf8_decode r1 = Some t" "s = ((a - 0xC0) * 64 + (b - 0x80)) # t" "cont_byte b"
        using "2.prems" high r by (auto split: if_splits)
      have q: "2 \<le> a - 0xC0" "a - 0xC0 < 32" "0xC0 + (a - 0xC0) = a" using True by auto
      have "utf8_char ((a - 0xC0) * 64 + (b - 0x80)) = [a, b]"
        using utf8_char_two [OF q(1,2), of "b - 0x80"] cont_byte_digit [OF t(3)] q(3) by simp
      moreover have "(a - 0xC0) * 64 + (b - 0x80) < 0x800" using True cont_byte_digit [OF t(3)] by linarith
      ultimately show ?thesis using "2.IH"(2) [OF high r True t(3,1)] t(2) r
        by (simp add: ok utf8_bytes_Cons is_surrogate_def)
    next
      case two: False
      then obtain c r2 where r1: "r1 = c # r2" using "2.prems" high r by (cases r1) auto
      show ?thesis
      proof (cases "0xE0 \<le> a \<and> a < 0xF0")
        case True
        define u where "u = (a - 0xE0) * 4096 + (b - 0x80) * 64 + (c - 0x80)"
        have m: "cont_byte b" "cont_byte c" "0x800 \<le> u" "\<not> is_surrogate u"
          and "\<exists>t. utf8_decode r2 = Some t \<and> s = u # t"
          using "2.prems" high r two True r1 by (auto simp: Let_def u_def [symmetric] split: if_splits)
        then obtain t where t: "utf8_decode r2 = Some t" "s = u # t" by blast
        have q: "a - 0xE0 < 16" "0xE0 + (a - 0xE0) = a" using True by auto
        have "utf8_char u = [a, b, c]"
          using utf8_char_three [OF q(1) cont_byte_digit [THEN conjunct1, OF m(1)] cont_byte_digit [THEN conjunct1, OF m(2)] m(3) u_def]
            cont_byte_digit [OF m(1)] cont_byte_digit [OF m(2)] q(2) by simp
        moreover have "u < 0x110000"
          using q(1) cont_byte_digit [OF m(1)] cont_byte_digit [OF m(2)] unfolding u_def by linarith
        ultimately show ?thesis
          using "2.IH"(3) [OF high r two r1 True u_def _ t(1)] m t(2) r r1 by (simp add: ok utf8_bytes_Cons)
      next
        case three: False
        then obtain d r3 where r2: "r2 = d # r3" using "2.prems" high r two r1 by (cases r2) auto
        define u where "u = (a - 0xF0) * 262144 + (b - 0x80) * 4096 + (c - 0x80) * 64 + (d - 0x80)"
        have m: "0xF0 \<le> a \<and> a < 0xF5" "cont_byte b" "cont_byte c" "cont_byte d" "0x10000 \<le> u \<and> u < 0x110000"
          and "\<exists>t. utf8_decode r3 = Some t \<and> s = u # t"
          using "2.prems" high r two r1 three r2 by (auto simp: Let_def u_def [symmetric] split: if_splits)
        then obtain t where t: "utf8_decode r3 = Some t" "s = u # t" by blast
        have q: "a - 0xF0 < 5" "0xF0 + (a - 0xF0) = a" using m(1) by auto
        have "utf8_char u = [a, b, c, d]"
          using utf8_char_four [OF q(1) cont_byte_digit [THEN conjunct1, OF m(2)] cont_byte_digit [THEN conjunct1, OF m(3)]
              cont_byte_digit [THEN conjunct1, OF m(4)] conjunct1 [OF m(5)] u_def]
            cont_byte_digit [OF m(2)] cont_byte_digit [OF m(3)] cont_byte_digit [OF m(4)] q(2) by simp
        then show ?thesis
          using "2.IH"(4) [OF high r two r1 three r2 u_def _ t(1)] m t(2) r r1 r2
          by (simp add: ok utf8_bytes_Cons is_surrogate_def)
      qed
    qed
  qed
qed (simp add: str_ok_def utf8_bytes_def)

lemma utf8_decode_replace: "utf8_decode bs = Some s \<Longrightarrow> utf8_replace bs = s"
  using utf8_decode_sound utf8_replace_bytes by blast

section \<open>The strict parser and the lenient one\<close>

lemma unquote_to_bytes_ne: "s \<noteq> [] \<Longrightarrow> unquote_to_bytes s \<noteq> []"
  by (cases s) (auto split: list.split option.split)

lemma all_ascii_subset: "all_ascii s \<Longrightarrow> set w \<subseteq> set s \<Longrightarrow> all_ascii w"
  unfolding all_ascii_def by blast

lemma all_ascii_plus: "all_ascii s \<Longrightarrow> all_ascii (plus_to_space s)"
  by (auto simp: all_ascii_def plus_to_space_def)

lemma decode_form_text_unquote:
  assumes "all_ascii raw" "decode_form_text raw = Some s"
  shows "unquote (plus_to_space raw) = s"
  using assms by (simp add: decode_form_text_def unquote_ascii all_ascii_plus utf8_decode_replace)

lemma decode_form_text_ok: "decode_form_text raw = Some s \<Longrightarrow> str_ok s"
  using utf8_decode_sound by (auto simp: decode_form_text_def)

lemma decode_form_text_ne: "decode_form_text raw = Some s \<Longrightarrow> raw \<noteq> [] \<Longrightarrow> s \<noteq> []"
  using utf8_decode_sound [of "unquote_to_bytes (plus_to_space raw)" s] unquote_to_bytes_ne [of "plus_to_space raw"]
  by (auto simp: decode_form_text_def plus_to_space_def utf8_bytes_def)

lemma parse_field_InrE:
  assumes "parse_field field = Inr (n, v)"
  obtains raw_name b raw_value where "field \<noteq> []" "py_partition 61 field = (raw_name, b, raw_value)"
    "raw_name \<noteq> []" "decode_form_text raw_name = Some n" "decode_form_text raw_value = Some v"
  using assms that
  by (cases "py_partition 61 field") (auto simp: parse_field_def split: if_splits option.splits)

lemma parse_field_ok: "parse_field field = Inr (n, v) \<Longrightarrow> n \<noteq> [] \<and> str_ok n \<and> str_ok v"
  by (elim parse_field_InrE) (simp add: decode_form_text_ok decode_form_text_ne)

lemma parse_field_lenient:
  assumes "all_ascii field" "parse_field field = Inr p"
  shows "field \<noteq> []" "parse_pair field = p"
proof -
  obtain n v where p: "p = (n, v)" by (cases p)
  from assms(2)[unfolded p] obtain raw_name b raw_value where
    f: "field \<noteq> []" "py_partition 61 field = (raw_name, b, raw_value)"
      "decode_form_text raw_name = Some n" "decode_form_text raw_value = Some v"
    by (elim parse_field_InrE)
  from py_partition_subset [OF f(2)] assms(1) have "all_ascii raw_name" "all_ascii raw_value"
    by (auto intro: all_ascii_subset)
  with f p show "field \<noteq> []" "parse_pair field = p"
    by (simp_all add: parse_pair_def decode_form_text_unquote)
qed

definition fields_ok :: "(pystr \<times> pystr) list \<Rightarrow> bool" where
  "fields_ok d \<longleftrightarrow> distinct (map fst d) \<and> (\<forall>(n, v) \<in> set d. n \<noteq> [] \<and> str_ok n \<and> str_ok v)"

lemma parse_fields_Inr:
  assumes "parse_fields parsed fs = Inr d" "fields_ok parsed"
  shows "fields_ok d \<and> length d = length parsed + length fs
     \<and> ((\<forall>f \<in> set fs. all_ascii f) \<longrightarrow> [] \<notin> set fs \<and> d = parsed @ map parse_pair fs)"
  using assms
proof (induction fs arbitrary: parsed)
  case (Cons f fs)
  then obtain n v where f: "parse_field f = Inr (n, v)" and new: "n \<notin> fst ` set parsed"
    and rest: "parse_fields (parsed @ [(n, v)]) fs = Inr d"
    by (auto simp: bindE_Inr_iff split: if_splits)
  have "fields_ok (parsed @ [(n, v)])"
    using Cons.prems(2) new parse_field_ok [OF f] by (auto simp: fields_ok_def)
  from Cons.IH [OF rest this] parse_field_lenient [OF _ f] show ?case by auto
qed simp

lemma parse_urlencoded_Inr:
  assumes "parse_urlencoded max_bytes max_fields raw = Inr d"
  shows "length raw \<le> max_bytes \<and> length d \<le> max_fields \<and> fields_ok d \<and> (all_ascii raw \<longrightarrow> parse_qsl raw = d)"
proof (cases "raw = []")
  case True
  with assms show ?thesis by (auto simp: parse_urlencoded_def fields_ok_def parse_qsl_def split: if_splits)
next
  case False
  with assms have l: "length raw \<le> max_bytes" "length (py_split_on 38 raw) \<le> max_fields"
    and run: "parse_fields [] (py_split_on 38 raw) = Inr d"
    by (auto simp: parse_urlencoded_def Let_def split: if_splits)
  from parse_fields_Inr [OF run] have d: "fields_ok d" "length d = length (py_split_on 38 raw)"
    "(\<forall>f \<in> set (py_split_on 38 raw). all_ascii f) \<Longrightarrow> [] \<notin> set (py_split_on 38 raw) \<and> d = map parse_pair (py_split_on 38 raw)"
    by (simp_all add: fields_ok_def)
  moreover have "parse_qsl raw = d" if "all_ascii raw"
  proof -
    have "\<forall>f \<in> set (py_split_on 38 raw). all_ascii f"
      using py_split_on_subset all_ascii_subset [OF that] by blast
    note e = d(3) [OF this]
    have "filter (\<lambda>item. item \<noteq> []) (py_split_on 38 raw) = py_split_on 38 raw"
      by (rule filter_True) (use e in auto)
    with e show ?thesis by (simp add: parse_qsl_def)
  qed
  ultimately show ?thesis using l by simp
qed

section \<open>What is encoded is accepted\<close>

lemma two_hex_quoted: "b < 256 \<Longrightarrow> two_hex (upper_hex (b div 16) # upper_hex (b mod 16) # r)"
proof -
  have "hex_digit (upper_hex v)" if "v < 16" for v
    using that by (auto simp: hex_digit_def ascii_digit_def upper_hex_def)
  moreover assume "b < 256"
  then have "b div 16 < 16" "b mod 16 < 16" by simp_all
  ultimately show ?thesis by (simp add: two_hex_def)
qed

lemma bad_percent_no: "37 \<notin> set s \<Longrightarrow> bad_percent (s @ r) = bad_percent r"
  by (induction s) auto

lemma quote_byte_no_percent: "unreserved_form b \<or> b = 32 \<Longrightarrow> 37 \<notin> set (quote_byte b)"
  by (auto simp: quote_byte_def unreserved_form_def ascii_alpha_def ascii_digit_def)

lemma upper_hex_no_percent: "upper_hex v \<noteq> 37"
  by (simp add: upper_hex_def)

lemma bad_percent_quoted:
  assumes "\<forall>b \<in> set bs. b < 256"
  shows "bad_percent (concat (map quote_byte bs) @ r) = bad_percent r"
  using assms
proof (induction bs)
  case (Cons b bs)
  then have IH: "bad_percent (concat (map quote_byte bs) @ r) = bad_percent r" and b: "b < 256" by simp_all
  show ?case
  proof (cases "unreserved_form b \<or> b = 32")
    case True
    then show ?thesis using IH by (simp add: bad_percent_no quote_byte_no_percent)
  next
    case False
    then have "quote_byte b = [37, upper_hex (b div 16), upper_hex (b mod 16)]" by (simp add: quote_byte_def)
    then show ?thesis using IH two_hex_quoted [OF b] upper_hex_no_percent by simp
  qed
qed simp

lemma quote_component_reads_back:
  assumes "str_ok s"
  shows "\<not> bad_percent (quote_component s)" "decode_form_text (quote_component s) = Some s"
proof -
  have v: "valid_str s" using assms by (simp add: str_ok_def valid_str_def)
  have b: "\<forall>b \<in> set (node_utf8_bytes s). b < 256" using node_utf8_bytes_byte [OF v] by blast
  show "\<not> bad_percent (quote_component s)"
    using bad_percent_quoted [OF b, of "[]"] by (simp add: quote_component_def)
  have "node_utf8_bytes s = utf8_bytes s"
    using assms normalize_id [of s] by (simp add: node_utf8_bytes_def str_ok_def)
  then show "decode_form_text (quote_component s) = Some s"
    using unquote_quote_bytes [OF b] assms by (simp add: decode_form_text_def quote_component_def utf8_decode_bytes)
qed

lemma quote_component_free:
  "str_ok s \<Longrightarrow> 38 \<notin> set (quote_component s) \<and> 61 \<notin> set (quote_component s)"
  using quote_component_quoted [of s] unfolding quoted_char_def str_ok_def valid_str_def by blast

lemma quote_component_ne: "str_ok s \<Longrightarrow> s \<noteq> [] \<Longrightarrow> quote_component s \<noteq> []"
  using quote_component_reads_back(2) [of s] by (auto simp: decode_form_text_def plus_to_space_def)

lemma parse_field_encoded:
  assumes "str_ok n" "str_ok v" "n \<noteq> []"
  shows "parse_field (quote_component n @ [61] @ quote_component v) = Inr (n, v)"
  using quote_component_reads_back [OF assms(1)] quote_component_reads_back [OF assms(2)]
    quote_component_ne [OF assms(1,3)] py_partition_append [of 61 "quote_component n"] quote_component_free [OF assms(1)]
  by (simp add: parse_field_def)

lemma parse_fields_encoded:
  assumes "fields_ok (parsed @ d)"
  shows "parse_fields parsed (map (\<lambda>(n, v). quote_component n @ [61] @ quote_component v) d) = Inr (parsed @ d)"
  using assms
proof (induction d arbitrary: parsed)
  case (Cons p d)
  obtain n v where p: "p = (n, v)" by (cases p)
  have "str_ok n" "str_ok v" "n \<noteq> []" "n \<notin> fst ` set parsed" using Cons.prems p by (auto simp: fields_ok_def)
  moreover have "fields_ok ((parsed @ [p]) @ d)" using Cons.prems by simp
  ultimately show ?case using Cons.IH [of "parsed @ [p]"] p by (simp add: parse_field_encoded [simplified])
qed simp

lemma form_encode_accepted:
  assumes "fields_ok d" "length d \<le> max_fields" "length (form_encode_query d) \<le> max_bytes"
  shows "parse_urlencoded max_bytes max_fields (form_encode_query d) = Inr d"
proof (cases "d = []")
  case False
  let ?ws = "map (\<lambda>(n, v). quote_component n @ [61] @ quote_component v) d"
  have "\<forall>w \<in> set ?ws. 38 \<notin> set w"
    using assms(1) quote_component_free by (fastforce simp: fields_ok_def)
  with False have "py_split_on 38 (form_encode_query d) = ?ws"
    unfolding form_encode_query_def by (intro split_join_amp) auto
  moreover have "form_encode_query d \<noteq> []"
  proof
    assume "form_encode_query d = []"
    with calculation have "?ws = [[]]" by simp
    then show False by (cases d) auto
  qed
  ultimately show ?thesis using assms parse_fields_encoded [of "[]" d] by (simp add: parse_urlencoded_def Let_def)
qed (simp add: parse_urlencoded_def form_encode_query_def)

section \<open>What a client sends\<close>

text \<open>The header a client builds (RFC 6749): both parts form-encoded, joined by a colon, in base64 with padding.\<close>

definition b64_std_char :: "nat \<Rightarrow> nat" where
  "b64_std_char v = (if v = 62 then 43 else if v = 63 then 47 else b64_char v)"

definition b64encode :: "nat list \<Rightarrow> pystr" where
  "b64encode bs = map b64_std_char (b64_sextets bs) @ replicate ((3 - length bs mod 3) mod 3) 61"

definition basic_header :: "pystr \<Rightarrow> pystr \<Rightarrow> pystr" where
  "basic_header client_id client_secret =
     lit ''Basic '' @ b64encode (quote_component client_id @ [58] @ quote_component client_secret)"

lemma b64_std_value_char: "v < 64 \<Longrightarrow> b64_std_value (b64_std_char v) = Some v"
  by (auto simp: b64_std_value_def b64_std_char_def b64_char_def)

lemma b64_std_char_plain: "v < 64 \<Longrightarrow> b64_std_char v \<noteq> 61 \<and> b64_std_char v < 128 \<and> \<not> py_isspace (b64_std_char v)"
  by (auto simp: b64_std_char_def b64_char_def py_isspace_def)

lemma a2b_step:
  assumes "v < 64"
  shows "a2b_loop 0 l p False (b64_std_char v # s) = a2b_loop 1 v 0 False s"
    "a2b_loop 1 l p False (b64_std_char v # s) = map_option (Cons (l * 4 + v div 16)) (a2b_loop 2 (v mod 16) 0 False s)"
    "a2b_loop 2 l p False (b64_std_char v # s) = map_option (Cons (l * 16 + v div 4)) (a2b_loop 3 (v mod 4) 0 False s)"
    "a2b_loop 3 l p False (b64_std_char v # s) = map_option (Cons (l * 64 + v)) (a2b_loop 0 0 0 False s)"
  using b64_std_char_plain [OF assms] by (simp_all add: b64_std_value_char [OF assms])

lemma a2b_end:
  "a2b_loop 0 l p False [] = Some []"
  "a2b_loop 2 l 0 False [61, 61] = Some []"
  "a2b_loop 3 l 0 False [61] = Some []"
  by simp_all

lemma sextet_arith:
  assumes "(b::nat) < 256"
  shows "a mod 4 * 16 + b div 16 < 64" "b mod 16 * 4 + c div 64 mod 4 < 64"
    "(a mod 4 * 16 + b div 16) div 16 = a mod 4" "(a mod 4 * 16 + b div 16) mod 16 = b div 16"
  using assms by simp_all

lemma a2b_loop_b64encode: "is_bytes bs \<Longrightarrow> a2b_loop 0 0 0 False (b64encode bs) = Some bs"
proof (induction bs rule: b64_sextets.induct)
  case (2 a)
  then have "a < 256" by (simp add: is_bytes_def)
  then have v: "a div 4 < 64" "a mod 4 * 16 < 64" and e: "a div 4 * 4 + a mod 4 * 16 div 16 = a" by simp_all
  have "b64encode [a] = [b64_std_char (a div 4), b64_std_char (a mod 4 * 16), 61, 61]"
    by (simp add: b64encode_def numeral_2_eq_2)
  then show ?case by (simp only: a2b_step [OF v(1)] a2b_step [OF v(2)] a2b_end e mod_mult_self2_is_0 option.map)
next
  case (3 a b)
  then have "a < 256" and b: "b < 256" by (simp_all add: is_bytes_def)
  then have v: "a div 4 < 64" "b mod 16 * 4 < 64"
    and e: "a div 4 * 4 + a mod 4 = a" "b div 16 * 16 + b mod 16 * 4 div 4 = b" by simp_all
  have "b64encode [a, b] = [b64_std_char (a div 4), b64_std_char (a mod 4 * 16 + b div 16), b64_std_char (b mod 16 * 4), 61]"
    by (simp add: b64encode_def)
  then show ?case
    by (simp only: a2b_step [OF v(1)] a2b_step [OF v(2)] a2b_step [OF sextet_arith(1) [OF b]] sextet_arith [OF b]
        a2b_end e mod_mult_self2_is_0 option.map)
next
  case (4 a b c r)
  then have "a < 256" and b: "b < 256" and c: "c < 256" and r: "a2b_loop 0 0 0 False (b64encode r) = Some r"
    by (simp_all add: is_bytes_def)
  have c4: "c div 64 < 4" using c by simp
  have v: "a div 4 < 64" "b mod 16 * 4 + c div 64 < 64" "c mod 64 < 64" using \<open>a < 256\<close> c4 by simp_all
  have m: "(b mod 16 * 4 + c div 64) div 4 = b mod 16" "(b mod 16 * 4 + c div 64) mod 4 = c div 64"
    using c4 by simp_all
  have e: "a div 4 * 4 + a mod 4 = a" "b div 16 * 16 + b mod 16 = b" "c div 64 * 64 + c mod 64 = c" by simp_all
  have "b64encode (a # b # c # r) = b64_std_char (a div 4) # b64_std_char (a mod 4 * 16 + b div 16)
      # b64_std_char (b mod 16 * 4 + c div 64) # b64_std_char (c mod 64) # b64encode r"
    by (simp add: b64encode_def)
  then show ?case
    by (simp only: a2b_step [OF v(1)] a2b_step [OF v(2)] a2b_step [OF v(3)] a2b_step [OF sextet_arith(1) [OF b]]
        sextet_arith [OF b] m e r option.map)
qed (simp add: b64encode_def)

lemma b64encode_chars:
  assumes "is_bytes bs" "c \<in> set (b64encode bs)"
  shows "c < 128 \<and> \<not> py_isspace c"
  using assms b64_sextets_less b64_std_char_plain
  by (auto simp: b64encode_def py_isspace_def)

lemma hd_b64encode: "is_bytes bs \<Longrightarrow> bs \<noteq> [] \<Longrightarrow> b64encode bs \<noteq> [] \<and> hd (b64encode bs) \<noteq> 61"
  by (cases bs rule: b64_sextets.cases) (auto simp: b64encode_def is_bytes_def b64_std_char_plain)

lemma b64decode_validate_b64encode:
  assumes "is_bytes bs" "bs \<noteq> []"
  shows "b64decode_validate (b64encode bs) = Inr bs"
  using assms hd_b64encode [OF assms] b64encode_chars [OF assms(1)]
  by (auto simp: b64decode_validate_def a2b_base64_def a2b_loop_b64encode all_ascii_def)

lemma length_b64encode: "length (b64encode bs) \<le> 2 * length bs + 2"
proof -
  have "(3 - length bs mod 3) mod 3 < 3" by (rule mod_less_divisor) simp
  then show ?thesis by (simp add: b64encode_def length_b64_sextets)
qed

lemma quote_component_bytes: "str_ok s \<Longrightarrow> is_bytes (quote_component s)"
  using quote_component_quoted [of s] by (fastforce simp: is_bytes_def quoted_char_def str_ok_def valid_str_def)

lemma quoted_no_colon: "b < 256 \<Longrightarrow> 58 \<notin> set (quote_byte b)"
  by (auto simp: quote_byte_def unreserved_form_def ascii_alpha_def ascii_digit_def upper_hex_def)

lemma quote_component_no_colon: "str_ok s \<Longrightarrow> 58 \<notin> set (quote_component s)"
  using quoted_no_colon node_utf8_bytes_byte [of s]
  by (auto simp: quote_component_def str_ok_def valid_str_def)

lemma quote_component_ascii: "str_ok s \<Longrightarrow> all_ascii (quote_component s)"
  using quote_component_quoted [of s] by (auto simp: all_ascii_def quoted_char_def str_ok_def valid_str_def)

lemma decode_component_quoted: "str_ok s \<Longrightarrow> decode_component (quote_component s) = Inr s"
  by (simp add: decode_component_def utf8_ascii quote_component_ascii quote_component_reads_back)

lemma basic_scheme: "py_partition 32 (lit ''Basic '' @ encoded) = (lit ''Basic'', True, encoded)"
  by (simp add: lit_def)

lemma basic_lower: "py_lower uni (lit ''Basic'') = lit ''basic''"
  by (simp add: lit_def py_lower_def ascii_lower_char_def)

lemma basic_credentials_header:
  assumes "str_ok client_id" "str_ok client_secret" "credential_limits client_id client_secret"
    and "length (basic_header client_id client_secret) \<le> 4102"
  shows "basic_credentials uni (basic_header client_id client_secret) =
    Inr \<lparr>cc_client_id = client_id, cc_client_secret = client_secret, cc_method = lit ''client_secret_basic''\<rparr>"
proof -
  define sent where "sent = quote_component client_id @ [58] @ quote_component client_secret"
  have bytes: "is_bytes sent" "sent \<noteq> []"
    using quote_component_bytes [OF assms(1)] quote_component_bytes [OF assms(2)] by (auto simp: sent_def is_bytes_def)
  have ascii: "all_ascii sent"
    using quote_component_ascii [OF assms(1)] quote_component_ascii [OF assms(2)] by (auto simp: sent_def all_ascii_def)
  have p: "py_partition 58 sent = (quote_component client_id, True, quote_component client_secret)"
    unfolding sent_def using py_partition_append [OF quote_component_no_colon [OF assms(1)]] by simp
  have h: "basic_header client_id client_secret = lit ''Basic '' @ b64encode sent"
    by (simp add: basic_header_def sent_def)
  have "length (b64encode sent) \<le> 4096" using assms(4) unfolding h by simp
  moreover have "\<not> (\<exists>c \<in> set (b64encode sent). py_isspace c)" using b64encode_chars [OF bytes(1)] by blast
  moreover have "b64encode sent \<noteq> []" using hd_b64encode [OF bytes] by blast
  ultimately show ?thesis
    unfolding h basic_credentials_def basic_scheme
    by (simp add: basic_lower b64decode_validate_b64encode [OF bytes] utf8_decode_ascii [OF ascii] p
        decode_component_quoted assms(1-3))
qed

lemma basic_credentials_Inr:
  "basic_credentials uni a = Inr c \<Longrightarrow> credential_limits (cc_client_id c) (cc_client_secret c)
     \<and> cc_method c = lit ''client_secret_basic''"
  by (auto simp: basic_credentials_def Let_def split: prod.splits if_splits sum.splits option.splits b64_error.splits)

lemma body_credentials_Inr:
  "body_credentials i s = Inr c \<Longrightarrow> i = Some (cc_client_id c) \<and> s = Some (cc_client_secret c)
     \<and> credential_limits (cc_client_id c) (cc_client_secret c) \<and> cc_method c = lit ''client_secret_post''"
  by (auto simp: body_credentials_def split: if_splits option.splits)

lemma extract_client_credentials_Inr:
  assumes "extract_client_credentials uni hs form = Inr c"
  shows "credential_limits (cc_client_id c) (cc_client_secret c) \<and>
    (if getlist hs ''authorization'' = []
     then map_of form (lit ''client_id'') = Some (cc_client_id c) \<and> map_of form (lit ''client_secret'') = Some (cc_client_secret c)
     else length (getlist hs ''authorization'') = 1
       \<and> map_of form (lit ''client_id'') = None \<and> map_of form (lit ''client_secret'') = None)"
  using assms basic_credentials_Inr body_credentials_Inr
  by (auto simp: extract_client_credentials_def Let_def split: if_splits)

text \<open>A Basic header outside ASCII does not become a client authentication error: the plain
  \<^verbatim>\<open>ValueError\<close> of \<^verbatim>\<open>base64\<close> passes through.\<close>

lemma non_ascii_basic_escapes:
  assumes "encoded \<noteq> []" "length encoded \<le> 4096" "\<forall>c \<in> set encoded. \<not> py_isspace c" "\<not> all_ascii encoded"
  shows "basic_credentials uni (lit ''Basic '' @ encoded)
    = Inl (PlainValueError (lit ''string argument should contain only ASCII characters''))"
  using assms by (simp add: basic_credentials_def basic_scheme basic_lower b64decode_validate_def not_less)

section \<open>Properties\<close>



text \<open>What is form-encoded is accepted: for fields with distinct non-empty names within the limits, the
  strict parser gives back exactly the fields that were encoded, in their order.\<close>

lemma form_fields_roundtrip:
  assumes "distinct (map fst d)" "list_all (\<lambda>(n, v). n \<noteq> [] \<and> str_ok n \<and> str_ok v) d"
    and "length d \<le> max_fields" "length (form_encode_query d) \<le> max_bytes"
  shows "parse_urlencoded max_bytes max_fields (form_encode_query d) = Inr d"
  using form_encode_accepted [OF _ assms(3,4)] assms(1,2) by (auto simp: fields_ok_def list_all_iff)

lemma form_fields_roundtrip_witness:
  "parse_urlencoded MAX_FORM_BYTES MAX_FIELDS (form_encode_query [(lit ''email'', lit ''a+b@x.kr''), (lit ''password'', [0xAC00, 38, 61])])
     = Inr [(lit ''email'', lit ''a+b@x.kr''), (lit ''password'', [0xAC00, 38, 61])]"
  by (rule form_fields_roundtrip) code_simp+

text \<open>HTTP Basic client authentication reads back the credentials a client sends: form-encoded, joined by
  a colon, in padded base64. Any id and secret within the limits come back unchanged as the one
  authentication method of the request.\<close>

lemma basic_credentials_roundtrip:
  assumes "str_ok client_id" "str_ok client_secret" "credential_limits client_id client_secret"
    and "length (basic_header client_id client_secret) \<le> 4102"
    and "getlist hs ''authorization'' = [basic_header client_id client_secret]"
    and "map_of form (lit ''client_id'') = None" "map_of form (lit ''client_secret'') = None"
  shows "extract_client_credentials uni hs form =
    Inr \<lparr>cc_client_id = client_id, cc_client_secret = client_secret, cc_method = lit ''client_secret_basic''\<rparr>"
  using basic_credentials_header [OF assms(1-4)] assms(5-7) by (simp add: extract_client_credentials_def)

lemma basic_credentials_roundtrip_witness:
  "extract_client_credentials (\<lambda>s. s) [(lit ''authorization'', lit ''Basic YXBwOmElM0E='')] [] =
     Inr \<lparr>cc_client_id = lit ''app'', cc_client_secret = lit ''a:'', cc_method = lit ''client_secret_basic''\<rparr>"
proof -
  have "basic_header (lit ''app'') (lit ''a:'') = lit ''Basic YXBwOmElM0E=''" by code_simp
  then show ?thesis
    using basic_credentials_roundtrip [of "lit ''app''" "lit ''a:''" "[(lit ''authorization'', lit ''Basic YXBwOmElM0E='')]" "[]" "\<lambda>s. s"]
    by (simp add: str_ok_lit credential_limits_def token_text_def getlist_def) (simp add: lit_def)
qed

end
