(* ===== verification/Oidc_Http.thy ===== *)
theory Oidc_Http
  imports Oidc_Parsing Oidc_Flows
begin

text \<open>
  \<^verbatim>\<open>api/oidc/app.py\<close>, \<^verbatim>\<open>api/oidc_dispatch.py\<close> and the error texts they answer with: the OIDC endpoints as
  functions from a request to a response over the world of the service. A request is what the ASGI server
  and Starlette hand over: the decoded path, the raw query, the headers decoded from Latin-1, the parsed
  cookies, the chunks of the body and the peer. A response is its status, headers, body, the address of a
  redirect and the cookies it sets and clears. The login page template is an argument. An endpoint that
  raises leaves the answer to the exception handler and to \<open>response_policy\<close>.
\<close>

section \<open>Requests and responses\<close>

record http_request =
  rq_method :: pystr
  rq_path :: pystr
  rq_query_string :: "nat list"
  rq_headers :: headers
  rq_cookies :: "(pystr \<times> pystr) list"
  rq_chunks :: "nat list list"
  rq_client :: "pystr option"

record http_response =
  hr_status :: nat
  hr_headers :: headers
  hr_body :: pystr
  hr_location :: "pystr option"
  hr_set_cookies :: "(pystr \<times> pystr) list"
  hr_cleared :: "pystr list"

definition plain_response :: "nat \<Rightarrow> pystr \<Rightarrow> pystr \<Rightarrow> http_response" where
  "plain_response status media body =
     \<lparr>hr_status = status, hr_headers = [(lit ''content-type'', media)], hr_body = body, hr_location = None,
      hr_set_cookies = [], hr_cleared = []\<rparr>"

definition JSONResponse :: "pydict \<Rightarrow> nat \<Rightarrow> http_response" where
  "JSONResponse content status = plain_response status (lit ''application/json'') (json_dumps False (PDict content))"

definition HTMLResponse :: "pystr \<Rightarrow> nat \<Rightarrow> http_response" where
  "HTMLResponse content status = plain_response status (lit ''text/html; charset=utf-8'') content"

definition RedirectResponse :: "pystr \<Rightarrow> nat \<Rightarrow> http_response" where
  "RedirectResponse url status =
     \<lparr>hr_status = status, hr_headers = [], hr_body = [], hr_location = Some url, hr_set_cookies = [], hr_cleared = []\<rparr>"

definition set_header :: "string \<Rightarrow> pystr \<Rightarrow> http_response \<Rightarrow> http_response" where
  "set_header name v r = r\<lparr>hr_headers := filter (\<lambda>h. fst h \<noteq> lit name) (hr_headers r) @ [(lit name, v)]\<rparr>"

definition oauth_error :: "pystr \<Rightarrow> pystr \<Rightarrow> nat \<Rightarrow> pystr option \<Rightarrow> http_response" where
  "oauth_error error description status_code authenticate =
     (let r = JSONResponse [(lit ''error'', PStr error), (lit ''error_description'', PStr description)] status_code in
      case authenticate of None \<Rightarrow> r | Some a \<Rightarrow> set_header ''www-authenticate'' a r)"

text \<open>\<^verbatim>\<open>urlencode\<close> raises for a surrogate, so this answer may raise too.\<close>

definition service_error_response :: "pystr \<Rightarrow> pystr \<Rightarrow> nat \<Rightarrow> pystr option \<Rightarrow> pystr option \<Rightarrow> bool \<Rightarrow> bool \<Rightarrow>
    exn + http_response" where
  "service_error_response error description status redirect_uri state www bearer =
     (case redirect_uri of
        Some uri \<Rightarrow>
          bindE (py_urlencode ([(lit ''error'', error), (lit ''error_description'', description)]
                   @ (case state of None \<Rightarrow> [] | Some s \<Rightarrow> [(lit ''state'', s)]))) (\<lambda>encoded.
          Inr (RedirectResponse (uri @ (if 63 \<in> set uri then [38] else [63]) @ encoded) 302))
      | None \<Rightarrow>
          Inr (oauth_error error description status
            (if \<not> www then None
             else Some (if bearer then lit ''Bearer error='' @ [34] @ error @ [34]
                        else lit ''Basic realm='' @ [34] @ lit ''oauth2/token'' @ [34]))))"

text \<open>The exception handlers of an endpoint for the errors of the service; anything else passes.\<close>

definition on_service_error :: "bool \<Rightarrow> exn \<Rightarrow> (world, http_response) act" where
  "on_service_error bearer e =
     (case e of
        OidcServiceError error description status redirect_uri state www \<Rightarrow>
          liftA (service_error_response error description status redirect_uri state www bearer)
      | _ \<Rightarrow> raiseA e)"

section \<open>Texts of the pages\<close>

definition expired_login_text :: pystr where
  "expired_login_text = [0xB85C, 0xADF8, 0xC778, 32, 0xC694, 0xCCAD, 0xC774, 32, 0xB9CC, 0xB8CC,
    0xB418, 0xC5C8, 0xAC70, 0xB098, 32, 0xC62C, 0xBC14, 0xB974, 0xC9C0, 32, 0xC54A, 0xC2B5, 0xB2C8,
    0xB2E4, 46]"

definition bad_password_text :: pystr where
  "bad_password_text = [0xC774, 0xBA54, 0xC77C, 32, 0xB610, 0xB294, 32, 0xBE44, 0xBC00, 0xBC88,
    0xD638, 0xB97C, 32, 0xD655, 0xC778, 0xD574, 32, 0xC8FC, 0xC138, 0xC694, 46]"

definition no_access_text :: pystr where
  "no_access_text = [0xC774, 32, 0xC11C, 0xBE44, 0xC2A4, 32, 0xC0AC, 0xC6A9, 32, 0xAD8C, 0xD55C,
    0xC774, 32, 0xC5C6, 0xC2B5, 0xB2C8, 0xB2E4, 46, 32, 0xAD00, 0xB9AC, 0xC790, 0xC5D0, 0xAC8C, 32,
    0xC694, 0xCCAD, 0xD558, 0xC138, 0xC694, 46]"

definition unavailable_text :: pystr where
  "unavailable_text = [0xB85C, 0xADF8, 0xC778, 32, 0xC11C, 0xBE44, 0xC2A4, 0xB97C, 32, 0xC77C,
    0xC2DC, 0xC801, 0xC73C, 0xB85C, 32, 0xC0AC, 0xC6A9, 0xD560, 32, 0xC218, 32, 0xC5C6, 0xC2B5,
    0xB2C8, 0xB2E4, 46]"

definition bad_provider_request_text :: pystr where
  "bad_provider_request_text = [0xC18C, 0xC15C, 32, 0xB85C, 0xADF8, 0xC778, 32, 0xC694, 0xCCAD,
    0xC774, 32, 0xC62C, 0xBC14, 0xB974, 0xC9C0, 32, 0xC54A, 0xC2B5, 0xB2C8, 0xB2E4, 46]"

definition bad_provider_response_text :: pystr where
  "bad_provider_response_text = [0xC18C, 0xC15C, 32, 0xB85C, 0xADF8, 0xC778, 32, 0xC751, 0xB2F5,
    0xC774, 32, 0xC62C, 0xBC14, 0xB974, 0xC9C0, 32, 0xC54A, 0xC2B5, 0xB2C8, 0xB2E4, 46]"

definition or_text :: pystr where
  "or_text = [0xB610, 0xB294]"

definition social_text :: pystr where
  "social_text = [0xC18C, 0xC15C, 32, 0xB85C, 0xADF8, 0xC778]"

definition error_title_text :: pystr where
  "error_title_text = [0xB85C, 0xADF8, 0xC778, 32, 0xC624, 0xB958]"

definition error_heading_text :: pystr where
  "error_heading_text = [0xB85C, 0xADF8, 0xC778, 0xD560, 32, 0xC218, 32, 0xC5C6, 0xC2B5, 0xB2C8,
    0xB2E4]"

definition escape_html_char :: "nat \<Rightarrow> pystr" where
  "escape_html_char c =
     (if c = 38 then lit ''&amp;'' else if c = 60 then lit ''&lt;'' else if c = 62 then lit ''&gt;''
      else if c = 34 then lit ''&quot;'' else if c = 39 then lit ''&#x27;'' else [c])"

definition html_escape :: "pystr \<Rightarrow> pystr" where
  "html_escape s = concat (map escape_html_char s)"

definition url_quote_byte :: "nat \<Rightarrow> pystr" where
  "url_quote_byte b =
     (if ascii_alpha b \<or> ascii_digit b \<or> b = 95 \<or> b = 46 \<or> b = 45 \<or> b = 126 then [b]
      else [37, upper_hex (b div 16), upper_hex (b mod 16)])"

definition url_quote :: "pystr \<Rightarrow> pystr" where
  "url_quote s = concat (map url_quote_byte (utf8_bytes s))"

function py_replace :: "pystr \<Rightarrow> pystr \<Rightarrow> pystr \<Rightarrow> pystr" where
  "py_replace old new [] = []"
| "py_replace old new (c # s) =
     (if old \<noteq> [] \<and> is_prefix old (c # s) then new @ py_replace old new (drop (length old) (c # s))
      else c # py_replace old new s)"
  by pat_completeness auto
termination
proof (relation "measure (\<lambda>(old, new, s). length s)", goal_cases)
  case (2 old new c s)
  then show ?case by (cases old) auto
qed auto

definition quoted :: "pystr \<Rightarrow> pystr" where
  "quoted s = [34] @ s @ [34]"

definition provider_label :: "OAuthProvider \<Rightarrow> pystr" where
  "provider_label p = (case p of google \<Rightarrow> lit ''Google'' | naver \<Rightarrow> lit ''Naver'' | kakao \<Rightarrow> lit ''Kakao'')"

definition provider_link :: "pystr \<Rightarrow> OAuthProvider \<Rightarrow> pystr" where
  "provider_link transaction_id p =
     lit ''<a href='' @ quoted (lit ''/oauth2/providers/'' @ provider_value p @ lit ''/start?transaction='' @ url_quote transaction_id)
     @ lit ''>'' @ provider_label p @ lit ''</a>''"

definition provider_block :: "pystr \<Rightarrow> OAuthProvider list \<Rightarrow> pystr" where
  "provider_block transaction_id providers =
     (if providers = [] then []
      else lit ''<div class='' @ quoted (lit ''oidc-divider'') @ lit ''><span>'' @ or_text @ lit ''</span></div>''
        @ lit ''<nav class='' @ quoted (lit ''oidc-providers'') @ lit '' aria-label='' @ quoted social_text @ lit ''>''
        @ concat (map (provider_link transaction_id) providers) @ lit ''</nav>'')"

definition error_block :: "pystr option \<Rightarrow> pystr" where
  "error_block error =
     (case error of None \<Rightarrow> []
      | Some message \<Rightarrow> lit ''<p class='' @ quoted (lit ''oidc-error'') @ lit '' role='' @ quoted (lit ''alert'') @ lit ''>''
          @ html_escape message @ lit ''</p>'')"

definition render_login ::
  "pystr \<Rightarrow> pystr \<Rightarrow> pystr \<Rightarrow> OAuthProvider list \<Rightarrow> pystr option \<Rightarrow> nat \<Rightarrow> http_response" where
  "render_login template transaction_id csrf providers error status_code =
     HTMLResponse
       (py_replace (lit ''{{PROVIDER_BLOCK}}'') (provider_block transaction_id providers)
         (py_replace (lit ''{{ERROR_BLOCK}}'') (error_block error)
           (py_replace (lit ''{{CSRF_TOKEN}}'') (html_escape csrf)
             (py_replace (lit ''{{TRANSACTION_URL}}'') (url_quote transaction_id)
               (py_replace (lit ''{{TRANSACTION}}'') (html_escape transaction_id) template)))))
       status_code"

definition login_error_page :: "pystr \<Rightarrow> nat \<Rightarrow> http_response" where
  "login_error_page message status_code =
     HTMLResponse
       (lit ''<!doctype html><html lang='' @ quoted (lit ''ko'') @ lit ''><meta charset='' @ quoted (lit ''utf-8'') @ lit ''>''
        @ lit ''<title>'' @ error_title_text @ lit ''</title><main><h1>'' @ error_heading_text @ lit ''</h1>''
        @ lit ''<p>'' @ html_escape message @ lit ''</p>'' @ lit ''</main></html>'')
       status_code"

section \<open>Reading a request\<close>

definition header_get :: "headers \<Rightarrow> string \<Rightarrow> pystr option" where
  "header_get hs name = map_of hs (lit name)"

definition AUTHORIZE_FIELDS :: "string list" where
  "AUTHORIZE_FIELDS = [''response_type'', ''client_id'', ''redirect_uri'', ''scope'', ''state'', ''nonce'',
     ''code_challenge'', ''code_challenge_method'', ''response_mode'', ''prompt'']"

definition TOKEN_FIELDS :: "string list" where
  "TOKEN_FIELDS = [''grant_type'', ''code'', ''redirect_uri'', ''code_verifier'', ''client_id'', ''client_secret'']"

definition PROVIDER_CALLBACK_FIELDS :: "string list" where
  "PROVIDER_CALLBACK_FIELDS = [''code'', ''state'', ''error'', ''error_description'']"

definition PROVIDER_INFORMATIONAL_FIELDS :: "string list" where
  "PROVIDER_INFORMATIONAL_FIELDS = [''scope'', ''authuser'', ''prompt'', ''hd'', ''iss'']"

definition allowed_only :: "string list \<Rightarrow> (pystr \<times> pystr) list \<Rightarrow> bool" where
  "allowed_only allowed d \<longleftrightarrow> list_all (\<lambda>p. fst p \<in> set (map lit allowed)) d"

definition query_values :: "http_request \<Rightarrow> string list \<Rightarrow> parse_error + (pystr \<times> pystr) list" where
  "query_values request allowed =
     bindE (parse_urlencoded MAX_QUERY_BYTES MAX_FIELDS (rq_query_string request)) (\<lambda>d.
     bindE (requireE (allowed_only allowed d) (ParseError (lit ''unsupported parameter''))) (\<lambda>_.
     Inr d))"

text \<open>\<^verbatim>\<open>int(str)\<close> of a header, which holds only Latin-1 characters: white space around, a sign, digits with
  single underscores between them, at most \<open>MAX_STR_DIGITS\<close> digits.\<close>

fun underscored :: "bool \<Rightarrow> pystr \<Rightarrow> pystr option" where
  "underscored after_digit [] = (if after_digit then Some [] else None)"
| "underscored after_digit (c # s) =
     (if ascii_digit c then map_option (Cons c) (underscored True s)
      else if c = 95 \<and> after_digit then underscored False s else None)"

definition py_int :: "pystr \<Rightarrow> int option" where
  "py_int s =
     (let t = py_strip s;
          negative = (t \<noteq> [] \<and> hd t = 45);
          digits = (if t \<noteq> [] \<and> (hd t = 45 \<or> hd t = 43) then tl t else t)
      in case underscored False digits of
           None \<Rightarrow> None
         | Some ds \<Rightarrow> if MAX_STR_DIGITS < length ds then None
                      else Some (if negative then - int (digits_value ds) else int (digits_value ds)))"

fun stream_body :: "nat list \<Rightarrow> nat list list \<Rightarrow> parse_error + nat list" where
  "stream_body body [] = Inr body"
| "stream_body body (chunk # chunks) =
     (if MAX_FORM_BYTES < length (body @ chunk) then Inl (ParseError (lit ''form is too large''))
      else stream_body (body @ chunk) chunks)"

definition check_content_type :: "(pystr \<Rightarrow> pystr) \<Rightarrow> pystr list \<Rightarrow> parse_error + unit" where
  "check_content_type uni content_types =
     (if length content_types \<noteq> 1 then Inl (ParseError (lit ''content type is required''))
      else (let pieces = map py_strip (py_split_on 59 (hd content_types)) in
            if py_lower uni (pieces ! 0) \<noteq> lit ''application/x-www-form-urlencoded''
            then Inl (ParseError (lit ''unsupported content type''))
            else if 2 < length pieces \<or> (length pieces = 2 \<and> py_lower uni (pieces ! 1) \<noteq> lit ''charset=utf-8'')
            then Inl (ParseError (lit ''unsupported content type parameter''))
            else Inr ()))"

definition check_content_length :: "pystr list \<Rightarrow> parse_error + unit" where
  "check_content_length content_lengths =
     (case content_lengths of
        [] \<Rightarrow> Inr ()
      | [v] \<Rightarrow> (case py_int v of
            None \<Rightarrow> Inl (ParseError (lit ''invalid content length''))
          | Some n \<Rightarrow> if n < 0 \<or> int MAX_FORM_BYTES < n then Inl (ParseError (lit ''invalid content length'')) else Inr ())
      | _ \<Rightarrow> Inl (ParseError (lit ''invalid content length'')))"

definition form_values :: "(pystr \<Rightarrow> pystr) \<Rightarrow> http_request \<Rightarrow> string list \<Rightarrow> parse_error + (pystr \<times> pystr) list" where
  "form_values uni request allowed =
     bindE (check_content_type uni (getlist (rq_headers request) ''content-type'')) (\<lambda>_.
     bindE (check_content_length (getlist (rq_headers request) ''content-length'')) (\<lambda>_.
     bindE (stream_body [] (rq_chunks request)) (\<lambda>body.
     bindE (parse_urlencoded MAX_FORM_BYTES MAX_FIELDS body) (\<lambda>d.
     bindE (requireE (allowed_only allowed d) (ParseError (lit ''unsupported form field''))) (\<lambda>_.
     Inr d)))))"

definition field_value :: "(pystr \<times> pystr) list \<Rightarrow> string \<Rightarrow> pystr" where
  "field_value d name = (case map_of d (lit name) of None \<Rightarrow> [] | Some v \<Rightarrow> v)"

definition required_fields :: "(pystr \<times> pystr) list \<Rightarrow> string list \<Rightarrow> parse_error + unit" where
  "required_fields d names =
     requireE (list_all (\<lambda>name. field_value d name \<noteq> []) names) (ParseError (lit ''missing required field''))"

definition control_char :: "nat \<Rightarrow> bool" where
  "control_char c \<longleftrightarrow> c < 32 \<or> (127 \<le> c \<and> c \<le> 159)"

definition bounded :: "pystr \<Rightarrow> nat \<Rightarrow> parse_error + pystr" where
  "bounded v limit =
     (if v = [] \<or> limit < length v \<or> list_ex control_char v then Inl (ParseError (lit ''invalid field value''))
      else Inr v)"

definition nonempty_sized :: "pystr \<Rightarrow> nat \<Rightarrow> parse_error + pystr" where
  "nonempty_sized v limit =
     (if v = [] \<or> limit < length v then Inl (ParseError (lit ''invalid field value'')) else Inr v)"

definition optional_bounded :: "(pystr \<times> pystr) list \<Rightarrow> string \<Rightarrow> nat \<Rightarrow> parse_error + pystr option" where
  "optional_bounded d name limit =
     (case map_of d (lit name) of None \<Rightarrow> Inr None | Some v \<Rightarrow> bindE (bounded v limit) (\<lambda>v'. Inr (Some v')))"

definition path_provider :: "pystr \<Rightarrow> parse_error + OAuthProvider" where
  "path_provider v =
     (if v = lit ''google'' then Inr google else if v = lit ''naver'' then Inr naver
      else if v = lit ''kakao'' then Inr kakao else Inl (ParseError (lit ''unsupported provider'')))"

definition request_context :: "http_request \<Rightarrow> OidcRequestContext" where
  "request_context request =
     \<lparr>orc_ip_address = (case rq_client request of None \<Rightarrow> None | Some a \<Rightarrow> if 255 < length a then None else Some a),
      orc_user_agent = (case header_get (rq_headers request) ''user-agent'' of None \<Rightarrow> None
        | Some ua \<Rightarrow> if list_ex control_char ua then None
                     else (let t = take 512 (py_strip ua) in if t = [] then None else Some t))\<rparr>"

definition require_origin :: "http_request \<Rightarrow> pystr \<Rightarrow> parse_error + unit" where
  "require_origin request public_origin =
     requireE (getlist (rq_headers request) ''origin'' = [public_origin]) (ParseError (lit ''invalid origin''))"

definition bearer_token :: "(pystr \<Rightarrow> pystr) \<Rightarrow> http_request \<Rightarrow> parse_error + pystr" where
  "bearer_token uni request =
     (case getlist (rq_headers request) ''authorization'' of
        [a] \<Rightarrow> (case py_partition 32 a of
            (scheme, separator, v) \<Rightarrow>
              if \<not> separator \<or> py_lower uni scheme \<noteq> lit ''bearer'' \<or> v = []
                 \<or> list_ex (\<lambda>c. py_isspace c \<or> c < 33) v \<or> 4096 < length v
              then Inl (ParseError (lit ''invalid bearer token'')) else Inr v)
      | _ \<Rightarrow> Inl (ParseError (lit ''missing bearer token'')))"

section \<open>Cookies\<close>

definition cookie_suffix :: "runtime \<Rightarrow> pystr \<Rightarrow> pystr" where
  "cookie_suffix R transaction_id = take 24 (hexdigest (ae_sha256 (rt_env R) (utf8_bytes transaction_id)))"

definition cookie_names :: "runtime \<Rightarrow> pystr \<Rightarrow> pystr \<times> pystr" where
  "cookie_names R transaction_id =
     (lit ''wiseacct_oidc_binding_'' @ cookie_suffix R transaction_id, lit ''wiseacct_oidc_csrf_'' @ cookie_suffix R transaction_id)"

definition set_transaction_cookies :: "runtime \<Rightarrow> AuthorizationStart \<Rightarrow> http_response \<Rightarrow> http_response" where
  "set_transaction_cookies R start r =
     (case cookie_names R (ast_transaction_id start) of
        (binding_name, csrf_name) \<Rightarrow>
          r\<lparr>hr_set_cookies := [(binding_name, ast_browser_binding start), (csrf_name, ast_csrf_token start)]\<rparr>)"

definition transaction_cookies :: "runtime \<Rightarrow> http_request \<Rightarrow> pystr \<Rightarrow> pystr option \<times> pystr option" where
  "transaction_cookies R request transaction_id =
     (case cookie_names R transaction_id of
        (binding_name, csrf_name) \<Rightarrow> (map_of (rq_cookies request) binding_name, map_of (rq_cookies request) csrf_name))"

definition clear_transaction_cookies :: "runtime \<Rightarrow> pystr \<Rightarrow> http_response \<Rightarrow> http_response" where
  "clear_transaction_cookies R transaction_id r =
     (case cookie_names R transaction_id of
        (binding_name, csrf_name) \<Rightarrow> r\<lparr>hr_cleared := [binding_name, csrf_name]\<rparr>)"

definition present :: "pystr option \<Rightarrow> string \<Rightarrow> parse_error + pystr" where
  "present cookie message = (case cookie of
     Some v \<Rightarrow> if v = [] then Inl (ParseError (lit message)) else Inr v
   | None \<Rightarrow> Inl (ParseError (lit message)))"

section \<open>Endpoints\<close>

text \<open>Every endpoint has the same shape: read the request, answer a malformed one, call the service, answer
  its error or its result. The \<^verbatim>\<open>ValueError\<close> of \<^verbatim>\<open>base64\<close> is no \<^verbatim>\<open>ParseError\<close> and leaves the endpoint.\<close>

definition endpoint ::
  "(parse_error \<Rightarrow> http_response) \<Rightarrow> parse_error + 'i \<Rightarrow> ('i \<Rightarrow> (world, http_response) act) \<Rightarrow> (world, http_response) act" where
  "endpoint malformed parsed serve =
     (case parsed of
        Inl (PlainValueError m) \<Rightarrow> raiseA (ValueError m)
      | Inl e \<Rightarrow> retA (malformed e)
      | Inr i \<Rightarrow> serve i)"

definition authorize_input :: "http_request \<Rightarrow> parse_error + AuthorizationRequest" where
  "authorize_input request =
     bindE (query_values request AUTHORIZE_FIELDS) (\<lambda>d.
     bindE (required_fields d [''response_type'', ''client_id'', ''redirect_uri'', ''scope'']) (\<lambda>_.
     bindE (bounded (field_value d ''response_type'') 32) (\<lambda>response_type.
     bindE (bounded (field_value d ''client_id'') 128) (\<lambda>client_id.
     bindE (bounded (field_value d ''redirect_uri'') 2048) (\<lambda>redirect_uri.
     bindE (bounded (field_value d ''scope'') 1024) (\<lambda>scope_text.
     bindE (optional_bounded d ''state'' 512) (\<lambda>state.
     bindE (optional_bounded d ''nonce'' 512) (\<lambda>nonce.
     bindE (optional_bounded d ''code_challenge'' 128) (\<lambda>challenge.
     bindE (optional_bounded d ''code_challenge_method'' 16) (\<lambda>challenge_method.
     bindE (optional_bounded d ''prompt'' 64) (\<lambda>prompt.
     bindE (optional_bounded d ''response_mode'' 16) (\<lambda>response_mode.
     bindE (requireE (response_mode = None \<or> response_mode = Some (lit ''query''))
              (ParseError (lit ''unsupported response mode''))) (\<lambda>_.
     Inr \<lparr>arq_client_id = client_id, arq_redirect_uri = redirect_uri, arq_response_type = response_type,
          arq_scopes = py_split_ws scope_text, arq_state = state, arq_nonce = nonce,
          arq_code_challenge = challenge, arq_code_challenge_method = challenge_method, arq_prompt = prompt\<rparr>)))))))))))))"

definition authorize_endpoint :: "OidcService \<Rightarrow> runtime \<Rightarrow> http_request \<Rightarrow> (world, http_response) act" where
  "authorize_endpoint S R request =
     endpoint (\<lambda>_. oauth_error (lit ''invalid_request'') (lit ''Invalid authorization request'') 400 None)
       (authorize_input request) (\<lambda>input.
       bindA (catchA
         (bindA (begin_authorization S R input) (\<lambda>start. retA (Inr start)))
         (\<lambda>e. bindA (on_service_error False e) (\<lambda>r. retA (Inl r)))) (\<lambda>answer.
       case answer of
         Inl r \<Rightarrow> retA r
       | Inr start \<Rightarrow>
           bindA (liftA (py_urlencode [(lit ''transaction'', ast_transaction_id start)])) (\<lambda>encoded.
           retA (set_transaction_cookies R start (RedirectResponse (lit ''/oauth2/login?'' @ encoded) 303)))))"

definition one_transaction :: "(pystr \<times> pystr) list \<Rightarrow> parse_error + pystr" where
  "one_transaction d =
     bindE (required_fields d [''transaction'']) (\<lambda>_. bounded (field_value d ''transaction'') 512)"

definition login_page_input :: "runtime \<Rightarrow> http_request \<Rightarrow> parse_error + (pystr \<times> pystr)" where
  "login_page_input R request =
     bindE (query_values request [''transaction'']) (\<lambda>d.
     bindE (one_transaction d) (\<lambda>transaction_id.
     case transaction_cookies R request transaction_id of
       (binding, csrf) \<Rightarrow>
         bindE (present binding ''missing transaction cookie'') (\<lambda>_.
         bindE (present csrf ''missing transaction cookie'') (\<lambda>csrf_token.
         Inr (transaction_id, csrf_token)))))"

definition login_page :: "runtime \<Rightarrow> pystr \<Rightarrow> OAuthProvider list \<Rightarrow> http_request \<Rightarrow> (world, http_response) act" where
  "login_page R template providers request =
     endpoint (\<lambda>_. login_error_page expired_login_text 400) (login_page_input R request) (\<lambda>(transaction_id, csrf).
       retA (render_login template transaction_id csrf providers None 200))"

record login_input =
  li_transaction :: pystr
  li_binding :: pystr
  li_csrf :: pystr
  li_email :: pystr
  li_password :: pystr

definition password_login_input :: "runtime \<Rightarrow> pystr \<Rightarrow> http_request \<Rightarrow> parse_error + login_input" where
  "password_login_input R origin request =
     bindE (require_origin request origin) (\<lambda>_.
     bindE (form_values (rt_lower R) request [''transaction'', ''csrf_token'', ''email'', ''password'']) (\<lambda>d.
     bindE (required_fields d [''transaction'', ''csrf_token'', ''email'', ''password'']) (\<lambda>_.
     bindE (bounded (field_value d ''transaction'') 512) (\<lambda>transaction_id.
     bindE (bounded (field_value d ''csrf_token'') 512) (\<lambda>csrf.
     bindE (bounded (field_value d ''email'') 320) (\<lambda>email.
     bindE (nonempty_sized (field_value d ''password'') 1024) (\<lambda>password.
     case transaction_cookies R request transaction_id of
       (binding, cookie_csrf) \<Rightarrow>
         bindE (present binding ''invalid browser transaction'') (\<lambda>browser_binding.
         bindE (present cookie_csrf ''invalid browser transaction'') (\<lambda>cookie.
         bindE (requireE (cookie = csrf) (ParseError (lit ''invalid browser transaction''))) (\<lambda>_.
         Inr \<lparr>li_transaction = transaction_id, li_binding = browser_binding, li_csrf = csrf,
              li_email = email, li_password = password\<rparr>))))))))))"

definition login_failure_text :: "pystr \<Rightarrow> nat \<Rightarrow> pystr" where
  "login_failure_text error status =
     (if error = lit ''access_denied'' \<and> status = 403 then no_access_text
      else if 500 \<le> status then unavailable_text else expired_login_text)"

definition serve_password_login ::
  "OidcService \<Rightarrow> runtime \<Rightarrow> pystr \<Rightarrow> OAuthProvider list \<Rightarrow> http_request \<Rightarrow> login_input \<Rightarrow> (world, http_response) act" where
  "serve_password_login S R template providers request input =
     catchA
       (bindA (oidc_password_login S R (li_transaction input) (li_binding input) (li_csrf input) (li_email input)
                (li_password input) (request_context request)) (\<lambda>redirect_url.
        retA (clear_transaction_cookies R (li_transaction input) (RedirectResponse redirect_url 303))))
       (\<lambda>e. case e of
          DomainError status code message \<Rightarrow>
            retA (render_login template (li_transaction input) (li_csrf input) providers (Some bad_password_text) 401)
        | OidcServiceError error description status redirect_uri state www \<Rightarrow>
            retA (clear_transaction_cookies R (li_transaction input)
                   (login_error_page (login_failure_text error status) status))
        | _ \<Rightarrow> raiseA e)"

definition password_login_endpoint ::
  "OidcService \<Rightarrow> runtime \<Rightarrow> pystr \<Rightarrow> pystr \<Rightarrow> OAuthProvider list \<Rightarrow> http_request \<Rightarrow> (world, http_response) act" where
  "password_login_endpoint S R origin template providers request =
     endpoint (\<lambda>_. login_error_page expired_login_text 400) (password_login_input R origin request)
       (serve_password_login S R template providers request)"

definition provider_start_input :: "runtime \<Rightarrow> pystr \<Rightarrow> http_request \<Rightarrow> parse_error + (OAuthProvider \<times> pystr \<times> pystr)" where
  "provider_start_input R provider request =
     bindE (path_provider provider) (\<lambda>selected.
     bindE (query_values request [''transaction'']) (\<lambda>d.
     bindE (one_transaction d) (\<lambda>transaction_id.
     bindE (present (fst (transaction_cookies R request transaction_id)) ''missing browser binding'') (\<lambda>binding.
     Inr (selected, transaction_id, binding)))))"

definition provider_start_endpoint ::
  "OidcService \<Rightarrow> runtime \<Rightarrow> pystr \<Rightarrow> http_request \<Rightarrow> (world, http_response) act" where
  "provider_start_endpoint S R provider request =
     endpoint (\<lambda>_. login_error_page bad_provider_request_text 400) (provider_start_input R provider request)
       (\<lambda>(selected, transaction_id, binding).
       catchA
         (bindA (provider_start S R transaction_id binding selected) (\<lambda>destination.
          retA (RedirectResponse destination 302)))
         (\<lambda>e. case e of
            OidcServiceError error description status redirect_uri state www \<Rightarrow> retA (login_error_page description status)
          | _ \<Rightarrow> raiseA e))"

datatype callback_input =
    CallbackError OAuthProvider pystr pystr pystr
  | CallbackCode OAuthProvider pystr pystr pystr pystr

primrec callback_transaction :: "callback_input \<Rightarrow> pystr" where
  "callback_transaction (CallbackError p state transaction_id binding) = transaction_id"
| "callback_transaction (CallbackCode p code state transaction_id binding) = transaction_id"

definition provider_callback_input :: "runtime \<Rightarrow> pystr \<Rightarrow> http_request \<Rightarrow> parse_error + callback_input" where
  "provider_callback_input R provider request =
     bindE (path_provider provider) (\<lambda>selected.
     bindE (query_values request (PROVIDER_CALLBACK_FIELDS @ PROVIDER_INFORMATIONAL_FIELDS)) (\<lambda>d.
     bindE (required_fields d [''state'']) (\<lambda>_.
     bindE (bounded (field_value d ''state'') 512) (\<lambda>state.
     case provider_state_transaction_id state of
       None \<Rightarrow> Inl (ParseError (lit ''invalid provider state''))
     | Some transaction_id \<Rightarrow>
         bindE (present (fst (transaction_cookies R request transaction_id)) ''missing browser binding'') (\<lambda>binding.
         case map_of d (lit ''error'') of
           Some error \<Rightarrow>
             bindE (bounded error 128) (\<lambda>_.
             bindE (optional_bounded d ''error_description'' 512) (\<lambda>_.
             bindE (requireE (map_of d (lit ''code'') = None) (ParseError (lit ''invalid provider callback''))) (\<lambda>_.
             Inr (CallbackError selected state transaction_id binding))))
         | None \<Rightarrow>
             bindE (requireE (map_of d (lit ''error_description'') = None) (ParseError (lit ''invalid provider callback''))) (\<lambda>_.
             bindE (required_fields d [''code'']) (\<lambda>_.
             bindE (bounded (field_value d ''code'') 4096) (\<lambda>code.
             Inr (CallbackCode selected code state transaction_id binding)))))))))"

definition serve_callback ::
  "OidcService \<Rightarrow> runtime \<Rightarrow> http_request \<Rightarrow> callback_input \<Rightarrow> (world, pystr) act" where
  "serve_callback S R request input =
     (case input of
        CallbackError p state transaction_id binding \<Rightarrow>
          bindA (provider_error R p state binding (request_context request)) (\<lambda>_.
          raiseA (RuntimeError (lit ''provider_error returned'')))
      | CallbackCode p code state transaction_id binding \<Rightarrow>
          provider_callback S R p code state binding (request_context request))"

definition provider_callback_endpoint ::
  "OidcService \<Rightarrow> runtime \<Rightarrow> pystr \<Rightarrow> http_request \<Rightarrow> (world, http_response) act" where
  "provider_callback_endpoint S R provider request =
     endpoint (\<lambda>_. login_error_page bad_provider_response_text 400) (provider_callback_input R provider request)
       (\<lambda>input.
       catchA
         (bindA (serve_callback S R request input) (\<lambda>redirect_url.
          retA (clear_transaction_cookies R (callback_transaction input) (RedirectResponse redirect_url 303))))
         (\<lambda>e. case e of
            OidcServiceError error description status redirect_uri state www \<Rightarrow>
              retA (clear_transaction_cookies R (callback_transaction input) (login_error_page description status))
          | _ \<Rightarrow> raiseA e))"

definition token_input :: "runtime \<Rightarrow> http_request \<Rightarrow> parse_error + TokenExchangeInput" where
  "token_input R request =
     bindE (form_values (rt_lower R) request TOKEN_FIELDS) (\<lambda>d.
     bindE (extract_client_credentials (rt_lower R) (rq_headers request) d) (\<lambda>credentials.
     bindE (required_fields d [''grant_type'', ''code'', ''redirect_uri'']) (\<lambda>_.
     bindE (optional_bounded d ''code_verifier'' 128) (\<lambda>code_verifier.
     bindE (bounded (field_value d ''grant_type'') 64) (\<lambda>grant_type.
     bindE (bounded (field_value d ''code'') 4096) (\<lambda>code.
     bindE (bounded (field_value d ''redirect_uri'') 2048) (\<lambda>redirect_uri.
     Inr \<lparr>tei_client_id = cc_client_id credentials, tei_client_secret = cc_client_secret credentials,
          tei_grant_type = grant_type, tei_code = code, tei_redirect_uri = redirect_uri,
          tei_code_verifier = code_verifier\<rparr>)))))))"

definition query_refused :: http_response where
  "query_refused = oauth_error (lit ''invalid_request'') (lit ''Query parameters are not allowed'') 400 None"

definition token_malformed :: "parse_error \<Rightarrow> http_response" where
  "token_malformed e =
     (case e of
        ClientAuthenticationError m \<Rightarrow>
          oauth_error (lit ''invalid_client'') (lit ''Client authentication failed'') 401
            (Some (lit ''Basic realm='' @ quoted (lit ''oauth2/token'')))
      | _ \<Rightarrow> oauth_error (lit ''invalid_request'') (lit ''Invalid token request'') 400 None)"

definition token_json :: "TokenResponse \<Rightarrow> http_response" where
  "token_json r = JSONResponse
     [(lit ''access_token'', PStr (trs_access_token r)), (lit ''token_type'', PStr (lit ''Bearer'')),
      (lit ''expires_in'', PInt (trs_expires_in r)), (lit ''id_token'', PStr (trs_id_token r))] 200"

definition token_endpoint :: "OidcService \<Rightarrow> runtime \<Rightarrow> http_request \<Rightarrow> (world, http_response) act" where
  "token_endpoint S R request =
     (if rq_query_string request \<noteq> [] then retA query_refused
      else endpoint token_malformed (token_input R request) (\<lambda>input.
        catchA (bindA (exchange_code S R input (request_context request)) (\<lambda>r. retA (token_json r)))
          (on_service_error False)))"

definition userinfo_json :: "UserInfo \<Rightarrow> http_response" where
  "userinfo_json r = JSONResponse
     ([(lit ''sub'', PStr (ui_sub r)), (lit ''email'', PStr (ui_email r)), (lit ''email_verified'', PBool True),
       (lit ''groups'', PList (map PStr (ui_groups r)))]
      @ (case ui_name r of None \<Rightarrow> [] | Some n \<Rightarrow> [(lit ''name'', PStr n)])) 200"

definition userinfo_endpoint :: "OidcService \<Rightarrow> runtime \<Rightarrow> http_request \<Rightarrow> (world, http_response) act" where
  "userinfo_endpoint S R request =
     (if rq_query_string request \<noteq> [] then retA query_refused
      else endpoint
        (\<lambda>_. oauth_error (lit ''invalid_token'') (lit ''A valid bearer token is required'') 401 (Some (lit ''Bearer'')))
        (bearer_token (rt_lower R) request) (\<lambda>token.
        catchA (bindA (userinfo S R token) (\<lambda>r. retA (userinfo_json r))) (on_service_error True)))"

section \<open>The application\<close>

definition with_policy :: "http_response \<Rightarrow> http_response" where
  "with_policy r = set_header ''x-content-type-options'' (lit ''nosniff'')
     (set_header ''pragma'' (lit ''no-cache'') (set_header ''cache-control'' (lit ''no-store'') r))"

definition internal_error :: http_response where
  "internal_error = oauth_error (lit ''server_error'') (lit ''The request could not be completed'') 500 None"

text \<open>The exception handlers of the application, then its middleware.\<close>

definition service_error_handler :: "exn + http_response \<Rightarrow> exn + http_response" where
  "service_error_handler r =
     (case r of
        Inl (OidcServiceError error description status redirect_uri state www) \<Rightarrow>
          service_error_response error description status redirect_uri state www False
      | _ \<Rightarrow> r)"

definition response_policy :: "(world, http_response) act \<Rightarrow> world \<Rightarrow> http_response \<times> world" where
  "response_policy handler w =
     (case handler w of (r, w') \<Rightarrow>
        (with_policy (case service_error_handler r of Inl e \<Rightarrow> internal_error | Inr response \<Rightarrow> response), w'))"

definition http_error :: "nat \<Rightarrow> http_response" where
  "http_error status =
     oauth_error (lit ''invalid_request'') (lit ''The requested OIDC endpoint or method is not available'') status None"

definition one_segment :: "pystr \<Rightarrow> bool" where
  "one_segment s \<longleftrightarrow> s \<noteq> [] \<and> 47 \<notin> set s"

text \<open>The route patterns end in \<^verbatim>\<open>$\<close>, which also matches before one trailing newline.\<close>

definition routed_path :: "pystr \<Rightarrow> pystr" where
  "routed_path path = (if path \<noteq> [] \<and> last path = 10 then butlast path else path)"

text \<open>The provider of \<^verbatim>\<open>/oauth2/providers/{provider}/start\<close> or \<^verbatim>\<open>callback\<close>.\<close>

definition provider_segment :: "pystr \<Rightarrow> pystr \<Rightarrow> pystr option" where
  "provider_segment action path =
     (let prefix = lit ''/oauth2/providers/''; suffix = 47 # action;
          middle = take (length path - length prefix - length suffix) (drop (length prefix) path)
      in if is_prefix prefix path \<and> path = prefix @ middle @ suffix \<and> one_segment middle then Some middle else None)"

record oidc_site =
  os_service :: OidcService
  os_runtime :: runtime
  os_origin :: pystr
  os_providers :: "OAuthProvider list"
  os_template :: pystr
  os_css :: pystr

definition known_route :: "oidc_site \<Rightarrow> http_request \<Rightarrow> (pystr \<times> (world, http_response) act) list" where
  "known_route site request =
     (let S = os_service site; R = os_runtime site; path = routed_path (rq_path request) in
        (if path = lit ''/oauth2/assets/login.css''
         then [(lit ''GET'', retA (plain_response 200 (lit ''text/css; charset=utf-8'') (os_css site)))] else [])
      @ (if path = lit ''/oauth2/authorize'' then [(lit ''GET'', authorize_endpoint S R request)] else [])
      @ (if path = lit ''/oauth2/login''
         then [(lit ''GET'', login_page R (os_template site) (os_providers site) request),
               (lit ''POST'', password_login_endpoint S R (os_origin site) (os_template site) (os_providers site) request)]
         else [])
      @ (case provider_segment (lit ''start'') path of None \<Rightarrow> []
           | Some p \<Rightarrow> [(lit ''GET'', provider_start_endpoint S R p request)])
      @ (case provider_segment (lit ''callback'') path of None \<Rightarrow> []
           | Some p \<Rightarrow> [(lit ''GET'', provider_callback_endpoint S R p request)])
      @ (if path = lit ''/oauth2/token'' then [(lit ''POST'', token_endpoint S R request)] else [])
      @ (if path = lit ''/oauth2/userinfo'' then [(lit ''GET'', userinfo_endpoint S R request)] else []))"

definition oidc_app :: "oidc_site \<Rightarrow> http_request \<Rightarrow> world \<Rightarrow> http_response \<times> world" where
  "oidc_app site request =
     (let routes = known_route site request in
      response_policy
        (if routes = [] then retA (http_error 404)
         else case map_of routes (rq_method request) of
                None \<Rightarrow> retA (http_error 405)
              | Some handler \<Rightarrow> handler))"

text \<open>\<^verbatim>\<open>_canonical_origin\<close> and the checks of \<^verbatim>\<open>build_oidc_app\<close>.\<close>

definition py_rstrip_slash :: "pystr \<Rightarrow> pystr" where
  "py_rstrip_slash s = rev (dropWhile (\<lambda>c. c = 47) (rev s))"

definition canonical_origin :: "url_env \<Rightarrow> pystr \<Rightarrow> exn + pystr" where
  "canonical_origin E v =
     (case urlsplit E v of
        None \<Rightarrow> Inl (ValueError (lit ''Invalid URL''))
      | Some parsed \<Rightarrow>
          if url_scheme parsed \<noteq> lit ''https'' \<or> url_hostname E parsed = None \<or> url_path parsed \<notin> {[], [47]}
             \<or> url_query parsed \<noteq> [] \<or> url_fragment parsed \<noteq> [] \<or> url_has_userinfo parsed
          then Inl (ValueError (lit ''OIDC public origin must be a canonical HTTPS origin''))
          else Inr (py_rstrip_slash v))"

definition build_oidc_app ::
  "url_env \<Rightarrow> OidcService \<Rightarrow> runtime \<Rightarrow> pystr \<Rightarrow> OAuthProvider list \<Rightarrow> pystr \<Rightarrow> pystr \<Rightarrow> exn + oidc_site" where
  "build_oidc_app E S R public_origin providers template css =
     bindE (canonical_origin E public_origin) (\<lambda>origin.
     bindE (requireE (distinct providers) (ValueError (lit ''OIDC providers must be unique supported providers''))) (\<lambda>_.
     Inr \<lparr>os_service = S, os_runtime = R, os_origin = origin, os_providers = providers, os_template = template, os_css = css\<rparr>))"

section \<open>The dispatch in front of it\<close>

definition dispatch_error :: "nat \<Rightarrow> string \<Rightarrow> http_response" where
  "dispatch_error status error =
     (let r = set_header ''pragma'' (lit ''no-cache'') (set_header ''cache-control'' (lit ''no-store'')
                (JSONResponse [(lit ''error'', PStr (lit error))] status))
      in if status = 429 then set_header ''retry-after'' (lit ''60'') r else r)"

definition oidc_path :: "pystr \<Rightarrow> bool" where
  "oidc_path path \<longleftrightarrow> path = lit ''/oauth2'' \<or> is_prefix (lit ''/oauth2/'') path"

text \<open>Nothing for a path outside the namespace: the request goes on to the rest of the application.\<close>

definition oidc_dispatch :: "oidc_site \<Rightarrow> http_request \<Rightarrow> world \<Rightarrow> (http_response \<times> world) option" where
  "oidc_dispatch site request w =
     (if \<not> oidc_path (rq_path request) then None
      else (let address = (case rq_client request of None \<Rightarrow> lit ''unknown'' | Some a \<Rightarrow> a) in
        Some (case rate_check (os_runtime site) (rq_path request) address w of
                (Inl e, w1) \<Rightarrow> (dispatch_error 503 ''temporarily_unavailable'', w1)
              | (Inr allowed, w1) \<Rightarrow>
                  if allowed then oidc_app site request w1 else (dispatch_error 429 ''slow_down'', w1))))"

end
