(* ===== verification/Oidc_Http_Flow.thy ===== *)
theory Oidc_Http_Flow
  imports Oidc_Http
begin

text \<open>
  What the HTTP boundary adds to the provider: an access token leaves only through a token exchange the service
  granted, the login form is served only to the browser that started the login, and that browser's form reaches the
  service with exactly the transaction, the binding and the CSRF token of its start.
\<close>

section \<open>Only the strict errors\<close>

definition strict :: "parse_error + 'a \<Rightarrow> bool" where
  "strict r \<longleftrightarrow> (case r of Inl (PlainValueError m) \<Rightarrow> False | _ \<Rightarrow> True)"

named_theorems strict_intros "results that are never a plain ValueError"

lemma strict_simps [simp]:
  "strict (Inr a)" "strict (Inl (ParseError m))" "strict (Inl (ClientAuthenticationError m))"
  "\<not> strict (Inl (PlainValueError m))"
  by (simp_all add: strict_def)

lemma strict_bindE [strict_intros]: "strict m \<Longrightarrow> (\<And>a. strict (f a)) \<Longrightarrow> strict (bindE m f)"
  by (cases m) (auto simp: strict_def)

lemma strict_requireE [strict_intros]: "strict (requireE b (ParseError m))"
  by (cases b) simp_all

lemma strict_if [strict_intros]: "strict m \<Longrightarrow> strict n \<Longrightarrow> strict (if b then m else n)"
  by simp

lemma strict_option [strict_intros]: "strict m \<Longrightarrow> (\<And>x. strict (f x)) \<Longrightarrow> strict (case_option m f r)"
  by (cases r) simp_all

lemma strict_prod [strict_intros]: "(\<And>x y. strict (f x y)) \<Longrightarrow> strict (case_prod f p)"
  by (cases p) simp

lemma strict_parse_field [strict_intros]: "strict (parse_field field)"
  by (auto simp: parse_field_def split: prod.splits option.splits)

lemma strict_parse_fields [strict_intros]: "strict (parse_fields parsed fs)"
proof (induction fs arbitrary: parsed)
  case (Cons f fs)
  then show ?case by (auto intro!: strict_intros)
qed simp

lemma strict_stream_body [strict_intros]: "strict (stream_body body chunks)"
  by (induction chunks arbitrary: body) auto

lemma strict_readers [strict_intros]:
  "strict (parse_urlencoded max_bytes max_fields raw)" "strict (query_values request allowed)"
  "strict (form_values uni request allowed)" "strict (required_fields d names)" "strict (bounded v n)"
  "strict (nonempty_sized v n)" "strict (optional_bounded d name n)" "strict (require_origin request origin)"
  "strict (present c m)" "strict (path_provider p)"
  by (auto simp: parse_urlencoded_def Let_def query_values_def form_values_def required_fields_def bounded_def
      nonempty_sized_def optional_bounded_def require_origin_def present_def path_provider_def check_content_type_def
      check_content_length_def intro!: strict_intros split: list.splits option.splits)

lemma strict_login_input: "strict (password_login_input R origin request)"
  unfolding password_login_input_def by (intro strict_intros strict_simps)

section \<open>The login form\<close>

lemma present_Inr: "present c m = Inr v \<longleftrightarrow> c = Some v \<and> v \<noteq> []"
  by (auto simp: present_def split: option.splits)

lemma bounded_Inr: "bounded v n = Inr u \<longleftrightarrow> u = v \<and> v \<noteq> [] \<and> length v \<le> n \<and> \<not> list_ex control_char v"
  by (auto simp: bounded_def)

lemma password_login_input_Inr:
  assumes "password_login_input R origin request = Inr input"
  shows "getlist (rq_headers request) ''origin'' = [origin]
    \<and> transaction_cookies R request (li_transaction input) = (Some (li_binding input), Some (li_csrf input))
    \<and> (\<exists>d. form_values (rt_lower R) request [''transaction'', ''csrf_token'', ''email'', ''password''] = Inr d
         \<and> li_transaction input = field_value d ''transaction'' \<and> li_csrf input = field_value d ''csrf_token'')"
  using assms
  by (auto simp: password_login_input_def bindE_Inr_iff require_origin_def present_Inr bounded_Inr case_prod_beta prod_eq_iff)


section \<open>The cookies of the start come back\<close>

lemma stream_body_Inr: "length (body @ concat chunks) \<le> MAX_FORM_BYTES \<Longrightarrow> stream_body body chunks = Inr (body @ concat chunks)"
  by (induction chunks arbitrary: body) auto

lemma form_header_ok:
  "check_content_type uni [lit ''application/x-www-form-urlencoded''] = Inr ()"
proof -
  let ?t = "lit ''application/x-www-form-urlencoded''"
  have "py_split_on 59 ?t = [?t]" by code_simp
  moreover have "py_strip ?t = ?t" by code_simp
  moreover have "map ascii_lower_char ?t = ?t" "all_ascii ?t" by code_simp+
  ultimately show ?thesis by (simp add: check_content_type_def py_lower_def all_ascii_def)
qed

definition form_post :: "http_request \<Rightarrow> (pystr \<times> pystr) list \<Rightarrow> bool" where
  "form_post request d \<longleftrightarrow>
     getlist (rq_headers request) ''content-type'' = [lit ''application/x-www-form-urlencoded'']
   \<and> getlist (rq_headers request) ''content-length'' = []
   \<and> concat (rq_chunks request) = form_encode_query d \<and> length (form_encode_query d) \<le> MAX_FORM_BYTES"

lemma form_values_posted:
  assumes "form_post request d" "fields_ok d" "length d \<le> MAX_FIELDS" "allowed_only allowed d"
  shows "form_values uni request allowed = Inr d"
  using assms form_encode_accepted [OF assms(2,3), of MAX_FORM_BYTES] stream_body_Inr [of "[]" "rq_chunks request"]
  by (simp add: form_values_def form_post_def form_header_ok check_content_length_def)

lemma opaque_bounded: "s \<noteq> [] \<Longrightarrow> length s \<le> n \<Longrightarrow> \<forall>c \<in> set s. opaque_char c \<Longrightarrow> bounded s n = Inr s"
  by (auto simp: bounded_def list_ex_iff control_char_def opaque_char_def ascii_alpha_def ascii_digit_def)

lemma drawn_token:
  assumes "is_bytes bs" "length bs = 32"
  shows "base64url bs \<noteq> []" "length (base64url bs) = 43" "\<forall>c \<in> set (base64url bs). opaque_char c" "str_ok (base64url bs)"
proof -
  show l: "length (base64url bs) = 43" by (simp add: base64url_def length_b64_sextets assms(2))
  then show "base64url bs \<noteq> []" by auto
  show o: "\<forall>c \<in> set (base64url bs). opaque_char c" using base64url_opaque [OF assms(1)] by blast
  then show "str_ok (base64url bs)"
    by (auto simp: str_ok_def opaque_char_def ascii_alpha_def ascii_digit_def is_surrogate_def)
qed

lemma in_redis_Inr: "in_redis m w = (Inr a, w2) \<longleftrightarrow> (\<exists>s. m (w_redis w) = (Inr a, s) \<and> w2 = w\<lparr>w_redis := s\<rparr>)"
  by (auto simp: in_redis_def split: prod.splits)

lemma begin_authorization_tokens:
  assumes "begin_authorization S R input w = (Inr start, w')"
  shows "(\<exists>i. ast_transaction_id start = base64url (rt_random R i)) \<and> (\<exists>i. ast_csrf_token start = base64url (rt_random R i))
    \<and> (\<exists>i. ast_browser_binding start = base64url (rt_random R i))"
proof -
  from assms obtain created now w1 w2 where made: "oidc_transaction_create (rt_env R) redis_ops
      (\<lambda>i. rt_random R (w_draws w + (i + 2))) now created w1 = (Inr (ast_transaction_id start), w2)"
    and rest: "ast_csrf_token start = base64url (rt_random R (w_draws w + 0))"
      "ast_browser_binding start = base64url (rt_random R (w_draws w + 1))"
    by (auto simp: begin_authorization_def Let_def bindA_Inr_iff random_block_def utc_now_ms_Inr liftA_Inr retA_Inr
        in_redis_Inr)
  from redis_store.store_checked_stored [OF made [unfolded oidc_transaction_create_def]] rest show ?thesis
    by (auto simp: OIDC_TRANSACTION_TTL_SECONDS_def)
qed

definition login_fields :: "AuthorizationStart \<Rightarrow> pystr \<Rightarrow> pystr \<Rightarrow> (pystr \<times> pystr) list" where
  "login_fields start email password =
     [(lit ''transaction'', ast_transaction_id start), (lit ''csrf_token'', ast_csrf_token start),
      (lit ''email'', email), (lit ''password'', password)]"

lemma cookies_read_back:
  "rq_cookies request = hr_set_cookies (set_transaction_cookies R start r) \<Longrightarrow>
   transaction_cookies R request (ast_transaction_id start) = (Some (ast_browser_binding start), Some (ast_csrf_token start))"
  by (simp add: set_transaction_cookies_def transaction_cookies_def cookie_names_def)

lemma login_input_posted:
  assumes tokens: "\<And>s. s \<in> {ast_transaction_id start, ast_csrf_token start, ast_browser_binding start} \<Longrightarrow>
      s \<noteq> [] \<and> length s \<le> 512 \<and> (\<forall>c \<in> set s. opaque_char c) \<and> str_ok s"
    and email: "bounded email 320 = Inr email" "str_ok email"
    and password: "nonempty_sized password 1024 = Inr password" "str_ok password"
    and origin: "getlist (rq_headers request) ''origin'' = [origin]"
    and post: "form_post request (login_fields start email password)"
    and cookies: "rq_cookies request = hr_set_cookies (set_transaction_cookies R start r0)"
  shows "password_login_input R origin request = Inr \<lparr>li_transaction = ast_transaction_id start,
      li_binding = ast_browser_binding start, li_csrf = ast_csrf_token start, li_email = email, li_password = password\<rparr>"
proof -
  let ?d = "login_fields start email password"
  have names: "distinct (map fst ?d)" "length ?d \<le> MAX_FIELDS"
    "allowed_only [''transaction'', ''csrf_token'', ''email'', ''password''] ?d"
    by (simp_all add: login_fields_def MAX_FIELDS_def allowed_only_def)
  have "fields_ok ?d"
    using names(1) tokens email(2) password(2) by (simp add: fields_ok_def login_fields_def str_ok_lit)
  from form_values_posted [OF post this names(2,3)]
  have vals: "form_values (rt_lower R) request [''transaction'', ''csrf_token'', ''email'', ''password''] = Inr ?d" .
  have fields: "field_value ?d ''transaction'' = ast_transaction_id start" "field_value ?d ''csrf_token'' = ast_csrf_token start"
    "field_value ?d ''email'' = email" "field_value ?d ''password'' = password"
    by (simp_all add: field_value_def login_fields_def)
  have ne: "email \<noteq> []" "password \<noteq> []"
    using email(1) password(1) by (auto simp: bounded_def nonempty_sized_def)
  have "bounded s 512 = Inr s" if "s \<in> {ast_transaction_id start, ast_csrf_token start}" for s
    by (rule opaque_bounded) (use tokens that in auto)
  then show ?thesis
    using origin vals fields ne email(1) password(1) cookies_read_back [OF cookies] tokens
    by (simp add: password_login_input_def require_origin_def required_fields_def present_def)
qed

text \<open>A browser that follows the provider's own answers is served. After \<^verbatim>\<open>begin_authorization\<close>, a form post
  from the provider's origin that carries the cookies of the authorize response and the form fields of the
  login page (transaction, CSRF token, an email address and a password within the limits) reaches the
  password login of the service with exactly that transaction, browser binding and CSRF token, and with the
  email address and the password as they were typed.\<close>

theorem login_form_reaches_service:
  assumes "begin_authorization S R request0 w0 = (Inr start, w1)"
    and random: "\<And>i. is_bytes (rt_random R i) \<and> length (rt_random R i) = 32"
    and email: "bounded email 320 = Inr email" "str_ok email"
    and password: "nonempty_sized password 1024 = Inr password" "str_ok password"
    and origin: "getlist (rq_headers request) ''origin'' = [origin]"
    and post: "form_post request (login_fields start email password)"
    and cookies: "rq_cookies request = hr_set_cookies (set_transaction_cookies R start r0)"
  shows "password_login_endpoint S R origin template providers request w =
    serve_password_login S R template providers request
      \<lparr>li_transaction = ast_transaction_id start, li_binding = ast_browser_binding start,
       li_csrf = ast_csrf_token start, li_email = email, li_password = password\<rparr> w"
proof -
  from begin_authorization_tokens [OF assms(1)] obtain i j k where "ast_transaction_id start = base64url (rt_random R i)"
      "ast_csrf_token start = base64url (rt_random R j)" "ast_browser_binding start = base64url (rt_random R k)" by blast
  then have "s \<noteq> [] \<and> length s \<le> 512 \<and> (\<forall>c \<in> set s. opaque_char c) \<and> str_ok s"
    if "s \<in> {ast_transaction_id start, ast_csrf_token start, ast_browser_binding start}" for s
    using that drawn_token [OF conjunct1 [OF random] conjunct2 [OF random]] by auto
  from login_input_posted [OF this email password origin post cookies] show ?thesis
    by (simp add: password_login_endpoint_def endpoint_def)
qed

section \<open>Access tokens over HTTP\<close>

definition carries_token :: "http_response \<Rightarrow> bool" where
  "carries_token r \<longleftrightarrow> is_prefix (lit ''{'' @ quoted (lit ''access_token'')) (hr_body r)"

lemma dict_body: "hr_body (JSONResponse ((k, v) # d) status) =
    lit ''{'' @ json_string False k @ [58] @ json_dumps False v @ (if d = [] then [] else 44 # join_comma (map (item_text False) d)) @ lit ''}''"
  by (cases d) (simp_all add: JSONResponse_def plain_response_def dumps_dict item_text_def lit_def del: json_dumps.simps)

lemma error_key: "json_string False (lit ''error'') = quoted (lit ''error'')"
  by code_simp

lemma set_header_body [simp]: "hr_body (set_header n v r) = hr_body r"
  by (simp add: set_header_def)

lemma oauth_error_no_token: "\<not> carries_token (oauth_error e d status a)"
proof -
  have "\<exists>rest. hr_body (oauth_error e d status a) = lit ''{'' @ quoted (lit ''error'') @ rest"
    by (simp add: oauth_error_def Let_def dict_body error_key split: option.split)
  then show ?thesis by (auto simp: carries_token_def quoted_def lit_def)
qed

lemma service_error_no_token:
  "service_error_response e d status u st www b = Inr r \<Longrightarrow> \<not> carries_token r"
  by (auto simp: service_error_response_def bindE_Inr_iff oauth_error_no_token split: option.splits)
    (simp_all add: carries_token_def RedirectResponse_def lit_def)

lemma with_policy_token [simp]: "carries_token (with_policy r) = carries_token r"
  by (simp add: with_policy_def carries_token_def)

lemma token_route:
  "routed_path (rq_path request) = lit ''/oauth2/token'' \<Longrightarrow>
   known_route site request = [(lit ''POST'', token_endpoint (os_service site) (os_runtime site) request)]"
proof -
  have "provider_segment (lit ''start'') (lit ''/oauth2/token'') = None"
    "provider_segment (lit ''callback'') (lit ''/oauth2/token'') = None" by code_simp+
  then show "routed_path (rq_path request) = lit ''/oauth2/token'' \<Longrightarrow> ?thesis" by (simp add: known_route_def)
qed

lemma token_endpoint_token:
  assumes "response_policy (token_endpoint S R request) w = (r, w')" "carries_token r"
  obtains input response where "rq_query_string request = []" "token_input R request = Inr input"
    "exchange_code S R input (request_context request) w = (Inr response, w')" "r = with_policy (token_json response)"
proof -
  obtain q w1 where run: "token_endpoint S R request w = (q, w1)" by (cases "token_endpoint S R request w")
  have no: "\<not> carries_token internal_error" "\<not> carries_token query_refused" "\<not> carries_token (token_malformed e)" for e
    by (simp_all add: internal_error_def query_refused_def token_malformed_def oauth_error_no_token split: parse_error.split)
  from assms run have w1: "w1 = w'" and r: "r = with_policy (case service_error_handler q of Inl e \<Rightarrow> internal_error | Inr a \<Rightarrow> a)"
    by (auto simp: response_policy_def)
  with assms(2) no(1) obtain a where a: "service_error_handler q = Inr a" "carries_token a" "r = with_policy a"
    by (cases "service_error_handler q") auto
  then have q: "q = Inr a" using service_error_no_token
    by (auto simp: service_error_handler_def split: sum.splits exn.splits)
  show thesis
  proof (cases "rq_query_string request \<noteq> []")
    case True
    then show ?thesis using run q a no(2) by (simp add: token_endpoint_def retA_def)
  next
    case False
    show ?thesis
    proof (cases "token_input R request")
      case (Inl e)
      then show ?thesis using False run q a no(3) [of e]
        by (cases e) (auto simp: token_endpoint_def endpoint_def retA_def raiseA_def)
    next
      case (Inr input)
      let ?run = "exchange_code S R input (request_context request) w"
      from False Inr run q have catch: "catchA (bindA (exchange_code S R input (request_context request))
          (\<lambda>r. retA (token_json r))) (on_service_error False) w = (Inr a, w1)"
        by (simp add: token_endpoint_def endpoint_def)
      show ?thesis
      proof (cases "fst ?run")
        case (Inl e)
        then have "on_service_error False e (snd ?run) = (Inr a, w1)"
          using catch by (cases ?run) (simp add: catchA_def bindA_def)
        then show ?thesis using a(2) service_error_no_token
          by (auto simp: on_service_error_def liftA_def raiseA_def split: exn.splits)
      next
        case r2: (Inr response)
        then have "a = token_json response" "snd ?run = w1"
          using catch by (cases ?run; simp add: catchA_def bindA_def retA_def)+
        then show ?thesis using that [of input response] False Inr r2 a(3) w1 by (cases ?run) auto
      qed
    qed
  qed
qed

lemma token_input_Inr:
  assumes "token_input R request = Inr input"
  shows "\<exists>d c. form_values (rt_lower R) request TOKEN_FIELDS = Inr d
    \<and> extract_client_credentials (rt_lower R) (rq_headers request) d = Inr c
    \<and> tei_client_id input = cc_client_id c \<and> tei_client_secret input = cc_client_secret c
    \<and> map_of d (lit ''code'') = Some (tei_code input) \<and> map_of d (lit ''redirect_uri'') = Some (tei_redirect_uri input)"
  using assms
  by (auto simp: token_input_def bindE_Inr_iff bounded_Inr required_fields_def field_value_def split: option.splits)

text \<open>C23. An access token leaves the token endpoint only for a client that proved itself. An answer of
  \<^verbatim>\<open>/oauth2/token\<close> that carries one answers a \<^verbatim>\<open>POST\<close> without a query, whose strictly parsed form names the code
  and the redirect address, and whose credentials came by exactly one method: one Basic header and none in the
  body, or both in the body and no header. The client is registered, its secret verifies against the stored
  hash, and the code was stored for this client and this redirect address.\<close>

theorem token_endpoint_sound:
  assumes "oidc_app site request w = (r, w')" "routed_path (rq_path request) = lit ''/oauth2/token''" "carries_token r"
  shows "\<exists>d (c :: ClientCredentials) client raw m. rq_method request = lit ''POST'' \<and> rq_query_string request = []
    \<and> form_values (rt_lower (os_runtime site)) request TOKEN_FIELDS = Inr d
    \<and> credential_limits (cc_client_id c) (cc_client_secret c)
    \<and> (if getlist (rq_headers request) ''authorization'' = []
       then map_of d (lit ''client_id'') = Some (cc_client_id c) \<and> map_of d (lit ''client_secret'') = Some (cc_client_secret c)
       else length (getlist (rq_headers request) ''authorization'') = 1
         \<and> map_of d (lit ''client_id'') = None \<and> map_of d (lit ''client_secret'') = None)
    \<and> registry_get (oids_clients (os_service site)) (cc_client_id c) = Some client
    \<and> check_password (os_runtime site) (ocp_client_secret_hash client) (cc_client_secret c)
    \<and> redis_view (w_redis w) (oidc_authorization_code_key (rt_env (os_runtime site)) (field_value d ''code'')) = Some raw
    \<and> code_record (rt_env (os_runtime site)) raw = Inr (Some m)
    \<and> sac_client_id m = cc_client_id c \<and> sac_redirect_uri m = field_value d ''redirect_uri''"
proof -
  let ?S = "os_service site" and ?R = "os_runtime site"
  have no: "\<not> carries_token (http_error n)" for n by (simp add: http_error_def oauth_error_no_token)
  have "rq_method request = lit ''POST''" and run: "response_policy (token_endpoint ?S ?R request) w = (r, w')"
    using assms no by (auto simp: oidc_app_def token_route response_policy_def retA_def service_error_handler_def split: if_splits)
  moreover from run assms(3) obtain input response where i: "rq_query_string request = []" "token_input ?R request = Inr input"
    and x: "exchange_code ?S ?R input (request_context request) w = (Inr response, w')"
    by (rule token_endpoint_token)
  moreover from token_input_Inr [OF i(2)] obtain d c where f: "form_values (rt_lower ?R) request TOKEN_FIELDS = Inr d"
    and c: "extract_client_credentials (rt_lower ?R) (rq_headers request) d = Inr c"
    and t: "tei_client_id input = cc_client_id c" "tei_client_secret input = cc_client_secret c"
      "field_value d ''code'' = tei_code input" "field_value d ''redirect_uri'' = tei_redirect_uri input"
    by (auto simp: field_value_def)
  moreover from exchange_code_Inr [OF x] obtain client raw m where e:
    "registry_get (oids_clients ?S) (cc_client_id c) = Some client"
    "check_password ?R (ocp_client_secret_hash client) (cc_client_secret c)"
    "redis_view (w_redis w) (oidc_authorization_code_key (rt_env ?R) (field_value d ''code'')) = Some raw"
    "code_record (rt_env ?R) raw = Inr (Some m)" "sac_client_id m = cc_client_id c"
    "grant_matches (rt_env ?R) client input m = Inr True"
    unfolding t by blast
  moreover have "sac_redirect_uri m = field_value d ''redirect_uri''"
    using e(6) t(4) by (simp add: grant_matches_def split: if_splits)
  ultimately show ?thesis using extract_client_credentials_Inr [OF c]
    by (intro exI [of _ d] exI [of _ c] exI [of _ client] exI [of _ raw] exI [of _ m]) simp
qed


section \<open>Sample requests\<close>

definition sample_post :: "string \<Rightarrow> (pystr \<times> pystr) list \<Rightarrow> (pystr \<times> pystr) list \<Rightarrow> http_request" where
  "sample_post path d cookies = \<lparr>rq_method = lit ''POST'', rq_path = lit path, rq_query_string = [],
     rq_headers = [(lit ''content-type'', lit ''application/x-www-form-urlencoded''), (lit ''origin'', lit ''https://id.co'')],
     rq_cookies = cookies, rq_chunks = [form_encode_query d], rq_client = None\<rparr>"

lemma sample_post_form: "length (form_encode_query d) \<le> MAX_FORM_BYTES \<Longrightarrow> form_post (sample_post path d cookies) d"
  by (simp add: form_post_def sample_post_def getlist_def)

lemma sample_post_headers [simp]:
  "getlist (rq_headers (sample_post path d cookies)) ''authorization'' = []"
  "getlist (rq_headers (sample_post path d cookies)) ''origin'' = [lit ''https://id.co'']"
  "rq_query_string (sample_post path d cookies) = []" "rq_path (sample_post path d cookies) = lit path"
  "rq_method (sample_post path d cookies) = lit ''POST''" "rq_cookies (sample_post path d cookies) = cookies"
  by (simp_all add: sample_post_def getlist_def)

lemma sample_context: "request_context (sample_post path d cookies) = sample_oidc_context"
  by (simp add: request_context_def sample_post_def header_get_def sample_oidc_context_def)

definition sample_token_fields :: "(pystr \<times> pystr) list" where
  "sample_token_fields = [(lit ''grant_type'', lit ''authorization_code''), (lit ''code'', sample_code),
     (lit ''redirect_uri'', lit ''https://w.co/cb?x=1''), (lit ''client_id'', lit ''wiki''), (lit ''client_secret'', lit ''secret'')]"

definition sample_site :: oidc_site where
  "sample_site = \<lparr>os_service = sample_oidc_service, os_runtime = sample_runtime, os_origin = lit ''https://id.co'',
     os_providers = [], os_template = [], os_css = []\<rparr>"

lemma sample_token_fields_ok: "fields_ok sample_token_fields" "length (form_encode_query sample_token_fields) \<le> MAX_FORM_BYTES"
  by code_simp+

lemma sample_token_input: "token_input sample_runtime (sample_post path sample_token_fields cookies) = Inr sample_exchange_input"
proof -
  have "length sample_token_fields \<le> MAX_FIELDS" "allowed_only TOKEN_FIELDS sample_token_fields" by code_simp+
  note d = form_values_posted [OF sample_post_form [OF sample_token_fields_ok(2)] sample_token_fields_ok(1) this]
  have "extract_client_credentials (rt_lower sample_runtime) (rq_headers (sample_post path sample_token_fields cookies)) sample_token_fields
      = Inr \<lparr>cc_client_id = lit ''wiki'', cc_client_secret = lit ''secret'', cc_method = lit ''client_secret_post''\<rparr>"
    unfolding extract_client_credentials_def sample_post_headers by code_simp
  moreover have "required_fields sample_token_fields [''grant_type'', ''code'', ''redirect_uri''] = Inr ()"
    "optional_bounded sample_token_fields ''code_verifier'' 128 = Inr None"
    "bounded (field_value sample_token_fields ''grant_type'') 64 = Inr (lit ''authorization_code'')"
    "bounded (field_value sample_token_fields ''code'') 4096 = Inr sample_code"
    "bounded (field_value sample_token_fields ''redirect_uri'') 2048 = Inr (lit ''https://w.co/cb?x=1'')"
    by code_simp+
  ultimately show ?thesis using d by (simp add: token_input_def sample_exchange_input_def)
qed

lemma access_token_key: "json_string False (lit ''access_token'') = quoted (lit ''access_token'')"
  by code_simp

lemma is_prefix_append [simp]: "is_prefix p (p @ s)"
  by (induction p) simp_all

lemma token_json_carries: "carries_token (token_json response)"
  using is_prefix_append [of "lit ''{'' @ quoted (lit ''access_token'')"]
  by (simp add: carries_token_def token_json_def dict_body access_token_key)

lemma token_endpoint_sound_witness:
  "\<exists>w r w' (c :: ClientCredentials). oidc_app sample_site (sample_post ''/oauth2/token'' sample_token_fields []) w = (r, w') \<and> carries_token r
    \<and> credential_limits (cc_client_id c) (cc_client_secret c)
    \<and> registry_get (oids_clients sample_oidc_service) (cc_client_id c) \<noteq> None"
proof -
  let ?request = "sample_post ''/oauth2/token'' sample_token_fields []"
  let ?w = "sample_oidc_world (with_code sample_redis)"
  obtain response w' where run: "exchange_code sample_oidc_service sample_runtime sample_exchange_input sample_oidc_context ?w
      = (Inr response, w')" using sample_exchanged by blast
  have path: "routed_path (rq_path ?request) = lit ''/oauth2/token''" by code_simp
  have app: "oidc_app sample_site ?request ?w = (with_policy (token_json response), w')"
    using run by (simp add: oidc_app_def token_route [OF path] response_policy_def sample_site_def token_endpoint_def
        endpoint_def sample_token_input sample_context seq_simps service_error_handler_def)
  have carries: "carries_token (with_policy (token_json response))" by (simp add: token_json_carries)
  from token_endpoint_sound [OF app path carries] obtain c :: ClientCredentials where
    "credential_limits (cc_client_id c) (cc_client_secret c)"
    "registry_get (oids_clients sample_oidc_service) (cc_client_id c) \<noteq> None"
    by (auto simp: sample_site_def)
  with app carries show ?thesis by blast
qed

definition sample_start :: AuthorizationStart where
  "sample_start = \<lparr>ast_transaction_id = sample_code, ast_csrf_token = sample_code, ast_browser_binding = sample_code\<rparr>"

definition sample_login_post :: http_request where
  "sample_login_post = sample_post ''/oauth2/login'' (login_fields sample_start (lit ''o@b.co'') (lit ''secret!''))
     (hr_set_cookies (set_transaction_cookies sample_runtime sample_start internal_error))"

definition sample_authorize :: AuthorizationRequest where
  "sample_authorize = \<lparr>arq_client_id = lit ''wiki'', arq_redirect_uri = lit ''https://w.co/cb?x=1'',
     arq_response_type = lit ''code'', arq_scopes = [lit ''openid''], arq_state = None, arq_nonce = None,
     arq_code_challenge = None, arq_code_challenge_method = None, arq_prompt = None\<rparr>"

lemma sample_checked: "checked_request sample_oidc_service sample_runtime sample_authorize
    = Inr (open_client, lit ''https://w.co/cb?x=1'', [lit ''openid''])"
  by code_simp

definition sample_transaction2 :: OidcAuthorizationTransactionCreateInput where
  "sample_transaction2 = \<lparr>tci_client_id = lit ''wiki'', tci_redirect_uri = lit ''https://w.co/cb?x=1'',
     tci_scopes = [lit ''openid''], tci_state = None, tci_nonce = None, tci_code_challenge = None,
     tci_code_challenge_method = None, tci_browser_binding = sample_code, tci_csrf_token = sample_code\<rparr>"

lemma sample_transaction2_ok: "transaction_input_ok sample_transaction2"
proof -
  have "str_ok sample_code" "sample_code \<noteq> []"
    using drawn_token [of "replicate 32 5"] by (simp_all add: sample_code_def is_bytes_def)
  then show ?thesis
    by (simp add: sample_transaction2_def transaction_input_ok_def text_ok_def scopes_ok_def pkce_ok_def optional_ok_def str_ok_lit)
qed

lemma sample_begin: "\<exists>w1. begin_authorization sample_oidc_service sample_runtime sample_authorize (sample_oidc_world sample_redis)
    = (Inr sample_start, w1)"
proof -
  have "\<exists>s. oidc_transaction_create sample_env redis_ops (\<lambda>_. replicate 32 5) 50 sample_transaction2 sample_redis = (Inr sample_code, s)"
    unfolding oidc_transaction_create_def
    by (subst answered_store_checked [where token = sample_code and m = "stored_transaction sample_env sample_transaction2 50"])
      (simp_all add: transaction_roundtrip [OF sample_transaction2_ok sample_transaction_ok(2) sample_granted_ok(2)]
        sample_code_drawn OIDC_TRANSACTION_TTL_SECONDS_def)
  moreover have "ocp_client_id open_client = lit ''wiki''" by (simp add: open_client_def sample_oidc_client_def)
  moreover have "arq_state sample_authorize = None" "arq_nonce sample_authorize = None"
    "arq_code_challenge sample_authorize = None" by (simp_all add: sample_authorize_def)
  ultimately show ?thesis
    by (auto simp: begin_authorization_def Let_def sample_checked seq_simps random_block_def utc_now_ms_def in_redis_def
        sample_start_def sample_transaction2_def sample_code_def)
qed

lemma sample_login_posted: "form_post sample_login_post (login_fields sample_start (lit ''o@b.co'') (lit ''secret!''))"
  unfolding sample_login_post_def by (rule sample_post_form) code_simp

lemma sample_typed: "bounded (lit ''o@b.co'') 320 = Inr (lit ''o@b.co'')"
    "nonempty_sized (lit ''secret!'') 1024 = Inr (lit ''secret!'')"
  by code_simp+

lemma login_form_reaches_service_witness:
  "password_login_endpoint sample_oidc_service sample_runtime (lit ''https://id.co'') [] [] sample_login_post (sample_oidc_world sample_redis) =
    serve_password_login sample_oidc_service sample_runtime [] [] sample_login_post
      \<lparr>li_transaction = sample_code, li_binding = sample_code, li_csrf = sample_code,
       li_email = lit ''o@b.co'', li_password = lit ''secret!''\<rparr> (sample_oidc_world sample_redis)"
proof -
  obtain w1 where start: "begin_authorization sample_oidc_service sample_runtime sample_authorize (sample_oidc_world sample_redis)
      = (Inr sample_start, w1)" using sample_begin by blast
  have "getlist (rq_headers sample_login_post) ''origin'' = [lit ''https://id.co'']"
    "rq_cookies sample_login_post = hr_set_cookies (set_transaction_cookies sample_runtime sample_start internal_error)"
    by (simp_all add: sample_login_post_def)
  then show ?thesis
    using login_form_reaches_service [OF start, where email = "lit ''o@b.co''" and password = "lit ''secret!''"
        and request = sample_login_post and origin = "lit ''https://id.co''" and w = "sample_oidc_world sample_redis"] sample_login_posted sample_typed
    by (simp add: is_bytes_def str_ok_lit sample_start_def)
qed

lemma sample_login_served:
  "\<exists>r w'. serve_password_login sample_oidc_service sample_runtime [] [] sample_login_post
      \<lparr>li_transaction = sample_code, li_binding = sample_code, li_csrf = sample_code,
       li_email = lit ''o@b.co'', li_password = lit ''secret!''\<rparr> (sample_oidc_world sample_redis) = (r, w')
     \<and> w' \<noteq> sample_oidc_world sample_redis"
proof -
  let ?w = "sample_oidc_world sample_redis\<lparr>w_ticks := 1, w_redis := sample_redis\<lparr>rd_issued := 1\<rparr>\<rparr>"
  have "oidc_transaction_get sample_env redis_ops 50 sample_code sample_code sample_redis = (Inr None, sample_redis\<lparr>rd_issued := 1\<rparr>)"
    using answered_commands(1) [of sample_redis] answering_sample
    by (simp add: oidc_transaction_get_def get_record_def judged_record_def seq_simps answering_def)
  then have "bound_transaction sample_runtime sample_code sample_code (sample_oidc_world sample_redis) = (Inl invalid_login_transaction, ?w)"
    by (simp add: bound_transaction_def seq_simps utc_now_ms_def in_redis_def)
  then have "serve_password_login sample_oidc_service sample_runtime [] [] sample_login_post
      \<lparr>li_transaction = sample_code, li_binding = sample_code, li_csrf = sample_code,
       li_email = lit ''o@b.co'', li_password = lit ''secret!''\<rparr> (sample_oidc_world sample_redis)
     = (Inr (clear_transaction_cookies sample_runtime sample_code (login_error_page expired_login_text 400)), ?w)"
    by (simp add: serve_password_login_def oidc_password_login_def seq_simps invalid_login_transaction_def oidc_error_def
        login_failure_text_def)
  moreover have "w_ticks ?w \<noteq> w_ticks (sample_oidc_world sample_redis)" by simp
  ultimately show ?thesis by metis
qed


end
