(* ===== verification/Http_Body.thy ===== *)
theory Http_Body
  imports Oidc_Http
begin

text \<open>
  The JSON body of a request as \<^verbatim>\<open>api/middleware.py\<close> reads it before any handler: \<^verbatim>\<open>_json_charset\<close>,
  \<^verbatim>\<open>_decode_json_body\<close>, \<^verbatim>\<open>_BoundedJsonInflater\<close> and \<^verbatim>\<open>_express_json_receive\<close>, with the answers of
  \<^verbatim>\<open>api/errors.py\<close>. The messages of the ASGI \<^verbatim>\<open>receive\<close> are a list; after its end the client is gone. A
  \<^verbatim>\<open>zlib.decompressobj\<close> is an argument, with a state type of its own, and so is the UTF-7 codec. The loop of the
  inflater may not end for an arbitrary decoder, so it is a partial function; it ends for every decoder that
  consumes input when it reaches the end of a stream.
\<close>

section \<open>Error answers\<close>

definition ExpressJsonResponse :: "pydict \<Rightarrow> nat \<Rightarrow> http_response" where
  "ExpressJsonResponse content status =
     plain_response status (lit ''application/json; charset=utf-8'') (json_dumps False (PDict content))"

definition error_response :: "nat \<Rightarrow> string \<Rightarrow> string \<Rightarrow> http_response" where
  "error_response status_code code message =
     ExpressJsonResponse [(lit ''error'', PDict [(lit ''code'', PStr (lit code)), (lit ''message'', PStr (lit message))])] status_code"

definition json_parser_error :: http_response where
  "json_parser_error = error_response 500 ''INTERNAL_SERVER_ERROR'' ''Internal server error''"

section \<open>Character sets\<close>

definition ascii_lower :: "pystr \<Rightarrow> pystr" where
  "ascii_lower s = map ascii_lower_char s"

definition strip_quotes :: "pystr \<Rightarrow> pystr" where
  "strip_quotes s = rev (dropWhile (\<lambda>c. c = 34) (rev (dropWhile (\<lambda>c. c = 34) s)))"

fun charset_of :: "(pystr \<Rightarrow> pystr) \<Rightarrow> pystr list \<Rightarrow> pystr" where
  "charset_of uni [] = lit ''utf-8''"
| "charset_of uni (parameter # rest) =
     (case py_partition 61 parameter of
        (name, separator, v) \<Rightarrow>
          if separator \<and> py_lower uni (py_strip name) = lit ''charset''
          then py_lower uni (strip_quotes (py_strip v)) else charset_of uni rest)"

definition json_charset :: "(pystr \<Rightarrow> pystr) \<Rightarrow> pystr \<Rightarrow> pystr" where
  "json_charset uni content_type = charset_of uni (tl (py_split_on 59 content_type))"

datatype charset_error = UnsupportedJsonCharset pystr | PlainUnicodeError

text \<open>\<^verbatim>\<open>bytes.decode("utf-16-..", "replace")\<close>.\<close>

fun utf16_replace :: "bool \<Rightarrow> nat list \<Rightarrow> pystr" where
  "utf16_replace big [] = []"
| "utf16_replace big [a] = [REPLACEMENT]"
| "utf16_replace big (a # b # r) =
     (let u = (if big then a * 256 + b else b * 256 + a) in
      if is_low u then REPLACEMENT # utf16_replace big r
      else if \<not> is_high u then u # utf16_replace big r
      else (case r of
              c # d # r' \<Rightarrow>
                (let l = (if big then c * 256 + d else d * 256 + c) in
                 if is_low l then astral u l # utf16_replace big r' else REPLACEMENT # utf16_replace big r)
            | _ \<Rightarrow> [REPLACEMENT]))"

definition imap_piece :: "pystr \<Rightarrow> pystr option" where
  "imap_piece payload =
     (if payload = [] then Some [38]
      else (case b64decode_validate (map (\<lambda>c. if c = 44 then 47 else c) payload @ replicate ((4 - length payload mod 4) mod 4) 61) of
              Inl e \<Rightarrow> None
            | Inr raw \<Rightarrow> Some (utf16_replace True raw)))"

lemma py_partition_shorter: "py_partition sep s = (a, True, b) \<Longrightarrow> length b < length s"
  by (induction s arbitrary: a) (force split: if_splits prod.splits)+

function imap_decode :: "pystr \<Rightarrow> pystr option" where
  "imap_decode s =
     (case py_partition 38 s of
        (plain, marker, rest) \<Rightarrow>
          if \<not> marker then Some plain
          else (case py_partition 45 rest of
                  (payload, closed, rest') \<Rightarrow>
                    if \<not> closed then None
                    else (case imap_piece payload of
                            None \<Rightarrow> None
                          | Some t \<Rightarrow> map_option (\<lambda>u. plain @ t @ u) (imap_decode rest'))))"
  by pat_completeness auto
termination
proof (relation "measure length", goal_cases)
  case (2 s x y xa ya xaa yb xab yc)
  then have "py_partition 38 s = (x, True, ya)" "py_partition 45 ya = (xaa, True, yc)" by auto
  then show ?case using py_partition_shorter [of 38 s] py_partition_shorter [of 45 ya] by fastforce
qed simp

declare imap_decode.simps [simp del]

definition decode_imap_utf7 :: "nat list \<Rightarrow> pystr option" where
  "decode_imap_utf7 body = (if all_ascii body then imap_decode body else None)"

definition decode_json_body :: "(nat list \<Rightarrow> pystr) \<Rightarrow> nat list \<Rightarrow> pystr \<Rightarrow> charset_error + pystr" where
  "decode_json_body utf7 body charset =
     (let normalized = map (\<lambda>c. if c = 95 then 45 else c) charset in
      if \<not> is_prefix (lit ''utf-'') normalized then Inl (UnsupportedJsonCharset charset)
      else if normalized = lit ''utf-7'' then Inr (utf7 body)
      else if normalized = lit ''utf-7-imap''
      then (case decode_imap_utf7 body of None \<Rightarrow> Inl PlainUnicodeError | Some t \<Rightarrow> Inr t)
      else if normalized = lit ''utf-8'' then Inr (utf8_replace body)
      else if normalized \<in> {lit ''utf-16le'', lit ''utf-16-le''} then Inr (utf16_replace False body)
      else if normalized \<in> {lit ''utf-16be'', lit ''utf-16-be''} then Inr (utf16_replace True body)
      else if normalized = lit ''utf-16''
      then Inr (if is_prefix [0xFF, 0xFE] body then utf16_replace False (drop 2 body)
                else if is_prefix [0xFE, 0xFF] body then utf16_replace True (drop 2 body)
                else utf16_replace (is_prefix [0] body) body)
      else Inl (UnsupportedJsonCharset charset))"

section \<open>The inflater\<close>

definition EXPRESS_JSON_LIMIT_BYTES :: nat where "EXPRESS_JSON_LIMIT_BYTES = 100 * 1024"
definition COMPRESSED_JSON_LIMIT_BYTES :: nat where "COMPRESSED_JSON_LIMIT_BYTES = 256 * 1024"

datatype content_encoding = Gzip | Deflate

text \<open>\<^verbatim>\<open>zlib.decompressobj\<close>: a fresh one for the window bits, \<^verbatim>\<open>decompress(data, max_length)\<close> and \<^verbatim>\<open>flush\<close>, which
  may raise \<^verbatim>\<open>zlib.error\<close>, and its three attributes.\<close>

record 'z zlib =
  z_new :: "nat \<Rightarrow> 'z"
  z_decompress :: "'z \<Rightarrow> nat list \<Rightarrow> nat \<Rightarrow> (nat list \<times> 'z) option"
  z_flush :: "'z \<Rightarrow> nat \<Rightarrow> (nat list \<times> 'z) option"
  z_eof :: "'z \<Rightarrow> bool"
  z_unused_data :: "'z \<Rightarrow> nat list"
  z_unconsumed_tail :: "'z \<Rightarrow> nat list"

datatype inflate_error = JsonBodyTooLarge | ZlibError

definition window_bits :: "content_encoding \<Rightarrow> nat" where
  "window_bits e = (case e of Gzip \<Rightarrow> 31 | Deflate \<Rightarrow> 15)"

record 'z inflater =
  if_encoding :: content_encoding
  if_decoder :: 'z
  if_chunks :: "nat list list"
  if_inflated_size :: nat
  if_finished :: bool

definition new_inflater :: "'z zlib \<Rightarrow> content_encoding \<Rightarrow> 'z inflater" where
  "new_inflater Z e = \<lparr>if_encoding = e, if_decoder = z_new Z (window_bits e), if_chunks = [], if_inflated_size = 0,
     if_finished = False\<rparr>"

definition append_chunk :: "'z inflater \<Rightarrow> nat list \<Rightarrow> inflate_error + 'z inflater" where
  "append_chunk s chunk =
     (let size = if_inflated_size s + length chunk in
      if EXPRESS_JSON_LIMIT_BYTES < size then Inl JsonBodyTooLarge
      else Inr (s\<lparr>if_inflated_size := size, if_chunks := if_chunks s @ (if chunk = [] then [] else [chunk])\<rparr>))"

definition room :: "'z inflater \<Rightarrow> nat" where
  "room s = EXPRESS_JSON_LIMIT_BYTES - if_inflated_size s + 1"

text \<open>The loop of \<^verbatim>\<open>feed\<close> over what remains.\<close>

partial_function (option) feed_loop :: "'z zlib \<Rightarrow> 'z inflater \<Rightarrow> nat list \<Rightarrow> (inflate_error + 'z inflater) option" where
  "feed_loop Z s remaining =
     (if remaining = [] then Some (Inr s)
      else (case z_decompress Z (if_decoder s) remaining (room s) of
         None \<Rightarrow> Some (Inl ZlibError)
       | Some (output, d) \<Rightarrow>
           (case append_chunk (s\<lparr>if_decoder := d\<rparr>) output of
              Inl e \<Rightarrow> Some (Inl e)
            | Inr s1 \<Rightarrow>
                if z_unconsumed_tail Z d \<noteq> [] then Some (Inl JsonBodyTooLarge)
                else if \<not> z_eof Z d then Some (Inr s1)
                else if if_encoding s = Deflate \<or> z_unused_data Z d = [] then Some (Inr (s1\<lparr>if_finished := True\<rparr>))
                else feed_loop Z (s1\<lparr>if_decoder := z_new Z (window_bits (if_encoding s))\<rparr>) (z_unused_data Z d))))"

definition feed :: "'z zlib \<Rightarrow> 'z inflater \<Rightarrow> nat list \<Rightarrow> (inflate_error + 'z inflater) option" where
  "feed Z s data =
     (if data = [] then Some (Inr s)
      else if if_finished s
      then (if if_encoding s = Deflate then Some (Inr s)
            else feed_loop Z (s\<lparr>if_decoder := z_new Z (window_bits (if_encoding s)), if_finished := False\<rparr>) data)
      else feed_loop Z s data)"

definition finish :: "'z zlib \<Rightarrow> 'z inflater \<Rightarrow> inflate_error + nat list" where
  "finish Z s =
     (if \<not> if_finished s \<or> \<not> z_eof Z (if_decoder s) then Inl ZlibError
      else (case z_flush Z (if_decoder s) (room s) of
              None \<Rightarrow> Inl ZlibError
            | Some (output, d) \<Rightarrow>
                bindE (append_chunk (s\<lparr>if_decoder := d\<rparr>) output) (\<lambda>s1. Inr (concat (if_chunks s1)))))"

section \<open>Strict JSON\<close>

text \<open>\<^verbatim>\<open>json.loads\<close> with a \<^verbatim>\<open>parse_constant\<close> that raises: the scanner of \<open>Py_Json\<close> without its values and
  without \<^verbatim>\<open>NaN\<close> and the infinities.\<close>

fun skip_value :: "nat \<Rightarrow> pystr \<Rightarrow> pystr option"
  and skip_array :: "nat \<Rightarrow> pystr \<Rightarrow> pystr option"
  and skip_object :: "nat \<Rightarrow> pystr \<Rightarrow> pystr option"
where
  "skip_value 0 s = None"
| "skip_value (Suc n) s =
     (case s of
        [] \<Rightarrow> None
      | c # r \<Rightarrow>
          if c = 34 then map_option snd (scan_string r)
          else if c = 123 then
            (case skip_ws r of [] \<Rightarrow> None | x # xs \<Rightarrow> if x = 125 then Some xs else skip_object n (x # xs))
          else if c = 91 then
            (case skip_ws r of [] \<Rightarrow> None | x # xs \<Rightarrow> if x = 93 then Some xs else skip_array n (x # xs))
          else if starts ''null'' s then Some (drop 4 s)
          else if starts ''true'' s then Some (drop 4 s)
          else if starts ''false'' s then Some (drop 5 s)
          else if starts ''NaN'' s \<or> starts ''Infinity'' s \<or> starts ''-Infinity'' s then None
          else (case scan_number FiniteFloat s of Inl e \<Rightarrow> None | Inr (v, rest) \<Rightarrow> Some rest))"
| "skip_array 0 s = None"
| "skip_array (Suc n) s =
     (case skip_value n s of
        None \<Rightarrow> None
      | Some rest \<Rightarrow>
          (case skip_ws rest of
             [] \<Rightarrow> None
           | x # xs \<Rightarrow> if x = 93 then Some xs else if x = 44 then skip_array n (skip_ws xs) else None))"
| "skip_object 0 s = None"
| "skip_object (Suc n) s =
     (case s of
        [] \<Rightarrow> None
      | q # r \<Rightarrow>
          if q \<noteq> 34 then None
          else (case scan_string r of
            None \<Rightarrow> None
          | Some (k, rest) \<Rightarrow>
              (case skip_ws rest of
                 [] \<Rightarrow> None
               | x # xs \<Rightarrow>
                   if x \<noteq> 58 then None
                   else (case skip_value n (skip_ws xs) of
                     None \<Rightarrow> None
                   | Some rest2 \<Rightarrow>
                       (case skip_ws rest2 of
                          [] \<Rightarrow> None
                        | y # ys \<Rightarrow> if y = 125 then Some ys
                                   else if y = 44 then skip_object n (skip_ws ys) else None)))))"

definition strict_json :: "pystr \<Rightarrow> bool" where
  "strict_json s \<longleftrightarrow>
     \<not> (s \<noteq> [] \<and> hd s = 0xFEFF) \<and>
     (case skip_value (Suc (2 * length s)) (skip_ws s) of None \<Rightarrow> False | Some rest \<Rightarrow> skip_ws rest = [])"

text \<open>The checks after decoding: one byte order mark is dropped, the first character opens an object or an
  array, and the text is strict JSON.\<close>

definition classified_text :: "pystr \<Rightarrow> pystr option" where
  "classified_text decoded =
     (let t = (if is_prefix [0xFEFF] decoded then tl decoded else decoded);
          stripped = dropWhile py_isspace t
      in if stripped = [] \<or> hd stripped \<notin> {123, 91} then None
         else if strict_json t then Some t else None)"

section \<open>Receiving a body\<close>

datatype message = HttpRequest "nat list" bool | HttpDisconnect | OtherMessage

record 'z body_env =
  be_zlib :: "'z zlib"
  be_utf7 :: "nat list \<Rightarrow> pystr"
  be_lower :: "pystr \<Rightarrow> pystr"

definition json_wire_limit :: "content_encoding option \<Rightarrow> nat" where
  "json_wire_limit e = (case e of None \<Rightarrow> EXPRESS_JSON_LIMIT_BYTES | Some _ \<Rightarrow> COMPRESSED_JSON_LIMIT_BYTES)"

record 'z collected =
  co_messages :: "message list"
  co_body :: "nat list"
  co_disconnected :: bool
  co_inflater :: "'z inflater option"
  co_rest :: "message list"

definition feed_optional :: "'z zlib \<Rightarrow> 'z inflater option \<Rightarrow> nat list \<Rightarrow> (inflate_error + 'z inflater option) option" where
  "feed_optional Z held chunk =
     (case held of None \<Rightarrow> Some (Inr None)
      | Some s \<Rightarrow> (case feed Z s chunk of
            None \<Rightarrow> None | Some (Inl e) \<Rightarrow> Some (Inl e) | Some (Inr s') \<Rightarrow> Some (Inr (Some s'))))"

definition noted :: "message \<Rightarrow> nat list \<Rightarrow> (unit + 'z collected) option \<Rightarrow> (unit + 'z collected) option" where
  "noted m chunk r = (case r of None \<Rightarrow> None | Some (Inl u) \<Rightarrow> Some (Inl u)
     | Some (Inr c) \<Rightarrow> Some (Inr (c\<lparr>co_messages := m # co_messages c, co_body := chunk @ co_body c\<rparr>)))"

text \<open>The receive loop; \<open>Inl\<close> is the parser error, \<open>None\<close> an inflater that does not return.\<close>

fun collect :: "'z zlib \<Rightarrow> nat \<Rightarrow> nat \<Rightarrow> 'z inflater option \<Rightarrow> message list \<Rightarrow> (unit + 'z collected) option" where
  "collect Z limit wire_size held [] =
     Some (Inr \<lparr>co_messages = [HttpDisconnect], co_body = [], co_disconnected = True, co_inflater = held, co_rest = []\<rparr>)"
| "collect Z limit wire_size held (HttpDisconnect # ms) =
     Some (Inr \<lparr>co_messages = [HttpDisconnect], co_body = [], co_disconnected = True, co_inflater = held, co_rest = ms\<rparr>)"
| "collect Z limit wire_size held (OtherMessage # ms) = noted OtherMessage [] (collect Z limit wire_size held ms)"
| "collect Z limit wire_size held (HttpRequest chunk more_body # ms) =
     (if limit < wire_size + length chunk then Some (Inl ())
      else (case feed_optional Z held chunk of
              None \<Rightarrow> None
            | Some (Inl e) \<Rightarrow> Some (Inl ())
            | Some (Inr held') \<Rightarrow>
                if more_body then noted (HttpRequest chunk more_body) chunk (collect Z limit (wire_size + length chunk) held' ms)
                else Some (Inr \<lparr>co_messages = [HttpRequest chunk more_body], co_body = chunk, co_disconnected = False,
                                co_inflater = held', co_rest = ms\<rparr>)))"

datatype json_receive =
    Passed "message list" | Answered http_response | Validated headers "message list" | Broken exn

definition classify_body :: "'z body_env \<Rightarrow> headers \<Rightarrow> pystr \<Rightarrow> 'z collected \<Rightarrow> json_receive" where
  "classify_body B hs content_type c =
     (if co_disconnected c \<or> co_body c = [] then Passed (co_messages c @ co_rest c)
      else (case (case co_inflater c of None \<Rightarrow> Inr (co_body c) | Some s \<Rightarrow> finish (be_zlib B) s) of
         Inl e \<Rightarrow> Answered json_parser_error
       | Inr body \<Rightarrow>
           (case decode_json_body (be_utf7 B) body (json_charset (be_lower B) content_type) of
              Inl e \<Rightarrow> Answered json_parser_error
            | Inr decoded \<Rightarrow>
                (case classified_text decoded of
                   None \<Rightarrow> Answered json_parser_error
                 | Some t \<Rightarrow>
                     if \<not> no_surrogate t then Broken (ValueError (lit ''surrogates not allowed''))
                     else Validated
                       (filter (\<lambda>h. ascii_lower (fst h) \<notin> {lit ''content-encoding'', lit ''content-length''}) hs)
                       (HttpRequest (utf8_bytes t) False # co_rest c)))))"

definition media_type :: "'z body_env \<Rightarrow> headers \<Rightarrow> pystr" where
  "media_type B hs =
     (let content_type = (case header_get hs ''content-type'' of None \<Rightarrow> [] | Some t \<Rightarrow> t)
      in py_lower (be_lower B) (py_strip (hd (py_split_on 59 content_type))))"

definition body_encoding :: "'z body_env \<Rightarrow> headers \<Rightarrow> content_encoding option option" where
  "body_encoding B hs =
     (let encoding = (case header_get hs ''content-encoding'' of None \<Rightarrow> lit ''identity'' | Some e \<Rightarrow> py_lower (be_lower B) e)
      in if encoding = lit ''identity'' then Some None else if encoding = lit ''gzip'' then Some (Some Gzip)
         else if encoding = lit ''deflate'' then Some (Some Deflate) else None)"

definition declared_length :: "headers \<Rightarrow> int" where
  "declared_length hs =
     (case header_get hs ''content-length'' of None \<Rightarrow> 0 | Some v \<Rightarrow> (case py_int v of None \<Rightarrow> 0 | Some n \<Rightarrow> n))"

definition receive_json :: "'z body_env \<Rightarrow> headers \<Rightarrow> content_encoding option \<Rightarrow> message list \<Rightarrow> json_receive option" where
  "receive_json B hs e ms =
     (case collect (be_zlib B) (json_wire_limit e) 0 (map_option (new_inflater (be_zlib B)) e) ms of
        None \<Rightarrow> None
      | Some (Inl _) \<Rightarrow> Some (Answered json_parser_error)
      | Some (Inr c) \<Rightarrow>
          Some (classify_body B hs (case header_get hs ''content-type'' of None \<Rightarrow> [] | Some t \<Rightarrow> t) c))"

definition express_json_receive :: "'z body_env \<Rightarrow> headers \<Rightarrow> message list \<Rightarrow> json_receive option" where
  "express_json_receive B hs ms =
     (if media_type B hs \<noteq> lit ''application/json'' then Some (Passed ms)
      else (case body_encoding B hs of
        None \<Rightarrow> Some (Answered json_parser_error)
      | Some e \<Rightarrow>
          if int (json_wire_limit e) < declared_length hs then Some (Answered json_parser_error)
          else receive_json B hs e ms))"

section \<open>The inflater stays bounded and returns\<close>

definition inflater_ok :: "'z inflater \<Rightarrow> bool" where
  "inflater_ok s \<longleftrightarrow> if_inflated_size s = length (concat (if_chunks s)) \<and> if_inflated_size s \<le> EXPRESS_JSON_LIMIT_BYTES"

definition z_progress :: "'z zlib \<Rightarrow> bool" where
  "z_progress Z \<longleftrightarrow> (\<forall>d data m output d'. z_decompress Z d data m = Some (output, d') \<and> z_eof Z d' \<longrightarrow>
     length (z_unused_data Z d') < length data)"

lemma new_inflater_ok: "inflater_ok (new_inflater Z e)"
  by (simp add: inflater_ok_def new_inflater_def EXPRESS_JSON_LIMIT_BYTES_def)

lemma append_chunk_ok: "inflater_ok s \<Longrightarrow> append_chunk s chunk = Inr s' \<Longrightarrow> inflater_ok s'"
  by (auto simp: inflater_ok_def append_chunk_def Let_def split: if_splits)

lemma append_chunk_encoding: "append_chunk s chunk = Inr s' \<Longrightarrow> if_encoding s' = if_encoding s \<and> if_decoder s' = if_decoder s"
  by (auto simp: append_chunk_def Let_def split: if_splits)

lemma inflater_ok_update [simp]:
  "inflater_ok (s\<lparr>if_decoder := d\<rparr>) = inflater_ok s" "inflater_ok (s\<lparr>if_finished := b\<rparr>) = inflater_ok s"
  by (simp_all add: inflater_ok_def)

lemma feed_loop_result:
  assumes "z_progress Z" "inflater_ok s"
  shows "\<exists>r. feed_loop Z s data = Some r \<and> (\<forall>s'. r = Inr s' \<longrightarrow> inflater_ok s')"
  using assms(2)
proof (induction "length data" arbitrary: s data rule: less_induct)
  case less
  show ?case
  proof (cases "data = [] \<or> z_decompress Z (if_decoder s) data (room s) = None")
    case True
    then show ?thesis using less.prems by (subst feed_loop.simps) auto
  next
    case False
    then obtain out d where got: "z_decompress Z (if_decoder s) data (room s) = Some (out, d)" by auto
    show ?thesis
    proof (cases "append_chunk (s\<lparr>if_decoder := d\<rparr>) out")
      case (Inl e)
      then show ?thesis using False got by (subst feed_loop.simps) simp
    next
      case (Inr s1)
      from append_chunk_ok [OF _ this] less.prems have s1: "inflater_ok s1" by simp
      show ?thesis
      proof (cases "z_unconsumed_tail Z d = [] \<and> z_eof Z d \<and> \<not> (if_encoding s = Deflate \<or> z_unused_data Z d = [])")
        case True
        have "length (z_unused_data Z d) < length data"
          using assms(1) got True unfolding z_progress_def by blast
        from less.hyps [OF this, of "s1\<lparr>if_decoder := z_new Z (window_bits (if_encoding s))\<rparr>"] s1
        show ?thesis using False got Inr True by (subst feed_loop.simps) simp
      next
        case stop: False
        then show ?thesis using False got Inr s1 by (subst feed_loop.simps) auto
      qed
    qed
  qed
qed

lemma feed_result:
  assumes "z_progress Z" "inflater_ok s"
  shows "\<exists>r. feed Z s data = Some r \<and> (\<forall>s'. r = Inr s' \<longrightarrow> inflater_ok s')"
  using feed_loop_result [OF assms(1)] assms(2) by (auto simp: feed_def)

lemma finish_bounded:
  "inflater_ok s \<Longrightarrow> finish Z s = Inr body \<Longrightarrow> length body \<le> EXPRESS_JSON_LIMIT_BYTES"
  by (auto simp: finish_def bindE_Inr_iff split: if_splits option.splits dest!: append_chunk_ok [rotated])
    (simp_all add: inflater_ok_def)

lemma feed_optional_result:
  assumes "z_progress Z" "\<And>s. held = Some s \<Longrightarrow> inflater_ok s"
  shows "\<exists>r. feed_optional Z held data = Some r
    \<and> (\<forall>held'. r = Inr held' \<longrightarrow> (held' = None \<longleftrightarrow> held = None) \<and> (\<forall>s. held' = Some s \<longrightarrow> inflater_ok s))"
proof (cases held)
  case (Some s)
  from feed_result [OF assms(1) assms(2) [OF Some], of data] obtain r where
    "feed Z s data = Some r" "\<forall>s'. r = Inr s' \<longrightarrow> inflater_ok s'" by blast
  then show ?thesis using Some by (cases r) (auto simp: feed_optional_def)
qed (simp add: feed_optional_def)

lemma collect_result:
  assumes "z_progress Z" "\<And>s. held = Some s \<Longrightarrow> inflater_ok s"
  shows "\<exists>r. collect Z limit wire held ms = Some r
    \<and> (\<forall>c. r = Inr c \<longrightarrow> (co_body c = [] \<or> wire + length (co_body c) \<le> limit)
         \<and> (co_inflater c = None \<longleftrightarrow> held = None) \<and> (\<forall>s. co_inflater c = Some s \<longrightarrow> inflater_ok s))"
  using assms
proof (induction Z limit wire held ms rule: collect.induct)
  case (3 Z limit wire held ms)
  then show ?case by (fastforce simp: noted_def split: sum.split)
next
  case (4 Z limit wire held chunk more_body ms)
  show ?case
  proof (cases "limit < wire + length chunk")
    case False
    from feed_optional_result [OF "4.prems", where data = chunk] obtain r where r: "feed_optional Z held chunk = Some r"
      and ok: "\<And>held'. r = Inr held' \<Longrightarrow> (held' = None \<longleftrightarrow> held = None) \<and> (\<forall>s. held' = Some s \<longrightarrow> inflater_ok s)"
      by blast
    show ?thesis
    proof (cases r)
      case (Inr held')
      show ?thesis
      proof (cases more_body)
        case True
        from "4.IH" [OF False r Inr True "4.prems"(1)] ok [OF Inr] obtain r2 where
          r2: "collect Z limit (wire + length chunk) held' ms = Some r2"
          and c: "\<And>c. r2 = Inr c \<Longrightarrow> (co_body c = [] \<or> wire + length chunk + length (co_body c) \<le> limit)
             \<and> (co_inflater c = None \<longleftrightarrow> held' = None) \<and> (\<forall>s. co_inflater c = Some s \<longrightarrow> inflater_ok s)"
          by blast
        show ?thesis using False r Inr True r2 c ok [OF Inr] by (cases r2) (auto simp: noted_def)
      next
        case last: False
        then show ?thesis using False r Inr ok [OF Inr] by auto
      qed
    qed (use False r in simp)
  qed simp
qed auto

section \<open>Strict JSON is read\<close>

lemma scan_number_any: "scan_number fl s = Inr (v, rest) \<Longrightarrow> \<exists>v'. scan_number fl' s = Inr (v', rest)"
  by (auto simp: scan_number_def Let_def split: if_splits prod.splits)

definition skip_atom :: "pystr \<Rightarrow> pystr option" where
  "skip_atom s =
     (if starts ''null'' s then Some (drop 4 s)
      else if starts ''true'' s then Some (drop 4 s)
      else if starts ''false'' s then Some (drop 5 s)
      else if starts ''NaN'' s \<or> starts ''Infinity'' s \<or> starts ''-Infinity'' s then None
      else (case scan_number FiniteFloat s of Inl e \<Rightarrow> None | Inr (v, rest) \<Rightarrow> Some rest))"

definition scan_atom :: "(pystr \<Rightarrow> pyfloat) \<Rightarrow> pystr \<Rightarrow> json_error + (pyval \<times> pystr)" where
  "scan_atom fl s =
     (if starts ''null'' s then Inr (PNone, drop 4 s)
      else if starts ''true'' s then Inr (PBool True, drop 4 s)
      else if starts ''false'' s then Inr (PBool False, drop 5 s)
      else if starts ''NaN'' s then Inr (PFloat NotANumber, drop 3 s)
      else if starts ''Infinity'' s then Inr (PFloat PosInfinity, drop 8 s)
      else if starts ''-Infinity'' s then Inr (PFloat NegInfinity, drop 9 s)
      else scan_number fl s)"

lemma skip_atom_scan: "skip_atom s = Some rest \<Longrightarrow> \<exists>v. scan_atom fl s = Inr (v, rest)"
  by (auto simp: skip_atom_def scan_atom_def dest: scan_number_any [where fl' = fl] split: if_splits sum.splits)

lemma skip_scan:
  "(\<forall>s rest. skip_value n s = Some rest \<longrightarrow> (\<exists>v. scan_value fl n s = Inr (v, rest)))
   \<and> (\<forall>s rest acc. skip_array n s = Some rest \<longrightarrow> (\<exists>v. scan_array fl n acc s = Inr (v, rest)))
   \<and> (\<forall>s rest d. skip_object n s = Some rest \<longrightarrow> (\<exists>v. scan_object fl n d s = Inr (v, rest)))"
proof (induction n)
  case (Suc n)
  note IH1 = Suc.IH [THEN conjunct1, rule_format] and IH2 = Suc.IH [THEN conjunct2, THEN conjunct1, rule_format]
    and IH3 = Suc.IH [THEN conjunct2, THEN conjunct2, rule_format]
  have "\<exists>v. scan_value fl (Suc n) s = Inr (v, rest)" if "skip_value (Suc n) s = Some rest" for s rest
  proof -
    from that obtain c r where s: "s = c # r" by (cases s) auto
    show ?thesis
    proof (cases "c = 34 \<or> c = 123 \<or> c = 91")
      case True
      then show ?thesis using that unfolding s
        by (auto split: list.splits if_splits dest: IH2 [where acc = "[]"] IH3 [where d = "[]"])
    next
      case False
      then have "skip_atom s = Some rest" using that unfolding s by (simp add: skip_atom_def)
      from skip_atom_scan [OF this, of fl] obtain v where "scan_atom fl s = Inr (v, rest)" by blast
      then show ?thesis using False unfolding s by (simp add: scan_atom_def)
    qed
  qed
  moreover have "\<exists>v. scan_array fl (Suc n) acc s = Inr (v, rest)" if "skip_array (Suc n) s = Some rest" for s rest acc
  proof -
    from that obtain r x xs where v: "skip_value n s = Some r" and x: "skip_ws r = x # xs"
      and t: "(if x = 93 then Some xs else if x = 44 then skip_array n (skip_ws xs) else None) = Some rest"
      by (auto split: option.splits list.splits)
    from IH1 [OF v] obtain u where "scan_value fl n s = Inr (u, r)" by blast
    then show ?thesis using x t IH2 [where acc = "acc @ [u]"] by (auto split: if_splits)
  qed
  moreover have "\<exists>v. scan_object fl (Suc n) d s = Inr (v, rest)" if "skip_object (Suc n) s = Some rest" for s rest d
  proof -
    from that obtain q k r0 x xs r y ys where s: "s = 34 # q" "scan_string q = Some (k, r0)" "skip_ws r0 = x # xs" "x = 58"
      and v: "skip_value n (skip_ws xs) = Some r" and y: "skip_ws r = y # ys"
      and t: "(if y = 125 then Some ys else if y = 44 then skip_object n (skip_ws ys) else None) = Some rest"
      by (auto split: option.splits list.splits if_splits)
    from IH1 [OF v] obtain u where "scan_value fl n (skip_ws xs) = Inr (u, r)" by blast
    then show ?thesis using s y t IH3 [where d = "dict_set d k u"] by (auto split: if_splits)
  qed
  ultimately show ?case by blast
qed simp

lemma strict_json_loads: "strict_json s \<Longrightarrow> \<exists>v. json_loads fl s = Inr v"
proof -
  assume "strict_json s"
  then obtain rest where r: "skip_value (Suc (2 * length s)) (skip_ws s) = Some rest" "skip_ws rest = []"
    and h: "\<not> (s \<noteq> [] \<and> hd s = 0xFEFF)"
    by (auto simp: strict_json_def simp del: skip_value.simps split: option.splits)
  from skip_scan [THEN conjunct1, rule_format, OF r(1)] obtain v where
    "scan_value fl (Suc (2 * length s)) (skip_ws s) = Inr (v, rest)" by blast
  with r(2) h show ?thesis by (simp add: json_loads_def del: scan_value.simps)
qed

lemma classify_body_Validated:
  assumes "classify_body B hs content_type c = Validated hs' ms'"
  shows "\<exists>t body decoded. ms' = HttpRequest (utf8_bytes t) False # co_rest c \<and> strict_json t
    \<and> (case co_inflater c of None \<Rightarrow> body = co_body c | Some s \<Rightarrow> finish (be_zlib B) s = Inr body) \<and> co_body c \<noteq> []
    \<and> decode_json_body (be_utf7 B) body (json_charset (be_lower B) content_type) = Inr decoded
    \<and> (decoded = t \<or> decoded = 0xFEFF # t)
    \<and> list_all (\<lambda>h. ascii_lower (fst h) \<notin> {lit ''content-encoding'', lit ''content-length''}) hs'"
proof -
  from assms obtain body decoded t where
    b: "(case co_inflater c of None \<Rightarrow> Inr (co_body c) | Some s \<Rightarrow> finish (be_zlib B) s) = Inr body"
    and d: "decode_json_body (be_utf7 B) body (json_charset (be_lower B) content_type) = Inr decoded"
    and t: "classified_text decoded = Some t" and ne: "co_body c \<noteq> []"
    and hs': "hs' = filter (\<lambda>h. ascii_lower (fst h) \<notin> {lit ''content-encoding'', lit ''content-length''}) hs"
    and ms': "ms' = HttpRequest (utf8_bytes t) False # co_rest c"
    by (auto simp: classify_body_def split: if_splits sum.splits option.splits)
  from t have "strict_json t \<and> (decoded = t \<or> decoded = 0xFEFF # t)"
    by (cases decoded) (auto simp: classified_text_def Let_def split: if_splits)
  with b d ne hs' ms' show ?thesis by (auto simp: list_all_iff split: option.splits)
qed

section \<open>Properties\<close>


text \<open>A decoder of length-prefixed blocks: each is one complete stream.\<close>

definition sample_zlib :: "(bool \<times> nat list) zlib" where
  "sample_zlib = \<lparr>z_new = (\<lambda>_. (False, [])),
     z_decompress = (\<lambda>d data m. case data of [] \<Rightarrow> None
       | n # r \<Rightarrow> if length r < n \<or> m < n then None else Some (take n r, (True, drop n r))),
     z_flush = (\<lambda>d m. Some ([], d)), z_eof = fst, z_unused_data = snd, z_unconsumed_tail = (\<lambda>_. [])\<rparr>"

definition sample_body_env :: "(bool \<times> nat list) body_env" where
  "sample_body_env = \<lparr>be_zlib = sample_zlib, be_utf7 = (\<lambda>b. b), be_lower = (\<lambda>s. s)\<rparr>"

definition sample_gzip_headers :: headers where
  "sample_gzip_headers = [(lit ''content-type'', lit ''application/json; charset=UTF-8''), (lit ''content-encoding'', lit ''gzip''),
     (lit ''content-length'', lit ''5'')]"

lemma sample_zlib_progress: "z_progress (be_zlib sample_body_env)"
  by (auto simp: z_progress_def sample_body_env_def sample_zlib_def split: list.splits if_splits)

lemma sample_feed: "feed sample_zlib (new_inflater sample_zlib Gzip) [2, 123, 32, 2, 32, 125] =
    Some (Inr \<lparr>if_encoding = Gzip, if_decoder = (True, []), if_chunks = [[123, 32], [32, 125]], if_inflated_size = 4, if_finished = True\<rparr>)"
  by (simp add: feed_def new_inflater_def feed_loop.simps sample_zlib_def append_chunk_def room_def EXPRESS_JSON_LIMIT_BYTES_def)

lemma sample_receive:
  "express_json_receive sample_body_env sample_gzip_headers [HttpRequest [2, 123, 32, 2, 32, 125] False]
   = Some (Validated [(lit ''content-type'', lit ''application/json; charset=UTF-8'')] [HttpRequest [123, 32, 32, 125] False])"
proof -
  have "body_encoding sample_body_env sample_gzip_headers = Some (Some Gzip)"
    "declared_length sample_gzip_headers = 5" "media_type sample_body_env sample_gzip_headers = lit ''application/json''"
    by code_simp+
  moreover have "collect sample_zlib COMPRESSED_JSON_LIMIT_BYTES 0 (Some (new_inflater sample_zlib Gzip)) [HttpRequest [2, 123, 32, 2, 32, 125] False]
    = Some (Inr \<lparr>co_messages = [HttpRequest [2, 123, 32, 2, 32, 125] False], co_body = [2, 123, 32, 2, 32, 125], co_disconnected = False,
        co_inflater = Some \<lparr>if_encoding = Gzip, if_decoder = (True, []), if_chunks = [[123, 32], [32, 125]], if_inflated_size = 4,
          if_finished = True\<rparr>, co_rest = []\<rparr>)"
    by (simp add: feed_optional_def sample_feed COMPRESSED_JSON_LIMIT_BYTES_def)
  moreover have "finish sample_zlib \<lparr>if_encoding = Gzip, if_decoder = (True, []), if_chunks = [[123, 32], [32, 125]], if_inflated_size = 4,
          if_finished = True\<rparr> = Inr [123, 32, 32, 125]"
    by (simp add: finish_def sample_zlib_def append_chunk_def EXPRESS_JSON_LIMIT_BYTES_def)
  moreover have "decode_json_body (\<lambda>b. b) [123, 32, 32, 125] (json_charset (\<lambda>s. s) (lit ''application/json; charset=UTF-8'')) = Inr [123, 32, 32, 125]"
    "classified_text [123, 32, 32, 125] = Some [123, 32, 32, 125]" "no_surrogate [123, 32, 32, 125]" "utf8_bytes [123, 32, 32, 125] = [123, 32, 32, 125]"
    by code_simp+
  moreover have "header_get sample_gzip_headers ''content-type'' = Some (lit ''application/json; charset=UTF-8'')"
    "filter (\<lambda>h. ascii_lower (fst h) \<notin> {lit ''content-encoding'', lit ''content-length''}) sample_gzip_headers
      = [(lit ''content-type'', lit ''application/json; charset=UTF-8'')]"
    by code_simp+
  ultimately show ?thesis
    by (simp add: express_json_receive_def receive_json_def json_wire_limit_def sample_body_env_def classify_body_def
        COMPRESSED_JSON_LIMIT_BYTES_def)
qed


end
