(* ===== verification/Http_Middleware.thy ===== *)
theory Http_Middleware
  imports Http_Body Rate_Limit
begin

text \<open>
  The middlewares of \<^verbatim>\<open>api/middleware.py\<close> around the service routes, in the order of \<^verbatim>\<open>main.py\<close>: security
  headers, CORS, generic errors, the authentication rate limit and the path compatibility of the former Express
  server, and \<^verbatim>\<open>request_audit_context\<close> of \<^verbatim>\<open>api/dependencies.py\<close>. An application takes the scope of a request
  and its messages and answers with a response, or raises before or after its first message. The raw path is decoded
  from bytes with surrogate escapes, as the code does.
\<close>

section \<open>Routes\<close>

definition PUBLIC_ROUTES :: "string list" where
  "PUBLIC_ROUTES = [''/'', ''/healthz'', ''/readyz'', ''/.well-known/jwks.json'', ''/.well-known/openid-configuration'',
     ''/login'', ''/signup'', ''/auth/callback'', ''/password-reset'', ''/verify-email'', ''/admin/dashboard'',
     ''/manage/dashboard'', ''/auth/register'', ''/auth/login'', ''/auth/refresh'', ''/auth/logout'', ''/auth/exchange'',
     ''/auth/password-reset/request'', ''/auth/password-reset/confirm'', ''/auth/email-verification/request'',
     ''/auth/email-verification/confirm'', ''/auth/google'', ''/auth/google/callback'', ''/auth/naver'',
     ''/auth/naver/callback'', ''/auth/kakao'', ''/auth/kakao/callback'', ''/users/me'']"

text \<open>\<^verbatim>\<open>_CANONICAL_PUBLIC_ROUTES.get\<close>: every route is its own lower case.\<close>

definition canonical_public :: "pystr \<Rightarrow> pystr option" where
  "canonical_public lowered = map_of (map (\<lambda>p. (ascii_lower (lit p), lit p)) PUBLIC_ROUTES) lowered"

definition without_slash :: "pystr \<Rightarrow> pystr" where
  "without_slash path = (if 1 < length path \<and> last path = 47 then butlast path else path)"

text \<open>A literal under \<^verbatim>\<open>re.IGNORECASE\<close>: beside the ASCII letters, two letters fold to i, one to k and one to s.\<close>

definition fold_char :: "nat \<Rightarrow> nat" where
  "fold_char c = (if c = 0x130 \<or> c = 0x131 then 105 else if c = 0x212A then 107 else if c = 0x17F then 115
     else ascii_lower_char c)"

definition same_word :: "string \<Rightarrow> pystr \<Rightarrow> bool" where
  "same_word w s \<longleftrightarrow> map fold_char s = lit w"

datatype admin_path =
    ListPath pystr pystr | UserPath pystr pystr pystr | RolePath pystr pystr pystr

definition admin_prefix :: "pystr \<Rightarrow> bool" where
  "admin_prefix s \<longleftrightarrow> same_word ''admin'' s \<or> same_word ''manage-api'' s"

text \<open>\<^verbatim>\<open>_ADMIN_ROUTE_PATTERNS\<close>, on the segments of the path; one trailing slash is allowed.\<close>

definition admin_match :: "pystr \<Rightarrow> admin_path option" where
  "admin_match path =
     (let segments = py_split_on 47 path;
          segments = (if 1 < length segments \<and> last segments = [] then butlast segments else segments)
      in case segments of
           [start, prefix, route] \<Rightarrow>
             if start = [] \<and> admin_prefix prefix \<and> (same_word ''users'' route \<or> same_word ''audit-logs'' route)
             then Some (ListPath prefix route) else None
         | [start, prefix, users, user_id, route] \<Rightarrow>
             if start = [] \<and> admin_prefix prefix \<and> same_word ''users'' users \<and> user_id \<noteq> []
                \<and> (same_word ''status'' route \<or> same_word ''roles'' route \<or> same_word ''revoke-sessions'' route)
             then Some (UserPath prefix user_id route) else None
         | [start, prefix, users, user_id, roles, role_id] \<Rightarrow>
             if start = [] \<and> admin_prefix prefix \<and> same_word ''users'' users \<and> user_id \<noteq> [] \<and> same_word ''roles'' roles
                \<and> role_id \<noteq> []
             then Some (RolePath prefix user_id role_id) else None
         | _ \<Rightarrow> None)"

definition canonical_admin_path :: "bool \<Rightarrow> pystr \<Rightarrow> pystr option" where
  "canonical_admin_path parameter_labels path =
     map_option (\<lambda>m. case m of
         ListPath prefix route \<Rightarrow> [47] @ ascii_lower prefix @ [47] @ ascii_lower route
       | UserPath prefix user_id route \<Rightarrow>
           [47] @ ascii_lower prefix @ lit ''/users/'' @ (if parameter_labels then lit '':id'' else user_id) @ [47] @ ascii_lower route
       | RolePath prefix user_id role_id \<Rightarrow>
           [47] @ ascii_lower prefix @ lit ''/users/'' @ (if parameter_labels then lit '':id'' else user_id) @ lit ''/roles/''
           @ (if parameter_labels then lit '':roleId'' else role_id)) (admin_match path)"

definition decoded_admin_raw_parameters :: "pystr \<Rightarrow> (pystr \<times> pystr) list" where
  "decoded_admin_raw_parameters path =
     (case admin_match path of
        Some (UserPath prefix user_id route) \<Rightarrow> [(lit ''id'', unquote user_id)]
      | Some (RolePath prefix user_id role_id) \<Rightarrow> [(lit ''id'', unquote user_id), (lit ''roleId'', unquote role_id)]
      | _ \<Rightarrow> [])"

definition is_admin_mutation :: "pystr \<Rightarrow> pystr \<Rightarrow> bool" where
  "is_admin_mutation path meth =
     (case canonical_admin_path False path of
        None \<Rightarrow> False
      | Some canonical \<Rightarrow>
          (meth = lit ''PATCH'' \<and> py_endswith canonical (lit ''/status''))
        \<or> (meth = lit ''POST'' \<and> (py_endswith canonical (lit ''/roles'') \<or> py_endswith canonical (lit ''/revoke-sessions'')))
        \<or> (meth = lit ''DELETE'' \<and> py_contains (lit ''/roles/'') canonical))"

definition requires_no_store :: "pystr \<Rightarrow> bool" where
  "requires_no_store path =
     (let candidate = without_slash (ascii_lower path) in
      if candidate = lit ''/users/me'' then True
      else if is_prefix (lit ''/auth/'') candidate then candidate \<noteq> lit ''/auth/callback''
      else if is_prefix (lit ''/manage-api/'') candidate then True
      else is_prefix (lit ''/admin/'') candidate \<and> candidate \<noteq> lit ''/admin/dashboard'')"

definition request_id_char :: "nat \<Rightarrow> bool" where
  "request_id_char c \<longleftrightarrow> ascii_alpha c \<or> ascii_digit c \<or> c = 46 \<or> c = 95 \<or> c = 58 \<or> c = 45"

definition request_id :: "pystr \<Rightarrow> pystr option \<Rightarrow> pystr" where
  "request_id fresh v =
     (case v of None \<Rightarrow> fresh
      | Some s \<Rightarrow> if s \<noteq> [] \<and> length s \<le> 128 \<and> list_all request_id_char s then s else fresh)"

definition provider_route :: "pystr \<Rightarrow> pystr option" where
  "provider_route path =
     (case py_split_on 47 path of
        [start, oauth2, providers, provider, action] \<Rightarrow>
          if start = [] \<and> oauth2 = lit ''oauth2'' \<and> providers = lit ''providers''
             \<and> provider \<in> {lit ''google'', lit ''naver'', lit ''kakao''} \<and> action \<in> {lit ''start'', lit ''callback''}
          then Some (lit ''/oauth2/providers/:provider/'' @ action) else None
      | _ \<Rightarrow> None)"

definition normalized_route :: "bool \<Rightarrow> pystr \<Rightarrow> pystr" where
  "normalized_route oidc_enabled path =
     (if oidc_enabled \<and> path \<in> set (map lit [''/oauth2/authorize'', ''/oauth2/token'', ''/oauth2/userinfo'', ''/oauth2/login'',
                                    ''/oauth2/assets/login.css'']) then path
      else if oidc_enabled \<and> provider_route path \<noteq> None then the (provider_route path)
      else if path \<in> set (map lit PUBLIC_ROUTES) then path
      else if is_prefix (lit ''/assets/'') path then lit ''/assets/*''
      else (case canonical_admin_path True path of Some r \<Rightarrow> r | None \<Rightarrow> lit ''unmatched''))"

definition status_outcome :: "nat \<Rightarrow> pystr" where
  "status_outcome status_code = nat_digits (min (max (status_code div 100) 1) 5) @ lit ''xx''"

section \<open>Audit context\<close>

definition bounded_audit_value :: "pystr option \<Rightarrow> nat \<Rightarrow> bool \<Rightarrow> pystr option" where
  "bounded_audit_value v limit shorten =
     (case v of None \<Rightarrow> None
      | Some s \<Rightarrow>
          if list_ex control_char s then None
          else (let normalized = py_strip s in
                if normalized = [] then None
                else if length normalized \<le> limit then Some normalized
                else if shorten then Some (take limit normalized) else None))"

definition request_audit_context :: "pystr option \<Rightarrow> pystr option \<Rightarrow> pystr option \<Rightarrow> RequestAuditContext" where
  "request_audit_context forwarded_for user_agent client_address =
     (let forwarded_candidate = (case forwarded_for of None \<Rightarrow> None | Some f \<Rightarrow> if f = [] then None else Some (hd (py_split_on 44 f)));
          forwarded_address = bounded_audit_value forwarded_candidate 255 False;
          socket_address = bounded_audit_value client_address 255 False
      in \<lparr>rac_ip_address = (case forwarded_address of None \<Rightarrow> socket_address | Some a \<Rightarrow> Some a),
          rac_user_agent = bounded_audit_value user_agent 512 True\<rparr>)"

section \<open>Applications\<close>

record http_scope =
  sc_method :: pystr
  sc_path :: pystr
  sc_raw_path :: "nat list option"
  sc_headers :: headers
  sc_client :: "pystr option"
  sc_json_validated :: bool
  sc_original_path :: "pystr option"
  sc_original_decoded_path :: "pystr option"
  sc_admin_path_params :: "(pystr \<times> pystr) list option"
  sc_query_string :: "nat list"

datatype app_result = Completed http_response | RaisedBefore exn | RaisedAfter http_response exn

text \<open>Nothing is a request that is never answered.\<close>

type_synonym app = "http_scope \<Rightarrow> message list \<Rightarrow> world \<Rightarrow> (app_result \<times> world) option"

definition on_response :: "(http_response \<Rightarrow> http_response) \<Rightarrow> (app_result \<times> world) option \<Rightarrow> (app_result \<times> world) option" where
  "on_response f r = map_option (\<lambda>(a, w). (case a of
       Completed x \<Rightarrow> Completed (f x) | RaisedBefore e \<Rightarrow> RaisedBefore e | RaisedAfter x e \<Rightarrow> RaisedAfter (f x) e, w)) r"

definition surrogateescape :: "nat list \<Rightarrow> pystr" where
  "surrogateescape bs = map (\<lambda>b. if b < 128 then b else 0xDC00 + b) bs"

definition raw_path :: "http_scope \<Rightarrow> pystr" where
  "raw_path sc = (case sc_raw_path sc of Some bs \<Rightarrow> surrogateescape bs | None \<Rightarrow> sc_path sc)"

section \<open>Path compatibility\<close>

fun drain_body :: "message list \<Rightarrow> message list" where
  "drain_body [] = []"
| "drain_body (HttpRequest chunk more_body # ms) = (if more_body then drain_body ms else ms)"
| "drain_body (m # ms) = ms"

definition empty_body_receive :: "message list \<Rightarrow> message list" where
  "empty_body_receive ms = HttpRequest [] False # drain_body ms"

definition ASSET_REDIRECT_MARKER :: string where
  "ASSET_REDIRECT_MARKER = ''x-wiseacct-internal-asset-redirect''"

definition asset_redirect :: "pystr \<Rightarrow> http_response" where
  "asset_redirect path =
     (let location = path @ [47];
          body = lit ''<!DOCTYPE html>'' @ [10] @ lit ''<html lang='' @ quoted (lit ''en'') @ lit ''>'' @ [10] @ lit ''<head>'' @ [10]
            @ lit ''<meta charset='' @ quoted (lit ''utf-8'') @ lit ''>'' @ [10] @ lit ''<title>Redirecting</title>'' @ [10]
            @ lit ''</head>'' @ [10] @ lit ''<body>'' @ [10] @ lit ''<pre>Redirecting to '' @ location @ lit ''</pre>'' @ [10]
            @ lit ''</body>'' @ [10] @ lit ''</html>'' @ [10]
      in (plain_response 301 (lit ''text/html; charset=UTF-8'') body)
           \<lparr>hr_headers := [(lit ''content-type'', lit ''text/html; charset=UTF-8''), (lit ''location'', location),
                           (lit ASSET_REDIRECT_MARKER, lit ''1'')], hr_location := Some location\<rparr>)"

text \<open>The rewritten scope; \<^verbatim>\<open>encode\<close> raises for a surrogate.\<close>

definition with_path :: "http_scope \<Rightarrow> pystr \<Rightarrow> exn + http_scope" where
  "with_path sc path =
     (if no_surrogate path then Inr (sc\<lparr>sc_path := path, sc_raw_path := Some (utf8_bytes path)\<rparr>)
      else Inl (ValueError (lit ''surrogates not allowed'')))"

definition rewrite_path :: "http_scope \<Rightarrow> pystr \<Rightarrow> exn + http_scope" where
  "rewrite_path sc raw =
     (let path = sc_path sc; raw_candidate = without_slash raw; decoded_candidate = without_slash path in
      case canonical_public (ascii_lower raw_candidate) of
        Some canonical \<Rightarrow> with_path sc canonical
      | None \<Rightarrow>
          (case canonical_admin_path False raw_candidate of
             Some raw_admin \<Rightarrow>
               with_path (sc\<lparr>sc_admin_path_params := Some (decoded_admin_raw_parameters raw_candidate)\<rparr>)
                 (case canonical_admin_path False decoded_candidate of Some p \<Rightarrow> p | None \<Rightarrow> raw_admin)
           | None \<Rightarrow>
               if is_prefix (lit ''/assets/'') (ascii_lower raw) then with_path sc (lit ''/assets/'' @ drop 8 path)
               else if canonical_public (ascii_lower decoded_candidate) \<noteq> None
                 \<or> is_prefix (lit ''/assets/'') (ascii_lower path) \<or> canonical_admin_path False decoded_candidate \<noteq> None
               then with_path sc (lit ''/__encoded_public_path_not_found__'')
               else Inr sc))"

definition validated_json ::
  "'z body_env \<Rightarrow> http_scope \<Rightarrow> message list \<Rightarrow> (http_scope \<Rightarrow> message list \<Rightarrow> world \<Rightarrow> (app_result \<times> world) option) \<Rightarrow>
   world \<Rightarrow> (app_result \<times> world) option" where
  "validated_json B sc ms k w =
     (case express_json_receive B (sc_headers sc) ms of
        None \<Rightarrow> None
      | Some (Passed ms') \<Rightarrow> k sc ms' w
      | Some (Answered r) \<Rightarrow> Some (Completed r, w)
      | Some (Broken e) \<Rightarrow> Some (RaisedBefore e, w)
      | Some (Validated hs ms') \<Rightarrow> k (sc\<lparr>sc_headers := hs, sc_json_validated := True\<rparr>) ms' w)"

definition known_path_compatibility :: "'z body_env \<Rightarrow> app \<Rightarrow> app" where
  "known_path_compatibility B inner sc0 ms0 w =
     (let raw = raw_path sc0;
          sc = sc0\<lparr>sc_original_path := Some raw, sc_original_decoded_path := Some (sc_path sc0)\<rparr>;
          ms = (if is_admin_mutation raw (sc_method sc) \<and> media_type B (sc_headers sc) \<noteq> lit ''application/json''
                then empty_body_receive ms0 else ms0);
          route = (\<lambda>sc ms w.
            if ascii_lower raw = lit ''/assets'' \<and> sc_method sc \<in> {lit ''GET'', lit ''HEAD''}
            then Some (Completed (asset_redirect raw), w)
            else (case rewrite_path sc raw of Inl e \<Rightarrow> Some (RaisedBefore e, w) | Inr sc' \<Rightarrow> inner sc' ms w))
      in if sc_json_validated sc then route sc ms w else validated_json B sc ms route w)"

section \<open>The rate limit\<close>

definition RATE_LIMITED_AUTH_ROUTES :: "(string \<times> string) list" where
  "RATE_LIMITED_AUTH_ROUTES =
     map (\<lambda>p. (''POST'', p)) [''/auth/register'', ''/auth/login'', ''/auth/refresh'', ''/auth/logout'', ''/auth/exchange'',
       ''/auth/password-reset/request'', ''/auth/password-reset/confirm'', ''/auth/email-verification/request'',
       ''/auth/email-verification/confirm'']
     @ concat (map (\<lambda>p. [(''GET'', p), (''HEAD'', p)]) [''/auth/google'', ''/auth/google/callback'', ''/auth/naver'',
       ''/auth/naver/callback'', ''/auth/kakao'', ''/auth/kakao/callback''])"

definition rate_limited :: "http_scope \<Rightarrow> bool" where
  "rate_limited sc \<longleftrightarrow>
     (sc_method sc, ascii_lower (without_slash (raw_path sc))) \<in> set (map (\<lambda>(m, p). (lit m, lit p)) RATE_LIMITED_AUTH_ROUTES)"

definition rate_limit_answer :: "int \<Rightarrow> http_response" where
  "rate_limit_answer retry_after =
     set_header ''retry-after'' (py_str_int retry_after)
       (error_response 429 ''RATE_LIMITED'' ''Too many authentication requests'')"

definition auth_rate_limit :: "'z body_env \<Rightarrow> AuthService \<Rightarrow> runtime \<Rightarrow> app \<Rightarrow> app" where
  "auth_rate_limit B S R inner sc ms w =
     (if \<not> rate_limited sc then inner sc ms w
      else validated_json B sc ms (\<lambda>sc' ms' w1.
        let client_address = (case sc_client sc of None \<Rightarrow> lit ''unknown'' | Some a \<Rightarrow> a) in
        case enforce_rate_limit S R client_address (raw_path sc) (sc_method sc)
               (request_audit_context (header_get (sc_headers sc) ''x-forwarded-for'') (header_get (sc_headers sc) ''user-agent'')
                  (Some client_address)) w1 of
          (Inl e, w2) \<Rightarrow> Some (RaisedBefore e, w2)
        | (Inr (Some retry_after), w2) \<Rightarrow> Some (Completed (rate_limit_answer retry_after), w2)
        | (Inr None, w2) \<Rightarrow> inner sc' ms' w2) w)"

section \<open>Errors, CORS and security headers\<close>

definition generic_error :: "app \<Rightarrow> app" where
  "generic_error inner sc ms w =
     map_option (\<lambda>(a, w'). (case a of
         RaisedBefore e \<Rightarrow> Completed (error_response 500 ''INTERNAL_SERVER_ERROR'' ''Internal server error'')
       | RaisedAfter r e \<Rightarrow> RaisedAfter r (RuntimeError (lit ''Response stream aborted''))
       | Completed r \<Rightarrow> Completed r, w')) (inner sc ms w)"

definition add_vary :: "pystr \<Rightarrow> http_response \<Rightarrow> http_response" where
  "add_vary v r = set_header ''vary''
     (case header_get (hr_headers r) ''vary'' of None \<Rightarrow> v | Some existing \<Rightarrow> existing @ lit '', '' @ v) r"

definition preflight_answer :: "http_scope \<Rightarrow> pystr \<Rightarrow> http_response" where
  "preflight_answer sc allowed_origin =
     \<lparr>hr_status = 204,
      hr_headers = [(lit ''access-control-allow-origin'', allowed_origin),
          (lit ''access-control-allow-methods'', lit ''GET,HEAD,PUT,PATCH,POST,DELETE''), (lit ''content-length'', lit ''0''),
          (lit ''vary'', lit ''Origin, Access-Control-Request-Headers'')]
        @ (case header_get (sc_headers sc) ''access-control-request-headers'' of
             None \<Rightarrow> [] | Some h \<Rightarrow> if h = [] then [] else [(lit ''access-control-allow-headers'', h)]),
      hr_body = [], hr_location = None, hr_set_cookies = [], hr_cleared = []\<rparr>"

definition express_cors :: "pystr list \<Rightarrow> app \<Rightarrow> app" where
  "express_cors allowed_origins inner sc ms w =
     (let origin = header_get (sc_headers sc) ''origin'';
          allowed_origin = (case origin of None \<Rightarrow> None | Some v \<Rightarrow> if v \<in> set allowed_origins then Some v else None)
      in case allowed_origin of
           None \<Rightarrow> inner sc ms w
         | Some a \<Rightarrow>
             if sc_method sc = lit ''OPTIONS'' then Some (Completed (preflight_answer sc a), w)
             else on_response (\<lambda>r. add_vary (lit ''Origin'') (set_header ''access-control-allow-origin'' a r)) (inner sc ms w))"

definition csp_before :: pystr where
  "csp_before = lit ''default-src '' @ [39] @ lit ''self'' @ [39] @ lit '';base-uri '' @ [39] @ lit ''self'' @ [39]
     @ lit '';font-src '' @ [39] @ lit ''self'' @ [39] @ lit '' https: data:;''"

definition csp_form_action :: "pystr list \<Rightarrow> pystr" where
  "csp_form_action sources = lit ''form-action '' @ [39] @ lit ''self'' @ [39]
     @ (if sources = [] then [] else [32] @ join_space sources) @ lit '';''"

definition csp_after :: pystr where
  "csp_after = lit ''frame-ancestors '' @ [39] @ lit ''self'' @ [39] @ lit '';img-src '' @ [39] @ lit ''self'' @ [39] @ lit '' data:;''
     @ lit ''object-src '' @ [39] @ lit ''none'' @ [39] @ lit '';script-src '' @ [39] @ lit ''self'' @ [39]
     @ lit '';script-src-attr '' @ [39] @ lit ''none'' @ [39] @ lit '';style-src '' @ [39] @ lit ''self'' @ [39]
     @ lit '' https: '' @ [39] @ lit ''unsafe-inline'' @ [39] @ lit '';upgrade-insecure-requests''"

text \<open>The policy with the sources of the OIDC clients: the code replaces its one \<^verbatim>\<open>form-action 'self';\<close>.\<close>

definition content_security_policy :: "bool \<Rightarrow> pystr list \<Rightarrow> pystr" where
  "content_security_policy oidc_login sources =
     csp_before @ csp_form_action (if oidc_login then sources else []) @ csp_after"

definition plain_security_headers :: "(string \<times> string) list" where
  "plain_security_headers = [(''cross-origin-opener-policy'', ''same-origin''), (''cross-origin-resource-policy'', ''same-origin''),
     (''origin-agent-cluster'', ''?1''), (''strict-transport-security'', ''max-age=15552000; includeSubDomains''),
     (''x-content-type-options'', ''nosniff''), (''x-dns-prefetch-control'', ''off''), (''x-download-options'', ''noopen''),
     (''x-frame-options'', ''SAMEORIGIN''), (''x-permitted-cross-domain-policies'', ''none''), (''x-xss-protection'', ''0'')]"

definition drop_header :: "string \<Rightarrow> http_response \<Rightarrow> http_response" where
  "drop_header name r = r\<lparr>hr_headers := filter (\<lambda>h. fst h \<noteq> lit name) (hr_headers r)\<rparr>"

text \<open>The code compares the path with the login page when the response starts, after the compatibility layer has
  rewritten it in place; nothing is rewritten from or to \<^verbatim>\<open>/oauth2/login\<close>, so the path it came with decides.\<close>

definition secured :: "pystr list \<Rightarrow> http_scope \<Rightarrow> http_response \<Rightarrow> http_response" where
  "secured sources sc r =
     (let asset = (header_get (hr_headers r) ASSET_REDIRECT_MARKER = Some (lit ''1''));
          login = (sc_path sc = lit ''/oauth2/login'');
          r = (if asset then drop_header ASSET_REDIRECT_MARKER r else r);
          r = set_header ''content-security-policy''
                (if asset then lit ''default-src '' @ [39] @ lit ''none'' @ [39] else content_security_policy login sources) r;
          r = set_header ''referrer-policy'' (lit (if login then ''same-origin'' else ''no-referrer'')) r;
          r = foldl (\<lambda>r (n, v). set_header n (lit v) r) r plain_security_headers
      in if requires_no_store (sc_path sc) then set_header ''cache-control'' (lit ''no-store'') r else r)"

definition security_headers :: "pystr list \<Rightarrow> app \<Rightarrow> app" where
  "security_headers sources inner sc ms w = on_response (secured sources sc) (inner sc ms w)"

text \<open>The stack of \<^verbatim>\<open>create_app\<close> around the routes of the services; with OIDC, \<^verbatim>\<open>oidc_dispatch\<close> takes the
  requests below \<^verbatim>\<open>/oauth2\<close> out between the security headers and CORS.\<close>

definition service_stack ::
  "'z body_env \<Rightarrow> AuthService \<Rightarrow> runtime \<Rightarrow> pystr list \<Rightarrow> pystr list \<Rightarrow> app \<Rightarrow> app" where
  "service_stack B S R origins sources routes =
     security_headers sources (express_cors origins (generic_error (auth_rate_limit B S R (known_path_compatibility B routes))))"

section \<open>Observation\<close>

definition with_request_id :: "pystr \<Rightarrow> http_response \<Rightarrow> http_response" where
  "with_request_id i r = set_header ''x-request-id'' i r"

definition observed_outcome :: "app_result \<Rightarrow> pystr" where
  "observed_outcome a = (case a of Completed r \<Rightarrow> status_outcome (hr_status r) | _ \<Rightarrow> lit ''aborted'')"

definition request_instrumentation :: "pystr \<Rightarrow> app \<Rightarrow> app" where
  "request_instrumentation fresh inner sc ms w =
     on_response (with_request_id (request_id fresh (header_get (sc_headers sc) ''x-request-id''))) (inner sc ms w)"

section \<open>Spellings of a path\<close>

lemma ascii_lower_append [simp]: "ascii_lower (a @ b) = ascii_lower a @ ascii_lower b"
  by (simp add: ascii_lower_def)

lemma length_ascii_lower [simp]: "length (ascii_lower s) = length s"
  by (simp add: ascii_lower_def)

lemma ascii_lower_char_slash: "ascii_lower_char c = 47 \<longleftrightarrow> c = 47"
  by (auto simp: ascii_lower_char_def)

lemma without_slash_lower: "without_slash (ascii_lower s) = ascii_lower (without_slash s)"
  by (cases s rule: rev_cases)
    (auto simp: without_slash_def ascii_lower_def ascii_lower_char_slash butlast_append)

lemma requires_no_store_lower: "ascii_lower (without_slash s) = without_slash c \<Longrightarrow> ascii_lower c = c \<Longrightarrow>
    requires_no_store s = requires_no_store c"
  by (simp add: requires_no_store_def without_slash_lower [symmetric])

lemma unquote_plain_Cons: "c < 128 \<Longrightarrow> c \<noteq> 37 \<Longrightarrow> unquote (c # s) = c # unquote s"
proof -
  assume c: "c < 128" "c \<noteq> 37"
  have "utf8_replace (unquote_to_bytes (takeWhile (\<lambda>x. x < 128) s)) @ unquote (dropWhile (\<lambda>x. x < 128) s) = unquote s"
    by (cases s) auto
  with c show ?thesis by simp
qed

lemma unquote_plain_append: "all_ascii a \<Longrightarrow> 37 \<notin> set a \<Longrightarrow> unquote (a @ s) = a @ unquote s"
  by (induction a) (simp_all add: unquote_plain_Cons all_ascii_def del: unquote.simps)

lemma unquote_plain: "all_ascii a \<Longrightarrow> 37 \<notin> set a \<Longrightarrow> unquote a = a"
  using unquote_plain_append [of a "[]"] by simp


lemma public_routes_plain: "list_all (\<lambda>p. 37 \<notin> set (lit p) \<and> all_ascii (lit p) \<and> ascii_lower (lit p) = lit p
    \<and> without_slash (lit p) = lit p) PUBLIC_ROUTES"
  by code_simp

lemma canonical_public_Some:
  assumes "canonical_public s = Some c"
  shows "s = c \<and> ascii_lower c = c \<and> without_slash c = c \<and> all_ascii c \<and> 37 \<notin> set c"
proof -
  from assms obtain p where p: "p \<in> set PUBLIC_ROUTES" "s = ascii_lower (lit p)" "c = lit p"
    by (auto simp: canonical_public_def dest!: map_of_SomeD)
  with public_routes_plain show ?thesis by (auto simp: list_all_iff)
qed

lemma lower_plain_path:
  assumes "ascii_lower s = c" "all_ascii c" "37 \<notin> set c"
  shows "all_ascii s \<and> 37 \<notin> set s"
proof -
  have "x < 128 \<and> x \<noteq> 37" if "x \<in> set s" for x
  proof -
    have "ascii_lower_char x \<in> set c" using that assms(1) by (auto simp: ascii_lower_def)
    with assms(2,3) have "ascii_lower_char x < 128" "ascii_lower_char x \<noteq> 37" by (auto simp: all_ascii_def)
    then show ?thesis by (auto simp: ascii_lower_char_def split: if_splits)
  qed
  then show ?thesis by (auto simp: all_ascii_def)
qed

lemma without_slash_plain: "all_ascii (without_slash s) \<and> 37 \<notin> set (without_slash s) \<Longrightarrow> all_ascii s \<and> 37 \<notin> set s"
  by (cases s rule: rev_cases) (auto simp: without_slash_def all_ascii_def split: if_splits)

lemma public_path_plain:
  assumes "canonical_public (ascii_lower (without_slash raw)) = Some c"
  shows "unquote raw = raw" "requires_no_store raw = requires_no_store c"
proof -
  note c = canonical_public_Some [OF assms]
  have "all_ascii raw \<and> 37 \<notin> set raw" using lower_plain_path [of "without_slash raw" c] without_slash_plain c by metis
  then show "unquote raw = raw" by (simp add: unquote_plain)
  show "requires_no_store raw = requires_no_store c" using c by (intro requires_no_store_lower) simp_all
qed

lemma ascii_lower_char_idem [simp]: "ascii_lower_char (ascii_lower_char c) = ascii_lower_char c"
  by (simp add: ascii_lower_char_def)

lemma ascii_lower_Cons [simp]: "ascii_lower (c # s) = ascii_lower_char c # ascii_lower s"
  by (simp add: ascii_lower_def)

lemma ascii_lower_idem [simp]: "ascii_lower (ascii_lower s) = ascii_lower s"
  by (simp add: ascii_lower_def)

lemma py_split_on_pieces:
  "py_split_on sep s = x # y # ys \<Longrightarrow> sep \<notin> set x \<and> (\<exists>t. s = x @ sep # t \<and> py_split_on sep t = y # ys)"
proof (induction s arbitrary: x)
  case (Cons c s)
  obtain w ws where sp: "py_split_on sep s = w # ws" using py_split_on_ne by (meson neq_Nil_conv)
  show ?case
  proof (cases "c = sep")
    case True
    then show ?thesis using Cons.prems sp by auto
  next
    case False
    then have "x = c # w" "ws = y # ys" using Cons.prems sp by auto
    then show ?thesis using Cons.IH [of w] sp False by auto
  qed
qed simp

lemma py_split_on_one: "py_split_on sep s = [x] \<Longrightarrow> s = x"
proof (induction s arbitrary: x)
  case (Cons c s)
  then show ?case by (cases "py_split_on sep s") (auto simp: py_split_on_ne split: if_splits)
qed simp

lemma same_word_Cons: "same_word (k # w) s \<longleftrightarrow> (\<exists>c t. s = c # t \<and> fold_char c = of_char k \<and> same_word w t)"
  by (cases s) (auto simp: same_word_def lit_def)

lemma fold_char_u: "fold_char c = 117 \<Longrightarrow> ascii_lower_char c = 117"
  by (auto simp: fold_char_def split: if_splits)

lemma fold_char_a: "fold_char c = 97 \<Longrightarrow> ascii_lower_char c = 97"
  by (auto simp: fold_char_def split: if_splits)

lemma listed_word: "same_word ''users'' w \<or> same_word ''audit-logs'' w \<Longrightarrow> \<exists>c t. w = c # t \<and> ascii_lower_char c \<in> {97, 117}"
  by (auto simp: same_word_Cons dest: fold_char_u fold_char_a)

text \<open>What an administration path and its canonical form start with.\<close>

lemma admin_segments:
  assumes "admin_match path = Some m"
  shows "\<exists>prefix route rest. admin_prefix prefix \<and> (same_word ''users'' route \<or> same_word ''audit-logs'' route)
    \<and> py_split_on 47 path = [] # prefix # route # rest
    \<and> (m = ListPath prefix route \<or> (\<exists>i r. m = UserPath prefix i r) \<or> (\<exists>i j. m = RolePath prefix i j))"
proof -
  define segments where "segments = py_split_on 47 path"
  have "\<exists>prefix route rest. admin_prefix prefix \<and> (same_word ''users'' route \<or> same_word ''audit-logs'' route)
      \<and> (if 1 < length segments \<and> last segments = [] then butlast segments else segments) = [] # prefix # route # rest
      \<and> (m = ListPath prefix route \<or> (\<exists>i r. m = UserPath prefix i r) \<or> (\<exists>i j. m = RolePath prefix i j))"
    using assms unfolding admin_match_def Let_def segments_def [symmetric]
    by (auto split: list.splits if_splits)
  then obtain prefix route rest where *: "admin_prefix prefix" "same_word ''users'' route \<or> same_word ''audit-logs'' route"
      "(if 1 < length segments \<and> last segments = [] then butlast segments else segments) = [] # prefix # route # rest"
      "m = ListPath prefix route \<or> (\<exists>i r. m = UserPath prefix i r) \<or> (\<exists>i j. m = RolePath prefix i j)"
    by blast
  have "\<exists>rest'. segments = [] # prefix # route # rest'"
  proof (cases "1 < length segments \<and> last segments = []")
    case True
    then have "butlast segments = [] # prefix # route # rest" using *(3) by simp
    then have "segments = ([] # prefix # route # rest) @ [last segments]"
      using True by (metis append_butlast_last_id length_0_conv not_one_less_zero)
    then show ?thesis by auto
  qed (use *(3) in auto)
  with * show ?thesis unfolding segments_def by blast
qed

lemma admin_start:
  assumes "canonical_admin_path False path = Some p"
  shows "\<exists>prefix c t t'. path = 47 # prefix @ 47 # c # t \<and> 47 \<notin> set prefix \<and> admin_prefix prefix
    \<and> ascii_lower_char c \<in> {97, 117} \<and> (\<exists>d \<in> {97, 117}. p = 47 # ascii_lower prefix @ 47 # d # t')"
proof -
  from assms obtain m where m: "admin_match path = Some m" by (auto simp: canonical_admin_path_def)
  from admin_segments [OF m] obtain prefix route rest where s: "admin_prefix prefix"
      "same_word ''users'' route \<or> same_word ''audit-logs'' route" "py_split_on 47 path = [] # prefix # route # rest"
      "m = ListPath prefix route \<or> (\<exists>i r. m = UserPath prefix i r) \<or> (\<exists>i j. m = RolePath prefix i j)"
    by blast
  from listed_word [OF s(2)] obtain c w where c: "route = c # w" "ascii_lower_char c \<in> {97, 117}" by blast
  from py_split_on_pieces [OF s(3)] obtain t1 where t1: "path = 47 # t1" "py_split_on 47 t1 = prefix # route # rest" by auto
  from py_split_on_pieces [OF t1(2)] obtain t2 where t2: "t1 = prefix @ 47 # t2" "47 \<notin> set prefix"
    "py_split_on 47 t2 = route # rest" by auto
  have "\<exists>t3. t2 = route @ t3"
    using py_split_on_pieces [of 47 t2 route] py_split_on_one [of 47 t2 route] t2(3) c(1) by (cases rest) auto
  then obtain t3 where t3: "t2 = route @ t3" by blast
  have "\<exists>t'. \<exists>d \<in> {97, 117}. p = 47 # ascii_lower prefix @ 47 # d # t'"
    using assms m s(4) c by (auto simp: canonical_admin_path_def lit_def)
  then show ?thesis using t1(1) t2 t3 c s(1) by auto
qed

lemma admin_no_store:
  assumes "ascii_lower q = 47 # lit w @ 47 # c # t" "w = ''admin'' \<or> w = ''manage-api''" "c \<in> {97, 117}"
  shows "requires_no_store q"
proof -
  have "\<exists>t'. without_slash (ascii_lower q) = 47 # lit w @ 47 # c # t'"
    using assms(3) unfolding assms(1) by (cases t rule: rev_cases) (auto simp: without_slash_def butlast_append)
  then obtain t' where t': "without_slash (ascii_lower q) = 47 # lit w @ 47 # c # t'" by blast
  show ?thesis using assms(2,3) unfolding requires_no_store_def Let_def t'
    by (auto simp: lit_def)
qed

text \<open>A raw path holds ASCII characters and surrogates only.\<close>

lemma surrogateescape_chars: "x \<in> set (surrogateescape bs) \<Longrightarrow> x < 128 \<or> 0xDC00 \<le> x"
  by (auto simp: surrogateescape_def)

lemma admin_prefix_lower:
  assumes "admin_prefix prefix" "\<forall>x \<in> set prefix. x < 128 \<or> 0xDC00 \<le> x"
  shows "\<exists>w. (w = ''admin'' \<or> w = ''manage-api'') \<and> ascii_lower prefix = lit w \<and> all_ascii prefix \<and> 37 \<notin> set prefix"
proof -
  from assms(1) obtain w where w: "w = ''admin'' \<or> w = ''manage-api''" "map fold_char prefix = lit w"
    by (auto simp: admin_prefix_def same_word_def)
  have small: "fold_char x < 128 \<and> fold_char x \<noteq> 37" if "x \<in> set prefix" for x
  proof -
    have "fold_char x \<in> set (lit w)" using that w(2) by (metis list.set_map imageI)
    then show ?thesis using w(1) by (auto simp: lit_def)
  qed
  have ascii: "x < 128 \<and> x \<noteq> 37" if "x \<in> set prefix" for x
    using small [OF that] that assms(2) by (auto simp: fold_char_def ascii_lower_char_def split: if_splits)
  have "fold_char x = ascii_lower_char x" if "x \<in> set prefix" for x
    using ascii [OF that] by (auto simp: fold_char_def)
  then have "ascii_lower prefix = lit w" using w(2) by (metis ascii_lower_def map_cong)
  with w(1) ascii show ?thesis by (auto simp: all_ascii_def)
qed

lemma without_slash_eq: "without_slash s = s \<or> without_slash s @ [47] = s"
  by (cases s rule: rev_cases) (auto simp: without_slash_def)

lemma without_slash_extends: "\<exists>t. s = without_slash s @ t"
  using without_slash_eq [of s] by (metis append_Nil2)

lemma admin_raw:
  assumes "canonical_admin_path False (without_slash (surrogateescape bs)) = Some raw_admin"
    and "p = raw_admin \<or> canonical_admin_path False (without_slash (unquote (surrogateescape bs))) = Some p"
  shows "requires_no_store (unquote (surrogateescape bs)) \<and> requires_no_store p"
proof -
  let ?raw = "surrogateescape bs"
  from admin_start [OF assms(1)] obtain prefix c t t' d where raw: "without_slash ?raw = 47 # prefix @ 47 # c # t"
    "47 \<notin> set prefix" "admin_prefix prefix" "ascii_lower_char c \<in> {97, 117}" "d \<in> {97, 117}"
    "raw_admin = 47 # ascii_lower prefix @ 47 # d # t'" by blast
  obtain s where s: "?raw = 47 # prefix @ 47 # c # s" using without_slash_extends [of ?raw] raw(1) by auto
  then have "set prefix \<subseteq> set ?raw" by auto
  then have "\<forall>x \<in> set prefix. x < 128 \<or> 0xDC00 \<le> x" using surrogateescape_chars by blast
  from admin_prefix_lower [OF raw(3) this] obtain w where w: "w = ''admin'' \<or> w = ''manage-api''"
    "ascii_lower prefix = lit w" "all_ascii prefix" "37 \<notin> set prefix" by blast
  have c: "c < 128" "c \<noteq> 37" using raw(4) by (auto simp: ascii_lower_char_def split: if_splits)
  have dec: "unquote ?raw = 47 # prefix @ 47 # c # unquote s"
    unfolding s using w(3,4) c by (simp add: unquote_plain_append unquote_plain_Cons del: unquote.simps)
  have "requires_no_store (unquote ?raw)"
    by (rule admin_no_store [OF _ w(1) raw(4), where t = "ascii_lower (unquote s)"]) (simp add: dec w(2) ascii_lower_char_def)
  moreover have "requires_no_store p"
    using assms(2)
  proof
    assume p: "p = raw_admin"
    show ?thesis
      by (rule admin_no_store [OF _ w(1) raw(5), where t = "ascii_lower t'"])
        (use raw(5) w(2) ascii_lower_idem [of prefix] in \<open>auto simp: p raw(6) ascii_lower_char_def\<close>)
  next
    assume "canonical_admin_path False (without_slash (unquote ?raw)) = Some p"
    from admin_start [OF this] obtain prefix2 c2 t2 t3 d2 where p: "without_slash (unquote ?raw) = 47 # prefix2 @ 47 # c2 # t2"
      "47 \<notin> set prefix2" "d2 \<in> {97, 117}" "p = 47 # ascii_lower prefix2 @ 47 # d2 # t3" by blast
    obtain s2 where "unquote ?raw = 47 # prefix2 @ 47 # c2 # s2" using without_slash_extends [of "unquote ?raw"] p(1) by auto
    then have "prefix2 @ 47 # c2 # s2 = prefix @ 47 # c # unquote s" using dec by simp
    then have "prefix2 = prefix"
      using p(2) raw(2) by (auto simp: append_eq_append_conv2 Cons_eq_append_conv append_eq_Cons_conv)
    then show ?thesis
      by (intro admin_no_store [OF _ w(1) p(3), where t = "ascii_lower t3"])
        (use p(3) w(2) ascii_lower_idem [of prefix] in \<open>auto simp: p(4) ascii_lower_char_def\<close>)
  qed
  ultimately show ?thesis ..
qed

lemma asset_path_cached: "\<not> requires_no_store (lit ''/assets/'' @ s)"
proof -
  have "\<exists>t. without_slash (ascii_lower (lit ''/assets/'' @ s)) = lit ''/assets'' @ t"
    by (cases s rule: rev_cases) (auto simp: without_slash_def butlast_append lit_def ascii_lower_char_def)
  then obtain t where t: "without_slash (ascii_lower (lit ''/assets/'' @ s)) = lit ''/assets'' @ t" by blast
  show ?thesis unfolding requires_no_store_def Let_def t by (simp add: lit_def)
qed

lemma not_found_cached: "\<not> requires_no_store (lit ''/__encoded_public_path_not_found__'')"
  by code_simp

text \<open>A path that must not be cached is reached only from one that must not be cached either.\<close>

lemma rewritten_no_store:
  assumes "rewrite_path sc (surrogateescape bs) = Inr sc'" "sc_path sc = unquote (surrogateescape bs)"
    and "requires_no_store (sc_path sc')"
  shows "requires_no_store (sc_path sc)"
proof (cases "canonical_public (ascii_lower (without_slash (surrogateescape bs)))")
  case (Some c)
  then show ?thesis using assms public_path_plain [OF Some] by (auto simp: rewrite_path_def with_path_def split: if_splits)
next
  case None
  show ?thesis
  proof (cases "canonical_admin_path False (without_slash (surrogateescape bs))")
    case (Some raw_admin)
    then show ?thesis using admin_raw [OF Some disjI1 [OF refl]] assms(2) by simp
  next
    case admin: None
    then show ?thesis using assms None asset_path_cached not_found_cached
      by (auto simp: rewrite_path_def with_path_def Let_def split: if_splits)
  qed
qed

section \<open>Responses that depend on sensitive routes\<close>

text \<open>Two applications that agree wherever caching is allowed.\<close>

definition agree_cached :: "app \<Rightarrow> app \<Rightarrow> bool" where
  "agree_cached routes routes' \<longleftrightarrow>
     (\<forall>sc ms w. \<not> requires_no_store (sc_path sc) \<longrightarrow> routes sc ms w = routes' sc ms w)"

definition same_target :: "http_scope \<Rightarrow> http_scope \<Rightarrow> bool" where
  "same_target sc sc' \<longleftrightarrow> sc_path sc' = sc_path sc \<and> sc_raw_path sc' = sc_raw_path sc"

lemma same_target_raw: "same_target sc sc' \<Longrightarrow> raw_path sc' = raw_path sc"
  by (simp add: same_target_def raw_path_def split: option.split)

lemma validated_json_cong:
  assumes "\<And>sc' ms' w'. same_target sc sc' \<Longrightarrow> k sc' ms' w' = k' sc' ms' w'"
  shows "validated_json B sc ms k w = validated_json B sc ms k' w"
  using assms by (auto simp: validated_json_def same_target_def split: option.split json_receive.split)

lemma known_path_agrees:
  assumes "agree_cached routes routes'" "\<not> requires_no_store (sc_path sc)"
    and "sc_raw_path sc = Some bs" "sc_path sc = unquote (surrogateescape bs)"
  shows "known_path_compatibility B routes sc ms w = known_path_compatibility B routes' sc ms w"
proof -
  have raw: "raw_path sc = surrogateescape bs" using assms(3) by (simp add: raw_path_def)
  have route: "(case rewrite_path sc' (raw_path sc) of Inl e \<Rightarrow> Some (RaisedBefore e, w') | Inr sc2 \<Rightarrow> routes sc2 ms' w')
      = (case rewrite_path sc' (raw_path sc) of Inl e \<Rightarrow> Some (RaisedBefore e, w') | Inr sc2 \<Rightarrow> routes' sc2 ms' w')"
    if "same_target sc sc'" for sc' ms' w'
  proof (cases "rewrite_path sc' (raw_path sc)")
    case (Inr sc2)
    have "sc_path sc' = sc_path sc" using that by (simp add: same_target_def)
    then have "\<not> requires_no_store (sc_path sc2)"
      using rewritten_no_store [OF Inr [unfolded raw]] assms(2,4) by auto
    then show ?thesis using Inr assms(1) by (simp add: agree_cached_def)
  qed simp
  let ?sc = "sc\<lparr>sc_original_path := Some (raw_path sc), sc_original_decoded_path := Some (sc_path sc)\<rparr>"
  have base: "same_target sc ?sc" by (simp add: same_target_def)
  have "same_target sc sc'" if "same_target ?sc sc'" for sc' using that base by (simp add: same_target_def)
  note route' = route [OF this]
  show ?thesis unfolding known_path_compatibility_def Let_def
    by (intro if_cong refl validated_json_cong) (simp_all only: route [OF base] route')
qed

lemma rate_limited_agrees:
  assumes "\<And>sc' ms' w'. same_target sc sc' \<Longrightarrow> inner sc' ms' w' = inner' sc' ms' w'"
  shows "auth_rate_limit B S R inner sc ms w = auth_rate_limit B S R inner' sc ms w"
proof -
  have "same_target sc sc" by (simp add: same_target_def)
  note here = assms [OF this]
  show ?thesis unfolding auth_rate_limit_def Let_def here
    by (intro if_cong refl validated_json_cong) (simp add: assms split: prod.split sum.split option.split)
qed

lemma map_of_filter_out: "map_of (filter (\<lambda>h. fst h \<noteq> n) hs) n = None"
  by (induction hs) auto

lemma set_header_get: "header_get (hr_headers (set_header n v r)) n = Some v"
  by (simp add: header_get_def set_header_def map_add_def map_of_filter_out)

lemma stack_agrees:
  assumes "agree_cached routes routes'" "\<not> requires_no_store (sc_path sc)"
    and "sc_raw_path sc = Some bs" "sc_path sc = unquote (surrogateescape bs)"
  shows "service_stack B S R origins sources routes sc ms w = service_stack B S R origins sources routes' sc ms w"
proof -
  have known: "known_path_compatibility B routes sc' ms' w' = known_path_compatibility B routes' sc' ms' w'"
    if "same_target sc sc'" for sc' ms' w'
    using that assms by (intro known_path_agrees) (simp_all add: same_target_def)
  have "auth_rate_limit B S R (known_path_compatibility B routes) sc ms w
      = auth_rate_limit B S R (known_path_compatibility B routes') sc ms w"
    by (rule rate_limited_agrees) (rule known)
  then have "generic_error (auth_rate_limit B S R (known_path_compatibility B routes)) sc ms w
      = generic_error (auth_rate_limit B S R (known_path_compatibility B routes')) sc ms w"
    by (simp add: generic_error_def)
  then show ?thesis by (simp only: service_stack_def security_headers_def express_cors_def)
qed

lemma secured_no_store:
  assumes "requires_no_store (sc_path sc)"
  shows "header_get (hr_headers (secured sources sc r)) ''cache-control'' = Some (lit ''no-store'')"
  using assms by (simp add: secured_def Let_def set_header_get)

lemma on_response_completed: "on_response f x = Some (Completed r, w) \<Longrightarrow> \<exists>r'. r = f r'"
  by (cases x) (auto simp: on_response_def split: app_result.splits)


section \<open>A login route that answers from its cache\<close>

definition sample_scope :: http_scope where
  "sample_scope = \<lparr>sc_method = lit ''GET'', sc_path = lit ''/Auth/Callback/'',
     sc_raw_path = Some (lit ''/Auth/Callback/''), sc_headers = [(lit ''origin'', lit ''https://wiki.co'')],
     sc_client = Some (lit ''10.0.0.1''), sc_json_validated = False, sc_original_path = None,
     sc_original_decoded_path = None, sc_admin_path_params = None, sc_query_string = []\<rparr>"

definition page_routes :: app where
  "page_routes sc ms w = Some (Completed (plain_response 200 (lit ''text/plain'') (sc_path sc)), w)"

definition silent_routes :: app where
  "silent_routes sc ms w = (if requires_no_store (sc_path sc) then None else page_routes sc ms w)"

definition sample_answer :: http_response where
  "sample_answer = secured [] sample_scope (add_vary (lit ''Origin'') (set_header ''access-control-allow-origin'' (lit ''https://wiki.co'')
     (plain_response 200 (lit ''text/plain'') (lit ''/auth/callback''))))"

lemma sample_scope_plain: "sc_path sample_scope = unquote (surrogateescape (lit ''/Auth/Callback/''))"
proof -
  have "all_ascii (lit ''/Auth/Callback/'')" "37 \<notin> set (lit ''/Auth/Callback/'')"
    "surrogateescape (lit ''/Auth/Callback/'') = lit ''/Auth/Callback/''" by code_simp+
  then show ?thesis by (simp add: unquote_plain sample_scope_def)
qed

lemma sample_rewrite: "rewrite_path (sample_scope\<lparr>sc_original_path := a, sc_original_decoded_path := b\<rparr>) (lit ''/Auth/Callback/'')
    = Inr (sample_scope\<lparr>sc_original_path := a, sc_original_decoded_path := b, sc_path := lit ''/auth/callback'',
        sc_raw_path := Some (lit ''/auth/callback'')\<rparr>)"
proof -
  have "canonical_public (ascii_lower (without_slash (lit ''/Auth/Callback/''))) = Some (lit ''/auth/callback'')"
    "no_surrogate (lit ''/auth/callback'')" "utf8_bytes (lit ''/auth/callback'') = lit ''/auth/callback''" by code_simp+
  then show ?thesis by (simp add: rewrite_path_def with_path_def)
qed

lemma sample_stack: "service_stack sample_body_env S R [lit ''https://wiki.co''] [] page_routes sample_scope [] w
    = Some (Completed sample_answer, w)"
proof -
  have facts: "raw_path sample_scope = lit ''/Auth/Callback/''" "\<not> rate_limited sample_scope"
    "media_type sample_body_env (sc_headers sample_scope) = []" "\<not> is_admin_mutation (lit ''/Auth/Callback/'') (lit ''GET'')"
    "ascii_lower (lit ''/Auth/Callback/'') \<noteq> lit ''/assets''" "header_get (sc_headers sample_scope) ''origin'' = Some (lit ''https://wiki.co'')"
    "sc_method sample_scope = lit ''GET''" "sc_json_validated sample_scope = False" "lit ''GET'' \<noteq> lit ''OPTIONS''"
    "[] \<noteq> lit ''application/json''"
    by code_simp+
  then have "known_path_compatibility sample_body_env page_routes sample_scope [] w
      = Some (Completed (plain_response 200 (lit ''text/plain'') (lit ''/auth/callback'')), w)"
    by (simp add: known_path_compatibility_def validated_json_def express_json_receive_def page_routes_def sample_rewrite)
  with facts show ?thesis
    by (simp add: service_stack_def security_headers_def express_cors_def generic_error_def auth_rate_limit_def on_response_def
        sample_answer_def)
qed


section \<open>The limit counts spellings\<close>

lemma rate_limit_key_inj:
  assumes "str_ok (k @ [58] @ raw)" "str_ok (k @ [58] @ raw')" "rate_limit_key k raw = rate_limit_key k raw'"
  shows "raw = raw'"
proof -
  have "utf8_bytes (k @ [58] @ raw) = utf8_bytes (k @ [58] @ raw')" using assms(3) by (simp add: rate_limit_key_def)
  then have "utf8_decode (utf8_bytes (k @ [58] @ raw)) = utf8_decode (utf8_bytes (k @ [58] @ raw'))" by (rule arg_cong)
  then show ?thesis by (simp only: utf8_decode_bytes [OF assms(1)] utf8_decode_bytes [OF assms(2)]) simp
qed

text \<open>Two spellings of one route have counters of their own and reach the same route.\<close>

lemma spelling_own_counter:
  assumes "canonical_public (ascii_lower (without_slash raw)) = Some c"
    and "canonical_public (ascii_lower (without_slash raw')) = Some c"
    and "raw \<noteq> raw'" "str_ok (k @ [58] @ raw)" "str_ok (k @ [58] @ raw')"
  shows "rate_limit_key k raw \<noteq> rate_limit_key k raw' \<and> rewrite_path sc raw = rewrite_path sc raw'"
  using assms rate_limit_key_inj by (auto simp: rewrite_path_def)

end
