(* ===== verification/Route_Inputs.thy ===== *)
theory Route_Inputs
  imports Http_Middleware
begin

text \<open>
  What the public routes accept: the models of \<^verbatim>\<open>api/routes/auth.py\<close> and \<^verbatim>\<open>api/routes/oauth.py\<close> on the body that
  FastAPI has decoded, with \<^verbatim>\<open>_EMAIL\<close> and \<^verbatim>\<open>_is_absolute_zod_url\<close>. A model is a function from a dictionary to an
  optional record; nothing is a validation error. A field that is declared \<^verbatim>\<open>str\<close> takes a string only; one with a
  bound on its length also refuses surrogates, which pydantic cannot count.
\<close>

section \<open>Fields of a model\<close>

definition str_field :: "pydict \<Rightarrow> string \<Rightarrow> pystr option" where
  "str_field d name = (case map_of d (lit name) of Some (PStr s) \<Rightarrow> Some s | _ \<Rightarrow> None)"

definition within :: "nat \<Rightarrow> nat option \<Rightarrow> pystr \<Rightarrow> bool" where
  "within low high s \<longleftrightarrow> no_surrogate s \<and> low \<le> length s \<and> (case high of None \<Rightarrow> True | Some h \<Rightarrow> length s \<le> h)"

definition sized_field :: "nat \<Rightarrow> pydict \<Rightarrow> string \<Rightarrow> pystr option" where
  "sized_field low d name = (case str_field d name of Some s \<Rightarrow> if within low None s then Some s else None | None \<Rightarrow> None)"

definition optional_field :: "nat \<Rightarrow> nat option \<Rightarrow> pydict \<Rightarrow> string \<Rightarrow> pystr option option" where
  "optional_field low high d name =
     (case map_of d (lit name) of
        None \<Rightarrow> Some None
      | Some PNone \<Rightarrow> Some None
      | Some (PStr s) \<Rightarrow> if within low high s then Some (Some s) else None
      | _ \<Rightarrow> None)"

definition optional_literal :: "string \<Rightarrow> pydict \<Rightarrow> string \<Rightarrow> pystr option option" where
  "optional_literal v d name =
     (case map_of d (lit name) of
        None \<Rightarrow> Some None
      | Some PNone \<Rightarrow> Some None
      | Some (PStr s) \<Rightarrow> if s = lit v then Some (Some s) else None
      | _ \<Rightarrow> None)"

definition no_extra :: "string list \<Rightarrow> pydict \<Rightarrow> bool" where
  "no_extra names d \<longleftrightarrow> fst ` set d \<subseteq> set (map lit names)"

section \<open>Email addresses\<close>

definition email_local_char :: "nat \<Rightarrow> bool" where
  "email_local_char c \<longleftrightarrow> ascii_alpha c \<or> ascii_digit c \<or> c \<in> {95, 39, 43, 45, 46}"

definition email_last_char :: "nat \<Rightarrow> bool" where
  "email_last_char c \<longleftrightarrow> ascii_alpha c \<or> ascii_digit c \<or> c \<in> {95, 43, 45}"

definition email_label :: "pystr \<Rightarrow> bool" where
  "email_label l \<longleftrightarrow> l \<noteq> [] \<and> (ascii_alpha (hd l) \<or> ascii_digit (hd l))
     \<and> list_all (\<lambda>c. ascii_alpha c \<or> ascii_digit c \<or> c = 45) l"

text \<open>The one \<^verbatim>\<open>@\<close> splits the address: neither character class holds another.\<close>

definition EMAIL_fullmatch :: "pystr \<Rightarrow> bool" where
  "EMAIL_fullmatch s \<longleftrightarrow>
     (case py_split_on 64 s of
        [local_part, domain] \<Rightarrow>
          local_part \<noteq> [] \<and> hd local_part \<noteq> 46 \<and> \<not> py_contains (lit ''..'') s
          \<and> list_all email_local_char (butlast local_part) \<and> email_last_char (last local_part)
          \<and> (case rev (py_split_on 46 domain) of
               tld # labels \<Rightarrow> labels \<noteq> [] \<and> list_all email_label labels \<and> 2 \<le> length tld \<and> list_all ascii_alpha tld
             | [] \<Rightarrow> False)
      | _ \<Rightarrow> False)"

section \<open>Absolute URLs\<close>

definition bounded_url_invalid :: "nat \<Rightarrow> bool" where
  "bounded_url_invalid c \<longleftrightarrow> py_isspace c \<or> c \<le> 32 \<or> is_surrogate c"

definition route_hostname_ok :: "pystr option \<Rightarrow> bool" where
  "route_hostname_ok hostname \<longleftrightarrow>
     (case hostname of None \<Rightarrow> False | Some h \<Rightarrow> h \<noteq> [] \<and> \<not> list_ex bounded_url_invalid h)"

definition strip_edges :: "pystr \<Rightarrow> pystr" where
  "strip_edges s = rev (dropWhile (\<lambda>c. c \<le> 32) (rev (dropWhile (\<lambda>c. c \<le> 32) s)))"

text \<open>\<^verbatim>\<open>_ABSOLUTE_URL_SCHEME.match\<close>: the scheme and what follows its colon.\<close>

definition absolute_scheme :: "pystr \<Rightarrow> (pystr \<times> pystr) option" where
  "absolute_scheme s =
     (case s of
        [] \<Rightarrow> None
      | c # _ \<Rightarrow>
          if \<not> ascii_alpha c then None
          else (case dropWhile scheme_char s of
                  colon # remainder \<Rightarrow> if colon = 58 then Some (takeWhile scheme_char s, remainder) else None
                | [] \<Rightarrow> None))"

definition ROUTE_HOST_SCHEMES :: "string list" where
  "ROUTE_HOST_SCHEMES = [''ftp'', ''http'', ''https'', ''ws'', ''wss'']"

definition readable_url :: "url_env \<Rightarrow> pystr \<Rightarrow> SplitResult option" where
  "readable_url E url =
     (case urlsplit E url of None \<Rightarrow> None | Some parsed \<Rightarrow> if url_port parsed = None then None else Some parsed)"

definition file_url :: "pystr \<Rightarrow> bool" where
  "file_url remainder \<longleftrightarrow>
     (if \<not> is_prefix (lit ''//'') remainder \<or> remainder = lit ''///'' then \<not> list_ex bounded_url_invalid remainder
      else (let authority = hd (py_split_on 47 (drop 2 remainder)) in authority = [] \<or> route_hostname_ok (Some authority)))"

definition hostname_of :: "url_env \<Rightarrow> pystr \<Rightarrow> pystr \<Rightarrow> SplitResult \<Rightarrow> pystr option" where
  "hostname_of E scheme remainder parsed =
     (case url_hostname E parsed of
        Some h \<Rightarrow> Some h
      | None \<Rightarrow>
          (let repaired_remainder = dropWhile (\<lambda>c. c = 47) remainder in
           if repaired_remainder = [] then None
           else (case readable_url E (scheme @ lit ''://'' @ repaired_remainder) of
                   None \<Rightarrow> None
                 | Some repaired \<Rightarrow> url_hostname E repaired)))"

definition absolute_zod_url :: "url_env \<Rightarrow> pystr \<Rightarrow> bool" where
  "absolute_zod_url E v =
     (let normalized = strip_edges v in
      case absolute_scheme normalized of
        None \<Rightarrow> False
      | Some (written, remainder) \<Rightarrow>
          (let scheme = ascii_lower written in
           case readable_url E normalized of
             None \<Rightarrow> False
           | Some parsed \<Rightarrow>
               if scheme = lit ''file'' then file_url remainder
               else if scheme \<notin> set (map lit ROUTE_HOST_SCHEMES) then
                 (if list_ex bounded_url_invalid remainder then False
                  else if \<not> is_prefix (lit ''//'') remainder \<or> remainder = lit ''//'' then True
                  else route_hostname_ok (url_hostname E parsed))
               else route_hostname_ok (hostname_of E scheme remainder parsed)))"

section \<open>Bodies\<close>

record HandoffFields =
  hf_client_id :: "pystr option"
  hf_redirect_uri :: "pystr option"
  hf_state :: "pystr option"
  hf_code_challenge :: "pystr option"
  hf_code_challenge_method :: "pystr option"

definition validate_handoff :: "url_env \<Rightarrow> HandoffFields \<Rightarrow> bool" where
  "validate_handoff E h \<longleftrightarrow>
     (let required = [hf_client_id h, hf_redirect_uri h, hf_code_challenge h, hf_code_challenge_method h] in
      (list_ex (\<lambda>v. v \<noteq> None) (hf_state h # required) \<longrightarrow> list_all (\<lambda>v. v \<noteq> None) required)
      \<and> (case hf_code_challenge h of None \<Rightarrow> True | Some c \<Rightarrow> PKCE_CHALLENGE_fullmatch c)
      \<and> (case hf_state h of None \<Rightarrow> True | Some s \<Rightarrow> javascript_string_length s \<le> 512)
      \<and> (case hf_redirect_uri h of None \<Rightarrow> True | Some u \<Rightarrow> absolute_zod_url E u))"

definition read_handoff_fields :: "url_env \<Rightarrow> pydict \<Rightarrow> HandoffFields option" where
  "read_handoff_fields E d =
     Option.bind (optional_field 1 None d ''clientId'') (\<lambda>client_id.
     Option.bind (optional_field 1 None d ''redirectUri'') (\<lambda>redirect_uri.
     Option.bind (optional_field 1 None d ''state'') (\<lambda>state.
     Option.bind (optional_field 43 (Some 128) d ''codeChallenge'') (\<lambda>code_challenge.
     Option.bind (optional_literal ''S256'' d ''codeChallengeMethod'') (\<lambda>code_challenge_method.
       let h = \<lparr>hf_client_id = client_id, hf_redirect_uri = redirect_uri, hf_state = state,
                hf_code_challenge = code_challenge, hf_code_challenge_method = code_challenge_method\<rparr>
       in if validate_handoff E h then Some h else None)))))"

definition HANDOFF_NAMES :: "string list" where
  "HANDOFF_NAMES = [''clientId'', ''redirectUri'', ''state'', ''codeChallenge'', ''codeChallengeMethod'']"

definition is_handoff :: "HandoffFields \<Rightarrow> bool" where
  "is_handoff h \<longleftrightarrow> hf_client_id h \<noteq> None"

definition email_field :: "pydict \<Rightarrow> pystr option" where
  "email_field d = (case str_field d ''email'' of Some e \<Rightarrow> if EMAIL_fullmatch e then Some e else None | None \<Rightarrow> None)"

definition RegisterBody :: "pydict \<Rightarrow> RegisterInput option" where
  "RegisterBody d =
     Option.bind (email_field d) (\<lambda>email.
     Option.bind (sized_field 1 d ''password'') (\<lambda>password.
     Option.bind (optional_field 1 None d ''name'') (\<lambda>name.
       Some \<lparr>LoginInput.li_email = email, LoginInput.li_password = password, ri_name = name\<rparr>)))"

definition LoginBody :: "url_env \<Rightarrow> pydict \<Rightarrow> (LoginInput \<times> HandoffFields) option" where
  "LoginBody E d =
     (if \<not> no_extra ([''email'', ''password''] @ HANDOFF_NAMES) d then None
      else Option.bind (email_field d) (\<lambda>email.
           Option.bind (sized_field 1 d ''password'') (\<lambda>password.
           Option.bind (read_handoff_fields E d) (\<lambda>h.
             Some (\<lparr>LoginInput.li_email = email, LoginInput.li_password = password\<rparr>, h)))))"

definition RefreshBody :: "pydict \<Rightarrow> pystr option" where
  "RefreshBody d = sized_field 1 d ''refreshToken''"

definition EmailBody :: "pydict \<Rightarrow> pystr option" where
  "EmailBody d = email_field d"

definition PasswordResetConfirmBody :: "pydict \<Rightarrow> (pystr \<times> pystr) option" where
  "PasswordResetConfirmBody d =
     Option.bind (sized_field 1 d ''token'') (\<lambda>token.
     Option.bind (sized_field 1 d ''password'') (\<lambda>password. Some (token, password)))"

definition EmailVerificationRequestBody :: "url_env \<Rightarrow> pydict \<Rightarrow> (pystr \<times> HandoffFields) option" where
  "EmailVerificationRequestBody E d =
     (if \<not> no_extra ([''email''] @ HANDOFF_NAMES) d then None
      else Option.bind (email_field d) (\<lambda>email.
           Option.bind (read_handoff_fields E d) (\<lambda>h. Some (email, h))))"

definition EmailVerificationConfirmBody :: "pydict \<Rightarrow> pystr option" where
  "EmailVerificationConfirmBody d = sized_field 1 d ''token''"

definition AuthExchangeBody :: "url_env \<Rightarrow> pydict \<Rightarrow> AuthHandoffExchangeInput option" where
  "AuthExchangeBody E d =
     (if \<not> no_extra [''clientId'', ''redirectUri'', ''code'', ''codeVerifier''] d then None
      else Option.bind (sized_field 1 d ''clientId'') (\<lambda>client_id.
           Option.bind (sized_field 1 d ''redirectUri'') (\<lambda>redirect_uri.
           Option.bind (sized_field 1 d ''code'') (\<lambda>code.
           Option.bind (sized_field 1 d ''codeVerifier'') (\<lambda>code_verifier.
             if absolute_zod_url E redirect_uri
             then Some \<lparr>hei_client_id = client_id, hei_redirect_uri = redirect_uri, hei_code = code,
                        hei_code_verifier = code_verifier\<rparr>
             else None)))))"

text \<open>The query of an OAuth start, from the last value of each name; the caller has refused repeated names.\<close>

definition OAuthStartQuery :: "url_env \<Rightarrow> pydict \<Rightarrow> OAuthStartInput option" where
  "OAuthStartQuery E d =
     (if \<not> no_extra [''client_id'', ''redirect_uri'', ''state'', ''code_challenge'', ''code_challenge_method''] d then None
      else Option.bind (case map_of d (lit ''client_id'') of None \<Rightarrow> Some (lit ''temis'') | Some _ \<Rightarrow> sized_field 1 d ''client_id'') (\<lambda>client_id.
           Option.bind (optional_field 1 None d ''redirect_uri'') (\<lambda>redirect_uri.
           Option.bind (optional_field 1 None d ''state'') (\<lambda>state.
           Option.bind (case str_field d ''code_challenge'' of Some c \<Rightarrow> if within 43 (Some 128) c then Some c else None | None \<Rightarrow> None) (\<lambda>code_challenge.
           Option.bind (case map_of d (lit ''code_challenge_method'') of None \<Rightarrow> Some (lit ''S256'')
                        | Some v \<Rightarrow> if v = PStr (lit ''S256'') then Some (lit ''S256'') else None) (\<lambda>code_challenge_method.
             if PKCE_CHALLENGE_fullmatch code_challenge
                \<and> (case state of None \<Rightarrow> True | Some s \<Rightarrow> javascript_string_length s \<le> 512)
                \<and> (case redirect_uri of None \<Rightarrow> True | Some u \<Rightarrow> absolute_zod_url E u)
             then Some \<lparr>osi_client_id = client_id, osi_redirect_uri = redirect_uri, osi_caller_state = state,
                        osi_code_challenge = Some code_challenge, osi_code_challenge_method = Some code_challenge_method\<rparr>
             else None))))))"

section \<open>One check, written twice\<close>

text \<open>\<^verbatim>\<open>infrastructure/auth_state.py\<close> has a copy of the URL check for the records it stores. The two agree, so
  what a route lets through can be stored.\<close>

definition scheme_run :: "pystr \<Rightarrow> (pystr \<times> pystr) option" where
  "scheme_run s =
     (case dropWhile scheme_char s of
        colon # remainder \<Rightarrow> if colon = 58 then Some (takeWhile scheme_char s, remainder) else None
      | [] \<Rightarrow> None)"

lemma dropWhile_first: "dropWhile p s = x # t \<Longrightarrow> \<not> p x \<and> x \<in> set s"
  by (induction s) (auto split: if_splits)

lemma scheme_run_partition:
  "scheme_run s = (case py_partition 58 s of (head, found, remainder) \<Rightarrow>
     if found \<and> (\<forall>c \<in> set head. scheme_char c) then Some (head, remainder) else None)"
proof (induction s)
  case (Cons c s)
  have colon: "\<not> scheme_char 58" by (simp add: scheme_char_def ascii_alpha_def ascii_digit_def)
  show ?case
  proof (cases "scheme_char c")
    case True
    then have "scheme_run (c # s) = map_option (\<lambda>(a, b). (c # a, b)) (scheme_run s)"
      using dropWhile_first [of scheme_char s] by (auto simp: scheme_run_def split: list.split)
    then show ?thesis using True colon Cons.IH by (cases "py_partition 58 s") auto
  next
    case False
    then show ?thesis using colon by (cases "py_partition 58 s") (auto simp: scheme_run_def)
  qed
qed (simp add: scheme_run_def)

lemma absolute_scheme_partition:
  "absolute_scheme s = (case py_partition 58 s of (head, found, remainder) \<Rightarrow>
     if found \<and> head \<noteq> [] \<and> ascii_alpha (hd head) \<and> (\<forall>c \<in> set head. scheme_char c) then Some (head, remainder) else None)"
proof (cases s)
  case (Cons c t)
  have letter: "ascii_alpha c \<Longrightarrow> c \<noteq> 58" by (auto simp: ascii_alpha_def)
  have "absolute_scheme s = (if ascii_alpha c then scheme_run s else None)"
    by (simp add: absolute_scheme_def scheme_run_def Cons)
  also have "\<dots> = (case py_partition 58 s of (head, found, remainder) \<Rightarrow>
     if found \<and> head \<noteq> [] \<and> ascii_alpha (hd head) \<and> (\<forall>c \<in> set head. scheme_char c) then Some (head, remainder) else None)"
    using letter unfolding scheme_run_partition Cons by (cases "py_partition 58 t") auto
  finally show ?thesis .
qed (simp add: absolute_scheme_def)

lemma absolute_zod_url_stored: "absolute_zod_url E v = is_absolute_zod_url E v"
proof -
  have hosts: "route_hostname_ok h = valid_url_hostname h" for h
    by (simp add: route_hostname_ok_def valid_url_hostname_def contains_invalid_url_character_def bounded_url_invalid_def
        invalid_url_character_def list_ex_iff split: option.split)
  have first: "hd (py_split_on 47 s) = takeWhile (\<lambda>c. c \<noteq> 47) s" for s
  proof (induction s)
    case (Cons c s)
    then show ?case by (cases "py_split_on 47 s") (auto simp: py_split_on_ne)
  qed simp
  have "list_ex bounded_url_invalid s = contains_invalid_url_character s" for s
    by (simp add: contains_invalid_url_character_def bounded_url_invalid_def invalid_url_character_def list_ex_iff)
  note texts = this hosts first lit_def
  define normalized where "normalized = strip_edges v"
  have same: "strip_edge v = normalized" "readable_url E = split_with_port E"
    by (simp_all add: normalized_def strip_edges_def strip_edge_def fun_eq_iff readable_url_def split_with_port_def)
  obtain h f r where p: "py_partition 58 normalized = (h, f, r)" using prod_cases3 by blast
  have schemes: "set (map lit ROUTE_HOST_SCHEMES) = set HOST_REQUIRED_SCHEMES"
    by (simp add: ROUTE_HOST_SCHEMES_def HOST_REQUIRED_SCHEMES_def)
  then have "map of_char ` set ROUTE_HOST_SCHEMES = set HOST_REQUIRED_SCHEMES" by (simp add: lit_def)
  note schemes = schemes this
  have start: "absolute_scheme normalized
      = (if f \<and> h \<noteq> [] \<and> ascii_alpha (hd h) \<and> (\<forall>c \<in> set h. scheme_char c) then Some (h, r) else None)"
    by (simp add: absolute_scheme_partition p)
  show ?thesis
  proof (cases "f \<and> h \<noteq> [] \<and> ascii_alpha (hd h) \<and> (\<forall>c \<in> set h. scheme_char c)")
    case False
    then have "absolute_scheme normalized = None" using start by simp
    then show ?thesis using False by (simp add: absolute_zod_url_def is_absolute_zod_url_def Let_def normalized_def [symmetric] same p)
  next
    case True
    then have some: "absolute_scheme normalized = Some (h, r)" using start by simp
    show ?thesis
    proof (cases "split_with_port E normalized")
      case None
      then show ?thesis using True some
        by (simp add: absolute_zod_url_def is_absolute_zod_url_def Let_def normalized_def [symmetric] same p)
    next
      case parsed: (Some parsed)
      have file_case: "file_url r = (if \<not> is_prefix [47, 47] r \<or> r = [47, 47, 47] then \<not> contains_invalid_url_character r
          else let authority = takeWhile (\<lambda>c. c \<noteq> 47) (drop 2 r) in authority = [] \<or> valid_url_hostname (Some authority))"
        by (simp add: file_url_def texts)
      have "route_hostname_ok (hostname_of E s r parsed) =
          (if url_hostname E parsed = None then
             let repaired_remainder = dropWhile (\<lambda>c. c = 47) r in
             if repaired_remainder = [] then False
             else case split_with_port E (s @ [58, 47, 47] @ repaired_remainder) of
                    None \<Rightarrow> False | Some repaired \<Rightarrow> valid_url_hostname (url_hostname E repaired)
           else valid_url_hostname (url_hostname E parsed))" for s
        by (simp add: hostname_of_def texts same valid_url_hostname_def Let_def split: option.split)
      then show ?thesis using True some parsed file_case
        by (simp add: absolute_zod_url_def is_absolute_zod_url_def Let_def normalized_def [symmetric] same p schemes texts
            ascii_lower_def)
    qed
  qed
qed

end
