(* ===== verification/Auth_Routes.thy ===== *)
theory Auth_Routes
  imports Route_Inputs
begin

text \<open>
  The handlers of \<^verbatim>\<open>api/routes/auth.py\<close>, \<^verbatim>\<open>api/routes/users.py\<close> and \<^verbatim>\<open>api/routes/oauth.py\<close> over the services of
  \<open>Auth_Service\<close>, and the exception handlers of \<^verbatim>\<open>api/errors.py\<close>. A request is what Starlette and FastAPI hand
  over: the path after the compatibility layer, the query pairs, the headers, the peer and the decoded body. The
  settings and the service share one list of relying clients, as \<^verbatim>\<open>main.py\<close> builds them.
\<close>

section \<open>Requests, errors\<close>

text \<open>No body, a JSON value, bytes of another media type, text that is not JSON, bytes that are not text.\<close>

datatype body = NoBody | JsonBody pyval | OtherBody | InvalidJson | UnreadableBody

record service_request =
  sq_method :: pystr
  sq_path :: pystr
  sq_query :: "(pystr \<times> pystr) list"
  sq_headers :: headers
  sq_client :: "pystr option"
  sq_body :: body
  sq_original_decoded_path :: "pystr option"
  sq_admin_path_params :: "(pystr \<times> pystr) list option"

datatype route_error = PublicHttpError nat pystr pystr | RequestValidationError | HTTPException nat | Unhandled exn

type_synonym 'a route = "world \<Rightarrow> (route_error + 'a) \<times> world"

definition public_error_response :: "nat \<Rightarrow> pystr \<Rightarrow> pystr \<Rightarrow> http_response" where
  "public_error_response status code message =
     ExpressJsonResponse [(lit ''error'', PDict [(lit ''code'', PStr code), (lit ''message'', PStr message)])] status"

definition is_domain_error :: "exn \<Rightarrow> bool" where
  "is_domain_error e = (case e of DomainError status code message \<Rightarrow> True | PasswordAuthFailure user reason \<Rightarrow> True | _ \<Rightarrow> False)"

text \<open>\<^verbatim>\<open>_raise_public\<close>.\<close>

definition raise_public :: "exn \<Rightarrow> route_error" where
  "raise_public e =
     (if is_domain_error e then (case public_error e of (status, code, message) \<Rightarrow> PublicHttpError status code message)
      else Unhandled e)"

definition public :: "(world, 'a) act \<Rightarrow> 'a route" where
  "public m w = (case m w of (Inl e, w') \<Rightarrow> (Inl (raise_public e), w') | (Inr x, w') \<Rightarrow> (Inr x, w'))"

definition bindR :: "'a route \<Rightarrow> ('a \<Rightarrow> 'b route) \<Rightarrow> 'b route" where
  "bindR m k w = (case m w of (Inl e, w') \<Rightarrow> (Inl e, w') | (Inr x, w') \<Rightarrow> k x w')"

definition retR :: "'a \<Rightarrow> 'a route" where
  "retR x w = (Inr x, w)"

definition raiseR :: "route_error \<Rightarrow> 'a route" where
  "raiseR e w = (Inl e, w)"

definition invalid_request_error :: route_error where
  "invalid_request_error = PublicHttpError 400 (lit ''INVALID_REQUEST'') (lit ''Invalid request'')"

definition not_found_response :: http_response where
  "not_found_response = error_response 404 ''NOT_FOUND'' ''Route not found''"

text \<open>\<^verbatim>\<open>install_error_handlers\<close>.\<close>

definition handled :: "route_error + http_response \<Rightarrow> app_result" where
  "handled x =
     (case x of
        Inr r \<Rightarrow> Completed r
      | Inl (PublicHttpError status code message) \<Rightarrow> Completed (public_error_response status code message)
      | Inl RequestValidationError \<Rightarrow> Completed (error_response 400 ''INVALID_REQUEST'' ''Invalid request'')
      | Inl (HTTPException status) \<Rightarrow>
          Completed (if status = 404 \<or> status = 405 then not_found_response
                     else error_response status ''HTTP_ERROR'' ''Request failed'')
      | Inl (Unhandled e) \<Rightarrow> RaisedBefore e)"

definition error_handlers :: "http_response route \<Rightarrow> world \<Rightarrow> app_result \<times> world" where
  "error_handlers m w = (case m w of (x, w') \<Rightarrow> (handled x, w'))"

text \<open>A body parameter of FastAPI: the body is read before anything else, the model judges a dictionary.\<close>

definition read_body :: "body \<Rightarrow> unit route" where
  "read_body b = (case b of InvalidJson \<Rightarrow> raiseR RequestValidationError | UnreadableBody \<Rightarrow> raiseR (HTTPException 400)
     | _ \<Rightarrow> retR ())"

definition body_model :: "(pydict \<Rightarrow> 'a option) \<Rightarrow> body \<Rightarrow> 'a route" where
  "body_model model b =
     (case b of
        JsonBody (PDict d) \<Rightarrow> (case model d of Some x \<Rightarrow> retR x | None \<Rightarrow> raiseR RequestValidationError)
      | _ \<Rightarrow> raiseR RequestValidationError)"

definition with_body :: "(pydict \<Rightarrow> 'a option) \<Rightarrow> service_request \<Rightarrow> ('a \<Rightarrow> 'b route) \<Rightarrow> 'b route" where
  "with_body model request k =
     bindR (read_body (sq_body request)) (\<lambda>_. bindR (body_model model (sq_body request)) k)"

definition audit_context :: "service_request \<Rightarrow> RequestAuditContext" where
  "audit_context request =
     request_audit_context (header_get (sq_headers request) ''x-forwarded-for'') (header_get (sq_headers request) ''user-agent'')
       (sq_client request)"

definition empty_response :: "nat \<Rightarrow> http_response" where
  "empty_response status =
     \<lparr>hr_status = status, hr_headers = [], hr_body = [], hr_location = None, hr_set_cookies = [], hr_cleared = []\<rparr>"

definition allow_response :: "string \<Rightarrow> pystr \<Rightarrow> http_response" where
  "allow_response methods etag =
     set_header ''etag'' etag (set_header ''allow'' (lit methods) (plain_response 200 (lit ''text/html; charset=utf-8'') (lit methods)))"

definition post_options :: http_response where
  "post_options = allow_response ''POST'' (lit ''W/'' @ quoted (lit ''4-Yf+Bwwqjx254r+pisuO9HfpJ6FQ''))"

definition get_options :: http_response where
  "get_options = allow_response ''GET,HEAD'' (lit ''W/'' @ quoted (lit ''8-ZRAf8oNBS3Bjb/SU2GYZCmbtmXg''))"

section \<open>Password authentication\<close>

definition tokens_response :: "TokenPair \<Rightarrow> http_response" where
  "tokens_response pair =
     ExpressJsonResponse [(lit ''accessToken'', PStr (tp_access_token pair)), (lit ''refreshToken'', PStr (tp_refresh_token pair))] 200"

definition accepted_response :: http_response where
  "accepted_response = ExpressJsonResponse [(lit ''status'', PStr (lit ''accepted''))] 202"

definition handoff_of :: "RelyingClientPolicy list \<Rightarrow> HandoffFields \<Rightarrow> route_error + ClientHandoff" where
  "handoff_of clients h =
     (case (hf_client_id h, hf_redirect_uri h, hf_code_challenge h, hf_code_challenge_method h) of
        (Some client_id, Some redirect_uri, Some code_challenge, Some code_challenge_method) \<Rightarrow>
          (case find (\<lambda>c. rcp_client_id c = client_id) clients of
             None \<Rightarrow> Inl (PublicHttpError 400 (lit ''INVALID_CLIENT_REDIRECT_URI'') (lit ''Invalid request''))
           | Some client \<Rightarrow>
               if redirect_uri \<notin> set (rcp_allowed_redirect_uris client)
               then Inl (PublicHttpError 400 (lit ''INVALID_CLIENT_REDIRECT_URI'') (lit ''Invalid request''))
               else (case check_ClientHandoff \<lparr>ch_client_id = rcp_client_id client, ch_audience = rcp_audience client,
                            ch_redirect_uri = redirect_uri, ch_state = hf_state h, ch_code_challenge = code_challenge\<rparr> of
                       Inl e \<Rightarrow> Inl (Unhandled e)
                     | Inr handoff \<Rightarrow> Inr handoff))
      | _ \<Rightarrow> Inl invalid_request_error)"

definition liftR :: "route_error + 'a \<Rightarrow> 'a route" where
  "liftR x w = (x, w)"

definition optional_handoff :: "RelyingClientPolicy list \<Rightarrow> HandoffFields \<Rightarrow> ClientHandoff option route" where
  "optional_handoff clients h =
     (if is_handoff h then bindR (liftR (handoff_of clients h)) (\<lambda>x. retR (Some x)) else retR None)"

definition register_route :: "AuthService \<Rightarrow> runtime \<Rightarrow> service_request \<Rightarrow> http_response route" where
  "register_route S R request =
     with_body RegisterBody request (\<lambda>body.
     bindR (public (register S R body (audit_context request))) (\<lambda>_. retR accepted_response))"

definition login_response :: "LoginResult \<Rightarrow> http_response" where
  "login_response r =
     (case r of Pair pair \<Rightarrow> tokens_response pair
      | Redirect url \<Rightarrow> ExpressJsonResponse [(lit ''redirectUrl'', PStr url)] 200)"

definition login_route :: "AuthService \<Rightarrow> runtime \<Rightarrow> service_request \<Rightarrow> http_response route" where
  "login_route S R request =
     with_body (LoginBody (ae_url (rt_env R))) request (\<lambda>(credentials, h).
     bindR (optional_handoff (as_auth_clients S) h) (\<lambda>handoff.
     bindR (public (login S R credentials (audit_context request) handoff)) (\<lambda>r. retR (login_response r))))"

definition refresh_route :: "AuthService \<Rightarrow> runtime \<Rightarrow> service_request \<Rightarrow> http_response route" where
  "refresh_route S R request =
     with_body RefreshBody request (\<lambda>refresh_token.
     bindR (public (refresh S R refresh_token (audit_context request))) (\<lambda>pair. retR (tokens_response pair)))"

definition logout_route :: "AuthService \<Rightarrow> runtime \<Rightarrow> service_request \<Rightarrow> http_response route" where
  "logout_route S R request =
     with_body RefreshBody request (\<lambda>refresh_token.
     bindR (public (logout S R refresh_token (audit_context request))) (\<lambda>_. retR (empty_response 204)))"

definition request_password_reset_route :: "AuthService \<Rightarrow> runtime \<Rightarrow> service_request \<Rightarrow> http_response route" where
  "request_password_reset_route S R request =
     with_body EmailBody request (\<lambda>email.
     bindR (public (request_password_reset S R email (audit_context request))) (\<lambda>_. retR accepted_response))"

definition confirm_password_reset_route :: "AuthService \<Rightarrow> runtime \<Rightarrow> service_request \<Rightarrow> http_response route" where
  "confirm_password_reset_route S R request =
     with_body PasswordResetConfirmBody request (\<lambda>(token, password).
     bindR (public (service_confirm_password_reset S R token password (audit_context request))) (\<lambda>_. retR (empty_response 204)))"

definition request_email_verification_route :: "AuthService \<Rightarrow> runtime \<Rightarrow> service_request \<Rightarrow> http_response route" where
  "request_email_verification_route S R request =
     with_body (EmailVerificationRequestBody (ae_url (rt_env R))) request (\<lambda>(email, h).
     bindR (optional_handoff (as_auth_clients S) h) (\<lambda>handoff.
     bindR (public (request_email_verification S R email (audit_context request) handoff)) (\<lambda>_. retR accepted_response)))"

definition confirm_email_verification_route :: "runtime \<Rightarrow> service_request \<Rightarrow> http_response route" where
  "confirm_email_verification_route R request =
     with_body EmailVerificationConfirmBody request (\<lambda>token.
     bindR (public (confirm_email_verification R token (audit_context request))) (\<lambda>result.
     retR (ExpressJsonResponse ((lit ''status'', PStr (lit ''verified''))
             # (case ever_redirect_url result of None \<Rightarrow> [] | Some url \<Rightarrow> [(lit ''redirectUrl'', PStr url)])) 200)))"

text \<open>The exchange takes any body; what its model refuses is an audited failure.\<close>

definition exchange_body :: "url_env \<Rightarrow> body \<Rightarrow> AuthHandoffExchangeInput option" where
  "exchange_body E b = (case b of JsonBody (PDict d) \<Rightarrow> AuthExchangeBody E d | _ \<Rightarrow> None)"

definition exchange_route :: "AuthService \<Rightarrow> runtime \<Rightarrow> service_request \<Rightarrow> http_response route" where
  "exchange_route S R request =
     bindR (read_body (sq_body request)) (\<lambda>_.
     case exchange_body (ae_url (rt_env R)) (sq_body request) of
       None \<Rightarrow>
         bindR (public (invalid_auth_handoff_exchange R (audit_context request))) (\<lambda>_.
         raiseR (Unhandled (RuntimeError (lit ''Invalid handoff exchange handler returned unexpectedly''))))
     | Some input \<Rightarrow>
         bindR (public (exchange_auth_handoff S R input (audit_context request))) (\<lambda>pair. retR (tokens_response pair)))"

section \<open>The current user\<close>

definition bearer_error :: route_error where
  "bearer_error = PublicHttpError 401 (lit ''UNAUTHORIZED'') (lit ''Bearer access token is required'')"

definition bearer :: "pystr option \<Rightarrow> route_error + pystr" where
  "bearer authorization =
     (case authorization of
        None \<Rightarrow> Inl bearer_error
      | Some a \<Rightarrow>
          (case py_split_on 32 a of
             scheme # token # _ \<Rightarrow> if scheme \<noteq> lit ''Bearer'' \<or> token = [] then Inl bearer_error else Inr token
           | _ \<Rightarrow> Inl bearer_error))"

definition user_response :: "CurrentUser \<Rightarrow> http_response" where
  "user_response user =
     ExpressJsonResponse
       [(lit ''id'', PStr (cu_id user)), (lit ''email'', opt_str (cu_email user)),
        (lit ''email_verified'', PBool (cu_email_verified user)), (lit ''name'', opt_str (cu_name user)),
        (lit ''roles'', PList (map (\<lambda>r. PDict [(lit ''serviceKey'', PStr (role_service_key r)), (lit ''name'', PStr (role_name r))])
           (cu_roles user)))] 200"

definition me_route :: "AuthService \<Rightarrow> runtime \<Rightarrow> service_request \<Rightarrow> http_response route" where
  "me_route S R request =
     bindR (liftR (bearer (header_get (sq_headers request) ''authorization''))) (\<lambda>token.
     bindR (public (current_user S R token)) (\<lambda>user. retR (user_response user)))"

end
