(* ===== verification/Oauth_Routes.thy ===== *)
theory Oauth_Routes
  imports Auth_Routes
begin

text \<open>
  \<^verbatim>\<open>api/routes/oauth.py\<close>: the start and the callback of an OAuth sign-in, with the redirect of Express and its
  choice of a media type, and the table of the routes under \<^verbatim>\<open>/auth\<close> and \<^verbatim>\<open>/users\<close>. Floating point numbers are
  an argument: how a text reads as one, equality, order, zero and one.
\<close>

section \<open>The media type of a redirect\<close>

record 'q float_ops =
  fo_parse :: "pystr \<Rightarrow> 'q option"
  fo_equal :: "'q \<Rightarrow> 'q \<Rightarrow> bool"
  fo_less :: "'q \<Rightarrow> 'q \<Rightarrow> bool"
  fo_zero :: 'q
  fo_one :: 'q

text \<open>The parameters of one accepted type: a quality ends the list; anything else makes the type a special one.\<close>

fun media_parameters :: "(pystr \<Rightarrow> pystr) \<Rightarrow> 'q float_ops \<Rightarrow> pystr list \<Rightarrow> bool \<Rightarrow> 'q \<times> bool" where
  "media_parameters uni F [] special = (fo_one F, special)"
| "media_parameters uni F (p # ps) special =
     (case py_partition 61 p of (name, separator, v) \<Rightarrow>
        if \<not> separator then media_parameters uni F ps True
        else if py_lower uni (py_strip name) = lit ''q''
        then (case fo_parse F (strip_quotes (py_strip v)) of None \<Rightarrow> fo_zero F | Some x \<Rightarrow> x, special)
        else media_parameters uni F ps True)"

definition accepted_item :: "(pystr \<Rightarrow> pystr) \<Rightarrow> 'q float_ops \<Rightarrow> nat \<times> pystr \<Rightarrow> (pystr \<times> pystr \<times> 'q \<times> int) list" where
  "accepted_item uni F = (\<lambda>(index, item).
     (let parts = map py_strip (py_split_on 59 item); media = py_lower uni (hd parts) in
      case py_partition 47 media of (main_type, slash, media_subtype) \<Rightarrow>
        if \<not> slash then []
        else (case media_parameters uni F (tl parts) False of (quality, special) \<Rightarrow>
                if special then [] else [(main_type, media_subtype, quality, int index)])))"

definition accepted_types :: "(pystr \<Rightarrow> pystr) \<Rightarrow> 'q float_ops \<Rightarrow> pystr option \<Rightarrow> (pystr \<times> pystr \<times> 'q \<times> int) list" where
  "accepted_types uni F accept =
     (let items = py_split_on 44 (case accept of None \<Rightarrow> lit ''*/*'' | Some a \<Rightarrow> a)
      in concat (map (accepted_item uni F) (zip [0..<length items] items)))"

text \<open>Tuples compare at their first difference. A match is its quality, specificity and place.\<close>

definition better_match :: "'q float_ops \<Rightarrow> 'q \<times> int \<times> int \<Rightarrow> 'q \<times> int \<times> int \<Rightarrow> bool" where
  "better_match F = (\<lambda>(quality, specificity, place) (quality', specificity', place').
     if specificity \<noteq> specificity' then specificity' < specificity
     else if \<not> fo_equal F quality quality' then fo_less F quality' quality
     else place' < place)"

definition match_type :: "'q float_ops \<Rightarrow> string \<Rightarrow> 'q \<times> int \<times> int \<Rightarrow> pystr \<times> pystr \<times> 'q \<times> int \<Rightarrow> 'q \<times> int \<times> int" where
  "match_type F subtype best = (\<lambda>(main_type, media_subtype, quality, place).
     if main_type \<notin> {lit ''*'', lit ''text''} \<or> media_subtype \<notin> {lit ''*'', lit subtype} then best
     else (let candidate = (quality, (if main_type = lit ''text'' then 4 else 0) + (if media_subtype = lit subtype then 2 else 0), place)
           in if better_match F candidate best then candidate else best))"

definition best_match :: "'q float_ops \<Rightarrow> (pystr \<times> pystr \<times> 'q \<times> int) list \<Rightarrow> string \<Rightarrow> 'q \<times> int \<times> int" where
  "best_match F accepted subtype = foldl (match_type F subtype) (fo_zero F, - 1, - 1) accepted"

datatype redirect_media = TextBody | HtmlBody

definition html_preferred :: "'q float_ops \<Rightarrow> 'q \<times> int \<times> int \<Rightarrow> 'q \<times> int \<times> int \<Rightarrow> bool" where
  "html_preferred F html plain =
     (case (html, plain) of ((quality, specificity, place), (quality', specificity', place')) \<Rightarrow>
        if \<not> fo_equal F quality quality' then fo_less F quality' quality
        else if specificity \<noteq> specificity' then specificity' < specificity
        else place < place')"

definition redirect_media_type :: "(pystr \<Rightarrow> pystr) \<Rightarrow> 'q float_ops \<Rightarrow> pystr option \<Rightarrow> redirect_media option" where
  "redirect_media_type uni F accept =
     (let accepted = accepted_types uni F accept;
          plain = best_match F accepted ''plain''; html = best_match F accepted ''html'';
          plain_ok = fo_less F (fo_zero F) (fst plain); html_ok = fo_less F (fo_zero F) (fst html)
      in if plain_ok \<and> html_ok then Some (if html_preferred F html plain then HtmlBody else TextBody)
         else if plain_ok then Some TextBody else if html_ok then Some HtmlBody else None)"

section \<open>The redirect\<close>

definition redirect_safe :: "nat \<Rightarrow> bool" where
  "redirect_safe b \<longleftrightarrow> ascii_alpha b \<or> ascii_digit b \<or> b \<in> set (lit ''_.-~:/%#?=@[]!$&()*+,;'') \<or> b = 39"

definition redirect_quote_byte :: "nat \<Rightarrow> pystr" where
  "redirect_quote_byte b = (if redirect_safe b then [b] else [37, upper_hex (b div 16), upper_hex (b mod 16)])"

definition redirect_quote :: "pystr \<Rightarrow> exn + pystr" where
  "redirect_quote url =
     (if str_ok url then Inr (concat (map redirect_quote_byte (utf8_bytes url)))
      else Inl (ValueError (lit ''surrogates not allowed'')))"

definition redirect_html_char :: "nat \<Rightarrow> pystr" where
  "redirect_html_char c =
     (if c = 38 then lit ''&amp;'' else if c = 34 then lit ''&quot;'' else if c = 39 then lit ''&#39;''
      else if c = 60 then lit ''&lt;'' else if c = 62 then lit ''&gt;'' else [c])"

text \<open>\<^verbatim>\<open>_escape_html\<close>: the ampersand is replaced first, so one pass does the same.\<close>

definition escape_html :: "pystr \<Rightarrow> pystr" where
  "escape_html v = concat (map redirect_html_char v)"

definition express_redirect :: "(pystr \<Rightarrow> pystr) \<Rightarrow> 'q float_ops \<Rightarrow> service_request \<Rightarrow> pystr \<Rightarrow> exn + http_response" where
  "express_redirect uni F request url =
     bindE (redirect_quote url) (\<lambda>location.
       let selected = redirect_media_type uni F (header_get (sq_headers request) ''accept'');
           body = (case selected of
               Some HtmlBody \<Rightarrow> lit ''<p>Found. Redirecting to '' @ escape_html location @ lit ''</p>''
             | Some TextBody \<Rightarrow> lit ''Found. Redirecting to '' @ location
             | None \<Rightarrow> []);
           media = (case selected of
               Some HtmlBody \<Rightarrow> [(lit ''content-type'', lit ''text/html; charset=utf-8'')]
             | Some TextBody \<Rightarrow> [(lit ''content-type'', lit ''text/plain; charset=utf-8'')]
             | None \<Rightarrow> [])
       in Inr \<lparr>hr_status = 302,
               hr_headers = [(lit ''location'', location), (lit ''vary'', lit ''Accept''),
                             (lit ''content-length'', nat_digits (length body))] @ media,
               hr_body = (if sq_method request = lit ''HEAD'' then [] else body), hr_location = Some location,
               hr_set_cookies = [], hr_cleared = []\<rparr>)"

section \<open>Start and callback\<close>

text \<open>\<^verbatim>\<open>query_params.getlist\<close>.\<close>

definition query_list :: "service_request \<Rightarrow> string \<Rightarrow> pystr list" where
  "query_list request name = map snd (filter (\<lambda>p. fst p = lit name) (sq_query request))"

definition start_query :: "url_env \<Rightarrow> service_request \<Rightarrow> route_error + OAuthStartInput" where
  "start_query E request =
     (if \<not> distinct (map fst (sq_query request)) then Inl invalid_request_error
      else (case OAuthStartQuery E (map (\<lambda>(k, v). (k, PStr v)) (sq_query request)) of
              None \<Rightarrow> Inl invalid_request_error
            | Some query \<Rightarrow> Inr query))"

definition oauth_start_route ::
  "AuthService \<Rightarrow> runtime \<Rightarrow> 'q float_ops \<Rightarrow> OAuthProvider \<Rightarrow> service_request \<Rightarrow> http_response route" where
  "oauth_start_route S R F provider request =
     bindR (liftR (start_query (ae_url (rt_env R)) request)) (\<lambda>query.
     bindR (public (oauth_start S R provider query)) (\<lambda>authorization_url.
     liftR (case express_redirect (rt_lower R) F request authorization_url of Inl e \<Rightarrow> Inl (Unhandled e) | Inr r \<Rightarrow> Inr r)))"

definition callback_values :: "service_request \<Rightarrow> route_error + (pystr \<times> pystr)" where
  "callback_values request =
     (case query_list request ''code'' of
        [code] \<Rightarrow>
          if code = [] then Inl invalid_request_error
          else (case query_list request ''state'' of
                  [state] \<Rightarrow>
                    if state = [] then Inl (PublicHttpError 400 (lit ''INVALID_OAUTH_STATE'') (lit ''Invalid OAuth state''))
                    else Inr (code, state)
                | _ \<Rightarrow> Inl (PublicHttpError 400 (lit ''INVALID_OAUTH_STATE'') (lit ''Invalid OAuth state'')))
      | _ \<Rightarrow> Inl invalid_request_error)"

definition provider_failed :: "service_request \<Rightarrow> bool" where
  "provider_failed request =
     (case query_list request ''error'' of [] \<Rightarrow> False | [e] \<Rightarrow> e \<noteq> [] | _ \<Rightarrow> True)"

definition oauth_callback_route ::
  "AuthService \<Rightarrow> runtime \<Rightarrow> 'q float_ops \<Rightarrow> OAuthProvider \<Rightarrow> service_request \<Rightarrow> http_response route" where
  "oauth_callback_route S R F provider request =
     (let context = audit_context request in
      if provider_failed request
      then bindR (public (oauth_provider_error R provider context)) (\<lambda>_.
           raiseR (Unhandled (RuntimeError (lit ''OAuth provider error handler returned unexpectedly''))))
      else
        bindR (liftR (callback_values request)) (\<lambda>(code, state).
        bindR (public (oauth_callback S R provider code state context)) (\<lambda>redirect_url.
        liftR (case express_redirect (rt_lower R) F request redirect_url of Inl e \<Rightarrow> Inl (Unhandled e) | Inr r \<Rightarrow> Inr r))))"

section \<open>The tables\<close>

text \<open>
  A row of a router: which methods it takes, the template of the path and the handler, which is given the parameters
  of the template. When a template matches a path, and with what parameters, is Starlette's to say, an argument.
\<close>

type_synonym path_params = "(pystr \<times> pystr) list"
type_synonym handler = "path_params \<Rightarrow> service_request \<Rightarrow> http_response route"
type_synonym row = "(pystr \<Rightarrow> bool) \<times> pystr \<times> handler"
type_synonym router = "pystr \<Rightarrow> pystr \<Rightarrow> path_params option"

definition param_row :: "string list \<Rightarrow> pystr \<Rightarrow> handler \<Rightarrow> row" where
  "param_row methods template h = (\<lambda>m. m \<in> set (map lit methods), template, h)"

definition fixed_row :: "string list \<Rightarrow> pystr \<Rightarrow> (service_request \<Rightarrow> http_response route) \<Rightarrow> row" where
  "fixed_row methods template h = param_row methods template (\<lambda>_. h)"

definition option_row :: "http_response \<Rightarrow> pystr \<Rightarrow> row" where
  "option_row response template = fixed_row [''OPTIONS''] template (\<lambda>_. retR response)"

text \<open>\<^verbatim>\<open>build_auth_router\<close>, \<^verbatim>\<open>build_users_router\<close>, \<^verbatim>\<open>build_oauth_router\<close>.\<close>

definition auth_rows :: "AuthService \<Rightarrow> runtime \<Rightarrow> row list" where
  "auth_rows S R =
     map (\<lambda>p. option_row post_options (lit ''/auth/'' @ lit p))
       [''register'', ''login'', ''refresh'', ''logout'', ''exchange'', ''password-reset/request'', ''password-reset/confirm'',
        ''email-verification/request'', ''email-verification/confirm'']
     @ map (\<lambda>(p, h). fixed_row [''POST''] (lit ''/auth/'' @ lit p) h)
       [(''register'', register_route S R), (''login'', login_route S R), (''refresh'', refresh_route S R),
        (''logout'', logout_route S R), (''password-reset/request'', request_password_reset_route S R),
        (''password-reset/confirm'', confirm_password_reset_route S R),
        (''email-verification/request'', request_email_verification_route S R),
        (''email-verification/confirm'', confirm_email_verification_route R), (''exchange'', exchange_route S R)]"

definition user_rows :: "AuthService \<Rightarrow> runtime \<Rightarrow> row list" where
  "user_rows S R =
     [fixed_row [''GET''] (lit ''/users/me'') (me_route S R), fixed_row [''HEAD''] (lit ''/users/me'') (me_route S R),
      option_row get_options (lit ''/users/me'')]"

definition oauth_rows :: "AuthService \<Rightarrow> runtime \<Rightarrow> 'q float_ops \<Rightarrow> row list" where
  "oauth_rows S R F =
     concat (map (\<lambda>p. let path = lit ''/auth/'' @ provider_value p in
         [option_row get_options path, option_row get_options (path @ lit ''/callback'')]) [google, naver, kakao])
     @ concat (map (\<lambda>p. let path = lit ''/auth/'' @ provider_value p in
         [fixed_row [''GET'', ''HEAD''] path (oauth_start_route S R F p),
          fixed_row [''GET'', ''HEAD''] (path @ lit ''/callback'') (oauth_callback_route S R F p)]) [google, naver, kakao])"

text \<open>The first row that has path and method; a path without the method is a 405, no path a 404.\<close>

definition path_matches :: "router \<Rightarrow> service_request \<Rightarrow> row \<Rightarrow> bool" where
  "path_matches M request row \<longleftrightarrow> M (fst (snd row)) (sq_path request) \<noteq> None"

definition full_match :: "router \<Rightarrow> service_request \<Rightarrow> row \<Rightarrow> bool" where
  "full_match M request row \<longleftrightarrow> path_matches M request row \<and> fst row (sq_method request)"

definition dispatch :: "router \<Rightarrow> row list \<Rightarrow> service_request \<Rightarrow> http_response route" where
  "dispatch M rows request =
     (case find (full_match M request) rows of
        Some (methods, template, h) \<Rightarrow> h (the (M template (sq_path request))) request
      | None \<Rightarrow> raiseR (HTTPException (if list_ex (path_matches M request) rows then 405 else 404)))"

end
