(* ===== verification/Route_Answers.thy ===== *)
theory Route_Answers
  imports Oauth_Routes
begin

text \<open>
  What the answers of the public routes tell and where they send a browser: the request routes do not depend on
  the accounts there are, a password login redirects to a registered address only, and a redirect carries no
  character that could end its header or its page.
\<close>

section \<open>Failures that stay inside\<close>

named_theorems internal_intros

definition internalT :: "('s, 'a) tx \<Rightarrow> bool" where
  "internalT m \<longleftrightarrow> (\<forall>s e. m s = Inl e \<longrightarrow> \<not> is_domain_error e)"

definition internalA :: "('w, 'a) act \<Rightarrow> bool" where
  "internalA m \<longleftrightarrow> (\<forall>w e w'. m w = (Inl e, w') \<longrightarrow> \<not> is_domain_error e)"

lemma internal_values [internal_intros]:
  "internalT (retT x)" "internalT (readT g)" "internalA (retA x)" "internalA (utc_now_ms R)" "internalA (application_uuids R)"
  "internalA (random_block R)"
  by (simp_all add: internalT_def internalA_def retT_def readT_def retA_def utc_now_ms_def application_uuids_def random_block_def)

lemma internalT_bind [internal_intros]: "internalT m \<Longrightarrow> (\<And>x. internalT (k x)) \<Longrightarrow> internalT (bindT m k)"
  by (auto simp: internalT_def bindT_def split: sum.splits)

lemma internalA_bind [internal_intros]: "internalA m \<Longrightarrow> (\<And>x. internalA (k x)) \<Longrightarrow> internalA (bindA m k)"
  unfolding internalA_def bindA_Inl_iff by blast

lemma internal_cases [internal_intros]:
  "internalT n \<Longrightarrow> (\<And>x. internalT (s x)) \<Longrightarrow> internalT (case_option n s v)"
  "internalA n' \<Longrightarrow> (\<And>x. internalA (s' x)) \<Longrightarrow> internalA (case_option n' s' v)"
  "internalT m1 \<Longrightarrow> internalT m2 \<Longrightarrow> internalT (if b then m1 else m2)"
  "internalA m1' \<Longrightarrow> internalA m2' \<Longrightarrow> internalA (if b then m1' else m2')"
  by (simp_all split: option.split)

lemma internalA_transaction [internal_intros]: "internalT m \<Longrightarrow> internalA (in_transaction m)"
  by (auto simp: internalA_def internalT_def in_transaction_def run_tx_def split: sum.splits prod.splits)

lemma internalA_lift: "(\<And>e. x = Inl e \<Longrightarrow> \<not> is_domain_error e) \<Longrightarrow> internalA (liftA x)"
  by (auto simp: internalA_def liftA_def)

lemma internal_checked: "(\<And>d. m d = checked (p d) (q d) (f d)) \<Longrightarrow> internalT m"
  by (auto simp: internalT_def checked_def is_domain_error_def UNIQUE_VIOLATION_def FOREIGN_KEY_VIOLATION_def split: if_splits)

lemma internal_inserts [internal_intros]:
  "internalT (insert_user r1)" "internalT (insert_cred r2)" "internalT (insert_pending r3)"
  "internalT (insert_verif r4)" "internalT (insert_reset r5)" "internalT (insert_audit r6)"
  by (rule internal_checked, simp add: insert_user_def insert_cred_def insert_pending_def insert_verif_def insert_reset_def
      insert_audit_def)+

lemma internal_inserted [internal_intros]: "internalT m \<Longrightarrow> internalT (inserted m operation)"
  by (auto simp: inserted_def require_one_def internalT_def bindT_def is_domain_error_def retT_def raiseT_def split: sum.splits if_splits)

lemma internal_statements [internal_intros]:
  "internalT (find_active_reset_user e)" "internalT (find_credential_by_email e)" "internalT (find_eligible_user e n)"
  "internalT (find_by_email e)" "internalT (create_reset_token t)" "internalT (create_verification_token v)"
  "internalT (audit_create a)" "internalT (create_user_with_password uni reg)"
  unfolding find_active_reset_user_def find_credential_by_email_def find_eligible_user_def find_by_email_def
    create_reset_token_def create_verification_token_def audit_create_def create_user_with_password_def Let_def
  by (intro internal_intros)+

lemma internalT_run: "internalT m \<Longrightarrow> m s = Inl e \<Longrightarrow> \<not> is_domain_error e"
  by (simp add: internalT_def)

lemma internal_upsert [internal_intros]: "internalT (upsert_pending_password uni p)"
proof -
  have row: "inserted (insert_pending r) operation d = Inl e \<Longrightarrow> \<not> is_domain_error e" for r operation d e
    using internalT_run [of "inserted (insert_pending r) operation" d e] by (simp add: internal_intros)
  show ?thesis
    by (auto simp: internalT_def upsert_pending_password_def Let_def UNIQUE_VIOLATION_def split: if_splits dest: row)
      (simp add: is_domain_error_def)
qed

lemma internal_write_audit [internal_intros]: "internalA (write_audit R e o1 i c r d p)"
  unfolding write_audit_def by (intro internal_intros)

lemma internal_register_mutate [internal_intros]: "internalT (register_mutate R u email name password_hash now)"
  unfolding register_mutate_def by (intro internal_intros)

section \<open>Answers that do not depend on the accounts\<close>

definition blind :: "'a route \<Rightarrow> bool" where
  "blind m \<longleftrightarrow> (\<exists>reply. \<forall>w. fst (m w) \<in> insert reply (range (\<lambda>e. Inl (Unhandled e))))"

lemma blind_constant: "blind (retR x)" "blind (raiseR e)" "blind (liftR r)"
  by (auto simp: blind_def retR_def raiseR_def liftR_def)

lemma blind_read_body: "(\<And>u. blind k) \<Longrightarrow> blind (bindR (read_body b) (\<lambda>_. k))"
  using blind_constant by (auto simp: read_body_def bindR_def blind_def retR_def raiseR_def split: body.split)

lemma blind_body_model: "(\<And>x. blind (k x)) \<Longrightarrow> blind (bindR (body_model model b) k)"
  by (auto simp: body_model_def bindR_def blind_def retR_def raiseR_def split: body.split pyval.split option.split)

lemma blind_with_body: "(\<And>x. blind (k x)) \<Longrightarrow> blind (with_body model request k)"
  unfolding with_body_def by (intro blind_read_body blind_body_model)

lemma blind_lift: "(\<And>x. blind (k x)) \<Longrightarrow> blind (bindR (liftR r) k)"
  by (cases r) (auto simp: bindR_def liftR_def blind_def)

lemma blind_internal:
  assumes "internalA m"
  shows "blind (bindR (public m) (\<lambda>_. retR r))"
proof -
  have "fst (bindR (public m) (\<lambda>_. retR r) w) \<in> insert (Inr r) (range (\<lambda>e. Inl (Unhandled e)))" for w
  proof (cases "m w")
    case (Pair x w')
    then have "x = Inl e \<Longrightarrow> \<not> is_domain_error e" for e using assms by (auto simp: internalA_def)
    with Pair show ?thesis by (cases x) (simp_all add: bindR_def public_def retR_def raise_public_def)
  qed
  then show ?thesis unfolding blind_def by blast
qed

lemma blind_checked:
  assumes "\<And>x. internalA (k x)"
  shows "blind (bindR (public (bindA (liftA r) k)) (\<lambda>_. retR reply))"
proof (cases r)
  case (Inl e)
  then have "bindR (public (bindA (liftA r) k)) (\<lambda>_. retR reply) = raiseR (raise_public e)"
    by (simp add: fun_eq_iff bindR_def public_def bindA_def liftA_def raiseR_def)
  then show ?thesis by (simp only: blind_constant(2))
next
  case (Inr x)
  then have "bindA (liftA r) k = k x" by (simp add: fun_eq_iff bindA_def liftA_def)
  then show ?thesis using blind_internal [OF assms] by simp
qed

lemma internal_hash: "internalA (hash_new_password R p)"
  by (auto simp: internalA_def hash_new_password_def hash_password_def is_domain_error_def split: if_splits)

lemma internal_send_link: "internalA (send_link S R v t b tok)"
proof -
  have "\<not> is_domain_error e" if "url_with_token E b tok = Inl e" for E e
    using that by (auto simp: url_with_token_def url_with_query_def is_domain_error_def Let_def split: if_splits option.splits)
  moreover have "internalA (send_mail R m)" for m
    by (auto simp: internalA_def send_mail_def is_domain_error_def split: if_splits)
  ultimately show ?thesis unfolding send_link_def
    by (intro internal_intros internalA_lift) (auto simp: mailer_def requireE_def is_domain_error_def split: if_splits)
qed

lemma internal_issue:
  "internalA (liftA (issue_verification_token h n raw))" "internalA (liftA (issue_password_reset_token h n raw))"
  by (rule internalA_lift, auto simp: issue_verification_token_def issue_password_reset_token_def Let_def is_domain_error_def
      split: if_splits)+

lemma blind_register: "blind (bindR (public (register S R input context)) (\<lambda>_. retR reply))"
  unfolding register_def Let_def case_prod_beta by (intro blind_checked internal_intros internal_hash)

lemma blind_reset_request: "blind (bindR (public (request_password_reset S R email context)) (\<lambda>_. retR reply))"
  unfolding request_password_reset_def Let_def by (intro blind_internal internal_intros internal_issue internal_send_link)

lemma blind_verification_request:
  "blind (bindR (public (request_email_verification S R email context handoff)) (\<lambda>_. retR reply))"
  unfolding request_email_verification_def by (intro blind_checked internal_intros internal_issue internal_send_link)

lemma blind_optional_handoff: "(\<And>x. blind (k x)) \<Longrightarrow> blind (bindR (optional_handoff clients h) k)"
proof -
  assume k: "\<And>x. blind (k x)"
  have "bindR (optional_handoff clients h) k
      = (if is_handoff h then bindR (liftR (handoff_of clients h)) (\<lambda>x. k (Some x)) else k None)"
    by (simp add: optional_handoff_def fun_eq_iff bindR_def liftR_def retR_def split: sum.split)
  then show ?thesis using k by (simp add: blind_lift)
qed

lemma blind_app:
  assumes "blind m"
  shows "\<exists>reply. \<forall>w. fst (error_handlers m w) \<in> insert (Completed reply) (range RaisedBefore)"
proof -
  from assms obtain a where a: "\<And>w. fst (m w) \<in> insert a (range (\<lambda>e. Inl (Unhandled e)))" by (auto simp: blind_def)
  have "fst (error_handlers m w) \<in> insert (handled a) (range RaisedBefore)" for w
    using a [of w] by (cases "m w") (auto simp: error_handlers_def handled_def)
  moreover have "(\<exists>reply. handled a = Completed reply) \<or> handled a \<in> range RaisedBefore"
    by (auto simp: handled_def split: sum.split route_error.split)
  ultimately show ?thesis by (metis insertE insertI1 insertI2)
qed


section \<open>Where a password login redirects\<close>

lemma bindR_Inr: "bindR m k w = (Inr y, w2) \<longleftrightarrow> (\<exists>x w1. m w = (Inr x, w1) \<and> k x w1 = (Inr y, w2))"
  by (auto simp: bindR_def split: prod.splits sum.splits)

lemma retR_Inr: "retR x w = (Inr y, w') \<longleftrightarrow> y = x \<and> w' = w"
  by (auto simp: retR_def)

lemma liftR_Inr: "liftR x w = (Inr y, w') \<longleftrightarrow> x = Inr y \<and> w' = w"
  by (auto simp: liftR_def)

lemma raiseR_Inr: "raiseR e w \<noteq> (Inr y, w')"
  by (simp add: raiseR_def)

lemma public_Inr: "public m w = (Inr x, w') \<longleftrightarrow> m w = (Inr x, w')"
  by (auto simp: public_def split: prod.splits sum.splits)

lemmas route_iffs = bindR_Inr retR_Inr liftR_Inr raiseR_Inr public_Inr

lemma with_body_Inr:
  "with_body model request k w = (Inr y, w2) \<longleftrightarrow>
     (\<exists>d x. sq_body request = JsonBody (PDict d) \<and> model d = Some x \<and> k x w = (Inr y, w2))"
  by (auto simp: with_body_def read_body_def body_model_def bindR_def retR_def raiseR_def
      split: body.splits pyval.splits option.splits)

lemma handoff_of_registered:
  assumes "handoff_of clients h = Inr handoff"
  shows "\<exists>client \<in> set clients. hf_client_id h = Some (rcp_client_id client) \<and> hf_redirect_uri h = Some (ch_redirect_uri handoff)
    \<and> ch_redirect_uri handoff \<in> set (rcp_allowed_redirect_uris client) \<and> ch_client_id handoff = rcp_client_id client
    \<and> ch_state handoff = hf_state h"
  using assms
  by (auto simp: handoff_of_def check_ClientHandoff_def invalid_request_error_def find_Some_iff
      bindE_def split: option.splits if_splits sum.splits)

lemma optional_handoff_Inr:
  assumes "optional_handoff clients h w = (Inr handoff, w')"
  shows "w' = w \<and> (case handoff of None \<Rightarrow> \<not> is_handoff h | Some x \<Rightarrow> is_handoff h \<and> handoff_of clients h = Inr x)"
  using assms by (auto simp: optional_handoff_def route_iffs split: if_splits)

lemma login_redirects:
  assumes "login S R c context handoff w = (Inr (Redirect url), w')"
  shows "\<exists>h code. handoff = Some h \<and> redirect_with_code (ae_url (rt_env R)) (ch_redirect_uri h) code (ch_state h) = Inr url"
  using assms by (cases handoff) (auto simp: login_def act_iffs split: option.splits)

lemma login_with_handoff: "login S R c context (Some h) w = (Inr x, w') \<Longrightarrow> \<exists>url. x = Redirect url"
  by (auto simp: login_def act_iffs split: option.splits)

text \<open>C29. A password login that answers with a redirect names an address that is registered for the client of
  its body, with a code and the caller's state added to the query by \<^verbatim>\<open>_redirect_with_code\<close>; any other
  successful answer is a pair of tokens, and then the body named no client.\<close>

theorem login_redirects_registered:
  assumes "login_route S R request w = (Inr r, w')"
  shows "\<exists>d credentials h. sq_body request = JsonBody (PDict d) \<and> LoginBody (ae_url (rt_env R)) d = Some (credentials, h)
    \<and> (if \<not> is_handoff h then \<exists>pair. r = tokens_response pair
       else \<exists>client \<in> set (as_auth_clients S). \<exists>uri \<in> set (rcp_allowed_redirect_uris client). \<exists>code url.
         hf_client_id h = Some (rcp_client_id client) \<and> hf_redirect_uri h = Some uri
         \<and> redirect_with_code (ae_url (rt_env R)) uri code (hf_state h) = Inr url
         \<and> r = ExpressJsonResponse [(lit ''redirectUrl'', PStr url)] 200)"
proof -
  from assms obtain d credentials h handoff x w1 where
    body: "sq_body request = JsonBody (PDict d)" "LoginBody (ae_url (rt_env R)) d = Some (credentials, h)"
    and handoff: "optional_handoff (as_auth_clients S) h w = (Inr handoff, w1)"
    and login: "login S R credentials (audit_context request) handoff w1 = (Inr x, w')"
    and r: "r = login_response x"
    by (auto simp: login_route_def with_body_Inr route_iffs)
  have "if \<not> is_handoff h then \<exists>pair. r = tokens_response pair
       else \<exists>client \<in> set (as_auth_clients S). \<exists>uri \<in> set (rcp_allowed_redirect_uris client). \<exists>code url.
         hf_client_id h = Some (rcp_client_id client) \<and> hf_redirect_uri h = Some uri
         \<and> redirect_with_code (ae_url (rt_env R)) uri code (hf_state h) = Inr url
         \<and> r = ExpressJsonResponse [(lit ''redirectUrl'', PStr url)] 200"
  proof (cases handoff)
    case None
    then have "\<not> is_handoff h" using optional_handoff_Inr [OF handoff] by simp
    moreover from login None obtain pair where "x = Pair pair"
      using login_redirects [of S R credentials "audit_context request" handoff w1 _ w'] by (cases x) auto
    ultimately show ?thesis using r by (auto simp: login_response_def)
  next
    case (Some y)
    then have h: "is_handoff h" "handoff_of (as_auth_clients S) h = Inr y" using optional_handoff_Inr [OF handoff] by simp_all
    from login_with_handoff [OF login [unfolded Some]] obtain url where "x = Redirect url" by blast
    with login_redirects [of S R credentials "audit_context request" handoff w1 url w'] login Some obtain code where
      "redirect_with_code (ae_url (rt_env R)) (ch_redirect_uri y) code (ch_state y) = Inr url" by auto
    moreover from r \<open>x = Redirect url\<close> have "r = ExpressJsonResponse [(lit ''redirectUrl'', PStr url)] 200"
      by (simp add: login_response_def)
    moreover from handoff_of_registered [OF h(2)] obtain client where "client \<in> set (as_auth_clients S)"
      "hf_client_id h = Some (rcp_client_id client)" "hf_redirect_uri h = Some (ch_redirect_uri y)"
      "ch_redirect_uri y \<in> set (rcp_allowed_redirect_uris client)" "ch_state y = hf_state h" by blast
    ultimately show ?thesis using h(1) by (metis (no_types))
  qed
  with body show ?thesis by blast
qed

definition wiki_client :: RelyingClientPolicy where
  "wiki_client = \<lparr>rcp_client_id = lit ''wiki'', rcp_audience = lit ''w'', rcp_allowed_redirect_uris = [lit ''https://w.co/cb''],
     rcp_default_role = \<lparr>dr_service_key = lit ''wiki'', dr_name = lit ''member''\<rparr>\<rparr>"

definition wiki_login :: service_request where
  "wiki_login = \<lparr>sq_method = lit ''POST'', sq_path = lit ''/auth/login'', sq_query = [], sq_headers = [], sq_client = None,
     sq_body = JsonBody (PDict [(lit ''email'', PStr (lit ''a@b.co'')), (lit ''password'', PStr (lit ''pw'')),
       (lit ''clientId'', PStr (lit ''wiki'')), (lit ''redirectUri'', PStr (lit ''https://w.co/cb'')),
       (lit ''codeChallenge'', PStr sample_challenge), (lit ''codeChallengeMethod'', PStr (lit ''S256''))]),
     sq_original_decoded_path = None, sq_admin_path_params = None\<rparr>"

definition open_runtime :: runtime where
  "open_runtime = sample_runtime\<lparr>rt_argon_verify := (\<lambda>h p. p = lit ''pw'')\<rparr>"

text \<open>A login leaves Redis alone until its handoff is stored, and a free key of an answering Redis takes it.\<close>

definition keeps_redis :: "(world, 'a) act \<Rightarrow> bool" where
  "keeps_redis m \<longleftrightarrow> (\<forall>w x w'. m w = (x, w') \<longrightarrow> w_redis w' = w_redis w)"

lemma keeps_redis_intros:
  "keeps_redis (retA x)" "keeps_redis (raiseA e)" "keeps_redis (utc_now_ms R)" "keeps_redis (in_transaction t)"
  "keeps_redis (write_audit R et oc i c r d p)"
  "keeps_redis m \<Longrightarrow> (\<And>x. keeps_redis (k x)) \<Longrightarrow> keeps_redis (bindA m k)"
  "keeps_redis n \<Longrightarrow> (\<And>x. keeps_redis (s x)) \<Longrightarrow> keeps_redis (case_option n s v)"
  "keeps_redis m1 \<Longrightarrow> keeps_redis m2 \<Longrightarrow> keeps_redis (if b then m1 else m2)"
  by (auto simp: keeps_redis_def retA_def raiseA_def utc_now_ms_def in_transaction_def bindA_def audit_redis
      split: prod.splits sum.splits option.splits)

lemma login_user_redis: "login_user R input context w = (x, w1) \<Longrightarrow> w_redis w1 = w_redis w"
proof -
  have "keeps_redis (login_user R input context)"
    unfolding login_user_def audit_login_failure_def Let_def by (intro keeps_redis_intros)
  then show "login_user R input context w = (x, w1) \<Longrightarrow> w_redis w1 = w_redis w" by (simp add: keeps_redis_def)
qed

lemma handoff_stored:
  assumes "handoff_input_ok E m" "0 \<le> now" "now < 10 ^ 15" "rd_ready w" "rd_fate w = (\<lambda>_. fate.Answered)"
    and "random_base64url (rnd 0) = Inr code" "redis_view w (auth_handoff_key (ae_sha256 E) code) = None"
  shows "\<exists>w'. handoff_create E redis_ops rnd now m w = (Inr code, w')"
  using handoff_record_roundtrip [OF assms(1-3)] assms(6) answered_commands(4) [OF assms(4,5) _ assms(7)]
  by (simp add: handoff_create_def Let_def seq_simps MAX_GENERATION_ATTEMPTS_def numeral_3_eq_3 AUTH_HANDOFF_TTL_SECONDS_def)

definition wiki_credentials :: LoginInput where
  "wiki_credentials = \<lparr>LoginInput.li_email = lit ''a@b.co'', LoginInput.li_password = lit ''pw''\<rparr>"

definition wiki_fields :: HandoffFields where
  "wiki_fields = \<lparr>hf_client_id = Some (lit ''wiki''), hf_redirect_uri = Some (lit ''https://w.co/cb''), hf_state = None,
     hf_code_challenge = Some sample_challenge, hf_code_challenge_method = Some (lit ''S256'')\<rparr>"

definition wiki_handoff :: ClientHandoff where
  "wiki_handoff = \<lparr>ch_client_id = lit ''wiki'', ch_audience = lit ''w'', ch_redirect_uri = lit ''https://w.co/cb'', ch_state = None,
     ch_code_challenge = sample_challenge\<rparr>"

definition wiki_input :: "pystr \<Rightarrow> AuthHandoffCreateInput" where
  "wiki_input user = \<lparr>hci_client_id = lit ''wiki'', hci_audience = lit ''w'', hci_redirect_uri = lit ''https://w.co/cb'',
     hci_user_id = user, hci_login_method = password_login_method, hci_code_challenge = sample_challenge, hci_state = None,
     hci_provider = None\<rparr>"

lemma wiki_body: "\<exists>d. sq_body wiki_login = JsonBody (PDict d)
    \<and> LoginBody (ae_url (rt_env open_runtime)) d = Some (wiki_credentials, wiki_fields)"
proof -
  have "case sq_body wiki_login of JsonBody (PDict d) \<Rightarrow> LoginBody (ae_url (rt_env open_runtime)) d = Some (wiki_credentials, wiki_fields)
    | _ \<Rightarrow> False" by code_simp
  then show ?thesis by (simp add: wiki_login_def)
qed

lemma wiki_entered:
  "\<exists>user w2. bindA (login_user open_runtime wiki_credentials (audit_context wiki_login))
      (\<lambda>u. bindA (write_audit open_runtime ''login_success'' ''success'' (Some (cu_id u)) (audit_context wiki_login) None None None)
        (\<lambda>_. retA u)) (sample_services sample_admin_db) = (Inr user, w2) \<and> cu_id user = lit ''u1'' \<and> w_redis w2 = sample_redis"
proof -
  let ?m = "bindA (login_user open_runtime wiki_credentials (audit_context wiki_login))
      (\<lambda>u. bindA (write_audit open_runtime ''login_success'' ''success'' (Some (cu_id u)) (audit_context wiki_login) None None None)
        (\<lambda>_. retA u))"
  have "case fst (?m (sample_services sample_admin_db)) of Inr u \<Rightarrow> cu_id u = lit ''u1'' | Inl e \<Rightarrow> False" by code_simp
  then obtain user w2 where run: "?m (sample_services sample_admin_db) = (Inr user, w2)" and u: "cu_id user = lit ''u1''"
    by (cases "?m (sample_services sample_admin_db)") (auto split: sum.splits)
  from run have "w_redis w2 = w_redis (sample_services sample_admin_db)"
    by (auto simp: act_iffs dest!: login_user_redis audit_redis)
  with run u show ?thesis by (auto simp: sample_services_def)
qed

lemma wiki_login_served:
  "\<exists>r w'. login_route (sample_service\<lparr>as_auth_clients := [wiki_client]\<rparr>) open_runtime wiki_login (sample_services sample_admin_db)
    = (Inr r, w')"
proof -
  let ?S = "sample_service\<lparr>as_auth_clients := [wiki_client]\<rparr>"
  from wiki_entered obtain user w1 w2 where
    user: "login_user open_runtime wiki_credentials (audit_context wiki_login) (sample_services sample_admin_db) = (Inr user, w1)"
    and audit: "write_audit open_runtime ''login_success'' ''success'' (Some (cu_id user)) (audit_context wiki_login) None None None w1
      = (Inr (), w2)"
    and u1: "cu_id user = lit ''u1''" and redis: "w_redis w2 = sample_redis"
    by (auto simp: act_iffs)
  have ok: "handoff_input_ok (rt_env open_runtime) (wiki_input (lit ''u1''))" by code_simp
  have env: "rt_random open_runtime k = replicate 32 5" "rt_clock open_runtime k = 50" for k
    by (simp_all add: open_runtime_def sample_runtime_def)
  have "redis_view sample_redis k = None" for k by (simp add: redis_view_def sample_redis_def kv_get_def)
  then obtain w3 where "handoff_create (rt_env open_runtime) redis_ops (\<lambda>i. replicate 32 5) 50 (wiki_input (lit ''u1'')) sample_redis
      = (Inr sample_code, w3)"
    using handoff_stored [OF ok, of 50 sample_redis "\<lambda>_. replicate 32 5" sample_code] sample_code_drawn by (auto simp: sample_redis_def)
  then have created: "\<exists>w4. create_handoff open_runtime (wiki_input (lit ''u1'')) w2 = (Inr sample_code, w4)"
    using redis env by (simp add: create_handoff_def seq_simps utc_now_ms_def random_block_def in_redis_def)
  have "case redirect_with_code (ae_url (rt_env open_runtime)) (lit ''https://w.co/cb'') sample_code None of Inr r \<Rightarrow> True | Inl e \<Rightarrow> False"
    by code_simp
  then obtain url where url: "redirect_with_code (ae_url (rt_env open_runtime)) (lit ''https://w.co/cb'') sample_code None = Inr url"
    by (auto split: sum.splits)
  have client: "client_for_handoff ?S wiki_handoff = Inr wiki_client" "handoff_of [wiki_client] wiki_fields = Inr wiki_handoff"
    "is_handoff wiki_fields" by code_simp+
  have "\<exists>w4. login ?S open_runtime wiki_credentials (audit_context wiki_login) (Some wiki_handoff) (sample_services sample_admin_db)
      = (Inr (Redirect url), w4)"
    using user audit created url client(1) u1
    by (auto simp: login_def seq_simps wiki_input_def wiki_handoff_def wiki_client_def)
  then obtain w4 where login: "login ?S open_runtime wiki_credentials (audit_context wiki_login) (Some wiki_handoff)
      (sample_services sample_admin_db) = (Inr (Redirect url), w4)" by blast
  from wiki_body obtain d where "sq_body wiki_login = JsonBody (PDict d)"
    "LoginBody (ae_url (rt_env open_runtime)) d = Some (wiki_credentials, wiki_fields)" by blast
  moreover have "optional_handoff [wiki_client] wiki_fields w = (Inr (Some wiki_handoff), w)" for w
    using client(2,3) by (simp add: optional_handoff_def route_iffs)
  ultimately have "login_route ?S open_runtime wiki_login (sample_services sample_admin_db) = (Inr (login_response (Redirect url)), w4)"
    using login by (simp add: login_route_def with_body_Inr route_iffs)
  then show ?thesis by blast
qed

lemma login_redirects_registered_witness:
  "\<exists>code url w'. redirect_with_code (ae_url (rt_env open_runtime)) (lit ''https://w.co/cb'') code None = Inr url
    \<and> login_route (sample_service\<lparr>as_auth_clients := [wiki_client]\<rparr>) open_runtime wiki_login (sample_services sample_admin_db)
      = (Inr (ExpressJsonResponse [(lit ''redirectUrl'', PStr url)] 200), w')"
proof -
  from wiki_login_served obtain r w' where
    run: "login_route (sample_service\<lparr>as_auth_clients := [wiki_client]\<rparr>) open_runtime wiki_login (sample_services sample_admin_db)
      = (Inr r, w')" by blast
  from login_redirects_registered [OF run] obtain d credentials h where
    body: "sq_body wiki_login = JsonBody (PDict d)" "LoginBody (ae_url (rt_env open_runtime)) d = Some (credentials, h)"
    and result: "if \<not> is_handoff h then \<exists>pair. r = tokens_response pair
       else \<exists>client \<in> set (as_auth_clients (sample_service\<lparr>as_auth_clients := [wiki_client]\<rparr>)).
         \<exists>uri \<in> set (rcp_allowed_redirect_uris client). \<exists>code url.
         hf_client_id h = Some (rcp_client_id client) \<and> hf_redirect_uri h = Some uri
         \<and> redirect_with_code (ae_url (rt_env open_runtime)) uri code (hf_state h) = Inr url
         \<and> r = ExpressJsonResponse [(lit ''redirectUrl'', PStr url)] 200" by blast
  have "h = wiki_fields" using wiki_body body by auto
  then have "is_handoff h" "hf_state h = None" by (simp_all add: wiki_fields_def is_handoff_def)
  with result run show ?thesis by (auto simp: wiki_client_def)
qed

section \<open>What a redirect carries\<close>

definition clean_char :: "nat \<Rightarrow> bool" where
  "clean_char c \<longleftrightarrow> 32 < c \<and> c < 127 \<and> c \<notin> {34, 60, 62, 92}"

lemma upper_hex_clean: "v < 16 \<Longrightarrow> clean_char (upper_hex v)"
  by (auto simp: clean_char_def upper_hex_def)

lemma redirect_safe_clean: "redirect_safe b \<Longrightarrow> clean_char b"
  by (auto simp: redirect_safe_def clean_char_def ascii_alpha_def ascii_digit_def lit_def)

lemma redirect_quote_byte_clean: "b < 256 \<Longrightarrow> c \<in> set (redirect_quote_byte b) \<Longrightarrow> clean_char c"
  by (auto simp: redirect_quote_byte_def redirect_safe_clean upper_hex_clean split: if_splits)
    (simp add: clean_char_def)

lemma redirect_quote_clean: "redirect_quote url = Inr location \<Longrightarrow> c \<in> set location \<Longrightarrow> clean_char c"
proof -
  assume q: "redirect_quote url = Inr location" and c: "c \<in> set location"
  then obtain b where "str_ok url" "b \<in> set (utf8_bytes url)" "c \<in> set (redirect_quote_byte b)"
    by (auto simp: redirect_quote_def split: if_splits)
  then show "clean_char c" using redirect_quote_byte_clean [OF utf8_bytes_byte] by blast
qed

lemma escape_html_plain: "c \<in> set (escape_html s) \<Longrightarrow> c \<notin> {34, 39, 60, 62}"
proof -
  have "list_all (list_all (\<lambda>c. c \<notin> {34, 39, 60, 62})) (map lit [''&amp;'', ''&quot;'', ''&#39;'', ''&lt;'', ''&gt;''])"
    by code_simp
  then have "x \<in> set (redirect_html_char a) \<Longrightarrow> x \<notin> {34, 39, 60, 62}" for x a
    by (auto simp: redirect_html_char_def list_all_iff split: if_splits)
  then show "c \<in> set (escape_html s) \<Longrightarrow> c \<notin> {34, 39, 60, 62}" unfolding escape_html_def by auto
qed

lemma unhandled_Inr: "(case x of Inl e \<Rightarrow> Inl (Unhandled e) | Inr r \<Rightarrow> Inr r) = Inr y \<longleftrightarrow> x = Inr y"
  by (cases x) auto

lemma express_redirect_clean:
  assumes "express_redirect uni F request url = Inr r"
  shows "\<exists>location. redirect_quote url = Inr location \<and> hr_location r = Some location
    \<and> header_get (hr_headers r) ''location'' = Some location
    \<and> hr_body r \<in> {[], lit ''Found. Redirecting to '' @ location, lit ''<p>Found. Redirecting to '' @ escape_html location @ lit ''</p>''}"
proof -
  from assms obtain location where "redirect_quote url = Inr location" by (auto simp: express_redirect_def bindE_def split: sum.splits)
  with assms show ?thesis
    by (simp add: express_redirect_def bindE_def Let_def header_get_def split: option.splits redirect_media.splits)
      (auto simp: header_get_def)
qed

definition clean_redirect :: "http_response \<Rightarrow> bool" where
  "clean_redirect r \<longleftrightarrow> hr_status r = 302 \<and> (\<exists>location shown. header_get (hr_headers r) ''location'' = Some location
    \<and> list_all clean_char location \<and> list_all (\<lambda>c. c \<notin> {34, 39, 60, 62}) shown
    \<and> hr_body r \<in> {[], lit ''Found. Redirecting to '' @ location, lit ''<p>Found. Redirecting to '' @ shown @ lit ''</p>''})"

lemma express_redirect_clean_redirect:
  assumes "express_redirect uni F request url = Inr r"
  shows "clean_redirect r"
proof -
  from express_redirect_clean [OF assms] obtain location where l: "redirect_quote url = Inr location"
    "header_get (hr_headers r) ''location'' = Some location"
    "hr_body r \<in> {[], lit ''Found. Redirecting to '' @ location, lit ''<p>Found. Redirecting to '' @ escape_html location @ lit ''</p>''}"
    by blast
  have "hr_status r = 302" using assms by (auto simp: express_redirect_def bindE_def Let_def split: sum.splits)
  moreover have "list_all clean_char location" using redirect_quote_clean [OF l(1)] by (simp add: list_all_iff)
  moreover have "list_all (\<lambda>c. c \<notin> {34, 39, 60, 62}) (escape_html location)"
    unfolding list_all_iff using escape_html_plain by blast
  ultimately show ?thesis using l(2,3) unfolding clean_redirect_def by blast
qed

lemma oauth_route_redirects:
  assumes "oauth_start_route S R F provider request w = (Inr r, w') \<or> oauth_callback_route S R F provider request w = (Inr r, w')"
  shows "\<exists>url. express_redirect (rt_lower R) F request url = Inr r"
  using assms
  by (auto simp: oauth_start_route_def oauth_callback_route_def Let_def route_iffs case_prod_beta unhandled_Inr split: if_splits)

text \<open>What a successful OAuth start or callback answers, whatever the provider configuration, the registered
  address or the caller's state put into its URL: a 302 whose location is printable ASCII without a quote, a
  backslash or an angle bracket, so no line of the response can be broken, and a page that shows it without markup
  of its own.\<close>

theorem oauth_redirect_clean:
  "(case fst (oauth_start_route S R F provider request w) of Inl e \<Rightarrow> True | Inr r \<Rightarrow> clean_redirect r)
   \<and> (case fst (oauth_callback_route S R F provider request w) of Inl e \<Rightarrow> True | Inr r \<Rightarrow> clean_redirect r)"
proof -
  have "clean_redirect r" if "oauth_start_route S R F provider request w = (Inr r, w')" for r w'
    using oauth_route_redirects [of S R F provider request w r w'] that express_redirect_clean_redirect by blast
  moreover have "clean_redirect r" if "oauth_callback_route S R F provider request w = (Inr r, w')" for r w'
    using oauth_route_redirects [of S R F provider request w r w'] that express_redirect_clean_redirect by blast
  ultimately show ?thesis
    by (cases "oauth_start_route S R F provider request w"; cases "oauth_callback_route S R F provider request w")
      (auto split: sum.split)
qed

text \<open>A URL with a line break, a quote and a tag, shown to a browser that prefers HTML.\<close>

definition integer_floats :: "int float_ops" where
  "integer_floats = \<lparr>fo_parse = (\<lambda>s. if s = lit ''0'' then Some 0 else if s = lit ''1'' then Some 1 else None), fo_equal = (=),
     fo_less = (<), fo_zero = 0, fo_one = 1\<rparr>"

lemma broken_url_redirect:
  "express_redirect (\<lambda>s. s) integer_floats (wiki_login\<lparr>sq_headers := [(lit ''accept'', lit ''text/html, */*;q=0'')]\<rparr>)
     (lit ''https://w.co/'' @ [13, 10, 34] @ lit ''<b>&x'')
   = Inr \<lparr>hr_status = 302,
       hr_headers = [(lit ''location'', lit ''https://w.co/%0D%0A%22%3Cb%3E&x''), (lit ''vary'', lit ''Accept''),
         (lit ''content-length'', lit ''64''), (lit ''content-type'', lit ''text/html; charset=utf-8'')],
       hr_body = lit ''<p>Found. Redirecting to https://w.co/%0D%0A%22%3Cb%3E&amp;x</p>'',
       hr_location = Some (lit ''https://w.co/%0D%0A%22%3Cb%3E&x''), hr_set_cookies = [], hr_cleared = []\<rparr>"
  by code_simp

end
