(* ===== verification/Js_Dates.thy ===== *)
theory Js_Dates
  imports Route_Inputs
begin

text \<open>
  The dates of \<^verbatim>\<open>api/routes/admin.py\<close>: the texts \<^verbatim>\<open>_parse_date\<close> accepts, as Node reads them, and \<^verbatim>\<open>_iso\<close>, which
  writes them. An instant is its milliseconds since 1970, as in the stores; the calendar is that of
  \<^verbatim>\<open>datetime\<close>: proleptic, of the years 1 to 9999. What decimal digits there are beside the ASCII ones, the
  local time zone and the reader of mail dates of the library are arguments.
\<close>

section \<open>The calendar\<close>

definition leap_year :: "int \<Rightarrow> bool" where
  "leap_year y \<longleftrightarrow> y mod 4 = 0 \<and> (y mod 100 \<noteq> 0 \<or> y mod 400 = 0)"

definition days_before_year :: "int \<Rightarrow> int" where
  "days_before_year y = (y - 1) * 365 + (y - 1) div 4 - (y - 1) div 100 + (y - 1) div 400"

definition DAYS_BEFORE_MONTH :: "int list" where
  "DAYS_BEFORE_MONTH = [0, 31, 59, 90, 120, 151, 181, 212, 243, 273, 304, 334]"

definition days_before_month :: "bool \<Rightarrow> nat \<Rightarrow> int" where
  "days_before_month leap month = DAYS_BEFORE_MONTH ! (month - 1) + (if 2 < month \<and> leap then 1 else 0)"

text \<open>The ordinal of the first day of a month, day one of year one being 1.\<close>

definition month_start :: "int \<Rightarrow> nat \<Rightarrow> int" where
  "month_start y month = days_before_year y + days_before_month (leap_year y) month + 1"

definition DAY_MS :: int where "DAY_MS = 86400000"
definition EPOCH_ORDINAL :: int where "EPOCH_ORDINAL = 719163"
definition DATETIME_MAX :: int where "DATETIME_MAX = 253402300799999"

definition in_datetime_range :: "int \<Rightarrow> exn + int" where
  "in_datetime_range t = (if DATETIME_MIN \<le> t \<and> t \<le> DATETIME_MAX then Inr t else Inl OverflowError)"

text \<open>\<^verbatim>\<open>datetime(year, month, 1)\<close>.\<close>

definition first_of_month :: "nat \<Rightarrow> nat \<Rightarrow> exn + int" where
  "first_of_month y month =
     (if 1 \<le> y \<and> y \<le> 9999 \<and> 1 \<le> month \<and> month \<le> 12 then Inr ((month_start (int y) month - EPOCH_ORDINAL) * DAY_MS)
      else Inl (ValueError (lit ''year or month is out of range'')))"

text \<open>\<^verbatim>\<open>date.fromordinal\<close>, by cycles of 400, 100 and 4 years.\<close>

definition month_of_day :: "bool \<Rightarrow> int \<Rightarrow> nat" where
  "month_of_day leap n = length (filter (\<lambda>m. days_before_month leap m \<le> n) [1..<13])"

definition date_of_ordinal :: "int \<Rightarrow> int \<times> nat \<times> int" where
  "date_of_ordinal ordinal =
     (let n = ordinal - 1; n400 = n div 146097; r400 = n mod 146097;
          n100 = r400 div 36524; r100 = r400 mod 36524;
          n4 = r100 div 1461; r4 = r100 mod 1461;
          n1 = r4 div 365; r1 = r4 mod 365;
          year = n400 * 400 + 1 + n100 * 100 + n4 * 4 + n1
      in if n1 = 4 \<or> n100 = 4 then (year - 1, 12, 31)
         else (let leap = (n1 = 3 \<and> (n4 \<noteq> 24 \<or> n100 = 3)); month = month_of_day leap r1
               in (year, month, r1 - days_before_month leap month + 1)))"

section \<open>Writing\<close>

definition padded :: "nat \<Rightarrow> nat \<Rightarrow> pystr" where
  "padded width n = (let d = nat_digits n in replicate (width - length d) 48 @ d)"

text \<open>\<^verbatim>\<open>_iso\<close>.\<close>

definition iso_date :: "int \<Rightarrow> pystr" where
  "iso_date t =
     (case date_of_ordinal (t div DAY_MS + EPOCH_ORDINAL) of (year, month, day) \<Rightarrow>
        let ms = nat (t mod DAY_MS) in
        padded 4 (nat year) @ [45] @ padded 2 month @ [45] @ padded 2 (nat day) @ [84]
        @ padded 2 (ms div 3600000) @ [58] @ padded 2 (ms div 60000 mod 60) @ [58] @ padded 2 (ms div 1000 mod 60)
        @ [46] @ padded 3 (ms mod 1000) @ [90])"

section \<open>Reading\<close>

record date_env =
  de_digit :: "nat \<Rightarrow> nat option"
  de_local :: "int \<Rightarrow> exn + int"
  de_mail :: "pystr \<Rightarrow> exn + (bool \<times> int)"

text \<open>The value of a decimal digit; \<^verbatim>\<open>\d\<close> and \<^verbatim>\<open>int\<close> take those of every script.\<close>

definition digit :: "date_env \<Rightarrow> nat \<Rightarrow> nat option" where
  "digit D c = (if c < 128 then if ascii_digit c then Some (c - 48) else None else de_digit D c)"

definition is_digit :: "date_env \<Rightarrow> nat \<Rightarrow> bool" where
  "is_digit D c \<longleftrightarrow> digit D c \<noteq> None"

definition number :: "date_env \<Rightarrow> pystr \<Rightarrow> nat" where
  "number D s = foldl (\<lambda>n c. n * 10 + the (digit D c)) 0 s"

definition digits_between :: "date_env \<Rightarrow> nat \<Rightarrow> nat \<Rightarrow> pystr \<Rightarrow> bool" where
  "digits_between D low high s \<longleftrightarrow> low \<le> length s \<and> length s \<le> high \<and> list_all (is_digit D) s"

text \<open>A number of exactly so many digits and the rest of the text.\<close>

definition fixed :: "date_env \<Rightarrow> nat \<Rightarrow> pystr \<Rightarrow> (nat \<times> pystr) option" where
  "fixed D k s = (if digits_between D k k (take k s) then Some (number D (take k s), drop k s) else None)"

definition expect :: "nat list \<Rightarrow> pystr \<Rightarrow> (nat \<times> pystr) option" where
  "expect cs s = (case s of c # r \<Rightarrow> if c \<in> set cs then Some (c, r) else None | [] \<Rightarrow> None)"

datatype zone = NoZone | Zulu | Offset bool nat nat

record iso_time =
  it_hour :: nat
  it_minute :: nat
  it_second :: nat
  it_milliseconds :: nat
  it_zone :: zone

definition read_zone :: "date_env \<Rightarrow> pystr \<Rightarrow> zone option" where
  "read_zone D s =
     (case s of
        [] \<Rightarrow> Some NoZone
      | c # r \<Rightarrow>
          if c = 90 \<or> c = 122 then if r = [] then Some Zulu else None
          else if c = 43 \<or> c = 45 then
            Option.bind (fixed D 2 r) (\<lambda>(hour, r1).
            Option.bind (fixed D 2 (case expect [58] r1 of Some (_, r2) \<Rightarrow> r2 | None \<Rightarrow> r1)) (\<lambda>(minute, r3).
              if r3 = [] then Some (Offset (c = 43) hour minute) else None))
          else None)"

text \<open>Seconds with a fraction, both optional; the fraction counts to its third digit.\<close>

definition read_fraction :: "date_env \<Rightarrow> pystr \<Rightarrow> (nat \<times> pystr) option" where
  "read_fraction D s =
     (case expect [46] s of
        None \<Rightarrow> Some (0, s)
      | Some (_, r) \<Rightarrow>
          (let ds = takeWhile (is_digit D) r in
           if ds = [] then None else Some (number D (take 3 (ds @ lit ''000'')), dropWhile (is_digit D) r)))"

definition read_seconds :: "date_env \<Rightarrow> pystr \<Rightarrow> (nat \<times> nat \<times> pystr) option" where
  "read_seconds D s =
     (case expect [58] s of
        None \<Rightarrow> Some (0, 0, s)
      | Some (_, r) \<Rightarrow>
          Option.bind (fixed D 2 r) (\<lambda>(second, r1).
          Option.bind (read_fraction D r1) (\<lambda>(ms, r2). Some (second, ms, r2))))"

definition read_time :: "date_env \<Rightarrow> pystr \<Rightarrow> iso_time option" where
  "read_time D s =
     Option.bind (fixed D 2 s) (\<lambda>(hour, r1).
     Option.bind (expect [58] r1) (\<lambda>(_, r2).
     Option.bind (fixed D 2 r2) (\<lambda>(minute, r3).
     Option.bind (read_seconds D r3) (\<lambda>(second, ms, r4).
     Option.bind (read_zone D r4) (\<lambda>zone.
       Some \<lparr>it_hour = hour, it_minute = minute, it_second = second, it_milliseconds = ms, it_zone = zone\<rparr>)))))"

text \<open>\<^verbatim>\<open>_JS_ISO_DATE.fullmatch\<close>.\<close>

definition iso_match :: "date_env \<Rightarrow> pystr \<Rightarrow> (nat \<times> nat \<times> nat \<times> iso_time option) option" where
  "iso_match D s =
     Option.bind (fixed D 4 s) (\<lambda>(year, r1).
     Option.bind (expect [45] r1) (\<lambda>(_, r2).
     Option.bind (fixed D 2 r2) (\<lambda>(month, r3).
     Option.bind (expect [45] r3) (\<lambda>(_, r4).
     Option.bind (fixed D 2 r4) (\<lambda>(day, r5).
       if r5 = [] then Some (year, month, day, None)
       else Option.bind (expect [84, 116, 32] r5) (\<lambda>(_, r6).
            Option.bind (read_time D r6) (\<lambda>time. Some (year, month, day, Some time))))))))"

definition bad_date :: exn where
  "bad_date = ValueError (lit ''invalid JavaScript date'')"

definition time_ok :: "iso_time \<Rightarrow> bool" where
  "time_ok t \<longleftrightarrow> it_minute t \<le> 59 \<and> it_second t \<le> 59 \<and> it_hour t \<le> 24
     \<and> (it_hour t = 24 \<longrightarrow> it_minute t = 0 \<and> it_second t = 0 \<and> it_milliseconds t = 0)"

definition time_ms :: "iso_time \<Rightarrow> int" where
  "time_ms t = ((int (it_hour t) * 60 + int (it_minute t)) * 60 + int (it_second t)) * 1000 + int (it_milliseconds t)"

definition zoned :: "date_env \<Rightarrow> iso_time option \<Rightarrow> int \<Rightarrow> exn + int" where
  "zoned D time parsed =
     (case map_option it_zone time of
        None \<Rightarrow> Inr parsed
      | Some Zulu \<Rightarrow> Inr parsed
      | Some NoZone \<Rightarrow> de_local D parsed
      | Some (Offset east hour minute) \<Rightarrow>
          if 23 < hour \<or> 59 < minute then Inl bad_date
          else in_datetime_range (parsed - (if east then 1 else - 1) * (int hour * 60 + int minute) * 60000))"

definition iso_value :: "date_env \<Rightarrow> nat \<Rightarrow> nat \<Rightarrow> nat \<Rightarrow> iso_time option \<Rightarrow> exn + int" where
  "iso_value D year month day time =
     (if \<not> (1 \<le> month \<and> month \<le> 12) \<or> \<not> (1 \<le> day \<and> day \<le> 31) then Inl bad_date
      else if \<not> (case time of None \<Rightarrow> True | Some t \<Rightarrow> time_ok t) then Inl bad_date
      else if year = 0 then (if month = 1 \<and> day = 1 \<and> time = None then Inr DATETIME_MIN else Inl bad_date)
      else bindE (first_of_month year month) (\<lambda>start.
           bindE (in_datetime_range (start + (int day - 1) * DAY_MS + (case time of None \<Rightarrow> 0 | Some t \<Rightarrow> time_ms t)))
             (zoned D time)))"

definition js_iso_date :: "date_env \<Rightarrow> pystr \<Rightarrow> exn + int option" where
  "js_iso_date D v =
     (case iso_match D v of
        None \<Rightarrow> Inr None
      | Some (year, month, day, time) \<Rightarrow> bindE (iso_value D year month day time) (\<lambda>t. Inr (Some t)))"

section \<open>Older spellings\<close>

definition legacy_local_date :: "date_env \<Rightarrow> nat \<Rightarrow> nat \<Rightarrow> nat \<Rightarrow> exn + int" where
  "legacy_local_date D year month day =
     (if \<not> (1 \<le> month \<and> month \<le> 12) \<or> \<not> (1 \<le> day \<and> day \<le> 31) then Inl bad_date
      else bindE (first_of_month year month) (\<lambda>start.
           bindE (in_datetime_range (start + (int day - 1) * DAY_MS)) (de_local D)))"

text \<open>Three numbers of so many digits around a separator.\<close>

definition three_numbers :: "date_env \<Rightarrow> nat \<Rightarrow> nat \<times> nat \<Rightarrow> nat \<times> nat \<Rightarrow> nat \<times> nat \<Rightarrow> pystr \<Rightarrow> (nat \<times> nat \<times> nat) option" where
  "three_numbers D sep a b c v =
     (case py_split_on sep v of
        [x, y, z] \<Rightarrow>
          if digits_between D (fst a) (snd a) x \<and> digits_between D (fst b) (snd b) y \<and> digits_between D (fst c) (snd c) z
          then Some (number D x, number D y, number D z) else None
      | _ \<Rightarrow> None)"

definition legacy_ymd :: "date_env \<Rightarrow> pystr \<Rightarrow> (nat \<times> nat \<times> nat) option" where
  "legacy_ymd D v =
     (case List.map_filter (\<lambda>sep. three_numbers D sep (4, 4) (1, 2) (1, 2) v) [47, 46, 45] of x # _ \<Rightarrow> Some x | [] \<Rightarrow> None)"

definition JS_MONTHS :: "string list" where
  "JS_MONTHS = [''jan'', ''feb'', ''mar'', ''apr'', ''may'', ''jun'', ''jul'', ''aug'', ''sep'', ''oct'', ''nov'', ''dec'']"

definition month_word :: "pystr \<Rightarrow> bool" where
  "month_word m \<longleftrightarrow> length m = 3 \<and> list_all ascii_alpha m"

definition named_date :: "date_env \<Rightarrow> pystr \<Rightarrow> (nat \<times> pystr \<times> nat) option" where
  "named_date D v =
     (case py_split_on 32 v of
        [x, y, z] \<Rightarrow>
          if \<not> digits_between D 4 4 z then None
          else if digits_between D 1 2 x \<and> month_word y then Some (number D z, y, number D x)
          else if month_word x \<and> digits_between D 1 2 y then Some (number D z, x, number D y)
          else None
      | _ \<Rightarrow> None)"

definition named_month :: "pystr \<Rightarrow> nat option" where
  "named_month m = map_of (zip (map lit JS_MONTHS) [1..<13]) (ascii_lower m)"

definition utc_month :: "nat \<Rightarrow> nat \<Rightarrow> exn + int option" where
  "utc_month year month = bindE (first_of_month year month) (\<lambda>t. Inr (Some t))"

definition js_legacy_date :: "date_env \<Rightarrow> pystr \<Rightarrow> exn + int option" where
  "js_legacy_date D v =
     (let local_date = (\<lambda>year month day. bindE (legacy_local_date D year month day) (\<lambda>t. Inr (Some t))) in
      case legacy_ymd D v of Some (year, month, day) \<Rightarrow> local_date year month day
      | None \<Rightarrow>
      (case three_numbers D 47 (1, 2) (1, 2) (4, 4) v of Some (month, day, year) \<Rightarrow> local_date year month day
       | None \<Rightarrow>
       (case three_numbers D 45 (1, 2) (1, 2) (2, 2) v of
          Some (month, day, short_year) \<Rightarrow>
            local_date (if short_year \<le> 49 then 2000 + short_year else 1900 + short_year) month day
        | None \<Rightarrow>
        (case py_split_on 45 v of
           [y] \<Rightarrow> if digits_between D 4 4 y then utc_month (number D y) 1
                  else (case named_date D v of
                          None \<Rightarrow> Inr None
                        | Some (year, name, day) \<Rightarrow>
                            (case named_month name of None \<Rightarrow> Inl bad_date | Some month \<Rightarrow> local_date year month day))
         | [y, m] \<Rightarrow> if digits_between D 4 4 y \<and> digits_between D 2 2 m then utc_month (number D y) (number D m) else Inr None
         | _ \<Rightarrow> Inr None))))"

section \<open>\<^verbatim>\<open>_parse_date\<close>\<close>

definition mail_date :: "date_env \<Rightarrow> pystr \<Rightarrow> exn + int" where
  "mail_date D v = bindE (de_mail D v) (\<lambda>(aware, t). if aware then in_datetime_range t else de_local D t)"

definition read_date :: "date_env \<Rightarrow> pystr \<Rightarrow> exn + int" where
  "read_date D v =
     bindE (js_iso_date D v) (\<lambda>parsed. case parsed of Some t \<Rightarrow> Inr t | None \<Rightarrow>
     bindE (js_legacy_date D v) (\<lambda>parsed. case parsed of Some t \<Rightarrow> Inr t | None \<Rightarrow> mail_date D v))"

section \<open>Numbers are read back\<close>

lemma digit_ascii: "ascii_digit c \<Longrightarrow> digit D c = Some (c - 48)"
  by (simp add: digit_def ascii_digit_def)

lemma number_ascii:
  assumes "list_all ascii_digit s"
  shows "number D s = foldl (\<lambda>n c. n * 10 + (c - 48)) 0 s"
proof -
  have "foldl (\<lambda>n c. n * 10 + the (digit D c)) k s = foldl (\<lambda>n c. n * 10 + (c - 48)) k s" for k
    using assms by (induction s arbitrary: k) (simp_all add: digit_ascii)
  then show ?thesis by (simp add: number_def)
qed

lemma nat_digits_length: "n < 10 ^ k \<Longrightarrow> 0 < k \<Longrightarrow> length (nat_digits n) \<le> k"
proof (induction k arbitrary: n)
  case (Suc k)
  show ?case
  proof (cases "n < 10")
    case False
    then have "length (nat_digits n) = Suc (length (nat_digits (n div 10)))" by (subst nat_digits.simps) simp
    moreover have "0 < k" using Suc.prems False by (cases k) auto
    moreover have "n div 10 < 10 ^ k" using Suc.prems by (simp add: less_mult_imp_div_less mult.commute)
    ultimately show ?thesis using Suc.IH by simp
  qed (subst nat_digits.simps, simp)
qed simp

lemma padded_digits: "list_all ascii_digit (padded k n)"
  using nat_digits_ascii [of n] by (auto simp: padded_def Let_def list_all_iff ascii_digit_def)

lemma padded_length: "n < 10 ^ k \<Longrightarrow> 0 < k \<Longrightarrow> length (padded k n) = k"
  using nat_digits_length by (simp add: padded_def Let_def)

lemma padded_number: "number D (padded k n) = n"
proof -
  have zeros: "foldl (\<lambda>n c. n * 10 + (c - 48)) 0 (replicate m 48) = (0 :: nat)" for m
    by (induction m) simp_all
  show ?thesis using nat_digits_value [of n]
    by (simp add: number_ascii [OF padded_digits]) (simp add: padded_def Let_def zeros)
qed

lemma is_digit_ascii: "list_all ascii_digit s \<Longrightarrow> list_all (is_digit D) s"
  by (auto simp: list_all_iff is_digit_def digit_ascii)

lemma fixed_padded:
  assumes "n < 10 ^ k" "0 < k"
  shows "fixed D k (padded k n @ r) = Some (n, r)"
  using padded_length [OF assms] padded_number [of D k n] is_digit_ascii [OF padded_digits, of D k n]
  by (simp add: fixed_def digits_between_def)

lemma read_fraction_padded:
  assumes "n < 1000"
  shows "read_fraction D ([46] @ padded 3 n @ [90]) = Some (n, [90])"
proof -
  let ?p = "padded 3 n"
  have l: "length ?p = 3" using padded_length [of n 3] assms by simp
  have d: "list_all (is_digit D) ?p" using is_digit_ascii [OF padded_digits] .
  have z: "\<not> is_digit D 90" by (simp add: is_digit_def digit_def ascii_digit_def)
  have "takeWhile (is_digit D) (?p @ [90]) = ?p" "dropWhile (is_digit D) (?p @ [90]) = [90]"
    using d z by (simp_all add: takeWhile_append2 dropWhile_append2 list_all_iff)
  moreover have "?p \<noteq> []" "take 3 (?p @ lit ''000'') = ?p" using l by auto
  ultimately show ?thesis by (simp add: read_fraction_def expect_def Let_def padded_number)
qed

section \<open>The calendar is read back\<close>

lemma last_below:
  fixes f :: "nat \<Rightarrow> int"
  assumes "\<And>i j. 1 \<le> i \<Longrightarrow> i \<le> j \<Longrightarrow> j \<le> k \<Longrightarrow> f i \<le> f j" "f 1 \<le> n" "1 \<le> k"
  shows "let m = length (filter (\<lambda>i. f i \<le> n) [1..<Suc k]) in 1 \<le> m \<and> m \<le> k \<and> f m \<le> n \<and> (m < k \<longrightarrow> n < f (Suc m))"
  using assms
proof (induction k)
  case (Suc k)
  show ?case
  proof (cases "k = 0")
    case False
    define m where "m = length (filter (\<lambda>i. f i \<le> n) [1..<Suc k])"
    have IH: "1 \<le> m" "m \<le> k" "f m \<le> n" "m < k \<longrightarrow> n < f (Suc m)"
      using Suc.IH [OF _ Suc.prems(2)] Suc.prems(1) False by (auto simp: Let_def m_def)
    have top: "length (filter (\<lambda>i. f i \<le> n) [1..<Suc (Suc k)]) = (if f (Suc k) \<le> n then Suc m else m)"
      using False by (simp add: m_def)
    have below: "f (Suc m) \<le> f (Suc k)" using Suc.prems(1) [of "Suc m" "Suc k"] IH(2) by simp
    show ?thesis
    proof (cases "f (Suc k) \<le> n")
      case True
      then have "\<not> m < k" using below IH(4) by linarith
      then have "m = k" using IH(2) by linarith
      with True show ?thesis unfolding Let_def top by simp
    next
      case False
      then have "m < Suc k \<longrightarrow> n < f (Suc m)" using IH by (cases "m = k") auto
      with False IH show ?thesis unfolding Let_def top by simp
    qed
  qed (use Suc.prems in simp)
qed simp

lemma month_table:
  "list_all (\<lambda>leap. list_all (\<lambda>i. list_all (\<lambda>j. i \<le> j \<longrightarrow> days_before_month leap i \<le> days_before_month leap j) [1..<13]) [1..<13]
     \<and> list_all (\<lambda>i. days_before_month leap (Suc i) \<le> days_before_month leap i + 31) [1..<12]) [False, True]"
  by code_simp

lemma month_of_day_ok:
  assumes "0 \<le> n" "n < (if leap then 366 else 365)"
  shows "1 \<le> month_of_day leap n \<and> month_of_day leap n \<le> 12 \<and> days_before_month leap (month_of_day leap n) \<le> n
    \<and> n < days_before_month leap (month_of_day leap n) + 31"
proof -
  let ?f = "days_before_month leap"
  have mono: "?f i \<le> ?f j" if "1 \<le> i" "i \<le> j" "j \<le> 12" for i j
    using month_table that by (cases leap) (auto simp: list_all_iff)
  have step: "?f (Suc i) \<le> ?f i + 31" if "1 \<le> i" "i < 12" for i
    using month_table that by (cases leap) (auto simp: list_all_iff)
  have ends: "?f 1 = 0" "?f 12 + 31 = (if leap then 366 else 365)"
    by (simp_all add: days_before_month_def DAYS_BEFORE_MONTH_def)
  have m: "1 \<le> month_of_day leap n" "month_of_day leap n \<le> 12" "?f (month_of_day leap n) \<le> n"
    "month_of_day leap n < 12 \<longrightarrow> n < ?f (Suc (month_of_day leap n))"
    using last_below [of 12 ?f n] mono assms(1) ends(1) by (auto simp: month_of_day_def Let_def)
  moreover have "n < ?f (month_of_day leap n) + 31"
    using m step [of "month_of_day leap n"] ends(2) assms(2) by (cases "month_of_day leap n = 12") auto
  ultimately show ?thesis by blast
qed


lemma quotient_remainder:
  fixes q r k :: int
  assumes "n = q * k + r" "0 \<le> r" "r < k"
  shows "n div k = q" and "n mod k = r"
  using assms by simp_all

lemma successor_multiple:
  fixes q r k :: int
  assumes "n = q * k + r" "0 \<le> r" "r < k"
  shows "(n + 1) mod k = 0 \<longleftrightarrow> r = k - 1"
proof (cases "r = k - 1")
  case True
  then have "n + 1 = (q + 1) * k" using assms(1) by (simp add: algebra_simps)
  with True show ?thesis by simp
next
  case False
  then have "(n + 1) mod k = r + 1" using quotient_remainder(2) [of "n + 1" q k "r + 1"] assms by simp
  with False assms show ?thesis by simp
qed

text \<open>The year is found from its cycles: so many whole years of 400, of 100, of 4 and of one.\<close>

lemma year_of_cycles:
  fixes a b c d :: int
  assumes "0 \<le> b" "b \<le> 3" "0 \<le> c" "c \<le> 24" "0 \<le> d" "d \<le> 3" and Y: "Y = a * 400 + b * 100 + c * 4 + d"
  shows "days_before_year (Y + 1) = 146097 * a + 36524 * b + 1461 * c + 365 * d"
    and "leap_year (Y + 1) \<longleftrightarrow> d = 3 \<and> (c \<noteq> 24 \<or> b = 3)"
proof -
  have q4: "Y = (a * 100 + b * 25 + c) * 4 + d" "0 \<le> d" "d < 4" using assms by simp_all
  have q100: "Y = (a * 4 + b) * 100 + (c * 4 + d)" "0 \<le> c * 4 + d" "c * 4 + d < 100" using assms by simp_all
  have q400: "Y = a * 400 + (b * 100 + c * 4 + d)" "0 \<le> b * 100 + c * 4 + d" "b * 100 + c * 4 + d < 400"
    using assms by simp_all
  note q = quotient_remainder(1) [OF q4] quotient_remainder(1) [OF q100] quotient_remainder(1) [OF q400]
  show "days_before_year (Y + 1) = 146097 * a + 36524 * b + 1461 * c + 365 * d"
    by (simp add: days_before_year_def q) (simp add: Y)
  have "(Y + 1) mod 4 = 0 \<longleftrightarrow> d = 3" using successor_multiple [OF q4] by simp
  moreover have "c * 4 + d = 100 - 1 \<longleftrightarrow> d = 3 \<and> c = 24" "b * 100 + c * 4 + d = 400 - 1 \<longleftrightarrow> d = 3 \<and> c = 24 \<and> b = 3"
    using assms(1-6) by (simp_all, safe) linarith+
  ultimately have "(Y + 1) mod 4 = 0 \<longleftrightarrow> d = 3" "(Y + 1) mod 100 = 0 \<longleftrightarrow> d = 3 \<and> c = 24"
    "(Y + 1) mod 400 = 0 \<longleftrightarrow> d = 3 \<and> c = 24 \<and> b = 3"
    using successor_multiple [OF q100] successor_multiple [OF q400] by simp_all
  then show "leap_year (Y + 1) \<longleftrightarrow> d = 3 \<and> (c \<noteq> 24 \<or> b = 3)" by (auto simp: leap_year_def)
qed

definition day_of :: "int \<times> nat \<times> int \<Rightarrow> int \<Rightarrow> bool" where
  "day_of ymd n = (case ymd of (y, m, d) \<Rightarrow>
     1 \<le> y \<and> y \<le> 9999 \<and> 1 \<le> m \<and> m \<le> 12 \<and> 1 \<le> d \<and> d \<le> 31 \<and> month_start y m + d - 1 = n)"

lemma day_in_year:
  fixes a b c d :: int
  assumes c: "0 \<le> b" "b \<le> 3" "0 \<le> c" "c \<le> 24" "0 \<le> d" "d \<le> 3" and Y: "Y = a * 400 + b * 100 + c * 4 + d"
    and leap: "leap \<longleftrightarrow> d = 3 \<and> (c \<noteq> 24 \<or> b = 3)" and r: "0 \<le> r" "r < (if leap then 366 else 365)"
    and range: "0 \<le> Y" "Y \<le> 9998"
  shows "day_of (Y + 1, month_of_day leap r, r - days_before_month leap (month_of_day leap r) + 1)
    (146097 * a + 36524 * b + 1461 * c + 365 * d + r + 1)"
  using month_of_day_ok [OF r] range leap
  by (simp add: day_of_def month_start_def year_of_cycles [OF c Y])

lemma last_day:
  fixes a b c :: int
  assumes c: "0 \<le> b" "b \<le> 3" "0 \<le> c" "c \<le> 24" and Y: "Y = a * 400 + b * 100 + c * 4 + 3"
    and leap: "c \<noteq> 24 \<or> b = 3" and range: "0 \<le> Y" "Y \<le> 9998"
  shows "day_of (Y + 1, 12, 31) (146097 * a + 36524 * b + 1461 * c + 1095 + 366)"
proof -
  have "leap_year (Y + 1)" "days_before_year (Y + 1) = 146097 * a + 36524 * b + 1461 * c + 365 * 3"
    using year_of_cycles [OF c, of 3 Y a] Y leap by simp_all
  then show ?thesis
    using range by (simp add: day_of_def month_start_def days_before_month_def DAYS_BEFORE_MONTH_def)
qed

lemma date_of_ordinal_ok:
  assumes "1 \<le> ordinal" "ordinal \<le> 3652059"
  shows "day_of (date_of_ordinal ordinal) ordinal"
proof -
  define n where "n = ordinal - 1"
  define a where "a = n div 146097"
  define r400 where "r400 = n mod 146097"
  define b where "b = r400 div 36524"
  define r100 where "r100 = r400 mod 36524"
  define c where "c = r100 div 1461"
  define r4 where "r4 = r100 mod 1461"
  define d where "d = r4 div 365"
  define r where "r = r4 mod 365"
  note cycles = a_def r400_def b_def r100_def c_def r4_def d_def r_def
  have n: "0 \<le> n" "n \<le> 3652058" "ordinal = n + 1" using assms by (simp_all add: n_def)
  have split: "n = 146097 * a + r400" "r400 = 36524 * b + r100" "r100 = 1461 * c + r4" "r4 = 365 * d + r"
    by (simp_all add: cycles)
  have bounds: "0 \<le> r400" "r400 \<le> 146096" "0 \<le> r100" "r100 \<le> 36523" "0 \<le> r4" "r4 \<le> 1460" "0 \<le> r" "r \<le> 364"
    by (simp_all add: r400_def r100_def r4_def r_def)
  have a: "0 \<le> a" "a \<le> 24" using n split(1) bounds(1,2) by linarith+
  have b: "0 \<le> b" "b \<le> 4" using split(2) bounds(1-4) by linarith+
  have c: "0 \<le> c" "c \<le> 24" using split(3) bounds(3-6) by linarith+
  have d: "0 \<le> d" "d \<le> 4" using split(4) bounds(5-8) by linarith+
  have dv: "date_of_ordinal ordinal =
     (if d = 4 \<or> b = 4 then (a * 400 + 1 + b * 100 + c * 4 + d - 1, 12, 31)
      else let leap = (d = 3 \<and> (c \<noteq> 24 \<or> b = 3)); month = month_of_day leap r
           in (a * 400 + 1 + b * 100 + c * 4 + d, month, r - days_before_month leap month + 1))"
    unfolding date_of_ordinal_def Let_def cycles n_def by (rule refl)
  consider (cycle) "b = 4" | (four) "b \<noteq> 4" "d = 4" | (year) "b \<noteq> 4" "d \<noteq> 4" by blast
  then show ?thesis
  proof cases
    case cycle
    then have "r100 = 0" using split(2) bounds by linarith
    then have z: "c = 0" "r4 = 0" "d = 0" "r = 0" by (simp_all add: c_def r4_def d_def r_def)
    have "a \<le> 23" using n split cycle z by linarith
    then show ?thesis
      using last_day [of 3 24 "a * 400 + 3 * 100 + 24 * 4 + 3" a] a cycle z n(3) split
      unfolding dv by (simp add: algebra_simps)
  next
    case four
    then have r: "r = 0" using split bounds by linarith
    have "c \<le> 23" using split bounds four r c by linarith
    then show ?thesis
      using last_day [of b c "a * 400 + b * 100 + c * 4 + 3" a] a b c four r n split
      unfolding dv by (simp add: algebra_simps)
  next
    case year
    have le: "a * 400 + b * 100 + c * 4 + d \<le> 9998"
    proof (rule ccontr)
      assume "\<not> ?thesis"
      then have "a = 24" "b = 3" "c = 24" "d = 3" using a b c d year by linarith+
      then show False using n split bounds by linarith
    qed
    have "r < (if d = 3 \<and> (c \<noteq> 24 \<or> b = 3) then 366 else 365)" using bounds by simp
    from day_in_year [OF _ _ c _ _ refl refl bounds(7) this _ le] a b c d year
    show ?thesis unfolding dv by (simp add: Let_def n split algebra_simps)
  qed
qed

section \<open>Dates are read back\<close>

lemma iso_time_read:
  assumes "h < 100" "m < 100" "s < 100" "ms < 1000"
  shows "read_time D (padded 2 h @ [58] @ padded 2 m @ [58] @ padded 2 s @ [46] @ padded 3 ms @ [90])
    = Some \<lparr>it_hour = h, it_minute = m, it_second = s, it_milliseconds = ms, it_zone = Zulu\<rparr>"
  using assms read_fraction_padded [of ms D]
  by (simp add: read_time_def read_seconds_def fixed_padded expect_def read_zone_def)

lemma iso_match_written:
  assumes "y < 10000" "mo < 100" "dd < 100" "h < 100" "m < 100" "s < 100" "ms < 1000"
  shows "iso_match D (padded 4 y @ [45] @ padded 2 mo @ [45] @ padded 2 dd @ [84]
      @ padded 2 h @ [58] @ padded 2 m @ [58] @ padded 2 s @ [46] @ padded 3 ms @ [90])
    = Some (y, mo, dd, Some \<lparr>it_hour = h, it_minute = m, it_second = s, it_milliseconds = ms, it_zone = Zulu\<rparr>)"
  using assms iso_time_read [of h m s ms D]
  by (simp add: iso_match_def fixed_padded expect_def)

lemma clock_of_ms:
  fixes ms :: nat
  shows "((ms div 3600000 * 60 + ms div 60000 mod 60) * 60 + ms div 1000 mod 60) * 1000 + ms mod 1000 = ms"
proof -
  have "ms div 60000 = ms div 1000 div 60" "ms div 3600000 = ms div 1000 div 60 div 60"
    by (simp_all add: div_mult2_eq [symmetric])
  then show ?thesis by (metis div_mult_mod_eq)
qed

lemma iso_value_day:
  assumes "day_of (y, m, d) ordinal" "time_ok time" "it_zone time = Zulu"
    and t: "t = (ordinal - EPOCH_ORDINAL) * DAY_MS + time_ms time" "DATETIME_MIN \<le> t" "t \<le> DATETIME_MAX"
  shows "iso_value D (nat y) m (nat d) (Some time) = Inr t"
proof -
  have d: "1 \<le> y" "y \<le> 9999" "1 \<le> m" "m \<le> 12" "1 \<le> d" "d \<le> 31" "1 \<le> nat d" "nat d \<le> 31" "month_start y m = ordinal - d + 1"
    using assms(1) by (simp_all add: day_of_def) linarith+
  have "first_of_month (nat y) m = Inr ((ordinal - d + 1 - EPOCH_ORDINAL) * DAY_MS)"
    using d by (simp add: first_of_month_def) linarith
  moreover have "(ordinal - d + 1 - EPOCH_ORDINAL) * DAY_MS + (d - 1) * DAY_MS + time_ms time = t"
    by (simp add: t(1) DAY_MS_def)
  ultimately show ?thesis
    using d assms(2,3) t(2,3) by (simp add: iso_value_def in_datetime_range_def zoned_def)
qed



end
