(* ===== verification/Admin_Inputs.thy ===== *)
theory Admin_Inputs
  imports Js_Dates Oauth_Routes
begin

text \<open>
  What the administration routes accept: the query and body models of \<^verbatim>\<open>api/routes/admin.py\<close> and
  \<^verbatim>\<open>_coerce_js_integer\<close>, with the rounding of \<^verbatim>\<open>float\<close> to 53 binary digits written out, ties to even, down to the
  subnormal numbers and up to the overflow at 2 to the 1024. \<^verbatim>\<open>int\<close> of a double with a fraction is refused before.
\<close>

section \<open>Doubles\<close>

fun bit_length :: "nat \<Rightarrow> nat" where
  "bit_length n = (if n = 0 then 0 else Suc (bit_length (n div 2)))"

declare bit_length.simps [simp del]

text \<open>The quotient rounded to the nearest integer, a tie to the even one.\<close>

definition half_even :: "nat \<Rightarrow> nat \<Rightarrow> nat" where
  "half_even p q = (let d = p div q; r = p mod q in if q < 2 * r \<or> (2 * r = q \<and> odd d) then d + 1 else d)"

text \<open>The double nearest to a quotient, as a number of 53 binary digits and an exponent.\<close>

definition nearest_double :: "nat \<Rightarrow> nat \<Rightarrow> nat \<times> int" where
  "nearest_double p q =
     (let e = int (bit_length p) - int (bit_length q);
          below = (if 0 \<le> e then p < q * 2 ^ nat e else p * 2 ^ nat (- e) < q);
          k = max (if below then e - 53 else e - 52) (- 1074)
      in (if 0 \<le> k then half_even p (q * 2 ^ nat k) else half_even (p * 2 ^ nat (- k)) q, k))"

text \<open>The integer a double is, nothing for a fraction and for an infinity.\<close>

definition whole_double :: "nat \<times> int \<Rightarrow> nat option" where
  "whole_double d =
     (case d of (m, k) \<Rightarrow>
        if 0 \<le> k then if m * 2 ^ nat k < 2 ^ 1024 then Some (m * 2 ^ nat k) else None
        else if m mod 2 ^ nat (- k) = 0 then Some (m div 2 ^ nat (- k)) else None)"

definition float_integer :: "nat \<Rightarrow> nat \<Rightarrow> nat option" where
  "float_integer p q = whole_double (nearest_double p q)"

section \<open>Coerced integers\<close>

definition digit_value :: "date_env \<Rightarrow> nat \<Rightarrow> nat option" where
  "digit_value D c =
     (if ascii_alpha c then Some ((if c < 97 then c - 65 else c - 97) + 10) else digit D c)"

definition based_digit :: "date_env \<Rightarrow> nat \<Rightarrow> nat \<Rightarrow> bool" where
  "based_digit D base c \<longleftrightarrow> (case digit_value D c of Some v \<Rightarrow> v < base | None \<Rightarrow> False)"

text \<open>\<^verbatim>\<open>int(unsigned, 0)\<close> after the prefix: groups of digits between single underscores, one of which may lead.\<close>

definition based_integer :: "date_env \<Rightarrow> nat \<Rightarrow> pystr \<Rightarrow> nat option" where
  "based_integer D base s =
     (let groups = py_split_on 95 (case s of c # r \<Rightarrow> if c = 95 then r else s | [] \<Rightarrow> s) in
      if list_all (\<lambda>g. g \<noteq> [] \<and> list_all (based_digit D base) g) groups
      then Some (foldl (\<lambda>n c. n * base + the (digit_value D c)) 0 (concat groups)) else None)"

definition base_of :: "pystr \<Rightarrow> nat option" where
  "base_of unsigned =
     (if is_prefix (lit ''0x'') unsigned then Some 16 else if is_prefix (lit ''0b'') unsigned then Some 2
      else if is_prefix (lit ''0o'') unsigned then Some 8 else None)"

text \<open>A leading sign and whether it is a minus.\<close>

definition signed :: "pystr \<Rightarrow> bool \<times> pystr" where
  "signed s = (case s of c # r \<Rightarrow> if c = 45 then (True, r) else if c = 43 then (False, r) else (False, s) | [] \<Rightarrow> (False, s))"

definition exponent_of :: "date_env \<Rightarrow> pystr \<Rightarrow> int option" where
  "exponent_of D s =
     (case s of
        [] \<Rightarrow> Some 0
      | c # r \<Rightarrow>
          if c \<noteq> 101 \<and> c \<noteq> 69 then None
          else (case signed r of (negative, ds) \<Rightarrow>
                  if ds \<noteq> [] \<and> list_all (is_digit D) ds
                  then Some ((if negative then - 1 else 1) * int (number D ds)) else None))"

text \<open>\<^verbatim>\<open>_JS_DECIMAL_NUMBER.fullmatch\<close>: the sign, the digits as one number, and the power of ten it is scaled by.\<close>

definition decimal_number :: "date_env \<Rightarrow> pystr \<Rightarrow> (bool \<times> nat \<times> int) option" where
  "decimal_number D s =
     (case signed s of (negative, s1) \<Rightarrow>
        let whole = takeWhile (is_digit D) s1; s2 = dropWhile (is_digit D) s1;
            pointed = (s2 \<noteq> [] \<and> hd s2 = 46);
            fraction = (if pointed then takeWhile (is_digit D) (tl s2) else []);
            s3 = (if pointed then dropWhile (is_digit D) (tl s2) else s2)
        in if whole = [] \<and> fraction = [] then None
           else map_option (\<lambda>e. (negative, number D (whole @ fraction), e - int (length fraction))) (exponent_of D s3))"

definition decimal_integer :: "date_env \<Rightarrow> pystr \<Rightarrow> int option" where
  "decimal_integer D s =
     (case decimal_number D s of
        None \<Rightarrow> None
      | Some (negative, mantissa, scale) \<Rightarrow>
          map_option (\<lambda>n. (if negative then - 1 else 1) * int n)
            (if 0 \<le> scale then float_integer (mantissa * 10 ^ nat scale) 1 else float_integer mantissa (10 ^ nat (- scale))))"

definition coerce_js_integer :: "date_env \<Rightarrow> pystr \<Rightarrow> int option" where
  "coerce_js_integer D v =
     (let normalized = py_strip v; unsigned = ascii_lower normalized in
      if normalized = [] then Some 0
      else (case base_of unsigned of
              Some base \<Rightarrow> Option.bind (based_integer D base (drop 2 unsigned)) (\<lambda>n. map_option int (float_integer n 1))
            | None \<Rightarrow> decimal_integer D normalized))"

section \<open>Queries\<close>

text \<open>A parameter that is repeated counts with its last value when the model reads it; the handlers refuse it.\<close>

definition query_value :: "service_request \<Rightarrow> string \<Rightarrow> pystr option" where
  "query_value request name = map_of (rev (sq_query request)) (lit name)"

definition repeated_query :: "service_request \<Rightarrow> string list \<Rightarrow> bool" where
  "repeated_query request names \<longleftrightarrow> list_ex (\<lambda>n. 1 < length (query_list request n)) names"

definition coerced_query :: "date_env \<Rightarrow> service_request \<Rightarrow> string \<Rightarrow> int \<Rightarrow> int option" where
  "coerced_query D request name fallback =
     (case query_value request name of None \<Rightarrow> Some fallback | Some v \<Rightarrow> coerce_js_integer D v)"

text \<open>\<^verbatim>\<open>_QueryModel\<close>: the page and its size.\<close>

definition QueryModel :: "date_env \<Rightarrow> service_request \<Rightarrow> (int \<times> int) option" where
  "QueryModel D request =
     Option.bind (coerced_query D request ''page'' 1) (\<lambda>page.
     Option.bind (coerced_query D request ''pageSize'' 25) (\<lambda>page_size.
       if 1 \<le> page \<and> 1 \<le> page_size \<and> page_size \<le> 100 then Some (page, page_size) else None))"

definition trimmed_non_empty :: "pystr \<Rightarrow> pystr option" where
  "trimmed_non_empty v = (if within 1 None (py_strip v) then Some (py_strip v) else None)"

definition trimmed_query :: "service_request \<Rightarrow> string \<Rightarrow> pystr option option" where
  "trimmed_query request name =
     (case query_value request name of None \<Rightarrow> Some None | Some v \<Rightarrow> map_option Some (trimmed_non_empty v))"

definition literal_query :: "string list \<Rightarrow> service_request \<Rightarrow> string \<Rightarrow> pystr option option" where
  "literal_query allowed request name =
     (case query_value request name of None \<Rightarrow> Some None | Some v \<Rightarrow> if v \<in> set (map lit allowed) then Some (Some v) else None)"

definition UserStatusValue :: "string list" where
  "UserStatusValue = [''PENDING_EMAIL_VERIFICATION'', ''ACTIVE'', ''SUSPENDED'', ''DELETED'']"

definition AuditOutcome :: "string list" where
  "AuditOutcome = [''request'', ''success'', ''failure'']"

record UserListQuery =
  ulq_page :: int
  ulq_page_size :: int
  ulq_status :: "pystr option"
  ulq_email :: "pystr option"
  ulq_role :: "pystr option"

definition read_UserListQuery :: "date_env \<Rightarrow> service_request \<Rightarrow> UserListQuery option" where
  "read_UserListQuery D request =
     Option.bind (QueryModel D request) (\<lambda>(page, page_size).
     Option.bind (literal_query UserStatusValue request ''status'') (\<lambda>status.
     Option.bind (trimmed_query request ''email'') (\<lambda>email.
     Option.bind (trimmed_query request ''role'') (\<lambda>role.
       Some \<lparr>ulq_page = page, ulq_page_size = page_size, ulq_status = status, ulq_email = email, ulq_role = role\<rparr>))))"

record AuditLogQuery =
  alq_page :: int
  alq_page_size :: int
  alq_created_at_from :: "pystr option"
  alq_created_at_to :: "pystr option"
  alq_event_type :: "pystr option"
  alq_outcome :: "pystr option"
  alq_user_id :: "pystr option"
  alq_actor_user_id :: "pystr option"
  alq_target_user_id :: "pystr option"
  alq_reason_code :: "pystr option"

definition read_AuditLogQuery :: "date_env \<Rightarrow> service_request \<Rightarrow> AuditLogQuery option" where
  "read_AuditLogQuery D request =
     Option.bind (QueryModel D request) (\<lambda>(page, page_size).
     Option.bind (trimmed_query request ''createdAtFrom'') (\<lambda>created_at_from.
     Option.bind (trimmed_query request ''createdAtTo'') (\<lambda>created_at_to.
     Option.bind (trimmed_query request ''eventType'') (\<lambda>event_type.
     Option.bind (literal_query AuditOutcome request ''outcome'') (\<lambda>outcome.
     Option.bind (trimmed_query request ''userId'') (\<lambda>user_id.
     Option.bind (trimmed_query request ''actorUserId'') (\<lambda>actor_user_id.
     Option.bind (trimmed_query request ''targetUserId'') (\<lambda>target_user_id.
     Option.bind (trimmed_query request ''reasonCode'') (\<lambda>reason_code.
       Some \<lparr>alq_page = page, alq_page_size = page_size, alq_created_at_from = created_at_from,
             alq_created_at_to = created_at_to, alq_event_type = event_type, alq_outcome = outcome, alq_user_id = user_id,
             alq_actor_user_id = actor_user_id, alq_target_user_id = target_user_id, alq_reason_code = reason_code\<rparr>)))))))))"

section \<open>Bodies\<close>

definition trimmed_field :: "pydict \<Rightarrow> string \<Rightarrow> string option \<Rightarrow> pystr option" where
  "trimmed_field d name fallback =
     (case map_of d (lit name) of
        None \<Rightarrow> map_option lit fallback
      | Some (PStr v) \<Rightarrow> trimmed_non_empty v
      | _ \<Rightarrow> None)"

definition StatusBody :: "pydict \<Rightarrow> (pystr \<times> pystr) option" where
  "StatusBody d =
     Option.bind (str_field d ''status'') (\<lambda>status.
     Option.bind (trimmed_field d ''reasonCode'' (Some ''ADMIN_STATUS_CHANGE'')) (\<lambda>reason_code.
       if status \<in> set (map lit UserStatusValue) then Some (status, reason_code) else None))"

definition RoleBody :: "pydict \<Rightarrow> (pystr \<times> pystr \<times> pystr) option" where
  "RoleBody d =
     Option.bind (trimmed_field d ''serviceKey'' None) (\<lambda>service_key.
     Option.bind (trimmed_field d ''name'' None) (\<lambda>name.
     Option.bind (trimmed_field d ''reasonCode'' (Some ''ADMIN_ROLE_ASSIGN'')) (\<lambda>reason_code.
       Some (service_key, name, reason_code))))"

definition ReasonBody :: "pydict \<Rightarrow> pystr option" where
  "ReasonBody d = trimmed_field d ''reasonCode'' None"

section \<open>Plain numbers are read as they are\<close>

lemma bit_length_bounds: "0 < n \<Longrightarrow> 0 < bit_length n \<and> 2 ^ (bit_length n - 1) \<le> n \<and> n < 2 ^ bit_length n"
proof (induction n rule: bit_length.induct)
  case (1 n)
  then have s: "bit_length n = Suc (bit_length (n div 2))" by (subst bit_length.simps) simp
  show ?case
  proof (cases "n div 2 = 0")
    case True
    then have "n = 1" using "1.prems" by simp
    then show ?thesis by (simp add: bit_length.simps)
  next
    case False
    then have ih: "0 < bit_length (n div 2)" "2 ^ (bit_length (n div 2) - 1) \<le> n div 2" "n div 2 < 2 ^ bit_length (n div 2)"
      using "1.IH" "1.prems" by simp_all
    from ih(1) obtain b where b: "bit_length (n div 2) = Suc b" by (cases "bit_length (n div 2)") auto
    show ?thesis using ih(2,3) by (simp add: s b) linarith
  qed
qed

lemma half_even_one [simp]: "half_even p (Suc 0) = p"
  by (simp add: half_even_def)

lemma float_integer_exact:
  assumes "n < 2 ^ 53"
  shows "float_integer n 1 = Some n"
proof (cases "n = 0")
  case True
  then show ?thesis by (simp add: float_integer_def nearest_double_def whole_double_def half_even_def bit_length.simps Let_def)
next
  case False
  then obtain c where c: "bit_length n = Suc c" "2 ^ c \<le> n"
    using bit_length_bounds [of n] by (cases "bit_length n") auto
  have "c < 53"
  proof (rule ccontr)
    assume "\<not> c < 53"
    then have "(2 :: nat) ^ 53 \<le> 2 ^ c" by (intro power_increasing) simp_all
    with c(2) assms show False by linarith
  qed
  then have le: "c \<le> 52" by linarith
  then have k: "nat (52 - int c) = 52 - c" by linarith
  have one: "bit_length (Suc 0) = Suc 0" by (simp add: bit_length.simps)
  have near: "nearest_double n 1 = (n * 2 ^ (52 - c), int c - 52)"
    using c(2) le by (cases "c = 52") (simp_all add: nearest_double_def Let_def c(1) one k max_def)
  show ?thesis using assms le
    by (cases "c = 52") (simp_all add: float_integer_def near [unfolded One_nat_def] whole_double_def k)
qed

lemma digit_takeWhile: "list_all p s \<Longrightarrow> takeWhile p s = s" "list_all p s \<Longrightarrow> dropWhile p s = []"
  by (simp_all add: list_all_iff)

text \<open>The canonical digits of a number below 2 to the 53 are coerced to that number.\<close>

lemma coerce_digits:
  assumes "n < 2 ^ 53"
  shows "coerce_js_integer D (nat_digits n) = Some (int n)"
proof -
  let ?s = "nat_digits n"
  have digits: "list_all ascii_digit ?s" "?s \<noteq> []" using nat_digits_ascii [of n] by (auto simp: list_all_iff)
  then have hd: "ascii_digit (hd ?s)" by (cases ?s) auto
  have no_space: "ascii_digit c \<Longrightarrow> \<not> py_isspace c" for c by (auto simp: ascii_digit_def py_isspace_def)
  have "ascii_digit (last ?s)" using digits by (simp add: list_all_iff)
  with hd no_space have strip: "py_strip ?s = ?s" by (intro py_strip_id)
  have sign: "signed ?s = (False, ?s)" using digits by (cases ?s) (auto simp: signed_def ascii_digit_def)
  have lower: "ascii_lower ?s = ?s"
    using digits by (auto simp: ascii_lower_def ascii_lower_char_def list_all_iff ascii_digit_def intro!: map_idI)
  have base: "base_of ?s = None"
    using digits by (cases ?s; cases "tl ?s") (auto simp: base_of_def ascii_digit_def lit_def)
  have "decimal_number D ?s = Some (False, n, 0)"
    using is_digit_ascii [OF digits(1), of D] digits nat_digits_value [of n]
    by (simp add: decimal_number_def sign digit_takeWhile exponent_of_def number_ascii Let_def)
  then show ?thesis
    using float_integer_exact [OF assms] digits(2) by (simp add: coerce_js_integer_def strip lower base decimal_integer_def)
qed

end
