(* ===== verification/Admin_Routes.thy ===== *)
theory Admin_Routes
  imports Admin_Inputs
begin

text \<open>
  The handlers of \<^verbatim>\<open>api/routes/admin.py\<close> over \<open>Admin_Service\<close>. FastAPI reads the body first, then authenticates
  the administrator, and only then judges the query or the body. The path that the audit names, where the
  compatibility layer has not noted it, is that of Starlette's URL, an argument.
\<close>

record admin_env = date_env +
  ad_url_path :: "service_request \<Rightarrow> pystr"

section \<open>The administrator\<close>

definition admin_actor :: "JwtTokenCodec \<Rightarrow> runtime \<Rightarrow> admin_env \<Rightarrow> service_request \<Rightarrow> pystr route" where
  "admin_actor C R D request =
     (let audit_route = (case sq_original_decoded_path request of Some p \<Rightarrow> p | None \<Rightarrow> ad_url_path D request) in
      bindR (liftR (bearer (header_get (sq_headers request) ''authorization''))) (\<lambda>token.
        public (authenticate_admin R C token audit_route (sq_method request))))"

definition admin_path_parameter :: "service_request \<Rightarrow> string \<Rightarrow> pystr \<Rightarrow> pystr" where
  "admin_path_parameter request name fallback =
     (case sq_admin_path_params request of
        None \<Rightarrow> fallback
      | Some parameters \<Rightarrow> (case map_of parameters (lit name) of Some v \<Rightarrow> v | None \<Rightarrow> fallback))"

definition path_param :: "path_params \<Rightarrow> string \<Rightarrow> pystr" where
  "path_param ps name = (case map_of ps (lit name) of Some v \<Rightarrow> v | None \<Rightarrow> [])"

section \<open>Answers\<close>

definition user_page :: "AdminUserPage \<Rightarrow> http_response" where
  "user_page page =
     ExpressJsonResponse
       [(lit ''items'', PList (map (\<lambda>user. PDict
          [(lit ''id'', PStr (aup_id user)), (lit ''email'', opt_str (aup_email user)), (lit ''name'', opt_str (aup_name user)),
           (lit ''status'', PStr (UserStatus_value (aup_status user))), (lit ''createdAt'', PStr (iso_date (aup_created_at user))),
           (lit ''roles'', PList (map (\<lambda>role. PDict
              [(lit ''id'', PStr (arp_id role)), (lit ''serviceKey'', PStr (arp_service_key role)), (lit ''name'', PStr (arp_name role))])
              (aup_roles user)))]) (aupg_items page))),
        (lit ''total'', PInt (int (aupg_total page))), (lit ''page'', PInt (aupg_page page)),
        (lit ''pageSize'', PInt (aupg_page_size page))] 200"

definition audit_page :: "AdminAuditLogPage \<Rightarrow> http_response" where
  "audit_page page =
     ExpressJsonResponse
       [(lit ''items'', PList (map (\<lambda>item. PDict
          ([(lit ''id'', PStr (ali_id item)), (lit ''eventType'', PStr (ali_event_type item)), (lit ''outcome'', PStr (ali_outcome item)),
            (lit ''userId'', opt_str (ali_user_id item)), (lit ''actorUserId'', opt_str (ali_actor_user_id item)),
            (lit ''targetUserId'', opt_str (ali_target_user_id item)), (lit ''reasonCode'', opt_str (ali_reason_code item)),
            (lit ''createdAt'', PStr (iso_date (ali_created_at item)))]
           @ (case ali_details_json item of None \<Rightarrow> [] | Some d \<Rightarrow> [(lit ''detailsJson'', PDict d)]))) (alp_items page))),
        (lit ''total'', PInt (int (alp_total page))), (lit ''page'', PInt (alp_page page)),
        (lit ''pageSize'', PInt (alp_page_size page))] 200"

section \<open>Lists\<close>

text \<open>A query parameter of FastAPI, after the dependencies.\<close>

definition with_query :: "'q option \<Rightarrow> ('q \<Rightarrow> 'b route) \<Rightarrow> 'b route" where
  "with_query query k = (case query of None \<Rightarrow> raiseR RequestValidationError | Some q \<Rightarrow> k q)"

definition reject_repeated_query :: "service_request \<Rightarrow> string list \<Rightarrow> unit route" where
  "reject_repeated_query request names = (if repeated_query request names then raiseR invalid_request_error else retR ())"

text \<open>\<^verbatim>\<open>_parse_date\<close>: what it cannot read or represent is an invalid request.\<close>

definition caught_date_error :: "exn \<Rightarrow> bool" where
  "caught_date_error e = (case e of OverflowError \<Rightarrow> True | TypeError m \<Rightarrow> True | ValueError m \<Rightarrow> True | _ \<Rightarrow> False)"

definition parse_date :: "date_env \<Rightarrow> pystr option \<Rightarrow> route_error + int option" where
  "parse_date D v =
     (case v of
        None \<Rightarrow> Inr None
      | Some s \<Rightarrow>
          (case read_date D s of
             Inr t \<Rightarrow> Inr (Some t)
           | Inl e \<Rightarrow> if caught_date_error e then Inl invalid_request_error else Inl (Unhandled e)))"

definition user_list_input :: "UserListQuery \<Rightarrow> AdminUserListInput" where
  "user_list_input query = \<lparr>aul_page = ulq_page query, aul_page_size = ulq_page_size query,
     aul_status = Option.bind (ulq_status query) UserStatus_of, aul_email = ulq_email query, aul_role = ulq_role query\<rparr>"

definition list_users_route :: "JwtTokenCodec \<Rightarrow> runtime \<Rightarrow> admin_env \<Rightarrow> service_request \<Rightarrow> http_response route" where
  "list_users_route C R D request =
     bindR (admin_actor C R D request) (\<lambda>_.
     with_query (read_UserListQuery (date_env.truncate D) request) (\<lambda>query.
     bindR (reject_repeated_query request [''page'', ''pageSize'', ''status'', ''email'', ''role'']) (\<lambda>_.
       bindR (public (bindA (liftA (check_AdminUserListInput (user_list_input query))) (\<lambda>_. admin_list_users R (user_list_input query))))
         (\<lambda>page. retR (user_page page)))))"

definition audit_input :: "date_env \<Rightarrow> AuditLogQuery \<Rightarrow> route_error + AuditLogListInput" where
  "audit_input D query =
     (case parse_date D (alq_created_at_from query) of
        Inl e \<Rightarrow> Inl e
      | Inr created_at_from \<Rightarrow>
          (case parse_date D (alq_created_at_to query) of
             Inl e \<Rightarrow> Inl e
           | Inr created_at_to \<Rightarrow>
               Inr \<lparr>all_page = alq_page query, all_page_size = alq_page_size query, all_created_at_from = created_at_from,
                    all_created_at_to = created_at_to, all_event_type = alq_event_type query, all_outcome = alq_outcome query,
                    all_user_id = alq_user_id query, all_actor_user_id = alq_actor_user_id query,
                    all_target_user_id = alq_target_user_id query, all_reason_code = alq_reason_code query\<rparr>))"

definition list_audit_logs_route :: "JwtTokenCodec \<Rightarrow> runtime \<Rightarrow> admin_env \<Rightarrow> service_request \<Rightarrow> http_response route" where
  "list_audit_logs_route C R D request =
     bindR (admin_actor C R D request) (\<lambda>_.
     with_query (read_AuditLogQuery (date_env.truncate D) request) (\<lambda>query.
     bindR (reject_repeated_query request [''page'', ''pageSize'', ''createdAtFrom'', ''createdAtTo'', ''eventType'', ''outcome'',
              ''userId'', ''actorUserId'', ''targetUserId'', ''reasonCode'']) (\<lambda>_.
     bindR (liftR (audit_input (date_env.truncate D) query)) (\<lambda>input.
     bindR (public (bindA (liftA (check_AuditLogListInput input)) (\<lambda>_. list_audit_logs R input)))
       (\<lambda>page. retR (audit_page page))))))"

section \<open>Mutations\<close>

text \<open>A handler with a body: the body is read, the administrator authenticated, the model asked.\<close>

definition admin_mutation ::
  "JwtTokenCodec \<Rightarrow> runtime \<Rightarrow> admin_env \<Rightarrow> (pydict \<Rightarrow> 'b option) \<Rightarrow> service_request \<Rightarrow> (pystr \<Rightarrow> 'b \<Rightarrow> 'c route) \<Rightarrow> 'c route" where
  "admin_mutation C R D model request k =
     bindR (read_body (sq_body request)) (\<lambda>_.
     bindR (admin_actor C R D request) (\<lambda>actor_id.
     bindR (body_model model (sq_body request)) (k actor_id)))"

text \<open>The status is compared as the text of the body here, and again by the service.\<close>

definition set_user_status_route ::
  "JwtTokenCodec \<Rightarrow> runtime \<Rightarrow> admin_env \<Rightarrow> path_params \<Rightarrow> service_request \<Rightarrow> http_response route" where
  "set_user_status_route C R D ps request =
     admin_mutation C R D StatusBody request (\<lambda>actor_id (status, reason_code).
       let user_id = admin_path_parameter request ''id'' (path_param ps ''user_id'') in
       bindR (public
         (bindA (liftA (bindE (parse_user_status status) (assert_self_status_change_allowed actor_id user_id))) (\<lambda>_.
          set_user_status R actor_id user_id status reason_code
            (Some [(lit ''route'', PStr (lit ''PATCH /admin/users/:id/status''))]) None)))
       (\<lambda>result. retR (ExpressJsonResponse
          [(lit ''statusChanged'', PBool (sus_status_changed result)),
           (lit ''revokedRefreshTokenCount'', PInt (int (sus_revoked_refresh_token_count result)))] 200)))"

definition assign_role_route ::
  "JwtTokenCodec \<Rightarrow> runtime \<Rightarrow> admin_env \<Rightarrow> path_params \<Rightarrow> service_request \<Rightarrow> http_response route" where
  "assign_role_route C R D ps request =
     admin_mutation C R D RoleBody request (\<lambda>actor_id (service_key, name, reason_code).
       let user_id = admin_path_parameter request ''id'' (path_param ps ''user_id'') in
       bindR (public (assign_role R actor_id user_id service_key name reason_code
         (Some [(lit ''route'', PStr (lit ''POST /admin/users/:id/roles''))])))
       (\<lambda>result. retR (ExpressJsonResponse
          [(lit ''roleAssigned'', PBool (asr_role_assigned result)), (lit ''roleId'', PStr (asr_role_id result))] 200)))"

definition role_not_found :: exn where
  "role_not_found = DomainError 404 (lit ''ROLE_NOT_FOUND'') (lit ''Role not found'')"

definition remove_role_route ::
  "JwtTokenCodec \<Rightarrow> runtime \<Rightarrow> admin_env \<Rightarrow> path_params \<Rightarrow> service_request \<Rightarrow> http_response route" where
  "remove_role_route C R D ps request =
     admin_mutation C R D ReasonBody request (\<lambda>actor_id reason_code.
       let user_id = admin_path_parameter request ''id'' (path_param ps ''user_id'');
           role_id = admin_path_parameter request ''roleId'' (path_param ps ''role_id'') in
       bindR (public
         (if py_strip role_id = [] then raiseA role_not_found
          else bindA (admin_find_role_by_id role_id) (\<lambda>found.
               case found of
                 None \<Rightarrow> raiseA role_not_found
               | Some role \<Rightarrow>
                   bindA (liftA (assert_self_admin_role_removal_allowed actor_id user_id role)) (\<lambda>_.
                   remove_role R actor_id user_id (arp_service_key role) (arp_name role) reason_code
                     (Some [(lit ''roleId'', PStr role_id), (lit ''route'', PStr (lit ''DELETE /admin/users/:id/roles/:roleId''))])
                     None))))
       (\<lambda>result. retR (ExpressJsonResponse
          [(lit ''roleRemoved'', PBool (rmr_role_removed result)), (lit ''roleId'', opt_str (rmr_role_id result)),
           (lit ''revokedRefreshTokenCount'', PInt (int (rmr_revoked_refresh_token_count result)))] 200)))"

definition revoke_sessions_route ::
  "JwtTokenCodec \<Rightarrow> runtime \<Rightarrow> admin_env \<Rightarrow> path_params \<Rightarrow> service_request \<Rightarrow> http_response route" where
  "revoke_sessions_route C R D ps request =
     admin_mutation C R D ReasonBody request (\<lambda>actor_id reason_code.
       let user_id = admin_path_parameter request ''id'' (path_param ps ''user_id'') in
       bindR (public
         (bindA (liftA (assert_self_session_revoke_allowed actor_id user_id)) (\<lambda>_.
          revoke_sessions R actor_id user_id reason_code
            (Some [(lit ''route'', PStr (lit ''POST /admin/users/:id/revoke-sessions''))]) None)))
       (\<lambda>result. retR (ExpressJsonResponse [(lit ''revokedCount'', PInt (int (rsr_revoked_count result)))] 200)))"

section \<open>The table\<close>

definition admin_rows :: "JwtTokenCodec \<Rightarrow> runtime \<Rightarrow> admin_env \<Rightarrow> string \<Rightarrow> row list" where
  "admin_rows C R D prefix =
     (let path = (\<lambda>p. lit prefix @ lit p) in
      [fixed_row [''HEAD''] (path ''/users'') (list_users_route C R D), fixed_row [''GET''] (path ''/users'') (list_users_route C R D),
       fixed_row [''HEAD''] (path ''/audit-logs'') (list_audit_logs_route C R D),
       fixed_row [''GET''] (path ''/audit-logs'') (list_audit_logs_route C R D),
       param_row [''PATCH''] (path ''/users/{user_id}/status'') (set_user_status_route C R D),
       param_row [''POST''] (path ''/users/{user_id}/roles'') (assign_role_route C R D),
       param_row [''DELETE''] (path ''/users/{user_id}/roles/{role_id}'') (remove_role_route C R D),
       param_row [''POST''] (path ''/users/{user_id}/revoke-sessions'') (revoke_sessions_route C R D)])"

end
