(* ===== verification/Admin_Answers.thy ===== *)
theory Admin_Answers
  imports Admin_Routes Route_Answers
begin

text \<open>
  What the administration routes promise: nothing happens without an administrator, an administrator cannot use
  them to lose his own access, and a list answers a bounded page.
\<close>

section \<open>Nothing without an administrator\<close>

text \<open>The request carries a token whose subject is an active user with the role \<^verbatim>\<open>temis:admin\<close> now.\<close>

definition authenticated_admin :: "JwtTokenCodec \<Rightarrow> runtime \<Rightarrow> service_request \<Rightarrow> world \<Rightarrow> pystr \<Rightarrow> bool" where
  "authenticated_admin C R request w i \<longleftrightarrow>
     (case bearer (header_get (sq_headers request) ''authorization'') of
        Inl e \<Rightarrow> False
      | Inr token \<Rightarrow> verify_admin_access_subject C (rt_clock R (w_ticks w)) token = Inr i)
     \<and> py_strip i \<noteq> [] \<and> is_active_user (w_db w) i \<and> user_has_role (w_db w) i (Some (lit ''temis''), lit ''admin'')"

definition only_denial_recorded :: "db \<Rightarrow> db \<Rightarrow> bool" where
  "only_denial_recorded d d' \<longleftrightarrow> d' = d \<or> (\<exists>row. d' = d\<lparr>t_audits := t_audits d @ [row]\<rparr>
     \<and> a_eventType row = lit ''admin_authorization_failure'' \<and> a_outcome row = lit ''failure'')"

lemma authenticated_admin_unique: "authenticated_admin C R request w i \<Longrightarrow> authenticated_admin C R request w j \<Longrightarrow> i = j"
  by (auto simp: authenticated_admin_def split: sum.splits)

lemma admin_actor_run:
  assumes "admin_actor C R D request w = (x, w')"
  shows "(\<exists>i. x = Inr i \<and> authenticated_admin C R request w i \<and> w_db w' = w_db w)
    \<or> (\<exists>e. x = Inl e \<and> only_denial_recorded (w_db w) (w_db w') \<and> (\<forall>i. authenticated_admin C R request w i \<longrightarrow> w_db w' = w_db w))"
proof (cases "bearer (header_get (sq_headers request) ''authorization'')")
  case (Inl e)
  then have "x = Inl e \<and> w' = w" using assms by (simp add: admin_actor_def bindR_def liftR_def)
  then show ?thesis by (simp add: authenticated_admin_def only_denial_recorded_def Inl)
next
  case (Inr token)
  obtain route where run: "public (authenticate_admin R C token route (sq_method request)) w = (x, w')"
    using assms Inr by (auto simp: admin_actor_def bindR_def liftR_def Let_def)
  obtain r where auth: "authenticate_admin R C token route (sq_method request) w = (r, w')"
    and x: "x = (case r of Inl e \<Rightarrow> Inl (raise_public e) | Inr i \<Rightarrow> Inr i)"
    using run by (auto simp: public_def split: prod.splits sum.splits)
  note cases = authenticate_admin_cases [OF auth]
  show ?thesis
  proof (cases "verify_admin_access_subject C (rt_clock R (w_ticks w)) token")
    case (Inl e)
    with cases x show ?thesis by (auto simp: only_denial_recorded_def authenticated_admin_def Inr)
  next
    case (Inr i)
    with cases x show ?thesis
      using \<open>bearer _ = Inr token\<close> by (auto simp: only_denial_recorded_def authenticated_admin_def split: if_splits)
  qed
qed

definition admin_guarded :: "JwtTokenCodec \<Rightarrow> runtime \<Rightarrow> service_request \<Rightarrow> 'a route \<Rightarrow> bool" where
  "admin_guarded C R request m \<longleftrightarrow> (\<forall>w x w'. m w = (x, w') \<longrightarrow> (\<forall>i. \<not> authenticated_admin C R request w i) \<longrightarrow>
     (\<exists>e. x = Inl e) \<and> only_denial_recorded (w_db w) (w_db w'))"

lemma guarded_raise: "admin_guarded C R request (raiseR e)"
  by (simp add: admin_guarded_def raiseR_def only_denial_recorded_def)

lemma guarded_actor: "admin_guarded C R request (bindR (admin_actor C R D request) k)"
proof -
  have "(\<exists>e. x = Inl e) \<and> only_denial_recorded (w_db w) (w_db w')"
    if run: "bindR (admin_actor C R D request) k w = (x, w')" and no: "\<forall>i. \<not> authenticated_admin C R request w i" for w x w'
    using run no admin_actor_run [OF surjective_pairing, of C R D request w]
    by (auto simp: bindR_def split: prod.splits sum.splits)
  then show ?thesis unfolding admin_guarded_def by blast
qed

lemma guarded_read_body: "admin_guarded C R request m \<Longrightarrow> admin_guarded C R request (bindR (read_body b) (\<lambda>_. m))"
  by (cases b) (auto simp: read_body_def bindR_def retR_def raiseR_def admin_guarded_def only_denial_recorded_def)

lemma guarded_routes:
  "admin_guarded C R request (list_users_route C R D request)"
  "admin_guarded C R request (list_audit_logs_route C R D request)"
  "admin_guarded C R request (set_user_status_route C R D ps request)"
  "admin_guarded C R request (assign_role_route C R D ps request)"
  "admin_guarded C R request (remove_role_route C R D ps request)"
  "admin_guarded C R request (revoke_sessions_route C R D ps request)"
  unfolding list_users_route_def list_audit_logs_route_def set_user_status_route_def assign_role_route_def
    remove_role_route_def revoke_sessions_route_def admin_mutation_def
  by (intro guarded_read_body guarded_actor)+

text \<open>What holds of every handler of a table and of a failure holds of the table.\<close>

lemma dispatch_cases:
  assumes "\<And>methods template h ps. (methods, template, h) \<in> set rows \<Longrightarrow> P (h ps request)" "\<And>e. P (raiseR e)"
  shows "P (dispatch M rows request)"
proof (cases "find (full_match M request) rows")
  case None
  with assms(2) show ?thesis by (simp add: dispatch_def)
next
  case (Some row)
  then have "row \<in> set rows" by (auto simp: find_Some_iff in_set_conv_nth)
  with Some assms(1) show ?thesis by (cases row) (auto simp: dispatch_def)
qed

text \<open>C31. Without a bearer token of a subject who is, at that moment, an active user holding \<^verbatim>\<open>temis:admin\<close>, no
  request to an administration route succeeds, whatever its method, path, query and body, and the only thing it can
  leave in the database is one audited refusal.\<close>

theorem admin_routes_guarded:
  assumes "dispatch M (admin_rows C R D prefix) request w = (x, w')" "\<forall>i. \<not> authenticated_admin C R request w i"
  shows "(\<exists>e. x = Inl e) \<and> only_denial_recorded (w_db w) (w_db w')"
proof -
  have "admin_guarded C R request (dispatch M (admin_rows C R D prefix) request)"
  proof (rule dispatch_cases)
    fix methods template h ps
    assume "(methods, template, h) \<in> set (admin_rows C R D prefix)"
    then show "admin_guarded C R request (h ps request)"
      by (auto simp: admin_rows_def fixed_row_def param_row_def Let_def guarded_routes)
  qed (rule guarded_raise)
  with assms show ?thesis unfolding admin_guarded_def by blast
qed

section \<open>Sample requests\<close>

definition sample_admin_env :: admin_env where
  "sample_admin_env = \<lparr>de_digit = \<lambda>_. None, de_local = \<lambda>_. Inl OverflowError, de_mail = \<lambda>_. Inl bad_date, ad_url_path = sq_path\<rparr>"

definition own_status_router :: router where
  "own_status_router template path =
     (if template = lit ''/admin/users/{user_id}/status'' \<and> path = lit ''/admin/users/a1/status'' then Some [(lit ''user_id'', lit ''a1'')]
      else if template = path then Some [] else None)"

definition admin_request :: "string \<Rightarrow> string \<Rightarrow> headers \<Rightarrow> service_request" where
  "admin_request meth path hs = \<lparr>sq_method = lit meth, sq_path = lit path, sq_query = [], sq_headers = hs, sq_client = None,
     sq_body = JsonBody (PDict [(lit ''status'', PStr (lit ''SUSPENDED''))]), sq_original_decoded_path = None,
     sq_admin_path_params = None\<rparr>"

definition admin_header :: headers where
  "admin_header = [(lit ''authorization'', lit ''Bearer a1'')]"

lemma sample_authenticated: "authenticated_admin transparent_codec sample_runtime (admin_request meth path admin_header)
    (sample_services sample_admin_db) (lit ''a1'')"
proof -
  have "verify_admin_access_subject transparent_codec n t = Inr t" for n t
    by (simp add: verify_admin_access_subject_def transparent_codec_def)
  moreover have "bearer (header_get admin_header ''authorization'') = Inr (lit ''a1'')
    \<and> py_strip (lit ''a1'') \<noteq> [] \<and> is_active_user sample_admin_db (lit ''a1'')
    \<and> user_has_role sample_admin_db (lit ''a1'') (Some (lit ''temis''), lit ''admin'')" by code_simp
  ultimately show ?thesis by (simp add: authenticated_admin_def admin_request_def sample_services_def)
qed

lemma admin_routes_guarded_witness:
  "let w = sample_services sample_admin_db;
       answer = dispatch own_status_router (admin_rows transparent_codec sample_runtime sample_admin_env ''/admin'')
         (admin_request ''PATCH'' ''/admin/users/a1/status'' []) w
   in (\<exists>e. fst answer = Inl e) \<and> only_denial_recorded (w_db w) (w_db (snd answer))"
proof -
  have "\<not> authenticated_admin transparent_codec sample_runtime (admin_request ''PATCH'' ''/admin/users/a1/status'' []) w i" for w i
    by (simp add: authenticated_admin_def admin_request_def header_get_def bearer_def)
  then show ?thesis
    using admin_routes_guarded [OF surjective_pairing, of transparent_codec sample_runtime
        "admin_request ''PATCH'' ''/admin/users/a1/status'' []" "sample_services sample_admin_db"] by (simp add: Let_def)
qed

section \<open>Own access\<close>

definition keepsR :: "(db \<Rightarrow> bool) \<Rightarrow> 'a route \<Rightarrow> bool" where
  "keepsR I m \<longleftrightarrow> (\<forall>w x w'. I (w_db w) \<and> m w = (x, w') \<longrightarrow> I (w_db w'))"

named_theorems keepsR_intros

lemma keepsR_simple [keepsR_intros]: "keepsR I (retR x)" "keepsR I (raiseR e)" "keepsR I (liftR r)"
  by (auto simp: keepsR_def retR_def raiseR_def liftR_def)

lemma keepsR_bind [keepsR_intros]: "keepsR I m \<Longrightarrow> (\<And>x. keepsR I (k x)) \<Longrightarrow> keepsR I (bindR m k)"
proof -
  assume m: "keepsR I m" and k: "\<And>x. keepsR I (k x)"
  have "I (w_db w')" if "I (w_db w)" "bindR m k w = (x, w')" for w x w'
  proof (cases "m w")
    case (Pair y w1)
    with m that(1) have "I (w_db w1)" unfolding keepsR_def by blast
    with Pair that(2) k show ?thesis unfolding keepsR_def by (cases y) (auto simp: bindR_def)
  qed
  then show ?thesis unfolding keepsR_def by blast
qed

lemma keepsR_public [keepsR_intros]: "keepsA I m \<Longrightarrow> keepsR I (public m)"
  unfolding keepsR_def keepsA_def public_def by (fastforce split: prod.splits sum.splits)

lemma keepsR_with_query [keepsR_intros]: "(\<And>x. keepsR I (k x)) \<Longrightarrow> keepsR I (with_query q k)"
  by (simp add: with_query_def keepsR_intros split: option.split)

lemma keepsR_reject [keepsR_intros]: "keepsR I (reject_repeated_query request names)"
  by (simp add: reject_repeated_query_def keepsR_intros)

text \<open>A handler acts for the administrator who was authenticated, and for nobody else.\<close>

definition keeps_for :: "JwtTokenCodec \<Rightarrow> runtime \<Rightarrow> service_request \<Rightarrow> pystr \<Rightarrow> 'a route \<Rightarrow> bool" where
  "keeps_for C R request i m \<longleftrightarrow> (\<forall>w x w'. authenticated_admin C R request w i \<and> own_access i (w_db w) \<and> m w = (x, w')
     \<longrightarrow> own_access i (w_db w'))"

lemma keeps_for_keepsR: "keepsR (own_access i) m \<Longrightarrow> keeps_for C R request i m"
  by (auto simp: keepsR_def keeps_for_def)

lemma keeps_for_actor: "keepsR (own_access i) (k i) \<Longrightarrow> keeps_for C R request i (bindR (admin_actor C R D request) k)"
proof -
  assume k: "keepsR (own_access i) (k i)"
  have "own_access i (w_db w')" if a: "authenticated_admin C R request w i" and I: "own_access i (w_db w)"
    and run: "bindR (admin_actor C R D request) k w = (x, w')" for w x w'
  proof -
    obtain y w1 where actor: "admin_actor C R D request w = (y, w1)" by (cases "admin_actor C R D request w")
    have w1: "w_db w1 = w_db w" using admin_actor_run [OF actor] a by blast
    show ?thesis
    proof (cases y)
      case (Inl e)
      then have "w' = w1" using run actor by (simp add: bindR_def)
      with w1 I show ?thesis by simp
    next
      case (Inr j)
      then have "authenticated_admin C R request w j" using admin_actor_run [OF actor] by auto
      with a have "j = i" by (rule authenticated_admin_unique [rotated])
      with Inr run actor have "k i w1 = (x, w')" by (simp add: bindR_def)
      with k I w1 show ?thesis unfolding keepsR_def by metis
    qed
  qed
  then show ?thesis unfolding keeps_for_def by blast
qed

lemma keeps_for_read_body: "keeps_for C R request i m \<Longrightarrow> keeps_for C R request i (bindR (read_body b) (\<lambda>_. m))"
  by (cases b) (auto simp: read_body_def bindR_def retR_def raiseR_def keeps_for_def)

lemma keepsR_body_model: "(\<And>d x. b = JsonBody (PDict d) \<Longrightarrow> model d = Some x \<Longrightarrow> keepsR I (k x)) \<Longrightarrow> keepsR I (bindR (body_model model b) k)"
  by (auto simp: body_model_def bindR_def retR_def raiseR_def keepsR_def split: body.splits pyval.splits option.splits)

lemma keeps_for_mutation:
  assumes "\<And>d x. sq_body request = JsonBody (PDict d) \<Longrightarrow> model d = Some x \<Longrightarrow> keepsR (own_access i) (k i x)"
  shows "keeps_for C R request i (admin_mutation C R D model request k)"
  unfolding admin_mutation_def by (intro keeps_for_read_body keeps_for_actor keepsR_body_model assms)

text \<open>The one request that can take the access of its sender away: the status of a new user, given to himself.\<close>

definition sets_pending :: "service_request \<Rightarrow> bool" where
  "sets_pending request \<longleftrightarrow> (case sq_body request of
     JsonBody (PDict d) \<Rightarrow> map_option fst (StatusBody d) = Some (lit ''PENDING_EMAIL_VERIFICATION'') | _ \<Rightarrow> False)"

lemma keepsA_list [keepsA_intros]:
  "keepsA I (admin_list_users R input)" "keepsA I (list_audit_logs R input')" "keepsA I (admin_find_role_by_id r)"
  unfolding admin_list_users_def list_audit_logs_def admin_find_role_by_id_def
  by (intro keepsA_intros keeps_intros keeps_admin_reads)+

lemma keeps_for_routes:
  "keeps_for C R request i (list_users_route C R D request)"
  "keeps_for C R request i (list_audit_logs_route C R D request)"
  "keeps_for C R request i (assign_role_route C R D ps request)"
  "keeps_for C R request i (remove_role_route C R D ps request)"
  "keeps_for C R request i (revoke_sessions_route C R D ps request)"
proof -
  show "keeps_for C R request i (list_users_route C R D request)"
    unfolding list_users_route_def Let_def by (intro keeps_for_actor keepsR_intros keepsA_intros)
  show "keeps_for C R request i (list_audit_logs_route C R D request)"
    unfolding list_audit_logs_route_def Let_def by (intro keeps_for_actor keepsR_intros keepsA_intros)
  show "keeps_for C R request i (assign_role_route C R D ps request)"
    unfolding assign_role_route_def Let_def case_prod_beta
    by (intro keeps_for_mutation keepsR_intros own_assign_role)
  show "keeps_for C R request i (remove_role_route C R D ps request)"
    unfolding remove_role_route_def Let_def
    by (intro keeps_for_mutation keepsR_intros keepsA_intros own_remove_role)
  show "keeps_for C R request i (revoke_sessions_route C R D ps request)"
    unfolding revoke_sessions_route_def Let_def
    by (intro keeps_for_mutation keepsR_intros keepsA_intros own_revoke_sessions)
qed

lemma keeps_for_status:
  assumes "\<not> sets_pending request"
  shows "keeps_for C R request i (set_user_status_route C R D ps request)"
  unfolding set_user_status_route_def Let_def
proof (rule keeps_for_mutation)
  fix d x
  assume "sq_body request = JsonBody (PDict d)" "StatusBody d = Some x"
  then have "fst x \<noteq> lit ''PENDING_EMAIL_VERIFICATION''" using assms by (auto simp: sets_pending_def)
  then have "UserStatus_of (fst x) \<noteq> Some PENDING_EMAIL_VERIFICATION" by (auto simp: UserStatus_of_def split: if_splits)
  then have "keepsA (own_access i) (set_user_status R i target (fst x) (snd x) details now)" for target details now
    by (intro own_set_user_status disjI2)
  then show "keepsR (own_access i) (case x of (status, because) \<Rightarrow> bindR (public
      (bindA (liftA (bindE (parse_user_status status)
         (assert_self_status_change_allowed i (admin_path_parameter request ''id'' (path_param ps ''user_id''))))) (\<lambda>_.
       set_user_status R i (admin_path_parameter request ''id'' (path_param ps ''user_id'')) status because
         (Some [(lit ''route'', PStr (lit ''PATCH /admin/users/:id/status''))]) None)))
    (\<lambda>result. retR (ExpressJsonResponse
       [(lit ''statusChanged'', PBool (sus_status_changed result)),
        (lit ''revokedRefreshTokenCount'', PInt (int (sus_revoked_refresh_token_count result)))] 200)))"
    unfolding case_prod_beta by (intro keepsR_intros keepsA_intros)
qed

text \<open>C32. Whatever an administrator sends to an administration route, he is still an active user holding
  \<^verbatim>\<open>temis:admin\<close> in a consistent database after it, unless its body sets the status of an unverified user,
  which the self-protection does not know.\<close>

theorem admin_routes_keep_own_access:
  assumes "dispatch M (admin_rows C R D prefix) request w = (x, w')"
    and "authenticated_admin C R request w i" "db_ok (w_db w)" "\<not> sets_pending request"
  shows "own_access i (w_db w')"
proof -
  have "keeps_for C R request i (dispatch M (admin_rows C R D prefix) request)"
  proof (rule dispatch_cases)
    fix methods template h ps
    assume "(methods, template, h) \<in> set (admin_rows C R D prefix)"
    then show "keeps_for C R request i (h ps request)"
      using keeps_for_routes keeps_for_status [OF assms(4)] by (auto simp: admin_rows_def fixed_row_def param_row_def Let_def)
  qed (simp add: keeps_for_def raiseR_def)
  moreover have "own_access i (w_db w)" using assms(2,3) by (simp add: own_access_def authenticated_admin_def)
  ultimately show ?thesis using assms(1,2) unfolding keeps_for_def by blast
qed

lemma admin_routes_keep_own_access_witness:
  "own_access (lit ''a1'') (w_db (snd (dispatch own_status_router
     (admin_rows transparent_codec sample_runtime sample_admin_env ''/admin'')
     (admin_request ''PATCH'' ''/admin/users/a1/status'' admin_header) (sample_services sample_admin_db))))"
proof -
  have "\<not> sets_pending (admin_request ''PATCH'' ''/admin/users/a1/status'' admin_header)" by code_simp
  from admin_routes_keep_own_access [OF surjective_pairing sample_authenticated _ this]
  show ?thesis by (simp add: sample_services_def sample_admin_db_ok)
qed

section \<open>Pages\<close>

lemma pages_cover:
  assumes "1 \<le> s"
  shows "concat (map (\<lambda>p. page_rows (int p) s rs) [1..<Suc n]) = take (n * nat s) rs"
proof (induction n)
  case (Suc n)
  have "nat (int n * s) = n * nat s" using assms by (simp add: nat_mult_distrib)
  then have "page_rows (int (Suc n)) s rs = take (nat s) (drop (n * nat s) rs)" by (simp add: page_rows_def)
  with Suc show ?case by (simp add: take_add [symmetric] add.commute)
qed simp

definition matching_users :: "(pystr \<Rightarrow> pystr) \<Rightarrow> AdminUserListInput \<Rightarrow> db \<Rightarrow> UserRow list" where
  "matching_users low i d = sort_key (\<lambda>u. - u_createdAt u) (filter (matches_user_filter low d i
     (case aul_role i of None \<Rightarrow> None | Some r \<Rightarrow> (case parse_role_filter r of Inr x \<Rightarrow> Some x | Inl e \<Rightarrow> None))) (t_users d))"

lemma list_users_run:
  assumes "list_users low i d = Inr (page, d')"
  shows "d' = d \<and> aupg_items page = map (admin_profile d) (page_rows (aul_page i) (aul_page_size i) (matching_users low i d))
    \<and> aupg_total page = length (matching_users low i d) \<and> aupg_page page = aul_page i \<and> aupg_page_size page = aul_page_size i"
  using assms
  by (auto simp: list_users_def matching_users_def seq_simps bindE_def Let_def split: option.splits sum.splits)

lemma matching_users_pages [simp]: "matching_users low (i\<lparr>aul_page := p, aul_page_size := s\<rparr>) d = matching_users low i d"
  by (simp add: matching_users_def matches_user_filter_def [abs_def])

lemma list_users_answer:
  assumes "list_users_route C R D request w = (Inr r, w')"
  shows "\<exists>query page. read_UserListQuery (date_env.truncate D) request = Some query \<and> r = user_page page \<and> w_db w' = w_db w
    \<and> list_users (rt_db_lower R) (user_list_input query) (w_db w) = Inr (page, w_db w)"
proof -
  from assms obtain i w1 query page where actor: "admin_actor C R D request w = (Inr i, w1)"
    and query: "read_UserListQuery (date_env.truncate D) request = Some query"
    and list: "admin_list_users R (user_list_input query) w1 = (Inr page, w')" and r: "r = user_page page"
    by (auto simp: list_users_route_def with_query_def reject_repeated_query_def route_iffs act_iffs Let_def
        split: option.splits if_splits)
  have "w_db w1 = w_db w" using admin_actor_run [OF actor] by auto
  with list obtain d where "list_users (rt_db_lower R) (user_list_input query) (w_db w) = Inr (page, d)" "w_db w' = d"
    by (auto simp: admin_list_users_def in_transaction_Inr)
  moreover from this(1) have "d = w_db w" using list_users_run by blast
  ultimately show ?thesis using query r by auto
qed

lemma query_page_bound: "read_UserListQuery D request = Some query \<Longrightarrow> 1 \<le> ulq_page_size query \<and> ulq_page_size query \<le> 100"
  by (auto simp: read_UserListQuery_def QueryModel_def bind_eq_Some_conv split: if_splits)

lemma matching_users_order:
  assumes "distinct (map u_createdAt (t_users d))"
  shows "sorted_wrt (\<lambda>u v. u_createdAt v < u_createdAt u) (matching_users low i d)"
proof -
  let ?us = "matching_users low i d"
  have "distinct (map u_createdAt ?us)"
    using assms by (simp add: matching_users_def distinct_map_filter inj_on_def distinct_map set_eq_iff) 
  moreover have "sorted_wrt (\<lambda>u v. u_createdAt v \<le> u_createdAt u) ?us"
    using sorted_sort_key [of "\<lambda>u. - u_createdAt u"] by (simp add: matching_users_def sorted_map)
  moreover have "distinct (map u_createdAt us) \<Longrightarrow> sorted_wrt (\<lambda>u v. u_createdAt v \<le> u_createdAt u) us
      \<Longrightarrow> sorted_wrt (\<lambda>u v. u_createdAt v < u_createdAt u) us" for us
    by (induction us) (auto simp: less_le image_iff)
  ultimately show ?thesis by blast
qed

text \<open>An administrator who reads the user list page by page while nothing changes sees every matching account
  once, newest first: the pages, at most 100 accounts each, joined in order, are the beginning of the sorted
  matching accounts, so all of them once enough pages are read. The accounts must differ in their creation time,
  the only thing the query sorts by.\<close>

theorem admin_pages_cover:
  assumes "\<And>p. p \<in> {1..n} \<Longrightarrow> list_users_route C R D (request p) (w p) = (Inr (r p), w' p)"
    and "\<And>p. p \<in> {1..n} \<Longrightarrow> w_db (w p) = d"
    and "\<And>p. p \<in> {1..n} \<Longrightarrow> read_UserListQuery (date_env.truncate D) (request p) = Some (query\<lparr>ulq_page := int p\<rparr>)"
    and "distinct (map u_createdAt (t_users d))"
  shows "let users = matching_users (rt_db_lower R) (user_list_input query) d in
    \<exists>pages. (\<forall>p \<in> {1..n}. r p = user_page (pages p) \<and> length (aupg_items (pages p)) \<le> 100
        \<and> aupg_total (pages p) = length users \<and> w_db (w' p) = d)
      \<and> concat (map (\<lambda>p. aupg_items (pages p)) [1..<Suc n]) = take (n * nat (ulq_page_size query)) (map (admin_profile d) users)
      \<and> sorted_wrt (\<lambda>u v. u_createdAt v < u_createdAt u) users"
proof -
  let ?users = "matching_users (rt_db_lower R) (user_list_input query) d"
  let ?size = "ulq_page_size query"
  have page: "\<exists>page. r p = user_page page \<and> w_db (w' p) = d \<and> aupg_total page = length ?users
      \<and> aupg_items page = map (admin_profile d) (page_rows (int p) ?size ?users) \<and> 1 \<le> ?size \<and> ?size \<le> 100"
    if p: "p \<in> {1..n}" for p
  proof -
    from list_users_answer [OF assms(1) [OF p]] assms(2,3) [OF p] obtain page where
      "r p = user_page page" "w_db (w' p) = d"
      and list: "list_users (rt_db_lower R) (user_list_input (query\<lparr>ulq_page := int p\<rparr>)) d = Inr (page, d)" by auto
    moreover have "user_list_input (query\<lparr>ulq_page := int p\<rparr>)
        = (user_list_input query)\<lparr>aul_page := int p, aul_page_size := ?size\<rparr>" by (simp add: user_list_input_def)
    ultimately show ?thesis using list_users_run [OF list] query_page_bound [OF assms(3) [OF p]] by auto
  qed
  then obtain pages where pages: "\<And>p. p \<in> {1..n} \<Longrightarrow> r p = user_page (pages p) \<and> w_db (w' p) = d
      \<and> aupg_total (pages p) = length ?users \<and> aupg_items (pages p) = map (admin_profile d) (page_rows (int p) ?size ?users)
      \<and> 1 \<le> ?size \<and> ?size \<le> 100" by metis
  have "concat (map (\<lambda>p. aupg_items (pages p)) [1..<Suc n]) = take (n * nat ?size) (map (admin_profile d) ?users)"
  proof (cases "n = 0")
    case False
    then have "1 \<le> ?size" using pages [of 1] by auto
    have "concat (map (\<lambda>p. aupg_items (pages p)) [1..<Suc n])
        = concat (map (\<lambda>p. map (admin_profile d) (page_rows (int p) ?size ?users)) [1..<Suc n])"
      by (rule arg_cong [where f = concat], rule map_cong) (use pages in auto)
    also have "\<dots> = map (admin_profile d) (concat (map (\<lambda>p. page_rows (int p) ?size ?users) [1..<Suc n]))"
      by (simp add: map_concat o_def)
    finally show ?thesis using pages_cover [OF \<open>1 \<le> ?size\<close>, of ?users n] by (simp only: take_map)
  qed simp
  moreover have "length (aupg_items (pages p)) \<le> 100" if "p \<in> {1..n}" for p
    using pages [OF that] by (auto simp: page_rows_def)
  ultimately show ?thesis using pages matching_users_order [OF assms(4)] unfolding Let_def by blast
qed

definition two_users :: db where
  "two_users = sample_admin_db\<lparr>t_users := [sample_user, sample_user\<lparr>u_id := lit ''a1'', u_email := None, u_createdAt := 7\<rparr>]\<rparr>"

lemma admin_pages_cover_witness:
  "\<exists>page. list_users_route transparent_codec sample_runtime sample_admin_env (admin_request ''GET'' ''/admin/users'' admin_header)
       (sample_services two_users) = (Inr (user_page page), snd (list_users_route transparent_codec sample_runtime sample_admin_env
         (admin_request ''GET'' ''/admin/users'' admin_header) (sample_services two_users)))
     \<and> map aup_id (aupg_items page) = [lit ''a1'', lit ''u1'']"
proof -
  let ?rq = "admin_request ''GET'' ''/admin/users'' admin_header"
  let ?D = "sample_admin_env"
  let ?run = "list_users_route transparent_codec sample_runtime ?D ?rq (sample_services two_users)"
  let ?q = "\<lparr>ulq_page = 1, ulq_page_size = 25, ulq_status = None, ulq_email = None, ulq_role = None\<rparr>"
  have q: "read_UserListQuery (date_env.truncate ?D) ?rq = Some ?q" by code_simp
  obtain i w1 where actor: "admin_actor transparent_codec sample_runtime ?D ?rq (sample_services two_users) = (i, w1)"
    by (cases "admin_actor transparent_codec sample_runtime ?D ?rq (sample_services two_users)")
  have "fst (admin_actor transparent_codec sample_runtime ?D ?rq (sample_services two_users)) = Inr (lit ''a1'')" by code_simp
  then have i: "i = Inr (lit ''a1'')" by (simp add: actor)
  then have w1: "w_db w1 = two_users" using admin_actor_run [OF actor] by (auto simp: sample_services_def)
  have checks: "check_AdminUserListInput (user_list_input ?q) = Inr ()" "\<not> repeated_query ?rq [''page'', ''pageSize'', ''status'', ''email'', ''role'']"
    by code_simp+
  have "\<exists>r. fst ?run = Inr r"
    using actor i w1 q checks
    by (simp add: list_users_route_def bindR_def with_query_def reject_repeated_query_def retR_def public_def seq_simps
        admin_list_users_def list_users_def user_list_input_def Let_def)
  then obtain r where run: "?run = (Inr r, snd ?run)" by (cases ?run) auto
  have d: "distinct (map u_createdAt (t_users two_users))" by code_simp
  have users: "map aup_id (take (Suc 0 * nat 25) (map (admin_profile two_users)
      (matching_users (rt_db_lower sample_runtime) (user_list_input ?q) two_users))) = [lit ''a1'', lit ''u1'']" by code_simp
  have "?q\<lparr>ulq_page := int p\<rparr> = ?q" if "p \<in> {1..1}" for p using that by simp
  with q have queries: "p \<in> {1..1} \<Longrightarrow> read_UserListQuery (date_env.truncate ?D) ?rq = Some (?q\<lparr>ulq_page := int p\<rparr>)" for p
    by metis
  have world: "w_db (sample_services two_users) = two_users" by (simp add: sample_services_def)
  note cover = admin_pages_cover [where n = 1 and request = "\<lambda>_. ?rq" and w = "\<lambda>_. sample_services two_users" and r = "\<lambda>_. r",
      OF run world queries d, unfolded Let_def]
  then have "\<exists>pages. r = user_page (pages 1) \<and> concat (map (\<lambda>p. aupg_items (pages p)) [1..<Suc 1])
      = take (1 * nat 25) (map (admin_profile two_users) (matching_users (rt_db_lower sample_runtime) (user_list_input ?q) two_users))"
    by auto
  then obtain pages where "r = user_page (pages 1)" "aupg_items (pages 1)
      = take (Suc 0 * nat 25) (map (admin_profile two_users) (matching_users (rt_db_lower sample_runtime) (user_list_input ?q) two_users))"
    by auto
  with run users show ?thesis by metis
qed

end
