(* ===== verification/System_Routes.thy ===== *)
theory System_Routes
  imports Oauth_Routes
begin

text \<open>
  \<^verbatim>\<open>api/routes/system.py\<close>, \<^verbatim>\<open>api/staticfiles.py\<close> and \<^verbatim>\<open>runtime_ready\<close> of \<^verbatim>\<open>main.py\<close>: health, readiness, the public
  key set, the discovery document, the pages and the assets. Starlette's file response for a file and a cache policy,
  its lookup of an asset and its 304 are arguments, as is \<^verbatim>\<open>email.utils.parsedate\<close>; a file response has an \<^verbatim>\<open>ETag\<close>.
\<close>

section \<open>Health and metadata\<close>

definition status_answer :: "nat \<Rightarrow> string \<Rightarrow> http_response" where
  "status_answer code status = ExpressJsonResponse [(lit ''status'', PStr (lit status))] code"

definition healthz :: "http_response route" where
  "healthz = retR (status_answer 200 ''ok'')"

text \<open>Whatever the check raises means not ready.\<close>

definition readyz :: "(world, bool) act \<Rightarrow> http_response route" where
  "readyz readiness_check w =
     (case readiness_check w of
        (Inr True, w') \<Rightarrow> (Inr (status_answer 200 ''ok''), w')
      | (_, w') \<Rightarrow> (Inr (status_answer 503 ''unavailable''), w'))"

definition runtime_ready :: "bool \<Rightarrow> (world, unit) act \<Rightarrow> (world, bool) act" where
  "runtime_ready opened database_ping =
     (if \<not> opened then retA False
      else bindA database_ping (\<lambda>_. bindA (in_redis redis_ping) (\<lambda>_. retA True)))"

record system_settings =
  ss_jwt_issuer :: pystr
  ss_public_jwk :: pydict

definition metadata_answer :: "pydict \<Rightarrow> http_response" where
  "metadata_answer content = set_header ''cache-control'' (lit ''public, max-age=300'') (ExpressJsonResponse content 200)"

definition jwks :: "system_settings \<Rightarrow> http_response route" where
  "jwks settings = retR (metadata_answer [(lit ''keys'', PList [PDict (ss_public_jwk settings)])])"

definition ACCESS_TOKEN_CLAIMS :: "string list" where
  "ACCESS_TOKEN_CLAIMS = [''sub'', ''iss'', ''aud'', ''exp'', ''iat'', ''roles'', ''email'', ''email_verified'', ''name'', ''type'']"

text \<open>\<^verbatim>\<open>urljoin\<close> of an absolute path to an HTTP address, which the settings require.\<close>

definition urljoin_path :: "url_env \<Rightarrow> pystr \<Rightarrow> pystr \<Rightarrow> exn + pystr" where
  "urljoin_path E base path =
     (case urlsplit E base of
        None \<Rightarrow> Inl (ValueError (lit ''invalid URL''))
      | Some b \<Rightarrow> Inr (urlunsplit (b\<lparr>url_path := path, url_query := [], url_fragment := []\<rparr>)))"

definition openid_configuration :: "url_env \<Rightarrow> system_settings \<Rightarrow> http_response route" where
  "openid_configuration E settings =
     (case urljoin_path E (ss_jwt_issuer settings) (lit ''/.well-known/jwks.json'') of
        Inl e \<Rightarrow> raiseR (Unhandled e)
      | Inr jwks_uri \<Rightarrow> retR (metadata_answer
          [(lit ''issuer'', PStr (ss_jwt_issuer settings)), (lit ''jwks_uri'', PStr jwks_uri),
           (lit ''subject_types_supported'', PList [PStr (lit ''public'')]),
           (lit ''response_types_supported'', PList [PStr (lit ''code'')]),
           (lit ''claims_supported'', PList (map (\<lambda>c. PStr (lit c)) ACCESS_TOKEN_CLAIMS))]))"

section \<open>Files\<close>

record file_env =
  fe_page :: "string \<Rightarrow> string \<Rightarrow> http_response"
  fe_asset :: "service_request \<Rightarrow> string \<Rightarrow> route_error + http_response"
  fe_not_modified :: "headers \<Rightarrow> http_response"
  fe_parsedate :: "pystr \<Rightarrow> int list option"

definition without_weak :: "pystr \<Rightarrow> pystr" where
  "without_weak s = (if is_prefix (lit ''W/'') s then drop 2 s else s)"

definition tuple_le :: "int list \<Rightarrow> int list \<Rightarrow> bool" where
  "tuple_le a b \<longleftrightarrow> a = b \<or> (a, b) \<in> lexord {(x, y). x < y}"

definition is_not_modified :: "(pystr \<Rightarrow> int list option) \<Rightarrow> headers \<Rightarrow> headers \<Rightarrow> bool" where
  "is_not_modified parsedate response_headers request_headers =
     (let by_date =
        (case (header_get request_headers ''if-modified-since'', header_get response_headers ''last-modified'') of
           (Some since, Some modified) \<Rightarrow>
             (case (parsedate since, parsedate modified) of (Some s, Some m) \<Rightarrow> tuple_le m s | _ \<Rightarrow> False)
         | _ \<Rightarrow> False)
      in case header_get request_headers ''if-none-match'' of
           None \<Rightarrow> by_date
         | Some if_none_match \<Rightarrow>
             if if_none_match = [] then by_date
             else (let candidates = map py_strip (py_split_on 44 if_none_match) in
                   if lit ''*'' \<in> set candidates then True
                   else (case header_get response_headers ''etag'' of
                           None \<Rightarrow> False | Some etag \<Rightarrow> etag \<in> set (map without_weak candidates))))"

definition conditional_response :: "file_env \<Rightarrow> headers \<Rightarrow> http_response \<Rightarrow> http_response" where
  "conditional_response V request_headers response =
     (if is_not_modified (fe_parsedate V) (hr_headers response) request_headers then fe_not_modified V (hr_headers response)
      else response)"

definition html_response :: "file_env \<Rightarrow> string \<Rightarrow> service_request \<Rightarrow> http_response route" where
  "html_response V filename request =
     retR (conditional_response V (sq_headers request) (fe_page V filename ''public, max-age=0''))"

definition ASSET_CACHE_CONTROL :: string where
  "ASSET_CACHE_CONTROL = ''public, max-age=3600, immutable''"

definition immutable_static_files :: "file_env \<Rightarrow> service_request \<Rightarrow> http_response route" where
  "immutable_static_files V request =
     (if py_endswith (sq_path request) (lit ''/'') then raiseR (HTTPException 404)
      else (case fe_asset V request ASSET_CACHE_CONTROL of
              Inl e \<Rightarrow> raiseR e
            | Inr response \<Rightarrow> retR (conditional_response V (sq_headers request) response)))"

section \<open>The table\<close>

definition PORTAL_PATHS :: "string list" where
  "PORTAL_PATHS = [''/'', ''/login'', ''/signup'', ''/auth/callback'', ''/password-reset'', ''/verify-email'']"

definition DASHBOARD_PATHS :: "string list" where
  "DASHBOARD_PATHS = [''/admin/dashboard'', ''/manage/dashboard'']"

definition system_rows :: "url_env \<Rightarrow> system_settings \<Rightarrow> file_env \<Rightarrow> (world, bool) act \<Rightarrow> row list" where
  "system_rows E settings V readiness_check =
     map (\<lambda>(p, h). fixed_row [''GET'', ''HEAD''] (lit p) h)
       ([(''/healthz'', \<lambda>_. healthz), (''/readyz'', \<lambda>_. readyz readiness_check), (''/.well-known/jwks.json'', \<lambda>_. jwks settings),
         (''/.well-known/openid-configuration'', \<lambda>_. openid_configuration E settings)]
        @ map (\<lambda>p. (p, html_response V ''auth-portal.html'')) PORTAL_PATHS
        @ map (\<lambda>p. (p, html_response V ''admin-dashboard.html'')) DASHBOARD_PATHS)"

text \<open>The mount takes every method.\<close>

definition asset_row :: "file_env \<Rightarrow> row" where
  "asset_row V = (\<lambda>_. True, lit ''/assets/{path:path}'', \<lambda>_. immutable_static_files V)"

end
