(* ===== verification/Service_App.thy ===== *)
theory Service_App
  imports System_Routes Admin_Answers
begin

text \<open>
  \<^verbatim>\<open>create_app\<close> of \<^verbatim>\<open>main.py\<close> with the runtime's services: the routers in their order, the asset mount, the
  exception handlers and the middlewares around them. Starlette's matching of templates, its reading of the query and
  FastAPI's reading of the body are arguments.
\<close>

section \<open>The application\<close>

record 'q app_env =
  av_router :: router
  av_query :: "nat list \<Rightarrow> (pystr \<times> pystr) list"
  av_body :: "headers \<Rightarrow> message list \<Rightarrow> body"
  av_floats :: "'q float_ops"
  av_admin :: admin_env
  av_files :: file_env
  av_settings :: system_settings
  av_ready :: "(world, bool) act"

definition request_of :: "'q app_env \<Rightarrow> http_scope \<Rightarrow> message list \<Rightarrow> service_request" where
  "request_of V sc ms =
     \<lparr>sq_method = sc_method sc, sq_path = sc_path sc, sq_query = av_query V (sc_query_string sc), sq_headers = sc_headers sc,
      sq_client = sc_client sc, sq_body = av_body V (sc_headers sc) ms, sq_original_decoded_path = http_scope.sc_original_decoded_path sc,
      sq_admin_path_params = http_scope.sc_admin_path_params sc\<rparr>"

definition service_rows :: "'q app_env \<Rightarrow> AuthService \<Rightarrow> runtime \<Rightarrow> JwtTokenCodec \<Rightarrow> row list" where
  "service_rows V S R C =
     system_rows (ae_url (rt_env R)) (av_settings V) (av_files V) (av_ready V)
     @ auth_rows S R @ user_rows S R @ oauth_rows S R (av_floats V)
     @ admin_rows C R (av_admin V) ''/admin'' @ admin_rows C R (av_admin V) ''/manage-api'' @ [asset_row (av_files V)]"

definition routed :: "'q app_env \<Rightarrow> row list \<Rightarrow> app" where
  "routed V rows sc ms w = Some (error_handlers (dispatch (av_router V) rows (request_of V sc ms)) w)"

definition service_app ::
  "'z body_env \<Rightarrow> 'q app_env \<Rightarrow> AuthService \<Rightarrow> runtime \<Rightarrow> JwtTokenCodec \<Rightarrow> pystr list \<Rightarrow> pystr list \<Rightarrow> app" where
  "service_app B V S R C origins sources = service_stack B S R origins sources (routed V (service_rows V S R C))"

section \<open>Every limited route is counted\<close>

definition limited :: "pystr \<Rightarrow> pystr \<Rightarrow> bool" where
  "limited meth path \<longleftrightarrow> (meth, path) \<in> set (map (\<lambda>(m, p). (lit m, lit p)) RATE_LIMITED_AUTH_ROUTES)"

lemma limited_public: "limited meth path \<Longrightarrow> canonical_public (ascii_lower (without_slash path)) = Some path \<and> ascii_lower (without_slash path) = path"
proof -
  have "list_all (\<lambda>(m, p). canonical_public (ascii_lower (without_slash (lit p))) = Some (lit p)
      \<and> ascii_lower (without_slash (lit p)) = lit p) RATE_LIMITED_AUTH_ROUTES" by code_simp
  then show "limited meth path \<Longrightarrow> canonical_public (ascii_lower (without_slash path)) = Some path \<and> ascii_lower (without_slash path) = path"
    by (auto simp: limited_def list_all_iff)
qed

lemma is_prefix_extends: "is_prefix p s \<Longrightarrow> \<exists>t. s = p @ t"
  by (induction p s rule: is_prefix.induct) auto

lemma limited_auth: "limited meth path \<Longrightarrow> \<exists>t. path = lit ''/auth/'' @ t"
proof -
  have "list_all (\<lambda>(m, p). is_prefix (lit ''/auth/'') (lit p)) RATE_LIMITED_AUTH_ROUTES" by code_simp
  then show "limited meth path \<Longrightarrow> \<exists>t. path = lit ''/auth/'' @ t"
    using is_prefix_extends by (fastforce simp: limited_def list_all_iff)
qed

lemma admin_not_auth:
  assumes "canonical_admin_path False path = Some p"
  shows "p \<noteq> lit ''/auth/'' @ t"
proof
  assume p: "p = lit ''/auth/'' @ t"
  from admin_start [OF assms] obtain prefix c t1 t2 d where prefix: "47 \<notin> set prefix" "admin_prefix prefix"
    "p = 47 # ascii_lower prefix @ 47 # d # t2" by blast
  from prefix(2) have len: "length prefix \<noteq> 4"
    by (auto simp: admin_prefix_def same_word_def lit_def dest!: arg_cong [where f = length])
  have a: "takeWhile (\<lambda>c. c \<noteq> 47) (ascii_lower prefix @ 47 # d # t2) = ascii_lower prefix"
    using prefix(1) by (subst takeWhile_append2) (auto simp: ascii_lower_def ascii_lower_char_slash)
  have b: "takeWhile (\<lambda>c. c \<noteq> 47) (tl (lit ''/auth/'' @ t)) = lit ''auth''" by (simp add: lit_def)
  have "tl p = ascii_lower prefix @ 47 # d # t2" by (simp only: prefix(3) list.sel)
  then have "tl (lit ''/auth/'' @ t) = ascii_lower prefix @ 47 # d # t2" by (simp only: p)
  with a b have "ascii_lower prefix = lit ''auth''" by simp
  then have "length (ascii_lower prefix) = 4" by (simp add: lit_def)
  then have "length prefix = 4" by simp
  with len show False by simp
qed

lemma rewritten_limited:
  assumes "rewrite_path sc (raw_path sc) = Inr sc2" "limited (sc_method sc2) (sc_path sc2)"
  shows "rate_limited sc"
proof -
  let ?raw = "without_slash (raw_path sc)"
  have counted: "rate_limited sc \<longleftrightarrow> limited (sc_method sc) (ascii_lower ?raw)" by (simp add: rate_limited_def limited_def)
  obtain t where auth: "sc_path sc2 = lit ''/auth/'' @ t" using limited_auth [OF assms(2)] by blast
  show ?thesis
  proof (cases "canonical_public (ascii_lower ?raw)")
    case (Some c)
    then have "c = ascii_lower ?raw" using canonical_public_Some [OF Some] by simp
    with Some assms show ?thesis unfolding counted by (auto simp: rewrite_path_def with_path_def Let_def split: if_splits)
  next
    case None
    show ?thesis
    proof (cases "canonical_admin_path False ?raw")
      case (Some a)
      then show ?thesis using assms(1) None auth admin_not_auth
        by (auto simp: rewrite_path_def with_path_def Let_def split: if_splits option.splits)
    next
      case admin: None
      then show ?thesis using assms None auth limited_public [OF assms(2)]
        by (auto simp: rewrite_path_def with_path_def Let_def lit_def split: if_splits)
    qed
  qed
qed

text \<open>Two applications that agree on everything but the limited routes.\<close>

definition agree_unlimited :: "app \<Rightarrow> app \<Rightarrow> bool" where
  "agree_unlimited routes routes' \<longleftrightarrow> (\<forall>sc ms w. \<not> limited (sc_method sc) (sc_path sc) \<longrightarrow> routes sc ms w = routes' sc ms w)"

definition same_request :: "http_scope \<Rightarrow> http_scope \<Rightarrow> bool" where
  "same_request sc sc' \<longleftrightarrow> same_target sc sc' \<and> sc_method sc' = sc_method sc"

lemma validated_same_request:
  assumes "\<And>sc' ms' w'. same_request sc sc' \<Longrightarrow> k sc' ms' w' = k' sc' ms' w'"
  shows "validated_json B sc ms k w = validated_json B sc ms k' w"
  using assms by (auto simp: validated_json_def same_request_def same_target_def split: option.split json_receive.split)

lemma rate_limited_same: "same_request sc sc' \<Longrightarrow> rate_limited sc' = rate_limited sc"
  unfolding same_request_def rate_limited_def using same_target_raw [of sc sc'] by (simp del: set_map)

lemma unlimited_agrees:
  assumes "agree_unlimited routes routes'" "\<not> rate_limited sc"
  shows "service_stack B S R origins sources routes sc ms w = service_stack B S R origins sources routes' sc ms w"
proof -
  have route: "(case rewrite_path sc' (raw_path sc) of Inl e \<Rightarrow> Some (RaisedBefore e, w') | Inr sc2 \<Rightarrow> routes sc2 ms' w')
      = (case rewrite_path sc' (raw_path sc) of Inl e \<Rightarrow> Some (RaisedBefore e, w') | Inr sc2 \<Rightarrow> routes' sc2 ms' w')"
    if "same_request sc sc'" for sc' ms' w'
  proof (cases "rewrite_path sc' (raw_path sc)")
    case (Inr sc2)
    have "raw_path sc' = raw_path sc" using that by (simp add: same_request_def same_target_raw)
    then have "\<not> limited (sc_method sc2) (sc_path sc2)"
      using rewritten_limited [of sc' sc2] Inr rate_limited_same [OF that] assms(2) by auto
    then show ?thesis using Inr assms(1) by (simp add: agree_unlimited_def)
  qed simp
  let ?sc = "sc\<lparr>http_scope.sc_original_path := Some (raw_path sc), http_scope.sc_original_decoded_path := Some (sc_path sc)\<rparr>"
  have base: "same_request sc ?sc" by (simp add: same_request_def same_target_def)
  have "same_request sc sc'" if "same_request ?sc sc'" for sc' using that base by (simp add: same_request_def same_target_def)
  note route' = route [OF this]
  have "known_path_compatibility B routes sc ms w = known_path_compatibility B routes' sc ms w"
    unfolding known_path_compatibility_def Let_def
    by (intro if_cong refl validated_same_request) (simp_all only: route [OF base] route')
  then have "auth_rate_limit B S R (known_path_compatibility B routes) sc ms w
      = auth_rate_limit B S R (known_path_compatibility B routes') sc ms w" using assms(2) by (simp add: auth_rate_limit_def)
  then have "generic_error (auth_rate_limit B S R (known_path_compatibility B routes)) sc ms w
      = generic_error (auth_rate_limit B S R (known_path_compatibility B routes')) sc ms w"
    by (simp add: generic_error_def)
  then show ?thesis by (simp only: service_stack_def security_headers_def express_cors_def)
qed

text \<open>The rows with another handler for every limited route.\<close>

definition rehandled :: "handler \<Rightarrow> row list \<Rightarrow> row list" where
  "rehandled h rows = map (\<lambda>(ms, template, g). (ms, template,
     \<lambda>ps request. if limited (sq_method request) template then h ps request else g ps request)) rows"

lemma find_rehandled: "find (full_match M request) (rehandled h rows)
    = map_option (\<lambda>(ms, template, g). (ms, template, \<lambda>ps request. if limited (sq_method request) template then h ps request else g ps request))
        (find (full_match M request) rows)"
  by (induction rows) (auto simp: rehandled_def full_match_def path_matches_def)

lemma rehandled_agrees:
  assumes "\<And>template path ps. 123 \<notin> set template \<Longrightarrow> av_router V template path = Some ps \<Longrightarrow> path = template"
  shows "agree_unlimited (routed V rows) (routed V (rehandled h rows))"
  unfolding agree_unlimited_def
proof (intro allI impI)
  fix sc :: http_scope and ms w
  assume free: "\<not> limited (sc_method sc) (sc_path sc)"
  let ?rq = "request_of V sc ms"
  have rq: "sq_method ?rq = sc_method sc" "sq_path ?rq = sc_path sc" by (simp_all add: request_of_def)
  have no: "\<not> limited (sc_method sc) template" if "full_match (av_router V) ?rq (mm, template, g)" for mm template g
  proof
    assume l: "limited (sc_method sc) template"
    have "list_all (\<lambda>(m, p). 123 \<notin> set (lit p)) RATE_LIMITED_AUTH_ROUTES" by code_simp
    with l have "123 \<notin> set template" by (auto simp: limited_def list_all_iff)
    moreover from that obtain ps where "av_router V template (sc_path sc) = Some ps"
      by (auto simp: full_match_def path_matches_def rq)
    ultimately show False using assms l free by metis
  qed
  have "list_ex (path_matches (av_router V) ?rq) (rehandled h rows) = list_ex (path_matches (av_router V) ?rq) rows"
    by (induction rows) (auto simp: rehandled_def path_matches_def)
  moreover have "mm (sc_method sc) \<and> \<not> limited (sc_method sc) template"
    if "find (full_match (av_router V) ?rq) rows = Some (mm, template, g)" for mm template g
  proof -
    from that have "full_match (av_router V) ?rq (mm, template, g)" by (auto simp: find_Some_iff)
    then show ?thesis using no [of mm template g] by (auto simp: full_match_def rq)
  qed
  ultimately have "dispatch (av_router V) rows ?rq = dispatch (av_router V) (rehandled h rows) ?rq"
    by (cases "find (full_match (av_router V) ?rq) rows") (auto simp: dispatch_def find_rehandled rq)
  then show "routed V rows sc ms w = routed V (rehandled h rows) sc ms w" by (simp add: routed_def)
qed


section \<open>A final newline\<close>

text \<open>A router whose patterns end like those of \<^verbatim>\<open>re\<close>, before an optional final newline.\<close>

definition line_router :: router where
  "line_router template path = (if path = template \<or> path = template @ [10] then Some [] else None)"

definition newline_login :: http_scope where
  "newline_login = sample_scope\<lparr>sc_method := lit ''POST'', sc_path := lit ''/auth/login'' @ [10],
     sc_raw_path := Some (lit ''/auth/login%0A''), sc_headers := []\<rparr>"

lemma newline_not_counted:
  "sc_path newline_login = unquote (surrogateescape (lit ''/auth/login%0A'')) \<and> \<not> rate_limited newline_login
   \<and> rewrite_path newline_login (raw_path newline_login) = Inr newline_login
   \<and> line_router (lit ''/auth/login'') (sc_path newline_login) = Some []"
  by code_simp

definition exact_router :: router where
  "exact_router template path = (if path = template then Some [] else None)"

definition sample_files :: file_env where
  "sample_files = \<lparr>fe_page = \<lambda>_ _. empty_response 200, fe_asset = \<lambda>_ _. Inl (HTTPException 404),
     fe_not_modified = \<lambda>_. empty_response 304, fe_parsedate = \<lambda>_. None\<rparr>"

definition sample_app_env :: "int app_env" where
  "sample_app_env = \<lparr>av_router = exact_router, av_query = \<lambda>_. [], av_body = \<lambda>_ _. NoBody, av_floats = integer_floats,
     av_admin = sample_admin_env, av_files = sample_files,
     av_settings = \<lparr>ss_jwt_issuer = lit ''https://w.co'', ss_public_jwk = []\<rparr>, av_ready = runtime_ready True (retA ())\<rparr>"


end
