(* ===== verification/Ops_Cleanup.thy ===== *)
theory Ops_Cleanup
  imports Admin_Inputs
begin

text \<open>
  The maintenance commands \<^verbatim>\<open>ops/audit_cleanup.py\<close> and \<^verbatim>\<open>ops/refresh_cleanup.py\<close>: their arguments, their cutoffs and
  what they delete. All configuration errors are subclasses of \<^verbatim>\<open>ValueError\<close> and are told apart by their message.
\<close>

section \<open>Arguments\<close>

text \<open>The loop all commands share: flags, and one option that takes a value, apart or after an equals sign.\<close>

fun option_loop ::
  "(pystr \<Rightarrow> ('o \<Rightarrow> 'o) option) \<Rightarrow> string \<Rightarrow> (pystr \<Rightarrow> 'o \<Rightarrow> exn + 'o) \<Rightarrow> (pystr \<Rightarrow> exn) \<Rightarrow> 'o \<Rightarrow> pystr list \<Rightarrow> exn + 'o" where
  "option_loop flag name assign unknown opts [] = Inr opts"
| "option_loop flag name assign unknown opts (a # rest) =
     (case flag a of
        Some f \<Rightarrow> option_loop flag name assign unknown (f opts) rest
      | None \<Rightarrow>
          if a = lit name then
            (case rest of
               [] \<Rightarrow> Inl (ValueError (lit name @ lit '' requires a value''))
             | v # rest' \<Rightarrow>
                 if v = [] then Inl (ValueError (lit name @ lit '' requires a value''))
                 else (case assign v opts of Inl e \<Rightarrow> Inl e | Inr opts' \<Rightarrow> option_loop flag name assign unknown opts' rest'))
          else if is_prefix (lit name @ [61]) a then
            (case assign (drop (length name + 1) a) opts of Inl e \<Rightarrow> Inl e | Inr opts' \<Rightarrow> option_loop flag name assign unknown opts' rest)
          else Inl (unknown a))"

definition unknown_option :: "pystr \<Rightarrow> exn" where
  "unknown_option a = ValueError (lit ''Unknown option: '' @ a)"

definition bad_retention :: exn where
  "bad_retention = ValueError (lit ''retentionDays must be a positive integer'')"

definition coerce_positive_js_integer :: "date_env \<Rightarrow> pystr \<Rightarrow> exn + int" where
  "coerce_positive_js_integer D v =
     (case coerce_js_integer D v of Some n \<Rightarrow> if n < 1 then Inl bad_retention else Inr n | None \<Rightarrow> Inl bad_retention)"

section \<open>Audit retention\<close>

record AuditRetentionCleanupOptions =
  aro_execute :: bool
  aro_retention_days :: int

definition audit_parse_args :: "date_env \<Rightarrow> pystr list \<Rightarrow> exn + AuditRetentionCleanupOptions" where
  "audit_parse_args D argv =
     option_loop (\<lambda>a. if a = lit ''--execute'' then Some (\<lambda>opts. opts\<lparr>aro_execute := True\<rparr>) else None)
       ''--retention-days''
       (\<lambda>v opts. bindE (coerce_positive_js_integer D v) (\<lambda>n. Inr (opts\<lparr>aro_retention_days := n\<rparr>)))
       unknown_option \<lparr>aro_execute = False, aro_retention_days = DEFAULT_AUDIT_RETENTION_DAYS\<rparr> argv"

definition audit_cleanup ::
  "runtime \<Rightarrow> AuditRetentionCleanupOptions \<Rightarrow> int option \<Rightarrow> (world, AuditRetentionCleanupResult) act" where
  "audit_cleanup R opts now =
     bindA (now_or_clock R now) (\<lambda>t.
     bindA (liftA (audit_retention_cutoff t (aro_retention_days opts))) (\<lambda>cutoff.
     bindA (in_transaction (if aro_execute opts then delete_older_than cutoff else count_older_than cutoff)) (\<lambda>n.
     retA \<lparr>arc_cutoff = cutoff, arc_deleted_count = n, arc_dry_run = \<not> aro_execute opts,
           arc_retention_days = aro_retention_days opts\<rparr>)))"

section \<open>Refresh tokens\<close>

record RefreshTokenCleanupOptions =
  rto_dry_run :: bool
  rto_retention_days :: int

record RefreshTokenCleanupResult =
  rtr_cutoff :: int
  rtr_deleted_count :: nat
  rtr_dry_run :: bool
  rtr_retention_days :: int

text \<open>\<^verbatim>\<open>timedelta\<close> and \<^verbatim>\<open>datetime\<close> raise beyond their ranges.\<close>

definition days_before :: "int \<Rightarrow> int \<Rightarrow> exn + int" where
  "days_before now days =
     (if 999999999 < days \<or> now - days * 86400000 < DATETIME_MIN then Inl OverflowError else Inr (now - days * 86400000))"

definition eligible :: "int \<Rightarrow> RefreshRow \<Rightarrow> bool" where
  "eligible cutoff r \<longleftrightarrow> r_expiresAt r < cutoff \<or> (case r_revokedAt r of None \<Rightarrow> False | Some t \<Rightarrow> t < cutoff)"

definition count_eligible :: "int \<Rightarrow> (db, nat) tx" where
  "count_eligible cutoff = readT (\<lambda>d. count_rows (eligible cutoff) (t_refreshes d))"

definition delete_eligible :: "int \<Rightarrow> (db, nat) tx" where
  "delete_eligible cutoff = delete_refreshes (eligible cutoff)"

definition cleanup_refresh_tokens ::
  "runtime \<Rightarrow> RefreshTokenCleanupOptions \<Rightarrow> int option \<Rightarrow> (world, RefreshTokenCleanupResult) act" where
  "cleanup_refresh_tokens R opts now =
     (if rto_retention_days opts < 1 then raiseA bad_retention
      else bindA (now_or_clock R now) (\<lambda>t.
           bindA (liftA (days_before t (rto_retention_days opts))) (\<lambda>cutoff.
           bindA (in_transaction (if rto_dry_run opts then count_eligible cutoff else delete_eligible cutoff)) (\<lambda>n.
           retA \<lparr>rtr_cutoff = cutoff, rtr_deleted_count = n, rtr_dry_run = rto_dry_run opts,
                 rtr_retention_days = rto_retention_days opts\<rparr>))))"

definition refresh_parse_args :: "date_env \<Rightarrow> pystr list \<Rightarrow> pystr option \<Rightarrow> exn + RefreshTokenCleanupOptions" where
  "refresh_parse_args D argv setting =
     bindE (coerce_positive_js_integer D (case setting of Some v \<Rightarrow> v | None \<Rightarrow> lit ''30'')) (\<lambda>days.
     option_loop (\<lambda>a. if a = lit ''--dry-run'' then Some (\<lambda>opts. opts\<lparr>rto_dry_run := True\<rparr>) else None)
       ''--retention-days''
       (\<lambda>v opts. bindE (coerce_positive_js_integer D v) (\<lambda>n. Inr (opts\<lparr>rto_retention_days := n\<rparr>)))
       unknown_option \<lparr>rto_dry_run = False, rto_retention_days = days\<rparr> argv)"

section \<open>No usable session is cleaned up\<close>

text \<open>A run of the refresh token cleanup that succeeds removes only tokens that expired or were revoked before its
  cutoff, at least a day ago: every session that is still usable, and every token of the last day, stays. It reports
  how many it removed, a dry run reports the same number and removes nothing, and nothing else changes.\<close>

theorem refresh_cleanup_spares_sessions:
  assumes "cleanup_refresh_tokens R opts (Some now) w = (Inr result, w')"
  shows "rtr_cutoff result = now - rto_retention_days opts * 86400000 \<and> 1 \<le> rto_retention_days opts
    \<and> rtr_deleted_count result = length (filter (eligible (rtr_cutoff result)) (t_refreshes (w_db w)))
    \<and> w_db w' = (if rto_dry_run opts then w_db w
        else (w_db w)\<lparr>t_refreshes := filter (\<lambda>r. \<not> eligible (rtr_cutoff result) r) (t_refreshes (w_db w))\<rparr>)
    \<and> (\<forall>r \<in> set (t_refreshes (w_db w)). r \<notin> set (t_refreshes (w_db w')) \<longrightarrow>
        r_expiresAt r < now - 86400000 \<or> (\<exists>t. r_revokedAt r = Some t \<and> t < now - 86400000))"
proof -
  let ?cutoff = "now - rto_retention_days opts * 86400000"
  from assms have days: "1 \<le> rto_retention_days opts"
    and run: "(if rto_dry_run opts then count_eligible ?cutoff else delete_eligible ?cutoff) (w_db w)
      = Inr (rtr_deleted_count result, w_db w')"
    and cutoff: "rtr_cutoff result = ?cutoff"
    by (auto simp: cleanup_refresh_tokens_def act_iffs now_or_clock_def days_before_def split: if_splits)
  have early: "?cutoff \<le> now - 86400000" using days by simp
  have gone: "r_expiresAt r < now - 86400000 \<or> (\<exists>t. r_revokedAt r = Some t \<and> t < now - 86400000)" if "eligible ?cutoff r" for r
    using that early by (auto simp: eligible_def split: option.splits)
  have after: "w_db w' = (if rto_dry_run opts then w_db w
        else (w_db w)\<lparr>t_refreshes := filter (\<lambda>r. \<not> eligible ?cutoff r) (t_refreshes (w_db w))\<rparr>)"
    and removed: "rtr_deleted_count result = length (filter (eligible ?cutoff) (t_refreshes (w_db w)))"
    using run by (auto simp: count_eligible_def delete_eligible_def delete_refreshes_def readT_def count_rows_def split: if_splits)
  show ?thesis using days gone by (auto simp: cutoff after removed)
qed

definition stale_session :: RefreshRow where
  "stale_session = \<lparr>r_id = lit ''t9'', r_tokenHash = lit ''h9'', r_userId = lit ''u1'', r_expiresAt = 5, r_revokedAt = None,
     r_createdAt = 1, r_audience = lit ''w''\<rparr>"

lemma refresh_cleanup_spares_sessions_witness:
  "\<exists>result w'. cleanup_refresh_tokens sample_runtime \<lparr>rto_dry_run = False, rto_retention_days = 1\<rparr> (Some 100000000)
       (sample_services (sample_admin_db\<lparr>t_refreshes := [stale_session]\<rparr>)) = (Inr result, w')
     \<and> rtr_deleted_count result = 1 \<and> t_refreshes (w_db w') = []"
proof -
  let ?w = "sample_services (sample_admin_db\<lparr>t_refreshes := [stale_session]\<rparr>)"
  let ?opts = "\<lparr>rto_dry_run = False, rto_retention_days = 1\<rparr>"
  have "case fst (cleanup_refresh_tokens sample_runtime ?opts (Some 100000000) ?w) of Inr x \<Rightarrow> True | Inl e \<Rightarrow> False" by code_simp
  then obtain result w' where run: "cleanup_refresh_tokens sample_runtime ?opts (Some 100000000) ?w = (Inr result, w')"
    by (cases "cleanup_refresh_tokens sample_runtime ?opts (Some 100000000) ?w") (auto split: sum.splits)
  from refresh_cleanup_spares_sessions [OF run]
  have "rtr_deleted_count result = 1 \<and> t_refreshes (w_db w') = []"
    by (simp add: sample_services_def eligible_def stale_session_def)
  with run show ?thesis by blast
qed

end
