(* ===== verification/Ops_Accounts.thy ===== *)
theory Ops_Accounts
  imports Ops_Cleanup
begin

text \<open>
  The account commands \<^verbatim>\<open>ops/first_admin.py\<close> and \<^verbatim>\<open>ops/default_role_backfill.py\<close>: each is one transaction. The
  identifiers a transaction draws are numbered by their call sites; \<^verbatim>\<open>md5\<close> is the database's function.
\<close>

section \<open>The first administrator\<close>

record GrantFirstAdminInput =
  gfi_email :: pystr
  gfi_now :: "int option"

record GrantFirstAdminResult =
  gfr_user_id :: pystr
  gfr_role_assigned :: bool
  gfr_revoked_refresh_token_count :: nat

definition ops_normalize_email :: "(pystr \<Rightarrow> pystr) \<Rightarrow> pystr \<Rightarrow> exn + pystr" where
  "ops_normalize_email uni s =
     (let email = py_lower uni (py_strip s) in
      if EMAIL_fullmatch email then Inr email else Inl (ValueError (lit ''Invalid email'')))"

definition find_active_user_by_email :: "pystr \<Rightarrow> (db, pystr option) tx" where
  "find_active_user_by_email email = readT (\<lambda>d.
     map_option u_id (find (\<lambda>u. u_email u = Some email \<and> u_status u = ACTIVE) (t_users d)))"

definition upsert_admin_role :: "pystr \<Rightarrow> (db, AdminRoleProfile) tx" where
  "upsert_admin_role i = upsert_role i (lit ''temis'') (lit ''admin'')"

definition create_bootstrap_audit :: "pystr \<Rightarrow> pystr \<Rightarrow> pystr \<Rightarrow> pystr \<Rightarrow> int \<Rightarrow> (db, unit) tx" where
  "create_bootstrap_audit i user_id service_key granted created_at =
     insert_audit
       \<lparr>a_id = i, a_userId = Some user_id, a_eventType = lit ''admin_user_role_assigned'',
        a_outcome = lit ''success'', a_provider = None, a_serviceKey = None, a_ipAddress = None,
        a_userAgent = None, a_reasonCode = Some (lit ''OPS_BOOTSTRAP_ADMIN''), a_createdAt = created_at,
        a_actorUserId = None, a_targetUserId = Some user_id,
        a_detailsJson = PDict [(lit ''serviceKey'', PStr service_key), (lit ''roleName'', PStr granted)]\<rparr>"

definition provision_first_admin ::
  "(nat \<Rightarrow> pystr) \<Rightarrow> pystr \<Rightarrow> int \<Rightarrow> (db, GrantFirstAdminResult) tx" where
  "provision_first_admin u email revoked_at =
     bindT (find_active_user_by_email email) (\<lambda>found.
     case found of
       None \<Rightarrow> raiseT (ValueError (lit ''No active user found''))
     | Some user_id \<Rightarrow>
         bindT (upsert_admin_role (u 0)) (\<lambda>role.
         bindT (insert_user_role_if_absent \<lparr>l_id = u 1, l_userId = user_id, l_roleId = arp_id role\<rparr>) (\<lambda>n.
         bindT (revoke_all_refresh_tokens_for_user user_id revoked_at) (\<lambda>revoked.
         bindT (create_bootstrap_audit (u 2) user_id (arp_service_key role) (arp_name role) revoked_at) (\<lambda>_.
         retT \<lparr>gfr_user_id = user_id, gfr_role_assigned = (n = 1),
               gfr_revoked_refresh_token_count = revoked\<rparr>)))))"

definition grant_first_admin :: "runtime \<Rightarrow> GrantFirstAdminInput \<Rightarrow> (world, GrantFirstAdminResult) act" where
  "grant_first_admin R input =
     bindA (liftA (ops_normalize_email (rt_lower R) (gfi_email input))) (\<lambda>email.
     bindA (now_or_clock R (gfi_now input)) (\<lambda>revoked_at.
     bindA (application_uuids R) (\<lambda>u.
     in_transaction (provision_first_admin u email revoked_at))))"

text \<open>The last address given counts; it is checked once the arguments are read.\<close>

definition admin_parse_args :: "(pystr \<Rightarrow> pystr) \<Rightarrow> pystr list \<Rightarrow> exn + GrantFirstAdminInput" where
  "admin_parse_args uni argv =
     bindE (option_loop (\<lambda>_. None) ''--email'' (\<lambda>v _. Inr (Some v)) unknown_option None argv) (\<lambda>email.
     case email of
       None \<Rightarrow> Inl (ValueError (lit ''--email is required''))
     | Some e \<Rightarrow>
         if e = [] then Inl (ValueError (lit ''--email is required''))
         else bindE (ops_normalize_email uni e) (\<lambda>email. Inr \<lparr>gfi_email = email, gfi_now = None\<rparr>))"

section \<open>Default roles\<close>

record DefaultRoleBackfillResult =
  drb_default_role :: DefaultRole
  drb_assigned_user_role_count :: nat

definition roleless :: "db \<Rightarrow> UserRow \<Rightarrow> bool" where
  "roleless d u \<longleftrightarrow> \<not> list_ex (\<lambda>l. l_userId l = u_id u) (t_user_roles d)"

text \<open>The rows are selected before the first is inserted.\<close>

definition roleless_rows :: "(pystr \<Rightarrow> pystr) \<Rightarrow> pystr \<Rightarrow> db \<Rightarrow> UserRoleRow list" where
  "roleless_rows md5 role_id d =
     map (\<lambda>u. \<lparr>l_id = lit ''default-role-'' @ md5 (u_id u @ role_id), l_userId = u_id u, l_roleId = role_id\<rparr>)
       (filter (roleless d) (t_users d))"

fun insert_missing_roles :: "UserRoleRow list \<Rightarrow> (db, nat) tx" where
  "insert_missing_roles [] = retT 0"
| "insert_missing_roles (r # rs) =
     bindT (insert_user_role_if_absent r) (\<lambda>n. bindT (insert_missing_roles rs) (\<lambda>m. retT (n + m)))"

definition roleless_assignment_statement :: "(pystr \<Rightarrow> pystr) \<Rightarrow> pystr \<Rightarrow> (db, nat) tx" where
  "roleless_assignment_statement md5 role_id = bindT (readT (roleless_rows md5 role_id)) insert_missing_roles"

text \<open>\<^verbatim>\<open>Result.one\<close> raises when the role is not there.\<close>

definition backfill :: "(pystr \<Rightarrow> pystr) \<Rightarrow> (nat \<Rightarrow> pystr) \<Rightarrow> DefaultRole \<Rightarrow> (db, nat) tx" where
  "backfill md5 u default_role =
     bindT (seed_role (u 0) (lit ''temis'') (lit ''pending'')) (\<lambda>_.
     bindT (seed_role (u 1) (lit ''temis'') (lit ''user'')) (\<lambda>_.
     bindT (seed_role (u 2) (lit ''temis'') (lit ''admin'')) (\<lambda>_.
     bindT (seed_role (u 3) (dr_service_key default_role) (dr_name default_role)) (\<lambda>_.
     bindT (find_role (dr_service_key default_role) (dr_name default_role)) (\<lambda>row.
     case row of
       None \<Rightarrow> raiseT (RuntimeError (lit ''No row was found when one was required''))
     | Some role \<Rightarrow> roleless_assignment_statement md5 (arp_id role))))))"

definition backfill_default_roles ::
  "runtime \<Rightarrow> (pystr \<Rightarrow> pystr) \<Rightarrow> DefaultRole \<Rightarrow> (world, DefaultRoleBackfillResult) act" where
  "backfill_default_roles R md5 default_role =
     (if dr_service_key default_role \<noteq> lit ''temis'' \<or> dr_name default_role \<notin> {lit ''pending'', lit ''user''}
      then raiseA (ValueError (lit ''Invalid TEMIS default role''))
      else bindA (application_uuids R) (\<lambda>u.
           bindA (in_transaction (backfill md5 u default_role)) (\<lambda>n.
           retA \<lparr>drb_default_role = default_role, drb_assigned_user_role_count = n\<rparr>)))"

definition backfill_parse_args :: "pystr list \<Rightarrow> exn + unit" where
  "backfill_parse_args argv =
     (if argv \<noteq> [] then Inl (ValueError (lit ''backfill-default-roles does not accept arguments'')) else Inr ())"

section \<open>What the commands change\<close>

lemma insert_user_role_if_absent_Inr:
  "insert_user_role_if_absent r d = Inr (n, d') \<longleftrightarrow>
     (if \<exists>s \<in> set (t_user_roles d). l_userId s = l_userId r \<and> l_roleId s = l_roleId r then n = 0 \<and> d' = d
      else n = 1 \<and> \<not> taken user_role_keys r (t_user_roles d) \<and> user_exists d (l_userId r) \<and> role_exists d (l_roleId r)
        \<and> d' = d\<lparr>t_user_roles := t_user_roles d @ [r]\<rparr>)"
  by (auto simp: insert_user_role_if_absent_def bindT_Inr_iff readT_def retT_def insert_user_role_def checked_Inr)

lemma insert_role_if_absent_Inr:
  assumes "insert_role_if_absent r d = Inr (n, d')"
  shows "\<exists>new. d' = d\<lparr>t_roles := t_roles d @ new\<rparr>
    \<and> (\<exists>s \<in> set (t_roles d'). o_serviceKey s = o_serviceKey r \<and> o_name s = o_name r)"
proof (cases "\<exists>s \<in> set (t_roles d). o_serviceKey s = o_serviceKey r \<and> o_name s = o_name r")
  case True
  with assms have "d' = d" by (auto simp: insert_role_if_absent_def bindT_Inr_iff readT_def retT_def)
  with True show ?thesis by (intro exI [of _ "[]"]) simp
next
  case False
  with assms have "d' = d\<lparr>t_roles := t_roles d @ [r]\<rparr>"
    by (auto simp: insert_role_if_absent_def bindT_Inr_iff readT_def retT_def insert_role_def checked_Inr)
  then show ?thesis by (intro exI [of _ "[r]"]) simp
qed

lemma find_role_Inr: "find_role k n d = Inr (found, d') \<longleftrightarrow>
    d' = d \<and> found = map_option role_profile (find (\<lambda>r. o_serviceKey r = k \<and> o_name r = n) (t_roles d))"
  by (auto simp: find_role_def readT_def)

lemma find_Some_role: "find P xs = Some x \<Longrightarrow> x \<in> set xs \<and> P x"
  by (induction xs) (auto split: if_splits)

text \<open>Inserting an association for users that have none inserts every row.\<close>

lemma insert_missing_roles_Inr:
  assumes "insert_missing_roles rs d = Inr (n, d')" "distinct (map l_userId rs)"
    and "\<And>r s. r \<in> set rs \<Longrightarrow> s \<in> set (t_user_roles d) \<Longrightarrow> l_userId s \<noteq> l_userId r"
  shows "n = length rs \<and> d' = d\<lparr>t_user_roles := t_user_roles d @ rs\<rparr>"
  using assms
proof (induction rs arbitrary: d n)
  case Nil
  then show ?case by (simp add: retT_def)
next
  case (Cons r rs)
  from Cons.prems(1) obtain n1 d1 m where first: "insert_user_role_if_absent r d = Inr (n1, d1)"
    and tail: "insert_missing_roles rs d1 = Inr (m, d')" and n: "n = n1 + m"
    by (auto simp: bindT_Inr_iff retT_def)
  have "\<not> (\<exists>s \<in> set (t_user_roles d). l_userId s = l_userId r \<and> l_roleId s = l_roleId r)"
    using Cons.prems(3) by force
  with first have d1: "n1 = 1" "d1 = d\<lparr>t_user_roles := t_user_roles d @ [r]\<rparr>"
    by (simp_all add: insert_user_role_if_absent_Inr)
  have "m = length rs \<and> d' = d1\<lparr>t_user_roles := t_user_roles d1 @ rs\<rparr>"
    using Cons.prems(2,3) by (intro Cons.IH [OF tail]) (auto simp: d1(2))
  then show ?case by (simp add: d1 n)
qed

lemma roleless_assignment_Inr:
  assumes "db_ok d" "roleless_assignment_statement md5 role_id d = Inr (n, d')"
  shows "n = length (filter (roleless d) (t_users d))
    \<and> d' = d\<lparr>t_user_roles := t_user_roles d @ roleless_rows md5 role_id d\<rparr>"
proof -
  have "distinct (map u_id (t_users d))"
    using db_okD(1) [OF assms(1)] by (simp add: uniq_all_def user_keys_def uniq_distinct)
  then have "distinct (map l_userId (roleless_rows md5 role_id d))"
    by (simp add: roleless_rows_def comp_def distinct_map_filter)
  moreover have "l_userId s \<noteq> l_userId r" if "r \<in> set (roleless_rows md5 role_id d)" "s \<in> set (t_user_roles d)" for r s
    using that by (auto simp: roleless_rows_def roleless_def list_ex_iff)
  ultimately show ?thesis
    using assms(2) insert_missing_roles_Inr [of "roleless_rows md5 role_id d" d n d']
    by (auto simp: roleless_assignment_statement_def bindT_Inr_iff readT_def roleless_rows_def)
qed

lemma keeps_ops [keeps_intros]:
  "keepsT db_ok (insert_missing_roles rs)"
  "keepsT db_ok (roleless_assignment_statement md5 i)"
  "keepsT db_ok (provision_first_admin u email t)"
proof -
  show missing: "keepsT db_ok (insert_missing_roles rs)" for rs
    by (induction rs) (simp_all add: keeps_intros)
  show "keepsT db_ok (roleless_assignment_statement md5 i)"
    unfolding roleless_assignment_statement_def by (intro keeps_intros missing)
  show "keepsT db_ok (provision_first_admin u email t)"
    unfolding provision_first_admin_def find_active_user_by_email_def upsert_admin_role_def create_bootstrap_audit_def
    by (intro keeps_intros)
qed

lemma keeps_seed_role [keeps_intros]: "keepsT db_ok (seed_role i k n)"
  unfolding seed_role_def by (intro keeps_intros)

lemma keeps_backfill [keeps_intros]: "keepsT db_ok (backfill md5 u r)"
  unfolding backfill_def by (intro keeps_intros)

definition role_there :: "pystr \<Rightarrow> pystr \<Rightarrow> db \<Rightarrow> bool" where
  "role_there k n d \<longleftrightarrow> (\<exists>s \<in> set (t_roles d). o_serviceKey s = k \<and> o_name s = n)"

definition adds_roles :: "db \<Rightarrow> db \<Rightarrow> bool" where
  "adds_roles d d' \<longleftrightarrow> (\<exists>new. d' = d\<lparr>t_roles := t_roles d @ new\<rparr>)"

lemma adds_roles_trans: "adds_roles d d1 \<Longrightarrow> adds_roles d1 d2 \<Longrightarrow> adds_roles d d2"
  unfolding adds_roles_def by force

lemma role_there_mono: "role_there k n d \<Longrightarrow> adds_roles d d' \<Longrightarrow> role_there k n d'"
  unfolding adds_roles_def role_there_def by force

lemma seed_role_adds:
  assumes "seed_role i k n d = Inr (x, d')"
  shows "adds_roles d d' \<and> role_there k n d'"
  using insert_role_if_absent_Inr [OF assms [unfolded seed_role_def]] unfolding adds_roles_def role_there_def by auto

lemma seed_role_present: "role_there k n d \<Longrightarrow> seed_role i k n d = Inr (0, d)"
  by (auto simp: role_there_def seed_role_def insert_role_if_absent_def bindT_def readT_def retT_def)

lemma seed_four:
  assumes "bindT (seed_role i1 k1 n1) (\<lambda>_. bindT (seed_role i2 k2 n2) (\<lambda>_. bindT (seed_role i3 k3 n3) (\<lambda>_.
      bindT (seed_role i4 k4 n4) (\<lambda>_. rest)))) d = Inr (n, d')"
  shows "\<exists>d4. adds_roles d d4 \<and> role_there k1 n1 d4 \<and> role_there k2 n2 d4 \<and> role_there k3 n3 d4 \<and> role_there k4 n4 d4
    \<and> (db_ok d \<longrightarrow> db_ok d4) \<and> rest d4 = Inr (n, d')"
proof -
  obtain x1 x2 x3 x4 d1 d2 d3 d4 where s1: "seed_role i1 k1 n1 d = Inr (x1, d1)" and s2: "seed_role i2 k2 n2 d1 = Inr (x2, d2)"
    and s3: "seed_role i3 k3 n3 d2 = Inr (x3, d3)" and s4: "seed_role i4 k4 n4 d3 = Inr (x4, d4)"
    and rest: "rest d4 = Inr (n, d')"
    using assms by (elim bindT_Inr_E) (rule that)
  note adds = seed_role_adds [OF s1] seed_role_adds [OF s2] seed_role_adds [OF s3] seed_role_adds [OF s4]
  have ok4: "db_ok d4" if "db_ok d"
    by (rule keepsTD [OF keeps_seed_role _ s4], rule keepsTD [OF keeps_seed_role _ s3],
        rule keepsTD [OF keeps_seed_role _ s2], rule keepsTD [OF keeps_seed_role that s1])
  have step3: "adds_roles d3 d4" using adds by simp
  have step2: "adds_roles d2 d4" by (rule adds_roles_trans [OF _ step3]) (use adds in simp)
  have step1: "adds_roles d1 d4" by (rule adds_roles_trans [OF _ step2]) (use adds in simp)
  have step0: "adds_roles d d4" by (rule adds_roles_trans [OF _ step1]) (use adds in simp)
  show ?thesis
    by (rule exI [of _ d4]) (use adds ok4 rest step0 role_there_mono [OF _ step1] role_there_mono [OF _ step2]
        role_there_mono [OF _ step3] in simp)
qed

lemma backfill_Inr:
  assumes "db_ok d" "backfill md5 u role d = Inr (n, d')"
  shows "\<exists>new r. d' = d\<lparr>t_roles := t_roles d @ new, t_user_roles := t_user_roles d @ roleless_rows md5 (o_id r) d\<rparr>
    \<and> n = length (filter (roleless d) (t_users d)) \<and> r \<in> set (t_roles d') \<and> o_serviceKey r = dr_service_key role
    \<and> o_name r = dr_name role \<and> role_there (lit ''temis'') (lit ''pending'') d' \<and> role_there (lit ''temis'') (lit ''user'') d'
    \<and> role_there (lit ''temis'') (lit ''admin'') d'"
proof -
  from seed_four [OF assms(2) [unfolded backfill_def]] assms(1) obtain d4 where step: "adds_roles d d4" and ok4: "db_ok d4"
    and there: "role_there (lit ''temis'') (lit ''pending'') d4" "role_there (lit ''temis'') (lit ''user'') d4"
      "role_there (lit ''temis'') (lit ''admin'') d4"
    and rest: "bindT (find_role (dr_service_key role) (dr_name role)) (\<lambda>row. case row of
        None \<Rightarrow> raiseT (RuntimeError (lit ''No row was found when one was required''))
      | Some role \<Rightarrow> roleless_assignment_statement md5 (arp_id role)) d4 = Inr (n, d')" by blast
  then obtain r where r: "find (\<lambda>r. o_serviceKey r = dr_service_key role \<and> o_name r = dr_name role) (t_roles d4) = Some r"
    and assign: "roleless_assignment_statement md5 (o_id r) d4 = Inr (n, d')"
    by (cases "find (\<lambda>r. o_serviceKey r = dr_service_key role \<and> o_name r = dr_name role) (t_roles d4)")
      (auto simp: bindT_def find_role_def readT_def raiseT_def role_profile_def)
  from step obtain new where d4: "d4 = d\<lparr>t_roles := t_roles d @ new\<rparr>" by (auto simp: adds_roles_def)
  have same: "roleless d4 = roleless d" "roleless_rows md5 i d4 = roleless_rows md5 i d" for i
    by (simp_all add: d4 roleless_def [abs_def] roleless_rows_def)
  from roleless_assignment_Inr [OF ok4 assign]
  have d': "d' = d\<lparr>t_roles := t_roles d @ new, t_user_roles := t_user_roles d @ roleless_rows md5 (o_id r) d\<rparr>"
    and n: "n = length (filter (roleless d) (t_users d))" by (simp_all only: same) (simp_all add: d4)
  have roles: "t_roles d' = t_roles d4" by (simp add: d' d4)
  then have "role_there k m d' = role_there k m d4" for k m by (simp add: role_there_def)
  with find_Some_role [OF r] there n d' roles show ?thesis by (intro exI [of _ new] exI [of _ r] conjI) simp_all
qed

lemma backfill_again:
  assumes "role_there (lit ''temis'') (lit ''pending'') d" "role_there (lit ''temis'') (lit ''user'') d"
    "role_there (lit ''temis'') (lit ''admin'') d" "role_there (dr_service_key role) (dr_name role) d"
    "\<And>u. u \<in> set (t_users d) \<Longrightarrow> \<not> roleless d u"
  shows "backfill md5 v role d = Inr (0, d)"
proof -
  from assms(4) obtain r where "find (\<lambda>r. o_serviceKey r = dr_service_key role \<and> o_name r = dr_name role) (t_roles d) = Some r"
    by (cases "find (\<lambda>r. o_serviceKey r = dr_service_key role \<and> o_name r = dr_name role) (t_roles d)")
      (auto simp: role_there_def find_None_iff)
  moreover have "roleless_rows md5 i d = []" for i
    using assms(5) by (auto simp: roleless_rows_def)
  ultimately show ?thesis
    by (simp add: backfill_def bindT_def seed_role_present assms(1-4) find_role_def readT_def
        roleless_assignment_statement_def retT_def)
qed

lemma backfill_named:
  assumes "backfill_default_roles R md5 role w = (Inr result, w')"
  shows "\<not> (dr_service_key role \<noteq> lit ''temis'' \<or> dr_name role \<notin> {lit ''pending'', lit ''user''})"
proof
  assume "dr_service_key role \<noteq> lit ''temis'' \<or> dr_name role \<notin> {lit ''pending'', lit ''user''}"
  from assms [unfolded backfill_default_roles_def if_P [OF this]] show False by (simp add: raiseA_def)
qed

lemma backfill_ran:
  assumes "backfill_default_roles R md5 role w = (Inr result, w')"
  obtains u where "backfill md5 u role (w_db w) = Inr (drb_assigned_user_role_count result, w_db w')"
  using assms [unfolded backfill_default_roles_def if_not_P [OF backfill_named [OF assms]]] that
  by (auto simp: act_iffs)

lemma after_backfill_everyone:
  assumes "d' = d\<lparr>t_roles := rs, t_user_roles := t_user_roles d @ roleless_rows md5 i d\<rparr>" "x \<in> set (t_users d')"
  shows "\<not> roleless d' x"
proof (cases "roleless d x")
  case True
  with assms have "\<exists>l \<in> set (roleless_rows md5 i d). l_userId l = u_id x"
    by (simp add: roleless_rows_def) blast
  with assms(1) show ?thesis by (auto simp: roleless_def list_ex_iff)
next
  case False
  with assms(1) show ?thesis by (auto simp: roleless_def list_ex_iff)
qed

lemma backfill_idle:
  assumes "\<not> (dr_service_key role \<noteq> lit ''temis'' \<or> dr_name role \<notin> {lit ''pending'', lit ''user''})"
    and "\<And>v. backfill md5 v role (w_db w) = Inr (0, w_db w)"
  shows "\<exists>w3. backfill_default_roles R md5 role w
    = (Inr \<lparr>drb_default_role = role, drb_assigned_user_role_count = 0\<rparr>, w3) \<and> w_db w3 = w_db w"
  unfolding backfill_default_roles_def if_not_P [OF assms(1)]
  by (simp add: bindA_def application_uuids_def in_transaction_simps assms(2) retA_def)

section \<open>The backfill gives every user a role, once\<close>

text \<open>C37. A run of the default role backfill that succeeds gives the default role to exactly the users that had no role
  and reports how many they were; whoever had a role keeps what they had, and nothing but roles is written. Then every
  user has a role, the constraints hold, and a second run, whatever its identifiers and its clock, assigns nothing and
  changes nothing.\<close>

theorem backfill_gives_roles:
  assumes "db_ok (w_db w)" "backfill_default_roles R md5 role w = (Inr result, w')"
  shows "drb_assigned_user_role_count result = length (filter (roleless (w_db w)) (t_users (w_db w)))
    \<and> (\<exists>new r links. w_db w' = (w_db w)\<lparr>t_roles := t_roles (w_db w) @ new, t_user_roles := t_user_roles (w_db w) @ links\<rparr>
        \<and> map (\<lambda>l. (l_userId l, l_roleId l)) links = map (\<lambda>u. (u_id u, o_id r)) (filter (roleless (w_db w)) (t_users (w_db w)))
        \<and> r \<in> set (t_roles (w_db w')) \<and> o_serviceKey r = dr_service_key role \<and> o_name r = dr_name role)
    \<and> (\<forall>u \<in> set (t_users (w_db w')). \<not> roleless (w_db w') u) \<and> db_ok (w_db w')
    \<and> (\<forall>R2 w2. w_db w2 = w_db w' \<longrightarrow> (\<exists>w3. backfill_default_roles R2 md5 role w2
          = (Inr \<lparr>drb_default_role = role, drb_assigned_user_role_count = 0\<rparr>, w3) \<and> w_db w3 = w_db w'))"
proof -
  let ?d = "w_db w" and ?d' = "w_db w'"
  obtain u where run: "backfill md5 u role ?d = Inr (drb_assigned_user_role_count result, ?d')"
    by (rule backfill_ran [OF assms(2)])
  obtain new r where
    d': "?d' = ?d\<lparr>t_roles := t_roles ?d @ new, t_user_roles := t_user_roles ?d @ roleless_rows md5 (o_id r) ?d\<rparr>"
    and n: "drb_assigned_user_role_count result = length (filter (roleless ?d) (t_users ?d))"
    and r: "r \<in> set (t_roles ?d')" "o_serviceKey r = dr_service_key role" "o_name r = dr_name role"
    and there: "role_there (lit ''temis'') (lit ''pending'') ?d'" "role_there (lit ''temis'') (lit ''user'') ?d'"
      "role_there (lit ''temis'') (lit ''admin'') ?d'"
    using backfill_Inr [OF assms(1) run] by (elim exE conjE) (rule that)
  have default: "role_there (dr_service_key role) (dr_name role) ?d'"
    unfolding role_there_def using r by blast
  have every: "\<And>x. x \<in> set (t_users ?d') \<Longrightarrow> \<not> roleless ?d' x" by (rule after_backfill_everyone [OF d'])
  have ok: "db_ok ?d'" by (rule keepsTD [OF keeps_backfill assms(1) run])
  have again: "backfill md5 v role ?d' = Inr (0, ?d')" for v by (rule backfill_again [OF there default every])
  have idle: "\<exists>w3. backfill_default_roles R2 md5 role w2
      = (Inr \<lparr>drb_default_role = role, drb_assigned_user_role_count = 0\<rparr>, w3) \<and> w_db w3 = ?d'" if "w_db w2 = ?d'" for R2 w2
    using backfill_idle [OF backfill_named [OF assms(2)], of md5 w2 R2] again by (simp only: that)
  have links: "map (\<lambda>l. (l_userId l, l_roleId l)) (roleless_rows md5 (o_id r) ?d)
      = map (\<lambda>u. (u_id u, o_id r)) (filter (roleless ?d) (t_users ?d))" by (simp add: roleless_rows_def)
  show ?thesis
    by (intro conjI n ballI allI impI every ok idle exI [of _ new] exI [of _ r] exI [of _ "roleless_rows md5 (o_id r) ?d"] d' links r)
qed

lemma backfill_gives_roles_witness:
  "\<exists>result w'. backfill_default_roles sample_runtime (\<lambda>x. x) DEFAULT_ROLE (sample_services sample_admin_db) = (Inr result, w')
     \<and> drb_assigned_user_role_count result = 1 \<and> \<not> roleless (w_db w') sample_user"
proof -
  let ?w = "sample_services sample_admin_db"
  have "case fst (backfill_default_roles sample_runtime (\<lambda>x. x) DEFAULT_ROLE ?w) of Inr x \<Rightarrow> True | Inl e \<Rightarrow> False" by code_simp
  then obtain result w' where run: "backfill_default_roles sample_runtime (\<lambda>x. x) DEFAULT_ROLE ?w = (Inr result, w')"
    by (cases "backfill_default_roles sample_runtime (\<lambda>x. x) DEFAULT_ROLE ?w") (auto split: sum.splits)
  have ok: "db_ok (w_db ?w)" by (simp add: sample_services_def sample_admin_db_ok)
  have one: "length (filter (roleless (w_db ?w)) (t_users (w_db ?w))) = 1" by code_simp
  from backfill_gives_roles [OF ok run]
  have n: "drb_assigned_user_role_count result = 1" and every: "\<forall>u \<in> set (t_users (w_db w')). \<not> roleless (w_db w') u"
    and users: "t_users (w_db w') = t_users (w_db ?w)" by (simp_all only: one) auto
  have "sample_user \<in> set (t_users (w_db w'))" by (simp add: users sample_service_defs)
  with run n every show ?thesis by blast
qed

section \<open>The first administrator\<close>

lemma upsert_role_Inr:
  assumes "upsert_role i k n d = Inr (role, d')"
  shows "\<exists>new r. d' = d\<lparr>t_roles := t_roles d @ new\<rparr> \<and> (\<forall>s \<in> set new. o_id s \<notin> o_id ` set (t_roles d))
    \<and> r \<in> set (t_roles d') \<and> arp_id role = o_id r \<and> o_serviceKey r = k \<and> o_name r = n"
proof -
  let ?r = "\<lparr>o_id = i, o_serviceKey = k, o_name = n\<rparr>"
  from assms obtain m where ins: "insert_role_if_absent ?r d = Inr (m, d')"
    and found: "map_option role_profile (find (\<lambda>r. o_serviceKey r = k \<and> o_name r = n) (t_roles d')) = Some role"
    by (auto simp: upsert_role_def bindT_Inr_iff find_role_Inr raiseT_def retT_def split: option.splits)
  from found obtain r where r: "r \<in> set (t_roles d')" "o_serviceKey r = k" "o_name r = n" "arp_id role = o_id r"
    by (auto simp: role_profile_def dest: find_Some_role)
  have "\<exists>new. d' = d\<lparr>t_roles := t_roles d @ new\<rparr> \<and> (\<forall>s \<in> set new. o_id s \<notin> o_id ` set (t_roles d))"
  proof (cases "\<exists>s \<in> set (t_roles d). o_serviceKey s = k \<and> o_name s = n")
    case True
    with ins have "d' = d" by (auto simp: insert_role_if_absent_def bindT_Inr_iff readT_def retT_def)
    then show ?thesis by (intro exI [of _ "[]"]) simp
  next
    case False
    with ins have "\<not> taken role_keys ?r (t_roles d)" "d' = d\<lparr>t_roles := t_roles d @ [?r]\<rparr>"
      by (auto simp: insert_role_if_absent_def bindT_Inr_iff readT_def retT_def insert_role_def checked_Inr)
    then show ?thesis by (intro exI [of _ "[?r]"]) (auto simp: taken_def role_keys_def)
  qed
  with r show ?thesis by blast
qed

lemma others_keep_roles:
  assumes "refs_ok d" "t_roles d' = t_roles d @ new" "\<forall>s \<in> set new. o_id s \<notin> o_id ` set (t_roles d)"
    and "filter (\<lambda>l. l_userId l \<noteq> i) (t_user_roles d') = filter (\<lambda>l. l_userId l \<noteq> i) (t_user_roles d)" "j \<noteq> i"
  shows "user_has_role d' j role = user_has_role d j role"
proof -
  have links: "l \<in> set (t_user_roles d') \<longleftrightarrow> l \<in> set (t_user_roles d)" if "l_userId l = j" for l
    using arg_cong [where f = set, OF assms(4)] that assms(5) by auto
  have "r \<in> set (t_roles d') \<longleftrightarrow> r \<in> set (t_roles d)" if "l \<in> set (t_user_roles d)" "o_id r = l_roleId l" for l r
    using that assms(1-3) by (auto simp: refs_ok_def role_exists_def)
  with links show ?thesis unfolding user_has_role_def by blast
qed

lemma provision_first_admin_Inr:
  assumes "provision_first_admin u email t d = Inr (result, d')"
  shows "\<exists>x new r links row. x \<in> set (t_users d) \<and> u_email x = Some email \<and> u_status x = ACTIVE \<and> u_id x = gfr_user_id result
    \<and> d' = d\<lparr>t_roles := t_roles d @ new, t_user_roles := t_user_roles d @ links,
        t_refreshes := update_rows (\<lambda>r. r_userId r = u_id x \<and> r_revokedAt r = None) (\<lambda>r. r\<lparr>r_revokedAt := Some t\<rparr>) (t_refreshes d),
        t_audits := t_audits d @ [row]\<rparr>
    \<and> (\<forall>s \<in> set new. o_id s \<notin> o_id ` set (t_roles d)) \<and> (\<forall>l \<in> set links. l_userId l = u_id x)
    \<and> r \<in> set (t_roles d') \<and> o_serviceKey r = lit ''temis'' \<and> o_name r = lit ''admin''
    \<and> (\<exists>l \<in> set (t_user_roles d'). l_userId l = u_id x \<and> l_roleId l = o_id r)
    \<and> a_targetUserId row = Some (u_id x) \<and> a_reasonCode row = Some (lit ''OPS_BOOTSTRAP_ADMIN'')"
proof -
  from assms obtain x where x: "x \<in> set (t_users d)" "u_email x = Some email" "u_status x = ACTIVE"
    and rest: "bindT (upsert_admin_role (u 0)) (\<lambda>role.
         bindT (insert_user_role_if_absent \<lparr>l_id = u 1, l_userId = u_id x, l_roleId = arp_id role\<rparr>) (\<lambda>n.
         bindT (revoke_all_refresh_tokens_for_user (u_id x) t) (\<lambda>revoked.
         bindT (create_bootstrap_audit (u 2) (u_id x) (arp_service_key role) (arp_name role) t) (\<lambda>_.
         retT \<lparr>gfr_user_id = u_id x, gfr_role_assigned = (n = 1), gfr_revoked_refresh_token_count = revoked\<rparr>)))) d
      = Inr (result, d')"
    by (auto simp: provision_first_admin_def find_active_user_by_email_def bindT_Inr_iff readT_def raiseT_def
        split: option.splits dest: find_Some_role)
  from rest obtain role d1 n d2 revoked d3 where up: "upsert_role (u 0) (lit ''temis'') (lit ''admin'') d = Inr (role, d1)"
    and ins: "insert_user_role_if_absent \<lparr>l_id = u 1, l_userId = u_id x, l_roleId = arp_id role\<rparr> d1 = Inr (n, d2)"
    and rev: "revoke_all_refresh_tokens_for_user (u_id x) t d2 = Inr (revoked, d3)"
    and audit: "create_bootstrap_audit (u 2) (u_id x) (arp_service_key role) (arp_name role) t d3 = Inr ((), d')"
    and result: "gfr_user_id result = u_id x"
    unfolding upsert_admin_role_def by (elim bindT_Inr_E) (auto simp: retT_def)
  from upsert_role_Inr [OF up] obtain new r where d1: "d1 = d\<lparr>t_roles := t_roles d @ new\<rparr>"
    and new: "\<forall>s \<in> set new. o_id s \<notin> o_id ` set (t_roles d)" and r: "r \<in> set (t_roles d1)" "arp_id role = o_id r"
      "o_serviceKey r = lit ''temis''" "o_name r = lit ''admin''" by (elim exE conjE) (rule that)
  let ?l = "\<lparr>l_id = u 1, l_userId = u_id x, l_roleId = arp_id role\<rparr>"
  have "\<exists>links. d2 = d1\<lparr>t_user_roles := t_user_roles d1 @ links\<rparr> \<and> (\<forall>l \<in> set links. l_userId l = u_id x)
      \<and> (\<exists>l \<in> set (t_user_roles d2). l_userId l = u_id x \<and> l_roleId l = o_id r)"
  proof (cases "\<exists>s \<in> set (t_user_roles d1). l_userId s = u_id x \<and> l_roleId s = arp_id role")
    case True
    with ins have "d2 = d1" by (simp add: insert_user_role_if_absent_Inr)
    with True r(2) show ?thesis by (intro exI [of _ "[]"]) simp
  next
    case False
    with ins have "d2 = d1\<lparr>t_user_roles := t_user_roles d1 @ [?l]\<rparr>" by (simp add: insert_user_role_if_absent_Inr)
    with r(2) show ?thesis by (intro exI [of _ "[?l]"]) simp
  qed
  then obtain links where d2: "d2 = d1\<lparr>t_user_roles := t_user_roles d1 @ links\<rparr>" and links: "\<forall>l \<in> set links. l_userId l = u_id x"
    and granted: "\<exists>l \<in> set (t_user_roles d2). l_userId l = u_id x \<and> l_roleId l = o_id r" by blast
  have "user_exists d2 (u_id x)" using x(1) by (simp add: d2 d1 user_exists_def)
  with rev have d3: "d3 = d2\<lparr>t_refreshes := update_rows (\<lambda>r. r_userId r = u_id x \<and> r_revokedAt r = None)
      (\<lambda>r. r\<lparr>r_revokedAt := Some t\<rparr>) (t_refreshes d2)\<rparr>"
    by (simp add: revoke_all_refresh_tokens_for_user_def lock_user_for_refresh_token_revocation_def bindT_def readT_def
        update_refreshes_def)
  from audit obtain row where d': "d' = d3\<lparr>t_audits := t_audits d3 @ [row]\<rparr>" and row: "a_targetUserId row = Some (u_id x)"
      "a_reasonCode row = Some (lit ''OPS_BOOTSTRAP_ADMIN'')"
    by (auto simp: create_bootstrap_audit_def insert_audit_def checked_Inr)
  show ?thesis
    by (rule exI [of _ x], rule exI [of _ new], rule exI [of _ r], rule exI [of _ links], rule exI [of _ row])
      (use x new links r granted row result in \<open>simp add: d' d3 d2 d1\<close>)
qed

lemma granted_roles:
  assumes "r \<in> set (t_roles d)" "o_serviceKey r = k" "o_name r = n"
    and "\<exists>l \<in> set (t_user_roles d). l_userId l = i \<and> l_roleId l = o_id r"
  shows "user_has_role d i (Some k, n)"
  using assms unfolding user_has_role_def by force

text \<open>C36. Granting the first administrator is all or nothing. When the command fails the database is as it was. When it
  succeeds, the user it names is active and has exactly the normalised address that was asked for; that user then holds
  \<^verbatim>\<open>temis:admin\<close> and has no session left that was not revoked, one audit row that names them and the reason is appended,
  and nobody else gains or loses a role or a session.\<close>

theorem first_admin_effect:
  assumes "db_ok (w_db w)" "grant_first_admin R input w = (result, w')"
  shows "case result of Inl e \<Rightarrow> w_db w' = w_db w
    | Inr granted \<Rightarrow> let d = w_db w; d' = w_db w'; i = gfr_user_id granted in
        (\<exists>x \<in> set (t_users d). u_id x = i \<and> u_status x = ACTIVE
           \<and> u_email x = Some (py_lower (rt_lower R) (py_strip (gfi_email input))))
        \<and> is_active_user d' i \<and> user_has_role d' i (Some (lit ''temis''), lit ''admin'')
        \<and> (\<forall>r \<in> set (t_refreshes d'). r_userId r = i \<longrightarrow> r_revokedAt r \<noteq> None)
        \<and> (\<exists>row. t_audits d' = t_audits d @ [row] \<and> a_targetUserId row = Some i
             \<and> a_reasonCode row = Some (lit ''OPS_BOOTSTRAP_ADMIN''))
        \<and> (\<forall>j role. j \<noteq> i \<longrightarrow> user_has_role d' j role = user_has_role d j role)
        \<and> filter (\<lambda>r. r_userId r \<noteq> i) (t_refreshes d') = filter (\<lambda>r. r_userId r \<noteq> i) (t_refreshes d)
        \<and> t_users d' = t_users d \<and> t_creds d' = t_creds d \<and> db_ok d'"
proof (cases result)
  case (Inl e)
  with assms(2) show ?thesis
    by (auto simp: grant_first_admin_def bindA_Inl_iff act_iffs in_transaction_Inl now_or_clock_def liftA_def split: option.splits)
next
  case (Inr granted)
  let ?d = "w_db w" and ?d' = "w_db w'" and ?i = "gfr_user_id granted"
  let ?email = "py_lower (rt_lower R) (py_strip (gfi_email input))"
  from assms(2) Inr obtain u t where run: "provision_first_admin u ?email t ?d = Inr (granted, ?d')"
    by (auto simp: grant_first_admin_def act_iffs ops_normalize_email_def now_or_clock_def Let_def split: if_splits option.splits)
  from provision_first_admin_Inr [OF run] obtain x new r links row where
    x: "x \<in> set (t_users ?d)" "u_email x = Some ?email" "u_status x = ACTIVE" "u_id x = ?i"
    and d': "?d' = ?d\<lparr>t_roles := t_roles ?d @ new, t_user_roles := t_user_roles ?d @ links,
        t_refreshes := update_rows (\<lambda>r. r_userId r = u_id x \<and> r_revokedAt r = None) (\<lambda>r. r\<lparr>r_revokedAt := Some t\<rparr>) (t_refreshes ?d),
        t_audits := t_audits ?d @ [row]\<rparr>"
    and new: "\<forall>s \<in> set new. o_id s \<notin> o_id ` set (t_roles ?d)" and links: "\<forall>l \<in> set links. l_userId l = u_id x"
    and r: "r \<in> set (t_roles ?d')" "o_serviceKey r = lit ''temis''" "o_name r = lit ''admin''"
    and link: "\<exists>l \<in> set (t_user_roles ?d'). l_userId l = u_id x \<and> l_roleId l = o_id r"
    and row: "a_targetUserId row = Some (u_id x)" "a_reasonCode row = Some (lit ''OPS_BOOTSTRAP_ADMIN'')"
    by (elim exE conjE) (rule that)
  have users: "t_users ?d' = t_users ?d" "t_creds ?d' = t_creds ?d" by (simp_all add: d')
  have named: "\<exists>x \<in> set (t_users ?d). u_id x = ?i \<and> u_status x = ACTIVE \<and> u_email x = Some ?email"
    using x by blast
  then have active: "is_active_user ?d' ?i" by (auto simp: is_active_user_def users)
  have admin: "user_has_role ?d' ?i (Some (lit ''temis''), lit ''admin'')"
    by (rule granted_roles [OF r link [unfolded x(4)]])
  have ended: "\<forall>r \<in> set (t_refreshes ?d'). r_userId r = ?i \<longrightarrow> r_revokedAt r \<noteq> None"
    by (auto simp: d' update_rows_def x(4))
  have audited: "\<exists>row. t_audits ?d' = t_audits ?d @ [row] \<and> a_targetUserId row = Some ?i
      \<and> a_reasonCode row = Some (lit ''OPS_BOOTSTRAP_ADMIN'')"
    by (rule exI [of _ row]) (use row x(4) in \<open>simp add: d'\<close>)
  have refs: "refs_ok ?d" using assms(1) by (simp add: db_ok_def)
  have "filter (\<lambda>l. l_userId l \<noteq> ?i) (t_user_roles ?d') = filter (\<lambda>l. l_userId l \<noteq> ?i) (t_user_roles ?d)"
    using links x(4) by (simp add: d' filter_empty_conv)
  moreover have "t_roles ?d' = t_roles ?d @ new" by (simp add: d')
  ultimately have others: "\<forall>j role. j \<noteq> ?i \<longrightarrow> user_has_role ?d' j role = user_has_role ?d j role"
    using others_keep_roles [OF refs _ new] by simp
  have sessions: "filter (\<lambda>r. r_userId r \<noteq> ?i) (t_refreshes ?d') = filter (\<lambda>r. r_userId r \<noteq> ?i) (t_refreshes ?d)"
    by (simp add: d' x(4)) (rule filter_update_rows_other; simp)
  have ok: "db_ok ?d'" by (rule keepsTD [OF keeps_ops(3) assms(1) run])
  show ?thesis
    unfolding Inr sum.case Let_def by (intro conjI named active admin ended audited others sessions users ok)
qed

lemma first_admin_effect_witness:
  "\<exists>granted w'. grant_first_admin sample_runtime \<lparr>gfi_email = lit '' A@b.co '', gfi_now = None\<rparr> (sample_services sample_admin_db)
      = (Inr granted, w') \<and> gfr_user_id granted = lit ''u1''
     \<and> user_has_role (w_db w') (lit ''u1'') (Some (lit ''temis''), lit ''admin'')"
proof -
  let ?w = "sample_services sample_admin_db" and ?in = "\<lparr>gfi_email = lit '' A@b.co '', gfi_now = None\<rparr>"
  have "case fst (grant_first_admin sample_runtime ?in ?w) of Inr x \<Rightarrow> gfr_user_id x = lit ''u1'' | Inl e \<Rightarrow> False" by code_simp
  then obtain granted w' where run: "grant_first_admin sample_runtime ?in ?w = (Inr granted, w')"
    and i: "gfr_user_id granted = lit ''u1''"
    by (cases "grant_first_admin sample_runtime ?in ?w") (auto split: sum.splits)
  have ok: "db_ok (w_db ?w)" by (simp add: sample_services_def sample_admin_db_ok)
  from first_admin_effect [OF ok run]
  have "user_has_role (w_db w') (lit ''u1'') (Some (lit ''temis''), lit ''admin'')" by (simp add: Let_def i)
  with run i show ?thesis by blast
qed

end
