(* ===== verification/Ops_Merge.thy ===== *)
theory Ops_Merge
  imports Ops_Accounts "HOL-Library.List_Lexorder"
begin

text \<open>
  \<^verbatim>\<open>ops/merge_split_identities.py\<close>: an account with a password and another with a Google identity for the same
  address become one. The query that discovers the candidates, its locked form that checks one again, the transaction
  that moves the password, the run over all candidates and the arguments. \<open>collate\<close> is the database's sort key of a
  text and \<open>db_clock\<close> its clock, which stamps the audit row.
\<close>

section \<open>Candidates\<close>

record SplitAccountCandidate =
  sac_email :: pystr
  sac_canonical_user_id :: pystr
  sac_password_user_id :: pystr
  sac_provider :: pystr
  sac_provider_user_id :: pystr

record MergeSplitIdentityOptions =
  mio_apply :: bool
  mio_email :: "pystr option"

record MergeSplitIdentityResult =
  mir_mode :: pystr
  mir_candidates :: "SplitAccountCandidate list"
  mir_merged_count :: nat
  mir_stale_count :: nat

text \<open>The joins and the conditions of \<^verbatim>\<open>_candidate_select\<close>; a social account without an address joins with none.\<close>

definition split_pair ::
  "(pystr \<Rightarrow> pystr) \<Rightarrow> pystr option \<Rightarrow> db \<Rightarrow> CredRow \<Rightarrow> SocialRow \<Rightarrow> UserRow \<Rightarrow> UserRow \<Rightarrow> bool" where
  "split_pair low email d pc sa cu pu \<longleftrightarrow>
     (case s_providerEmail sa of None \<Rightarrow> False | Some e \<Rightarrow> low e = low (c_email pc))
     \<and> u_id cu = s_userId sa \<and> u_id pu = c_userId pc
     \<and> s_provider sa = lit ''google'' \<and> s_userId sa \<noteq> c_userId pc
     \<and> u_status cu = ACTIVE \<and> u_emailVerified cu \<and> u_emailVerified pu
     \<and> \<not> list_ex (\<lambda>c. c_userId c = s_userId sa) (t_creds d)
     \<and> (case email of None \<Rightarrow> True | Some e \<Rightarrow> low (c_email pc) = low e)"

definition candidate_from :: "(pystr \<Rightarrow> pystr) \<Rightarrow> CredRow \<Rightarrow> SocialRow \<Rightarrow> SplitAccountCandidate" where
  "candidate_from low pc sa =
     \<lparr>sac_email = low (c_email pc), sac_canonical_user_id = s_userId sa, sac_password_user_id = c_userId pc,
      sac_provider = s_provider sa, sac_provider_user_id = s_providerUserId sa\<rparr>"

definition candidate_select ::
  "(pystr \<Rightarrow> pystr) \<Rightarrow> (pystr \<Rightarrow> pystr) \<Rightarrow> pystr option \<Rightarrow> db \<Rightarrow> SplitAccountCandidate list" where
  "candidate_select low collate email d =
     sort_key (\<lambda>c. collate (sac_email c))
       [candidate_from low pc sa. pc \<leftarrow> t_creds d, sa \<leftarrow> t_socials d, cu \<leftarrow> t_users d, pu \<leftarrow> t_users d,
          split_pair low email d pc sa cu pu]"

definition find_candidates ::
  "(pystr \<Rightarrow> pystr) \<Rightarrow> (pystr \<Rightarrow> pystr) \<Rightarrow> pystr option \<Rightarrow> (db, SplitAccountCandidate list) tx" where
  "find_candidates low collate email = readT (candidate_select low collate email)"

text \<open>The columns the locked statement compares are the columns of the candidate.\<close>

definition locked_candidates ::
  "(pystr \<Rightarrow> pystr) \<Rightarrow> (pystr \<Rightarrow> pystr) \<Rightarrow> SplitAccountCandidate \<Rightarrow> db \<Rightarrow> SplitAccountCandidate list" where
  "locked_candidates low collate c d =
     filter (\<lambda>x. sac_canonical_user_id x = sac_canonical_user_id c \<and> sac_password_user_id x = sac_password_user_id c
         \<and> sac_provider x = sac_provider c \<and> sac_provider_user_id x = sac_provider_user_id c \<and> sac_email x = sac_email c)
       (candidate_select low collate (Some (sac_email c)) d)"

section \<open>Statements with constraints\<close>

definition update_users_checked :: "(UserRow \<Rightarrow> bool) \<Rightarrow> (UserRow \<Rightarrow> UserRow) \<Rightarrow> (db, nat) tx" where
  "update_users_checked p f = (\<lambda>d.
     let us = update_rows p f (t_users d) in
     if uniq_all user_keys us then Inr (count_rows p (t_users d), d\<lparr>t_users := us\<rparr>) else Inl UNIQUE_VIOLATION)"

definition update_creds_checked :: "(CredRow \<Rightarrow> bool) \<Rightarrow> (CredRow \<Rightarrow> CredRow) \<Rightarrow> (db, nat) tx" where
  "update_creds_checked p f = (\<lambda>d.
     let cs = update_rows p f (t_creds d) in
     if \<not> uniq_all cred_keys cs then Inl UNIQUE_VIOLATION
     else if \<not> list_all (\<lambda>c. user_exists d (c_userId c)) cs then Inl FOREIGN_KEY_VIOLATION
     else Inr (count_rows p (t_creds d), d\<lparr>t_creds := cs\<rparr>))"

section \<open>One candidate\<close>

definition require_one_row :: "nat \<Rightarrow> string \<Rightarrow> (db, unit) tx" where
  "require_one_row rowcount operation =
     (if rowcount \<noteq> 1 then raiseT (RuntimeError (lit operation @ lit '' affected an unexpected row count'')) else retT ())"

definition merge_audit_row :: "pystr \<Rightarrow> SplitAccountCandidate \<Rightarrow> int \<Rightarrow> AuditRow" where
  "merge_audit_row i c stamped =
     \<lparr>a_id = i, a_userId = Some (sac_canonical_user_id c), a_eventType = lit ''identity_merge'',
      a_outcome = lit ''success'', a_provider = Some (sac_provider c), a_serviceKey = None, a_ipAddress = None,
      a_userAgent = None, a_reasonCode = Some (lit ''OPS_MERGE_SPLIT_EMAIL_IDENTITIES''), a_createdAt = stamped,
      a_actorUserId = None, a_targetUserId = Some (sac_password_user_id c),
      a_detailsJson = PDict [(lit ''email'', PStr (sac_email c)), (lit ''providerUserId'', PStr (sac_provider_user_id c)),
        (lit ''canonicalUserId'', PStr (sac_canonical_user_id c)),
        (lit ''mergedPasswordUserId'', PStr (sac_password_user_id c))]\<rparr>"

definition merge_writes :: "pystr \<Rightarrow> int \<Rightarrow> int \<Rightarrow> SplitAccountCandidate \<Rightarrow> (db, bool) tx" where
  "merge_writes audit_id updated_at stamped c =
     bindT (update_users_checked (\<lambda>u. u_id u = sac_password_user_id c)
              (\<lambda>u. u\<lparr>u_email := None, u_updatedAt := updated_at\<rparr>)) (\<lambda>n1.
     bindT (require_one_row n1 ''password user update'') (\<lambda>_.
     bindT (update_users_checked (\<lambda>u. u_id u = sac_canonical_user_id c)
              (\<lambda>u. u\<lparr>u_email := Some (sac_email c), u_emailVerified := True, u_updatedAt := updated_at\<rparr>)) (\<lambda>n2.
     bindT (require_one_row n2 ''canonical user update'') (\<lambda>_.
     bindT (update_creds_checked (\<lambda>r. c_userId r = sac_password_user_id c)
              (\<lambda>r. r\<lparr>c_userId := sac_canonical_user_id c, c_updatedAt := updated_at\<rparr>)) (\<lambda>n3.
     bindT (require_one_row n3 ''password credential update'') (\<lambda>_.
     bindT (insert_audit (merge_audit_row audit_id c stamped)) (\<lambda>_.
     bindT (delete_users (\<lambda>u. u_id u = sac_password_user_id c)) (\<lambda>n4.
     bindT (require_one_row n4 ''password user delete'') (\<lambda>_.
     retT True)))))))))"

text \<open>\<^verbatim>\<open>one_or_none\<close> raises on a second row.\<close>

definition merge_operation ::
  "(pystr \<Rightarrow> pystr) \<Rightarrow> (pystr \<Rightarrow> pystr) \<Rightarrow> pystr \<Rightarrow> int \<Rightarrow> int \<Rightarrow> SplitAccountCandidate \<Rightarrow> (db, bool) tx" where
  "merge_operation low collate audit_id updated_at stamped c =
     bindT (readT (locked_candidates low collate c)) (\<lambda>locked.
     if locked = [] then retT False
     else if tl locked \<noteq> [] then raiseT (RuntimeError (lit ''Multiple rows were found when one or none was required''))
     else merge_writes audit_id updated_at stamped c)"

definition merge_candidate ::
  "runtime \<Rightarrow> (pystr \<Rightarrow> pystr) \<Rightarrow> (nat \<Rightarrow> int) \<Rightarrow> SplitAccountCandidate \<Rightarrow> (world, bool) act" where
  "merge_candidate R collate db_clock c =
     bindA (application_uuids R) (\<lambda>u.
     bindA (utc_now_ms R) (\<lambda>updated_at.
     bindA (readA w_ticks) (\<lambda>tick.
     in_transaction (merge_operation (rt_db_lower R) collate (u 0) updated_at (db_clock tick) c))))"

section \<open>A run\<close>

fun merge_all ::
  "runtime \<Rightarrow> (pystr \<Rightarrow> pystr) \<Rightarrow> (nat \<Rightarrow> int) \<Rightarrow> nat \<Rightarrow> SplitAccountCandidate list \<Rightarrow> (world, nat) act" where
  "merge_all R collate db_clock merged_count [] = retA merged_count"
| "merge_all R collate db_clock merged_count (c # cs) =
     bindA (merge_candidate R collate db_clock c) (\<lambda>merged.
     merge_all R collate db_clock (if merged then merged_count + 1 else merged_count) cs)"

definition merge_split_identities ::
  "runtime \<Rightarrow> (pystr \<Rightarrow> pystr) \<Rightarrow> (nat \<Rightarrow> int) \<Rightarrow> MergeSplitIdentityOptions \<Rightarrow> (world, MergeSplitIdentityResult) act" where
  "merge_split_identities R collate db_clock options =
     bindA (in_transaction (find_candidates (rt_db_lower R) collate (mio_email options))) (\<lambda>candidates.
     if \<not> mio_apply options
     then retA \<lparr>mir_mode = lit ''dry-run'', mir_candidates = candidates, mir_merged_count = 0, mir_stale_count = 0\<rparr>
     else bindA (merge_all R collate db_clock 0 candidates) (\<lambda>merged_count.
          retA \<lparr>mir_mode = lit ''apply'', mir_candidates = candidates, mir_merged_count = merged_count,
                mir_stale_count = length candidates - merged_count\<rparr>))"

definition merge_parse_args :: "(pystr \<Rightarrow> pystr) \<Rightarrow> pystr list \<Rightarrow> exn + MergeSplitIdentityOptions" where
  "merge_parse_args uni argv =
     option_loop (\<lambda>a. if a = lit ''--apply'' then Some (\<lambda>opts. opts\<lparr>mio_apply := True\<rparr>) else None)
       ''--email''
       (\<lambda>v opts. bindE (ops_normalize_email uni v) (\<lambda>email. Inr (opts\<lparr>mio_email := Some email\<rparr>)))
       (\<lambda>_. ValueError (lit ''Unknown option'')) \<lparr>mio_apply = False, mio_email = None\<rparr> argv"

definition candidate_json :: "SplitAccountCandidate \<Rightarrow> pyval" where
  "candidate_json c =
     PDict [(lit ''email'', PStr (sac_email c)), (lit ''canonicalUserId'', PStr (sac_canonical_user_id c)),
       (lit ''passwordUserId'', PStr (sac_password_user_id c)), (lit ''provider'', PStr (sac_provider c)),
       (lit ''providerUserId'', PStr (sac_provider_user_id c))]"

definition merge_report :: "MergeSplitIdentityResult \<Rightarrow> pyval" where
  "merge_report r =
     (if mir_mode r = lit ''dry-run''
      then PDict [(lit ''mode'', PStr (lit ''dry-run'')), (lit ''count'', PInt (int (length (mir_candidates r)))),
             (lit ''candidates'', PList (map candidate_json (mir_candidates r)))]
      else PDict [(lit ''mode'', PStr (lit ''apply'')), (lit ''mergedCount'', PInt (int (mir_merged_count r))),
             (lit ''staleCount'', PInt (int (mir_stale_count r)))])"

section \<open>The constraints\<close>

lemma keeps_checked_updates [keeps_intros]:
  "(\<And>r. p r \<Longrightarrow> u_id (f r) = u_id r) \<Longrightarrow> keepsT db_ok (update_users_checked p f)"
  "keepsT db_ok (update_creds_checked q g)"
proof -
  assume same: "\<And>r. p r \<Longrightarrow> u_id (f r) = u_id r"
  show "keepsT db_ok (update_users_checked p f)"
    by (intro keepsTI) (auto simp: update_users_checked_def Let_def image_update_rows_same [where g = u_id] same
        intro!: db_ok_users_superset split: if_splits)
next
  show "keepsT db_ok (update_creds_checked q g)"
    by (intro keepsTI) (auto simp: update_creds_checked_def Let_def db_ok_upd list_all_iff split: if_splits)
qed

lemma keeps_merge [keeps_intros]:
  "keepsT db_ok (merge_writes i t s c)"
  "keepsT db_ok (merge_operation low collate i t s c)"
proof -
  show writes: "keepsT db_ok (merge_writes i t s c)"
    unfolding merge_writes_def require_one_row_def by (intro keeps_intros) simp_all
  show "keepsT db_ok (merge_operation low collate i t s c)"
    unfolding merge_operation_def by (intro keeps_intros writes)
qed

lemma keepsA_merge [keepsA_intros]:
  "keepsA db_ok (merge_candidate R collate db_clock c)"
  "keepsA db_ok (merge_all R collate db_clock n cs)"
proof -
  show one: "keepsA db_ok (merge_candidate R collate db_clock c)" for c
    unfolding merge_candidate_def by (intro keepsA_intros keeps_intros)
  show "keepsA db_ok (merge_all R collate db_clock n cs)"
    by (induction cs arbitrary: n) (auto intro!: keepsA_intros one)
qed

section \<open>What one merge does\<close>

lemma in_candidate_select: "x \<in> set (candidate_select low collate email d) \<longleftrightarrow>
    (\<exists>pc \<in> set (t_creds d). \<exists>sa \<in> set (t_socials d). \<exists>cu \<in> set (t_users d). \<exists>pu \<in> set (t_users d).
       split_pair low email d pc sa cu pu \<and> x = candidate_from low pc sa)"
  by (auto simp: candidate_select_def)

text \<open>The rows of two users, one of which disappears into the other.\<close>

definition merged_db :: "SplitAccountCandidate \<Rightarrow> int \<Rightarrow> AuditRow \<Rightarrow> db \<Rightarrow> db \<Rightarrow> bool" where
  "merged_db c t row d d' \<longleftrightarrow> (let P = sac_password_user_id c; C = sac_canonical_user_id c in
     t_users d' = filter (\<lambda>u. u_id u \<noteq> P) (update_rows (\<lambda>u. u_id u = C)
        (\<lambda>u. u\<lparr>u_email := Some (sac_email c), u_emailVerified := True, u_updatedAt := t\<rparr>) (t_users d))
     \<and> t_creds d' = update_rows (\<lambda>r. c_userId r = P) (\<lambda>r. r\<lparr>c_userId := C, c_updatedAt := t\<rparr>) (t_creds d)
     \<and> t_socials d' = filter (\<lambda>r. s_userId r \<noteq> P) (t_socials d)
     \<and> t_refreshes d' = filter (\<lambda>r. r_userId r \<noteq> P) (t_refreshes d)
     \<and> t_user_roles d' = filter (\<lambda>r. l_userId r \<noteq> P) (t_user_roles d)
     \<and> t_roles d' = t_roles d \<and> t_reservations d' = t_reservations d
     \<and> row \<in> set (t_audits d') \<and> length (t_audits d') = Suc (length (t_audits d)))"

lemma update_users_checked_Inr: "update_users_checked p f d = Inr (n, d') \<longleftrightarrow>
    uniq_all user_keys (update_rows p f (t_users d)) \<and> n = count_rows p (t_users d)
    \<and> d' = d\<lparr>t_users := update_rows p f (t_users d)\<rparr>"
  by (auto simp: update_users_checked_def Let_def)

lemma update_creds_checked_Inr: "update_creds_checked p f d = Inr (n, d') \<Longrightarrow>
    n = count_rows p (t_creds d) \<and> d' = d\<lparr>t_creds := update_rows p f (t_creds d)\<rparr>"
  by (auto simp: update_creds_checked_def Let_def split: if_splits)

lemma require_one_row_Inr: "require_one_row n op d = Inr (u, d') \<longleftrightarrow> n = 1 \<and> d' = d"
  by (auto simp: require_one_row_def raiseT_def retT_def)

lemma gone_user:
  assumes "count_rows (\<lambda>u. u_id u = i) us = 1"
  shows "u_id ` set (filter (\<lambda>u. u_id u = i) us) = {i}"
proof -
  from assms have "\<exists>x \<in> set us. u_id x = i"
    using count_rows_pos_iff [of "\<lambda>u. u_id u = i" us] by simp
  then show ?thesis by auto
qed

lemma filter_after_update:
  assumes "\<And>x. p x \<Longrightarrow> \<not> q x \<and> \<not> q (f x) \<and> \<not> r x \<and> \<not> r (f x)"
  shows "filter q (update_rows r g (update_rows p f xs)) = filter q (update_rows r g xs)"
  using assms by (induction xs) auto

lemma merge_writes_Inr:
  assumes "merge_writes i t stamped c d = Inr (m, d')" "sac_canonical_user_id c \<noteq> sac_password_user_id c"
  shows "m \<and> (\<exists>row. a_eventType row = lit ''identity_merge'' \<and> a_userId row = Some (sac_canonical_user_id c)
    \<and> merged_db c t row d d')"
proof -
  let ?P = "sac_password_user_id c" and ?C = "sac_canonical_user_id c"
  from assms(1) obtain n1 d1 n2 d2 n3 d3 d4 n4 where
    w1: "update_users_checked (\<lambda>u. u_id u = ?P) (\<lambda>u. u\<lparr>u_email := None, u_updatedAt := t\<rparr>) d = Inr (n1, d1)"
    and w2: "update_users_checked (\<lambda>u. u_id u = ?C)
      (\<lambda>u. u\<lparr>u_email := Some (sac_email c), u_emailVerified := True, u_updatedAt := t\<rparr>) d1 = Inr (n2, d2)"
    and w3: "update_creds_checked (\<lambda>r. c_userId r = ?P) (\<lambda>r. r\<lparr>c_userId := ?C, c_updatedAt := t\<rparr>) d2 = Inr (n3, d3)"
    and w4: "insert_audit (merge_audit_row i c stamped) d3 = Inr ((), d4)"
    and w5: "delete_users (\<lambda>u. u_id u = ?P) d4 = Inr (n4, d')" and n4: "n4 = 1" and m: "m"
    unfolding merge_writes_def by (elim bindT_Inr_E) (auto simp: require_one_row_Inr retT_def)
  let ?row = "merge_audit_row i c stamped"
  let ?kept = "?row\<lparr>a_userId := cleared {?P} (a_userId ?row), a_actorUserId := cleared {?P} (a_actorUserId ?row),
    a_targetUserId := cleared {?P} (a_targetUserId ?row)\<rparr>"
  from w1 have d1: "d1 = d\<lparr>t_users := update_rows (\<lambda>u. u_id u = ?P) (\<lambda>u. u\<lparr>u_email := None, u_updatedAt := t\<rparr>) (t_users d)\<rparr>"
    by (simp add: update_users_checked_Inr)
  from w2 have d2: "d2 = d1\<lparr>t_users := update_rows (\<lambda>u. u_id u = ?C)
      (\<lambda>u. u\<lparr>u_email := Some (sac_email c), u_emailVerified := True, u_updatedAt := t\<rparr>) (t_users d1)\<rparr>"
    by (simp add: update_users_checked_Inr)
  from update_creds_checked_Inr [OF w3]
  have d3: "d3 = d2\<lparr>t_creds := update_rows (\<lambda>r. c_userId r = ?P) (\<lambda>r. r\<lparr>c_userId := ?C, c_updatedAt := t\<rparr>) (t_creds d2)\<rparr>" by simp
  from w4 have d4: "d4 = d3\<lparr>t_audits := t_audits d3 @ [?row]\<rparr>" by (simp add: insert_audit_def checked_Inr)
  from w5 n4 have one: "count_rows (\<lambda>u. u_id u = ?P) (t_users d4) = 1" by (simp add: delete_users_def Let_def)
  have d': "d' = snd (n4, d')" by simp
  have users: "filter (\<lambda>u. u_id u \<noteq> ?P) (t_users d4) = filter (\<lambda>u. u_id u \<noteq> ?P) (update_rows (\<lambda>u. u_id u = ?C)
        (\<lambda>u. u\<lparr>u_email := Some (sac_email c), u_emailVerified := True, u_updatedAt := t\<rparr>) (t_users d))"
    by (simp add: d4 d3 d2 d1) (rule filter_after_update; use assms(2) in simp)
  have creds: "filter (\<lambda>r. c_userId r \<noteq> ?P) (t_creds d4)
      = update_rows (\<lambda>r. c_userId r = ?P) (\<lambda>r. r\<lparr>c_userId := ?C, c_updatedAt := t\<rparr>) (t_creds d)"
    using assms(2) by (simp add: d4 d3 d2 d1 filter_id_conv ball_update_rows)
  have "?kept \<in> set (t_audits d') \<and> length (t_audits d') = Suc (length (t_audits d)) \<and> t_users d' = filter (\<lambda>u. u_id u \<noteq> ?P) (t_users d4)
      \<and> t_creds d' = filter (\<lambda>r. c_userId r \<noteq> ?P) (t_creds d4) \<and> t_socials d' = filter (\<lambda>r. s_userId r \<noteq> ?P) (t_socials d)
      \<and> t_refreshes d' = filter (\<lambda>r. r_userId r \<noteq> ?P) (t_refreshes d) \<and> t_user_roles d' = filter (\<lambda>r. l_userId r \<noteq> ?P) (t_user_roles d)
      \<and> t_roles d' = t_roles d \<and> t_reservations d' = t_reservations d"
    using w5 unfolding delete_users_def Let_def gone_user [OF one] by (auto simp: d4 d3 d2 d1)
  with users creds have "merged_db c t ?kept d d'" by (simp add: merged_db_def Let_def)
  moreover have "a_eventType ?kept = lit ''identity_merge''" "a_userId ?kept = Some ?C"
    using assms(2) by (simp_all add: merge_audit_row_def cleared_def)
  ultimately show ?thesis using m by blast
qed

lemma candidate_in_lock:
  assumes "x \<in> set (locked_candidates low collate c d)"
  obtains pc sa cu pu where "pc \<in> set (t_creds d)" "sa \<in> set (t_socials d)" "cu \<in> set (t_users d)" "pu \<in> set (t_users d)"
    "split_pair low (Some (sac_email c)) d pc sa cu pu" "c = candidate_from low pc sa"
proof -
  from assms have x: "x \<in> set (candidate_select low collate (Some (sac_email c)) d)" and same: "x = c"
    by (auto simp: locked_candidates_def)
  from x obtain pc sa cu pu where "pc \<in> set (t_creds d)" "sa \<in> set (t_socials d)" "cu \<in> set (t_users d)" "pu \<in> set (t_users d)"
    "split_pair low (Some (sac_email c)) d pc sa cu pu" "x = candidate_from low pc sa"
    by (auto simp: in_candidate_select)
  with same that show ?thesis by blast
qed

lemma merge_operation_Inr:
  assumes "merge_operation low collate i t stamped c d = Inr (merged, d')"
  shows "if merged
    then \<exists>pc sa cu pu row. pc \<in> set (t_creds d) \<and> sa \<in> set (t_socials d) \<and> cu \<in> set (t_users d) \<and> pu \<in> set (t_users d)
      \<and> split_pair low (Some (sac_email c)) d pc sa cu pu \<and> c = candidate_from low pc sa
      \<and> a_eventType row = lit ''identity_merge'' \<and> a_userId row = Some (u_id cu) \<and> merged_db c t row d d'
    else d' = d"
proof (cases "locked_candidates low collate c d = []")
  case True
  with assms show ?thesis by (auto simp: merge_operation_def bindT_def readT_def retT_def)
next
  case False
  with assms have run: "merge_writes i t stamped c d = Inr (merged, d')"
    by (auto simp: merge_operation_def bindT_def readT_def raiseT_def split: if_splits)
  from False have "hd (locked_candidates low collate c d) \<in> set (locked_candidates low collate c d)" by simp
  then obtain pc sa cu pu where rows: "pc \<in> set (t_creds d)" "sa \<in> set (t_socials d)" "cu \<in> set (t_users d)" "pu \<in> set (t_users d)"
    and pair: "split_pair low (Some (sac_email c)) d pc sa cu pu" and c: "c = candidate_from low pc sa"
    by (rule candidate_in_lock)
  have ids: "sac_canonical_user_id c \<noteq> sac_password_user_id c" "sac_canonical_user_id c = u_id cu"
    using pair by (simp_all add: split_pair_def c candidate_from_def)
  from merge_writes_Inr [OF run ids(1)] obtain row where merged: "merged" and row: "a_eventType row = lit ''identity_merge''"
    "a_userId row = Some (u_id cu)" "merged_db c t row d d'" unfolding ids(2) by blast
  show ?thesis
    unfolding if_P [OF merged]
    by (intro exI [of _ pc] exI [of _ sa] exI [of _ cu] exI [of _ pu] exI [of _ row] conjI rows pair c row)
qed

lemma merge_candidate_run:
  assumes "merge_candidate R collate db_clock c w = (r, w')"
  shows "(case r of Inl e \<Rightarrow> w_db w' = w_db w
    | Inr merged \<Rightarrow> \<exists>i t stamped. merge_operation (rt_db_lower R) collate i t stamped c (w_db w) = Inr (merged, w_db w'))"
  using assms
  by (cases r) (auto simp: merge_candidate_def bindA_Inl_iff act_iffs in_transaction_Inl readA_def intro!: exI)

section \<open>A merge moves the password\<close>


text \<open>A database in which \<^verbatim>\<open>u1\<close> has the password and \<^verbatim>\<open>g1\<close> the Google identity of one address.\<close>

definition split_db :: db where
  "split_db = sample_db\<lparr>
     t_users := [sample_user, sample_user\<lparr>u_id := lit ''g1'', u_email := None\<rparr>],
     t_socials := [\<lparr>s_id = lit ''s1'', s_provider = lit ''google'', s_providerUserId = lit ''77'',
       s_providerEmail = Some (lit ''a@b.co''), s_userId = lit ''g1'', s_createdAt = 1\<rparr>]\<rparr>"

lemma split_db_ok: "db_ok split_db"
  by (simp add: db_ok_def keys_ok_def refs_ok_def sample_defs split_db_def empty_db_def uniq_all_def
      uniq_def key_defs user_exists_def role_exists_def lit_def)

definition split_candidate :: SplitAccountCandidate where
  "split_candidate = \<lparr>sac_email = lit ''a@b.co'', sac_canonical_user_id = lit ''g1'', sac_password_user_id = lit ''u1'',
     sac_provider = lit ''google'', sac_provider_user_id = lit ''77''\<rparr>"


section \<open>A run keeps every password\<close>

definition passwords :: "db \<Rightarrow> (pystr \<times> pystr \<times> pystr \<times> int \<times> int option) list" where
  "passwords d = map (\<lambda>p. (c_id p, c_email p, c_passwordHash p, c_failedLoginCount p, c_lockedUntil p)) (t_creds d)"

definition merged_times :: "nat \<Rightarrow> db \<Rightarrow> db \<Rightarrow> bool" where
  "merged_times n d d' \<longleftrightarrow> passwords d' = passwords d \<and> length (t_users d') + n = length (t_users d)
     \<and> length (t_audits d') = length (t_audits d) + n
     \<and> (\<forall>x \<in> set (t_users d'). \<exists>y \<in> set (t_users d). u_id y = u_id x \<and> u_status y = u_status x)"

lemma merged_times_0: "merged_times 0 d d"
  by (auto simp: merged_times_def)

lemma merged_times_add:
  assumes "merged_times m d d1" "merged_times n d1 d2"
  shows "merged_times (m + n) d d2"
proof -
  have "\<exists>y \<in> set (t_users d). u_id y = u_id x \<and> u_status y = u_status x" if "x \<in> set (t_users d2)" for x
    using assms that unfolding merged_times_def by metis
  with assms show ?thesis by (simp add: merged_times_def)
qed

lemma ids_kept: "(\<And>u. u_id (f u) = u_id u) \<Longrightarrow>
    map u_id (filter (\<lambda>u. u_id u \<noteq> i) (update_rows p f us)) = filter (\<lambda>j. j \<noteq> i) (map u_id us)"
  by (induction us) auto

lemma length_without:
  assumes "distinct xs" "x \<in> set xs"
  shows "length (filter (\<lambda>y. y \<noteq> x) xs) + 1 = length xs"
proof -
  have "length (filter (\<lambda>y. y = x) xs) = 1"
    using assms by (induction xs) (auto simp: filter_empty_conv)
  with sum_length_filter_compl [of "\<lambda>y. y = x" xs] show ?thesis by simp
qed

lemma merged_once:
  assumes "db_ok d" "merged_db c t row d d'" "user_exists d (sac_password_user_id c)"
  shows "merged_times 1 d d'"
proof -
  let ?P = "sac_password_user_id c"
  from assms(2) have users: "t_users d' = filter (\<lambda>u. u_id u \<noteq> ?P) (update_rows (\<lambda>u. u_id u = sac_canonical_user_id c)
        (\<lambda>u. u\<lparr>u_email := Some (sac_email c), u_emailVerified := True, u_updatedAt := t\<rparr>) (t_users d))"
    and creds: "t_creds d' = update_rows (\<lambda>r. c_userId r = ?P) (\<lambda>r. r\<lparr>c_userId := sac_canonical_user_id c, c_updatedAt := t\<rparr>) (t_creds d)"
    and audits: "length (t_audits d') = Suc (length (t_audits d))" by (simp_all add: merged_db_def Let_def)
  have "map u_id (t_users d') = filter (\<lambda>i. i \<noteq> ?P) (map u_id (t_users d))"
    unfolding users by (rule ids_kept) simp
  then have "length (t_users d') = length (filter (\<lambda>i. i \<noteq> ?P) (map u_id (t_users d)))" by (metis length_map)
  moreover have "distinct (map u_id (t_users d))"
    using db_okD(1) [OF assms(1)] by (simp add: uniq_all_def user_keys_def uniq_distinct)
  moreover have "?P \<in> set (map u_id (t_users d))" using assms(3) by (simp add: user_exists_def)
  ultimately have "length (t_users d') + 1 = length (t_users d)"
    using length_without [of "map u_id (t_users d)" ?P] by simp
  moreover have "passwords d' = passwords d"
    by (simp add: passwords_def creds map_update_rows_same)
  moreover have "\<forall>x \<in> set (t_users d'). \<exists>y \<in> set (t_users d). u_id y = u_id x \<and> u_status y = u_status x"
    by (auto simp: users in_update_rows)
  ultimately show ?thesis using audits by (simp add: merged_times_def)
qed

lemma merge_candidate_times:
  assumes "db_ok (w_db w)" "merge_candidate R collate db_clock c w = (r, w')"
  shows "merged_times (case r of Inr merged \<Rightarrow> if merged then 1 else 0 | Inl e \<Rightarrow> 0) (w_db w) (w_db w')"
proof (cases r)
  case (Inl e)
  with merge_candidate_run [OF assms(2)] show ?thesis by (simp add: merged_times_0)
next
  case (Inr merged)
  with merge_candidate_run [OF assms(2)] obtain i t stamped where
    run: "merge_operation (rt_db_lower R) collate i t stamped c (w_db w) = Inr (merged, w_db w')" by auto
  show ?thesis
  proof (cases merged)
    case False
    with merge_operation_Inr [OF run] Inr show ?thesis by (simp add: merged_times_0)
  next
    case True
    with merge_operation_Inr [OF run] obtain pc sa cu pu row where there: "pu \<in> set (t_users (w_db w))"
      and "split_pair (rt_db_lower R) (Some (sac_email c)) (w_db w) pc sa cu pu" "c = candidate_from (rt_db_lower R) pc sa"
      and merged: "merged_db c t row (w_db w) (w_db w')"
      by (simp only: if_True) (elim exE conjE, rule that)
    then have "sac_password_user_id c = u_id pu" by (simp add: candidate_from_def split_pair_def)
    with there have "user_exists (w_db w) (sac_password_user_id c)" by (simp add: user_exists_def)
    from merged_once [OF assms(1) merged this] Inr True show ?thesis by simp
  qed
qed

lemma merge_all_times:
  assumes "db_ok (w_db w)" "merge_all R collate db_clock n cs w = (r, w')"
  shows "\<exists>k \<le> length cs. merged_times k (w_db w) (w_db w') \<and> (case r of Inr m \<Rightarrow> m = n + k | Inl e \<Rightarrow> True)"
  using assms
proof (induction cs arbitrary: n w)
  case Nil
  then show ?case by (auto simp: retA_Inr merged_times_0)
next
  case (Cons c cs)
  obtain r1 w1 where one: "merge_candidate R collate db_clock c w = (r1, w1)" by (cases "merge_candidate R collate db_clock c w")
  note step = merge_candidate_times [OF Cons.prems(1) one]
  have ok1: "db_ok (w_db w1)" by (rule keepsAD [OF keepsA_merge(1) Cons.prems(1) one])
  show ?case
  proof (cases r1)
    case (Inl e)
    with Cons.prems(2) one have "r = Inl e" "w' = w1" by (simp_all add: bindA_def)
    with step Inl show ?thesis by (intro exI [of _ 0]) simp
  next
    case (Inr merged)
    let ?k = "if merged then 1 else 0 :: nat"
    from Inr Cons.prems(2) one have "merge_all R collate db_clock (n + ?k) cs w1 = (r, w')"
      by (auto simp: bindA_def split: if_splits)
    from Cons.IH [OF ok1 this] obtain k where k: "k \<le> length cs" "merged_times k (w_db w1) (w_db w')"
      "case r of Inr m \<Rightarrow> m = n + ?k + k | Inl e \<Rightarrow> True" by blast
    from step Inr have "merged_times ?k (w_db w) (w_db w1)" by simp
    from merged_times_add [OF this k(2)] k(1,3) show ?thesis
      by (intro exI [of _ "?k + k"]) (auto split: sum.splits)
  qed
qed

text \<open>C35. A whole run over any database, whether it finishes or stops on an error half way: no password credential is
  lost or changed, its address, hash, failures and lock included, nobody's status changes, and as many users are gone
  as merge rows were written. A run that finishes reports that number, and the candidates it did not merge as stale; a
  dry run, and a run that found nothing, leaves the database alone.\<close>

theorem merge_run_keeps_passwords:
  assumes "db_ok (w_db w)" "merge_split_identities R collate db_clock options w = (r, w')"
  shows "\<exists>k. passwords (w_db w') = passwords (w_db w) \<and> db_ok (w_db w')
    \<and> length (t_users (w_db w')) + k = length (t_users (w_db w))
    \<and> length (t_audits (w_db w')) = length (t_audits (w_db w)) + k
    \<and> (\<forall>x \<in> set (t_users (w_db w')). \<exists>y \<in> set (t_users (w_db w)). u_id y = u_id x \<and> u_status y = u_status x)
    \<and> (case r of Inl e \<Rightarrow> True
       | Inr result \<Rightarrow> mir_merged_count result = k \<and>
           (if mio_apply options then mir_merged_count result + mir_stale_count result = length (mir_candidates result)
            else w_db w' = w_db w))"
proof -
  let ?cs = "candidate_select (rt_db_lower R) collate (mio_email options) (w_db w)"
  have found: "in_transaction (find_candidates (rt_db_lower R) collate (mio_email options)) w = (Inr ?cs, w)"
    by (simp add: in_transaction_simps find_candidates_def readT_def)
  show ?thesis
  proof (cases "mio_apply options")
    case False
    with assms(2) found have "w' = w" "\<exists>result. r = Inr result \<and> mir_merged_count result = 0"
      by (auto simp: merge_split_identities_def bindA_def retA_def)
    with assms(1) False show ?thesis by (intro exI [of _ 0]) auto
  next
    case True
    obtain r1 w1 where run: "merge_all R collate db_clock 0 ?cs w = (r1, w1)" by (cases "merge_all R collate db_clock 0 ?cs w")
    have ok: "db_ok (w_db w1)" by (rule keepsAD [OF keepsA_merge(2) assms(1) run])
    from merge_all_times [OF assms(1) run] obtain k where k: "k \<le> length ?cs" "merged_times k (w_db w) (w_db w1)"
      "case r1 of Inr m \<Rightarrow> m = 0 + k | Inl e \<Rightarrow> True" by blast
    from assms(2) found run True have w': "w' = w1" and r: "r = (case r1 of Inl e \<Rightarrow> Inl e | Inr m \<Rightarrow> Inr
        \<lparr>mir_mode = lit ''apply'', mir_candidates = ?cs, mir_merged_count = m, mir_stale_count = length ?cs - m\<rparr>)"
      by (auto simp: merge_split_identities_def bindA_def retA_def split: sum.splits)
    show ?thesis
      using k ok True by (intro exI [of _ k]) (auto simp: w' r merged_times_def split: sum.splits)
  qed
qed

lemma merge_run_keeps_passwords_witness:
  "\<exists>result w'. merge_split_identities sample_runtime (\<lambda>s. s) int \<lparr>mio_apply = True, mio_email = None\<rparr> (sample_services split_db)
       = (Inr result, w') \<and> mir_merged_count result = 1 \<and> passwords (w_db w') = passwords split_db \<and> length (t_users (w_db w')) = 1"
proof -
  let ?w = "sample_services split_db" and ?o = "\<lparr>mio_apply = True, mio_email = None\<rparr>"
  have "case fst (merge_split_identities sample_runtime (\<lambda>s. s) int ?o ?w) of Inr x \<Rightarrow> mir_merged_count x = 1 | Inl e \<Rightarrow> False"
    by code_simp
  then obtain result w' where run: "merge_split_identities sample_runtime (\<lambda>s. s) int ?o ?w = (Inr result, w')"
    and one: "mir_merged_count result = 1"
    by (cases "merge_split_identities sample_runtime (\<lambda>s. s) int ?o ?w") (auto split: sum.splits)
  have ok: "db_ok (w_db ?w)" by (simp add: sample_services_def split_db_ok)
  have "length (t_users split_db) = 2" by (simp add: split_db_def)
  with merge_run_keeps_passwords [OF ok run] one
  have "passwords (w_db w') = passwords split_db \<and> length (t_users (w_db w')) = 1" by (auto simp: sample_services_def)
  with run one show ?thesis by blast
qed

end
