(* ===== verification/Config_Urls.thy ===== *)
theory Config_Urls
  imports Oidc_Config Oidc_Parsing Js_Dates
begin

text \<open>
  The text functions of \<^verbatim>\<open>config.py\<close>: durations, the WHATWG canonical form of configured redirect addresses (host,
  IPv4 numbers, dot segments, user information) and origins. What the standard library's tables say is gathered in
  \<open>config_env\<close>: the URL tables of \<open>url_env\<close>, NFC, the punycode codec, the values of decimal digits, and
  \<^verbatim>\<open>ipaddress\<close> for IPv6 addresses, addresses and networks.
\<close>

record config_env =
  ce_url :: url_env
  ce_nfc :: "pystr \<Rightarrow> pystr"
  ce_punycode :: "pystr \<Rightarrow> pystr"
  ce_digits :: date_env
  ce_ipv6 :: "pystr \<Rightarrow> pystr option"
  ce_address :: "pystr \<Rightarrow> pystr option"
  ce_network :: "pystr \<Rightarrow> (pystr \<times> nat) option"

abbreviation lower_of :: "config_env \<Rightarrow> pystr \<Rightarrow> pystr" where
  "lower_of E \<equiv> py_lower (ue_lower (ce_url E))"

section \<open>Durations\<close>

definition unit_seconds :: "nat \<Rightarrow> nat option" where
  "unit_seconds c = map_of [(115, 1), (109, 60), (104, 3600), (100, 86400)] c"

definition INT_TOO_LARGE :: exn where
  "INT_TOO_LARGE = ValueError (lit ''Exceeds the limit for integer string conversion'')"

definition duration_seconds :: "config_env \<Rightarrow> pystr \<Rightarrow> exn + nat" where
  "duration_seconds E v =
     (let t = py_strip v in
      if t = [] then Inl (ValueError (lit ''duration is required''))
      else let suffix = unit_seconds (last t);
               amount = (if suffix \<noteq> None then butlast t else t) in
           if amount = [] \<or> \<not> list_all (is_digit (ce_digits E)) amount
           then Inl (ValueError (lit ''duration must be a number with optional s, m, h, or d suffix''))
           else if MAX_STR_DIGITS < length amount then Inl INT_TOO_LARGE
           else Inr (number (ce_digits E) amount * (case suffix of Some n \<Rightarrow> n | None \<Rightarrow> 1)))"

section \<open>Absolute addresses\<close>

definition invalid_urls :: "string \<Rightarrow> exn" where
  "invalid_urls label = ValueError (lit label @ lit '' entries must be valid URLs'')"

definition absolute_http_url :: "config_env \<Rightarrow> string \<Rightarrow> pystr \<Rightarrow> exn + SplitResult" where
  "absolute_http_url E label v =
     (case urlsplit (ce_url E) v of
        None \<Rightarrow> Inl (invalid_urls label)
      | Some parsed \<Rightarrow>
          if url_port parsed = None then Inl (invalid_urls label)
          else if url_scheme parsed \<notin> {lit ''http'', lit ''https''} \<or> url_hostname (ce_url E) parsed \<in> {None, Some []}
          then Inl (invalid_urls label) else Inr parsed)"

text \<open>\<^verbatim>\<open>(?i)^(https?):\<close>; the letter beyond ASCII that folds to \<^verbatim>\<open>s\<close> matches it and stays as it is in lower case.\<close>

definition http_prefix :: "pystr \<Rightarrow> (pystr \<times> pystr) option" where
  "http_prefix t =
     (let word = map ascii_lower_char (take 4 t); r = drop 4 t in
      if word \<noteq> lit ''http'' then None
      else (case r of
              a # b # r2 \<Rightarrow>
                if a = 58 then Some (word, b # r2)
                else if (ascii_lower_char a = 115 \<or> a = 383) \<and> b = 58 then Some (word @ [ascii_lower_char a], r2) else None
            | [a] \<Rightarrow> if a = 58 then Some (word, []) else None
            | [] \<Rightarrow> None))"

definition outer_space :: "nat \<Rightarrow> bool" where
  "outer_space c \<longleftrightarrow> c = 9 \<or> c = 10 \<or> c = 13 \<or> c = 32"

definition special_http_url_input :: "pystr \<Rightarrow> pystr" where
  "special_http_url_input v =
     (let t = rev (dropWhile outer_space (rev (dropWhile outer_space v))) in
      case http_prefix t of
        None \<Rightarrow> t
      | Some (scheme, remainder) \<Rightarrow>
          let part = takeWhile (\<lambda>c. c \<noteq> 63 \<and> c \<noteq> 35) remainder;
              suffix = dropWhile (\<lambda>c. c \<noteq> 63 \<and> c \<noteq> 35) remainder;
              special_part = map (\<lambda>c. if c = 92 then 47 else c) part
          in scheme @ lit ''://'' @ dropWhile (\<lambda>c. c = 47) special_part @ suffix)"

text \<open>\<^verbatim>\<open>find\<close> of the marker \<^verbatim>\<open>://\<close>: what is up to its end, and what follows.\<close>

fun after_scheme_separator :: "pystr \<Rightarrow> (pystr \<times> pystr) option" where
  "after_scheme_separator [] = None"
| "after_scheme_separator (c # s) =
     (if is_prefix [58, 47, 47] (c # s) then Some (take 3 (c # s), drop 3 (c # s))
      else map_option (\<lambda>(h, t). (c # h, t)) (after_scheme_separator s))"

definition before_last :: "nat \<Rightarrow> pystr \<Rightarrow> pystr" where
  "before_last sep s = take (length s - length (after_last sep s) - 1) s"

definition escape_brackets :: "pystr \<Rightarrow> pystr" where
  "escape_brackets s = concat (map (\<lambda>c. if c = 91 then lit ''%5B'' else if c = 93 then lit ''%5D'' else [c]) s)"

definition escape_special_userinfo :: "pystr \<Rightarrow> pystr" where
  "escape_special_userinfo v =
     (case after_scheme_separator v of
        None \<Rightarrow> v
      | Some (start, r) \<Rightarrow>
          let authority = takeWhile (\<lambda>c. \<not> netloc_end c) r; tail = dropWhile (\<lambda>c. \<not> netloc_end c) r in
          if 64 \<notin> set authority then v
          else start @ escape_brackets (before_last 64 authority) @ [64] @ after_last 64 authority @ tail)"

section \<open>Hosts\<close>

text \<open>The number of one part: nothing for a text that is none, a \<^verbatim>\<open>ValueError\<close> for more decimal digits than \<^verbatim>\<open>int\<close> reads.\<close>

definition octal_digit :: "nat \<Rightarrow> bool" where
  "octal_digit c \<longleftrightarrow> 48 \<le> c \<and> c \<le> 55"

definition radix_value :: "nat \<Rightarrow> pystr \<Rightarrow> nat" where
  "radix_value radix s = foldl (\<lambda>n c. n * radix + the (hex_value c)) 0 s"

definition whatwg_ipv4_number :: "pystr \<Rightarrow> exn + nat option" where
  "whatwg_ipv4_number v =
     (if v = [] then Inr None
      else if is_prefix (lit ''0x'') (map ascii_lower_char v)
      then (if drop 2 v = [] then Inr (Some 0)
            else if list_all hex_digit (drop 2 v) then Inr (Some (radix_value 16 (drop 2 v))) else Inr None)
      else if 2 \<le> length v \<and> hd v = 48
      then (if list_all octal_digit (tl v) then Inr (Some (radix_value 8 (tl v))) else Inr None)
      else if \<not> list_all ascii_digit v then Inr None
      else if MAX_STR_DIGITS < length v then Inl INT_TOO_LARGE
      else Inr (Some (radix_value 10 v)))"

definition INVALID_IPV4 :: exn where
  "INVALID_IPV4 = ValueError (lit ''invalid IPv4 address'')"

fun all_numbers :: "pystr list \<Rightarrow> exn + nat option list" where
  "all_numbers [] = Inr []"
| "all_numbers (p # ps) = bindE (whatwg_ipv4_number p) (\<lambda>n. bindE (all_numbers ps) (\<lambda>ns. Inr (n # ns)))"

text \<open>The sum over all parts but the last, the first one weighing most.\<close>

fun weigh :: "nat \<Rightarrow> nat list \<Rightarrow> nat" where
  "weigh i [] = 0"
| "weigh i (n # ns) = n * 256 ^ (3 - i) + weigh (Suc i) ns"

definition ipv4_value :: "nat list \<Rightarrow> exn + nat" where
  "ipv4_value ns =
     (if 4 < length ns then Inl INVALID_IPV4
      else if list_ex (\<lambda>n. 255 < n) (butlast ns) then Inl INVALID_IPV4
      else if 256 ^ (5 - length ns) \<le> last ns then Inl INVALID_IPV4
      else Inr (last ns + weigh 0 (butlast ns)))"

definition whatwg_ipv4 :: "pystr \<Rightarrow> exn + nat option" where
  "whatwg_ipv4 hostname =
     (let split = py_split_on 46 hostname;
          parts = (if last split = [] then butlast split else split) in
      if parts = [] then Inr None
      else bindE (whatwg_ipv4_number (last parts)) (\<lambda>last_number.
           if last_number = None \<and> \<not> (last parts \<noteq> [] \<and> list_all ascii_digit (last parts)) then Inr None
           else bindE (all_numbers parts) (\<lambda>ns.
                if None \<in> set ns then Inl INVALID_IPV4
                else bindE (ipv4_value (map the ns)) (\<lambda>n. Inr (Some n)))))"

definition ipv4_text :: "nat \<Rightarrow> pystr" where
  "ipv4_text n = nat_digits (n div 256 ^ 3 mod 256) @ [46] @ nat_digits (n div 256 ^ 2 mod 256) @ [46]
     @ nat_digits (n div 256 mod 256) @ [46] @ nat_digits (n mod 256)"

fun join_with :: "nat \<Rightarrow> pystr list \<Rightarrow> pystr" where
  "join_with sep [] = []"
| "join_with sep [w] = w"
| "join_with sep (w # v # ws) = w @ [sep] @ join_with sep (v # ws)"

definition ascii_label :: "config_env \<Rightarrow> pystr \<Rightarrow> exn + pystr" where
  "ascii_label E label =
     (let normalized = lower_of E (ce_nfc E label) in
      if 8204 \<in> set normalized \<or> 8205 \<in> set normalized then Inl (ValueError (lit ''invalid joiner in hostname''))
      else Inr (if all_ascii normalized then normalized else lit ''xn--'' @ ce_punycode E normalized))"

fun ascii_labels :: "config_env \<Rightarrow> pystr list \<Rightarrow> exn + pystr list" where
  "ascii_labels E [] = Inr []"
| "ascii_labels E (l # ls) = bindE (ascii_label E l) (\<lambda>a. bindE (ascii_labels E ls) (\<lambda>as. Inr (a # as)))"

definition whatwg_domain_to_ascii :: "config_env \<Rightarrow> pystr \<Rightarrow> exn + pystr" where
  "whatwg_domain_to_ascii E hostname =
     (let mapped = map (\<lambda>c. if c \<in> {12290, 65294, 65377} then 46 else c) (ue_nfkc (ce_url E) hostname) in
      bindE (ascii_labels E (py_split_on 46 mapped)) (\<lambda>labels. Inr (join_with 46 labels)))"

definition forbidden_host_char :: "nat \<Rightarrow> bool" where
  "forbidden_host_char c \<longleftrightarrow> c \<le> 32 \<or> c \<in> {35, 37, 47, 58, 60, 62, 63, 64, 91, 92, 93, 94, 124}"

definition decoded_host :: "pystr \<Rightarrow> pystr option" where
  "decoded_host hostname =
     (if 37 \<notin> set hostname then Some hostname
      else if bad_percent hostname \<or> \<not> valid_str hostname then None
      else utf8_decode (unquote_to_bytes (utf8_bytes hostname)))"

text \<open>Every error inside becomes the one of the label.\<close>

definition labelled :: "string \<Rightarrow> exn + 'a \<Rightarrow> exn + 'a" where
  "labelled label r = (case r of Inl _ \<Rightarrow> Inl (invalid_urls label) | Inr a \<Rightarrow> Inr a)"

definition canonical_hostname :: "config_env \<Rightarrow> string \<Rightarrow> pystr \<Rightarrow> exn + pystr" where
  "canonical_hostname E label hostname = labelled label
     (case decoded_host hostname of
        None \<Rightarrow> Inl (ValueError (lit ''invalid host percent escape''))
      | Some host \<Rightarrow>
          if 58 \<in> set host
          then (case ce_ipv6 E host of None \<Rightarrow> Inl (ValueError (lit ''invalid IPv6 address'')) | Some a \<Rightarrow> Inr a)
          else if list_ex forbidden_host_char host then Inl (ValueError (lit ''invalid hostname code point''))
          else bindE (whatwg_ipv4 host) (\<lambda>n.
               case n of Some i \<Rightarrow> Inr (ipv4_text i) | None \<Rightarrow> whatwg_domain_to_ascii E host))"

section \<open>Paths\<close>

definition single_dot :: "pystr \<Rightarrow> bool" where
  "single_dot s \<longleftrightarrow> s \<in> {lit ''.'', lit ''%2e''}"

definition double_dot :: "pystr \<Rightarrow> bool" where
  "double_dot s \<longleftrightarrow> s \<in> {lit ''..'', lit ''.%2e'', lit ''%2e.'', lit ''%2e%2e''}"

fun dot_loop :: "(pystr \<Rightarrow> pystr) \<Rightarrow> pystr list \<Rightarrow> pystr list \<Rightarrow> pystr list" where
  "dot_loop low [] result = result"
| "dot_loop low (segment # rest) result =
     (if single_dot (low segment)
      then dot_loop low rest (if rest = [] then result @ [[]] else result)
      else if double_dot (low segment)
      then (let popped = (if 1 < length result then butlast result else result)
            in dot_loop low rest (if rest = [] then popped @ [[]] else popped))
      else dot_loop low rest (result @ [segment]))"

definition remove_url_dot_segments :: "(pystr \<Rightarrow> pystr) \<Rightarrow> pystr \<Rightarrow> pystr" where
  "remove_url_dot_segments low path =
     (let joined = join_with 47 (dot_loop low (py_split_on 47 path) []) in if joined = [] then [47] else joined)"

section \<open>Canonical redirect addresses\<close>

text \<open>\<^verbatim>\<open>quote(text, safe=...)\<close>; a surrogate is a \<^verbatim>\<open>UnicodeEncodeError\<close>, which is a \<^verbatim>\<open>ValueError\<close>.\<close>

definition quote_always_safe :: "nat \<Rightarrow> bool" where
  "quote_always_safe b \<longleftrightarrow> ascii_alpha b \<or> ascii_digit b \<or> b \<in> {95, 46, 45, 126}"

definition quote_safe :: "string \<Rightarrow> pystr \<Rightarrow> exn + pystr" where
  "quote_safe safe s =
     (if valid_str s
      then Inr (concat (map (\<lambda>b. if quote_always_safe b \<or> b \<in> set (lit safe) then [b]
                                 else [37, upper_hex (b div 16), upper_hex (b mod 16)]) (utf8_bytes s)))
      else Inl (ValueError (lit ''surrogates not allowed'')))"

text \<open>The properties \<^verbatim>\<open>username\<close> and \<^verbatim>\<open>password\<close> of a split result.\<close>

definition url_credentials :: "SplitResult \<Rightarrow> (pystr \<times> pystr option) option" where
  "url_credentials r =
     (if 64 \<notin> set (url_netloc r) then None
      else case py_partition 58 (before_last 64 (url_netloc r)) of
             (username, have_password, password) \<Rightarrow> Some (username, if have_password then Some password else None))"

definition USERINFO_SAFE :: string where
  "USERINFO_SAFE = ''%!$&'' @ [CHR 0x27] @ ''()*+,-._~''"

definition quoted_userinfo :: "SplitResult \<Rightarrow> exn + pystr" where
  "quoted_userinfo r =
     (case url_credentials r of
        None \<Rightarrow> Inr []
      | Some (username, password) \<Rightarrow>
          bindE (quote_safe USERINFO_SAFE username) (\<lambda>u.
          case password of
            None \<Rightarrow> Inr (u @ [64])
          | Some p \<Rightarrow> bindE (quote_safe USERINFO_SAFE p) (\<lambda>q. Inr (u @ [58] @ q @ [64]))))"

definition PATH_SAFE :: string where
  "PATH_SAFE = ''/%:@!$&'' @ [CHR 0x27] @ ''()*+,;=-._~''"

definition QUERY_SAFE :: string where
  "QUERY_SAFE = ''/%?:@!$&()*+,;=-._~'' @ [CHR 0x5C] @ ''[]|^`{}''"

definition FRAGMENT_SAFE :: string where
  "FRAGMENT_SAFE = ''/%?:@!$&'' @ [CHR 0x27] @ ''()*+,;=-._~'' @ [CHR 0x5C] @ ''[]|^{}''"

definition default_port :: "pystr \<Rightarrow> nat" where
  "default_port scheme = (if scheme = lit ''https'' then 443 else 80)"

definition port_suffix :: "SplitResult \<Rightarrow> pystr" where
  "port_suffix r = (case url_port r of
      Some (Some p) \<Rightarrow> if p \<noteq> default_port (url_scheme r) then 58 # nat_digits p else []
    | _ \<Rightarrow> [])"

definition bracketed :: "pystr \<Rightarrow> pystr" where
  "bracketed host = (if 58 \<in> set host then [91] @ host @ [93] else host)"

text \<open>The host of an address that was accepted.\<close>

definition host_of :: "config_env \<Rightarrow> SplitResult \<Rightarrow> pystr" where
  "host_of E r = (case url_hostname (ce_url E) r of Some h \<Rightarrow> h | None \<Rightarrow> [])"

definition canonical_redirect_uri :: "config_env \<Rightarrow> pystr \<Rightarrow> exn + pystr" where
  "canonical_redirect_uri E v =
     (let special = escape_special_userinfo (special_http_url_input v) in
      bindE (absolute_http_url E ''allowedRedirectUris'' special) (\<lambda>parsed.
      bindE (canonical_hostname E ''allowedRedirectUris'' (host_of E parsed)) (\<lambda>host.
      bindE (quoted_userinfo parsed) (\<lambda>userinfo.
      bindE (quote_safe PATH_SAFE (remove_url_dot_segments (lower_of E)
               (if url_path parsed = [] then [47] else url_path parsed))) (\<lambda>path.
      bindE (quote_safe QUERY_SAFE (url_query parsed)) (\<lambda>query.
      bindE (quote_safe FRAGMENT_SAFE (url_fragment parsed)) (\<lambda>fragment.
      case py_partition 35 special of
        (before_fragment, marked, _) \<Rightarrow>
          Inr (url_scheme parsed @ lit ''://'' @ userinfo @ bracketed host @ port_suffix parsed @ path
               @ (if 63 \<in> set before_fragment then [63] else []) @ query @ (if marked then [35] else []) @ fragment))))))))"

section \<open>Origins\<close>

definition origin_of :: "config_env \<Rightarrow> string \<Rightarrow> SplitResult \<Rightarrow> exn + pystr" where
  "origin_of E label parsed =
     bindE (canonical_hostname E label (host_of E parsed)) (\<lambda>host.
     Inr (url_scheme parsed @ lit ''://'' @ bracketed host @ port_suffix parsed))"

definition origin :: "config_env \<Rightarrow> string \<Rightarrow> pystr \<Rightarrow> exn + pystr" where
  "origin E label v =
     bindE (absolute_http_url E label v) (\<lambda>parsed.
     bindE (origin_of E label parsed) (\<lambda>canonical.
     if v \<noteq> canonical
     then Inl (ValueError (lit label @ lit '' entries must include scheme, host, and optional port only''))
     else Inr canonical))"

definition origin_from_url :: "config_env \<Rightarrow> pystr \<Rightarrow> exn + pystr" where
  "origin_from_url E v = bindE (absolute_http_url E ''URL'' v) (origin_of E ''URL'')"

definition is_local_url :: "config_env \<Rightarrow> pystr \<Rightarrow> exn + bool" where
  "is_local_url E v =
     (case urlsplit (ce_url E) v of
        None \<Rightarrow> Inl (ValueError (lit ''Invalid IPv6 URL''))
      | Some parsed \<Rightarrow> Inr (url_hostname (ce_url E) parsed \<in> set (map Some LOOPBACK_HOSTS)))"

section \<open>IPv4 hosts\<close>

lemma split_join:
  "ws \<noteq> [] \<Longrightarrow> \<forall>w \<in> set ws. sep \<notin> set w \<Longrightarrow> py_split_on sep (join_with sep ws) = ws"
proof (induction sep ws rule: join_with.induct)
  case (3 sep w v ws)
  then have tail: "py_split_on sep (join_with sep (v # ws)) = v # ws" by simp
  have "py_split_on sep (w @ sep # join_with sep (v # ws)) = w # v # ws" if "sep \<notin> set w"
    using that by (induction w) (simp_all add: tail)
  with 3 show ?case by simp
qed (auto simp: py_split_on_no_sep)

lemma radix_value_digits: "radix_value 10 (nat_digits n) = n"
proof (induction n rule: nat_digits.induct)
  case (1 n)
  show ?case
  proof (cases "n < 10")
    case True
    then show ?thesis by (simp add: nat_digits.simps [of n] radix_value_def hex_value_def ascii_digit_def)
  next
    case False
    have "n mod 10 \<le> 9" by simp
    then have "the (hex_value (48 + n mod 10)) = n mod 10" by (simp only: hex_value_def ascii_digit_def) simp
    with 1 False show ?thesis by (simp add: nat_digits.simps [of n] radix_value_def)
  qed
qed

lemma byte_number:
  assumes "n < 256"
  shows "whatwg_ipv4_number (nat_digits n) = Inr (Some n)" "nat_digits n \<noteq> []" "46 \<notin> set (nat_digits n)"
    "list_all ascii_digit (nat_digits n)"
proof -
  have digits: "list_all ascii_digit (nat_digits n)" "nat_digits n \<noteq> []"
    by (simp_all add: list_all_iff nat_digits_digits)
  have short: "length (nat_digits n) \<le> 3"
    using assms by (simp add: nat_digits.simps [of n] nat_digits.simps [of "n div 10"] nat_digits.simps [of "n div 10 div 10"])
  have zero: "length (nat_digits n) < 2" if "hd (nat_digits n) = 48"
    using that nat_digits_hd [of n] by (cases n) (simp_all add: nat_digits.simps)
  have hex: "\<not> is_prefix (lit ''0x'') (map ascii_lower_char (nat_digits n))"
  proof
    assume "is_prefix (lit ''0x'') (map ascii_lower_char (nat_digits n))"
    then obtain c d r where "nat_digits n = c # d # r" "ascii_lower_char d = 120"
      by (cases "nat_digits n"; cases "tl (nat_digits n)") (auto simp: lit_def)
    with digits(1) show False by (auto simp: ascii_digit_def ascii_lower_char_def ascii_upper_def)
  qed
  show "whatwg_ipv4_number (nat_digits n) = Inr (Some n)"
    using digits short zero hex by (auto simp: whatwg_ipv4_number_def radix_value_digits MAX_STR_DIGITS_def)
  show "nat_digits n \<noteq> []" "46 \<notin> set (nat_digits n)" "list_all ascii_digit (nat_digits n)"
    using digits by (auto simp: list_all_iff ascii_digit_def)
qed

lemma ipv4_text_join: "ipv4_text n = join_with 46 [nat_digits (n div 256 ^ 3 mod 256), nat_digits (n div 256 ^ 2 mod 256),
    nat_digits (n div 256 mod 256), nat_digits (n mod 256)]"
  by (simp add: ipv4_text_def)

lemma ipv4_value_bytes:
  "a < 256 \<Longrightarrow> b < 256 \<Longrightarrow> c < 256 \<Longrightarrow> d < 256 \<Longrightarrow>
     ipv4_value [a, b, c, d] = Inr (d + (a * 16777216 + (b * 65536 + c * 256)))"
  by (simp add: ipv4_value_def)

lemma dotted_sum:
  fixes n :: nat
  assumes "n < 2 ^ 32"
  shows "n mod 256 + (n div 256 ^ 3 mod 256 * 16777216 + (n div 256 ^ 2 mod 256 * 65536 + n div 256 mod 256 * 256)) = n"
proof -
  have powers: "n div 256 ^ 3 = n div 256 div 256 div 256" "n div 256 ^ 2 = n div 256 div 256"
    by (simp_all add: div_mult2_eq [symmetric])
  have "n div 256 div 256 div 256 < 256" using assms by (simp flip: div_mult2_eq)
  then have "n div 256 div 256 div 256 mod 256 = n div 256 div 256 div 256" by simp
  moreover have "n div 256 * 256 + n mod 256 = n" "n div 256 div 256 * 256 + n div 256 mod 256 = n div 256"
    "n div 256 div 256 div 256 * 256 + n div 256 div 256 mod 256 = n div 256 div 256"
    by (rule div_mult_mod_eq)+
  ultimately show ?thesis unfolding powers by linarith
qed

lemma whatwg_ipv4_text:
  assumes "n < 2 ^ 32"
  shows "whatwg_ipv4 (ipv4_text n) = Inr (Some n)"
proof -
  let ?a = "n div 256 ^ 3 mod 256" and ?b = "n div 256 ^ 2 mod 256" and ?c = "n div 256 mod 256" and ?d = "n mod 256"
  have split: "py_split_on 46 (ipv4_text n) = [nat_digits ?a, nat_digits ?b, nat_digits ?c, nat_digits ?d]"
    unfolding ipv4_text_join by (rule split_join) (simp_all add: byte_number)
  have parts: "whatwg_ipv4 (ipv4_text n) = bindE (ipv4_value [?a, ?b, ?c, ?d]) (\<lambda>n. Inr (Some n))"
    by (simp add: whatwg_ipv4_def split byte_number Let_def del: power_numeral)
  show ?thesis
    unfolding parts by (subst ipv4_value_bytes) (simp_all add: dotted_sum [OF assms, simplified])
qed

lemma weigh_bound: "\<forall>n \<in> set ns. n \<le> 255 \<Longrightarrow> i + length ns \<le> 3 \<Longrightarrow> weigh i ns + 256 ^ (4 - i - length ns) \<le> 256 ^ (4 - i)"
proof (induction ns arbitrary: i)
  case (Cons n ns)
  have tail: "weigh (Suc i) ns + 256 ^ (4 - Suc i - length ns) \<le> 256 ^ (4 - Suc i)"
    by (rule Cons.IH) (use Cons.prems in simp_all)
  moreover have "n * 256 ^ (3 - i) \<le> 255 * 256 ^ (3 - i)" using Cons.prems by (intro mult_right_mono) auto
  moreover have "(256 :: nat) ^ (4 - i) = 256 * 256 ^ (3 - i)" using Cons.prems(2) by (simp add: Suc_diff_le flip: power_Suc)
  moreover have "4 - Suc i = 3 - i" "4 - Suc i - length ns = 4 - i - length (n # ns)" using Cons.prems(2) by simp_all
  ultimately show ?case by (simp only: weigh.simps)
qed simp

lemma all_numbers_length: "all_numbers ps = Inr ns \<Longrightarrow> length ns = length ps"
  by (induction ps arbitrary: ns) (auto simp: bindE_Inr_iff)

lemma ipv4_value_bound:
  assumes "ipv4_value ns = Inr n" "ns \<noteq> []"
  shows "n < 2 ^ 32"
proof -
  from assms(1) have small: "\<forall>n \<in> set (butlast ns). n \<le> 255" and top_part: "last ns < 256 ^ (5 - length ns)"
    and len: "length ns \<le> 4" and n: "n = last ns + weigh 0 (butlast ns)"
    by (auto simp: ipv4_value_def list_ex_iff not_less split: if_splits)
  have "weigh 0 (butlast ns) + 256 ^ (4 - 0 - length (butlast ns)) \<le> 256 ^ (4 - 0)"
    by (rule weigh_bound) (use small len in auto)
  moreover have "4 - length (butlast ns) = 5 - length ns" using assms(2) by (cases ns) auto
  ultimately show ?thesis using top_part n by simp
qed

lemma whatwg_ipv4_bound:
  assumes "whatwg_ipv4 h = Inr (Some n)"
  shows "n < 2 ^ 32"
proof -
  let ?split = "py_split_on 46 h"
  let ?parts = "if last ?split = [] then butlast ?split else ?split"
  from assms obtain ns where "?parts \<noteq> []" "all_numbers ?parts = Inr ns" "ipv4_value (map the ns) = Inr n"
    by (auto simp: whatwg_ipv4_def Let_def bindE_Inr_iff split: if_splits)
  then show ?thesis using all_numbers_length [of ?parts ns] by (intro ipv4_value_bound [of "map the ns"]) auto
qed

lemma ipv4_text_plain: "c \<in> set (ipv4_text n) \<Longrightarrow> ascii_digit c \<or> c = 46"
  by (auto simp: ipv4_text_def dest: nat_digits_digits)


definition plain_env :: config_env where
  "plain_env = \<lparr>ce_url = sample_url_env, ce_nfc = (\<lambda>s. s), ce_punycode = (\<lambda>s. s),
     ce_digits = \<lparr>de_digit = (\<lambda>_. None), de_local = Inr, de_mail = (\<lambda>_. Inl (ValueError []))\<rparr>,
     ce_ipv6 = (\<lambda>_. None), ce_address = Some, ce_network = (\<lambda>_. None)\<rparr>"


section \<open>Dot segments\<close>

definition clean_segment :: "(pystr \<Rightarrow> pystr) \<Rightarrow> pystr \<Rightarrow> bool" where
  "clean_segment low s \<longleftrightarrow> 47 \<notin> set s \<and> \<not> single_dot (low s) \<and> \<not> double_dot (low s)"

lemma dot_loop_clean:
  assumes "clean_segment low []"
  shows "\<forall>s \<in> set segments. 47 \<notin> set s \<Longrightarrow> \<forall>s \<in> set result. clean_segment low s \<Longrightarrow>
    \<forall>s \<in> set (dot_loop low segments result). clean_segment low s"
proof (induction segments arbitrary: result)
  case (Cons segment rest)
  define popped where "popped = (if 1 < length result then butlast result else result)"
  have popped: "\<forall>s \<in> set popped. clean_segment low s"
    using Cons.prems(2) by (auto simp: popped_def dest: in_set_butlastD)
  have go: "\<forall>s \<in> set (dot_loop low rest r). clean_segment low s" if "\<forall>s \<in> set r. clean_segment low s" for r
    using that Cons.prems(1) by (intro Cons.IH) auto
  have add: "\<forall>s \<in> set (r @ [[]]). clean_segment low s" if "\<forall>s \<in> set r. clean_segment low s" for r
    using that assms by simp
  consider (single) "single_dot (low segment)" | (double) "\<not> single_dot (low segment)" "double_dot (low segment)"
    | (other) "\<not> single_dot (low segment)" "\<not> double_dot (low segment)" by blast
  then show ?case
  proof cases
    case single
    with go [OF Cons.prems(2)] go [OF add [OF Cons.prems(2)]] show ?thesis by simp
  next
    case double
    with go [OF popped] go [OF add [OF popped]] show ?thesis unfolding dot_loop.simps Let_def popped_def [symmetric] by simp
  next
    case other
    have "\<forall>s \<in> set (result @ [segment]). clean_segment low s"
      using other Cons.prems by (simp add: clean_segment_def)
    from go [OF this] other show ?thesis by simp
  qed
qed simp

lemma dot_loop_head: "result \<noteq> [] \<Longrightarrow> dot_loop low segments result \<noteq> [] \<and> hd (dot_loop low segments result) = hd result"
proof (induction low segments result rule: dot_loop.induct)
  case (2 low segment rest result)
  have "butlast result \<noteq> [] \<and> hd (butlast result) = hd result" if "1 < length result"
    using that by (cases result) (auto simp: butlast.simps)
  with 2 show ?case by (auto simp: Let_def)
qed simp

lemma dot_loop_two: "segments \<noteq> [] \<Longrightarrow> result \<noteq> [] \<Longrightarrow> 2 \<le> length (dot_loop low segments result)"
proof (induction low segments result rule: dot_loop.induct)
  case (2 low segment rest result)
  have "butlast result \<noteq> []" if "1 < length result" using that by (cases result) auto
  with 2 show ?case by (cases "rest = []") (auto simp: Let_def Suc_le_eq)
qed simp

lemma dot_loop_id: "\<forall>s \<in> set segments. clean_segment low s \<Longrightarrow> dot_loop low segments result = result @ segments"
  by (induction low segments result rule: dot_loop.induct) (auto simp: clean_segment_def)

text \<open>The path of a configured redirect address. What is left of an absolute path starts with a slash and has no
  segment that a browser would take for the current or the parent directory, in plain or in percent-encoded dots, so it
  cannot climb out of a directory; removing dot segments a second time changes nothing.\<close>

theorem dot_segments_removed:
  assumes "path = 47 # p"
  shows "let r = remove_url_dot_segments (lower_of E) path in
    hd r = 47 \<and> (\<forall>s \<in> set (py_split_on 47 r). \<not> single_dot (lower_of E s) \<and> \<not> double_dot (lower_of E s))
    \<and> remove_url_dot_segments (lower_of E) r = r"
proof -
  let ?low = "lower_of E" and ?rest = "py_split_on 47 p"
  let ?L = "dot_loop ?low ?rest [[]]"
  have blank: "\<not> single_dot (?low [])" "\<not> double_dot (?low [])" "clean_segment ?low []"
    by (simp_all add: py_lower_def single_dot_def double_dot_def clean_segment_def lit_def)
  have rest: "?rest \<noteq> []" by (rule py_split_on_ne)
  then have split: "py_split_on 47 path = [] # ?rest" by (cases ?rest) (simp_all add: assms)
  have loop: "dot_loop ?low (py_split_on 47 path) [] = ?L" using blank by (simp add: split)
  have clean: "\<forall>s \<in> set ?L. clean_segment ?low s"
    by (rule dot_loop_clean [OF blank(3)]) (auto simp: blank(3) dest: py_split_on_sep_free)
  have two: "2 \<le> length ?L" by (rule dot_loop_two [OF rest]) simp
  have head: "hd ?L = []" using dot_loop_head [of "[[]]" ?low ?rest] by simp
  obtain v ws where L: "?L = [] # v # ws"
    using two head by (cases ?L; cases "tl ?L") auto
  let ?r = "join_with 47 ?L"
  have r: "?r \<noteq> []" "hd ?r = 47" unfolding L by simp_all
  have removed: "remove_url_dot_segments ?low path = ?r"
    unfolding remove_url_dot_segments_def loop Let_def using r(1) by simp
  have segments: "py_split_on 47 ?r = ?L"
    by (rule split_join) (use clean L in \<open>auto simp: clean_segment_def\<close>)
  have "dot_loop ?low ?L [] = ?L" using dot_loop_id [OF clean, of "[]"] by simp
  then have "remove_url_dot_segments ?low ?r = ?r"
    unfolding remove_url_dot_segments_def segments Let_def using r(1) by simp
  moreover have "\<forall>s \<in> set (py_split_on 47 ?r). \<not> single_dot (?low s) \<and> \<not> double_dot (?low s)"
    unfolding segments using clean by (simp add: clean_segment_def)
  ultimately show ?thesis unfolding removed Let_def using r(2) by blast
qed

lemma dot_segments_removed_witness:
  "remove_url_dot_segments (lower_of plain_env) (lit ''/a/b/%2E./../c/.'') = lit ''/c/'' \<and>
   remove_url_dot_segments (lower_of plain_env) (lit ''/c/'') = lit ''/c/''"
proof -
  have r: "remove_url_dot_segments (lower_of plain_env) (lit ''/a/b/%2E./../c/.'') = lit ''/c/''" by code_simp
  have "lit ''/a/b/%2E./../c/.'' = 47 # lit ''a/b/%2E./../c/.''" by code_simp
  from dot_segments_removed [OF this, of plain_env] show ?thesis by (simp add: r Let_def)
qed

section \<open>A host that changes\<close>

text \<open>Forbidden characters are looked for before NFKC and not after it. The sign U+2100, which NFKC turns into an \<^verbatim>\<open>a\<close>, a
  slash and a \<^verbatim>\<open>c\<close>, passes behind percent escapes, which \<^verbatim>\<open>urlsplit\<close> does not decode: the canonical address has a
  different host, where the URL standard refuses the address.\<close>

lemma escaped_host_changes:
  "canonical_redirect_uri (plain_env\<lparr>ce_url := sample_url_env\<lparr>ue_nfkc := (\<lambda>s. concat (map (\<lambda>c. if c = 8448 then lit ''a/c'' else [c]) s))\<rparr>\<rparr>)
     (lit ''https://%E2%84%80.co/cb'') = Inr (lit ''https://a/c.co/cb'')"
  by code_simp

end
