(* ===== verification/Config_Settings.thy ===== *)
theory Config_Settings
  imports Config_Urls Config_Keys Auth_Service
begin

text \<open>
  The settings of \<^verbatim>\<open>config.py\<close>: reading the variables that have a syntax of their own, the limits of the others, and the
  contract between fields. Pydantic's conversion of a variable to a number, a flag or a literal has happened in
  \<open>SettingsInput\<close>, and its reading of decoded JSON into the typed models is the argument \<open>settings_env\<close> carries with
  SHA-256 and Argon2. Pydantic reports all field errors at once; the model gives the first one.
\<close>

section \<open>Input and result\<close>

datatype NodeEnv = Development | Test | Production

datatype MailProvider = DevMail | SmtpMail | ResendMail

record AccessPublicJwk =
  jwk_n :: pystr
  jwk_e :: pystr
  jwk_kid :: pystr

record ClientSettings =
  cs_client_id :: pystr
  cs_audience :: pystr
  cs_redirect_uris :: "pystr list"
  cs_origins :: "pystr list"
  cs_allow_localhost :: "bool option"
  cs_default_role :: DefaultRole

definition relying_client :: "ClientSettings \<Rightarrow> RelyingClientPolicy" where
  "relying_client c = \<lparr>rcp_client_id = cs_client_id c, rcp_audience = cs_audience c,
     rcp_allowed_redirect_uris = cs_redirect_uris c, rcp_default_role = cs_default_role c\<rparr>"

record settings_env =
  se_config :: config_env
  se_float :: "pystr \<Rightarrow> pyfloat"
  se_sha256 :: "nat list \<Rightarrow> nat list"
  se_extract :: "pystr \<Rightarrow> ArgonParameters option"
  se_jwk :: "pyval \<Rightarrow> AccessPublicJwk option"
  se_clients :: "pyval \<Rightarrow> ClientSettings list option"
  se_oidc_clients :: "pyval \<Rightarrow> OidcClientPolicy list option"

record ProviderEntry =
  ps_client_id :: "pystr option"
  ps_client_secret :: "pystr option"
  ps_redirect_uri :: pystr
  ps_oidc_redirect_uri :: "pystr option"

record MailSettings =
  ms_provider :: MailProvider
  ms_reply_to :: "pystr option"
  ms_resend_api_key :: "pystr option"
  ms_resend_admin_key :: "pystr option"
  ms_smtp_host :: "pystr option"
  ms_smtp_username :: "pystr option"
  ms_smtp_password :: "pystr option"
  ms_smtp_port :: int

record LimitSettings =
  ls_port :: int
  ls_refresh_days :: int
  ls_password_min_length :: int
  ls_rate_limit_window_seconds :: int
  ls_rate_limit_max_requests :: int

text \<open>The values of the variables; \<open>None\<close> where one is not set and has a default.\<close>

record SettingsInput =
  si_node_env :: NodeEnv
  si_required_texts :: "pystr list"
  si_private_key :: pystr
  si_public_jwk :: pystr
  si_key_id :: pystr
  si_refresh_secret :: pystr
  si_issuer :: pystr
  si_audience :: pystr
  si_access_expires :: "pystr option"
  si_limits :: LimitSettings
  si_cors :: "pystr option"
  si_proxies :: "pystr option"
  si_clients :: pystr
  si_oidc_enabled :: bool
  si_oidc_clients :: "pystr option"
  si_oidc_origin :: "pystr option"
  si_frontend :: pystr
  si_providers :: "pystr option"
  si_google :: ProviderEntry
  si_naver :: ProviderEntry
  si_kakao :: ProviderEntry
  si_mail :: MailSettings

record Settings =
  st_node_env :: NodeEnv
  st_private_key :: pystr
  st_public_jwk :: AccessPublicJwk
  st_key_id :: pystr
  st_refresh_secret :: pystr
  st_issuer :: pystr
  st_audience :: pystr
  st_access_expires :: nat
  st_limits :: LimitSettings
  st_cors :: "pystr list"
  st_proxies :: "pystr list"
  st_clients :: "ClientSettings list"
  st_oidc_enabled :: bool
  st_oidc_clients :: "OidcClientPolicy list"
  st_oidc_origin :: "pystr option"
  st_frontend :: pystr
  st_providers :: "pystr list"
  st_google :: ProviderEntry
  st_naver :: ProviderEntry
  st_kakao :: ProviderEntry
  st_mail :: MailSettings

section \<open>Fields\<close>

definition parse_json_field :: "settings_env \<Rightarrow> pystr \<Rightarrow> exn + pyval" where
  "parse_json_field V s =
     (case json_loads (se_float V) s of
        Inl JSONDecodeError \<Rightarrow> Inl (ValueError (lit ''environment value must be valid JSON''))
      | Inl IntTooLarge \<Rightarrow> Inl INT_TOO_LARGE
      | Inr v \<Rightarrow> Inr v)"

definition decoded_field :: "(pyval \<Rightarrow> 'a option) \<Rightarrow> pyval \<Rightarrow> exn + 'a" where
  "decoded_field decode v = (case decode v of None \<Rightarrow> Inl (ValueError (lit ''Input should be a valid dictionary'')) | Some a \<Rightarrow> Inr a)"

fun map_check :: "('a \<Rightarrow> exn + 'b) \<Rightarrow> 'a list \<Rightarrow> exn + 'b list" where
  "map_check f [] = Inr []"
| "map_check f (x # xs) = bindE (f x) (\<lambda>y. bindE (map_check f xs) (\<lambda>ys. Inr (y # ys)))"

text \<open>\<^verbatim>\<open>dict.fromkeys\<close>: the first occurrence of each.\<close>

fun first_only :: "'a list \<Rightarrow> 'a list" where
  "first_only [] = []"
| "first_only (x # xs) = x # filter (\<lambda>y. y \<noteq> x) (first_only xs)"

definition comma_entries :: "pystr \<Rightarrow> pystr list" where
  "comma_entries s = filter (\<lambda>e. e \<noteq> []) (map py_strip (py_split_on 44 s))"

definition validate_jwk :: "AccessPublicJwk \<Rightarrow> exn + AccessPublicJwk" where
  "validate_jwk k = bindE (jwk_integer (jwk_n k)) (\<lambda>_. bindE (jwk_integer (jwk_e k)) (\<lambda>_. Inr k))"

text \<open>The two validators of \<^verbatim>\<open>RelyingClientPolicy\<close>, and its limits.\<close>

definition validate_client :: "config_env \<Rightarrow> ClientSettings \<Rightarrow> exn + ClientSettings" where
  "validate_client E c =
     bindE (requireE (cs_client_id c \<noteq> [] \<and> cs_audience c \<noteq> [] \<and> cs_redirect_uris c \<noteq> [] \<and> cs_origins c \<noteq> []
         \<and> [] \<notin> set (cs_redirect_uris c) \<and> [] \<notin> set (cs_origins c)
         \<and> dr_service_key (cs_default_role c) \<noteq> [] \<and> dr_name (cs_default_role c) \<noteq> [])
         (ValueError (lit ''String should have at least 1 character''))) (\<lambda>_.
     bindE (map_check (canonical_redirect_uri E) (cs_redirect_uris c)) (\<lambda>redirects.
     bindE (map_check (origin E ''allowedOrigins'') (cs_origins c)) (\<lambda>origins.
     Inr (c\<lparr>cs_redirect_uris := redirects, cs_origins := origins\<rparr>))))"

definition BAD_PROXY :: exn where
  "BAD_PROXY = ValueError (lit ''TRUSTED_PROXY_IPS entries must be explicit IP addresses or CIDRs'')"

definition proxy_entry :: "config_env \<Rightarrow> pystr \<Rightarrow> exn + pystr" where
  "proxy_entry E entry =
     (if entry = [] \<or> entry = lit ''*'' then Inl BAD_PROXY
      else if 47 \<in> set entry
      then (case ce_network E entry of
              None \<Rightarrow> Inl BAD_PROXY
            | Some (network, prefixlen) \<Rightarrow>
                if prefixlen = 0 then Inl (ValueError (lit ''TRUSTED_PROXY_IPS must not contain a universal CIDR''))
                else Inr network)
      else (case ce_address E entry of None \<Rightarrow> Inl BAD_PROXY | Some address \<Rightarrow> Inr address))"

definition parse_trusted_proxy_ips :: "config_env \<Rightarrow> pystr \<Rightarrow> exn + pystr list" where
  "parse_trusted_proxy_ips E s =
     (if py_strip s = [] then Inr []
      else bindE (map_check (proxy_entry E) (map py_strip (py_split_on 44 s))) (\<lambda>entries. Inr (first_only entries)))"

definition PROVIDERS :: "pystr list" where
  "PROVIDERS = [lit ''google'', lit ''naver'', lit ''kakao'']"

definition parse_oauth_providers :: "pystr \<Rightarrow> exn + pystr list" where
  "parse_oauth_providers s =
     (let names = first_only (comma_entries s) in
      if set names \<subseteq> set PROVIDERS then Inr names
      else Inl (ValueError (lit ''Input should be google, naver or kakao'')))"

definition empty_as_none :: "pystr option \<Rightarrow> pystr option" where
  "empty_as_none v = (if v = Some [] then None else v)"

definition normalize_provider :: "ProviderEntry \<Rightarrow> ProviderEntry" where
  "normalize_provider p = p\<lparr>ps_client_id := empty_as_none (ps_client_id p), ps_client_secret := empty_as_none (ps_client_secret p)\<rparr>"

definition normalize_mail :: "MailSettings \<Rightarrow> MailSettings" where
  "normalize_mail m = m\<lparr>ms_reply_to := empty_as_none (ms_reply_to m), ms_resend_api_key := empty_as_none (ms_resend_api_key m),
     ms_resend_admin_key := empty_as_none (ms_resend_admin_key m), ms_smtp_host := empty_as_none (ms_smtp_host m),
     ms_smtp_username := empty_as_none (ms_smtp_username m), ms_smtp_password := empty_as_none (ms_smtp_password m)\<rparr>"

definition limits_ok :: "LimitSettings \<Rightarrow> bool" where
  "limits_ok l \<longleftrightarrow> 0 < ls_port l \<and> ls_port l < 65536 \<and> 0 < ls_refresh_days l \<and> 8 \<le> ls_password_min_length l
     \<and> 0 < ls_rate_limit_window_seconds l \<and> 0 < ls_rate_limit_max_requests l"

definition plain_fields_ok :: "SettingsInput \<Rightarrow> bool" where
  "plain_fields_ok i \<longleftrightarrow> [] \<notin> set (si_required_texts i) \<and> si_private_key i \<noteq> [] \<and> si_key_id i \<noteq> []
     \<and> 16 \<le> length (si_refresh_secret i) \<and> si_issuer i \<noteq> [] \<and> si_audience i \<noteq> [] \<and> si_frontend i \<noteq> []
     \<and> limits_ok (si_limits i) \<and> 0 < ms_smtp_port (si_mail i)
     \<and> (\<forall>p \<in> {si_google i, si_naver i, si_kakao i}. ps_redirect_uri p \<noteq> [])"

definition read_private_key :: "pystr \<Rightarrow> exn + pystr" where
  "read_private_key s = (let normalized = unescape_newlines s in bindE (rsa_numbers_from_pkcs8 normalized) (\<lambda>_. Inr normalized))"

definition read_oidc_clients :: "settings_env \<Rightarrow> pystr option \<Rightarrow> exn + OidcClientPolicy list" where
  "read_oidc_clients V v =
     (case v of
        None \<Rightarrow> Inr []
      | Some s \<Rightarrow>
          bindE (parse_json_field V s) (\<lambda>j.
          bindE (decoded_field (se_oidc_clients V) j) (\<lambda>cs.
          if list_all (client_policy_ok (ce_url (se_config V)) (se_extract V)) cs then Inr cs else Inl INVALID_CLIENTS)))"

definition read_fields :: "settings_env \<Rightarrow> SettingsInput \<Rightarrow> exn + Settings" where
  "read_fields V i = (let E = se_config V in
     bindE (requireE (plain_fields_ok i) (ValueError (lit ''Input should be greater or longer''))) (\<lambda>_.
     bindE (read_private_key (si_private_key i)) (\<lambda>private_key.
     bindE (parse_json_field V (si_public_jwk i)) (\<lambda>jwk_json.
     bindE (decoded_field (se_jwk V) jwk_json) (\<lambda>jwk_model.
     bindE (validate_jwk jwk_model) (\<lambda>jwk.
     bindE (case si_access_expires i of None \<Rightarrow> Inr 900 | Some s \<Rightarrow> duration_seconds E s) (\<lambda>expires.
     bindE (case si_cors i of None \<Rightarrow> Inr [] | Some s \<Rightarrow> map_check (origin E ''CORS origins'') (comma_entries s)) (\<lambda>cors.
     bindE (case si_proxies i of None \<Rightarrow> Inr [] | Some s \<Rightarrow> parse_trusted_proxy_ips E s) (\<lambda>proxies.
     bindE (parse_json_field V (si_clients i)) (\<lambda>clients_json.
     bindE (decoded_field (se_clients V) clients_json) (\<lambda>client_models.
     bindE (map_check (validate_client E) client_models) (\<lambda>clients.
     bindE (requireE (clients \<noteq> []) (ValueError (lit ''Tuple should have at least 1 item''))) (\<lambda>_.
     bindE (read_oidc_clients V (si_oidc_clients i)) (\<lambda>oidc_clients.
     bindE (case si_providers i of None \<Rightarrow> Inr [lit ''google''] | Some s \<Rightarrow> parse_oauth_providers s) (\<lambda>providers.
     Inr \<lparr>st_node_env = si_node_env i, st_private_key = private_key, st_public_jwk = jwk, st_key_id = si_key_id i,
          st_refresh_secret = si_refresh_secret i, st_issuer = si_issuer i, st_audience = si_audience i,
          st_access_expires = expires, st_limits = si_limits i, st_cors = cors, st_proxies = proxies, st_clients = clients,
          st_oidc_enabled = si_oidc_enabled i, st_oidc_clients = oidc_clients, st_oidc_origin = si_oidc_origin i,
          st_frontend = si_frontend i, st_providers = providers, st_google = normalize_provider (si_google i),
          st_naver = normalize_provider (si_naver i), st_kakao = normalize_provider (si_kakao i),
          st_mail = normalize_mail (si_mail i)\<rparr>)))))))))))))))"

section \<open>The contract between fields\<close>

definition TEMIS_REDIRECT_URIS :: "pystr list" where
  "TEMIS_REDIRECT_URIS = [lit ''https://financenow.kr/auth/callback'', lit ''https://temis.me/auth/callback'',
     lit ''https://ti.temis.me/auth/callback'']"

definition TEMIS_ALLOWED_REDIRECT_URI_SETS :: "pystr list list" where
  "TEMIS_ALLOWED_REDIRECT_URI_SETS =
     [TEMIS_REDIRECT_URIS, TEMIS_REDIRECT_URIS @ [lit ''https://fantra.co.kr/auth/callback'']]"

definition LOCAL_ORIGINS :: "pystr list" where
  "LOCAL_ORIGINS = [lit ''http://localhost:3000'', lit ''http://127.0.0.1:3000'']"

definition PLACEHOLDER_REFRESH_SECRETS :: "pystr list" where
  "PLACEHOLDER_REFRESH_SECRETS = [lit ''replace-refresh-secret'', lit ''synthetic-fastapi-refresh-secret-only'']"

definition SYNTHETIC_ACCESS_KEY_ID :: pystr where
  "SYNTHETIC_ACCESS_KEY_ID = lit ''synthetic-fastapi-key-1''"

definition SYNTHETIC_ACCESS_KEY_FINGERPRINT :: pystr where
  "SYNTHETIC_ACCESS_KEY_FINGERPRINT = lit ''4a046ff5f5ecb9af1f59a0ffec42b83c9b41f7174aa5006ed04b196548c6e920''"

definition settings_provider :: "Settings \<Rightarrow> pystr \<Rightarrow> ProviderEntry" where
  "settings_provider s name = (if name = lit ''google'' then st_google s else if name = lit ''naver'' then st_naver s else st_kakao s)"

definition refused :: "bool \<Rightarrow> string \<Rightarrow> exn + unit" where
  "refused b message = (if b then Inl (ValueError (lit message)) else Inr ())"

definition check_urls :: "config_env \<Rightarrow> Settings \<Rightarrow> exn + unit" where
  "check_urls E s =
     bindE (absolute_http_url E ''JWT_ISSUER'' (st_issuer s)) (\<lambda>_.
     bindE (absolute_http_url E ''FRONTEND_REDIRECT_URL'' (st_frontend s)) (\<lambda>_.
     bindE (absolute_http_url E ''GOOGLE_REDIRECT_URI'' (ps_redirect_uri (st_google s))) (\<lambda>_.
     bindE (absolute_http_url E ''NAVER_REDIRECT_URI'' (ps_redirect_uri (st_naver s))) (\<lambda>_.
     bindE (absolute_http_url E ''KAKAO_REDIRECT_URI'' (ps_redirect_uri (st_kakao s))) (\<lambda>_. Inr ())))))"

text \<open>A number has fewer than 2048 bits exactly when it is below 2 to the 2047.\<close>

definition check_keys :: "Settings \<Rightarrow> exn + (nat \<times> nat)" where
  "check_keys s =
     bindE (rsa_numbers_from_pkcs8 (st_private_key s)) (\<lambda>(n, e).
     bindE (refused (n < 2 ^ 2047) ''JWT_ACCESS_PRIVATE_KEY must be at least 2048 bits'') (\<lambda>_.
     bindE (refused (jwk_kid (st_public_jwk s) \<noteq> st_key_id s) ''JWT_ACCESS_KEY_ID must match JWT_ACCESS_PUBLIC_JWK kid'') (\<lambda>_.
     bindE (jwk_integer (jwk_n (st_public_jwk s))) (\<lambda>public_n.
     bindE (jwk_integer (jwk_e (st_public_jwk s))) (\<lambda>public_e.
     bindE (refused (n \<noteq> public_n \<or> e \<noteq> public_e) ''JWT_ACCESS_PRIVATE_KEY must match JWT_ACCESS_PUBLIC_JWK'') (\<lambda>_.
     Inr (n, e)))))))"

definition check_first_client :: "ClientSettings \<Rightarrow> exn + unit" where
  "check_first_client c =
     bindE (refused (cs_client_id c \<noteq> lit ''temis'' \<or> cs_audience c \<noteq> lit ''temis''
         \<or> cs_redirect_uris c \<notin> set TEMIS_ALLOWED_REDIRECT_URI_SETS \<or> cs_origins c \<noteq> [lit ''https://financenow.kr'']
         \<or> cs_allow_localhost c \<noteq> None) ''AUTH_CLIENTS_JSON first client must be the required TEMIS policy'') (\<lambda>_.
     refused (dr_service_key (cs_default_role c) \<noteq> lit ''temis'' \<or> dr_name (cs_default_role c) \<notin> {lit ''pending'', lit ''user''})
       ''AUTH_CLIENTS_JSON first TEMIS defaultRole is invalid'')"

definition temis_user :: "ClientSettings \<Rightarrow> bool" where
  "temis_user c \<longleftrightarrow> cs_client_id c = lit ''temis'' \<and> dr_service_key (cs_default_role c) = lit ''temis''
     \<and> dr_name (cs_default_role c) = lit ''user''"

fun check_clients :: "pystr list \<Rightarrow> ClientSettings list \<Rightarrow> exn + unit" where
  "check_clients client_ids [] = Inr ()"
| "check_clients client_ids (c # cs) =
     bindE (refused (dr_name (cs_default_role c) \<noteq> lit ''pending'' \<and> \<not> temis_user c)
         ''AUTH_CLIENTS_JSON defaultRole must be least-privilege pending'') (\<lambda>_.
     bindE (requireE (cs_client_id c \<notin> set client_ids)
         (ValueError (lit ''AUTH_CLIENTS_JSON contains duplicate clientId: '' @ cs_client_id c))) (\<lambda>_.
     check_clients (cs_client_id c # client_ids) cs))"

definition check_oidc_origin :: "config_env \<Rightarrow> pystr \<Rightarrow> exn + unit" where
  "check_oidc_origin E v =
     (case urlsplit (ce_url E) v of
        None \<Rightarrow> Inl (ValueError (lit ''Invalid IPv6 URL''))
      | Some parsed \<Rightarrow>
          let message = ''OIDC_PUBLIC_ORIGIN must be an exact HTTPS origin'' in
          bindE (refused (list_ex (\<lambda>c. c \<le> 32 \<or> 127 \<le> c) v \<or> 92 \<in> set v \<or> url_scheme parsed \<noteq> lit ''https''
              \<or> url_hostname (ce_url E) parsed \<in> {None, Some []} \<or> url_has_userinfo parsed \<or> url_path parsed \<noteq> []
              \<or> 63 \<in> set v \<or> 35 \<in> set v) message) (\<lambda>_.
          bindE (origin_from_url E v) (\<lambda>canonical. refused (canonical \<noteq> v) message)))"

definition check_oidc :: "config_env \<Rightarrow> Settings \<Rightarrow> exn + unit" where
  "check_oidc E s =
     bindE (make_registry (st_oidc_clients s)) (\<lambda>_.
     let client_ids = map cs_client_id (st_clients s); audiences = st_audience s # map cs_audience (st_clients s) in
     bindE (refused (list_ex (\<lambda>c. ocp_client_id c \<in> set (client_ids @ audiences)) (st_oidc_clients s))
         ''OIDC client IDs must not overlap legacy client IDs or audiences'') (\<lambda>_.
     bindE (refused (st_node_env s \<noteq> Test \<and> \<not> https_only (ce_url E) (st_oidc_clients s))
         ''OIDC HTTP loopback redirects are allowed only in test mode'') (\<lambda>_.
     bindE (refused (st_oidc_enabled s \<and> (st_oidc_clients s = [] \<or> st_oidc_origin s \<in> {None, Some []}))
         ''OIDC requires clients and an explicit OIDC_PUBLIC_ORIGIN'') (\<lambda>_.
     case st_oidc_origin s of None \<Rightarrow> Inr () | Some v \<Rightarrow> check_oidc_origin E v))))"

definition check_callback :: "Settings \<Rightarrow> pystr \<Rightarrow> exn + unit" where
  "check_callback s provider =
     (case ps_oidc_redirect_uri (settings_provider s provider) of
        None \<Rightarrow> Inr ()
      | Some callback \<Rightarrow> refused
          (st_oidc_origin s = None
           \<or> Some callback \<noteq> map_option (\<lambda>v. v @ lit ''/oauth2/providers/'' @ provider @ lit ''/callback'') (st_oidc_origin s)
           \<or> provider \<notin> set (st_providers s)) ''OIDC provider callback must match its enabled public endpoint'')"

definition ascii_upper_text :: "pystr \<Rightarrow> pystr" where
  "ascii_upper_text s = map (\<lambda>c. if 97 \<le> c \<and> c \<le> 122 then c - 32 else c) s"

definition check_credentials :: "Settings \<Rightarrow> pystr \<Rightarrow> exn + unit" where
  "check_credentials s provider =
     (let p = settings_provider s provider in
      bindE (requireE (ps_client_id p \<notin> {None, Some []})
          (ValueError (ascii_upper_text provider @ lit ''_CLIENT_ID is required when OAuth is enabled''))) (\<lambda>_.
      requireE (ps_client_secret p \<notin> {None, Some []})
          (ValueError (ascii_upper_text provider @ lit ''_CLIENT_SECRET is required when OAuth is enabled''))))"

fun any_local :: "config_env \<Rightarrow> pystr list \<Rightarrow> exn + bool" where
  "any_local E [] = Inr False"
| "any_local E (v # vs) = bindE (is_local_url E v) (\<lambda>local. if local then Inr True else any_local E vs)"

definition check_local_client :: "config_env \<Rightarrow> ClientSettings \<Rightarrow> exn + unit" where
  "check_local_client E c =
     bindE (any_local E (cs_redirect_uris c @ cs_origins c)) (\<lambda>has_localhost.
     refused (has_localhost \<and> cs_allow_localhost c \<noteq> Some True) ''AUTH_CLIENTS_JSON localhost clients are forbidden in production'')"

definition given :: "pystr option \<Rightarrow> bool" where
  "given v \<longleftrightarrow> v \<notin> {None, Some []}"

definition check_production :: "settings_env \<Rightarrow> nat \<times> nat \<Rightarrow> Settings \<Rightarrow> exn + unit" where
  "check_production V key s =
     (let m = st_mail s in
      bindE (map_check (check_local_client (se_config V)) (st_clients s)) (\<lambda>_.
      bindE (refused (ms_provider m = DevMail) ''MAIL_PROVIDER must not be dev in production'') (\<lambda>_.
      bindE (refused (st_refresh_secret s \<in> set PLACEHOLDER_REFRESH_SECRETS)
          ''JWT_REFRESH_SECRET must not be a placeholder in production'') (\<lambda>_.
      bindE (if st_key_id s = SYNTHETIC_ACCESS_KEY_ID then Inr SYNTHETIC_ACCESS_KEY_FINGERPRINT
             else rsa_public_key_fingerprint (se_sha256 V) (fst key) (snd key)) (\<lambda>fingerprint.
      bindE (refused (fingerprint = SYNTHETIC_ACCESS_KEY_FINGERPRINT)
          ''synthetic JWT access signing credentials are forbidden in production'') (\<lambda>_.
      bindE (refused (ms_provider m = SmtpMail \<and> \<not> given (ms_smtp_host m))
          ''SMTP_HOST is required when MAIL_PROVIDER=smtp in production'') (\<lambda>_.
      bindE (refused (ms_provider m = ResendMail \<and> \<not> (given (ms_resend_api_key m) \<or> given (ms_resend_admin_key m)))
          ''RESEND_API_KEY or RESEND_ADMIN_KEY is required for Resend'') (\<lambda>_.
      refused (given (ms_smtp_username m) \<noteq> given (ms_smtp_password m))
        ''SMTP_USERNAME and SMTP_PASSWORD must be provided together''))))))))"

definition cross_field_contract :: "settings_env \<Rightarrow> Settings \<Rightarrow> exn + Settings" where
  "cross_field_contract V s = (let E = se_config V in
     bindE (check_urls E s) (\<lambda>_.
     bindE (check_keys s) (\<lambda>key.
     bindE (check_first_client (hd (st_clients s))) (\<lambda>_.
     bindE (check_clients [] (st_clients s)) (\<lambda>_.
     bindE (check_oidc E s) (\<lambda>_.
     bindE (map_check (check_callback s) PROVIDERS) (\<lambda>_.
     bindE (map_check (check_credentials s) (st_providers s)) (\<lambda>_.
     bindE (origin_from_url E (st_frontend s)) (\<lambda>frontend_origin.
     let s2 = s\<lparr>st_cors := first_only (st_cors s @ [frontend_origin] @ (if st_node_env s = Production then [] else LOCAL_ORIGINS))\<rparr> in
     if st_node_env s \<noteq> Production then Inr s2
     else bindE (check_production V key s) (\<lambda>_. Inr s2))))))))))"

definition load_settings :: "settings_env \<Rightarrow> SettingsInput \<Rightarrow> exn + Settings" where
  "load_settings V i = bindE (read_fields V i) (cross_field_contract V)"

section \<open>What the checks establish\<close>

lemma refused_Inr: "refused b m = Inr u \<longleftrightarrow> \<not> b"
  by (simp add: refused_def)

lemma map_check_Inr: "map_check f xs = Inr ys \<Longrightarrow> length ys = length xs \<and> (\<forall>i < length xs. f (xs ! i) = Inr (ys ! i))"
proof (induction xs arbitrary: ys)
  case (Cons x xs)
  then obtain y zs where "f x = Inr y" "map_check f xs = Inr zs" "ys = y # zs" by (auto simp: bindE_Inr_iff)
  with Cons.IH show ?case by (auto simp: nth_Cons split: nat.splits)
qed simp

lemma map_check_members:
  assumes "map_check f xs = Inr ys"
  shows "\<And>x. x \<in> set xs \<Longrightarrow> \<exists>y. f x = Inr y" "\<And>y. y \<in> set ys \<Longrightarrow> \<exists>x \<in> set xs. f x = Inr y"
  using map_check_Inr [OF assms] by (metis in_set_conv_nth)+

lemma set_first_only: "set (first_only xs) = set xs"
  by (induction xs) auto

lemma origin_exact: "origin E label v = Inr c \<Longrightarrow> c = v"
  by (auto simp: origin_def bindE_Inr_iff split: if_splits)

lemma check_clients_Inr: "check_clients ids cs = Inr () \<Longrightarrow>
    distinct (map cs_client_id cs) \<and> set ids \<inter> set (map cs_client_id cs) = {}
    \<and> (\<forall>c \<in> set cs. dr_name (cs_default_role c) = lit ''pending'' \<or> temis_user c)"
  by (induction ids cs rule: check_clients.induct) (auto simp: bindE_Inr_iff refused_Inr requireE_def split: if_splits)

lemma any_local_False: "any_local E vs = Inr False \<Longrightarrow> v \<in> set vs \<Longrightarrow> is_local_url E v = Inr False"
  by (induction vs) (auto simp: bindE_Inr_iff split: if_splits)

lemma check_local_client_Inr:
  assumes "check_local_client E c = Inr u" "v \<in> set (cs_redirect_uris c @ cs_origins c)" "is_local_url E v = Inr True"
  shows "cs_allow_localhost c = Some True"
  using assms any_local_False [of E "cs_redirect_uris c @ cs_origins c" v]
  by (auto simp: check_local_client_def bindE_Inr_iff refused_Inr)

lemma check_keys_Inr: "check_keys s = Inr (n, e) \<Longrightarrow>
    rsa_numbers_from_pkcs8 (st_private_key s) = Inr (n, e) \<and> 2 ^ 2047 \<le> n \<and> jwk_kid (st_public_jwk s) = st_key_id s
    \<and> jwk_integer (jwk_n (st_public_jwk s)) = Inr n \<and> jwk_integer (jwk_e (st_public_jwk s)) = Inr e"
  by (auto simp: check_keys_def bindE_Inr_iff refused_Inr simp del: power_numeral)

lemma check_oidc_Inr: "check_oidc E s = Inr u \<Longrightarrow>
    distinct (map ocp_client_id (st_oidc_clients s)) \<and> (st_node_env s = Test \<or> https_only (ce_url E) (st_oidc_clients s))
    \<and> (\<forall>o1 \<in> set (st_oidc_clients s). ocp_client_id o1 \<noteq> st_audience s
         \<and> (\<forall>c \<in> set (st_clients s). ocp_client_id o1 \<noteq> cs_client_id c \<and> ocp_client_id o1 \<noteq> cs_audience c))
    \<and> (st_oidc_enabled s \<longrightarrow> st_oidc_clients s \<noteq> [] \<and> (\<exists>v. st_oidc_origin s = Some v \<and> origin_from_url E v = Inr v))"
  by (auto simp: check_oidc_def check_oidc_origin_def make_registry_def bindE_Inr_iff refused_Inr Let_def list_ex_iff
      split: if_splits option.splits)

lemma check_credentials_Inr: "check_credentials s p = Inr u \<Longrightarrow>
    given (ps_client_id (settings_provider s p)) \<and> given (ps_client_secret (settings_provider s p))"
  by (auto simp: check_credentials_def bindE_Inr_iff requireE_def Let_def given_def split: if_splits)

lemma check_production_Inr: "check_production V key s = Inr u \<Longrightarrow>
    (\<forall>c \<in> set (st_clients s). \<exists>u. check_local_client (se_config V) c = Inr u) \<and> ms_provider (st_mail s) \<noteq> DevMail
    \<and> st_refresh_secret s \<notin> set PLACEHOLDER_REFRESH_SECRETS \<and> st_key_id s \<noteq> SYNTHETIC_ACCESS_KEY_ID
    \<and> rsa_public_key_fingerprint (se_sha256 V) (fst key) (snd key) \<noteq> Inr SYNTHETIC_ACCESS_KEY_FINGERPRINT"
  by (auto simp: check_production_def bindE_Inr_iff refused_Inr Let_def simp del: bindE_simps dest: map_check_members(1) split: if_splits)

lemma bindE_Inr_E:
  assumes "bindE m f = Inr y"
  obtains x where "m = Inr x" "f x = Inr y"
  using assms by (auto simp: bindE_Inr_iff)

lemma read_fields_Inr:
  assumes "read_fields V i = Inr s"
  shows "st_node_env s = si_node_env i \<and> 16 \<le> length (st_refresh_secret s)
    \<and> (\<forall>v \<in> set (st_cors s). origin (se_config V) ''CORS origins'' v = Inr v)"
proof -
  have exact: "\<forall>v \<in> set ys. origin E label v = Inr v" if "map_check (origin E label) xs = Inr ys" for E label xs ys
    using map_check_members(2) [OF that] origin_exact by metis
  show ?thesis
    using assms unfolding read_fields_def Let_def
    by (elim bindE_Inr_E) (auto simp: requireE_def plain_fields_ok_def exact split: if_splits option.splits)
qed

text \<open>C38. Production settings. Settings that are accepted for production sign with an RSA key of at least 2048 bits whose
  numbers are those of the published JWK, under its key id, and neither the key nor the refresh secret is one of the
  synthetic ones. Registered clients have different ids, give new users no role but \<^verbatim>\<open>pending\<close>, or \<^verbatim>\<open>temis:user\<close> for
  TEMIS itself, and only a client marked for it has a local address. Every CORS origin is exact or the origin of the
  front end. OIDC clients redirect to HTTPS only and share no id with another client or audience, and every enabled
  provider has its credentials.\<close>

theorem production_settings_safe:
  assumes "load_settings V i = Inr s" "si_node_env i = Production"
  shows "let E = se_config V in
    (\<exists>n e. rsa_numbers_from_pkcs8 (st_private_key s) = Inr (n, e) \<and> 2 ^ 2047 \<le> n
       \<and> jwk_integer (jwk_n (st_public_jwk s)) = Inr n \<and> jwk_integer (jwk_e (st_public_jwk s)) = Inr e
       \<and> rsa_public_key_fingerprint (se_sha256 V) n e \<noteq> Inr SYNTHETIC_ACCESS_KEY_FINGERPRINT)
    \<and> jwk_kid (st_public_jwk s) = st_key_id s
    \<and> 16 \<le> length (st_refresh_secret s) \<and> st_refresh_secret s \<notin> set PLACEHOLDER_REFRESH_SECRETS
    \<and> distinct (map cs_client_id (st_clients s))
    \<and> (\<forall>c \<in> set (st_clients s). dr_name (cs_default_role c) = lit ''pending'' \<or> temis_user c)
    \<and> (\<forall>c \<in> set (st_clients s). \<forall>v \<in> set (cs_redirect_uris c @ cs_origins c).
         is_local_url E v = Inr True \<longrightarrow> cs_allow_localhost c = Some True)
    \<and> (\<forall>v \<in> set (st_cors s). origin E ''CORS origins'' v = Inr v \<or> origin_from_url E (st_frontend s) = Inr v)
    \<and> distinct (map ocp_client_id (st_oidc_clients s)) \<and> https_only (ce_url E) (st_oidc_clients s)
    \<and> (\<forall>o1 \<in> set (st_oidc_clients s). ocp_client_id o1 \<noteq> st_audience s
         \<and> (\<forall>c \<in> set (st_clients s). ocp_client_id o1 \<noteq> cs_client_id c \<and> ocp_client_id o1 \<noteq> cs_audience c))
    \<and> (\<forall>p \<in> set (st_providers s). given (ps_client_id (settings_provider s p)) \<and> given (ps_client_secret (settings_provider s p)))
    \<and> ms_provider (st_mail s) \<noteq> DevMail"
proof -
  let ?E = "se_config V"
  from assms(1) obtain s0 where fields: "read_fields V i = Inr s0" and cross: "cross_field_contract V s0 = Inr s"
    unfolding load_settings_def by (rule bindE_Inr_E)
  from read_fields_Inr [OF fields] assms(2) have env: "st_node_env s0 = Production" and secret: "16 \<le> length (st_refresh_secret s0)"
    and cors: "\<forall>v \<in> set (st_cors s0). origin ?E ''CORS origins'' v = Inr v" by simp_all
  from cross obtain key frontend callbacks creds where keys: "check_keys s0 = Inr key"
    and clients: "check_clients [] (st_clients s0) = Inr ()" and oidc: "check_oidc ?E s0 = Inr ()"
    and creds: "map_check (check_credentials s0) (st_providers s0) = Inr creds"
    and frontend: "origin_from_url ?E (st_frontend s0) = Inr frontend" and production: "check_production V key s0 = Inr ()"
    and s: "s = s0\<lparr>st_cors := first_only (st_cors s0 @ [frontend])\<rparr>"
    unfolding cross_field_contract_def Let_def by (elim bindE_Inr_E) (auto simp: env elim: bindE_Inr_E)
  obtain n e where key: "key = (n, e)" by (cases key)
  note made = check_keys_Inr [OF keys [unfolded key]] check_clients_Inr [OF clients] check_oidc_Inr [OF oidc]
    check_production_Inr [OF production [unfolded key]]
  have same: "settings_provider s p = settings_provider s0 p" for p by (simp add: s settings_provider_def)
  have "\<forall>p \<in> set (st_providers s). given (ps_client_id (settings_provider s p)) \<and> given (ps_client_secret (settings_provider s p))"
    unfolding same using map_check_members(1) [OF creds] check_credentials_Inr by (simp add: s)
  moreover have "\<forall>v \<in> set (st_cors s). origin ?E ''CORS origins'' v = Inr v \<or> origin_from_url ?E (st_frontend s) = Inr v"
    using cors frontend by (simp add: s set_first_only)
  moreover have "\<forall>c \<in> set (st_clients s). \<forall>v \<in> set (cs_redirect_uris c @ cs_origins c).
      is_local_url ?E v = Inr True \<longrightarrow> cs_allow_localhost c = Some True"
    using made(4) check_local_client_Inr [of ?E] by (simp add: s)
  moreover have "\<exists>n e. rsa_numbers_from_pkcs8 (st_private_key s) = Inr (n, e) \<and> 2 ^ 2047 \<le> n
       \<and> jwk_integer (jwk_n (st_public_jwk s)) = Inr n \<and> jwk_integer (jwk_e (st_public_jwk s)) = Inr e
       \<and> rsa_public_key_fingerprint (se_sha256 V) n e \<noteq> Inr SYNTHETIC_ACCESS_KEY_FINGERPRINT"
    by (rule exI [of _ n], rule exI [of _ e]) (use made(1,4) in \<open>simp add: s del: power_numeral\<close>)
  ultimately show ?thesis
    using made(2,3) made(1,4) secret env unfolding Let_def by (simp add: s del: power_numeral)
qed

text \<open>Settings that are accepted: a key of 2048 bits, the TEMIS client and mail over an HTTP provider.\<close>

definition sample_modulus :: nat where
  "sample_modulus = 2 ^ 2047 + 1"

definition sample_pem :: pystr where
  "sample_pem = PEM_HEADER @ (10 # b64encode (pkcs8_der sample_modulus 65537 [])) @ PEM_FOOTER @ [10]"

definition sample_jwk :: AccessPublicJwk where
  "sample_jwk = \<lparr>jwk_n = base64url (be_digits sample_modulus), jwk_e = base64url (be_digits 65537), jwk_kid = lit ''k1''\<rparr>"

definition temis_client :: ClientSettings where
  "temis_client = \<lparr>cs_client_id = lit ''temis'', cs_audience = lit ''temis'', cs_redirect_uris = TEMIS_REDIRECT_URIS,
     cs_origins = [lit ''https://financenow.kr''], cs_allow_localhost = None,
     cs_default_role = \<lparr>dr_service_key = lit ''temis'', dr_name = lit ''user''\<rparr>\<rparr>"

definition sample_settings_env :: settings_env where
  "sample_settings_env = \<lparr>se_config = plain_env, se_float = FiniteFloat, se_sha256 = (\<lambda>_. []), se_extract = (\<lambda>_. None),
     se_jwk = (\<lambda>_. Some sample_jwk), se_clients = (\<lambda>_. Some [temis_client]), se_oidc_clients = (\<lambda>_. None)\<rparr>"

definition sample_provider :: ProviderEntry where
  "sample_provider = \<lparr>ps_client_id = None, ps_client_secret = None, ps_redirect_uri = lit ''https://s.co/cb'', ps_oidc_redirect_uri = None\<rparr>"

definition sample_mail :: MailSettings where
  "sample_mail = \<lparr>ms_provider = ResendMail, ms_reply_to = None, ms_resend_api_key = Some (lit ''k''), ms_resend_admin_key = None,
     ms_smtp_host = None, ms_smtp_username = None, ms_smtp_password = None, ms_smtp_port = 587\<rparr>"

definition sample_limits :: LimitSettings where
  "sample_limits = \<lparr>ls_port = 4001, ls_refresh_days = 30, ls_password_min_length = 8, ls_rate_limit_window_seconds = 60,
     ls_rate_limit_max_requests = 20\<rparr>"

definition sample_input :: SettingsInput where
  "sample_input = \<lparr>si_node_env = Production, si_required_texts = [], si_private_key = sample_pem, si_public_jwk = lit ''{}'',
     si_key_id = lit ''k1'', si_refresh_secret = lit ''0123456789abcdef'', si_issuer = lit ''https://s.co'', si_audience = lit ''sso'',
     si_access_expires = None, si_limits = sample_limits, si_cors = None, si_proxies = None, si_clients = lit ''{}'',
     si_oidc_enabled = False, si_oidc_clients = None, si_oidc_origin = None, si_frontend = lit ''https://f.co/app'',
     si_providers = Some [], si_google = sample_provider, si_naver = sample_provider, si_kakao = sample_provider,
     si_mail = sample_mail\<rparr>"

lemma sample_key:
  "unescape_newlines sample_pem = sample_pem" "rsa_numbers_from_pkcs8 sample_pem = Inr (sample_modulus, 65537)"
  "jwk_integer (jwk_n sample_jwk) = Inr sample_modulus" "jwk_integer (jwk_e sample_jwk) = Inr 65537"
proof -
  have small: "sample_modulus < 256 ^ 256" "(65537 :: nat) < 256 ^ 256" by (simp_all add: sample_modulus_def)
  note size = length_pkcs8_der [OF small]
  let ?text = "b64encode (pkcs8_der sample_modulus 65537 [])"
  have "is_bytes (pkcs8_der sample_modulus 65537 [])" by (rule pkcs8_bytes [OF _ size]) simp
  then have "\<forall>c \<in> set ?text. \<not> py_isspace c" using b64encode_alphabet by blast
  then have "filter (\<lambda>c. \<not> py_isspace c) (10 # ?text) = ?text" by (simp add: py_isspace_def)
  from pem_read_back [OF _ size _ _ this, of "[10]"]
  show "unescape_newlines sample_pem = sample_pem" "rsa_numbers_from_pkcs8 sample_pem = Inr (sample_modulus, 65537)"
    "jwk_integer (jwk_n sample_jwk) = Inr sample_modulus" "jwk_integer (jwk_e sample_jwk) = Inr 65537"
    by (simp_all add: sample_pem_def sample_jwk_def Let_def sample_modulus_def py_isspace_def del: power_numeral)
qed

lemma sample_field_values:
  "json_loads FiniteFloat (lit ''{}'') = Inr (PDict [])"
  "validate_client plain_env temis_client = Inr temis_client"
  "parse_oauth_providers [] = Inr []"
  "limits_ok sample_limits"
  by code_simp+

lemma sample_checks:
  "absolute_http_url plain_env l (lit ''https://s.co'')
     = Inr \<lparr>url_scheme = lit ''https'', url_netloc = lit ''s.co'', url_path = [], url_query = [], url_fragment = []\<rparr>"
  "absolute_http_url plain_env l (lit ''https://s.co/cb'')
     = Inr \<lparr>url_scheme = lit ''https'', url_netloc = lit ''s.co'', url_path = lit ''/cb'', url_query = [], url_fragment = []\<rparr>"
  "absolute_http_url plain_env l (lit ''https://f.co/app'')
     = Inr \<lparr>url_scheme = lit ''https'', url_netloc = lit ''f.co'', url_path = lit ''/app'', url_query = [], url_fragment = []\<rparr>"
  "check_first_client temis_client = Inr ()" "check_clients [] [temis_client] = Inr ()"
  "origin_from_url plain_env (lit ''https://f.co/app'') = Inr (lit ''https://f.co'')"
  "check_local_client plain_env temis_client = Inr ()"
  by code_simp+

definition sample_settings :: Settings where
  "sample_settings = \<lparr>st_node_env = Production, st_private_key = sample_pem, st_public_jwk = sample_jwk, st_key_id = lit ''k1'',
     st_refresh_secret = lit ''0123456789abcdef'', st_issuer = lit ''https://s.co'', st_audience = lit ''sso'',
     st_access_expires = 900, st_limits = sample_limits, st_cors = [], st_proxies = [], st_clients = [temis_client],
     st_oidc_enabled = False, st_oidc_clients = [], st_oidc_origin = None, st_frontend = lit ''https://f.co/app'',
     st_providers = [], st_google = sample_provider, st_naver = sample_provider, st_kakao = sample_provider,
     st_mail = sample_mail\<rparr>"

lemma sample_fields: "read_fields sample_settings_env sample_input = Inr sample_settings"
proof -
  have pem: "sample_pem \<noteq> []" by (simp add: sample_pem_def PEM_HEADER_def lit_def)
  have plain: "plain_fields_ok sample_input"
    by (simp add: plain_fields_ok_def sample_input_def sample_field_values(4) pem sample_mail_def sample_provider_def lit_def)
  have jwk: "validate_jwk sample_jwk = Inr sample_jwk" by (simp add: validate_jwk_def sample_key)
  have key: "read_private_key sample_pem = Inr sample_pem" by (simp add: read_private_key_def sample_key Let_def)
  have env: "se_config sample_settings_env = plain_env" "se_jwk sample_settings_env v = Some sample_jwk"
    "se_clients sample_settings_env v = Some [temis_client]" "se_float sample_settings_env = FiniteFloat" for v
    by (simp_all add: sample_settings_env_def)
  have normal: "normalize_provider sample_provider = sample_provider" "normalize_mail sample_mail = sample_mail"
    by (simp_all add: normalize_provider_def normalize_mail_def sample_provider_def sample_mail_def empty_as_none_def lit_def)
  show ?thesis
    unfolding read_fields_def Let_def requireE_def if_P [OF plain]
    by (simp add: sample_input_def key jwk env parse_json_field_def sample_field_values decoded_field_def read_oidc_clients_def
        normal sample_settings_def)
qed

lemma sample_contract: "cross_field_contract sample_settings_env sample_settings
    = Inr (sample_settings\<lparr>st_cors := [lit ''https://f.co'']\<rparr>)"
proof -
  have env: "se_config sample_settings_env = plain_env" "se_sha256 sample_settings_env = (\<lambda>_. [])"
    by (simp_all add: sample_settings_env_def)
  have large: "\<not> sample_modulus < 2 ^ 2047" by (simp add: sample_modulus_def del: power_numeral)
  have urls: "check_urls plain_env sample_settings = Inr ()"
    by (simp add: check_urls_def sample_settings_def sample_checks sample_provider_def)
  have keys: "check_keys sample_settings = Inr (sample_modulus, 65537)"
    by (simp add: check_keys_def sample_settings_def sample_key refused_def large sample_jwk_def [THEN arg_cong, of jwk_kid]
        del: power_numeral)
  have oidc: "check_oidc plain_env sample_settings = Inr ()"
    by (simp add: check_oidc_def sample_settings_def make_registry_def refused_def https_only_def Let_def)
  have callbacks: "map_check (check_callback sample_settings) PROVIDERS = Inr [(), (), ()]"
    by (simp add: PROVIDERS_def check_callback_def settings_provider_def sample_settings_def sample_provider_def)
  have digits: "length (be_digits sample_modulus) \<le> 256" "length (be_digits 65537) \<le> 256"
    by (rule be_digits_length; simp add: sample_modulus_def)+
  have production: "check_production sample_settings_env (sample_modulus, 65537) sample_settings = Inr ()"
    using digits
    by (simp add: check_production_def sample_settings_def env sample_checks sample_mail_def refused_def Let_def
        rsa_public_key_fingerprint_def rsa_fingerprint_payload_def hexdigest_def given_def PLACEHOLDER_REFRESH_SECRETS_def
        SYNTHETIC_ACCESS_KEY_ID_def SYNTHETIC_ACCESS_KEY_FINGERPRINT_def lit_def)
  show ?thesis
    unfolding cross_field_contract_def Let_def env urls keys oidc callbacks bindE_simps production
    by (simp add: sample_settings_def sample_checks del: check_clients.simps)
qed

lemma production_settings_safe_witness:
  "\<exists>s. load_settings sample_settings_env sample_input = Inr s \<and> st_cors s = [lit ''https://f.co'']
     \<and> st_refresh_secret s \<notin> set PLACEHOLDER_REFRESH_SECRETS"
proof -
  have run: "load_settings sample_settings_env sample_input = Inr (sample_settings\<lparr>st_cors := [lit ''https://f.co'']\<rparr>)"
    by (simp add: load_settings_def sample_fields sample_contract)
  have "si_node_env sample_input = Production" by (simp add: sample_input_def)
  from production_settings_safe [OF run this] run show ?thesis
    unfolding Let_def by (intro exI [of _ "sample_settings\<lparr>st_cors := [lit ''https://f.co'']\<rparr>"]) simp
qed

end
