(* ===== verification/Spec2Isabelle.thy ===== *)
theory Spec2Isabelle
  imports Service_World Domain_Admin Auth_State Token_Codec Handoff_Redemption Db_Steps Admin_Service Login_Properties Suspension Rate_Limit Oidc_Redirects Oidc_Redemption Oidc_Flows Oidc_Http_Flow Http_Middleware Route_Answers Js_Dates Admin_Answers Service_App Ops_Merge Config_Settings
begin

text \<open>
  WiseAcct SSO: the authorisation server under \<^verbatim>\<open>src/fastapi-auth-server/src/wiseacct_sso\<close>. Paths below are relative
  to it. It keeps accounts, roles, sessions and an audit log in PostgreSQL and short-lived one-time records in Redis;
  it issues JWTs to relying services, signs users in by password or through Google, Naver and Kakao, serves
  administrators, and is an OpenID provider for a registry of clients.

  \<^bold>\<open>How the parts work together.\<close> A request enters \<open>Service_App\<close> (\<^verbatim>\<open>main.py\<close>): the middlewares of
  \<open>Http_Body\<close> and \<open>Http_Middleware\<close> (\<^verbatim>\<open>api/middleware.py\<close>) receive its body, count it against the rate limit and
  rewrite its path; \<open>Route_Inputs\<close>, \<open>Auth_Routes\<close>, \<open>Oauth_Routes\<close>, \<open>Admin_Inputs\<close>, \<open>Js_Dates\<close>, \<open>Admin_Routes\<close> and
  \<open>System_Routes\<close> (\<^verbatim>\<open>api/routes\<close>, \<^verbatim>\<open>api/staticfiles.py\<close>, \<^verbatim>\<open>api/errors.py\<close>) read its input, call a service and write the
  answer. Requests below \<^verbatim>\<open>/oauth2\<close> go to \<open>Oidc_Http\<close> (\<^verbatim>\<open>api/oidc\<close>, with the parsers in \<open>Oidc_Parsing\<close>) instead. The
  services are \<open>Auth_Service\<close> (\<^verbatim>\<open>application/auth.py\<close>), \<open>Admin_Service\<close> (\<^verbatim>\<open>application/admin.py\<close>) and
  \<open>Oidc_Service\<close> (\<^verbatim>\<open>application/oidc.py\<close>). They share one state, the record \<open>world\<close> of \<open>Service_World\<close>: the database,
  Redis, the mails sent, and counters into the streams of clock readings, identifiers and random bytes.

  \<^bold>\<open>State.\<close> \<open>Schema\<close> has one record per table of \<^verbatim>\<open>persistence/models.py\<close> with its keys, references and the
  predicate \<open>db_ok\<close>; \<open>Statements\<close> the SQL statements with unique and foreign key violations and the cascades;
  \<open>Store_Identity\<close>, \<open>Store_Password\<close> and \<open>Store_Admin\<close> the operations of \<^verbatim>\<open>persistence/stores.py\<close> and
  \<^verbatim>\<open>persistence/oidc.py\<close>; \<open>Transactions\<close> the retrying transaction of \<^verbatim>\<open>persistence/database.py\<close>. \<open>Redis_State\<close> is
  \<^verbatim>\<open>infrastructure/redis.py\<close> with its three scripts over keys that expire, and a fate for every command (answered,
  lost before or after it took effect). On it stand \<open>Auth_State\<close> (\<^verbatim>\<open>infrastructure/auth_state.py\<close>), \<open>Oidc_State\<close>
  (\<^verbatim>\<open>infrastructure/oidc_state.py\<close>, \<^verbatim>\<open>oidc_tokens.py\<close>) and, shared by both, the interfaces of \<open>One_Time_Records\<close>.
  A database operation is a function from a database to an error or a result and a database; a service operation
  also returns the world after an error, since what committed before stays. A timestamp is its milliseconds since 1970.

  \<^bold>\<open>Rules.\<close> \<open>Domain_Auth\<close>, \<open>Domain_OAuth\<close>, \<open>Domain_Admin\<close> and \<open>Domain_Oidc\<close> are \<^verbatim>\<open>domain\<close>; \<open>Token_Codec\<close> the JWT
  codec of \<^verbatim>\<open>infrastructure/security.py\<close>; \<open>Oidc_Config\<close> the client registry of \<^verbatim>\<open>oidc_config.py\<close>; \<open>Oauth_Providers\<close>
  the provider settings of \<^verbatim>\<open>infrastructure/oauth_providers.py\<close>. \<open>Config_Urls\<close> (canonical addresses and hosts),
  \<open>Config_Keys\<close> (PEM, DER and JWK) and \<open>Config_Settings\<close> (fields and the contract between them) are \<^verbatim>\<open>config.py\<close>, where
  \<open>load_settings\<close> takes the values of the variables to the settings or the first error. The libraries the code leans on are written out in
  \<open>Py_Text\<close>, \<open>Py_Value\<close>, \<open>Py_Encode\<close>, \<open>Py_Json\<close> and \<open>Py_Url\<close> (text and its encodings, JSON, \<^verbatim>\<open>urllib.parse\<close>); a Python
  string is a list of code points. \<open>Wise_Prelude\<close> has the exceptions and the sequencing operators with their rules.

  \<^bold>\<open>What the lemmas show.\<close>
  \<^item> Database: every operation keeps the constraints (\<open>Db_Steps\<close>), a transaction is all or nothing under interference
    and retries at most as often as configured (\<open>Transactions\<close>), a refresh token is rotated once
    (\<open>Refresh_Sessions\<close>), confirmation and reset tokens are used once and OAuth profiles reach only the account that
    owns the verified address (\<open>Account_Identity\<close>).
  \<^item> Redis: state tokens, handoffs, transactions and codes are redeemed at most once in every interleaving, by whom
    they were issued for (\<open>Handoff_Redemption\<close>, \<open>Oidc_Redemption\<close>), and a window of the rate limit lets at most the
    configured number through (\<open>Rate_Limit\<close>).
  \<^item> Services: a login steps the lockout machine it is meant to implement, refusals look alike (\<open>Login_Properties\<close>), a
    suspended account gets nothing any more from any operation (\<open>Suspension\<close>), administrator operations refine their
    abstract transitions (\<open>Admin_Service\<close>), an OIDC login and exchange are sound and complete (\<open>Oidc_Flows\<close>), and the
    redirect carries what it should (\<open>Oidc_Redirects\<close>, \<open>Oidc_Properties\<close>).
  \<^item> HTTP: the token endpoint and the login page of OIDC (\<open>Oidc_Http_Flow\<close>), caching (\<open>Http_Middleware\<close>), what the
    answers of the public routes tell (\<open>Route_Answers\<close>), the guard, the self-protection and the pages of the
    administration routes (\<open>Admin_Answers\<close>), dates (\<open>Js_Dates\<close>) and the reach of the rate limit (\<open>Service_App\<close>).
  \<^item> Maintenance: the commands of \<^verbatim>\<open>ops\<close> over the same tables. The cleanups remove nothing that is still usable
    (\<open>Ops_Cleanup\<close>), the first administrator and the default roles change only whom they should (\<open>Ops_Accounts\<close>), and
    merging split identities moves a password without losing any (\<open>Ops_Merge\<close>).
  \<^item> Settings: what production accepts is safe and consistent (\<open>Config_Settings\<close>), a key is read back from its PEM and
    JWK forms (\<open>Config_Keys\<close>), IPv4 hosts have one canonical form and paths no dot segments (\<open>Config_Urls\<close>).

  \<^bold>\<open>Bounds and fuel.\<close> The recursive functions terminate by structure or by a measure; the JSON reader gets as fuel
  the length of its text plus one, and each of its calls consumes a character, so it never runs out. Reading a body
  is a recursion over the finite list of messages the server delivers, and the theorem on it says what comes back for
  every list. Integers of a database column are checked against its width where the code can reach it; Python's own
  integers are unbounded. Floats occur in \<^verbatim>\<open>_coerce_js_integer\<close> only, as exact rationals rounded to 53 digits, and in
  quality values, as an argument.

  \<^bold>\<open>Arguments of the model.\<close> What is not under \<^verbatim>\<open>src\<close> is a parameter: SHA-256, Argon2 verification, JWT signing and
  checking, HMAC, the tables of Unicode (lower case, NFC, NFKC, alphanumeric, decimal digits), \<^verbatim>\<open>lower\<close> of the database, the
  answers of the identity providers, zlib and the rarer codecs, punycode, \<^verbatim>\<open>ipaddress\<close>, pydantic's decoding of a body and
  of the JSON in a setting, Starlette's matching of paths, its files and its cookies, the local time zone and the
  parser of mail dates. Hypotheses on them are those of their documentation and appear in the theorems that need them.

  \<^bold>\<open>Not modelled.\<close> Start-up and shutdown of the resources, log output, the delivery of mail, pydantic's
  conversion of a single setting to a number, flag or literal, connection pools and isolation levels other than the
  serial order of committed transactions, the terminal output of the commands, and the repository's qualification and
  contract tooling, which drives deployed servers and holds no logic of the service.
\<close>

end
